(* ===== verification/Prelude.thy ===== *)
theory Prelude
  imports Main "HOL-Library.Word" "HOL-Library.Sublist" "HOL-Library.List_Lexorder" "HOL-Library.Char_ord"
begin

text \<open>
  Shared vocabulary of the development.  A Rust \<open>Result<A, E>\<close> is a value of \<open>'e + 'a\<close>
  (\<open>Inl\<close> is \<open>Err\<close>), the \<open>?\<close> operator is \<open>res_bind\<close>, and \<open>map_err\<close> is \<open>res_map_err\<close>.
  A method on \<open>&mut self\<close> is a function from the state to a pair of its result and the
  state it leaves behind, also when the result is an error, so that "an error leaves the
  aggregate unchanged" is a theorem and not a convention.  Unsigned machine integers
  are words of their width, and \<open>checked_add\<close> is Rust's.  The theory ends with the
  locales of the contracts that several components share: a state machine with an
  invariant, an atomic one (errors change nothing), a versioned one (each successful
  command is one version, a refused one is none), and a simulation between two machines.
\<close>

named_theorems ok_iff \<open>when a step of a method succeeds, and with what\<close>

type_synonym u16 = "16 word"
type_synonym u32 = "32 word"
type_synonym u64 = "64 word"

section \<open>Results\<close>

definition res_bind :: "'e + 'a \<Rightarrow> ('a \<Rightarrow> 'e + 'b) \<Rightarrow> 'e + 'b" where
  "res_bind m f = (case m of Inl e \<Rightarrow> Inl e | Inr a \<Rightarrow> f a)"

definition res_map_err :: "('e \<Rightarrow> 'f) \<Rightarrow> 'e + 'a \<Rightarrow> 'f + 'a" where
  "res_map_err g m = (case m of Inl e \<Rightarrow> Inl (g e) | Inr a \<Rightarrow> Inr a)"

definition res_ok_or :: "'e \<Rightarrow> 'a option \<Rightarrow> 'e + 'a" where
  "res_ok_or e m = (case m of None \<Rightarrow> Inl e | Some a \<Rightarrow> Inr a)"

definition res_guard :: "bool \<Rightarrow> 'e \<Rightarrow> 'e + unit" where
  "res_guard ok e = (if ok then Inr () else Inl e)"

definition res_opt :: "('a \<Rightarrow> 'e + 'b) \<Rightarrow> 'a option \<Rightarrow> 'e + 'b option" where
  \<comment> \<open>\<open>Option::map(..).transpose()\<close>\<close>
  "res_opt f m = (case m of None \<Rightarrow> Inr None | Some a \<Rightarrow> res_bind (f a) (\<lambda>b. Inr (Some b)))"

definition is_ok :: "'e + 'a \<Rightarrow> bool" where
  "is_ok m = (case m of Inl _ \<Rightarrow> False | Inr _ \<Rightarrow> True)"

lemma res_bind_simps [simp]:
  "res_bind (Inl e) f = Inl e" "res_bind (Inr a) f = f a"
  by (simp_all add: res_bind_def)

lemma res_map_err_simps [simp]:
  "res_map_err g (Inl e) = Inl (g e)" "res_map_err g (Inr a) = Inr a"
  by (simp_all add: res_map_err_def)

lemma res_ok_or_simps [simp]:
  "res_ok_or e None = Inl e" "res_ok_or e (Some a) = Inr a"
  by (simp_all add: res_ok_or_def)

lemma res_guard_simps [simp]:
  "res_guard True e = Inr ()" "res_guard False e = Inl e"
  by (simp_all add: res_guard_def)

lemma res_opt_simps [simp]:
  "res_opt f None = Inr None"
  "res_opt f (Some a) = res_bind (f a) (\<lambda>b. Inr (Some b))"
  by (simp_all add: res_opt_def)

lemma is_ok_simps [simp]: "is_ok (Inr a)" "\<not> is_ok (Inl e)"
  by (simp_all add: is_ok_def)

lemma is_ok_iff: "is_ok m \<longleftrightarrow> (\<exists>a. m = Inr a)"
  by (cases m) simp_all

lemma res_bind_Inr_iff [ok_iff]: "res_bind m f = Inr b \<longleftrightarrow> (\<exists>a. m = Inr a \<and> f a = Inr b)"
  by (cases m) simp_all

lemma res_bind_Inl_iff: "res_bind m f = Inl e \<longleftrightarrow> m = Inl e \<or> (\<exists>a. m = Inr a \<and> f a = Inl e)"
  by (cases m) simp_all

lemma res_map_err_Inr_iff [simp]: "res_map_err g m = Inr a \<longleftrightarrow> m = Inr a"
  by (cases m) simp_all

lemma res_map_err_Inl_iff: "res_map_err g m = Inl x \<longleftrightarrow> (\<exists>e. m = Inl e \<and> x = g e)"
  by (cases m) auto

lemma res_ok_or_Inr_iff [simp]: "res_ok_or e m = Inr a \<longleftrightarrow> m = Some a"
  by (cases m) simp_all

lemma res_ok_or_Inl_iff [simp]: "res_ok_or e m = Inl x \<longleftrightarrow> m = None \<and> x = e"
  by (cases m) auto

lemma res_guard_Inr_iff [simp]: "res_guard ok e = Inr u \<longleftrightarrow> ok"
  by (simp add: res_guard_def)

lemma res_guard_Inl_iff [simp]: "res_guard ok e = Inl x \<longleftrightarrow> \<not> ok \<and> x = e"
  by (auto simp: res_guard_def)

text \<open>The \<open>?\<close> operator inside a method on \<open>&mut self\<close>: an error returns with the state as it is.\<close>

definition or_return :: "'e + 'a \<Rightarrow> 's \<Rightarrow> ('a \<Rightarrow> ('e + 'r) \<times> 's) \<Rightarrow> ('e + 'r) \<times> 's" where
  "or_return m s k = (case m of Inl e \<Rightarrow> (Inl e, s) | Inr a \<Rightarrow> k a)"

lemma or_return_simps [simp]:
  "or_return (Inl e) s k = (Inl e, s)" "or_return (Inr a) s k = k a"
  by (simp_all add: or_return_def)

lemma or_return_Inr_iff [ok_iff]:
  "or_return m s k = (Inr r, t) \<longleftrightarrow> (\<exists>a. m = Inr a \<and> k a = (Inr r, t))"
  by (cases m) simp_all

lemma or_return_Inl_iff:
  "or_return m s k = (Inl e, t) \<longleftrightarrow> (m = Inl e \<and> t = s) \<or> (\<exists>a. m = Inr a \<and> k a = (Inl e, t))"
  by (cases m) auto

section \<open>Checked machine arithmetic\<close>

definition checked_add :: "'a::len word \<Rightarrow> 'a word \<Rightarrow> 'a word option" where
  "checked_add a b = (if unat a + unat b < 2 ^ LENGTH('a) then Some (a + b) else None)"

lemma checked_add_code [code]:
  \<comment> \<open>binary numerals under evaluation\<close>
  "checked_add (a :: 'a::len word) b = (if uint a + uint b < 2 ^ LENGTH('a) then Some (a + b) else None)"
proof -
  have "unat a + unat b < 2 ^ LENGTH('a) \<longleftrightarrow> int (unat a + unat b) < int (2 ^ LENGTH('a))" by (rule of_nat_less_iff [symmetric])
  then show ?thesis by (simp add: checked_add_def)
qed

definition checked_mul :: "'a::len word \<Rightarrow> 'a word \<Rightarrow> 'a word option" where
  "checked_mul a b = (if unat a * unat b < 2 ^ LENGTH('a) then Some (a * b) else None)"

lemma checked_mul_code [code]:
  "checked_mul (a :: 'a::len word) b = (if uint a * uint b < 2 ^ LENGTH('a) then Some (a * b) else None)"
proof -
  have "unat a * unat b < 2 ^ LENGTH('a) \<longleftrightarrow> int (unat a * unat b) < int (2 ^ LENGTH('a))" by (rule of_nat_less_iff [symmetric])
  then show ?thesis by (simp add: checked_mul_def)
qed

definition checked_sub :: "'a::len word \<Rightarrow> 'a word \<Rightarrow> 'a word option" where
  "checked_sub a b = (if a < b then None else Some (a - b))"

definition checked_succ :: "'a::len word \<Rightarrow> 'a word option" where
  "checked_succ a = checked_add a 1"

lemma checked_add_SomeD: "checked_add a b = Some c \<Longrightarrow> unat c = unat a + unat b"
  by (auto simp: checked_add_def unat_word_ariths split: if_splits)

lemma unat_bound: "unat (a :: 'a::len word) < 2 ^ LENGTH('a)"
  by (rule unsigned_less)

lemma checked_add_Some_iff:
  "checked_add a b = Some c \<longleftrightarrow> unat c = unat (a :: 'a::len word) + unat b"
proof
  assume "unat c = unat a + unat b"
  then have "checked_add a b = Some (a + b)" and "unat (a + b) = unat c"
    using unat_bound [of c] by (simp_all add: checked_add_def unat_word_ariths)
  then show "checked_add a b = Some c" by (simp add: word_unat_eq_iff)
qed (rule checked_add_SomeD)

lemma checked_add_None_iff:
  "checked_add a b = None \<longleftrightarrow> 2 ^ LENGTH('a) \<le> unat (a :: 'a::len word) + unat b"
  by (simp add: checked_add_def not_less)

lemma checked_add_le: "checked_add a b = Some c \<Longrightarrow> a \<le> c"
  by (drule checked_add_SomeD) (simp add: word_le_nat_alt)

lemma checked_add_less: "checked_add a b = Some c \<Longrightarrow> b \<noteq> 0 \<Longrightarrow> a < c"
  by (drule checked_add_SomeD) (simp add: word_less_nat_alt unat_gt_0)

lemma checked_add_mono:
  "checked_add a b = Some c \<Longrightarrow> checked_add a' b' = Some c' \<Longrightarrow> a \<le> a' \<Longrightarrow> b \<le> b' \<Longrightarrow> c \<le> c'"
  by (drule checked_add_SomeD)+ (simp add: word_le_nat_alt)

lemma checked_add_mono_None:
  "checked_add a' b' = Some c' \<Longrightarrow> a \<le> a' \<Longrightarrow> b \<le> b' \<Longrightarrow> checked_add a b \<noteq> None"
  using unat_bound [of c'] add_mono [of "unat a" "unat a'" "unat b" "unat b'"]
  by (auto simp: checked_add_None_iff checked_add_Some_iff word_le_nat_alt)

lemma unat_one_word [simp]: "unat (1 :: 'a::len word) = 1"
  by simp

lemma checked_succ_SomeD: "checked_succ a = Some c \<Longrightarrow> unat c = Suc (unat a)"
  by (auto simp: checked_succ_def dest!: checked_add_SomeD)

lemma checked_succ_Some_iff: "checked_succ a = Some c \<longleftrightarrow> unat c = Suc (unat a)"
  by (simp add: checked_succ_def checked_add_Some_iff)

lemma checked_succ_None_iff: "checked_succ (a :: 'a::len word) = None \<longleftrightarrow> a = - 1"
proof -
  have "checked_succ a = None \<longleftrightarrow> 2 ^ LENGTH('a) \<le> Suc (unat a)"
    by (simp add: checked_succ_def checked_add_None_iff)
  also have "\<dots> \<longleftrightarrow> unat a = 2 ^ LENGTH('a) - 1"
    using unat_bound [of a] by linarith
  also have "\<dots> \<longleftrightarrow> a = - 1"
    by (simp add: word_unat_eq_iff unsigned_minus_1_eq_mask mask_eq_exp_minus_1)
  finally show ?thesis .
qed

lemma checked_succ_neq0: "checked_succ a = Some c \<Longrightarrow> c \<noteq> 0"
  by (auto dest!: checked_succ_SomeD)

lemma checked_add_one_neq0 [simp]: "checked_add a 1 \<noteq> Some 0"
  using checked_succ_neq0 [of a 0] by (auto simp: checked_succ_def)

lemma checked_succ_less: "checked_succ a = Some c \<Longrightarrow> a < c"
  by (auto dest!: checked_succ_SomeD simp: word_less_nat_alt)

section \<open>ASCII bytes\<close>

text \<open>
  A Rust \<open>String\<close> is its UTF-8 bytes, a HOL \<open>string\<close> of characters that each stand for a
  byte; \<open>len()\<close> and \<open>bytes()\<close> are byte based.
\<close>

definition byte_of :: "char \<Rightarrow> nat" where
  "byte_of c = of_char c"

definition is_ascii_digit :: "char \<Rightarrow> bool" where
  "is_ascii_digit c \<longleftrightarrow> 48 \<le> byte_of c \<and> byte_of c \<le> 57"

definition is_ascii_uppercase :: "char \<Rightarrow> bool" where
  "is_ascii_uppercase c \<longleftrightarrow> 65 \<le> byte_of c \<and> byte_of c \<le> 90"

definition is_ascii_lowercase :: "char \<Rightarrow> bool" where
  "is_ascii_lowercase c \<longleftrightarrow> 97 \<le> byte_of c \<and> byte_of c \<le> 122"

definition is_ascii_alphanumeric :: "char \<Rightarrow> bool" where
  "is_ascii_alphanumeric c \<longleftrightarrow> is_ascii_digit c \<or> is_ascii_uppercase c \<or> is_ascii_lowercase c"

definition is_ascii_hexdigit :: "char \<Rightarrow> bool" where
  "is_ascii_hexdigit c \<longleftrightarrow> is_ascii_digit c
     \<or> (65 \<le> byte_of c \<and> byte_of c \<le> 70) \<or> (97 \<le> byte_of c \<and> byte_of c \<le> 102)"

definition is_lower_hexdigit :: "char \<Rightarrow> bool" where
  "is_lower_hexdigit c \<longleftrightarrow> is_ascii_digit c \<or> (97 \<le> byte_of c \<and> byte_of c \<le> 102)"

definition to_ascii_lowercase_char :: "char \<Rightarrow> char" where
  "to_ascii_lowercase_char c = (if is_ascii_uppercase c then char_of (byte_of c + 32) else c)"

definition to_ascii_lowercase :: "string \<Rightarrow> string" where
  "to_ascii_lowercase s = map to_ascii_lowercase_char s"

fun split_on :: "char \<Rightarrow> string \<Rightarrow> string list" where
  \<comment> \<open>\<open>str::split\<close> at a character\<close>
  "split_on sep [] = [[]]"
| "split_on sep (c # cs) =
     (if c = sep then [] # split_on sep cs
      else case split_on sep cs of [] \<Rightarrow> [[c]] | part # parts \<Rightarrow> (c # part) # parts)"

lemmas ascii_defs =
  byte_of_def is_ascii_digit_def is_ascii_uppercase_def is_ascii_lowercase_def
  is_ascii_alphanumeric_def is_ascii_hexdigit_def is_lower_hexdigit_def
  to_ascii_lowercase_char_def

lemma split_on_plain: "sep \<notin> set s \<Longrightarrow> split_on sep s = [s]"
  by (induction s) auto

lemma split_on_nonempty [simp]: "split_on sep s \<noteq> []"
  by (induction s) (auto split: list.splits)

lemma split_on_append: "sep \<notin> set s \<Longrightarrow> split_on sep (s @ sep # rest) = s # split_on sep rest"
  by (induction s) auto

lemma byte_of_lt: "byte_of c < 256"
  by (simp add: byte_of_def)

lemma byte_of_char_of [simp]: "n < 256 \<Longrightarrow> byte_of (char_of n) = n"
  by (simp add: byte_of_def)

lemma length_to_ascii_lowercase [simp]: "length (to_ascii_lowercase s) = length s"
  by (simp add: to_ascii_lowercase_def)

lemma lower_hexdigit_of_hexdigit:
  "is_ascii_hexdigit c \<Longrightarrow> is_lower_hexdigit (to_ascii_lowercase_char c)"
  using byte_of_lt [of c]
  by (auto simp: is_ascii_hexdigit_def is_lower_hexdigit_def to_ascii_lowercase_char_def
      is_ascii_uppercase_def is_ascii_digit_def)

lemma not_upper_lowercase: "\<not> is_ascii_uppercase (to_ascii_lowercase_char c)"
  using byte_of_lt [of c]
  by (auto simp: to_ascii_lowercase_char_def is_ascii_uppercase_def)

lemma to_ascii_lowercase_idem [simp]:
  "to_ascii_lowercase (to_ascii_lowercase s) = to_ascii_lowercase s"
proof -
  have "to_ascii_lowercase_char (to_ascii_lowercase_char c) = to_ascii_lowercase_char c" for c
    using not_upper_lowercase [of c] by (simp add: to_ascii_lowercase_char_def [of "to_ascii_lowercase_char c"])
  then show ?thesis by (simp add: to_ascii_lowercase_def)
qed

lemma lower_hexdigit_hexdigit: "is_lower_hexdigit c \<Longrightarrow> is_ascii_hexdigit c"
  by (auto simp: is_ascii_hexdigit_def is_lower_hexdigit_def)

lemma lowercase_lower_hexdigit [simp]:
  "is_lower_hexdigit c \<Longrightarrow> to_ascii_lowercase_char c = c"
  by (auto simp: to_ascii_lowercase_char_def is_lower_hexdigit_def is_ascii_uppercase_def
      is_ascii_digit_def)

section \<open>Shared contracts\<close>

text \<open>
  An aggregate with commands: \<open>step\<close> runs one command and returns the result with the
  state left behind.  \<open>run\<close> feeds it a list of commands, ignoring the results, as a caller
  that keeps using the aggregate after an error does.
\<close>

primrec run_commands :: "('c \<Rightarrow> 's \<Rightarrow> ('e + 'r) \<times> 's) \<Rightarrow> 'c list \<Rightarrow> 's \<Rightarrow> 's" where
  "run_commands step [] s = s"
| "run_commands step (c # cs) s = run_commands step cs (snd (step c s))"

primrec count_ok :: "('c \<Rightarrow> 's \<Rightarrow> ('e + 'r) \<times> 's) \<Rightarrow> 'c list \<Rightarrow> 's \<Rightarrow> nat" where
  "count_ok step [] s = 0"
| "count_ok step (c # cs) s =
     (if is_ok (fst (step c s)) then 1 else 0) + count_ok step cs (snd (step c s))"

lemma run_commands_append:
  "run_commands step (xs @ ys) s = run_commands step ys (run_commands step xs s)"
  by (induction xs arbitrary: s) simp_all

locale invariant_machine =
  fixes step :: "'c \<Rightarrow> 's \<Rightarrow> ('e + 'r) \<times> 's"
    and inv :: "'s \<Rightarrow> bool"
  assumes step_inv: "inv s \<Longrightarrow> inv (snd (step c s))"
begin

lemma run_inv: "inv s \<Longrightarrow> inv (run_commands step cs s)"
  by (induction cs arbitrary: s) (simp_all add: step_inv)

end

locale atomic_machine = invariant_machine +
  assumes step_err: "inv s \<Longrightarrow> fst (step c s) = Inl e \<Longrightarrow> snd (step c s) = s"
begin

text \<open>Rejected commands can be struck from a history without changing where it ends.\<close>

lemma run_skip_rejected:
  assumes "inv s" "fst (step c (run_commands step xs s)) = Inl e"
  shows "run_commands step (xs @ c # ys) s = run_commands step (xs @ ys) s"
  using step_err [OF run_inv [OF assms(1)] assms(2)] by (simp add: run_commands_append)

end

locale versioned_machine = invariant_machine +
  fixes ver :: "'s \<Rightarrow> nat"
  assumes step_ver:
    "inv s \<Longrightarrow> ver (snd (step c s)) = (if is_ok (fst (step c s)) then Suc (ver s) else ver s)"
begin

lemma run_version: "inv s \<Longrightarrow> ver (run_commands step cs s) = ver s + count_ok step cs s"
proof (induction cs arbitrary: s)
  case (Cons c cs)
  then show ?case using Cons.IH [OF step_inv [OF Cons.prems, of c]] by (simp add: step_ver)
qed simp

lemma run_version_mono: "inv s \<Longrightarrow> ver s \<le> ver (run_commands step cs s)"
  by (simp add: run_version)

end

text \<open>
  A concrete machine that simulates an abstract one under the same commands, with related
  results: the relation survives every run, whatever the commands return.
\<close>

locale simulated_machine =
  fixes cstep :: "'c \<Rightarrow> 's \<Rightarrow> ('e + 'r) \<times> 's"
    and astep :: "'c \<Rightarrow> 'a \<Rightarrow> ('f + 'q) \<times> 'a"
    and rel :: "'s \<Rightarrow> 'a \<Rightarrow> bool"
  assumes step_sim: "rel s a \<Longrightarrow> rel (snd (cstep c s)) (snd (astep c a))"
    and step_agrees: "rel s a \<Longrightarrow> is_ok (fst (cstep c s)) = is_ok (fst (astep c a))"
begin

lemma run_sim: "rel s a \<Longrightarrow> rel (run_commands cstep cs s) (run_commands astep cs a)"
  by (induction cs arbitrary: s a) (simp_all add: step_sim)

lemma count_sim: "rel s a \<Longrightarrow> count_ok cstep cs s = count_ok astep cs a"
  by (induction cs arbitrary: s a) (simp_all add: step_sim step_agrees)

end

end
