(* ===== verification/Primitives.thy ===== *)
theory Primitives
  imports Prelude
begin

text \<open>
  The crate \<open>crates/primitives\<close>: opaque identifiers and their parser, the typed
  identifiers that the macro \<open>define_typed_id!\<close> stamps out of it, certificate and payload
  fingerprints, the tenant scope and actor context handed to every use case, and the
  strictly positive aggregate version.  A typed identifier is an opaque identifier with
  a phantom kind; \<open>UnixMillis\<close> is its \<open>u64\<close>.
\<close>

section \<open>Opaque identifiers\<close>

datatype opaque_id = OpaqueId (opaque_as_str: string)

datatype parse_opaque_id_error = ParseOpaqueIdError

definition min_id_length :: nat where "min_id_length = 8"
definition max_id_length :: nat where "max_id_length = 96"
definition sha256_hex_length :: nat where "sha256_hex_length = 64"

definition id_char :: "char \<Rightarrow> bool" where
  "id_char c \<longleftrightarrow> is_ascii_alphanumeric c \<or> c = CHR ''-'' \<or> c = CHR ''_''"

definition opaque_valid :: "string \<Rightarrow> bool" where
  "opaque_valid s \<longleftrightarrow>
     min_id_length \<le> length s \<and> length s \<le> max_id_length \<and> list_all id_char s"

definition opaque_id_parse :: "string \<Rightarrow> parse_opaque_id_error + opaque_id" where
  "opaque_id_parse s =
     (let valid_length = min_id_length \<le> length s \<and> length s \<le> max_id_length;
          valid_chars = list_all id_char s
      in if \<not> valid_length \<or> \<not> valid_chars then Inl ParseOpaqueIdError else Inr (OpaqueId s))"

fun parse_opaque_id_error_message :: "parse_opaque_id_error \<Rightarrow> string" where
  "parse_opaque_id_error_message ParseOpaqueIdError =
     ''opaque ID must be 8-96 ASCII alphanumeric, '' @ [CHR 39] @ ''-'' @ [CHR 39] @ '' or '' @ [CHR 39]
     @ ''_'' @ [CHR 39] @ '' characters''"

instantiation opaque_id :: linorder
begin

definition less_eq_opaque_id :: "opaque_id \<Rightarrow> opaque_id \<Rightarrow> bool" where
  "less_eq_opaque_id a b \<longleftrightarrow> opaque_as_str a \<le> opaque_as_str b"

definition less_opaque_id :: "opaque_id \<Rightarrow> opaque_id \<Rightarrow> bool" where
  "less_opaque_id a b \<longleftrightarrow> opaque_as_str a < opaque_as_str b"

instance
  by standard (auto simp: less_eq_opaque_id_def less_opaque_id_def opaque_id.expand)

end

section \<open>Typed identifiers\<close>

datatype 'k typed_id = TypedId (into_opaque: opaque_id)

definition id_as_str :: "'k typed_id \<Rightarrow> string" where
  "id_as_str i = opaque_as_str (into_opaque i)"

definition id_parse :: "string \<Rightarrow> parse_opaque_id_error + 'k typed_id" where
  "id_parse s = res_bind (opaque_id_parse s) (\<lambda>i. Inr (TypedId i))"

instantiation typed_id :: (type) linorder
begin

definition less_eq_typed_id :: "'a typed_id \<Rightarrow> 'a typed_id \<Rightarrow> bool" where
  "less_eq_typed_id a b \<longleftrightarrow> into_opaque a \<le> into_opaque b"

definition less_typed_id :: "'a typed_id \<Rightarrow> 'a typed_id \<Rightarrow> bool" where
  "less_typed_id a b \<longleftrightarrow> into_opaque a < into_opaque b"

instance
  by standard (auto simp: less_eq_typed_id_def less_typed_id_def typed_id.expand)

end

datatype tenant_kind = TenantKind
datatype actor_kind = ActorKind
datatype identity_kind = IdentityKind
datatype invitation_kind = InvitationKind
datatype client_kind = ClientKind
datatype contact_point_kind = ContactPointKind
datatype profile_kind = ProfileKind
datatype generation_kind = GenerationKind
datatype assignment_kind = AssignmentKind
datatype session_kind = SessionKind
datatype device_kind = DeviceKind
datatype mailbox_binding_kind = MailboxBindingKind
datatype mailbox_onboarding_kind = MailboxOnboardingKind
datatype mailbox_job_kind = MailboxJobKind
datatype launch_intent_kind = LaunchIntentKind
datatype correlation_kind = CorrelationKind
datatype idempotency_kind = IdempotencyKind
datatype audit_event_kind = AuditEventKind
datatype outbox_event_kind = OutboxEventKind
datatype fencing_token_kind = FencingTokenKind
datatype secret_handle_kind = SecretHandleKind

type_synonym tenant_id = "tenant_kind typed_id"
type_synonym actor_id = "actor_kind typed_id"
type_synonym identity_id = "identity_kind typed_id"
type_synonym invitation_id = "invitation_kind typed_id"
type_synonym client_id = "client_kind typed_id"
type_synonym contact_point_id = "contact_point_kind typed_id"
type_synonym profile_id = "profile_kind typed_id"
type_synonym generation_id = "generation_kind typed_id"
type_synonym assignment_id = "assignment_kind typed_id"
type_synonym session_id = "session_kind typed_id"
type_synonym device_id = "device_kind typed_id"
type_synonym mailbox_binding_id = "mailbox_binding_kind typed_id"
type_synonym mailbox_onboarding_id = "mailbox_onboarding_kind typed_id"
type_synonym mailbox_job_id = "mailbox_job_kind typed_id"
type_synonym launch_intent_id = "launch_intent_kind typed_id"
type_synonym correlation_id = "correlation_kind typed_id"
type_synonym idempotency_key = "idempotency_kind typed_id"
type_synonym audit_event_id = "audit_event_kind typed_id"
type_synonym outbox_event_id = "outbox_event_kind typed_id"
type_synonym fencing_token = "fencing_token_kind typed_id"
type_synonym secret_handle = "secret_handle_kind typed_id"

section \<open>Fingerprints\<close>

datatype machine_certificate_fingerprint = MachineCertificateFingerprint (certificate_as_str: string)

datatype certificate_fingerprint_error = ParseMachineCertificateFingerprintError

definition machine_certificate_fingerprint_parse ::
    "string \<Rightarrow> certificate_fingerprint_error + machine_certificate_fingerprint" where
  "machine_certificate_fingerprint_parse s =
     (if length s \<noteq> sha256_hex_length \<or> \<not> list_all is_ascii_hexdigit s
      then Inl ParseMachineCertificateFingerprintError
      else Inr (MachineCertificateFingerprint (to_ascii_lowercase s)))"

datatype payload_fingerprint = PayloadFingerprint (payload_as_str: string)

datatype payload_fingerprint_error = ParsePayloadFingerprintError

definition payload_fingerprint_parse :: "string \<Rightarrow> payload_fingerprint_error + payload_fingerprint" where
  "payload_fingerprint_parse s =
     (if length s \<noteq> sha256_hex_length \<or> \<not> list_all is_lower_hexdigit s
      then Inl ParsePayloadFingerprintError
      else Inr (PayloadFingerprint s))"

section \<open>Scope, actor, version, time\<close>

record tenant_scope =
  scope_tenant_id :: tenant_id

record actor_context =
  actor_tenant_scope :: tenant_scope
  actor_actor_id :: actor_id
  actor_correlation_id :: correlation_id

datatype aggregate_version = AggregateVersion (version_value: u64)

datatype zero_aggregate_version = ZeroAggregateVersion

datatype version_overflow = VersionOverflowError

fun zero_aggregate_version_message :: "zero_aggregate_version \<Rightarrow> string" where
  "zero_aggregate_version_message ZeroAggregateVersion = ''aggregate version must be greater than zero''"

definition version_initial :: aggregate_version where
  "version_initial = AggregateVersion 1"

definition version_new :: "u64 \<Rightarrow> zero_aggregate_version + aggregate_version" where
  "version_new v = (if v = 0 then Inl ZeroAggregateVersion else Inr (AggregateVersion v))"

definition version_next :: "aggregate_version \<Rightarrow> version_overflow + aggregate_version" where
  "version_next v = (case checked_add (version_value v) 1 of
       None \<Rightarrow> Inl VersionOverflowError
     | Some n \<Rightarrow> Inr (AggregateVersion n))"

type_synonym unix_millis = u64

section \<open>Lemmas\<close>

lemma opaque_id_parse_alt:
  "opaque_id_parse s = (if opaque_valid s then Inr (OpaqueId s) else Inl ParseOpaqueIdError)"
  by (auto simp: opaque_id_parse_def opaque_valid_def Let_def)

lemma id_parse_alt:
  "id_parse s = (if opaque_valid s then Inr (TypedId (OpaqueId s)) else Inl ParseOpaqueIdError)"
  by (simp add: id_parse_def opaque_id_parse_alt)

definition id_valid :: "'k typed_id \<Rightarrow> bool" where
  "id_valid i \<longleftrightarrow> opaque_valid (id_as_str i)"

lemma id_as_str_TypedId [simp]: "id_as_str (TypedId (OpaqueId s)) = s"
  by (simp add: id_as_str_def)

lemma id_eq_iff: "i = j \<longleftrightarrow> id_as_str i = id_as_str j"
  by (metis id_as_str_def opaque_id.expand typed_id.expand)

lemma TypedId_id_as_str [simp]: "TypedId (OpaqueId (id_as_str i)) = i"
  by (simp add: id_as_str_def)

lemma id_parse_Inr_iff: "id_parse s = Inr i \<longleftrightarrow> opaque_valid s \<and> id_as_str i = s"
  by (auto simp: id_parse_alt)

lemma id_parse_valid: "id_parse s = Inr i \<Longrightarrow> id_valid i"
  by (simp add: id_parse_Inr_iff id_valid_def)

lemma id_parse_as_str [simp]: "id_valid i \<Longrightarrow> id_parse (id_as_str i) = Inr i"
  by (simp add: id_parse_Inr_iff id_valid_def)

lemma typed_id_le_iff: "i \<le> j \<longleftrightarrow> id_as_str i \<le> id_as_str j"
  by (simp add: less_eq_typed_id_def less_eq_opaque_id_def id_as_str_def)

lemma typed_id_less_iff: "i < j \<longleftrightarrow> id_as_str i < id_as_str j"
  by (simp add: less_typed_id_def less_opaque_id_def id_as_str_def)

lemma version_new_Inr_iff: "version_new v = Inr w \<longleftrightarrow> v \<noteq> 0 \<and> w = AggregateVersion v"
  by (auto simp: version_new_def)

lemma version_new_value [simp]: "version_value v \<noteq> 0 \<Longrightarrow> version_new (version_value v) = Inr v"
  by (simp add: version_new_def)

lemma version_next_Inr_iff:
  "version_next v = Inr w \<longleftrightarrow> unat (version_value w) = Suc (unat (version_value v))"
proof -
  have "version_next v = Inr w \<longleftrightarrow> checked_succ (version_value v) = Some (version_value w)"
    by (cases w) (auto simp: version_next_def checked_succ_def split: option.splits)
  then show ?thesis by (simp add: checked_succ_Some_iff)
qed

lemma version_next_Inl_iff:
  "version_next v = Inl e \<longleftrightarrow> version_value v = - 1"
proof -
  have "version_next v = Inl e \<longleftrightarrow> checked_succ (version_value v) = None"
    by (cases e) (auto simp: version_next_def checked_succ_def split: option.splits)
  then show ?thesis by (simp add: checked_succ_None_iff)
qed

lemma version_initial_value [simp]: "version_value version_initial = 1"
  by (simp add: version_initial_def)

end
