(* ===== verification/Coordinator.thy ===== *)
theory Coordinator
  imports Primitives
begin

text \<open>
  The profile coordinator of \<open>crates/session-domain/src/coordinator.rs\<close>: one state machine
  per browser profile that hands out at most one fenced writer lease.  The theory has the
  configuration, the leases and intents, the nine commands with the command envelope, the
  receipts of the idempotency window, the checkpoint with its validation on restore, and
  every transition of \<open>ProfileCoordinatorState\<close> with the guards in the order of the code.
  A transition returns its result and the state it leaves behind, on the error paths too.
\<close>

section \<open>Data\<close>

definition receipt_limit :: nat where "receipt_limit = 32"

definition object_name_prefix :: string where
  "object_name_prefix = ''profile-coordinator-v1:''"

datatype coordinator_error =
    InvalidTimeoutConfig | InvalidCheckpoint | InvalidSequence | SequenceOverflow
  | ExpectedVersionMismatch | ReorderedCommand | ReorderedTime | IdempotencyConflict
  | VersionOverflow | TimeOverflow | EpochOverflow | InvalidIntentExpiry
  | CoordinatorUnavailable | PendingIntentExists | LaunchIntentMissing
  | LaunchIntentMismatch | LaunchIntentExpiredError | ActorMismatch | DeviceMismatch
  | NoActiveLease | StaleWriter | ReorderedHeartbeat | RecoveryNotRequired

record coordinator_config =
  cc_idle_timeout_ms :: u64
  cc_hard_timeout_ms :: u64
  cc_drain_timeout_ms :: u64

definition coordinator_config_new ::
    "u64 \<Rightarrow> u64 \<Rightarrow> u64 \<Rightarrow> coordinator_error + coordinator_config" where
  "coordinator_config_new idle_timeout_ms hard_timeout_ms drain_timeout_ms =
     (if idle_timeout_ms = 0 \<or> hard_timeout_ms = 0 \<or> drain_timeout_ms = 0
         \<or> idle_timeout_ms > hard_timeout_ms
      then Inl InvalidTimeoutConfig
      else Inr \<lparr>cc_idle_timeout_ms = idle_timeout_ms, cc_hard_timeout_ms = hard_timeout_ms,
                cc_drain_timeout_ms = drain_timeout_ms\<rparr>)"

datatype coordinator_status = Idle | Active | Draining | Dirty | Uncertain

datatype release_disposition = ReleaseClean | ReleaseDirty | ReleaseUncertain

datatype timeout_kind = TimeoutIdle | TimeoutHard | TimeoutDrain

record pending_launch_intent =
  pi_launch_intent_id :: launch_intent_id
  pi_actor_id :: actor_id
  pi_device_id :: device_id
  pi_expires_at :: unix_millis

definition pending_launch_intent_restored ::
    "launch_intent_id \<Rightarrow> actor_id \<Rightarrow> device_id \<Rightarrow> unix_millis \<Rightarrow> pending_launch_intent" where
  "pending_launch_intent_restored launch_intent_id actor_id device_id expires_at =
     \<lparr>pi_launch_intent_id = launch_intent_id, pi_actor_id = actor_id,
      pi_device_id = device_id, pi_expires_at = expires_at\<rparr>"

record coordinator_lease =
  cl_session_id :: session_id
  cl_device_id :: device_id
  cl_epoch :: u64
  cl_fencing_token :: fencing_token
  cl_claimed_at :: unix_millis
  cl_last_heartbeat_at :: unix_millis
  cl_idle_expires_at :: unix_millis
  cl_hard_expires_at :: unix_millis

definition coordinator_lease_restored ::
    "session_id \<Rightarrow> device_id \<Rightarrow> u64 \<Rightarrow> fencing_token \<Rightarrow> unix_millis \<Rightarrow> unix_millis \<Rightarrow> unix_millis
     \<Rightarrow> unix_millis \<Rightarrow> coordinator_error + coordinator_lease" where
  "coordinator_lease_restored session_id device_id epoch fencing_token claimed_at
     last_heartbeat_at idle_expires_at hard_expires_at =
     (if epoch = 0 \<or> last_heartbeat_at < claimed_at \<or> idle_expires_at < last_heartbeat_at
         \<or> hard_expires_at < idle_expires_at
      then Inl InvalidCheckpoint
      else Inr \<lparr>cl_session_id = session_id, cl_device_id = device_id, cl_epoch = epoch,
                cl_fencing_token = fencing_token, cl_claimed_at = claimed_at,
                cl_last_heartbeat_at = last_heartbeat_at,
                cl_idle_expires_at = idle_expires_at, cl_hard_expires_at = hard_expires_at\<rparr>)"

definition accepts_writer ::
    "coordinator_lease \<Rightarrow> session_id \<Rightarrow> u64 \<Rightarrow> fencing_token \<Rightarrow> bool" where
  "accepts_writer lease session_id epoch fencing_token \<longleftrightarrow>
     cl_session_id lease = session_id \<and> cl_epoch lease = epoch
     \<and> cl_fencing_token lease = fencing_token"

datatype coordinator_command =
    IssueLaunchIntent launch_intent_id actor_id device_id unix_millis unix_millis
  | RecoverAndIssueLaunchIntent launch_intent_id actor_id device_id unix_millis unix_millis
  | Claim launch_intent_id actor_id device_id session_id fencing_token unix_millis
  | Heartbeat session_id u64 fencing_token unix_millis
  | RenewLease session_id u64 fencing_token unix_millis
  | Release session_id u64 fencing_token release_disposition unix_millis
  | BeginDrain unix_millis
  | Tick unix_millis
  | MarkRecovered unix_millis

fun observed_at :: "coordinator_command \<Rightarrow> unix_millis" where
  "observed_at (IssueLaunchIntent _ _ _ now _) = now"
| "observed_at (RecoverAndIssueLaunchIntent _ _ _ now _) = now"
| "observed_at (Claim _ _ _ _ _ now) = now"
| "observed_at (Heartbeat _ _ _ now) = now"
| "observed_at (RenewLease _ _ _ now) = now"
| "observed_at (Release _ _ _ _ now) = now"
| "observed_at (BeginDrain now) = now"
| "observed_at (Tick now) = now"
| "observed_at (MarkRecovered now) = now"

record coordinator_command_envelope =
  ce_idempotency_key :: idempotency_key
  ce_sequence :: u64
  ce_expected_version :: aggregate_version
  ce_command :: coordinator_command

definition coordinator_command_envelope_new ::
    "idempotency_key \<Rightarrow> u64 \<Rightarrow> aggregate_version \<Rightarrow> coordinator_command
     \<Rightarrow> coordinator_error + coordinator_command_envelope" where
  "coordinator_command_envelope_new idempotency_key sequence expected_version command =
     (if sequence = 0 then Inl InvalidSequence
      else Inr \<lparr>ce_idempotency_key = idempotency_key, ce_sequence = sequence,
                ce_expected_version = expected_version, ce_command = command\<rparr>)"

datatype coordinator_outcome =
    LaunchIntentIssued launch_intent_id
  | LeaseClaimed coordinator_lease
  | HeartbeatAccepted unix_millis
  | Released release_disposition
  | DrainStarted unix_millis
  | TimedOut timeout_kind
  | LaunchIntentExpired
  | Recovered
  | NoChange

record coordinator_decision =
  cd_version :: aggregate_version
  cd_sequence :: u64
  cd_outcome :: coordinator_outcome

record command_receipt =
  rc_idempotency_key :: idempotency_key
  rc_sequence :: u64
  rc_command :: coordinator_command
  rc_decision :: coordinator_decision

record coordinator_checkpoint =
  cp_version :: aggregate_version
  cp_sequence :: u64
  cp_observed_at :: unix_millis
  cp_next_epoch :: u64
  cp_status :: coordinator_status
  cp_pending_intent :: "pending_launch_intent option"
  cp_recovery_claim_pending :: bool
  cp_active_lease :: "coordinator_lease option"
  cp_drain_deadline :: "unix_millis option"

record coordinator_state =
  cs_tenant_id :: tenant_id
  cs_profile_id :: profile_id
  cs_config :: coordinator_config
  cs_version :: aggregate_version
  cs_last_sequence :: u64
  cs_last_observed_at :: unix_millis
  cs_next_epoch :: u64
  cs_status :: coordinator_status
  cs_pending_intent :: "pending_launch_intent option"
  cs_recovery_claim_pending :: bool
  cs_active_lease :: "coordinator_lease option"
  cs_drain_deadline :: "unix_millis option"
  cs_receipts :: "command_receipt list"

section \<open>Creation, checkpoint and restore\<close>

definition coordinator_new :: "tenant_id \<Rightarrow> profile_id \<Rightarrow> coordinator_config \<Rightarrow> coordinator_state" where
  "coordinator_new tenant_id profile_id config =
     \<lparr>cs_tenant_id = tenant_id, cs_profile_id = profile_id, cs_config = config,
      cs_version = version_initial, cs_last_sequence = 0, cs_last_observed_at = 0,
      cs_next_epoch = 0, cs_status = Idle, cs_pending_intent = None,
      cs_recovery_claim_pending = False, cs_active_lease = None, cs_drain_deadline = None,
      cs_receipts = []\<rparr>"

definition coordinator_checkpoint_of :: "coordinator_state \<Rightarrow> coordinator_checkpoint" where
  "coordinator_checkpoint_of s =
     \<lparr>cp_version = cs_version s, cp_sequence = cs_last_sequence s,
      cp_observed_at = cs_last_observed_at s, cp_next_epoch = cs_next_epoch s,
      cp_status = cs_status s, cp_pending_intent = cs_pending_intent s,
      cp_recovery_claim_pending = cs_recovery_claim_pending s,
      cp_active_lease = cs_active_lease s, cp_drain_deadline = cs_drain_deadline s\<rparr>"

definition restore_checkpoint ::
    "tenant_id \<Rightarrow> profile_id \<Rightarrow> coordinator_config \<Rightarrow> coordinator_checkpoint
     \<Rightarrow> coordinator_error + coordinator_state" where
  "restore_checkpoint tenant_id profile_id config snapshot =
     (case checked_add (cp_sequence snapshot) 1 of
        None \<Rightarrow> Inl InvalidCheckpoint
      | Some expected_version \<Rightarrow>
          (let has_writer = cp_active_lease snapshot \<noteq> None;
               active_status = (cp_status snapshot = Active \<or> cp_status snapshot = Draining)
           in if version_value (cp_version snapshot) \<noteq> expected_version
                 \<or> has_writer \<noteq> active_status
                 \<or> (case cp_active_lease snapshot of None \<Rightarrow> False
                     | Some lease \<Rightarrow> cl_epoch lease > cp_next_epoch snapshot)
                 \<or> (cp_pending_intent snapshot \<noteq> None
                     \<and> (cp_status snapshot \<noteq> Idle \<or> has_writer))
                 \<or> (cp_recovery_claim_pending snapshot
                     \<and> (cp_status snapshot \<noteq> Idle \<or> has_writer))
                 \<or> (cp_drain_deadline snapshot \<noteq> None) \<noteq> (cp_status snapshot = Draining)
              then Inl InvalidCheckpoint
              else Inr
                \<lparr>cs_tenant_id = tenant_id, cs_profile_id = profile_id, cs_config = config,
                 cs_version = cp_version snapshot, cs_last_sequence = cp_sequence snapshot,
                 cs_last_observed_at = cp_observed_at snapshot,
                 cs_next_epoch = cp_next_epoch snapshot, cs_status = cp_status snapshot,
                 cs_pending_intent = cp_pending_intent snapshot,
                 cs_recovery_claim_pending = cp_recovery_claim_pending snapshot,
                 cs_active_lease = cp_active_lease snapshot,
                 cs_drain_deadline = cp_drain_deadline snapshot, cs_receipts = []\<rparr>))"

definition coordinator_object_name :: "profile_id \<Rightarrow> string" where
  "coordinator_object_name profile_id = object_name_prefix @ id_as_str profile_id"

definition add_millis :: "unix_millis \<Rightarrow> u64 \<Rightarrow> coordinator_error + unix_millis" where
  "add_millis value delta = res_ok_or TimeOverflow (checked_add value delta)"

section \<open>Transitions\<close>

definition timeout_if_due ::
    "unix_millis \<Rightarrow> coordinator_state \<Rightarrow> coordinator_outcome option \<times> coordinator_state" where
  "timeout_if_due now s =
     (case cs_active_lease s of
        None \<Rightarrow> (None, s)
      | Some lease \<Rightarrow>
          (let kind =
             (if cs_status s = Draining
                 \<and> (case cs_drain_deadline s of None \<Rightarrow> False | Some deadline \<Rightarrow> now \<ge> deadline)
              then Some TimeoutDrain
              else if now \<ge> cl_hard_expires_at lease then Some TimeoutHard
              else if now \<ge> cl_idle_expires_at lease then Some TimeoutIdle
              else None)
           in case kind of
                None \<Rightarrow> (None, s)
              | Some k \<Rightarrow>
                  (Some (TimedOut k),
                   s\<lparr>cs_active_lease := None, cs_pending_intent := None,
                     cs_drain_deadline := None, cs_status := Uncertain\<rparr>)))"

definition issue_launch_intent ::
    "launch_intent_id \<Rightarrow> actor_id \<Rightarrow> device_id \<Rightarrow> unix_millis \<Rightarrow> unix_millis \<Rightarrow> coordinator_state
     \<Rightarrow> (coordinator_error + coordinator_outcome) \<times> coordinator_state" where
  "issue_launch_intent launch_intent_id actor_id device_id now expires_at s =
     (if expires_at \<le> now then (Inl InvalidIntentExpiry, s)
      else if cs_active_lease s \<noteq> None \<or> cs_status s \<noteq> Idle then (Inl CoordinatorUnavailable, s)
      else if (case cs_pending_intent s of None \<Rightarrow> False | Some intent \<Rightarrow> pi_expires_at intent > now)
      then (Inl PendingIntentExists, s)
      else (Inr (LaunchIntentIssued launch_intent_id),
            s\<lparr>cs_pending_intent := Some
               \<lparr>pi_launch_intent_id = launch_intent_id, pi_actor_id = actor_id,
                pi_device_id = device_id, pi_expires_at = expires_at\<rparr>\<rparr>))"

definition claim ::
    "launch_intent_id \<Rightarrow> actor_id \<Rightarrow> device_id \<Rightarrow> session_id \<Rightarrow> fencing_token \<Rightarrow> unix_millis
     \<Rightarrow> coordinator_state \<Rightarrow> (coordinator_error + coordinator_outcome) \<times> coordinator_state" where
  "claim launch_intent_id actor_id device_id session_id fencing_token now s =
     (if cs_status s \<noteq> Idle \<or> cs_active_lease s \<noteq> None then (Inl CoordinatorUnavailable, s)
      else case cs_pending_intent s of
        None \<Rightarrow> (Inl LaunchIntentMissing, s)
      | Some intent \<Rightarrow>
          if pi_launch_intent_id intent \<noteq> launch_intent_id then (Inl LaunchIntentMismatch, s)
          else if pi_actor_id intent \<noteq> actor_id then (Inl ActorMismatch, s)
          else if pi_device_id intent \<noteq> device_id then (Inl DeviceMismatch, s)
          else if now \<ge> pi_expires_at intent then (Inl LaunchIntentExpiredError, s)
          else case checked_add (cs_next_epoch s) 1 of
            None \<Rightarrow> (Inl EpochOverflow, s)
          | Some epoch \<Rightarrow>
              (case add_millis now (cc_idle_timeout_ms (cs_config s)) of
                 Inl e \<Rightarrow> (Inl e, s)
               | Inr idle_expires_at \<Rightarrow>
                   (case add_millis now (cc_hard_timeout_ms (cs_config s)) of
                      Inl e \<Rightarrow> (Inl e, s)
                    | Inr hard_expires_at \<Rightarrow>
                        (let lease =
                           \<lparr>cl_session_id = session_id, cl_device_id = device_id,
                            cl_epoch = epoch, cl_fencing_token = fencing_token,
                            cl_claimed_at = now, cl_last_heartbeat_at = now,
                            cl_idle_expires_at = idle_expires_at,
                            cl_hard_expires_at = hard_expires_at\<rparr>
                         in (Inr (LeaseClaimed lease),
                             s\<lparr>cs_next_epoch := epoch, cs_status := Active,
                               cs_recovery_claim_pending := False, cs_pending_intent := None,
                               cs_active_lease := Some lease, cs_drain_deadline := None\<rparr>)))))"

definition recover_and_issue_launch_intent ::
    "launch_intent_id \<Rightarrow> actor_id \<Rightarrow> device_id \<Rightarrow> unix_millis \<Rightarrow> unix_millis \<Rightarrow> coordinator_state
     \<Rightarrow> (coordinator_error + coordinator_outcome) \<times> coordinator_state" where
  "recover_and_issue_launch_intent launch_intent_id actor_id device_id now expires_at s =
     (if \<not> (cs_status s = Uncertain \<or> (cs_status s = Idle \<and> cs_recovery_claim_pending s))
         \<or> cs_active_lease s \<noteq> None
         \<or> (case cs_pending_intent s of None \<Rightarrow> False | Some intent \<Rightarrow> pi_expires_at intent > now)
      then (Inl CoordinatorUnavailable, s)
      else if expires_at \<le> now then (Inl InvalidIntentExpiry, s)
      else (Inr (LaunchIntentIssued launch_intent_id),
            s\<lparr>cs_pending_intent := Some
                \<lparr>pi_launch_intent_id = launch_intent_id, pi_actor_id = actor_id,
                 pi_device_id = device_id, pi_expires_at = expires_at\<rparr>,
              cs_status := Idle, cs_recovery_claim_pending := True,
              cs_drain_deadline := None\<rparr>))"

definition heartbeat ::
    "session_id \<Rightarrow> u64 \<Rightarrow> fencing_token \<Rightarrow> unix_millis \<Rightarrow> bool \<Rightarrow> coordinator_state
     \<Rightarrow> (coordinator_error + coordinator_outcome) \<times> coordinator_state" where
  "heartbeat session_id epoch fencing_token now renew_hard s =
     (if \<not> (cs_status s = Active \<or> cs_status s = Draining) then (Inl NoActiveLease, s)
      else case cs_active_lease s of
        None \<Rightarrow> (Inl NoActiveLease, s)
      | Some lease \<Rightarrow>
          if \<not> accepts_writer lease session_id epoch fencing_token then (Inl StaleWriter, s)
          else if now < cl_last_heartbeat_at lease then (Inl ReorderedHeartbeat, s)
          else case timeout_if_due now s of
            (Some outcome, s1) \<Rightarrow> (Inr outcome, s1)
          | (None, s1) \<Rightarrow>
              (case add_millis now (cc_idle_timeout_ms (cs_config s1)) of
                 Inl e \<Rightarrow> (Inl e, s1)
               | Inr proposed_idle \<Rightarrow>
                   (case (if renew_hard
                          then res_bind (add_millis now (cc_hard_timeout_ms (cs_config s1)))
                                 (\<lambda>h. Inr (Some h))
                          else Inr None) of
                      Inl e \<Rightarrow> (Inl e, s1)
                    | Inr proposed_hard \<Rightarrow>
                        (case cs_active_lease s1 of
                           None \<Rightarrow> (Inl NoActiveLease, s1)
                         | Some l \<Rightarrow>
                             (let l1 = l\<lparr>cl_last_heartbeat_at := now\<rparr>;
                                  l2 = (case proposed_hard of None \<Rightarrow> l1
                                        | Some hard \<Rightarrow> l1\<lparr>cl_hard_expires_at := hard\<rparr>);
                                  l3 = l2\<lparr>cl_idle_expires_at :=
                                            min proposed_idle (cl_hard_expires_at l2)\<rparr>
                              in (Inr (HeartbeatAccepted (cl_idle_expires_at l3)),
                                  s1\<lparr>cs_active_lease := Some l3\<rparr>))))))"

fun disposition_status :: "release_disposition \<Rightarrow> coordinator_status" where
  "disposition_status ReleaseClean = Idle"
| "disposition_status ReleaseDirty = Dirty"
| "disposition_status ReleaseUncertain = Uncertain"

definition release ::
    "session_id \<Rightarrow> u64 \<Rightarrow> fencing_token \<Rightarrow> release_disposition \<Rightarrow> unix_millis \<Rightarrow> coordinator_state
     \<Rightarrow> (coordinator_error + coordinator_outcome) \<times> coordinator_state" where
  "release session_id epoch fencing_token disposition now s =
     (case cs_active_lease s of
        None \<Rightarrow> (Inl NoActiveLease, s)
      | Some lease \<Rightarrow>
          if \<not> accepts_writer lease session_id epoch fencing_token then (Inl StaleWriter, s)
          else case timeout_if_due now s of
            (Some outcome, s1) \<Rightarrow> (Inr outcome, s1)
          | (None, s1) \<Rightarrow>
              (Inr (Released disposition),
               s1\<lparr>cs_active_lease := None, cs_pending_intent := None, cs_drain_deadline := None,
                  cs_status := disposition_status disposition\<rparr>))"

definition begin_drain ::
    "unix_millis \<Rightarrow> coordinator_state
     \<Rightarrow> (coordinator_error + coordinator_outcome) \<times> coordinator_state" where
  "begin_drain now s =
     (if cs_status s \<noteq> Active \<or> cs_active_lease s = None then (Inl NoActiveLease, s)
      else case timeout_if_due now s of
        (Some outcome, s1) \<Rightarrow> (Inr outcome, s1)
      | (None, s1) \<Rightarrow>
          (case add_millis now (cc_drain_timeout_ms (cs_config s1)) of
             Inl e \<Rightarrow> (Inl e, s1)
           | Inr proposed_deadline \<Rightarrow>
               (case cs_active_lease s1 of
                  None \<Rightarrow> (Inl NoActiveLease, s1)
                | Some lease \<Rightarrow>
                    (let deadline = min proposed_deadline (cl_hard_expires_at lease)
                     in (Inr (DrainStarted deadline),
                         s1\<lparr>cs_status := Draining, cs_drain_deadline := Some deadline\<rparr>)))))"

definition tick ::
    "unix_millis \<Rightarrow> coordinator_state
     \<Rightarrow> (coordinator_error + coordinator_outcome) \<times> coordinator_state" where
  "tick now s =
     (if (case cs_pending_intent s of None \<Rightarrow> False | Some intent \<Rightarrow> now \<ge> pi_expires_at intent)
      then (Inr LaunchIntentExpired, s\<lparr>cs_pending_intent := None\<rparr>)
      else case timeout_if_due now s of
        (Some outcome, s1) \<Rightarrow> (Inr outcome, s1)
      | (None, s1) \<Rightarrow> (Inr NoChange, s1))"

definition mark_recovered ::
    "unix_millis \<Rightarrow> coordinator_state
     \<Rightarrow> (coordinator_error + coordinator_outcome) \<times> coordinator_state" where
  "mark_recovered now s =
     (if cs_active_lease s \<noteq> None then (Inl CoordinatorUnavailable, s)
      else if \<not> (cs_status s = Dirty \<or> cs_status s = Uncertain) then (Inl RecoveryNotRequired, s)
      else (Inr Recovered,
            s\<lparr>cs_status := Idle, cs_recovery_claim_pending := False, cs_pending_intent := None,
              cs_drain_deadline := None\<rparr>))"

fun apply_new ::
    "coordinator_command \<Rightarrow> coordinator_state
     \<Rightarrow> (coordinator_error + coordinator_outcome) \<times> coordinator_state" where
  "apply_new (IssueLaunchIntent i a d now expires_at) s = issue_launch_intent i a d now expires_at s"
| "apply_new (RecoverAndIssueLaunchIntent i a d now expires_at) s =
     recover_and_issue_launch_intent i a d now expires_at s"
| "apply_new (Claim i a d sid tok now) s = claim i a d sid tok now s"
| "apply_new (Heartbeat sid epoch tok now) s = heartbeat sid epoch tok now False s"
| "apply_new (RenewLease sid epoch tok now) s = heartbeat sid epoch tok now True s"
| "apply_new (Release sid epoch tok disposition now) s = release sid epoch tok disposition now s"
| "apply_new (BeginDrain now) s = begin_drain now s"
| "apply_new (Tick now) s = tick now s"
| "apply_new (MarkRecovered now) s = mark_recovered now s"

definition push_receipt :: "command_receipt \<Rightarrow> command_receipt list \<Rightarrow> command_receipt list" where
  "push_receipt r rs =
     (let rs1 = rs @ [r] in if length rs1 > receipt_limit then tl rs1 else rs1)"

definition coordinator_apply ::
    "coordinator_command_envelope \<Rightarrow> coordinator_state
     \<Rightarrow> (coordinator_error + coordinator_decision) \<times> coordinator_state" where
  "coordinator_apply env s =
     (case find (\<lambda>r. rc_idempotency_key r = ce_idempotency_key env) (cs_receipts s) of
        Some receipt \<Rightarrow>
          (if rc_sequence receipt = ce_sequence env \<and> rc_command receipt = ce_command env
           then (Inr (rc_decision receipt), s)
           else (Inl IdempotencyConflict, s))
      | None \<Rightarrow>
          (case checked_add (cs_last_sequence s) 1 of
             None \<Rightarrow> (Inl SequenceOverflow, s)
           | Some expected_sequence \<Rightarrow>
               if ce_sequence env \<noteq> expected_sequence then (Inl ReorderedCommand, s)
               else if ce_expected_version env \<noteq> cs_version s then (Inl ExpectedVersionMismatch, s)
               else if observed_at (ce_command env) < cs_last_observed_at s
               then (Inl ReorderedTime, s)
               else case version_next (cs_version s) of
                 Inl _ \<Rightarrow> (Inl VersionOverflow, s)
               | Inr next_version \<Rightarrow>
                   (case apply_new (ce_command env) s of
                      (Inl e, s1) \<Rightarrow> (Inl e, s1)
                    | (Inr outcome, s1) \<Rightarrow>
                        (let decision = \<lparr>cd_version = next_version, cd_sequence = ce_sequence env,
                                         cd_outcome = outcome\<rparr>;
                             receipt = \<lparr>rc_idempotency_key = ce_idempotency_key env,
                                        rc_sequence = ce_sequence env,
                                        rc_command = ce_command env, rc_decision = decision\<rparr>
                         in (Inr decision,
                             s1\<lparr>cs_version := next_version, cs_last_sequence := ce_sequence env,
                                cs_last_observed_at := observed_at (ce_command env),
                                cs_receipts := push_receipt receipt (cs_receipts s1)\<rparr>)))))"

fun coordinator_error_message :: "coordinator_error \<Rightarrow> string" where
  "coordinator_error_message InvalidTimeoutConfig = ''coordinator timeout configuration is invalid''"
| "coordinator_error_message InvalidCheckpoint = ''coordinator replay checkpoint is invalid''"
| "coordinator_error_message InvalidSequence = ''coordinator command sequence must be positive''"
| "coordinator_error_message SequenceOverflow = ''coordinator command sequence overflow''"
| "coordinator_error_message ExpectedVersionMismatch = ''coordinator expected version mismatch''"
| "coordinator_error_message ReorderedCommand = ''coordinator command is duplicated, delayed or reordered''"
| "coordinator_error_message ReorderedTime = ''coordinator command time moved backwards''"
| "coordinator_error_message IdempotencyConflict = ''idempotency key was reused for another command''"
| "coordinator_error_message VersionOverflow = ''coordinator version overflow''"
| "coordinator_error_message TimeOverflow = ''coordinator deadline overflow''"
| "coordinator_error_message EpochOverflow = ''coordinator lease epoch overflow''"
| "coordinator_error_message InvalidIntentExpiry = ''launch intent expiry must be after issue time''"
| "coordinator_error_message CoordinatorUnavailable = ''coordinator is not available for a new launch''"
| "coordinator_error_message PendingIntentExists = ''a live launch intent already exists''"
| "coordinator_error_message LaunchIntentMissing = ''launch intent is missing''"
| "coordinator_error_message LaunchIntentMismatch = ''launch intent does not match''"
| "coordinator_error_message LaunchIntentExpiredError = ''launch intent has expired''"
| "coordinator_error_message ActorMismatch = ''launch intent actor does not match''"
| "coordinator_error_message DeviceMismatch = ''launch intent device does not match''"
| "coordinator_error_message NoActiveLease = ''no active coordinator lease exists''"
| "coordinator_error_message StaleWriter = ''lease epoch or fencing token is stale''"
| "coordinator_error_message ReorderedHeartbeat = ''heartbeat time is older than the accepted heartbeat''"
| "coordinator_error_message RecoveryNotRequired = ''coordinator does not require recovery''"

lemmas transition_defs =
  issue_launch_intent_def claim_def recover_and_issue_launch_intent_def heartbeat_def
  release_def begin_drain_def tick_def mark_recovered_def timeout_if_due_def

end
