(* ===== verification/Coordinator_Safety.thy ===== *)
theory Coordinator_Safety
  imports Coordinator
begin

text \<open>
  The safety core of the profile coordinator: every refused command leaves the state exactly
  as it was, every accepted one keeps \<open>coordinator_inv\<close> (the writer lease exists exactly in
  the states \<open>Active\<close> and \<open>Draining\<close>, intents and the recovery reservation only in \<open>Idle\<close>,
  version is sequence plus one, the receipts are the last commands in order), and a
  transition touches neither the identity, the clock, the counters nor the receipts.
  \<open>coordinator_apply_Inr_cases\<close> and \<open>heartbeat_Inr_cases\<close> are the case analyses the later
  theories use.
\<close>

section \<open>Errors change nothing\<close>

lemma timeout_if_due_None [simp]: "fst (timeout_if_due now s) = None \<Longrightarrow> snd (timeout_if_due now s) = s"
  by (auto simp: timeout_if_due_def Let_def split: option.splits if_splits)

lemma timeout_if_due_eq_None: "timeout_if_due now s = (None, t) \<Longrightarrow> t = s"
  by (metis fst_conv snd_conv timeout_if_due_None)

lemma apply_new_error_unchanged: "apply_new c s = (Inl e, t) \<Longrightarrow> t = s"
  by (cases c)
     (auto simp: issue_launch_intent_def claim_def recover_and_issue_launch_intent_def heartbeat_def
       release_def begin_drain_def tick_def mark_recovered_def Let_def
       dest!: timeout_if_due_eq_None split: option.splits if_splits prod.splits sum.splits)

lemma coordinator_apply_error_unchanged: "coordinator_apply env s = (Inl e, t) \<Longrightarrow> t = s"
  by (auto simp: coordinator_apply_def Let_def dest: apply_new_error_unchanged
      split: option.splits if_splits prod.splits sum.splits)

section \<open>The invariant\<close>

definition config_ok :: "coordinator_config \<Rightarrow> bool" where
  "config_ok c \<longleftrightarrow> cc_idle_timeout_ms c \<noteq> 0 \<and> cc_hard_timeout_ms c \<noteq> 0
     \<and> cc_drain_timeout_ms c \<noteq> 0 \<and> cc_idle_timeout_ms c \<le> cc_hard_timeout_ms c"

definition lease_ok :: "coordinator_lease \<Rightarrow> bool" where
  "lease_ok l \<longleftrightarrow> cl_epoch l \<noteq> 0 \<and> cl_claimed_at l \<le> cl_last_heartbeat_at l
     \<and> cl_last_heartbeat_at l \<le> cl_idle_expires_at l \<and> cl_idle_expires_at l \<le> cl_hard_expires_at l"

definition shape_ok :: "coordinator_state \<Rightarrow> bool" where
  "shape_ok s \<longleftrightarrow>
     config_ok (cs_config s)
     \<and> (cs_active_lease s \<noteq> None \<longleftrightarrow> cs_status s = Active \<or> cs_status s = Draining)
     \<and> (\<forall>l. cs_active_lease s = Some l \<longrightarrow> lease_ok l \<and> cl_epoch l \<le> cs_next_epoch s)
     \<and> (cs_pending_intent s \<noteq> None \<longrightarrow> cs_status s = Idle)
     \<and> (cs_recovery_claim_pending s \<longrightarrow> cs_status s = Idle)
     \<and> (cs_drain_deadline s \<noteq> None \<longleftrightarrow> cs_status s = Draining)"

definition counter_ok :: "coordinator_state \<Rightarrow> bool" where
  "counter_ok s \<longleftrightarrow> unat (version_value (cs_version s)) = Suc (unat (cs_last_sequence s))"

lemma add_millis_Inr_iff: "add_millis v d = Inr t \<longleftrightarrow> checked_add v d = Some t"
  by (simp add: add_millis_def)

lemma add_millis_le: "add_millis v d = Inr t \<Longrightarrow> v \<le> t"
  by (auto simp: add_millis_Inr_iff dest: checked_add_le)

lemma add_millis_mono: "add_millis v d = Inr t \<Longrightarrow> add_millis v d' = Inr t' \<Longrightarrow> d \<le> d' \<Longrightarrow> t \<le> t'"
  by (auto simp: add_millis_Inr_iff intro: checked_add_mono)

lemma timeout_shape: "shape_ok s \<Longrightarrow> timeout_if_due now s = (o', t) \<Longrightarrow> shape_ok t"
  by (auto simp: timeout_if_due_def shape_ok_def Let_def split: option.splits if_splits)

lemma issue_shape: "shape_ok s \<Longrightarrow> shape_ok (snd (issue_launch_intent i a d now x s))"
  by (auto simp: issue_launch_intent_def shape_ok_def split: option.splits)

lemma recover_issue_shape:
  "shape_ok s \<Longrightarrow> shape_ok (snd (recover_and_issue_launch_intent i a d now x s))"
  by (auto simp: recover_and_issue_launch_intent_def shape_ok_def split: option.splits)

lemma claim_shape: "shape_ok s \<Longrightarrow> shape_ok (snd (claim i a d sid tok now s))"
  by (auto simp: claim_def shape_ok_def lease_ok_def config_ok_def Let_def add_millis_Inr_iff
      dest: checked_add_le checked_add_mono [OF _ _ order_refl] split: option.splits sum.splits if_splits)


lemma timeout_None_iff:
  "timeout_if_due now s = (None, t) \<longleftrightarrow> t = s \<and>
     (\<forall>l. cs_active_lease s = Some l \<longrightarrow> now < cl_idle_expires_at l \<and> now < cl_hard_expires_at l
        \<and> (cs_status s = Draining \<longrightarrow> (\<forall>d. cs_drain_deadline s = Some d \<longrightarrow> now < d)))"
  by (auto simp: timeout_if_due_def Let_def not_le split: option.splits if_splits)

lemma timeout_SomeD:
  "timeout_if_due now s = (Some out, t) \<Longrightarrow>
     (\<exists>k l. out = TimedOut k \<and> cs_active_lease s = Some l) \<and>
     t = s\<lparr>cs_active_lease := None, cs_pending_intent := None, cs_drain_deadline := None,
           cs_status := Uncertain\<rparr>"
  by (auto simp: timeout_if_due_def Let_def split: option.splits if_splits)

definition beat :: "unix_millis \<Rightarrow> unix_millis \<Rightarrow> unix_millis option \<Rightarrow> coordinator_lease \<Rightarrow> coordinator_lease" where
  "beat now proposed_idle proposed_hard l =
     (let hard = (case proposed_hard of None \<Rightarrow> cl_hard_expires_at l | Some h \<Rightarrow> h)
      in l\<lparr>cl_last_heartbeat_at := now, cl_hard_expires_at := hard,
           cl_idle_expires_at := min proposed_idle hard\<rparr>)"

lemma heartbeat_Inr_cases:
  assumes "heartbeat sid epoch tok now renew s = (Inr out, t)"
  obtains
    (timeout) k where "timeout_if_due now s = (Some (TimedOut k), t)" "out = TimedOut k"
  | (accepted) l idle hard where
      "cs_active_lease s = Some l" "accepts_writer l sid epoch tok"
      "cs_status s = Active \<or> cs_status s = Draining"
      "cl_last_heartbeat_at l \<le> now" "timeout_if_due now s = (None, s)"
      "add_millis now (cc_idle_timeout_ms (cs_config s)) = Inr idle"
      "renew \<Longrightarrow> \<exists>h. hard = Some h \<and> add_millis now (cc_hard_timeout_ms (cs_config s)) = Inr h"
      "\<not> renew \<Longrightarrow> hard = None"
      "t = s\<lparr>cs_active_lease := Some (beat now idle hard l)\<rparr>"
      "out = HeartbeatAccepted (cl_idle_expires_at (beat now idle hard l))"
proof -
  from assms obtain l where l: "cs_active_lease s = Some l" "accepts_writer l sid epoch tok"
      "cs_status s = Active \<or> cs_status s = Draining" "\<not> now < cl_last_heartbeat_at l"
    by (auto simp: heartbeat_def split: if_splits option.splits)
  obtain o1 s1 where o1: "timeout_if_due now s = (o1, s1)" by fastforce
  show thesis
  proof (cases o1)
    case (Some out1)
    with assms l o1 have "out = out1" "t = s1" by (auto simp: heartbeat_def)
    with timeout_SomeD [of now s out1 s1] o1 Some show thesis by (auto intro: timeout)
  next
    case None
    with o1 have s1: "s1 = s" by (simp add: timeout_None_iff)
    from assms l o1 None s1 obtain idle where idle:
        "add_millis now (cc_idle_timeout_ms (cs_config s)) = Inr idle"
      by (auto simp: heartbeat_def split: sum.splits)
    show thesis
    proof (cases renew)
      case True
      with assms l o1 None s1 idle obtain h where h:
          "add_millis now (cc_hard_timeout_ms (cs_config s)) = Inr h"
        by (auto simp: heartbeat_def split: sum.splits simp: res_bind_def)
      show thesis
        using assms l o1 None s1 idle h True
        by (intro accepted [of l idle "Some h"]) (auto simp: heartbeat_def beat_def Let_def)
    next
      case False
      show thesis
        using assms l o1 None s1 idle False
        by (intro accepted [of l idle None]) (auto simp: heartbeat_def beat_def Let_def)
    qed
  qed
qed

lemma beat_ok:
  assumes "lease_ok l" "cl_last_heartbeat_at l \<le> now" "now < cl_hard_expires_at l"
    "now \<le> idle" "\<And>h. hard = Some h \<Longrightarrow> now \<le> h"
  shows "lease_ok (beat now idle hard l)"
  using assms by (auto simp: lease_ok_def beat_def Let_def split: option.splits)

lemma heartbeat_shape:
  assumes "shape_ok s"
  shows "shape_ok (snd (heartbeat sid epoch tok now renew s))"
proof (cases "heartbeat sid epoch tok now renew s")
  case (Pair r t)
  show ?thesis
  proof (cases r)
    case (Inl e)
    have "apply_new (if renew then RenewLease sid epoch tok now else Heartbeat sid epoch tok now) s
        = (Inl e, t)"
      using Pair Inl by (cases renew) simp_all
    then show ?thesis using Pair assms by (auto dest: apply_new_error_unchanged)
  next
    case (Inr out)
    from Pair Inr have "heartbeat sid epoch tok now renew s = (Inr out, t)" by simp
    then show ?thesis
    proof (cases rule: heartbeat_Inr_cases)
      case timeout
      then show ?thesis using assms Pair timeout_shape by simp
    next
      case (accepted l idle hard)
      have "lease_ok (beat now idle hard l)"
        using accepted assms
        by (intro beat_ok) (auto simp: shape_ok_def timeout_None_iff dest: add_millis_le)
      then show ?thesis using accepted assms Pair
        by (auto simp: shape_ok_def beat_def Let_def)
    qed
  qed
qed

definition timed_out :: "coordinator_state \<Rightarrow> coordinator_state" where
  "timed_out s = s\<lparr>cs_active_lease := None, cs_pending_intent := None, cs_drain_deadline := None,
                   cs_status := Uncertain\<rparr>"

lemma timeout_cases:
  obtains (none) "timeout_if_due now s = (None, s)"
  | (due) k l where "timeout_if_due now s = (Some (TimedOut k), timed_out s)" "cs_active_lease s = Some l"
proof (cases "timeout_if_due now s")
  case (Pair o1 t)
  show thesis
  proof (cases o1)
    case None
    then show thesis using Pair none timeout_if_due_eq_None by metis
  next
    case (Some a)
    then show thesis using Pair due timeout_SomeD [of now s a t] by (auto simp: timed_out_def)
  qed
qed

lemma timed_out_shape: "shape_ok s \<Longrightarrow> cs_active_lease s \<noteq> None \<Longrightarrow> shape_ok (timed_out s)"
  by (auto simp: shape_ok_def timed_out_def)

lemma release_shape: "shape_ok s \<Longrightarrow> shape_ok (snd (release sid epoch tok disp now s))"
proof (cases rule: timeout_cases [of now s])
  case none
  assume "shape_ok s"
  with none show ?thesis
    by (cases disp) (auto simp: release_def shape_ok_def split: option.splits)
next
  case due
  assume "shape_ok s"
  with due show ?thesis by (simp add: release_def timed_out_shape)
qed

lemma begin_drain_shape: "shape_ok s \<Longrightarrow> shape_ok (snd (begin_drain now s))"
proof (cases rule: timeout_cases [of now s])
  case none
  assume "shape_ok s"
  with none show ?thesis
    by (auto simp: begin_drain_def shape_ok_def Let_def split: option.splits sum.splits)
next
  case due
  assume "shape_ok s"
  with due show ?thesis by (simp add: begin_drain_def timed_out_shape)
qed

lemma tick_shape: "shape_ok s \<Longrightarrow> shape_ok (snd (tick now s))"
proof (cases rule: timeout_cases [of now s])
  case none
  assume "shape_ok s"
  with none show ?thesis
    by (auto simp: tick_def shape_ok_def split: option.splits)
next
  case due
  assume "shape_ok s"
  with due have "cs_pending_intent s = None" by (auto simp: shape_ok_def)
  with due \<open>shape_ok s\<close> show ?thesis by (simp add: tick_def timed_out_shape)
qed

lemma mark_recovered_shape: "shape_ok s \<Longrightarrow> shape_ok (snd (mark_recovered now s))"
  by (auto simp: mark_recovered_def shape_ok_def)

lemmas transition_shapes = issue_shape recover_issue_shape claim_shape heartbeat_shape
  release_shape begin_drain_shape tick_shape mark_recovered_shape

lemma apply_new_shape: "shape_ok s \<Longrightarrow> shape_ok (snd (apply_new c s))"
  by (cases c) (simp_all add: transition_shapes)


section \<open>The command envelope\<close>

text \<open>
  A call of \<open>coordinator_apply\<close> is one of three: it answers from a receipt, it is refused, or it
  is a fresh command that runs its transition and moves version, sequence and clock.
\<close>

definition receipt_of ::
    "coordinator_command_envelope \<Rightarrow> coordinator_decision \<Rightarrow> command_receipt" where
  "receipt_of env d = \<lparr>rc_idempotency_key = ce_idempotency_key env, rc_sequence = ce_sequence env,
      rc_command = ce_command env, rc_decision = d\<rparr>"

definition commit_fresh ::
    "coordinator_command_envelope \<Rightarrow> coordinator_decision \<Rightarrow> coordinator_state \<Rightarrow> coordinator_state" where
  "commit_fresh env d s1 = s1\<lparr>cs_version := cd_version d, cs_last_sequence := ce_sequence env,
      cs_last_observed_at := observed_at (ce_command env),
      cs_receipts := push_receipt (receipt_of env d) (cs_receipts s1)\<rparr>"

definition fresh_key :: "coordinator_command_envelope \<Rightarrow> coordinator_state \<Rightarrow> bool" where
  "fresh_key env s \<longleftrightarrow> ce_idempotency_key env \<notin> rc_idempotency_key ` set (cs_receipts s)"

lemma find_key_None: "find (\<lambda>r. rc_idempotency_key r = k) rs = None \<longleftrightarrow> k \<notin> rc_idempotency_key ` set rs"
  by (auto simp: find_None_iff)

lemma coordinator_apply_Inr_cases:
  assumes "coordinator_apply env s = (Inr d, t)"
  obtains
    (replayed) r where "find (\<lambda>r. rc_idempotency_key r = ce_idempotency_key env) (cs_receipts s) = Some r"
      "rc_sequence r = ce_sequence env" "rc_command r = ce_command env" "d = rc_decision r" "t = s"
  | (fresh) out s1 where "fresh_key env s"
      "unat (ce_sequence env) = Suc (unat (cs_last_sequence s))"
      "ce_expected_version env = cs_version s"
      "cs_last_observed_at s \<le> observed_at (ce_command env)"
      "unat (version_value (cd_version d)) = Suc (unat (version_value (cs_version s)))"
      "apply_new (ce_command env) s = (Inr out, s1)"
      "cd_sequence d = ce_sequence env" "cd_outcome d = out"
      "t = commit_fresh env d s1"
proof (cases "find (\<lambda>r. rc_idempotency_key r = ce_idempotency_key env) (cs_receipts s)")
  case (Some r)
  then show thesis using assms replayed by (auto simp: coordinator_apply_def split: if_splits)
next
  case None
  then have "fresh_key env s" by (simp add: find_key_None fresh_key_def)
  moreover from assms None obtain n where n: "checked_add (cs_last_sequence s) 1 = Some n"
      "ce_sequence env = n" "ce_expected_version env = cs_version s"
      "\<not> observed_at (ce_command env) < cs_last_observed_at s"
    by (auto simp: coordinator_apply_def split: option.splits if_splits)
  moreover from assms None n obtain v out s1 where v: "version_next (cs_version s) = Inr v"
      "apply_new (ce_command env) s = (Inr out, s1)"
    by (auto simp: coordinator_apply_def split: option.splits if_splits sum.splits prod.splits)
  moreover from assms None n v have
      "d = \<lparr>cd_version = v, cd_sequence = ce_sequence env, cd_outcome = out\<rparr>"
      "t = commit_fresh env d s1"
    by (auto simp: coordinator_apply_def Let_def commit_fresh_def receipt_of_def)
  ultimately show thesis
    by (intro fresh [of out s1]) (auto simp: version_next_Inr_iff dest: checked_add_SomeD)
qed

lemma coordinator_apply_freshI:
  assumes "fresh_key env s" "unat (ce_sequence env) = Suc (unat (cs_last_sequence s))"
    "ce_expected_version env = cs_version s"
    "cs_last_observed_at s \<le> observed_at (ce_command env)"
    "unat (version_value v) = Suc (unat (version_value (cs_version s)))"
    "apply_new (ce_command env) s = (Inr out, s1)"
  shows "coordinator_apply env s =
    (Inr \<lparr>cd_version = v, cd_sequence = ce_sequence env, cd_outcome = out\<rparr>,
     commit_fresh env \<lparr>cd_version = v, cd_sequence = ce_sequence env, cd_outcome = out\<rparr> s1)"
proof -
  have "checked_add (cs_last_sequence s) 1 = Some (ce_sequence env)"
    using assms(2) by (simp add: checked_add_Some_iff)
  moreover have "version_next (cs_version s) = Inr v"
    using assms(5) by (simp add: version_next_Inr_iff)
  moreover have "find (\<lambda>r. rc_idempotency_key r = ce_idempotency_key env) (cs_receipts s) = None"
    using assms(1) by (simp add: find_key_None fresh_key_def)
  ultimately show ?thesis
    using assms by (auto simp: coordinator_apply_def commit_fresh_def receipt_of_def Let_def)
qed


section \<open>What a transition leaves alone\<close>

definition frame :: "coordinator_state \<Rightarrow> coordinator_state \<Rightarrow> bool" where
  "frame s t \<longleftrightarrow> cs_tenant_id t = cs_tenant_id s \<and> cs_profile_id t = cs_profile_id s
     \<and> cs_config t = cs_config s \<and> cs_version t = cs_version s
     \<and> cs_last_sequence t = cs_last_sequence s \<and> cs_last_observed_at t = cs_last_observed_at s
     \<and> cs_receipts t = cs_receipts s"

lemma frame_refl [simp]: "frame s s" by (simp add: frame_def)

lemma timed_out_frame [simp]: "frame s (timed_out s)" by (simp add: frame_def timed_out_def)

lemma heartbeat_frame: "frame s (snd (heartbeat sid epoch tok now renew s))"
proof (cases "heartbeat sid epoch tok now renew s")
  case (Pair r t)
  show ?thesis
  proof (cases r)
    case (Inl e)
    then show ?thesis using Pair apply_new_error_unchanged [of "Heartbeat sid epoch tok now" s]
        apply_new_error_unchanged [of "RenewLease sid epoch tok now" s] by (cases renew) auto
  next
    case (Inr out)
    from Pair Inr have "heartbeat sid epoch tok now renew s = (Inr out, t)" by simp
    then show ?thesis
      by (cases rule: heartbeat_Inr_cases; cases rule: timeout_cases [of now s])
         (auto simp: Pair frame_def timed_out_def)
  qed
qed

lemma apply_new_frame: "frame s (snd (apply_new c s))"
proof (cases c)
  case (Release sid epoch tok disp now)
  then show ?thesis
    by (cases rule: timeout_cases [of now s]) (auto simp: release_def frame_def timed_out_def split: option.splits)
next
  case (BeginDrain now)
  then show ?thesis
    by (cases rule: timeout_cases [of now s])
       (auto simp: begin_drain_def frame_def timed_out_def Let_def split: option.splits sum.splits)
next
  case (Tick now)
  then show ?thesis
    by (cases rule: timeout_cases [of now s]) (auto simp: tick_def frame_def timed_out_def split: option.splits)
next
  case (Heartbeat sid epoch tok now)
  then show ?thesis by (simp add: heartbeat_frame)
next
  case (RenewLease sid epoch tok now)
  then show ?thesis by (simp add: heartbeat_frame)
qed (auto simp: issue_launch_intent_def claim_def recover_and_issue_launch_intent_def
       mark_recovered_def frame_def Let_def split: option.splits sum.splits)

lemma apply_new_frameD: "apply_new c s = (r, t) \<Longrightarrow> frame s t"
  using apply_new_frame [of s c] by simp

section \<open>The idempotency window\<close>

definition recent :: "nat \<Rightarrow> 'a list \<Rightarrow> 'a list" where
  "recent n xs = drop (length xs - n) xs"

lemma length_recent [simp]: "length (recent n xs) = min n (length xs)"
  by (simp add: recent_def)

lemma recent_all [simp]: "length xs \<le> n \<Longrightarrow> recent n xs = xs"
  by (simp add: recent_def)

lemma recent_append: "n \<le> length ys \<Longrightarrow> recent n (xs @ ys) = recent n ys"
  by (simp add: recent_def)

lemma recent_recent_snoc: "0 < n \<Longrightarrow> recent n (recent n xs @ [y]) = recent n (xs @ [y])"
  by (cases "length xs \<le> n") (auto simp: recent_def drop_Suc_Cons Suc_diff_le)

lemma set_recent: "set (recent n xs) \<subseteq> set xs"
  by (simp add: recent_def set_drop_subset)

lemma map_recent: "map f (recent n xs) = recent n (map f xs)"
  by (simp add: recent_def drop_map)

lemma recent_suffix: "suffix zs xs \<Longrightarrow> suffix (recent n zs) (recent n xs)"
  by (auto simp: suffix_def recent_def)

lemma push_receipt_recent:
  "length rs \<le> receipt_limit \<Longrightarrow> push_receipt r rs = recent receipt_limit (rs @ [r])"
  by (cases "length rs = receipt_limit") (auto simp: push_receipt_def recent_def drop_Suc Let_def simp del: drop_append)

lemma distinct_recent: "distinct xs \<Longrightarrow> distinct (recent n xs)"
  by (simp add: recent_def)

lemma recent_upt: "recent k [a..<b] = [max a (b - k)..<b]"
proof (cases "a \<le> b")
  case True
  then have "a + (b - a - k) = max a (b - k)" by auto
  then show ?thesis by (simp add: recent_def)
qed (simp add: recent_def)

definition receipts_ok :: "coordinator_state \<Rightarrow> bool" where
  "receipts_ok s \<longleftrightarrow> length (cs_receipts s) \<le> receipt_limit
     \<and> distinct (map rc_idempotency_key (cs_receipts s))
     \<and> map (\<lambda>r. unat (rc_sequence r)) (cs_receipts s)
        = [Suc (unat (cs_last_sequence s)) - length (cs_receipts s) ..< Suc (unat (cs_last_sequence s))]
     \<and> length (cs_receipts s) \<le> unat (cs_last_sequence s)
     \<and> (\<forall>r \<in> set (cs_receipts s). cd_sequence (rc_decision r) = rc_sequence r)"

definition coordinator_inv :: "coordinator_state \<Rightarrow> bool" where
  "coordinator_inv s \<longleftrightarrow> shape_ok s \<and> counter_ok s \<and> receipts_ok s"

lemma commit_fresh_receipts_ok:
  assumes "receipts_ok s" "frame s s1" "fresh_key env s"
    "unat (ce_sequence env) = Suc (unat (cs_last_sequence s))" "cd_sequence d = ce_sequence env"
  shows "receipts_ok (commit_fresh env d s1)"
proof -
  let ?rs = "cs_receipts s" and ?n = "unat (cs_last_sequence s)"
  let ?r = "receipt_of env d"
  let ?t = "commit_fresh env d s1"
  have rs: "cs_receipts ?t = recent receipt_limit (?rs @ [?r])"
    using assms by (simp add: commit_fresh_def frame_def push_receipt_recent receipts_ok_def)
  have seq: "unat (cs_last_sequence ?t) = Suc ?n" using assms by (simp add: commit_fresh_def)
  have "map (\<lambda>r. unat (rc_sequence r)) (?rs @ [?r]) = [Suc ?n - length ?rs ..< Suc ?n] @ [Suc ?n]"
    using assms by (simp add: receipts_ok_def receipt_of_def)
  also have "\<dots> = [Suc (Suc ?n) - length (?rs @ [?r]) ..< Suc (Suc ?n)]"
    using assms(1) by (simp add: receipts_ok_def)
  finally have "map (\<lambda>r. unat (rc_sequence r)) (cs_receipts ?t)
      = recent receipt_limit [Suc (Suc ?n) - length (?rs @ [?r]) ..< Suc (Suc ?n)]"
    by (simp only: rs map_recent)
  also have "\<dots> = [Suc (Suc ?n) - length (cs_receipts ?t) ..< Suc (Suc ?n)]"
    using assms(1) by (simp only: recent_upt) (auto simp: rs receipts_ok_def intro!: arg_cong2 [of _ _ _ _ upt])
  finally have seqs: "map (\<lambda>r. unat (rc_sequence r)) (cs_receipts ?t)
      = [Suc (Suc ?n) - length (cs_receipts ?t) ..< Suc (Suc ?n)]" .
  have "distinct (map rc_idempotency_key (?rs @ [?r]))"
    using assms by (auto simp: receipts_ok_def fresh_key_def receipt_of_def)
  then have "distinct (map rc_idempotency_key (cs_receipts ?t))"
    by (simp only: rs map_recent distinct_recent)
  moreover have "\<forall>r \<in> set (cs_receipts ?t). cd_sequence (rc_decision r) = rc_sequence r"
    using assms set_recent [of receipt_limit "?rs @ [?r]"]
    by (auto simp: rs receipts_ok_def receipt_of_def)
  ultimately show ?thesis
    using seqs seq assms(1) by (auto simp: receipts_ok_def rs)
qed

lemma coordinator_apply_inv:
  assumes "coordinator_inv s"
  shows "coordinator_inv (snd (coordinator_apply env s))"
proof (cases "coordinator_apply env s")
  case (Pair r t)
  show ?thesis
  proof (cases r)
    case (Inl e)
    then show ?thesis using Pair assms by (auto dest: coordinator_apply_error_unchanged)
  next
    case (Inr d)
    with Pair have "coordinator_apply env s = (Inr d, t)" by simp
    then show ?thesis
    proof (cases rule: coordinator_apply_Inr_cases)
      case replayed
      then show ?thesis using Pair assms by simp
    next
      case (fresh out s1)
      have "frame s s1" using fresh(6) by (rule apply_new_frameD)
      moreover have "shape_ok s1"
        using apply_new_shape [of s "ce_command env"] fresh(6) assms by (simp add: coordinator_inv_def)
      ultimately show ?thesis
        using fresh assms Pair commit_fresh_receipts_ok [of s s1 env d]
        by (auto simp: coordinator_inv_def commit_fresh_def shape_ok_def counter_ok_def)
    qed
  qed
qed

lemma coordinator_new_inv: "config_ok c \<Longrightarrow> coordinator_inv (coordinator_new t p c)"
  by (simp add: coordinator_inv_def coordinator_new_def shape_ok_def counter_ok_def receipts_ok_def)

lemma coordinator_apply_error_same: "fst (coordinator_apply env s) = Inl e \<Longrightarrow> snd (coordinator_apply env s) = s"
  by (cases "coordinator_apply env s") (auto dest: coordinator_apply_error_unchanged)

interpretation coord: atomic_machine coordinator_apply coordinator_inv
  by unfold_locales (auto intro: coordinator_apply_inv coordinator_apply_error_same)

end
