(* ===== verification/Coordinator_Progress.thy ===== *)
theory Coordinator_Progress
  imports Coordinator_Safety
begin

text \<open>
  Checkpoints, fencing and reachability of the profile coordinator: what \<open>restore_checkpoint\<close>
  accepts and rebuilds, that a transition never looks at the receipts, how the writer lease
  and the epoch counter move (\<open>lease_step\<close> for one command, \<open>fence_order\<close> for a run), and the
  facts of the states reachable from creation (\<open>live_ok\<close>, \<open>clock_ok\<close>).
\<close>

section \<open>Checkpoints\<close>

lemma restore_of_checkpoint:
  assumes "coordinator_inv s"
  shows "restore_checkpoint (cs_tenant_id s) (cs_profile_id s) (cs_config s)
           (coordinator_checkpoint_of s) = Inr (s\<lparr>cs_receipts := []\<rparr>)"
proof -
  have "checked_add (cs_last_sequence s) 1 = Some (version_value (cs_version s))"
    using assms by (simp add: checked_add_Some_iff coordinator_inv_def counter_ok_def)
  then show ?thesis
    using assms
    by (auto simp: restore_checkpoint_def coordinator_checkpoint_of_def coordinator_inv_def
        shape_ok_def not_less split: option.splits)
qed

lemma restore_checkpoint_inv:
  assumes "restore_checkpoint t p c snap = Inr s" "config_ok c"
    "\<And>l. cp_active_lease snap = Some l \<Longrightarrow> lease_ok l"
  shows "coordinator_inv s" and "coordinator_checkpoint_of s = snap"
  using assms
  by (auto simp: restore_checkpoint_def coordinator_inv_def shape_ok_def counter_ok_def receipts_ok_def
      coordinator_checkpoint_of_def not_less Let_def dest: checked_add_SomeD
      split: option.splits if_splits)

section \<open>Forgetting receipts\<close>

lemma timeout_if_due_receipts:
  "timeout_if_due now (s\<lparr>cs_receipts := rs\<rparr>) = map_prod id (\<lambda>t. t\<lparr>cs_receipts := rs\<rparr>) (timeout_if_due now s)"
  by (auto simp: timeout_if_due_def Let_def split: option.splits)

lemma heartbeat_receipts:
  "heartbeat sid epoch tok now renew (s\<lparr>cs_receipts := rs\<rparr>)
     = map_prod id (\<lambda>t. t\<lparr>cs_receipts := rs\<rparr>) (heartbeat sid epoch tok now renew s)"
  by (cases rule: timeout_cases [of now s])
     (auto simp: heartbeat_def timeout_if_due_receipts Let_def split: option.splits sum.splits)

lemma apply_new_receipts:
  "apply_new c (s\<lparr>cs_receipts := rs\<rparr>) = map_prod id (\<lambda>t. t\<lparr>cs_receipts := rs\<rparr>) (apply_new c s)"
proof (cases c)
  case (Release sid epoch tok disp now)
  then show ?thesis
    by (cases rule: timeout_cases [of now s])
       (auto simp: release_def timeout_if_due_receipts split: option.splits)
next
  case (BeginDrain now)
  then show ?thesis
    by (cases rule: timeout_cases [of now s])
       (auto simp: begin_drain_def timeout_if_due_receipts Let_def split: option.splits sum.splits)
next
  case (Tick now)
  then show ?thesis
    by (cases rule: timeout_cases [of now s])
       (auto simp: tick_def timeout_if_due_receipts split: option.splits)
next
  case (Heartbeat sid epoch tok now)
  then show ?thesis by (simp add: heartbeat_receipts)
next
  case (RenewLease sid epoch tok now)
  then show ?thesis by (simp add: heartbeat_receipts)
qed (auto simp: issue_launch_intent_def claim_def recover_and_issue_launch_intent_def
       mark_recovered_def Let_def split: option.splits sum.splits)

section \<open>Fencing\<close>

definition lease_identity :: "coordinator_lease \<Rightarrow> session_id \<times> device_id \<times> u64 \<times> fencing_token \<times> unix_millis" where
  "lease_identity l = (cl_session_id l, cl_device_id l, cl_epoch l, cl_fencing_token l, cl_claimed_at l)"

text \<open>What one command can do to the writer lease and the epoch counter.\<close>

definition lease_step :: "coordinator_state \<Rightarrow> coordinator_state \<Rightarrow> bool" where
  "lease_step s t \<longleftrightarrow>
     (cs_next_epoch t = cs_next_epoch s \<and>
       (\<forall>l'. cs_active_lease t = Some l' \<longrightarrow>
          (\<exists>l. cs_active_lease s = Some l \<and> lease_identity l' = lease_identity l)))
     \<or> (cs_active_lease s = None \<and>
       (\<exists>l'. cs_active_lease t = Some l' \<and> cl_epoch l' = cs_next_epoch t
          \<and> unat (cs_next_epoch t) = Suc (unat (cs_next_epoch s))))"

lemma lease_step_refl [simp]: "lease_step s s"
  by (auto simp: lease_step_def)

lemma timed_out_lease_step [simp]: "lease_step s (timed_out s)"
  by (simp add: lease_step_def timed_out_def)

lemma lease_step_None: "cs_next_epoch t = cs_next_epoch s \<Longrightarrow> cs_active_lease t = None \<Longrightarrow> lease_step s t"
  by (simp add: lease_step_def)

lemma heartbeat_lease_step: "lease_step s (snd (heartbeat sid epoch tok now renew s))"
proof (cases "heartbeat sid epoch tok now renew s")
  case (Pair r t)
  show ?thesis
  proof (cases r)
    case (Inl e)
    then show ?thesis using Pair apply_new_error_unchanged [of "Heartbeat sid epoch tok now" s]
        apply_new_error_unchanged [of "RenewLease sid epoch tok now" s] by (cases renew) auto
  next
    case (Inr out)
    from Pair Inr have "heartbeat sid epoch tok now renew s = (Inr out, t)" by simp
    then show ?thesis
      by (cases rule: heartbeat_Inr_cases; cases rule: timeout_cases [of now s])
         (auto simp: Pair lease_step_def timed_out_def lease_identity_def beat_def Let_def)
  qed
qed

lemma apply_new_lease_step: "lease_step s (snd (apply_new c s))"
proof (cases c)
  case (Release sid epoch tok disp now)
  then show ?thesis
    by (cases rule: timeout_cases [of now s]) (auto simp: release_def lease_step_None split: option.splits)
next
  case (BeginDrain now)
  then show ?thesis
    by (cases rule: timeout_cases [of now s])
       (auto simp: begin_drain_def lease_step_def timed_out_def Let_def split: option.splits sum.splits)
next
  case (Tick now)
  then show ?thesis
    by (cases rule: timeout_cases [of now s])
       (auto simp: tick_def lease_step_def timed_out_def split: option.splits)
next
  case (Heartbeat sid epoch tok now)
  then show ?thesis by (simp add: heartbeat_lease_step)
next
  case (RenewLease sid epoch tok now)
  then show ?thesis by (simp add: heartbeat_lease_step)
next
  case (Claim i a d sid tok now)
  then show ?thesis
    by (auto simp: claim_def lease_step_def Let_def dest!: checked_add_SomeD split: option.splits sum.splits)
qed (auto simp: issue_launch_intent_def recover_and_issue_launch_intent_def mark_recovered_def
       lease_step_def split: option.splits)

lemma lease_step_cong:
  "cs_next_epoch u = cs_next_epoch t \<Longrightarrow> cs_active_lease u = cs_active_lease t \<Longrightarrow> lease_step s u = lease_step s t"
  by (simp add: lease_step_def)

lemma coordinator_apply_lease_step: "lease_step s (snd (coordinator_apply env s))"
proof (cases "coordinator_apply env s")
  case (Pair r t)
  show ?thesis
  proof (cases r)
    case (Inl e)
    then show ?thesis using Pair by (auto dest: coordinator_apply_error_unchanged)
  next
    case (Inr d)
    with Pair have "coordinator_apply env s = (Inr d, t)" by simp
    then show ?thesis
    proof (cases rule: coordinator_apply_Inr_cases)
      case replayed
      then show ?thesis using Pair by simp
    next
      case (fresh out s1)
      have "lease_step s s1" using apply_new_lease_step [of s "ce_command env"] fresh(6) by simp
      then show ?thesis using fresh Pair lease_step_cong [of t s1 s] by (simp add: commit_fresh_def)
    qed
  qed
qed

text \<open>Over a run: an epoch is handed out once, and the counter never goes back.\<close>

definition fence_order :: "coordinator_state \<Rightarrow> coordinator_state \<Rightarrow> bool" where
  "fence_order s t \<longleftrightarrow> cs_next_epoch s \<le> cs_next_epoch t \<and>
     (\<forall>l'. cs_active_lease t = Some l' \<longrightarrow>
        cs_next_epoch s < cl_epoch l'
        \<or> (\<exists>l. cs_active_lease s = Some l \<and> lease_identity l' = lease_identity l))"

lemma fence_order_refl [simp]: "fence_order s s"
  by (auto simp: fence_order_def)

lemma lease_step_fence_order: "lease_step s t \<Longrightarrow> fence_order s t"
  by (auto simp: lease_step_def fence_order_def word_less_nat_alt word_le_nat_alt)

lemma lease_identity_epoch: "lease_identity l = lease_identity l' \<Longrightarrow> cl_epoch l = cl_epoch l'"
  by (simp add: lease_identity_def)

lemma fence_order_trans: "fence_order s t \<Longrightarrow> fence_order t u \<Longrightarrow> fence_order s u"
  unfolding fence_order_def
  by (metis (no_types, lifting) lease_identity_epoch order.strict_trans1 order.trans)

lemma run_fence_order: "fence_order s (run_commands coordinator_apply envs s)"
proof (induction envs arbitrary: s)
  case (Cons env envs)
  then show ?case
    using lease_step_fence_order [OF coordinator_apply_lease_step] fence_order_trans by fastforce
qed simp


section \<open>Reachable states\<close>

inductive coordinator_reachable :: "coordinator_state \<Rightarrow> bool" where
  created: "coordinator_config_new i h d = Inr config \<Longrightarrow>
    coordinator_reachable (coordinator_new tenant_id profile_id config)"
| commanded: "coordinator_reachable s \<Longrightarrow> coordinator_reachable (snd (coordinator_apply env s))"

lemma config_new_ok: "coordinator_config_new i h d = Inr c \<Longrightarrow> config_ok c"
  by (auto simp: coordinator_config_new_def config_ok_def split: if_splits)

lemma reachable_inv: "coordinator_reachable s \<Longrightarrow> coordinator_inv s"
  by (induction rule: coordinator_reachable.induct)
     (auto intro: coordinator_new_inv config_new_ok coordinator_apply_inv)

text \<open>
  What holds on the way from creation but is not checked on restore: the heartbeat clock
  runs behind the coordinator clock, the lease carries the newest epoch, and no deadline
  outlives the hard one, which lies at most one hard timeout after the last heartbeat.
\<close>

definition live_ok :: "coordinator_state \<Rightarrow> bool" where
  "live_ok s \<longleftrightarrow> (\<forall>l. cs_active_lease s = Some l \<longrightarrow>
     cl_epoch l = cs_next_epoch s
     \<and> unat (cl_hard_expires_at l)
         \<le> unat (cl_last_heartbeat_at l) + unat (cc_hard_timeout_ms (cs_config s))
     \<and> (\<forall>d. cs_drain_deadline s = Some d \<longrightarrow> d \<le> cl_hard_expires_at l))"

definition clock_ok :: "coordinator_state \<Rightarrow> bool" where
  "clock_ok s \<longleftrightarrow> (\<forall>l. cs_active_lease s = Some l \<longrightarrow> cl_last_heartbeat_at l \<le> cs_last_observed_at s)"

lemma timed_out_live [simp]: "live_ok (timed_out s)"
  by (simp add: live_ok_def timed_out_def)

lemma heartbeat_live:
  assumes "live_ok s"
  shows "live_ok (snd (heartbeat sid epoch tok now renew s))"
proof (cases "heartbeat sid epoch tok now renew s")
  case (Pair r t)
  show ?thesis
  proof (cases r)
    case (Inl e)
    then show ?thesis using Pair apply_new_error_unchanged [of "Heartbeat sid epoch tok now" s] assms
        apply_new_error_unchanged [of "RenewLease sid epoch tok now" s] by (cases renew) auto
  next
    case (Inr out)
    from Pair Inr have "heartbeat sid epoch tok now renew s = (Inr out, t)" by simp
    then show ?thesis
    proof (cases rule: heartbeat_Inr_cases)
      case (timeout k)
      then show ?thesis using Pair by (cases rule: timeout_cases [of now s]) auto
    next
      case (accepted l idle hard)
      let ?h = "cl_hard_expires_at (beat now idle hard l)"
      have "unat ?h \<le> unat now + unat (cc_hard_timeout_ms (cs_config s))"
        using accepted assms
        by (cases renew) (auto simp: beat_def live_ok_def add_millis_Inr_iff word_le_nat_alt Let_def
            dest: checked_add_SomeD)
      moreover have "cl_hard_expires_at l \<le> ?h"
        using accepted assms
        by (cases renew) (auto simp: beat_def live_ok_def add_millis_Inr_iff word_le_nat_alt Let_def
            dest!: checked_add_SomeD)
      ultimately show ?thesis
        using accepted assms Pair by (fastforce simp: live_ok_def beat_def Let_def)
    qed
  qed
qed

lemma apply_new_live: "live_ok s \<Longrightarrow> live_ok (snd (apply_new c s))"
proof (cases c)
  case (Release sid epoch tok disp now)
  assume "live_ok s"
  then show ?thesis using Release
    by (cases rule: timeout_cases [of now s])
       (auto simp: release_def live_ok_def timed_out_def split: option.splits)
next
  case (BeginDrain now)
  assume "live_ok s"
  then show ?thesis using BeginDrain
    by (cases rule: timeout_cases [of now s])
       (auto simp: begin_drain_def live_ok_def timed_out_def Let_def split: option.splits sum.splits)
next
  case (Tick now)
  assume "live_ok s"
  then show ?thesis using Tick
    by (cases rule: timeout_cases [of now s])
       (auto simp: tick_def live_ok_def timed_out_def split: option.splits)
next
  case (Heartbeat sid epoch tok now)
  assume "live_ok s"
  then show ?thesis using Heartbeat by (simp add: heartbeat_live)
next
  case (RenewLease sid epoch tok now)
  assume "live_ok s"
  then show ?thesis using RenewLease by (simp add: heartbeat_live)
next
  case (Claim i a d sid tok now)
  assume "live_ok s"
  then show ?thesis using Claim
    by (auto simp: claim_def live_ok_def Let_def add_millis_Inr_iff dest: checked_add_SomeD
        split: option.splits sum.splits)
qed (auto simp: issue_launch_intent_def recover_and_issue_launch_intent_def mark_recovered_def
       live_ok_def split: option.splits)

text \<open>A transition stamps a heartbeat with its own time, or leaves the old one.\<close>

lemma apply_new_heartbeat_time:
  assumes "apply_new c s = (r, t)" "cs_active_lease t = Some l'"
  shows "cl_last_heartbeat_at l' = observed_at c
     \<or> (\<exists>l. cs_active_lease s = Some l \<and> cl_last_heartbeat_at l' = cl_last_heartbeat_at l)"
proof (cases r)
  case (Inl e)
  then show ?thesis using assms apply_new_error_unchanged [of c s e t] by simp
next
  case (Inr out)
  have beat: ?thesis if "heartbeat sid epoch tok (observed_at c) renew s = (Inr out, t)"
    for sid epoch tok renew
    using that
  proof (cases rule: heartbeat_Inr_cases)
    case (timeout k)
    then show ?thesis using assms(2)
      by (cases rule: timeout_cases [of "observed_at c" s]) (auto simp: timed_out_def)
  next
    case (accepted l idle hard)
    then show ?thesis using assms(2) by (auto simp: beat_def Let_def)
  qed
  show ?thesis
  proof (cases c)
    case (Release sid epoch tok disp now)
    then show ?thesis using assms
      by (cases rule: timeout_cases [of now s])
         (auto simp: release_def timed_out_def split: option.splits if_splits)
  next
    case (BeginDrain now)
    then show ?thesis using assms
      by (cases rule: timeout_cases [of now s])
         (auto simp: begin_drain_def timed_out_def Let_def split: option.splits sum.splits if_splits)
  next
    case (Tick now)
    then show ?thesis using assms
      by (cases rule: timeout_cases [of now s])
         (auto simp: tick_def timed_out_def split: option.splits if_splits)
  next
    case (Heartbeat sid epoch tok now)
    then show ?thesis using assms Inr by (intro beat [of sid epoch tok False]) simp
  next
    case (RenewLease sid epoch tok now)
    then show ?thesis using assms Inr by (intro beat [of sid epoch tok True]) simp
  qed (use assms in \<open>auto simp: issue_launch_intent_def claim_def recover_and_issue_launch_intent_def
      mark_recovered_def Let_def split: option.splits sum.splits if_splits\<close>)
qed

lemma coordinator_apply_live:
  assumes "live_ok s" "clock_ok s"
  shows "live_ok (snd (coordinator_apply env s)) \<and> clock_ok (snd (coordinator_apply env s))"
proof (cases "coordinator_apply env s")
  case (Pair r t)
  show ?thesis
  proof (cases r)
    case (Inl e)
    then show ?thesis using Pair assms by (auto dest: coordinator_apply_error_unchanged)
  next
    case (Inr d)
    with Pair have "coordinator_apply env s = (Inr d, t)" by simp
    then show ?thesis
    proof (cases rule: coordinator_apply_Inr_cases)
      case replayed
      then show ?thesis using Pair assms by simp
    next
      case (fresh out s1)
      have "live_ok s1" using apply_new_live [OF assms(1), of "ce_command env"] fresh(6) by simp
      moreover have "clock_ok t"
        using apply_new_heartbeat_time [OF fresh(6)] assms(2) fresh(4,9)
        by (fastforce simp: clock_ok_def commit_fresh_def)
      ultimately show ?thesis using fresh Pair by (simp add: live_ok_def commit_fresh_def)
    qed
  qed
qed

lemma coordinator_new_live: "live_ok (coordinator_new t p c) \<and> clock_ok (coordinator_new t p c)"
  by (simp add: live_ok_def clock_ok_def coordinator_new_def)

lemma reachable_live: "coordinator_reachable s \<Longrightarrow> live_ok s \<and> clock_ok s"
proof (induction rule: coordinator_reachable.induct)
  case (created i h d config tenant_id profile_id)
  show ?case by (rule coordinator_new_live)
next
  case (commanded s env)
  then show ?case by (intro coordinator_apply_live) auto
qed

end
