(* ===== verification/Coordinator_Replay.thy ===== *)
theory Coordinator_Replay
  imports Coordinator_Progress
begin

text \<open>
  Histories of the profile coordinator: a command is answered from its receipt as long as
  fewer than \<open>receipt_limit\<close> commands followed it, and a recorded suffix of a history replays
  from a checkpoint, which holds no receipts, to the state the full history reaches.
\<close>

section \<open>The idempotency window over a run\<close>

lemma coordinator_apply_receipts:
  assumes "coordinator_inv s"
  shows "\<exists>new. cs_receipts (snd (coordinator_apply env s)) = recent receipt_limit (cs_receipts s @ new)
     \<and> unat (cs_last_sequence (snd (coordinator_apply env s))) = unat (cs_last_sequence s) + length new"
proof (cases "coordinator_apply env s")
  case (Pair r t)
  have short: "length (cs_receipts s) \<le> receipt_limit"
    using assms by (simp add: coordinator_inv_def receipts_ok_def)
  show ?thesis
  proof (cases r)
    case (Inl e)
    then show ?thesis using Pair short
      by (intro exI [of _ "[]"]) (auto dest: coordinator_apply_error_unchanged)
  next
    case (Inr d)
    with Pair have "coordinator_apply env s = (Inr d, t)" by simp
    then show ?thesis
    proof (cases rule: coordinator_apply_Inr_cases)
      case replayed
      then show ?thesis using Pair short by (intro exI [of _ "[]"]) simp
    next
      case (fresh out s1)
      have "frame s s1" using fresh(6) by (rule apply_new_frameD)
      then show ?thesis using fresh Pair short
        by (intro exI [of _ "[receipt_of env d]"])
           (simp add: commit_fresh_def frame_def push_receipt_recent)
    qed
  qed
qed

lemma recent_recent_append: "recent n (recent n xs @ ys) = recent n (xs @ ys)"
  by (cases "length xs \<le> n") (auto simp: recent_def add.commute)

lemma run_receipts:
  assumes "coordinator_inv s"
  shows "\<exists>new. cs_receipts (run_commands coordinator_apply envs s) = recent receipt_limit (cs_receipts s @ new)
     \<and> unat (cs_last_sequence (run_commands coordinator_apply envs s)) = unat (cs_last_sequence s) + length new"
  using assms
proof (induction envs arbitrary: s)
  case Nil
  then show ?case by (intro exI [of _ "[]"]) (simp add: coordinator_inv_def receipts_ok_def)
next
  case (Cons env envs)
  let ?t = "snd (coordinator_apply env s)"
  obtain n1 where n1: "cs_receipts ?t = recent receipt_limit (cs_receipts s @ n1)"
      "unat (cs_last_sequence ?t) = unat (cs_last_sequence s) + length n1"
    using coordinator_apply_receipts [OF Cons.prems] by blast
  obtain n2 where n2: "cs_receipts (run_commands coordinator_apply envs ?t) = recent receipt_limit (cs_receipts ?t @ n2)"
      "unat (cs_last_sequence (run_commands coordinator_apply envs ?t)) = unat (cs_last_sequence ?t) + length n2"
    using Cons.IH [OF coordinator_apply_inv [OF Cons.prems]] by blast
  from n1 n2 show ?case
    by (intro exI [of _ "n1 @ n2"]) (simp add: recent_recent_append)
qed

lemma find_key_distinct:
  "distinct (map rc_idempotency_key rs) \<Longrightarrow> r \<in> set rs \<Longrightarrow>
   find (\<lambda>x. rc_idempotency_key x = rc_idempotency_key r) rs = Some r"
  by (induction rs) auto

lemma mem_recent_middle: "length zs < n \<Longrightarrow> r \<in> set (recent n (recent n (xs @ [r]) @ zs))"
  by (auto simp: recent_recent_append recent_def)

lemma replayed_within_window:
  assumes "coordinator_inv s" "coordinator_apply env s = (Inr d, t)"
    "cs_last_sequence t \<noteq> cs_last_sequence s"
    "u = run_commands coordinator_apply envs t"
    "unat (cs_last_sequence u) < unat (cs_last_sequence t) + receipt_limit"
  shows "coordinator_apply env u = (Inr d, u)"
proof -
  have short: "length (cs_receipts s) \<le> receipt_limit"
    using assms(1) by (simp add: coordinator_inv_def receipts_ok_def)
  from assms(2) obtain s1 where t: "t = commit_fresh env d s1" and fr: "frame s s1"
    by (cases rule: coordinator_apply_Inr_cases) (use assms(3) in \<open>auto dest: apply_new_frameD\<close>)
  then have rt: "cs_receipts t = recent receipt_limit (cs_receipts s @ [receipt_of env d])"
    using short by (simp add: commit_fresh_def frame_def push_receipt_recent)
  have inv_t: "coordinator_inv t" using coordinator_apply_inv [OF assms(1), of env] assms(2) by simp
  obtain new where new: "cs_receipts u = recent receipt_limit (cs_receipts t @ new)"
      "unat (cs_last_sequence u) = unat (cs_last_sequence t) + length new"
    using run_receipts [OF inv_t, of envs] assms(4) by auto
  have "receipt_of env d \<in> set (cs_receipts u)"
    using new assms(5) rt mem_recent_middle [of new receipt_limit] by simp
  moreover have "distinct (map rc_idempotency_key (cs_receipts u))"
    using coord.run_inv [OF inv_t, of envs] assms(4) by (simp add: coordinator_inv_def receipts_ok_def)
  ultimately have "find (\<lambda>x. rc_idempotency_key x = ce_idempotency_key env) (cs_receipts u) = Some (receipt_of env d)"
    using find_key_distinct [of "cs_receipts u" "receipt_of env d"] by (simp add: receipt_of_def)
  then show ?thesis by (simp add: coordinator_apply_def receipt_of_def)
qed

section \<open>Replaying a journal\<close>

text \<open>
  \<open>replay_all\<close> applies recorded commands and stops at the first error.  \<open>follows s t\<close>: the
  state \<open>t\<close> is \<open>s\<close> with some of the oldest receipts forgotten.
\<close>

fun replay_all :: "coordinator_command_envelope list \<Rightarrow> coordinator_state \<Rightarrow> coordinator_error + coordinator_state" where
  "replay_all [] s = Inr s"
| "replay_all (env # envs) s =
     (case coordinator_apply env s of (Inl e, _) \<Rightarrow> Inl e | (Inr _, t) \<Rightarrow> replay_all envs t)"

definition follows :: "coordinator_state \<Rightarrow> coordinator_state \<Rightarrow> bool" where
  "follows s t \<longleftrightarrow> (\<exists>rs. t = s\<lparr>cs_receipts := rs\<rparr> \<and> suffix rs (cs_receipts s))"

definition appends :: "coordinator_command_envelope \<Rightarrow> coordinator_state \<Rightarrow> coordinator_state \<Rightarrow> coordinator_decision \<Rightarrow> bool" where
  "appends env s t d \<longleftrightarrow> coordinator_apply env s = (Inr d, t) \<and> cs_last_sequence t \<noteq> cs_last_sequence s"

lemma appendsE:
  assumes "appends env s t d" "length (cs_receipts s) \<le> receipt_limit"
  obtains out s1 where "fresh_key env s" "unat (ce_sequence env) = Suc (unat (cs_last_sequence s))"
      "ce_expected_version env = cs_version s"
      "cs_last_observed_at s \<le> observed_at (ce_command env)"
      "unat (version_value (cd_version d)) = Suc (unat (version_value (cs_version s)))"
      "apply_new (ce_command env) s = (Inr out, s1)"
      "d = \<lparr>cd_version = cd_version d, cd_sequence = ce_sequence env, cd_outcome = out\<rparr>"
      "t = commit_fresh env d s1" "frame s s1"
      "cs_receipts t = recent receipt_limit (cs_receipts s @ [receipt_of env d])"
      "unat (cs_last_sequence t) = Suc (unat (cs_last_sequence s))"
proof -
  from assms(1) have "coordinator_apply env s = (Inr d, t)" and ne: "cs_last_sequence t \<noteq> cs_last_sequence s"
    by (auto simp: appends_def)
  then show thesis
  proof (cases rule: coordinator_apply_Inr_cases)
    case replayed
    then show thesis using ne by simp
  next
    case (fresh out s1)
    have "frame s s1" using fresh(6) by (rule apply_new_frameD)
    then show thesis using fresh assms(2)
      by (intro that [of out s1]) (auto simp: commit_fresh_def frame_def push_receipt_recent)
  qed
qed

lemma appends_follows:
  assumes "appends env s t d" "follows s s2" "length (cs_receipts s) \<le> receipt_limit"
  obtains t2 where "appends env s2 t2 d" "follows t t2"
      "cs_receipts t2 = recent receipt_limit (cs_receipts s2 @ [receipt_of env d])"
proof -
  from assms(2) obtain rs where s2: "s2 = s\<lparr>cs_receipts := rs\<rparr>" and suf: "suffix rs (cs_receipts s)"
    by (auto simp: follows_def)
  then have sub: "set rs \<subseteq> set (cs_receipts s)" and len: "length rs \<le> receipt_limit"
    using assms(3) suffix_length_le [OF suf] by (auto simp: set_mono_suffix)
  from assms(1,3) obtain out s1 where f: "fresh_key env s"
      "unat (ce_sequence env) = Suc (unat (cs_last_sequence s))"
      "ce_expected_version env = cs_version s"
      "cs_last_observed_at s \<le> observed_at (ce_command env)"
      "unat (version_value (cd_version d)) = Suc (unat (version_value (cs_version s)))"
      "apply_new (ce_command env) s = (Inr out, s1)"
      "d = \<lparr>cd_version = cd_version d, cd_sequence = ce_sequence env, cd_outcome = out\<rparr>"
      "t = commit_fresh env d s1" "frame s s1"
      "cs_receipts t = recent receipt_limit (cs_receipts s @ [receipt_of env d])"
      "unat (cs_last_sequence t) = Suc (unat (cs_last_sequence s))"
    by (rule appendsE)
  let ?s1 = "s1\<lparr>cs_receipts := rs\<rparr>" and ?t2 = "commit_fresh env d (s1\<lparr>cs_receipts := rs\<rparr>)"
  have a: "apply_new (ce_command env) s2 = (Inr out, ?s1)"
    using f(6) by (simp add: s2 apply_new_receipts)
  have "coordinator_apply env s2 = (Inr d, ?t2)"
    using coordinator_apply_freshI [of env s2 "cd_version d" out ?s1] a f(1-5,7) sub
    by (auto simp: s2 fresh_key_def)
  then have "appends env s2 ?t2 d" using f by (auto simp: appends_def s2 commit_fresh_def)
  moreover have r2: "cs_receipts ?t2 = recent receipt_limit (rs @ [receipt_of env d])"
    using len by (simp add: commit_fresh_def push_receipt_recent)
  moreover have "follows t ?t2"
  proof -
    have "suffix (recent receipt_limit (rs @ [receipt_of env d])) (cs_receipts t)"
      using suf unfolding f(10) by (intro recent_suffix) (auto simp: suffix_def)
    then show ?thesis using f(8) r2 by (auto simp: follows_def commit_fresh_def)
  qed
  ultimately show thesis using that s2 by simp
qed

inductive appends_all :: "coordinator_command_envelope list \<Rightarrow> coordinator_state \<Rightarrow> coordinator_state \<Rightarrow> command_receipt list \<Rightarrow> bool" where
  nil: "appends_all [] s s []"
| cons: "appends env s t d \<Longrightarrow> appends_all envs t u rs \<Longrightarrow> appends_all (env # envs) s u (receipt_of env d # rs)"

lemma appends_inv: "coordinator_inv s \<Longrightarrow> appends env s t d \<Longrightarrow> coordinator_inv t"
  using coordinator_apply_inv [of s env] by (simp add: appends_def)

lemma coordinator_inv_short: "coordinator_inv s \<Longrightarrow> length (cs_receipts s) \<le> receipt_limit"
  by (simp add: coordinator_inv_def receipts_ok_def)

lemma appends_all_replay: "appends_all envs s t rs \<Longrightarrow> replay_all envs s = Inr t"
  by (induction rule: appends_all.induct) (auto simp: appends_def)

lemma appends_all_inv: "appends_all envs s t rs \<Longrightarrow> coordinator_inv s \<Longrightarrow> coordinator_inv t"
  by (induction rule: appends_all.induct) (auto dest: appends_inv)

lemma appends_all_length: "appends_all envs s t rs \<Longrightarrow> length rs = length envs"
  by (induction rule: appends_all.induct) auto

lemma appends_all_append:
  "appends_all xs s t rs \<Longrightarrow> appends_all ys t u qs \<Longrightarrow> appends_all (xs @ ys) s u (rs @ qs)"
  by (induction rule: appends_all.induct) (auto intro: appends_all.intros)

lemma appends_all_snoc:
  "appends_all xs s t rs \<Longrightarrow> appends env t u d \<Longrightarrow> appends_all (xs @ [env]) s u (rs @ [receipt_of env d])"
  by (rule appends_all_append) (auto intro: appends_all.intros)

lemma appends_all_split:
  "appends_all (xs @ ys) s u qs \<Longrightarrow>
     \<exists>t rs1 rs2. appends_all xs s t rs1 \<and> appends_all ys t u rs2 \<and> qs = rs1 @ rs2"
proof (induction xs arbitrary: s qs)
  case Nil
  then show ?case by (auto intro: appends_all.nil)
next
  case (Cons x xs)
  then show ?case by (auto elim!: appends_all.cases [of "x # xs @ ys"]) (metis append_Cons appends_all.cons)
qed

lemma appends_all_receipts:
  assumes "appends_all envs s t rs" "coordinator_inv s"
  shows "cs_receipts t = recent receipt_limit (cs_receipts s @ rs)"
  using assms
proof (induction rule: appends_all.induct)
  case (nil s)
  then show ?case by (simp add: coordinator_inv_short)
next
  case (cons env s t d envs u rs)
  have "cs_receipts t = recent receipt_limit (cs_receipts s @ [receipt_of env d])"
    using cons.hyps(1) coordinator_inv_short [OF cons.prems] by (rule appendsE)
  then show ?case using cons.IH [OF appends_inv [OF cons.prems cons.hyps(1)]]
    by (simp add: recent_recent_append)
qed

lemma appends_all_follows:
  assumes "appends_all envs s t rs" "coordinator_inv s" "follows s s2"
  obtains t2 where "appends_all envs s2 t2 rs" "follows t t2"
  using assms
proof (induction arbitrary: s2 thesis rule: appends_all.induct)
  case (nil s)
  then show ?case by (auto intro: appends_all.nil)
next
  case (cons env s t d envs u rs)
  obtain t2 where t2: "appends env s2 t2 d" "follows t t2"
    using appends_follows [OF cons.hyps(1) cons.prems(3) coordinator_inv_short [OF cons.prems(2)]]
    by metis
  show ?case
    using cons.IH [OF _ appends_inv [OF cons.prems(2) cons.hyps(1)] t2(2)] cons.prems(1)
      appends_all.cons [OF t2(1)] by metis
qed

text \<open>
  The step at the heart of journal compaction: a state rebuilt from its checkpoint, which has
  lost the receipts, replays a recorded suffix to the same checkpoint, and to the very same
  state when the suffix covers the idempotency window.
\<close>

lemma replay_from_checkpoint:
  assumes "coordinator_inv s" "appends_all envs s t rs"
  obtains t2 where "appends_all envs (s\<lparr>cs_receipts := []\<rparr>) t2 rs"
      "coordinator_checkpoint_of t2 = coordinator_checkpoint_of t"
      "receipt_limit \<le> length envs \<Longrightarrow> t2 = t"
proof -
  have "follows s (s\<lparr>cs_receipts := []\<rparr>)" by (auto simp: follows_def)
  then obtain t2 where t2: "appends_all envs (s\<lparr>cs_receipts := []\<rparr>) t2 rs" "follows t t2"
    using appends_all_follows [OF assms(2,1)] by metis
  have inv2: "coordinator_inv (s\<lparr>cs_receipts := []\<rparr>)"
    using assms(1) by (simp add: coordinator_inv_def shape_ok_def counter_ok_def receipts_ok_def)
  have "t2 = t" if "receipt_limit \<le> length envs"
  proof -
    have "cs_receipts t2 = cs_receipts t"
      using appends_all_receipts [OF assms(2,1)] appends_all_receipts [OF t2(1) inv2] that
        appends_all_length [OF assms(2)] by (simp add: recent_append)
    then show ?thesis using t2(2) by (auto simp: follows_def)
  qed
  moreover have "coordinator_checkpoint_of t2 = coordinator_checkpoint_of t"
    using t2(2) by (auto simp: follows_def coordinator_checkpoint_of_def)
  ultimately show thesis using that t2(1) by blast
qed

end
