(* ===== verification/Coordinator_Document.thy ===== *)
theory Coordinator_Document
  imports Coordinator_Replay
begin

text \<open>
  The durable form of the profile coordinator,
  \<open>crates/cloudflare-adapters/src/profile_coordinator.rs\<close>: a stored document with an optional
  checkpoint and a journal of commands, all identifiers as plain strings that are parsed
  again on every use.  Applying a command replays the journal, checks who may reopen an
  uncertain workspace, runs the coordinator, appends the command and compacts the journal
  when it has grown to 64 entries.
\<close>

section \<open>Stored data\<close>

definition compact_journal_at :: nat where "compact_journal_at = 64"
definition retain_recent_commands :: nat where "retain_recent_commands = 32"

datatype stored_coordinator_status =
  StoredIdle | StoredActive | StoredDraining | StoredDirty | StoredUncertain

fun stored_status_of :: "coordinator_status \<Rightarrow> stored_coordinator_status" where
  "stored_status_of Idle = StoredIdle"
| "stored_status_of Active = StoredActive"
| "stored_status_of Draining = StoredDraining"
| "stored_status_of Dirty = StoredDirty"
| "stored_status_of Uncertain = StoredUncertain"

fun domain_status_of :: "stored_coordinator_status \<Rightarrow> coordinator_status" where
  "domain_status_of StoredIdle = Idle"
| "domain_status_of StoredActive = Active"
| "domain_status_of StoredDraining = Draining"
| "domain_status_of StoredDirty = Dirty"
| "domain_status_of StoredUncertain = Uncertain"

record stored_pending_intent =
  spi_launch_intent_id :: string
  spi_actor_id :: string
  spi_device_id :: string
  spi_expires_at_ms :: u64

record stored_active_lease =
  sal_session_id :: string
  sal_device_id :: string
  sal_epoch :: u64
  sal_fencing_token :: string
  sal_claimed_at_ms :: u64
  sal_last_heartbeat_at_ms :: u64
  sal_idle_expires_at_ms :: u64
  sal_hard_expires_at_ms :: u64

record stored_claim_identity =
  sci_actor_id :: string
  sci_device_id :: string
  sci_session_id :: string

record stored_coordinator_checkpoint =
  scp_version :: u64
  scp_sequence :: u64
  scp_observed_at_ms :: u64
  scp_next_epoch :: u64
  scp_status :: stored_coordinator_status
  scp_pending_intent :: "stored_pending_intent option"
  scp_recovery_claim_pending :: bool
  scp_active_lease :: "stored_active_lease option"
  scp_drain_deadline_ms :: "u64 option"
  scp_last_claim :: "stored_claim_identity option"

datatype stored_release_disposition = StoredClean | StoredReleaseDirty | StoredReleaseUncertain

fun domain_disposition_of :: "stored_release_disposition \<Rightarrow> release_disposition" where
  "domain_disposition_of StoredClean = ReleaseClean"
| "domain_disposition_of StoredReleaseDirty = ReleaseDirty"
| "domain_disposition_of StoredReleaseUncertain = ReleaseUncertain"

datatype stored_coordinator_command =
    StoredIssueLaunchIntent string string string u64 u64
  | StoredRecoverAndIssueLaunchIntent string string string u64 u64
  | StoredClaim string string string string string u64
  | StoredHeartbeat string u64 string u64
  | StoredRenewLease string u64 string u64
  | StoredRelease string u64 string stored_release_disposition u64
  | StoredBeginDrain u64
  | StoredTick u64
  | StoredMarkRecovered u64

record stored_coordinator_envelope =
  sce_idempotency_key :: string
  sce_sequence :: u64
  sce_expected_version :: u64
  sce_command :: stored_coordinator_command

record stored_coordinator_document =
  scd_tenant_id :: string
  scd_profile_id :: string
  scd_idle_timeout_ms :: u64
  scd_hard_timeout_ms :: u64
  scd_drain_timeout_ms :: u64
  scd_checkpoint :: "stored_coordinator_checkpoint option"
  scd_journal :: "stored_coordinator_envelope list"

datatype coordinator_adapter_error =
    Identifier parse_opaque_id_error
  | ZeroVersion zero_aggregate_version
  | Domain coordinator_error
  | TenantMismatch
  | ProfileMismatch
  | JournalCapacityExceeded

fun coordinator_adapter_error_message :: "coordinator_adapter_error \<Rightarrow> string" where
  "coordinator_adapter_error_message (Identifier e) = parse_opaque_id_error_message e"
| "coordinator_adapter_error_message (ZeroVersion e) = zero_aggregate_version_message e"
| "coordinator_adapter_error_message (Domain e) = coordinator_error_message e"
| "coordinator_adapter_error_message TenantMismatch = ''coordinator tenant mismatch''"
| "coordinator_adapter_error_message ProfileMismatch = ''coordinator profile mismatch''"
| "coordinator_adapter_error_message JournalCapacityExceeded = ''coordinator journal capacity exceeded''"

abbreviation adapter_id :: "string \<Rightarrow> coordinator_adapter_error + 'k typed_id" where
  "adapter_id s \<equiv> res_map_err Identifier (id_parse s)"

abbreviation adapter_version :: "u64 \<Rightarrow> coordinator_adapter_error + aggregate_version" where
  "adapter_version v \<equiv> res_map_err ZeroVersion (version_new v)"

section \<open>Commands\<close>

fun command_to_domain :: "stored_coordinator_command \<Rightarrow> coordinator_adapter_error + coordinator_command" where
  "command_to_domain (StoredIssueLaunchIntent i a d now expires_at) =
     res_bind (adapter_id i) (\<lambda>i. res_bind (adapter_id a) (\<lambda>a. res_bind (adapter_id d) (\<lambda>d.
       Inr (IssueLaunchIntent i a d now expires_at))))"
| "command_to_domain (StoredRecoverAndIssueLaunchIntent i a d now expires_at) =
     res_bind (adapter_id i) (\<lambda>i. res_bind (adapter_id a) (\<lambda>a. res_bind (adapter_id d) (\<lambda>d.
       Inr (RecoverAndIssueLaunchIntent i a d now expires_at))))"
| "command_to_domain (StoredClaim i a d sid tok now) =
     res_bind (adapter_id i) (\<lambda>i. res_bind (adapter_id a) (\<lambda>a. res_bind (adapter_id d) (\<lambda>d.
       res_bind (adapter_id sid) (\<lambda>sid. res_bind (adapter_id tok) (\<lambda>tok.
         Inr (Claim i a d sid tok now))))))"
| "command_to_domain (StoredHeartbeat sid epoch tok now) =
     res_bind (adapter_id sid) (\<lambda>sid. res_bind (adapter_id tok) (\<lambda>tok.
       Inr (Heartbeat sid epoch tok now)))"
| "command_to_domain (StoredRenewLease sid epoch tok now) =
     res_bind (adapter_id sid) (\<lambda>sid. res_bind (adapter_id tok) (\<lambda>tok.
       Inr (RenewLease sid epoch tok now)))"
| "command_to_domain (StoredRelease sid epoch tok disposition now) =
     res_bind (adapter_id sid) (\<lambda>sid. res_bind (adapter_id tok) (\<lambda>tok.
       Inr (Release sid epoch tok (domain_disposition_of disposition) now)))"
| "command_to_domain (StoredBeginDrain now) = Inr (BeginDrain now)"
| "command_to_domain (StoredTick now) = Inr (Tick now)"
| "command_to_domain (StoredMarkRecovered now) = Inr (MarkRecovered now)"

definition envelope_to_domain ::
    "stored_coordinator_envelope \<Rightarrow> coordinator_adapter_error + coordinator_command_envelope" where
  "envelope_to_domain env =
     res_bind (adapter_id (sce_idempotency_key env)) (\<lambda>key.
     res_bind (adapter_version (sce_expected_version env)) (\<lambda>version.
     res_bind (command_to_domain (sce_command env)) (\<lambda>command.
       res_map_err Domain
         (coordinator_command_envelope_new key (sce_sequence env) version command))))"

section \<open>Checkpoints\<close>

definition stored_checkpoint_from_state ::
    "coordinator_state \<Rightarrow> stored_claim_identity option \<Rightarrow> stored_coordinator_checkpoint" where
  "stored_checkpoint_from_state s last_claim =
     (let value = coordinator_checkpoint_of s in
      \<lparr>scp_version = version_value (cp_version value),
       scp_sequence = cp_sequence value,
       scp_observed_at_ms = cp_observed_at value,
       scp_next_epoch = cp_next_epoch value,
       scp_status = stored_status_of (cp_status value),
       scp_pending_intent = map_option (\<lambda>p.
         \<lparr>spi_launch_intent_id = id_as_str (pi_launch_intent_id p),
          spi_actor_id = id_as_str (pi_actor_id p),
          spi_device_id = id_as_str (pi_device_id p),
          spi_expires_at_ms = pi_expires_at p\<rparr>) (cp_pending_intent value),
       scp_recovery_claim_pending = cp_recovery_claim_pending value,
       scp_active_lease = map_option (\<lambda>l.
         \<lparr>sal_session_id = id_as_str (cl_session_id l),
          sal_device_id = id_as_str (cl_device_id l),
          sal_epoch = cl_epoch l,
          sal_fencing_token = id_as_str (cl_fencing_token l),
          sal_claimed_at_ms = cl_claimed_at l,
          sal_last_heartbeat_at_ms = cl_last_heartbeat_at l,
          sal_idle_expires_at_ms = cl_idle_expires_at l,
          sal_hard_expires_at_ms = cl_hard_expires_at l\<rparr>) (cp_active_lease value),
       scp_drain_deadline_ms = cp_drain_deadline value,
       scp_last_claim = last_claim\<rparr>)"

definition stored_intent_to_domain ::
    "stored_pending_intent \<Rightarrow> coordinator_adapter_error + pending_launch_intent" where
  "stored_intent_to_domain p =
     res_bind (adapter_id (spi_launch_intent_id p)) (\<lambda>i.
     res_bind (adapter_id (spi_actor_id p)) (\<lambda>a.
     res_bind (adapter_id (spi_device_id p)) (\<lambda>d.
       Inr (pending_launch_intent_restored i a d (spi_expires_at_ms p)))))"

definition stored_lease_to_domain ::
    "stored_active_lease \<Rightarrow> coordinator_adapter_error + coordinator_lease" where
  "stored_lease_to_domain l =
     res_bind (adapter_id (sal_session_id l)) (\<lambda>sid.
     res_bind (adapter_id (sal_device_id l)) (\<lambda>d.
     res_bind (adapter_id (sal_fencing_token l)) (\<lambda>tok.
       res_map_err Domain
         (coordinator_lease_restored sid d (sal_epoch l) tok (sal_claimed_at_ms l)
            (sal_last_heartbeat_at_ms l) (sal_idle_expires_at_ms l) (sal_hard_expires_at_ms l)))))"

definition stored_checkpoint_into_domain ::
    "stored_coordinator_checkpoint \<Rightarrow> coordinator_adapter_error + coordinator_checkpoint" where
  "stored_checkpoint_into_domain cp =
     res_bind (res_opt stored_intent_to_domain (scp_pending_intent cp)) (\<lambda>pending_intent.
     res_bind (res_opt stored_lease_to_domain (scp_active_lease cp)) (\<lambda>active_lease.
     res_bind (adapter_version (scp_version cp)) (\<lambda>version.
       Inr \<lparr>cp_version = version, cp_sequence = scp_sequence cp,
            cp_observed_at = scp_observed_at_ms cp, cp_next_epoch = scp_next_epoch cp,
            cp_status = domain_status_of (scp_status cp), cp_pending_intent = pending_intent,
            cp_recovery_claim_pending = scp_recovery_claim_pending cp,
            cp_active_lease = active_lease, cp_drain_deadline = scp_drain_deadline_ms cp\<rparr>)))"

section \<open>The document\<close>

definition document_new ::
    "tenant_id \<Rightarrow> profile_id \<Rightarrow> coordinator_config \<Rightarrow> stored_coordinator_document" where
  "document_new tenant_id profile_id config =
     \<lparr>scd_tenant_id = id_as_str tenant_id, scd_profile_id = id_as_str profile_id,
      scd_idle_timeout_ms = cc_idle_timeout_ms config,
      scd_hard_timeout_ms = cc_hard_timeout_ms config,
      scd_drain_timeout_ms = cc_drain_timeout_ms config,
      scd_checkpoint = None, scd_journal = []\<rparr>"

definition ensure_identity ::
    "stored_coordinator_document \<Rightarrow> tenant_id \<Rightarrow> profile_id \<Rightarrow> coordinator_adapter_error + unit" where
  "ensure_identity doc tenant_id profile_id =
     (if scd_tenant_id doc \<noteq> id_as_str tenant_id then Inl TenantMismatch
      else if scd_profile_id doc \<noteq> id_as_str profile_id then Inl ProfileMismatch
      else Inr ())"

definition restore_base :: "stored_coordinator_document \<Rightarrow> coordinator_adapter_error + coordinator_state" where
  "restore_base doc =
     res_bind (adapter_id (scd_tenant_id doc)) (\<lambda>tenant.
     res_bind (adapter_id (scd_profile_id doc)) (\<lambda>profile.
     res_bind (res_map_err Domain (coordinator_config_new (scd_idle_timeout_ms doc)
                 (scd_hard_timeout_ms doc) (scd_drain_timeout_ms doc))) (\<lambda>config.
       case scd_checkpoint doc of
         Some stored \<Rightarrow>
           res_bind (stored_checkpoint_into_domain stored) (\<lambda>snapshot.
             res_map_err Domain (restore_checkpoint tenant profile config snapshot))
       | None \<Rightarrow> Inr (coordinator_new tenant profile config))))"

fun apply_journal ::
    "stored_coordinator_envelope list \<Rightarrow> coordinator_state \<Rightarrow> coordinator_adapter_error + coordinator_state" where
  "apply_journal [] s = Inr s"
| "apply_journal (env # envs) s =
     res_bind (envelope_to_domain env) (\<lambda>denv.
       case coordinator_apply denv s of
         (Inl e, _) \<Rightarrow> Inl (Domain e)
       | (Inr _, t) \<Rightarrow> apply_journal envs t)"

definition document_replay :: "stored_coordinator_document \<Rightarrow> coordinator_adapter_error + coordinator_state" where
  "document_replay doc = res_bind (restore_base doc) (apply_journal (scd_journal doc))"

fun claim_identity_of :: "stored_coordinator_command \<Rightarrow> stored_claim_identity option" where
  "claim_identity_of (StoredClaim _ a d sid _ _) =
     Some \<lparr>sci_actor_id = a, sci_device_id = d, sci_session_id = sid\<rparr>"
| "claim_identity_of _ = None"

fun fold_last_claim ::
    "stored_coordinator_envelope list \<Rightarrow> stored_claim_identity option \<Rightarrow> stored_claim_identity option" where
  "fold_last_claim [] last_claim = last_claim"
| "fold_last_claim (env # envs) last_claim =
     fold_last_claim envs
       (case claim_identity_of (sce_command env) of Some c \<Rightarrow> Some c | None \<Rightarrow> last_claim)"

definition compact_journal ::
    "stored_coordinator_document
     \<Rightarrow> (coordinator_adapter_error + unit) \<times> stored_coordinator_document" where
  "compact_journal doc =
     (let count = length (scd_journal doc) - retain_recent_commands in
      if count = 0 then (Inr (), doc)
      else
        let outcome =
          res_bind (restore_base doc) (\<lambda>base.
          res_bind (apply_journal (take count (scd_journal doc)) base) (\<lambda>anchor.
            let last_claim = fold_last_claim (take count (scd_journal doc))
                  (case scd_checkpoint doc of None \<Rightarrow> None | Some p \<Rightarrow> scp_last_claim p);
                next = stored_checkpoint_from_state anchor last_claim
            in res_bind (document_replay doc) (\<lambda>current.
               res_bind (stored_checkpoint_into_domain next) (\<lambda>snapshot.
               res_bind (res_map_err Domain (restore_checkpoint (cs_tenant_id anchor)
                           (cs_profile_id anchor) (cs_config anchor) snapshot)) (\<lambda>restored.
               res_bind (apply_journal (drop count (scd_journal doc)) restored) (\<lambda>verified.
                 if coordinator_checkpoint_of verified \<noteq> coordinator_checkpoint_of current
                 then Inl (Domain InvalidCheckpoint)
                 else Inr next))))))
        in case outcome of
             Inl e \<Rightarrow> (Inl e, doc)
           | Inr next \<Rightarrow> (Inr (), doc\<lparr>scd_checkpoint := Some next,
                                     scd_journal := drop count (scd_journal doc)\<rparr>))"

definition last_claim_matches ::
    "stored_coordinator_document \<Rightarrow> actor_id \<Rightarrow> device_id \<Rightarrow> bool" where
  "last_claim_matches doc actor device =
     (case List.map_filter (\<lambda>env. claim_identity_of (sce_command env)) (rev (scd_journal doc)) of
        c # _ \<Rightarrow> sci_actor_id c = id_as_str actor \<and> sci_device_id c = id_as_str device
      | [] \<Rightarrow>
          (case scd_checkpoint doc of
             None \<Rightarrow> False
           | Some cp \<Rightarrow>
               (case scp_last_claim cp of
                  None \<Rightarrow> False
                | Some c \<Rightarrow> sci_actor_id c = id_as_str actor \<and> sci_device_id c = id_as_str device)))"

definition active_claim_matches ::
    "stored_coordinator_document \<Rightarrow> actor_id \<Rightarrow> device_id \<Rightarrow> session_id
     \<Rightarrow> coordinator_adapter_error + bool" where
  "active_claim_matches doc actor device session =
     res_bind (document_replay doc) (\<lambda>s.
       case cs_active_lease s of
         None \<Rightarrow> Inr False
       | Some active \<Rightarrow>
           if cl_device_id active \<noteq> device \<or> cl_session_id active \<noteq> session then Inr False
           else
             Inr (case filter (\<lambda>c. sci_session_id c = id_as_str session)
                         (List.map_filter (\<lambda>env. claim_identity_of (sce_command env))
                            (rev (scd_journal doc))) of
                    c # _ \<Rightarrow> sci_actor_id c = id_as_str actor \<and> sci_device_id c = id_as_str device
                  | [] \<Rightarrow>
                      (case scd_checkpoint doc of
                         None \<Rightarrow> False
                       | Some cp \<Rightarrow>
                           (case scp_last_claim cp of
                              None \<Rightarrow> False
                            | Some c \<Rightarrow> sci_actor_id c = id_as_str actor
                                \<and> sci_device_id c = id_as_str device
                                \<and> sci_session_id c = id_as_str session))))"

section \<open>Projection, alarm and the command handler\<close>

record coordinator_projection =
  proj_tenant_id :: string
  proj_profile_id :: string
  proj_status :: string
  proj_version :: u64
  proj_sequence :: u64
  proj_next_epoch :: u64
  proj_active_session_id :: "string option"
  proj_active_device_id :: "string option"
  proj_active_epoch :: "u64 option"
  proj_idle_expires_at_ms :: "u64 option"
  proj_hard_expires_at_ms :: "u64 option"
  proj_drain_deadline_ms :: "u64 option"
  proj_pending_launch_intent_id :: "string option"
  proj_pending_intent_expires_at_ms :: "u64 option"

fun status_name :: "coordinator_status \<Rightarrow> string" where
  "status_name Idle = ''idle''"
| "status_name Active = ''active''"
| "status_name Draining = ''draining''"
| "status_name Dirty = ''dirty''"
| "status_name Uncertain = ''uncertain''"

fun outcome_name :: "coordinator_outcome \<Rightarrow> string" where
  "outcome_name (LaunchIntentIssued _) = ''launch_intent_issued''"
| "outcome_name (LeaseClaimed _) = ''lease_claimed''"
| "outcome_name (HeartbeatAccepted _) = ''heartbeat_accepted''"
| "outcome_name (Released _) = ''released''"
| "outcome_name (DrainStarted _) = ''drain_started''"
| "outcome_name (TimedOut _) = ''timed_out''"
| "outcome_name LaunchIntentExpired = ''launch_intent_expired''"
| "outcome_name Recovered = ''recovered''"
| "outcome_name NoChange = ''no_change''"

definition projection_from_state :: "coordinator_state \<Rightarrow> coordinator_projection" where
  "projection_from_state s =
     (let lease = cs_active_lease s; intent = cs_pending_intent s in
      \<lparr>proj_tenant_id = id_as_str (cs_tenant_id s),
       proj_profile_id = id_as_str (cs_profile_id s),
       proj_status = status_name (cs_status s),
       proj_version = version_value (cs_version s),
       proj_sequence = cs_last_sequence s,
       proj_next_epoch = cs_next_epoch s,
       proj_active_session_id = map_option (\<lambda>l. id_as_str (cl_session_id l)) lease,
       proj_active_device_id = map_option (\<lambda>l. id_as_str (cl_device_id l)) lease,
       proj_active_epoch = map_option cl_epoch lease,
       proj_idle_expires_at_ms = map_option cl_idle_expires_at lease,
       proj_hard_expires_at_ms = map_option cl_hard_expires_at lease,
       proj_drain_deadline_ms = cs_drain_deadline s,
       proj_pending_launch_intent_id = map_option (\<lambda>i. id_as_str (pi_launch_intent_id i)) intent,
       proj_pending_intent_expires_at_ms = map_option pi_expires_at intent\<rparr>)"

definition document_projection ::
    "stored_coordinator_document \<Rightarrow> coordinator_adapter_error + coordinator_projection" where
  "document_projection doc = res_bind (document_replay doc) (\<lambda>s. Inr (projection_from_state s))"

definition next_alarm_at :: "coordinator_state \<Rightarrow> unix_millis option" where
  "next_alarm_at s =
     (let intent_deadline = map_option pi_expires_at (cs_pending_intent s);
          lease_deadline = map_option (\<lambda>lease.
            let deadline = cl_idle_expires_at lease;
                deadline = (if cl_hard_expires_at lease < deadline
                            then cl_hard_expires_at lease else deadline)
            in case cs_drain_deadline s of
                 None \<Rightarrow> deadline
               | Some drain_deadline \<Rightarrow>
                   if drain_deadline < deadline then drain_deadline else deadline)
            (cs_active_lease s)
      in case (intent_deadline, lease_deadline) of
           (Some left, Some right) \<Rightarrow> Some (if left < right then left else right)
         | (Some value, None) \<Rightarrow> Some value
         | (None, Some value) \<Rightarrow> Some value
         | (None, None) \<Rightarrow> None)"

record coordinator_applied =
  ca_projection :: coordinator_projection
  ca_decision :: coordinator_decision
  ca_appended :: bool
  ca_next_alarm_at :: "unix_millis option"

text \<open>The two admission checks of the command handler, before the coordinator runs.\<close>

definition recovery_admission ::
    "stored_coordinator_document \<Rightarrow> coordinator_state \<Rightarrow> stored_coordinator_command
     \<Rightarrow> coordinator_adapter_error + unit" where
  "recovery_admission doc s command =
     (case command of
        StoredIssueLaunchIntent _ a d _ _ \<Rightarrow>
          (if cs_recovery_claim_pending s
           then res_bind (adapter_id a) (\<lambda>actor. res_bind (adapter_id d) (\<lambda>device.
                  if last_claim_matches doc actor device then Inr () else Inl (Domain StaleWriter)))
           else Inr ())
      | StoredRecoverAndIssueLaunchIntent _ a d _ _ \<Rightarrow>
          res_bind (adapter_id a) (\<lambda>actor. res_bind (adapter_id d) (\<lambda>device.
            if last_claim_matches doc actor device then Inr () else Inl (Domain StaleWriter)))
      | _ \<Rightarrow> Inr ())"

definition document_apply ::
    "stored_coordinator_envelope \<Rightarrow> stored_coordinator_document
     \<Rightarrow> (coordinator_adapter_error + coordinator_applied) \<times> stored_coordinator_document" where
  "document_apply env doc =
     (case res_bind (document_replay doc) (\<lambda>s.
             res_bind (recovery_admission doc s (sce_command env)) (\<lambda>_.
             res_bind (envelope_to_domain env) (\<lambda>denv. Inr (s, denv)))) of
        Inl e \<Rightarrow> (Inl e, doc)
      | Inr (s, denv) \<Rightarrow>
          (case coordinator_apply denv s of
             (Inl e, _) \<Rightarrow> (Inl (Domain e), doc)
           | (Inr decision, t) \<Rightarrow>
               (let previous_sequence = cs_last_sequence s;
                    appended = cd_sequence decision > previous_sequence;
                    applied = \<lparr>ca_projection = projection_from_state t, ca_decision = decision,
                               ca_appended = appended, ca_next_alarm_at = next_alarm_at t\<rparr>
                in if \<not> appended then (Inr applied, doc)
                   else
                     let doc1 = doc\<lparr>scd_journal := scd_journal doc @ [env]\<rparr> in
                     if compact_journal_at \<le> length (scd_journal doc1)
                     then (case compact_journal doc1 of
                             (Inl e, doc2) \<Rightarrow> (Inl e, doc2)
                           | (Inr _, doc2) \<Rightarrow> (Inr applied, doc2))
                     else (Inr applied, doc1))))"

end
