(* ===== verification/Document_Refinement.thy ===== *)
theory Document_Refinement
  imports Coordinator_Document
begin

text \<open>
  The stored coordinator document implements the coordinator.  \<open>represents doc s\<close> says that
  checkpoint and journal of \<open>doc\<close> replay to \<open>s\<close>; compaction preserves it, receipts included.
  \<open>supervised_apply\<close> is the contract without documents (a coordinator state and the last
  claimant), and the interpretation \<open>docs\<close> shows that \<open>document_apply\<close> simulates it.
\<close>

section \<open>Identifiers survive storage\<close>

fun command_ids_ok :: "coordinator_command \<Rightarrow> bool" where
  "command_ids_ok (IssueLaunchIntent i a d _ _) \<longleftrightarrow> id_valid i \<and> id_valid a \<and> id_valid d"
| "command_ids_ok (RecoverAndIssueLaunchIntent i a d _ _) \<longleftrightarrow> id_valid i \<and> id_valid a \<and> id_valid d"
| "command_ids_ok (Claim i a d sid tok _) \<longleftrightarrow> id_valid i \<and> id_valid a \<and> id_valid d \<and> id_valid sid \<and> id_valid tok"
| "command_ids_ok (Heartbeat sid _ tok _) \<longleftrightarrow> id_valid sid \<and> id_valid tok"
| "command_ids_ok (RenewLease sid _ tok _) \<longleftrightarrow> id_valid sid \<and> id_valid tok"
| "command_ids_ok (Release sid _ tok _ _) \<longleftrightarrow> id_valid sid \<and> id_valid tok"
| "command_ids_ok _ \<longleftrightarrow> True"

definition intent_ids_ok :: "pending_launch_intent \<Rightarrow> bool" where
  "intent_ids_ok p \<longleftrightarrow> id_valid (pi_launch_intent_id p) \<and> id_valid (pi_actor_id p) \<and> id_valid (pi_device_id p)"

definition lease_ids_ok :: "coordinator_lease \<Rightarrow> bool" where
  "lease_ids_ok l \<longleftrightarrow> id_valid (cl_session_id l) \<and> id_valid (cl_device_id l) \<and> id_valid (cl_fencing_token l)"

definition state_ids_ok :: "coordinator_state \<Rightarrow> bool" where
  "state_ids_ok s \<longleftrightarrow> id_valid (cs_tenant_id s) \<and> id_valid (cs_profile_id s)
     \<and> (\<forall>p. cs_pending_intent s = Some p \<longrightarrow> intent_ids_ok p)
     \<and> (\<forall>l. cs_active_lease s = Some l \<longrightarrow> lease_ids_ok l)"

lemma adapter_id_Inr_iff: "adapter_id x = Inr i \<longleftrightarrow> opaque_valid x \<and> id_as_str i = x"
  by (simp add: id_parse_Inr_iff)

lemma adapter_id_as_str [simp]: "id_valid i \<Longrightarrow> adapter_id (id_as_str i) = Inr i"
  by simp

lemma command_to_domain_ids: "command_to_domain c = Inr d \<Longrightarrow> command_ids_ok d"
  by (cases c) (auto simp: res_bind_Inr_iff dest: id_parse_valid)

lemma timed_out_ids: "state_ids_ok s \<Longrightarrow> state_ids_ok (timed_out s)"
  by (simp add: state_ids_ok_def timed_out_def)

lemma heartbeat_ids:
  assumes "state_ids_ok s"
  shows "state_ids_ok (snd (heartbeat sid epoch tok now renew s))"
proof (cases "heartbeat sid epoch tok now renew s")
  case (Pair r t)
  show ?thesis
  proof (cases r)
    case (Inl e)
    then show ?thesis using Pair apply_new_error_unchanged [of "Heartbeat sid epoch tok now" s] assms
        apply_new_error_unchanged [of "RenewLease sid epoch tok now" s] by (cases renew) auto
  next
    case (Inr out)
    from Pair Inr have "heartbeat sid epoch tok now renew s = (Inr out, t)" by simp
    then show ?thesis
    proof (cases rule: heartbeat_Inr_cases)
      case timeout
      then show ?thesis using Pair assms
        by (cases rule: timeout_cases [of now s]) (auto intro: timed_out_ids)
    next
      case accepted
      then show ?thesis using assms Pair
        by (auto simp: state_ids_ok_def lease_ids_ok_def beat_def Let_def)
    qed
  qed
qed

lemma apply_new_ids: "state_ids_ok s \<Longrightarrow> command_ids_ok c \<Longrightarrow> state_ids_ok (snd (apply_new c s))"
proof (cases c)
  case (Release sid epoch tok disp now)
  assume "state_ids_ok s"
  then show ?thesis using Release
    by (cases rule: timeout_cases [of now s])
       (auto simp: release_def state_ids_ok_def timed_out_def split: option.splits)
next
  case (BeginDrain now)
  assume "state_ids_ok s"
  then show ?thesis using BeginDrain
    by (cases rule: timeout_cases [of now s])
       (auto simp: begin_drain_def state_ids_ok_def timed_out_def Let_def split: option.splits sum.splits)
next
  case (Tick now)
  assume "state_ids_ok s"
  then show ?thesis using Tick
    by (cases rule: timeout_cases [of now s])
       (auto simp: tick_def state_ids_ok_def timed_out_def split: option.splits)
next
  case (Heartbeat sid epoch tok now)
  assume "state_ids_ok s"
  then show ?thesis using Heartbeat by (simp add: heartbeat_ids)
next
  case (RenewLease sid epoch tok now)
  assume "state_ids_ok s"
  then show ?thesis using RenewLease by (simp add: heartbeat_ids)
qed (auto simp: issue_launch_intent_def claim_def recover_and_issue_launch_intent_def
       mark_recovered_def state_ids_ok_def intent_ids_ok_def lease_ids_ok_def Let_def
       split: option.splits sum.splits)

lemma appends_ids:
  assumes "appends env s t d" "state_ids_ok s" "command_ids_ok (ce_command env)" "coordinator_inv s"
  shows "state_ids_ok t"
proof -
  from assms(1) coordinator_inv_short [OF assms(4)] obtain out s1 where
    "apply_new (ce_command env) s = (Inr out, s1)" "t = commit_fresh env d s1"
    by (rule appendsE)
  then show ?thesis using apply_new_ids [OF assms(2,3)] by (simp add: state_ids_ok_def commit_fresh_def)
qed

lemma envelope_to_domain_ids: "envelope_to_domain env = Inr denv \<Longrightarrow> command_ids_ok (ce_command denv)"
  by (auto simp: envelope_to_domain_def res_bind_Inr_iff coordinator_command_envelope_new_def
      dest: command_to_domain_ids split: if_splits)

section \<open>The stored checkpoint is read back as it was written\<close>

lemma domain_status_of_stored [simp]: "domain_status_of (stored_status_of st) = st"
  by (cases st) simp_all

lemma stored_checkpoint_roundtrip:
  assumes "coordinator_inv s" "state_ids_ok s"
  shows "stored_checkpoint_into_domain (stored_checkpoint_from_state s last_claim)
       = Inr (coordinator_checkpoint_of s)"
proof -
  have "version_value (cs_version s) \<noteq> 0"
    using assms(1) by (auto simp: coordinator_inv_def counter_ok_def)
  moreover have "lease_ok l" if "cs_active_lease s = Some l" for l
    using assms(1) that by (simp add: coordinator_inv_def shape_ok_def)
  ultimately show ?thesis
    using assms(2)
    by (cases "cs_pending_intent s"; cases "cs_active_lease s")
       (auto simp: stored_checkpoint_into_domain_def stored_checkpoint_from_state_def Let_def
         coordinator_checkpoint_of_def stored_intent_to_domain_def stored_lease_to_domain_def
         pending_launch_intent_restored_def coordinator_lease_restored_def lease_ok_def not_less
         state_ids_ok_def intent_ids_ok_def lease_ids_ok_def)
qed

section \<open>Journals\<close>

definition journal_of ::
    "stored_coordinator_envelope list \<Rightarrow> coordinator_command_envelope list \<Rightarrow> bool" where
  "journal_of js envs \<longleftrightarrow> list_all2 (\<lambda>env denv. envelope_to_domain env = Inr denv) js envs"

lemma journal_of_simps [simp]:
  "journal_of [] envs \<longleftrightarrow> envs = []"
  "journal_of js [] \<longleftrightarrow> js = []"
  "journal_of (j # js) (e # es) \<longleftrightarrow> envelope_to_domain j = Inr e \<and> journal_of js es"
  by (simp_all add: journal_of_def)

lemma journal_of_append:
  "journal_of js envs \<Longrightarrow> journal_of ks fnvs \<Longrightarrow> journal_of (js @ ks) (envs @ fnvs)"
  by (simp add: journal_of_def list_all2_appendI)

lemma journal_of_length: "journal_of js envs \<Longrightarrow> length js = length envs"
  by (simp add: journal_of_def list_all2_lengthD)

lemma journal_of_take: "journal_of js envs \<Longrightarrow> journal_of (take n js) (take n envs)"
  by (simp add: journal_of_def list_all2_takeI)

lemma journal_of_drop: "journal_of js envs \<Longrightarrow> journal_of (drop n js) (drop n envs)"
  by (simp add: journal_of_def list_all2_dropI)

lemma apply_journal_appends:
  "appends_all envs s t rs \<Longrightarrow> journal_of js envs \<Longrightarrow> apply_journal js s = Inr t"
proof (induction arbitrary: js rule: appends_all.induct)
  case (cons env s t d envs u rs)
  from cons.prems obtain j ks where "js = j # ks" "envelope_to_domain j = Inr env" "journal_of ks envs"
    by (auto simp: journal_of_def list_all2_Cons2)
  then show ?case using cons by (simp add: appends_def)
qed simp

lemma appends_all_ids:
  "appends_all envs s t rs \<Longrightarrow> journal_of js envs \<Longrightarrow> coordinator_inv s \<Longrightarrow> state_ids_ok s \<Longrightarrow> state_ids_ok t"
proof (induction arbitrary: js rule: appends_all.induct)
  case (cons env s t d envs u rs)
  from cons.prems(1) obtain j ks where j: "js = j # ks" "envelope_to_domain j = Inr env" "journal_of ks envs"
    by (auto simp: journal_of_def list_all2_Cons2)
  have "state_ids_ok t"
    using appends_ids [OF cons.hyps(1) cons.prems(3) envelope_to_domain_ids [OF j(2)] cons.prems(2)] .
  then show ?case using cons.IH [OF j(3) appends_inv [OF cons.prems(2) cons.hyps(1)]] by simp
qed simp

lemma appends_tenant_frame:
  assumes "appends env s t d" "coordinator_inv s"
  shows "cs_tenant_id t = cs_tenant_id s \<and> cs_profile_id t = cs_profile_id s \<and> cs_config t = cs_config s"
proof -
  from assms(1) coordinator_inv_short [OF assms(2)] obtain s1 where "frame s s1" "t = commit_fresh env d s1"
    by (rule appendsE)
  then show ?thesis by (simp add: frame_def commit_fresh_def)
qed

lemma appends_all_frame:
  "appends_all envs s t rs \<Longrightarrow> coordinator_inv s \<Longrightarrow>
     cs_tenant_id t = cs_tenant_id s \<and> cs_profile_id t = cs_profile_id s \<and> cs_config t = cs_config s"
proof (induction rule: appends_all.induct)
  case (cons env s t d envs u rs)
  then show ?case using appends_tenant_frame [OF cons.hyps(1) cons.prems] appends_inv by metis
qed simp

section \<open>Documents that represent a coordinator\<close>

definition represents ::
    "stored_coordinator_document \<Rightarrow> coordinator_state \<Rightarrow> bool" where
  "represents doc s \<longleftrightarrow> (\<exists>base envs rs. restore_base doc = Inr base \<and> coordinator_inv base
      \<and> state_ids_ok base \<and> journal_of (scd_journal doc) envs \<and> appends_all envs base s rs)"

lemma represents_replay: "represents doc s \<Longrightarrow> document_replay doc = Inr s"
  by (auto simp: represents_def document_replay_def apply_journal_appends)

lemma represents_inv: "represents doc s \<Longrightarrow> coordinator_inv s"
  by (auto simp: represents_def dest: appends_all_inv)

lemma represents_ids: "represents doc s \<Longrightarrow> state_ids_ok s"
  by (auto simp: represents_def dest: appends_all_ids)

lemma represents_append:
  assumes "represents doc s" "envelope_to_domain env = Inr denv" "appends denv s t d"
  shows "represents (doc\<lparr>scd_journal := scd_journal doc @ [env]\<rparr>) t"
proof -
  from assms(1) obtain base envs rs where "restore_base doc = Inr base" "coordinator_inv base"
      "state_ids_ok base" "journal_of (scd_journal doc) envs" "appends_all envs base s rs"
    by (auto simp: represents_def)
  moreover have "restore_base (doc\<lparr>scd_journal := js\<rparr>) = restore_base doc" for js
    by (simp add: restore_base_def)
  ultimately show ?thesis using assms(2,3) appends_all_snoc journal_of_append [of _ _ "[env]" "[denv]"]
    by (fastforce simp: represents_def)
qed

lemma restore_checkpoint_frame:
  "restore_checkpoint t p c snap = Inr s \<Longrightarrow> cs_tenant_id s = t \<and> cs_profile_id s = p \<and> cs_config s = c"
  by (auto simp: restore_checkpoint_def Let_def split: option.splits if_splits)

lemma restore_base_parts:
  assumes "restore_base doc = Inr base"
  shows "adapter_id (scd_tenant_id doc) = Inr (cs_tenant_id base)
    \<and> adapter_id (scd_profile_id doc) = Inr (cs_profile_id base)
    \<and> coordinator_config_new (scd_idle_timeout_ms doc) (scd_hard_timeout_ms doc) (scd_drain_timeout_ms doc)
       = Inr (cs_config base)"
  using assms
  by (auto simp: restore_base_def res_bind_Inr_iff coordinator_new_def
      dest!: restore_checkpoint_frame split: option.splits)

lemma restore_base_checkpoint:
  assumes "adapter_id (scd_tenant_id doc) = Inr (cs_tenant_id s)"
    "adapter_id (scd_profile_id doc) = Inr (cs_profile_id s)"
    "coordinator_config_new (scd_idle_timeout_ms doc) (scd_hard_timeout_ms doc) (scd_drain_timeout_ms doc)
       = Inr (cs_config s)"
    "coordinator_inv s" "state_ids_ok s"
    "scd_checkpoint doc = Some (stored_checkpoint_from_state s last_claim)"
  shows "restore_base doc = Inr (s\<lparr>cs_receipts := []\<rparr>)"
  using assms by (simp add: restore_base_def stored_checkpoint_roundtrip restore_of_checkpoint)

lemma forget_receipts_inv: "coordinator_inv s \<Longrightarrow> coordinator_inv (s\<lparr>cs_receipts := []\<rparr>)"
  by (simp add: coordinator_inv_def shape_ok_def counter_ok_def receipts_ok_def)

text \<open>
  Compaction of a document that represents \<open>s\<close> succeeds, keeps the last 32 commands, and the
  compacted document represents \<open>s\<close> again, receipts included.
\<close>

lemma compact_journal_represents:
  assumes "represents doc s" "retain_recent_commands < length (scd_journal doc)"
  obtains doc' where "compact_journal doc = (Inr (), doc')" "represents doc' s"
    "scd_journal doc' = drop (length (scd_journal doc) - retain_recent_commands) (scd_journal doc)"
    "\<exists>anchor. scd_checkpoint doc' = Some (stored_checkpoint_from_state anchor
       (fold_last_claim (take (length (scd_journal doc) - retain_recent_commands) (scd_journal doc))
          (case scd_checkpoint doc of None \<Rightarrow> None | Some p \<Rightarrow> scp_last_claim p)))"
proof -
  let ?n = "length (scd_journal doc) - retain_recent_commands"
  let ?J = "scd_journal doc"
  obtain base envs rs where b: "restore_base doc = Inr base" "coordinator_inv base"
      "state_ids_ok base" "journal_of ?J envs" "appends_all envs base s rs"
    using assms(1) by (auto simp: represents_def)
  obtain anchor rs1 rs2 where a: "appends_all (take ?n envs) base anchor rs1" "appends_all (drop ?n envs) anchor s rs2"
    using appends_all_split [of "take ?n envs" "drop ?n envs" base s rs] b(5) by auto
  have inv_a: "coordinator_inv anchor" using appends_all_inv [OF a(1) b(2)] .
  have ids_a: "state_ids_ok anchor" using appends_all_ids [OF a(1) journal_of_take [OF b(4)] b(2,3)] .
  have fr: "cs_tenant_id anchor = cs_tenant_id base" "cs_profile_id anchor = cs_profile_id base"
      "cs_config anchor = cs_config base"
    using appends_all_frame [OF a(1) b(2)] by auto
  have len: "receipt_limit \<le> length (drop ?n envs)"
    using assms(2) journal_of_length [OF b(4)] by (simp add: receipt_limit_def retain_recent_commands_def)
  obtain t2 where t2: "appends_all (drop ?n envs) (anchor\<lparr>cs_receipts := []\<rparr>) t2 rs2" "t2 = s"
    using replay_from_checkpoint [OF inv_a a(2)] len by metis
  let ?last = "fold_last_claim (take ?n ?J) (case scd_checkpoint doc of None \<Rightarrow> None | Some p \<Rightarrow> scp_last_claim p)"
  let ?next = "stored_checkpoint_from_state anchor ?last"
  let ?doc = "doc\<lparr>scd_checkpoint := Some ?next, scd_journal := drop ?n ?J\<rparr>"
  have "compact_journal doc = (Inr (), ?doc)"
    using assms(2) b(1) apply_journal_appends [OF a(1) journal_of_take [OF b(4)]]
      represents_replay [OF assms(1)] stored_checkpoint_roundtrip [OF inv_a ids_a]
      restore_of_checkpoint [OF inv_a] apply_journal_appends [OF t2(1) journal_of_drop [OF b(4)]] t2(2)
    by (simp add: compact_journal_def Let_def)
  moreover have "represents ?doc s"
  proof -
    have "restore_base ?doc = Inr (anchor\<lparr>cs_receipts := []\<rparr>)"
      using restore_base_parts [OF b(1)] fr inv_a ids_a by (intro restore_base_checkpoint) auto
    moreover have "state_ids_ok (anchor\<lparr>cs_receipts := []\<rparr>)" using ids_a by (simp add: state_ids_ok_def)
    ultimately show ?thesis
      unfolding represents_def
      using forget_receipts_inv [OF inv_a] journal_of_drop [OF b(4)] t2 by fastforce
  qed
  ultimately show thesis by (intro that [of ?doc]) auto
qed

section \<open>Supervision: the contract of the stored coordinator\<close>

text \<open>
  What a stored document promises, without documents: a coordinator state and the identity of
  the last claim of its whole history.  An uncertain workspace is reopened only for the actor
  and the device of that claim.
\<close>

definition document_last_claim :: "stored_coordinator_document \<Rightarrow> stored_claim_identity option" where
  "document_last_claim doc = fold_last_claim (scd_journal doc)
     (case scd_checkpoint doc of None \<Rightarrow> None | Some cp \<Rightarrow> scp_last_claim cp)"

definition claimed_by :: "stored_claim_identity option \<Rightarrow> actor_id \<Rightarrow> device_id \<Rightarrow> bool" where
  "claimed_by who actor device \<longleftrightarrow>
     (\<exists>c. who = Some c \<and> sci_actor_id c = id_as_str actor \<and> sci_device_id c = id_as_str device)"

lemma fold_last_claim_append:
  "fold_last_claim (xs @ ys) c = fold_last_claim ys (fold_last_claim xs c)"
  by (induction xs arbitrary: c) simp_all

lemma fold_last_claim_rev:
  "fold_last_claim js c =
     (case List.map_filter (\<lambda>env. claim_identity_of (sce_command env)) (rev js) of
        x # _ \<Rightarrow> Some x | [] \<Rightarrow> c)"
proof (induction js rule: rev_induct)
  case Nil
  then show ?case by (simp add: List.map_filter_simps)
next
  case (snoc j js)
  then show ?case
    by (simp add: fold_last_claim_append List.map_filter_simps split: option.splits)
qed

lemma last_claim_matches_iff:
  "last_claim_matches doc actor device \<longleftrightarrow> claimed_by (document_last_claim doc) actor device"
  by (simp add: last_claim_matches_def document_last_claim_def fold_last_claim_rev claimed_by_def
      split: list.splits option.splits)

definition supervise ::
    "stored_claim_identity option \<Rightarrow> coordinator_state \<Rightarrow> stored_coordinator_command
     \<Rightarrow> coordinator_adapter_error + unit" where
  "supervise who s command =
     (let check = (\<lambda>a d. res_bind (adapter_id a) (\<lambda>actor. res_bind (adapter_id d) (\<lambda>device.
            if claimed_by who actor device then Inr () else Inl (Domain StaleWriter))))
      in case command of
           StoredIssueLaunchIntent _ a d _ _ \<Rightarrow> if cs_recovery_claim_pending s then check a d else Inr ()
         | StoredRecoverAndIssueLaunchIntent _ a d _ _ \<Rightarrow> check a d
         | _ \<Rightarrow> Inr ())"

lemma recovery_admission_supervise:
  "recovery_admission doc s command = supervise (document_last_claim doc) s command"
  by (simp add: recovery_admission_def supervise_def last_claim_matches_iff Let_def
      split: stored_coordinator_command.splits)

type_synonym supervised = "coordinator_state \<times> stored_claim_identity option"

definition supervised_apply ::
    "stored_coordinator_envelope \<Rightarrow> supervised
     \<Rightarrow> (coordinator_adapter_error + coordinator_decision) \<times> supervised" where
  "supervised_apply env a =
     (case a of (s, who) \<Rightarrow>
       (case res_bind (supervise who s (sce_command env)) (\<lambda>_. envelope_to_domain env) of
          Inl e \<Rightarrow> (Inl e, (s, who))
        | Inr denv \<Rightarrow>
            (case coordinator_apply denv s of
               (Inl e, _) \<Rightarrow> (Inl (Domain e), (s, who))
             | (Inr d, t) \<Rightarrow>
                 (Inr d,
                  (t, if cs_last_sequence t = cs_last_sequence s then who
                      else fold_last_claim [env] who)))))"

definition refines :: "stored_coordinator_document \<Rightarrow> supervised \<Rightarrow> bool" where
  "refines doc a \<longleftrightarrow> represents doc (fst a) \<and> document_last_claim doc = snd a
     \<and> length (scd_journal doc) < compact_journal_at"

text \<open>The adapter's test "is the decision newer than the state" tells a recorded command from a replay.\<close>

lemma applied_appended:
  assumes "coordinator_inv s" "coordinator_apply denv s = (Inr d, t)"
  shows "cs_last_sequence s < cd_sequence d \<longleftrightarrow> cs_last_sequence t \<noteq> cs_last_sequence s"
    and "cs_last_sequence t = cs_last_sequence s \<Longrightarrow> t = s"
proof -
  from assms(2) have "(cs_last_sequence s < cd_sequence d \<longleftrightarrow> cs_last_sequence t \<noteq> cs_last_sequence s)
      \<and> (cs_last_sequence t = cs_last_sequence s \<longrightarrow> t = s)"
  proof (cases rule: coordinator_apply_Inr_cases)
    case (replayed r)
    from replayed(1) have r: "r \<in> set (cs_receipts s)" by (auto simp: find_Some_iff)
    have "unat (rc_sequence r) \<in> set (map (\<lambda>r. unat (rc_sequence r)) (cs_receipts s))" using r by simp
    then have "unat (rc_sequence r) \<le> unat (cs_last_sequence s)"
      using assms(1) unfolding coordinator_inv_def receipts_ok_def by auto
    then show ?thesis
      using replayed r assms(1)
      by (auto simp: coordinator_inv_def receipts_ok_def word_less_nat_alt)
  next
    case fresh
    then show ?thesis by (auto simp: commit_fresh_def word_less_nat_alt)
  qed
  then show "cs_last_sequence s < cd_sequence d \<longleftrightarrow> cs_last_sequence t \<noteq> cs_last_sequence s"
    and "cs_last_sequence t = cs_last_sequence s \<Longrightarrow> t = s" by auto
qed

lemma document_apply_appended:
  assumes "represents doc s" "length (scd_journal doc) < compact_journal_at"
    "envelope_to_domain env = Inr denv" "appends denv s t d"
    "doc1 = doc\<lparr>scd_journal := scd_journal doc @ [env]\<rparr>"
  obtains doc2 where
    "(if compact_journal_at \<le> length (scd_journal doc1) then compact_journal doc1 = (Inr (), doc2)
      else doc2 = doc1)"
    "refines doc2 (t, fold_last_claim [env] (document_last_claim doc))"
proof (cases "compact_journal_at \<le> length (scd_journal doc1)")
  case False
  have "represents doc1 t" using represents_append [OF assms(1,3,4)] assms(5) by simp
  then show thesis using False assms(5)
    by (intro that [of doc1]) (auto simp: refines_def document_last_claim_def fold_last_claim_append)
next
  case True
  have r: "represents doc1 t" using represents_append [OF assms(1,3,4)] assms(5) by simp
  have n: "retain_recent_commands < length (scd_journal doc1)"
    using True by (simp add: retain_recent_commands_def compact_journal_at_def)
  let ?n = "length (scd_journal doc1) - retain_recent_commands"
  obtain doc2 where c: "compact_journal doc1 = (Inr (), doc2)" "represents doc2 t"
      "scd_journal doc2 = drop ?n (scd_journal doc1)"
      "\<exists>anchor. scd_checkpoint doc2 = Some (stored_checkpoint_from_state anchor
         (fold_last_claim (take ?n (scd_journal doc1))
            (case scd_checkpoint doc1 of None \<Rightarrow> None | Some p \<Rightarrow> scp_last_claim p)))"
    using compact_journal_represents [OF r n] by metis
  have "document_last_claim doc2 = document_last_claim doc1"
    using c(3,4) by (auto simp: document_last_claim_def stored_checkpoint_from_state_def Let_def
        simp flip: fold_last_claim_append)
  also have "\<dots> = fold_last_claim [env] (document_last_claim doc)"
    using assms(5) by (simp add: document_last_claim_def fold_last_claim_append)
  finally have "refines doc2 (t, fold_last_claim [env] (document_last_claim doc))"
    using c n by (simp add: refines_def compact_journal_at_def retain_recent_commands_def)
  then show thesis using True c(1) by (intro that [of doc2]) simp_all
qed

lemma document_apply_simulates:
  assumes "refines doc a"
  shows "refines (snd (document_apply env doc)) (snd (supervised_apply env a))"
    and "res_bind (fst (document_apply env doc)) (\<lambda>applied. Inr (ca_decision applied))
       = fst (supervised_apply env a)"
    and "fst (document_apply env doc) = Inr applied \<Longrightarrow>
       ca_projection applied = projection_from_state (fst (snd (supervised_apply env a)))
       \<and> ca_next_alarm_at applied = next_alarm_at (fst (snd (supervised_apply env a)))
       \<and> (ca_appended applied \<longleftrightarrow>
            cs_last_sequence (fst (snd (supervised_apply env a))) \<noteq> cs_last_sequence (fst a))"
    and "fst (document_apply env doc) = Inl e \<Longrightarrow> snd (document_apply env doc) = doc"
proof -
  obtain s who where a: "a = (s, who)" by fastforce
  have rep: "represents doc s" and who: "document_last_claim doc = who"
    and short: "length (scd_journal doc) < compact_journal_at"
    using assms by (auto simp: refines_def a)
  have inv: "coordinator_inv s" using represents_inv [OF rep] .
  note [simp] = a represents_replay [OF rep] recovery_admission_supervise who assms
  have "refines (snd (document_apply env doc)) (snd (supervised_apply env a))
     \<and> res_bind (fst (document_apply env doc)) (\<lambda>applied. Inr (ca_decision applied))
         = fst (supervised_apply env a)
     \<and> (\<forall>applied. fst (document_apply env doc) = Inr applied \<longrightarrow>
         ca_projection applied = projection_from_state (fst (snd (supervised_apply env a)))
         \<and> ca_next_alarm_at applied = next_alarm_at (fst (snd (supervised_apply env a)))
         \<and> (ca_appended applied \<longleftrightarrow>
              cs_last_sequence (fst (snd (supervised_apply env a))) \<noteq> cs_last_sequence (fst a)))
     \<and> (\<forall>e. fst (document_apply env doc) = Inl e \<longrightarrow> snd (document_apply env doc) = doc)"
  proof (cases "res_bind (supervise who s (sce_command env)) (\<lambda>_. envelope_to_domain env)")
    case (Inl e)
    then show ?thesis using assms by (auto simp: document_apply_def supervised_apply_def res_bind_Inl_iff)
  next
    case (Inr denv)
    then have adm: "supervise who s (sce_command env) = Inr ()" and env: "envelope_to_domain env = Inr denv"
      by (auto simp: res_bind_Inr_iff)
    show ?thesis
    proof (cases "coordinator_apply denv s")
      case (Pair r t)
      show ?thesis
      proof (cases r)
        case (Inl e)
        then show ?thesis using Pair adm env assms by (simp add: document_apply_def supervised_apply_def)
      next
        case (Inr d)
        with Pair have ap: "coordinator_apply denv s = (Inr d, t)" by simp
        show ?thesis
        proof (cases "cs_last_sequence t = cs_last_sequence s")
          case True
          then show ?thesis using applied_appended [OF inv ap] adm env ap assms
            by (simp add: document_apply_def supervised_apply_def)
        next
          case False
          then have "appends denv s t d" using ap by (simp add: appends_def)
          then obtain doc2 where doc2:
              "(if compact_journal_at \<le> length (scd_journal (doc\<lparr>scd_journal := scd_journal doc @ [env]\<rparr>))
                then compact_journal (doc\<lparr>scd_journal := scd_journal doc @ [env]\<rparr>) = (Inr (), doc2)
                else doc2 = doc\<lparr>scd_journal := scd_journal doc @ [env]\<rparr>)"
              "refines doc2 (t, fold_last_claim [env] who)"
            using document_apply_appended [OF rep short env] who by metis
          then show ?thesis using False applied_appended [OF inv ap] adm env ap
            by (auto simp: document_apply_def supervised_apply_def Let_def split: if_splits)
        qed
      qed
    qed
  qed
  then show "refines (snd (document_apply env doc)) (snd (supervised_apply env a))"
    and "res_bind (fst (document_apply env doc)) (\<lambda>applied. Inr (ca_decision applied))
       = fst (supervised_apply env a)"
    and "fst (document_apply env doc) = Inr applied \<Longrightarrow>
       ca_projection applied = projection_from_state (fst (snd (supervised_apply env a)))
       \<and> ca_next_alarm_at applied = next_alarm_at (fst (snd (supervised_apply env a)))
       \<and> (ca_appended applied \<longleftrightarrow>
            cs_last_sequence (fst (snd (supervised_apply env a))) \<noteq> cs_last_sequence (fst a))"
    and "fst (document_apply env doc) = Inl e \<Longrightarrow> snd (document_apply env doc) = doc"
    by blast+
qed

lemma document_new_refines:
  assumes "id_valid t" "id_valid p" "coordinator_config_new i h d = Inr c"
  shows "refines (document_new t p c) (coordinator_new t p c, None)"
proof -
  have "coordinator_config_new (cc_idle_timeout_ms c) (cc_hard_timeout_ms c) (cc_drain_timeout_ms c) = Inr c"
    using assms(3) by (auto simp: coordinator_config_new_def split: if_splits)
  then have "restore_base (document_new t p c) = Inr (coordinator_new t p c)"
    using assms by (simp add: restore_base_def document_new_def)
  moreover have "state_ids_ok (coordinator_new t p c)"
    using assms by (simp add: state_ids_ok_def coordinator_new_def)
  ultimately have "represents (document_new t p c) (coordinator_new t p c)"
    using coordinator_new_inv [OF config_new_ok [OF assms(3)]]
    unfolding represents_def by (auto simp: document_new_def intro: appends_all.nil)
  then show ?thesis
    by (simp add: refines_def document_last_claim_def document_new_def compact_journal_at_def)
qed

lemma document_apply_agrees:
  assumes "refines doc a"
  shows "is_ok (fst (document_apply env doc)) = is_ok (fst (supervised_apply env a))"
  using document_apply_simulates(2) [OF assms, of env]
  by (cases "fst (document_apply env doc)") (auto simp: is_ok_def split: sum.splits)

interpretation docs: simulated_machine document_apply supervised_apply refines
  by unfold_locales (erule document_apply_simulates(1) document_apply_agrees)+

end
