(* ===== verification/Document_Recovery.thy ===== *)
theory Document_Recovery
  imports Document_Refinement
begin

text \<open>
  Recovery and alarms of the stored coordinator.  An uncertain workspace goes back to the
  actor and the device of the last claim and to nobody else, until \<open>MarkRecovered\<close> clears it
  (\<open>recovery_ok\<close>, an invariant of every run from creation); the alarm the document asks for
  is exactly the first moment at which a \<open>Tick\<close> has something to do.
\<close>

section \<open>Who may reopen an uncertain workspace\<close>

definition recovery_ok :: "supervised \<Rightarrow> bool" where
  "recovery_ok a \<longleftrightarrow> (cs_recovery_claim_pending (fst a) \<longrightarrow>
     (\<forall>p. cs_pending_intent (fst a) = Some p \<longrightarrow> claimed_by (snd a) (pi_actor_id p) (pi_device_id p)))"

definition supervised_inv :: "supervised \<Rightarrow> bool" where
  "supervised_inv a \<longleftrightarrow> coordinator_inv (fst a) \<and> recovery_ok a"

text \<open>What a transition does to the recovery reservation and to the pending intent.\<close>

definition quiet_recovery :: "coordinator_state \<Rightarrow> coordinator_state \<Rightarrow> bool" where
  "quiet_recovery s t \<longleftrightarrow> (cs_recovery_claim_pending t \<longrightarrow> cs_recovery_claim_pending s)
     \<and> (cs_pending_intent t = None \<or> cs_pending_intent t = cs_pending_intent s)"

lemma heartbeat_recovery:
  "heartbeat sid epoch tok now renew s = (Inr out, t) \<Longrightarrow> quiet_recovery s t"
  by (erule heartbeat_Inr_cases; cases rule: timeout_cases [of now s])
     (auto simp: timed_out_def quiet_recovery_def)

lemma apply_new_recovery:
  assumes "apply_new c s = (Inr out, t)"
  shows "(\<exists>i a d now x. c = IssueLaunchIntent i a d now x
            \<and> cs_recovery_claim_pending t = cs_recovery_claim_pending s
            \<and> (\<exists>p. cs_pending_intent t = Some p \<and> pi_actor_id p = a \<and> pi_device_id p = d))
       \<or> (\<exists>i a d now x. c = RecoverAndIssueLaunchIntent i a d now x
            \<and> (\<exists>p. cs_pending_intent t = Some p \<and> pi_actor_id p = a \<and> pi_device_id p = d))
       \<or> (\<exists>i a d sid tok now. c = Claim i a d sid tok now \<and> \<not> cs_recovery_claim_pending t
            \<and> (\<exists>p. cs_pending_intent s = Some p \<and> pi_actor_id p = a \<and> pi_device_id p = d))
       \<or> ((\<forall>i a d sid tok now. c \<noteq> Claim i a d sid tok now) \<and> quiet_recovery s t)"
proof (cases c)
  case (Release sid epoch tok disp now)
  then show ?thesis using assms
    by (cases rule: timeout_cases [of now s])
       (auto simp: release_def quiet_recovery_def timed_out_def split: option.splits if_splits)
next
  case (BeginDrain now)
  then show ?thesis using assms
    by (cases rule: timeout_cases [of now s])
       (auto simp: begin_drain_def quiet_recovery_def timed_out_def Let_def split: option.splits sum.splits if_splits)
next
  case (Tick now)
  then show ?thesis using assms
    by (cases rule: timeout_cases [of now s])
       (auto simp: tick_def quiet_recovery_def timed_out_def split: option.splits if_splits)
next
  case (Heartbeat sid epoch tok now)
  then show ?thesis using assms heartbeat_recovery by fastforce
next
  case (RenewLease sid epoch tok now)
  then show ?thesis using assms heartbeat_recovery by fastforce
qed (use assms in \<open>auto simp: issue_launch_intent_def claim_def recover_and_issue_launch_intent_def
       mark_recovered_def quiet_recovery_def Let_def split: option.splits sum.splits if_splits\<close>)

text \<open>The stored command behind a parsed one.\<close>

lemma command_to_domain_claim:
  "command_to_domain c = Inr (Claim i a d sid tok now) \<Longrightarrow>
   claim_identity_of c = Some \<lparr>sci_actor_id = id_as_str a, sci_device_id = id_as_str d, sci_session_id = id_as_str sid\<rparr>"
  by (cases c) (auto simp: res_bind_Inr_iff id_parse_Inr_iff)

lemma command_to_domain_no_claim:
  "command_to_domain c = Inr dc \<Longrightarrow> (\<forall>i a d sid tok now. dc \<noteq> Claim i a d sid tok now) \<Longrightarrow>
   claim_identity_of c = None"
  by (cases c) (auto simp: res_bind_Inr_iff)

lemma supervise_issue:
  "supervise who s c = Inr () \<Longrightarrow> command_to_domain c = Inr (IssueLaunchIntent i a d now x) \<Longrightarrow>
   cs_recovery_claim_pending s \<Longrightarrow> claimed_by who a d"
  by (cases c) (auto simp: supervise_def res_bind_Inr_iff Let_def split: if_splits)

lemma supervise_recover:
  "supervise who s c = Inr () \<Longrightarrow> command_to_domain c = Inr (RecoverAndIssueLaunchIntent i a d now x) \<Longrightarrow>
   claimed_by who a d"
  by (cases c) (auto simp: supervise_def res_bind_Inr_iff Let_def split: if_splits)

lemma envelope_to_domain_command:
  "envelope_to_domain env = Inr denv \<Longrightarrow> command_to_domain (sce_command env) = Inr (ce_command denv)"
  by (auto simp: envelope_to_domain_def res_bind_Inr_iff coordinator_command_envelope_new_def split: if_splits)

lemma supervised_apply_Inr_cases:
  assumes "coordinator_inv s" "supervised_apply env (s, who) = (Inr d, b)"
  obtains (replayed) "b = (s, who)"
  | (fresh) denv out s1 where "supervise who s (sce_command env) = Inr ()"
      "envelope_to_domain env = Inr denv" "apply_new (ce_command denv) s = (Inr out, s1)"
      "cd_outcome d = out" "b = (commit_fresh denv d s1, fold_last_claim [env] who)"
proof -
  from assms(2) obtain denv t where e: "supervise who s (sce_command env) = Inr ()"
      "envelope_to_domain env = Inr denv" "coordinator_apply denv s = (Inr d, t)"
    and b: "b = (t, if cs_last_sequence t = cs_last_sequence s then who else fold_last_claim [env] who)"
    by (auto simp: supervised_apply_def res_bind_Inr_iff split: sum.splits prod.splits)
  from e(3) show thesis
  proof (cases rule: coordinator_apply_Inr_cases)
    case replayed
    then show thesis using b that(1) by simp
  next
    case (fresh out s1)
    moreover have "cs_last_sequence t \<noteq> cs_last_sequence s" using fresh by (auto simp: commit_fresh_def)
    ultimately show thesis using b e by (intro that(2) [of denv out s1]) simp_all
  qed
qed

lemma supervised_apply_error: "fst (supervised_apply env a) = Inl e \<Longrightarrow> snd (supervised_apply env a) = a"
  by (auto simp: supervised_apply_def split: prod.splits sum.splits)

lemma supervised_apply_inv:
  assumes "supervised_inv a"
  shows "supervised_inv (snd (supervised_apply env a))"
proof (cases "fst (supervised_apply env a)")
  case (Inl e)
  then show ?thesis using supervised_apply_error assms by simp
next
  case (Inr d)
  obtain s who where a: "a = (s, who)" by fastforce
  obtain b where b: "supervised_apply env (s, who) = (Inr d, b)" using Inr a by (metis prod.collapse)
  have inv: "coordinator_inv s" and rec: "recovery_ok (s, who)" using assms a by (auto simp: supervised_inv_def)
  from inv b show ?thesis
  proof (cases rule: supervised_apply_Inr_cases)
    case replayed
    then show ?thesis using b a assms by simp
  next
    case (fresh denv out s1)
    have "coordinator_inv (fst b)"
      using coordinator_apply_inv [OF inv, of denv] b fresh
      by (auto simp: supervised_apply_def split: sum.splits prod.splits)
    moreover have "recovery_ok b"
      using apply_new_recovery [OF fresh(3)] rec fresh supervise_issue [OF fresh(1)]
        supervise_recover [OF fresh(1)] envelope_to_domain_command [OF fresh(2)]
        command_to_domain_no_claim [of "sce_command env" "ce_command denv"]
      by (fastforce simp: recovery_ok_def commit_fresh_def quiet_recovery_def)
    ultimately show ?thesis using b a by (simp add: supervised_inv_def)
  qed
qed

interpretation supervised: atomic_machine supervised_apply supervised_inv
  by unfold_locales (auto intro: supervised_apply_inv supervised_apply_error)

lemma supervised_new_inv: "config_ok c \<Longrightarrow> supervised_inv (coordinator_new t p c, None)"
  by (simp add: supervised_inv_def recovery_ok_def coordinator_new_inv) (simp add: coordinator_new_def)

lemma recovering_claimant:
  assumes "supervised_inv (s, who)" "supervised_apply env (s, who) = (Inr d, (t, who'))"
    "cd_outcome d = LeaseClaimed l" "cs_last_sequence t \<noteq> cs_last_sequence s" "cs_recovery_claim_pending s"
  shows "\<exists>c c'. who = Some c \<and> who' = Some c' \<and> sci_actor_id c' = sci_actor_id c
     \<and> sci_device_id c' = sci_device_id c \<and> sci_device_id c = id_as_str (cl_device_id l)"
proof -
  have inv: "coordinator_inv s" using assms(1) by (simp add: supervised_inv_def)
  from inv assms(2) show ?thesis
  proof (cases rule: supervised_apply_Inr_cases)
    case replayed
    then show ?thesis using assms(4) by simp
  next
    case (fresh denv out s1)
    have claimed: "\<exists>i a dv sid tok now. ce_command denv = Claim i a dv sid tok now"
      using fresh(3,4) assms(3)
      by (cases "ce_command denv")
         (auto simp: issue_launch_intent_def recover_and_issue_launch_intent_def release_def begin_drain_def
           tick_def mark_recovered_def Let_def dest: timeout_SomeD elim!: heartbeat_Inr_cases
           split: option.splits if_splits prod.splits sum.splits)
    then obtain i a dv sid tok now where c: "ce_command denv = Claim i a dv sid tok now" by blast
    then obtain p where p: "cs_pending_intent s = Some p" "pi_actor_id p = a" "pi_device_id p = dv"
        "cl_device_id l = dv"
      using fresh(3,4) assms(3) by (auto simp: claim_def Let_def split: option.splits if_splits sum.splits)
    have "claimed_by who a dv" using assms(1,5) p by (auto simp: supervised_inv_def recovery_ok_def)
    then show ?thesis
      using fresh(5) p command_to_domain_claim [of "sce_command env" i a dv sid tok now]
        envelope_to_domain_command [OF fresh(2)] c by (auto simp: claimed_by_def)
  qed
qed

section \<open>The alarm\<close>

lemma next_alarm_tick:
  assumes "coordinator_inv s"
  shows "fst (tick now s) = Inr NoChange \<longleftrightarrow> (\<forall>t. next_alarm_at s = Some t \<longrightarrow> now < t)"
proof (cases "cs_active_lease s")
  case None
  then show ?thesis
    by (auto simp: tick_def next_alarm_at_def timeout_if_due_def not_le split: option.splits)
next
  case (Some l)
  moreover from Some assms have "cs_pending_intent s = None" "cs_drain_deadline s \<noteq> None \<longleftrightarrow> cs_status s = Draining"
    by (auto simp: coordinator_inv_def shape_ok_def)
  ultimately show ?thesis
    by (cases "cs_drain_deadline s")
       (auto simp: tick_def next_alarm_at_def timeout_if_due_def Let_def not_le not_less split: option.splits)
qed

lemma tick_clears_alarm:
  assumes "coordinator_inv s" "next_alarm_at s = Some t" "t \<le> now"
  shows "next_alarm_at (snd (tick now s)) = None"
proof (cases "cs_active_lease s")
  case None
  then show ?thesis using assms(2,3)
    by (auto simp: tick_def next_alarm_at_def split: option.splits)
next
  case (Some l)
  then have p: "cs_pending_intent s = None" using assms(1) by (auto simp: coordinator_inv_def shape_ok_def)
  have "fst (tick now s) \<noteq> Inr NoChange" using next_alarm_tick [OF assms(1)] assms(2,3) by auto
  then show ?thesis using p
    by (cases rule: timeout_cases [of now s]) (auto simp: tick_def timed_out_def next_alarm_at_def)
qed

end
