(* ===== verification/Coordinator_History.thy ===== *)
theory Coordinator_History
  imports Document_Recovery
begin

text \<open>
  Histories of coordinator commands: which epochs a run hands out (\<open>granted\<close>), which intent a
  claim redeems, which deadline a session keeps, and where a dirty or uncertain profile can go.
\<close>

section \<open>Runs with a restricted alphabet\<close>

lemma coordinator_apply_transition:
  obtains (same) "snd (coordinator_apply env s) = s"
  | (fresh) d out s1 where "coordinator_apply env s = (Inr d, commit_fresh env d s1)"
      "apply_new (ce_command env) s = (Inr out, s1)" "cd_outcome d = out"
proof (cases "coordinator_apply env s")
  case (Pair r t)
  show thesis
  proof (cases r)
    case (Inl e)
    then show thesis using Pair same by (auto dest: coordinator_apply_error_unchanged)
  next
    case (Inr d)
    with Pair have "coordinator_apply env s = (Inr d, t)" by simp
    then show thesis
      by (cases rule: coordinator_apply_Inr_cases) (use Pair Inr same fresh in auto)
  qed
qed

text \<open>A relation on states that every allowed transition keeps, and bookkeeping ignores, holds over a run.\<close>

lemma run_preserves:
  assumes "P s" "\<And>env s. env \<in> set envs \<Longrightarrow> P s \<Longrightarrow> P (snd (coordinator_apply env s))"
  shows "P (run_commands coordinator_apply envs s)"
  using assms by (induction envs arbitrary: s) simp_all

section \<open>Epochs handed out by a run\<close>

fun granted :: "coordinator_command_envelope list \<Rightarrow> coordinator_state \<Rightarrow> u64 list" where
  "granted [] s = []"
| "granted (env # envs) s =
     (case coordinator_apply env s of
        (Inl _, t) \<Rightarrow> granted envs t
      | (Inr d, t) \<Rightarrow>
          (if cs_last_sequence t = cs_last_sequence s then []
           else case cd_outcome d of LeaseClaimed l \<Rightarrow> [cl_epoch l] | _ \<Rightarrow> []) @ granted envs t)"

lemma lease_claimed_outcome:
  assumes "apply_new c s = (Inr (LeaseClaimed l), t)"
  obtains i a d sid tok now p where "c = Claim i a d sid tok now"
    "cs_active_lease s = None" "cs_status s = Idle" "cs_pending_intent s = Some p"
    "pi_launch_intent_id p = i" "pi_actor_id p = a" "pi_device_id p = d" "now < pi_expires_at p"
    "cl_session_id l = sid" "cl_device_id l = d" "cl_fencing_token l = tok"
    "unat (cl_epoch l) = Suc (unat (cs_next_epoch s))" "cs_next_epoch t = cl_epoch l"
    "cs_active_lease t = Some l" "cs_status t = Active" "cs_pending_intent t = None"
    "\<not> cs_recovery_claim_pending t"
proof -
  have "\<exists>i a d sid tok now. c = Claim i a d sid tok now"
    using assms
    by (cases c)
       (auto simp: issue_launch_intent_def recover_and_issue_launch_intent_def release_def begin_drain_def
         tick_def mark_recovered_def Let_def dest: timeout_SomeD elim!: heartbeat_Inr_cases
         split: option.splits if_splits prod.splits sum.splits)
  then obtain i a d sid tok now where c: "c = Claim i a d sid tok now" by blast
  obtain p where p: "cs_pending_intent s = Some p"
    using assms by (auto simp: c claim_def split: option.splits if_splits)
  show thesis using assms p
    by (intro that [OF c _ _ p])
       (auto simp: c claim_def Let_def dest: checked_add_SomeD split: option.splits if_splits sum.splits)
qed

lemma granted_bound:
  "sorted_wrt (<) (granted envs s) \<and> (\<forall>e \<in> set (granted envs s). cs_next_epoch s < e)"
proof (induction envs arbitrary: s)
  case (Cons env envs)
  let ?t = "snd (coordinator_apply env s)"
  have mono: "cs_next_epoch s \<le> cs_next_epoch ?t"
    using lease_step_fence_order [OF coordinator_apply_lease_step] by (simp add: fence_order_def)
  have tail: "sorted_wrt (<) (granted envs ?t)" "\<forall>e \<in> set (granted envs ?t). cs_next_epoch s < e"
    using Cons.IH [of ?t] mono by (auto intro: le_less_trans)
  show ?case
  proof (cases rule: coordinator_apply_transition [of env s])
    case same
    then show ?thesis using tail by (cases "coordinator_apply env s") (auto split: sum.splits)
  next
    case (fresh d out s1)
    show ?thesis
    proof (cases "\<exists>l. out = LeaseClaimed l")
      case True
      then obtain l where l: "out = LeaseClaimed l" by blast
      have e: "cs_next_epoch ?t = cl_epoch l" "cs_next_epoch s < cl_epoch l"
        using fresh by (auto simp: l commit_fresh_def word_less_nat_alt elim: lease_claimed_outcome)
      have "\<forall>x \<in> set (granted envs ?t). cl_epoch l < x" using Cons.IH [of ?t] e(1) by simp
      then show ?thesis using tail e(2) fresh(1,3) l by simp
    next
      case False
      then show ?thesis using tail fresh by (auto split: coordinator_outcome.splits)
    qed
  qed
qed simp

section \<open>Stale writers\<close>

fun writer_epoch :: "coordinator_command \<Rightarrow> u64 option" where
  "writer_epoch (Heartbeat _ epoch _ _) = Some epoch"
| "writer_epoch (RenewLease _ epoch _ _) = Some epoch"
| "writer_epoch (Release _ epoch _ _ _) = Some epoch"
| "writer_epoch _ = None"

lemma wrong_epoch_refused:
  assumes "writer_epoch c = Some e" "\<And>l. cs_active_lease s = Some l \<Longrightarrow> cl_epoch l \<noteq> e"
  shows "apply_new c s = (Inl NoActiveLease, s) \<or> apply_new c s = (Inl StaleWriter, s)"
  using assms by (cases c) (auto simp: heartbeat_def release_def accepts_writer_def split: option.splits)

lemma refused_apply:
  assumes "apply_new (ce_command env) s = (Inl e, s)"
  shows "snd (coordinator_apply env s) = s \<and> (fresh_key env s \<longrightarrow> (\<exists>e'. fst (coordinator_apply env s) = Inl e'))"
proof (cases rule: coordinator_apply_transition [of env s])
  case same
  moreover have "\<exists>e'. fst (coordinator_apply env s) = Inl e'" if "fresh_key env s"
  proof -
    from that have "find (\<lambda>r. rc_idempotency_key r = ce_idempotency_key env) (cs_receipts s) = None"
      by (simp add: find_key_None fresh_key_def)
    then show ?thesis using assms by (auto simp: coordinator_apply_def split: option.splits sum.splits)
  qed
  ultimately show ?thesis by blast
next
  case fresh
  then show ?thesis using assms by simp
qed

lemma retired_epoch:
  assumes "cs_active_lease s = Some l" "cl_epoch l \<le> cs_next_epoch s"
    "t = run_commands coordinator_apply envs s" "\<And>l1. cs_active_lease t = Some l1 \<Longrightarrow> cl_epoch l1 \<noteq> cl_epoch l"
    "cs_active_lease (run_commands coordinator_apply fnvs t) = Some l2"
  shows "cl_epoch l < cl_epoch l2"
proof -
  have st: "fence_order s t" and tu: "fence_order t (run_commands coordinator_apply fnvs t)"
    using run_fence_order assms(3) by auto
  have t: "cl_epoch l < cl_epoch l1" if "cs_active_lease t = Some l1" for l1
  proof -
    from st that assms(1) have "cs_next_epoch s < cl_epoch l1 \<or> lease_identity l1 = lease_identity l"
      by (auto simp: fence_order_def)
    then show ?thesis using assms(2) assms(4) [OF that] lease_identity_epoch [of l1 l] by auto
  qed
  from tu assms(5) consider "cs_next_epoch t < cl_epoch l2"
    | l1 where "cs_active_lease t = Some l1" "lease_identity l2 = lease_identity l1"
    by (auto simp: fence_order_def)
  then show ?thesis
  proof cases
    case 1
    then show ?thesis using assms(2) st by (auto simp: fence_order_def)
  next
    case 2
    then show ?thesis using t lease_identity_epoch [of l2 l1] by simp
  qed
qed

section \<open>A claim redeems an issued intent\<close>

fun issues_intent :: "coordinator_command \<Rightarrow> pending_launch_intent \<Rightarrow> bool" where
  "issues_intent (IssueLaunchIntent i a d _ x) p \<longleftrightarrow> p = pending_launch_intent_restored i a d x"
| "issues_intent (RecoverAndIssueLaunchIntent i a d _ x) p \<longleftrightarrow> p = pending_launch_intent_restored i a d x"
| "issues_intent _ _ \<longleftrightarrow> False"

lemma timeout_pending: "timeout_if_due now s = (r, t) \<Longrightarrow> cs_pending_intent t = Some p \<Longrightarrow> cs_pending_intent s = Some p"
  by (cases rule: timeout_cases [of now s]) (auto simp: timed_out_def)

lemma apply_new_pending:
  assumes "apply_new c s = (Inr out, t)" "cs_pending_intent t = Some p"
  shows "cs_pending_intent s = Some p \<or> issues_intent c p"
proof -
  have beat: "cs_pending_intent s = Some p" if "heartbeat sid epoch tok now renew s = (Inr out, t)"
    for sid epoch tok now renew
    using that assms(2) by (auto elim!: heartbeat_Inr_cases dest: timeout_pending)
  show ?thesis
    using assms
    by (cases c)
       (auto simp: issue_launch_intent_def claim_def recover_and_issue_launch_intent_def release_def
         begin_drain_def tick_def mark_recovered_def pending_launch_intent_restored_def Let_def
         dest: timeout_pending beat split: option.splits if_splits prod.splits sum.splits)
qed

lemma run_pending:
  "cs_pending_intent (run_commands coordinator_apply envs s) = Some p \<Longrightarrow>
     cs_pending_intent s = Some p \<or> (\<exists>env \<in> set envs. issues_intent (ce_command env) p)"
proof (induction envs arbitrary: s)
  case (Cons env envs)
  have "cs_pending_intent (snd (coordinator_apply env s)) = Some p \<Longrightarrow>
      cs_pending_intent s = Some p \<or> issues_intent (ce_command env) p"
  proof (cases rule: coordinator_apply_transition [of env s])
    case (fresh d out s1)
    moreover assume "cs_pending_intent (snd (coordinator_apply env s)) = Some p"
    ultimately show ?thesis using apply_new_pending [OF fresh(2)] by (simp add: commit_fresh_def)
  qed simp
  then show ?case using Cons by fastforce
qed simp

section \<open>The hard deadline of a session without renewal\<close>

definition keeps_hard :: "u64 \<Rightarrow> unix_millis \<Rightarrow> coordinator_state \<Rightarrow> bool" where
  "keeps_hard epoch hard s \<longleftrightarrow> epoch \<le> cs_next_epoch s \<and>
     (\<forall>l. cs_active_lease s = Some l \<longrightarrow> cl_epoch l = epoch \<longrightarrow> cl_hard_expires_at l = hard)"

fun renews :: "coordinator_command \<Rightarrow> bool" where
  "renews (RenewLease _ _ _ _) \<longleftrightarrow> True"
| "renews _ \<longleftrightarrow> False"

lemma apply_new_hard:
  assumes "apply_new c s = (Inr out, t)" "\<not> renews c" "cs_active_lease t = Some l'"
  shows "(\<exists>l. cs_active_lease s = Some l \<and> cl_epoch l' = cl_epoch l
             \<and> cl_hard_expires_at l' = cl_hard_expires_at l)
       \<or> cs_next_epoch s < cl_epoch l'"
proof (cases c)
  case (Heartbeat sid epoch tok now)
  with assms(1) have "heartbeat sid epoch tok now False s = (Inr out, t)" by simp
  then show ?thesis using assms(3)
    by (cases rule: heartbeat_Inr_cases; cases rule: timeout_cases [of now s])
       (auto simp: timed_out_def beat_def Let_def)
next
  case (Claim i a d sid tok now)
  then show ?thesis using assms
    by (auto simp: claim_def Let_def word_less_nat_alt dest!: checked_add_SomeD
        split: option.splits if_splits sum.splits)
next
  case (Release sid epoch tok disp now)
  then show ?thesis using assms
    by (cases rule: timeout_cases [of now s])
       (auto simp: release_def timed_out_def split: option.splits if_splits)
next
  case (BeginDrain now)
  then show ?thesis using assms
    by (cases rule: timeout_cases [of now s])
       (auto simp: begin_drain_def timed_out_def Let_def split: option.splits sum.splits if_splits)
next
  case (Tick now)
  then show ?thesis using assms
    by (cases rule: timeout_cases [of now s])
       (auto simp: tick_def timed_out_def split: option.splits if_splits)
qed (use assms in \<open>auto simp: issue_launch_intent_def recover_and_issue_launch_intent_def
      mark_recovered_def split: option.splits if_splits\<close>)

lemma coordinator_apply_keeps_hard:
  assumes "keeps_hard epoch hard s" "\<not> renews (ce_command env)"
  shows "keeps_hard epoch hard (snd (coordinator_apply env s))"
proof (cases rule: coordinator_apply_transition [of env s])
  case same
  then show ?thesis using assms by simp
next
  case (fresh d out s1)
  have "cs_next_epoch s \<le> cs_next_epoch (snd (coordinator_apply env s))"
    using lease_step_fence_order [OF coordinator_apply_lease_step] by (simp add: fence_order_def)
  then show ?thesis using fresh assms apply_new_hard [OF fresh(2) assms(2)]
    by (fastforce simp: keeps_hard_def commit_fresh_def)
qed

lemma run_keeps_hard:
  assumes "keeps_hard epoch hard s" "\<And>env. env \<in> set envs \<Longrightarrow> \<not> renews (ce_command env)"
  shows "keeps_hard epoch hard (run_commands coordinator_apply envs s)"
  by (rule run_preserves [of "keeps_hard epoch hard"]) (simp_all add: coordinator_apply_keeps_hard assms)

section \<open>Dirty and uncertain profiles\<close>

fun reopens :: "coordinator_status \<Rightarrow> coordinator_command \<Rightarrow> bool" where
  "reopens _ (MarkRecovered _) \<longleftrightarrow> True"
| "reopens st (RecoverAndIssueLaunchIntent _ _ _ _ _) \<longleftrightarrow> st = Uncertain"
| "reopens _ _ \<longleftrightarrow> False"

lemma apply_new_stuck:
  assumes "shape_ok s" "cs_status s = st" "st = Dirty \<or> st = Uncertain" "\<not> reopens st c"
  shows "cs_status (snd (apply_new c s)) = st"
proof -
  have "cs_active_lease s = None" using assms by (auto simp: shape_ok_def)
  then show ?thesis using assms
    by (cases c)
       (auto simp: issue_launch_intent_def claim_def recover_and_issue_launch_intent_def heartbeat_def release_def
         begin_drain_def tick_def mark_recovered_def timeout_if_due_def split: option.splits)
qed

lemma run_stuck:
  assumes "coordinator_inv s" "cs_status s = st" "st = Dirty \<or> st = Uncertain"
    "\<And>env. env \<in> set envs \<Longrightarrow> \<not> reopens st (ce_command env)"
  shows "cs_status (run_commands coordinator_apply envs s) = st"
proof -
  have "coordinator_inv (run_commands coordinator_apply envs s) \<and> cs_status (run_commands coordinator_apply envs s) = st"
  proof (rule run_preserves)
    fix env s
    assume env: "env \<in> set envs" and s: "coordinator_inv s \<and> cs_status s = st"
    then have "cs_status (snd (coordinator_apply env s)) = st"
      using apply_new_stuck [of s st "ce_command env"] assms(3) assms(4) [OF env]
      by (cases rule: coordinator_apply_transition [of env s]) (auto simp: coordinator_inv_def commit_fresh_def)
    then show "coordinator_inv (snd (coordinator_apply env s)) \<and> cs_status (snd (coordinator_apply env s)) = st"
      using s coordinator_apply_inv by blast
  qed (use assms in auto)
  then show ?thesis by blast
qed

end
