(* ===== verification/Device_Job.thy ===== *)
theory Device_Job
  imports Primitives
begin

text \<open>
  Device jobs, \<open>crates/device-domain/src/{id,target,claim,job}.rs\<close>: a unit of background work
  for one device that runs under a fenced, expiring claim, with bounded attempts, and the
  snapshots that adapters persist and that are validated on restore.  Every method moves the
  version last, so the only error that can leave a changed job is the overflow of the version.
\<close>

section \<open>Identifiers, target, claim\<close>

datatype device_job_kind = DeviceJobKind
datatype device_claim_kind = DeviceClaimKind

type_synonym device_job_id = "device_job_kind typed_id"
type_synonym device_claim_id = "device_claim_kind typed_id"

record device_job_target =
  djt_tenant_id :: tenant_id
  djt_device_id :: device_id
  djt_profile_id :: profile_id
  djt_generation_id :: generation_id

record device_claim =
  dc_claim_id :: device_claim_id
  dc_job_id :: device_job_id
  dc_target :: device_job_target
  dc_fence :: u64
  dc_claimed_at :: unix_millis
  dc_last_heartbeat_at :: unix_millis
  dc_lease_expires_at :: unix_millis

record device_claim_snapshot =
  dcs_claim_id :: device_claim_id
  dcs_job_id :: device_job_id
  dcs_target :: device_job_target
  dcs_fence :: u64
  dcs_claimed_at :: unix_millis
  dcs_last_heartbeat_at :: unix_millis
  dcs_lease_expires_at :: unix_millis

datatype device_claim_error =
  ClaimInvalidLease | ClaimInvalidTimeline | ClaimInvalidLeaseExtension | ClaimLeaseExpired
  | ClaimTimeRegression

definition device_claim_snapshot_of :: "device_claim \<Rightarrow> device_claim_snapshot" where
  "device_claim_snapshot_of c =
     \<lparr>dcs_claim_id = dc_claim_id c, dcs_job_id = dc_job_id c, dcs_target = dc_target c,
      dcs_fence = dc_fence c, dcs_claimed_at = dc_claimed_at c,
      dcs_last_heartbeat_at = dc_last_heartbeat_at c, dcs_lease_expires_at = dc_lease_expires_at c\<rparr>"

definition device_claim_restore :: "device_claim_snapshot \<Rightarrow> device_claim_error + device_claim" where
  "device_claim_restore sn =
     (if dcs_fence sn = 0 then Inl ClaimInvalidLease
      else if dcs_claimed_at sn > dcs_last_heartbeat_at sn
              \<or> dcs_last_heartbeat_at sn \<ge> dcs_lease_expires_at sn
      then Inl ClaimInvalidTimeline
      else Inr \<lparr>dc_claim_id = dcs_claim_id sn, dc_job_id = dcs_job_id sn, dc_target = dcs_target sn,
                dc_fence = dcs_fence sn, dc_claimed_at = dcs_claimed_at sn,
                dc_last_heartbeat_at = dcs_last_heartbeat_at sn,
                dc_lease_expires_at = dcs_lease_expires_at sn\<rparr>)"

definition device_claim_issue ::
    "device_claim_id \<Rightarrow> device_job_id \<Rightarrow> device_job_target \<Rightarrow> u64 \<Rightarrow> unix_millis \<Rightarrow> unix_millis
     \<Rightarrow> device_claim_error + device_claim" where
  "device_claim_issue claim_id job_id target fence claimed_at lease_expires_at =
     (if fence = 0 \<or> lease_expires_at \<le> claimed_at then Inl ClaimInvalidLease
      else Inr \<lparr>dc_claim_id = claim_id, dc_job_id = job_id, dc_target = target, dc_fence = fence,
                dc_claimed_at = claimed_at, dc_last_heartbeat_at = claimed_at,
                dc_lease_expires_at = lease_expires_at\<rparr>)"

definition device_claim_is_expired :: "unix_millis \<Rightarrow> device_claim \<Rightarrow> bool" where
  "device_claim_is_expired now c \<longleftrightarrow> now \<ge> dc_lease_expires_at c"

definition device_claim_heartbeat ::
    "unix_millis \<Rightarrow> unix_millis \<Rightarrow> device_claim \<Rightarrow> (device_claim_error + unit) \<times> device_claim" where
  "device_claim_heartbeat observed_at lease_expires_at c =
     (if observed_at < dc_last_heartbeat_at c then (Inl ClaimTimeRegression, c)
      else if observed_at \<ge> dc_lease_expires_at c then (Inl ClaimLeaseExpired, c)
      else if lease_expires_at \<le> dc_lease_expires_at c \<or> lease_expires_at \<le> observed_at
      then (Inl ClaimInvalidLeaseExtension, c)
      else (Inr (), c\<lparr>dc_last_heartbeat_at := observed_at, dc_lease_expires_at := lease_expires_at\<rparr>))"

fun device_claim_error_message :: "device_claim_error \<Rightarrow> string" where
  "device_claim_error_message ClaimInvalidLease = ''device claim fence and lease must be strictly valid''"
| "device_claim_error_message ClaimInvalidTimeline = ''device claim persisted timeline is invalid''"
| "device_claim_error_message ClaimInvalidLeaseExtension = ''device claim lease extension must advance expiry''"
| "device_claim_error_message ClaimLeaseExpired = ''device claim lease has expired''"
| "device_claim_error_message ClaimTimeRegression = ''device claim heartbeat time regressed''"

section \<open>Jobs\<close>

definition max_device_job_attempts :: u32 where "max_device_job_attempts = 100"

datatype device_job_status =
  JobPendingDevice | JobProfileBusy | JobRunning | JobRetryScheduled | JobAuthRequired
  | JobRecoveryRequired | JobSucceeded | JobFailed | JobCancelled

definition job_is_terminal :: "device_job_status \<Rightarrow> bool" where
  "job_is_terminal st \<longleftrightarrow> st = JobSucceeded \<or> st = JobFailed \<or> st = JobCancelled"

datatype device_job_error =
    JobInvalidSnapshot | JobInvalidMaxAttempts | JobInvalidState | JobInvalidLease
  | JobInvalidRetryAt | JobNotDue | JobErrRecoveryRequired | JobClaimAlreadyActive
  | JobMissingActiveClaim | JobStaleClaim | JobLeaseExpired | JobLeaseStillActive
  | JobAttemptsExhausted | JobAttemptOverflow | JobFenceOverflow | JobVersionOverflow
  | JobTimeRegression

record device_job =
  dj_job_id :: device_job_id
  dj_target :: device_job_target
  dj_version :: aggregate_version
  dj_status :: device_job_status
  dj_attempt :: u32
  dj_max_attempts :: u32
  dj_last_fence :: u64
  dj_active_claim :: "device_claim option"
  dj_retry_at :: "unix_millis option"
  dj_updated_at :: unix_millis

record device_job_snapshot =
  djs_job_id :: device_job_id
  djs_target :: device_job_target
  djs_aggregate_version :: u64
  djs_status :: device_job_status
  djs_attempt :: u32
  djs_max_attempts :: u32
  djs_last_fence :: u64
  djs_active_claim :: "device_claim_snapshot option"
  djs_retry_at :: "unix_millis option"
  djs_updated_at :: unix_millis

definition device_job_snapshot_of :: "device_job \<Rightarrow> device_job_snapshot" where
  "device_job_snapshot_of j =
     \<lparr>djs_job_id = dj_job_id j, djs_target = dj_target j,
      djs_aggregate_version = version_value (dj_version j), djs_status = dj_status j,
      djs_attempt = dj_attempt j, djs_max_attempts = dj_max_attempts j,
      djs_last_fence = dj_last_fence j,
      djs_active_claim = map_option device_claim_snapshot_of (dj_active_claim j),
      djs_retry_at = dj_retry_at j, djs_updated_at = dj_updated_at j\<rparr>"

definition status_requires_attempt :: "device_job_status \<Rightarrow> bool" where
  "status_requires_attempt st \<longleftrightarrow> st \<in> {JobProfileBusy, JobRunning, JobRetryScheduled,
     JobAuthRequired, JobRecoveryRequired, JobSucceeded, JobFailed}"

definition status_requires_retry :: "device_job_status \<Rightarrow> bool" where
  "status_requires_retry st \<longleftrightarrow> st = JobProfileBusy \<or> st = JobRetryScheduled"

definition restore_job_claim ::
    "device_job_snapshot \<Rightarrow> device_claim_snapshot \<Rightarrow> device_job_error + device_claim" where
  "restore_job_claim sn csn =
     res_bind (res_map_err (\<lambda>_. JobInvalidSnapshot) (device_claim_restore csn)) (\<lambda>c.
       if dc_job_id c \<noteq> djs_job_id sn \<or> dc_target c \<noteq> djs_target sn
          \<or> dc_fence c \<noteq> djs_last_fence sn \<or> dc_last_heartbeat_at c \<noteq> djs_updated_at sn
          \<or> djs_updated_at sn \<ge> dc_lease_expires_at c
       then Inl JobInvalidSnapshot
       else Inr c)"

definition device_job_restore :: "device_job_snapshot \<Rightarrow> device_job_error + device_job" where
  "device_job_restore sn =
     (if djs_max_attempts sn = 0 \<or> djs_max_attempts sn > max_device_job_attempts
         \<or> djs_attempt sn > djs_max_attempts sn
         \<or> djs_last_fence sn \<noteq> ucast (djs_attempt sn)
         \<or> djs_aggregate_version sn \<le> ucast (djs_attempt sn)
      then Inl JobInvalidSnapshot
      else if status_requires_attempt (djs_status sn) \<and> djs_attempt sn = 0
      then Inl JobInvalidSnapshot
      else if (djs_status sn = JobRunning) \<noteq> (djs_active_claim sn \<noteq> None)
      then Inl JobInvalidSnapshot
      else if status_requires_retry (djs_status sn) \<noteq> (djs_retry_at sn \<noteq> None)
              \<or> (case djs_retry_at sn of None \<Rightarrow> False | Some r \<Rightarrow> r \<le> djs_updated_at sn)
      then Inl JobInvalidSnapshot
      else
        res_bind (res_opt (restore_job_claim sn) (djs_active_claim sn)) (\<lambda>active_claim.
        res_bind (res_map_err (\<lambda>_. JobInvalidSnapshot) (version_new (djs_aggregate_version sn))) (\<lambda>version.
          Inr \<lparr>dj_job_id = djs_job_id sn, dj_target = djs_target sn, dj_version = version,
               dj_status = djs_status sn, dj_attempt = djs_attempt sn,
               dj_max_attempts = djs_max_attempts sn, dj_last_fence = djs_last_fence sn,
               dj_active_claim = active_claim, dj_retry_at = djs_retry_at sn,
               dj_updated_at = djs_updated_at sn\<rparr>)))"

definition device_job_issue ::
    "device_job_id \<Rightarrow> device_job_target \<Rightarrow> u32 \<Rightarrow> unix_millis \<Rightarrow> device_job_error + device_job" where
  "device_job_issue job_id target max_attempts issued_at =
     (if max_attempts = 0 \<or> max_attempts > max_device_job_attempts then Inl JobInvalidMaxAttempts
      else Inr \<lparr>dj_job_id = job_id, dj_target = target, dj_version = version_initial,
                dj_status = JobPendingDevice, dj_attempt = 0, dj_max_attempts = max_attempts,
                dj_last_fence = 0, dj_active_claim = None, dj_retry_at = None,
                dj_updated_at = issued_at\<rparr>)"

definition job_ensure_time :: "unix_millis \<Rightarrow> device_job \<Rightarrow> device_job_error + unit" where
  "job_ensure_time observed_at j =
     (if observed_at < dj_updated_at j then Inl JobTimeRegression else Inr ())"

definition job_advance :: "unix_millis \<Rightarrow> device_job \<Rightarrow> (device_job_error + unit) \<times> device_job" where
  "job_advance observed_at j =
     or_return (res_map_err (\<lambda>_. JobVersionOverflow) (version_next (dj_version j))) j (\<lambda>version.
       (Inr (), j\<lparr>dj_version := version, dj_updated_at := observed_at\<rparr>))"

definition job_current_claim ::
    "device_claim_id \<Rightarrow> u64 \<Rightarrow> unix_millis \<Rightarrow> device_job \<Rightarrow> device_job_error + device_claim" where
  "job_current_claim claim_id fence observed_at j =
     (if dj_status j \<noteq> JobRunning then Inl JobInvalidState
      else case dj_active_claim j of
        None \<Rightarrow> Inl JobMissingActiveClaim
      | Some c \<Rightarrow>
          if dc_claim_id c \<noteq> claim_id \<or> dc_fence c \<noteq> fence then Inl JobStaleClaim
          else if device_claim_is_expired observed_at c then Inl JobLeaseExpired
          else Inr c)"

definition job_release_running_claim ::
    "device_claim_id \<Rightarrow> u64 \<Rightarrow> unix_millis \<Rightarrow> device_job
     \<Rightarrow> (device_job_error + unit) \<times> device_job" where
  "job_release_running_claim claim_id fence observed_at j =
     or_return (job_ensure_time observed_at j) j (\<lambda>_.
     or_return (job_current_claim claim_id fence observed_at j) j (\<lambda>_.
       (Inr (), j\<lparr>dj_active_claim := None\<rparr>)))"

definition job_claim ::
    "device_claim_id \<Rightarrow> unix_millis \<Rightarrow> unix_millis \<Rightarrow> device_job
     \<Rightarrow> (device_job_error + device_claim) \<times> device_job" where
  "job_claim claim_id observed_at lease_expires_at j =
     or_return (job_ensure_time observed_at j) j (\<lambda>_.
       if job_is_terminal (dj_status j) \<or> dj_status j = JobRunning \<or> dj_status j = JobAuthRequired
       then (Inl JobInvalidState, j)
       else if dj_status j = JobRecoveryRequired then (Inl JobErrRecoveryRequired, j)
       else if (case dj_retry_at j of None \<Rightarrow> False | Some retry_at \<Rightarrow> observed_at < retry_at)
       then (Inl JobNotDue, j)
       else if dj_active_claim j \<noteq> None then (Inl JobClaimAlreadyActive, j)
       else if dj_attempt j \<ge> dj_max_attempts j then (Inl JobAttemptsExhausted, j)
       else
         or_return (res_ok_or JobFenceOverflow (checked_add (dj_last_fence j) 1)) j (\<lambda>fence.
         or_return (res_map_err (\<lambda>_. JobInvalidLease)
             (device_claim_issue claim_id (dj_job_id j) (dj_target j) fence observed_at
                lease_expires_at)) j (\<lambda>c.
         or_return (res_ok_or JobAttemptOverflow (checked_add (dj_attempt j) 1)) j (\<lambda>attempt.
           case job_advance observed_at
                  (j\<lparr>dj_attempt := attempt, dj_last_fence := fence, dj_active_claim := Some c,
                     dj_retry_at := None, dj_status := JobRunning\<rparr>) of
             (Inl e, j1) \<Rightarrow> (Inl e, j1)
           | (Inr _, j1) \<Rightarrow> (Inr c, j1)))))"

definition job_heartbeat ::
    "device_claim_id \<Rightarrow> u64 \<Rightarrow> unix_millis \<Rightarrow> unix_millis \<Rightarrow> device_job
     \<Rightarrow> (device_job_error + unit) \<times> device_job" where
  "job_heartbeat claim_id fence observed_at lease_expires_at j =
     or_return (job_ensure_time observed_at j) j (\<lambda>_.
     or_return (job_current_claim claim_id fence observed_at j) j (\<lambda>c.
       case device_claim_heartbeat observed_at lease_expires_at c of
         (Inl _, c1) \<Rightarrow> (Inl JobInvalidLease, j\<lparr>dj_active_claim := Some c1\<rparr>)
       | (Inr _, c1) \<Rightarrow> job_advance observed_at (j\<lparr>dj_active_claim := Some c1\<rparr>)))"

definition job_mark_profile_busy ::
    "device_claim_id \<Rightarrow> u64 \<Rightarrow> unix_millis \<Rightarrow> unix_millis \<Rightarrow> device_job
     \<Rightarrow> (device_job_error + unit) \<times> device_job" where
  "job_mark_profile_busy claim_id fence observed_at retry_at j =
     (if retry_at \<le> observed_at then (Inl JobInvalidRetryAt, j)
      else case job_release_running_claim claim_id fence observed_at j of
        (Inl e, j1) \<Rightarrow> (Inl e, j1)
      | (Inr _, j1) \<Rightarrow>
          job_advance observed_at (j1\<lparr>dj_status := JobProfileBusy, dj_retry_at := Some retry_at\<rparr>))"

definition job_schedule_retry ::
    "device_claim_id \<Rightarrow> u64 \<Rightarrow> unix_millis \<Rightarrow> unix_millis \<Rightarrow> device_job
     \<Rightarrow> (device_job_error + unit) \<times> device_job" where
  "job_schedule_retry claim_id fence observed_at retry_at j =
     (if dj_attempt j \<ge> dj_max_attempts j then (Inl JobAttemptsExhausted, j)
      else if retry_at \<le> observed_at then (Inl JobInvalidRetryAt, j)
      else case job_release_running_claim claim_id fence observed_at j of
        (Inl e, j1) \<Rightarrow> (Inl e, j1)
      | (Inr _, j1) \<Rightarrow>
          job_advance observed_at (j1\<lparr>dj_status := JobRetryScheduled, dj_retry_at := Some retry_at\<rparr>))"

definition job_expire_claim ::
    "unix_millis \<Rightarrow> unix_millis \<Rightarrow> device_job
     \<Rightarrow> (device_job_error + device_job_status) \<times> device_job" where
  "job_expire_claim observed_at retry_at j =
     or_return (job_ensure_time observed_at j) j (\<lambda>_.
       if dj_status j \<noteq> JobRunning then (Inl JobInvalidState, j)
       else or_return (res_ok_or JobMissingActiveClaim (dj_active_claim j)) j (\<lambda>c.
         if \<not> device_claim_is_expired observed_at c then (Inl JobLeaseStillActive, j)
         else or_return
           (if dj_attempt j \<ge> dj_max_attempts j then Inr JobFailed
            else if retry_at \<le> observed_at then Inl JobInvalidRetryAt
            else Inr JobRetryScheduled) j (\<lambda>next_status.
           case job_advance observed_at
                  (j\<lparr>dj_active_claim := None, dj_status := next_status,
                     dj_retry_at := (if next_status = JobRetryScheduled then Some retry_at else None)\<rparr>) of
             (Inl e, j1) \<Rightarrow> (Inl e, j1)
           | (Inr _, j1) \<Rightarrow> (Inr next_status, j1))))"

text \<open>
  The four methods that end a running claim without a retry time: \<open>require_auth\<close>,
  \<open>require_recovery\<close>, \<open>succeed\<close> and \<open>fail\<close> have the same body up to the new status.
\<close>

definition job_finish_claim ::
    "device_job_status \<Rightarrow> device_claim_id \<Rightarrow> u64 \<Rightarrow> unix_millis \<Rightarrow> device_job
     \<Rightarrow> (device_job_error + unit) \<times> device_job" where
  "job_finish_claim next_status claim_id fence observed_at j =
     (case job_release_running_claim claim_id fence observed_at j of
        (Inl e, j1) \<Rightarrow> (Inl e, j1)
      | (Inr _, j1) \<Rightarrow>
          job_advance observed_at (j1\<lparr>dj_status := next_status, dj_retry_at := None\<rparr>))"

definition job_require_auth ::
    "device_claim_id \<Rightarrow> u64 \<Rightarrow> unix_millis \<Rightarrow> device_job \<Rightarrow> (device_job_error + unit) \<times> device_job" where
  "job_require_auth = job_finish_claim JobAuthRequired"

definition job_require_recovery ::
    "device_claim_id \<Rightarrow> u64 \<Rightarrow> unix_millis \<Rightarrow> device_job \<Rightarrow> (device_job_error + unit) \<times> device_job" where
  "job_require_recovery = job_finish_claim JobRecoveryRequired"

definition job_succeed ::
    "device_claim_id \<Rightarrow> u64 \<Rightarrow> unix_millis \<Rightarrow> device_job \<Rightarrow> (device_job_error + unit) \<times> device_job" where
  "job_succeed = job_finish_claim JobSucceeded"

definition job_fail ::
    "device_claim_id \<Rightarrow> u64 \<Rightarrow> unix_millis \<Rightarrow> device_job \<Rightarrow> (device_job_error + unit) \<times> device_job" where
  "job_fail = job_finish_claim JobFailed"

definition job_resume_after_auth ::
    "unix_millis \<Rightarrow> device_job \<Rightarrow> (device_job_error + unit) \<times> device_job" where
  "job_resume_after_auth observed_at j =
     or_return (job_ensure_time observed_at j) j (\<lambda>_.
       if dj_status j \<noteq> JobAuthRequired \<or> dj_active_claim j \<noteq> None then (Inl JobInvalidState, j)
       else job_advance observed_at (j\<lparr>dj_status := JobPendingDevice\<rparr>))"

definition job_resume_after_recovery ::
    "unix_millis \<Rightarrow> device_job \<Rightarrow> (device_job_error + unit) \<times> device_job" where
  "job_resume_after_recovery observed_at j =
     or_return (job_ensure_time observed_at j) j (\<lambda>_.
       if dj_status j \<noteq> JobRecoveryRequired \<or> dj_active_claim j \<noteq> None then (Inl JobInvalidState, j)
       else job_advance observed_at (j\<lparr>dj_status := JobPendingDevice\<rparr>))"

definition job_cancel :: "unix_millis \<Rightarrow> device_job \<Rightarrow> (device_job_error + unit) \<times> device_job" where
  "job_cancel observed_at j =
     or_return (job_ensure_time observed_at j) j (\<lambda>_.
       if job_is_terminal (dj_status j) then (Inl JobInvalidState, j)
       else job_advance observed_at
              (j\<lparr>dj_active_claim := None, dj_retry_at := None, dj_status := JobCancelled\<rparr>))"

fun device_job_error_message :: "device_job_error \<Rightarrow> string" where
  "device_job_error_message JobInvalidSnapshot = ''device job persisted snapshot is invalid''"
| "device_job_error_message JobInvalidMaxAttempts = ''device job max attempts are outside the bounded range''"
| "device_job_error_message JobInvalidState = ''device job transition is invalid for the current state''"
| "device_job_error_message JobInvalidLease = ''device job claim lease is invalid''"
| "device_job_error_message JobInvalidRetryAt = ''device job retry time must be in the future''"
| "device_job_error_message JobNotDue = ''device job retry is not due yet''"
| "device_job_error_message JobErrRecoveryRequired = ''device job requires explicit recovery before another claim''"
| "device_job_error_message JobClaimAlreadyActive = ''device job already has an active claim''"
| "device_job_error_message JobMissingActiveClaim = ''device job has no active claim''"
| "device_job_error_message JobStaleClaim = ''device job claim or fencing evidence is stale''"
| "device_job_error_message JobLeaseExpired = ''device job claim lease expired''"
| "device_job_error_message JobLeaseStillActive = ''device job claim lease is still active''"
| "device_job_error_message JobAttemptsExhausted = ''device job attempts are exhausted''"
| "device_job_error_message JobAttemptOverflow = ''device job attempt counter overflow''"
| "device_job_error_message JobFenceOverflow = ''device job fencing counter overflow''"
| "device_job_error_message JobVersionOverflow = ''device job aggregate version overflow''"
| "device_job_error_message JobTimeRegression = ''device job transition time regressed''"

section \<open>A job as a machine\<close>

datatype device_job_command =
    DoClaim device_claim_id unix_millis unix_millis
  | DoHeartbeat device_claim_id u64 unix_millis unix_millis
  | DoMarkProfileBusy device_claim_id u64 unix_millis unix_millis
  | DoScheduleRetry device_claim_id u64 unix_millis unix_millis
  | DoExpireClaim unix_millis unix_millis
  | DoRequireAuth device_claim_id u64 unix_millis
  | DoResumeAfterAuth unix_millis
  | DoRequireRecovery device_claim_id u64 unix_millis
  | DoResumeAfterRecovery unix_millis
  | DoSucceed device_claim_id u64 unix_millis
  | DoFail device_claim_id u64 unix_millis
  | DoCancel unix_millis

definition discard :: "('e + 'r) \<times> 's \<Rightarrow> ('e + unit) \<times> 's" where
  "discard = map_prod (map_sum id (\<lambda>_. ())) id"

fun device_job_step :: "device_job_command \<Rightarrow> device_job \<Rightarrow> (device_job_error + unit) \<times> device_job" where
  "device_job_step (DoClaim i now lease) j = discard (job_claim i now lease j)"
| "device_job_step (DoHeartbeat i f now lease) j = job_heartbeat i f now lease j"
| "device_job_step (DoMarkProfileBusy i f now r) j = job_mark_profile_busy i f now r j"
| "device_job_step (DoScheduleRetry i f now r) j = job_schedule_retry i f now r j"
| "device_job_step (DoExpireClaim now r) j = discard (job_expire_claim now r j)"
| "device_job_step (DoRequireAuth i f now) j = job_require_auth i f now j"
| "device_job_step (DoResumeAfterAuth now) j = job_resume_after_auth now j"
| "device_job_step (DoRequireRecovery i f now) j = job_require_recovery i f now j"
| "device_job_step (DoResumeAfterRecovery now) j = job_resume_after_recovery now j"
| "device_job_step (DoSucceed i f now) j = job_succeed i f now j"
| "device_job_step (DoFail i f now) j = job_fail i f now j"
| "device_job_step (DoCancel now) j = job_cancel now j"

end
