(* ===== verification/Generation_Commit.thy ===== *)
theory Generation_Commit
  imports Device_Job
begin

text \<open>
  The messages of a generation commit: the commit witness and the commit requests of
  \<open>crates/application-ports/src/{device_generation_commit,profile_generation_successor,
  generation_objects}.rs\<close>, and their internal form between worker and coordinator object in
  \<open>crates/cloudflare-adapters/src/{device_generation_commit_runtime,
  profile_generation_successor_runtime}.rs\<close>, with the authority digest that names a
  reserved commit.  SHA-256 is a parameter, a function on byte strings.
\<close>

section \<open>Requests\<close>

record generation_object_descriptor =
  god_profile_id :: profile_id
  god_generation_id :: generation_id
  god_object_key :: string
  god_metadata_digest :: string
  god_container_digest :: string
  god_container_bytes :: u64

record generation_commit_witness =
  gcw_session_id :: session_id
  gcw_fencing_token :: fencing_token
  gcw_epoch :: u64
  gcw_coordinator_version :: u64
  gcw_coordinator_sequence :: u64

record device_generation_commit_request =
  dgr_job_id :: device_job_id
  dgr_claim_id :: device_claim_id
  dgr_expected_job_version :: aggregate_version
  dgr_claim_fence :: u64
  dgr_device_id :: device_id
  dgr_profile_id :: profile_id
  dgr_base_generation_id :: generation_id
  dgr_object :: generation_object_descriptor
  dgr_expected_profile_version :: aggregate_version
  dgr_coordinator :: generation_commit_witness
  dgr_observed_at :: unix_millis

record profile_generation_commit_witness =
  pgw_session_id :: session_id
  pgw_fencing_token :: fencing_token
  pgw_epoch :: u64
  pgw_coordinator_version :: u64
  pgw_coordinator_sequence :: u64

record profile_generation_writer_authority_request =
  pga_device_id :: device_id
  pga_profile_id :: profile_id
  pga_session_id :: session_id
  pga_fencing_token :: fencing_token
  pga_epoch :: u64

record profile_generation_successor_commit_request =
  psr_device_id :: device_id
  psr_profile_id :: profile_id
  psr_base_generation_id :: generation_id
  psr_object :: generation_object_descriptor
  psr_expected_profile_version :: aggregate_version
  psr_coordinator :: profile_generation_commit_witness
  psr_observed_at :: unix_millis

datatype device_generation_commit_error =
  DeviceStaleAuthority | DeviceVersionConflict | DeviceIntegrityFailure | DeviceDependencyUnavailable

datatype successor_commit_error =
  SuccessorStaleAuthority | SuccessorVersionConflict | SuccessorIntegrityFailure
  | SuccessorDependencyUnavailable

fun device_generation_commit_error_message :: "device_generation_commit_error \<Rightarrow> string" where
  "device_generation_commit_error_message DeviceStaleAuthority =
     ''device generation commit authority is stale''"
| "device_generation_commit_error_message DeviceVersionConflict =
     ''device generation commit lost an optimistic concurrency race''"
| "device_generation_commit_error_message DeviceIntegrityFailure =
     ''device generation commit integrity validation failed''"
| "device_generation_commit_error_message DeviceDependencyUnavailable =
     ''device generation commit dependency is unavailable''"

fun successor_commit_error_message :: "successor_commit_error \<Rightarrow> string" where
  "successor_commit_error_message SuccessorStaleAuthority =
     ''profile generation successor authority is stale''"
| "successor_commit_error_message SuccessorVersionConflict =
     ''profile generation successor lost an optimistic concurrency race''"
| "successor_commit_error_message SuccessorIntegrityFailure =
     ''profile generation successor integrity validation failed''"
| "successor_commit_error_message SuccessorDependencyUnavailable =
     ''profile generation successor dependency is unavailable''"

section \<open>The device commit between worker and coordinator object\<close>

record device_commit_internal_request =
  dir_tenant_id :: string
  dir_actor_id :: string
  dir_correlation_id :: string
  dir_job_id :: string
  dir_claim_id :: string
  dir_expected_job_version :: u64
  dir_claim_fence :: u64
  dir_device_id :: string
  dir_profile_id :: string
  dir_base_generation_id :: string
  dir_generation_id :: string
  dir_object_key :: string
  dir_metadata_digest :: string
  dir_container_digest :: string
  dir_container_bytes :: u64
  dir_expected_profile_version :: u64
  dir_coordinator_session_id :: string
  dir_coordinator_fencing_token :: string
  dir_coordinator_epoch :: u64
  dir_coordinator_version :: u64
  dir_coordinator_sequence :: u64

definition device_commit_from_domain ::
    "actor_context \<Rightarrow> device_generation_commit_request \<Rightarrow> device_commit_internal_request" where
  "device_commit_from_domain actor r =
     \<lparr>dir_tenant_id = id_as_str (scope_tenant_id (actor_tenant_scope actor)),
      dir_actor_id = id_as_str (actor_actor_id actor),
      dir_correlation_id = id_as_str (actor_correlation_id actor),
      dir_job_id = id_as_str (dgr_job_id r),
      dir_claim_id = id_as_str (dgr_claim_id r),
      dir_expected_job_version = version_value (dgr_expected_job_version r),
      dir_claim_fence = dgr_claim_fence r,
      dir_device_id = id_as_str (dgr_device_id r),
      dir_profile_id = id_as_str (dgr_profile_id r),
      dir_base_generation_id = id_as_str (dgr_base_generation_id r),
      dir_generation_id = id_as_str (god_generation_id (dgr_object r)),
      dir_object_key = god_object_key (dgr_object r),
      dir_metadata_digest = god_metadata_digest (dgr_object r),
      dir_container_digest = god_container_digest (dgr_object r),
      dir_container_bytes = god_container_bytes (dgr_object r),
      dir_expected_profile_version = version_value (dgr_expected_profile_version r),
      dir_coordinator_session_id = id_as_str (gcw_session_id (dgr_coordinator r)),
      dir_coordinator_fencing_token = id_as_str (gcw_fencing_token (dgr_coordinator r)),
      dir_coordinator_epoch = gcw_epoch (dgr_coordinator r),
      dir_coordinator_version = gcw_coordinator_version (dgr_coordinator r),
      dir_coordinator_sequence = gcw_coordinator_sequence (dgr_coordinator r)\<rparr>"

abbreviation device_id_or_fail :: "string \<Rightarrow> device_generation_commit_error + 'k typed_id" where
  "device_id_or_fail s \<equiv> res_map_err (\<lambda>_. DeviceIntegrityFailure) (id_parse s)"

definition device_commit_into_domain ::
    "unix_millis \<Rightarrow> device_commit_internal_request
     \<Rightarrow> device_generation_commit_error + actor_context \<times> device_generation_commit_request" where
  "device_commit_into_domain observed_at d =
     res_bind (device_id_or_fail (dir_tenant_id d)) (\<lambda>tenant.
     res_bind (device_id_or_fail (dir_actor_id d)) (\<lambda>actor.
     res_bind (device_id_or_fail (dir_correlation_id d)) (\<lambda>correlation.
     res_bind (device_id_or_fail (dir_profile_id d)) (\<lambda>profile.
     res_bind (device_id_or_fail (dir_job_id d)) (\<lambda>job.
     res_bind (device_id_or_fail (dir_claim_id d)) (\<lambda>claim.
     res_bind (res_map_err (\<lambda>_. DeviceIntegrityFailure) (version_new (dir_expected_job_version d))) (\<lambda>job_version.
     res_bind (device_id_or_fail (dir_device_id d)) (\<lambda>device.
     res_bind (device_id_or_fail (dir_base_generation_id d)) (\<lambda>base.
     res_bind (device_id_or_fail (dir_generation_id d)) (\<lambda>generation.
     res_bind (res_map_err (\<lambda>_. DeviceIntegrityFailure) (version_new (dir_expected_profile_version d))) (\<lambda>profile_version.
     res_bind (device_id_or_fail (dir_coordinator_session_id d)) (\<lambda>session.
     res_bind (device_id_or_fail (dir_coordinator_fencing_token d)) (\<lambda>token.
       Inr (\<lparr>actor_tenant_scope = \<lparr>scope_tenant_id = tenant\<rparr>, actor_actor_id = actor,
             actor_correlation_id = correlation\<rparr>,
            \<lparr>dgr_job_id = job, dgr_claim_id = claim, dgr_expected_job_version = job_version,
             dgr_claim_fence = dir_claim_fence d, dgr_device_id = device, dgr_profile_id = profile,
             dgr_base_generation_id = base,
             dgr_object = \<lparr>god_profile_id = profile, god_generation_id = generation,
               god_object_key = dir_object_key d, god_metadata_digest = dir_metadata_digest d,
               god_container_digest = dir_container_digest d, god_container_bytes = dir_container_bytes d\<rparr>,
             dgr_expected_profile_version = profile_version,
             dgr_coordinator = \<lparr>gcw_session_id = session, gcw_fencing_token = token,
               gcw_epoch = dir_coordinator_epoch d, gcw_coordinator_version = dir_coordinator_version d,
               gcw_coordinator_sequence = dir_coordinator_sequence d\<rparr>,
             dgr_observed_at = observed_at\<rparr>))))))))))))))"

section \<open>The successor commit and the writer authority\<close>

record successor_internal_request =
  sir_tenant_id :: string
  sir_actor_id :: string
  sir_correlation_id :: string
  sir_device_id :: string
  sir_profile_id :: string
  sir_base_generation_id :: string
  sir_generation_id :: string
  sir_object_key :: string
  sir_metadata_digest :: string
  sir_container_digest :: string
  sir_container_bytes :: u64
  sir_expected_profile_version :: u64
  sir_coordinator_session_id :: string
  sir_coordinator_fencing_token :: string
  sir_coordinator_epoch :: u64
  sir_coordinator_version :: u64
  sir_coordinator_sequence :: u64

definition successor_from_domain ::
    "actor_context \<Rightarrow> profile_generation_successor_commit_request \<Rightarrow> successor_internal_request" where
  "successor_from_domain actor r =
     \<lparr>sir_tenant_id = id_as_str (scope_tenant_id (actor_tenant_scope actor)),
      sir_actor_id = id_as_str (actor_actor_id actor),
      sir_correlation_id = id_as_str (actor_correlation_id actor),
      sir_device_id = id_as_str (psr_device_id r),
      sir_profile_id = id_as_str (psr_profile_id r),
      sir_base_generation_id = id_as_str (psr_base_generation_id r),
      sir_generation_id = id_as_str (god_generation_id (psr_object r)),
      sir_object_key = god_object_key (psr_object r),
      sir_metadata_digest = god_metadata_digest (psr_object r),
      sir_container_digest = god_container_digest (psr_object r),
      sir_container_bytes = god_container_bytes (psr_object r),
      sir_expected_profile_version = version_value (psr_expected_profile_version r),
      sir_coordinator_session_id = id_as_str (pgw_session_id (psr_coordinator r)),
      sir_coordinator_fencing_token = id_as_str (pgw_fencing_token (psr_coordinator r)),
      sir_coordinator_epoch = pgw_epoch (psr_coordinator r),
      sir_coordinator_version = pgw_coordinator_version (psr_coordinator r),
      sir_coordinator_sequence = pgw_coordinator_sequence (psr_coordinator r)\<rparr>"

abbreviation successor_id_or_fail :: "string \<Rightarrow> successor_commit_error + 'k typed_id" where
  "successor_id_or_fail s \<equiv> res_map_err (\<lambda>_. SuccessorIntegrityFailure) (id_parse s)"

definition successor_into_domain ::
    "unix_millis \<Rightarrow> successor_internal_request
     \<Rightarrow> successor_commit_error + actor_context \<times> profile_generation_successor_commit_request" where
  "successor_into_domain observed_at d =
     res_bind (successor_id_or_fail (sir_tenant_id d)) (\<lambda>tenant.
     res_bind (successor_id_or_fail (sir_actor_id d)) (\<lambda>actor.
     res_bind (successor_id_or_fail (sir_correlation_id d)) (\<lambda>correlation.
     res_bind (successor_id_or_fail (sir_profile_id d)) (\<lambda>profile.
     res_bind (successor_id_or_fail (sir_device_id d)) (\<lambda>device.
     res_bind (successor_id_or_fail (sir_base_generation_id d)) (\<lambda>base.
     res_bind (successor_id_or_fail (sir_generation_id d)) (\<lambda>generation.
     res_bind (res_map_err (\<lambda>_. SuccessorIntegrityFailure) (version_new (sir_expected_profile_version d))) (\<lambda>profile_version.
     res_bind (successor_id_or_fail (sir_coordinator_session_id d)) (\<lambda>session.
     res_bind (successor_id_or_fail (sir_coordinator_fencing_token d)) (\<lambda>token.
       Inr (\<lparr>actor_tenant_scope = \<lparr>scope_tenant_id = tenant\<rparr>, actor_actor_id = actor,
             actor_correlation_id = correlation\<rparr>,
            \<lparr>psr_device_id = device, psr_profile_id = profile, psr_base_generation_id = base,
             psr_object = \<lparr>god_profile_id = profile, god_generation_id = generation,
               god_object_key = sir_object_key d, god_metadata_digest = sir_metadata_digest d,
               god_container_digest = sir_container_digest d, god_container_bytes = sir_container_bytes d\<rparr>,
             psr_expected_profile_version = profile_version,
             psr_coordinator = \<lparr>pgw_session_id = session, pgw_fencing_token = token,
               pgw_epoch = sir_coordinator_epoch d, pgw_coordinator_version = sir_coordinator_version d,
               pgw_coordinator_sequence = sir_coordinator_sequence d\<rparr>,
             psr_observed_at = observed_at\<rparr>)))))))))))"

record writer_authority_internal_request =
  wir_tenant_id :: string
  wir_actor_id :: string
  wir_correlation_id :: string
  wir_device_id :: string
  wir_profile_id :: string
  wir_coordinator_session_id :: string
  wir_coordinator_fencing_token :: string
  wir_coordinator_epoch :: u64

definition writer_authority_from_domain ::
    "actor_context \<Rightarrow> profile_generation_writer_authority_request \<Rightarrow> writer_authority_internal_request" where
  "writer_authority_from_domain actor r =
     \<lparr>wir_tenant_id = id_as_str (scope_tenant_id (actor_tenant_scope actor)),
      wir_actor_id = id_as_str (actor_actor_id actor),
      wir_correlation_id = id_as_str (actor_correlation_id actor),
      wir_device_id = id_as_str (pga_device_id r),
      wir_profile_id = id_as_str (pga_profile_id r),
      wir_coordinator_session_id = id_as_str (pga_session_id r),
      wir_coordinator_fencing_token = id_as_str (pga_fencing_token r),
      wir_coordinator_epoch = pga_epoch r\<rparr>"

definition writer_authority_into_domain ::
    "writer_authority_internal_request
     \<Rightarrow> successor_commit_error + actor_context \<times> profile_generation_writer_authority_request" where
  "writer_authority_into_domain d =
     res_bind (successor_id_or_fail (wir_tenant_id d)) (\<lambda>tenant.
     res_bind (successor_id_or_fail (wir_actor_id d)) (\<lambda>actor.
     res_bind (successor_id_or_fail (wir_correlation_id d)) (\<lambda>correlation.
     res_bind (successor_id_or_fail (wir_device_id d)) (\<lambda>device.
     res_bind (successor_id_or_fail (wir_profile_id d)) (\<lambda>profile.
     res_bind (successor_id_or_fail (wir_coordinator_session_id d)) (\<lambda>session.
     res_bind (successor_id_or_fail (wir_coordinator_fencing_token d)) (\<lambda>token.
       if wir_coordinator_epoch d = 0 then Inl SuccessorIntegrityFailure
       else Inr (\<lparr>actor_tenant_scope = \<lparr>scope_tenant_id = tenant\<rparr>, actor_actor_id = actor,
                  actor_correlation_id = correlation\<rparr>,
                 \<lparr>pga_device_id = device, pga_profile_id = profile, pga_session_id = session,
                  pga_fencing_token = token, pga_epoch = wir_coordinator_epoch d\<rparr>))))))))"

section \<open>The authority digest\<close>

definition to_be_bytes :: "u64 \<Rightarrow> string" where
  "to_be_bytes v = map (\<lambda>i. char_of (unat v div 256 ^ i)) [7, 6, 5, 4, 3, 2, 1, 0]"

definition hash_field :: "string \<Rightarrow> string" where
  "hash_field value =
     to_be_bytes (if length value < 2 ^ 64 then of_nat (length value) else - 1) @ value"

definition hex_digit :: "nat \<Rightarrow> char" where
  "hex_digit n = ''0123456789abcdef'' ! (n mod 16)"

definition hex_digest :: "string \<Rightarrow> string" where
  "hex_digest bytes = concat (map (\<lambda>b. [hex_digit (byte_of b div 16), hex_digit (byte_of b)]) bytes)"

definition device_commit_preimage :: "device_commit_internal_request \<Rightarrow> string" where
  "device_commit_preimage d =
     concat (map hash_field
       [dir_tenant_id d, dir_actor_id d, dir_job_id d, dir_claim_id d, dir_device_id d,
        dir_profile_id d, dir_base_generation_id d, dir_generation_id d, dir_object_key d,
        dir_metadata_digest d, dir_container_digest d, dir_coordinator_session_id d,
        dir_coordinator_fencing_token d])
     @ concat (map (\<lambda>v. hash_field (to_be_bytes v))
       [dir_expected_job_version d, dir_claim_fence d, dir_container_bytes d,
        dir_expected_profile_version d, dir_coordinator_epoch d, dir_coordinator_version d,
        dir_coordinator_sequence d])"

definition device_commit_authority_digest ::
    "(string \<Rightarrow> string) \<Rightarrow> device_commit_internal_request \<Rightarrow> string" where
  "device_commit_authority_digest sha256 d = hex_digest (sha256 (device_commit_preimage d))"

definition successor_preimage :: "successor_internal_request \<Rightarrow> string" where
  "successor_preimage d =
     ''profile-generation-successor-authority-v1'' @ [CHR 10]
     @ concat (map hash_field
       [sir_tenant_id d, sir_actor_id d, sir_device_id d, sir_profile_id d,
        sir_base_generation_id d, sir_generation_id d, sir_object_key d, sir_metadata_digest d,
        sir_container_digest d, sir_coordinator_session_id d, sir_coordinator_fencing_token d])
     @ concat (map (\<lambda>v. hash_field (to_be_bytes v))
       [sir_container_bytes d, sir_expected_profile_version d, sir_coordinator_epoch d,
        sir_coordinator_version d, sir_coordinator_sequence d])"

definition successor_authority_digest ::
    "(string \<Rightarrow> string) \<Rightarrow> successor_internal_request \<Rightarrow> string" where
  "successor_authority_digest sha256 d = hex_digest (sha256 (successor_preimage d))"

end
