(* ===== verification/Coordinator_Object.thy ===== *)
theory Coordinator_Object
  imports Coordinator_History Generation_Commit
begin

text \<open>
  The durable object around a profile coordinator,
  \<open>apps/control-plane-worker/src/profile_coordinator.rs\<close>: its storage (the coordinator
  document, the gate of a reserved generation commit, the alarm), the handlers behind its
  routes and its alarm.  The wall clock, the decoding of a request body, SHA-256 and the D1
  commit journals are arguments; reads and writes of the object's own storage succeed.
\<close>

section \<open>Storage and replies\<close>

definition gate_alarm_retry_ms :: u64 where "gate_alarm_retry_ms = 1000"
definition object_idle_timeout_ms :: u64 where "object_idle_timeout_ms = 30000"
definition object_hard_timeout_ms :: u64 where "object_hard_timeout_ms = 900000"
definition object_drain_timeout_ms :: u64 where "object_drain_timeout_ms = 60000"

record generation_commit_gate =
  gate_authority_digest :: string
  gate_generation_id :: string
  gate_authorized_at_ms :: u64

definition gate_matches :: "generation_commit_gate \<Rightarrow> string \<Rightarrow> string \<Rightarrow> bool" where
  "gate_matches gate digest generation_id \<longleftrightarrow>
     gate_authority_digest gate = digest \<and> gate_generation_id gate = generation_id"

record coordinator_object =
  co_document :: "stored_coordinator_document option"
  co_gate :: "generation_commit_gate option"
  co_alarm :: "unix_millis option"

record coordinator_object_response =
  cor_outcome :: string
  cor_version :: u64
  cor_sequence :: u64
  cor_replayed :: bool
  cor_fencing_token :: "string option"
  cor_epoch :: "u64 option"
  cor_projection :: coordinator_projection

definition response_from_snapshot :: "coordinator_projection \<Rightarrow> coordinator_object_response" where
  "response_from_snapshot p =
     \<lparr>cor_outcome = ''snapshot'', cor_version = proj_version p, cor_sequence = proj_sequence p,
      cor_replayed = True, cor_fencing_token = None, cor_epoch = proj_active_epoch p,
      cor_projection = p\<rparr>"

definition response_from_applied :: "coordinator_applied \<Rightarrow> coordinator_object_response" where
  "response_from_applied applied =
     (let granted = (case cd_outcome (ca_decision applied) of
          LeaseClaimed lease \<Rightarrow> Some lease | _ \<Rightarrow> None) in
      \<lparr>cor_outcome = outcome_name (cd_outcome (ca_decision applied)),
       cor_version = version_value (cd_version (ca_decision applied)),
       cor_sequence = cd_sequence (ca_decision applied),
       cor_replayed = (\<not> ca_appended applied),
       cor_fencing_token = map_option (\<lambda>l. id_as_str (cl_fencing_token l)) granted,
       cor_epoch = map_option cl_epoch granted,
       cor_projection = ca_projection applied\<rparr>)"

datatype commit_outcome = CommitActivated | CommitAlreadyActive

datatype device_journal_outcome = JournalApplied | JournalExactReplay

fun device_commit_outcome :: "device_journal_outcome \<Rightarrow> commit_outcome" where
  "device_commit_outcome JournalApplied = CommitActivated"
| "device_commit_outcome JournalExactReplay = CommitAlreadyActive"

datatype object_reply =
    CoordinatorReply coordinator_object_response
  | TextReply string
  | ErrorReply nat string
  | DeviceCommitReply commit_outcome
  | DeviceErrorReply nat device_generation_commit_error
  | SuccessorCommitReply commit_outcome
  | SuccessorErrorReply nat successor_commit_error
  | WriterAuthorityReply u64 u64

fun conflict_status :: "coordinator_adapter_error \<Rightarrow> nat" where
  "conflict_status TenantMismatch = 404"
| "conflict_status ProfileMismatch = 404"
| "conflict_status (Identifier _) = 400"
| "conflict_status (ZeroVersion _) = 400"
| "conflict_status (Domain _) = 409"
| "conflict_status JournalCapacityExceeded = 409"

definition coordinator_conflict :: "coordinator_adapter_error \<Rightarrow> object_reply" where
  "coordinator_conflict e =
     (let code = conflict_status e in
      ErrorReply code (if code = 404 then ''not_found''
                       else if code = 400 then ''invalid_request'' else ''conflict''))"

fun generation_commit_error :: "device_generation_commit_error \<Rightarrow> object_reply" where
  "generation_commit_error DeviceStaleAuthority = DeviceErrorReply 409 DeviceStaleAuthority"
| "generation_commit_error DeviceVersionConflict = DeviceErrorReply 409 DeviceVersionConflict"
| "generation_commit_error DeviceIntegrityFailure = DeviceErrorReply 500 DeviceIntegrityFailure"
| "generation_commit_error DeviceDependencyUnavailable = DeviceErrorReply 503 DeviceDependencyUnavailable"

fun profile_successor_error :: "successor_commit_error \<Rightarrow> object_reply" where
  "profile_successor_error SuccessorStaleAuthority = SuccessorErrorReply 409 SuccessorStaleAuthority"
| "profile_successor_error SuccessorVersionConflict = SuccessorErrorReply 409 SuccessorVersionConflict"
| "profile_successor_error SuccessorIntegrityFailure = SuccessorErrorReply 500 SuccessorIntegrityFailure"
| "profile_successor_error SuccessorDependencyUnavailable = SuccessorErrorReply 503 SuccessorDependencyUnavailable"

definition generation_commit_failure_releases_gate :: "device_generation_commit_error \<Rightarrow> bool" where
  "generation_commit_failure_releases_gate class \<longleftrightarrow>
     class = DeviceStaleAuthority \<or> class = DeviceVersionConflict"

definition profile_successor_failure_releases_gate :: "successor_commit_error \<Rightarrow> bool" where
  "profile_successor_failure_releases_gate class \<longleftrightarrow>
     class = SuccessorStaleAuthority \<or> class = SuccessorVersionConflict"

section \<open>Authority\<close>

definition coordinator_generation_authority_is_live ::
    "coordinator_state \<Rightarrow> device_id \<Rightarrow> session_id \<Rightarrow> u64 \<Rightarrow> fencing_token \<Rightarrow> u64 \<Rightarrow> u64 \<Rightarrow> unix_millis
     \<Rightarrow> bool" where
  "coordinator_generation_authority_is_live s device_id session_id epoch fencing_token
     coordinator_version coordinator_sequence authorized_at =
     (if \<not> (cs_status s = Active \<or> cs_status s = Draining)
         \<or> version_value (cs_version s) \<noteq> coordinator_version
         \<or> cs_last_sequence s \<noteq> coordinator_sequence
         \<or> authorized_at < cs_last_observed_at s
      then False
      else case cs_active_lease s of
        None \<Rightarrow> False
      | Some lease \<Rightarrow>
          if cl_device_id lease \<noteq> device_id
             \<or> \<not> accepts_writer lease session_id epoch fencing_token
             \<or> authorized_at \<ge> cl_idle_expires_at lease
             \<or> authorized_at \<ge> cl_hard_expires_at lease
          then False
          else if cs_status s = Draining
                  \<and> (case cs_drain_deadline s of None \<Rightarrow> True | Some deadline \<Rightarrow> authorized_at \<ge> deadline)
          then False
          else True)"

definition validate_device_generation_commit_authority ::
    "coordinator_state \<Rightarrow> device_generation_commit_request \<Rightarrow> unix_millis
     \<Rightarrow> device_generation_commit_error + unit" where
  "validate_device_generation_commit_authority s r authorized_at =
     (let w = dgr_coordinator r in
      if coordinator_generation_authority_is_live s (dgr_device_id r) (gcw_session_id w) (gcw_epoch w)
           (gcw_fencing_token w) (gcw_coordinator_version w) (gcw_coordinator_sequence w) authorized_at
      then Inr () else Inl DeviceStaleAuthority)"

definition validate_profile_successor_authority ::
    "coordinator_state \<Rightarrow> profile_generation_successor_commit_request \<Rightarrow> unix_millis
     \<Rightarrow> successor_commit_error + unit" where
  "validate_profile_successor_authority s r authorized_at =
     (let w = psr_coordinator r in
      if coordinator_generation_authority_is_live s (psr_device_id r) (pgw_session_id w) (pgw_epoch w)
           (pgw_fencing_token w) (pgw_coordinator_version w) (pgw_coordinator_sequence w) authorized_at
      then Inr () else Inl SuccessorStaleAuthority)"

section \<open>Handlers\<close>

abbreviation adapter_error :: "coordinator_adapter_error + 'a \<Rightarrow> string + 'a" where
  "adapter_error \<equiv> res_map_err coordinator_adapter_error_message"

abbreviation identifier_error :: "parse_opaque_id_error + 'a \<Rightarrow> string + 'a" where
  "identifier_error \<equiv> res_map_err parse_opaque_id_error_message"

definition load_document ::
    "tenant_id \<Rightarrow> profile_id \<Rightarrow> coordinator_object \<Rightarrow> string + stored_coordinator_document" where
  "load_document tenant_id profile_id obj =
     (case co_document obj of
        Some document \<Rightarrow>
          res_bind (adapter_error (ensure_identity document tenant_id profile_id)) (\<lambda>_. Inr document)
      | None \<Rightarrow>
          res_bind (res_map_err coordinator_error_message
              (coordinator_config_new object_idle_timeout_ms object_hard_timeout_ms object_drain_timeout_ms))
            (\<lambda>config. Inr (document_new tenant_id profile_id config)))"

definition schedule_alarm :: "unix_millis option \<Rightarrow> coordinator_object \<Rightarrow> coordinator_object" where
  "schedule_alarm deadline obj = obj\<lparr>co_alarm := deadline\<rparr>"

definition schedule_gate_retry_alarm ::
    "unix_millis \<Rightarrow> coordinator_object \<Rightarrow> (string + unit) \<times> coordinator_object" where
  "schedule_gate_retry_alarm now obj =
     or_return (res_ok_or ''generation commit alarm overflow'' (checked_add now gate_alarm_retry_ms)) obj
       (\<lambda>retry_at. (Inr (), obj\<lparr>co_alarm := Some retry_at\<rparr>))"

definition clear_generation_commit_gate :: "coordinator_object \<Rightarrow> coordinator_object" where
  "clear_generation_commit_gate obj = obj\<lparr>co_gate := None\<rparr>"

definition object_snapshot ::
    "string + string \<times> string \<Rightarrow> coordinator_object \<Rightarrow> (string + object_reply) \<times> coordinator_object" where
  "object_snapshot body obj =
     or_return body obj (\<lambda>(tenant, profile).
     or_return (identifier_error (id_parse tenant)) obj (\<lambda>tenant_id.
     or_return (identifier_error (id_parse profile)) obj (\<lambda>profile_id.
     or_return (load_document tenant_id profile_id obj) obj (\<lambda>document.
     or_return (adapter_error (document_projection document)) obj (\<lambda>projection.
       (Inr (CoordinatorReply (response_from_snapshot projection)), obj))))))"

definition store_applied ::
    "coordinator_applied \<Rightarrow> stored_coordinator_document \<Rightarrow> coordinator_object \<Rightarrow> coordinator_object" where
  "store_applied applied document obj =
     schedule_alarm (ca_next_alarm_at applied)
       (if ca_appended applied then obj\<lparr>co_document := Some document\<rparr> else obj)"

definition object_command ::
    "string + string \<times> string \<times> stored_coordinator_envelope \<Rightarrow> coordinator_object
     \<Rightarrow> (string + object_reply) \<times> coordinator_object" where
  "object_command body obj =
     (if co_gate obj \<noteq> None then (Inr (ErrorReply 409 ''conflict''), obj)
      else
        or_return body obj (\<lambda>(tenant, profile, envelope).
        or_return (identifier_error (id_parse tenant)) obj (\<lambda>tenant_id.
        or_return (identifier_error (id_parse profile)) obj (\<lambda>profile_id.
        or_return (load_document tenant_id profile_id obj) obj (\<lambda>document.
          case document_apply envelope document of
            (Inl e, _) \<Rightarrow> (Inr (coordinator_conflict e), obj)
          | (Inr applied, document1) \<Rightarrow>
              (Inr (CoordinatorReply (response_from_applied applied)),
               store_applied applied document1 obj))))))"

definition alarm_key :: "u64 \<Rightarrow> string" where
  "alarm_key sequence =
     ''alarm_'' @ map (\<lambda>i. char_of (48 + unat sequence div 10 ^ i mod 10)) (rev [0..<20])"

definition object_alarm ::
    "unix_millis \<Rightarrow> coordinator_object \<Rightarrow> (string + object_reply) \<times> coordinator_object" where
  "object_alarm now obj =
     (if co_gate obj \<noteq> None
      then (case schedule_gate_retry_alarm now obj of
              (Inl e, obj1) \<Rightarrow> (Inl e, obj1)
            | (Inr _, obj1) \<Rightarrow> (Inr (TextReply ''generation commit reserved''), obj1))
      else case co_document obj of
        None \<Rightarrow> (Inr (TextReply ''no coordinator state''), obj)
      | Some document \<Rightarrow>
          or_return (adapter_error (document_replay document)) obj (\<lambda>s.
          or_return (res_ok_or ''coordinator sequence overflow'' (checked_add (cs_last_sequence s) 1)) obj (\<lambda>sequence.
            (let envelope = \<lparr>sce_idempotency_key = alarm_key sequence, sce_sequence = sequence,
                   sce_expected_version = version_value (cs_version s), sce_command = StoredTick now\<rparr>
             in case document_apply envelope document of
                  (Inl e, _) \<Rightarrow> (Inl (coordinator_adapter_error_message e), obj)
                | (Inr applied, document1) \<Rightarrow>
                    (Inr (CoordinatorReply (response_from_applied applied)),
                     store_applied applied document1 obj)))))"

definition fire_alarm ::
    "unix_millis \<Rightarrow> coordinator_object \<Rightarrow> (string + object_reply) \<times> coordinator_object" where
  \<comment> \<open>the platform delivers an alarm: the alarm is spent before the handler runs, and a handler
     that fails is delivered again, so that its alarm is still there\<close>
  "fire_alarm now obj =
     (case object_alarm now (obj\<lparr>co_alarm := None\<rparr>) of
        (Inl e, obj1) \<Rightarrow> (Inl e, obj1\<lparr>co_alarm := co_alarm obj\<rparr>)
      | (Inr reply, obj1) \<Rightarrow> (Inr reply, obj1))"

definition gate_time :: "unix_millis \<Rightarrow> coordinator_object \<Rightarrow> unix_millis" where
  "gate_time now obj = (case co_gate obj of None \<Rightarrow> now | Some gate \<Rightarrow> gate_authorized_at_ms gate)"

text \<open>
  The two commits.  Both first reserve the gate (a stored gate must be the one of the same
  commit, and its time is used again; otherwise the authority is validated now and the gate
  is stored), then ask the journal, and settle: the gate is opened, or kept with a retry
  alarm when the answer leaves the outcome unknown.  \<open>now\<close> is the clock when the request
  arrives, \<open>later\<close> the clock when the journal has answered; \<open>journal\<close> is the catalog's answer.
\<close>

definition reserve_generation_gate ::
    "string \<Rightarrow> string \<Rightarrow> unix_millis \<Rightarrow> 'e \<Rightarrow> (unix_millis \<Rightarrow> 'e + unit) \<Rightarrow> coordinator_object
     \<Rightarrow> 'e + coordinator_object" where
  "reserve_generation_gate digest generation_id authorized_at conflict validate obj =
     (case co_gate obj of
        Some gate \<Rightarrow>
          if \<not> gate_matches gate digest generation_id then Inl conflict
          else res_bind (validate (gate_authorized_at_ms gate)) (\<lambda>_. Inr obj)
      | None \<Rightarrow>
          res_bind (validate authorized_at) (\<lambda>_.
            Inr (obj\<lparr>co_gate := Some \<lparr>gate_authority_digest = digest,
                   gate_generation_id = generation_id, gate_authorized_at_ms = authorized_at\<rparr>\<rparr>)))"

definition settle_generation_commit ::
    "('e \<Rightarrow> bool) \<Rightarrow> ('e \<Rightarrow> object_reply) \<Rightarrow> ('o \<Rightarrow> object_reply) \<Rightarrow> unix_millis \<Rightarrow> 'e + 'o
     \<Rightarrow> coordinator_object \<Rightarrow> (string + object_reply) \<times> coordinator_object" where
  "settle_generation_commit releases error_reply ok_reply later answer obj =
     (case answer of
        Inr outcome \<Rightarrow> (Inr (ok_reply outcome), clear_generation_commit_gate obj)
      | Inl e \<Rightarrow>
          if releases e then (Inr (error_reply e), clear_generation_commit_gate obj)
          else case schedule_gate_retry_alarm later obj of
            (Inl msg, obj1) \<Rightarrow> (Inl msg, obj1)
          | (Inr _, obj1) \<Rightarrow> (Inr (error_reply e), obj1))"

definition object_generation_commit ::
    "(string \<Rightarrow> string)
     \<Rightarrow> (actor_context \<Rightarrow> device_generation_commit_request \<Rightarrow> device_generation_commit_error + device_journal_outcome)
     \<Rightarrow> unix_millis \<Rightarrow> unix_millis \<Rightarrow> string + device_commit_internal_request \<Rightarrow> coordinator_object
     \<Rightarrow> (string + object_reply) \<times> coordinator_object" where
  "object_generation_commit sha256 journal now later body obj =
     (case body of
        Inl _ \<Rightarrow> (Inr (generation_commit_error DeviceIntegrityFailure), obj)
      | Inr internal \<Rightarrow>
          (let digest = device_commit_authority_digest sha256 internal;
               observed_at = gate_time now obj
           in case device_commit_into_domain observed_at internal of
                Inl e \<Rightarrow> (Inr (generation_commit_error e), obj)
              | Inr (actor, commit) \<Rightarrow>
                  or_return (load_document (scope_tenant_id (actor_tenant_scope actor))
                      (dgr_profile_id commit) obj) obj (\<lambda>document.
                  case document_replay document of
                    Inl _ \<Rightarrow> (Inr (generation_commit_error DeviceIntegrityFailure), obj)
                  | Inr s \<Rightarrow>
                      (case reserve_generation_gate digest (id_as_str (god_generation_id (dgr_object commit)))
                              observed_at DeviceVersionConflict
                              (validate_device_generation_commit_authority s commit) obj of
                         Inl e \<Rightarrow> (Inr (generation_commit_error e), obj)
                       | Inr obj1 \<Rightarrow>
                           settle_generation_commit generation_commit_failure_releases_gate
                             generation_commit_error (\<lambda>j. DeviceCommitReply (device_commit_outcome j)) later
                             (journal actor commit) obj1))))"

definition object_writer_authority ::
    "unix_millis \<Rightarrow> string + writer_authority_internal_request \<Rightarrow> coordinator_object
     \<Rightarrow> (string + object_reply) \<times> coordinator_object" where
  "object_writer_authority now body obj =
     (if co_gate obj \<noteq> None then (Inr (profile_successor_error SuccessorVersionConflict), obj)
      else case body of
        Inl _ \<Rightarrow> (Inr (profile_successor_error SuccessorIntegrityFailure), obj)
      | Inr internal \<Rightarrow>
          (case writer_authority_into_domain internal of
             Inl e \<Rightarrow> (Inr (profile_successor_error e), obj)
           | Inr (actor, authority) \<Rightarrow>
               or_return (load_document (scope_tenant_id (actor_tenant_scope actor))
                   (pga_profile_id authority) obj) obj (\<lambda>document.
               case document_replay document of
                 Inl _ \<Rightarrow> (Inr (profile_successor_error SuccessorIntegrityFailure), obj)
               | Inr s \<Rightarrow>
                   (case active_claim_matches document (actor_actor_id actor) (pga_device_id authority)
                           (pga_session_id authority) of
                      Inl _ \<Rightarrow> (Inr (profile_successor_error SuccessorIntegrityFailure), obj)
                    | Inr provenance_matches \<Rightarrow>
                        if \<not> provenance_matches
                        then (Inr (profile_successor_error SuccessorStaleAuthority), obj)
                        else if \<not> coordinator_generation_authority_is_live s (pga_device_id authority)
                               (pga_session_id authority) (pga_epoch authority) (pga_fencing_token authority)
                               (version_value (cs_version s)) (cs_last_sequence s) now
                        then (Inr (profile_successor_error SuccessorStaleAuthority), obj)
                        else (Inr (WriterAuthorityReply (version_value (cs_version s)) (cs_last_sequence s)),
                              obj)))))"

definition object_generation_successor ::
    "(string \<Rightarrow> string)
     \<Rightarrow> (actor_context \<Rightarrow> profile_generation_successor_commit_request \<Rightarrow> successor_commit_error + commit_outcome)
     \<Rightarrow> unix_millis \<Rightarrow> unix_millis \<Rightarrow> string + successor_internal_request \<Rightarrow> coordinator_object
     \<Rightarrow> (string + object_reply) \<times> coordinator_object" where
  "object_generation_successor sha256 journal now later body obj =
     (case body of
        Inl _ \<Rightarrow> (Inr (profile_successor_error SuccessorIntegrityFailure), obj)
      | Inr internal \<Rightarrow>
          (let digest = successor_authority_digest sha256 internal;
               observed_at = gate_time now obj
           in case successor_into_domain observed_at internal of
                Inl e \<Rightarrow> (Inr (profile_successor_error e), obj)
              | Inr (actor, commit) \<Rightarrow>
                  or_return (load_document (scope_tenant_id (actor_tenant_scope actor))
                      (psr_profile_id commit) obj) obj (\<lambda>document.
                  case document_replay document of
                    Inl _ \<Rightarrow> (Inr (profile_successor_error SuccessorIntegrityFailure), obj)
                  | Inr s \<Rightarrow>
                   (case active_claim_matches document (actor_actor_id actor) (psr_device_id commit)
                           (pgw_session_id (psr_coordinator commit)) of
                      Inl _ \<Rightarrow> (Inr (profile_successor_error SuccessorIntegrityFailure), obj)
                    | Inr provenance_matches \<Rightarrow>
                      if \<not> provenance_matches
                      then (Inr (profile_successor_error SuccessorStaleAuthority), obj)
                      else
                      (case reserve_generation_gate digest (id_as_str (god_generation_id (psr_object commit)))
                              observed_at SuccessorVersionConflict
                              (validate_profile_successor_authority s commit) obj of
                         Inl e \<Rightarrow> (Inr (profile_successor_error e), obj)
                       | Inr obj1 \<Rightarrow>
                           settle_generation_commit profile_successor_failure_releases_gate
                             profile_successor_error SuccessorCommitReply later
                             (journal actor commit) obj1)))))"

section \<open>The object\<close>

datatype object_event =
    SnapshotRequest "string + string \<times> string"
  | CommandRequest "string + string \<times> string \<times> stored_coordinator_envelope"
  | DeviceCommitRequest "device_generation_commit_error + device_journal_outcome" unix_millis unix_millis
      "string + device_commit_internal_request"
  | WriterAuthorityRequest unix_millis "string + writer_authority_internal_request"
  | SuccessorCommitRequest "successor_commit_error + commit_outcome" unix_millis unix_millis
      "string + successor_internal_request"
  | UnknownRequest
  | AlarmEvent unix_millis

fun object_fetch ::
    "(string \<Rightarrow> string) \<Rightarrow> object_event \<Rightarrow> coordinator_object
     \<Rightarrow> (string + object_reply) \<times> coordinator_object" where
  "object_fetch sha256 (SnapshotRequest body) obj = object_snapshot body obj"
| "object_fetch sha256 (CommandRequest body) obj = object_command body obj"
| "object_fetch sha256 (DeviceCommitRequest answer now later body) obj =
     object_generation_commit sha256 (\<lambda>_ _. answer) now later body obj"
| "object_fetch sha256 (WriterAuthorityRequest now body) obj = object_writer_authority now body obj"
| "object_fetch sha256 (SuccessorCommitRequest answer now later body) obj =
     object_generation_successor sha256 (\<lambda>_ _. answer) now later body obj"
| "object_fetch sha256 UnknownRequest obj = (Inr (ErrorReply 404 ''Not Found''), obj)"
| "object_fetch sha256 (AlarmEvent now) obj = fire_alarm now obj"

end
