(* ===== verification/Generation_Commit_Codec.thy ===== *)
theory Generation_Commit_Codec
  imports Generation_Commit
begin

text \<open>
  What the internal form of a commit preserves.  A request survives the way through its
  internal form, with the observation time of the receiver; the byte string under the
  authority digest determines every field of the request but the correlation id; and the
  byte strings of a device commit and of a successor commit are never equal.
\<close>

section \<open>Round trips\<close>

definition actor_ids_ok :: "actor_context \<Rightarrow> bool" where
  "actor_ids_ok a \<longleftrightarrow> id_valid (scope_tenant_id (actor_tenant_scope a)) \<and> id_valid (actor_actor_id a)
     \<and> id_valid (actor_correlation_id a)"

definition device_request_ok :: "device_generation_commit_request \<Rightarrow> bool" where
  "device_request_ok r \<longleftrightarrow> id_valid (dgr_job_id r) \<and> id_valid (dgr_claim_id r) \<and> id_valid (dgr_device_id r)
     \<and> id_valid (dgr_profile_id r) \<and> id_valid (dgr_base_generation_id r)
     \<and> id_valid (god_generation_id (dgr_object r)) \<and> god_profile_id (dgr_object r) = dgr_profile_id r
     \<and> id_valid (gcw_session_id (dgr_coordinator r)) \<and> id_valid (gcw_fencing_token (dgr_coordinator r))
     \<and> version_value (dgr_expected_job_version r) \<noteq> 0 \<and> version_value (dgr_expected_profile_version r) \<noteq> 0"

definition successor_request_ok :: "profile_generation_successor_commit_request \<Rightarrow> bool" where
  "successor_request_ok r \<longleftrightarrow> id_valid (psr_device_id r)
     \<and> id_valid (psr_profile_id r) \<and> id_valid (psr_base_generation_id r)
     \<and> id_valid (god_generation_id (psr_object r)) \<and> god_profile_id (psr_object r) = psr_profile_id r
     \<and> id_valid (pgw_session_id (psr_coordinator r)) \<and> id_valid (pgw_fencing_token (psr_coordinator r))
     \<and> version_value (psr_expected_profile_version r) \<noteq> 0"

lemma device_commit_codec:
  assumes "actor_ids_ok a" "device_request_ok r"
  shows "device_commit_into_domain t (device_commit_from_domain a r) = Inr (a, r\<lparr>dgr_observed_at := t\<rparr>)"
  using assms
  by (simp add: device_commit_into_domain_def device_commit_from_domain_def actor_ids_ok_def device_request_ok_def)

lemma successor_codec:
  assumes "actor_ids_ok a" "successor_request_ok r"
  shows "successor_into_domain t (successor_from_domain a r) = Inr (a, r\<lparr>psr_observed_at := t\<rparr>)"
  using assms
  by (simp add: successor_into_domain_def successor_from_domain_def actor_ids_ok_def successor_request_ok_def)

lemma device_commit_into_domain_ok:
  "device_commit_into_domain t d = Inr (a, r) \<Longrightarrow> actor_ids_ok a \<and> device_request_ok r \<and> dgr_observed_at r = t
     \<and> device_commit_from_domain a r = d"
  by (auto simp: device_commit_into_domain_def res_bind_Inr_iff id_parse_Inr_iff version_new_Inr_iff
      actor_ids_ok_def device_request_ok_def id_valid_def device_commit_from_domain_def)

lemma successor_into_domain_ok:
  "successor_into_domain t d = Inr (a, r) \<Longrightarrow> actor_ids_ok a \<and> successor_request_ok r \<and> psr_observed_at r = t
     \<and> successor_from_domain a r = d"
  by (auto simp: successor_into_domain_def res_bind_Inr_iff id_parse_Inr_iff version_new_Inr_iff
      actor_ids_ok_def successor_request_ok_def id_valid_def successor_from_domain_def)

section \<open>Bytes\<close>

lemma length_to_be_bytes [simp]: "length (to_be_bytes v) = 8"
  by (simp add: to_be_bytes_def)

lemma digits_eq:
  fixes n m :: nat
  assumes "\<And>i. i < k \<Longrightarrow> n div b ^ i mod b = m div b ^ i mod b" "n < b ^ k" "m < b ^ k"
  shows "n = m"
  using assms
proof (induction k arbitrary: n m)
  case (Suc k)
  have "n div b = m div b"
  proof (rule Suc.IH)
    show "n div b div b ^ i mod b = m div b div b ^ i mod b" if "i < k" for i
      using Suc.prems(1) [of "Suc i"] that by (simp add: div_mult2_eq)
  qed (use Suc.prems(2,3) in \<open>simp_all add: less_mult_imp_div_less mult.commute\<close>)
  moreover have "n mod b = m mod b" using Suc.prems(1) [of 0] by simp
  ultimately show ?case by (metis div_mult_mod_eq)
qed simp

lemma to_be_bytes_inject [simp]: "to_be_bytes v = to_be_bytes w \<longleftrightarrow> v = w"
proof
  assume e: "to_be_bytes v = to_be_bytes w"
  have b: "unat v div 256 ^ i mod 256 = unat w div 256 ^ i mod 256" if "i \<in> set [7, 6, 5, 4, 3, 2, 1, 0]" for i :: nat
    using e that unfolding to_be_bytes_def map_eq_conv by (metis of_char_of)
  have "unat v = unat w"
  proof (rule digits_eq [of 8])
    show "unat v div 256 ^ i mod 256 = unat w div 256 ^ i mod 256" if "i < 8" for i
    proof -
      have "i \<in> set [7, 6, 5, 4, 3, 2, 1, 0]" using that by auto
      then show ?thesis by (rule b)
    qed
  qed (use unat_bound [of v] unat_bound [of w] in simp_all)
  then show "v = w" by (simp add: word_unat_eq_iff)
qed simp

lemma hash_field_prefix:
  assumes "hash_field a @ xs = hash_field b @ ys" "length a < 2 ^ 64" "length b < 2 ^ 64"
  shows "a = b \<and> xs = ys"
proof -
  from assms have e: "to_be_bytes (of_nat (length a)) = to_be_bytes (of_nat (length b))" "a @ xs = b @ ys"
    by (simp_all add: hash_field_def)
  then have "(of_nat (length a) :: u64) = of_nat (length b)" by simp
  then have "unat (of_nat (length a) :: u64) = unat (of_nat (length b) :: u64)" by simp
  then have "length a = length b" using assms(2,3) by (simp add: unsigned_of_nat take_bit_nat_eq_self)
  then show ?thesis using e(2) by simp
qed

lemma hash_fields_inject:
  assumes "concat (map hash_field as) @ xs = concat (map hash_field bs) @ ys" "length as = length bs"
    "\<forall>a \<in> set as. length a < 2 ^ 64" "\<forall>b \<in> set bs. length b < 2 ^ 64"
  shows "as = bs \<and> xs = ys"
  using assms(2,1,3,4)
proof (induction as bs rule: list_induct2)
  case (Cons a as b bs)
  have "a = b" "concat (map hash_field as) @ xs = concat (map hash_field bs) @ ys"
    using hash_field_prefix [of a "concat (map hash_field as) @ xs" b "concat (map hash_field bs) @ ys"] Cons.prems
    by auto
  then show ?case using Cons by simp
qed simp

lemma hash_words_inject:
  assumes "concat (map (\<lambda>v. hash_field (to_be_bytes v)) vs) = concat (map (\<lambda>v. hash_field (to_be_bytes v)) ws)"
    "length vs = length ws"
  shows "vs = ws"
proof -
  have "map to_be_bytes vs = map to_be_bytes ws"
    using hash_fields_inject [of "map to_be_bytes vs" "[]" "map to_be_bytes ws" "[]"] assms by (simp add: comp_def)
  then show ?thesis by (metis inj_map_eq_map inj_onI to_be_bytes_inject)
qed

section \<open>What the digest binds\<close>

definition device_strings :: "device_commit_internal_request \<Rightarrow> string list" where
  "device_strings d = [dir_tenant_id d, dir_actor_id d, dir_job_id d, dir_claim_id d, dir_device_id d,
     dir_profile_id d, dir_base_generation_id d, dir_generation_id d, dir_object_key d,
     dir_metadata_digest d, dir_container_digest d, dir_coordinator_session_id d, dir_coordinator_fencing_token d]"

definition successor_strings :: "successor_internal_request \<Rightarrow> string list" where
  "successor_strings d = [sir_tenant_id d, sir_actor_id d, sir_device_id d, sir_profile_id d,
     sir_base_generation_id d, sir_generation_id d, sir_object_key d, sir_metadata_digest d,
     sir_container_digest d, sir_coordinator_session_id d, sir_coordinator_fencing_token d]"

text \<open>No field is longer than a 64-bit length can say.\<close>

definition fits :: "string list \<Rightarrow> bool" where
  "fits xs \<longleftrightarrow> (\<forall>x \<in> set xs. length x < 2 ^ 64)"

lemma device_preimage_inject:
  assumes "device_commit_preimage d = device_commit_preimage e" "fits (device_strings d)" "fits (device_strings e)"
  shows "d\<lparr>dir_correlation_id := c\<rparr> = e\<lparr>dir_correlation_id := c\<rparr>"
proof -
  let ?vs = "\<lambda>d. [dir_expected_job_version d, dir_claim_fence d, dir_container_bytes d,
        dir_expected_profile_version d, dir_coordinator_epoch d, dir_coordinator_version d, dir_coordinator_sequence d]"
  let ?words = "\<lambda>d. concat (map (\<lambda>v. hash_field (to_be_bytes v)) (?vs d))"
  have "concat (map hash_field (device_strings d)) @ ?words d = concat (map hash_field (device_strings e)) @ ?words e"
    using assms(1) unfolding device_commit_preimage_def device_strings_def .
  then have s: "device_strings d = device_strings e" and v: "?words d = ?words e"
    using hash_fields_inject [of "device_strings d" "?words d" "device_strings e" "?words e"] assms(2,3)
    unfolding fits_def by (simp_all only: device_strings_def list.size)
  have "?vs d = ?vs e" using hash_words_inject [OF v] by simp
  then show ?thesis using s by (simp add: device_strings_def)
qed

lemma successor_preimage_inject:
  assumes "successor_preimage d = successor_preimage e" "fits (successor_strings d)" "fits (successor_strings e)"
  shows "d\<lparr>sir_correlation_id := c\<rparr> = e\<lparr>sir_correlation_id := c\<rparr>"
proof -
  let ?vs = "\<lambda>d. [sir_container_bytes d, sir_expected_profile_version d, sir_coordinator_epoch d,
        sir_coordinator_version d, sir_coordinator_sequence d]"
  let ?words = "\<lambda>d. concat (map (\<lambda>v. hash_field (to_be_bytes v)) (?vs d))"
  have "concat (map hash_field (successor_strings d)) @ ?words d = concat (map hash_field (successor_strings e)) @ ?words e"
    using assms(1) unfolding successor_preimage_def successor_strings_def by (simp only: append_assoc same_append_eq)
  then have s: "successor_strings d = successor_strings e" and v: "?words d = ?words e"
    using hash_fields_inject [of "successor_strings d" "?words d" "successor_strings e" "?words e"] assms(2,3)
    unfolding fits_def by (simp_all only: successor_strings_def list.size)
  have "?vs d = ?vs e" using hash_words_inject [OF v] by simp
  then show ?thesis using s by (simp add: successor_strings_def)
qed

text \<open>The successor bytes start with a letter, the device bytes with the high byte of a length.\<close>

lemma preimages_disjoint:
  assumes "length (dir_tenant_id d) < 2 ^ 56"
  shows "device_commit_preimage d \<noteq> successor_preimage e"
proof -
  have "unat (of_nat (length (dir_tenant_id d)) :: u64) = length (dir_tenant_id d)"
    using assms by (simp add: unsigned_of_nat take_bit_nat_eq_self)
  then have "hd (device_commit_preimage d) = char_of (0 :: nat)"
    using assms by (simp add: device_commit_preimage_def hash_field_def to_be_bytes_def div_less)
  moreover have "hd (successor_preimage e) = CHR ''p''" by (simp add: successor_preimage_def)
  moreover have "char_of (0 :: nat) \<noteq> CHR ''p''" by (simp add: char_of_def)
  ultimately show ?thesis by metis
qed

section \<open>Hexadecimal digests\<close>

lemma hex_digit_eq: "n < 16 \<Longrightarrow> m < 16 \<Longrightarrow> hex_digit n = hex_digit m \<longleftrightarrow> n = m"
proof -
  have d: "distinct ''0123456789abcdef''" by simp
  assume "n < 16" "m < 16"
  then show ?thesis unfolding hex_digit_def using nth_eq_iff_index_eq [OF d] by simp
qed

lemma hex_digit_mod: "hex_digit n = hex_digit (n mod 16)"
  by (simp add: hex_digit_def)

lemma hex_byte_eq:
  assumes "hex_digit (byte_of a div 16) = hex_digit (byte_of b div 16)" "hex_digit (byte_of a) = hex_digit (byte_of b)"
  shows "a = b"
proof -
  have "byte_of a div 16 = byte_of b div 16"
    using assms(1) byte_of_lt [of a] byte_of_lt [of b] by (subst (asm) hex_digit_eq) simp_all
  moreover have "byte_of a mod 16 = byte_of b mod 16"
    using assms(2) hex_digit_eq [of "byte_of a mod 16" "byte_of b mod 16"] hex_digit_mod by simp
  ultimately have "byte_of a = byte_of b" by (metis div_mult_mod_eq)
  then show ?thesis by (simp add: byte_of_def)
qed

lemma hex_digest_inject: "hex_digest xs = hex_digest ys \<longleftrightarrow> xs = ys"
proof
  assume "hex_digest xs = hex_digest ys"
  then show "xs = ys"
  proof (induction xs arbitrary: ys)
    case Nil
    then show ?case by (cases ys) (simp_all add: hex_digest_def)
  next
    case (Cons x xs)
    then obtain y zs where ys: "ys = y # zs" by (cases ys) (simp_all add: hex_digest_def)
    then have "x = y" "hex_digest xs = hex_digest zs"
      using Cons.prems hex_byte_eq [of x y] by (simp_all add: hex_digest_def)
    then show ?case using Cons.IH ys by simp
  qed
qed simp

end
