(* ===== verification/Coordinator_Object_Safety.thy ===== *)
theory Coordinator_Object_Safety
  imports Coordinator_Object Generation_Commit_Codec
begin

text \<open>
  Safety of the coordinator object.  \<open>object_inv\<close>: the stored document represents a coordinator
  reached from creation, and a stored gate belongs to an authority that was live in exactly
  the stored state at the gate's time.  The document changes only in a command or a tick, and
  neither runs while the gate is closed, so the reserved writer cannot be displaced.
\<close>

section \<open>Authority\<close>

lemma authority_is_live_iff:
  "coordinator_generation_authority_is_live s dev sid epoch tok ver seq at \<longleftrightarrow>
     (cs_status s = Active \<or> cs_status s = Draining) \<and> version_value (cs_version s) = ver
     \<and> cs_last_sequence s = seq \<and> cs_last_observed_at s \<le> at
     \<and> (\<exists>l. cs_active_lease s = Some l \<and> cl_device_id l = dev \<and> accepts_writer l sid epoch tok
          \<and> at < cl_idle_expires_at l \<and> at < cl_hard_expires_at l)
     \<and> (cs_status s = Draining \<longrightarrow> (\<exists>d. cs_drain_deadline s = Some d \<and> at < d))"
  by (auto simp: coordinator_generation_authority_is_live_def not_le not_less split: option.splits)

lemma live_authority_not_due:
  "coordinator_generation_authority_is_live s dev sid epoch tok ver seq at \<Longrightarrow> timeout_if_due at s = (None, s)"
  by (auto simp: authority_is_live_iff timeout_None_iff)

lemma validate_device_Inr_iff:
  "validate_device_generation_commit_authority s r at = Inr u \<longleftrightarrow>
     coordinator_generation_authority_is_live s (dgr_device_id r) (gcw_session_id (dgr_coordinator r))
       (gcw_epoch (dgr_coordinator r)) (gcw_fencing_token (dgr_coordinator r))
       (gcw_coordinator_version (dgr_coordinator r)) (gcw_coordinator_sequence (dgr_coordinator r)) at"
  by (simp add: validate_device_generation_commit_authority_def Let_def)

lemma validate_successor_Inr_iff:
  "validate_profile_successor_authority s r at = Inr u \<longleftrightarrow>
     coordinator_generation_authority_is_live s (psr_device_id r) (pgw_session_id (psr_coordinator r))
       (pgw_epoch (psr_coordinator r)) (pgw_fencing_token (psr_coordinator r))
       (pgw_coordinator_version (psr_coordinator r)) (pgw_coordinator_sequence (psr_coordinator r)) at"
  by (simp add: validate_profile_successor_authority_def Let_def)

section \<open>The invariant\<close>

definition document_ok :: "stored_coordinator_document \<Rightarrow> bool" where
  "document_ok doc \<longleftrightarrow> (\<exists>a. refines doc a \<and> supervised_inv a)"

definition gate_ok :: "stored_coordinator_document option \<Rightarrow> generation_commit_gate \<Rightarrow> bool" where
  "gate_ok stored g \<longleftrightarrow> (\<exists>doc s dev sid epoch tok. stored = Some doc \<and> document_replay doc = Inr s
     \<and> coordinator_generation_authority_is_live s dev sid epoch tok (version_value (cs_version s))
         (cs_last_sequence s) (gate_authorized_at_ms g))"

definition object_inv :: "coordinator_object \<Rightarrow> bool" where
  "object_inv obj \<longleftrightarrow> (\<forall>doc. co_document obj = Some doc \<longrightarrow> document_ok doc)
     \<and> (\<forall>g. co_gate obj = Some g \<longrightarrow> gate_ok (co_document obj) g)"

lemma document_apply_ok: "document_ok doc \<Longrightarrow> document_ok (snd (document_apply env doc))"
  unfolding document_ok_def
  using document_apply_simulates(1) supervised_apply_inv by blast

lemma object_config: "\<exists>config. coordinator_config_new object_idle_timeout_ms object_hard_timeout_ms object_drain_timeout_ms = Inr config"
  by (simp add: coordinator_config_new_def object_idle_timeout_ms_def object_hard_timeout_ms_def object_drain_timeout_ms_def)

lemma load_document_ok:
  assumes "load_document t p obj = Inr doc" "object_inv obj" "id_valid t" "id_valid p"
  shows "document_ok doc"
proof (cases "co_document obj")
  case None
  then obtain config where c: "coordinator_config_new object_idle_timeout_ms object_hard_timeout_ms object_drain_timeout_ms = Inr config"
      "doc = document_new t p config"
    using assms(1) by (auto simp: load_document_def res_bind_Inr_iff)
  have "supervised_inv (coordinator_new t p config, None)"
    by (rule supervised_new_inv [OF config_new_ok [OF c(1)]])
  then show ?thesis using document_new_refines [OF assms(3,4) c(1)] c(2) unfolding document_ok_def by blast
next
  case (Some d)
  then show ?thesis using assms(1,2) by (auto simp: load_document_def res_bind_Inr_iff object_inv_def)
qed

lemma load_document_idle:
  assumes "load_document t p obj = Inr doc" "co_document obj = None" "document_replay doc = Inr s"
    "id_valid t" "id_valid p"
  shows "cs_status s = Idle"
proof -
  obtain config where c: "coordinator_config_new object_idle_timeout_ms object_hard_timeout_ms object_drain_timeout_ms = Inr config"
      "doc = document_new t p config"
    using assms(1,2) by (auto simp: load_document_def res_bind_Inr_iff)
  have "document_replay doc = Inr (coordinator_new t p config)"
    using document_new_refines [OF assms(4,5) c(1)] c(2) by (auto simp: refines_def represents_replay)
  then show ?thesis using assms(3) by (auto simp: coordinator_new_def)
qed

text \<open>A document that carries a live authority is the stored one.\<close>

lemma live_document_stored:
  assumes "load_document t p obj = Inr doc" "document_replay doc = Inr s" "id_valid t" "id_valid p"
    "coordinator_generation_authority_is_live s dev sid epoch tok ver seq at"
  shows "co_document obj = Some doc"
proof (cases "co_document obj")
  case None
  then show ?thesis using load_document_idle [OF assms(1) None assms(2-4)] assms(5)
    by (simp add: authority_is_live_iff)
next
  case (Some d)
  then show ?thesis using assms(1) by (auto simp: load_document_def res_bind_Inr_iff)
qed

section \<open>Commands and alarms\<close>

lemma object_command_gate: "co_gate obj \<noteq> None \<Longrightarrow> object_command body obj = (Inr (ErrorReply 409 ''conflict''), obj)"
  by (simp add: object_command_def)

text \<open>Every handler with an open gate that touches the document applies one envelope to it.\<close>

lemma object_command_cases:
  obtains (same) "snd (object_command body obj) = obj"
  | (applied) t p env doc a doc1 where "co_gate obj = None" "id_valid t" "id_valid p"
      "load_document t p obj = Inr doc" "document_apply env doc = (Inr a, doc1)"
      "object_command body obj = (Inr (CoordinatorReply (response_from_applied a)), store_applied a doc1 obj)"
proof (cases "snd (object_command body obj) = obj")
  case True
  then show thesis by (rule same)
next
  case False
  then have gate: "co_gate obj = None" by (cases "co_gate obj") (auto simp: object_command_def)
  obtain tenant profile env where b: "body = Inr (tenant, profile, env)"
    using False gate by (cases body) (auto simp: object_command_def)
  obtain t :: tenant_id where t: "id_parse tenant = Inr t"
    using False gate b by (cases "id_parse tenant :: _ + tenant_id") (auto simp: object_command_def)
  obtain p :: profile_id where p: "id_parse profile = Inr p"
    using False gate b t by (cases "id_parse profile :: _ + profile_id") (auto simp: object_command_def)
  obtain doc where doc: "load_document t p obj = Inr doc"
    using False gate b t p by (cases "load_document t p obj") (auto simp: object_command_def)
  obtain a doc1 where a: "document_apply env doc = (Inr a, doc1)"
    using False gate b t p doc
    by (cases "document_apply env doc"; cases "fst (document_apply env doc)") (auto simp: object_command_def)
  show thesis
    using gate b t p doc a by (intro applied [OF gate id_parse_valid [OF t] id_parse_valid [OF p] doc a]) (simp add: object_command_def)
qed

lemma object_alarm_cases:
  obtains (same) "co_document (snd (object_alarm now obj)) = co_document obj" "co_gate (snd (object_alarm now obj)) = co_gate obj"
      "\<forall>reply. fst (object_alarm now obj) = Inr reply \<longrightarrow>
         co_alarm (snd (object_alarm now obj)) \<noteq> None \<or> co_gate obj = None \<and> co_document obj = None"
  | (applied) env doc a doc1 where "co_gate obj = None" "co_document obj = Some doc"
      "document_apply env doc = (Inr a, doc1)"
      "object_alarm now obj = (Inr (CoordinatorReply (response_from_applied a)), store_applied a doc1 obj)"
proof (cases "co_gate obj")
  case (Some g)
  have "co_document (snd (object_alarm now obj)) = co_document obj" "co_gate (snd (object_alarm now obj)) = co_gate obj"
      "\<forall>reply. fst (object_alarm now obj) = Inr reply \<longrightarrow>
         co_alarm (snd (object_alarm now obj)) \<noteq> None \<or> co_gate obj = None \<and> co_document obj = None"
    using Some by (auto simp: object_alarm_def schedule_gate_retry_alarm_def or_return_def res_ok_or_def split: option.splits)
  then show thesis by (rule same)
next
  case gate: None
  show thesis
  proof (cases "co_document obj")
    case None
    then show thesis using gate same by (simp add: object_alarm_def)
  next
    case (Some doc)
    show thesis
    proof (cases "document_replay doc")
      case (Inl e)
      then show thesis using gate Some same by (simp add: object_alarm_def)
    next
      case (Inr s)
      show thesis
      proof (cases "checked_add (cs_last_sequence s) 1")
        case None
        then show thesis using gate Some Inr same by (simp add: object_alarm_def)
      next
        case seq: (Some n)
        let ?env = "\<lparr>sce_idempotency_key = alarm_key n, sce_sequence = n,
             sce_expected_version = version_value (cs_version s), sce_command = StoredTick now\<rparr>"
        obtain r doc1 where r: "document_apply ?env doc = (r, doc1)" by fastforce
        show thesis
        proof (cases r)
          case (Inl e)
          then show thesis using gate Some Inr seq r same by (simp add: object_alarm_def)
        next
          case a: (Inr a)
          then show thesis using gate Some Inr seq r
            by (intro applied [OF gate Some, of ?env a doc1]) (simp_all add: object_alarm_def)
        qed
      qed
    qed
  qed
qed

text \<open>Delivering the alarm is the handler on an object whose alarm is spent.\<close>

lemma store_applied_alarm: "store_applied a doc (obj\<lparr>co_alarm := alarm\<rparr>) = store_applied a doc obj"
  by (simp add: store_applied_def schedule_alarm_def)

lemma fire_alarm_frame:
  "co_document (snd (fire_alarm now obj)) = co_document (snd (object_alarm now (obj\<lparr>co_alarm := None\<rparr>)))"
  "co_gate (snd (fire_alarm now obj)) = co_gate (snd (object_alarm now (obj\<lparr>co_alarm := None\<rparr>)))"
  by (simp_all add: fire_alarm_def split: prod.split sum.split)

lemma fire_alarm_cases:
  obtains (same) "co_document (snd (fire_alarm now obj)) = co_document obj" "co_gate (snd (fire_alarm now obj)) = co_gate obj"
      "co_alarm (snd (fire_alarm now obj)) = co_alarm obj \<or> co_alarm (snd (fire_alarm now obj)) \<noteq> None
       \<or> co_gate obj = None \<and> co_document obj = None"
  | (applied) env doc a doc1 where "co_gate obj = None" "co_document obj = Some doc"
      "document_apply env doc = (Inr a, doc1)"
      "fire_alarm now obj = (Inr (CoordinatorReply (response_from_applied a)), store_applied a doc1 obj)"
proof (cases rule: object_alarm_cases [of now "obj\<lparr>co_alarm := None\<rparr>"])
  case spent: same
  have "co_alarm (snd (fire_alarm now obj)) = co_alarm obj \<or> co_alarm (snd (fire_alarm now obj)) \<noteq> None
      \<or> co_gate obj = None \<and> co_document obj = None"
    using spent(3) by (auto simp: fire_alarm_def split: prod.split sum.split)
  then show thesis using spent(1,2) by (intro same) (simp_all add: fire_alarm_frame)
next
  case (applied env doc a doc1)
  then show thesis by (intro that(2)) (simp_all add: fire_alarm_def store_applied_alarm)
qed

lemma store_applied_inv:
  assumes "co_gate obj = None" "object_inv obj" "document_ok doc1"
  shows "object_inv (store_applied a doc1 obj)"
  using assms by (auto simp: store_applied_def schedule_alarm_def object_inv_def)

lemma object_command_inv: "object_inv obj \<Longrightarrow> object_inv (snd (object_command body obj))"
proof (cases rule: object_command_cases [of body obj])
  case (applied t p env doc a doc1)
  assume inv: "object_inv obj"
  have "document_ok doc1"
    using document_apply_ok [OF load_document_ok [OF applied(4) inv applied(2,3)], of env] applied(5) by simp
  then show ?thesis using applied store_applied_inv [OF applied(1) inv] by simp
qed simp

lemma fire_alarm_inv: "object_inv obj \<Longrightarrow> object_inv (snd (fire_alarm now obj))"
proof (cases rule: fire_alarm_cases [of now obj])
  case (applied env doc a doc1)
  assume inv: "object_inv obj"
  have "document_ok doc" using inv applied(2) by (simp add: object_inv_def)
  then have "document_ok doc1" using document_apply_ok [of doc env] applied(3) by simp
  then show ?thesis using applied store_applied_inv [OF applied(1) inv] by simp
qed (simp add: object_inv_def)

section \<open>Commits\<close>

text \<open>
  The shape of a commit: it answers and changes nothing, or it holds the gate, asks the
  journal, and then either opens the gate or keeps it and sets the retry alarm.
\<close>

definition gate_step ::
    "generation_commit_gate \<Rightarrow> coordinator_object \<Rightarrow> coordinator_object \<Rightarrow> bool" where
  "gate_step g obj obj1 \<longleftrightarrow> co_document obj1 = co_document obj \<and> (co_gate obj1 = None \<or> co_gate obj1 = Some g)"

definition reserved_gate ::
    "string \<Rightarrow> string \<Rightarrow> unix_millis \<Rightarrow> coordinator_object \<Rightarrow> generation_commit_gate \<Rightarrow> bool" where
  "reserved_gate digest generation now obj g \<longleftrightarrow>
     (co_gate obj = Some g \<and> gate_matches g digest generation)
     \<or> (co_gate obj = None \<and> g = \<lparr>gate_authority_digest = digest, gate_generation_id = generation,
          gate_authorized_at_ms = now\<rparr>)"

lemma retry_alarm_frame:
  "co_document (snd (schedule_gate_retry_alarm now obj)) = co_document obj
   \<and> co_gate (snd (schedule_gate_retry_alarm now obj)) = co_gate obj"
  by (auto simp: schedule_gate_retry_alarm_def or_return_def res_ok_or_def split: option.splits)

lemma reserve_generation_gateD:
  assumes "reserve_generation_gate digest generation at conflict validate obj = Inr obj1"
  obtains g where "reserved_gate digest generation at obj g" "obj1 = obj\<lparr>co_gate := Some g\<rparr>"
    "validate (gate_authorized_at_ms g) = Inr ()"
  using assms that
  by (cases "co_gate obj")
     (auto simp: reserve_generation_gate_def reserved_gate_def res_bind_Inr_iff split: if_splits)

lemma settle_gate_step:
  "gate_step g obj (snd (settle_generation_commit releases err ok later answer (obj\<lparr>co_gate := Some g\<rparr>)))"
  using retry_alarm_frame [of later "obj\<lparr>co_gate := Some g\<rparr>"]
  by (auto simp: gate_step_def settle_generation_commit_def clear_generation_commit_gate_def
      split: sum.splits prod.splits)

lemma settle_reply:
  assumes "fst (settle_generation_commit releases err ok later answer obj) = Inr reply" "reply \<notin> range err"
  shows "\<exists>out. answer = Inr out \<and> reply = ok out
     \<and> co_gate (snd (settle_generation_commit releases err ok later answer obj)) = None"
  using assms
  by (cases answer) (auto simp: settle_generation_commit_def clear_generation_commit_gate_def
      split: if_splits prod.splits sum.splits)

text \<open>What a commit that asked the journal went through.\<close>

definition device_commit_asked ::
    "(string \<Rightarrow> string) \<Rightarrow> unix_millis \<Rightarrow> device_commit_internal_request \<Rightarrow> coordinator_object
     \<Rightarrow> actor_context \<Rightarrow> device_generation_commit_request \<Rightarrow> generation_commit_gate \<Rightarrow> bool" where
  "device_commit_asked sha256 now internal obj actor commit g \<longleftrightarrow> (\<exists>doc s.
     device_commit_into_domain (gate_time now obj) internal = Inr (actor, commit)
     \<and> co_document obj = Some doc \<and> document_replay doc = Inr s
     \<and> reserved_gate (device_commit_authority_digest sha256 internal)
         (id_as_str (god_generation_id (dgr_object commit))) (gate_time now obj) obj g
     \<and> coordinator_generation_authority_is_live s (dgr_device_id commit)
         (gcw_session_id (dgr_coordinator commit)) (gcw_epoch (dgr_coordinator commit))
         (gcw_fencing_token (dgr_coordinator commit)) (gcw_coordinator_version (dgr_coordinator commit))
         (gcw_coordinator_sequence (dgr_coordinator commit)) (gate_authorized_at_ms g))"

definition successor_commit_asked ::
    "(string \<Rightarrow> string) \<Rightarrow> unix_millis \<Rightarrow> successor_internal_request \<Rightarrow> coordinator_object
     \<Rightarrow> actor_context \<Rightarrow> profile_generation_successor_commit_request \<Rightarrow> generation_commit_gate \<Rightarrow> bool" where
  "successor_commit_asked sha256 now internal obj actor commit g \<longleftrightarrow> (\<exists>doc s.
     successor_into_domain (gate_time now obj) internal = Inr (actor, commit)
     \<and> co_document obj = Some doc \<and> document_replay doc = Inr s
     \<and> active_claim_matches doc (actor_actor_id actor) (psr_device_id commit)
         (pgw_session_id (psr_coordinator commit)) = Inr True
     \<and> reserved_gate (successor_authority_digest sha256 internal)
         (id_as_str (god_generation_id (psr_object commit))) (gate_time now obj) obj g
     \<and> coordinator_generation_authority_is_live s (psr_device_id commit)
         (pgw_session_id (psr_coordinator commit)) (pgw_epoch (psr_coordinator commit))
         (pgw_fencing_token (psr_coordinator commit)) (pgw_coordinator_version (psr_coordinator commit))
         (pgw_coordinator_sequence (psr_coordinator commit)) (gate_authorized_at_ms g))"

definition commit_refused :: "(string + object_reply) \<times> coordinator_object \<Rightarrow> coordinator_object \<Rightarrow> bool" where
  "commit_refused out obj \<longleftrightarrow> snd out = obj
     \<and> (\<forall>o'. fst out \<noteq> Inr (DeviceCommitReply o') \<and> fst out \<noteq> Inr (SuccessorCommitReply o'))"

lemma device_error_not_commit [simp]:
  "generation_commit_error e \<noteq> DeviceCommitReply o'" "generation_commit_error e \<noteq> SuccessorCommitReply o'"
  by (cases e; simp)+

lemma successor_error_not_commit [simp]:
  "profile_successor_error e \<noteq> DeviceCommitReply o'" "profile_successor_error e \<noteq> SuccessorCommitReply o'"
  by (cases e; simp)+

lemma commit_refused_intros [simp]:
  "commit_refused (Inl msg, obj) obj"
  "commit_refused (Inr (generation_commit_error e), obj) obj"
  "commit_refused (Inr (profile_successor_error f), obj) obj"
  by (simp_all add: commit_refused_def)

lemma object_generation_commit_cases:
  "commit_refused (object_generation_commit sha256 journal now later body obj) obj
   \<or> (\<exists>internal actor commit g. body = Inr internal
        \<and> device_commit_asked sha256 now internal obj actor commit g
        \<and> object_generation_commit sha256 journal now later body obj =
            settle_generation_commit generation_commit_failure_releases_gate generation_commit_error
              (\<lambda>j. DeviceCommitReply (device_commit_outcome j)) later (journal actor commit) (obj\<lparr>co_gate := Some g\<rparr>))"
  (is "?refused \<or> ?asked")
proof (cases body)
  case body: (Inr internal)
  show ?thesis
  proof (cases "device_commit_into_domain (gate_time now obj) internal")
    case dom: (Inr ac)
    obtain actor commit where ac: "ac = (actor, commit)" by fastforce
    let ?load = "load_document (scope_tenant_id (actor_tenant_scope actor)) (dgr_profile_id commit) obj"
    have ids: "id_valid (scope_tenant_id (actor_tenant_scope actor))" "id_valid (dgr_profile_id commit)"
      using device_commit_into_domain_ok [of "gate_time now obj" internal actor commit] dom ac
      by (simp_all add: actor_ids_ok_def device_request_ok_def)
    show ?thesis
    proof (cases ?load)
      case doc: (Inr doc)
      show ?thesis
      proof (cases "document_replay doc")
        case s: (Inr s)
        let ?reserve = "reserve_generation_gate (device_commit_authority_digest sha256 internal)
           (id_as_str (god_generation_id (dgr_object commit))) (gate_time now obj) DeviceVersionConflict
           (validate_device_generation_commit_authority s commit) obj"
        show ?thesis
        proof (cases ?reserve)
          case (Inl e)
          then show ?thesis using body dom ac doc s by (simp add: object_generation_commit_def Let_def)
        next
          case (Inr obj1)
          then obtain g where g: "reserved_gate (device_commit_authority_digest sha256 internal)
              (id_as_str (god_generation_id (dgr_object commit))) (gate_time now obj) obj g"
              "obj1 = obj\<lparr>co_gate := Some g\<rparr>"
              "validate_device_generation_commit_authority s commit (gate_authorized_at_ms g) = Inr ()"
            by (rule reserve_generation_gateD)
          have "co_document obj = Some doc"
            using live_document_stored [OF doc s ids] g(3) by (simp add: validate_device_Inr_iff)
          then have "device_commit_asked sha256 now internal obj actor commit g"
            using dom ac s g by (auto simp: device_commit_asked_def validate_device_Inr_iff)
          then have ?asked using body dom ac doc s Inr g(2)
            by (intro exI conjI) (assumption | simp add: object_generation_commit_def Let_def)+
          then show ?thesis ..
        qed
      qed (use body dom ac doc in \<open>simp add: object_generation_commit_def Let_def del: generation_commit_error.simps\<close>)
    qed (use body dom ac in \<open>simp add: object_generation_commit_def Let_def\<close>)
  qed (use body in \<open>simp add: object_generation_commit_def Let_def\<close>)
qed (simp add: object_generation_commit_def del: generation_commit_error.simps)

lemma object_generation_successor_cases:
  "commit_refused (object_generation_successor sha256 journal now later body obj) obj
   \<or> (\<exists>internal actor commit g. body = Inr internal
        \<and> successor_commit_asked sha256 now internal obj actor commit g
        \<and> object_generation_successor sha256 journal now later body obj =
            settle_generation_commit profile_successor_failure_releases_gate profile_successor_error
              SuccessorCommitReply later (journal actor commit) (obj\<lparr>co_gate := Some g\<rparr>))"
  (is "?refused \<or> ?asked")
proof (cases body)
  case body: (Inr internal)
  show ?thesis
  proof (cases "successor_into_domain (gate_time now obj) internal")
    case dom: (Inr ac)
    obtain actor commit where ac: "ac = (actor, commit)" by fastforce
    let ?load = "load_document (scope_tenant_id (actor_tenant_scope actor)) (psr_profile_id commit) obj"
    have ids: "id_valid (scope_tenant_id (actor_tenant_scope actor))" "id_valid (psr_profile_id commit)"
      using successor_into_domain_ok [of "gate_time now obj" internal actor commit] dom ac
      by (simp_all add: actor_ids_ok_def successor_request_ok_def)
    show ?thesis
    proof (cases ?load)
      case doc: (Inr doc)
      show ?thesis
      proof (cases "document_replay doc")
        case s: (Inr s)
        let ?claims = "active_claim_matches doc (actor_actor_id actor) (psr_device_id commit)
           (pgw_session_id (psr_coordinator commit))"
        let ?reserve = "reserve_generation_gate (successor_authority_digest sha256 internal)
           (id_as_str (god_generation_id (psr_object commit))) (gate_time now obj) SuccessorVersionConflict
           (validate_profile_successor_authority s commit) obj"
        show ?thesis
        proof (cases "?claims = Inr True")
          case False
          then show ?thesis using body dom ac doc s
            by (cases ?claims)
               (simp_all add: object_generation_successor_def Let_def del: profile_successor_error.simps)
        next
          case claims: True
          show ?thesis
          proof (cases ?reserve)
            case (Inl e)
            then show ?thesis using body dom ac doc s claims by (simp add: object_generation_successor_def Let_def)
          next
            case (Inr obj1)
            then obtain g where g: "reserved_gate (successor_authority_digest sha256 internal)
                (id_as_str (god_generation_id (psr_object commit))) (gate_time now obj) obj g"
                "obj1 = obj\<lparr>co_gate := Some g\<rparr>"
                "validate_profile_successor_authority s commit (gate_authorized_at_ms g) = Inr ()"
              by (rule reserve_generation_gateD)
            have "co_document obj = Some doc"
              using live_document_stored [OF doc s ids] g(3) by (simp add: validate_successor_Inr_iff)
            then have "successor_commit_asked sha256 now internal obj actor commit g"
              using dom ac s g claims by (auto simp: successor_commit_asked_def validate_successor_Inr_iff)
            then have ?asked using body dom ac doc s Inr g(2) claims
              by (intro exI conjI) (assumption | simp add: object_generation_successor_def Let_def)+
            then show ?thesis ..
          qed
        qed
      qed (use body dom ac doc in \<open>simp add: object_generation_successor_def Let_def del: profile_successor_error.simps\<close>)
    qed (use body dom ac in \<open>simp add: object_generation_successor_def Let_def\<close>)
  qed (use body in \<open>simp add: object_generation_successor_def Let_def\<close>)
qed (simp add: object_generation_successor_def del: profile_successor_error.simps)

section \<open>The object as a machine\<close>

lemma gate_step_inv:
  assumes "object_inv obj" "gate_step g obj obj1" "gate_ok (co_document obj) g"
  shows "object_inv obj1"
  using assms by (auto simp: object_inv_def gate_step_def)

lemma live_gate_ok:
  assumes "co_document obj = Some doc" "document_replay doc = Inr s"
    "coordinator_generation_authority_is_live s dev sid epoch tok ver seq (gate_authorized_at_ms g)"
  shows "gate_ok (co_document obj) g"
proof -
  have "ver = version_value (cs_version s)" "seq = cs_last_sequence s" using assms(3) by (auto simp: authority_is_live_iff)
  then show ?thesis using assms unfolding gate_ok_def by blast
qed

lemma object_generation_commit_inv:
  assumes "object_inv obj"
  shows "object_inv (snd (object_generation_commit sha256 journal now later body obj))"
  using object_generation_commit_cases [of sha256 journal now later body obj]
proof
  assume "\<exists>internal actor commit g. body = Inr internal
        \<and> device_commit_asked sha256 now internal obj actor commit g
        \<and> object_generation_commit sha256 journal now later body obj =
            settle_generation_commit generation_commit_failure_releases_gate generation_commit_error
              (\<lambda>j. DeviceCommitReply (device_commit_outcome j)) later (journal actor commit) (obj\<lparr>co_gate := Some g\<rparr>)"
  then show ?thesis
    using gate_step_inv [OF assms settle_gate_step] live_gate_ok [of obj] unfolding device_commit_asked_def by metis
qed (use assms in \<open>simp add: commit_refused_def\<close>)

lemma object_generation_successor_inv:
  assumes "object_inv obj"
  shows "object_inv (snd (object_generation_successor sha256 journal now later body obj))"
  using object_generation_successor_cases [of sha256 journal now later body obj]
proof
  assume "\<exists>internal actor commit g. body = Inr internal
        \<and> successor_commit_asked sha256 now internal obj actor commit g
        \<and> object_generation_successor sha256 journal now later body obj =
            settle_generation_commit profile_successor_failure_releases_gate profile_successor_error
              SuccessorCommitReply later (journal actor commit) (obj\<lparr>co_gate := Some g\<rparr>)"
  then show ?thesis
    using gate_step_inv [OF assms settle_gate_step] live_gate_ok [of obj] unfolding successor_commit_asked_def by metis
qed (use assms in \<open>simp add: commit_refused_def\<close>)

lemma object_snapshot_same: "snd (object_snapshot body obj) = obj"
  by (auto simp: object_snapshot_def or_return_def split: sum.splits prod.splits)

lemma object_writer_authority_same: "snd (object_writer_authority now body obj) = obj"
  by (simp add: object_writer_authority_def or_return_def split: sum.splits prod.splits)

lemma object_fetch_inv: "object_inv obj \<Longrightarrow> object_inv (snd (object_fetch sha256 event obj))"
  by (cases event)
     (simp_all add: object_snapshot_same object_writer_authority_same object_command_inv fire_alarm_inv
       object_generation_commit_inv object_generation_successor_inv)

interpretation object: invariant_machine "object_fetch sha256" object_inv for sha256
  by unfold_locales (rule object_fetch_inv)

section \<open>The alarm is always set\<close>

text \<open>
  \<open>deadline_pending\<close>: the stored state has an intent or a lease that will end.  An object whose
  gate is closed or whose state has a deadline has an alarm, so that it is woken again.  Storing
  an applied envelope sets the alarm to the deadline of the stored state; a closed gate belongs
  to a live lease, and its alarm is renewed whenever it fires.
\<close>

definition deadline_pending :: "coordinator_object \<Rightarrow> bool" where
  "deadline_pending obj =
     (case co_document obj of
        None \<Rightarrow> False
      | Some doc \<Rightarrow> (case document_replay doc of Inl e \<Rightarrow> False | Inr s \<Rightarrow> next_alarm_at s \<noteq> None))"

definition alarm_covered :: "coordinator_object \<Rightarrow> bool" where
  "alarm_covered obj \<longleftrightarrow> (co_gate obj \<noteq> None \<or> deadline_pending obj \<longrightarrow> co_alarm obj \<noteq> None)"

lemma next_alarm_None: "next_alarm_at s = None \<longleftrightarrow> cs_pending_intent s = None \<and> cs_active_lease s = None"
  by (cases "cs_pending_intent s"; cases "cs_active_lease s") (simp_all add: next_alarm_at_def Let_def)

lemma live_deadline_pending:
  assumes "co_document obj = Some doc" "document_replay doc = Inr s"
    "coordinator_generation_authority_is_live s dev sid epoch tok ver seq at"
  shows "deadline_pending obj"
  using assms by (auto simp: deadline_pending_def authority_is_live_iff next_alarm_None)

lemma applied_alarm:
  assumes "document_ok doc" "document_apply env doc = (Inr a, doc1)"
  obtains s where "document_replay doc1 = Inr s" "ca_next_alarm_at a = next_alarm_at s"
proof -
  obtain b where b: "refines doc b" using assms(1) by (auto simp: document_ok_def)
  obtain s who where s: "snd (supervised_apply env b) = (s, who)" by fastforce
  show thesis
    using document_apply_simulates(1) [OF b, of env] document_apply_simulates(3) [OF b, of env a] assms(2) s
    by (intro that [of s]) (simp_all add: refines_def represents_replay)
qed

lemma not_appended_same: "document_apply env doc = (Inr a, doc1) \<Longrightarrow> \<not> ca_appended a \<Longrightarrow> doc1 = doc"
  by (auto simp: document_apply_def Let_def split: sum.splits prod.splits if_splits)

lemma store_applied_covered:
  assumes "document_ok doc" "document_apply env doc = (Inr a, doc1)" "co_gate obj = None"
    "co_document obj = Some doc \<or> co_document obj = None"
  shows "alarm_covered (store_applied a doc1 obj)"
proof -
  obtain s where s: "document_replay doc1 = Inr s" "ca_next_alarm_at a = next_alarm_at s"
    using applied_alarm [OF assms(1,2)] .
  show ?thesis
    using s assms(3,4) not_appended_same [OF assms(2)]
    by (auto simp: alarm_covered_def deadline_pending_def store_applied_def schedule_alarm_def)
qed

lemma load_document_stored:
  "load_document t p obj = Inr doc \<Longrightarrow> co_document obj = Some doc \<or> co_document obj = None"
  by (auto simp: load_document_def res_bind_Inr_iff split: option.splits)

lemma object_command_covered:
  assumes "object_inv obj" "alarm_covered obj"
  shows "alarm_covered (snd (object_command body obj))"
proof (cases rule: object_command_cases [of body obj])
  case (applied t p env doc a doc1)
  then show ?thesis
    using store_applied_covered [OF load_document_ok [OF applied(4) assms(1) applied(2,3)] applied(5,1)
        load_document_stored [OF applied(4)]] by simp
qed (simp add: assms)

lemma retry_alarm_covered:
  "fst (schedule_gate_retry_alarm now obj) = Inr u \<Longrightarrow> co_alarm (snd (schedule_gate_retry_alarm now obj)) \<noteq> None"
  "fst (schedule_gate_retry_alarm now obj) = Inl e \<Longrightarrow> snd (schedule_gate_retry_alarm now obj) = obj"
  by (auto simp: schedule_gate_retry_alarm_def or_return_def res_ok_or_def split: option.splits)

text \<open>A delivery either fails and keeps its alarm, or leaves an object that is covered.\<close>

lemma fire_alarm_covered:
  assumes "object_inv obj" "alarm_covered obj"
  shows "alarm_covered (snd (fire_alarm now obj))"
proof (cases rule: fire_alarm_cases [of now obj])
  case (applied env doc a doc1)
  then show ?thesis
    using store_applied_covered [OF _ applied(3,1)] assms(1) by (simp add: object_inv_def)
next
  case same
  then show ?thesis using assms(2) by (auto simp: alarm_covered_def deadline_pending_def)
qed

lemma settle_covered:
  assumes "co_alarm obj \<noteq> None"
  shows "co_alarm (snd (settle_generation_commit releases err ok later answer obj)) \<noteq> None"
  using assms retry_alarm_covered [of later obj]
  by (auto simp: settle_generation_commit_def clear_generation_commit_gate_def split: sum.splits prod.splits)

lemma object_generation_commit_covered:
  assumes "alarm_covered obj"
  shows "alarm_covered (snd (object_generation_commit sha256 journal now later body obj))"
  using object_generation_commit_cases [of sha256 journal now later body obj]
proof
  assume "\<exists>internal actor commit g. body = Inr internal
        \<and> device_commit_asked sha256 now internal obj actor commit g
        \<and> object_generation_commit sha256 journal now later body obj =
            settle_generation_commit generation_commit_failure_releases_gate generation_commit_error
              (\<lambda>j. DeviceCommitReply (device_commit_outcome j)) later (journal actor commit) (obj\<lparr>co_gate := Some g\<rparr>)"
  moreover have "co_alarm obj \<noteq> None" if "device_commit_asked sha256 now internal obj actor commit g" for internal actor commit g
    using that assms live_deadline_pending [of obj] unfolding device_commit_asked_def alarm_covered_def by blast
  ultimately show ?thesis
    using settle_covered [of "obj\<lparr>co_gate := Some _\<rparr>"] by (auto simp: alarm_covered_def)
qed (use assms in \<open>simp add: commit_refused_def\<close>)

lemma object_generation_successor_covered:
  assumes "alarm_covered obj"
  shows "alarm_covered (snd (object_generation_successor sha256 journal now later body obj))"
  using object_generation_successor_cases [of sha256 journal now later body obj]
proof
  assume "\<exists>internal actor commit g. body = Inr internal
        \<and> successor_commit_asked sha256 now internal obj actor commit g
        \<and> object_generation_successor sha256 journal now later body obj =
            settle_generation_commit profile_successor_failure_releases_gate profile_successor_error
              SuccessorCommitReply later (journal actor commit) (obj\<lparr>co_gate := Some g\<rparr>)"
  moreover have "co_alarm obj \<noteq> None" if "successor_commit_asked sha256 now internal obj actor commit g" for internal actor commit g
    using that assms live_deadline_pending [of obj] unfolding successor_commit_asked_def alarm_covered_def by blast
  ultimately show ?thesis
    using settle_covered [of "obj\<lparr>co_gate := Some _\<rparr>"] by (auto simp: alarm_covered_def)
qed (use assms in \<open>simp add: commit_refused_def\<close>)

lemma object_fetch_covered:
  "object_inv obj \<and> alarm_covered obj \<Longrightarrow>
   object_inv (snd (object_fetch sha256 event obj)) \<and> alarm_covered (snd (object_fetch sha256 event obj))"
  using object_fetch_inv [of obj sha256 event]
  by (cases event)
     (simp_all add: object_snapshot_same object_writer_authority_same object_command_covered fire_alarm_covered
       object_generation_commit_covered object_generation_successor_covered)

interpretation covered: invariant_machine "object_fetch sha256" "\<lambda>obj. object_inv obj \<and> alarm_covered obj" for sha256
  by unfold_locales (rule object_fetch_covered)

section \<open>The closed gate\<close>

lemma reserved_gate_keeps: "reserved_gate digest generation at obj g1 \<Longrightarrow> co_gate obj = Some g \<Longrightarrow> g1 = g"
  by (simp add: reserved_gate_def)

lemma settle_frame:
  assumes "reserved_gate digest generation at obj g1"
    "out = settle_generation_commit releases err ok later answer (obj\<lparr>co_gate := Some g1\<rparr>)"
  shows "co_document (snd out) = co_document obj
     \<and> (\<forall>g. co_gate obj = Some g \<longrightarrow> co_gate (snd out) = Some g \<or> co_gate (snd out) = None)"
  using settle_gate_step [of g1 obj releases err ok later answer] reserved_gate_keeps [OF assms(1)] assms(2)
  by (auto simp: gate_step_def)

lemma device_commit_frame:
  "co_document (snd (object_generation_commit sha256 journal now later body obj)) = co_document obj
   \<and> (\<forall>g. co_gate obj = Some g \<longrightarrow> co_gate (snd (object_generation_commit sha256 journal now later body obj)) = Some g
        \<or> co_gate (snd (object_generation_commit sha256 journal now later body obj)) = None)"
  using object_generation_commit_cases [of sha256 journal now later body obj]
proof
  assume "commit_refused (object_generation_commit sha256 journal now later body obj) obj"
  then show ?thesis by (simp add: commit_refused_def)
next
  assume "\<exists>internal actor commit g. body = Inr internal
        \<and> device_commit_asked sha256 now internal obj actor commit g
        \<and> object_generation_commit sha256 journal now later body obj =
            settle_generation_commit generation_commit_failure_releases_gate generation_commit_error
              (\<lambda>j. DeviceCommitReply (device_commit_outcome j)) later (journal actor commit) (obj\<lparr>co_gate := Some g\<rparr>)"
  then show ?thesis unfolding device_commit_asked_def by (elim exE conjE) (rule settle_frame)
qed

lemma successor_commit_frame:
  "co_document (snd (object_generation_successor sha256 journal now later body obj)) = co_document obj
   \<and> (\<forall>g. co_gate obj = Some g \<longrightarrow> co_gate (snd (object_generation_successor sha256 journal now later body obj)) = Some g
        \<or> co_gate (snd (object_generation_successor sha256 journal now later body obj)) = None)"
  using object_generation_successor_cases [of sha256 journal now later body obj]
proof
  assume "commit_refused (object_generation_successor sha256 journal now later body obj) obj"
  then show ?thesis by (simp add: commit_refused_def)
next
  assume "\<exists>internal actor commit g. body = Inr internal
        \<and> successor_commit_asked sha256 now internal obj actor commit g
        \<and> object_generation_successor sha256 journal now later body obj =
            settle_generation_commit profile_successor_failure_releases_gate profile_successor_error
              SuccessorCommitReply later (journal actor commit) (obj\<lparr>co_gate := Some g\<rparr>)"
  then show ?thesis unfolding successor_commit_asked_def by (elim exE conjE) (rule settle_frame)
qed

lemma closed_gate_document:
  assumes "co_gate obj = Some g"
  shows "co_document (snd (object_fetch sha256 event obj)) = co_document obj
     \<and> (co_gate (snd (object_fetch sha256 event obj)) = Some g \<or> co_gate (snd (object_fetch sha256 event obj)) = None)"
proof (cases event)
  case (CommandRequest body)
  then show ?thesis using assms object_command_gate [of obj body] by simp
next
  case (AlarmEvent now)
  then show ?thesis using assms by (cases rule: fire_alarm_cases [of now obj]) simp_all
next
  case (DeviceCommitRequest answer now later body)
  then show ?thesis using device_commit_frame [of sha256 "\<lambda>_ _. answer" now later body obj] assms by simp
next
  case (SuccessorCommitRequest answer now later body)
  then show ?thesis using successor_commit_frame [of sha256 "\<lambda>_ _. answer" now later body obj] assms by simp
qed (use assms in \<open>simp_all add: object_snapshot_same object_writer_authority_same\<close>)

text \<open>The document only changes by one application of an envelope, with the gate open.\<close>

lemma object_fetch_document:
  assumes "co_document (snd (object_fetch sha256 event obj)) \<noteq> co_document obj"
  shows "co_gate obj = None \<and> co_gate (snd (object_fetch sha256 event obj)) = None
     \<and> (\<exists>t p env doc a doc1. document_apply env doc = (Inr a, doc1)
        \<and> (co_document obj = Some doc \<or> co_document obj = None \<and> load_document t p obj = Inr doc)
        \<and> co_document (snd (object_fetch sha256 event obj)) = Some doc1
        \<and> co_alarm (snd (object_fetch sha256 event obj)) = ca_next_alarm_at a)"
proof (cases event)
  case (CommandRequest body)
  show ?thesis
  proof (cases rule: object_command_cases [of body obj])
    case same
    then show ?thesis using CommandRequest assms by simp
  next
    case (applied t p env doc a doc1)
    have "co_document obj = Some doc \<or> co_document obj = None \<and> load_document t p obj = Inr doc"
      using applied(4) by (cases "co_document obj") (auto simp: load_document_def res_bind_Inr_iff)
    moreover have "ca_appended a"
      using CommandRequest applied(6) assms by (simp add: store_applied_def schedule_alarm_def split: if_splits)
    ultimately show ?thesis using CommandRequest applied
      by (intro conjI exI [of _ t] exI [of _ p] exI [of _ env] exI [of _ doc] exI [of _ a] exI [of _ doc1])
         (simp_all add: store_applied_def schedule_alarm_def)
  qed
next
  case (AlarmEvent now)
  show ?thesis
  proof (cases rule: fire_alarm_cases [of now obj])
    case same
    then show ?thesis using AlarmEvent assms by simp
  next
    case (applied env doc a doc1)
    moreover have "ca_appended a"
      using AlarmEvent applied(4) assms by (simp add: store_applied_def schedule_alarm_def split: if_splits)
    ultimately show ?thesis using AlarmEvent
      by (intro conjI exI [of _ "cs_tenant_id undefined"] exI [of _ "cs_profile_id undefined"] exI [of _ env]
          exI [of _ doc] exI [of _ a] exI [of _ doc1])
         (simp_all add: store_applied_def schedule_alarm_def)
  qed
next
  case (DeviceCommitRequest answer now later body)
  then show ?thesis using device_commit_frame [of sha256 "\<lambda>_ _. answer" now later body obj] assms by simp
next
  case (SuccessorCommitRequest answer now later body)
  then show ?thesis using successor_commit_frame [of sha256 "\<lambda>_ _. answer" now later body obj] assms by simp
qed (use assms in \<open>simp_all add: object_snapshot_same object_writer_authority_same\<close>)

section \<open>Alarm keys\<close>

lemma alarm_digit: "byte_of (char_of (48 + n mod 10)) = 48 + n mod 10"
proof -
  have "48 + n mod 10 < 256" by (simp add: less_trans [of _ 58])
  then show ?thesis by simp
qed

lemma alarm_key_valid: "opaque_valid (alarm_key n)"
proof -
  have "is_ascii_digit (char_of (48 + m mod 10))" for m :: nat
    by (simp add: is_ascii_digit_def alarm_digit)
  then show ?thesis
    by (auto simp: opaque_valid_def alarm_key_def min_id_length_def max_id_length_def id_char_def
        is_ascii_alphanumeric_def list_all_iff ascii_defs)
qed

lemma alarm_key_inject: "alarm_key n = alarm_key m \<longleftrightarrow> n = m"
proof
  assume "alarm_key n = alarm_key m"
  then have "char_of (48 + unat n div 10 ^ i mod 10) = char_of (48 + unat m div 10 ^ i mod 10)" if "i < 20" for i
    using that by (auto simp: alarm_key_def)
  then have "unat n div 10 ^ i mod 10 = unat m div 10 ^ i mod 10" if "i < 20" for i
    using that alarm_digit by (metis add_left_cancel)
  then have "unat n = unat m"
    by (rule digits_eq [of 20]) (use unat_bound [of n] unat_bound [of m] in simp_all)
  then show "n = m" by (simp add: word_unat_eq_iff)
qed simp

end
