(* ===== verification/Coordinator_Object_Progress.thy ===== *)
theory Coordinator_Object_Progress
  imports Coordinator_Object_Safety
begin

text \<open>
  The alarm of the coordinator object does its work: when a deadline of the stored state has
  passed, the handler records a tick that ends the lease or the intent, and no alarm remains.
\<close>

definition alarm_envelope :: "unix_millis \<Rightarrow> coordinator_state \<Rightarrow> u64 \<Rightarrow> stored_coordinator_envelope" where
  "alarm_envelope now s n = \<lparr>sce_idempotency_key = alarm_key n, sce_sequence = n,
     sce_expected_version = version_value (cs_version s), sce_command = StoredTick now\<rparr>"

lemma alarm_envelope_to_domain:
  assumes "n \<noteq> 0" "version_value (cs_version s) \<noteq> 0"
  shows "envelope_to_domain (alarm_envelope now s n) = Inr \<lparr>ce_idempotency_key = TypedId (OpaqueId (alarm_key n)),
     ce_sequence = n, ce_expected_version = cs_version s, ce_command = Tick now\<rparr>"
  using assms
  by (simp add: envelope_to_domain_def alarm_envelope_def id_parse_alt alarm_key_valid coordinator_command_envelope_new_def)

lemma tick_total: "\<exists>out t. tick now s = (Inr out, t)"
  by (cases rule: timeout_cases [of now s]) (auto simp: tick_def)

lemma supervised_tick:
  assumes "coordinator_inv s" "checked_add (cs_last_sequence s) 1 = Some n" "unat n + 1 < 2 ^ 64"
    "cs_last_observed_at s \<le> now" "alarm_key n \<notin> (\<lambda>r. id_as_str (rc_idempotency_key r)) ` set (cs_receipts s)"
  obtains d out t denv where "supervised_apply (alarm_envelope now s n) (s, who) = (Inr d, (commit_fresh denv d t, who))"
    "tick now s = (Inr out, t)" "cs_last_sequence (commit_fresh denv d t) \<noteq> cs_last_sequence s"
proof -
  have n: "unat n = Suc (unat (cs_last_sequence s))" using checked_add_SomeD [OF assms(2)] by simp
  then have v: "unat (version_value (cs_version s)) = unat n"
    using assms(1) by (simp add: coordinator_inv_def counter_ok_def)
  then have nz: "n \<noteq> 0" "version_value (cs_version s) \<noteq> 0" using n by auto
  let ?denv = "\<lparr>ce_idempotency_key = TypedId (OpaqueId (alarm_key n)), ce_sequence = n,
     ce_expected_version = cs_version s, ce_command = Tick now\<rparr>"
  obtain out t where t: "tick now s = (Inr out, t)" using tick_total by blast
  have "unat (n + 1) = Suc (unat n)" using assms(3) by (simp add: unat_word_ariths)
  then have next_v: "unat (version_value (AggregateVersion (n + 1))) = Suc (unat (version_value (cs_version s)))"
    using v by simp
  have fresh: "fresh_key ?denv s"
    using assms(5) by (auto simp: fresh_key_def image_iff id_eq_iff)
  let ?d = "\<lparr>cd_version = AggregateVersion (n + 1), cd_sequence = n, cd_outcome = out\<rparr>"
  have ap: "coordinator_apply ?denv s = (Inr ?d, commit_fresh ?denv ?d t)"
    using coordinator_apply_freshI [OF fresh, of "AggregateVersion (n + 1)" out t] n assms(4) next_v t by simp
  have ne: "cs_last_sequence (commit_fresh ?denv ?d t) \<noteq> cs_last_sequence s" using n by (auto simp: commit_fresh_def)
  have "supervised_apply (alarm_envelope now s n) (s, who) = (Inr ?d, (commit_fresh ?denv ?d t, who))"
    using ap ne alarm_envelope_to_domain [OF nz]
    by (simp add: supervised_apply_def supervise_def alarm_envelope_def)
  then show thesis using that t ne by blast
qed

lemma next_alarm_at_cong:
  "cs_pending_intent u = cs_pending_intent t \<Longrightarrow> cs_active_lease u = cs_active_lease t \<Longrightarrow>
   cs_drain_deadline u = cs_drain_deadline t \<Longrightarrow> next_alarm_at u = next_alarm_at t"
  by (simp add: next_alarm_at_def)

lemma alarm_settles:
  assumes "object_inv obj" "co_gate obj = None" "co_document obj = Some doc" "document_replay doc = Inr s"
    and "next_alarm_at s = Some due" "due \<le> now" "cs_last_observed_at s \<le> now"
    and "unat (cs_last_sequence s) + 2 < 2 ^ 64"
    and "alarm_key (cs_last_sequence s + 1) \<notin> (\<lambda>r. id_as_str (rc_idempotency_key r)) ` set (cs_receipts s)"
  shows "\<exists>reply obj' doc' s'. fire_alarm now obj = (Inr (CoordinatorReply reply), obj')
     \<and> co_document obj' = Some doc' \<and> document_replay doc' = Inr s' \<and> co_alarm obj' = None
     \<and> cs_pending_intent s' = None \<and> cs_active_lease s' = None"
proof -
  obtain a where a: "refines doc a" "supervised_inv a" using assms(1,3) by (auto simp: object_inv_def document_ok_def)
  obtain who where who: "a = (s, who)"
    using a(1) assms(4) by (cases a) (auto simp: refines_def dest!: represents_replay)
  have inv: "coordinator_inv s" using a(2) who by (simp add: supervised_inv_def)
  let ?n = "cs_last_sequence s + 1"
  have n: "checked_add (cs_last_sequence s) 1 = Some ?n" "unat ?n + 1 < 2 ^ 64"
    using assms(8) by (simp_all add: checked_add_def unat_word_ariths)
  obtain d out t denv where sup: "supervised_apply (alarm_envelope now s ?n) (s, who) = (Inr d, (commit_fresh denv d t, who))"
      and t: "tick now s = (Inr out, t)" and ne: "cs_last_sequence (commit_fresh denv d t) \<noteq> cs_last_sequence s"
    using supervised_tick [OF inv n assms(7,9)] by metis
  note sim = document_apply_simulates [OF a(1), of "alarm_envelope now s ?n", unfolded who sup]
  obtain applied where ap: "fst (document_apply (alarm_envelope now s ?n) doc) = Inr applied"
    using sim(2) by (auto simp: res_bind_Inr_iff)
  then obtain doc1 where da: "document_apply (alarm_envelope now s ?n) doc = (Inr applied, doc1)" by (metis prod.collapse)
  have replay: "document_replay doc1 = Inr (commit_fresh denv d t)" using sim(1) da by (simp add: refines_def represents_replay)
  have "next_alarm_at (commit_fresh denv d t) = next_alarm_at t"
    by (rule next_alarm_at_cong) (simp_all add: commit_fresh_def)
  then have none: "next_alarm_at (commit_fresh denv d t) = None"
    using tick_clears_alarm [OF inv assms(5,6)] t by simp
  have "ca_appended applied" "ca_next_alarm_at applied = None" using sim(3) [OF ap] ne none by simp_all
  then have "fire_alarm now obj = (Inr (CoordinatorReply (response_from_applied applied)),
      obj\<lparr>co_document := Some doc1, co_alarm := None\<rparr>)"
    using assms(2-4) n(1) da
    by (simp add: fire_alarm_def object_alarm_def Let_def alarm_envelope_def store_applied_def schedule_alarm_def)
  then show ?thesis using replay none by (auto simp: next_alarm_None)
qed

end
