(* ===== verification/Coordinator_Properties.thy ===== *)
theory Coordinator_Properties
  imports Coordinator_History
begin

text \<open>
  The properties of the profile coordinator and of its stored document, each with a witness
  where it has hypotheses.  The sample run issues an intent, claims it and releases the
  workspace as uncertain.
\<close>

section \<open>Sample data\<close>

definition sample_id :: "string \<Rightarrow> 'k typed_id" where
  "sample_id s = TypedId (OpaqueId s)"

definition sample_config :: coordinator_config where
  "sample_config = \<lparr>cc_idle_timeout_ms = 100, cc_hard_timeout_ms = 1000, cc_drain_timeout_ms = 50\<rparr>"

definition sample_state :: coordinator_state where
  "sample_state = coordinator_new (sample_id ''tenant-0001'') (sample_id ''profile-0001'') sample_config"

definition sample_env :: "string \<Rightarrow> u64 \<Rightarrow> coordinator_command \<Rightarrow> coordinator_command_envelope" where
  "sample_env key n c = \<lparr>ce_idempotency_key = sample_id key, ce_sequence = n,
     ce_expected_version = AggregateVersion n, ce_command = c\<rparr>"

definition sample_issue :: coordinator_command_envelope where
  "sample_issue = sample_env ''command-0001'' 1
     (IssueLaunchIntent (sample_id ''intent-0001'') (sample_id ''actor-0001'') (sample_id ''device-0001'') 10 60)"

definition sample_claim :: coordinator_command_envelope where
  "sample_claim = sample_env ''command-0002'' 2
     (Claim (sample_id ''intent-0001'') (sample_id ''actor-0001'') (sample_id ''device-0001'')
        (sample_id ''session-0001'') (sample_id ''fencing-0001'') 20)"

definition sample_release :: coordinator_command_envelope where
  "sample_release = sample_env ''command-0003'' 3
     (Release (sample_id ''session-0001'') 1 (sample_id ''fencing-0001'') ReleaseUncertain 30)"

lemmas sample_defs = sample_id_def sample_config_def sample_state_def sample_env_def sample_issue_def
  sample_claim_def sample_release_def

lemmas sample_run_simps = sample_defs coordinator_apply_def checked_add_def version_next_def transition_defs
  version_initial_def coordinator_new_def push_receipt_def receipt_limit_def add_millis_def Let_def accepts_writer_def

lemma sample_claimed:
  "cs_active_lease (run_commands coordinator_apply [sample_issue, sample_claim] sample_state)
   = Some \<lparr>cl_session_id = sample_id ''session-0001'', cl_device_id = sample_id ''device-0001'', cl_epoch = 1,
       cl_fencing_token = sample_id ''fencing-0001'', cl_claimed_at = 20, cl_last_heartbeat_at = 20,
       cl_idle_expires_at = 120, cl_hard_expires_at = 1020\<rparr>"
  by (simp add: sample_run_simps)

lemma sample_released:
  "cs_active_lease (run_commands coordinator_apply [sample_issue, sample_claim, sample_release] sample_state) = None"
  by (simp add: sample_run_simps)

lemma sample_reachable: "coordinator_reachable sample_state"
  unfolding sample_state_def
  by (rule coordinator_reachable.created [of 100 1000 50]) (simp add: coordinator_config_new_def sample_config_def)

lemma sample_inv: "coordinator_inv sample_state"
  by (rule reachable_inv) (rule sample_reachable)

lemma run_reachable: "coordinator_reachable s \<Longrightarrow> coordinator_reachable (run_commands coordinator_apply envs s)"
  by (induction envs arbitrary: s) (simp_all add: coordinator_reachable.commanded)

section \<open>The state machine\<close>

text \<open>
  C6: Every coordinator that was created from a valid configuration and then fed any commands
  satisfies the invariant: a writer lease exists exactly while it is active or draining, its
  timestamps are ordered, intents and the recovery reservation occur only while idle, the
  version is the sequence plus one, and the receipts are the last commands in order.
\<close>

theorem coordinator_reachable_inv: "coordinator_reachable s \<Longrightarrow> coordinator_inv s"
  by (rule reachable_inv)

lemma coordinator_reachable_inv_witness:
  "coordinator_inv (snd (coordinator_apply sample_issue sample_state))"
  by (rule coordinator_reachable_inv) (rule coordinator_reachable.commanded [OF sample_reachable])

text \<open>
  A command that is refused, for whatever reason, leaves the coordinator exactly as it was,
  the receipts included.
\<close>

theorem coordinator_error_atomic:
  "fst (coordinator_apply env s) = Inl e \<Longrightarrow> snd (coordinator_apply env s) = s"
  by (rule coordinator_apply_error_same)

lemma coordinator_error_atomic_witness:
  "snd (coordinator_apply sample_claim sample_state) = sample_state"
  by (rule coordinator_error_atomic [of _ _ ReorderedCommand]) (simp add: sample_run_simps)

text \<open>
  Fencing.  The epochs that the successful claims of a run hand out are strictly increasing,
  and all of them are newer than every epoch handed out before the run.
\<close>

theorem coordinator_epochs_increase:
  "sorted_wrt (<) (granted envs s) \<and> (\<forall>e \<in> set (granted envs s). cs_next_epoch s < e)"
  by (rule granted_bound)

lemma coordinator_epochs_increase_witness:
  "granted [sample_issue, sample_claim, sample_release] sample_state = [1]
   \<and> cs_next_epoch sample_state < hd (granted [sample_issue, sample_claim, sample_release] sample_state)"
proof -
  have g: "granted [sample_issue, sample_claim, sample_release] sample_state = [1]"
    by (simp add: sample_run_simps)
  show ?thesis
    using coordinator_epochs_increase [of "[sample_issue, sample_claim, sample_release]" sample_state]
    unfolding g by simp
qed

text \<open>
  C2: A writer whose lease is gone stays locked out.  Once the coordinator no longer holds the
  lease of an epoch, then after any further commands a heartbeat, renewal or release that
  carries this epoch changes nothing, and unless it is answered from a receipt it is an error.
\<close>

theorem stale_writer_locked_out:
  assumes "coordinator_reachable s" "cs_active_lease s = Some l"
    and "t = run_commands coordinator_apply envs s"
    and "cs_active_lease t = None \<or> (\<exists>l1. cs_active_lease t = Some l1 \<and> cl_epoch l1 \<noteq> cl_epoch l)"
    and "u = run_commands coordinator_apply fnvs t"
    and "writer_epoch (ce_command env) = Some (cl_epoch l)"
  shows "snd (coordinator_apply env u) = u
     \<and> (fresh_key env u \<longrightarrow> (\<exists>e. fst (coordinator_apply env u) = Inl e))"
proof -
  have "cl_epoch l \<le> cs_next_epoch s"
    using reachable_inv [OF assms(1)] assms(2) by (simp add: coordinator_inv_def shape_ok_def)
  then have "cl_epoch l2 \<noteq> cl_epoch l" if "cs_active_lease u = Some l2" for l2
    using retired_epoch [OF assms(2) _ assms(3), of fnvs l2] assms(4,5) that by auto
  then show ?thesis using wrong_epoch_refused [OF assms(6), of u] refused_apply [of env u] by blast
qed

lemma stale_writer_locked_out_witness:
  "snd (coordinator_apply (sample_env ''command-0004'' 4
          (Heartbeat (sample_id ''session-0001'') 1 (sample_id ''fencing-0001'') 40))
        (run_commands coordinator_apply [sample_issue, sample_claim, sample_release] sample_state))
   = run_commands coordinator_apply [sample_issue, sample_claim, sample_release] sample_state"
  using stale_writer_locked_out [of "run_commands coordinator_apply [sample_issue, sample_claim] sample_state" _ _
      "[sample_release]" _ "[]" "sample_env ''command-0004'' 4
          (Heartbeat (sample_id ''session-0001'') 1 (sample_id ''fencing-0001'') 40)",
      OF run_reachable [OF sample_reachable] sample_claimed refl _ refl] sample_released
  by (simp add: sample_env_def)

text \<open>
  C7: Idempotency.  A command that was accepted is answered with the same decision, and changes
  nothing, as long as fewer than 32 further commands were accepted after it.
\<close>

theorem coordinator_replay_window:
  assumes "coordinator_reachable s" "coordinator_apply env s = (Inr d, t)"
    "cs_last_sequence t \<noteq> cs_last_sequence s" "u = run_commands coordinator_apply envs t"
    "unat (cs_last_sequence u) < unat (cs_last_sequence t) + receipt_limit"
  shows "coordinator_apply env u = (Inr d, u)"
  by (rule replayed_within_window [OF reachable_inv [OF assms(1)] assms(2-)])

lemma coordinator_replay_window_witness:
  "fst (coordinator_apply sample_issue (run_commands coordinator_apply [sample_issue, sample_claim, sample_release] sample_state))
   = fst (coordinator_apply sample_issue sample_state)"
  using coordinator_replay_window [OF sample_reachable, of sample_issue _ "snd (coordinator_apply sample_issue sample_state)"
      _ "[sample_claim, sample_release]"]
  by (simp add: sample_run_simps)

text \<open>
  A claim redeems an intent that was issued to it.  When a claim succeeds in a run from
  creation, an earlier command of the run issued an intent with this id to this actor on this
  device, and the intent has not expired.
\<close>

theorem claim_redeems_issued_intent:
  assumes "s = run_commands coordinator_apply envs (coordinator_new tenant profile config)"
    and "apply_new c s = (Inr (LeaseClaimed l), t)"
  shows "\<exists>i a d sid tok now x env. c = Claim i a d sid tok now \<and> env \<in> set envs \<and> now < x
     \<and> issues_intent (ce_command env) (pending_launch_intent_restored i a d x)
     \<and> cl_device_id l = d \<and> cl_session_id l = sid \<and> cl_fencing_token l = tok"
proof -
  from assms(2) obtain i a d sid tok now p where c: "c = Claim i a d sid tok now"
      "cs_pending_intent s = Some p" "pi_launch_intent_id p = i" "pi_actor_id p = a" "pi_device_id p = d"
      "now < pi_expires_at p" "cl_session_id l = sid" "cl_device_id l = d" "cl_fencing_token l = tok"
    by (rule lease_claimed_outcome)
  then have p: "p = pending_launch_intent_restored i a d (pi_expires_at p)"
    by (simp add: pending_launch_intent_restored_def)
  obtain env where "env \<in> set envs" "issues_intent (ce_command env) p"
    using run_pending [of envs "coordinator_new tenant profile config" p] c(2) assms(1)
    by (auto simp: coordinator_new_def)
  then show ?thesis using c p by metis
qed

lemma claim_redeems_issued_intent_witness:
  "\<exists>i a d sid tok now x env. ce_command sample_claim = Claim i a d sid tok now \<and> env \<in> set [sample_issue] \<and> now < x
     \<and> issues_intent (ce_command env) (pending_launch_intent_restored i a d x)"
proof -
  have "\<exists>l t. apply_new (ce_command sample_claim) (run_commands coordinator_apply [sample_issue] sample_state)
      = (Inr (LeaseClaimed l), t)"
    by (simp add: sample_run_simps)
  then show ?thesis
    using claim_redeems_issued_intent [of _ "[sample_issue]"] unfolding sample_state_def by metis
qed

text \<open>
  Without \<open>RenewLease\<close> a session cannot outlive the hard deadline it was claimed with.  As
  long as no command of a run renews, the lease of an epoch keeps its hard deadline, and its
  idle deadline stays below it, whatever heartbeats arrive.
\<close>

theorem heartbeats_keep_hard_deadline:
  assumes "coordinator_reachable s" "cs_active_lease s = Some l"
    and "\<forall>env \<in> set envs. \<not> renews (ce_command env)"
    and "cs_active_lease (run_commands coordinator_apply envs s) = Some l'" "cl_epoch l' = cl_epoch l"
  shows "cl_hard_expires_at l' = cl_hard_expires_at l \<and> cl_idle_expires_at l' \<le> cl_hard_expires_at l"
proof -
  have "keeps_hard (cl_epoch l) (cl_hard_expires_at l) s"
    using reachable_inv [OF assms(1)] assms(2) by (simp add: keeps_hard_def coordinator_inv_def shape_ok_def)
  then have "keeps_hard (cl_epoch l) (cl_hard_expires_at l) (run_commands coordinator_apply envs s)"
    using assms(3) by (intro run_keeps_hard) auto
  moreover have "lease_ok l'"
    using reachable_inv [OF run_reachable [OF assms(1)]] assms(4) by (simp add: coordinator_inv_def shape_ok_def)
  ultimately show ?thesis using assms(4,5) by (auto simp: keeps_hard_def lease_ok_def)
qed

lemma heartbeats_keep_hard_deadline_witness:
  "map_option cl_hard_expires_at (cs_active_lease (run_commands coordinator_apply [sample_issue, sample_claim,
     sample_env ''command-0003'' 3 (Heartbeat (sample_id ''session-0001'') 1 (sample_id ''fencing-0001'') 110)] sample_state))
   = Some 1020"
  using heartbeats_keep_hard_deadline [OF run_reachable [OF sample_reachable] sample_claimed, of
      "[sample_env ''command-0003'' 3 (Heartbeat (sample_id ''session-0001'') 1 (sample_id ''fencing-0001'') 110)]"]
  by (simp add: sample_run_simps)

text \<open>
  A dirty profile is stuck until \<open>MarkRecovered\<close>; an uncertain one until \<open>MarkRecovered\<close> or
  \<open>RecoverAndIssueLaunchIntent\<close>.  No run without such a command changes the status.
\<close>

theorem unclean_profile_stuck:
  assumes "coordinator_reachable s" "cs_status s = Dirty \<or> cs_status s = Uncertain"
    and "\<forall>env \<in> set envs. \<not> reopens (cs_status s) (ce_command env)"
  shows "cs_status (run_commands coordinator_apply envs s) = cs_status s"
  using run_stuck [OF reachable_inv [OF assms(1)] refl assms(2)] assms(3) by blast

lemma unclean_profile_stuck_witness:
  "cs_status (run_commands coordinator_apply [sample_env ''command-0004'' 4 (Tick 500)]
     (run_commands coordinator_apply [sample_issue, sample_claim, sample_release] sample_state)) = Uncertain"
  using unclean_profile_stuck [OF run_reachable [OF sample_reachable], of "[sample_issue, sample_claim, sample_release]"
      "[sample_env ''command-0004'' 4 (Tick 500)]"]
  by (simp add: sample_run_simps)

text \<open>
  In a coordinator reached from creation the heartbeat of the current writer is never
  refused as reordered: the time check of the command handler already implies it, so
  \<open>ReorderedHeartbeat\<close> can only come out of a restored checkpoint.
\<close>

theorem reordered_heartbeat_unreachable:
  assumes "coordinator_reachable s"
  shows "fst (coordinator_apply env s) \<noteq> Inl ReorderedHeartbeat"
proof
  assume e: "fst (coordinator_apply env s) = Inl ReorderedHeartbeat"
  then have t: "cs_last_observed_at s \<le> observed_at (ce_command env)"
    and a: "fst (apply_new (ce_command env) s) = Inl ReorderedHeartbeat"
    by (auto simp: coordinator_apply_def not_less Let_def split: option.splits if_splits sum.splits prod.splits)
  have "fst (heartbeat sid epoch tok (observed_at (ce_command env)) renew s) \<noteq> Inl ReorderedHeartbeat" for sid epoch tok renew
    using reachable_live [OF assms] t
    by (auto simp: heartbeat_def clock_ok_def add_millis_def res_ok_or_def res_bind_def Let_def
        split: option.splits sum.splits prod.splits if_splits)
  then show False using a
    by (cases "ce_command env")
       (auto simp: issue_launch_intent_def claim_def recover_and_issue_launch_intent_def release_def
         begin_drain_def tick_def mark_recovered_def add_millis_def res_ok_or_def Let_def
         split: option.splits if_splits prod.splits sum.splits)
qed

lemma reordered_heartbeat_unreachable_witness:
  "fst (coordinator_apply sample_claim (snd (coordinator_apply sample_issue sample_state))) \<noteq> Inl ReorderedHeartbeat"
  by (rule reordered_heartbeat_unreachable) (rule coordinator_reachable.commanded [OF sample_reachable])

section \<open>Checkpoints\<close>

text \<open>
  Round trip.  The checkpoint of a reachable coordinator restores, under its own identity
  and configuration, to the same coordinator without its receipts.
\<close>

theorem checkpoint_roundtrip:
  assumes "coordinator_reachable s"
  shows "restore_checkpoint (cs_tenant_id s) (cs_profile_id s) (cs_config s) (coordinator_checkpoint_of s)
     = Inr (s\<lparr>cs_receipts := []\<rparr>)"
  by (rule restore_of_checkpoint [OF reachable_inv [OF assms]])

lemma checkpoint_roundtrip_witness:
  "is_ok (restore_checkpoint (sample_id ''tenant-0001'') (sample_id ''profile-0001'') sample_config
     (coordinator_checkpoint_of sample_state))"
  using checkpoint_roundtrip [OF sample_reachable] by (simp add: sample_state_def coordinator_new_def)

section \<open>The stored document\<close>

definition sample_stored :: "string \<Rightarrow> u64 \<Rightarrow> stored_coordinator_command \<Rightarrow> stored_coordinator_envelope" where
  "sample_stored key n c = \<lparr>sce_idempotency_key = key, sce_sequence = n, sce_expected_version = n, sce_command = c\<rparr>"

definition sample_document :: stored_coordinator_document where
  "sample_document = document_new (sample_id ''tenant-0001'') (sample_id ''profile-0001'') sample_config"

lemma sample_config_new: "coordinator_config_new 100 1000 50 = Inr sample_config"
  by (simp add: coordinator_config_new_def sample_config_def)

lemma sample_scope_valid:
  "id_valid (sample_id ''tenant-0001'' :: tenant_id)" "id_valid (sample_id ''profile-0001'' :: profile_id)"
  by (simp_all add: sample_id_def id_valid_def opaque_valid_def id_char_def min_id_length_def max_id_length_def
      ascii_defs)

lemma sample_refines: "refines sample_document (sample_state, None)"
  unfolding sample_document_def sample_state_def
  by (rule document_new_refines [OF sample_scope_valid sample_config_new])

text \<open>
  C1: Refinement.  Applying a command to a stored document (replay, admission, transition,
  append, compaction at 64 commands) does what the coordinator does: same decision or error,
  the new document again represents the new coordinator with its receipts and its last
  claimant, the projection and alarm returned are those of the new state, and an error leaves
  the document as it was.  In particular compaction never fails and the journal stays below 64.
\<close>

theorem document_refines_coordinator:
  assumes "refines doc a"
  shows "refines (snd (document_apply env doc)) (snd (supervised_apply env a))
     \<and> res_bind (fst (document_apply env doc)) (\<lambda>applied. Inr (ca_decision applied)) = fst (supervised_apply env a)
     \<and> (\<forall>applied. fst (document_apply env doc) = Inr applied \<longrightarrow>
          ca_projection applied = projection_from_state (fst (snd (supervised_apply env a)))
          \<and> ca_next_alarm_at applied = next_alarm_at (fst (snd (supervised_apply env a))))
     \<and> (\<forall>e. fst (document_apply env doc) = Inl e \<longrightarrow> snd (document_apply env doc) = doc)"
  using document_apply_simulates [OF assms, of env] by blast

lemma document_refines_coordinator_witness:
  "refines (snd (document_apply (sample_stored ''command-0001'' 1 (StoredTick 10)) sample_document))
     (snd (supervised_apply (sample_stored ''command-0001'' 1 (StoredTick 10)) (sample_state, None)))"
  using document_refines_coordinator [OF sample_refines] by blast

text \<open>
  From a fresh document on, every list of commands leaves a document that replays without
  error, to the coordinator that received the admitted commands, with a journal below 64.
\<close>

theorem document_run_replays:
  assumes "id_valid t" "id_valid p" "coordinator_config_new i h d = Inr c"
    and "doc = run_commands document_apply envs (document_new t p c)"
  shows "document_replay doc = Inr (fst (run_commands supervised_apply envs (coordinator_new t p c, None)))
     \<and> length (scd_journal doc) < compact_journal_at"
  using docs.run_sim [OF document_new_refines [OF assms(1-3)], of envs] assms(4)
  by (simp add: refines_def represents_replay)

lemma document_run_replays_witness:
  "document_replay (run_commands document_apply [sample_stored ''command-0001'' 1 (StoredTick 10)] sample_document)
   = Inr (fst (run_commands supervised_apply [sample_stored ''command-0001'' 1 (StoredTick 10)] (sample_state, None)))"
  unfolding sample_document_def sample_state_def
  by (rule document_run_replays [OF sample_scope_valid sample_config_new refl, THEN conjunct1])

text \<open>
  C8: After an uncertain ending the workspace goes back to its last writer.  In a document
  reached from a fresh one, a claim that succeeds under the recovery reservation is made by
  the actor and on the device of the last claim before it, whether that claim is still in
  the journal or only in the checkpoint.
\<close>

theorem recovery_returns_to_last_writer:
  assumes "id_valid t" "id_valid p" "coordinator_config_new i h d = Inr c"
    and "doc = run_commands document_apply envs (document_new t p c)"
    and "document_replay doc = Inr s" "cs_recovery_claim_pending s"
    and "document_apply env doc = (Inr applied, doc')" "ca_appended applied"
    and "cd_outcome (ca_decision applied) = LeaseClaimed l"
  shows "\<exists>before now. document_last_claim doc = Some before \<and> document_last_claim doc' = Some now
     \<and> sci_actor_id now = sci_actor_id before \<and> sci_device_id now = sci_device_id before
     \<and> sci_device_id before = id_as_str (cl_device_id l)"
proof -
  obtain who where a: "run_commands supervised_apply envs (coordinator_new t p c, None) = (s, who)"
      and r: "refines doc (s, who)"
    using docs.run_sim [OF document_new_refines [OF assms(1-3)], of envs] assms(4,5)
    by (metis Inr_inject prod.collapse refines_def represents_replay)
  have inv: "supervised_inv (s, who)"
    using supervised.run_inv [OF supervised_new_inv [OF config_new_ok [OF assms(3)]], of envs t p] a by simp
  note sim = document_apply_simulates [OF r, of env]
  obtain u who' where b: "supervised_apply env (s, who) = (Inr (ca_decision applied), (u, who'))"
    using sim(2) assms(7) by (cases "supervised_apply env (s, who)") auto
  have "cs_last_sequence u \<noteq> cs_last_sequence s" using sim(3) assms(7,8) b by simp
  moreover have "document_last_claim doc = who" "document_last_claim doc' = who'"
    using r sim(1) assms(7) b by (auto simp: refines_def)
  ultimately show ?thesis using recovering_claimant [OF inv b assms(9) _ assms(6)] by blast
qed

text \<open>
  The alarm is exact.  A tick finds something to do at a moment iff the alarm of the state
  is not later than it, and after a tick at or past the alarm no alarm is left.
\<close>

theorem alarm_exact:
  assumes "coordinator_reachable s"
  shows "(fst (tick now s) = Inr NoChange \<longleftrightarrow> (\<forall>t. next_alarm_at s = Some t \<longrightarrow> now < t))
     \<and> ((\<exists>t. next_alarm_at s = Some t \<and> t \<le> now) \<longrightarrow> next_alarm_at (snd (tick now s)) = None)"
  using next_alarm_tick [OF reachable_inv [OF assms]] tick_clears_alarm [OF reachable_inv [OF assms]] by blast

lemma alarm_exact_witness:
  "next_alarm_at (run_commands coordinator_apply [sample_issue, sample_claim] sample_state) = Some 120
   \<and> fst (tick 119 (run_commands coordinator_apply [sample_issue, sample_claim] sample_state)) = Inr NoChange"
  using alarm_exact [OF run_reachable [OF sample_reachable], of 119 "[sample_issue, sample_claim]"]
  by (simp add: sample_run_simps next_alarm_at_def)

section \<open>A recovery, end to end\<close>

definition sample_history :: "stored_coordinator_envelope list" where
  "sample_history =
    [sample_stored ''command-0001'' 1 (StoredIssueLaunchIntent ''intent-0001'' ''actor-0001'' ''device-0001'' 10 60),
     sample_stored ''command-0002'' 2 (StoredClaim ''intent-0001'' ''actor-0001'' ''device-0001'' ''session-0001'' ''fencing-0001'' 20),
     sample_stored ''command-0003'' 3 (StoredRelease ''session-0001'' 1 ''fencing-0001'' StoredReleaseUncertain 30),
     sample_stored ''command-0004'' 4 (StoredRecoverAndIssueLaunchIntent ''intent-0002'' ''actor-0001'' ''device-0001'' 40 90)]"

definition sample_reclaim :: stored_coordinator_envelope where
  "sample_reclaim = sample_stored ''command-0005'' 5
     (StoredClaim ''intent-0002'' ''actor-0001'' ''device-0001'' ''session-0002'' ''fencing-0002'' 50)"

lemma sample_ids [simp]:
  "id_parse ''command-0001'' = Inr (sample_id ''command-0001'')"
  "id_parse ''command-0002'' = Inr (sample_id ''command-0002'')"
  "id_parse ''command-0003'' = Inr (sample_id ''command-0003'')"
  "id_parse ''command-0004'' = Inr (sample_id ''command-0004'')"
  "id_parse ''command-0005'' = Inr (sample_id ''command-0005'')"
  "id_parse ''intent-0001'' = Inr (sample_id ''intent-0001'')"
  "id_parse ''intent-0002'' = Inr (sample_id ''intent-0002'')"
  "id_parse ''actor-0001'' = Inr (sample_id ''actor-0001'')"
  "id_parse ''device-0001'' = Inr (sample_id ''device-0001'')"
  "id_parse ''session-0001'' = Inr (sample_id ''session-0001'')"
  "id_parse ''session-0002'' = Inr (sample_id ''session-0002'')"
  "id_parse ''fencing-0001'' = Inr (sample_id ''fencing-0001'')"
  "id_parse ''fencing-0002'' = Inr (sample_id ''fencing-0002'')"
  by (simp_all add: sample_id_def id_parse_alt opaque_valid_def id_char_def min_id_length_def
      max_id_length_def ascii_defs)

lemmas supervised_run_simps = sample_run_simps sample_history_def sample_stored_def sample_reclaim_def
  supervised_apply_def envelope_to_domain_def coordinator_command_envelope_new_def supervise_def
  claimed_by_def version_new_def

lemma sample_recovering:
  "\<exists>s who. run_commands supervised_apply sample_history (sample_state, None) = (s, who)
     \<and> cs_recovery_claim_pending s"
  by (simp add: supervised_run_simps)

lemma sample_reclaimed:
  "\<exists>d l u. supervised_apply sample_reclaim (run_commands supervised_apply sample_history (sample_state, None)) = (Inr d, u)
     \<and> cd_outcome d = LeaseClaimed l
     \<and> cs_last_sequence (fst u) \<noteq> cs_last_sequence (fst (run_commands supervised_apply sample_history (sample_state, None)))"
  by (simp add: supervised_run_simps)

lemma recovery_returns_to_last_writer_witness:
  "\<exists>before now. document_last_claim (run_commands document_apply sample_history sample_document) = Some before
     \<and> document_last_claim (run_commands document_apply (sample_history @ [sample_reclaim]) sample_document) = Some now
     \<and> sci_actor_id now = sci_actor_id before \<and> sci_device_id now = sci_device_id before"
proof -
  let ?doc = "run_commands document_apply sample_history sample_document"
  let ?a = "run_commands supervised_apply sample_history (sample_state, None)"
  have r: "refines ?doc ?a" by (rule docs.run_sim [OF sample_refines])
  then have replay: "document_replay ?doc = Inr (fst ?a)" by (simp add: refines_def represents_replay)
  have pending: "cs_recovery_claim_pending (fst ?a)" using sample_recovering by auto
  obtain d l u where u: "supervised_apply sample_reclaim ?a = (Inr d, u)" "cd_outcome d = LeaseClaimed l"
      "cs_last_sequence (fst u) \<noteq> cs_last_sequence (fst ?a)" using sample_reclaimed by blast
  note sim = document_apply_simulates [OF r, of sample_reclaim]
  obtain applied where ap: "fst (document_apply sample_reclaim ?doc) = Inr applied" "ca_decision applied = d"
    using sim(2) u(1) by (auto simp: res_bind_Inr_iff)
  have "ca_appended applied" using sim(3) [OF ap(1)] u by simp
  then show ?thesis
    using recovery_returns_to_last_writer [of "sample_id ''tenant-0001''" "sample_id ''profile-0001''" 100 1000 50
        sample_config ?doc sample_history "fst ?a" sample_reclaim applied "snd (document_apply sample_reclaim ?doc)" l]
      replay pending ap u(2) sample_config_new sample_scope_valid
    by (auto simp: sample_document_def run_commands_append prod_eq_iff)
qed

end
