(* ===== verification/Coordinator_Object_Properties.thy ===== *)
theory Coordinator_Object_Properties
  imports Coordinator_Object_Progress Coordinator_Properties
begin

text \<open>
  The properties of the coordinator object and of the commit messages, with their witnesses.
  The sample object holds the document of a claimed profile; the sample commit comes from its
  writer.
\<close>

section \<open>Sample object\<close>

definition empty_object :: coordinator_object where
  "empty_object = \<lparr>co_document = None, co_gate = None, co_alarm = None\<rparr>"

definition sample_claimed_document :: stored_coordinator_document where
  "sample_claimed_document = run_commands document_apply (take 2 sample_history) sample_document"

definition sample_claimed_state :: coordinator_state where
  "sample_claimed_state = fst (run_commands supervised_apply (take 2 sample_history) (sample_state, None))"

definition sample_object :: coordinator_object where
  "sample_object = \<lparr>co_document = Some sample_claimed_document, co_gate = None, co_alarm = Some 120\<rparr>"

lemma sample_claimed_refines:
  "refines sample_claimed_document (run_commands supervised_apply (take 2 sample_history) (sample_state, None))"
  unfolding sample_claimed_document_def by (rule docs.run_sim [OF sample_refines])

lemma sample_claimed_replay [simp]: "document_replay sample_claimed_document = Inr sample_claimed_state"
  using sample_claimed_refines by (simp add: refines_def represents_replay sample_claimed_state_def)

lemma sample_object_inv: "object_inv sample_object"
proof -
  have "supervised_inv (run_commands supervised_apply (take 2 sample_history) (sample_state, None))"
    unfolding sample_state_def
    by (rule supervised.run_inv [OF supervised_new_inv [OF config_new_ok [OF sample_config_new]]])
  then have "document_ok sample_claimed_document"
    using sample_claimed_refines unfolding document_ok_def by blast
  then show ?thesis by (simp add: object_inv_def sample_object_def)
qed

lemma sample_claimed_parts:
  "cs_status sample_claimed_state = Active" "version_value (cs_version sample_claimed_state) = 3"
  "cs_last_sequence sample_claimed_state = 2" "cs_last_observed_at sample_claimed_state = 20"
  "cs_pending_intent sample_claimed_state = None" "cs_drain_deadline sample_claimed_state = None"
  "cs_active_lease sample_claimed_state = Some \<lparr>cl_session_id = sample_id ''session-0001'',
     cl_device_id = sample_id ''device-0001'', cl_epoch = 1, cl_fencing_token = sample_id ''fencing-0001'',
     cl_claimed_at = 20, cl_last_heartbeat_at = 20, cl_idle_expires_at = 120, cl_hard_expires_at = 1020\<rparr>"
  "map (\<lambda>r. id_as_str (rc_idempotency_key r)) (cs_receipts sample_claimed_state) = [''command-0001'', ''command-0002'']"
  by (simp_all add: sample_claimed_state_def supervised_run_simps)

definition sample_device_commit :: device_commit_internal_request where
  "sample_device_commit =
     \<lparr>dir_tenant_id = ''tenant-0001'', dir_actor_id = ''actor-0001'', dir_correlation_id = ''corr-0001'',
      dir_job_id = ''devjob-0001'', dir_claim_id = ''devclaim-0001'', dir_expected_job_version = 2,
      dir_claim_fence = 1, dir_device_id = ''device-0001'', dir_profile_id = ''profile-0001'',
      dir_base_generation_id = ''generation-0001'', dir_generation_id = ''generation-0002'',
      dir_object_key = ''objects/2'', dir_metadata_digest = ''m'', dir_container_digest = ''c'',
      dir_container_bytes = 4096, dir_expected_profile_version = 7,
      dir_coordinator_session_id = ''session-0001'', dir_coordinator_fencing_token = ''fencing-0001'',
      dir_coordinator_epoch = 1, dir_coordinator_version = 3, dir_coordinator_sequence = 2\<rparr>"

lemma more_sample_ids [simp]:
  "id_parse ''tenant-0001'' = Inr (sample_id ''tenant-0001'')"
  "id_parse ''profile-0001'' = Inr (sample_id ''profile-0001'')"
  "id_parse ''corr-0001'' = Inr (sample_id ''corr-0001'')"
  "id_parse ''devjob-0001'' = Inr (sample_id ''devjob-0001'')"
  "id_parse ''devclaim-0001'' = Inr (sample_id ''devclaim-0001'')"
  "id_parse ''generation-0001'' = Inr (sample_id ''generation-0001'')"
  "id_parse ''generation-0002'' = Inr (sample_id ''generation-0002'')"
  by (simp_all add: sample_id_def id_parse_alt opaque_valid_def id_char_def min_id_length_def
      max_id_length_def ascii_defs)

lemma sample_identity:
  "ensure_identity sample_claimed_document (sample_id ''tenant-0001'') (sample_id ''profile-0001'') = Inr ()"
proof -
  obtain base where b: "restore_base sample_claimed_document = Inr base" and fr: "cs_tenant_id base = cs_tenant_id sample_claimed_state"
      "cs_profile_id base = cs_profile_id sample_claimed_state"
    using sample_claimed_refines appends_all_frame unfolding refines_def represents_def sample_claimed_state_def by metis
  have "cs_tenant_id sample_claimed_state = sample_id ''tenant-0001''" "cs_profile_id sample_claimed_state = sample_id ''profile-0001''"
    by (simp_all add: sample_claimed_state_def supervised_run_simps)
  then show ?thesis
    using restore_base_parts [OF b] fr by (simp add: ensure_identity_def id_parse_Inr_iff)
qed

lemma sample_commit_reply:
  "fst (object_fetch (\<lambda>x. x) (DeviceCommitRequest (Inr JournalApplied) 50 60 (Inr sample_device_commit)) sample_object)
   = Inr (DeviceCommitReply CommitActivated)"
  using sample_identity sample_claimed_parts
  by (simp add: object_generation_commit_def sample_object_def sample_device_commit_def gate_time_def
      device_commit_into_domain_def version_new_def load_document_def reserve_generation_gate_def
      validate_device_generation_commit_authority_def authority_is_live_iff accepts_writer_def
      settle_generation_commit_def Let_def)

section \<open>The object\<close>





text \<open>
  C10: A reserved commit cannot be undercut.  While a gate is stored, no request and no alarm
  changes the coordinator document; coordinator commands are answered with a conflict; and the
  gate itself can only stay or be removed, never be replaced.
\<close>

theorem closed_gate_freezes_coordinator:
  assumes "co_gate obj = Some g"
  shows "co_document (snd (object_fetch sha256 event obj)) = co_document obj
     \<and> (co_gate (snd (object_fetch sha256 event obj)) = Some g \<or> co_gate (snd (object_fetch sha256 event obj)) = None)
     \<and> object_fetch sha256 (CommandRequest body) obj = (Inr (ErrorReply 409 ''conflict''), obj)"
  using closed_gate_document [OF assms] object_command_gate [of obj body] assms by simp

lemma closed_gate_freezes_coordinator_witness:
  "co_document (snd (object_fetch (\<lambda>x. x) (AlarmEvent 500)
     (sample_object\<lparr>co_gate := Some \<lparr>gate_authority_digest = ''d'', gate_generation_id = ''g'', gate_authorized_at_ms = 50\<rparr>\<rparr>)))
   = Some sample_claimed_document"
  using closed_gate_freezes_coordinator [of "sample_object\<lparr>co_gate := Some \<lparr>gate_authority_digest = ''d'',
      gate_generation_id = ''g'', gate_authorized_at_ms = 50\<rparr>\<rparr>" _ "\<lambda>x. x" "AlarmEvent 500"]
  by (simp add: sample_object_def)

text \<open>
  C4: A device commit is confirmed only under live authority.  When the object answers that a
  generation was activated, the stored document replays to a state in which the request's
  device, session, epoch and fencing token own the lease, at the request's coordinator version
  and sequence, before every deadline; the journal confirmed it, and the gate is open again.
\<close>

theorem device_commit_needs_live_authority:
  assumes "fst (object_fetch sha256 (DeviceCommitRequest answer now later (Inr internal)) obj) = Inr (DeviceCommitReply out)"
  shows "\<exists>actor commit doc s at j. device_commit_into_domain (gate_time now obj) internal = Inr (actor, commit)
     \<and> co_document obj = Some doc \<and> document_replay doc = Inr s
     \<and> coordinator_generation_authority_is_live s (dgr_device_id commit)
         (gcw_session_id (dgr_coordinator commit)) (gcw_epoch (dgr_coordinator commit))
         (gcw_fencing_token (dgr_coordinator commit)) (gcw_coordinator_version (dgr_coordinator commit))
         (gcw_coordinator_sequence (dgr_coordinator commit)) at
     \<and> (at = now \<or> (\<exists>g. co_gate obj = Some g \<and> at = gate_authorized_at_ms g))
     \<and> answer = Inr j \<and> out = device_commit_outcome j
     \<and> co_gate (snd (object_fetch sha256 (DeviceCommitRequest answer now later (Inr internal)) obj)) = None"
proof -
  let ?run = "object_generation_commit sha256 (\<lambda>_ _. answer) now later (Inr internal) obj"
  have reply: "fst ?run = Inr (DeviceCommitReply out)" using assms by simp
  then have "\<not> commit_refused ?run obj" by (simp add: commit_refused_def)
  then obtain actor commit g where asked: "device_commit_asked sha256 now internal obj actor commit g"
    and run: "?run = settle_generation_commit generation_commit_failure_releases_gate generation_commit_error
        (\<lambda>j. DeviceCommitReply (device_commit_outcome j)) later answer (obj\<lparr>co_gate := Some g\<rparr>)"
    using object_generation_commit_cases [of sha256 "\<lambda>_ _. answer" now later "Inr internal" obj] by auto
  have "DeviceCommitReply out \<notin> range generation_commit_error" by (metis device_error_not_commit(1) rangeE)
  then obtain j where j: "answer = Inr j" "out = device_commit_outcome j" "co_gate (snd ?run) = None"
    using settle_reply [of generation_commit_failure_releases_gate generation_commit_error
        "\<lambda>j. DeviceCommitReply (device_commit_outcome j)" later answer "obj\<lparr>co_gate := Some g\<rparr>"] reply run by auto
  have "gate_authorized_at_ms g = now \<or> (\<exists>g'. co_gate obj = Some g' \<and> gate_authorized_at_ms g = gate_authorized_at_ms g')"
    using asked by (auto simp: device_commit_asked_def reserved_gate_def gate_time_def split: option.splits)
  then show ?thesis using asked j unfolding device_commit_asked_def by auto
qed

lemma device_commit_needs_live_authority_witness:
  "\<exists>actor commit. device_commit_into_domain 50 sample_device_commit = Inr (actor, commit)
     \<and> coordinator_generation_authority_is_live sample_claimed_state (dgr_device_id commit)
         (gcw_session_id (dgr_coordinator commit)) (gcw_epoch (dgr_coordinator commit))
         (gcw_fencing_token (dgr_coordinator commit)) (gcw_coordinator_version (dgr_coordinator commit))
         (gcw_coordinator_sequence (dgr_coordinator commit)) 50"
proof -
  have parts: "co_gate sample_object = None" "co_document sample_object = Some sample_claimed_document"
      "gate_time 50 sample_object = 50"
    by (simp_all add: sample_object_def gate_time_def)
  show ?thesis
    using device_commit_needs_live_authority [OF sample_commit_reply] unfolding parts sample_claimed_replay
    by auto
qed

text \<open>
  A successor commit is confirmed only under live authority and provenance: in addition to
  the live lease, the claim that opened the session was made by the requesting actor on the
  requesting device.
\<close>

theorem successor_commit_needs_live_authority:
  assumes "fst (object_fetch sha256 (SuccessorCommitRequest answer now later (Inr internal)) obj) = Inr (SuccessorCommitReply out)"
  shows "\<exists>actor commit doc s at. successor_into_domain (gate_time now obj) internal = Inr (actor, commit)
     \<and> co_document obj = Some doc \<and> document_replay doc = Inr s
     \<and> active_claim_matches doc (actor_actor_id actor) (psr_device_id commit)
         (pgw_session_id (psr_coordinator commit)) = Inr True
     \<and> coordinator_generation_authority_is_live s (psr_device_id commit)
         (pgw_session_id (psr_coordinator commit)) (pgw_epoch (psr_coordinator commit))
         (pgw_fencing_token (psr_coordinator commit)) (pgw_coordinator_version (psr_coordinator commit))
         (pgw_coordinator_sequence (psr_coordinator commit)) at
     \<and> (at = now \<or> (\<exists>g. co_gate obj = Some g \<and> at = gate_authorized_at_ms g))
     \<and> answer = Inr out
     \<and> co_gate (snd (object_fetch sha256 (SuccessorCommitRequest answer now later (Inr internal)) obj)) = None"
proof -
  let ?run = "object_generation_successor sha256 (\<lambda>_ _. answer) now later (Inr internal) obj"
  have reply: "fst ?run = Inr (SuccessorCommitReply out)" using assms by simp
  then have "\<not> commit_refused ?run obj" by (simp add: commit_refused_def)
  then obtain actor commit g where asked: "successor_commit_asked sha256 now internal obj actor commit g"
    and run: "?run = settle_generation_commit profile_successor_failure_releases_gate profile_successor_error
        SuccessorCommitReply later answer (obj\<lparr>co_gate := Some g\<rparr>)"
    using object_generation_successor_cases [of sha256 "\<lambda>_ _. answer" now later "Inr internal" obj] by auto
  have "SuccessorCommitReply out \<notin> range profile_successor_error" by (metis successor_error_not_commit(2) rangeE)
  then have j: "answer = Inr out" "co_gate (snd ?run) = None"
    using settle_reply [of profile_successor_failure_releases_gate profile_successor_error
        SuccessorCommitReply later answer "obj\<lparr>co_gate := Some g\<rparr>"] reply run by auto
  have "gate_authorized_at_ms g = now \<or> (\<exists>g'. co_gate obj = Some g' \<and> gate_authorized_at_ms g = gate_authorized_at_ms g')"
    using asked by (auto simp: successor_commit_asked_def reserved_gate_def gate_time_def split: option.splits)
  then show ?thesis using asked j unfolding successor_commit_asked_def by auto
qed

text \<open>
  A displaced writer cannot commit.  Once the coordinator no longer holds the lease of an
  epoch, no later state of it accepts a generation authority with that epoch.
\<close>

theorem displaced_writer_has_no_authority:
  assumes "coordinator_reachable s" "cs_active_lease s = Some l" "t = run_commands coordinator_apply envs s"
    and "cs_active_lease t = None \<or> (\<exists>l1. cs_active_lease t = Some l1 \<and> cl_epoch l1 \<noteq> cl_epoch l)"
    and "u = run_commands coordinator_apply fnvs t"
  shows "\<not> coordinator_generation_authority_is_live u dev sid (cl_epoch l) tok ver seq at"
proof
  assume "coordinator_generation_authority_is_live u dev sid (cl_epoch l) tok ver seq at"
  then obtain l2 where l2: "cs_active_lease u = Some l2" "cl_epoch l2 = cl_epoch l"
    by (auto simp: authority_is_live_iff accepts_writer_def)
  have "cl_epoch l \<le> cs_next_epoch s"
    using reachable_inv [OF assms(1)] assms(2) by (simp add: coordinator_inv_def shape_ok_def)
  then have "cl_epoch l < cl_epoch l2"
    using retired_epoch [OF assms(2) _ assms(3), of fnvs l2] assms(4,5) l2(1) by auto
  then show False using l2(2) by simp
qed

lemma displaced_writer_has_no_authority_witness:
  "\<not> coordinator_generation_authority_is_live
      (run_commands coordinator_apply [sample_issue, sample_claim, sample_release] sample_state)
      (sample_id ''device-0001'') (sample_id ''session-0001'') 1 (sample_id ''fencing-0001'') 4 3 40"
  using displaced_writer_has_no_authority [of "run_commands coordinator_apply [sample_issue, sample_claim] sample_state" _ _
      "[sample_release]" _ "[]", OF run_reachable [OF sample_reachable] sample_claimed refl _ refl] sample_released
  by simp

text \<open>
  C11: The alarm ends what is due.  With the gate open and a deadline of the stored state passed,
  the alarm handler succeeds, stores a document whose state has neither lease nor intent, and
  leaves no alarm behind.  (The clock has not run backwards, the 64-bit sequence is not used
  up, and no client took the key that the alarm is about to use.)
\<close>

theorem alarm_ends_what_is_due:
  assumes "object_inv obj" "co_gate obj = None" "co_document obj = Some doc" "document_replay doc = Inr s"
    and "next_alarm_at s = Some due" "due \<le> now" "cs_last_observed_at s \<le> now"
    and "unat (cs_last_sequence s) + 2 < 2 ^ 64"
    and "alarm_key (cs_last_sequence s + 1) \<notin> set (map (\<lambda>r. id_as_str (rc_idempotency_key r)) (cs_receipts s))"
  shows "\<exists>reply obj' doc' s'. object_fetch sha256 (AlarmEvent now) obj = (Inr (CoordinatorReply reply), obj')
     \<and> co_document obj' = Some doc' \<and> document_replay doc' = Inr s' \<and> co_alarm obj' = None
     \<and> cs_pending_intent s' = None \<and> cs_active_lease s' = None"
  using alarm_settles [OF assms(1-8)] assms(9) by simp

lemma alarm_ends_what_is_due_witness:
  "\<exists>reply obj' doc' s'. object_fetch (\<lambda>x. x) (AlarmEvent 130) sample_object = (Inr (CoordinatorReply reply), obj')
     \<and> co_document obj' = Some doc' \<and> document_replay doc' = Inr s' \<and> co_alarm obj' = None
     \<and> cs_pending_intent s' = None \<and> cs_active_lease s' = None"
proof (rule alarm_ends_what_is_due [OF sample_object_inv])
  show "co_gate sample_object = None" "co_document sample_object = Some sample_claimed_document"
    by (simp_all add: sample_object_def)
  show "document_replay sample_claimed_document = Inr sample_claimed_state" by simp
  show "next_alarm_at sample_claimed_state = Some 120" by (simp add: next_alarm_at_def sample_claimed_parts)
  show "cs_last_observed_at sample_claimed_state \<le> 130" by (simp add: sample_claimed_parts)
  show "unat (cs_last_sequence sample_claimed_state) + 2 < 2 ^ 64" by (simp add: sample_claimed_parts)
  show "alarm_key (cs_last_sequence sample_claimed_state + 1)
      \<notin> set (map (\<lambda>r. id_as_str (rc_idempotency_key r)) (cs_receipts sample_claimed_state))"
    unfolding sample_claimed_parts by (simp add: alarm_key_def)
qed simp

text \<open>
  The last condition is needed.  The key of the next alarm is not reserved: a client command that
  carries it is accepted, and until another command moves the sequence the alarm fails at every time, so
  the deadline is not kept.
\<close>

abbreviation squatted_object :: coordinator_object where
  "squatted_object \<equiv> run_commands (object_fetch (\<lambda>x. x))
     [CommandRequest (Inr (''tenant-0001'', ''profile-0001'',
        (hd sample_history)\<lparr>sce_idempotency_key := ''alarm_00000000000000000002''\<rparr>))] empty_object"

lemmas object_run_simps = empty_object_def object_command_def load_document_def object_idle_timeout_ms_def
  object_hard_timeout_ms_def object_drain_timeout_ms_def coordinator_config_new_def document_new_def
  store_applied_def schedule_alarm_def deadline_pending_def next_alarm_at_def sample_history_def sample_stored_def
  document_apply_def document_replay_def restore_base_def recovery_admission_def envelope_to_domain_def
  coordinator_command_envelope_new_def compact_journal_at_def version_new_def
  id_parse_alt opaque_valid_def id_char_def min_id_length_def max_id_length_def ascii_defs sample_run_simps

lemma client_key_stops_the_alarm:
  "co_gate squatted_object = None \<and> deadline_pending squatted_object
   \<and> object_fetch (\<lambda>x. x) (AlarmEvent now) squatted_object
       = (Inl ''idempotency key was reused for another command'', squatted_object)"
proof -
  have places: "rev [0..<20] = [19,18,17,16,15,14,13,12,11,10,9,8,7,6,5,4,3,2,1,0::nat]"
    by (simp add: upt_rec)
  have key: "alarm_key 2 = ''alarm_00000000000000000002''"
    unfolding alarm_key_def places by (simp add: char_of_def bit_Suc_0_iff)
  show ?thesis by (simp add: object_run_simps fire_alarm_def object_alarm_def key)
qed

section \<open>The messages\<close>

text \<open>
  The authority digest binds the commit.  If SHA-256 does not collide on the two byte
  strings at hand, two device commits with the same digest agree in every field except the
  correlation id (fields shorter than 2 to the 64 bytes), and no device commit has the digest
  of a successor commit.
\<close>

theorem authority_digest_binds:
  assumes "\<And>e'. sha256 (device_commit_preimage d) = sha256 e' \<Longrightarrow> device_commit_preimage d = e'"
    and "fits (device_strings d)" "fits (device_strings e)" "length (dir_tenant_id d) < 2 ^ 56"
  shows "(device_commit_authority_digest sha256 d = device_commit_authority_digest sha256 e
            \<longrightarrow> d\<lparr>dir_correlation_id := c\<rparr> = e\<lparr>dir_correlation_id := c\<rparr>)
     \<and> device_commit_authority_digest sha256 d \<noteq> successor_authority_digest sha256 f"
proof -
  have "device_commit_preimage d = device_commit_preimage e"
    if "device_commit_authority_digest sha256 d = device_commit_authority_digest sha256 e"
    using that assms(1) by (simp add: device_commit_authority_digest_def hex_digest_inject)
  then have "device_commit_authority_digest sha256 d = device_commit_authority_digest sha256 e
      \<longrightarrow> d\<lparr>dir_correlation_id := c\<rparr> = e\<lparr>dir_correlation_id := c\<rparr>"
    using device_preimage_inject [OF _ assms(2,3)] by blast
  moreover have "device_commit_authority_digest sha256 d \<noteq> successor_authority_digest sha256 f"
    using preimages_disjoint [OF assms(4), of f] assms(1)
    by (auto simp: device_commit_authority_digest_def successor_authority_digest_def hex_digest_inject)
  ultimately show ?thesis ..
qed

lemma authority_digest_binds_witness:
  "device_commit_authority_digest (\<lambda>x. x) sample_device_commit
     \<noteq> device_commit_authority_digest (\<lambda>x. x) (sample_device_commit\<lparr>dir_claim_fence := 2\<rparr>)"
proof -
  have f: "fits (device_strings sample_device_commit)" "fits (device_strings (sample_device_commit\<lparr>dir_claim_fence := 2\<rparr>))"
      "length (dir_tenant_id sample_device_commit) < 2 ^ 56"
    by (simp_all add: fits_def device_strings_def sample_device_commit_def)
  have "sample_device_commit\<lparr>dir_correlation_id := []\<rparr>
      \<noteq> (sample_device_commit\<lparr>dir_claim_fence := 2\<rparr>)\<lparr>dir_correlation_id := []\<rparr>"
    by (simp add: sample_device_commit_def)
  then show ?thesis using authority_digest_binds [of "\<lambda>x. x", OF _ f, of "[]"] by auto
qed

text \<open>
  Round trip.  A commit request with valid identifiers, about an object of its own profile,
  is rebuilt from its internal form exactly, for both kinds of commit, with the observation
  time of the receiving object instead of the sender's.
\<close>

theorem commit_request_roundtrip:
  assumes "actor_ids_ok a" "device_request_ok r" "successor_request_ok q"
  shows "device_commit_into_domain t (device_commit_from_domain a r) = Inr (a, r\<lparr>dgr_observed_at := t\<rparr>)
     \<and> successor_into_domain t (successor_from_domain a q) = Inr (a, q\<lparr>psr_observed_at := t\<rparr>)"
  using device_commit_codec [OF assms(1,2)] successor_codec [OF assms(1,3)] by blast

definition sample_successor :: successor_internal_request where
  "sample_successor =
     \<lparr>sir_tenant_id = ''tenant-0001'', sir_actor_id = ''actor-0001'', sir_correlation_id = ''corr-0001'',
      sir_device_id = ''device-0001'', sir_profile_id = ''profile-0001'',
      sir_base_generation_id = ''generation-0001'', sir_generation_id = ''generation-0002'',
      sir_object_key = ''objects/2'', sir_metadata_digest = ''m'', sir_container_digest = ''c'',
      sir_container_bytes = 4096, sir_expected_profile_version = 7,
      sir_coordinator_session_id = ''session-0001'', sir_coordinator_fencing_token = ''fencing-0001'',
      sir_coordinator_epoch = 1, sir_coordinator_version = 3, sir_coordinator_sequence = 2\<rparr>"

lemma sample_requests:
  obtains a r q where "device_commit_into_domain 50 sample_device_commit = Inr (a, r)"
    "successor_into_domain 50 sample_successor = Inr (a, q)"
  by (rule that) (simp_all add: sample_device_commit_def sample_successor_def device_commit_into_domain_def
      successor_into_domain_def version_new_def)

lemma commit_request_roundtrip_witness:
  "\<exists>a r q. device_commit_into_domain 50 sample_device_commit = Inr (a, r)
     \<and> successor_into_domain 50 sample_successor = Inr (a, q)
     \<and> device_commit_into_domain 60 (device_commit_from_domain a r) = Inr (a, r\<lparr>dgr_observed_at := 60\<rparr>)"
  by (rule sample_requests)
     (metis commit_request_roundtrip device_commit_into_domain_ok successor_into_domain_ok)

lemma sample_claimed_journal:
  "scd_journal sample_claimed_document = take 2 sample_history \<and> scd_checkpoint sample_claimed_document = None"
  by (simp add: sample_claimed_document_def sample_document_def document_new_def sample_history_def sample_stored_def
      document_apply_def document_replay_def restore_base_def recovery_admission_def envelope_to_domain_def
      coordinator_command_envelope_new_def coordinator_config_new_def compact_journal_at_def version_new_def
      id_parse_alt [of "id_as_str _"] sample_run_simps)

lemma sample_provenance:
  "active_claim_matches sample_claimed_document (sample_id ''actor-0001'') (sample_id ''device-0001'') (sample_id ''session-0001'')
   = Inr True"
  using sample_claimed_journal sample_claimed_parts
  by (simp add: active_claim_matches_def sample_history_def sample_stored_def List.map_filter_simps sample_id_def)

lemma successor_commit_needs_live_authority_witness:
  "\<exists>actor commit. successor_into_domain 50 sample_successor = Inr (actor, commit)
     \<and> active_claim_matches sample_claimed_document (actor_actor_id actor) (psr_device_id commit)
         (pgw_session_id (psr_coordinator commit)) = Inr True"
proof -
  have reply: "fst (object_fetch (\<lambda>x. x) (SuccessorCommitRequest (Inr CommitActivated) 50 60 (Inr sample_successor)) sample_object)
      = Inr (SuccessorCommitReply CommitActivated)"
    using sample_identity sample_claimed_parts sample_provenance
    by (simp add: object_generation_successor_def sample_object_def sample_successor_def gate_time_def
        successor_into_domain_def version_new_def load_document_def reserve_generation_gate_def
        validate_profile_successor_authority_def authority_is_live_iff accepts_writer_def
        settle_generation_commit_def Let_def)
  have parts: "co_gate sample_object = None" "co_document sample_object = Some sample_claimed_document"
      "gate_time 50 sample_object = 50"
    by (simp_all add: sample_object_def gate_time_def)
  show ?thesis
    using successor_commit_needs_live_authority [OF reply] unfolding parts by auto
qed

end
