(* ===== verification/Device_Job_Safety.thy ===== *)
theory Device_Job_Safety
  imports Device_Job
begin

text \<open>
  Correctness of device jobs.  \<open>job_move\<close> is the transition relation of a job, one rule per
  kind of method, and \<open>device_job_step_cases\<close> shows that a method either refuses and changes
  nothing or takes one move and advances version and time.  On top of it: the invariant, the
  snapshot round trip, fencing, the bound on attempts, and the fate of exhausted jobs.
\<close>

section \<open>What a method does before it moves the version\<close>

fun job_time :: "device_job_command \<Rightarrow> unix_millis" where
  "job_time (DoClaim _ now _) = now"
| "job_time (DoHeartbeat _ _ now _) = now"
| "job_time (DoMarkProfileBusy _ _ now _) = now"
| "job_time (DoScheduleRetry _ _ now _) = now"
| "job_time (DoExpireClaim now _) = now"
| "job_time (DoRequireAuth _ _ now) = now"
| "job_time (DoResumeAfterAuth now) = now"
| "job_time (DoRequireRecovery _ _ now) = now"
| "job_time (DoResumeAfterRecovery now) = now"
| "job_time (DoSucceed _ _ now) = now"
| "job_time (DoFail _ _ now) = now"
| "job_time (DoCancel now) = now"

definition running_claim :: "device_claim_id \<Rightarrow> u64 \<Rightarrow> unix_millis \<Rightarrow> device_job \<Rightarrow> device_claim \<Rightarrow> bool" where
  "running_claim i f now j c \<longleftrightarrow> dj_status j = JobRunning \<and> dj_active_claim j = Some c
     \<and> dc_claim_id c = i \<and> dc_fence c = f \<and> now < dc_lease_expires_at c"

fun ends_claim :: "device_job_command \<Rightarrow> (device_claim_id \<times> u64 \<times> device_job_status \<times> unix_millis option) option" where
  "ends_claim (DoMarkProfileBusy i f now r) = Some (i, f, JobProfileBusy, Some r)"
| "ends_claim (DoScheduleRetry i f now r) = Some (i, f, JobRetryScheduled, Some r)"
| "ends_claim (DoRequireAuth i f now) = Some (i, f, JobAuthRequired, None)"
| "ends_claim (DoRequireRecovery i f now) = Some (i, f, JobRecoveryRequired, None)"
| "ends_claim (DoSucceed i f now) = Some (i, f, JobSucceeded, None)"
| "ends_claim (DoFail i f now) = Some (i, f, JobFailed, None)"
| "ends_claim _ = None"

inductive job_move :: "device_job_command \<Rightarrow> device_job \<Rightarrow> device_job \<Rightarrow> bool" where
  move_claim: "dj_status j = JobPendingDevice \<or> dj_status j = JobProfileBusy \<or> dj_status j = JobRetryScheduled \<Longrightarrow>
    \<forall>r. dj_retry_at j = Some r \<longrightarrow> r \<le> now \<Longrightarrow> dj_active_claim j = None \<Longrightarrow>
    dj_attempt j < dj_max_attempts j \<Longrightarrow> checked_add (dj_last_fence j) 1 = Some fence \<Longrightarrow>
    checked_add (dj_attempt j) 1 = Some attempt \<Longrightarrow> now < lease \<Longrightarrow>
    job_move (DoClaim i now lease) j
      (j\<lparr>dj_attempt := attempt, dj_last_fence := fence, dj_active_claim := Some
          \<lparr>dc_claim_id = i, dc_job_id = dj_job_id j, dc_target = dj_target j, dc_fence = fence,
           dc_claimed_at = now, dc_last_heartbeat_at = now, dc_lease_expires_at = lease\<rparr>,
         dj_retry_at := None, dj_status := JobRunning\<rparr>)"
| move_heartbeat: "running_claim i f now j c \<Longrightarrow> dc_last_heartbeat_at c \<le> now \<Longrightarrow>
    dc_lease_expires_at c < lease \<Longrightarrow> now < lease \<Longrightarrow>
    job_move (DoHeartbeat i f now lease) j
      (j\<lparr>dj_active_claim := Some (c\<lparr>dc_last_heartbeat_at := now, dc_lease_expires_at := lease\<rparr>)\<rparr>)"
| move_end: "ends_claim cmd = Some (i, f, st, r) \<Longrightarrow> running_claim i f (job_time cmd) j c \<Longrightarrow>
    \<forall>t. r = Some t \<longrightarrow> job_time cmd < t \<Longrightarrow> (st = JobRetryScheduled \<longrightarrow> dj_attempt j < dj_max_attempts j) \<Longrightarrow>
    job_move cmd j (j\<lparr>dj_active_claim := None, dj_status := st, dj_retry_at := r\<rparr>)"
| move_expire: "dj_status j = JobRunning \<Longrightarrow> dj_active_claim j = Some c \<Longrightarrow> dc_lease_expires_at c \<le> now \<Longrightarrow>
    (if dj_max_attempts j \<le> dj_attempt j then st = JobFailed \<and> r' = None
     else st = JobRetryScheduled \<and> r' = Some r \<and> now < r) \<Longrightarrow>
    job_move (DoExpireClaim now r) j (j\<lparr>dj_active_claim := None, dj_status := st, dj_retry_at := r'\<rparr>)"
| move_auth: "dj_status j = JobAuthRequired \<Longrightarrow> dj_active_claim j = None \<Longrightarrow>
    job_move (DoResumeAfterAuth now) j (j\<lparr>dj_status := JobPendingDevice\<rparr>)"
| move_recovery: "dj_status j = JobRecoveryRequired \<Longrightarrow> dj_active_claim j = None \<Longrightarrow>
    job_move (DoResumeAfterRecovery now) j (j\<lparr>dj_status := JobPendingDevice\<rparr>)"
| move_cancel: "\<not> job_is_terminal (dj_status j) \<Longrightarrow>
    job_move (DoCancel now) j (j\<lparr>dj_active_claim := None, dj_retry_at := None, dj_status := JobCancelled\<rparr>)"

lemma job_current_claim_Inr_iff:
  "job_current_claim i f now j = Inr c \<longleftrightarrow> running_claim i f now j c"
  by (auto simp: job_current_claim_def running_claim_def device_claim_is_expired_def not_le split: option.splits)

lemma job_current_claim_not_overflow: "job_current_claim i f now j \<noteq> Inl JobVersionOverflow"
  by (auto simp: job_current_claim_def split: option.splits)

lemma job_ensure_time_Inr_iff: "job_ensure_time now j = Inr u \<longleftrightarrow> dj_updated_at j \<le> now"
  by (auto simp: job_ensure_time_def)

lemma job_ensure_time_cases:
  obtains "job_ensure_time now j = Inl JobTimeRegression" | "job_ensure_time now j = Inr ()" "dj_updated_at j \<le> now"
  by (cases "now < dj_updated_at j") (auto simp: job_ensure_time_def not_less)

lemma discard_advance:
  "discard (case job_advance now m of (Inl e, k) \<Rightarrow> (Inl e, k) | (Inr _, k) \<Rightarrow> (Inr c, k)) = job_advance now m"
  by (auto simp: discard_def job_advance_def or_return_def split: sum.splits prod.splits)

definition step_shape ::
    "device_job_command \<Rightarrow> device_job \<Rightarrow> (device_job_error + unit) \<times> device_job \<Rightarrow> bool" where
  "step_shape cmd j out \<longleftrightarrow> (\<exists>e. out = (Inl e, j) \<and> e \<noteq> JobVersionOverflow)
     \<or> (\<exists>m. job_move cmd j m \<and> dj_updated_at j \<le> job_time cmd \<and> out = job_advance (job_time cmd) m)"

lemma step_refused [intro, simp]: "e \<noteq> JobVersionOverflow \<Longrightarrow> step_shape cmd j (Inl e, j)"
  by (auto simp: step_shape_def)

lemma step_moved:
  "job_move cmd j m \<Longrightarrow> dj_updated_at j \<le> now \<Longrightarrow> now = job_time cmd \<Longrightarrow> step_shape cmd j (job_advance now m)"
  by (auto simp: step_shape_def)

lemma step_after_time:
  "(dj_updated_at j \<le> now \<Longrightarrow> step_shape cmd j (k ())) \<Longrightarrow>
   step_shape cmd j (or_return (job_ensure_time now j) j k)"
  by (cases rule: job_ensure_time_cases [of now j]) auto

lemma step_after_claim:
  "(\<And>c. running_claim i f now j c \<Longrightarrow> step_shape cmd j (k c)) \<Longrightarrow>
   step_shape cmd j (or_return (job_current_claim i f now j) j k)"
  using job_current_claim_not_overflow [of i f now j] job_current_claim_Inr_iff [of i f now j]
  by (cases "job_current_claim i f now j") auto

lemma job_release_cases:
  obtains (refused) e where "job_release_running_claim i f now j = (Inl e, j)" "e \<noteq> JobVersionOverflow"
  | (ended) c where "job_release_running_claim i f now j = (Inr (), j\<lparr>dj_active_claim := None\<rparr>)"
      "running_claim i f now j c" "dj_updated_at j \<le> now"
proof (cases rule: job_ensure_time_cases [of now j])
  case 1
  then show thesis by (intro refused [of JobTimeRegression]) (simp_all add: job_release_running_claim_def)
next
  case 2
  show thesis
  proof (cases "job_current_claim i f now j")
    case (Inl e)
    then show thesis using 2 job_current_claim_not_overflow [of i f now j]
      by (intro refused [of e]) (auto simp: job_release_running_claim_def)
  next
    case (Inr c)
    then have "running_claim i f now j c" by (simp add: job_current_claim_Inr_iff)
    then show thesis using 2 Inr by (intro ended [of c]) (simp_all add: job_release_running_claim_def)
  qed
qed

lemma step_end_claim:
  assumes "ends_claim cmd = Some (i, f, st, r)" "now = job_time cmd"
    "\<forall>t. r = Some t \<longrightarrow> now < t" "st = JobRetryScheduled \<longrightarrow> dj_attempt j < dj_max_attempts j"
  shows "step_shape cmd j (case job_release_running_claim i f now j of
       (Inl e, j1) \<Rightarrow> (Inl e, j1)
     | (Inr _, j1) \<Rightarrow> job_advance now (j1\<lparr>dj_status := st, dj_retry_at := r\<rparr>))"
proof (cases rule: job_release_cases [of i f now j])
  case (ended c)
  have "job_move cmd j (j\<lparr>dj_active_claim := None, dj_status := st, dj_retry_at := r\<rparr>)"
    using assms ended(2) by (intro move_end) auto
  then show ?thesis using ended assms(2) step_moved by simp
qed auto

lemma discard_if: "discard (if b then x else y) = (if b then discard x else discard y)"
  by simp

lemma discard_or_return: "discard (or_return m s k) = or_return m s (\<lambda>a. discard (k a))"
  by (cases m) (simp_all add: discard_def)

lemma discard_Inl [simp]: "discard (Inl e, s) = (Inl e, s)"
  by (simp add: discard_def)

lemma step_after_option:
  "e \<noteq> JobVersionOverflow \<Longrightarrow> (\<And>a. m = Some a \<Longrightarrow> step_shape cmd j (k a)) \<Longrightarrow>
   step_shape cmd j (or_return (res_ok_or e m) j k)"
  by (cases m) auto

lemma job_claim_shape: "step_shape (DoClaim i now lease) j (discard (job_claim i now lease j))"
  unfolding job_claim_def discard_or_return discard_if discard_Inl discard_advance
proof (rule step_after_time)
  assume t: "dj_updated_at j \<le> now"
  let ?claim = "\<lambda>fence. device_claim_issue i (dj_job_id j) (dj_target j) fence now lease"
  let ?next = "\<lambda>fence attempt c. j\<lparr>dj_attempt := attempt, dj_last_fence := fence, dj_active_claim := Some c,
      dj_retry_at := None, dj_status := JobRunning\<rparr>"
  have tail: "step_shape (DoClaim i now lease) j
      (or_return (res_ok_or JobFenceOverflow (checked_add (dj_last_fence j) 1)) j (\<lambda>fence.
       or_return (res_map_err (\<lambda>_. JobInvalidLease) (?claim fence)) j (\<lambda>c.
       or_return (res_ok_or JobAttemptOverflow (checked_add (dj_attempt j) 1)) j (\<lambda>attempt.
         job_advance now (?next fence attempt c)))))"
    if g: "dj_status j = JobPendingDevice \<or> dj_status j = JobProfileBusy \<or> dj_status j = JobRetryScheduled"
      "\<forall>r. dj_retry_at j = Some r \<longrightarrow> r \<le> now" "dj_active_claim j = None" "dj_attempt j < dj_max_attempts j"
  proof (rule step_after_option)
    fix fence
    assume fence: "checked_add (dj_last_fence j) 1 = Some fence"
    show "step_shape (DoClaim i now lease) j
      (or_return (res_map_err (\<lambda>_. JobInvalidLease) (?claim fence)) j (\<lambda>c.
       or_return (res_ok_or JobAttemptOverflow (checked_add (dj_attempt j) 1)) j (\<lambda>attempt.
         job_advance now (?next fence attempt c))))"
    proof (cases "?claim fence")
      case (Inr c)
      then have c: "now < lease" "c = \<lparr>dc_claim_id = i, dc_job_id = dj_job_id j, dc_target = dj_target j, dc_fence = fence,
           dc_claimed_at = now, dc_last_heartbeat_at = now, dc_lease_expires_at = lease\<rparr>"
        by (auto simp: device_claim_issue_def split: if_splits)
      show ?thesis unfolding Inr res_map_err_simps or_return_simps
        by (rule step_after_option) (use g fence c t in \<open>auto intro!: step_moved move_claim\<close>)
    qed simp
  qed simp
  show "step_shape (DoClaim i now lease) j
     (if job_is_terminal (dj_status j) \<or> dj_status j = JobRunning \<or> dj_status j = JobAuthRequired
      then (Inl JobInvalidState, j)
      else if dj_status j = JobRecoveryRequired then (Inl JobErrRecoveryRequired, j)
      else if (case dj_retry_at j of None \<Rightarrow> False | Some retry_at \<Rightarrow> now < retry_at) then (Inl JobNotDue, j)
      else if dj_active_claim j \<noteq> None then (Inl JobClaimAlreadyActive, j)
      else if dj_max_attempts j \<le> dj_attempt j then (Inl JobAttemptsExhausted, j)
      else or_return (res_ok_or JobFenceOverflow (checked_add (dj_last_fence j) 1)) j (\<lambda>fence.
       or_return (res_map_err (\<lambda>_. JobInvalidLease) (?claim fence)) j (\<lambda>c.
       or_return (res_ok_or JobAttemptOverflow (checked_add (dj_attempt j) 1)) j (\<lambda>attempt.
         job_advance now (?next fence attempt c)))))"
    using tail by (cases "dj_status j") (auto simp: job_is_terminal_def not_le not_less split: option.splits)
qed

lemma job_expire_shape: "step_shape (DoExpireClaim now r) j (discard (job_expire_claim now r j))"
  unfolding job_expire_claim_def discard_or_return discard_if discard_Inl discard_advance
  by (rule step_after_time)
     (auto simp: device_claim_is_expired_def not_le not_less res_ok_or_def or_return_def
       intro!: step_moved move_expire split: option.splits)

lemma job_heartbeat_shape: "step_shape (DoHeartbeat i f now lease) j (job_heartbeat i f now lease j)"
  unfolding job_heartbeat_def
proof (rule step_after_time, rule step_after_claim)
  fix c
  assume t: "dj_updated_at j \<le> now" and c: "running_claim i f now j c"
  have same: "j\<lparr>dj_active_claim := Some c\<rparr> = j" using c by (simp add: running_claim_def)
  show "step_shape (DoHeartbeat i f now lease) j
     (case device_claim_heartbeat now lease c of
        (Inl _, c1) \<Rightarrow> (Inl JobInvalidLease, j\<lparr>dj_active_claim := Some c1\<rparr>)
      | (Inr _, c1) \<Rightarrow> job_advance now (j\<lparr>dj_active_claim := Some c1\<rparr>))"
    using t c by (auto simp: device_claim_heartbeat_def same not_le not_less intro!: step_moved move_heartbeat)
qed

lemma device_job_step_shape: "step_shape cmd j (device_job_step cmd j)"
proof (cases cmd)
  case (DoMarkProfileBusy i f now r)
  show ?thesis unfolding DoMarkProfileBusy device_job_step.simps job_mark_profile_busy_def
    by (split if_split, intro conjI impI step_refused step_end_claim) auto
next
  case (DoScheduleRetry i f now r)
  show ?thesis unfolding DoScheduleRetry device_job_step.simps job_schedule_retry_def
    by (split if_split, split if_split, intro conjI impI step_refused step_end_claim) auto
next
  case (DoRequireAuth i f now)
  show ?thesis unfolding DoRequireAuth device_job_step.simps job_require_auth_def job_finish_claim_def
    by (rule step_end_claim) auto
next
  case (DoRequireRecovery i f now)
  show ?thesis unfolding DoRequireRecovery device_job_step.simps job_require_recovery_def job_finish_claim_def
    by (rule step_end_claim) auto
next
  case (DoSucceed i f now)
  show ?thesis unfolding DoSucceed device_job_step.simps job_succeed_def job_finish_claim_def
    by (rule step_end_claim) auto
next
  case (DoFail i f now)
  show ?thesis unfolding DoFail device_job_step.simps job_fail_def job_finish_claim_def
    by (rule step_end_claim) auto
next
  case (DoResumeAfterAuth now)
  then show ?thesis
    by (auto simp: job_resume_after_auth_def intro!: step_after_time step_moved move_auth)
next
  case (DoResumeAfterRecovery now)
  then show ?thesis
    by (auto simp: job_resume_after_recovery_def intro!: step_after_time step_moved move_recovery)
next
  case (DoCancel now)
  then show ?thesis
    by (auto simp: job_cancel_def intro!: step_after_time step_moved move_cancel)
qed (simp_all add: job_claim_shape job_expire_shape job_heartbeat_shape)

lemma device_job_step_cases:
  obtains (refused) e where "device_job_step cmd j = (Inl e, j)" "e \<noteq> JobVersionOverflow"
  | (moved) m where "job_move cmd j m" "dj_updated_at j \<le> job_time cmd"
      "device_job_step cmd j = job_advance (job_time cmd) m"
  using device_job_step_shape [of cmd j] by (auto simp: step_shape_def)

section \<open>The invariant\<close>

lemma unat_ucast_u32 [simp]: "unat (ucast (a :: u32) :: u64) = unat a"
proof -
  have "unat a < 2 ^ 64" using unat_bound [of a] by simp
  then show ?thesis by (simp add: unsigned_ucast_eq take_bit_nat_eq_self)
qed

definition job_claim_ok :: "device_job \<Rightarrow> device_claim \<Rightarrow> bool" where
  "job_claim_ok j c \<longleftrightarrow> dc_job_id c = dj_job_id j \<and> dc_target c = dj_target j \<and> dc_fence c = dj_last_fence j
     \<and> dc_claimed_at c \<le> dc_last_heartbeat_at c \<and> dc_last_heartbeat_at c < dc_lease_expires_at c
     \<and> (version_value (dj_version j) \<noteq> - 1 \<longrightarrow> dc_last_heartbeat_at c = dj_updated_at j)"

definition job_inv :: "device_job \<Rightarrow> bool" where
  "job_inv j \<longleftrightarrow> dj_max_attempts j \<noteq> 0 \<and> dj_max_attempts j \<le> max_device_job_attempts
     \<and> dj_attempt j \<le> dj_max_attempts j
     \<and> unat (dj_last_fence j) = unat (dj_attempt j)
     \<and> unat (dj_attempt j) < unat (version_value (dj_version j))
     \<and> (status_requires_attempt (dj_status j) \<longrightarrow> dj_attempt j \<noteq> 0)
     \<and> (dj_active_claim j \<noteq> None \<longleftrightarrow> dj_status j = JobRunning)
     \<and> (dj_retry_at j \<noteq> None \<longleftrightarrow> status_requires_retry (dj_status j))
     \<and> (\<forall>r. dj_retry_at j = Some r \<longrightarrow> dj_updated_at j < r)
     \<and> (\<forall>c. dj_active_claim j = Some c \<longrightarrow> job_claim_ok j c)"

lemma device_job_issue_inv: "device_job_issue i t m now = Inr j \<Longrightarrow> job_inv j"
  by (auto simp: device_job_issue_def job_inv_def status_requires_attempt_def status_requires_retry_def
      split: if_splits)

lemma job_advance_cases:
  obtains (overflow) "job_advance now m = (Inl JobVersionOverflow, m)" "version_value (dj_version m) = - 1"
  | (bumped) v where "job_advance now m = (Inr (), m\<lparr>dj_version := v, dj_updated_at := now\<rparr>)"
      "unat (version_value v) = Suc (unat (version_value (dj_version m)))"
proof (cases "version_next (dj_version m)")
  case (Inl e)
  then show thesis using version_next_Inl_iff [of "dj_version m" e]
    by (intro overflow) (simp_all add: job_advance_def)
next
  case (Inr v)
  then show thesis using version_next_Inr_iff [of "dj_version m" v]
    by (intro bumped) (simp_all add: job_advance_def)
qed

lemma job_move_version [simp]: "job_move cmd j m \<Longrightarrow> dj_version m = dj_version j"
  by (induction rule: job_move.induct) simp_all

lemma job_move_identity:
  "job_move cmd j m \<Longrightarrow> dj_job_id m = dj_job_id j \<and> dj_target m = dj_target j
     \<and> dj_max_attempts m = dj_max_attempts j \<and> dj_updated_at m = dj_updated_at j"
  by (induction rule: job_move.induct) simp_all

lemma job_move_attempt:
  "job_move cmd j m \<Longrightarrow>
     (dj_attempt m = dj_attempt j \<and> dj_last_fence m = dj_last_fence j \<and> (\<nexists>i now lease. cmd = DoClaim i now lease))
   \<or> (unat (dj_attempt m) = Suc (unat (dj_attempt j)) \<and> unat (dj_last_fence m) = Suc (unat (dj_last_fence j))
        \<and> dj_attempt m \<le> dj_max_attempts j \<and> (\<exists>i now lease. cmd = DoClaim i now lease))"
proof (induction rule: job_move.induct)
  case (move_claim j now fence attempt lease i)
  then show ?case by (auto dest!: checked_add_SomeD simp: word_less_nat_alt word_le_nat_alt)
qed (auto split: if_splits)

text \<open>A move followed by the advance of version and time keeps the invariant.\<close>

lemma job_move_inv:
  assumes "job_move cmd j m" "job_inv j" "dj_updated_at j \<le> u" "u \<le> job_time cmd"
    "version_value v \<noteq> - 1 \<longrightarrow> u = job_time cmd" "version_value (dj_version j) = - 1 \<longrightarrow> version_value v = - 1"
    "unat (dj_attempt m) < unat (version_value v)"
  shows "job_inv (m\<lparr>dj_version := v, dj_updated_at := u\<rparr>)"
  using assms
proof (induction rule: job_move.induct)
  case (move_claim j now fence attempt lease i)
  have "unat attempt = Suc (unat (dj_attempt j))" "unat fence = Suc (unat (dj_last_fence j))"
    using move_claim by (auto dest!: checked_add_SomeD)
  then have "attempt \<le> dj_max_attempts j" "attempt \<noteq> 0" "unat fence = unat attempt"
    using move_claim by (auto simp: word_less_nat_alt word_le_nat_alt job_inv_def)
  moreover have "u < lease" using move_claim by auto
  ultimately show ?case using move_claim
    by (simp add: job_inv_def job_claim_ok_def status_requires_attempt_def status_requires_retry_def)
next
  case (move_end cmd i f st r j c)
  have j: "dj_attempt j \<noteq> 0"
    using move_end by (auto simp: job_inv_def running_claim_def status_requires_attempt_def)
  have "st \<noteq> JobRunning" "status_requires_retry st \<longleftrightarrow> r \<noteq> None"
    using move_end(1) by (cases cmd; auto simp: status_requires_retry_def)+
  moreover have "\<forall>t. r = Some t \<longrightarrow> u < t" using move_end(3,7) by auto
  ultimately show ?case using move_end(5,10) j by (simp add: job_inv_def)
next
  case (move_heartbeat i f now j c lease)
  then have c: "dj_status j = JobRunning" "dj_active_claim j = Some c" by (simp_all add: running_claim_def)
  then have ok: "job_claim_ok j c" using move_heartbeat(5) by (simp add: job_inv_def)
  let ?c = "c\<lparr>dc_last_heartbeat_at := now, dc_lease_expires_at := lease\<rparr>"
  have "dc_claimed_at c \<le> now"
    using ok move_heartbeat(2) order_trans unfolding job_claim_ok_def by blast
  then have "job_claim_ok (j\<lparr>dj_active_claim := Some ?c, dj_version := v, dj_updated_at := u\<rparr>) ?c"
    using ok move_heartbeat(4,8) by (simp add: job_claim_ok_def)
  moreover have "dj_retry_at j = None"
    using c(1) move_heartbeat(5) by (simp add: job_inv_def status_requires_retry_def)
  ultimately show ?case using move_heartbeat(5,10) c(1) by (simp add: job_inv_def status_requires_retry_def)
next
  case (move_expire j c now st r' r)
  have j: "dj_attempt j \<noteq> 0" using move_expire(1,5) by (simp add: job_inv_def status_requires_attempt_def)
  have "st \<noteq> JobRunning" "status_requires_retry st \<longleftrightarrow> r' \<noteq> None"
    using move_expire(4) by (auto simp: status_requires_retry_def split: if_splits)
  moreover have "\<forall>t. r' = Some t \<longrightarrow> u < t" using move_expire(4,7) by (auto split: if_splits)
  ultimately show ?case using move_expire(5,10) j by (simp add: job_inv_def)
next
  case (move_cancel j now)
  then show ?case
    by (simp add: job_inv_def status_requires_attempt_def status_requires_retry_def)
next
  case (move_auth j now)
  then show ?case
    by (simp add: job_inv_def status_requires_attempt_def status_requires_retry_def)
next
  case (move_recovery j now)
  then show ?case
    by (simp add: job_inv_def status_requires_attempt_def status_requires_retry_def)
qed

lemma job_move_attempt_bound:
  assumes "job_move cmd j m" "job_inv j"
  shows "unat (dj_attempt m) \<le> Suc (unat (dj_attempt j))" "unat (dj_attempt m) \<le> 100"
proof -
  have "unat (dj_attempt m) \<le> unat (dj_max_attempts j)"
    using job_move_attempt [OF assms(1)] assms(2) by (auto simp: job_inv_def word_le_nat_alt)
  also have "\<dots> \<le> 100"
    using assms(2) by (simp add: job_inv_def max_device_job_attempts_def word_le_nat_alt)
  finally show "unat (dj_attempt m) \<le> 100" .
  show "unat (dj_attempt m) \<le> Suc (unat (dj_attempt j))" using job_move_attempt [OF assms(1)] by auto
qed

lemma device_job_step_inv: "job_inv j \<Longrightarrow> job_inv (snd (device_job_step cmd j))"
proof (cases rule: device_job_step_cases [of cmd j])
  case (moved m)
  assume inv: "job_inv j"
  note at = job_move_attempt_bound [OF moved(1) inv]
  show ?thesis
  proof (cases rule: job_advance_cases [of "job_time cmd" m])
    case overflow
    have "100 < unat (- 1 :: u64)" by (simp add: unsigned_minus_1_eq_mask mask_eq_exp_minus_1)
    then have "job_inv (m\<lparr>dj_version := dj_version j, dj_updated_at := dj_updated_at j\<rparr>)"
      using overflow moved at by (intro job_move_inv [OF moved(1) inv]) simp_all
    moreover have "m\<lparr>dj_version := dj_version j, dj_updated_at := dj_updated_at j\<rparr> = m"
      using job_move_identity [OF moved(1)] job_move_version [OF moved(1)] by (cases m) simp
    ultimately show ?thesis using overflow moved by simp
  next
    case (bumped v)
    have "version_value (dj_version j) = - 1 \<longrightarrow> version_value v = - 1"
      using bumped(2) moved(1) unat_bound [of "version_value v"]
      by (auto simp: unsigned_minus_1_eq_mask mask_eq_exp_minus_1)
    moreover have "unat (dj_attempt m) < unat (version_value v)"
      using bumped(2) moved(1) at inv by (simp add: job_inv_def)
    ultimately show ?thesis
      using bumped moved job_move_inv [OF moved(1) inv moved(2) order_refl, of v] by simp
  qed
qed simp

lemma device_job_step_version:
  "unat (version_value (dj_version (snd (device_job_step cmd j)))) =
     (if is_ok (fst (device_job_step cmd j)) then Suc (unat (version_value (dj_version j)))
      else unat (version_value (dj_version j)))"
proof (cases rule: device_job_step_cases [of cmd j])
  case (moved m)
  then show ?thesis by (cases rule: job_advance_cases [of "job_time cmd" m]) simp_all
qed simp

abbreviation job_version_count :: "device_job \<Rightarrow> nat" where
  "job_version_count j \<equiv> unat (version_value (dj_version j))"

interpretation job: versioned_machine device_job_step job_inv job_version_count
  by unfold_locales (simp_all add: device_job_step_inv device_job_step_version)

section \<open>Snapshots\<close>

lemma device_claim_roundtrip:
  "dc_fence c \<noteq> 0 \<Longrightarrow> dc_claimed_at c \<le> dc_last_heartbeat_at c \<Longrightarrow> dc_last_heartbeat_at c < dc_lease_expires_at c \<Longrightarrow>
   device_claim_restore (device_claim_snapshot_of c) = Inr c"
  by (simp add: device_claim_restore_def device_claim_snapshot_of_def not_less not_le)

lemma device_job_roundtrip:
  assumes "job_inv j" "version_value (dj_version j) \<noteq> - 1"
  shows "device_job_restore (device_job_snapshot_of j) = Inr j"
proof -
  have fence: "dj_last_fence j = ucast (dj_attempt j)" using assms(1) by (simp add: job_inv_def word_unat_eq_iff)
  have ver: "\<not> version_value (dj_version j) \<le> ucast (dj_attempt j)" "version_value (dj_version j) \<noteq> 0"
    using assms(1) by (auto simp: job_inv_def word_le_nat_alt)
  have claim: "restore_job_claim (device_job_snapshot_of j) (device_claim_snapshot_of c) = Inr c"
    if c: "dj_active_claim j = Some c" for c
  proof -
    have "dj_attempt j \<noteq> 0" "job_claim_ok j c"
      using assms(1) c by (auto simp: job_inv_def status_requires_attempt_def)
    moreover from this assms(1) have "dc_fence c \<noteq> 0"
      by (auto simp: job_claim_ok_def job_inv_def unat_eq_zero simp flip: unat_gt_0)
    ultimately show ?thesis using assms(2) device_claim_roundtrip [of c]
      by (auto simp: restore_job_claim_def job_claim_ok_def device_job_snapshot_of_def)
  qed
  show ?thesis
  proof (cases "dj_active_claim j")
    case None
    then show ?thesis using assms(1) fence ver
      by (auto simp: device_job_restore_def job_inv_def device_job_snapshot_of_def not_le not_less split: option.splits)
  next
    case (Some c)
    note cl = claim [OF Some]
    have "res_opt (restore_job_claim (device_job_snapshot_of j)) (djs_active_claim (device_job_snapshot_of j)) = Inr (Some c)"
      using Some cl by (simp add: device_job_snapshot_of_def)
    then show ?thesis using assms(1) fence ver Some
      by (auto simp: device_job_restore_def job_inv_def device_job_snapshot_of_def not_le not_less split: option.splits)
  qed
qed

lemma device_job_restore_inv:
  assumes "device_job_restore sn = Inr j"
  shows "job_inv j \<and> device_job_snapshot_of j = sn"
proof -
  from assms have g: "djs_max_attempts sn \<noteq> 0" "djs_max_attempts sn \<le> max_device_job_attempts"
      "djs_attempt sn \<le> djs_max_attempts sn" "djs_last_fence sn = ucast (djs_attempt sn)"
      "ucast (djs_attempt sn) < djs_aggregate_version sn"
      "status_requires_attempt (djs_status sn) \<longrightarrow> djs_attempt sn \<noteq> 0"
      "(djs_status sn = JobRunning) = (djs_active_claim sn \<noteq> None)"
      "status_requires_retry (djs_status sn) = (djs_retry_at sn \<noteq> None)"
      "\<forall>r. djs_retry_at sn = Some r \<longrightarrow> djs_updated_at sn < r"
    by (auto simp: device_job_restore_def not_le not_less split: if_splits option.splits)
  from assms obtain cl v where cl: "res_opt (restore_job_claim sn) (djs_active_claim sn) = Inr cl"
    and v: "version_new (djs_aggregate_version sn) = Inr v"
    and j: "j = \<lparr>dj_job_id = djs_job_id sn, dj_target = djs_target sn, dj_version = v,
               dj_status = djs_status sn, dj_attempt = djs_attempt sn,
               dj_max_attempts = djs_max_attempts sn, dj_last_fence = djs_last_fence sn,
               dj_active_claim = cl, dj_retry_at = djs_retry_at sn, dj_updated_at = djs_updated_at sn\<rparr>"
    by (auto simp: device_job_restore_def res_bind_Inr_iff split: if_splits)
  have vv: "version_value v = djs_aggregate_version sn" using v by (auto simp: version_new_Inr_iff)
  show ?thesis
  proof (cases "djs_active_claim sn")
    case None
    then show ?thesis using cl g vv
      by (auto simp: j job_inv_def device_job_snapshot_of_def word_less_nat_alt)
  next
    case (Some csn)
    then obtain c where c: "cl = Some c" "restore_job_claim sn csn = Inr c" using cl by (auto simp: res_bind_Inr_iff)
    then have "job_claim_ok j c" "device_claim_snapshot_of c = csn"
      by (auto simp: restore_job_claim_def res_bind_Inr_iff device_claim_restore_def job_claim_ok_def j
          device_claim_snapshot_of_def not_le not_less split: if_splits)
    then show ?thesis using c g vv Some
      by (auto simp: j job_inv_def device_job_snapshot_of_def word_less_nat_alt)
  qed
qed

section \<open>Runs\<close>

inductive job_reachable :: "device_job \<Rightarrow> bool" where
  issued: "device_job_issue i t m now = Inr j \<Longrightarrow> job_reachable j"
| restored: "device_job_restore sn = Inr j \<Longrightarrow> job_reachable j"
| stepped: "job_reachable j \<Longrightarrow> job_reachable (snd (device_job_step cmd j))"

lemma job_reachable_inv: "job_reachable j \<Longrightarrow> job_inv j"
  by (induction rule: job_reachable.induct)
     (auto simp: device_job_issue_inv device_job_step_inv dest: device_job_restore_inv)

text \<open>The job a step leaves is the old one, or a move of it with version and time set.\<close>

lemma device_job_step_moves:
  obtains (same) "snd (device_job_step cmd j) = j"
  | (moved) m v u where "job_move cmd j m" "snd (device_job_step cmd j) = m\<lparr>dj_version := v, dj_updated_at := u\<rparr>"
proof (cases rule: device_job_step_cases [of cmd j])
  case refused
  then show thesis using same by simp
next
  case m: (moved m)
  show thesis
  proof (cases rule: job_advance_cases [of "job_time cmd" m])
    case overflow
    have "m\<lparr>dj_version := dj_version m, dj_updated_at := dj_updated_at m\<rparr> = m" by simp
    then show thesis using m(1,3) overflow(1) by (intro moved [of m "dj_updated_at m" "dj_version m"]) simp_all
  next
    case (bumped v)
    then show thesis using m(1,3) by (intro moved [of m "job_time cmd" v]) simp_all
  qed
qed

lemma step_error_cases:
  assumes "device_job_step cmd j = (Inl e, t)"
  shows "t = j \<or> e = JobVersionOverflow \<and> version_value (dj_version j) = - 1"
proof (cases rule: device_job_step_cases [of cmd j])
  case refused
  then show ?thesis using assms by simp
next
  case (moved m)
  then show ?thesis using assms by (cases rule: job_advance_cases [of "job_time cmd" m]) auto
qed

lemma terminal_no_move: "job_is_terminal (dj_status j) \<Longrightarrow> \<not> job_move cmd j m"
  by (auto simp: job_is_terminal_def running_claim_def elim!: job_move.cases)

lemma terminal_step:
  assumes "job_is_terminal (dj_status j)"
  shows "\<exists>e. device_job_step cmd j = (Inl e, j)"
  using terminal_no_move [OF assms] by (cases rule: device_job_step_cases [of cmd j]) auto

lemma terminal_run: "job_is_terminal (dj_status j) \<Longrightarrow> run_commands device_job_step cmds j = j"
proof (induction cmds)
  case (Cons cmd cmds)
  then show ?case using terminal_step [of j cmd] by auto
qed simp

section \<open>Fencing\<close>

fun claim_fence :: "device_job_command \<Rightarrow> u64 option" where
  "claim_fence (DoHeartbeat _ f _ _) = Some f"
| "claim_fence (DoMarkProfileBusy _ f _ _) = Some f"
| "claim_fence (DoScheduleRetry _ f _ _) = Some f"
| "claim_fence (DoRequireAuth _ f _) = Some f"
| "claim_fence (DoRequireRecovery _ f _) = Some f"
| "claim_fence (DoSucceed _ f _) = Some f"
| "claim_fence (DoFail _ f _) = Some f"
| "claim_fence _ = None"

definition fence_retired :: "u64 \<Rightarrow> device_job \<Rightarrow> bool" where
  "fence_retired f j \<longleftrightarrow> f \<le> dj_last_fence j \<and> (\<forall>c. dj_active_claim j = Some c \<longrightarrow> dc_fence c \<noteq> f)"

lemma job_move_retired: "job_move cmd j m \<Longrightarrow> fence_retired f j \<Longrightarrow> fence_retired f m"
proof (induction rule: job_move.induct)
  case (move_claim j now fence attempt lease i)
  have "dj_last_fence j < fence" using move_claim(5) by (rule checked_add_less) simp
  then show ?case using move_claim(8) by (auto simp: fence_retired_def)
next
  case (move_heartbeat i f' now j c lease)
  then show ?case by (simp add: fence_retired_def running_claim_def)
qed (simp_all add: fence_retired_def)

lemma step_retired: "fence_retired f j \<Longrightarrow> fence_retired f (snd (device_job_step cmd j))"
  by (cases rule: device_job_step_moves [of cmd j])
     (auto dest: job_move_retired simp: fence_retired_def)

lemma run_retired: "fence_retired f j \<Longrightarrow> fence_retired f (run_commands device_job_step cmds j)"
  by (induction cmds arbitrary: j) (simp_all add: step_retired)

lemma retired_no_move: "fence_retired f j \<Longrightarrow> claim_fence cmd = Some f \<Longrightarrow> \<not> job_move cmd j m"
proof
  assume f: "fence_retired f j" "claim_fence cmd = Some f" and "job_move cmd j m"
  from this(3) show False
    using f
  proof (cases rule: job_move.cases)
    case (move_end i f' st r c)
    then have "f' = f" using f(2) by (cases cmd) auto
    then show False using f(1) move_end(3) by (simp add: fence_retired_def running_claim_def)
  qed (auto simp: fence_retired_def running_claim_def)
qed

lemma retired_step:
  "fence_retired f j \<Longrightarrow> claim_fence cmd = Some f \<Longrightarrow> \<exists>e. device_job_step cmd j = (Inl e, j)"
  by (cases rule: device_job_step_cases [of cmd j]) (auto dest: retired_no_move)

lemma job_move_last_fence: "job_move cmd j m \<Longrightarrow> dj_last_fence j \<le> dj_last_fence m"
  using job_move_attempt [of cmd j m] by (auto simp: word_le_nat_alt)

lemma run_last_fence: "dj_last_fence j \<le> dj_last_fence (run_commands device_job_step cmds j)"
proof (induction cmds arbitrary: j)
  case (Cons cmd cmds)
  have "dj_last_fence j \<le> dj_last_fence (snd (device_job_step cmd j))"
    by (cases rule: device_job_step_moves [of cmd j]) (auto dest: job_move_last_fence)
  then show ?case using Cons order_trans by fastforce
qed simp

section \<open>Attempts\<close>

primrec claims_made :: "device_job_command list \<Rightarrow> device_job \<Rightarrow> nat" where
  "claims_made [] j = 0"
| "claims_made (cmd # cmds) j =
     (case cmd of DoClaim _ _ _ \<Rightarrow> if is_ok (fst (device_job_step cmd j)) then 1 else 0 | _ \<Rightarrow> 0)
     + claims_made cmds (snd (device_job_step cmd j))"

lemma step_attempt:
  "unat (dj_attempt j) + (case cmd of DoClaim _ _ _ \<Rightarrow> if is_ok (fst (device_job_step cmd j)) then 1 else 0 | _ \<Rightarrow> 0)
     \<le> unat (dj_attempt (snd (device_job_step cmd j)))
   \<and> dj_max_attempts (snd (device_job_step cmd j)) = dj_max_attempts j"
proof (cases rule: device_job_step_cases [of cmd j])
  case refused
  then show ?thesis by (simp split: device_job_command.splits)
next
  case (moved m)
  have "dj_attempt (snd (device_job_step cmd j)) = dj_attempt m \<and> dj_max_attempts (snd (device_job_step cmd j)) = dj_max_attempts m"
    using moved(3) by (cases rule: job_advance_cases [of "job_time cmd" m]) simp_all
  then show ?thesis using job_move_attempt [OF moved(1)] job_move_identity [OF moved(1)]
    by (auto split: device_job_command.splits)
qed

lemma run_attempt:
  "unat (dj_attempt j) + claims_made cmds j \<le> unat (dj_attempt (run_commands device_job_step cmds j))
   \<and> dj_max_attempts (run_commands device_job_step cmds j) = dj_max_attempts j"
proof (induction cmds arbitrary: j)
  case (Cons cmd cmds)
  have "unat (dj_attempt j) + claims_made (cmd # cmds) j
      \<le> unat (dj_attempt (snd (device_job_step cmd j))) + claims_made cmds (snd (device_job_step cmd j))"
    using step_attempt [of j cmd] by simp
  then show ?case using Cons.IH [of "snd (device_job_step cmd j)"] step_attempt [of j cmd] by auto
qed simp

lemma claims_bounded:
  assumes "job_inv j"
  shows "claims_made cmds j \<le> unat (dj_max_attempts j) - unat (dj_attempt j)"
proof -
  have "job_inv (run_commands device_job_step cmds j)" using assms by (rule job.run_inv)
  then have "unat (dj_attempt (run_commands device_job_step cmds j)) \<le> unat (dj_max_attempts j)"
    using run_attempt [of j cmds] by (simp add: job_inv_def word_le_nat_alt)
  then show ?thesis using run_attempt [of j cmds] by linarith
qed

section \<open>Exhausted jobs\<close>

definition exhausted :: "device_job \<Rightarrow> bool" where
  "exhausted j \<longleftrightarrow> dj_max_attempts j \<le> dj_attempt j \<and> dj_status j \<noteq> JobRunning \<and> dj_status j \<noteq> JobSucceeded"

lemma job_move_exhausted: "job_move cmd j m \<Longrightarrow> exhausted j \<Longrightarrow> exhausted m"
proof (induction rule: job_move.induct)
  case (move_end cmd i f st r j c)
  then show ?case by (simp add: exhausted_def running_claim_def)
next
  case (move_expire j c now st r' r)
  then show ?case by (simp add: exhausted_def)
qed (simp_all add: exhausted_def running_claim_def not_le [symmetric])

lemma run_exhausted: "exhausted j \<Longrightarrow> exhausted (run_commands device_job_step cmds j)"
proof (induction cmds arbitrary: j)
  case (Cons cmd cmds)
  have "exhausted (snd (device_job_step cmd j))"
    using Cons.prems
    by (cases rule: device_job_step_moves [of cmd j]) (auto dest: job_move_exhausted simp: exhausted_def)
  then show ?case using Cons.IH by simp
qed simp

lemma exhausted_busy_moves:
  "exhausted j \<Longrightarrow> dj_status j = JobProfileBusy \<Longrightarrow> job_move cmd j m \<Longrightarrow> \<exists>now. cmd = DoCancel now"
  by (erule job_move.cases) (simp_all add: exhausted_def running_claim_def not_le [symmetric])

section \<open>Success\<close>

lemma job_move_success:
  "job_move cmd j m \<Longrightarrow> dj_status m = JobSucceeded \<Longrightarrow> dj_status j \<noteq> JobSucceeded \<Longrightarrow>
   \<exists>i f now c. cmd = DoSucceed i f now \<and> running_claim i f now j c"
proof (induction rule: job_move.induct)
  case (move_end cmd i f st r j c)
  then show ?case by (cases cmd) auto
qed (auto split: if_splits)

end
