(* ===== verification/Device_Job_Properties.thy ===== *)
theory Device_Job_Properties
  imports Device_Job_Safety
begin

text \<open>
  The properties of device jobs, with their witnesses.  The sample job has two attempts, is
  claimed and found busy.
\<close>

section \<open>Sample job\<close>

definition sample_target :: device_job_target where
  "sample_target = \<lparr>djt_tenant_id = TypedId (OpaqueId ''tenant-0001''), djt_device_id = TypedId (OpaqueId ''device-0001''),
     djt_profile_id = TypedId (OpaqueId ''profile-0001''), djt_generation_id = TypedId (OpaqueId ''generation-0001'')\<rparr>"

definition sample_claim_id :: device_claim_id where
  "sample_claim_id = TypedId (OpaqueId ''devclaim-0001'')"

definition sample_job :: "u32 \<Rightarrow> device_job" where
  "sample_job attempts = \<lparr>dj_job_id = TypedId (OpaqueId ''devjob-0001''), dj_target = sample_target,
     dj_version = AggregateVersion 1, dj_status = JobPendingDevice, dj_attempt = 0, dj_max_attempts = attempts,
     dj_last_fence = 0, dj_active_claim = None, dj_retry_at = None, dj_updated_at = 100\<rparr>"

lemma sample_job_reachable: "job_reachable (sample_job 1)"
  by (rule job_reachable.issued [of "TypedId (OpaqueId ''devjob-0001'')" sample_target 1 100])
     (simp add: device_job_issue_def sample_job_def version_initial_def max_device_job_attempts_def)

lemma job_run_reachable: "job_reachable j \<Longrightarrow> job_reachable (run_commands device_job_step cmds j)"
  by (induction cmds arbitrary: j) (simp_all add: job_reachable.stepped)

lemmas job_run_simps = sample_job_def sample_claim_id_def job_claim_def job_ensure_time_def job_is_terminal_def
  device_claim_issue_def checked_add_def job_advance_def version_next_def discard_def job_heartbeat_def
  job_current_claim_def device_claim_is_expired_def job_mark_profile_busy_def job_release_running_claim_def
  job_succeed_def job_finish_claim_def job_cancel_def

abbreviation sample_running :: device_job where
  "sample_running \<equiv> run_commands device_job_step [DoClaim sample_claim_id 110 200] (sample_job 1)"

abbreviation sample_busy :: device_job where
  "sample_busy \<equiv> run_commands device_job_step
     [DoClaim sample_claim_id 110 200, DoMarkProfileBusy sample_claim_id 1 120 150] (sample_job 1)"

section \<open>Properties\<close>

text \<open>
  Snapshot round trip.  Every job that was issued, or restored from storage, and then
  driven by any methods is restored from its snapshot to exactly itself, as long as its version
  counter is not exhausted.
\<close>

theorem job_snapshot_roundtrip:
  assumes "job_reachable j" "version_value (dj_version j) \<noteq> - 1"
  shows "device_job_restore (device_job_snapshot_of j) = Inr j"
  by (rule device_job_roundtrip [OF job_reachable_inv [OF assms(1)] assms(2)])

lemma job_snapshot_roundtrip_witness:
  "device_job_restore (device_job_snapshot_of sample_running) = Inr sample_running"
  by (rule job_snapshot_roundtrip [OF job_run_reachable [OF sample_job_reachable]]) (simp add: job_run_simps)

text \<open>
  C9: Restore validates.  Whatever snapshot storage presents, if it is accepted then the job
  satisfies the invariant (attempts bounded, fence equal to the attempt count, a claim exactly
  while running and bound to this job and target, a future retry time exactly while waiting)
  and the job's own snapshot is the one that was presented.
\<close>

theorem job_restore_validates:
  "device_job_restore sn = Inr j \<Longrightarrow> job_inv j \<and> device_job_snapshot_of j = sn"
  by (rule device_job_restore_inv)

lemma job_restore_validates_witness: "job_inv sample_running"
proof -
  have "device_job_restore (device_job_snapshot_of sample_running) = Inr sample_running"
    by (rule device_job_roundtrip [OF job_reachable_inv [OF job_run_reachable [OF sample_job_reachable]]])
       (simp add: job_run_simps)
  then show ?thesis using job_restore_validates by blast
qed

text \<open>
  Errors.  A method that fails leaves the job as it was, with one exception: the overflow
  of the version counter, which the methods only find after they have changed the job.
\<close>

theorem job_error_atomic:
  "device_job_step cmd j = (Inl e, t) \<Longrightarrow>
     t = j \<or> e = JobVersionOverflow \<and> version_value (dj_version j) = - 1"
  by (rule step_error_cases)

lemma job_error_atomic_witness:
  "snd (device_job_step (DoSucceed sample_claim_id 1 110) (sample_job 1)) = sample_job 1"
  using job_error_atomic [of "DoSucceed sample_claim_id 1 110" "sample_job 1" JobInvalidState "sample_job 1"]
  by (simp add: job_run_simps)

text \<open>
  C5: Stale claims.  Once a job no longer holds the claim of a fence, every later heartbeat,
  result or retry under that fence is refused and changes nothing, whatever happened in between.
\<close>

theorem stale_claim_refused:
  assumes "job_reachable j" "dj_active_claim j = Some c" "k = run_commands device_job_step cmds j"
    and "dj_active_claim k = None \<or> (\<exists>c1. dj_active_claim k = Some c1 \<and> dc_fence c1 \<noteq> dc_fence c)"
    and "claim_fence cmd = Some (dc_fence c)" "l = run_commands device_job_step dmds k"
  shows "\<exists>e. device_job_step cmd l = (Inl e, l)"
proof -
  have "dc_fence c = dj_last_fence j"
    using job_reachable_inv [OF assms(1)] assms(2) by (simp add: job_inv_def job_claim_ok_def)
  moreover have "dj_last_fence j \<le> dj_last_fence k"
    using run_last_fence [of j cmds] assms(3) by simp
  ultimately have "fence_retired (dc_fence c) k" using assms(4) by (auto simp: fence_retired_def)
  then show ?thesis using retired_step [OF _ assms(5)] run_retired assms(6) by blast
qed

lemma stale_claim_refused_witness:
  "\<exists>e. device_job_step (DoSucceed sample_claim_id 1 130) sample_busy = (Inl e, sample_busy)"
proof -
  have c: "dj_active_claim sample_running = Some \<lparr>dc_claim_id = sample_claim_id,
      dc_job_id = TypedId (OpaqueId ''devjob-0001''), dc_target = sample_target, dc_fence = 1,
      dc_claimed_at = 110, dc_last_heartbeat_at = 110, dc_lease_expires_at = 200\<rparr>"
    by (simp add: job_run_simps)
  have n: "dj_active_claim sample_busy = None" by (simp add: job_run_simps)
  show ?thesis
    using stale_claim_refused [OF job_run_reachable [OF sample_job_reachable] c, of _
        "[DoMarkProfileBusy sample_claim_id 1 120 150]" "DoSucceed sample_claim_id 1 130" _ "[]"] n
    by simp
qed

text \<open>
  Attempts are bounded.  In any run a job hands out at most as many claims as it has
  attempts left, so never more than its maximum, which is at most 100.
\<close>

theorem job_claims_bounded:
  assumes "job_reachable j"
  shows "claims_made cmds j \<le> unat (dj_max_attempts j) - unat (dj_attempt j)
     \<and> unat (dj_max_attempts j) \<le> 100"
  using claims_bounded [OF job_reachable_inv [OF assms]] job_reachable_inv [OF assms]
  by (simp add: job_inv_def max_device_job_attempts_def word_le_nat_alt)

lemma job_claims_bounded_witness:
  "claims_made [DoClaim sample_claim_id 110 200, DoClaim sample_claim_id 120 200] (sample_job 1) \<le> 1"
proof -
  have "unat (dj_max_attempts (sample_job 1)) - unat (dj_attempt (sample_job 1)) = 1" by (simp add: sample_job_def)
  then show ?thesis using job_claims_bounded [OF sample_job_reachable] by metis
qed

text \<open>
  Terminal states are final.  No run of methods changes a job that succeeded, failed or was
  cancelled, and each of them is refused.
\<close>

theorem terminal_job_frozen:
  assumes "job_is_terminal (dj_status j)"
  shows "run_commands device_job_step cmds j = j \<and> (\<exists>e. device_job_step cmd j = (Inl e, j))"
  using terminal_run [OF assms] terminal_step [OF assms] by blast

lemma terminal_job_frozen_witness:
  "run_commands device_job_step [DoClaim sample_claim_id 300 400]
     (run_commands device_job_step [DoCancel 110] (sample_job 1)) = run_commands device_job_step [DoCancel 110] (sample_job 1)"
proof -
  have "job_is_terminal (dj_status (run_commands device_job_step [DoCancel 110] (sample_job 1)))"
    by (simp add: job_run_simps)
  then show ?thesis using terminal_job_frozen by blast
qed

text \<open>
  No false success.  A job that was not succeeded becomes so only through \<open>succeed\<close>, under
  the claim id and fence of its active claim, before the lease of that claim expired.
\<close>

theorem success_needs_live_claim:
  assumes "dj_status j \<noteq> JobSucceeded" "dj_status (snd (device_job_step cmd j)) = JobSucceeded"
  shows "\<exists>i f now c. cmd = DoSucceed i f now \<and> dj_status j = JobRunning \<and> dj_active_claim j = Some c
     \<and> dc_claim_id c = i \<and> dc_fence c = f \<and> now < dc_lease_expires_at c"
proof (cases rule: device_job_step_moves [of cmd j])
  case same
  then show ?thesis using assms by simp
next
  case (moved m v u)
  then show ?thesis using job_move_success [OF moved(1)] assms by (auto simp: running_claim_def)
qed

lemma success_needs_live_claim_witness:
  "\<exists>i f now c. DoSucceed sample_claim_id 1 130 = DoSucceed i f now \<and> dj_active_claim sample_running = Some c
     \<and> dc_claim_id c = i \<and> dc_fence c = f \<and> now < dc_lease_expires_at c"
  using success_needs_live_claim [of sample_running "DoSucceed sample_claim_id 1 130"]
  by (simp add: job_run_simps)

text \<open>
  Versions count.  The version of a job after any run is its old version plus the number of
  methods that succeeded.
\<close>

theorem job_version_counts:
  assumes "job_reachable j"
  shows "unat (version_value (dj_version (run_commands device_job_step cmds j)))
     = unat (version_value (dj_version j)) + count_ok device_job_step cmds j"
  by (rule job.run_version [OF job_reachable_inv [OF assms]])

lemma job_version_counts_witness:
  "unat (version_value (dj_version sample_busy)) = 1 + count_ok device_job_step
     [DoClaim sample_claim_id 110 200, DoMarkProfileBusy sample_claim_id 1 120 150] (sample_job 1)"
proof -
  have "unat (version_value (dj_version (sample_job 1))) = 1" by (simp add: sample_job_def)
  then show ?thesis using job_version_counts [OF sample_job_reachable] by metis
qed

text \<open>
  C12: A busy profile on the last attempt strands the job.  On a job that runs its last attempt,
  \<open>mark_profile_busy\<close> under the live claim, with a later retry time, succeeds and stores the
  retry time; but from then on the job never runs or succeeds, whatever is done to it, and the
  only method it accepts is \<open>cancel\<close>.
\<close>

theorem busy_on_last_attempt_strands:
  assumes "job_reachable j" "dj_active_claim j = Some c" "dj_attempt j = dj_max_attempts j"
    and "dj_updated_at j \<le> now" "now < dc_lease_expires_at c" "now < retry"
    and "version_value (dj_version j) \<noteq> - 1"
  shows "\<exists>k. job_mark_profile_busy (dc_claim_id c) (dc_fence c) now retry j = (Inr (), k)
     \<and> dj_status k = JobProfileBusy \<and> dj_retry_at k = Some retry
     \<and> (is_ok (fst (device_job_step cmd k)) \<longrightarrow> (\<exists>at. cmd = DoCancel at))
     \<and> dj_status (run_commands device_job_step cmds k) \<noteq> JobRunning
     \<and> dj_status (run_commands device_job_step cmds k) \<noteq> JobSucceeded"
proof -
  have running: "dj_status j = JobRunning"
    using job_reachable_inv [OF assms(1)] assms(2) by (simp add: job_inv_def)
  obtain v where v: "version_next (dj_version j) = Inr v"
    using assms(7) version_next_Inl_iff by (cases "version_next (dj_version j)") auto
  let ?k = "j\<lparr>dj_active_claim := None, dj_status := JobProfileBusy, dj_retry_at := Some retry,
     dj_version := v, dj_updated_at := now\<rparr>"
  have "job_current_claim (dc_claim_id c) (dc_fence c) now j = Inr c"
    using assms(2,5) running by (simp add: job_current_claim_def device_claim_is_expired_def)
  moreover have "job_ensure_time now j = Inr ()" using assms(4) by (simp add: job_ensure_time_def)
  ultimately have "job_release_running_claim (dc_claim_id c) (dc_fence c) now j = (Inr (), j\<lparr>dj_active_claim := None\<rparr>)"
    by (simp add: job_release_running_claim_def)
  moreover have "\<not> retry \<le> now" using assms(6) by simp
  ultimately have busy: "job_mark_profile_busy (dc_claim_id c) (dc_fence c) now retry j = (Inr (), ?k)"
    using v by (simp add: job_mark_profile_busy_def job_advance_def)
  have k: "exhausted ?k" "dj_status ?k = JobProfileBusy" using assms(3) by (simp_all add: exhausted_def)
  have "is_ok (fst (device_job_step cmd ?k)) \<longrightarrow> (\<exists>at. cmd = DoCancel at)"
    using exhausted_busy_moves [OF k] by (cases rule: device_job_step_cases [of cmd ?k]) auto
  moreover have "exhausted (run_commands device_job_step cmds ?k)" using k(1) by (rule run_exhausted)
  ultimately show ?thesis using busy by (auto simp: exhausted_def)
qed

lemma busy_on_last_attempt_strands_witness:
  "\<exists>k. job_mark_profile_busy sample_claim_id 1 120 150 sample_running = (Inr (), k)
     \<and> dj_retry_at k = Some 150
     \<and> dj_status (run_commands device_job_step [DoClaim sample_claim_id 150 300] k) \<noteq> JobRunning"
proof -
  have c: "dj_active_claim sample_running = Some \<lparr>dc_claim_id = sample_claim_id,
      dc_job_id = TypedId (OpaqueId ''devjob-0001''), dc_target = sample_target, dc_fence = 1,
      dc_claimed_at = 110, dc_last_heartbeat_at = 110, dc_lease_expires_at = 200\<rparr>"
    by (simp add: job_run_simps)
  have r: "dj_attempt sample_running = dj_max_attempts sample_running" "dj_updated_at sample_running \<le> 120"
      "version_value (dj_version sample_running) \<noteq> - 1"
    by (simp_all add: job_run_simps)
  show ?thesis
    using busy_on_last_attempt_strands [OF job_run_reachable [OF sample_job_reachable] c r(1,2) _ _ r(3),
        of 150 _ "[DoClaim sample_claim_id 150 300]"]
    by (simp del: run_commands.simps) blast
qed

end
