(* ===== verification/Byte_Codec.thy ===== *)
theory Byte_Codec
  imports Primitives
begin

text \<open>
  Byte strings: big-endian words (\<open>to_be_bytes\<close> and \<open>from_be_bytes\<close> of the Rust integers) and
  the validity of UTF-8 that \<open>core::str::from_utf8\<close> checks.
\<close>

type_synonym u8 = "8 word"

section \<open>Big-endian words\<close>

definition be_bytes :: "nat \<Rightarrow> 'a::len word \<Rightarrow> string" where
  "be_bytes n w = map (\<lambda>i. char_of (unat w div 256 ^ i)) (rev [0..<n])"

definition be_value :: "string \<Rightarrow> nat" where
  "be_value bs = foldl (\<lambda>a c. 256 * a + byte_of c) 0 bs"

definition from_be :: "string \<Rightarrow> 'a::len word" where
  "from_be bs = of_nat (be_value bs)"

lemma length_be_bytes [simp]: "length (be_bytes n w) = n"
  by (simp add: be_bytes_def)

lemma be_value_snoc: "be_value (bs @ [c]) = 256 * be_value bs + byte_of c"
  by (simp add: be_value_def)

lemma be_value_lt: "be_value bs < 256 ^ length bs"
proof (induction bs rule: rev_induct)
  case (snoc c bs)
  then have "be_value bs + 1 \<le> 256 ^ length bs" by simp
  then have "256 * (be_value bs + 1) \<le> 256 * 256 ^ length bs" by (rule mult_le_mono2)
  then show ?case using byte_of_lt [of c] by (simp add: be_value_snoc)
qed (simp add: be_value_def)

definition digits_of :: "nat \<Rightarrow> nat \<Rightarrow> string" where
  "digits_of n v = map (\<lambda>i. char_of (v div 256 ^ i)) (rev [0..<n])"

lemma digits_of_Suc: "digits_of (Suc n) v = digits_of n (v div 256) @ [char_of v]"
proof -
  have "[0..<Suc n] = 0 # map Suc [0..<n]" by (simp add: map_Suc_upt upt_conv_Cons del: upt_Suc)
  then have "rev [0..<Suc n] = map Suc (rev [0..<n]) @ [0]" by (simp add: rev_map)
  then show ?thesis by (simp add: digits_of_def div_mult2_eq comp_def)
qed

lemma be_value_digits: "be_value (digits_of n v) = v mod 256 ^ n"
proof (induction n arbitrary: v)
  case (Suc n)
  have "v mod 256 ^ Suc n = 256 * (v div 256 mod 256 ^ n) + v mod 256"
    by (simp add: mod_mult2_eq)
  then show ?case by (simp add: digits_of_Suc be_value_snoc Suc.IH byte_of_def)
qed (simp add: digits_of_def be_value_def)

lemma byte_of_inject: "byte_of a = byte_of b \<Longrightarrow> a = b"
  by (simp add: byte_of_def)

lemma byte_of_char: "byte_of (char_of n) = n mod 256"
  by (simp add: byte_of_def)

lemma char_of_low_byte: "char_of (256 * a + byte_of c) = c"
  using byte_of_lt [of c] by (intro byte_of_inject) (simp add: byte_of_char)

lemma digits_of_value: "length bs = n \<Longrightarrow> digits_of n (be_value bs) = bs"
proof (induction bs arbitrary: n rule: rev_induct)
  case (snoc c bs)
  then show ?case
    using byte_of_lt [of c] by (auto simp: digits_of_Suc be_value_snoc char_of_low_byte)
qed (simp add: digits_of_def)

lemma from_be_be_bytes:
  "256 ^ n = (2::nat) ^ LENGTH('a) \<Longrightarrow> from_be (be_bytes n w) = (w :: 'a::len word)"
  using be_value_digits [of n "unat w"] unat_bound [of w]
  by (simp add: from_be_def be_bytes_def digits_of_def)

lemma be_bytes_from_be:
  "256 ^ n = (2::nat) ^ LENGTH('a) \<Longrightarrow> length bs = n \<Longrightarrow> be_bytes n (from_be bs :: 'a::len word) = bs"
  using digits_of_value [of bs n] be_value_lt [of bs]
  by (simp add: from_be_def be_bytes_def digits_of_def unat_of_nat take_bit_eq_mod)

lemma byte_powers: "256 ^ 2 = (2::nat) ^ 16" "256 ^ 4 = (2::nat) ^ 32" "256 ^ 8 = (2::nat) ^ 64"
  by simp_all

lemma be_inverse [simp]:
  "from_be (be_bytes 2 (a :: u16)) = a" "from_be (be_bytes 4 (b :: u32)) = b" "from_be (be_bytes 8 (c :: u64)) = c"
  by (rule from_be_be_bytes; simp)+

lemma inverse_be [simp]:
  "length bs = 2 \<Longrightarrow> be_bytes 2 (from_be bs :: u16) = bs"
  "length bs = 4 \<Longrightarrow> be_bytes 4 (from_be bs :: u32) = bs"
  "length bs = 8 \<Longrightarrow> be_bytes 8 (from_be bs :: u64) = bs"
  by (rule be_bytes_from_be; simp)+

lemma of_nat_of_unat: "unat (x :: 'a::len word) = n \<Longrightarrow> of_nat n = x"
  by (metis of_nat_unat ucast_id)

lemma unat_of_nat_small: "n < 2 ^ LENGTH('a) \<Longrightarrow> unat (of_nat n :: 'a::len word) = n"
  by (simp add: unat_of_nat take_bit_eq_mod)

lemma of_nat_eq_iff_unat: "n < 2 ^ LENGTH('a) \<Longrightarrow> of_nat n = (x :: 'a::len word) \<longleftrightarrow> n = unat x"
  using unat_of_nat_small [where ?'a = 'a, of n] of_nat_of_unat [of x n] by metis

section \<open>UTF-8\<close>

definition utf8_cont :: "char \<Rightarrow> bool" where
  "utf8_cont c \<longleftrightarrow> 128 \<le> byte_of c \<and> byte_of c \<le> 191"

definition utf8_second3 :: "char \<Rightarrow> char \<Rightarrow> bool" where
  "utf8_second3 a b \<longleftrightarrow> utf8_cont b \<and> (byte_of a = 224 \<longrightarrow> 160 \<le> byte_of b) \<and> (byte_of a = 237 \<longrightarrow> byte_of b \<le> 159)"

definition utf8_second4 :: "char \<Rightarrow> char \<Rightarrow> bool" where
  "utf8_second4 a b \<longleftrightarrow> utf8_cont b \<and> (byte_of a = 240 \<longrightarrow> 144 \<le> byte_of b) \<and> (byte_of a = 244 \<longrightarrow> byte_of b \<le> 143)"

fun utf8_valid :: "string \<Rightarrow> bool" where
  "utf8_valid [] = True"
| "utf8_valid (a # s) =
     (if byte_of a < 128 then utf8_valid s
      else case s of
        [] \<Rightarrow> False
      | b # s1 \<Rightarrow>
          if 194 \<le> byte_of a \<and> byte_of a \<le> 223 then utf8_cont b \<and> utf8_valid s1
          else case s1 of
            [] \<Rightarrow> False
          | c # s2 \<Rightarrow>
              if 224 \<le> byte_of a \<and> byte_of a \<le> 239
              then utf8_second3 a b \<and> utf8_cont c \<and> utf8_valid s2
              else case s2 of
                [] \<Rightarrow> False
              | d # s3 \<Rightarrow>
                  240 \<le> byte_of a \<and> byte_of a \<le> 244 \<and> utf8_second4 a b \<and> utf8_cont c
                  \<and> utf8_cont d \<and> utf8_valid s3)"

lemma utf8_ascii: "list_all (\<lambda>c. byte_of c < 128) s \<Longrightarrow> utf8_valid s"
  by (induction s) simp_all

lemma id_char_ascii: "id_char c \<Longrightarrow> byte_of c < 128"
  by (auto simp: id_char_def ascii_defs)

lemma utf8_id_chars: "list_all id_char s \<Longrightarrow> utf8_valid s"
  by (rule utf8_ascii) (auto simp: list_all_iff id_char_ascii)

end
