(* ===== verification/Generation_Container.thy ===== *)
theory Generation_Container
  imports Byte_Codec
begin

text \<open>
  The encrypted generation container, \<open>crates/encrypted-generation-domain/src/container.rs\<close> and
  \<open>lib.rs\<close>: metadata and its canonical encoding, the container of authenticated records, the
  in-memory \<open>seal_generation\<close> and \<open>open_generation\<close>.  SHA-256 and XChaCha20-Poly1305 are a
  parameter, the record \<open>crypto\<close>; bytes are characters, lengths and positions (\<open>usize\<close>) are
  natural numbers that the code bounds below \<open>2 ^ 64\<close>.
\<close>

section \<open>Errors, limits, primitives\<close>

datatype encrypted_generation_error =
    GenInvalidKeyId | GenInvalidChunkSize | GenPlaintextTooLarge | GenMetadataMismatch
  | GenInvalidContainer | GenUnsupportedVersion | GenAuthenticationFailed | GenDigestMismatch
  | GenIdentityMismatch | GenNonceReuse | GenImmutableConflict | GenMissingObject
  | GenMissingGeneration | GenerationQuarantined | GenerationNotVerified | GenStalePointer
  | GenInvalidRollback | GenVersionOverflow | GenTimeRegression

fun encrypted_generation_error_message :: "encrypted_generation_error \<Rightarrow> string" where
  "encrypted_generation_error_message GenInvalidKeyId = ''key ID must be an opaque ASCII identifier''"
| "encrypted_generation_error_message GenInvalidChunkSize = ''encrypted generation chunk size is outside policy''"
| "encrypted_generation_error_message GenPlaintextTooLarge = ''encrypted generation plaintext exceeds policy''"
| "encrypted_generation_error_message GenMetadataMismatch = ''generation metadata does not match plaintext or key''"
| "encrypted_generation_error_message GenInvalidContainer = ''encrypted generation container is malformed''"
| "encrypted_generation_error_message GenUnsupportedVersion = ''encrypted generation version or algorithm is unsupported''"
| "encrypted_generation_error_message GenAuthenticationFailed = ''encrypted generation authentication failed''"
| "encrypted_generation_error_message GenDigestMismatch = ''encrypted generation plaintext digest does not match metadata''"
| "encrypted_generation_error_message GenIdentityMismatch = ''encrypted generation identity does not match the request''"
| "encrypted_generation_error_message GenNonceReuse = ''nonce prefix has already been used with this generation key''"
| "encrypted_generation_error_message GenImmutableConflict = ''immutable object already exists with different bytes''"
| "encrypted_generation_error_message GenMissingObject = ''encrypted generation object is missing''"
| "encrypted_generation_error_message GenMissingGeneration = ''encrypted generation catalog record is missing''"
| "encrypted_generation_error_message GenerationQuarantined = ''encrypted generation is quarantined''"
| "encrypted_generation_error_message GenerationNotVerified = ''encrypted generation is not verified''"
| "encrypted_generation_error_message GenStalePointer = ''generation pointer compare-and-swap version is stale''"
| "encrypted_generation_error_message GenInvalidRollback = ''requested generation is not the retained rollback target''"
| "encrypted_generation_error_message GenVersionOverflow = ''generation pointer version overflow''"
| "encrypted_generation_error_message GenTimeRegression = ''generation lifecycle time moved backwards''"

definition container_version :: u16 where "container_version = 1"
definition container_magic :: string where "container_magic = ''BPGC0001''"
definition algorithm_id :: u16 where "algorithm_id = 1"
definition record_chunk :: u8 where "record_chunk = 1"
definition record_final :: u8 where "record_final = 2"
definition tag_bytes :: nat where "tag_bytes = 16"
definition nonce_prefix_bytes :: nat where "nonce_prefix_bytes = 16"
definition nonce_bytes :: nat where "nonce_bytes = 24"
definition min_chunk_bytes :: u32 where "min_chunk_bytes = 1024"
definition max_chunk_bytes :: u32 where "max_chunk_bytes = 1048576"
definition max_plaintext_bytes :: nat where "max_plaintext_bytes = 67108864"
definition max_stream_plaintext_bytes :: u64 where "max_stream_plaintext_bytes = 603979776"
definition max_stream_container_bytes :: u64 where "max_stream_container_bytes = 637534208"
definition max_container_bytes :: nat where "max_container_bytes = 83886080"
definition max_metadata_bytes :: nat where "max_metadata_bytes = 4096"
definition min_key_id_bytes :: nat where "min_key_id_bytes = 8"
definition max_key_id_bytes :: nat where "max_key_id_bytes = 96"

record crypto =
  sha256_of :: "string \<Rightarrow> string"
  aead_encrypt :: "string \<Rightarrow> string \<Rightarrow> string \<Rightarrow> string \<Rightarrow> string option"
  aead_decrypt :: "string \<Rightarrow> string \<Rightarrow> string \<Rightarrow> string \<Rightarrow> string option"

datatype key_id = KeyId (key_id_str: string)

definition key_id_parse :: "string \<Rightarrow> encrypted_generation_error + key_id" where
  "key_id_parse value =
     (let valid_length = min_key_id_bytes \<le> length value \<and> length value \<le> max_key_id_bytes;
          valid_chars = list_all id_char value
      in if \<not> valid_length \<or> \<not> valid_chars then Inl GenInvalidKeyId else Inr (KeyId value))"

record generation_dek =
  dek_key_id :: key_id
  dek_bytes :: string

definition dek_nonce_domain :: "crypto \<Rightarrow> generation_dek \<Rightarrow> string" where
  "dek_nonce_domain cr key = sha256_of cr (''profile-platform-generation-nonce-domain-v1'' @ dek_bytes key)"

definition dek_cipher :: "generation_dek \<Rightarrow> encrypted_generation_error + string" where
  \<comment> \<open>the cipher is its key; \<open>new_from_slice\<close> refuses every other length\<close>
  "dek_cipher key = (if length (dek_bytes key) = 32 then Inr (dek_bytes key) else Inl GenMetadataMismatch)"

definition nonce_for :: "string \<Rightarrow> u64 \<Rightarrow> string" where
  "nonce_for nonce_prefix index = nonce_prefix @ be_bytes 8 index"

definition nonce_from_bytes :: "string \<Rightarrow> encrypted_generation_error + string" where
  "nonce_from_bytes bytes = (if length bytes = nonce_bytes then Inr bytes else Inl GenInvalidContainer)"

definition validate_chunk_size :: "u32 \<Rightarrow> encrypted_generation_error + unit" where
  "validate_chunk_size chunk_size =
     (if \<not> (min_chunk_bytes \<le> chunk_size \<and> chunk_size \<le> max_chunk_bytes) then Inl GenInvalidChunkSize else Inr ())"

definition record_aad :: "string \<Rightarrow> u8 \<Rightarrow> u64 \<Rightarrow> u32 \<Rightarrow> string" where
  "record_aad metadata_digest record_type index plaintext_length =
     metadata_digest @ [char_of (unat record_type)] @ be_bytes 8 index @ be_bytes 4 plaintext_length"

definition push_string :: "string \<Rightarrow> string \<Rightarrow> encrypted_generation_error + string" where
  "push_string output value =
     (if length value < 2 ^ 16 then Inr (output @ be_bytes 2 (of_nat (length value) :: u16) @ value)
      else Inl GenInvalidContainer)"

section \<open>The cursor\<close>

record cursor =
  cur_bytes :: string
  cur_position :: nat

definition cursor_new :: "string \<Rightarrow> cursor" where
  "cursor_new bytes = \<lparr>cur_bytes = bytes, cur_position = 0\<rparr>"

definition cursor_is_finished :: "cursor \<Rightarrow> bool" where
  "cursor_is_finished c \<longleftrightarrow> cur_position c = length (cur_bytes c)"

definition cursor_take :: "nat \<Rightarrow> cursor \<Rightarrow> encrypted_generation_error + string \<times> cursor" where
  "cursor_take n c =
     (let upto = cur_position c + n in
      if upto \<le> length (cur_bytes c)
      then Inr (take n (drop (cur_position c) (cur_bytes c)), c\<lparr>cur_position := upto\<rparr>)
      else Inl GenInvalidContainer)"

definition cursor_read_u8 :: "cursor \<Rightarrow> encrypted_generation_error + u8 \<times> cursor" where
  "cursor_read_u8 c = res_bind (cursor_take 1 c) (\<lambda>(bs, c1).
     case bs of [] \<Rightarrow> Inl GenInvalidContainer | b # _ \<Rightarrow> Inr (of_nat (byte_of b), c1))"

definition cursor_read_u16 :: "cursor \<Rightarrow> encrypted_generation_error + u16 \<times> cursor" where
  "cursor_read_u16 c = res_bind (cursor_take 2 c) (\<lambda>(bs, c1). Inr (from_be bs, c1))"

definition cursor_read_u32 :: "cursor \<Rightarrow> encrypted_generation_error + u32 \<times> cursor" where
  "cursor_read_u32 c = res_bind (cursor_take 4 c) (\<lambda>(bs, c1). Inr (from_be bs, c1))"

definition cursor_read_u64 :: "cursor \<Rightarrow> encrypted_generation_error + u64 \<times> cursor" where
  "cursor_read_u64 c = res_bind (cursor_take 8 c) (\<lambda>(bs, c1). Inr (from_be bs, c1))"

definition cursor_read_string :: "cursor \<Rightarrow> encrypted_generation_error + string \<times> cursor" where
  "cursor_read_string c =
     res_bind (cursor_read_u16 c) (\<lambda>(n, c1).
     res_bind (cursor_take (unat n) c1) (\<lambda>(bs, c2).
       if utf8_valid bs then Inr (bs, c2) else Inl GenInvalidContainer))"

section \<open>Metadata\<close>

record generation_identity =
  gid_tenant_id :: tenant_id
  gid_profile_id :: profile_id
  gid_generation_id :: generation_id
  gid_base_generation_id :: "generation_id option"

record generation_metadata =
  gm_tenant_id :: tenant_id
  gm_profile_id :: profile_id
  gm_generation_id :: generation_id
  gm_base_generation_id :: "generation_id option"
  gm_key_id :: key_id
  gm_nonce_prefix :: string
  gm_chunk_size :: u32
  gm_plaintext_bytes :: u64
  gm_plaintext_digest :: string

definition metadata_of_identity ::
    "generation_identity \<Rightarrow> key_id \<Rightarrow> string \<Rightarrow> u32 \<Rightarrow> u64 \<Rightarrow> string \<Rightarrow> generation_metadata" where
  "metadata_of_identity i key_id nonce_prefix chunk_size plaintext_bytes digest =
     \<lparr>gm_tenant_id = gid_tenant_id i, gm_profile_id = gid_profile_id i,
      gm_generation_id = gid_generation_id i, gm_base_generation_id = gid_base_generation_id i,
      gm_key_id = key_id, gm_nonce_prefix = nonce_prefix, gm_chunk_size = chunk_size,
      gm_plaintext_bytes = plaintext_bytes, gm_plaintext_digest = digest\<rparr>"

definition metadata_for_plaintext ::
    "crypto \<Rightarrow> generation_identity \<Rightarrow> key_id \<Rightarrow> string \<Rightarrow> u32 \<Rightarrow> string
     \<Rightarrow> encrypted_generation_error + generation_metadata" where
  "metadata_for_plaintext cr i key_id nonce_prefix chunk_size plaintext =
     res_bind (validate_chunk_size chunk_size) (\<lambda>_.
       if max_plaintext_bytes < length plaintext then Inl GenPlaintextTooLarge
       else Inr (metadata_of_identity i key_id nonce_prefix chunk_size
                   (of_nat (length plaintext)) (sha256_of cr plaintext)))"

definition metadata_for_prehashed_stream ::
    "generation_identity \<Rightarrow> key_id \<Rightarrow> string \<Rightarrow> u32 \<Rightarrow> u64 \<Rightarrow> string
     \<Rightarrow> encrypted_generation_error + generation_metadata" where
  "metadata_for_prehashed_stream i key_id nonce_prefix chunk_size plaintext_bytes digest =
     res_bind (validate_chunk_size chunk_size) (\<lambda>_.
       if max_stream_plaintext_bytes < plaintext_bytes then Inl GenPlaintextTooLarge
       else Inr (metadata_of_identity i key_id nonce_prefix chunk_size plaintext_bytes digest))"

definition metadata_object_key :: "generation_metadata \<Rightarrow> string" where
  "metadata_object_key m =
     ''tenants/'' @ id_as_str (gm_tenant_id m) @ ''/profiles/'' @ id_as_str (gm_profile_id m)
     @ ''/generations/'' @ id_as_str (gm_generation_id m) @ ''.bpgc''"

definition canonical_generation_object_key :: "tenant_id \<Rightarrow> profile_id \<Rightarrow> generation_id \<Rightarrow> string" where
  "canonical_generation_object_key tenant_id profile_id generation_id =
     ''tenants/'' @ id_as_str tenant_id @ ''/profiles/'' @ id_as_str profile_id
     @ ''/generations/'' @ id_as_str generation_id @ ''.bpgc''"

definition validate_plaintext ::
    "crypto \<Rightarrow> generation_metadata \<Rightarrow> string \<Rightarrow> encrypted_generation_error + unit" where
  "validate_plaintext cr m plaintext =
     (if 2 ^ 64 \<le> length plaintext then Inl GenPlaintextTooLarge
      else if of_nat (length plaintext) \<noteq> gm_plaintext_bytes m
              \<or> sha256_of cr plaintext \<noteq> gm_plaintext_digest m
      then Inl GenMetadataMismatch else Inr ())"

definition push_base :: "string \<Rightarrow> generation_id option \<Rightarrow> encrypted_generation_error + string" where
  "push_base output base =
     (case base of
        Some generation_id \<Rightarrow> push_string (output @ [char_of (1::nat)]) (id_as_str generation_id)
      | None \<Rightarrow> Inr (output @ [char_of (0::nat)]))"

definition metadata_encode :: "generation_metadata \<Rightarrow> encrypted_generation_error + string" where
  "metadata_encode m =
     res_bind (validate_chunk_size (gm_chunk_size m)) (\<lambda>_.
     if max_stream_plaintext_bytes < gm_plaintext_bytes m then Inl GenPlaintextTooLarge
     else
       res_bind (push_string (be_bytes 2 container_version @ be_bytes 2 algorithm_id) (id_as_str (gm_tenant_id m))) (\<lambda>o1.
       res_bind (push_string o1 (id_as_str (gm_profile_id m))) (\<lambda>o2.
       res_bind (push_string o2 (id_as_str (gm_generation_id m))) (\<lambda>o3.
       res_bind (push_base o3 (gm_base_generation_id m)) (\<lambda>o4.
       res_bind (push_string o4 (key_id_str (gm_key_id m))) (\<lambda>o5.
         let output = o5 @ gm_nonce_prefix m @ be_bytes 4 (gm_chunk_size m)
                      @ be_bytes 8 (gm_plaintext_bytes m) @ gm_plaintext_digest m
         in if max_metadata_bytes < length output then Inl GenInvalidContainer else Inr output))))))"

definition read_id :: "cursor \<Rightarrow> encrypted_generation_error + 'k typed_id \<times> cursor" where
  "read_id c = res_bind (cursor_read_string c) (\<lambda>(s, c1).
     res_bind (res_map_err (\<lambda>_. GenInvalidContainer) (id_parse s)) (\<lambda>i. Inr (i, c1)))"

definition read_base :: "cursor \<Rightarrow> encrypted_generation_error + generation_id option \<times> cursor" where
  "read_base c = res_bind (cursor_read_u8 c) (\<lambda>(flag, c1).
     if flag = 0 then Inr (None, c1)
     else if flag = 1 then res_bind (read_id c1) (\<lambda>(i, c2). Inr (Some i, c2))
     else Inl GenInvalidContainer)"

definition read_key_id :: "cursor \<Rightarrow> encrypted_generation_error + key_id \<times> cursor" where
  "read_key_id c = res_bind (cursor_read_string c) (\<lambda>(s, c1). res_bind (key_id_parse s) (\<lambda>k. Inr (k, c1)))"

definition metadata_decode :: "string \<Rightarrow> encrypted_generation_error + generation_metadata" where
  "metadata_decode bytes =
     res_bind (cursor_read_u16 (cursor_new bytes)) (\<lambda>(version, c1).
     if version \<noteq> container_version then Inl GenUnsupportedVersion else
     res_bind (cursor_read_u16 c1) (\<lambda>(algorithm, c2).
     if algorithm \<noteq> algorithm_id then Inl GenUnsupportedVersion else
     res_bind (read_id c2) (\<lambda>(tenant_id, c3).
     res_bind (read_id c3) (\<lambda>(profile_id, c4).
     res_bind (read_id c4) (\<lambda>(generation_id, c5).
     res_bind (read_base c5) (\<lambda>(base_generation_id, c6).
     res_bind (read_key_id c6) (\<lambda>(key_id, c7).
     res_bind (cursor_take nonce_prefix_bytes c7) (\<lambda>(nonce_prefix, c8).
     res_bind (cursor_read_u32 c8) (\<lambda>(chunk_size, c9).
     res_bind (validate_chunk_size chunk_size) (\<lambda>_.
     res_bind (cursor_read_u64 c9) (\<lambda>(plaintext_bytes, c10).
     if max_stream_plaintext_bytes < plaintext_bytes then Inl GenPlaintextTooLarge else
     res_bind (cursor_take 32 c10) (\<lambda>(plaintext_digest, c11).
     if \<not> cursor_is_finished c11 then Inl GenInvalidContainer else
     Inr \<lparr>gm_tenant_id = tenant_id, gm_profile_id = profile_id, gm_generation_id = generation_id,
          gm_base_generation_id = base_generation_id, gm_key_id = key_id,
          gm_nonce_prefix = nonce_prefix, gm_chunk_size = chunk_size,
          gm_plaintext_bytes = plaintext_bytes, gm_plaintext_digest = plaintext_digest\<rparr>))))))))))))"

definition canonical_digest :: "crypto \<Rightarrow> generation_metadata \<Rightarrow> encrypted_generation_error + string" where
  "canonical_digest cr m = res_bind (metadata_encode m) (\<lambda>bytes. Inr (sha256_of cr bytes))"

record inspected_prelude =
  ip_metadata :: generation_metadata
  ip_metadata_digest :: string
  ip_prelude_bytes :: nat

definition inspect_generation_metadata_prelude ::
    "crypto \<Rightarrow> string \<Rightarrow> encrypted_generation_error + inspected_prelude" where
  "inspect_generation_metadata_prelude cr container =
     (if max_container_bytes < length container then Inl GenInvalidContainer
      else
        res_bind (cursor_take (length container_magic) (cursor_new container)) (\<lambda>(magic, c1).
        if magic \<noteq> container_magic then Inl GenInvalidContainer else
        res_bind (cursor_read_u32 c1) (\<lambda>(metadata_length, c2).
        if metadata_length = 0 \<or> max_metadata_bytes < unat metadata_length then Inl GenInvalidContainer else
        res_bind (cursor_take (unat metadata_length) c2) (\<lambda>(metadata_bytes, c3).
        res_bind (metadata_decode metadata_bytes) (\<lambda>metadata.
          Inr \<lparr>ip_metadata = metadata, ip_metadata_digest = sha256_of cr metadata_bytes,
               ip_prelude_bytes = cur_position c3\<rparr>)))))"

section \<open>Sealing\<close>

record sealed_generation =
  sg_metadata :: generation_metadata
  sg_metadata_digest :: string
  sg_container :: string
  sg_container_digest :: string

function chunks :: "nat \<Rightarrow> 'a list \<Rightarrow> 'a list list" where
  "chunks n xs = (if xs = [] \<or> n = 0 then [] else take n xs # chunks n (drop n xs))"
  by pat_completeness auto
termination by (relation "measure (\<lambda>(n, xs). length xs)") auto

declare chunks.simps [simp del]

definition container_record :: "u8 \<Rightarrow> u64 \<Rightarrow> u32 \<Rightarrow> string \<Rightarrow> string" where
  "container_record kind index plaintext_length ciphertext =
     [char_of (unat kind)] @ be_bytes 8 index @ be_bytes 4 plaintext_length
     @ be_bytes 4 (of_nat (length ciphertext) :: u32) @ ciphertext"

definition encrypt_record ::
    "crypto \<Rightarrow> string \<Rightarrow> generation_metadata \<Rightarrow> string \<Rightarrow> u8 \<Rightarrow> u64 \<Rightarrow> string
     \<Rightarrow> encrypted_generation_error + string" where
  "encrypt_record cr cipher m metadata_digest kind index msg =
     (if 2 ^ 32 \<le> length msg then Inl GenPlaintextTooLarge
      else
        let aad = record_aad metadata_digest kind index (of_nat (length msg)) in
        res_bind (nonce_from_bytes (nonce_for (gm_nonce_prefix m) index)) (\<lambda>nonce.
        res_ok_or GenAuthenticationFailed (aead_encrypt cr cipher nonce aad msg)))"

fun seal_chunks ::
    "crypto \<Rightarrow> string \<Rightarrow> generation_metadata \<Rightarrow> string \<Rightarrow> string list \<Rightarrow> u64 \<Rightarrow> string
     \<Rightarrow> encrypted_generation_error + u64 \<times> string" where
  "seal_chunks cr cipher m digest [] chunk_count container = Inr (chunk_count, container)"
| "seal_chunks cr cipher m digest (chunk # rest) chunk_count container =
     res_bind (encrypt_record cr cipher m digest record_chunk chunk_count chunk) (\<lambda>ciphertext.
     if 2 ^ 32 \<le> length ciphertext then Inl GenPlaintextTooLarge
     else
       res_bind (res_ok_or GenPlaintextTooLarge (checked_add chunk_count 1)) (\<lambda>next_count.
       seal_chunks cr cipher m digest rest next_count
         (container @ container_record record_chunk chunk_count (of_nat (length chunk)) ciphertext)))"

definition seal_generation ::
    "crypto \<Rightarrow> generation_metadata \<Rightarrow> generation_dek \<Rightarrow> string
     \<Rightarrow> encrypted_generation_error + sealed_generation" where
  "seal_generation cr m key plaintext =
     (if gm_key_id m \<noteq> dek_key_id key then Inl GenMetadataMismatch
      else
        res_bind (validate_plaintext cr m plaintext) (\<lambda>_.
        res_bind (metadata_encode m) (\<lambda>metadata_bytes.
        if 2 ^ 32 \<le> length metadata_bytes then Inl GenInvalidContainer else
        res_bind (dek_cipher key) (\<lambda>cipher.
        if 2 ^ 64 \<le> length plaintext + length metadata_bytes + 256 then Inl GenPlaintextTooLarge
        else
          let digest = sha256_of cr metadata_bytes;
              prelude = container_magic @ be_bytes 4 (of_nat (length metadata_bytes) :: u32) @ metadata_bytes
          in res_bind (seal_chunks cr cipher m digest (chunks (unat (gm_chunk_size m)) plaintext) 0 prelude)
               (\<lambda>(chunk_count, body).
             res_bind (encrypt_record cr cipher m digest record_final chunk_count []) (\<lambda>final_tag.
             if 2 ^ 32 \<le> length final_tag then Inl GenInvalidContainer
             else
               let container = body @ container_record record_final chunk_count 0 final_tag
               in if max_container_bytes < length container then Inl GenPlaintextTooLarge
                  else Inr \<lparr>sg_metadata = m, sg_metadata_digest = digest, sg_container = container,
                            sg_container_digest = sha256_of cr container\<rparr>))))))"

section \<open>Opening\<close>

record record_header =
  rh_type :: u8
  rh_index :: u64
  rh_plaintext_length :: u32
  rh_ciphertext_length :: u32

definition read_record_header :: "cursor \<Rightarrow> encrypted_generation_error + record_header \<times> cursor" where
  "read_record_header c =
     res_bind (cursor_read_u8 c) (\<lambda>(record_type, c1).
     res_bind (cursor_read_u64 c1) (\<lambda>(index, c2).
     res_bind (cursor_read_u32 c2) (\<lambda>(plaintext_length, c3).
     res_bind (cursor_read_u32 c3) (\<lambda>(ciphertext_length, c4).
       Inr (\<lparr>rh_type = record_type, rh_index = index, rh_plaintext_length = plaintext_length,
             rh_ciphertext_length = ciphertext_length\<rparr>, c4)))))"

definition decrypt_record ::
    "crypto \<Rightarrow> string \<Rightarrow> generation_metadata \<Rightarrow> string \<Rightarrow> record_header \<Rightarrow> string
     \<Rightarrow> encrypted_generation_error + string" where
  "decrypt_record cr cipher m metadata_digest h ciphertext =
     (let aad = record_aad metadata_digest (rh_type h) (rh_index h) (rh_plaintext_length h) in
      res_bind (nonce_from_bytes (nonce_for (gm_nonce_prefix m) (rh_index h))) (\<lambda>nonce.
      res_ok_or GenAuthenticationFailed (aead_decrypt cr cipher nonce aad ciphertext)))"

definition chunk_length_ok :: "generation_metadata \<Rightarrow> record_header \<Rightarrow> bool" where
  "chunk_length_ok m h \<longleftrightarrow> rh_plaintext_length h \<noteq> 0 \<and> rh_plaintext_length h \<le> gm_chunk_size m
     \<and> unat (rh_ciphertext_length h) = unat (rh_plaintext_length h) + tag_bytes"

definition final_length_ok :: "record_header \<Rightarrow> bool" where
  "final_length_ok h \<longleftrightarrow> rh_plaintext_length h = 0 \<and> unat (rh_ciphertext_length h) = tag_bytes"

definition advanced :: "nat \<Rightarrow> cursor \<Rightarrow> cursor \<Rightarrow> bool" where
  "advanced n c c' \<longleftrightarrow> cur_bytes c' = cur_bytes c \<and> cur_position c' = cur_position c + n
     \<and> cur_position c' \<le> length (cur_bytes c)"

lemma cursor_take_advanced: "cursor_take n c = Inr (v, c') \<Longrightarrow> advanced n c c'"
  by (auto simp: cursor_take_def advanced_def Let_def split: if_splits)

lemma read_word_advanced:
  "cursor_read_u8 c = Inr (a, c') \<Longrightarrow> advanced 1 c c'"
  "cursor_read_u64 c = Inr (d, c') \<Longrightarrow> advanced 8 c c'"
  "cursor_read_u32 c = Inr (e, c') \<Longrightarrow> advanced 4 c c'"
proof -
  assume "cursor_read_u8 c = Inr (a, c')"
  then obtain bs c1 where "cursor_take 1 c = Inr (bs, c1)" "c1 = c'"
    by (auto simp: cursor_read_u8_def res_bind_def split: sum.split_asm list.split_asm)
  then show "advanced 1 c c'" using cursor_take_advanced by blast
next
  assume "cursor_read_u64 c = Inr (d, c')"
  then show "advanced 8 c c'" by (auto simp: cursor_read_u64_def res_bind_Inr_iff dest: cursor_take_advanced)
next
  assume "cursor_read_u32 c = Inr (e, c')"
  then show "advanced 4 c c'" by (auto simp: cursor_read_u32_def res_bind_Inr_iff dest: cursor_take_advanced)
qed

lemma read_record_header_advanced: "read_record_header c = Inr (h, c') \<Longrightarrow> advanced 17 c c'"
  unfolding read_record_header_def
  by (clarsimp simp: res_bind_Inr_iff) (drule read_word_advanced; drule read_word_advanced; drule read_word_advanced; drule read_word_advanced; simp add: advanced_def)

function open_records ::
    "crypto \<Rightarrow> string \<Rightarrow> generation_metadata \<Rightarrow> string \<Rightarrow> cursor \<Rightarrow> string \<Rightarrow> u64 \<Rightarrow> bool
     \<Rightarrow> encrypted_generation_error + string \<times> bool" where
  "open_records cr cipher m digest c plaintext expected_index final_seen =
     (if cursor_is_finished c then Inr (plaintext, final_seen)
      else if final_seen then Inl GenInvalidContainer
      else case read_record_header c of
        Inl e \<Rightarrow> Inl e
      | Inr (h, c1) \<Rightarrow>
          if rh_index h \<noteq> expected_index then Inl GenInvalidContainer
          else case cursor_take (unat (rh_ciphertext_length h)) c1 of
            Inl e \<Rightarrow> Inl e
          | Inr (ciphertext, c2) \<Rightarrow>
              (case decrypt_record cr cipher m digest h ciphertext of
                 Inl e \<Rightarrow> Inl e
               | Inr opened \<Rightarrow>
                   if rh_type h = record_chunk then
                     if \<not> chunk_length_ok m h \<or> length opened \<noteq> unat (rh_plaintext_length h)
                     then Inl GenInvalidContainer
                     else if max_plaintext_bytes < length plaintext + length opened
                     then Inl GenPlaintextTooLarge
                     else (case checked_add expected_index 1 of
                             None \<Rightarrow> Inl GenInvalidContainer
                           | Some next_index \<Rightarrow>
                               open_records cr cipher m digest c2 (plaintext @ opened) next_index False)
                   else if rh_type h = record_final then
                     if \<not> final_length_ok h \<or> opened \<noteq> [] then Inl GenInvalidContainer
                     else open_records cr cipher m digest c2 plaintext expected_index True
                   else Inl GenInvalidContainer))"
  by pat_completeness auto
termination
  by (relation "measure (\<lambda>(cr, cipher, m, digest, c, plaintext, i, f). length (cur_bytes c) - cur_position c)")
     (auto dest!: read_record_header_advanced cursor_take_advanced simp: advanced_def)

declare open_records.simps [simp del]

record opened_generation =
  og_metadata :: generation_metadata
  og_plaintext :: string

definition open_generation ::
    "crypto \<Rightarrow> string \<Rightarrow> generation_dek \<Rightarrow> encrypted_generation_error + opened_generation" where
  "open_generation cr container key =
     res_bind (inspect_generation_metadata_prelude cr container) (\<lambda>inspected.
     let m = ip_metadata inspected in
     if gm_key_id m \<noteq> dek_key_id key then Inl GenMetadataMismatch
     else if max_plaintext_bytes < unat (gm_plaintext_bytes m) then Inl GenPlaintextTooLarge
     else
       res_bind (dek_cipher key) (\<lambda>cipher.
       res_bind (open_records cr cipher m (ip_metadata_digest inspected)
           \<lparr>cur_bytes = container, cur_position = ip_prelude_bytes inspected\<rparr> [] 0 False)
         (\<lambda>(plaintext, final_seen).
       if \<not> final_seen then Inl GenInvalidContainer
       else if of_nat (length plaintext) \<noteq> gm_plaintext_bytes m then Inl GenDigestMismatch
       else if sha256_of cr plaintext \<noteq> gm_plaintext_digest m then Inl GenDigestMismatch
       else Inr \<lparr>og_metadata = m, og_plaintext = plaintext\<rparr>)))"

definition open_generation_expected ::
    "crypto \<Rightarrow> string \<Rightarrow> generation_dek \<Rightarrow> tenant_id \<Rightarrow> profile_id \<Rightarrow> generation_id
     \<Rightarrow> encrypted_generation_error + opened_generation" where
  "open_generation_expected cr container key tenant_id profile_id generation_id =
     res_bind (open_generation cr container key) (\<lambda>opened.
     let m = og_metadata opened in
     if gm_tenant_id m \<noteq> tenant_id \<or> gm_profile_id m \<noteq> profile_id \<or> gm_generation_id m \<noteq> generation_id
     then Inl GenIdentityMismatch else Inr opened)"

end
