(* ===== verification/Generation_Codec.thy ===== *)
theory Generation_Codec
  imports Generation_Container
begin

text \<open>
  The encodings of a generation container.  \<open>cursor_field\<close> is the contract between a reader that
  works on a cursor and the bytes its field occupies; every reader of the container fulfils
  it, and the metadata codec is composed of them: \<open>metadata_decode\<close> accepts exactly the bytes
  that \<open>metadata_encode\<close> writes.
\<close>

section \<open>Readers on a cursor\<close>

definition cursor_ok :: "cursor \<Rightarrow> bool" where
  "cursor_ok c \<longleftrightarrow> cur_position c \<le> length (cur_bytes c)"

definition cursor_rest :: "cursor \<Rightarrow> string" where
  "cursor_rest c = drop (cur_position c) (cur_bytes c)"

definition cursor_skip :: "nat \<Rightarrow> cursor \<Rightarrow> cursor" where
  "cursor_skip n c = c\<lparr>cur_position := cur_position c + n\<rparr>"

lemma cursor_skip_skip [simp]: "cursor_skip n (cursor_skip k c) = cursor_skip (k + n) c"
  by (simp add: cursor_skip_def)

lemma cursor_skip_parts [simp]:
  "cur_bytes (cursor_skip n c) = cur_bytes c" "cur_position (cursor_skip n c) = cur_position c + n"
  by (simp_all add: cursor_skip_def)

lemma cursor_skip_rest:
  "cursor_ok c \<Longrightarrow> cursor_rest c = w @ r \<Longrightarrow> cursor_ok (cursor_skip (length w) c) \<and> cursor_rest (cursor_skip (length w) c) = r"
proof -
  assume ok: "cursor_ok c" and e: "cursor_rest c = w @ r"
  have "length w + length r = length (cur_bytes c) - cur_position c"
    using arg_cong [OF e, of length] by (simp add: cursor_rest_def)
  moreover have "drop (length w + cur_position c) (cur_bytes c) = r"
    using arg_cong [OF e, of "drop (length w)"] by (simp add: cursor_rest_def)
  ultimately show ?thesis
    using ok by (simp add: cursor_ok_def cursor_rest_def add.commute)
qed

lemma cursor_new_ok [simp]: "cursor_ok (cursor_new bs)" "cursor_rest (cursor_new bs) = bs"
  by (simp_all add: cursor_ok_def cursor_rest_def cursor_new_def)

lemma cursor_finished_iff: "cursor_ok c \<Longrightarrow> cursor_is_finished c \<longleftrightarrow> cursor_rest c = []"
  by (auto simp: cursor_is_finished_def cursor_rest_def cursor_ok_def)

locale cursor_field =
  fixes read :: "cursor \<Rightarrow> 'e + 'a \<times> cursor"
    and enc :: "'a \<Rightarrow> string"
    and ok :: "'a \<Rightarrow> bool"
  assumes read_iff: "cursor_ok c \<Longrightarrow>
    read c = Inr (a, c') \<longleftrightarrow> ok a \<and> (\<exists>r. cursor_rest c = enc a @ r) \<and> c' = cursor_skip (length (enc a)) c"
begin

lemma read_parts:
  assumes "cursor_ok c" "read c = Inr (a, c')"
  shows "ok a" "cursor_ok c'" "cursor_rest c = enc a @ cursor_rest c'" "c' = cursor_skip (length (enc a)) c"
  using assms read_iff [OF assms(1), of a c'] cursor_skip_rest [OF assms(1), of "enc a"] by auto

lemma read_written:
  assumes "cursor_ok c" "cursor_rest c = enc a @ r" "ok a"
  obtains c' where "read c = Inr (a, c')" "cursor_ok c'" "cursor_rest c' = r" "c' = cursor_skip (length (enc a)) c"
  using assms read_iff [OF assms(1), of a] cursor_skip_rest [OF assms(1,2)] by auto

end

lemma cursor_take_iff:
  "cursor_ok c \<Longrightarrow> cursor_take n c = Inr (a, c') \<longleftrightarrow>
     length a = n \<and> (\<exists>r. cursor_rest c = a @ r) \<and> c' = cursor_skip n c"
proof -
  assume ok: "cursor_ok c"
  have "length a = n \<and> (\<exists>r. cursor_rest c = a @ r) \<longleftrightarrow> n \<le> length (cursor_rest c) \<and> a = take n (cursor_rest c)"
    by (metis append_eq_conv_conj append_take_drop_id length_append length_take le_add1 min.absorb2)
  moreover have "n \<le> length (cursor_rest c) \<longleftrightarrow> cur_position c + n \<le> length (cur_bytes c)"
    using ok by (auto simp: cursor_rest_def cursor_ok_def)
  ultimately show ?thesis
    by (auto simp: cursor_take_def Let_def cursor_rest_def cursor_skip_def)
qed

lemma cursor_take_length: "cursor_take n c = Inr (a, c') \<Longrightarrow> length a = n"
  by (auto simp: cursor_take_def Let_def split: if_splits)

interpretation taken: cursor_field "cursor_take n" "\<lambda>a. a" "\<lambda>a. length a = n" for n
  by unfold_locales (auto simp: cursor_take_iff)

definition put_u8 :: "u8 \<Rightarrow> string" where "put_u8 a = [char_of (unat a)]"

lemma put_u8_iff: "bs = put_u8 a \<longleftrightarrow> (\<exists>b. bs = [b] \<and> a = of_nat (byte_of b))"
proof -
  have "b = char_of (unat a) \<longleftrightarrow> a = of_nat (byte_of b)" for b
  proof
    assume "a = of_nat (byte_of b)"
    then have "unat a = byte_of b" using byte_of_lt [of b] by (simp add: unat_of_nat take_bit_eq_mod)
    then show "b = char_of (unat a)" by (simp add: byte_of_def)
  next
    assume "b = char_of (unat a)"
    then show "a = of_nat (byte_of b)" using unat_bound [of a] by (simp add: byte_of_char)
  qed
  then show ?thesis by (auto simp: put_u8_def)
qed

lemma put_u8_length [simp]: "length (put_u8 a) = 1"
  by (simp add: put_u8_def)

lemma read_u8_iff: "cursor_read_u8 c = Inr (a, c') \<longleftrightarrow> cursor_take 1 c = Inr (put_u8 a, c')"
proof
  assume "cursor_read_u8 c = Inr (a, c')"
  then obtain b bs where bs: "cursor_take 1 c = Inr (b # bs, c')" "a = of_nat (byte_of b)"
    by (auto simp: cursor_read_u8_def res_bind_def split: sum.split_asm list.split_asm)
  moreover have "length (b # bs) = 1" using bs(1) by (rule cursor_take_length)
  ultimately show "cursor_take 1 c = Inr (put_u8 a, c')" using put_u8_iff [of "[b]" a] by simp
next
  assume t: "cursor_take 1 c = Inr (put_u8 a, c')"
  obtain b where "put_u8 a = [b]" "a = of_nat (byte_of b)" using put_u8_iff [of "put_u8 a" a] by auto
  then show "cursor_read_u8 c = Inr (a, c')" using t by (simp add: cursor_read_u8_def)
qed

lemma read_word_iff:
  "cursor_read_u16 c = Inr (a16, c') \<longleftrightarrow> cursor_take 2 c = Inr (be_bytes 2 a16, c')"
  "cursor_read_u32 c = Inr (a32, c') \<longleftrightarrow> cursor_take 4 c = Inr (be_bytes 4 a32, c')"
  "cursor_read_u64 c = Inr (a64, c') \<longleftrightarrow> cursor_take 8 c = Inr (be_bytes 8 a64, c')"
  by (auto simp: cursor_read_u16_def cursor_read_u32_def cursor_read_u64_def res_bind_Inr_iff)
     (frule cursor_take_length, simp)+

interpretation byte8: cursor_field cursor_read_u8 put_u8 "\<lambda>_. True"
  by unfold_locales (simp add: read_u8_iff cursor_take_iff)

interpretation word16: cursor_field cursor_read_u16 "be_bytes 2" "\<lambda>_. True"
  by unfold_locales (simp add: read_word_iff cursor_take_iff)

interpretation word32: cursor_field cursor_read_u32 "be_bytes 4" "\<lambda>_. True"
  by unfold_locales (simp add: read_word_iff cursor_take_iff)

interpretation word64: cursor_field cursor_read_u64 "be_bytes 8" "\<lambda>_. True"
  by unfold_locales (simp add: read_word_iff cursor_take_iff)

section \<open>Strings, identifiers, options\<close>

definition put_string :: "string \<Rightarrow> string" where
  "put_string s = be_bytes 2 (of_nat (length s) :: u16) @ s"

lemma push_string_alt: "push_string out s = (if length s < 2 ^ 16 then Inr (out @ put_string s) else Inl GenInvalidContainer)"
  by (simp add: push_string_def put_string_def)

lemma length_put_string [simp]: "length (put_string s) = 2 + length s"
  by (simp add: put_string_def)

interpretation str: cursor_field cursor_read_string put_string "\<lambda>s. length s < 2 ^ 16 \<and> utf8_valid s"
proof
  fix c a c'
  assume ok: "cursor_ok c"
  show "cursor_read_string c = Inr (a, c') \<longleftrightarrow> (length a < 2 ^ 16 \<and> utf8_valid a)
      \<and> (\<exists>r. cursor_rest c = put_string a @ r) \<and> c' = cursor_skip (length (put_string a)) c"
  proof
    assume "cursor_read_string c = Inr (a, c')"
    then obtain n c1 where n: "cursor_read_u16 c = Inr (n, c1)" "cursor_take (unat n) c1 = Inr (a, c')" "utf8_valid a"
      by (auto simp: cursor_read_string_def res_bind_Inr_iff split: if_splits)
    note p = word16.read_parts [OF ok n(1)]
    note q = taken.read_parts [OF p(2) n(2)]
    have "unat n < 2 ^ 16" using unat_bound [of n] by simp
    moreover have "of_nat (length a) = n" using q(1) by simp
    ultimately show "(length a < 2 ^ 16 \<and> utf8_valid a) \<and> (\<exists>r. cursor_rest c = put_string a @ r)
        \<and> c' = cursor_skip (length (put_string a)) c"
      using n(3) p(3,4) q(1,3,4) by (simp add: put_string_def)
  next
    assume a: "(length a < 2 ^ 16 \<and> utf8_valid a) \<and> (\<exists>r. cursor_rest c = put_string a @ r)
        \<and> c' = cursor_skip (length (put_string a)) c"
    then obtain r where r: "cursor_rest c = be_bytes 2 (of_nat (length a) :: u16) @ a @ r" by (auto simp: put_string_def)
    obtain c1 where c1: "cursor_read_u16 c = Inr (of_nat (length a), c1)" "cursor_ok c1" "cursor_rest c1 = a @ r"
        "c1 = cursor_skip 2 c"
      using word16.read_written [OF ok r] by (metis length_be_bytes)
    have "unat (of_nat (length a) :: u16) = length a" using a by (simp add: unat_of_nat take_bit_eq_mod)
    moreover obtain c2 where "cursor_take (length a) c1 = Inr (a, c2)" "c2 = cursor_skip (length a) c1"
      using taken.read_written [OF c1(2,3) refl] by blast
    ultimately show "cursor_read_string c = Inr (a, c')"
      using a c1(1,4) by (simp add: cursor_read_string_def)
  qed
qed

lemma opaque_valid_string: "opaque_valid s \<Longrightarrow> length s < 2 ^ 16 \<and> utf8_valid s"
  by (simp add: opaque_valid_def max_id_length_def utf8_id_chars)

interpretation ident: cursor_field read_id "\<lambda>i. put_string (id_as_str i)" id_valid
proof
  fix c :: cursor and i :: "'k typed_id" and c'
  assume ok: "cursor_ok c"
  have "read_id c = Inr (i, c') \<longleftrightarrow> id_valid i \<and> cursor_read_string c = Inr (id_as_str i, c')"
    by (auto simp: read_id_def res_bind_Inr_iff id_parse_Inr_iff id_valid_def)
  then show "read_id c = Inr (i, c') \<longleftrightarrow> id_valid i \<and> (\<exists>r. cursor_rest c = put_string (id_as_str i) @ r)
      \<and> c' = cursor_skip (length (put_string (id_as_str i))) c"
    using opaque_valid_string by (auto simp: str.read_iff [OF ok] id_valid_def)
qed

definition key_id_valid :: "key_id \<Rightarrow> bool" where
  "key_id_valid k \<longleftrightarrow> min_key_id_bytes \<le> length (key_id_str k) \<and> length (key_id_str k) \<le> max_key_id_bytes
     \<and> list_all id_char (key_id_str k)"

lemma key_id_parse_iff: "key_id_parse s = Inr k \<longleftrightarrow> key_id_valid k \<and> key_id_str k = s"
  by (cases k) (auto simp: key_id_parse_def key_id_valid_def Let_def)

interpretation keyid: cursor_field read_key_id "\<lambda>k. put_string (key_id_str k)" key_id_valid
proof
  fix c :: cursor and k c'
  assume ok: "cursor_ok c"
  have "read_key_id c = Inr (k, c') \<longleftrightarrow> key_id_valid k \<and> cursor_read_string c = Inr (key_id_str k, c')"
    by (auto simp: read_key_id_def res_bind_Inr_iff key_id_parse_iff)
  moreover have "key_id_valid k \<Longrightarrow> length (key_id_str k) < 2 ^ 16 \<and> utf8_valid (key_id_str k)"
    by (simp add: key_id_valid_def max_key_id_bytes_def utf8_id_chars)
  ultimately show "read_key_id c = Inr (k, c') \<longleftrightarrow> key_id_valid k \<and> (\<exists>r. cursor_rest c = put_string (key_id_str k) @ r)
      \<and> c' = cursor_skip (length (put_string (key_id_str k))) c"
    by (auto simp: str.read_iff [OF ok])
qed

definition put_base :: "generation_id option \<Rightarrow> string" where
  "put_base base = (case base of None \<Rightarrow> put_u8 0 | Some i \<Rightarrow> put_u8 1 @ put_string (id_as_str i))"

interpretation baseid: cursor_field read_base put_base "pred_option id_valid"
proof
  fix c :: cursor and base c'
  assume ok: "cursor_ok c"
  show "read_base c = Inr (base, c') \<longleftrightarrow> pred_option id_valid base \<and> (\<exists>r. cursor_rest c = put_base base @ r)
      \<and> c' = cursor_skip (length (put_base base)) c"
  proof (cases base)
    case None
    have "read_base c = Inr (None, c') \<longleftrightarrow> cursor_read_u8 c = Inr (0, c')"
      by (cases "cursor_read_u8 c") (auto simp: read_base_def res_bind_Inr_iff split: if_splits)
    then show ?thesis using None by (simp add: byte8.read_iff [OF ok] put_base_def)
  next
    case (Some i)
    have "read_base c = Inr (Some i, c') \<longleftrightarrow> (\<exists>c1. cursor_read_u8 c = Inr (1, c1) \<and> read_id c1 = Inr (i, c'))"
      by (cases "cursor_read_u8 c") (auto simp: read_base_def res_bind_Inr_iff split: if_splits)
    also have "\<dots> \<longleftrightarrow> id_valid i \<and> (\<exists>r. cursor_rest c = put_base (Some i) @ r) \<and> c' = cursor_skip (length (put_base (Some i))) c"
    proof
      assume "\<exists>c1. cursor_read_u8 c = Inr (1, c1) \<and> read_id c1 = Inr (i, c')"
      then obtain c1 where c1: "cursor_read_u8 c = Inr (1, c1)" "read_id c1 = Inr (i, c')" by blast
      note p = byte8.read_parts [OF ok c1(1)]
      note q = ident.read_parts [OF p(2) c1(2)]
      show "id_valid i \<and> (\<exists>r. cursor_rest c = put_base (Some i) @ r) \<and> c' = cursor_skip (length (put_base (Some i))) c"
        using p(3,4) q(1,3,4) by (simp add: put_base_def)
    next
      assume a: "id_valid i \<and> (\<exists>r. cursor_rest c = put_base (Some i) @ r) \<and> c' = cursor_skip (length (put_base (Some i))) c"
      then obtain r where r: "cursor_rest c = put_u8 1 @ put_string (id_as_str i) @ r" by (auto simp: put_base_def)
      obtain c1 where c1: "cursor_read_u8 c = Inr (1, c1)" "cursor_ok c1" "cursor_rest c1 = put_string (id_as_str i) @ r"
          "c1 = cursor_skip (length (put_u8 1)) c"
        using byte8.read_written [OF ok r] by blast
      then show "\<exists>c1. cursor_read_u8 c = Inr (1, c1) \<and> read_id c1 = Inr (i, c')"
        using a ident.read_written [OF c1(2,3)] by (auto simp: put_base_def)
    qed
    finally show ?thesis using Some by simp
  qed
qed

section \<open>Metadata\<close>

definition metadata_bytes :: "generation_metadata \<Rightarrow> string" where
  "metadata_bytes m = be_bytes 2 container_version @ be_bytes 2 algorithm_id
     @ put_string (id_as_str (gm_tenant_id m)) @ put_string (id_as_str (gm_profile_id m))
     @ put_string (id_as_str (gm_generation_id m)) @ put_base (gm_base_generation_id m)
     @ put_string (key_id_str (gm_key_id m)) @ gm_nonce_prefix m @ be_bytes 4 (gm_chunk_size m)
     @ be_bytes 8 (gm_plaintext_bytes m) @ gm_plaintext_digest m"

text \<open>\<open>metadata_typed\<close> is what the Rust types of the fields guarantee, \<open>metadata_ok\<close> also the policy.\<close>

definition metadata_typed :: "generation_metadata \<Rightarrow> bool" where
  "metadata_typed m \<longleftrightarrow> id_valid (gm_tenant_id m) \<and> id_valid (gm_profile_id m) \<and> id_valid (gm_generation_id m)
     \<and> pred_option id_valid (gm_base_generation_id m) \<and> key_id_valid (gm_key_id m)
     \<and> length (gm_nonce_prefix m) = nonce_prefix_bytes \<and> length (gm_plaintext_digest m) = 32"

definition metadata_ok :: "generation_metadata \<Rightarrow> bool" where
  "metadata_ok m \<longleftrightarrow> metadata_typed m \<and> min_chunk_bytes \<le> gm_chunk_size m \<and> gm_chunk_size m \<le> max_chunk_bytes
     \<and> gm_plaintext_bytes m \<le> max_stream_plaintext_bytes"

lemma validate_chunk_size_iff [simp]:
  "validate_chunk_size n = Inr u \<longleftrightarrow> min_chunk_bytes \<le> n \<and> n \<le> max_chunk_bytes"
  by (auto simp: validate_chunk_size_def)

lemma id_valid_length: "id_valid i \<Longrightarrow> length (id_as_str i) \<le> 96"
  by (simp add: id_valid_def opaque_valid_def max_id_length_def)

lemma key_id_valid_length: "key_id_valid k \<Longrightarrow> length (key_id_str k) \<le> 96"
  by (simp add: key_id_valid_def max_key_id_bytes_def)

lemma metadata_bytes_length: "metadata_typed m \<Longrightarrow> length (metadata_bytes m) \<le> 555"
  using id_valid_length [of "gm_tenant_id m"] id_valid_length [of "gm_profile_id m"] id_valid_length [of "gm_generation_id m"]
    key_id_valid_length [of "gm_key_id m"] id_valid_length [of "the (gm_base_generation_id m)"]
  by (cases "gm_base_generation_id m") (simp_all add: metadata_bytes_def metadata_typed_def put_base_def nonce_prefix_bytes_def)

lemma push_base_iff: "pred_option id_valid base \<Longrightarrow> push_base out base = Inr (out @ put_base base)"
  using id_valid_length [of "the base"] by (cases base) (simp_all add: push_base_def put_base_def push_string_alt put_u8_def)

lemma metadata_encode_iff:
  assumes "metadata_typed m"
  shows "metadata_encode m = Inr bs \<longleftrightarrow> metadata_ok m \<and> bs = metadata_bytes m"
proof -
  have "push_string out (id_as_str (gm_tenant_id m)) = Inr (out @ put_string (id_as_str (gm_tenant_id m)))"
    "push_string out (id_as_str (gm_profile_id m)) = Inr (out @ put_string (id_as_str (gm_profile_id m)))"
    "push_string out (id_as_str (gm_generation_id m)) = Inr (out @ put_string (id_as_str (gm_generation_id m)))"
    "push_string out (key_id_str (gm_key_id m)) = Inr (out @ put_string (key_id_str (gm_key_id m)))"
    "push_base out (gm_base_generation_id m) = Inr (out @ put_base (gm_base_generation_id m))" for out
    using assms id_valid_length [of "gm_tenant_id m"] id_valid_length [of "gm_profile_id m"]
      id_valid_length [of "gm_generation_id m"] key_id_valid_length [of "gm_key_id m"]
    by (simp_all add: metadata_typed_def push_string_alt push_base_iff)
  moreover have "\<not> max_metadata_bytes < length (metadata_bytes m)"
    using metadata_bytes_length [OF assms] by (simp add: max_metadata_bytes_def)
  ultimately show ?thesis
    using assms by (auto simp: metadata_encode_def metadata_ok_def res_bind_Inr_iff Let_def not_less metadata_bytes_def)
qed

lemma metadata_decode_bytes:
  assumes "metadata_decode bs = Inr m"
  shows "metadata_ok m \<and> bs = metadata_bytes m"
proof -
  obtain c1 c2 c3 c4 c5 c6 c7 c8 c9 c10 c11 where
      r: "cursor_read_u16 (cursor_new bs) = Inr (container_version, c1)" "cursor_read_u16 c1 = Inr (algorithm_id, c2)"
        "read_id c2 = Inr (gm_tenant_id m, c3)" "read_id c3 = Inr (gm_profile_id m, c4)"
        "read_id c4 = Inr (gm_generation_id m, c5)" "read_base c5 = Inr (gm_base_generation_id m, c6)"
        "read_key_id c6 = Inr (gm_key_id m, c7)" "cursor_take nonce_prefix_bytes c7 = Inr (gm_nonce_prefix m, c8)"
        "cursor_read_u32 c8 = Inr (gm_chunk_size m, c9)" "cursor_read_u64 c9 = Inr (gm_plaintext_bytes m, c10)"
        "cursor_take 32 c10 = Inr (gm_plaintext_digest m, c11)" "cursor_is_finished c11"
      and policy: "validate_chunk_size (gm_chunk_size m) = Inr ()" "gm_plaintext_bytes m \<le> max_stream_plaintext_bytes"
    using assms unfolding metadata_decode_def
    by (clarsimp simp: res_bind_Inr_iff not_less simp del: validate_chunk_size_iff split: if_split_asm)
  note p1 = word16.read_parts [OF cursor_new_ok(1) r(1)]
  note p2 = word16.read_parts [OF p1(2) r(2)]
  note p3 = ident.read_parts [OF p2(2) r(3)]
  note p4 = ident.read_parts [OF p3(2) r(4)]
  note p5 = ident.read_parts [OF p4(2) r(5)]
  note p6 = baseid.read_parts [OF p5(2) r(6)]
  note p7 = keyid.read_parts [OF p6(2) r(7)]
  note p8 = taken.read_parts [OF p7(2) r(8)]
  note p9 = word32.read_parts [OF p8(2) r(9)]
  note p10 = word64.read_parts [OF p9(2) r(10)]
  note p11 = taken.read_parts [OF p10(2) r(11)]
  have "cursor_rest c11 = []" using r(12) cursor_finished_iff [OF p11(2)] by simp
  then have "bs = metadata_bytes m"
    using p1(3) p2(3) p3(3) p4(3) p5(3) p6(3) p7(3) p8(3) p9(3) p10(3) p11(3) by (simp add: metadata_bytes_def)
  moreover have "metadata_ok m"
    using p3(1) p4(1) p5(1) p6(1) p7(1) p8(1) p11(1) policy by (simp add: metadata_ok_def metadata_typed_def)
  ultimately show ?thesis by simp
qed

lemma metadata_decode_of_bytes:
  assumes "metadata_ok m"
  shows "metadata_decode (metadata_bytes m) = Inr m"
proof -
  have t: "metadata_typed m" using assms by (simp add: metadata_ok_def)
  have f: "id_valid (gm_tenant_id m)" "id_valid (gm_profile_id m)" "id_valid (gm_generation_id m)"
      "pred_option id_valid (gm_base_generation_id m)" "key_id_valid (gm_key_id m)"
      "length (gm_nonce_prefix m) = nonce_prefix_bytes" "length (gm_plaintext_digest m) = 32"
    using t by (simp_all add: metadata_typed_def)
  let ?t10 = "gm_plaintext_digest m @ []"
  let ?t9 = "be_bytes 8 (gm_plaintext_bytes m) @ ?t10"
  let ?t8 = "be_bytes 4 (gm_chunk_size m) @ ?t9"
  let ?t7 = "gm_nonce_prefix m @ ?t8"
  let ?t6 = "put_string (key_id_str (gm_key_id m)) @ ?t7"
  let ?t5 = "put_base (gm_base_generation_id m) @ ?t6"
  let ?t4 = "put_string (id_as_str (gm_generation_id m)) @ ?t5"
  let ?t3 = "put_string (id_as_str (gm_profile_id m)) @ ?t4"
  let ?t2 = "put_string (id_as_str (gm_tenant_id m)) @ ?t3"
  let ?t1 = "be_bytes 2 algorithm_id @ ?t2"
  have start: "cursor_rest (cursor_new (metadata_bytes m)) = be_bytes 2 container_version @ ?t1"
    by (simp add: metadata_bytes_def)
  obtain c1 where r1: "cursor_read_u16 (cursor_new (metadata_bytes m)) = Inr (container_version, c1)" "cursor_ok c1" "cursor_rest c1 = ?t1"
    by (rule word16.read_written [OF cursor_new_ok(1) start TrueI])
  obtain c2 where r2: "cursor_read_u16 c1 = Inr (algorithm_id, c2)" "cursor_ok c2" "cursor_rest c2 = ?t2"
    by (rule word16.read_written [OF r1(2,3) TrueI])
  obtain c3 where r3: "read_id c2 = Inr (gm_tenant_id m, c3)" "cursor_ok c3" "cursor_rest c3 = ?t3"
    by (rule ident.read_written [OF r2(2,3) f(1)])
  obtain c4 where r4: "read_id c3 = Inr (gm_profile_id m, c4)" "cursor_ok c4" "cursor_rest c4 = ?t4"
    by (rule ident.read_written [OF r3(2,3) f(2)])
  obtain c5 where r5: "read_id c4 = Inr (gm_generation_id m, c5)" "cursor_ok c5" "cursor_rest c5 = ?t5"
    by (rule ident.read_written [OF r4(2,3) f(3)])
  obtain c6 where r6: "read_base c5 = Inr (gm_base_generation_id m, c6)" "cursor_ok c6" "cursor_rest c6 = ?t6"
    by (rule baseid.read_written [OF r5(2,3) f(4)])
  obtain c7 where r7: "read_key_id c6 = Inr (gm_key_id m, c7)" "cursor_ok c7" "cursor_rest c7 = ?t7"
    by (rule keyid.read_written [OF r6(2,3) f(5)])
  obtain c8 where r8: "cursor_take nonce_prefix_bytes c7 = Inr (gm_nonce_prefix m, c8)" "cursor_ok c8" "cursor_rest c8 = ?t8"
    by (rule taken.read_written [OF r7(2,3) f(6)])
  obtain c9 where r9: "cursor_read_u32 c8 = Inr (gm_chunk_size m, c9)" "cursor_ok c9" "cursor_rest c9 = ?t9"
    by (rule word32.read_written [OF r8(2,3) TrueI])
  obtain c10 where r10: "cursor_read_u64 c9 = Inr (gm_plaintext_bytes m, c10)" "cursor_ok c10" "cursor_rest c10 = ?t10"
    by (rule word64.read_written [OF r9(2,3) TrueI])
  obtain c11 where r11: "cursor_take 32 c10 = Inr (gm_plaintext_digest m, c11)" "cursor_ok c11" "cursor_rest c11 = []"
    by (rule taken.read_written [OF r10(2,3) f(7)])
  have "cursor_is_finished c11" using cursor_finished_iff [OF r11(2)] r11(3) by simp
  moreover have "validate_chunk_size (gm_chunk_size m) = Inr ()" "\<not> max_stream_plaintext_bytes < gm_plaintext_bytes m"
    using assms by (simp_all add: metadata_ok_def not_less)
  ultimately show ?thesis
    using r1(1) r2(1) r3(1) r4(1) r5(1) r6(1) r7(1) r8(1) r9(1) r10(1) r11(1)
    by (simp add: metadata_decode_def del: validate_chunk_size_iff)
qed

lemma metadata_decode_iff: "metadata_decode bs = Inr m \<longleftrightarrow> metadata_ok m \<and> bs = metadata_bytes m"
  using metadata_decode_bytes metadata_decode_of_bytes by blast

end
