(* ===== verification/Generation_Records.thy ===== *)
theory Generation_Records
  imports Generation_Codec
begin

text \<open>
  What a generation container is.  \<open>accepted\<close> is the specification of its body, record by record:
  chunks under consecutive indices, each authenticated under its own nonce together with the
  digest of the metadata, and one final record at the end.  \<open>open_generation\<close> accepts exactly
  the containers of that shape (\<open>open_generation_iff\<close>), and \<open>seal_generation\<close> writes one.
\<close>

section \<open>The documented behaviour of the primitives\<close>

definition crypto_ok :: "crypto \<Rightarrow> bool" where
  "crypto_ok cr \<longleftrightarrow> (\<forall>x. length (sha256_of cr x) = 32)
     \<and> (\<forall>k n a p. length k = 32 \<longrightarrow> length n = nonce_bytes \<longrightarrow> length p \<le> unat max_chunk_bytes \<longrightarrow>
          (\<exists>c. aead_encrypt cr k n a p = Some c \<and> length c = length p + tag_bytes \<and> aead_decrypt cr k n a c = Some p))"

section \<open>Records\<close>

definition put_header :: "record_header \<Rightarrow> string" where
  "put_header h = put_u8 (rh_type h) @ be_bytes 8 (rh_index h) @ be_bytes 4 (rh_plaintext_length h)
     @ be_bytes 4 (rh_ciphertext_length h)"

definition header :: "u8 \<Rightarrow> u64 \<Rightarrow> u32 \<Rightarrow> string \<Rightarrow> record_header" where
  "header kind index plaintext_length ciphertext =
     \<lparr>rh_type = kind, rh_index = index, rh_plaintext_length = plaintext_length,
      rh_ciphertext_length = of_nat (length ciphertext)\<rparr>"

lemma container_record_header: "container_record kind i n ct = put_header (header kind i n ct) @ ct"
  by (simp add: container_record_def put_header_def header_def put_u8_def)

lemma length_put_header [simp]: "length (put_header h) = 17"
  by (simp add: put_header_def)

lemma length_container_record [simp]: "length (container_record kind i n ct) = 17 + length ct"
  by (simp add: container_record_header)

interpretation hdr: cursor_field read_record_header put_header "\<lambda>_. True"
proof
  fix c :: cursor and h c'
  assume ok: "cursor_ok c"
  show "read_record_header c = Inr (h, c') \<longleftrightarrow> True \<and> (\<exists>r. cursor_rest c = put_header h @ r)
      \<and> c' = cursor_skip (length (put_header h)) c"
  proof
    assume "read_record_header c = Inr (h, c')"
    then obtain c1 c2 c3 where r: "cursor_read_u8 c = Inr (rh_type h, c1)" "cursor_read_u64 c1 = Inr (rh_index h, c2)"
        "cursor_read_u32 c2 = Inr (rh_plaintext_length h, c3)" "cursor_read_u32 c3 = Inr (rh_ciphertext_length h, c')"
      by (auto simp: read_record_header_def res_bind_Inr_iff)
    note p1 = byte8.read_parts [OF ok r(1)]
    note p2 = word64.read_parts [OF p1(2) r(2)]
    note p3 = word32.read_parts [OF p2(2) r(3)]
    note p4 = word32.read_parts [OF p3(2) r(4)]
    show "True \<and> (\<exists>r. cursor_rest c = put_header h @ r) \<and> c' = cursor_skip (length (put_header h)) c"
      using p1(3,4) p2(3,4) p3(3,4) p4(3,4) by (simp add: put_header_def)
  next
    assume "True \<and> (\<exists>r. cursor_rest c = put_header h @ r) \<and> c' = cursor_skip (length (put_header h)) c"
    then obtain r where r: "cursor_rest c = put_u8 (rh_type h) @ be_bytes 8 (rh_index h)
        @ be_bytes 4 (rh_plaintext_length h) @ be_bytes 4 (rh_ciphertext_length h) @ r"
        and c': "c' = cursor_skip 17 c" by (auto simp: put_header_def)
    show "read_record_header c = Inr (h, c')"
      by (rule byte8.read_written [OF ok r TrueI], erule word64.read_written [OF _ _ TrueI], assumption,
          erule word32.read_written [OF _ _ TrueI], assumption, erule word32.read_written [OF _ _ TrueI], assumption)
         (simp add: read_record_header_def c')
  qed
qed

inductive accepted :: "crypto \<Rightarrow> string \<Rightarrow> generation_metadata \<Rightarrow> string \<Rightarrow> u64 \<Rightarrow> string \<Rightarrow> string \<Rightarrow> bool"
  for cr cipher m digest where
  final: "length tag = tag_bytes
    \<Longrightarrow> decrypt_record cr cipher m digest (header record_final i 0 tag) tag = Inr []
    \<Longrightarrow> accepted cr cipher m digest i (container_record record_final i 0 tag) []"
| chunk: "decrypt_record cr cipher m digest (header record_chunk i (of_nat (length p)) ct) ct = Inr p
    \<Longrightarrow> p \<noteq> [] \<Longrightarrow> length p \<le> unat (gm_chunk_size m) \<Longrightarrow> length ct = length p + tag_bytes
    \<Longrightarrow> checked_add i 1 = Some j \<Longrightarrow> accepted cr cipher m digest j rest pt
    \<Longrightarrow> accepted cr cipher m digest i (container_record record_chunk i (of_nat (length p)) ct @ rest) (p @ pt)"

lemma record_kinds [simp]: "record_chunk \<noteq> record_final" "record_final \<noteq> record_chunk"
  by (simp_all add: record_chunk_def record_final_def)

lemma header_parts [simp]:
  "rh_type (header k i n ct) = k" "rh_index (header k i n ct) = i" "rh_plaintext_length (header k i n ct) = n"
  "rh_ciphertext_length (header k i n ct) = of_nat (length ct)"
  by (simp_all add: header_def)

lemma header_of_parts:
  "rh_type h = k \<Longrightarrow> rh_index h = i \<Longrightarrow> rh_plaintext_length h = n \<Longrightarrow> unat (rh_ciphertext_length h) = length ct \<Longrightarrow> h = header k i n ct"
  by (cases h) (auto simp: header_def of_nat_of_unat)

lemma chunk_length_okD:
  assumes "chunk_length_ok m h"
  shows "0 < unat (rh_plaintext_length h)" "unat (rh_plaintext_length h) \<le> unat (gm_chunk_size m)"
    "unat (rh_ciphertext_length h) = unat (rh_plaintext_length h) + tag_bytes"
  using assms by (simp_all add: chunk_length_ok_def word_le_nat_alt unat_gt_0)

section \<open>Opening\<close>

lemma open_records_after_final:
  "cursor_ok c \<Longrightarrow> open_records cr cipher m digest c pt i True
     = (if cursor_rest c = [] then Inr (pt, True) else Inl GenInvalidContainer)"
  by (subst open_records.simps) (simp add: cursor_finished_iff)

lemma open_records_accepted:
  "cursor_ok c \<Longrightarrow> length pt0 \<le> max_plaintext_bytes \<Longrightarrow> \<not> fin \<Longrightarrow>
   open_records cr cipher m digest c pt0 i fin = Inr (pt, True) \<Longrightarrow>
   \<exists>q. accepted cr cipher m digest i (cursor_rest c) q \<and> pt = pt0 @ q \<and> length pt \<le> max_plaintext_bytes"
proof (induction cr cipher m digest c pt0 i fin rule: open_records.induct)
  case (1 cr cipher m digest c pt0 i fin)
  from 1(3-6) obtain h c1 ct c2 opened where
      steps: "read_record_header c = Inr (h, c1)" "rh_index h = i"
        "cursor_take (unat (rh_ciphertext_length h)) c1 = Inr (ct, c2)" "decrypt_record cr cipher m digest h ct = Inr opened"
    by (subst (asm) open_records.simps) (auto split: if_splits sum.splits prod.splits)
  have unfinished: "\<not> cursor_is_finished c"
    using 1(5,6) by (subst (asm) open_records.simps) (auto split: if_splits)
  note p1 = hdr.read_parts [OF 1(3) steps(1)]
  note p2 = taken.read_parts [OF p1(2) steps(3)]
  have bytes: "cursor_rest c = put_header h @ ct @ cursor_rest c2" using p1(3) p2(3) by simp
  show ?case
  proof (cases "rh_type h = record_chunk")
    case True
    then obtain j where j: "chunk_length_ok m h" "length opened = unat (rh_plaintext_length h)"
        "length pt0 + length opened \<le> max_plaintext_bytes" "checked_add i 1 = Some j"
        "open_records cr cipher m digest c2 (pt0 @ opened) j False = Inr (pt, True)"
      using 1(5,6) steps unfinished by (subst (asm) open_records.simps) (auto split: if_splits option.splits simp: not_less)
    have "\<exists>q. accepted cr cipher m digest j (cursor_rest c2) q \<and> pt = (pt0 @ opened) @ q \<and> length pt \<le> max_plaintext_bytes"
      using 1(1) [OF unfinished 1(5) steps(1) refl _ steps(3) refl steps(4) True _ _ j(4)] steps(2) j p2(2) by simp
    then obtain q where q: "accepted cr cipher m digest j (cursor_rest c2) q" "pt = (pt0 @ opened) @ q"
        "length pt \<le> max_plaintext_bytes" by blast
    have h: "h = header record_chunk i (of_nat (length opened)) ct"
      using True steps(2) j(2) p2(1) by (intro header_of_parts) simp_all
    have "opened \<noteq> []" "length opened \<le> unat (gm_chunk_size m)" "length ct = length opened + tag_bytes"
      using chunk_length_okD [OF j(1)] j(2) p2(1) by auto
    then have "accepted cr cipher m digest i (container_record record_chunk i (of_nat (length opened)) ct @ cursor_rest c2) (opened @ q)"
      using accepted.chunk [OF steps(4) [unfolded h] _ _ _ j(4) q(1)] by simp
    then show ?thesis using q bytes h by (auto simp: container_record_header)
  next
    case False
    then have f: "rh_type h = record_final" "final_length_ok h" "opened = []"
        "open_records cr cipher m digest c2 pt0 i True = Inr (pt, True)"
      using 1(5,6) steps unfinished by (subst (asm) open_records.simps; auto split: if_splits)+
    have h: "h = header record_final i 0 ct"
      using f(1,2) steps(2) p2(1) by (intro header_of_parts) (simp_all add: final_length_ok_def)
    have "cursor_rest c2 = []" "pt = pt0" using f(4) open_records_after_final [OF p2(2)] by (auto split: if_splits)
    moreover have "length ct = tag_bytes" using f(2) p2(1) by (simp add: final_length_ok_def)
    then have "accepted cr cipher m digest i (container_record record_final i 0 ct) []"
      using accepted.final steps(4) f(3) h by blast
    ultimately show ?thesis using bytes h 1(4) by (metis append_Nil2 append_assoc container_record_header)
  qed
qed

lemma header_lengths:
  assumes "metadata_ok m" "length p \<le> unat (gm_chunk_size m)" "length ct = length p + tag_bytes"
  shows "unat (of_nat (length p) :: u32) = length p" "unat (of_nat (length ct) :: u32) = length ct"
proof -
  have "unat (gm_chunk_size m) \<le> 1048576"
    using assms(1) by (simp add: metadata_ok_def max_chunk_bytes_def word_le_nat_alt)
  then show "unat (of_nat (length p) :: u32) = length p" "unat (of_nat (length ct) :: u32) = length ct"
    using assms(2,3) by (simp_all add: unat_of_nat_small tag_bytes_def del: of_nat_add)
qed

lemma open_records_next:
  assumes "cursor_ok c" "cursor_rest c = put_header h @ ct @ r" "unat (rh_ciphertext_length h) = length ct"
  obtains c1 c2 where "read_record_header c = Inr (h, c1)" "cursor_take (unat (rh_ciphertext_length h)) c1 = Inr (ct, c2)"
    "cursor_ok c2" "cursor_rest c2 = r" "\<not> cursor_is_finished c"
proof -
  obtain c1 where c1: "read_record_header c = Inr (h, c1)" "cursor_ok c1" "cursor_rest c1 = ct @ r"
    by (rule hdr.read_written [OF assms(1,2) TrueI])
  obtain c2 where "cursor_take (length ct) c1 = Inr (ct, c2)" "cursor_ok c2" "cursor_rest c2 = r"
    by (rule taken.read_written [OF c1(2,3) refl])
  moreover have "\<not> cursor_is_finished c"
    using cursor_finished_iff [OF assms(1)] arg_cong [OF assms(2), of length] by auto
  ultimately show ?thesis using c1(1) assms(3) that by simp
qed

lemma accepted_open_records:
  assumes "metadata_ok m"
  shows "accepted cr cipher m digest i bs q \<Longrightarrow> cursor_ok c \<Longrightarrow> cursor_rest c = bs \<Longrightarrow>
    length (pt0 @ q) \<le> max_plaintext_bytes \<Longrightarrow> open_records cr cipher m digest c pt0 i False = Inr (pt0 @ q, True)"
proof (induction arbitrary: c pt0 rule: accepted.induct)
  case (final tag i)
  have t: "unat (rh_ciphertext_length (header record_final i 0 tag)) = length tag"
    using final(1) by (simp add: unat_of_nat_small tag_bytes_def)
  have rest: "cursor_rest c = put_header (header record_final i 0 tag) @ tag @ []"
    using final(4) by (simp add: container_record_header)
  obtain c1 c2 where "read_record_header c = Inr (header record_final i 0 tag, c1)"
      "cursor_take (unat (rh_ciphertext_length (header record_final i 0 tag))) c1 = Inr (tag, c2)"
      "cursor_ok c2" "cursor_rest c2 = []" "\<not> cursor_is_finished c"
    by (rule open_records_next [OF final(3) rest t])
  then show ?case
    using final(1,2) t by (subst open_records.simps) (simp add: final_length_ok_def open_records_after_final)
next
  case (chunk i p ct j rest pt)
  note len = header_lengths [OF assms chunk(3,4)]
  let ?h = "header record_chunk i (of_nat (length p)) ct"
  have t: "unat (rh_ciphertext_length ?h) = length ct" using len(2) by simp
  have rest: "cursor_rest c = put_header ?h @ ct @ rest"
    using chunk(9) by (simp add: container_record_header)
  obtain c1 c2 where steps: "read_record_header c = Inr (?h, c1)"
      "cursor_take (unat (rh_ciphertext_length ?h)) c1 = Inr (ct, c2)" "cursor_ok c2" "cursor_rest c2 = rest"
      "\<not> cursor_is_finished c"
    by (rule open_records_next [OF chunk(8) rest t])
  have "chunk_length_ok m ?h"
    using chunk(2-4) len t by (simp add: chunk_length_ok_def word_le_nat_alt word_unat_eq_iff)
  moreover have "open_records cr cipher m digest c2 (pt0 @ p) j False = Inr ((pt0 @ p) @ pt, True)"
    using chunk.IH [OF steps(3,4)] chunk(10) by simp
  ultimately show ?case
    using steps chunk(1,5,10) len(1) by (subst open_records.simps) simp
qed

end
