(* ===== verification/Generation_Sealing.thy ===== *)
theory Generation_Sealing
  imports Generation_Records
begin

text \<open>
  Sealing.  \<open>sealed_body\<close> is the body that belongs to a list of chunks; \<open>seal_generation\<close> writes the
  prelude and that body, never fails on a plaintext of legal size under its metadata and key,
  and what it writes is opened again to the same plaintext.
\<close>

section \<open>Opening, as an equivalence\<close>

definition container_prelude :: "generation_metadata \<Rightarrow> string" where
  "container_prelude m = container_magic @ be_bytes 4 (of_nat (length (metadata_bytes m)) :: u32) @ metadata_bytes m"

lemma metadata_length_u32:
  "metadata_ok m \<Longrightarrow> unat (of_nat (length (metadata_bytes m)) :: u32) = length (metadata_bytes m)"
  using metadata_bytes_length [of m] by (simp add: metadata_ok_def unat_of_nat_small)

lemma metadata_bytes_nonempty: "0 < length (metadata_bytes m)"
  by (simp add: metadata_bytes_def)

lemma length_container_prelude: "metadata_ok m \<Longrightarrow> length (container_prelude m) \<le> 567"
  using metadata_bytes_length [of m] by (simp add: metadata_ok_def container_prelude_def container_magic_def)

lemma inspect_parts:
  assumes "inspect_generation_metadata_prelude cr bs = Inr ins"
  obtains m r where "length bs \<le> max_container_bytes" "metadata_ok m" "bs = container_prelude m @ r"
    "ins = \<lparr>ip_metadata = m, ip_metadata_digest = sha256_of cr (metadata_bytes m),
            ip_prelude_bytes = length (container_prelude m)\<rparr>"
proof -
  from assms obtain c1 n c2 mb c3 m where r: "length bs \<le> max_container_bytes"
      "cursor_take (length container_magic) (cursor_new bs) = Inr (container_magic, c1)"
      "cursor_read_u32 c1 = Inr (n, c2)" "cursor_take (unat n) c2 = Inr (mb, c3)" "metadata_decode mb = Inr m"
      "ins = \<lparr>ip_metadata = m, ip_metadata_digest = sha256_of cr mb, ip_prelude_bytes = cur_position c3\<rparr>"
    by (auto simp: inspect_generation_metadata_prelude_def res_bind_Inr_iff not_less split: if_splits)
  note p1 = taken.read_parts [OF cursor_new_ok(1) r(2)]
  note p2 = word32.read_parts [OF p1(2) r(3)]
  note p3 = taken.read_parts [OF p2(2) r(4)]
  have m: "metadata_ok m" "mb = metadata_bytes m" using r(5) by (simp_all add: metadata_decode_iff)
  have n: "of_nat (length mb) = n" using p3(1) by (simp add: of_nat_of_unat)
  have "bs = container_prelude m @ cursor_rest c3"
    using p1(3) p2(3) p3(3) m(2) n by (simp add: container_prelude_def)
  moreover have "cur_position c3 = length (container_prelude m)"
    using p1(4) p2(4) p3(1,4) m(2) by (simp add: container_prelude_def cursor_new_def)
  ultimately show ?thesis using that r(1,6) m by simp
qed

lemma inspect_of_prelude:
  assumes m: "metadata_ok m" and "length (container_prelude m @ r) \<le> max_container_bytes"
  shows "inspect_generation_metadata_prelude cr (container_prelude m @ r)
     = Inr \<lparr>ip_metadata = m, ip_metadata_digest = sha256_of cr (metadata_bytes m),
            ip_prelude_bytes = length (container_prelude m)\<rparr>"
proof -
  let ?n = "of_nat (length (metadata_bytes m)) :: u32"
  have start: "cursor_rest (cursor_new (container_prelude m @ r)) = container_magic @ be_bytes 4 ?n @ metadata_bytes m @ r"
    by (simp add: container_prelude_def)
  obtain c1 where c1: "cursor_take (length container_magic) (cursor_new (container_prelude m @ r)) = Inr (container_magic, c1)" "cursor_ok c1"
      "cursor_rest c1 = be_bytes 4 ?n @ metadata_bytes m @ r" "c1 = cursor_skip (length container_magic) (cursor_new (container_prelude m @ r))"
    by (rule taken.read_written [OF cursor_new_ok(1) start refl])
  obtain c2 where c2: "cursor_read_u32 c1 = Inr (?n, c2)" "cursor_ok c2" "cursor_rest c2 = metadata_bytes m @ r"
      "c2 = cursor_skip 4 c1"
    by (rule word32.read_written [OF c1(2,3) TrueI]) simp
  obtain c3 where c3: "cursor_take (length (metadata_bytes m)) c2 = Inr (metadata_bytes m, c3)"
      "c3 = cursor_skip (length (metadata_bytes m)) c2"
    by (rule taken.read_written [OF c2(2,3) refl])
  have "?n \<noteq> 0" "\<not> max_metadata_bytes < unat ?n"
    using metadata_length_u32 [OF m] metadata_bytes_nonempty [of m] metadata_bytes_length [of m] m
    by (auto simp: metadata_ok_def max_metadata_bytes_def simp flip: unat_eq_zero)
  moreover have "cur_position c3 = length (container_prelude m)"
    using c1(4) c2(4) c3(2) by (simp add: container_prelude_def cursor_new_def)
  ultimately show ?thesis
    using assms(2) c1(1) c2(1) c3(1) metadata_length_u32 [OF m] metadata_decode_of_bytes [OF m]
    by (simp add: inspect_generation_metadata_prelude_def)
qed

definition container_opens :: "crypto \<Rightarrow> generation_dek \<Rightarrow> string \<Rightarrow> generation_metadata \<Rightarrow> string \<Rightarrow> bool" where
  "container_opens cr key bs m pt \<longleftrightarrow> metadata_ok m \<and> gm_key_id m = dek_key_id key \<and> length (dek_bytes key) = 32
     \<and> (\<exists>body. bs = container_prelude m @ body
          \<and> accepted cr (dek_bytes key) m (sha256_of cr (metadata_bytes m)) 0 body pt)
     \<and> length pt = unat (gm_plaintext_bytes m) \<and> sha256_of cr pt = gm_plaintext_digest m"

lemma max_plaintext_u64: "n \<le> max_plaintext_bytes \<Longrightarrow> of_nat n = (x :: u64) \<longleftrightarrow> n = unat x"
  by (rule of_nat_eq_iff_unat) (simp add: max_plaintext_bytes_def)

lemma prelude_cursor:
  "cursor_ok \<lparr>cur_bytes = p @ r, cur_position = length p\<rparr>" "cursor_rest \<lparr>cur_bytes = p @ r, cur_position = length p\<rparr> = r"
  by (simp_all add: cursor_ok_def cursor_rest_def)

lemma open_generation_iff:
  "open_generation cr bs key = Inr og \<longleftrightarrow> length bs \<le> max_container_bytes
     \<and> length (og_plaintext og) \<le> max_plaintext_bytes \<and> container_opens cr key bs (og_metadata og) (og_plaintext og)"
proof
  assume "open_generation cr bs key = Inr og"
  then obtain ins pt where o: "inspect_generation_metadata_prelude cr bs = Inr ins"
      "gm_key_id (ip_metadata ins) = dek_key_id key" "length (dek_bytes key) = 32"
      "open_records cr (dek_bytes key) (ip_metadata ins) (ip_metadata_digest ins)
         \<lparr>cur_bytes = bs, cur_position = ip_prelude_bytes ins\<rparr> [] 0 False = Inr (pt, True)"
      "of_nat (length pt) = gm_plaintext_bytes (ip_metadata ins)"
      "sha256_of cr pt = gm_plaintext_digest (ip_metadata ins)" "og = \<lparr>og_metadata = ip_metadata ins, og_plaintext = pt\<rparr>"
    by (auto simp: open_generation_def res_bind_Inr_iff dek_cipher_def Let_def split: if_splits)
  from o(1) obtain m r where i: "length bs \<le> max_container_bytes" "metadata_ok m" "bs = container_prelude m @ r"
      "ins = \<lparr>ip_metadata = m, ip_metadata_digest = sha256_of cr (metadata_bytes m),
            ip_prelude_bytes = length (container_prelude m)\<rparr>"
    by (rule inspect_parts)
  have "accepted cr (dek_bytes key) m (sha256_of cr (metadata_bytes m)) 0 r pt" "length pt \<le> max_plaintext_bytes"
    using open_records_accepted [OF prelude_cursor(1), of "[]" False _ _ m _ "container_prelude m" r 0 pt] o(4) i(3,4)
    by (auto simp: prelude_cursor)
  then show "length bs \<le> max_container_bytes
     \<and> length (og_plaintext og) \<le> max_plaintext_bytes \<and> container_opens cr key bs (og_metadata og) (og_plaintext og)"
    using o i max_plaintext_u64 [of "length pt"] by (auto simp: container_opens_def)
next
  assume a: "length bs \<le> max_container_bytes
     \<and> length (og_plaintext og) \<le> max_plaintext_bytes \<and> container_opens cr key bs (og_metadata og) (og_plaintext og)"
  then obtain body where b: "bs = container_prelude (og_metadata og) @ body" "metadata_ok (og_metadata og)"
      "accepted cr (dek_bytes key) (og_metadata og) (sha256_of cr (metadata_bytes (og_metadata og))) 0 body (og_plaintext og)"
    by (auto simp: container_opens_def)
  have "open_records cr (dek_bytes key) (og_metadata og) (sha256_of cr (metadata_bytes (og_metadata og)))
      \<lparr>cur_bytes = bs, cur_position = length (container_prelude (og_metadata og))\<rparr> [] 0 False = Inr (og_plaintext og, True)"
    using accepted_open_records [OF b(2,3) prelude_cursor, of "[]"] a b(1) by simp
  then show "open_generation cr bs key = Inr og"
    using a b inspect_of_prelude [OF b(2), of body cr] max_plaintext_u64 [of "length (og_plaintext og)"]
    by (auto simp: open_generation_def container_opens_def dek_cipher_def)
qed

section \<open>Sealing\<close>

fun sealed_body ::
    "crypto \<Rightarrow> string \<Rightarrow> generation_metadata \<Rightarrow> string \<Rightarrow> string list \<Rightarrow> u64 \<Rightarrow> encrypted_generation_error + string" where
  "sealed_body cr cipher m digest [] i =
     res_bind (encrypt_record cr cipher m digest record_final i []) (\<lambda>tag. Inr (container_record record_final i 0 tag))"
| "sealed_body cr cipher m digest (p # ps) i =
     res_bind (encrypt_record cr cipher m digest record_chunk i p) (\<lambda>ct.
     res_bind (sealed_body cr cipher m digest ps (i + 1)) (\<lambda>rest.
       Inr (container_record record_chunk i (of_nat (length p)) ct @ rest)))"

text \<open>Everything that sealing and opening need to know about metadata, key and chunks.\<close>

definition seals :: "crypto \<Rightarrow> string \<Rightarrow> generation_metadata \<Rightarrow> bool" where
  "seals cr cipher m \<longleftrightarrow> crypto_ok cr \<and> length cipher = 32 \<and> metadata_ok m"

definition chunk_ok :: "generation_metadata \<Rightarrow> string \<Rightarrow> bool" where
  "chunk_ok m p \<longleftrightarrow> p \<noteq> [] \<and> length p \<le> unat (gm_chunk_size m)"

lemma chunk_size_bounds:
  assumes "metadata_ok m" shows "1024 \<le> unat (gm_chunk_size m)" "unat (gm_chunk_size m) \<le> 1048576"
  using assms by (simp_all add: metadata_ok_def min_chunk_bytes_def max_chunk_bytes_def word_le_nat_alt)

lemma encrypt_record_ok:
  assumes "seals cr cipher m" "length p \<le> unat (gm_chunk_size m)"
  obtains ct where "encrypt_record cr cipher m digest kind i p = Inr ct" "length ct = length p + tag_bytes"
    "decrypt_record cr cipher m digest (header kind i (of_nat (length p)) ct) ct = Inr p"
proof -
  let ?n = "nonce_for (gm_nonce_prefix m) i"
  have m: "metadata_ok m" using assms(1) by (simp add: seals_def)
  have n: "length ?n = nonce_bytes"
    using m by (simp add: metadata_ok_def metadata_typed_def nonce_for_def nonce_bytes_def nonce_prefix_bytes_def)
  have len: "length p \<le> unat max_chunk_bytes" "\<not> 2 ^ 32 \<le> length p"
    using assms(2) chunk_size_bounds [OF m] by (simp_all add: max_chunk_bytes_def)
  obtain ct where "aead_encrypt cr cipher ?n (record_aad digest kind i (of_nat (length p))) p = Some ct"
      "length ct = length p + tag_bytes" "aead_decrypt cr cipher ?n (record_aad digest kind i (of_nat (length p))) ct = Some p"
    using assms(1) n len(1) unfolding seals_def crypto_ok_def by blast
  then show ?thesis
    using that len(2) n by (simp add: encrypt_record_def decrypt_record_def nonce_from_bytes_def)
qed

lemma checked_succ_small: "Suc (unat (i :: u64)) < 2 ^ 64 \<Longrightarrow> checked_add i 1 = Some (i + 1) \<and> unat (i + 1) = Suc (unat i)"
  using checked_add_SomeD [of i 1 "i + 1"] by (auto simp: checked_add_def)

lemma sealed_body_ok:
  assumes "seals cr cipher m"
  shows "list_all (chunk_ok m) ps \<Longrightarrow> unat i + length ps < 2 ^ 64 \<Longrightarrow>
    \<exists>body. sealed_body cr cipher m digest ps i = Inr body \<and> accepted cr cipher m digest i body (concat ps)
      \<and> length body = length (concat ps) + 33 * Suc (length ps)"
proof (induction ps arbitrary: i)
  case Nil
  obtain tag where "encrypt_record cr cipher m digest record_final i [] = Inr tag" "length tag = tag_bytes"
      "decrypt_record cr cipher m digest (header record_final i 0 tag) tag = Inr []"
    by (rule encrypt_record_ok [OF assms, of "[]" digest record_final i]) simp_all
  then show ?case by (auto simp: tag_bytes_def intro!: accepted.final)
next
  case (Cons p ps)
  have p: "p \<noteq> []" "length p \<le> unat (gm_chunk_size m)" using Cons.prems(1) by (simp_all add: chunk_ok_def)
  have i: "checked_add i 1 = Some (i + 1)" "unat (i + 1) = Suc (unat i)"
    using checked_succ_small [of i] Cons.prems(2) by simp_all
  obtain ct where ct: "encrypt_record cr cipher m digest record_chunk i p = Inr ct" "length ct = length p + tag_bytes"
      "decrypt_record cr cipher m digest (header record_chunk i (of_nat (length p)) ct) ct = Inr p"
    by (rule encrypt_record_ok [OF assms p(2), of digest record_chunk i])
  obtain body where body: "sealed_body cr cipher m digest ps (i + 1) = Inr body"
      "accepted cr cipher m digest (i + 1) body (concat ps)" "length body = length (concat ps) + 33 * Suc (length ps)"
    using Cons.IH [of "i + 1"] Cons.prems i(2) by auto
  then show ?case
    using ct accepted.chunk [OF ct(3) p ct(2) i(1) body(2)] by (simp add: tag_bytes_def)
qed

lemma seal_chunks_sealed:
  assumes "seals cr cipher m" "list_all (chunk_ok m) ps" "unat i + length ps < 2 ^ 64"
    and "sealed_body cr cipher m digest ps i = Inr body"
  obtains k mid tag where "seal_chunks cr cipher m digest ps i out = Inr (k, out @ mid)"
    "encrypt_record cr cipher m digest record_final k [] = Inr tag" "length tag = tag_bytes"
    "body = mid @ container_record record_final k 0 tag"
  using assms(2-4)
proof (induction ps arbitrary: i out body thesis)
  case Nil
  obtain tag where t: "encrypt_record cr cipher m digest record_final i [] = Inr tag" "length tag = tag_bytes"
    by (rule encrypt_record_ok [OF assms(1), of "[]" digest record_final i]) simp_all
  then show ?case using Nil(1) [of i "[]" tag] Nil(4) by simp
next
  case (Cons p ps)
  have p: "p \<noteq> []" "length p \<le> unat (gm_chunk_size m)" using Cons.prems(2) by (simp_all add: chunk_ok_def)
  have i: "checked_add i 1 = Some (i + 1)" "unat (i + 1) = Suc (unat i)"
    using checked_succ_small [of i] Cons.prems(3) by simp_all
  obtain ct where ct: "encrypt_record cr cipher m digest record_chunk i p = Inr ct" "length ct = length p + tag_bytes"
    by (rule encrypt_record_ok [OF assms(1) p(2), of digest record_chunk i])
  have small: "\<not> 2 ^ 32 \<le> length ct"
    using ct(2) p(2) chunk_size_bounds(2) [of m] assms(1) by (simp add: seals_def tag_bytes_def)
  obtain b where b: "sealed_body cr cipher m digest ps (i + 1) = Inr b"
      "body = container_record record_chunk i (of_nat (length p)) ct @ b"
    using Cons.prems(4) ct(1) by (auto simp: res_bind_Inr_iff)
  let ?out = "out @ container_record record_chunk i (of_nat (length p)) ct"
  obtain k mid tag where r: "seal_chunks cr cipher m digest ps (i + 1) ?out = Inr (k, ?out @ mid)"
    "encrypt_record cr cipher m digest record_final k [] = Inr tag" "length tag = tag_bytes"
    "b = mid @ container_record record_final k 0 tag"
    using Cons.IH [where i = "i + 1" and out = ?out and body = b] Cons.prems(2,3) i(2) b(1) by auto
  then show ?case
    using Cons.prems(1) [of k "container_record record_chunk i (of_nat (length p)) ct @ mid" tag] ct(1) small i(1) b(2)
    by simp
qed

lemma chunks_parts:
  "0 < n \<Longrightarrow> concat (chunks n xs) = xs \<and> (\<forall>p \<in> set (chunks n xs). p \<noteq> [] \<and> length p \<le> n)
     \<and> n * length (chunks n xs) < length xs + n"
proof (induction n xs rule: chunks.induct)
  case (1 n xs)
  show ?case
  proof (cases "xs = []")
    case False
    then have c: "chunks n xs = take n xs # chunks n (drop n xs)" using 1(2) by (subst chunks.simps) simp
    have "n * length (chunks n (drop n xs)) < length (drop n xs) + n" using 1 False by simp
    then have "n * Suc (length (chunks n (drop n xs))) < length xs + n"
      using False by (cases "n \<le> length xs") (auto simp: not_le)
    then show ?thesis using c 1 False by auto
  qed (use 1(2) in \<open>simp add: chunks.simps\<close>)
qed

lemma chunks_ok:
  assumes "metadata_ok m"
  shows "list_all (chunk_ok m) (chunks (unat (gm_chunk_size m)) pt)" "concat (chunks (unat (gm_chunk_size m)) pt) = pt"
    "1024 * length (chunks (unat (gm_chunk_size m)) pt) < length pt + 1024"
proof -
  let ?n = "unat (gm_chunk_size m)"
  have n: "1024 \<le> ?n" by (rule chunk_size_bounds [OF assms(1)])
  note c = chunks_parts [of ?n pt]
  show "list_all (chunk_ok m) (chunks ?n pt)" "concat (chunks ?n pt) = pt"
    using c n by (auto simp: list_all_iff chunk_ok_def)
  show "1024 * length (chunks ?n pt) < length pt + 1024"
  proof (cases "chunks ?n pt")
    case (Cons p ps)
    then have "?n * length ps < length pt" using c n by auto
    then have "1024 * length ps < length pt" using n by (meson le_less_trans mult_le_mono1)
    then show ?thesis using Cons by simp
  qed simp
qed

definition container_size_bound :: "nat \<Rightarrow> nat" where
  "container_size_bound n = 567 + n + 33 * (n div 1024 + 2)"

lemma sealed_container:
  assumes "seals cr cipher m" "length pt \<le> unat max_stream_plaintext_bytes"
  obtains body where "sealed_body cr cipher m digest (chunks (unat (gm_chunk_size m)) pt) 0 = Inr body"
    "accepted cr cipher m digest 0 body pt" "length (container_prelude m @ body) \<le> container_size_bound (length pt)"
    "length (chunks (unat (gm_chunk_size m)) pt) < 2 ^ 63"
proof -
  let ?ps = "chunks (unat (gm_chunk_size m)) pt"
  have m: "metadata_ok m" using assms(1) by (simp add: seals_def)
  note c = chunks_ok [OF m, of pt]
  have n: "length ?ps < 2 ^ 63" "length ?ps \<le> length pt div 1024 + 1"
    using c(3) assms(2) by (simp_all add: max_stream_plaintext_bytes_def)
  obtain body where "sealed_body cr cipher m digest ?ps 0 = Inr body" "accepted cr cipher m digest 0 body pt"
      "length body = length pt + 33 * Suc (length ?ps)"
    using sealed_body_ok [OF assms(1) c(1), of 0 digest] c(2) n(1) by auto
  then show ?thesis
    using that n length_container_prelude [OF m] by (simp add: container_size_bound_def)
qed

lemma container_size_memory: "n \<le> max_plaintext_bytes \<Longrightarrow> container_size_bound n \<le> max_container_bytes"
  using div_le_mono [of n max_plaintext_bytes 1024]
  by (simp add: container_size_bound_def max_plaintext_bytes_def max_container_bytes_def)

lemma container_size_stream:
  "n \<le> unat max_stream_plaintext_bytes \<Longrightarrow> container_size_bound n \<le> unat max_stream_container_bytes"
  using div_le_mono [of n "unat max_stream_plaintext_bytes" 1024]
  by (simp add: container_size_bound_def max_stream_plaintext_bytes_def max_stream_container_bytes_def)

lemma validate_plaintext_iff:
  "validate_plaintext cr m pt = Inr u \<longleftrightarrow> length pt = unat (gm_plaintext_bytes m) \<and> sha256_of cr pt = gm_plaintext_digest m"
proof (cases "length pt < 2 ^ 64")
  case True
  then show ?thesis by (auto simp: validate_plaintext_def of_nat_eq_iff_unat)
next
  case False
  then show ?thesis using unat_bound [of "gm_plaintext_bytes m"] by (auto simp: validate_plaintext_def)
qed

lemma seal_generation_writes:
  assumes "crypto_ok cr" "metadata_typed m" "metadata_ok m" "gm_key_id m = dek_key_id key" "length (dek_bytes key) = 32"
    and "length pt = unat (gm_plaintext_bytes m)" "sha256_of cr pt = gm_plaintext_digest m"
    and "sealed_body cr (dek_bytes key) m (sha256_of cr (metadata_bytes m)) (chunks (unat (gm_chunk_size m)) pt) 0 = Inr body"
  shows "seal_generation cr m key pt =
     (if length (container_prelude m @ body) \<le> max_container_bytes
      then Inr \<lparr>sg_metadata = m, sg_metadata_digest = sha256_of cr (metadata_bytes m),
             sg_container = container_prelude m @ body, sg_container_digest = sha256_of cr (container_prelude m @ body)\<rparr>
      else Inl GenPlaintextTooLarge)"
proof -
  have s: "seals cr (dek_bytes key) m" using assms by (simp add: seals_def)
  have pt: "length pt \<le> unat max_stream_plaintext_bytes"
    using assms(3,6) by (simp add: metadata_ok_def word_le_nat_alt)
  then have n: "length (chunks (unat (gm_chunk_size m)) pt) < 2 ^ 63"
    using chunks_ok(3) [OF assms(3), of pt] by (simp add: max_stream_plaintext_bytes_def)
  obtain k mid tag where
      k: "seal_chunks cr (dek_bytes key) m (sha256_of cr (metadata_bytes m)) (chunks (unat (gm_chunk_size m)) pt) 0 (container_prelude m)
            = Inr (k, container_prelude m @ mid)"
        "encrypt_record cr (dek_bytes key) m (sha256_of cr (metadata_bytes m)) record_final k [] = Inr tag"
        "length tag = tag_bytes" "body = mid @ container_record record_final k 0 tag"
    using seal_chunks_sealed [OF s chunks_ok(1) [OF assms(3)] _ assms(8), of "container_prelude m"] n by auto
  have "validate_plaintext cr m pt = Inr ()" using assms(6,7) by (simp add: validate_plaintext_iff)
  moreover have "metadata_encode m = Inr (metadata_bytes m)" using assms(2,3) by (simp add: metadata_encode_iff)
  moreover have "length (metadata_bytes m) \<le> 555" using metadata_bytes_length [OF assms(2)] .
  ultimately show ?thesis
    using assms(4,5) k pt by (simp add: seal_generation_def dek_cipher_def container_prelude_def Let_def
        tag_bytes_def max_stream_plaintext_bytes_def not_le)
qed

lemma seal_then_open:
  assumes "crypto_ok cr" "metadata_ok m" "gm_key_id m = dek_key_id key" "length (dek_bytes key) = 32"
    and "length pt = unat (gm_plaintext_bytes m)" "sha256_of cr pt = gm_plaintext_digest m"
    and "container_size_bound (length pt) \<le> max_container_bytes"
  obtains sg where "seal_generation cr m key pt = Inr sg" "sg_metadata sg = m"
    "sg_container_digest sg = sha256_of cr (sg_container sg)" "length (sg_container sg) \<le> container_size_bound (length pt)"
    "container_opens cr key (sg_container sg) m pt"
proof -
  have t: "metadata_typed m" using assms(2) by (simp add: metadata_ok_def)
  have s: "seals cr (dek_bytes key) m" using assms by (simp add: seals_def)
  have "length pt \<le> unat max_stream_plaintext_bytes" using assms(2,5) by (simp add: metadata_ok_def word_le_nat_alt)
  then obtain body where
      b: "sealed_body cr (dek_bytes key) m (sha256_of cr (metadata_bytes m)) (chunks (unat (gm_chunk_size m)) pt) 0 = Inr body"
        "accepted cr (dek_bytes key) m (sha256_of cr (metadata_bytes m)) 0 body pt"
        "length (container_prelude m @ body) \<le> container_size_bound (length pt)"
    by (rule sealed_container [OF s])
  have "seal_generation cr m key pt = Inr \<lparr>sg_metadata = m, sg_metadata_digest = sha256_of cr (metadata_bytes m),
     sg_container = container_prelude m @ body, sg_container_digest = sha256_of cr (container_prelude m @ body)\<rparr>"
    using seal_generation_writes [OF assms(1) t assms(2-6) b(1)] b(3) assms(7) by simp
  moreover have "container_opens cr key (container_prelude m @ body) m pt"
    using assms(2-6) b(2) by (auto simp: container_opens_def)
  ultimately show ?thesis using that b(3) by fastforce
qed

lemma seal_generation_parts:
  assumes "seal_generation cr m key pt = Inr sg" "metadata_typed m"
  shows "metadata_ok m" "gm_key_id m = dek_key_id key" "length (dek_bytes key) = 32"
    "length pt = unat (gm_plaintext_bytes m)" "sha256_of cr pt = gm_plaintext_digest m"
    "length (sg_container sg) \<le> max_container_bytes" "sg_metadata sg = m"
    "sg_container_digest sg = sha256_of cr (sg_container sg)"
proof -
  obtain mb where "gm_key_id m = dek_key_id key" "validate_plaintext cr m pt = Inr ()" "metadata_encode m = Inr mb"
      "length (dek_bytes key) = 32" "length (sg_container sg) \<le> max_container_bytes" "sg_metadata sg = m"
      "sg_container_digest sg = sha256_of cr (sg_container sg)"
    using assms(1) by (auto simp: seal_generation_def res_bind_Inr_iff dek_cipher_def Let_def not_less split: if_splits)
  then show "metadata_ok m" "gm_key_id m = dek_key_id key" "length (dek_bytes key) = 32"
    "length pt = unat (gm_plaintext_bytes m)" "sha256_of cr pt = gm_plaintext_digest m"
    "length (sg_container sg) \<le> max_container_bytes" "sg_metadata sg = m"
    "sg_container_digest sg = sha256_of cr (sg_container sg)"
    using assms(2) by (simp_all add: metadata_encode_iff validate_plaintext_iff)
qed

end
