(* ===== verification/Generation_Streaming.thy ===== *)
theory Generation_Streaming
  imports Generation_Sealing
begin

text \<open>
  The streaming half of \<open>crates/encrypted-generation-domain/src/container.rs\<close>.  A source is the
  bytes it will deliver and the failure it ends in, if it does not end in end-of-file; a sink
  is the bytes it took and the room it has left.  A SHA-256 state is the bytes it was fed.  The
  two loops are partial functions in the option monad, so that running forever would be \<open>None\<close>.
\<close>

section \<open>Sources and sinks\<close>

datatype io_error = UnexpectedEof | IoFailure string

datatype streaming_generation_error = StreamIo io_error | StreamCrypto encrypted_generation_error

record byte_source =
  src_bytes :: string
  src_failure :: "io_error option"

record byte_sink =
  snk_bytes :: string
  snk_room :: "nat option"

definition source_read_exact :: "nat \<Rightarrow> byte_source \<Rightarrow> (io_error + string) \<times> byte_source" where
  "source_read_exact n src =
     (if n \<le> length (src_bytes src)
      then (Inr (take n (src_bytes src)), src\<lparr>src_bytes := drop n (src_bytes src)\<rparr>)
      else (Inl (case src_failure src of None \<Rightarrow> UnexpectedEof | Some e \<Rightarrow> e), src\<lparr>src_bytes := []\<rparr>))"

definition source_read_byte :: "byte_source \<Rightarrow> io_error + nat" where
  \<comment> \<open>\<open>read\<close> into a buffer of one byte: the number of bytes delivered\<close>
  "source_read_byte src =
     (case src_bytes src of
        _ # _ \<Rightarrow> Inr 1
      | [] \<Rightarrow> (case src_failure src of None \<Rightarrow> Inr 0 | Some e \<Rightarrow> Inl e))"

definition sink_write_all :: "string \<Rightarrow> byte_sink \<Rightarrow> (io_error + unit) \<times> byte_sink" where
  "sink_write_all data snk =
     (case snk_room snk of
        None \<Rightarrow> (Inr (), snk\<lparr>snk_bytes := snk_bytes snk @ data\<rparr>)
      | Some room \<Rightarrow>
          if length data \<le> room
          then (Inr (), snk\<lparr>snk_bytes := snk_bytes snk @ data, snk_room := Some (room - length data)\<rparr>)
          else (Inl (IoFailure ''failed to write whole buffer''),
                snk\<lparr>snk_bytes := snk_bytes snk @ take room data, snk_room := Some 0\<rparr>))"

record stream_out =
  out_sink :: byte_sink
  out_hashed :: string
  out_bytes :: u64

record 's stream_in =
  in_source :: 's
  in_hashed :: string
  in_bytes :: u64

definition stream_write :: "string \<Rightarrow> stream_out \<Rightarrow> (streaming_generation_error + unit) \<times> stream_out" where
  "stream_write data out =
     (case checked_add (out_bytes out) (of_nat (length data)) of
        None \<Rightarrow> (Inl (StreamCrypto GenPlaintextTooLarge), out)
      | Some next_bytes \<Rightarrow>
          if max_stream_container_bytes < next_bytes then (Inl (StreamCrypto GenPlaintextTooLarge), out)
          else (case sink_write_all data (out_sink out) of
                  (Inl e, snk) \<Rightarrow> (Inl (StreamIo e), out\<lparr>out_sink := snk\<rparr>)
                | (Inr _, snk) \<Rightarrow>
                    (Inr (), out\<lparr>out_sink := snk, out_hashed := out_hashed out @ data, out_bytes := next_bytes\<rparr>)))"

fun stream_writes :: "string list \<Rightarrow> stream_out \<Rightarrow> (streaming_generation_error + unit) \<times> stream_out" where
  "stream_writes [] out = (Inr (), out)"
| "stream_writes (data # rest) out =
     (case stream_write data out of
        (Inl e, out1) \<Rightarrow> (Inl e, out1)
      | (Inr _, out1) \<Rightarrow> stream_writes rest out1)"

definition stream_read ::
    "nat \<Rightarrow> byte_source stream_in \<Rightarrow> streaming_generation_error + string \<times> byte_source stream_in" where
  "stream_read n st =
     (case checked_add (in_bytes st) (of_nat n) of
        None \<Rightarrow> Inl (StreamCrypto GenPlaintextTooLarge)
      | Some next_bytes \<Rightarrow>
          if max_stream_container_bytes < next_bytes then Inl (StreamCrypto GenPlaintextTooLarge)
          else (case source_read_exact n (in_source st) of
                  (Inl e, _) \<Rightarrow> Inl (StreamIo e)
                | (Inr data, src) \<Rightarrow>
                    Inr (data, st\<lparr>in_source := src, in_hashed := in_hashed st @ data, in_bytes := next_bytes\<rparr>)))"

record streaming_generation_report =
  sr_metadata :: generation_metadata
  sr_metadata_digest :: string
  sr_container_digest :: string
  sr_container_bytes :: u64

section \<open>Metadata of a stream\<close>

definition metadata_for_reader ::
    "crypto \<Rightarrow> generation_identity \<Rightarrow> key_id \<Rightarrow> string \<Rightarrow> u32 \<Rightarrow> byte_source
     \<Rightarrow> streaming_generation_error + generation_metadata" where
  \<comment> \<open>reads of up to 64 KiB until the source reports its end; the running length is checked on the way\<close>
  "metadata_for_reader cr i key_id nonce_prefix chunk_size src =
     res_bind (res_map_err StreamCrypto (validate_chunk_size chunk_size)) (\<lambda>_.
       if unat max_stream_plaintext_bytes < length (src_bytes src) then Inl (StreamCrypto GenPlaintextTooLarge)
       else case src_failure src of
         Some e \<Rightarrow> Inl (StreamIo e)
       | None \<Rightarrow> Inr (metadata_of_identity i key_id nonce_prefix chunk_size
                       (of_nat (length (src_bytes src))) (sha256_of cr (src_bytes src))))"

section \<open>Sealing a stream\<close>

text \<open>
  The parts of the two functions that do not touch the source: what precedes the loop, one turn of the
  loop on the bytes it has read, and what follows it.
\<close>

definition seal_begin ::
    "crypto \<Rightarrow> generation_metadata \<Rightarrow> generation_dek \<Rightarrow> byte_sink
     \<Rightarrow> (streaming_generation_error + string \<times> string) \<times> stream_out" where
  \<comment> \<open>up to the loop: the cipher, the digest of the metadata\<close>
  "seal_begin cr m key snk =
     (let out = \<lparr>out_sink = snk, out_hashed = [], out_bytes = 0\<rparr> in
      if gm_key_id m \<noteq> dek_key_id key then (Inl (StreamCrypto GenMetadataMismatch), out)
      else if max_stream_plaintext_bytes < gm_plaintext_bytes m
      then (Inl (StreamCrypto GenPlaintextTooLarge), out)
      else case metadata_encode m of
        Inl e \<Rightarrow> (Inl (StreamCrypto e), out)
      | Inr encoded \<Rightarrow>
          (case dek_cipher key of
             Inl e \<Rightarrow> (Inl (StreamCrypto e), out)
           | Inr cipher \<Rightarrow>
               (case stream_write container_magic out of
                    (Inl e, out1) \<Rightarrow> (Inl e, out1)
                  | (Inr _, out1) \<Rightarrow>
                      if 2 ^ 32 \<le> length encoded then (Inl (StreamCrypto GenInvalidContainer), out1)
                      else case stream_writes [be_bytes 4 (of_nat (length encoded) :: u32), encoded] out1 of
                        (Inl e, out2) \<Rightarrow> (Inl e, out2)
                      | (Inr _, out2) \<Rightarrow> (Inr (cipher, sha256_of cr encoded), out2))))"

definition seal_chunk ::
    "crypto \<Rightarrow> string \<Rightarrow> generation_metadata \<Rightarrow> string \<Rightarrow> u64 \<Rightarrow> string \<Rightarrow> stream_out
     \<Rightarrow> (streaming_generation_error + u64) \<times> stream_out" where
  \<comment> \<open>one turn of the loop after the read: the next index\<close>
  "seal_chunk cr cipher m digest index buffer out =
     (case encrypt_record cr cipher m digest record_chunk index buffer of
        Inl e \<Rightarrow> (Inl (StreamCrypto e), out)
      | Inr ciphertext \<Rightarrow>
          (case stream_writes [[char_of (unat record_chunk)], be_bytes 8 index,
                  be_bytes 4 (of_nat (length buffer) :: u32)] out of
             (Inl e, out1) \<Rightarrow> (Inl e, out1)
           | (Inr _, out1) \<Rightarrow>
               if 2 ^ 32 \<le> length ciphertext then (Inl (StreamCrypto GenPlaintextTooLarge), out1)
               else (case stream_writes [be_bytes 4 (of_nat (length ciphertext) :: u32), ciphertext] out1 of
                       (Inl e, out2) \<Rightarrow> (Inl e, out2)
                     | (Inr _, out2) \<Rightarrow>
                         (case checked_add index 1 of
                            None \<Rightarrow> (Inl (StreamCrypto GenPlaintextTooLarge), out2)
                          | Some next_index \<Rightarrow> (Inr next_index, out2)))))"

definition seal_finish ::
    "crypto \<Rightarrow> string \<Rightarrow> generation_metadata \<Rightarrow> string \<Rightarrow> u64 \<Rightarrow> io_error + nat \<Rightarrow> string \<Rightarrow> stream_out
     \<Rightarrow> (streaming_generation_error + streaming_generation_report) \<times> byte_sink" where
  \<comment> \<open>after the loop; \<open>trailing\<close> is what the read of one more byte gave\<close>
  "seal_finish cr cipher m digest index trailing hashed out =
     (case trailing of
        Inl e \<Rightarrow> (Inl (StreamIo e), out_sink out)
      | Inr trailing \<Rightarrow>
          if trailing \<noteq> 0 \<or> sha256_of cr hashed \<noteq> gm_plaintext_digest m
          then (Inl (StreamCrypto GenMetadataMismatch), out_sink out)
          else case encrypt_record cr cipher m digest record_final index [] of
            Inl e \<Rightarrow> (Inl (StreamCrypto e), out_sink out)
          | Inr final_tag \<Rightarrow>
              (case stream_writes [[char_of (unat record_final)], be_bytes 8 index, be_bytes 4 (0 :: u32)] out of
                 (Inl e, out1) \<Rightarrow> (Inl e, out_sink out1)
               | (Inr _, out1) \<Rightarrow>
                   if 2 ^ 32 \<le> length final_tag then (Inl (StreamCrypto GenInvalidContainer), out_sink out1)
                   else (case stream_writes [be_bytes 4 (of_nat (length final_tag) :: u32), final_tag] out1 of
                           (Inl e, out2) \<Rightarrow> (Inl e, out_sink out2)
                         | (Inr _, out2) \<Rightarrow>
                             (Inr \<lparr>sr_metadata = m, sr_metadata_digest = digest,
                                   sr_container_digest = sha256_of cr (out_hashed out2),
                                   sr_container_bytes = out_bytes out2\<rparr>, out_sink out2))))"

partial_function (option) stream_seal_loop ::
    "crypto \<Rightarrow> string \<Rightarrow> generation_metadata \<Rightarrow> string \<Rightarrow> u64 \<Rightarrow> u64 \<Rightarrow> byte_source \<Rightarrow> string \<Rightarrow> stream_out
     \<Rightarrow> ((streaming_generation_error + u64 \<times> byte_source \<times> string) \<times> stream_out) option" where
  "stream_seal_loop cr cipher m digest remaining index src hashed out =
     (if remaining = 0 then Some (Inr (index, src, hashed), out)
      else
        let count = min (unat remaining) (unat (gm_chunk_size m)) in
        case source_read_exact count src of
          (Inl e, _) \<Rightarrow> Some (Inl (StreamIo e), out)
        | (Inr buffer, src1) \<Rightarrow>
            (case seal_chunk cr cipher m digest index buffer out of
               (Inl e, out1) \<Rightarrow> Some (Inl e, out1)
             | (Inr next_index, out1) \<Rightarrow>
                 stream_seal_loop cr cipher m digest (remaining - of_nat count) next_index
                   src1 (hashed @ buffer) out1))"

definition seal_generation_streaming ::
    "crypto \<Rightarrow> generation_metadata \<Rightarrow> generation_dek \<Rightarrow> byte_source \<Rightarrow> byte_sink
     \<Rightarrow> ((streaming_generation_error + streaming_generation_report) \<times> byte_sink) option" where
  "seal_generation_streaming cr m key src snk =
     (case seal_begin cr m key snk of
        (Inl e, out) \<Rightarrow> Some (Inl e, out_sink out)
      | (Inr (cipher, digest), out) \<Rightarrow>
          (case stream_seal_loop cr cipher m digest (gm_plaintext_bytes m) 0 src [] out of
             None \<Rightarrow> None
           | Some (Inl e, out1) \<Rightarrow> Some (Inl e, out_sink out1)
           | Some (Inr (index, src1, hashed), out1) \<Rightarrow>
               Some (seal_finish cr cipher m digest index (source_read_byte src1) hashed out1)))"

section \<open>Opening a stream\<close>

definition parse_record_header :: "string \<Rightarrow> record_header" where
  "parse_record_header bs =
     \<lparr>rh_type = of_nat (byte_of (hd bs)), rh_index = from_be (take 8 (drop 1 bs)),
      rh_plaintext_length = from_be (take 4 (drop 9 bs)), rh_ciphertext_length = from_be (take 4 (drop 13 bs))\<rparr>"

definition open_begin ::
    "crypto \<Rightarrow> generation_dek \<Rightarrow> string \<Rightarrow> streaming_generation_error + generation_metadata \<times> string \<times> string" where
  \<comment> \<open>the metadata bytes, decoded and checked: the metadata, the cipher, the digest\<close>
  "open_begin cr key meta =
     (case metadata_decode meta of
        Inl e \<Rightarrow> Inl (StreamCrypto e)
      | Inr m \<Rightarrow>
          if gm_key_id m \<noteq> dek_key_id key then Inl (StreamCrypto GenMetadataMismatch)
          else case dek_cipher key of
            Inl e \<Rightarrow> Inl (StreamCrypto e)
          | Inr cipher \<Rightarrow> Inr (m, cipher, sha256_of cr meta))"

definition open_header_ok :: "generation_metadata \<Rightarrow> u64 \<Rightarrow> record_header \<Rightarrow> bool" where
  "open_header_ok m index h \<longleftrightarrow> rh_index h = index
     \<and> (rh_type h = record_chunk \<or> rh_type h = record_final)
     \<and> (rh_type h = record_chunk \<longrightarrow> chunk_length_ok m h)
     \<and> (rh_type h = record_final \<longrightarrow> final_length_ok h)"

definition open_chunk ::
    "generation_metadata \<Rightarrow> record_header \<Rightarrow> string \<Rightarrow> u64 \<Rightarrow> u64 \<Rightarrow> byte_sink
     \<Rightarrow> (streaming_generation_error + u64 \<times> u64) \<times> byte_sink" where
  \<comment> \<open>a chunk that was decrypted: the plaintext bytes so far, the next index\<close>
  "open_chunk m h opened plain_bytes index snk =
     (if length opened \<noteq> unat (rh_plaintext_length h) then (Inl (StreamCrypto GenInvalidContainer), snk)
      else case checked_add plain_bytes (ucast (rh_plaintext_length h)) of
        None \<Rightarrow> (Inl (StreamCrypto GenPlaintextTooLarge), snk)
      | Some plain_total \<Rightarrow>
          if gm_plaintext_bytes m < plain_total \<or> max_stream_plaintext_bytes < plain_total
          then (Inl (StreamCrypto GenPlaintextTooLarge), snk)
          else (case sink_write_all opened snk of
                  (Inl e, snk1) \<Rightarrow> (Inl (StreamIo e), snk1)
                | (Inr _, snk1) \<Rightarrow>
                    (case checked_add index 1 of
                       None \<Rightarrow> (Inl (StreamCrypto GenInvalidContainer), snk1)
                     | Some next_index \<Rightarrow> (Inr (plain_total, next_index), snk1))))"

definition open_complete :: "crypto \<Rightarrow> generation_metadata \<Rightarrow> string \<Rightarrow> u64 \<Rightarrow> string \<Rightarrow> bool" where
  "open_complete cr m hashed plain_bytes opened \<longleftrightarrow>
     opened = [] \<and> plain_bytes = gm_plaintext_bytes m \<and> sha256_of cr hashed = gm_plaintext_digest m"

definition open_report ::
    "crypto \<Rightarrow> generation_metadata \<Rightarrow> string \<Rightarrow> 's stream_in \<Rightarrow> io_error + nat
     \<Rightarrow> streaming_generation_error + streaming_generation_report" where
  \<comment> \<open>after the final record; \<open>trailing\<close> is what the read of one more byte gave\<close>
  "open_report cr m digest st trailing =
     (case trailing of
        Inl e \<Rightarrow> Inl (StreamIo e)
      | Inr trailing \<Rightarrow>
          if trailing \<noteq> 0 then Inl (StreamCrypto GenInvalidContainer)
          else Inr \<lparr>sr_metadata = m, sr_metadata_digest = digest,
                    sr_container_digest = sha256_of cr (in_hashed st), sr_container_bytes = in_bytes st\<rparr>)"

definition stream_open_finish ::
    "crypto \<Rightarrow> generation_metadata \<Rightarrow> string \<Rightarrow> byte_source stream_in \<Rightarrow> string \<Rightarrow> u64 \<Rightarrow> string
     \<Rightarrow> streaming_generation_error + streaming_generation_report" where
  "stream_open_finish cr m digest st hashed plain_bytes opened =
     (if \<not> open_complete cr m hashed plain_bytes opened then Inl (StreamCrypto GenDigestMismatch)
      else open_report cr m digest st (source_read_byte (in_source st)))"

partial_function (option) stream_open_loop ::
    "crypto \<Rightarrow> string \<Rightarrow> generation_metadata \<Rightarrow> string \<Rightarrow> byte_source stream_in \<Rightarrow> string \<Rightarrow> u64 \<Rightarrow> u64 \<Rightarrow> byte_sink
     \<Rightarrow> ((streaming_generation_error + streaming_generation_report) \<times> byte_sink) option" where
  "stream_open_loop cr cipher m digest st hashed plain_bytes index snk =
     (case stream_read 17 st of
        Inl e \<Rightarrow> Some (Inl e, snk)
      | Inr (raw, st1) \<Rightarrow>
          let h = parse_record_header raw in
          if \<not> open_header_ok m index h then Some (Inl (StreamCrypto GenInvalidContainer), snk)
          else case stream_read (unat (rh_ciphertext_length h)) st1 of
            Inl e \<Rightarrow> Some (Inl e, snk)
          | Inr (ciphertext, st2) \<Rightarrow>
              (case decrypt_record cr cipher m digest h ciphertext of
                 Inl e \<Rightarrow> Some (Inl (StreamCrypto e), snk)
               | Inr opened \<Rightarrow>
                   if rh_type h = record_final
                   then Some (stream_open_finish cr m digest st2 hashed plain_bytes opened, snk)
                   else (case open_chunk m h opened plain_bytes index snk of
                           (Inl e, snk1) \<Rightarrow> Some (Inl e, snk1)
                         | (Inr (plain_total, next_index), snk1) \<Rightarrow>
                             stream_open_loop cr cipher m digest st2 (hashed @ opened) plain_total next_index snk1)))"

definition prelude_length :: "string \<Rightarrow> streaming_generation_error + nat" where
  \<comment> \<open>the first twelve bytes: the length of the metadata\<close>
  "prelude_length prelude =
     (let meta_len = unat (from_be (drop 8 prelude) :: u32) in
      if take 8 prelude \<noteq> container_magic then Inl (StreamCrypto GenInvalidContainer)
      else if meta_len = 0 \<or> max_metadata_bytes < meta_len then Inl (StreamCrypto GenInvalidContainer)
      else Inr meta_len)"

definition open_generation_streaming ::
    "crypto \<Rightarrow> byte_source \<Rightarrow> generation_dek \<Rightarrow> byte_sink
     \<Rightarrow> ((streaming_generation_error + streaming_generation_report) \<times> byte_sink) option" where
  "open_generation_streaming cr src key snk =
     (case stream_read 12 \<lparr>in_source = src, in_hashed = [], in_bytes = 0\<rparr> of
        Inl e \<Rightarrow> Some (Inl e, snk)
      | Inr (prelude, st1) \<Rightarrow>
          (case prelude_length prelude of
             Inl e \<Rightarrow> Some (Inl e, snk)
           | Inr meta_len \<Rightarrow>
               (case stream_read meta_len st1 of
                  Inl e \<Rightarrow> Some (Inl e, snk)
                | Inr (meta, st2) \<Rightarrow>
                    (case open_begin cr key meta of
                       Inl e \<Rightarrow> Some (Inl e, snk)
                     | Inr (m, cipher, digest) \<Rightarrow> stream_open_loop cr cipher m digest st2 [] 0 0 snk))))"

end
