(* ===== verification/Streaming_Sealing.thy ===== *)
theory Streaming_Sealing
  imports Generation_Streaming
begin

text \<open>
  Sealing a stream writes what \<open>seal_generation\<close> writes: the loop returns on every source and sink,
  and on a sink with room it writes the prelude and the \<open>sealed_body\<close> of the chunks of the source.
\<close>

section \<open>Reads and writes that succeed\<close>

definition out_after :: "string \<Rightarrow> stream_out \<Rightarrow> stream_out" where
  "out_after data out = out\<lparr>out_sink := (out_sink out)\<lparr>snk_bytes := snk_bytes (out_sink out) @ data\<rparr>,
     out_hashed := out_hashed out @ data, out_bytes := out_bytes out + of_nat (length data)\<rparr>"

lemma out_after_parts [simp]:
  "snk_room (out_sink (out_after data out)) = snk_room (out_sink out)"
  "snk_bytes (out_sink (out_after data out)) = snk_bytes (out_sink out) @ data"
  "out_hashed (out_after data out) = out_hashed out @ data"
  "out_bytes (out_after data out) = out_bytes out + of_nat (length data)"
  by (simp_all add: out_after_def)

lemma out_after_append [simp]: "out_after b (out_after a out) = out_after (a @ b) out"
  by (simp add: out_after_def add.assoc)

lemma out_after_Nil [simp]: "out_after [] out = out"
  by (simp add: out_after_def)

definition fits_out :: "nat \<Rightarrow> stream_out \<Rightarrow> bool" where
  "fits_out n out \<longleftrightarrow> snk_room (out_sink out) = None \<and> unat (out_bytes out) + n \<le> unat max_stream_container_bytes"

lemma stream_limit_nat: "unat max_stream_container_bytes = 637534208"
  by (simp add: max_stream_container_bytes_def)

lemma fits_out_bytes: "fits_out n out \<Longrightarrow> length data \<le> n \<Longrightarrow> unat (out_bytes out + of_nat (length data)) = unat (out_bytes out) + length data"
  by (simp add: fits_out_def stream_limit_nat unat_word_ariths unat_of_nat)

lemma fits_out_after: "fits_out n out \<Longrightarrow> length data + k \<le> n \<Longrightarrow> fits_out k (out_after data out)"
  using fits_out_bytes [of n out data] by (simp add: fits_out_def)

lemma stream_write_ok:
  assumes "fits_out (length data) out"
  shows "stream_write data out = (Inr (), out_after data out)"
proof -
  note b = fits_out_bytes [OF assms order_refl]
  have "unat (of_nat (length data) :: u64) = length data"
    using assms by (intro unat_of_nat_small) (simp add: fits_out_def stream_limit_nat)
  then have "checked_add (out_bytes out) (of_nat (length data)) = Some (out_bytes out + of_nat (length data))"
    using b by (simp add: checked_add_Some_iff)
  moreover have "\<not> max_stream_container_bytes < out_bytes out + of_nat (length data)"
    using assms b by (simp add: fits_out_def word_less_nat_alt)
  ultimately show ?thesis
    using assms by (simp add: stream_write_def sink_write_all_def fits_out_def out_after_def)
qed

lemma stream_writes_ok: "fits_out (length (concat ds)) out \<Longrightarrow> stream_writes ds out = (Inr (), out_after (concat ds) out)"
proof (induction ds arbitrary: out)
  case (Cons d ds)
  have "stream_write d out = (Inr (), out_after d out)"
    using Cons.prems by (intro stream_write_ok) (simp add: fits_out_def)
  moreover have "fits_out (length (concat ds)) (out_after d out)"
    using fits_out_after [OF Cons.prems, of d] by simp
  ultimately show ?case using Cons.IH by simp
qed simp

section \<open>Sealing\<close>

lemma source_read_exact_cases:
  obtains (short) e src1 where "source_read_exact n src = (Inl e, src1)" "length (src_bytes src) < n"
  | (data) p r where "src_bytes src = p @ r" "length p = n" "source_read_exact n src = (Inr p, src\<lparr>src_bytes := r\<rparr>)"
proof (cases "n \<le> length (src_bytes src)")
  case True
  then show ?thesis
    using that(2) [of "take n (src_bytes src)" "drop n (src_bytes src)"] by (simp add: source_read_exact_def)
next
  case False
  then show ?thesis using that(1) by (simp add: source_read_exact_def)
qed

lemma chunk_count_word:
  "remaining \<noteq> 0 \<Longrightarrow> 0 < k \<Longrightarrow> unat (remaining - of_nat (min (unat remaining) k)) = unat remaining - min (unat remaining) k
     \<and> min (unat remaining) k \<noteq> 0" for remaining :: u64
proof -
  assume "remaining \<noteq> 0" "0 < k"
  have n: "unat (of_nat (min (unat remaining) k) :: u64) = min (unat remaining) k"
    using unat_bound [of remaining] by (intro unat_of_nat_small) (simp add: min_less_iff_disj)
  then have "unat (remaining - of_nat (min (unat remaining) k)) = unat remaining - unat (of_nat (min (unat remaining) k) :: u64)"
    by (intro unat_sub) (simp add: word_le_nat_alt)
  then show ?thesis using n \<open>remaining \<noteq> 0\<close> \<open>0 < k\<close> by (simp add: unat_gt_0)
qed

lemma stream_seal_loop_returns:
  assumes "0 < unat (gm_chunk_size m)"
  shows "\<exists>r out'. stream_seal_loop cr cipher m digest remaining i src hashed out = Some (r, out')
     \<and> (\<forall>k src' h. r = Inr (k, src', h) \<longrightarrow> (\<exists>p. src_bytes src = p @ src_bytes src' \<and> length p = unat remaining
          \<and> src_failure src' = src_failure src \<and> h = hashed @ p))"
proof (induction "unat remaining" arbitrary: remaining i src hashed out rule: less_induct)
  case less
  show ?case
  proof (cases "remaining = 0")
    case True
    then show ?thesis by (subst stream_seal_loop.simps) auto
  next
    case False
    let ?n = "min (unat remaining) (unat (gm_chunk_size m))"
    note n = chunk_count_word [OF False assms]
    show ?thesis
    proof (cases rule: source_read_exact_cases [of ?n src])
      case short
      then show ?thesis using False by (subst stream_seal_loop.simps) (auto simp: Let_def)
    next
      case (data p r)
      have IH: "\<exists>res out'. stream_seal_loop cr cipher m digest (remaining - of_nat ?n) j (src\<lparr>src_bytes := r\<rparr>) (hashed @ p) o2 = Some (res, out')
         \<and> (\<forall>k src' h. res = Inr (k, src', h) \<longrightarrow> (\<exists>q. src_bytes src = q @ src_bytes src' \<and> length q = unat remaining
              \<and> src_failure src' = src_failure src \<and> h = hashed @ q))" for j o2
      proof -
        obtain res out' where l: "stream_seal_loop cr cipher m digest (remaining - of_nat ?n) j (src\<lparr>src_bytes := r\<rparr>) (hashed @ p) o2 = Some (res, out')"
          and q: "\<And>k src' h. res = Inr (k, src', h) \<Longrightarrow> \<exists>q. r = q @ src_bytes src' \<and> length q = unat remaining - ?n
              \<and> src_failure src' = src_failure src \<and> h = (hashed @ p) @ q"
          using less [of "remaining - of_nat ?n" j "src\<lparr>src_bytes := r\<rparr>" "hashed @ p" o2] n False by (auto simp: unat_gt_0)
        have "\<exists>q. src_bytes src = q @ src_bytes src' \<and> length q = unat remaining \<and> src_failure src' = src_failure src \<and> h = hashed @ q"
          if "res = Inr (k, src', h)" for k src' h
          using q [OF that] data(1,2) by (metis append_assoc length_append le_add_diff_inverse min.cobounded1)
        then show ?thesis using l by blast
      qed
      show ?thesis
      proof (cases "encrypt_record cr cipher m digest record_chunk i p")
        case (Inl e)
        then show ?thesis using False data by (subst stream_seal_loop.simps) (simp add: seal_chunk_def Let_def)
      next
        case (Inr ct)
        obtain w1 o1 where w1: "stream_writes [[char_of (unat record_chunk)], be_bytes 8 i, be_bytes 4 (of_nat (length p) :: u32)] out = (w1, o1)"
          by fastforce
        obtain w2 o2 where w2: "stream_writes [be_bytes 4 (of_nat (length ct) :: u32), ct] o1 = (w2, o2)" by fastforce
        show ?thesis
          using False data(3) Inr w1 w2 IH
          by (subst stream_seal_loop.simps) (cases w1; cases w2; cases "checked_add i 1"; simp add: seal_chunk_def Let_def del: stream_writes.simps)
      qed
    qed
  qed
qed

lemma source_read_prefix:
  "src_bytes src = p @ r \<Longrightarrow> source_read_exact (length p) src = (Inr p, src\<lparr>src_bytes := r\<rparr>)"
  by (simp add: source_read_exact_def)

lemma stream_record_writes:
  assumes "fits_out (17 + length ct) out"
  shows "stream_writes [[char_of (unat kind)], be_bytes 8 i, be_bytes 4 n] out
      = (Inr (), out_after ([char_of (unat kind)] @ be_bytes 8 i @ be_bytes 4 n) out)"
    "stream_writes [be_bytes 4 (of_nat (length ct) :: u32), ct] (out_after ([char_of (unat kind)] @ be_bytes 8 i @ be_bytes 4 n) out)
      = (Inr (), out_after (container_record kind i n ct) out)"
proof -
  let ?a = "[char_of (unat kind)] @ be_bytes 8 i @ be_bytes 4 n"
  have "fits_out (4 + length ct) (out_after ?a out)" using fits_out_after [OF assms, of ?a "4 + length ct"] by simp
  then show "stream_writes [be_bytes 4 (of_nat (length ct) :: u32), ct] (out_after ?a out) = (Inr (), out_after (container_record kind i n ct) out)"
    using stream_writes_ok [of "[be_bytes 4 (of_nat (length ct) :: u32), ct]" "out_after ?a out"]
    by (simp add: container_record_def del: stream_writes.simps)
  have "fits_out 13 out" using assms by (simp add: fits_out_def)
  then show "stream_writes [[char_of (unat kind)], be_bytes 8 i, be_bytes 4 n] out = (Inr (), out_after ?a out)"
    using stream_writes_ok [of "[[char_of (unat kind)], be_bytes 8 i, be_bytes 4 n]" out]
    by (simp del: stream_writes.simps)
qed

lemma stream_seal_step:
  assumes "remaining \<noteq> 0" "src_bytes src = p @ r" "length p = min (unat remaining) (unat (gm_chunk_size m))"
    and "encrypt_record cr cipher m digest record_chunk i p = Inr ct" "length ct < 2 ^ 32"
    and "fits_out (17 + length ct) out" "checked_add i 1 = Some j"
  shows "stream_seal_loop cr cipher m digest remaining i src hashed out
     = stream_seal_loop cr cipher m digest (remaining - of_nat (length p)) j (src\<lparr>src_bytes := r\<rparr>) (hashed @ p)
         (out_after (container_record record_chunk i (of_nat (length p)) ct) out)"
  using assms(1,4,5,7) source_read_prefix [OF assms(2)] stream_record_writes [OF assms(6)]
  by (subst stream_seal_loop.simps) (simp flip: assms(3) add: seal_chunk_def Let_def not_le del: stream_writes.simps)

lemma stream_seal_loop_writes:
  assumes "seals cr cipher m"
  shows "n = unat (gm_chunk_size m) \<Longrightarrow> length pt = unat remaining \<Longrightarrow> unat i + length (chunks n pt) < 2 ^ 64 \<Longrightarrow>
    sealed_body cr cipher m digest (chunks n pt) i = Inr body \<Longrightarrow> fits_out (length body) out \<Longrightarrow> src_bytes src = pt @ extra \<Longrightarrow>
    \<exists>k mid tag. stream_seal_loop cr cipher m digest remaining i src hashed out
        = Some (Inr (k, src\<lparr>src_bytes := extra\<rparr>, hashed @ pt), out_after mid out)
      \<and> encrypt_record cr cipher m digest record_final k [] = Inr tag \<and> length tag = tag_bytes
      \<and> body = mid @ container_record record_final k 0 tag"
proof (induction n pt arbitrary: remaining i src hashed out body rule: chunks.induct)
  case (1 n pt)
  have m: "metadata_ok m" using assms by (simp add: seals_def)
  show ?case
  proof (cases "pt = []")
    case True
    obtain tag where "encrypt_record cr cipher m digest record_final i [] = Inr tag" "length tag = tag_bytes"
      by (rule encrypt_record_ok [OF assms, of "[]" digest record_final i]) simp_all
    moreover have "remaining = 0" using True 1(3) by (simp add: unat_eq_zero)
    ultimately show ?thesis
      using True 1(5,7) by (subst stream_seal_loop.simps) (simp add: chunks.simps)
  next
    case False
    let ?p = "take n pt"
    let ?ps = "chunks n (drop n pt)"
    have n: "0 < n" "n \<le> 1048576" using chunk_size_bounds [OF m] 1(2) by simp_all
    have chunks: "chunks n pt = ?p # ?ps" using False n by (subst chunks.simps) simp
    have r0: "remaining \<noteq> 0" using False 1(3) by auto
    note count = chunk_count_word [OF r0 n(1)]
    have len: "min (unat remaining) n = length ?p" using 1(3) by simp
    obtain ct where ct: "encrypt_record cr cipher m digest record_chunk i ?p = Inr ct" "length ct = length ?p + tag_bytes"
      by (rule encrypt_record_ok [OF assms, of ?p digest record_chunk i]) (simp_all add: 1(2))
    obtain b where b: "sealed_body cr cipher m digest ?ps (i + 1) = Inr b"
        "body = container_record record_chunk i (of_nat (length ?p)) ct @ b"
      using 1(5) chunks ct(1) by (auto simp: res_bind_Inr_iff)
    let ?rec = "container_record record_chunk i (of_nat (length ?p)) ct"
    have fit: "fits_out (length ?rec + length b) out" using 1(6) b(2) by simp
    have i: "checked_add i 1 = Some (i + 1)" "unat (i + 1) = Suc (unat i)"
      using checked_succ_small [of i] 1(4) chunks by simp_all
    have step: "stream_seal_loop cr cipher m digest remaining i src hashed out
       = stream_seal_loop cr cipher m digest (remaining - of_nat (length ?p)) (i + 1) (src\<lparr>src_bytes := drop n pt @ extra\<rparr>)
           (hashed @ ?p) (out_after ?rec out)"
      using r0 ct n(2) len fit i(1) 1(2,7) by (intro stream_seal_step) (simp_all add: tag_bytes_def fits_out_def)
    have "\<exists>k mid tag. stream_seal_loop cr cipher m digest (remaining - of_nat (length ?p)) (i + 1)
          (src\<lparr>src_bytes := drop n pt @ extra\<rparr>) (hashed @ ?p) (out_after ?rec out)
        = Some (Inr (k, src\<lparr>src_bytes := drop n pt @ extra, src_bytes := extra\<rparr>, (hashed @ ?p) @ drop n pt), out_after mid (out_after ?rec out))
      \<and> encrypt_record cr cipher m digest record_final k [] = Inr tag \<and> length tag = tag_bytes
      \<and> b = mid @ container_record record_final k 0 tag"
    proof (rule 1(1) [OF _ 1(2) _ _ b(1)])
      show "length (drop n pt) = unat (remaining - of_nat (length ?p))"
        using count [unfolded len, THEN conjunct1] 1(3) by (simp only: length_drop length_take)
      show "fits_out (length b) (out_after ?rec out)" using fits_out_after [OF fit, of ?rec "length b"] by simp
      show "unat (i + 1) + length ?ps < 2 ^ 64" using 1(4) chunks i(2) by simp
    qed (use False n in simp_all)
    then obtain k mid tag where IH: "stream_seal_loop cr cipher m digest (remaining - of_nat (length ?p)) (i + 1)
          (src\<lparr>src_bytes := drop n pt @ extra\<rparr>) (hashed @ ?p) (out_after ?rec out)
        = Some (Inr (k, src\<lparr>src_bytes := drop n pt @ extra, src_bytes := extra\<rparr>, (hashed @ ?p) @ drop n pt), out_after mid (out_after ?rec out))"
        "encrypt_record cr cipher m digest record_final k [] = Inr tag" "length tag = tag_bytes"
        "b = mid @ container_record record_final k 0 tag" by blast
    then show ?thesis using step b(2) by (intro exI [of _ k] exI [of _ "?rec @ mid"] exI [of _ tag]) simp
  qed
qed

definition sealed_report :: "crypto \<Rightarrow> generation_metadata \<Rightarrow> string \<Rightarrow> streaming_generation_report" where
  "sealed_report cr m container = \<lparr>sr_metadata = m, sr_metadata_digest = sha256_of cr (metadata_bytes m),
     sr_container_digest = sha256_of cr container, sr_container_bytes = of_nat (length container)\<rparr>"

lemma seal_finish_ok:
  assumes "encrypt_record cr cipher m digest record_final k [] = Inr tag" "length tag = tag_bytes"
    and "fits_out (17 + length tag) out" "sha256_of cr hashed = gm_plaintext_digest m"
    and "src_bytes src = []" "src_failure src = None"
  shows "seal_finish cr cipher m digest k (source_read_byte src) hashed out
     = (Inr \<lparr>sr_metadata = m, sr_metadata_digest = digest,
             sr_container_digest = sha256_of cr (out_hashed out @ container_record record_final k 0 tag),
             sr_container_bytes = out_bytes out + of_nat (17 + length tag)\<rparr>,
        out_sink (out_after (container_record record_final k 0 tag) out))"
  using assms(1,2,4-) stream_record_writes [OF assms(3), of record_final k 0]
  by (simp add: seal_finish_def source_read_byte_def tag_bytes_def del: stream_writes.simps)

lemma seal_streaming_writes:
  assumes "crypto_ok cr" "metadata_ok m" "gm_key_id m = dek_key_id key" "length (dek_bytes key) = 32"
    and "length pt = unat (gm_plaintext_bytes m)" "sha256_of cr pt = gm_plaintext_digest m"
    and body: "sealed_body cr (dek_bytes key) m (sha256_of cr (metadata_bytes m)) (chunks (unat (gm_chunk_size m)) pt) 0 = Inr body"
    and "length (container_prelude m @ body) \<le> unat max_stream_container_bytes"
  shows "seal_generation_streaming cr m key \<lparr>src_bytes = pt, src_failure = None\<rparr> \<lparr>snk_bytes = s0, snk_room = None\<rparr>
     = Some (Inr (sealed_report cr m (container_prelude m @ body)),
             \<lparr>snk_bytes = s0 @ container_prelude m @ body, snk_room = None\<rparr>)"
proof -
  let ?out = "\<lparr>out_sink = \<lparr>snk_bytes = s0, snk_room = None\<rparr>, out_hashed = [], out_bytes = 0\<rparr>"
  let ?digest = "sha256_of cr (metadata_bytes m)"
  let ?src = "\<lparr>src_bytes = pt, src_failure = None\<rparr>"
  have s: "seals cr (dek_bytes key) m" and t: "metadata_typed m" using assms by (simp_all add: seals_def metadata_ok_def)
  have len: "length (metadata_bytes m) \<le> 555" by (rule metadata_bytes_length [OF t])
  have pt: "length pt \<le> unat max_stream_plaintext_bytes" using assms(2,5) by (simp add: metadata_ok_def word_le_nat_alt)
  have n: "unat 0 + length (chunks (unat (gm_chunk_size m)) pt) < 2 ^ 64"
    using chunks_ok(3) [OF assms(2), of pt] pt by (simp add: max_stream_plaintext_bytes_def)
  have fit: "fits_out (length (container_prelude m @ body)) ?out" using assms(8) by (simp add: fits_out_def)
  have fit1: "fits_out (4 + length (metadata_bytes m)) (out_after container_magic ?out)"
    using fits_out_after [OF fit, of container_magic] by (simp add: container_prelude_def)
  have w1: "stream_write container_magic ?out = (Inr (), out_after container_magic ?out)"
    using fit by (intro stream_write_ok) (simp add: fits_out_def container_prelude_def)
  have w2: "stream_writes [be_bytes 4 (of_nat (length (metadata_bytes m)) :: u32), metadata_bytes m] (out_after container_magic ?out)
      = (Inr (), out_after (container_prelude m) ?out)"
    using stream_writes_ok [of "[be_bytes 4 (of_nat (length (metadata_bytes m)) :: u32), metadata_bytes m]" "out_after container_magic ?out"]
      fit1 by (simp add: container_prelude_def del: stream_writes.simps)
  have fit2: "fits_out (length body) (out_after (container_prelude m) ?out)"
    using fits_out_after [OF fit, of "container_prelude m"] by simp
  obtain k mid tag where l: "stream_seal_loop cr (dek_bytes key) m ?digest (gm_plaintext_bytes m) 0 ?src [] (out_after (container_prelude m) ?out)
        = Some (Inr (k, ?src\<lparr>src_bytes := []\<rparr>, [] @ pt), out_after mid (out_after (container_prelude m) ?out))"
      "encrypt_record cr (dek_bytes key) m ?digest record_final k [] = Inr tag" "length tag = tag_bytes"
      "body = mid @ container_record record_final k 0 tag"
    using stream_seal_loop_writes [OF s refl assms(5) n body fit2, where src = ?src and extra = "[]" and hashed = "[]"] by auto
  have fit3: "fits_out (17 + length tag) (out_after mid (out_after (container_prelude m) ?out))"
    using fits_out_after [OF fit2, of mid "17 + length tag"] l(4) by simp
  note fin = seal_finish_ok [OF l(2,3) fit3, of "[] @ pt" "?src\<lparr>src_bytes := []\<rparr>"]
  have "metadata_encode m = Inr (metadata_bytes m)" using t assms(2) by (simp add: metadata_encode_iff)
  moreover have "\<not> max_stream_plaintext_bytes < gm_plaintext_bytes m" using assms(2) by (simp add: metadata_ok_def not_less)
  ultimately show ?thesis
    using w1 w2 l fin len assms(3,4,6)
    by (simp add: seal_generation_streaming_def seal_begin_def dek_cipher_def Let_def sealed_report_def out_after_def del: stream_writes.simps)
qed

lemma metadata_encode_chunk: "metadata_encode m = Inr bs \<Longrightarrow> 0 < unat (gm_chunk_size m)"
  by (auto simp: metadata_encode_def res_bind_Inr_iff min_chunk_bytes_def word_le_nat_alt)

lemma seal_streaming_returns: "\<exists>r. seal_generation_streaming cr m key src snk = Some r"
proof (cases "metadata_encode m")
  case (Inr enc)
  have returns: "stream_seal_loop cr cipher m digest n i src h out = None \<Longrightarrow> False" for cipher digest n i h out
    using stream_seal_loop_returns [OF metadata_encode_chunk [OF Inr], of cr cipher digest n i src h out] by auto
  show ?thesis
    by (auto dest: returns simp: seal_generation_streaming_def seal_begin_def Inr Let_def split: sum.splits prod.splits option.splits simp del: stream_writes.simps)
qed (simp add: seal_generation_streaming_def seal_begin_def Let_def)

lemma seal_streaming_parts:
  assumes "seal_generation_streaming cr m key src snk = Some (Inr rep, snk')"
  shows "gm_key_id m = dek_key_id key" "length (dek_bytes key) = 32" "is_ok (metadata_encode m)"
    "length (src_bytes src) = unat (gm_plaintext_bytes m)" "sha256_of cr (src_bytes src) = gm_plaintext_digest m"
    "src_failure src = None"
proof -
  obtain enc cipher out k src1 h out1 where p: "gm_key_id m = dek_key_id key" "dek_cipher key = Inr cipher" "metadata_encode m = Inr enc"
      "stream_seal_loop cr cipher m (sha256_of cr enc) (gm_plaintext_bytes m) 0 src [] out = Some (Inr (k, src1, h), out1)"
      "seal_finish cr cipher m (sha256_of cr enc) k (source_read_byte src1) h out1 = (Inr rep, snk')"
    using assms by (auto simp: seal_generation_streaming_def seal_begin_def Let_def split: if_splits sum.splits prod.splits option.splits simp del: stream_writes.simps)
  have l: "src_bytes src = h @ src_bytes src1" "length h = unat (gm_plaintext_bytes m)" "src_failure src1 = src_failure src"
    using stream_seal_loop_returns [OF metadata_encode_chunk [OF p(3)], of cr cipher "sha256_of cr enc" "gm_plaintext_bytes m" 0 src "[]" out] p(4)
    by auto
  have f: "src_bytes src1 = []" "src_failure src1 = None" "sha256_of cr h = gm_plaintext_digest m"
    using p(5) by (auto simp: seal_finish_def source_read_byte_def split: if_splits sum.splits list.splits option.splits simp del: stream_writes.simps)
  show "gm_key_id m = dek_key_id key" "length (dek_bytes key) = 32" "is_ok (metadata_encode m)"
    "length (src_bytes src) = unat (gm_plaintext_bytes m)" "sha256_of cr (src_bytes src) = gm_plaintext_digest m"
    "src_failure src = None"
    using p(1-3) l f by (simp_all add: dek_cipher_def split: if_splits)
qed

end
