(* ===== verification/Ordered_Map.thy ===== *)
theory Ordered_Map
  imports Primitives "HOL-Library.Product_Lexorder"
begin

text \<open>
  Two pieces of the standard library.  \<open>BTreeMap\<close> is an association list in strictly ascending order
  of its keys, with the contract of a map as a locale.  Unsigned integers are printed and
  parsed in decimal, as \<open>format!\<close> and \<open>str::parse\<close> do.
\<close>

section \<open>Ordered maps\<close>

type_synonym ('k, 'v) btree = "('k \<times> 'v) list"

definition bt_get :: "'k \<Rightarrow> ('k, 'v) btree \<Rightarrow> 'v option" where
  "bt_get k m = map_of m k"

fun bt_insert :: "'k::linorder \<Rightarrow> 'v \<Rightarrow> ('k, 'v) btree \<Rightarrow> ('k, 'v) btree" where
  "bt_insert k v [] = [(k, v)]"
| "bt_insert k v ((k', v') # m) =
     (if k < k' then (k, v) # (k', v') # m
      else if k = k' then (k, v) # m
      else (k', v') # bt_insert k v m)"

definition bt_ok :: "('k::linorder, 'v) btree \<Rightarrow> bool" where
  "bt_ok m \<longleftrightarrow> sorted_wrt (<) (map fst m)"

locale ordered_map =
  fixes get :: "'k::linorder \<Rightarrow> 'm \<Rightarrow> 'v option" and ins :: "'k \<Rightarrow> 'v \<Rightarrow> 'm \<Rightarrow> 'm"
    and ok :: "'m \<Rightarrow> bool" and emp :: 'm and entries :: "'m \<Rightarrow> ('k \<times> 'v) list"
  assumes get_ins: "get k (ins j v m) = (if k = j then Some v else get k m)"
    and get_emp: "get k emp = None"
    and ok_emp: "ok emp"
    and ok_ins: "ok m \<Longrightarrow> ok (ins k v m)"
    and entries_iff: "ok m \<Longrightarrow> (k, v) \<in> set (entries m) \<longleftrightarrow> get k m = Some v"
    and entries_distinct: "ok m \<Longrightarrow> distinct (map fst (entries m))"
begin

lemma get_ins_same: "get k (ins k v m) = Some v"
  by (simp add: get_ins)

lemma get_ins_other: "k \<noteq> j \<Longrightarrow> get k (ins j v m) = get k m"
  by (simp add: get_ins)

lemma ins_all: "(\<And>k w. get k m = Some w \<Longrightarrow> P k w) \<Longrightarrow> P j v \<Longrightarrow> get k (ins j v m) = Some w \<Longrightarrow> P k w"
  by (auto simp: get_ins split: if_splits)

lemma entries_all: "ok m \<Longrightarrow> (\<forall>(k, v) \<in> set (entries m). P k v) \<longleftrightarrow> (\<forall>k v. get k m = Some v \<longrightarrow> P k v)"
  by (auto simp: entries_iff)

end

lemma bt_insert_keys: "set (map fst (bt_insert k v m)) = insert k (set (map fst m))"
  by (induction k v m rule: bt_insert.induct) auto

lemma bt_get_insert: "bt_get k (bt_insert j v m) = (if k = j then Some v else bt_get k m)"
  by (induction j v m rule: bt_insert.induct) (auto simp: bt_get_def)

lemma bt_ok_insert: "bt_ok m \<Longrightarrow> bt_ok (bt_insert k v m)"
proof (induction k v m rule: bt_insert.induct)
  case (2 k v k' v' m)
  then show ?case using bt_insert_keys [of k v m] by (auto simp: bt_ok_def simp del: set_map)
qed (simp add: bt_ok_def)

interpretation bt: ordered_map bt_get bt_insert bt_ok "[]" "\<lambda>m. m"
proof
  fix m :: "('k::linorder \<times> 'v) list" and k :: 'k and v :: 'v
  assume ok: "bt_ok m"
  then have d: "distinct (map fst m)" by (simp add: bt_ok_def strict_sorted_iff)
  then show "distinct (map fst m)" .
  show "(k, v) \<in> set m \<longleftrightarrow> bt_get k m = Some v" using d by (simp add: bt_get_def)
qed (simp_all add: bt_get_insert bt_ok_insert, simp_all add: bt_get_def bt_ok_def)

section \<open>Decimal numbers\<close>

definition digit_char :: "nat \<Rightarrow> char" where
  "digit_char d = char_of (48 + d)"

fun show_nat :: "nat \<Rightarrow> string" where
  "show_nat n = (if n < 10 then [digit_char n] else show_nat (n div 10) @ [digit_char (n mod 10)])"

declare show_nat.simps [simp del]

definition digits_value :: "string \<Rightarrow> nat" where
  "digits_value s = foldl (\<lambda>a c. 10 * a + (byte_of c - 48)) 0 s"

definition parse_u32 :: "string \<Rightarrow> u32 option" where
  \<comment> \<open>\<open>str::parse::<u32>\<close> on a string of digits\<close>
  "parse_u32 s = (if s \<noteq> [] \<and> list_all is_ascii_digit s \<and> digits_value s < 2 ^ 32 then Some (of_nat (digits_value s)) else None)"

lemma byte_of_digit: "d < 10 \<Longrightarrow> byte_of (digit_char d) = 48 + d"
  by (simp add: digit_char_def)

lemma digit_char_digit [simp]: "d < 10 \<Longrightarrow> is_ascii_digit (digit_char d)"
  using byte_of_digit [of d] by (simp add: is_ascii_digit_def)

lemma digit_of_byte: "is_ascii_digit c \<Longrightarrow> digit_char (byte_of c - 48) = c"
  by (simp add: digit_char_def ascii_defs)

lemma show_nat_digits: "list_all is_ascii_digit (show_nat n)" and show_nat_nonempty: "show_nat n \<noteq> []"
  and show_nat_value: "digits_value (show_nat n) = n"
proof (induction n rule: show_nat.induct)
  case (1 n)
  show "list_all is_ascii_digit (show_nat n)" using 1 by (subst show_nat.simps) simp
  show "show_nat n \<noteq> []" by (subst show_nat.simps) simp
  show "digits_value (show_nat n) = n" using 1 by (subst show_nat.simps) (simp add: digits_value_def byte_of_digit)
qed

lemma digits_value_snoc: "digits_value (s @ [c]) = 10 * digits_value s + (byte_of c - 48)"
  by (simp add: digits_value_def)

lemma digit_value_lt: "is_ascii_digit c \<Longrightarrow> byte_of c - 48 < 10"
  by (auto simp: ascii_defs)

definition canonical_digits :: "string \<Rightarrow> bool" where
  "canonical_digits s \<longleftrightarrow> s \<noteq> [] \<and> list_all is_ascii_digit s \<and> \<not> (1 < length s \<and> hd s = CHR ''0'')"

lemma canonical_value_pos: "list_all is_ascii_digit s \<Longrightarrow> s \<noteq> [] \<Longrightarrow> hd s \<noteq> CHR ''0'' \<Longrightarrow> 0 < digits_value s"
proof (induction s rule: rev_induct)
  case (snoc c s)
  show ?case
  proof (cases "s = []")
    case True
    have "byte_of c \<noteq> 48"
    proof
      assume "byte_of c = 48"
      then have "c = CHR ''0''" by (intro of_char_eq_iff [THEN iffD1]) (simp add: byte_of_def)
      then show False using snoc.prems True by simp
    qed
    then show ?thesis using snoc.prems True by (simp add: digits_value_def ascii_defs)
  qed (use snoc in \<open>simp add: digits_value_snoc\<close>)
qed simp

lemma show_nat_of_value: "canonical_digits s \<Longrightarrow> show_nat (digits_value s) = s"
proof (induction s rule: rev_induct)
  case (snoc c s)
  have c: "is_ascii_digit c" and s: "list_all is_ascii_digit s" using snoc.prems by (simp_all add: canonical_digits_def)
  note d = digit_value_lt [OF c]
  show ?case
  proof (cases "s = []")
    case True
    then show ?thesis using d digit_of_byte [OF c] by (subst show_nat.simps) (simp add: digits_value_def)
  next
    case False
    have h: "hd s \<noteq> CHR ''0''" using snoc.prems False by (auto simp: canonical_digits_def)
    then have "0 < digits_value s" by (rule canonical_value_pos [OF s False])
    moreover have "canonical_digits s" using s h False by (simp add: canonical_digits_def)
    ultimately show ?thesis
      using snoc.IH d digit_of_byte [OF c] by (subst show_nat.simps) (simp add: digits_value_snoc)
  qed
qed (simp add: canonical_digits_def)

lemma show_nat_canonical: "canonical_digits (show_nat n)"
proof (induction n rule: show_nat.induct)
  case (1 n)
  show ?case
  proof (cases "n < 10")
    case False
    then have "canonical_digits (show_nat (n div 10))" by (rule 1)
    moreover have "hd (show_nat (n div 10)) \<noteq> CHR ''0''"
    proof
      assume z: "hd (show_nat (n div 10)) = CHR ''0''"
      then have "length (show_nat (n div 10)) = 1"
        using \<open>canonical_digits (show_nat (n div 10))\<close> show_nat_nonempty [of "n div 10"]
        by (cases "show_nat (n div 10)") (auto simp: canonical_digits_def)
      then have "show_nat (n div 10) = [CHR ''0'']" using z by (cases "show_nat (n div 10)") auto
      then have "n div 10 = 0" using show_nat_value [of "n div 10"] by (simp add: digits_value_def byte_of_def)
      then show False using False by simp
    qed
    ultimately show ?thesis using False show_nat_nonempty [of "n div 10"]
      by (subst show_nat.simps) (auto simp: canonical_digits_def)
  qed (subst show_nat.simps, simp add: canonical_digits_def)
qed

end
