(* ===== verification/Cloud_Repository.thy ===== *)
theory Cloud_Repository
  imports Streaming_Sealing Ordered_Map
begin

text \<open>
  \<open>crates/encrypted-generation-domain/src/lifecycle.rs\<close>: the repository of sealed generations, with
  its immutable objects, catalog records, nonce claims and the current/rollback pointer, and
  \<open>key_derivation.rs\<close>: root key versions and the derivation of generation keys.
\<close>

unbundle bit_operations_syntax

section \<open>Catalog records and the pointer\<close>

datatype cloud_generation_status = CloudStaged | CloudVerified | CloudQuarantined

fun cloud_status_as_str :: "cloud_generation_status \<Rightarrow> string" where
  "cloud_status_as_str CloudStaged = ''staged''"
| "cloud_status_as_str CloudVerified = ''verified''"
| "cloud_status_as_str CloudQuarantined = ''quarantined''"

fun cloud_status_rank :: "cloud_generation_status \<Rightarrow> nat" where
  "cloud_status_rank CloudStaged = 0"
| "cloud_status_rank CloudVerified = 1"
| "cloud_status_rank CloudQuarantined = 2"

lemma cloud_status_rank_inject [simp]: "cloud_status_rank a = cloud_status_rank b \<longleftrightarrow> a = b"
  by (cases a; cases b) simp_all

instantiation cloud_generation_status :: linorder
begin

definition less_eq_cloud_generation_status :: "cloud_generation_status \<Rightarrow> cloud_generation_status \<Rightarrow> bool" where
  "less_eq_cloud_generation_status a b \<longleftrightarrow> cloud_status_rank a \<le> cloud_status_rank b"

definition less_cloud_generation_status :: "cloud_generation_status \<Rightarrow> cloud_generation_status \<Rightarrow> bool" where
  "less_cloud_generation_status a b \<longleftrightarrow> cloud_status_rank a < cloud_status_rank b"

instance
  by standard (auto simp: less_eq_cloud_generation_status_def less_cloud_generation_status_def)

end

record cloud_generation_record =
  cr_metadata :: generation_metadata
  cr_object_key :: string
  cr_container_digest :: string
  cr_status :: cloud_generation_status
  cr_created_at :: unix_millis
  cr_verified_at :: "unix_millis option"

record pointer_snapshot =
  ps_version :: u64
  ps_current_generation_id :: "generation_id option"
  ps_rollback_generation_id :: "generation_id option"

datatype publish_result = PublishCreated | PublishIdempotent

record restore_result =
  rr_metadata :: generation_metadata
  rr_plaintext :: string

record orphan_plan =
  op_generation_ids :: "generation_id list"
  op_reclaimable_bytes :: u64

record support_summary =
  ss_total_generations :: u64
  ss_total_container_bytes :: u64
  ss_status_counts :: "(cloud_generation_status, u64) btree"
  ss_pointer_version :: u64
  ss_has_current :: bool
  ss_has_rollback :: bool

definition show_bool :: "bool \<Rightarrow> string" where
  "show_bool b = (if b then ''true'' else ''false'')"

definition render_metadata_only :: "support_summary \<Rightarrow> string" where
  "render_metadata_only s =
     ''schema=encrypted-generation-support-v1'' @ [CHR 10]
     @ ''total_generations='' @ show_nat (unat (ss_total_generations s)) @ [CHR 10]
     @ ''total_container_bytes='' @ show_nat (unat (ss_total_container_bytes s)) @ [CHR 10]
     @ ''pointer_version='' @ show_nat (unat (ss_pointer_version s)) @ [CHR 10]
     @ ''has_current='' @ show_bool (ss_has_current s) @ [CHR 10]
     @ ''has_rollback='' @ show_bool (ss_has_rollback s) @ [CHR 10]
     @ concat (map (\<lambda>(status, count). ''status.'' @ cloud_status_as_str status @ ''='' @ show_nat (unat count) @ [CHR 10])
                (ss_status_counts s))"

section \<open>The object store\<close>

type_synonym object_store = "(string, string) btree"

definition put_immutable :: "string \<Rightarrow> string \<Rightarrow> object_store \<Rightarrow> (encrypted_generation_error + bool) \<times> object_store" where
  "put_immutable object_key bytes objects =
     (case bt_get object_key objects of
        Some existing \<Rightarrow> if existing = bytes then (Inr False, objects) else (Inl GenImmutableConflict, objects)
      | None \<Rightarrow> (Inr True, bt_insert object_key bytes objects))"

definition object_get :: "string \<Rightarrow> object_store \<Rightarrow> encrypted_generation_error + string" where
  "object_get object_key objects = res_ok_or GenMissingObject (bt_get object_key objects)"

definition object_bytes :: "string \<Rightarrow> object_store \<Rightarrow> encrypted_generation_error + u64" where
  "object_bytes object_key objects =
     res_bind (res_ok_or GenMissingObject (bt_get object_key objects)) (\<lambda>bytes.
       if length bytes < 2 ^ 64 then Inr (of_nat (length bytes)) else Inl GenPlaintextTooLarge)"

section \<open>The repository\<close>

record cloud_generation_repository =
  rp_objects :: object_store
  rp_records :: "(generation_id, cloud_generation_record) btree"
  rp_nonce_claims :: "(string \<times> string, generation_id) btree"
  rp_pointer :: pointer_snapshot

definition repository_default :: cloud_generation_repository where
  "repository_default = \<lparr>rp_objects = [], rp_records = [], rp_nonce_claims = [],
     rp_pointer = \<lparr>ps_version = 0, ps_current_generation_id = None, ps_rollback_generation_id = None\<rparr>\<rparr>"

definition repository_quarantine ::
    "generation_id \<Rightarrow> cloud_generation_repository \<Rightarrow> (encrypted_generation_error + unit) \<times> cloud_generation_repository" where
  "repository_quarantine g r =
     (case bt_get g (rp_records r) of
        None \<Rightarrow> (Inl GenMissingGeneration, r)
      | Some rec \<Rightarrow> (Inr (), r\<lparr>rp_records := bt_insert g (rec\<lparr>cr_status := CloudQuarantined, cr_verified_at := None\<rparr>) (rp_records r)\<rparr>))"

definition publish_record ::
    "crypto \<Rightarrow> generation_metadata \<Rightarrow> generation_dek \<Rightarrow> sealed_generation \<Rightarrow> bool \<Rightarrow> unix_millis
     \<Rightarrow> cloud_generation_repository \<Rightarrow> (encrypted_generation_error + publish_result) \<times> cloud_generation_repository" where
  \<comment> \<open>\<open>publish\<close> once the object is stored and no record exists: claim the nonce, stage, verify\<close>
  "publish_record cr m key sealed object_created observed_at r =
     (let g = gm_generation_id m;
          rec = \<lparr>cr_metadata = m, cr_object_key = metadata_object_key m, cr_container_digest = sg_container_digest sealed,
                 cr_status = CloudStaged, cr_created_at = observed_at, cr_verified_at = None\<rparr>;
          r1 = r\<lparr>rp_nonce_claims := bt_insert (dek_nonce_domain cr key, gm_nonce_prefix m) g (rp_nonce_claims r),
                 rp_records := bt_insert g rec (rp_records r)\<rparr>
      in or_return (object_get (metadata_object_key m) (rp_objects r1)) r1 (\<lambda>container.
           case open_generation_expected cr container key (gm_tenant_id m) (gm_profile_id m) g of
             Inr _ \<Rightarrow>
               (case bt_get g (rp_records r1) of
                  None \<Rightarrow> (Inl GenMissingGeneration, r1)
                | Some staged \<Rightarrow>
                    (Inr (if object_created then PublishCreated else PublishIdempotent),
                     r1\<lparr>rp_records := bt_insert g (staged\<lparr>cr_status := CloudVerified, cr_verified_at := Some observed_at\<rparr>)
                                        (rp_records r1)\<rparr>))
           | Inl error \<Rightarrow>
               (case repository_quarantine g r1 of
                  (Inl e, r2) \<Rightarrow> (Inl e, r2)
                | (Inr _, r2) \<Rightarrow> (Inl error, r2))))"

definition repository_publish ::
    "crypto \<Rightarrow> generation_metadata \<Rightarrow> generation_dek \<Rightarrow> string \<Rightarrow> unix_millis
     \<Rightarrow> cloud_generation_repository \<Rightarrow> (encrypted_generation_error + publish_result) \<times> cloud_generation_repository" where
  "repository_publish cr m key plaintext observed_at r =
     or_return (seal_generation cr m key plaintext) r (\<lambda>sealed.
       let nonce_claim = (dek_nonce_domain cr key, gm_nonce_prefix m);
           g = gm_generation_id m
       in if (case bt_get nonce_claim (rp_nonce_claims r) of None \<Rightarrow> False | Some claimed \<Rightarrow> claimed \<noteq> g)
          then (Inl GenNonceReuse, r)
          else
            (case put_immutable (metadata_object_key m) (sg_container sealed) (rp_objects r) of
               (Inl e, objects) \<Rightarrow> (Inl e, r\<lparr>rp_objects := objects\<rparr>)
             | (Inr object_created, objects) \<Rightarrow>
                 let r1 = r\<lparr>rp_objects := objects\<rparr> in
                 (case bt_get g (rp_records r1) of
                    Some existing \<Rightarrow>
                      if cr_metadata existing \<noteq> m \<or> cr_object_key existing \<noteq> metadata_object_key m
                         \<or> cr_container_digest existing \<noteq> sg_container_digest sealed
                      then (Inl GenImmutableConflict, r1)
                      else (Inr PublishIdempotent,
                            (case bt_get nonce_claim (rp_nonce_claims r1) of
                               Some _ \<Rightarrow> r1
                             | None \<Rightarrow> r1\<lparr>rp_nonce_claims := bt_insert nonce_claim g (rp_nonce_claims r1)\<rparr>))
                  | None \<Rightarrow> publish_record cr m key sealed object_created observed_at r1)))"

definition repository_restore ::
    "crypto \<Rightarrow> generation_id \<Rightarrow> generation_dek \<Rightarrow> unix_millis
     \<Rightarrow> cloud_generation_repository \<Rightarrow> (encrypted_generation_error + restore_result) \<times> cloud_generation_repository" where
  "repository_restore cr g key observed_at r =
     or_return (res_ok_or GenMissingGeneration (bt_get g (rp_records r))) r (\<lambda>rec.
       if cr_status rec = CloudQuarantined then (Inl GenerationQuarantined, r)
       else if gm_key_id (cr_metadata rec) \<noteq> dek_key_id key then (Inl GenMetadataMismatch, r)
       else or_return (object_get (cr_object_key rec) (rp_objects r)) r (\<lambda>container.
         if sha256_of cr container \<noteq> cr_container_digest rec
         then (case repository_quarantine g r of
                 (Inl e, r1) \<Rightarrow> (Inl e, r1)
               | (Inr _, r1) \<Rightarrow> (Inl GenDigestMismatch, r1))
         else or_return (open_generation_expected cr container key (gm_tenant_id (cr_metadata rec))
                           (gm_profile_id (cr_metadata rec)) g) r (\<lambda>opened.
           if observed_at < cr_created_at rec then (Inl GenTimeRegression, r)
           else (case bt_get g (rp_records r) of
                   None \<Rightarrow> (Inl GenMissingGeneration, r)
                 | Some current \<Rightarrow>
                     (Inr \<lparr>rr_metadata = og_metadata opened, rr_plaintext = og_plaintext opened\<rparr>,
                      r\<lparr>rp_records := bt_insert g (current\<lparr>cr_status := CloudVerified, cr_verified_at := Some observed_at\<rparr>)
                                        (rp_records r)\<rparr>)))))"

definition require_pointer_version :: "u64 \<Rightarrow> cloud_generation_repository \<Rightarrow> encrypted_generation_error + unit" where
  "require_pointer_version expected r =
     (if ps_version (rp_pointer r) \<noteq> expected then Inl GenStalePointer else Inr ())"

definition repository_commit_current ::
    "u64 \<Rightarrow> generation_id \<Rightarrow> cloud_generation_repository
     \<Rightarrow> (encrypted_generation_error + pointer_snapshot) \<times> cloud_generation_repository" where
  "repository_commit_current expected g r =
     or_return (require_pointer_version expected r) r (\<lambda>_.
     or_return (res_ok_or GenMissingGeneration (bt_get g (rp_records r))) r (\<lambda>rec.
     or_return (case cr_status rec of
                  CloudVerified \<Rightarrow> Inr ()
                | CloudQuarantined \<Rightarrow> Inl GenerationQuarantined
                | CloudStaged \<Rightarrow> Inl GenerationNotVerified) r (\<lambda>_.
       let p = rp_pointer r in
       if ps_current_generation_id p = Some g then (Inr p, r)
       else or_return (res_ok_or GenVersionOverflow (checked_add (ps_version p) 1)) r (\<lambda>next_version.
         let p1 = p\<lparr>ps_rollback_generation_id := ps_current_generation_id p,
                    ps_current_generation_id := Some g, ps_version := next_version\<rparr>
         in (Inr p1, r\<lparr>rp_pointer := p1\<rparr>)))))"

definition repository_rollback ::
    "u64 \<Rightarrow> generation_id \<Rightarrow> cloud_generation_repository
     \<Rightarrow> (encrypted_generation_error + pointer_snapshot) \<times> cloud_generation_repository" where
  "repository_rollback expected g r =
     or_return (require_pointer_version expected r) r (\<lambda>_.
       let p = rp_pointer r in
       if ps_rollback_generation_id p \<noteq> Some g then (Inl GenInvalidRollback, r)
       else or_return (res_ok_or GenMissingGeneration (bt_get g (rp_records r))) r (\<lambda>rec.
         if cr_status rec \<noteq> CloudVerified then (Inl GenerationNotVerified, r)
         else or_return (res_ok_or GenVersionOverflow (checked_add (ps_version p) 1)) r (\<lambda>next_version.
           let p1 = p\<lparr>ps_current_generation_id := Some g,
                      ps_rollback_generation_id := ps_current_generation_id p, ps_version := next_version\<rparr>
           in (Inr p1, r\<lparr>rp_pointer := p1\<rparr>))))"

definition plan_orphans :: "unix_millis \<Rightarrow> cloud_generation_repository \<Rightarrow> encrypted_generation_error + orphan_plan" where
  "plan_orphans created_before_or_at r = Inr \<lparr>op_generation_ids = [], op_reclaimable_bytes = 0\<rparr>"

fun summarize_records ::
    "object_store \<Rightarrow> cloud_generation_record list \<Rightarrow> u64 \<Rightarrow> (cloud_generation_status, u64) btree
     \<Rightarrow> encrypted_generation_error + u64 \<times> (cloud_generation_status, u64) btree" where
  "summarize_records objects [] bytes counts = Inr (bytes, counts)"
| "summarize_records objects (rec # recs) bytes counts =
     res_bind (object_bytes (cr_object_key rec) objects) (\<lambda>n.
     res_bind (res_ok_or GenPlaintextTooLarge (checked_add bytes n)) (\<lambda>bytes1.
       let count = (case bt_get (cr_status rec) counts of None \<Rightarrow> 0 | Some c \<Rightarrow> c) in
       res_bind (res_ok_or GenVersionOverflow (checked_add count 1)) (\<lambda>count1.
         summarize_records objects recs bytes1 (bt_insert (cr_status rec) count1 counts))))"

definition repository_support_summary :: "cloud_generation_repository \<Rightarrow> encrypted_generation_error + support_summary" where
  "repository_support_summary r =
     res_bind (summarize_records (rp_objects r) (map snd (rp_records r)) 0 []) (\<lambda>(bytes, counts).
       if 2 ^ 64 \<le> length (rp_records r) then Inl GenVersionOverflow
       else Inr \<lparr>ss_total_generations = of_nat (length (rp_records r)), ss_total_container_bytes = bytes,
                 ss_status_counts = counts, ss_pointer_version = ps_version (rp_pointer r),
                 ss_has_current = ps_current_generation_id (rp_pointer r) \<noteq> None,
                 ss_has_rollback = ps_rollback_generation_id (rp_pointer r) \<noteq> None\<rparr>)"

section \<open>Key derivation\<close>

datatype generation_key_derivation_error = InvalidRootKeyVersion | InvalidKeyIdentity | InvalidKdfContext

fun generation_key_derivation_error_message :: "generation_key_derivation_error \<Rightarrow> string" where
  "generation_key_derivation_error_message InvalidRootKeyVersion = ''generation root key version must be positive''"
| "generation_key_derivation_error_message InvalidKeyIdentity = ''generation root key identity is invalid''"
| "generation_key_derivation_error_message InvalidKdfContext = ''generation key derivation context is invalid''"

definition kdf_context_domain :: string where "kdf_context_domain = ''profile-generation-kdf-context-v1''"
definition dek_domain :: string where "dek_domain = ''profile-generation-dek-v1''"
definition nonce_prefix_domain :: string where "nonce_prefix_domain = ''profile-generation-nonce-prefix-v1''"
definition root_key_id_prefix :: string where "root_key_id_prefix = ''profile-generation-root-v1-''"

datatype generation_root_key_version = GenerationRootKeyVersion (root_version_value: u32)

definition root_key_version_new :: "u32 \<Rightarrow> generation_key_derivation_error + generation_root_key_version" where
  "root_key_version_new v = (if v = 0 then Inl InvalidRootKeyVersion else Inr (GenerationRootKeyVersion v))"

definition root_key_version_from_key_id :: "key_id \<Rightarrow> generation_key_derivation_error + generation_root_key_version" where
  "root_key_version_from_key_id k =
     (let s = key_id_str k; n = length root_key_id_prefix; suffix = drop n s in
      if take n s \<noteq> root_key_id_prefix then Inl InvalidKeyIdentity
      else if suffix = [] \<or> (1 < length suffix \<and> hd suffix = CHR ''0'') \<or> \<not> list_all is_ascii_digit suffix
      then Inl InvalidKeyIdentity
      else res_bind (res_ok_or InvalidKeyIdentity (parse_u32 suffix)) (\<lambda>value.
             res_map_err (\<lambda>_. InvalidKeyIdentity) (root_key_version_new value)))"

definition root_key_version_key_id :: "generation_root_key_version \<Rightarrow> generation_key_derivation_error + key_id" where
  "root_key_version_key_id v =
     res_map_err (\<lambda>_. InvalidKeyIdentity) (key_id_parse (root_key_id_prefix @ show_nat (unat (root_version_value v))))"

record generation_root_key =
  root_version :: generation_root_key_version
  root_bytes :: string

record kdf_context =
  kdf_tenant_id :: tenant_id
  kdf_profile_id :: profile_id
  kdf_generation_id :: generation_id
  kdf_plaintext_digest :: string

record derived_generation_material =
  dgm_dek :: generation_dek
  dgm_nonce_prefix :: string

definition kdf_frame :: "string \<Rightarrow> generation_key_derivation_error + string" where
  "kdf_frame v = (if length v < 2 ^ 64 then Inr (be_bytes 8 (of_nat (length v) :: u64) @ v) else Inl InvalidKdfContext)"

fun kdf_frames :: "string list \<Rightarrow> generation_key_derivation_error + string" where
  "kdf_frames [] = Inr []"
| "kdf_frames (v # vs) = res_bind (kdf_frame v) (\<lambda>a. res_bind (kdf_frames vs) (\<lambda>b. Inr (a @ b)))"

definition hmac_pad :: "nat \<Rightarrow> string \<Rightarrow> string" where
  "hmac_pad byte key = map (\<lambda>c. char_of (unat ((of_nat byte :: u8) XOR of_nat (byte_of c)))) key
     @ replicate (64 - length key) (char_of byte)"

definition derive_prf :: "crypto \<Rightarrow> generation_root_key \<Rightarrow> string \<Rightarrow> kdf_context \<Rightarrow> generation_key_derivation_error + string" where
  "derive_prf cr root purpose context =
     res_bind (kdf_frames [kdf_context_domain, purpose, be_bytes 4 (root_version_value (root_version root)),
         id_as_str (kdf_tenant_id context), id_as_str (kdf_profile_id context), id_as_str (kdf_generation_id context),
         kdf_plaintext_digest context]) (\<lambda>frames.
       Inr (sha256_of cr (hmac_pad 0x5c (root_bytes root) @ sha256_of cr (hmac_pad 0x36 (root_bytes root) @ frames))))"

definition derive_generation_material ::
    "crypto \<Rightarrow> generation_root_key \<Rightarrow> kdf_context \<Rightarrow> generation_key_derivation_error + derived_generation_material" where
  "derive_generation_material cr root context =
     res_bind (root_key_version_key_id (root_version root)) (\<lambda>key_id.
     res_bind (derive_prf cr root dek_domain context) (\<lambda>dek.
     res_bind (derive_prf cr root nonce_prefix_domain context) (\<lambda>nonce.
       Inr \<lparr>dgm_dek = \<lparr>dek_key_id = key_id, dek_bytes = dek\<rparr>, dgm_nonce_prefix = take 16 nonce\<rparr>)))"

end
