(* ===== verification/Streaming_Opening.thy ===== *)
theory Streaming_Opening
  imports Streaming_Sealing
begin

text \<open>
  Opening a stream accepts what \<open>open_generation\<close> accepts and delivers the same plaintext: the loop
  returns on every source and sink, and it ends in a report exactly on an accepted container.
\<close>

section \<open>Reads that succeed\<close>

definition in_skip :: "string \<Rightarrow> string \<Rightarrow> byte_source stream_in \<Rightarrow> byte_source stream_in" where
  "in_skip d r st = st\<lparr>in_source := (in_source st)\<lparr>src_bytes := r\<rparr>, in_hashed := in_hashed st @ d,
     in_bytes := in_bytes st + of_nat (length d)\<rparr>"

lemma in_skip_parts [simp]:
  "src_bytes (in_source (in_skip d r st)) = r" "src_failure (in_source (in_skip d r st)) = src_failure (in_source st)"
  "in_hashed (in_skip d r st) = in_hashed st @ d" "in_bytes (in_skip d r st) = in_bytes st + of_nat (length d)"
  by (simp_all add: in_skip_def)

definition fits_in :: "nat \<Rightarrow> byte_source stream_in \<Rightarrow> bool" where
  "fits_in n st \<longleftrightarrow> unat (in_bytes st) + n \<le> unat max_stream_container_bytes"

lemma fits_in_bytes: "fits_in n st \<Longrightarrow> unat (in_bytes st + of_nat n) = unat (in_bytes st) + n"
  by (simp add: fits_in_def stream_limit_nat unat_word_ariths unat_of_nat)

lemma fits_in_skip: "fits_in (length d) st \<Longrightarrow> fits_in n (in_skip d r st) \<longleftrightarrow> fits_in (length d + n) st"
  using fits_in_bytes [of "length d" st] by (simp add: fits_in_def add.assoc)

lemma stream_limit_iff:
  assumes "n < 2 ^ 64"
  shows "fits_in n st \<Longrightarrow> checked_add (in_bytes st) (of_nat n) = Some (in_bytes st + of_nat n)
           \<and> \<not> max_stream_container_bytes < in_bytes st + of_nat n"
    "\<not> fits_in n st \<Longrightarrow> checked_add (in_bytes st) (of_nat n) = Some b \<Longrightarrow> max_stream_container_bytes < b"
proof -
  have n: "unat (of_nat n :: u64) = n" using assms by (simp add: unat_of_nat_small)
  show "checked_add (in_bytes st) (of_nat n) = Some (in_bytes st + of_nat n)
           \<and> \<not> max_stream_container_bytes < in_bytes st + of_nat n" if f: "fits_in n st"
    using f fits_in_bytes [OF f] n by (simp add: checked_add_Some_iff fits_in_def word_less_nat_alt)
  show "max_stream_container_bytes < b" if "\<not> fits_in n st" "checked_add (in_bytes st) (of_nat n) = Some b"
    using that n by (simp add: checked_add_Some_iff fits_in_def word_less_nat_alt)
qed

lemma stream_read_iff:
  assumes "n < 2 ^ 64"
  shows "stream_read n st = Inr (d, st') \<longleftrightarrow> length d = n \<and> fits_in n st
     \<and> (\<exists>r. src_bytes (in_source st) = d @ r \<and> st' = in_skip d r st)"
proof (cases "fits_in n st")
  case False
  show ?thesis
  proof (cases "checked_add (in_bytes st) (of_nat n)")
    case (Some b)
    then show ?thesis using False stream_limit_iff(2) [OF assms False Some] by (simp add: stream_read_def)
  qed (use False in \<open>simp add: stream_read_def\<close>)
next
  case fits: True
  note lim = stream_limit_iff(1) [OF assms fits]
  show ?thesis
  proof (cases rule: source_read_exact_cases [of n "in_source st"])
    case short
    then show ?thesis using lim by (auto simp: stream_read_def)
  next
    case (data p r)
    then have "stream_read n st = Inr (p, in_skip p r st)" using lim by (simp add: stream_read_def in_skip_def)
    moreover have "length d = n \<and> (\<exists>r'. p @ r = d @ r' \<and> st' = in_skip d r' st) \<longleftrightarrow> d = p \<and> st' = in_skip p r st"
      using data(2) by (metis append_eq_append_conv)
    ultimately show ?thesis unfolding data(1) using fits by (metis Inr_inject Pair_inject)
  qed
qed


lemma stream_read_fresh:
  assumes "n < 2 ^ 64" "stream_read n st = Inr (d, st')"
  obtains r where "length d = n" "fits_in n st" "src_bytes (in_source st) = d @ r" "st' = in_skip d r st"
  using assms by (auto simp: stream_read_iff)

section \<open>Record headers\<close>

lemma char_of_unat_of_nat: "char_of (unat (of_nat (byte_of c) :: u8)) = c"
  using byte_of_lt [of c] by (simp add: unat_of_nat_small) (simp add: byte_of_def)

lemma split_three: "xs = take a xs @ take b (drop a xs) @ drop (a + b) xs"
  by (metis append_take_drop_id drop_drop add.commute)

lemma put_parse_header: "length bs = 17 \<Longrightarrow> put_header (parse_record_header bs) = bs"
proof -
  assume l: "length bs = 17"
  then obtain b r where bs: "bs = b # r" "length r = 16" by (cases bs) auto
  have "r = take 8 r @ take 4 (drop 8 r) @ drop 12 r" using split_three [of r 8 4] by simp
  then show ?thesis
    using bs by (simp add: put_header_def parse_record_header_def put_u8_def char_of_unat_of_nat)
qed

lemma unat_u8_mod: "unat (x :: u8) mod 256 = unat x"
  using unat_bound [of x] by simp

lemma parse_put_header [simp]: "parse_record_header (put_header h) = h"
  by (cases h) (simp add: put_header_def parse_record_header_def put_u8_def byte_of_char of_nat_of_unat unat_u8_mod)

section \<open>The loop returns\<close>

lemma stream_open_loop_returns: "\<exists>r s. stream_open_loop cr cipher m digest st hashed plain i snk = Some (r, s)"
proof (induction "length (src_bytes (in_source st))" arbitrary: st hashed plain i snk rule: less_induct)
  case less
  show ?case
  proof (cases "stream_read 17 st")
    case (Inr q1)
    obtain raw st1 where q1: "q1 = (raw, st1)" by fastforce
    obtain r1 where r1: "length raw = 17" "src_bytes (in_source st) = raw @ r1" "st1 = in_skip raw r1 st"
      by (rule stream_read_fresh [OF _ Inr [unfolded q1]]) simp_all
    let ?n = "unat (rh_ciphertext_length (parse_record_header raw))"
    show ?thesis
    proof (cases "stream_read ?n st1")
      case Inr2: (Inr q2)
      obtain ct st2 where q2: "q2 = (ct, st2)" by fastforce
      have "?n < 2 ^ 64" using unat_bound [of "rh_ciphertext_length (parse_record_header raw)"] by simp
      then obtain r2 where r2: "src_bytes (in_source st1) = ct @ r2" "st2 = in_skip ct r2 st1"
        by (rule stream_read_fresh [OF _ Inr2 [unfolded q2]])
      have "length (src_bytes (in_source st2)) < length (src_bytes (in_source st))" using r1 r2 by simp
      note IH = less [OF this]
      show ?thesis
        by (subst stream_open_loop.simps)
           (auto simp: Inr Inr2 q1 q2 open_chunk_def Let_def intro: IH split: sum.splits option.splits prod.splits)
    qed (use Inr q1 in \<open>subst stream_open_loop.simps; simp add: Let_def\<close>)
  qed (subst stream_open_loop.simps; simp)
qed


lemma open_streaming_returns: "\<exists>r. open_generation_streaming cr src key snk = Some r"
  using stream_open_loop_returns
  by (fastforce simp: open_generation_streaming_def open_begin_def prelude_length_def Let_def split: sum.splits prod.splits)

section \<open>What is opened\<close>

lemma unat_ucast_u64 [simp]: "unat (ucast (x :: u32) :: u64) = unat x"
  using unat_bound [of x] by (simp add: unsigned_ucast_eq take_bit_nat_eq_self)

definition opened_report :: "crypto \<Rightarrow> generation_metadata \<Rightarrow> string \<Rightarrow> byte_source stream_in \<Rightarrow> streaming_generation_report" where
  "opened_report cr m digest st = \<lparr>sr_metadata = m, sr_metadata_digest = digest,
     sr_container_digest = sha256_of cr (in_hashed st @ src_bytes (in_source st)),
     sr_container_bytes = in_bytes st + of_nat (length (src_bytes (in_source st)))\<rparr>"

lemma opened_report_skip:
  "src_bytes (in_source st) = d @ r \<Longrightarrow> opened_report cr m digest (in_skip d r st) = opened_report cr m digest st"
  by (simp add: opened_report_def add.assoc)

lemma stream_open_finish_iff:
  "stream_open_finish cr m digest st hashed plain opened = Inr rep \<longleftrightarrow>
     opened = [] \<and> plain = gm_plaintext_bytes m \<and> sha256_of cr hashed = gm_plaintext_digest m
     \<and> src_bytes (in_source st) = [] \<and> src_failure (in_source st) = None \<and> rep = opened_report cr m digest st"
  by (auto simp: stream_open_finish_def open_complete_def open_report_def source_read_byte_def opened_report_def split: list.splits option.splits)

text \<open>The whole of what a successful run of the loop has established.\<close>

definition stream_opened ::
    "crypto \<Rightarrow> string \<Rightarrow> generation_metadata \<Rightarrow> string \<Rightarrow> byte_source stream_in \<Rightarrow> string \<Rightarrow> u64 \<Rightarrow> u64 \<Rightarrow> string \<Rightarrow> bool" where
  "stream_opened cr cipher m digest st hashed plain i q \<longleftrightarrow>
     accepted cr cipher m digest i (src_bytes (in_source st)) q
     \<and> unat plain + length q = unat (gm_plaintext_bytes m) \<and> sha256_of cr (hashed @ q) = gm_plaintext_digest m
     \<and> fits_in (length (src_bytes (in_source st))) st \<and> src_failure (in_source st) = None"

lemma stream_opened_final:
  assumes "length raw = 17" "h = parse_record_header raw" "rh_index h = i" "rh_type h = record_final" "final_length_ok h"
    and "length ct = unat (rh_ciphertext_length h)" "decrypt_record cr cipher m digest h ct = Inr []"
    and "src_bytes (in_source st) = raw @ ct" "fits_in 17 st" "fits_in (length ct) (in_skip raw ct st)"
    and "src_failure (in_source st) = None" "sha256_of cr hashed = gm_plaintext_digest m"
  shows "stream_opened cr cipher m digest st hashed (gm_plaintext_bytes m) i []"
proof -
  have h: "h = header record_final i 0 ct"
    using assms(3-6) by (intro header_of_parts) (simp_all add: final_length_ok_def)
  have "container_record record_final i 0 ct = raw @ ct"
    using put_parse_header [OF assms(1)] h assms(2) by (simp add: container_record_header)
  moreover have "length ct = tag_bytes" using assms(5,6) by (simp add: final_length_ok_def)
  ultimately have "accepted cr cipher m digest i (raw @ ct) []"
    using accepted.final [of ct cr cipher m digest i] assms(7) h by simp
  then show ?thesis
    using assms(1,8-) fits_in_skip [of raw st "length ct" ct] by (simp add: stream_opened_def)
qed

lemma stream_opened_chunk:
  assumes "length raw = 17" "h = parse_record_header raw" "rh_index h = i" "rh_type h = record_chunk" "chunk_length_ok m h"
    and "length ct = unat (rh_ciphertext_length h)" "decrypt_record cr cipher m digest h ct = Inr p"
    and "length p = unat (rh_plaintext_length h)" "checked_add i 1 = Some j"
    and "checked_add plain (ucast (rh_plaintext_length h)) = Some plain1"
    and "src_bytes (in_source st) = raw @ ct @ r" "fits_in 17 st" "fits_in (length ct) (in_skip raw (ct @ r) st)"
    and "stream_opened cr cipher m digest (in_skip ct r (in_skip raw (ct @ r) st)) (hashed @ p) plain1 j q"
  shows "stream_opened cr cipher m digest st hashed plain i (p @ q)"
proof -
  have h: "h = header record_chunk i (of_nat (length p)) ct"
    using assms(3,4,6,8) by (intro header_of_parts) simp_all
  have rec: "container_record record_chunk i (of_nat (length p)) ct = raw @ ct"
    using put_parse_header [OF assms(1)] h assms(2) by (simp add: container_record_header)
  note len = chunk_length_okD [OF assms(5)]
  have "accepted cr cipher m digest i (container_record record_chunk i (of_nat (length p)) ct @ r) (p @ q)"
  proof (rule accepted.chunk [OF assms(7) [unfolded h] _ _ _ assms(9)])
    show "accepted cr cipher m digest j r q" using assms(14) by (simp add: stream_opened_def)
  qed (use len assms(6,8) in auto)
  moreover have "unat plain1 = unat plain + length p"
    using assms(8,10) by (simp add: checked_add_Some_iff)
  ultimately show ?thesis
    using assms(1,11-14) rec fits_in_skip [of raw st _ "ct @ r"] fits_in_skip [of ct "in_skip raw (ct @ r) st" _ r]
    by (simp add: stream_opened_def add.assoc)
qed


lemma stream_open_loop_sound:
  "stream_open_loop cr cipher m digest st hashed plain i snk = Some (Inr rep, snk') \<Longrightarrow> snk_room snk = None \<Longrightarrow>
   \<exists>q. stream_opened cr cipher m digest st hashed plain i q \<and> snk' = snk\<lparr>snk_bytes := snk_bytes snk @ q\<rparr>
     \<and> rep = opened_report cr m digest st"
proof (induction "length (src_bytes (in_source st))" arbitrary: st hashed plain i snk rule: less_induct)
  case less
  from less.prems(1) obtain raw st1 h ct st2 opened where s: "stream_read 17 st = Inr (raw, st1)" "h = parse_record_header raw"
      "rh_index h = i" "stream_read (unat (rh_ciphertext_length h)) st1 = Inr (ct, st2)"
      "decrypt_record cr cipher m digest h ct = Inr opened"
    by (subst (asm) stream_open_loop.simps) (auto simp: open_header_ok_def open_chunk_def Let_def split: if_splits sum.splits prod.splits)
  obtain r1 where r1: "length raw = 17" "fits_in 17 st" "src_bytes (in_source st) = raw @ r1" "st1 = in_skip raw r1 st"
    by (rule stream_read_fresh [OF _ s(1)]) simp_all
  have "unat (rh_ciphertext_length h) < 2 ^ 64" using unat_bound [of "rh_ciphertext_length h"] by simp
  then obtain r where r: "length ct = unat (rh_ciphertext_length h)" "fits_in (length ct) st1" "r1 = ct @ r" "st2 = in_skip ct r st1"
    using stream_read_fresh [OF _ s(4)] r1(4) by (metis in_skip_parts(1))
  have rep: "opened_report cr m digest st2 = opened_report cr m digest st"
    using r1 r opened_report_skip [of st raw "ct @ r"] opened_report_skip [of st1 ct r] by simp
  show ?case
  proof (cases "rh_type h = record_final")
    case True
    then have f: "final_length_ok h" "stream_open_finish cr m digest st2 hashed plain opened = Inr rep" "snk' = snk"
      using less.prems(1) s by (subst (asm) stream_open_loop.simps; simp add: open_header_ok_def open_chunk_def Let_def split: if_splits)+
    then have "r = []" "opened = []" "plain = gm_plaintext_bytes m" "sha256_of cr hashed = gm_plaintext_digest m"
        "src_failure (in_source st) = None" "rep = opened_report cr m digest st"
      using r(4) r1(4) rep by (simp_all add: stream_open_finish_iff)
    then show ?thesis
      using stream_opened_final [OF r1(1) s(2,3) True f(1) r(1), of cr cipher m digest st hashed] s(5) r1 r f(3)
      by (intro exI [of _ "[]"]) simp
  next
    case False
    then obtain plain1 j where c: "rh_type h = record_chunk" "chunk_length_ok m h" "length opened = unat (rh_plaintext_length h)"
        "checked_add plain (ucast (rh_plaintext_length h)) = Some plain1" "checked_add i 1 = Some j"
        "stream_open_loop cr cipher m digest st2 (hashed @ opened) plain1 j (snk\<lparr>snk_bytes := snk_bytes snk @ opened\<rparr>) = Some (Inr rep, snk')"
      using less.prems s by (subst (asm) stream_open_loop.simps) (auto simp: open_header_ok_def open_chunk_def Let_def sink_write_all_def split: if_splits option.splits)
    have "length (src_bytes (in_source st2)) < length (src_bytes (in_source st))" using r1 r by simp
    from less.hyps [OF this c(6)] less.prems(2) obtain q where q: "stream_opened cr cipher m digest st2 (hashed @ opened) plain1 j q"
        "snk' = snk\<lparr>snk_bytes := snk_bytes snk @ opened @ q\<rparr>" "rep = opened_report cr m digest st"
      using rep by auto
    have "stream_opened cr cipher m digest st hashed plain i (opened @ q)"
      using r1 r q(1) by (intro stream_opened_chunk [OF r1(1) s(2,3) c(1,2) r(1) s(5) c(3,5,4)]) simp_all
    then show ?thesis using q(2,3) by auto
  qed
qed


lemma stream_read_record:
  assumes "src_bytes (in_source st) = put_header h @ ct @ r" "fits_in (17 + length ct) st" "unat (rh_ciphertext_length h) = length ct"
  shows "stream_read 17 st = Inr (put_header h, in_skip (put_header h) (ct @ r) st)"
    "stream_read (unat (rh_ciphertext_length h)) (in_skip (put_header h) (ct @ r) st)
       = Inr (ct, in_skip ct r (in_skip (put_header h) (ct @ r) st))"
proof -
  have f: "fits_in 17 st" using assms(2) by (simp add: fits_in_def)
  then show "stream_read 17 st = Inr (put_header h, in_skip (put_header h) (ct @ r) st)"
    using assms(1) by (simp add: stream_read_iff)
  have "fits_in (length ct) (in_skip (put_header h) (ct @ r) st)"
    using f assms(2) fits_in_skip [of "put_header h" st "length ct" "ct @ r"] by simp
  moreover have "length ct < 2 ^ 64" using assms(2) by (simp add: fits_in_def stream_limit_nat)
  ultimately show "stream_read (unat (rh_ciphertext_length h)) (in_skip (put_header h) (ct @ r) st)
       = Inr (ct, in_skip ct r (in_skip (put_header h) (ct @ r) st))"
    using assms(3) by (simp add: stream_read_iff)
qed

lemma stream_open_loop_complete:
  assumes "metadata_ok m"
  shows "accepted cr cipher m digest i bs q \<Longrightarrow> src_bytes (in_source st) = bs \<Longrightarrow> snk_room snk = None \<Longrightarrow>
    stream_opened cr cipher m digest st hashed plain i q \<Longrightarrow>
    stream_open_loop cr cipher m digest st hashed plain i snk
      = Some (Inr (opened_report cr m digest st), snk\<lparr>snk_bytes := snk_bytes snk @ q\<rparr>)"
proof (induction arbitrary: st hashed plain snk rule: accepted.induct)
  case (final tag i)
  let ?h = "header record_final i 0 tag"
  have t: "unat (rh_ciphertext_length ?h) = length tag"
    using final(1) by (simp add: unat_of_nat_small tag_bytes_def)
  have bytes: "src_bytes (in_source st) = put_header ?h @ tag @ []" using final(3) by (simp add: container_record_header)
  have fits: "fits_in (17 + length tag) st" using final(3,5) by (simp add: stream_opened_def)
  note reads = stream_read_record [OF bytes fits t]
  have p: "plain = gm_plaintext_bytes m" "sha256_of cr hashed = gm_plaintext_digest m" "src_failure (in_source st) = None"
    using final(5) by (simp_all add: stream_opened_def word_unat_eq_iff)
  have "stream_open_finish cr m digest (in_skip tag [] (in_skip (put_header ?h) (tag @ []) st)) hashed plain []
      = Inr (opened_report cr m digest st)"
    using p bytes by (simp add: stream_open_finish_iff opened_report_skip)
  moreover have "final_length_ok ?h" using final(1) t by (simp add: final_length_ok_def)
  ultimately show ?case
    using final(2) reads by (subst stream_open_loop.simps) (simp add: open_header_ok_def open_chunk_def Let_def del: header_parts(4))
next
  case (chunk i p ct j rest pt)
  note len = header_lengths [OF assms chunk(3,4)]
  let ?h = "header record_chunk i (of_nat (length p)) ct"
  let ?st = "in_skip ct rest (in_skip (put_header ?h) (ct @ rest) st)"
  have t: "unat (rh_ciphertext_length ?h) = length ct" using len(2) by simp
  have bytes: "src_bytes (in_source st) = put_header ?h @ ct @ rest" using chunk(8) by (simp add: container_record_header)
  have fits: "fits_in (17 + length ct) st" "fits_in (17 + length ct + length rest) st"
    using chunk(8,10) by (simp_all add: stream_opened_def fits_in_def)
  have fit17: "fits_in 17 st" using fits(1) by (simp add: fits_in_def)
  note reads = stream_read_record [OF bytes fits(1) t]
  have ok: "chunk_length_ok m ?h"
    using chunk(2-4) len t by (simp add: chunk_length_ok_def word_le_nat_alt word_unat_eq_iff)
  have sum: "unat plain + length p \<le> unat (gm_plaintext_bytes m)" "gm_plaintext_bytes m \<le> max_stream_plaintext_bytes"
    using chunk(10) assms by (auto simp: stream_opened_def metadata_ok_def)
  then have "unat plain + length p < 2 ^ 64" using unat_bound [of "gm_plaintext_bytes m"] by simp
  then have add: "checked_add plain (ucast (of_nat (length p) :: u32)) = Some (plain + ucast (of_nat (length p) :: u32))"
      "unat (plain + ucast (of_nat (length p) :: u32)) = unat plain + length p"
    using len(1) by (simp_all add: checked_add_Some_iff unat_word_ariths)
  let ?plain = "plain + ucast (of_nat (length p) :: u32)"
  have le: "\<not> gm_plaintext_bytes m < ?plain" "\<not> max_stream_plaintext_bytes < ?plain"
    using sum add(2) by (simp_all add: word_less_nat_alt word_le_nat_alt)
  have "fits_in (length rest) ?st"
    using fits fit17 fits_in_skip [of "put_header ?h" st _ "ct @ rest"] fits_in_skip [of ct "in_skip (put_header ?h) (ct @ rest) st" _ rest]
    by (simp add: add.assoc)
  then have op: "stream_opened cr cipher m digest ?st (hashed @ p) ?plain j pt"
    using chunk(6,10) add(2) by (simp add: stream_opened_def)
  have rep: "opened_report cr m digest ?st = opened_report cr m digest st"
    using bytes by (simp add: opened_report_skip)
  have "stream_open_loop cr cipher m digest ?st (hashed @ p) ?plain j (snk\<lparr>snk_bytes := snk_bytes snk @ p\<rparr>)
      = Some (Inr (opened_report cr m digest st), snk\<lparr>snk_bytes := snk_bytes snk @ p @ pt\<rparr>)"
    using chunk.IH [OF _ _ op, of "snk\<lparr>snk_bytes := snk_bytes snk @ p\<rparr>"] chunk(9) rep by simp
  then show ?case
    using reads chunk(1,5,9) ok add(1) le len(1)
    by (subst stream_open_loop.simps) (simp add: open_header_ok_def open_chunk_def Let_def sink_write_all_def del: header_parts(4))
qed


section \<open>The whole container\<close>

definition stream_start :: "string \<Rightarrow> io_error option \<Rightarrow> byte_source stream_in" where
  "stream_start bs f = \<lparr>in_source = \<lparr>src_bytes = bs, src_failure = f\<rparr>, in_hashed = [], in_bytes = 0\<rparr>"

lemma stream_start_parts [simp]:
  "src_bytes (in_source (stream_start bs f)) = bs" "src_failure (in_source (stream_start bs f)) = f"
  "in_hashed (stream_start bs f) = []" "in_bytes (stream_start bs f) = 0"
  by (simp_all add: stream_start_def)

lemma fits_in_start: "fits_in n (stream_start bs f) \<longleftrightarrow> n \<le> unat max_stream_container_bytes"
  by (simp add: fits_in_def)

abbreviation prelude12 :: "generation_metadata \<Rightarrow> string" where
  "prelude12 m \<equiv> container_magic @ be_bytes 4 (of_nat (length (metadata_bytes m)) :: u32)"

lemma length_prelude12: "length (prelude12 m) = 12"
  by (simp add: container_magic_def)

lemma open_streaming_prelude:
  assumes "metadata_ok m" "length (container_prelude m) \<le> unat max_stream_container_bytes"
    and "gm_key_id m = dek_key_id key" "length (dek_bytes key) = 32"
  shows "open_generation_streaming cr \<lparr>src_bytes = container_prelude m @ body, src_failure = f\<rparr> key snk
     = stream_open_loop cr (dek_bytes key) m (sha256_of cr (metadata_bytes m))
         (in_skip (metadata_bytes m) body (in_skip (prelude12 m) (metadata_bytes m @ body) (stream_start (container_prelude m @ body) f))) [] 0 0 snk"
proof -
  let ?st = "stream_start (container_prelude m @ body) f"
  have len: "length (metadata_bytes m) \<le> 555" "unat (of_nat (length (metadata_bytes m)) :: u32) = length (metadata_bytes m)"
    using assms(1) metadata_bytes_length metadata_length_u32 by (simp_all add: metadata_ok_def)
  have r1: "stream_read 12 ?st = Inr (prelude12 m, in_skip (prelude12 m) (metadata_bytes m @ body) ?st)"
    using length_prelude12 [of m] by (simp add: stream_read_iff fits_in_start stream_limit_nat container_prelude_def)
  have "fits_in (length (metadata_bytes m)) (in_skip (prelude12 m) (metadata_bytes m @ body) ?st)"
    using len(1) length_prelude12 [of m] by (subst fits_in_skip) (simp_all add: fits_in_start stream_limit_nat)
  then have r2: "stream_read (length (metadata_bytes m)) (in_skip (prelude12 m) (metadata_bytes m @ body) ?st)
      = Inr (metadata_bytes m, in_skip (metadata_bytes m) body (in_skip (prelude12 m) (metadata_bytes m @ body) ?st))"
    using len(1) by (simp add: stream_read_iff)
  have magic: "take 8 (prelude12 m) = container_magic" "drop 8 (prelude12 m) = be_bytes 4 (of_nat (length (metadata_bytes m)) :: u32)"
    by (simp_all add: container_magic_def)
  have "metadata_decode (metadata_bytes m) = Inr m" using assms(1) by (simp add: metadata_decode_iff)
  then show ?thesis
    using r1 r2 magic len metadata_bytes_nonempty [of m] assms(3,4)
    by (simp add: open_generation_streaming_def open_begin_def prelude_length_def Let_def dek_cipher_def max_metadata_bytes_def flip: stream_start_def)
qed

lemma open_streaming_parts:
  assumes "open_generation_streaming cr \<lparr>src_bytes = bs, src_failure = f\<rparr> key snk = Some (Inr rep, snk')"
  obtains m body where "metadata_ok m" "bs = container_prelude m @ body" "gm_key_id m = dek_key_id key" "length (dek_bytes key) = 32"
proof -
  obtain pre st1 n meta st2 m where o: "stream_read 12 (stream_start bs f) = Inr (pre, st1)" "take 8 pre = container_magic"
      "n = unat (from_be (drop 8 pre) :: u32)" "stream_read n st1 = Inr (meta, st2)" "metadata_decode meta = Inr m"
      "gm_key_id m = dek_key_id key" "length (dek_bytes key) = 32"
    using assms by (auto simp: open_generation_streaming_def open_begin_def prelude_length_def Let_def dek_cipher_def stream_start_def split: if_splits sum.splits prod.splits)
  obtain r1 where r1: "length pre = 12" "bs = pre @ r1" "st1 = in_skip pre r1 (stream_start bs f)"
    using stream_read_fresh [OF _ o(1)] by auto
  have "n < 2 ^ 64" using o(3) unat_bound [of "from_be (drop 8 pre) :: u32"] by simp
  then obtain r2 where r2: "length meta = n" "r1 = meta @ r2"
    using stream_read_fresh [OF _ o(4)] r1(3) by (metis in_skip_parts(1))
  have m: "metadata_ok m" "meta = metadata_bytes m" using o(5) by (simp_all add: metadata_decode_iff)
  have "drop 8 pre = be_bytes 4 (of_nat (length meta) :: u32)"
    using r1(1) r2(1) o(3) by simp
  then have "pre = prelude12 m" using o(2) m(2) by (metis append_take_drop_id)
  then show ?thesis using that m o(6,7) r1(2) r2(2) by (simp add: container_prelude_def)
qed

lemma open_streaming_iff:
  "open_generation_streaming cr \<lparr>src_bytes = bs, src_failure = f\<rparr> key \<lparr>snk_bytes = s0, snk_room = None\<rparr> = Some (Inr rep, snk')
   \<longleftrightarrow> f = None \<and> length bs \<le> unat max_stream_container_bytes \<and> rep = sealed_report cr (sr_metadata rep) bs
     \<and> (\<exists>pt. container_opens cr key bs (sr_metadata rep) pt \<and> snk' = \<lparr>snk_bytes = s0 @ pt, snk_room = None\<rparr>)"
    (is "?open = Some (Inr rep, snk') \<longleftrightarrow> ?spec")
proof -
  let ?snk = "\<lparr>snk_bytes = s0, snk_room = None\<rparr>"
  have run: "?open = Some (Inr rep, snk') \<longleftrightarrow> f = None \<and> length bs \<le> unat max_stream_container_bytes \<and> rep = sealed_report cr m bs
      \<and> (\<exists>pt. container_opens cr key bs m pt \<and> snk' = \<lparr>snk_bytes = s0 @ pt, snk_room = None\<rparr>)"
    if m: "metadata_ok m" "gm_key_id m = dek_key_id key" "length (dek_bytes key) = 32" and bs: "bs = container_prelude m @ body" for m body
  proof -
    let ?digest = "sha256_of cr (metadata_bytes m)"
    let ?st = "in_skip (metadata_bytes m) body (in_skip (prelude12 m) (metadata_bytes m @ body) (stream_start bs f))"
    have pl: "length (container_prelude m) \<le> unat max_stream_container_bytes"
      using length_container_prelude [OF m(1)] by (simp add: stream_limit_nat)
    note loop = open_streaming_prelude [OF m(1) pl m(2,3), of cr body f ?snk]
    have fits: "fits_in (length body) ?st \<longleftrightarrow> length bs \<le> unat max_stream_container_bytes"
      using length_prelude12 [of m] metadata_bytes_length [of m] m(1) bs
      by (subst fits_in_skip; (subst fits_in_skip)?)
         (simp_all add: fits_in_skip fits_in_start stream_limit_nat container_prelude_def metadata_ok_def)
    have rep: "opened_report cr m ?digest ?st = sealed_report cr m bs"
      using bs by (simp add: opened_report_def sealed_report_def container_prelude_def)
    have opened: "stream_opened cr (dek_bytes key) m ?digest ?st [] 0 0 pt
        \<longleftrightarrow> f = None \<and> length bs \<le> unat max_stream_container_bytes \<and> container_opens cr key bs m pt" for pt
      using fits m bs by (auto simp: stream_opened_def container_opens_def)
    show ?thesis
    proof
      assume "?open = Some (Inr rep, snk')"
      then show "f = None \<and> length bs \<le> unat max_stream_container_bytes \<and> rep = sealed_report cr m bs
          \<and> (\<exists>pt. container_opens cr key bs m pt \<and> snk' = \<lparr>snk_bytes = s0 @ pt, snk_room = None\<rparr>)"
        using stream_open_loop_sound [of cr "dek_bytes key" m ?digest ?st "[]" 0 0 ?snk rep snk'] loop bs opened rep by auto
    next
      assume a: "f = None \<and> length bs \<le> unat max_stream_container_bytes \<and> rep = sealed_report cr m bs
          \<and> (\<exists>pt. container_opens cr key bs m pt \<and> snk' = \<lparr>snk_bytes = s0 @ pt, snk_room = None\<rparr>)"
      then obtain pt where pt: "stream_opened cr (dek_bytes key) m ?digest ?st [] 0 0 pt" "snk' = \<lparr>snk_bytes = s0 @ pt, snk_room = None\<rparr>"
        using opened by blast
      then have "accepted cr (dek_bytes key) m ?digest 0 body pt" by (simp add: stream_opened_def)
      from stream_open_loop_complete [OF m(1) this _ _ pt(1), of ?snk] show "?open = Some (Inr rep, snk')"
        using a loop bs rep pt(2) by simp
    qed
  qed
  show ?thesis
  proof
    assume o: "?open = Some (Inr rep, snk')"
    then obtain m body where m: "metadata_ok m" "bs = container_prelude m @ body" "gm_key_id m = dek_key_id key" "length (dek_bytes key) = 32"
      by (rule open_streaming_parts)
    then show ?spec using o run [OF m(1,3,4,2)] by (auto simp: sealed_report_def)
  next
    assume s: ?spec
    then obtain body where "metadata_ok (sr_metadata rep)" "gm_key_id (sr_metadata rep) = dek_key_id key" "length (dek_bytes key) = 32"
        "bs = container_prelude (sr_metadata rep) @ body"
      by (auto simp: container_opens_def)
    then show "?open = Some (Inr rep, snk')" using s run by blast
  qed
qed

end
