(* ===== verification/Generation_Reader.thy ===== *)
theory Generation_Reader
  imports Streaming_Opening
begin

text \<open>
  The streaming functions of \<open>crates/encrypted-generation-domain/src/container.rs\<close> over any
  \<open>std::io::Read\<close>: a state machine that answers each read with bytes, an interruption or an error,
  and need not ever end.  \<open>read_exact\<close> is the default method of the trait, which
  reads until the buffer is full, tries again after an interruption and takes an empty answer for the end.
  The loops are partial functions, so that not returning is \<open>None\<close>.
\<close>

section \<open>Readers\<close>

datatype read_answer = ReadOk string | ReadInterrupted | ReadErr io_error

type_synonym 's reader = "nat \<Rightarrow> 's \<Rightarrow> read_answer \<times> 's"
  \<comment> \<open>\<open>read\<close> on a buffer of the given length\<close>

partial_function (option) read_exact ::
    "'s reader \<Rightarrow> nat \<Rightarrow> string \<Rightarrow> 's \<Rightarrow> ((io_error + string) \<times> 's) option" where
  \<comment> \<open>the bytes still wanted, the bytes read so far\<close>
  "read_exact rd n got s =
     (if n = 0 then Some (Inr got, s)
      else case rd n s of
        (ReadOk data, s1) \<Rightarrow>
          if data = [] then Some (Inl UnexpectedEof, s1)
          else read_exact rd (n - length data) (got @ data) s1
      | (ReadInterrupted, s1) \<Rightarrow> read_exact rd n got s1
      | (ReadErr e, s1) \<Rightarrow> Some (Inl e, s1))"

definition interrupted_error :: io_error where
  "interrupted_error = IoFailure ''operation interrupted''"

definition read_trailing :: "'s reader \<Rightarrow> 's \<Rightarrow> (io_error + nat) \<times> 's" where
  \<comment> \<open>\<open>read\<close> into a buffer of one byte, not repeated after an interruption\<close>
  "read_trailing rd s =
     (case rd 1 s of
        (ReadOk data, s1) \<Rightarrow> (Inr (length data), s1)
      | (ReadInterrupted, s1) \<Rightarrow> (Inl interrupted_error, s1)
      | (ReadErr e, s1) \<Rightarrow> (Inl e, s1))"

definition reader_stream_read ::
    "'s reader \<Rightarrow> nat \<Rightarrow> 's stream_in \<Rightarrow> ((streaming_generation_error + string) \<times> 's stream_in) option" where
  "reader_stream_read rd n st =
     (case checked_add (in_bytes st) (of_nat n) of
        None \<Rightarrow> Some (Inl (StreamCrypto GenPlaintextTooLarge), st)
      | Some next_bytes \<Rightarrow>
          if max_stream_container_bytes < next_bytes then Some (Inl (StreamCrypto GenPlaintextTooLarge), st)
          else (case read_exact rd n [] (in_source st) of
                  None \<Rightarrow> None
                | Some (Inl e, s) \<Rightarrow> Some (Inl (StreamIo e), st\<lparr>in_source := s\<rparr>)
                | Some (Inr data, s) \<Rightarrow>
                    Some (Inr data, st\<lparr>in_source := s, in_hashed := in_hashed st @ data, in_bytes := next_bytes\<rparr>)))"

section \<open>The three functions\<close>

definition reader_buffer_bytes :: nat where "reader_buffer_bytes = 65536"

partial_function (option) reader_digest_loop ::
    "'s reader \<Rightarrow> u64 \<Rightarrow> string \<Rightarrow> 's \<Rightarrow> ((streaming_generation_error + u64 \<times> string) \<times> 's) option" where
  "reader_digest_loop rd plaintext_bytes hashed s =
     (case rd reader_buffer_bytes s of
        (ReadErr e, s1) \<Rightarrow> Some (Inl (StreamIo e), s1)
      | (ReadInterrupted, s1) \<Rightarrow> Some (Inl (StreamIo interrupted_error), s1)
      | (ReadOk data, s1) \<Rightarrow>
          if data = [] then Some (Inr (plaintext_bytes, hashed), s1)
          else (case checked_add plaintext_bytes (of_nat (length data)) of
                  None \<Rightarrow> Some (Inl (StreamCrypto GenPlaintextTooLarge), s1)
                | Some total_bytes \<Rightarrow>
                    if max_stream_plaintext_bytes < total_bytes then Some (Inl (StreamCrypto GenPlaintextTooLarge), s1)
                    else reader_digest_loop rd total_bytes (hashed @ data) s1))"

definition metadata_from_reader ::
    "crypto \<Rightarrow> 's reader \<Rightarrow> generation_identity \<Rightarrow> key_id \<Rightarrow> string \<Rightarrow> u32 \<Rightarrow> 's
     \<Rightarrow> ((streaming_generation_error + generation_metadata) \<times> 's) option" where
  "metadata_from_reader cr rd i key_id nonce_prefix chunk_size s =
     (case validate_chunk_size chunk_size of
        Inl e \<Rightarrow> Some (Inl (StreamCrypto e), s)
      | Inr _ \<Rightarrow>
          (case reader_digest_loop rd 0 [] s of
             None \<Rightarrow> None
           | Some (Inl e, s1) \<Rightarrow> Some (Inl e, s1)
           | Some (Inr (plaintext_bytes, hashed), s1) \<Rightarrow>
               Some (Inr (metadata_of_identity i key_id nonce_prefix chunk_size plaintext_bytes (sha256_of cr hashed)), s1)))"

partial_function (option) reader_seal_loop ::
    "crypto \<Rightarrow> 's reader \<Rightarrow> string \<Rightarrow> generation_metadata \<Rightarrow> string \<Rightarrow> u64 \<Rightarrow> u64 \<Rightarrow> 's \<Rightarrow> string \<Rightarrow> stream_out
     \<Rightarrow> ((streaming_generation_error + u64 \<times> string) \<times> 's \<times> stream_out) option" where
  "reader_seal_loop cr rd cipher m digest remaining index s hashed out =
     (if remaining = 0 then Some (Inr (index, hashed), s, out)
      else
        let count = min (unat remaining) (unat (gm_chunk_size m)) in
        case read_exact rd count [] s of
          None \<Rightarrow> None
        | Some (Inl e, s1) \<Rightarrow> Some (Inl (StreamIo e), s1, out)
        | Some (Inr buffer, s1) \<Rightarrow>
            (case seal_chunk cr cipher m digest index buffer out of
               (Inl e, out1) \<Rightarrow> Some (Inl e, s1, out1)
             | (Inr next_index, out1) \<Rightarrow>
                 reader_seal_loop cr rd cipher m digest (remaining - of_nat count) next_index
                   s1 (hashed @ buffer) out1))"

definition seal_from_reader ::
    "crypto \<Rightarrow> 's reader \<Rightarrow> generation_metadata \<Rightarrow> generation_dek \<Rightarrow> 's \<Rightarrow> byte_sink
     \<Rightarrow> ((streaming_generation_error + streaming_generation_report) \<times> byte_sink \<times> 's) option" where
  "seal_from_reader cr rd m key s snk =
     (case seal_begin cr m key snk of
        (Inl e, out) \<Rightarrow> Some (Inl e, out_sink out, s)
      | (Inr (cipher, digest), out) \<Rightarrow>
          (case reader_seal_loop cr rd cipher m digest (gm_plaintext_bytes m) 0 s [] out of
             None \<Rightarrow> None
           | Some (Inl e, s1, out1) \<Rightarrow> Some (Inl e, out_sink out1, s1)
           | Some (Inr (index, hashed), s1, out1) \<Rightarrow>
               (case read_trailing rd s1 of
                  (trailing, s2) \<Rightarrow>
                    (case seal_finish cr cipher m digest index trailing hashed out1 of
                       (r, snk1) \<Rightarrow> Some (r, snk1, s2)))))"

definition reader_open_finish ::
    "crypto \<Rightarrow> 's reader \<Rightarrow> generation_metadata \<Rightarrow> string \<Rightarrow> 's stream_in \<Rightarrow> string \<Rightarrow> u64 \<Rightarrow> string
     \<Rightarrow> (streaming_generation_error + streaming_generation_report) \<times> 's" where
  "reader_open_finish cr rd m digest st hashed plain_bytes opened =
     (if \<not> open_complete cr m hashed plain_bytes opened
      then (Inl (StreamCrypto GenDigestMismatch), in_source st)
      else (case read_trailing rd (in_source st) of
              (trailing, s) \<Rightarrow> (open_report cr m digest st trailing, s)))"

partial_function (option) reader_open_loop ::
    "crypto \<Rightarrow> 's reader \<Rightarrow> string \<Rightarrow> generation_metadata \<Rightarrow> string \<Rightarrow> 's stream_in \<Rightarrow> string \<Rightarrow> u64 \<Rightarrow> u64 \<Rightarrow> byte_sink
     \<Rightarrow> ((streaming_generation_error + streaming_generation_report) \<times> byte_sink \<times> 's) option" where
  "reader_open_loop cr rd cipher m digest st hashed plain_bytes index snk =
     (case reader_stream_read rd 17 st of
        None \<Rightarrow> None
      | Some (Inl e, st1) \<Rightarrow> Some (Inl e, snk, in_source st1)
      | Some (Inr raw, st1) \<Rightarrow>
          let h = parse_record_header raw in
          if \<not> open_header_ok m index h then Some (Inl (StreamCrypto GenInvalidContainer), snk, in_source st1)
          else case reader_stream_read rd (unat (rh_ciphertext_length h)) st1 of
            None \<Rightarrow> None
          | Some (Inl e, st2) \<Rightarrow> Some (Inl e, snk, in_source st2)
          | Some (Inr ciphertext, st2) \<Rightarrow>
              (case decrypt_record cr cipher m digest h ciphertext of
                 Inl e \<Rightarrow> Some (Inl (StreamCrypto e), snk, in_source st2)
               | Inr opened \<Rightarrow>
                   if rh_type h = record_final
                   then (case reader_open_finish cr rd m digest st2 hashed plain_bytes opened of
                           (r, s) \<Rightarrow> Some (r, snk, s))
                   else (case open_chunk m h opened plain_bytes index snk of
                           (Inl e, snk1) \<Rightarrow> Some (Inl e, snk1, in_source st2)
                         | (Inr (plain_total, next_index), snk1) \<Rightarrow>
                             reader_open_loop cr rd cipher m digest st2 (hashed @ opened) plain_total next_index snk1)))"

definition open_from_reader ::
    "crypto \<Rightarrow> 's reader \<Rightarrow> 's \<Rightarrow> generation_dek \<Rightarrow> byte_sink
     \<Rightarrow> ((streaming_generation_error + streaming_generation_report) \<times> byte_sink \<times> 's) option" where
  "open_from_reader cr rd s key snk =
     (case reader_stream_read rd 12 \<lparr>in_source = s, in_hashed = [], in_bytes = 0\<rparr> of
        None \<Rightarrow> None
      | Some (Inl e, st1) \<Rightarrow> Some (Inl e, snk, in_source st1)
      | Some (Inr prelude, st1) \<Rightarrow>
          (case prelude_length prelude of
             Inl e \<Rightarrow> Some (Inl e, snk, in_source st1)
           | Inr meta_len \<Rightarrow>
               (case reader_stream_read rd meta_len st1 of
                  None \<Rightarrow> None
                | Some (Inl e, st2) \<Rightarrow> Some (Inl e, snk, in_source st2)
                | Some (Inr meta, st2) \<Rightarrow>
                    (case open_begin cr key meta of
                       Inl e \<Rightarrow> Some (Inl e, snk, in_source st2)
                     | Inr (m, cipher, digest) \<Rightarrow> reader_open_loop cr rd cipher m digest st2 [] 0 0 snk))))"

end
