(* ===== verification/Reader_Laws.thy ===== *)
theory Reader_Laws
  imports Generation_Reader
begin

text \<open>
  What the streaming functions need of a reader, and what they promise for every such reader: they
  return, and they take no more bytes from it than their limits allow, so a reader that never
  ends is cut off.  The sources of \<open>Generation_Streaming\<close> are one such reader, and on them the
  functions are the ones proved correct there.
\<close>

lemma seal_begin_ready:
  assumes "seal_begin cr m key snk = (Inr x, out)"
  shows "0 < unat (gm_chunk_size m)" "gm_plaintext_bytes m \<le> max_stream_plaintext_bytes"
proof -
  have "is_ok (metadata_encode m)" "\<not> max_stream_plaintext_bytes < gm_plaintext_bytes m"
    using assms by (auto simp: seal_begin_def Let_def split: if_splits sum.splits)
  then show "0 < unat (gm_chunk_size m)" "gm_plaintext_bytes m \<le> max_stream_plaintext_bytes"
    using metadata_encode_chunk by (auto simp: is_ok_iff)
qed

section \<open>The interface\<close>

text \<open>A read is answered when it is not interrupted forever.\<close>

inductive answers :: "'s reader \<Rightarrow> nat \<Rightarrow> 's \<Rightarrow> bool" for rd n where
  now: "fst (rd n s) \<noteq> ReadInterrupted \<Longrightarrow> answers rd n s"
| later: "rd n s = (ReadInterrupted, s') \<Longrightarrow> answers rd n s' \<Longrightarrow> answers rd n s"

fun answer_bytes :: "read_answer \<Rightarrow> nat" where
  "answer_bytes (ReadOk data) = length data"
| "answer_bytes _ = 0"

text \<open>
  The documented contract of \<open>Read\<close> (a read delivers at most the length of its buffer), that no read
  is interrupted forever, and a count of the bytes the reader has delivered.
\<close>

locale byte_reader =
  fixes rd :: "'s reader" and taken :: "'s \<Rightarrow> nat"
  assumes delivers_at_most: "rd n s = (ReadOk data, s') \<Longrightarrow> length data \<le> n"
    and answered: "answers rd n s"
    and counts: "rd n s = (r, s') \<Longrightarrow> taken s' = taken s + answer_bytes r"
begin

lemma read_exact_takes:
  "\<exists>r s'. read_exact rd n got s = Some (r, s') \<and> taken s \<le> taken s' \<and> taken s' \<le> taken s + n
     \<and> (\<forall>data. r = Inr data \<longrightarrow> length data = length got + n \<and> taken s' = taken s + n)"
proof (induction n arbitrary: got s rule: less_induct)
  case (less n)
  show ?case
  proof (cases "n = 0")
    case True
    then show ?thesis by (simp add: read_exact.simps)
  next
    case n: False
    show ?thesis using answered [of n s]
    proof (induction arbitrary: got rule: answers.induct)
      case (later s s')
      then obtain r t where "read_exact rd n got s' = Some (r, t)" "taken s' \<le> taken t" "taken t \<le> taken s' + n"
          "\<forall>data. r = Inr data \<longrightarrow> length data = length got + n \<and> taken t = taken s' + n" by metis
      then show ?case using counts [OF later.hyps(1)] later.hyps(1) n
        by (subst read_exact.simps) simp
    next
      case (now s)
      obtain a s1 where a: "rd n s = (a, s1)" by fastforce
      have t: "taken s1 = taken s + answer_bytes a" by (rule counts [OF a])
      show ?case
      proof (cases a)
        case (ReadOk data)
        show ?thesis
        proof (cases "data = []")
          case True
          then show ?thesis using a ReadOk t n by (subst read_exact.simps) simp
        next
          case False
          have d: "length data \<le> n" using delivers_at_most a ReadOk by simp
          then have "n - length data < n" using False by (cases data) simp_all
          from less [OF this, of "got @ data" s1] obtain r s2 where
            "read_exact rd (n - length data) (got @ data) s1 = Some (r, s2)" "taken s1 \<le> taken s2" "taken s2 \<le> taken s1 + (n - length data)"
            "\<forall>x. r = Inr x \<longrightarrow> length x = length got + length data + (n - length data) \<and> taken s2 = taken s1 + (n - length data)" by auto
          then show ?thesis using a ReadOk t n False d by (subst read_exact.simps) auto
        qed
      next
        case ReadInterrupted
        then show ?thesis using now a by simp
      next
        case (ReadErr e)
        then show ?thesis using a t n by (subst read_exact.simps) simp
      qed
    qed
  qed
qed

lemma read_exactE:
  obtains r s' where "read_exact rd n [] s = Some (r, s')" "taken s \<le> taken s'" "taken s' \<le> taken s + n"
    "\<forall>data. r = Inr data \<longrightarrow> taken s' = taken s + n"
  using read_exact_takes [of n "[]" s] by auto

lemma read_trailingE:
  obtains r s' where "read_trailing rd s = (r, s')" "taken s \<le> taken s'" "taken s' \<le> taken s + 1"
proof -
  obtain a s' where a: "rd 1 s = (a, s')" by fastforce
  show thesis
    using that counts [OF a] delivers_at_most [of 1 s] a
    by (cases a) (auto simp: read_trailing_def)
qed

section \<open>The loops return\<close>

lemma digest_loop_takes:
  "unat total_bytes \<le> unat max_stream_plaintext_bytes \<Longrightarrow>
   \<exists>r s'. reader_digest_loop rd total_bytes hashed s = Some (r, s')
     \<and> taken s' \<le> taken s + (unat max_stream_plaintext_bytes - unat total_bytes) + reader_buffer_bytes"
proof (induction "unat max_stream_plaintext_bytes - unat total_bytes" arbitrary: total_bytes hashed s rule: less_induct)
  case less
  obtain a s1 where a: "rd reader_buffer_bytes s = (a, s1)" by fastforce
  have t: "taken s1 = taken s + answer_bytes a" by (rule counts [OF a])
  show ?case
  proof (cases a)
    case (ReadOk data)
    then have d: "length data \<le> reader_buffer_bytes" using delivers_at_most a by simp
    show ?thesis
    proof (cases "data = []")
      case True
      then show ?thesis using a ReadOk t by (subst reader_digest_loop.simps) simp
    next
      case False
      have w: "unat (of_nat (length data) :: u64) = length data" using d by (simp add: unat_of_nat_small reader_buffer_bytes_def)
      show ?thesis
      proof (cases "checked_add total_bytes (of_nat (length data))")
        case None
        then show ?thesis using a ReadOk t d False by (subst reader_digest_loop.simps) simp
      next
        case (Some sum)
        then have sum: "unat sum = unat total_bytes + length data" using checked_add_SomeD [OF Some] w by simp
        show ?thesis
        proof (cases "max_stream_plaintext_bytes < sum")
          case True
          then show ?thesis using a ReadOk t d False Some by (subst reader_digest_loop.simps) simp
        next
          case le: False
          then have le: "unat sum \<le> unat max_stream_plaintext_bytes" by (simp add: word_le_nat_alt not_less)
          moreover have "0 < length data" using False by simp
          ultimately have "unat max_stream_plaintext_bytes - unat sum < unat max_stream_plaintext_bytes - unat total_bytes"
            using sum by linarith
          from less(1) [OF this le, of "hashed @ data" s1] obtain r s2 where
            "reader_digest_loop rd sum (hashed @ data) s1 = Some (r, s2)"
            "taken s2 \<le> taken s1 + (unat max_stream_plaintext_bytes - unat sum) + reader_buffer_bytes" by blast
          moreover have "taken s1 + (unat max_stream_plaintext_bytes - unat sum) = taken s + (unat max_stream_plaintext_bytes - unat total_bytes)"
            using t ReadOk sum le by simp
          ultimately show ?thesis using a ReadOk False Some \<open>\<not> max_stream_plaintext_bytes < sum\<close>
            by (subst reader_digest_loop.simps) simp
        qed
      qed
    qed
  qed (use a t in \<open>subst reader_digest_loop.simps; simp\<close>)+
qed

lemma seal_loop_takes:
  assumes "0 < unat (gm_chunk_size m)"
  shows "\<exists>r s' out'. reader_seal_loop cr rd cipher m digest remaining index s hashed out = Some (r, s', out')
     \<and> taken s' \<le> taken s + unat remaining"
proof (induction "unat remaining" arbitrary: remaining index s hashed out rule: less_induct)
  case less
  show ?case
  proof (cases "remaining = 0")
    case True
    then show ?thesis by (subst reader_seal_loop.simps) simp
  next
    case False
    let ?n = "min (unat remaining) (unat (gm_chunk_size m))"
    note n = chunk_count_word [OF False assms]
    obtain r s1 where r: "read_exact rd ?n [] s = Some (r, s1)" "taken s \<le> taken s1" "taken s1 \<le> taken s + ?n"
        "\<forall>data. r = Inr data \<longrightarrow> taken s1 = taken s + ?n" by (rule read_exactE [of ?n s])
    show ?thesis
    proof (cases r)
      case (Inl e)
      then show ?thesis using r False by (subst reader_seal_loop.simps) (simp add: Let_def)
    next
      case (Inr buffer)
      obtain w o1 where w: "seal_chunk cr cipher m digest index buffer out = (w, o1)" by fastforce
      show ?thesis
      proof (cases w)
        case Inl2: (Inl e)
        then show ?thesis using r Inr w False by (subst reader_seal_loop.simps) (simp add: Let_def)
      next
        case Inr2: (Inr next_index)
        have "unat (remaining - of_nat ?n) < unat remaining" "unat (remaining - of_nat ?n) = unat remaining - ?n"
          using n False assms by (auto simp: unat_gt_0)
        with less [OF this(1), of next_index s1 "hashed @ buffer" o1] obtain q s2 o2 where
          q: "reader_seal_loop cr rd cipher m digest (remaining - of_nat ?n) next_index s1 (hashed @ buffer) o1 = Some (q, s2, o2)"
             "taken s2 \<le> taken s1 + (unat remaining - ?n)" by auto
        have "taken s2 \<le> taken s + unat remaining" using q(2) r(4) Inr by simp
        then show ?thesis using q(1) r(1) Inr w Inr2 False by (subst reader_seal_loop.simps) (simp add: Let_def)
      qed
    qed
  qed
qed

text \<open>What a read of the container takes is counted in \<open>in_bytes\<close> before it is attempted.\<close>

lemma stream_read_takes:
  assumes "n < 2 ^ 64" "unat (in_bytes st) \<le> unat max_stream_container_bytes"
  obtains r st' where "reader_stream_read rd n st = Some (r, st')"
    "taken (in_source st') + unat (in_bytes st) \<le> taken (in_source st) + unat max_stream_container_bytes"
    "\<forall>data. r = Inr data \<longrightarrow> unat (in_bytes st') = unat (in_bytes st) + n \<and> unat (in_bytes st') \<le> unat max_stream_container_bytes
       \<and> taken (in_source st') = taken (in_source st) + n"
proof -
  have n: "unat (of_nat n :: u64) = n" using assms(1) by (simp add: unat_of_nat_small)
  obtain r s where r: "read_exact rd n [] (in_source st) = Some (r, s)" "taken (in_source st) \<le> taken s" "taken s \<le> taken (in_source st) + n"
      "\<forall>data. r = Inr data \<longrightarrow> taken s = taken (in_source st) + n" by (rule read_exactE [of n "in_source st"])
  show thesis
  proof (cases "checked_add (in_bytes st) (of_nat n)")
    case None
    then show ?thesis using assms(2) by (intro that [of "Inl (StreamCrypto GenPlaintextTooLarge)" st]) (simp_all add: reader_stream_read_def)
  next
    case (Some b)
    then have b: "unat b = unat (in_bytes st) + n" using checked_add_SomeD [OF Some] n by simp
    show ?thesis
    proof (cases "max_stream_container_bytes < b")
      case True
      then show ?thesis using Some assms(2)
        by (intro that [of "Inl (StreamCrypto GenPlaintextTooLarge)" st]) (simp_all add: reader_stream_read_def)
    next
      case le: False
      then have le': "unat b \<le> unat max_stream_container_bytes" by (simp add: word_le_nat_alt not_less)
      show ?thesis
      proof (cases r)
        case (Inl e)
        then show ?thesis using Some le r b le'
          by (intro that [of "Inl (StreamIo e)" "st\<lparr>in_source := s\<rparr>"]) (simp_all add: reader_stream_read_def)
      next
        case (Inr data)
        then show ?thesis using Some le r b le'
          by (intro that [of "Inr data" "st\<lparr>in_source := s, in_hashed := in_hashed st @ data, in_bytes := b\<rparr>"])
             (simp_all add: reader_stream_read_def)
      qed
    qed
  qed
qed

lemma open_loop_takes:
  assumes "unat (in_bytes st) \<le> unat max_stream_container_bytes"
  shows "\<exists>r snk' s'. reader_open_loop cr rd cipher m digest st hashed plain_bytes index snk = Some (r, snk', s')
     \<and> taken s' + unat (in_bytes st) \<le> taken (in_source st) + unat max_stream_container_bytes + 1"
  using assms
proof (induction "unat max_stream_container_bytes - unat (in_bytes st)" arbitrary: st hashed plain_bytes index snk rule: less_induct)
  case less
  obtain r1 st1 where r1: "reader_stream_read rd 17 st = Some (r1, st1)"
    "taken (in_source st1) + unat (in_bytes st) \<le> taken (in_source st) + unat max_stream_container_bytes"
    "\<forall>raw. r1 = Inr raw \<longrightarrow> unat (in_bytes st1) = unat (in_bytes st) + 17 \<and> unat (in_bytes st1) \<le> unat max_stream_container_bytes
       \<and> taken (in_source st1) = taken (in_source st) + 17"
    using stream_read_takes [OF _ less(2), of 17] by auto
  show ?case
  proof (cases r1)
    case (Inl e)
    then show ?thesis using r1(1,2) by (subst reader_open_loop.simps) simp
  next
    case (Inr raw)
    note t1 = r1(3) [rule_format, OF Inr]
    let ?h = "parse_record_header raw"
    have "unat (rh_ciphertext_length ?h) < 2 ^ 64" using unat_bound [of "rh_ciphertext_length ?h"] by simp
    then obtain r2 st2 where r2: "reader_stream_read rd (unat (rh_ciphertext_length ?h)) st1 = Some (r2, st2)"
      "taken (in_source st2) + unat (in_bytes st1) \<le> taken (in_source st1) + unat max_stream_container_bytes"
      "\<forall>raw. r2 = Inr raw \<longrightarrow> unat (in_bytes st2) = unat (in_bytes st1) + unat (rh_ciphertext_length ?h)
         \<and> unat (in_bytes st2) \<le> unat max_stream_container_bytes
         \<and> taken (in_source st2) = taken (in_source st1) + unat (rh_ciphertext_length ?h)"
      using stream_read_takes [of "unat (rh_ciphertext_length ?h)" st1] t1 by auto
    have bound: "taken (in_source st2) + unat (in_bytes st) \<le> taken (in_source st) + unat max_stream_container_bytes"
      using r2(2) t1 by linarith
    show ?thesis
    proof (cases r2)
      case Inl2: (Inl e)
      then show ?thesis using r1(1,2) r2(1) Inr bound by (subst reader_open_loop.simps) (simp add: Let_def)
    next
      case Inr2: (Inr ciphertext)
      note t2 = r2(3) [rule_format, OF Inr2]
      have fin: "taken (snd (reader_open_finish cr rd m digest st2 hashed plain_bytes opened)) \<le> taken (in_source st2) + 1" for opened
        by (rule read_trailingE [of "in_source st2"]) (simp add: reader_open_finish_def)
      have "unat max_stream_container_bytes - unat (in_bytes st2) < unat max_stream_container_bytes - unat (in_bytes st)"
        "unat (in_bytes st2) \<le> unat max_stream_container_bytes"
        using t1 t2 by linarith+
      note IH = less(1) [OF this]
      have rec: "\<exists>r snk' s'. reader_open_loop cr rd cipher m digest st2 h p i k = Some (r, snk', s')
          \<and> taken s' + unat (in_bytes st) \<le> taken (in_source st) + unat max_stream_container_bytes + 1" for h p i k
        using IH [of h p i k] t1 t2 by fastforce
      show ?thesis
      proof (cases "open_header_ok m index ?h")
        case False
        then show ?thesis using r1(1,2) Inr t1 by (subst reader_open_loop.simps) (simp add: Let_def)
      next
        case header: True
        show ?thesis
        proof (cases "decrypt_record cr cipher m digest ?h ciphertext")
          case (Inl e)
          then show ?thesis using r1(1) r2(1) Inr Inr2 header bound
            by (subst reader_open_loop.simps) (simp add: Let_def)
        next
          case opened: (Inr opened)
          obtain f s3 where f: "reader_open_finish cr rd m digest st2 hashed plain_bytes opened = (f, s3)" by fastforce
          obtain k snk1 where k: "open_chunk m ?h opened plain_bytes index snk = (k, snk1)" by fastforce
          have "taken s3 + unat (in_bytes st) \<le> taken (in_source st) + unat max_stream_container_bytes + 1"
            using fin [of opened] bound f by simp
          then show ?thesis using r1(1) r2(1) Inr Inr2 header opened f k bound rec
            by (subst reader_open_loop.simps) (cases k; auto simp: Let_def)
        qed
      qed
    qed
  qed
qed

section \<open>The functions return\<close>

lemma metadata_takes:
  "\<exists>r s'. metadata_from_reader cr rd i key_id nonce_prefix chunk_size s = Some (r, s')
     \<and> taken s' \<le> taken s + unat max_stream_plaintext_bytes + reader_buffer_bytes"
  using digest_loop_takes [of 0 "[]" s]
  by (cases "validate_chunk_size chunk_size") (auto simp: metadata_from_reader_def split: sum.splits)

lemma seal_takes:
  "\<exists>r snk' s'. seal_from_reader cr rd m key s snk = Some (r, snk', s')
     \<and> taken s' \<le> taken s + unat (min (gm_plaintext_bytes m) max_stream_plaintext_bytes) + 1"
proof (cases "seal_begin cr m key snk")
  case (Pair x out)
  show ?thesis
  proof (cases x)
    case (Inl e)
    then show ?thesis using Pair by (simp add: seal_from_reader_def)
  next
    case (Inr cd)
    obtain cipher digest where cd: "cd = (cipher, digest)" by fastforce
    note ready = seal_begin_ready [OF Pair [unfolded Inr]]
    obtain r s1 out1 where l: "reader_seal_loop cr rd cipher m digest (gm_plaintext_bytes m) 0 s [] out = Some (r, s1, out1)"
        "taken s1 \<le> taken s + unat (gm_plaintext_bytes m)"
      using seal_loop_takes [OF ready(1), of cr cipher digest "gm_plaintext_bytes m" 0 s "[]" out] by blast
    obtain t s2 where t: "read_trailing rd s1 = (t, s2)" "taken s2 \<le> taken s1 + 1" by (rule read_trailingE)
    have m: "min (gm_plaintext_bytes m) max_stream_plaintext_bytes = gm_plaintext_bytes m" using ready(2) by (simp add: min_def)
    show ?thesis unfolding m
      using Pair Inr cd l t by (cases r) (auto simp: seal_from_reader_def split: prod.split)
  qed
qed

lemma open_takes:
  "\<exists>r snk' s'. open_from_reader cr rd s key snk = Some (r, snk', s')
     \<and> taken s' \<le> taken s + unat max_stream_container_bytes + 1"
proof -
  let ?st = "\<lparr>in_source = s, in_hashed = [], in_bytes = 0\<rparr>"
  obtain r1 st1 where r1: "reader_stream_read rd 12 ?st = Some (r1, st1)"
    "taken (in_source st1) \<le> taken s + unat max_stream_container_bytes"
    "\<forall>raw. r1 = Inr raw \<longrightarrow> unat (in_bytes st1) = 12 \<and> unat (in_bytes st1) \<le> unat max_stream_container_bytes
       \<and> taken (in_source st1) = taken s + 12"
    by (rule stream_read_takes [of 12 ?st]) auto
  show ?thesis
  proof (cases r1)
    case (Inl e)
    then show ?thesis using r1 by (simp add: open_from_reader_def)
  next
    case (Inr prelude)
    note t1 = r1(3) [rule_format, OF Inr]
    show ?thesis
    proof (cases "prelude_length prelude")
      case (Inl e)
      then show ?thesis using r1 Inr by (simp add: open_from_reader_def)
    next
      case n: (Inr n)
      have "n < 2 ^ 64"
        using n unat_bound [of "from_be (drop 8 prelude) :: u32"] by (auto simp: prelude_length_def Let_def split: if_splits)
      then obtain r2 st2 where r2: "reader_stream_read rd n st1 = Some (r2, st2)"
        "taken (in_source st2) + 12 \<le> taken (in_source st1) + unat max_stream_container_bytes"
        "\<forall>raw. r2 = Inr raw \<longrightarrow> unat (in_bytes st2) = 12 + n \<and> unat (in_bytes st2) \<le> unat max_stream_container_bytes
           \<and> taken (in_source st2) = taken (in_source st1) + n"
        using stream_read_takes [of n st1] t1 by auto
      have b: "taken (in_source st2) \<le> taken s + unat max_stream_container_bytes" using r2(2) t1 by linarith
      show ?thesis
      proof (cases r2)
        case (Inl e)
        then show ?thesis using r1(1) r2(1) Inr n b by (simp add: open_from_reader_def)
      next
        case Inr2: (Inr meta)
        note t2 = r2(3) [rule_format, OF Inr2]
        have "\<exists>r snk' s'. reader_open_loop cr rd cipher m digest st2 [] 0 0 snk = Some (r, snk', s')
            \<and> taken s' \<le> taken s + unat max_stream_container_bytes + 1" for cipher m digest
          using open_loop_takes [of st2 cr cipher m digest "[]" 0 0 snk] t1 t2 by fastforce
        then show ?thesis using r1(1) r2(1) Inr n Inr2 b
          by (cases "open_begin cr key meta") (auto simp: open_from_reader_def)
      qed
    qed
  qed
qed

end

section \<open>Counting what any reader delivers\<close>

definition counting :: "'s reader \<Rightarrow> ('s \<times> nat) reader" where
  "counting rd n = (\<lambda>(s, k). case rd n s of (r, s') \<Rightarrow> (r, (s', k + answer_bytes r)))"

lemma counting_answers: "answers rd n s \<Longrightarrow> answers (counting rd) n (s, k)"
proof (induction rule: answers.induct)
  case (now s)
  then show ?case by (cases "rd n s") (auto intro!: answers.now simp: counting_def)
next
  case (later s s')
  then have "counting rd n (s, k) = (ReadInterrupted, (s', k))" by (simp add: counting_def)
  then show ?case using later.IH by (rule answers.later)
qed

lemma counting_reader:
  assumes "\<And>n s data s'. rd n s = (ReadOk data, s') \<Longrightarrow> length data \<le> n" "\<And>n s. answers rd n s"
  shows "byte_reader (counting rd) snd"
proof
  fix n and s :: "'a \<times> nat"
  show "answers (counting rd) n s" using counting_answers [OF assms(2), of n "fst s" "snd s"] by simp
qed (use assms(1) in \<open>auto simp: counting_def split: prod.splits\<close>)

section \<open>Byte sources as readers\<close>

definition source_read :: "byte_source reader" where
  "source_read n src =
     (if 0 < n \<and> src_bytes src = []
      then (case src_failure src of None \<Rightarrow> ReadOk [] | Some e \<Rightarrow> ReadErr e, src)
      else (ReadOk (take n (src_bytes src)), src\<lparr>src_bytes := drop n (src_bytes src)\<rparr>))"

interpretation source_reader: byte_reader "counting source_read" snd
  by (rule counting_reader) (auto intro!: answers.now simp: source_read_def split: if_splits option.splits)

lemma read_exact_source:
  "read_exact source_read n got src =
     Some (case source_read_exact n src of (Inl e, s) \<Rightarrow> (Inl e, s) | (Inr data, s) \<Rightarrow> (Inr (got @ data), s))"
proof (cases "n = 0 \<or> src_bytes src = []")
  case True
  then show ?thesis
    by (subst read_exact.simps) (auto simp: source_read_def source_read_exact_def split: option.split)
next
  case False
  then show ?thesis
    by (subst read_exact.simps, subst read_exact.simps)
       (auto simp: source_read_def source_read_exact_def split: option.split)
qed

lemma read_trailing_source: "fst (read_trailing source_read src) = source_read_byte src"
  by (simp add: read_trailing_def source_read_def source_read_byte_def split: list.split option.split)

lemma stream_read_source:
  "\<exists>s'. reader_stream_read source_read n st =
     Some (case stream_read n st of Inl e \<Rightarrow> (Inl e, st\<lparr>in_source := s'\<rparr>) | Inr (data, st') \<Rightarrow> (Inr data, st'))"
proof -
  obtain r s where r: "source_read_exact n (in_source st) = (r, s)" by fastforce
  then show ?thesis
    by (cases r; intro exI [of _ "if checked_add (in_bytes st) (of_nat n) = None
          \<or> max_stream_container_bytes < the (checked_add (in_bytes st) (of_nat n)) then in_source st else s"])
       (auto simp: reader_stream_read_def stream_read_def read_exact_source split: option.split)
qed

lemma seal_loop_source:
  assumes "stream_seal_loop cr cipher m digest remaining index src hashed out = Some r"
  shows "\<exists>s'. reader_seal_loop cr source_read cipher m digest remaining index src hashed out =
     Some (case r of (Inl e, out') \<Rightarrow> (Inl e, s', out') | (Inr (i, src', h), out') \<Rightarrow> (Inr (i, h), src', out'))"
proof (rule stream_seal_loop.raw_induct [where P = "\<lambda>cr cipher m digest remaining index src hashed out r.
    \<exists>s'. reader_seal_loop cr source_read cipher m digest remaining index src hashed out =
      Some (case r of (Inl e, out') \<Rightarrow> (Inl e, s', out') | (Inr (i, src', h), out') \<Rightarrow> (Inr (i, h), src', out'))", OF _ assms])
  fix f cr cipher m digest remaining index src hashed out r
  assume IH: "\<And>cr cipher m digest remaining index src hashed out r.
      f cr cipher m digest remaining index src hashed out = Some r \<Longrightarrow>
      \<exists>s'. reader_seal_loop cr source_read cipher m digest remaining index src hashed out =
        Some (case r of (Inl e, out') \<Rightarrow> (Inl e, s', out') | (Inr (i, src', h), out') \<Rightarrow> (Inr (i, h), src', out'))"
    and eq: "(if remaining = 0 then Some (Inr (index, src, hashed), out)
      else
        let count = min (unat remaining) (unat (gm_chunk_size m)) in
        case source_read_exact count src of
          (Inl e, _) \<Rightarrow> Some (Inl (StreamIo e), out)
        | (Inr buffer, src1) \<Rightarrow>
            (case seal_chunk cr cipher m digest index buffer out of
               (Inl e, out1) \<Rightarrow> Some (Inl e, out1)
             | (Inr next_index, out1) \<Rightarrow>
                 f cr cipher m digest (remaining - of_nat count) next_index src1 (hashed @ buffer) out1)) = Some r"
  show "\<exists>s'. reader_seal_loop cr source_read cipher m digest remaining index src hashed out =
      Some (case r of (Inl e, out') \<Rightarrow> (Inl e, s', out') | (Inr (i, src', h), out') \<Rightarrow> (Inr (i, h), src', out'))"
    using eq by (subst reader_seal_loop.simps)
      (auto simp: read_exact_source Let_def dest: IH split: if_splits sum.splits prod.splits)
qed

lemma open_loop_source:
  assumes "stream_open_loop cr cipher m digest st hashed plain_bytes index snk = Some r"
  shows "\<exists>s'. reader_open_loop cr source_read cipher m digest st hashed plain_bytes index snk = Some (fst r, snd r, s')"
proof (rule stream_open_loop.raw_induct [where P = "\<lambda>cr cipher m digest st hashed plain_bytes index snk r.
    \<exists>s'. reader_open_loop cr source_read cipher m digest st hashed plain_bytes index snk = Some (fst r, snd r, s')", OF _ assms])
  fix f cr cipher m digest st hashed plain_bytes index snk r
  assume IH: "\<And>cr cipher m digest st hashed plain_bytes index snk r.
      f cr cipher m digest st hashed plain_bytes index snk = Some r \<Longrightarrow>
      \<exists>s'. reader_open_loop cr source_read cipher m digest st hashed plain_bytes index snk = Some (fst r, snd r, s')"
    and eq: "(case stream_read 17 st of
        Inl e \<Rightarrow> Some (Inl e, snk)
      | Inr (raw, st1) \<Rightarrow>
          let h = parse_record_header raw in
          if \<not> open_header_ok m index h then Some (Inl (StreamCrypto GenInvalidContainer), snk)
          else case stream_read (unat (rh_ciphertext_length h)) st1 of
            Inl e \<Rightarrow> Some (Inl e, snk)
          | Inr (ciphertext, st2) \<Rightarrow>
              (case decrypt_record cr cipher m digest h ciphertext of
                 Inl e \<Rightarrow> Some (Inl (StreamCrypto e), snk)
               | Inr opened \<Rightarrow>
                   if rh_type h = record_final
                   then Some (stream_open_finish cr m digest st2 hashed plain_bytes opened, snk)
                   else (case open_chunk m h opened plain_bytes index snk of
                           (Inl e, snk1) \<Rightarrow> Some (Inl e, snk1)
                         | (Inr (plain_total, next_index), snk1) \<Rightarrow>
                             f cr cipher m digest st2 (hashed @ opened) plain_total next_index snk1))) = Some r"
  have finish: "fst (reader_open_finish cr source_read m digest st2 hashed plain_bytes opened)
      = stream_open_finish cr m digest st2 hashed plain_bytes opened" for st2 opened
    using read_trailing_source [of "in_source st2"]
    by (auto simp: reader_open_finish_def stream_open_finish_def split: prod.split)
  have finish': "(case reader_open_finish cr source_read m digest st2 hashed plain_bytes opened of (r, s) \<Rightarrow> Some (r, snk, s))
      = Some (stream_open_finish cr m digest st2 hashed plain_bytes opened, snk,
          snd (reader_open_finish cr source_read m digest st2 hashed plain_bytes opened))" for st2 opened
    using finish [of st2 opened] by (simp add: prod.case_eq_if)
  obtain s1 where s1: "reader_stream_read source_read 17 st =
      Some (case stream_read 17 st of Inl e \<Rightarrow> (Inl e, st\<lparr>in_source := s1\<rparr>) | Inr (data, st') \<Rightarrow> (Inr data, st'))"
    using stream_read_source by blast
  show "\<exists>s'. reader_open_loop cr source_read cipher m digest st hashed plain_bytes index snk = Some (fst r, snd r, s')"
  proof (cases "stream_read 17 st")
    case (Inl e)
    then show ?thesis using eq s1 by (subst reader_open_loop.simps) auto
  next
    case (Inr q)
    obtain raw st1 where q: "q = (raw, st1)" by fastforce
    let ?h = "parse_record_header raw"
    obtain s2 where s2: "reader_stream_read source_read (unat (rh_ciphertext_length ?h)) st1 =
        Some (case stream_read (unat (rh_ciphertext_length ?h)) st1 of Inl e \<Rightarrow> (Inl e, st1\<lparr>in_source := s2\<rparr>) | Inr (data, st') \<Rightarrow> (Inr data, st'))"
      using stream_read_source by blast
    show ?thesis using eq Inr q s1 s2
      by (subst reader_open_loop.simps)
         (auto simp: Let_def finish' dest: IH split: if_splits sum.splits prod.splits)
  qed
qed

lemma digest_loop_source:
  assumes "unat total_bytes \<le> unat max_stream_plaintext_bytes"
  shows "\<exists>s'. reader_digest_loop source_read total_bytes hashed src =
     Some (if unat max_stream_plaintext_bytes < unat total_bytes + length (src_bytes src) then Inl (StreamCrypto GenPlaintextTooLarge)
           else case src_failure src of Some e \<Rightarrow> Inl (StreamIo e)
             | None \<Rightarrow> Inr (total_bytes + of_nat (length (src_bytes src)), hashed @ src_bytes src), s')"
  using assms
proof (induction "length (src_bytes src)" arbitrary: total_bytes hashed src rule: less_induct)
  case less
  show ?case
  proof (cases "src_bytes src = []")
    case True
    then show ?thesis using less(2)
      by (subst reader_digest_loop.simps) (simp add: source_read_def reader_buffer_bytes_def split: option.split)
  next
    case False
    obtain p r where p: "src_bytes src = p @ r" "length p \<le> 65536" "p \<noteq> []"
      and rd: "source_read reader_buffer_bytes src = (ReadOk p, src\<lparr>src_bytes := r\<rparr>)"
      using that [of "take reader_buffer_bytes (src_bytes src)" "drop reader_buffer_bytes (src_bytes src)"] False
      by (simp add: source_read_def reader_buffer_bytes_def)
    let ?sum = "total_bytes + of_nat (length p)"
    have w: "unat (of_nat (length p) :: u64) = length p" using p(2) by (simp add: unat_of_nat_small)
    have "unat total_bytes + unat (of_nat (length p) :: u64) < 2 ^ 64"
      unfolding w using less(2) p(2) by (simp add: max_stream_plaintext_bytes_def)
    then have add: "checked_add total_bytes (of_nat (length p)) = Some ?sum" by (simp add: checked_add_def)
    have sum: "unat ?sum = unat total_bytes + length p" using checked_add_SomeD [OF add] w by simp
    show ?thesis
    proof (cases "max_stream_plaintext_bytes < ?sum")
      case True
      then have "unat max_stream_plaintext_bytes < unat total_bytes + length (src_bytes src)"
        using sum p(1) by (simp add: word_less_nat_alt)
      then show ?thesis using rd p(3) add True by (subst reader_digest_loop.simps) simp
    next
      case le: False
      then have "unat ?sum \<le> unat max_stream_plaintext_bytes" by (simp add: word_le_nat_alt not_less)
      moreover have "length (src_bytes (src\<lparr>src_bytes := r\<rparr>)) < length (src_bytes src)" using p by simp
      moreover have upd: "src_bytes (src\<lparr>src_bytes := r\<rparr>) = r" "src_failure (src\<lparr>src_bytes := r\<rparr>) = src_failure src" by simp_all
      ultimately obtain s' where IH: "reader_digest_loop source_read ?sum (hashed @ p) (src\<lparr>src_bytes := r\<rparr>) =
         Some (if unat max_stream_plaintext_bytes < unat ?sum + length r then Inl (StreamCrypto GenPlaintextTooLarge)
           else case src_failure src of Some e \<Rightarrow> Inl (StreamIo e)
             | None \<Rightarrow> Inr (?sum + of_nat (length r), (hashed @ p) @ r), s')"
        using less(1) [of "src\<lparr>src_bytes := r\<rparr>" ?sum "hashed @ p"] unfolding upd by blast
      have e: "unat ?sum + length r = unat total_bytes + length (src_bytes src)"
        "?sum + of_nat (length r) = total_bytes + of_nat (length (src_bytes src))" "(hashed @ p) @ r = hashed @ src_bytes src"
        using sum by (simp_all add: p(1))
      have "reader_digest_loop source_read total_bytes hashed src
          = reader_digest_loop source_read ?sum (hashed @ p) (src\<lparr>src_bytes := r\<rparr>)"
        using rd p(3) add le by (subst reader_digest_loop.simps) simp
      then show ?thesis using IH unfolding e by simp
    qed
  qed
qed

lemma metadata_on_sources:
  "map_option fst (metadata_from_reader cr source_read i key_id nonce_prefix chunk_size src)
     = Some (metadata_for_reader cr i key_id nonce_prefix chunk_size src)"
proof (cases "validate_chunk_size chunk_size")
  case (Inl e)
  then show ?thesis by (simp only: metadata_from_reader_def metadata_for_reader_def) simp
next
  case (Inr u)
  obtain s' where "reader_digest_loop source_read 0 [] src =
     Some (if unat max_stream_plaintext_bytes < length (src_bytes src) then Inl (StreamCrypto GenPlaintextTooLarge)
           else case src_failure src of Some e \<Rightarrow> Inl (StreamIo e)
             | None \<Rightarrow> Inr (of_nat (length (src_bytes src)), src_bytes src), s')"
    using digest_loop_source [of 0 "[]" src, unfolded unat_0 add_0 append_Nil] by auto
  then show ?thesis unfolding metadata_from_reader_def metadata_for_reader_def Inr
    by (simp split: option.split)
qed

lemma sealing_on_sources:
  "map_option (\<lambda>(r, snk', s'). (r, snk')) (seal_from_reader cr source_read m key src snk) = seal_generation_streaming cr m key src snk"
proof (cases "seal_begin cr m key snk")
  case (Pair x out)
  show ?thesis
  proof (cases x)
    case (Inl e)
    then show ?thesis using Pair by (simp add: seal_from_reader_def seal_generation_streaming_def)
  next
    case (Inr cd)
    obtain cipher digest where cd: "cd = (cipher, digest)" by fastforce
    note ready = seal_begin_ready(1) [OF Pair [unfolded Inr]]
    obtain r out' where l: "stream_seal_loop cr cipher m digest (gm_plaintext_bytes m) 0 src [] out = Some (r, out')"
      using stream_seal_loop_returns [OF ready, of cr cipher digest "gm_plaintext_bytes m" 0 src "[]" out] by blast
    show ?thesis using seal_loop_source [OF l] l Pair Inr cd read_trailing_source
      by (cases r) (auto simp: seal_from_reader_def seal_generation_streaming_def prod.case_eq_if)
  qed
qed

lemma opening_on_sources:
  "map_option (\<lambda>(r, snk', s'). (r, snk')) (open_from_reader cr source_read src key snk) = open_generation_streaming cr src key snk"
proof -
  let ?st = "\<lparr>in_source = src, in_hashed = [], in_bytes = 0\<rparr>"
  obtain s1 where s1: "reader_stream_read source_read 12 ?st =
      Some (case stream_read 12 ?st of Inl e \<Rightarrow> (Inl e, ?st\<lparr>in_source := s1\<rparr>) | Inr (data, st') \<Rightarrow> (Inr data, st'))"
    using stream_read_source by blast
  have s2: "\<exists>s'. reader_stream_read source_read n st =
      Some (case stream_read n st of Inl e \<Rightarrow> (Inl e, st\<lparr>in_source := s'\<rparr>) | Inr (data, st') \<Rightarrow> (Inr data, st'))" for n st
    by (rule stream_read_source)
  have loop: "\<exists>s'. reader_open_loop cr source_read cipher m digest st [] 0 0 snk
      = map_option (\<lambda>(r, snk'). (r, snk', s')) (stream_open_loop cr cipher m digest st [] 0 0 snk)" for cipher m digest st
    using stream_open_loop_returns [of cr cipher m digest st "[]" 0 0 snk] open_loop_source [of cr cipher m digest st "[]" 0 0 snk] by fastforce
  show ?thesis
  proof (cases "stream_read 12 ?st")
    case (Inl e)
    then show ?thesis using s1 by (simp add: open_from_reader_def open_generation_streaming_def)
  next
    case (Inr q)
    obtain prelude st1 where q: "q = (prelude, st1)" by fastforce
    show ?thesis
    proof (cases "prelude_length prelude")
      case (Inl e)
      then show ?thesis using s1 Inr q by (simp add: open_from_reader_def open_generation_streaming_def)
    next
      case n: (Inr n)
      obtain s' where "reader_stream_read source_read n st1 =
          Some (case stream_read n st1 of Inl e \<Rightarrow> (Inl e, st1\<lparr>in_source := s'\<rparr>) | Inr (data, st') \<Rightarrow> (Inr data, st'))"
        using s2 by blast
      moreover obtain s3 where "reader_open_loop cr source_read cipher m digest st [] 0 0 snk
          = map_option (\<lambda>(r, snk'). (r, snk', s3 cipher m digest st)) (stream_open_loop cr cipher m digest st [] 0 0 snk)"
          for cipher m digest st using loop by metis
      ultimately show ?thesis using s1 Inr q n
        by (auto simp: open_from_reader_def open_generation_streaming_def option.map_comp option.map_ident comp_def prod.case_eq_if split: sum.split)
    qed
  qed
qed

end
