(* ===== verification/Generation_Properties.thy ===== *)
theory Generation_Properties
  imports Reader_Laws
begin

text \<open>
  The properties of the encrypted generation containers.
\<close>

section \<open>Metadata built by the constructors\<close>

definition identity_typed :: "generation_identity \<Rightarrow> bool" where
  "identity_typed i \<longleftrightarrow> id_valid (gid_tenant_id i) \<and> id_valid (gid_profile_id i) \<and> id_valid (gid_generation_id i)
     \<and> pred_option id_valid (gid_base_generation_id i)"

definition dek_typed :: "generation_dek \<Rightarrow> bool" where
  "dek_typed key \<longleftrightarrow> key_id_valid (dek_key_id key) \<and> length (dek_bytes key) = 32"

lemma metadata_of_identity_ok:
  assumes "crypto_ok cr" "identity_typed i" "dek_typed key" "length nonce_prefix = nonce_prefix_bytes"
    and "validate_chunk_size n = Inr ()" "length pt \<le> unat max_stream_plaintext_bytes"
    and "m = metadata_of_identity i (dek_key_id key) nonce_prefix n (of_nat (length pt)) (sha256_of cr pt)"
  shows "metadata_ok m" "gm_key_id m = dek_key_id key" "length (dek_bytes key) = 32" "length pt = unat (gm_plaintext_bytes m)"
    "sha256_of cr pt = gm_plaintext_digest m" "gm_plaintext_bytes m \<le> max_stream_plaintext_bytes"
proof -
  have "unat (of_nat (length pt) :: u64) = length pt"
    using assms(6) by (simp add: unat_of_nat_small max_stream_plaintext_bytes_def)
  then show "metadata_ok m" "gm_key_id m = dek_key_id key" "length (dek_bytes key) = 32" "length pt = unat (gm_plaintext_bytes m)"
    "sha256_of cr pt = gm_plaintext_digest m" "gm_plaintext_bytes m \<le> max_stream_plaintext_bytes"
    using assms by (simp_all add: metadata_ok_def metadata_typed_def identity_typed_def dek_typed_def metadata_of_identity_def
        crypto_ok_def word_le_nat_alt)
qed

section \<open>A cipher that satisfies the contract\<close>

definition sample_crypto :: crypto where
  "sample_crypto = \<lparr>sha256_of = (\<lambda>x. take 32 (x @ replicate 32 CHR ''0'')),
     aead_encrypt = (\<lambda>k n a p. Some (p @ take 16 (n @ k))),
     aead_decrypt = (\<lambda>k n a c. if drop (length c - 16) c = take 16 (n @ k) then Some (take (length c - 16) c) else None)\<rparr>"

lemma sample_crypto_ok: "crypto_ok sample_crypto"
  by (simp add: crypto_ok_def sample_crypto_def tag_bytes_def nonce_bytes_def min_def)

definition sample_identity :: generation_identity where
  "sample_identity = \<lparr>gid_tenant_id = TypedId (OpaqueId ''tenant_1''), gid_profile_id = TypedId (OpaqueId ''profile_1''),
     gid_generation_id = TypedId (OpaqueId ''generation_2''), gid_base_generation_id = Some (TypedId (OpaqueId ''generation_1''))\<rparr>"

definition sample_key :: generation_dek where
  "sample_key = \<lparr>dek_key_id = KeyId ''profile-key'', dek_bytes = replicate 32 CHR ''k''\<rparr>"


lemma sample_typed: "identity_typed sample_identity" "dek_typed sample_key"
  by (simp_all add: identity_typed_def sample_identity_def dek_typed_def sample_key_def id_valid_def key_id_valid_def
      opaque_valid_def min_id_length_def max_id_length_def min_key_id_bytes_def max_key_id_bytes_def id_char_def ascii_defs byte_of_def)

lemma sample_container:
  obtains m sg where "seal_generation sample_crypto m sample_key ''profile bytes'' = Inr sg"
    "open_generation sample_crypto (sg_container sg) sample_key = Inr \<lparr>og_metadata = m, og_plaintext = ''profile bytes''\<rparr>"
    "metadata_ok m"
proof -
  let ?pt = "''profile bytes''"
  let ?m = "metadata_of_identity sample_identity (dek_key_id sample_key) (replicate 16 CHR ''n'') 1024 (of_nat (length ?pt)) (sha256_of sample_crypto ?pt)"
  have ok: "metadata_ok ?m" "gm_key_id ?m = dek_key_id sample_key" "length (dek_bytes sample_key) = 32" "length ?pt = unat (gm_plaintext_bytes ?m)"
    "sha256_of sample_crypto ?pt = gm_plaintext_digest ?m"
    by (rule metadata_of_identity_ok [OF sample_crypto_ok sample_typed, of "replicate 16 CHR ''n''" 1024 ?pt ?m];
        simp add: nonce_prefix_bytes_def min_chunk_bytes_def max_chunk_bytes_def max_stream_plaintext_bytes_def)+
  have p: "length ?pt \<le> max_plaintext_bytes" by (simp add: max_plaintext_bytes_def)
  obtain sg where sg: "seal_generation sample_crypto ?m sample_key ?pt = Inr sg"
      "length (sg_container sg) \<le> container_size_bound (length ?pt)" "container_opens sample_crypto sample_key (sg_container sg) ?m ?pt"
    using seal_then_open [OF sample_crypto_ok ok container_size_memory [OF p]] by metis
  then have "open_generation sample_crypto (sg_container sg) sample_key = Inr \<lparr>og_metadata = ?m, og_plaintext = ?pt\<rparr>"
    using p container_size_memory [OF p] by (simp add: open_generation_iff)
  then show ?thesis using that sg(1) ok(1) by blast
qed

section \<open>Round trips\<close>

text \<open>
  C13: Every plaintext that \<open>metadata_for_plaintext\<close> accepts is sealed, and the container opens under
  the same key to the same metadata and plaintext; its length stays within a linear bound.
\<close>

theorem seal_open_roundtrip:
  assumes "crypto_ok cr" "identity_typed i" "dek_typed key" "length nonce_prefix = nonce_prefix_bytes"
    and "metadata_for_plaintext cr i (dek_key_id key) nonce_prefix chunk_size pt = Inr m"
  shows "\<exists>sg. seal_generation cr m key pt = Inr sg \<and> length (sg_container sg) \<le> container_size_bound (length pt)
     \<and> open_generation cr (sg_container sg) key = Inr \<lparr>og_metadata = m, og_plaintext = pt\<rparr>"
proof -
  have p: "length pt \<le> max_plaintext_bytes" "validate_chunk_size chunk_size = Inr ()"
      "m = metadata_of_identity i (dek_key_id key) nonce_prefix chunk_size (of_nat (length pt)) (sha256_of cr pt)"
    using assms(5) by (auto simp: metadata_for_plaintext_def res_bind_Inr_iff split: if_splits)
  have "length pt \<le> unat max_stream_plaintext_bytes"
    using p(1) by (simp add: max_plaintext_bytes_def max_stream_plaintext_bytes_def)
  note ok = metadata_of_identity_ok [OF assms(1-4) p(2) this p(3)]
  obtain sg where sg: "seal_generation cr m key pt = Inr sg" "length (sg_container sg) \<le> container_size_bound (length pt)"
      "container_opens cr key (sg_container sg) m pt"
    using seal_then_open [OF assms(1) ok(1-5) container_size_memory [OF p(1)]] by metis
  then show ?thesis
    using p(1) container_size_memory [OF p(1)] by (auto simp: open_generation_iff)
qed

theorem seal_open_roundtrip_witness:
  "\<exists>m sg. metadata_for_plaintext sample_crypto sample_identity (dek_key_id sample_key) (replicate 16 CHR ''n'') 1024 ''profile bytes'' = Inr m
     \<and> seal_generation sample_crypto m sample_key ''profile bytes'' = Inr sg
     \<and> open_generation sample_crypto (sg_container sg) sample_key = Inr \<lparr>og_metadata = m, og_plaintext = ''profile bytes''\<rparr>"
proof -
  obtain m where m: "metadata_for_plaintext sample_crypto sample_identity (dek_key_id sample_key) (replicate 16 CHR ''n'') 1024 ''profile bytes'' = Inr m"
    by (simp add: metadata_for_plaintext_def validate_chunk_size_def min_chunk_bytes_def max_chunk_bytes_def max_plaintext_bytes_def)
  then show ?thesis
    using seal_open_roundtrip [OF sample_crypto_ok sample_typed _ m] by (auto simp: nonce_prefix_bytes_def)
qed

text \<open>
  Decoding metadata accepts exactly the bytes that encoding produces: the encoding is canonical.
\<close>

theorem metadata_canonical: "metadata_decode bs = Inr m \<longleftrightarrow> metadata_typed m \<and> metadata_encode m = Inr bs"
  using metadata_decode_iff [of bs m] metadata_encode_iff [of m bs] by (auto simp: metadata_ok_def)

section \<open>Streaming against memory\<close>

definition sealed_stream_report :: "sealed_generation \<Rightarrow> streaming_generation_report" where
  "sealed_stream_report sg = \<lparr>sr_metadata = sg_metadata sg, sr_metadata_digest = sg_metadata_digest sg,
     sr_container_digest = sg_container_digest sg, sr_container_bytes = of_nat (length (sg_container sg))\<rparr>"

lemma seals_both:
  assumes "crypto_ok cr" "metadata_ok m" "gm_key_id m = dek_key_id key" "length (dek_bytes key) = 32"
    and "length pt = unat (gm_plaintext_bytes m)" "sha256_of cr pt = gm_plaintext_digest m"
  obtains container where "length container \<le> container_size_bound (length pt)" "container_opens cr key container m pt"
    "\<And>s0. seal_generation_streaming cr m key \<lparr>src_bytes = pt, src_failure = None\<rparr> \<lparr>snk_bytes = s0, snk_room = None\<rparr>
       = Some (Inr (sealed_report cr m container), \<lparr>snk_bytes = s0 @ container, snk_room = None\<rparr>)"
    "seal_generation cr m key pt = (if length container \<le> max_container_bytes
       then Inr \<lparr>sg_metadata = m, sg_metadata_digest = sha256_of cr (metadata_bytes m), sg_container = container,
                 sg_container_digest = sha256_of cr container\<rparr>
       else Inl GenPlaintextTooLarge)"
proof -
  have s: "seals cr (dek_bytes key) m" "metadata_typed m" using assms by (simp_all add: seals_def metadata_ok_def)
  have pt: "length pt \<le> unat max_stream_plaintext_bytes" using assms(2,5) by (simp add: metadata_ok_def word_le_nat_alt)
  obtain body where b: "sealed_body cr (dek_bytes key) m (sha256_of cr (metadata_bytes m)) (chunks (unat (gm_chunk_size m)) pt) 0 = Inr body"
      "accepted cr (dek_bytes key) m (sha256_of cr (metadata_bytes m)) 0 body pt"
      "length (container_prelude m @ body) \<le> container_size_bound (length pt)"
    by (rule sealed_container [OF s(1) pt])
  have "length (container_prelude m @ body) \<le> unat max_stream_container_bytes"
    using b(3) container_size_stream [OF pt] by simp
  note stream = seal_streaming_writes [OF assms b(1) this]
  have "container_opens cr key (container_prelude m @ body) m pt" using assms b(2) by (auto simp: container_opens_def)
  then show ?thesis
    using that [of "container_prelude m @ body"] b(3) stream seal_generation_writes [OF assms(1) s(2) assms(2-6) b(1)] by simp
qed

text \<open>
  C14: Sealing in memory and sealing as a stream are the same function: \<open>seal_generation\<close> returns a
  container exactly when the stream version writes these bytes, with the same digests, and they
  fit the in-memory limit.
\<close>

theorem seal_streaming_equivalent:
  assumes "crypto_ok cr" "metadata_typed m"
  shows "seal_generation cr m key pt = Inr sg \<longleftrightarrow>
     length (sg_container sg) \<le> max_container_bytes \<and> sg_metadata sg = m
     \<and> seal_generation_streaming cr m key \<lparr>src_bytes = pt, src_failure = None\<rparr> \<lparr>snk_bytes = s0, snk_room = None\<rparr>
       = Some (Inr (sealed_stream_report sg), \<lparr>snk_bytes = s0 @ sg_container sg, snk_room = None\<rparr>)" (is "?mem \<longleftrightarrow> ?stream")
proof (cases "metadata_ok m \<and> gm_key_id m = dek_key_id key \<and> length (dek_bytes key) = 32
    \<and> length pt = unat (gm_plaintext_bytes m) \<and> sha256_of cr pt = gm_plaintext_digest m")
  case True
  then obtain container where c: "seal_generation_streaming cr m key \<lparr>src_bytes = pt, src_failure = None\<rparr> \<lparr>snk_bytes = s0, snk_room = None\<rparr>
       = Some (Inr (sealed_report cr m container), \<lparr>snk_bytes = s0 @ container, snk_room = None\<rparr>)"
    "seal_generation cr m key pt = (if length container \<le> max_container_bytes
       then Inr \<lparr>sg_metadata = m, sg_metadata_digest = sha256_of cr (metadata_bytes m), sg_container = container,
                 sg_container_digest = sha256_of cr container\<rparr>
       else Inl GenPlaintextTooLarge)"
    using seals_both [OF assms(1), of m key pt thesis] by metis
  show ?thesis
    unfolding c by (cases sg) (auto simp: sealed_report_def sealed_stream_report_def)
next
  case False
  then have "\<not> ?mem" using seal_generation_parts [OF _ assms(2)] by blast
  moreover have "metadata_ok m" if "is_ok (metadata_encode m)"
    using that metadata_encode_iff [OF assms(2)] by (cases "metadata_encode m") (auto simp: is_ok_def)
  then have "\<not> ?stream"
    using False seal_streaming_parts [of cr m key "\<lparr>src_bytes = pt, src_failure = None\<rparr>" "\<lparr>snk_bytes = s0, snk_room = None\<rparr>"]
    by auto
  ultimately show ?thesis by blast
qed


theorem seal_streaming_equivalent_witness:
  "\<exists>m sg. seal_generation sample_crypto m sample_key ''profile bytes'' = Inr sg
     \<and> seal_generation_streaming sample_crypto m sample_key \<lparr>src_bytes = ''profile bytes'', src_failure = None\<rparr> \<lparr>snk_bytes = [], snk_room = None\<rparr>
       = Some (Inr (sealed_stream_report sg), \<lparr>snk_bytes = sg_container sg, snk_room = None\<rparr>)"
proof -
  obtain m sg where s: "seal_generation sample_crypto m sample_key ''profile bytes'' = Inr sg" "metadata_ok m"
    by (rule sample_container)
  then have "metadata_typed m" by (simp add: metadata_ok_def)
  from seal_streaming_equivalent [OF sample_crypto_ok this, of sample_key "''profile bytes''" sg "[]"] s show ?thesis by auto
qed

text \<open>
  C15: Opening in memory and opening as a stream accept the same containers and deliver the same
  plaintext: \<open>open_generation\<close> accepts exactly what the stream version accepts within the
  in-memory limits on container and plaintext.
\<close>

theorem open_streaming_equivalent:
  "open_generation cr container key = Inr og \<longleftrightarrow>
     length container \<le> max_container_bytes \<and> length (og_plaintext og) \<le> max_plaintext_bytes
     \<and> open_generation_streaming cr \<lparr>src_bytes = container, src_failure = None\<rparr> key \<lparr>snk_bytes = s0, snk_room = None\<rparr>
       = Some (Inr (sealed_report cr (og_metadata og) container), \<lparr>snk_bytes = s0 @ og_plaintext og, snk_room = None\<rparr>)"
proof -
  have "length container \<le> unat max_stream_container_bytes" if "length container \<le> max_container_bytes"
    using that by (simp add: max_container_bytes_def stream_limit_nat)
  then show ?thesis
    unfolding open_generation_iff open_streaming_iff by (auto simp: sealed_report_def)
qed

text \<open>
  C16: Digesting, sealing and opening a stream return for every reader that keeps the contract of
  \<open>Read\<close> (at most as many bytes as the buffer has room for) and is not interrupted forever, also for
  readers that never end, interrupt or fail; and they cut the reader off: digesting takes at most one
  buffer more than the limit on streamed plaintext, sealing at most one byte more than the metadata announce
  and never more than that limit and one byte, opening at most one byte more than the limit on containers.
  The sink takes all or some of what is written to it.
\<close>

theorem streaming_returns:
  assumes "\<And>n s data s'. rd n s = (ReadOk data, s') \<Longrightarrow> length data \<le> n" and "\<And>n s. answers rd n s"
  shows "(\<exists>r s' k. metadata_from_reader cr (counting rd) i key_id nonce_prefix chunk_size (s, 0) = Some (r, (s', k))
           \<and> k \<le> unat max_stream_plaintext_bytes + 65536)
     \<and> (\<exists>r snk' s' k. seal_from_reader cr (counting rd) m key (s, 0) snk = Some (r, snk', (s', k))
           \<and> k \<le> unat (min (gm_plaintext_bytes m) max_stream_plaintext_bytes) + 1)
     \<and> (\<exists>r snk' s' k. open_from_reader cr (counting rd) (s, 0) key snk = Some (r, snk', (s', k))
           \<and> k \<le> unat max_stream_container_bytes + 1)"
proof -
  have reader: "byte_reader (counting rd) snd"
    by (rule counting_reader) (rule assms, assumption?)+
  show ?thesis
    using byte_reader.metadata_takes [OF reader, of cr i key_id nonce_prefix chunk_size "(s, 0)"]
      byte_reader.seal_takes [OF reader, of cr m key "(s, 0)" snk] byte_reader.open_takes [OF reader, of cr "(s, 0)" key snk]
    by (fastforce simp: reader_buffer_bytes_def)
qed

text \<open>A reader that never ends, and interrupts every other read.\<close>

definition endless_reader :: "nat reader" where
  "endless_reader n s = (if even s then ReadInterrupted else ReadOk (replicate n (CHR ''x'')), Suc s)"

lemma endless_reader_answers: "answers endless_reader n s"
proof (cases "even s")
  case True
  then have "answers endless_reader n (Suc s)" by (intro answers.now) (simp add: endless_reader_def)
  then show ?thesis using True by (intro answers.later [of endless_reader n s "Suc s"]) (simp_all add: endless_reader_def)
qed (intro answers.now; simp add: endless_reader_def)

theorem streaming_returns_witness:
  "\<exists>r snk' s' k. open_from_reader sample_crypto (counting endless_reader) (0, 0) sample_key
       \<lparr>snk_bytes = [], snk_room = None\<rparr> = Some (r, snk', (s', k)) \<and> k \<le> 637534209"
proof -
  have "length data \<le> n" if "endless_reader n s = (ReadOk data, s')" for n s data s'
    using that by (auto simp: endless_reader_def split: if_splits)
  from streaming_returns [OF this endless_reader_answers, where cr = sample_crypto and key = sample_key and s = 0]
  show ?thesis by (simp add: max_stream_container_bytes_def)
qed

text \<open>
  On the sources of \<open>Generation_Streaming\<close> the functions over readers are the functions of the two
  equivalences above, so these hold for them.
\<close>

lemma reader_functions_on_sources:
  "map_option fst (metadata_from_reader cr source_read i key_id nonce_prefix chunk_size src)
     = Some (metadata_for_reader cr i key_id nonce_prefix chunk_size src)
   \<and> map_option (\<lambda>(r, snk', s'). (r, snk')) (seal_from_reader cr source_read m key src snk) = seal_generation_streaming cr m key src snk
   \<and> map_option (\<lambda>(r, snk', s'). (r, snk')) (open_from_reader cr source_read src key snk) = open_generation_streaming cr src key snk"
  using metadata_on_sources sealing_on_sources opening_on_sources by blast

text \<open>
  A source of up to 576 MiB is sealed within the 608 MiB limit on containers, and the stream so
  written opens to the source again: the headroom for framing covers every chunk size.
\<close>

theorem stream_roundtrip_within_limits:
  assumes "crypto_ok cr" "identity_typed i" "dek_typed key" "length nonce_prefix = nonce_prefix_bytes"
    and "metadata_for_reader cr i (dek_key_id key) nonce_prefix chunk_size src = Inr m"
  shows "\<exists>rep container. length container \<le> unat max_stream_container_bytes
     \<and> seal_generation_streaming cr m key src \<lparr>snk_bytes = [], snk_room = None\<rparr>
         = Some (Inr rep, \<lparr>snk_bytes = container, snk_room = None\<rparr>)
     \<and> open_generation_streaming cr \<lparr>src_bytes = container, src_failure = None\<rparr> key \<lparr>snk_bytes = [], snk_room = None\<rparr>
         = Some (Inr rep, \<lparr>snk_bytes = src_bytes src, snk_room = None\<rparr>)"
proof -
  let ?pt = "src_bytes src"
  have p: "length ?pt \<le> unat max_stream_plaintext_bytes" "validate_chunk_size chunk_size = Inr ()" "src_failure src = None"
      "m = metadata_of_identity i (dek_key_id key) nonce_prefix chunk_size (of_nat (length ?pt)) (sha256_of cr ?pt)"
    using assms(5) by (auto simp: metadata_for_reader_def res_bind_Inr_iff res_map_err_def split: if_splits sum.splits option.splits)
  have src: "src = \<lparr>src_bytes = ?pt, src_failure = None\<rparr>" using p(3) by simp
  note ok = metadata_of_identity_ok [OF assms(1-4) p(2,1,4)]
  obtain container where c: "length container \<le> container_size_bound (length ?pt)" "container_opens cr key container m ?pt"
      "seal_generation_streaming cr m key src \<lparr>snk_bytes = [], snk_room = None\<rparr>
         = Some (Inr (sealed_report cr m container), \<lparr>snk_bytes = container, snk_room = None\<rparr>)"
    using seals_both [OF assms(1) ok(1-5)] src by (metis append_Nil)
  have len: "length container \<le> unat max_stream_container_bytes" using c(1) container_size_stream [OF p(1)] by simp
  then have "open_generation_streaming cr \<lparr>src_bytes = container, src_failure = None\<rparr> key \<lparr>snk_bytes = [], snk_room = None\<rparr>
       = Some (Inr (sealed_report cr m container), \<lparr>snk_bytes = ?pt, snk_room = None\<rparr>)"
    using c(2) by (simp add: open_streaming_iff) (simp add: sealed_report_def)
  then show ?thesis using c(3) len by blast
qed

theorem stream_roundtrip_within_limits_witness:
  "\<exists>m rep container. metadata_for_reader sample_crypto sample_identity (dek_key_id sample_key) (replicate 16 CHR ''n'') 2048
        \<lparr>src_bytes = replicate 100000 CHR ''p'', src_failure = None\<rparr> = Inr m
     \<and> seal_generation_streaming sample_crypto m sample_key \<lparr>src_bytes = replicate 100000 CHR ''p'', src_failure = None\<rparr>
         \<lparr>snk_bytes = [], snk_room = None\<rparr> = Some (Inr rep, \<lparr>snk_bytes = container, snk_room = None\<rparr>)
     \<and> open_generation_streaming sample_crypto \<lparr>src_bytes = container, src_failure = None\<rparr> sample_key \<lparr>snk_bytes = [], snk_room = None\<rparr>
         = Some (Inr rep, \<lparr>snk_bytes = replicate 100000 CHR ''p'', snk_room = None\<rparr>)"
proof -
  let ?src = "\<lparr>src_bytes = replicate 100000 CHR ''p'', src_failure = None\<rparr>"
  obtain m where m: "metadata_for_reader sample_crypto sample_identity (dek_key_id sample_key) (replicate 16 CHR ''n'') 2048 ?src = Inr m"
    by (simp add: metadata_for_reader_def validate_chunk_size_def min_chunk_bytes_def max_chunk_bytes_def max_stream_plaintext_bytes_def
        res_map_err_def)
  then show ?thesis
    using stream_roundtrip_within_limits [OF sample_crypto_ok sample_typed _ m] by (auto simp: nonce_prefix_bytes_def)
qed


section \<open>Framing\<close>

lemma record_split:
  "container_record k i n ct @ r = container_record k' i' n' ct' @ r' \<Longrightarrow> header k i n ct = header k' i' n' ct' \<and> ct @ r = ct' @ r'"
  unfolding container_record_header append_assoc
  by (metis append_eq_append_conv length_put_header parse_put_header)

lemma accepted_prefix_free:
  assumes "metadata_ok m"
  shows "accepted cr cipher m digest i bs q \<Longrightarrow> accepted cr cipher m digest i (bs @ x) q' \<Longrightarrow> x = []"
proof (induction arbitrary: q' rule: accepted.induct)
  case (final tag i)
  from final(3) show ?case
  proof (cases rule: accepted.cases)
    case (final tag')
    then have "tag @ x = tag'" using record_split [of record_final i 0 tag x record_final i 0 tag' "[]"] by simp
    then show ?thesis using final(3) \<open>length tag = tag_bytes\<close> by auto
  next
    case (chunk p ct j rest pt)
    then show ?thesis using record_split [of record_final i 0 tag x record_chunk i "of_nat (length p)" ct rest] by (simp add: header_def)
  qed
next
  case (chunk i p ct j rest pt)
  from chunk(8) show ?case
  proof (cases rule: accepted.cases)
    case (final tag')
    then show ?thesis using record_split [of record_chunk i "of_nat (length p)" ct "rest @ x" record_final i 0 tag' "[]"] by (simp add: header_def)
  next
    case c: (chunk p' ct' j' rest' pt')
    have "container_record record_chunk i (of_nat (length p)) ct @ rest @ x = container_record record_chunk i (of_nat (length p')) ct' @ rest'"
      using c(1) by simp
    then have s: "header record_chunk i (of_nat (length p)) ct = header record_chunk i (of_nat (length p')) ct'" "ct @ rest @ x = ct' @ rest'"
      by (simp_all only: record_split [of record_chunk i "of_nat (length p)" ct "rest @ x" record_chunk i "of_nat (length p')" ct' rest'])
    have "length ct = length ct'"
      using s(1) header_lengths(2) [OF assms chunk(3,4)] header_lengths(2) [OF assms c(5,6)] by (metis header_parts(4))
    then have "rest' = rest @ x" using s(2) by simp
    then show ?thesis using chunk.IH [of pt'] c(7,8) chunk(5) by simp
  qed
qed

lemma prelude_prefix_free:
  assumes "metadata_ok m" "metadata_ok m'" "container_prelude m @ r = container_prelude m' @ r'"
  shows "m = m' \<and> r = r'"
proof -
  have e: "prelude12 m @ metadata_bytes m @ r = prelude12 m' @ metadata_bytes m' @ r'"
    using assms(3) by (simp add: container_prelude_def)
  then have "prelude12 m = prelude12 m'" "metadata_bytes m @ r = metadata_bytes m' @ r'"
    using length_prelude12 by (metis append_eq_append_conv)+
  moreover from this(1) have "length (metadata_bytes m) = length (metadata_bytes m')"
    using metadata_length_u32 [OF assms(1)] metadata_length_u32 [OF assms(2)] by (metis be_inverse(2) same_append_eq)
  ultimately have "metadata_bytes m = metadata_bytes m'" "r = r'" by simp_all
  then show ?thesis using assms(1,2) metadata_decode_iff by (metis Inr_inject)
qed

text \<open>
  A container that opens is neither a proper prefix nor an extension of another container that
  opens under the same key: truncated containers and containers with trailing bytes are refused.
\<close>

theorem truncated_or_extended_refused:
  assumes "extra \<noteq> []"
  shows "(\<exists>e. open_generation cr container key = Inl e) \<or> (\<exists>e. open_generation cr (container @ extra) key = Inl e)"
proof (rule ccontr)
  assume "\<not> ?thesis"
  then obtain og og' where o: "open_generation cr container key = Inr og" "open_generation cr (container @ extra) key = Inr og'"
    by (meson sumE)
  have "container_opens cr key container (og_metadata og) (og_plaintext og)"
    "container_opens cr key (container @ extra) (og_metadata og') (og_plaintext og')"
    using o by (simp_all add: open_generation_iff)
  then obtain m body m' body' where b: "container = container_prelude m @ body" "metadata_ok m"
      "accepted cr (dek_bytes key) m (sha256_of cr (metadata_bytes m)) 0 body (og_plaintext og)"
      "container @ extra = container_prelude m' @ body'" "metadata_ok m'"
      "accepted cr (dek_bytes key) m' (sha256_of cr (metadata_bytes m')) 0 body' (og_plaintext og')"
    by (auto simp: container_opens_def)
  then have "m = m'" "body @ extra = body'" using prelude_prefix_free [OF b(2,5), of "body @ extra" body'] by simp_all
  then show False using accepted_prefix_free [OF b(2,3), of extra "og_plaintext og'"] b(6) assms by simp
qed

theorem truncated_or_extended_refused_witness:
  "\<exists>container og e. open_generation sample_crypto container sample_key = Inr og
     \<and> open_generation sample_crypto (container @ ''x'') sample_key = Inl e"
proof -
  obtain m sg where "seal_generation sample_crypto m sample_key ''profile bytes'' = Inr sg"
      "open_generation sample_crypto (sg_container sg) sample_key = Inr \<lparr>og_metadata = m, og_plaintext = ''profile bytes''\<rparr>"
    by (rule sample_container)
  then show ?thesis using truncated_or_extended_refused [of "''x''" sample_crypto "sg_container sg" sample_key] by auto
qed

section \<open>The limits of the in-memory functions\<close>

text \<open>
  C17: The metadata constructor for prehashed streams admits sizes above 64 MiB, and
  \<open>seal_generation\<close> does not check that limit of its own: between 64 MiB and the container limit it
  returns a container that \<open>open_generation\<close> refuses.
\<close>

theorem oversized_seal_cannot_be_opened:
  assumes "crypto_ok cr" "identity_typed i" "dek_typed key" "length nonce_prefix = nonce_prefix_bytes"
    and "metadata_for_prehashed_stream i (dek_key_id key) nonce_prefix chunk_size (of_nat (length pt)) (sha256_of cr pt) = Inr m"
    and "max_plaintext_bytes < length pt" "container_size_bound (length pt) \<le> max_container_bytes"
  shows "\<exists>sg. seal_generation cr m key pt = Inr sg \<and> open_generation cr (sg_container sg) key = Inl GenPlaintextTooLarge"
proof -
  have "length pt \<le> max_container_bytes" using assms(7) by (simp add: container_size_bound_def)
  then have len: "length pt \<le> unat max_stream_plaintext_bytes"
    by (simp add: max_container_bytes_def max_stream_plaintext_bytes_def)
  have p: "validate_chunk_size chunk_size = Inr ()"
      "m = metadata_of_identity i (dek_key_id key) nonce_prefix chunk_size (of_nat (length pt)) (sha256_of cr pt)"
    using assms(5) by (auto simp: metadata_for_prehashed_stream_def res_bind_Inr_iff split: if_splits)
  note ok = metadata_of_identity_ok [OF assms(1-4) p(1) len p(2)]
  obtain sg where sg: "seal_generation cr m key pt = Inr sg" "length (sg_container sg) \<le> container_size_bound (length pt)"
      "container_opens cr key (sg_container sg) m pt"
    using seal_then_open [OF assms(1) ok(1-5) assms(7)] by metis
  then obtain body where "sg_container sg = container_prelude m @ body" by (auto simp: container_opens_def)
  then have "open_generation cr (sg_container sg) key = Inl GenPlaintextTooLarge"
    using inspect_of_prelude [OF ok(1), of body cr] sg(2) assms(6,7) ok(2,4) by (simp add: open_generation_def Let_def)
  then show ?thesis using sg(1) by blast
qed

theorem oversized_seal_cannot_be_opened_witness:
  "\<exists>m sg. metadata_for_prehashed_stream sample_identity (dek_key_id sample_key) (replicate 16 CHR ''n'') 1048576 70000000
        (sha256_of sample_crypto (replicate 70000000 CHR ''p'')) = Inr m
     \<and> seal_generation sample_crypto m sample_key (replicate 70000000 CHR ''p'') = Inr sg
     \<and> open_generation sample_crypto (sg_container sg) sample_key = Inl GenPlaintextTooLarge"
proof -
  let ?pt = "replicate 70000000 CHR ''p''"
  have n: "(of_nat (length ?pt) :: u64) = 70000000" by simp
  obtain m where m: "metadata_for_prehashed_stream sample_identity (dek_key_id sample_key) (replicate 16 CHR ''n'') 1048576
      (of_nat (length ?pt)) (sha256_of sample_crypto ?pt) = Inr m"
    unfolding n by (simp add: metadata_for_prehashed_stream_def validate_chunk_size_def min_chunk_bytes_def max_chunk_bytes_def max_stream_plaintext_bytes_def)
  have "max_plaintext_bytes < length ?pt" "container_size_bound (length ?pt) \<le> max_container_bytes" "length (replicate 16 CHR ''n'') = nonce_prefix_bytes"
    by (simp_all add: max_plaintext_bytes_def container_size_bound_def max_container_bytes_def nonce_prefix_bytes_def)
  from oversized_seal_cannot_be_opened [OF sample_crypto_ok sample_typed this(3) m this(1,2)] m n show ?thesis by metis
qed

end
