(* ===== verification/Cloud_Repository_Safety.thy ===== *)
theory Cloud_Repository_Safety
  imports Cloud_Repository Generation_Properties
begin

text \<open>
  What the repository keeps: objects never change, nonce claims never change, a catalogued
  generation stays openable, and the pointer only ever names verified generations.
\<close>

section \<open>Calls\<close>

datatype repository_call =
    CallPublish generation_metadata generation_dek string unix_millis
  | CallRestore generation_id generation_dek unix_millis
  | CallCommit u64 generation_id
  | CallRollback u64 generation_id

definition answer_done :: "(encrypted_generation_error + 'a) \<times> 's \<Rightarrow> (encrypted_generation_error + unit) \<times> 's" where
  "answer_done x = (case fst x of Inl e \<Rightarrow> Inl e | Inr _ \<Rightarrow> Inr (), snd x)"

lemma snd_answer_done [simp]: "snd (answer_done x) = snd x"
  by (simp add: answer_done_def)

fun repository_step :: "crypto \<Rightarrow> repository_call \<Rightarrow> cloud_generation_repository
    \<Rightarrow> (encrypted_generation_error + unit) \<times> cloud_generation_repository" where
  "repository_step cr (CallPublish m key pt t) r = answer_done (repository_publish cr m key pt t r)"
| "repository_step cr (CallRestore g key t) r = answer_done (repository_restore cr g key t r)"
| "repository_step cr (CallCommit v g) r = answer_done (repository_commit_current v g r)"
| "repository_step cr (CallRollback v g) r = answer_done (repository_rollback v g r)"

fun call_typed :: "repository_call \<Rightarrow> bool" where
  "call_typed (CallPublish m key pt t) = metadata_typed m"
| "call_typed _ = True"

section \<open>What every call does to each table\<close>

definition get_record :: "cloud_generation_repository \<Rightarrow> generation_id \<Rightarrow> cloud_generation_record option" where
  "get_record r g = bt_get g (rp_records r)"

definition get_object :: "cloud_generation_repository \<Rightarrow> string \<Rightarrow> string option" where
  "get_object r k = bt_get k (rp_objects r)"

definition get_claim :: "cloud_generation_repository \<Rightarrow> string \<times> string \<Rightarrow> generation_id option" where
  "get_claim r n = bt_get n (rp_nonce_claims r)"

lemmas table_defs = get_record_def get_object_def get_claim_def

lemma put_immutable_iff:
  "put_immutable k c objects = (Inr created, objects') \<longleftrightarrow>
     (created \<and> bt_get k objects = None \<and> objects' = bt_insert k c objects
      \<or> \<not> created \<and> bt_get k objects = Some c \<and> objects' = objects)"
  by (auto simp: put_immutable_def split: option.splits)

lemma put_immutable_err: "put_immutable k c objects = (Inl e, objects') \<Longrightarrow> objects' = objects"
  by (auto simp: put_immutable_def split: option.splits if_splits)

definition staged_record :: "generation_metadata \<Rightarrow> sealed_generation \<Rightarrow> unix_millis \<Rightarrow> cloud_generation_record" where
  "staged_record m sg t = \<lparr>cr_metadata = m, cr_object_key = metadata_object_key m,
     cr_container_digest = sg_container_digest sg, cr_status = CloudStaged, cr_created_at = t, cr_verified_at = None\<rparr>"

text \<open>A publication, as the effect on the four tables.\<close>

inductive publishes :: "crypto \<Rightarrow> generation_metadata \<Rightarrow> generation_dek \<Rightarrow> string \<Rightarrow> unix_millis \<Rightarrow> cloud_generation_repository
    \<Rightarrow> encrypted_generation_error + publish_result \<Rightarrow> cloud_generation_repository \<Rightarrow> bool" for cr m key pt t r where
  refused: "publishes cr m key pt t r (Inl e) r"
| conflict: "seal_generation cr m key pt = Inr sg \<Longrightarrow>
    get_object r (metadata_object_key m) = None \<or> get_object r (metadata_object_key m) = Some (sg_container sg) \<Longrightarrow>
    get_record r (gm_generation_id m) = Some rec \<Longrightarrow> get_object r' = (get_object r)(metadata_object_key m \<mapsto> sg_container sg) \<Longrightarrow>
    get_record r' = get_record r \<Longrightarrow> get_claim r' = get_claim r \<Longrightarrow> rp_pointer r' = rp_pointer r \<Longrightarrow>
    publishes cr m key pt t r (Inl GenImmutableConflict) r'"
| again: "seal_generation cr m key pt = Inr sg \<Longrightarrow>
    get_object r (metadata_object_key m) = None \<or> get_object r (metadata_object_key m) = Some (sg_container sg) \<Longrightarrow>
    get_record r (gm_generation_id m) = Some rec \<Longrightarrow> cr_metadata rec = m \<Longrightarrow> cr_object_key rec = metadata_object_key m \<Longrightarrow>
    cr_container_digest rec = sg_container_digest sg \<Longrightarrow>
    get_claim r (dek_nonce_domain cr key, gm_nonce_prefix m) \<in> {None, Some (gm_generation_id m)} \<Longrightarrow>
    get_object r' = (get_object r)(metadata_object_key m \<mapsto> sg_container sg) \<Longrightarrow>
    get_claim r' = (get_claim r)((dek_nonce_domain cr key, gm_nonce_prefix m) \<mapsto> gm_generation_id m) \<Longrightarrow>
    get_record r' = get_record r \<Longrightarrow> rp_pointer r' = rp_pointer r \<Longrightarrow>
    publishes cr m key pt t r (Inr PublishIdempotent) r'"
| fresh: "seal_generation cr m key pt = Inr sg \<Longrightarrow>
    get_object r (metadata_object_key m) = None \<or> get_object r (metadata_object_key m) = Some (sg_container sg) \<Longrightarrow>
    get_record r (gm_generation_id m) = None \<Longrightarrow>
    get_claim r (dek_nonce_domain cr key, gm_nonce_prefix m) \<in> {None, Some (gm_generation_id m)} \<Longrightarrow>
    get_object r' = (get_object r)(metadata_object_key m \<mapsto> sg_container sg) \<Longrightarrow>
    get_claim r' = (get_claim r)((dek_nonce_domain cr key, gm_nonce_prefix m) \<mapsto> gm_generation_id m) \<Longrightarrow>
    get_record r' = (get_record r)(gm_generation_id m \<mapsto> (staged_record m sg t)\<lparr>cr_status := s, cr_verified_at := v\<rparr>) \<Longrightarrow>
    rp_pointer r' = rp_pointer r \<Longrightarrow>
    s = (if is_ok res then CloudVerified else CloudQuarantined) \<Longrightarrow>
    is_ok res = is_ok (open_generation_expected cr (sg_container sg) key (gm_tenant_id m) (gm_profile_id m) (gm_generation_id m)) \<Longrightarrow>
    publishes cr m key pt t r res r'"

lemma get_after:
  "get_record (r\<lparr>rp_objects := a\<rparr>) = get_record r" "get_record (r\<lparr>rp_nonce_claims := b\<rparr>) = get_record r"
  "get_object (r\<lparr>rp_records := c\<rparr>) = get_object r" "get_object (r\<lparr>rp_nonce_claims := b\<rparr>) = get_object r"
  "get_claim (r\<lparr>rp_records := c\<rparr>) = get_claim r" "get_claim (r\<lparr>rp_objects := a\<rparr>) = get_claim r"
  "get_record (r\<lparr>rp_records := bt_insert g rec (rp_records r)\<rparr>) = (get_record r)(g \<mapsto> rec)"
  "get_object (r\<lparr>rp_objects := bt_insert k obj (rp_objects r)\<rparr>) = (get_object r)(k \<mapsto> obj)"
  "get_claim (r\<lparr>rp_nonce_claims := bt_insert n g (rp_nonce_claims r)\<rparr>) = (get_claim r)(n \<mapsto> g)"
  "get_record (r\<lparr>rp_pointer := p\<rparr>) = get_record r" "get_object (r\<lparr>rp_pointer := p\<rparr>) = get_object r"
  "get_claim (r\<lparr>rp_pointer := p\<rparr>) = get_claim r"
  by (auto simp: table_defs bt_get_insert fun_eq_iff)


lemma same_update: "f x = Some y \<Longrightarrow> f(x \<mapsto> y) = f"
  by auto

lemma stored_object:
  assumes "put_immutable k c (rp_objects r) = (Inr created, objects)"
  shows "get_object (r\<lparr>rp_objects := objects\<rparr>) = (get_object r)(k \<mapsto> c)" "get_object r k = None \<or> get_object r k = Some c"
  using assms by (auto simp: put_immutable_iff table_defs bt_get_insert fun_eq_iff)

lemma publish_record_publishes:
  assumes "publish_record cr m key sg created t r1 = (res, r')" "seal_generation cr m key pt = Inr sg"
    and "get_object r (metadata_object_key m) = None \<or> get_object r (metadata_object_key m) = Some (sg_container sg)"
    and "get_record r (gm_generation_id m) = None"
    and "get_claim r (dek_nonce_domain cr key, gm_nonce_prefix m) \<in> {None, Some (gm_generation_id m)}"
    and "get_object r1 = (get_object r)(metadata_object_key m \<mapsto> sg_container sg)" "get_record r1 = get_record r"
    and "get_claim r1 = get_claim r" "rp_pointer r1 = rp_pointer r"
  shows "publishes cr m key pt t r res r'"
proof -
  let ?g = "gm_generation_id m"
  let ?r2 = "r1\<lparr>rp_nonce_claims := bt_insert (dek_nonce_domain cr key, gm_nonce_prefix m) ?g (rp_nonce_claims r1),
                 rp_records := bt_insert ?g (staged_record m sg t) (rp_records r1)\<rparr>"
  have obj: "object_get (metadata_object_key m) (rp_objects r1) = Inr (sg_container sg)"
    using assms(6) by (simp add: object_get_def get_object_def fun_eq_iff)
  let ?after = "\<lambda>rec. ?r2\<lparr>rp_records := bt_insert ?g rec (rp_records ?r2)\<rparr>"
  have after: "get_record (?after rec) = (get_record r)(?g \<mapsto> rec)"
    "get_claim (?after rec) = (get_claim r)((dek_nonce_domain cr key, gm_nonce_prefix m) \<mapsto> ?g)"
    "get_object (?after rec) = (get_object r)(metadata_object_key m \<mapsto> sg_container sg)"
    "rp_pointer (?after rec) = rp_pointer r" for rec
    using assms(6-9) by (auto simp: table_defs bt_get_insert fun_eq_iff)
  show ?thesis
  proof (cases "open_generation_expected cr (sg_container sg) key (gm_tenant_id m) (gm_profile_id m) ?g")
    case (Inl e)
    have q: "res = Inl e" "r' = ?r2\<lparr>rp_records := bt_insert ?g ((staged_record m sg t)\<lparr>cr_status := CloudQuarantined, cr_verified_at := None\<rparr>) (rp_records ?r2)\<rparr>"
      using assms(1) obj Inl
      by (auto simp: publish_record_def Let_def repository_quarantine_def bt_get_insert staged_record_def)
    show ?thesis
      by (rule publishes.fresh [OF assms(2-5), where s = CloudQuarantined and v = None])
         (use q(1) Inl in \<open>simp_all only: q(2) after, simp_all\<close>)
  next
    case (Inr og)
    have q: "is_ok res" "r' = ?r2\<lparr>rp_records := bt_insert ?g ((staged_record m sg t)\<lparr>cr_status := CloudVerified, cr_verified_at := Some t\<rparr>) (rp_records ?r2)\<rparr>"
      using assms(1) obj Inr
      by (auto simp: publish_record_def Let_def bt_get_insert staged_record_def)
    show ?thesis
      by (rule publishes.fresh [OF assms(2-5), where s = CloudVerified and v = "Some t"])
         (use q(1) Inr in \<open>simp_all only: q(2) after, simp_all\<close>)
  qed
qed

lemma publish_publishes:
  assumes "repository_publish cr m key pt t r = (res, r')"
  shows "publishes cr m key pt t r res r'"
proof (cases "seal_generation cr m key pt")
  case (Inl e)
  then show ?thesis using assms publishes.refused by (auto simp: repository_publish_def)
next
  case (Inr sg)
  let ?n = "(dek_nonce_domain cr key, gm_nonce_prefix m)"
  show ?thesis
  proof (cases "get_claim r ?n \<in> {None, Some (gm_generation_id m)}")
    case False
    then show ?thesis
      using assms Inr publishes.refused by (auto simp: repository_publish_def get_claim_def Let_def)
  next
    case free: True
    then have claim: "\<not> (case bt_get ?n (rp_nonce_claims r) of None \<Rightarrow> False | Some claimed \<Rightarrow> claimed \<noteq> gm_generation_id m)"
      by (auto simp: get_claim_def)
    obtain put objects where put: "put_immutable (metadata_object_key m) (sg_container sg) (rp_objects r) = (put, objects)" by fastforce
    show ?thesis
    proof (cases put)
      case (Inl e)
      then show ?thesis
        using assms Inr claim put put_immutable_err [of "metadata_object_key m" "sg_container sg" "rp_objects r" e objects]
          publishes.refused [of cr m key pt t r e]
        by (auto simp: repository_publish_def Let_def)
    next
      case put_ok: (Inr created)
      let ?r1 = "r\<lparr>rp_objects := objects\<rparr>"
      note obj = stored_object [OF put [unfolded put_ok]]
      have rest: "(case bt_get (gm_generation_id m) (rp_records ?r1) of
                    Some existing \<Rightarrow>
                      if cr_metadata existing \<noteq> m \<or> cr_object_key existing \<noteq> metadata_object_key m
                         \<or> cr_container_digest existing \<noteq> sg_container_digest sg
                      then (Inl GenImmutableConflict, ?r1)
                      else (Inr PublishIdempotent,
                            (case bt_get ?n (rp_nonce_claims ?r1) of
                               Some _ \<Rightarrow> ?r1
                             | None \<Rightarrow> ?r1\<lparr>rp_nonce_claims := bt_insert ?n (gm_generation_id m) (rp_nonce_claims ?r1)\<rparr>))
                  | None \<Rightarrow> publish_record cr m key sg created t ?r1) = (res, r')"
        using assms Inr claim put put_ok by (simp add: repository_publish_def Let_def)
      show ?thesis
      proof (cases "get_record r (gm_generation_id m)")
        case None
        then have "publish_record cr m key sg created t ?r1 = (res, r')" using rest by (simp add: get_record_def)
        then show ?thesis
          by (rule publish_record_publishes [OF _ Inr obj(2) None free obj(1)]) (simp_all add: get_after)
      next
        case (Some rec)
        then have rec: "bt_get (gm_generation_id m) (rp_records r) = Some rec" by (simp add: get_record_def)
        show ?thesis
        proof (cases "cr_metadata rec = m \<and> cr_object_key rec = metadata_object_key m \<and> cr_container_digest rec = sg_container_digest sg")
          case False
          then have "res = Inl GenImmutableConflict" "r' = ?r1" using rest rec by auto
          then show ?thesis
            using publishes.conflict [OF Inr obj(2) Some, where r' = ?r1] obj(1) by (simp add: get_after)
        next
          case True
          then have res: "res = Inr PublishIdempotent" and r': "r' = (case get_claim r ?n of Some _ \<Rightarrow> ?r1
              | None \<Rightarrow> ?r1\<lparr>rp_nonce_claims := bt_insert ?n (gm_generation_id m) (rp_nonce_claims ?r1)\<rparr>)"
            using rest rec by (auto simp: get_claim_def)
          have "get_claim r' = (get_claim r)(?n \<mapsto> gm_generation_id m)" "get_object r' = get_object ?r1" "get_record r' = get_record r"
              "rp_pointer r' = rp_pointer r"
            using free r' same_update [of "get_claim r" ?n]
            by (auto simp: get_after table_defs bt_get_insert fun_eq_iff split: option.splits)
          then show ?thesis unfolding res using True obj(1) by (intro publishes.again [OF Inr obj(2) Some _ _ _ free]) simp_all
        qed
      qed
    qed
  qed
qed


lemma quarantine_effect:
  "get_record r g = Some rec \<Longrightarrow> repository_quarantine g r
     = (Inr (), r\<lparr>rp_records := bt_insert g (rec\<lparr>cr_status := CloudQuarantined, cr_verified_at := None\<rparr>) (rp_records r)\<rparr>)"
  by (simp add: repository_quarantine_def get_record_def)

text \<open>Restoring touches one record: it is marked verified, or quarantined when its object has another digest.\<close>

lemma restore_effect:
  assumes "repository_restore cr g key t r = (res, r')"
  shows "r' = r \<or> (\<exists>rec v. get_record r g = Some rec \<and> cr_status rec \<noteq> CloudQuarantined
       \<and> r' = r\<lparr>rp_records := bt_insert g (rec\<lparr>cr_status := CloudVerified, cr_verified_at := v\<rparr>) (rp_records r)\<rparr>)
     \<or> (\<exists>rec c. get_record r g = Some rec \<and> get_object r (cr_object_key rec) = Some c \<and> sha256_of cr c \<noteq> cr_container_digest rec
       \<and> r' = r\<lparr>rp_records := bt_insert g (rec\<lparr>cr_status := CloudQuarantined, cr_verified_at := None\<rparr>) (rp_records r)\<rparr>)"
proof (cases "bt_get g (rp_records r)")
  case None
  then show ?thesis using assms by (auto simp: repository_restore_def)
next
  case (Some rec)
  show ?thesis
  proof (cases "bt_get (cr_object_key rec) (rp_objects r)")
    case None
    then show ?thesis using assms Some by (auto simp: repository_restore_def object_get_def split: if_splits)
  next
    case c: (Some c)
    show ?thesis
    proof (cases "cr_status rec = CloudQuarantined \<or> gm_key_id (cr_metadata rec) \<noteq> dek_key_id key")
      case True
      then show ?thesis using assms Some by (auto simp: repository_restore_def split: if_splits)
    next
      case False
      show ?thesis
      proof (cases "sha256_of cr c = cr_container_digest rec")
        case True
        then show ?thesis using assms Some c False
          by (cases "open_generation_expected cr c key (gm_tenant_id (cr_metadata rec)) (gm_profile_id (cr_metadata rec)) g")
             (auto simp: repository_restore_def object_get_def get_record_def split: if_splits)
      next
        case diff: False
        have "get_record r g = Some rec" "get_object r (cr_object_key rec) = Some c" using Some c by (simp_all add: table_defs)
        moreover from this(1) have "r' = r\<lparr>rp_records := bt_insert g (rec\<lparr>cr_status := CloudQuarantined, cr_verified_at := None\<rparr>) (rp_records r)\<rparr>"
          using assms Some c False diff by (simp add: repository_restore_def object_get_def quarantine_effect)
        ultimately show ?thesis using diff by blast
      qed
    qed
  qed
qed

definition verified :: "cloud_generation_repository \<Rightarrow> generation_id \<Rightarrow> bool" where
  "verified r g \<longleftrightarrow> (\<exists>rec. get_record r g = Some rec \<and> cr_status rec = CloudVerified)"

lemma commit_effect:
  assumes "repository_commit_current v g r = (res, r')"
  shows "r' = r \<or> verified r g \<and> ps_version (rp_pointer r) = v \<and> (\<exists>w. checked_add v 1 = Some w
       \<and> r' = r\<lparr>rp_pointer := \<lparr>ps_version = w, ps_current_generation_id = Some g,
                  ps_rollback_generation_id = ps_current_generation_id (rp_pointer r)\<rparr>\<rparr>)"
  using assms
  by (auto simp: repository_commit_current_def require_pointer_version_def or_return_def Let_def verified_def get_record_def
      split: if_splits sum.splits cloud_generation_status.splits)

lemma rollback_effect:
  assumes "repository_rollback v g r = (res, r')"
  shows "r' = r \<or> verified r g \<and> ps_version (rp_pointer r) = v \<and> (\<exists>w. checked_add v 1 = Some w
       \<and> r' = r\<lparr>rp_pointer := \<lparr>ps_version = w, ps_current_generation_id = Some g,
                  ps_rollback_generation_id = ps_current_generation_id (rp_pointer r)\<rparr>\<rparr>)"
  using assms
  by (auto simp: repository_rollback_def require_pointer_version_def or_return_def Let_def verified_def get_record_def
      split: if_splits sum.splits)

text \<open>One call, seen on the tables: a publication, a changed status, a moved pointer, or nothing.\<close>

lemma step_cases:
  assumes "snd (repository_step cr call r) = r'"
  obtains (same) "r' = r"
  | (publish) m key pt t res where "call = CallPublish m key pt t" "publishes cr m key pt t r res r'"
  | (restored) g rec v where "get_record r g = Some rec" "cr_status rec \<noteq> CloudQuarantined"
      "r' = r\<lparr>rp_records := bt_insert g (rec\<lparr>cr_status := CloudVerified, cr_verified_at := v\<rparr>) (rp_records r)\<rparr>"
  | (quarantined) g rec c where "get_record r g = Some rec" "get_object r (cr_object_key rec) = Some c"
      "sha256_of cr c \<noteq> cr_container_digest rec"
      "r' = r\<lparr>rp_records := bt_insert g (rec\<lparr>cr_status := CloudQuarantined, cr_verified_at := None\<rparr>) (rp_records r)\<rparr>"
  | (moved) g w where "verified r g" "checked_add (ps_version (rp_pointer r)) 1 = Some w"
      "r' = r\<lparr>rp_pointer := \<lparr>ps_version = w, ps_current_generation_id = Some g,
                ps_rollback_generation_id = ps_current_generation_id (rp_pointer r)\<rparr>\<rparr>"
proof (cases call)
  case (CallPublish m key pt t)
  then show ?thesis using assms that(2) publish_publishes [of cr m key pt t r] by (metis prod.collapse repository_step.simps(1) snd_answer_done)
next
  case (CallRestore g key t)
  then have "repository_restore cr g key t r = (fst (repository_restore cr g key t r), r')" using assms by (simp add: prod_eq_iff)
  then show ?thesis using restore_effect that(1,3,4) by blast
next
  case (CallCommit v g)
  then have "repository_commit_current v g r = (fst (repository_commit_current v g r), r')" using assms by (simp add: prod_eq_iff)
  then show ?thesis using commit_effect that(1,5) by blast
next
  case (CallRollback v g)
  then have "repository_rollback v g r = (fst (repository_rollback v g r), r')" using assms by (simp add: prod_eq_iff)
  then show ?thesis using rollback_effect that(1,5) by blast
qed

section \<open>What never changes\<close>

lemma step_claim: "get_claim r n = Some g \<Longrightarrow> get_claim (snd (repository_step cr call r)) n = Some g"
proof (rule step_cases [OF refl, of cr call r])
  assume c: "get_claim r n = Some g"
  fix m key pt t res assume "publishes cr m key pt t r res (snd (repository_step cr call r))"
  then show ?thesis using c by cases auto
qed (simp_all add: get_after)

lemma step_object: "get_object r k = Some c \<Longrightarrow> get_object (snd (repository_step cr call r)) k = Some c"
proof (rule step_cases [OF refl, of cr call r])
  assume c: "get_object r k = Some c"
  fix m key pt t res assume "publishes cr m key pt t r res (snd (repository_step cr call r))"
  then show ?thesis using c by cases auto
qed (simp_all add: get_after)

definition held :: "crypto \<Rightarrow> generation_id \<Rightarrow> generation_metadata \<Rightarrow> string \<Rightarrow> unix_millis \<Rightarrow> cloud_generation_repository \<Rightarrow> bool" where
  "held cr g m c t r \<longleftrightarrow> get_object r (metadata_object_key m) = Some c \<and>
     (\<exists>rec. get_record r g = Some rec \<and> cr_metadata rec = m \<and> cr_object_key rec = metadata_object_key m
        \<and> cr_container_digest rec = sha256_of cr c \<and> cr_status rec \<noteq> CloudQuarantined \<and> cr_created_at rec = t)"

lemma step_held:
  assumes "held cr g m c t r" shows "held cr g m c t (snd (repository_step cr call r))"
proof (rule step_cases [OF refl, of cr call r])
  fix m' key pt t' res assume "publishes cr m' key pt t' r res (snd (repository_step cr call r))"
  then show ?thesis using assms by cases (auto simp: held_def)
next
  fix g' rec v assume r: "get_record r g' = Some rec" "cr_status rec \<noteq> CloudQuarantined"
    "snd (repository_step cr call r) = r\<lparr>rp_records := bt_insert g' (rec\<lparr>cr_status := CloudVerified, cr_verified_at := v\<rparr>) (rp_records r)\<rparr>"
  then show ?thesis using assms by (auto simp: held_def get_after)
next
  fix g' rec c' assume r: "get_record r g' = Some rec" "get_object r (cr_object_key rec) = Some c'"
    "sha256_of cr c' \<noteq> cr_container_digest rec"
    "snd (repository_step cr call r) = r\<lparr>rp_records := bt_insert g' (rec\<lparr>cr_status := CloudQuarantined, cr_verified_at := None\<rparr>) (rp_records r)\<rparr>"
  then show ?thesis using assms by (auto simp: held_def get_after)
qed (use assms in \<open>simp_all add: held_def get_after\<close>)

interpretation claims: invariant_machine "repository_step cr" "\<lambda>r. get_claim r n = Some g"
  by unfold_locales (rule step_claim)

interpretation holding: invariant_machine "repository_step cr" "held cr g m c t"
  by unfold_locales (rule step_held)


section \<open>The invariant\<close>

text \<open>Sealing, as far as the repository relies on it.\<close>

lemma seal_opens:
  assumes "crypto_ok cr" "metadata_typed m" "seal_generation cr m key pt = Inr sg"
  shows "container_opens cr key (sg_container sg) m pt" "sg_container_digest sg = sha256_of cr (sg_container sg)"
    "length (sg_container sg) \<le> max_container_bytes"
proof -
  note p = seal_generation_parts [OF assms(3,2)]
  obtain c where "container_opens cr key c m pt" "seal_generation cr m key pt = (if length c \<le> max_container_bytes
       then Inr \<lparr>sg_metadata = m, sg_metadata_digest = sha256_of cr (metadata_bytes m), sg_container = c,
                 sg_container_digest = sha256_of cr c\<rparr>
       else Inl GenPlaintextTooLarge)"
    using seals_both [OF assms(1) p(1-5)] by metis
  then show "container_opens cr key (sg_container sg) m pt" "sg_container_digest sg = sha256_of cr (sg_container sg)"
    "length (sg_container sg) \<le> max_container_bytes"
    using assms(3) p by (auto split: if_splits)
qed

lemma open_expected_of_container:
  assumes "container_opens cr key c m pt" "length c \<le> max_container_bytes"
  shows "length pt \<le> max_plaintext_bytes \<Longrightarrow> open_generation_expected cr c key (gm_tenant_id m) (gm_profile_id m) (gm_generation_id m)
      = Inr \<lparr>og_metadata = m, og_plaintext = pt\<rparr>"
    "is_ok (open_generation_expected cr c key (gm_tenant_id m) (gm_profile_id m) (gm_generation_id m)) \<longleftrightarrow> length pt \<le> max_plaintext_bytes"
proof -
  show o: "open_generation_expected cr c key (gm_tenant_id m) (gm_profile_id m) (gm_generation_id m) = Inr \<lparr>og_metadata = m, og_plaintext = pt\<rparr>"
    if "length pt \<le> max_plaintext_bytes"
  proof -
    have "open_generation cr c key = Inr \<lparr>og_metadata = m, og_plaintext = pt\<rparr>" using that assms by (simp add: open_generation_iff)
    then show ?thesis by (simp add: open_generation_expected_def)
  qed
  have "length pt \<le> max_plaintext_bytes" if "open_generation_expected cr c key (gm_tenant_id m) (gm_profile_id m) (gm_generation_id m) = Inr og" for og
  proof -
    have "container_opens cr key c (og_metadata og) (og_plaintext og)" "length (og_plaintext og) \<le> max_plaintext_bytes"
      using that by (auto simp: open_generation_expected_def res_bind_Inr_iff open_generation_iff Let_def split: if_splits)
    moreover then have "m = og_metadata og"
      using assms(1) prelude_prefix_free by (auto simp: container_opens_def)
    ultimately show ?thesis using assms(1) by (simp add: container_opens_def)
  qed
  then show "is_ok (open_generation_expected cr c key (gm_tenant_id m) (gm_profile_id m) (gm_generation_id m)) \<longleftrightarrow> length pt \<le> max_plaintext_bytes"
    using o by (auto simp: is_ok_iff)
qed

definition record_ok :: "crypto \<Rightarrow> cloud_generation_repository \<Rightarrow> generation_id \<Rightarrow> cloud_generation_record \<Rightarrow> bool" where
  "record_ok cr r g rec \<longleftrightarrow> gm_generation_id (cr_metadata rec) = g \<and> cr_object_key rec = metadata_object_key (cr_metadata rec)
     \<and> cr_status rec \<noteq> CloudStaged
     \<and> (\<exists>c key pt. get_object r (cr_object_key rec) = Some c \<and> cr_container_digest rec = sha256_of cr c
          \<and> length c \<le> max_container_bytes \<and> container_opens cr key c (cr_metadata rec) pt
          \<and> get_claim r (dek_nonce_domain cr key, gm_nonce_prefix (cr_metadata rec)) = Some g
          \<and> (cr_status rec = CloudQuarantined \<longleftrightarrow> max_plaintext_bytes < length pt))"

definition repository_ok :: "crypto \<Rightarrow> cloud_generation_repository \<Rightarrow> bool" where
  "repository_ok cr r \<longleftrightarrow> (\<forall>g rec. get_record r g = Some rec \<longrightarrow> record_ok cr r g rec)
     \<and> (\<forall>g. ps_current_generation_id (rp_pointer r) = Some g \<longrightarrow> verified r g)
     \<and> (\<forall>g. ps_rollback_generation_id (rp_pointer r) = Some g \<longrightarrow> verified r g)"

lemma record_ok_mono:
  assumes "record_ok cr r g rec" "\<And>k c. get_object r k = Some c \<Longrightarrow> get_object r' k = Some c"
    "\<And>n g. get_claim r n = Some g \<Longrightarrow> get_claim r' n = Some g"
  shows "record_ok cr r' g rec"
  using assms unfolding record_ok_def by blast

lemma record_ok_verified:
  assumes "record_ok cr r g rec" "cr_status rec \<noteq> CloudQuarantined"
  shows "record_ok cr r g (rec\<lparr>cr_status := CloudVerified, cr_verified_at := v\<rparr>)"
proof -
  obtain c key pt where "get_object r (cr_object_key rec) = Some c" "cr_container_digest rec = sha256_of cr c"
      "length c \<le> max_container_bytes" "container_opens cr key c (cr_metadata rec) pt"
      "get_claim r (dek_nonce_domain cr key, gm_nonce_prefix (cr_metadata rec)) = Some g" "\<not> max_plaintext_bytes < length pt"
    using assms unfolding record_ok_def by blast
  then show ?thesis using assms(1) unfolding record_ok_def by (simp, blast)
qed

lemma repository_default_ok: "repository_ok cr repository_default"
  by (simp add: repository_ok_def repository_default_def get_record_def bt_get_def)

lemma repository_ok_intro:
  assumes "repository_ok cr r" and rec: "\<And>g rec. get_record r' g = Some rec \<Longrightarrow> get_record r g = Some rec \<or> record_ok cr r' g rec"
    and "\<And>g. verified r g \<Longrightarrow> verified r' g" "rp_pointer r' = rp_pointer r"
    and "\<And>k c. get_object r k = Some c \<Longrightarrow> get_object r' k = Some c" "\<And>n g. get_claim r n = Some g \<Longrightarrow> get_claim r' n = Some g"
  shows "repository_ok cr r'"
  unfolding repository_ok_def assms(4)
  using assms(1,3) rec record_ok_mono [of cr r _ _ r'] assms(5,6) unfolding repository_ok_def by metis

lemma publishes_ok:
  assumes "crypto_ok cr" "metadata_typed m" "repository_ok cr r" "publishes cr m key pt t r res r'"
  shows "repository_ok cr r'"
  using assms(4)
proof cases
  case (fresh sg v s)
  let ?rec = "(staged_record m sg t)\<lparr>cr_status := s, cr_verified_at := v\<rparr>"
  note o = seal_opens [OF assms(1,2) fresh(1)]
  have "s = CloudQuarantined \<longleftrightarrow> max_plaintext_bytes < length pt"
    using fresh(9,10) open_expected_of_container(2) [OF o(1,3)] by auto
  then have "record_ok cr r' (gm_generation_id m) ?rec"
    using o fresh(5-9) by (auto simp: record_ok_def staged_record_def)
  then show ?thesis
    using fresh by (intro repository_ok_intro [OF assms(3)]) (auto simp: verified_def split: if_splits)
next
  case (conflict sg rec)
  then show ?thesis by (intro repository_ok_intro [OF assms(3)]) (auto simp: verified_def)
next
  case (again sg rec)
  then show ?thesis by (intro repository_ok_intro [OF assms(3)]) (auto simp: verified_def)
qed (use assms(3) in simp)

lemma step_repository_ok:
  assumes "crypto_ok cr" "call_typed call" "repository_ok cr r"
  shows "repository_ok cr (snd (repository_step cr call r))"
proof (rule step_cases [OF refl, of cr call r])
  fix m key pt t res assume "call = CallPublish m key pt t" "publishes cr m key pt t r res (snd (repository_step cr call r))"
  then show ?thesis using publishes_ok assms by auto
next
  fix g rec v assume a: "get_record r g = Some rec" "cr_status rec \<noteq> CloudQuarantined"
    "snd (repository_step cr call r) = r\<lparr>rp_records := bt_insert g (rec\<lparr>cr_status := CloudVerified, cr_verified_at := v\<rparr>) (rp_records r)\<rparr>"
  have "record_ok cr r g rec" using a(1) assms(3) by (simp add: repository_ok_def)
  from record_ok_verified [OF this a(2), of v]
  have "record_ok cr (snd (repository_step cr call r)) g (rec\<lparr>cr_status := CloudVerified, cr_verified_at := v\<rparr>)"
    by (rule record_ok_mono) (simp_all add: a(3) get_after)
  then show ?thesis
    using a by (intro repository_ok_intro [OF assms(3)]) (auto simp: verified_def get_after split: if_splits)
next
  fix g rec c assume a: "get_record r g = Some rec" "get_object r (cr_object_key rec) = Some c" "sha256_of cr c \<noteq> cr_container_digest rec"
  have "record_ok cr r g rec" using a(1) assms(3) by (simp add: repository_ok_def)
  then have False using a(2,3) by (simp add: record_ok_def)
  then show ?thesis ..
next
  fix g w assume "verified r g" "snd (repository_step cr call r) = r\<lparr>rp_pointer := \<lparr>ps_version = w, ps_current_generation_id = Some g,
                ps_rollback_generation_id = ps_current_generation_id (rp_pointer r)\<rparr>\<rparr>"
  note a = this
  have "record_ok cr (snd (repository_step cr call r)) g rec" if "get_record r g = Some rec" for g rec
  proof (rule record_ok_mono)
    show "record_ok cr r g rec" using that assms(3) unfolding repository_ok_def by blast
  qed (simp_all add: a(2) get_after)
  moreover have "get_record (snd (repository_step cr call r)) = get_record r"
      "verified (snd (repository_step cr call r)) = verified r" by (simp_all add: a(2) get_after verified_def fun_eq_iff)
  moreover have "ps_current_generation_id (rp_pointer (snd (repository_step cr call r))) = Some g"
      "ps_rollback_generation_id (rp_pointer (snd (repository_step cr call r))) = ps_current_generation_id (rp_pointer r)"
    by (simp_all add: a(2))
  ultimately show ?thesis using a(1) assms(3) unfolding repository_ok_def by simp
qed (use assms(3) in simp)

lemma run_repository_ok:
  "crypto_ok cr \<Longrightarrow> list_all call_typed cs \<Longrightarrow> repository_ok cr r \<Longrightarrow> repository_ok cr (run_commands (repository_step cr) cs r)"
  by (induction cs arbitrary: r) (simp_all add: step_repository_ok)


section \<open>Publications and what they leave behind\<close>

lemma published_held:
  assumes "crypto_ok cr" "metadata_typed m" "repository_ok cr r" "length pt \<le> max_plaintext_bytes"
    and "repository_publish cr m key pt t r = (Inr res, r')"
  shows "\<exists>c t0. held cr (gm_generation_id m) m c t0 r' \<and> container_opens cr key c m pt \<and> length c \<le> max_container_bytes"
  using publish_publishes [OF assms(5)]
proof cases
  case (again sg rec)
  note o = seal_opens [OF assms(1,2) again(2)]
  have "record_ok cr r (gm_generation_id m) rec" using assms(3) again(4) by (simp add: repository_ok_def)
  then obtain pt' key' c where "container_opens cr key' c m pt'" "cr_status rec = CloudQuarantined \<longleftrightarrow> max_plaintext_bytes < length pt'"
    using again(5) by (auto simp: record_ok_def)
  then have "cr_status rec \<noteq> CloudQuarantined" using o(1) assms(4) by (simp add: container_opens_def)
  then have "held cr (gm_generation_id m) m (sg_container sg) (cr_created_at rec) r'"
    using again o(2) by (simp add: held_def)
  then show ?thesis using o by blast
next
  case (fresh sg v s)
  note o = seal_opens [OF assms(1,2) fresh(1)]
  have "held cr (gm_generation_id m) m (sg_container sg) t r'"
    using fresh o(2) by (simp add: held_def staged_record_def)
  then show ?thesis using o by blast
qed

lemma held_restores:
  assumes "held cr (gm_generation_id m) m c t0 r" "container_opens cr key c m pt" "length c \<le> max_container_bytes"
    and "length pt \<le> max_plaintext_bytes" "t0 \<le> t"
  shows "fst (repository_restore cr (gm_generation_id m) key t r) = Inr \<lparr>rr_metadata = m, rr_plaintext = pt\<rparr>"
proof -
  obtain rec where rec: "bt_get (gm_generation_id m) (rp_records r) = Some rec" "cr_metadata rec = m" "cr_object_key rec = metadata_object_key m"
      "cr_container_digest rec = sha256_of cr c" "cr_status rec \<noteq> CloudQuarantined" "cr_created_at rec = t0"
      "bt_get (metadata_object_key m) (rp_objects r) = Some c"
    using assms(1) by (auto simp: held_def table_defs)
  then show ?thesis
    using assms(2,5) open_expected_of_container(1) [OF assms(2,3,4)]
    by (simp add: repository_restore_def object_get_def container_opens_def not_less)
qed

text \<open>
  Where a record comes from: a record that is not quarantined was created by one confirmed
  publication of its metadata, at its creation time; later calls only rewrite its status.
\<close>

definition published_by ::
    "crypto \<Rightarrow> repository_call list \<Rightarrow> cloud_generation_record \<Rightarrow> generation_dek \<Rightarrow> string \<Rightarrow> bool" where
  "published_by cr calls rec key pt \<longleftrightarrow> (\<exists>before after res r1.
     calls = before @ CallPublish (cr_metadata rec) key pt (cr_created_at rec) # after
     \<and> repository_publish cr (cr_metadata rec) key pt (cr_created_at rec)
         (run_commands (repository_step cr) before repository_default) = (Inr res, r1))"

lemma published_by_later: "published_by cr calls rec key pt \<Longrightarrow> published_by cr (calls @ [call]) rec key pt"
  unfolding published_by_def by fastforce

lemma published_by_status:
  "published_by cr calls (rec\<lparr>cr_status := s, cr_verified_at := v\<rparr>) = published_by cr calls rec"
  by (simp add: published_by_def fun_eq_iff)

lemma record_published:
  assumes "crypto_ok cr" "list_all call_typed calls"
    and "get_record (run_commands (repository_step cr) calls repository_default) g = Some rec" "cr_status rec \<noteq> CloudQuarantined"
  shows "gm_generation_id (cr_metadata rec) = g \<and> (\<exists>key pt. published_by cr calls rec key pt \<and> length pt \<le> max_plaintext_bytes)"
  using assms(2-)
proof (induction calls arbitrary: rec rule: rev_induct)
  case Nil
  then show ?case by (simp add: repository_default_def get_record_def bt_get_def)
next
  case (snoc call calls)
  let ?r = "run_commands (repository_step cr) calls repository_default"
  have typed: "list_all call_typed calls" "call_typed call" using snoc.prems(1) by simp_all
  have rec: "get_record (snd (repository_step cr call ?r)) g = Some rec" using snoc.prems(2) by (simp add: run_commands_append)
  have old: ?case if "get_record ?r g = Some prior" "rec = prior\<lparr>cr_status := s, cr_verified_at := v\<rparr>"
      "cr_status prior \<noteq> CloudQuarantined" for prior s v
  proof -
    from snoc.IH [OF typed(1) that(1,3)] obtain key pt where "gm_generation_id (cr_metadata prior) = g"
        "published_by cr calls prior key pt" "length pt \<le> max_plaintext_bytes"
      by blast
    moreover from this(2) have "published_by cr (calls @ [call]) prior key pt" by (rule published_by_later)
    ultimately show ?thesis using that(2) by (auto simp: published_by_status)
  qed
  have same: ?case if "get_record ?r g = Some rec"
    using old [where prior = rec and s = "cr_status rec" and v = "cr_verified_at rec"] that snoc.prems(3) by simp
  show ?case
  proof (rule step_cases [OF refl, of cr call ?r])
    fix m key pt t assume call: "call = CallPublish m key pt t"
    obtain res r1 where res: "repository_publish cr m key pt t ?r = (res, r1)" by fastforce
    have r1: "get_record r1 g = Some rec" using rec call res by simp
    show ?case
      using publish_publishes [OF res]
    proof cases
      case (fresh sg v s)
      show ?thesis
      proof (cases "g = gm_generation_id m")
        case True
        then have new: "rec = (staged_record m sg t)\<lparr>cr_status := s, cr_verified_at := v\<rparr>" using fresh(7) r1 by simp
        then have ok: "is_ok res" using fresh(9) snoc.prems(3) by (auto split: if_splits)
        then have "length pt \<le> max_plaintext_bytes"
          using fresh(10) seal_opens [OF assms(1) _ fresh(1)] open_expected_of_container(2) typed(2) call by auto
        moreover have "published_by cr (calls @ [call]) rec key pt"
          using ok res call by (auto simp: published_by_def new staged_record_def is_ok_iff)
        ultimately show ?thesis using new True by (auto simp: staged_record_def)
      qed (use fresh r1 same in simp)
    qed (use r1 same in simp_all)
  next
    fix g' prior v assume "get_record ?r g' = Some prior" "cr_status prior \<noteq> CloudQuarantined"
      "snd (repository_step cr call ?r) = ?r\<lparr>rp_records := bt_insert g' (prior\<lparr>cr_status := CloudVerified, cr_verified_at := v\<rparr>) (rp_records ?r)\<rparr>"
    then show ?case using rec old [where prior = prior and s = CloudVerified and v = v] same by (auto simp: get_after split: if_splits)
  next
    fix g' prior assume "snd (repository_step cr call ?r) = ?r\<lparr>rp_records := bt_insert g' (prior\<lparr>cr_status := CloudQuarantined, cr_verified_at := None\<rparr>) (rp_records ?r)\<rparr>"
    then show ?case using rec same snoc.prems(3) by (auto simp: get_after split: if_splits)
  qed (use rec same in \<open>simp_all add: get_after\<close>)
qed

lemma publish_claims:
  assumes "repository_publish cr m key pt t r = (Inr res, r')"
  shows "get_claim r' (dek_nonce_domain cr key, gm_nonce_prefix m) = Some (gm_generation_id m)"
  using publish_publishes [OF assms] by cases simp_all

lemma publish_claimed:
  assumes "get_claim r (dek_nonce_domain cr key, gm_nonce_prefix m) = Some g" "g \<noteq> gm_generation_id m"
  shows "\<exists>e. repository_publish cr m key pt t r = (Inl e, r) \<and> (is_ok (seal_generation cr m key pt) \<longrightarrow> e = GenNonceReuse)"
  using assms by (cases "seal_generation cr m key pt") (auto simp: repository_publish_def get_claim_def Let_def)

section \<open>The pointer\<close>

lemma step_pointer:
  "rp_pointer (snd (repository_step cr call r)) = rp_pointer r
   \<or> ps_version (rp_pointer r) < ps_version (rp_pointer (snd (repository_step cr call r)))"
proof (rule step_cases [OF refl, of cr call r])
  fix m key pt t res assume "publishes cr m key pt t r res (snd (repository_step cr call r))"
  then show ?thesis by cases simp_all
next
  fix g w assume "checked_add (ps_version (rp_pointer r)) 1 = Some w"
    "snd (repository_step cr call r) = r\<lparr>rp_pointer := \<lparr>ps_version = w, ps_current_generation_id = Some g,
                ps_rollback_generation_id = ps_current_generation_id (rp_pointer r)\<rparr>\<rparr>"
  then show ?thesis using checked_add_less [of "ps_version (rp_pointer r)" 1 w] by simp
qed simp_all

lemma step_pointer_version: "v < ps_version (rp_pointer r) \<Longrightarrow> v < ps_version (rp_pointer (snd (repository_step cr call r)))"
  using step_pointer [of cr call r] by auto

interpretation passed: invariant_machine "repository_step cr" "\<lambda>r. v < ps_version (rp_pointer r)"
  by unfold_locales (rule step_pointer_version)

lemma stale_pointer_refused:
  "v < ps_version (rp_pointer r) \<Longrightarrow> repository_commit_current v g r = (Inl GenStalePointer, r)
     \<and> repository_rollback v g r = (Inl GenStalePointer, r)"
  by (auto simp: repository_commit_current_def repository_rollback_def require_pointer_version_def)

section \<open>Key identities\<close>

lemma root_key_id_chars: "list_all id_char (root_key_id_prefix @ show_nat n)"
proof -
  have "list_all id_char root_key_id_prefix" by (simp add: root_key_id_prefix_def id_char_def ascii_defs byte_of_def)
  moreover have "list_all id_char (show_nat n)"
    using show_nat_digits [of n] by (auto simp: list_all_iff id_char_def is_ascii_alphanumeric_def)
  ultimately show ?thesis by simp
qed

lemma parse_u32_canonical:
  "canonical_digits s \<Longrightarrow> parse_u32 s = Some v \<longleftrightarrow> s = show_nat (unat v)"
proof
  assume c: "canonical_digits s" and "parse_u32 s = Some v"
  then have "digits_value s = unat v" by (auto simp: parse_u32_def unat_of_nat_small split: if_splits)
  then show "s = show_nat (unat v)" using show_nat_of_value [OF c] by simp
next
  assume "s = show_nat (unat v)"
  then show "parse_u32 s = Some v"
    using show_nat_digits [of "unat v"] show_nat_nonempty [of "unat v"] show_nat_value [of "unat v"] unat_bound [of v]
    by (simp add: parse_u32_def)
qed

lemma length_show_nat: "n < 10 ^ Suc k \<Longrightarrow> length (show_nat n) \<le> Suc k"
proof (induction k arbitrary: n)
  case 0
  then show ?case by (subst show_nat.simps) simp
next
  case (Suc k)
  then have "length (show_nat (n div 10)) \<le> Suc k" by (intro Suc.IH) (simp add: div_less_iff_less_mult)
  then show ?case by (subst show_nat.simps) simp
qed

lemma root_key_id_iff:
  "root_key_version_key_id v = Inr k \<longleftrightarrow> key_id_str k = root_key_id_prefix @ show_nat (unat (root_version_value v))"
proof -
  have n: "unat (root_version_value v) < 10 ^ Suc 9" using unat_bound [of "root_version_value v"] by simp
  have "key_id_valid (KeyId (root_key_id_prefix @ show_nat (unat (root_version_value v))))"
    using length_show_nat [OF n] root_key_id_chars
    by (simp add: key_id_valid_def root_key_id_prefix_def min_key_id_bytes_def max_key_id_bytes_def)
  then show ?thesis by (cases k) (auto simp: root_key_version_key_id_def key_id_parse_iff)
qed

lemma from_key_id_parts:
  "root_key_version_from_key_id k = Inr v \<longleftrightarrow> (\<exists>d. key_id_str k = root_key_id_prefix @ d \<and> canonical_digits d
      \<and> root_version_value v \<noteq> 0 \<and> parse_u32 d = Some (root_version_value v))"
proof (cases "take (length root_key_id_prefix) (key_id_str k) = root_key_id_prefix")
  case True
  then obtain d where d: "key_id_str k = root_key_id_prefix @ d" by (metis append_take_drop_id)
  then have "root_key_version_from_key_id k = Inr v \<longleftrightarrow> canonical_digits d
      \<and> root_version_value v \<noteq> 0 \<and> parse_u32 d = Some (root_version_value v)"
    by (cases v) (auto simp: root_key_version_from_key_id_def Let_def canonical_digits_def res_bind_Inr_iff
        root_key_version_new_def split: if_splits)
  then show ?thesis using d by simp
next
  case False
  then show ?thesis by (auto simp: root_key_version_from_key_id_def Let_def)
qed

lemma from_key_id_iff:
  "root_key_version_from_key_id k = Inr v \<longleftrightarrow> root_version_value v \<noteq> 0 \<and> root_key_version_key_id v = Inr k"
  unfolding from_key_id_parts root_key_id_iff using parse_u32_canonical show_nat_canonical by metis

section \<open>Derived keys\<close>

lemma len64_bits: "LENGTH(64) = 64"
  by simp

lemma kdf_frames_inject:
  "kdf_frames vs = Inr s \<Longrightarrow> kdf_frames ws = Inr s \<Longrightarrow> length vs = length ws \<Longrightarrow> vs = ws"
proof (induction vs arbitrary: ws s)
  case (Cons v vs)
  then obtain w ws' where ws: "ws = w # ws'" by (cases ws) auto
  have lens: "length v < 2 ^ 64" "length w < 2 ^ 64" using Cons.prems(1,2) ws by (auto simp: res_bind_Inr_iff kdf_frame_def split: if_splits)
  obtain b b' where b: "kdf_frames vs = Inr b" "kdf_frames ws' = Inr b'"
      "be_bytes 8 (of_nat (length v) :: u64) @ v @ b = be_bytes 8 (of_nat (length w) :: u64) @ w @ b'"
    using Cons.prems(1,2) ws by (auto simp: res_bind_Inr_iff kdf_frame_def split: if_splits)
  then have "be_bytes 8 (of_nat (length v) :: u64) = be_bytes 8 (of_nat (length w) :: u64)" "v @ b = w @ b'" by simp_all
  moreover from this(1) have "length v = length w"
    using lens unat_of_nat_small [where ?'a = 64, of "length v"] unat_of_nat_small [where ?'a = 64, of "length w"]
    by (metis be_inverse(3) len64_bits)
  ultimately show ?case using Cons.IH [OF b(1)] b(2) Cons.prems(3) ws by simp
qed simp

end
