(* ===== verification/Cloud_Repository_Properties.thy ===== *)
theory Cloud_Repository_Properties
  imports Cloud_Repository_Safety
begin

text \<open>The properties of the cloud repository and of the key derivation.\<close>

section \<open>Sample publications\<close>

lemma publish_first:
  assumes "crypto_ok cr" "metadata_typed m" "seal_generation cr m key pt = Inr sg" "length pt \<le> max_plaintext_bytes"
  shows "fst (repository_publish cr m key pt t repository_default) = Inr PublishCreated"
proof -
  note o = seal_opens [OF assms(1-3)]
  note e = open_expected_of_container(1) [OF o(1,3) assms(4)]
  show ?thesis
    using assms(3) e
    by (simp add: repository_publish_def repository_default_def put_immutable_def publish_record_def object_get_def bt_get_def Let_def)
qed

definition sample_metadata :: "string \<Rightarrow> generation_metadata" where
  "sample_metadata pt = metadata_of_identity sample_identity (dek_key_id sample_key) (replicate 16 CHR ''n'') 1024
     (of_nat (length pt)) (sha256_of sample_crypto pt)"

lemma sample_metadata_ok:
  assumes "length pt \<le> unat max_stream_plaintext_bytes"
  shows "metadata_ok (sample_metadata pt)" "gm_key_id (sample_metadata pt) = dek_key_id sample_key" "length (dek_bytes sample_key) = 32"
    "length pt = unat (gm_plaintext_bytes (sample_metadata pt))" "sha256_of sample_crypto pt = gm_plaintext_digest (sample_metadata pt)"
  by (rule metadata_of_identity_ok [OF sample_crypto_ok sample_typed, of "replicate 16 CHR ''n''" 1024 pt, OF _ _ assms];
      simp add: nonce_prefix_bytes_def min_chunk_bytes_def max_chunk_bytes_def sample_metadata_def)+

lemma sample_seals:
  assumes "container_size_bound (length pt) \<le> max_container_bytes"
  obtains sg where "seal_generation sample_crypto (sample_metadata pt) sample_key pt = Inr sg" "metadata_typed (sample_metadata pt)"
proof -
  have "length pt \<le> unat max_stream_plaintext_bytes"
    using assms by (simp add: container_size_bound_def max_container_bytes_def max_stream_plaintext_bytes_def)
  note ok = sample_metadata_ok [OF this]
  obtain sg where "seal_generation sample_crypto (sample_metadata pt) sample_key pt = Inr sg"
    using seal_then_open [OF sample_crypto_ok ok assms] by metis
  then show ?thesis using that ok(1) by (simp add: metadata_ok_def)
qed

lemma sample_published:
  obtains r where "repository_publish sample_crypto (sample_metadata ''bytes'') sample_key ''bytes'' 7 repository_default
    = (Inr PublishCreated, r)" "metadata_typed (sample_metadata ''bytes'')"
proof -
  have "container_size_bound (length ''bytes'') \<le> max_container_bytes" by (simp add: container_size_bound_def max_container_bytes_def)
  then obtain sg where s: "seal_generation sample_crypto (sample_metadata ''bytes'') sample_key ''bytes'' = Inr sg"
      "metadata_typed (sample_metadata ''bytes'')" by (rule sample_seals)
  have "length ''bytes'' \<le> max_plaintext_bytes" by (simp add: max_plaintext_bytes_def)
  from publish_first [OF sample_crypto_ok s(2,1) this] show ?thesis using that s(2) by (metis prod.collapse)
qed

lemma run_nothing: "run_commands step [] s = s"
  by simp

section \<open>Publications\<close>

text \<open>
  C18: A generation of up to 64 MiB whose publication was confirmed can be restored to the published
  bytes after whatever further calls the repository received.
\<close>

theorem published_stays_restorable:
  assumes "crypto_ok cr" "list_all call_typed before" "metadata_typed m" "length pt \<le> max_plaintext_bytes"
    and "repository_publish cr m key pt t (run_commands (repository_step cr) before repository_default) = (Inr res, r1)"
  shows "\<exists>rec. bt_get (gm_generation_id m) (rp_records (run_commands (repository_step cr) after r1)) = Some rec
     \<and> (\<forall>t'. cr_created_at rec \<le> t' \<longrightarrow>
          fst (repository_restore cr (gm_generation_id m) key t' (run_commands (repository_step cr) after r1))
          = Inr \<lparr>rr_metadata = m, rr_plaintext = pt\<rparr>)"
proof -
  have "repository_ok cr (run_commands (repository_step cr) before repository_default)"
    by (rule run_repository_ok [OF assms(1,2) repository_default_ok])
  from published_held [OF assms(1,3) this assms(4,5)] obtain c t0 where
    c: "held cr (gm_generation_id m) m c t0 r1" "container_opens cr key c m pt" "length c \<le> max_container_bytes" by blast
  have h: "held cr (gm_generation_id m) m c t0 (run_commands (repository_step cr) after r1)" by (rule holding.run_inv [OF c(1)])
  then obtain rec where "bt_get (gm_generation_id m) (rp_records (run_commands (repository_step cr) after r1)) = Some rec" "cr_created_at rec = t0"
    by (auto simp: held_def get_record_def)
  then show ?thesis using held_restores [OF h c(2,3) assms(4)] by blast
qed

theorem published_stays_restorable_witness:
  "\<exists>r1 rec. repository_publish sample_crypto (sample_metadata ''bytes'') sample_key ''bytes'' 7 repository_default = (Inr PublishCreated, r1)
     \<and> bt_get (gm_generation_id (sample_metadata ''bytes'')) (rp_records (run_commands (repository_step sample_crypto)
          [CallCommit 0 (gm_generation_id (sample_metadata ''bytes''))] r1)) = Some rec"
proof -
  obtain r1 where r: "repository_publish sample_crypto (sample_metadata ''bytes'') sample_key ''bytes'' 7 repository_default = (Inr PublishCreated, r1)"
      "metadata_typed (sample_metadata ''bytes'')" by (rule sample_published)
  have "length ''bytes'' \<le> max_plaintext_bytes" "list_all call_typed []" by (simp_all add: max_plaintext_bytes_def)
  from published_stays_restorable [OF sample_crypto_ok this(2) r(2) this(1), of sample_key 7 PublishCreated r1
      "[CallCommit 0 (gm_generation_id (sample_metadata ''bytes''))]"] r(1)
  show ?thesis unfolding run_nothing by blast
qed

text \<open>
  C19: Once a publication under a key and nonce prefix was confirmed, every later publication of
  another generation under a key with the same nonce domain and the same prefix is refused and
  changes nothing; it is refused as nonce reuse unless sealing itself failed.
\<close>

theorem nonce_prefix_not_reused:
  assumes "repository_publish cr m key pt t r = (Inr res, r1)"
    and "dek_nonce_domain cr key' = dek_nonce_domain cr key" "gm_nonce_prefix m' = gm_nonce_prefix m"
    and "gm_generation_id m' \<noteq> gm_generation_id m"
  shows "\<exists>e. repository_publish cr m' key' pt' t' (run_commands (repository_step cr) calls r1) = (Inl e, run_commands (repository_step cr) calls r1)
     \<and> (is_ok (seal_generation cr m' key' pt') \<longrightarrow> e = GenNonceReuse)"
proof -
  have "get_claim (run_commands (repository_step cr) calls r1) (dek_nonce_domain cr key, gm_nonce_prefix m) = Some (gm_generation_id m)"
    by (rule claims.run_inv) (rule publish_claims [OF assms(1)])
  then show ?thesis using assms(2-4) by (intro publish_claimed) auto
qed

theorem nonce_prefix_not_reused_witness:
  "\<exists>r1 e. repository_publish sample_crypto (sample_metadata ''bytes'') sample_key ''bytes'' 7 repository_default = (Inr PublishCreated, r1)
     \<and> repository_publish sample_crypto ((sample_metadata ''bytes'')\<lparr>gm_generation_id := TypedId (OpaqueId ''generation_3'')\<rparr>)
         sample_key ''bytes'' 9 r1 = (Inl e, r1)"
proof -
  obtain r1 where r: "repository_publish sample_crypto (sample_metadata ''bytes'') sample_key ''bytes'' 7 repository_default = (Inr PublishCreated, r1)"
    by (rule sample_published)
  let ?m' = "(sample_metadata ''bytes'')\<lparr>gm_generation_id := TypedId (OpaqueId ''generation_3'')\<rparr>"
  have "gm_nonce_prefix ?m' = gm_nonce_prefix (sample_metadata ''bytes'')" "gm_generation_id ?m' \<noteq> gm_generation_id (sample_metadata ''bytes'')"
    by (simp_all add: sample_metadata_def metadata_of_identity_def sample_identity_def)
  from nonce_prefix_not_reused [OF r refl this, of "''bytes''" 9 "[]"] r show ?thesis unfolding run_nothing by blast
qed

text \<open>
  C20: In every reachable repository a generation that the pointer names as current or as
  rollback target is catalogued as verified; it was published, by a call that was confirmed, with
  the catalogued metadata, and it restores to exactly the bytes of that call under the key of
  that call, at every time from the publication on.
\<close>

theorem pointer_targets_restorable:
  assumes "crypto_ok cr" "list_all call_typed calls" "r = run_commands (repository_step cr) calls repository_default"
    and "ps_current_generation_id (rp_pointer r) = Some g \<or> ps_rollback_generation_id (rp_pointer r) = Some g"
  shows "\<exists>rec before key pt after res r1. bt_get g (rp_records r) = Some rec \<and> cr_status rec = CloudVerified
     \<and> gm_generation_id (cr_metadata rec) = g
     \<and> calls = before @ CallPublish (cr_metadata rec) key pt (cr_created_at rec) # after
     \<and> repository_publish cr (cr_metadata rec) key pt (cr_created_at rec)
         (run_commands (repository_step cr) before repository_default) = (Inr res, r1)
     \<and> (\<forall>t. cr_created_at rec \<le> t \<longrightarrow> fst (repository_restore cr g key t r) = Inr \<lparr>rr_metadata = cr_metadata rec, rr_plaintext = pt\<rparr>)"
proof -
  have ok: "repository_ok cr r" unfolding assms(3) by (rule run_repository_ok [OF assms(1,2) repository_default_ok])
  then obtain rec where rec: "get_record r g = Some rec" "cr_status rec = CloudVerified"
    using assms(4) by (auto simp: repository_ok_def verified_def)
  then obtain key pt where g: "gm_generation_id (cr_metadata rec) = g"
    and pub: "published_by cr calls rec key pt" "length pt \<le> max_plaintext_bytes"
    using record_published [OF assms(1,2), of g rec] assms(3) by auto
  then obtain before after res r1 where calls: "calls = before @ CallPublish (cr_metadata rec) key pt (cr_created_at rec) # after"
    and publish: "repository_publish cr (cr_metadata rec) key pt (cr_created_at rec)
         (run_commands (repository_step cr) before repository_default) = (Inr res, r1)"
    by (auto simp: published_by_def)
  have typed: "list_all call_typed before" "metadata_typed (cr_metadata rec)" using assms(2) calls by simp_all
  have r: "r = run_commands (repository_step cr) after r1" using assms(3) calls publish by (simp add: run_commands_append)
  have "repository_ok cr (run_commands (repository_step cr) before repository_default)"
    by (rule run_repository_ok [OF assms(1) typed(1) repository_default_ok])
  from published_held [OF assms(1) typed(2) this pub(2) publish] obtain c t0 where
    c: "held cr g (cr_metadata rec) c t0 r1" "container_opens cr key c (cr_metadata rec) pt" "length c \<le> max_container_bytes"
    unfolding g by blast
  have h: "held cr g (cr_metadata rec) c t0 r" unfolding r by (rule holding.run_inv [OF c(1)])
  then have "t0 = cr_created_at rec" using rec by (auto simp: held_def)
  then have "\<forall>t. cr_created_at rec \<le> t \<longrightarrow> fst (repository_restore cr g key t r) = Inr \<lparr>rr_metadata = cr_metadata rec, rr_plaintext = pt\<rparr>"
    using held_restores [OF _ c(2,3) pub(2), of t0 r] h unfolding g by simp
  then show ?thesis using rec g calls publish unfolding get_record_def by blast
qed

lemma sample_pointer:
  obtains r1 where "repository_publish sample_crypto (sample_metadata ''bytes'') sample_key ''bytes'' 7 repository_default = (Inr PublishCreated, r1)"
    "ps_current_generation_id (rp_pointer (run_commands (repository_step sample_crypto)
       [CallPublish (sample_metadata ''bytes'') sample_key ''bytes'' 7, CallCommit 0 (gm_generation_id (sample_metadata ''bytes''))] repository_default))
     = Some (gm_generation_id (sample_metadata ''bytes''))"
    "list_all call_typed [CallPublish (sample_metadata ''bytes'') sample_key ''bytes'' 7, CallCommit 0 (gm_generation_id (sample_metadata ''bytes''))]"
proof -
  let ?m = "sample_metadata ''bytes''"
  let ?g = "gm_generation_id ?m"
  obtain r1 where r: "repository_publish sample_crypto ?m sample_key ''bytes'' 7 repository_default = (Inr PublishCreated, r1)"
      "metadata_typed ?m" by (rule sample_published)
  have "rp_pointer r1 = rp_pointer repository_default \<and> verified r1 ?g"
    using publish_publishes [OF r(1)]
  proof cases
    case (fresh sg v s)
    then show ?thesis by (simp add: verified_def)
  qed
  then obtain rec where "bt_get ?g (rp_records r1) = Some rec" "cr_status rec = CloudVerified" "rp_pointer r1 = rp_pointer repository_default"
    by (auto simp: verified_def get_record_def)
  then have "ps_current_generation_id (rp_pointer (snd (repository_commit_current 0 ?g r1))) = Some ?g"
    by (simp add: repository_commit_current_def require_pointer_version_def repository_default_def Let_def checked_add_def)
  then show ?thesis using that r by simp
qed

theorem pointer_targets_restorable_witness:
  "\<exists>rec. bt_get (gm_generation_id (sample_metadata ''bytes'')) (rp_records (run_commands (repository_step sample_crypto)
       [CallPublish (sample_metadata ''bytes'') sample_key ''bytes'' 7, CallCommit 0 (gm_generation_id (sample_metadata ''bytes''))] repository_default))
     = Some rec \<and> cr_status rec = CloudVerified \<and> cr_metadata rec = sample_metadata ''bytes'' \<and> cr_created_at rec = 7
     \<and> fst (repository_restore sample_crypto (gm_generation_id (sample_metadata ''bytes'')) sample_key 9 (run_commands (repository_step sample_crypto)
       [CallPublish (sample_metadata ''bytes'') sample_key ''bytes'' 7, CallCommit 0 (gm_generation_id (sample_metadata ''bytes''))] repository_default))
       = Inr \<lparr>rr_metadata = sample_metadata ''bytes'', rr_plaintext = ''bytes''\<rparr>"
proof -
  let ?calls = "[CallPublish (sample_metadata ''bytes'') sample_key ''bytes'' 7, CallCommit 0 (gm_generation_id (sample_metadata ''bytes''))]"
  have p: "ps_current_generation_id (rp_pointer (run_commands (repository_step sample_crypto) ?calls repository_default))
      = Some (gm_generation_id (sample_metadata ''bytes''))" "list_all call_typed ?calls" by (rule sample_pointer; assumption)+
  have one: "m = sample_metadata ''bytes'' \<and> key = sample_key \<and> pt = ''bytes'' \<and> t = 7"
    if "?calls = before @ CallPublish m key pt t # after" for before m key pt t after
    using that by (auto simp: Cons_eq_append_conv)
  obtain rec before key pt after where rec: "bt_get (gm_generation_id (sample_metadata ''bytes''))
        (rp_records (run_commands (repository_step sample_crypto) ?calls repository_default)) = Some rec" "cr_status rec = CloudVerified"
    and calls: "?calls = before @ CallPublish (cr_metadata rec) key pt (cr_created_at rec) # after"
    and restores: "\<forall>t. cr_created_at rec \<le> t \<longrightarrow> fst (repository_restore sample_crypto (gm_generation_id (sample_metadata ''bytes'')) key t
        (run_commands (repository_step sample_crypto) ?calls repository_default)) = Inr \<lparr>rr_metadata = cr_metadata rec, rr_plaintext = pt\<rparr>"
    using pointer_targets_restorable [OF sample_crypto_ok p(2) refl disjI1 [OF p(1)]] by blast
  have "cr_created_at rec \<le> 9" using one [OF calls] by simp
  then show ?thesis using rec restores one [OF calls] by metis
qed

text \<open>
  A call that moves the pointer wins its version: from then on every commit or rollback that
  expects the version before it is refused as stale and changes nothing.
\<close>

theorem pointer_version_won_once:
  assumes "rp_pointer (snd (repository_step cr call r)) \<noteq> rp_pointer r"
    and "r' = run_commands (repository_step cr) calls (snd (repository_step cr call r))"
  shows "repository_commit_current (ps_version (rp_pointer r)) g r' = (Inl GenStalePointer, r')
     \<and> repository_rollback (ps_version (rp_pointer r)) g r' = (Inl GenStalePointer, r')"
proof (rule stale_pointer_refused)
  show "ps_version (rp_pointer r) < ps_version (rp_pointer r')"
    unfolding assms(2) by (rule passed.run_inv) (use step_pointer [of cr call r] assms(1) in blast)
qed

theorem pointer_version_won_once_witness:
  "\<exists>r1 r2. repository_publish sample_crypto (sample_metadata ''bytes'') sample_key ''bytes'' 7 repository_default = (Inr PublishCreated, r1)
     \<and> r2 = snd (repository_step sample_crypto (CallCommit 0 (gm_generation_id (sample_metadata ''bytes''))) r1)
     \<and> repository_commit_current 0 (gm_generation_id (sample_metadata ''bytes'')) r2 = (Inl GenStalePointer, r2)"
proof -
  let ?g = "gm_generation_id (sample_metadata ''bytes'')"
  obtain r1 where r: "repository_publish sample_crypto (sample_metadata ''bytes'') sample_key ''bytes'' 7 repository_default = (Inr PublishCreated, r1)"
      "ps_current_generation_id (rp_pointer (run_commands (repository_step sample_crypto)
         [CallPublish (sample_metadata ''bytes'') sample_key ''bytes'' 7, CallCommit 0 ?g] repository_default)) = Some ?g"
    by (rule sample_pointer)
  have "rp_pointer r1 = rp_pointer repository_default" using publish_publishes [OF r(1)] by cases simp_all
  then have p: "ps_version (rp_pointer r1) = 0" "ps_current_generation_id (rp_pointer r1) = None" by (simp_all add: repository_default_def)
  have "rp_pointer (snd (repository_step sample_crypto (CallCommit 0 ?g) r1)) \<noteq> rp_pointer r1"
    using r p(2) by auto
  from pointer_version_won_once [OF this, of _ "[]", OF refl] show ?thesis unfolding run_nothing p(1) using r(1) by blast
qed

section \<open>Key identities and derived keys\<close>

text \<open>
  Key identities and root key versions correspond exactly: a key id is read as a version only
  if it is the key id that version prints, so every positive version round-trips and no other
  spelling (leading zeros, signs, overflow) is accepted.
\<close>

theorem root_key_id_canonical:
  "root_key_version_from_key_id k = Inr v \<longleftrightarrow> root_version_value v \<noteq> 0 \<and> root_key_version_key_id v = Inr k"
  by (rule from_key_id_iff)

definition kdf_inputs :: "generation_root_key \<Rightarrow> string \<Rightarrow> kdf_context \<Rightarrow> string list" where
  "kdf_inputs root purpose context = [kdf_context_domain, purpose, be_bytes 4 (root_version_value (root_version root)),
     id_as_str (kdf_tenant_id context), id_as_str (kdf_profile_id context), id_as_str (kdf_generation_id context),
     kdf_plaintext_digest context]"

definition kdf_preimages :: "crypto \<Rightarrow> generation_root_key \<Rightarrow> string \<Rightarrow> kdf_context \<Rightarrow> string set" where
  "kdf_preimages cr root purpose context =
     (case kdf_frames (kdf_inputs root purpose context) of
        Inl _ \<Rightarrow> {}
      | Inr f \<Rightarrow> {hmac_pad 0x36 (root_bytes root) @ f,
                  hmac_pad 0x5c (root_bytes root) @ sha256_of cr (hmac_pad 0x36 (root_bytes root) @ f)})"

lemma derive_prf_parts:
  assumes "derive_prf cr root purpose context = Inr k"
  obtains f where "kdf_frames (kdf_inputs root purpose context) = Inr f"
    "k = sha256_of cr (hmac_pad 0x5c (root_bytes root) @ sha256_of cr (hmac_pad 0x36 (root_bytes root) @ f))"
    "hmac_pad 0x36 (root_bytes root) @ f \<in> kdf_preimages cr root purpose context"
    "hmac_pad 0x5c (root_bytes root) @ sha256_of cr (hmac_pad 0x36 (root_bytes root) @ f) \<in> kdf_preimages cr root purpose context"
  using assms by (auto simp: derive_prf_def kdf_preimages_def kdf_inputs_def res_bind_Inr_iff)

text \<open>
  The derivation binds its whole context: two derivations under root keys of the same bytes
  that yield the same secret have the same purpose, root version, tenant, profile, generation and
  plaintext digest, if SHA-256 does not collide on the byte strings that were hashed.
\<close>

theorem derived_key_binds_context:
  assumes "derive_prf cr root purpose context = Inr k" "derive_prf cr root' purpose' context' = Inr k"
    and "root_bytes root' = root_bytes root"
    and inj: "inj_on (sha256_of cr) (kdf_preimages cr root purpose context \<union> kdf_preimages cr root' purpose' context')"
  shows "purpose' = purpose \<and> root_version root' = root_version root \<and> context' = context"
proof -
  obtain f where f: "kdf_frames (kdf_inputs root purpose context) = Inr f"
    "k = sha256_of cr (hmac_pad 0x5c (root_bytes root) @ sha256_of cr (hmac_pad 0x36 (root_bytes root) @ f))"
    "hmac_pad 0x36 (root_bytes root) @ f \<in> kdf_preimages cr root purpose context"
    "hmac_pad 0x5c (root_bytes root) @ sha256_of cr (hmac_pad 0x36 (root_bytes root) @ f) \<in> kdf_preimages cr root purpose context"
    by (rule derive_prf_parts [OF assms(1)])
  obtain f' where f': "kdf_frames (kdf_inputs root' purpose' context') = Inr f'"
    "k = sha256_of cr (hmac_pad 0x5c (root_bytes root) @ sha256_of cr (hmac_pad 0x36 (root_bytes root) @ f'))"
    "hmac_pad 0x36 (root_bytes root) @ f' \<in> kdf_preimages cr root' purpose' context'"
    "hmac_pad 0x5c (root_bytes root) @ sha256_of cr (hmac_pad 0x36 (root_bytes root) @ f') \<in> kdf_preimages cr root' purpose' context'"
    using derive_prf_parts [OF assms(2)] assms(3) by metis
  have "sha256_of cr (hmac_pad 0x36 (root_bytes root) @ f) = sha256_of cr (hmac_pad 0x36 (root_bytes root) @ f')"
    using inj_onD [OF inj f(2) [symmetric, unfolded f'(2)] UnI1 [OF f(4)] UnI2 [OF f'(4)]] by simp
  from inj_onD [OF inj this UnI1 [OF f(3)] UnI2 [OF f'(3)]] have "f = f'" by simp
  then have e: "kdf_inputs root purpose context = kdf_inputs root' purpose' context'"
    using f(1) f'(1) by (intro kdf_frames_inject [of _ f]) (simp_all add: kdf_inputs_def)
  then have "root_version_value (root_version root') = root_version_value (root_version root)"
    by (simp add: kdf_inputs_def) (metis be_inverse(2))
  then show ?thesis
    using e by (cases "context"; cases context') (auto simp: kdf_inputs_def id_eq_iff intro: generation_root_key_version.expand)
qed

definition sample_root :: generation_root_key where
  "sample_root = \<lparr>root_version = GenerationRootKeyVersion 7, root_bytes = replicate 32 CHR ''r''\<rparr>"

definition sample_context :: kdf_context where
  "sample_context = \<lparr>kdf_tenant_id = gid_tenant_id sample_identity, kdf_profile_id = gid_profile_id sample_identity,
     kdf_generation_id = gid_generation_id sample_identity, kdf_plaintext_digest = replicate 32 CHR ''d''\<rparr>"

lemma sample_prf: "is_ok (derive_prf cr sample_root dek_domain sample_context)"
  by (simp add: derive_prf_def kdf_frame_def kdf_context_domain_def dek_domain_def sample_context_def sample_identity_def)

theorem derived_key_binds_context_witness:
  "derive_prf (sample_crypto\<lparr>sha256_of := \<lambda>x. x\<rparr>) sample_root dek_domain sample_context
   \<noteq> derive_prf (sample_crypto\<lparr>sha256_of := \<lambda>x. x\<rparr>) sample_root nonce_prefix_domain sample_context"
proof
  let ?cr = "sample_crypto\<lparr>sha256_of := \<lambda>x. x\<rparr>"
  assume e: "derive_prf ?cr sample_root dek_domain sample_context = derive_prf ?cr sample_root nonce_prefix_domain sample_context"
  obtain k where k: "derive_prf ?cr sample_root dek_domain sample_context = Inr k" using sample_prf by (auto simp: is_ok_iff)
  have "nonce_prefix_domain = dek_domain"
    using derived_key_binds_context [OF k k [unfolded e] refl] by (simp add: inj_on_def)
  then show False by (simp add: nonce_prefix_domain_def dek_domain_def)
qed

section \<open>Two publications that should have failed otherwise\<close>

lemma publish_first_oversized:
  assumes "crypto_ok cr" "metadata_typed m" "seal_generation cr m key pt = Inr sg" "max_plaintext_bytes < length pt"
  obtains e r1 rec where "repository_publish cr m key pt t repository_default = (Inl e, r1)"
    "get_record r1 (gm_generation_id m) = Some rec" "cr_status rec = CloudQuarantined" "cr_metadata rec = m"
    "cr_object_key rec = metadata_object_key m" "cr_container_digest rec = sg_container_digest sg"
    "get_object r1 (metadata_object_key m) = Some (sg_container sg)"
    "get_claim r1 (dek_nonce_domain cr key, gm_nonce_prefix m) = Some (gm_generation_id m)"
proof -
  note o = seal_opens [OF assms(1-3)]
  obtain e where "open_generation_expected cr (sg_container sg) key (gm_tenant_id m) (gm_profile_id m) (gm_generation_id m) = Inl e"
    using open_expected_of_container(2) [OF o(1,3)] assms(4) by (auto simp: is_ok_def split: sum.splits)
  then show ?thesis
    using assms(3) that
    by (simp add: repository_publish_def repository_default_def put_immutable_def publish_record_def object_get_def bt_get_def
        Let_def repository_quarantine_def table_defs)
qed

text \<open>
  A publication above 64 MiB fails and leaves its record quarantined, but the same call
  repeated is answered as an idempotent success, although the generation cannot be restored.
\<close>

theorem quarantined_publication_confirmed_on_retry:
  assumes "crypto_ok cr" "metadata_typed m" "is_ok (seal_generation cr m key pt)" "max_plaintext_bytes < length pt"
  shows "\<exists>e r1 r2. repository_publish cr m key pt t repository_default = (Inl e, r1)
     \<and> repository_publish cr m key pt t' r1 = (Inr PublishIdempotent, r2)
     \<and> fst (repository_restore cr (gm_generation_id m) key t'' r2) = Inl GenerationQuarantined"
proof -
  obtain sg where sg: "seal_generation cr m key pt = Inr sg" using assms(3) by (auto simp: is_ok_iff)
  obtain e r1 rec where a: "repository_publish cr m key pt t repository_default = (Inl e, r1)"
    "get_record r1 (gm_generation_id m) = Some rec" "cr_status rec = CloudQuarantined" "cr_metadata rec = m"
    "cr_object_key rec = metadata_object_key m" "cr_container_digest rec = sg_container_digest sg"
    "get_object r1 (metadata_object_key m) = Some (sg_container sg)"
    "get_claim r1 (dek_nonce_domain cr key, gm_nonce_prefix m) = Some (gm_generation_id m)"
    by (rule publish_first_oversized [OF assms(1,2) sg assms(4)])
  then have "repository_publish cr m key pt t' r1 = (Inr PublishIdempotent, r1)"
    using sg by (simp add: repository_publish_def put_immutable_def table_defs)
  moreover have "fst (repository_restore cr (gm_generation_id m) key t'' r1) = Inl GenerationQuarantined"
    using a by (simp add: repository_restore_def get_record_def)
  ultimately show ?thesis using a(1) by blast
qed

theorem quarantined_publication_confirmed_on_retry_witness:
  "\<exists>e r1 r2. repository_publish sample_crypto (sample_metadata (replicate 70000000 CHR ''p'')) sample_key (replicate 70000000 CHR ''p'') 1 repository_default
       = (Inl e, r1)
     \<and> repository_publish sample_crypto (sample_metadata (replicate 70000000 CHR ''p'')) sample_key (replicate 70000000 CHR ''p'') 2 r1
       = (Inr PublishIdempotent, r2)"
proof -
  let ?pt = "replicate 70000000 CHR ''p''"
  have b: "container_size_bound (length ?pt) \<le> max_container_bytes" "max_plaintext_bytes < length ?pt"
    by (simp_all add: container_size_bound_def max_container_bytes_def max_plaintext_bytes_def)
  obtain sg where sg: "seal_generation sample_crypto (sample_metadata ?pt) sample_key ?pt = Inr sg" "metadata_typed (sample_metadata ?pt)"
    by (rule sample_seals [OF b(1)])
  have "is_ok (seal_generation sample_crypto (sample_metadata ?pt) sample_key ?pt)" by (simp only: sg(1) is_ok_simps)
  from quarantined_publication_confirmed_on_retry [OF sample_crypto_ok sg(2) this b(2), of 1 2 0] show ?thesis by blast
qed

text \<open>
  The nonce claim is keyed by generation id alone and the object is stored before the record is
  compared: publishing the same generation id for another profile under the same key and prefix is
  answered with a conflict, but the container sealed with the reused nonce prefix stays stored.
\<close>

lemma nonce_reused_by_failed_publication:
  assumes "repository_publish cr m key pt t r = (Inr res, r1)"
    and "gm_generation_id m' = gm_generation_id m" "gm_nonce_prefix m' = gm_nonce_prefix m" "gm_profile_id m' \<noteq> gm_profile_id m"
    and "get_object r1 (metadata_object_key m') = None" "seal_generation cr m' key pt' = Inr sg"
    and "get_record r1 (gm_generation_id m) = Some rec" "cr_metadata rec = m"
  shows "\<exists>r2. repository_publish cr m' key pt' t' r1 = (Inl GenImmutableConflict, r2)
     \<and> get_object r2 (metadata_object_key m') = Some (sg_container sg)"
proof -
  have "get_claim r1 (dek_nonce_domain cr key, gm_nonce_prefix m') = Some (gm_generation_id m')"
    using publish_claims [OF assms(1)] assms(2,3) by simp
  moreover have "m \<noteq> m'" using assms(4) by auto
  ultimately show ?thesis
    using assms(2,5-8) by (simp add: repository_publish_def put_immutable_def table_defs bt_get_insert)
qed

end
