(* ===== verification/Utf8_Text.thy ===== *)
theory Utf8_Text
  imports Byte_Codec
begin

text \<open>
  \<open>str::trim\<close> and \<open>str::split\<close>: the white space of Unicode at both ends of a UTF-8 string, and what it leaves.  The
  domains of clients and memberships trim every text a person typed.
\<close>

definition utf8_whitespace :: "nat list list" where
  \<comment> \<open>the code points of property White\_Space, encoded\<close>
  "utf8_whitespace = [[9], [10], [11], [12], [13], [32], [0xC2, 0x85], [0xC2, 0xA0], [0xE1, 0x9A, 0x80],
     [0xE2, 0x80, 0x80], [0xE2, 0x80, 0x81], [0xE2, 0x80, 0x82], [0xE2, 0x80, 0x83], [0xE2, 0x80, 0x84], [0xE2, 0x80, 0x85],
     [0xE2, 0x80, 0x86], [0xE2, 0x80, 0x87], [0xE2, 0x80, 0x88], [0xE2, 0x80, 0x89], [0xE2, 0x80, 0x8A], [0xE2, 0x80, 0xA8],
     [0xE2, 0x80, 0xA9], [0xE2, 0x80, 0xAF], [0xE2, 0x81, 0x9F], [0xE3, 0x80, 0x80]]"

definition leading_whitespace :: "string \<Rightarrow> nat" where
  "leading_whitespace s =
     (case find (\<lambda>w. take (length w) (map byte_of s) = w) utf8_whitespace of None \<Rightarrow> 0 | Some w \<Rightarrow> length w)"

definition trailing_whitespace :: "string \<Rightarrow> nat" where
  "trailing_whitespace s =
     (case find (\<lambda>w. take (length w) (rev (map byte_of s)) = rev w) utf8_whitespace of None \<Rightarrow> 0 | Some w \<Rightarrow> length w)"

function trim_start :: "string \<Rightarrow> string" where
  "trim_start s = (let n = leading_whitespace s in if n = 0 \<or> s = [] then s else trim_start (drop n s))"
  by pat_completeness auto
termination by (relation "measure length") (auto simp: length_greater_0_conv simp flip: length_greater_0_conv)

function trim_end :: "string \<Rightarrow> string" where
  "trim_end s = (let n = trailing_whitespace s in if n = 0 \<or> s = [] then s else trim_end (take (length s - n) s))"
  by pat_completeness auto
termination by (relation "measure length") (auto simp flip: length_greater_0_conv)

declare trim_start.simps [simp del] trim_end.simps [simp del]

definition str_trim :: "string \<Rightarrow> string" where
  "str_trim s = trim_end (trim_start s)"

text \<open>\<open>str::split\<close> at a character.\<close>

fun str_split :: "char \<Rightarrow> string \<Rightarrow> string list" where
  "str_split d [] = [[]]"
| "str_split d (c # s) = (if c = d then [] # str_split d s
     else case str_split d s of [] \<Rightarrow> [[c]] | p # ps \<Rightarrow> (c # p) # ps)"

lemma str_split_nonempty [simp]: "str_split d s \<noteq> []"
  by (cases s) (simp_all split: list.splits)

section \<open>What is left by trimming\<close>

abbreviation ws_prefix :: "nat list \<Rightarrow> nat list \<Rightarrow> bool" where
  "ws_prefix w xs \<equiv> take (length w) xs = w"

lemma utf8_whitespace_nonempty: "w \<in> set utf8_whitespace \<Longrightarrow> w \<noteq> []"
  by (auto simp: utf8_whitespace_def)

lemma find_ws_zero:
  assumes "\<And>w. w \<in> set ws \<Longrightarrow> w \<noteq> []"
  shows "(case find P ws of None \<Rightarrow> 0 | Some w \<Rightarrow> length w) = (0::nat) \<longleftrightarrow> (\<forall>w\<in>set ws. \<not> P w)"
  using assms by (auto simp: find_None_iff find_Some_iff split: option.splits)

lemma leading_whitespace_zero:
  "leading_whitespace s = 0 \<longleftrightarrow> (\<forall>w\<in>set utf8_whitespace. \<not> ws_prefix w (map byte_of s))"
  unfolding leading_whitespace_def by (rule find_ws_zero) (rule utf8_whitespace_nonempty)

lemma trailing_whitespace_zero:
  "trailing_whitespace s = 0 \<longleftrightarrow> (\<forall>w\<in>set utf8_whitespace. \<not> ws_prefix (rev w) (rev (map byte_of s)))"
  using find_ws_zero [of utf8_whitespace "\<lambda>w. take (length w) (rev (map byte_of s)) = rev w"]
  by (auto simp: trailing_whitespace_def dest: utf8_whitespace_nonempty)

lemma leading_whitespace_take:
  assumes "leading_whitespace s = 0" shows "leading_whitespace (take n s) = 0"
proof -
  have "ws_prefix w (map byte_of s)" if "ws_prefix w (map byte_of (take n s))" for w
  proof -
    have "length w \<le> n" if "w \<noteq> []"
    proof -
      have "length w = length (take (length w) (map byte_of (take n s)))" using \<open>ws_prefix w (map byte_of (take n s))\<close> by simp
      then show ?thesis by simp
    qed
    then show ?thesis using that by (cases "w = []") (simp_all add: take_map min_absorb1)
  qed
  then show ?thesis using assms by (auto simp: leading_whitespace_zero)
qed

lemma trim_start_fixed: "leading_whitespace s = 0 \<Longrightarrow> trim_start s = s"
  by (simp add: trim_start.simps [of s])

lemma trim_end_fixed: "trailing_whitespace s = 0 \<Longrightarrow> trim_end s = s"
  by (simp add: trim_end.simps [of s])

lemma whitespace_nil [simp]: "leading_whitespace [] = 0" "trailing_whitespace [] = 0"
  by (auto simp: leading_whitespace_zero trailing_whitespace_zero dest: utf8_whitespace_nonempty)

lemma trim_start_result: "leading_whitespace (trim_start s) = 0"
  by (induction s rule: trim_start.induct) (subst trim_start.simps, auto simp: Let_def)

lemma trim_end_result: "trailing_whitespace (trim_end s) = 0"
  by (induction s rule: trim_end.induct) (subst trim_end.simps, auto simp: Let_def)

lemma trim_end_take: "\<exists>n. trim_end s = take n s"
proof (induction s rule: trim_end.induct)
  case (1 s)
  show ?case
  proof (cases "trailing_whitespace s = 0 \<or> s = []")
    case True
    then have "trim_end s = take (length s) s" by (subst trim_end.simps) auto
    then show ?thesis ..
  next
    case False
    then obtain n where "trim_end (take (length s - trailing_whitespace s) s) = take n (take (length s - trailing_whitespace s) s)"
      using 1 by blast
    then show ?thesis using False by (subst trim_end.simps) (auto simp: Let_def)
  qed
qed

lemma trim_start_drop: "\<exists>n. trim_start s = drop n s"
proof (induction s rule: trim_start.induct)
  case (1 s)
  show ?case
  proof (cases "leading_whitespace s = 0 \<or> s = []")
    case True
    then have "trim_start s = drop 0 s" by (subst trim_start.simps) auto
    then show ?thesis ..
  next
    case False
    then obtain n where "trim_start (drop (leading_whitespace s) s) = drop n (drop (leading_whitespace s) s)"
      using 1 by blast
    then show ?thesis using False by (subst trim_start.simps) (auto simp: Let_def)
  qed
qed

definition trimmed :: "string \<Rightarrow> bool" where
  "trimmed s \<longleftrightarrow> leading_whitespace s = 0 \<and> trailing_whitespace s = 0"

lemma str_trim_trimmed [simp]: "trimmed (str_trim s)"
  using trim_end_take [of "trim_start s"] trim_start_result [of s] trim_end_result
  by (auto simp: trimmed_def str_trim_def intro: leading_whitespace_take)

lemma str_trim_fixed [simp]: "trimmed s \<Longrightarrow> str_trim s = s"
  by (simp add: trimmed_def str_trim_def trim_start_fixed trim_end_fixed)

lemma str_trim_idem [simp]: "str_trim (str_trim s) = str_trim s"
  by simp

lemma str_trim_infix: "sublist (str_trim s) s"
proof -
  obtain n m where "str_trim s = take n (drop m s)"
    using trim_end_take [of "trim_start s"] trim_start_drop [of s] by (auto simp: str_trim_def)
  then show ?thesis by (simp add: sublist_take sublist_drop sublist_order.order_trans [OF sublist_take sublist_drop])
qed

lemma length_str_trim_le: "length (str_trim s) \<le> length s"
  by (rule sublist_length_le) (rule str_trim_infix)

lemma utf8_whitespace_bytes: "w \<in> set utf8_whitespace \<Longrightarrow> b \<in> set w \<Longrightarrow> b \<le> 32 \<or> 128 \<le> b"
  by (auto simp: utf8_whitespace_def)

lemma trimmed_graphic:
  assumes "\<And>c. c \<in> set s \<Longrightarrow> 32 < byte_of c \<and> byte_of c < 128" shows "trimmed s"
proof -
  have no: False if w: "w \<in> set utf8_whitespace" and p: "set w \<subseteq> set (map byte_of s)" for w
  proof -
    obtain b where "b \<in> set w" using utf8_whitespace_nonempty [OF w] by (cases w) auto
    then show False using utf8_whitespace_bytes [OF w] p assms by fastforce
  qed
  have "set w \<subseteq> set (map byte_of s)" if "ws_prefix w (map byte_of s)" for w
    using that by (metis set_take_subset)
  moreover have "set w \<subseteq> set (map byte_of s)" if "ws_prefix (rev w) (rev (map byte_of s))" for w
    using that by (metis set_rev set_take_subset)
  ultimately show ?thesis
    using no unfolding trimmed_def leading_whitespace_zero trailing_whitespace_zero by blast
qed

section \<open>White space and letter case\<close>

definition lower_byte :: "nat \<Rightarrow> nat" where
  "lower_byte b = (if 65 \<le> b \<and> b \<le> 90 then b + 32 else b)"

lemma byte_of_lowercase: "byte_of (to_ascii_lowercase_char c) = lower_byte (byte_of c)"
  using byte_of_lt [of c] by (auto simp: to_ascii_lowercase_char_def is_ascii_uppercase_def lower_byte_def)

lemma bytes_lowercase: "map byte_of (to_ascii_lowercase s) = map lower_byte (map byte_of s)"
  by (simp add: to_ascii_lowercase_def byte_of_lowercase)

lemma whitespace_no_letter:
  "w \<in> set utf8_whitespace \<Longrightarrow> b \<in> set w \<Longrightarrow> \<not> (65 \<le> b \<and> b \<le> 90) \<and> \<not> (97 \<le> b \<and> b \<le> 122)"
  by (auto simp: utf8_whitespace_def)

lemma map_lower_eq_ws:
  "(\<And>b. b \<in> set w \<Longrightarrow> \<not> (65 \<le> b \<and> b \<le> 90) \<and> \<not> (97 \<le> b \<and> b \<le> 122)) \<Longrightarrow> map lower_byte xs = w \<longleftrightarrow> xs = w"
proof (induction xs arbitrary: w)
  case (Cons x xs)
  show ?case
  proof (cases w)
    case (Cons b bs)
    then have "\<not> (65 \<le> b \<and> b \<le> 90) \<and> \<not> (97 \<le> b \<and> b \<le> 122)" using Cons.prems by simp
    then have "lower_byte x = b \<longleftrightarrow> x = b" by (auto simp: lower_byte_def)
    then show ?thesis using Cons Cons.IH [of bs] Cons.prems by simp
  qed simp
qed auto

lemma leading_whitespace_lower: "leading_whitespace (to_ascii_lowercase s) = 0 \<longleftrightarrow> leading_whitespace s = 0"
proof -
  have "ws_prefix w (map lower_byte (map byte_of s)) \<longleftrightarrow> ws_prefix w (map byte_of s)" if "w \<in> set utf8_whitespace" for w
    using map_lower_eq_ws [OF whitespace_no_letter [OF that]] by (simp only: take_map)
  then show ?thesis unfolding leading_whitespace_zero bytes_lowercase by blast
qed

lemma trailing_whitespace_lower: "trailing_whitespace (to_ascii_lowercase s) = 0 \<longleftrightarrow> trailing_whitespace s = 0"
proof -
  have "ws_prefix (rev w) (rev (map lower_byte (map byte_of s))) \<longleftrightarrow> ws_prefix (rev w) (rev (map byte_of s))"
    if w: "w \<in> set utf8_whitespace" for w
  proof -
    have "\<not> (65 \<le> b \<and> b \<le> 90) \<and> \<not> (97 \<le> b \<and> b \<le> 122)" if "b \<in> set (rev w)" for b
      using whitespace_no_letter [OF w] that by simp
    then have "map lower_byte xs = rev w \<longleftrightarrow> xs = rev w" for xs by (rule map_lower_eq_ws)
    then show ?thesis by (simp only: rev_map take_map)
  qed
  then show ?thesis unfolding trailing_whitespace_zero bytes_lowercase by blast
qed

lemma trimmed_lowercase [simp]: "trimmed (to_ascii_lowercase s) \<longleftrightarrow> trimmed s"
  by (simp add: trimmed_def leading_whitespace_lower trailing_whitespace_lower)

lemma trimmed_same_lower: "to_ascii_lowercase s = to_ascii_lowercase t \<Longrightarrow> trimmed s \<Longrightarrow> trimmed t"
  using trimmed_lowercase [of s] trimmed_lowercase [of t] by simp

end
