(* ===== verification/Identity_Access.thy ===== *)
theory Identity_Access
  imports Utf8_Text
begin

text \<open>
  \<open>crates/identity-access-domain\<close>: memberships and grants with the two authorisation decisions
  (\<open>lib.rs\<close>), invitations (\<open>invitation.rs\<close>), the policy for the first owner and the decisions of the
  membership lifecycle (\<open>lifecycle.rs\<close>).
\<close>

section \<open>Memberships, grants, authorisation\<close>

datatype membership_role = TenantOwner | Member

datatype membership_status = MembershipActive | MembershipSuspended | MembershipRevoked

record membership =
  mb_tenant_id :: tenant_id
  mb_actor_id :: actor_id
  mb_role :: membership_role
  mb_status :: membership_status

datatype profile_grant_role = ProfileViewer | ProfileOperator

record profile_grant =
  pg_tenant_id :: tenant_id
  pg_actor_id :: actor_id
  pg_profile_id :: profile_id
  pg_role :: profile_grant_role

datatype client_grant_role = ClientViewer | ClientEditor

record client_grant =
  cg_tenant_id :: tenant_id
  cg_actor_id :: actor_id
  cg_client_id :: client_id
  cg_role :: client_grant_role

datatype profile_capability = ProfileView | ProfileOperate | ProfileAdminister
datatype client_capability = ClientView | ClientEdit | ClientAdminister

datatype deny_reason = DenyTenantMismatch | DenyActorMismatch | DenyMembershipInactive | DenyGrantMissing | DenyCapabilityMissing

datatype authorization_decision = Allowed | Denied deny_reason

abbreviation actor_tenant :: "actor_context \<Rightarrow> tenant_id" where
  "actor_tenant actor \<equiv> scope_tenant_id (actor_tenant_scope actor)"

fun profile_role_allows :: "profile_grant_role \<Rightarrow> profile_capability \<Rightarrow> bool" where
  "profile_role_allows ProfileViewer ProfileView = True"
| "profile_role_allows ProfileOperator ProfileView = True"
| "profile_role_allows ProfileOperator ProfileOperate = True"
| "profile_role_allows _ _ = False"

definition authorize_profile ::
    "actor_context \<Rightarrow> membership \<Rightarrow> profile_id \<Rightarrow> profile_grant option \<Rightarrow> profile_capability \<Rightarrow> authorization_decision" where
  "authorize_profile actor m profile_id grant capability =
     (if actor_tenant actor \<noteq> mb_tenant_id m then Denied DenyTenantMismatch
      else if actor_actor_id actor \<noteq> mb_actor_id m then Denied DenyActorMismatch
      else if mb_status m \<noteq> MembershipActive then Denied DenyMembershipInactive
      else if mb_role m = TenantOwner then Allowed
      else case grant of
        None \<Rightarrow> Denied DenyGrantMissing
      | Some g \<Rightarrow>
          if pg_tenant_id g \<noteq> actor_tenant actor then Denied DenyTenantMismatch
          else if pg_actor_id g \<noteq> actor_actor_id actor then Denied DenyActorMismatch
          else if pg_profile_id g \<noteq> profile_id then Denied DenyGrantMissing
          else if profile_role_allows (pg_role g) capability then Allowed
          else Denied DenyCapabilityMissing)"

fun client_role_allows :: "client_grant_role \<Rightarrow> client_capability \<Rightarrow> bool" where
  "client_role_allows ClientViewer ClientView = True"
| "client_role_allows ClientEditor ClientView = True"
| "client_role_allows ClientEditor ClientEdit = True"
| "client_role_allows _ _ = False"

definition authorize_client ::
    "actor_context \<Rightarrow> membership \<Rightarrow> client_id \<Rightarrow> client_grant option \<Rightarrow> client_capability \<Rightarrow> authorization_decision" where
  "authorize_client actor m client_id grant capability =
     (if actor_tenant actor \<noteq> mb_tenant_id m then Denied DenyTenantMismatch
      else if actor_actor_id actor \<noteq> mb_actor_id m then Denied DenyActorMismatch
      else if mb_status m \<noteq> MembershipActive then Denied DenyMembershipInactive
      else if mb_role m = TenantOwner then Allowed
      else case grant of
        None \<Rightarrow> Denied DenyGrantMissing
      | Some g \<Rightarrow>
          if cg_tenant_id g \<noteq> actor_tenant actor then Denied DenyTenantMismatch
          else if cg_actor_id g \<noteq> actor_actor_id actor then Denied DenyActorMismatch
          else if cg_client_id g \<noteq> client_id then Denied DenyGrantMissing
          else if client_role_allows (cg_role g) capability then Allowed
          else Denied DenyCapabilityMissing)"

section \<open>The first owner\<close>

definition is_ascii_space_or_control :: "char \<Rightarrow> bool" where
  "is_ascii_space_or_control c \<longleftrightarrow> byte_of c \<le> 32 \<or> byte_of c = 127"

definition normalized_owner_contact :: "string \<Rightarrow> string option" where
  "normalized_owner_contact raw =
     (let value = str_trim raw;
          local = takeWhile (\<lambda>c. c \<noteq> CHR ''@'') value;
          rest = dropWhile (\<lambda>c. c \<noteq> CHR ''@'') value
      in if value = [] \<or> 254 < length value \<or> \<not> list_all (\<lambda>c. byte_of c < 128) value
            \<or> list_ex is_ascii_space_or_control value then None
         else if rest = [] then None
         else if local = [] \<or> tl rest = [] \<or> CHR ''@'' \<in> set (tl rest) then None
         else Some (to_ascii_lowercase value))"

record initial_owner_policy =
  iop_contact :: "string option"

definition initial_owner_policy_new :: "string option \<Rightarrow> initial_owner_policy" where
  "initial_owner_policy_new configured = \<lparr>iop_contact = Option.bind configured normalized_owner_contact\<rparr>"

definition initial_owner_allows :: "initial_owner_policy \<Rightarrow> string option \<Rightarrow> bool" where
  "initial_owner_allows p verified =
     (case iop_contact p of
        None \<Rightarrow> False
      | Some expected \<Rightarrow>
          (case Option.bind verified normalized_owner_contact of None \<Rightarrow> False | Some actual \<Rightarrow> actual = expected))"

section \<open>The membership lifecycle\<close>

datatype membership_lifecycle_error =
    LifecycleTenantMismatch | LifecycleMembershipInactive | LifecycleBoundaryNotEmpty | LifecycleOwnerRequired
  | LifecycleInvalidSuccessor | LifecycleOwnerInvariantViolation | LifecycleLastActiveOwner | LifecycleInvalidTransition

fun membership_lifecycle_error_message :: "membership_lifecycle_error \<Rightarrow> string" where
  "membership_lifecycle_error_message LifecycleTenantMismatch = ''membership tenant mismatch''"
| "membership_lifecycle_error_message LifecycleMembershipInactive = ''membership is not active''"
| "membership_lifecycle_error_message LifecycleBoundaryNotEmpty = ''tenant boundary is not empty''"
| "membership_lifecycle_error_message LifecycleOwnerRequired = ''active tenant owner is required''"
| "membership_lifecycle_error_message LifecycleInvalidSuccessor = ''owner successor must be a different active member''"
| "membership_lifecycle_error_message LifecycleOwnerInvariantViolation = ''tenant owner invariant is violated''"
| "membership_lifecycle_error_message LifecycleLastActiveOwner = ''last active owner cannot be suspended or revoked''"
| "membership_lifecycle_error_message LifecycleInvalidTransition = ''membership status transition is invalid''"

record tenant_boundary_summary =
  tb_membership_count :: u64
  tb_active_owner_count :: u64

datatype owner_bootstrap_decision = BootstrapCreate membership | BootstrapExisting membership

definition decide_owner_bootstrap ::
    "tenant_scope \<Rightarrow> actor_id \<Rightarrow> tenant_boundary_summary \<Rightarrow> membership option
     \<Rightarrow> membership_lifecycle_error + owner_bootstrap_decision" where
  "decide_owner_bootstrap scope actor_id boundary existing_membership =
     (case existing_membership of
        Some existing \<Rightarrow>
          if mb_tenant_id existing = scope_tenant_id scope \<and> mb_actor_id existing = actor_id
             \<and> mb_role existing = TenantOwner \<and> mb_status existing = MembershipActive
          then Inr (BootstrapExisting existing) else Inl LifecycleBoundaryNotEmpty
      | None \<Rightarrow>
          if tb_membership_count boundary \<noteq> 0 \<or> tb_active_owner_count boundary \<noteq> 0
          then Inl LifecycleBoundaryNotEmpty
          else Inr (BootstrapCreate \<lparr>mb_tenant_id = scope_tenant_id scope, mb_actor_id = actor_id,
                      mb_role = TenantOwner, mb_status = MembershipActive\<rparr>))"

definition resolve_actor_context ::
    "tenant_scope \<Rightarrow> membership \<Rightarrow> correlation_id \<Rightarrow> membership_lifecycle_error + actor_context" where
  "resolve_actor_context scope m correlation_id =
     (if mb_tenant_id m \<noteq> scope_tenant_id scope then Inl LifecycleTenantMismatch
      else if mb_status m \<noteq> MembershipActive then Inl LifecycleMembershipInactive
      else Inr \<lparr>actor_tenant_scope = scope, actor_actor_id = mb_actor_id m, actor_correlation_id = correlation_id\<rparr>)"

record owner_transfer_decision =
  ot_previous_owner :: membership
  ot_next_owner :: membership

definition decide_owner_transfer ::
    "actor_context \<Rightarrow> membership \<Rightarrow> membership \<Rightarrow> tenant_boundary_summary
     \<Rightarrow> membership_lifecycle_error + owner_transfer_decision" where
  "decide_owner_transfer actor current_owner next_owner boundary =
     (if actor_tenant actor \<noteq> mb_tenant_id current_owner \<or> actor_tenant actor \<noteq> mb_tenant_id next_owner
      then Inl LifecycleTenantMismatch
      else if actor_actor_id actor \<noteq> mb_actor_id current_owner \<or> mb_role current_owner \<noteq> TenantOwner
              \<or> mb_status current_owner \<noteq> MembershipActive
      then Inl LifecycleOwnerRequired
      else if mb_actor_id next_owner = mb_actor_id current_owner \<or> mb_role next_owner \<noteq> Member
              \<or> mb_status next_owner \<noteq> MembershipActive
      then Inl LifecycleInvalidSuccessor
      else if tb_active_owner_count boundary \<noteq> 1 then Inl LifecycleOwnerInvariantViolation
      else Inr \<lparr>ot_previous_owner = \<lparr>mb_tenant_id = mb_tenant_id current_owner, mb_actor_id = mb_actor_id current_owner,
                    mb_role = Member, mb_status = MembershipActive\<rparr>,
                ot_next_owner = \<lparr>mb_tenant_id = mb_tenant_id next_owner, mb_actor_id = mb_actor_id next_owner,
                    mb_role = TenantOwner, mb_status = MembershipActive\<rparr>\<rparr>)"

datatype membership_command = ActivateMembership | SuspendMembership | RevokeMembership

fun membership_command_status :: "membership_command \<Rightarrow> membership_status" where
  "membership_command_status ActivateMembership = MembershipActive"
| "membership_command_status SuspendMembership = MembershipSuspended"
| "membership_command_status RevokeMembership = MembershipRevoked"

definition require_active_owner :: "actor_context \<Rightarrow> membership \<Rightarrow> membership_lifecycle_error + unit" where
  "require_active_owner actor m =
     (if actor_tenant actor \<noteq> mb_tenant_id m then Inl LifecycleTenantMismatch
      else if actor_actor_id actor \<noteq> mb_actor_id m \<or> mb_role m \<noteq> TenantOwner \<or> mb_status m \<noteq> MembershipActive
      then Inl LifecycleOwnerRequired else Inr ())"

definition decide_membership_status_change ::
    "actor_context \<Rightarrow> membership \<Rightarrow> membership \<Rightarrow> tenant_boundary_summary \<Rightarrow> membership_command
     \<Rightarrow> membership_lifecycle_error + membership" where
  "decide_membership_status_change actor actor_membership target boundary command =
     res_bind (require_active_owner actor actor_membership) (\<lambda>_.
     if actor_tenant actor \<noteq> mb_tenant_id target then Inl LifecycleTenantMismatch
     else let next_status = membership_command_status command in
       if mb_role target = TenantOwner \<and> mb_status target = MembershipActive
          \<and> next_status \<noteq> MembershipActive \<and> tb_active_owner_count boundary \<le> 1
       then Inl LifecycleLastActiveOwner
       else if mb_status target = MembershipRevoked \<and> command \<noteq> RevokeMembership
       then Inl LifecycleInvalidTransition
       else Inr (target\<lparr>mb_status := next_status\<rparr>))"

section \<open>Invitations\<close>

definition min_contact_hmac_length :: nat where "min_contact_hmac_length = 16"
definition max_contact_hmac_length :: nat where "max_contact_hmac_length = 256"

datatype invitation_status = InvitationPending | InvitationAccepted | InvitationExpired | InvitationRevoked

record invitation =
  iv_tenant_id :: tenant_id
  iv_invitation_id :: invitation_id
  iv_invited_contact_hmac :: string
  iv_status :: invitation_status
  iv_expires_at :: unix_millis
  iv_created_by_actor_id :: actor_id

datatype invitation_error =
    InvitationMembership membership_lifecycle_error
  | InvitationInvalidContactHmac | InvitationInvalidExpiry | InvitationInvalidIdentity
  | InvitationTenantMismatch | InvitationNotPending | InvitationHasExpired

fun invitation_error_message :: "invitation_error \<Rightarrow> string" where
  "invitation_error_message (InvitationMembership e) = membership_lifecycle_error_message e"
| "invitation_error_message InvitationInvalidContactHmac = ''invitation contact HMAC is invalid''"
| "invitation_error_message InvitationInvalidExpiry = ''invitation expiry must be in the future''"
| "invitation_error_message InvitationInvalidIdentity = ''invitation identity is invalid''"
| "invitation_error_message InvitationTenantMismatch = ''invitation tenant mismatch''"
| "invitation_error_message InvitationNotPending = ''invitation is not pending''"
| "invitation_error_message InvitationHasExpired = ''invitation has expired''"

definition invitation_create ::
    "actor_context \<Rightarrow> membership \<Rightarrow> invitation_id \<Rightarrow> string \<Rightarrow> unix_millis \<Rightarrow> unix_millis
     \<Rightarrow> invitation_error + invitation" where
  "invitation_create actor actor_membership invitation_id hmac expires_at now =
     res_bind (res_map_err InvitationMembership (require_active_owner actor actor_membership)) (\<lambda>_.
     if \<not> (min_contact_hmac_length \<le> length hmac \<and> length hmac \<le> max_contact_hmac_length) \<or> \<not> list_all id_char hmac
     then Inl InvitationInvalidContactHmac
     else if expires_at \<le> now then Inl InvitationInvalidExpiry
     else Inr \<lparr>iv_tenant_id = actor_tenant actor, iv_invitation_id = invitation_id, iv_invited_contact_hmac = hmac,
               iv_status = InvitationPending, iv_expires_at = expires_at,
               iv_created_by_actor_id = actor_actor_id actor\<rparr>)"

definition invitation_accept ::
    "identity_id \<Rightarrow> actor_id \<Rightarrow> unix_millis \<Rightarrow> invitation \<Rightarrow> (invitation_error + membership) \<times> invitation" where
  "invitation_accept identity_id actor_id now iv =
     (if iv_status iv \<noteq> InvitationPending then (Inl InvitationNotPending, iv)
      else if iv_expires_at iv \<le> now then (Inl InvitationHasExpired, iv\<lparr>iv_status := InvitationExpired\<rparr>)
      else if id_as_str identity_id = [] then (Inl InvitationInvalidIdentity, iv)
      else (Inr \<lparr>mb_tenant_id = iv_tenant_id iv, mb_actor_id = actor_id, mb_role = Member, mb_status = MembershipActive\<rparr>,
            iv\<lparr>iv_status := InvitationAccepted\<rparr>))"

definition invitation_revoke ::
    "actor_context \<Rightarrow> membership \<Rightarrow> invitation \<Rightarrow> (invitation_error + unit) \<times> invitation" where
  "invitation_revoke actor actor_membership iv =
     or_return (res_map_err InvitationMembership (require_active_owner actor actor_membership)) iv (\<lambda>_.
       if actor_tenant actor \<noteq> iv_tenant_id iv then (Inl InvitationTenantMismatch, iv)
       else if iv_status iv \<noteq> InvitationPending then (Inl InvitationNotPending, iv)
       else (Inr (), iv\<lparr>iv_status := InvitationRevoked\<rparr>))"

end
