(* ===== verification/Tenant_Directory.thy ===== *)
theory Tenant_Directory
  imports Identity_Access
begin

text \<open>
  The memberships of one tenant under the decisions of \<open>lifecycle.rs\<close> and \<open>invitation.rs\<close>.  A decision is
  taken on rows of the table and on a summary that counts it; what it returns is written back.  The
  tenant starts with the first owner's bootstrap.
\<close>

type_synonym membership_table = "actor_id \<Rightarrow> membership option"

definition is_active_owner :: "membership \<Rightarrow> bool" where
  "is_active_owner m \<longleftrightarrow> mb_role m = TenantOwner \<and> mb_status m = MembershipActive"

definition active_owners :: "membership_table \<Rightarrow> actor_id set" where
  "active_owners T = {a. \<exists>m. T a = Some m \<and> is_active_owner m}"

definition summarises :: "tenant_boundary_summary \<Rightarrow> membership_table \<Rightarrow> bool" where
  "summarises b T \<longleftrightarrow> unat (tb_membership_count b) = card (dom T) \<and> unat (tb_active_owner_count b) = card (active_owners T)"

inductive directory_step :: "tenant_scope \<Rightarrow> membership_table \<Rightarrow> membership_table \<Rightarrow> bool" for scope where
  bootstrap: "summarises b T \<Longrightarrow> decide_owner_bootstrap scope a b (T a) = Inr (BootstrapCreate m) \<Longrightarrow>
     directory_step scope T (T(a \<mapsto> m))"
| transfer: "summarises b T \<Longrightarrow> T i = Some current \<Longrightarrow> T j = Some successor \<Longrightarrow> actor_tenant_scope actor = scope \<Longrightarrow>
     decide_owner_transfer actor current successor b = Inr d \<Longrightarrow>
     directory_step scope T (T(i \<mapsto> ot_previous_owner d, j \<mapsto> ot_next_owner d))"
| status: "summarises b T \<Longrightarrow> T i = Some own \<Longrightarrow> T j = Some target \<Longrightarrow> actor_tenant_scope actor = scope \<Longrightarrow>
     decide_membership_status_change actor own target b command = Inr m \<Longrightarrow>
     directory_step scope T (T(j \<mapsto> m))"
| accept: "T a = None \<Longrightarrow> iv_tenant_id iv = scope_tenant_id scope \<Longrightarrow>
     invitation_accept identity a now iv = (Inr m, iv') \<Longrightarrow> directory_step scope T (T(a \<mapsto> m))"

inductive directory_reachable :: "tenant_scope \<Rightarrow> membership_table \<Rightarrow> bool" for scope where
  founded: "summarises b Map.empty \<Longrightarrow> decide_owner_bootstrap scope a b None = Inr (BootstrapCreate m) \<Longrightarrow>
     directory_reachable scope [a \<mapsto> m]"
| step: "directory_reachable scope T \<Longrightarrow> directory_step scope T T' \<Longrightarrow> directory_reachable scope T'"

definition directory_inv :: "tenant_scope \<Rightarrow> actor_id \<Rightarrow> membership_table \<Rightarrow> bool" where
  "directory_inv scope owner T \<longleftrightarrow> finite (dom T)
     \<and> (\<forall>a m. T a = Some m \<longrightarrow> mb_actor_id m = a \<and> mb_tenant_id m = scope_tenant_id scope
          \<and> (mb_role m = TenantOwner \<longleftrightarrow> a = owner))
     \<and> (\<exists>m. T owner = Some m \<and> is_active_owner m)"

lemma directory_invD:
  assumes "directory_inv scope owner T"
  shows "finite (dom T)" "T a = Some m \<Longrightarrow> mb_actor_id m = a" "T a = Some m \<Longrightarrow> mb_tenant_id m = scope_tenant_id scope"
    "T a = Some m \<Longrightarrow> mb_role m = TenantOwner \<longleftrightarrow> a = owner" "\<exists>m. T owner = Some m \<and> is_active_owner m"
  using assms unfolding directory_inv_def by blast+

lemma directory_invI:
  assumes "finite (dom T)"
    "\<And>a m. T a = Some m \<Longrightarrow> mb_actor_id m = a \<and> mb_tenant_id m = scope_tenant_id scope \<and> (mb_role m = TenantOwner \<longleftrightarrow> a = owner)"
    "T owner = Some m" "is_active_owner m"
  shows "directory_inv scope owner T"
  using assms unfolding directory_inv_def by blast

lemma active_owners_single: "directory_inv scope owner T \<Longrightarrow> active_owners T = {owner}"
  unfolding active_owners_def is_active_owner_def directory_inv_def by auto

lemma decide_owner_bootstrap_create:
  "decide_owner_bootstrap scope a b existing = Inr (BootstrapCreate m) \<longleftrightarrow>
     existing = None \<and> tb_membership_count b = 0 \<and> tb_active_owner_count b = 0
     \<and> m = \<lparr>mb_tenant_id = scope_tenant_id scope, mb_actor_id = a, mb_role = TenantOwner, mb_status = MembershipActive\<rparr>"
  by (auto simp: decide_owner_bootstrap_def split: option.splits if_splits)

lemma decide_owner_transfer_InrD:
  assumes "decide_owner_transfer actor current successor b = Inr d"
  shows "mb_actor_id successor \<noteq> mb_actor_id current" "mb_role current = TenantOwner" "mb_role successor = Member"
    "d = \<lparr>ot_previous_owner = current\<lparr>mb_role := Member\<rparr>, ot_next_owner = successor\<lparr>mb_role := TenantOwner\<rparr>\<rparr>"
    "mb_status successor = MembershipActive" "tb_active_owner_count b = 1"
  using assms by (auto simp: decide_owner_transfer_def split: if_splits)

lemma decide_status_InrD:
  assumes "decide_membership_status_change actor own target b command = Inr m"
  shows "m = target\<lparr>mb_status := membership_command_status command\<rparr>"
    "is_active_owner target \<Longrightarrow> membership_command_status command \<noteq> MembershipActive \<Longrightarrow> 1 < tb_active_owner_count b"
  using assms
  by (auto simp: decide_membership_status_change_def res_bind_Inr_iff is_active_owner_def Let_def not_le split: if_splits)

lemma directory_step_inv:
  assumes "directory_step scope T T'" "directory_inv scope owner T"
  shows "\<exists>owner'. directory_inv scope owner' T'"
  using assms
proof (induction rule: directory_step.induct)
  case (bootstrap b T a m)
  have "card (dom T) = 0" using bootstrap.hyps by (simp add: summarises_def decide_owner_bootstrap_create)
  then show ?case using directory_invD(1,5) [OF bootstrap.prems] by (auto simp: card_eq_0_iff)
next
  case (transfer b T i current j successor actor d)
  note v = directory_invD [OF transfer.prems] and t = decide_owner_transfer_InrD [OF transfer.hyps(5)]
  have ids: "mb_actor_id current = i" "mb_actor_id successor = j" "i = owner" "i \<noteq> j"
    using v(2,4) transfer.hyps(2,3) t(1,2) by auto
  have "directory_inv scope j (T(i \<mapsto> ot_previous_owner d, j \<mapsto> ot_next_owner d))"
  proof (rule directory_invI)
    show "finite (dom (T(i \<mapsto> ot_previous_owner d, j \<mapsto> ot_next_owner d)))" using v(1) by simp
    show "mb_actor_id m = a \<and> mb_tenant_id m = scope_tenant_id scope \<and> (mb_role m = TenantOwner \<longleftrightarrow> a = j)"
      if "(T(i \<mapsto> ot_previous_owner d, j \<mapsto> ot_next_owner d)) a = Some m" for a m
      using that v(2,3,4) transfer.hyps(2,3) t(4) ids by (auto split: if_splits)
    show "(T(i \<mapsto> ot_previous_owner d, j \<mapsto> ot_next_owner d)) j = Some (successor\<lparr>mb_role := TenantOwner\<rparr>)"
      using t(4) by simp
    show "is_active_owner (successor\<lparr>mb_role := TenantOwner\<rparr>)" using t(5) by (simp add: is_active_owner_def)
  qed
  then show ?case ..
next
  case (status b T i own j target actor command m)
  note v = directory_invD [OF status.prems] and s = decide_status_InrD [OF status.hyps(5)]
  obtain mo where mo: "T owner = Some mo" "is_active_owner mo" using v(5) by blast
  have one: "unat (tb_active_owner_count b) = 1"
    using status.hyps(1) active_owners_single [OF status.prems] by (simp add: summarises_def)
  have "directory_inv scope owner (T(j \<mapsto> m))"
  proof (rule directory_invI)
    show "finite (dom (T(j \<mapsto> m)))" using v(1) by simp
    show "mb_actor_id x = a \<and> mb_tenant_id x = scope_tenant_id scope \<and> (mb_role x = TenantOwner \<longleftrightarrow> a = owner)"
      if "(T(j \<mapsto> m)) a = Some x" for a x
      using that v(2,3,4) status.hyps(3) s(1) by (auto split: if_splits)
    show "(T(j \<mapsto> m)) owner = Some (if j = owner then m else mo)" using mo by simp
    have "mb_status m = MembershipActive" if "j = owner"
      using that mo status.hyps(3) s one by (auto simp: word_less_nat_alt)
    then show "is_active_owner (if j = owner then m else mo)"
      using mo status.hyps(3) s(1) by (auto simp: is_active_owner_def)
  qed
  then show ?case ..
next
  case (accept T a iv identity now m iv')
  note v = directory_invD [OF accept.prems]
  obtain mo where mo: "T owner = Some mo" "is_active_owner mo" using v(5) by blast
  have m: "m = \<lparr>mb_tenant_id = scope_tenant_id scope, mb_actor_id = a, mb_role = Member, mb_status = MembershipActive\<rparr>"
    using accept.hyps(2,3) by (auto simp: invitation_accept_def split: if_splits)
  have "directory_inv scope owner (T(a \<mapsto> m))"
  proof (rule directory_invI)
    show "finite (dom (T(a \<mapsto> m)))" using v(1) by simp
    show "mb_actor_id x = c \<and> mb_tenant_id x = scope_tenant_id scope \<and> (mb_role x = TenantOwner \<longleftrightarrow> c = owner)"
      if "(T(a \<mapsto> m)) c = Some x" for c x
      using that v(2,3,4) m mo(1) accept.hyps(1) by (auto split: if_splits)
    show "(T(a \<mapsto> m)) owner = Some mo" using mo(1) accept.hyps(1) by auto
    show "is_active_owner mo" by (rule mo(2))
  qed
  then show ?case ..
qed

lemma directory_founded_inv:
  assumes "decide_owner_bootstrap scope a b None = Inr (BootstrapCreate m)"
  shows "directory_inv scope a [a \<mapsto> m]"
  using assms by (intro directory_invI) (auto simp: decide_owner_bootstrap_create is_active_owner_def split: if_splits)

lemma directory_reachable_inv: "directory_reachable scope T \<Longrightarrow> \<exists>owner. directory_inv scope owner T"
proof (induction rule: directory_reachable.induct)
  case (founded b a m)
  show ?case using directory_founded_inv [OF founded(2)] by blast
next
  case (step T T')
  then show ?case using directory_step_inv by blast
qed

end
