(* ===== verification/Reachability.thy ===== *)
theory Reachability
  imports Prelude
begin

text \<open>
  The contract of a transition system with an invariant: the start has it and every step keeps it.
  The stores of the tenant domains are instances.
\<close>

locale reachable_invariant =
  fixes start :: "'s \<Rightarrow> bool"
    and move :: "'s \<Rightarrow> 's \<Rightarrow> bool"
    and holds :: "'s \<Rightarrow> bool"
  assumes start_holds: "start s \<Longrightarrow> holds s"
    and move_holds: "move s t \<Longrightarrow> holds s \<Longrightarrow> holds t"
begin

lemma moves_hold: "move\<^sup>*\<^sup>* s t \<Longrightarrow> holds s \<Longrightarrow> holds t"
  by (induction rule: rtranclp_induct) (auto intro: move_holds)

lemma reached_holds: "move\<^sup>*\<^sup>* s t \<Longrightarrow> start s \<Longrightarrow> holds t"
  by (blast intro: moves_hold start_holds)

end

end
