(* ===== verification/Client_Domain.thy ===== *)
theory Client_Domain
  imports Utf8_Text Reachability
begin

text \<open>
  \<open>crates/client-domain\<close>: client records (\<open>client.rs\<close>), the assignment of profiles to a primary client
  (\<open>assignment.rs\<close>) and merges (\<open>merge.rs\<close>).
\<close>

section \<open>Clients\<close>

definition max_display_name_length :: nat where "max_display_name_length = 200"

datatype client_type = Person | Organization
datatype client_status = ClientActive | ClientArchived | ClientMerged

fun client_type_code :: "client_type \<Rightarrow> string" where
  "client_type_code Person = ''PERSON''"
| "client_type_code Organization = ''ORGANIZATION''"

fun client_status_code :: "client_status \<Rightarrow> string" where
  "client_status_code ClientActive = ''ACTIVE''"
| "client_status_code ClientArchived = ''ARCHIVED''"
| "client_status_code ClientMerged = ''MERGED''"

record client_record =
  cr_tenant_id :: tenant_id
  cr_client_id :: client_id
  cr_version :: aggregate_version
  cr_kind :: client_type
  cr_display_name :: string
  cr_status :: client_status

datatype client_error = ClInvalidDisplayName | ClInvalidStatusTransition | ClVersionOverflow

fun client_error_message :: "client_error \<Rightarrow> string" where
  "client_error_message ClInvalidDisplayName = ''client display name is invalid''"
| "client_error_message ClInvalidStatusTransition = ''client status transition is invalid''"
| "client_error_message ClVersionOverflow = ''client version overflow''"

definition normalize_display_name :: "string \<Rightarrow> client_error + string" where
  "normalize_display_name raw =
     (let value = str_trim raw in
      if value = [] \<or> max_display_name_length < length value then Inl ClInvalidDisplayName else Inr value)"

definition client_restore ::
    "tenant_id \<Rightarrow> client_id \<Rightarrow> aggregate_version \<Rightarrow> client_type \<Rightarrow> string \<Rightarrow> client_status \<Rightarrow> client_error + client_record" where
  "client_restore tenant_id client_id version kind display_name status =
     res_bind (normalize_display_name display_name) (\<lambda>name.
       Inr \<lparr>cr_tenant_id = tenant_id, cr_client_id = client_id, cr_version = version, cr_kind = kind,
            cr_display_name = name, cr_status = status\<rparr>)"

definition client_create :: "tenant_id \<Rightarrow> client_id \<Rightarrow> client_type \<Rightarrow> string \<Rightarrow> client_error + client_record" where
  "client_create tenant_id client_id kind display_name =
     client_restore tenant_id client_id version_initial kind display_name ClientActive"

definition client_rename :: "string \<Rightarrow> client_record \<Rightarrow> (client_error + unit) \<times> client_record" where
  "client_rename display_name c =
     (if cr_status c \<noteq> ClientActive then (Inl ClInvalidStatusTransition, c)
      else or_return (normalize_display_name display_name) c (\<lambda>name.
           or_return (res_map_err (\<lambda>_. ClVersionOverflow) (version_next (cr_version c))) c (\<lambda>next_version.
             (Inr (), c\<lparr>cr_display_name := name, cr_version := next_version\<rparr>))))"

definition client_archive :: "client_record \<Rightarrow> (client_error + unit) \<times> client_record" where
  "client_archive c =
     (if cr_status c \<noteq> ClientActive then (Inl ClInvalidStatusTransition, c)
      else or_return (res_map_err (\<lambda>_. ClVersionOverflow) (version_next (cr_version c))) c (\<lambda>next_version.
             (Inr (), c\<lparr>cr_status := ClientArchived, cr_version := next_version\<rparr>)))"

definition client_mark_merged :: "client_record \<Rightarrow> (client_error + unit) \<times> client_record" where
  "client_mark_merged c =
     (if cr_status c \<noteq> ClientActive then (Inl ClInvalidStatusTransition, c)
      else or_return (res_map_err (\<lambda>_. ClVersionOverflow) (version_next (cr_version c))) c (\<lambda>next_version.
             (Inr (), c\<lparr>cr_status := ClientMerged, cr_version := next_version\<rparr>)))"

section \<open>Merges\<close>

datatype client_merge_state = NotMerged | MergedInto client_id

datatype client_merge_error =
    MergeTenantMismatch | SelfMerge | SourceVersionConflict | TargetVersionConflict | SourceNotActive
  | SourceAlreadyMerged | TargetNotActive | MergeCycle | MergeVersionOverflow | InvalidSourceState

fun client_merge_error_message :: "client_merge_error \<Rightarrow> string" where
  "client_merge_error_message MergeTenantMismatch = ''source and target client tenants differ''"
| "client_merge_error_message SelfMerge = ''client cannot be merged into itself''"
| "client_merge_error_message SourceVersionConflict = ''source client merge version conflict''"
| "client_merge_error_message TargetVersionConflict = ''target client merge version conflict''"
| "client_merge_error_message SourceNotActive = ''source client is not active''"
| "client_merge_error_message SourceAlreadyMerged = ''source client is already merged''"
| "client_merge_error_message TargetNotActive = ''target client is not active''"
| "client_merge_error_message MergeCycle = ''merge target is already merged''"
| "client_merge_error_message MergeVersionOverflow = ''source client merge version overflow''"
| "client_merge_error_message InvalidSourceState = ''source client merge state is invalid''"

definition merged_into :: "client_id \<Rightarrow> client_id \<Rightarrow> client_merge_error + client_merge_state" where
  "merged_into source target = (if source = target then Inl SelfMerge else Inr (MergedInto target))"

fun merge_target :: "client_merge_state \<Rightarrow> client_id option" where
  "merge_target NotMerged = None"
| "merge_target (MergedInto t) = Some t"

record client_merge_plan =
  mp_tenant_id :: tenant_id
  mp_source_client_id :: client_id
  mp_target_client_id :: client_id
  mp_source_expected_version :: aggregate_version
  mp_target_expected_version :: aggregate_version
  mp_source_next_version :: aggregate_version
  mp_merge_state :: client_merge_state

fun map_source_transition_error :: "client_error \<Rightarrow> client_merge_error" where
  "map_source_transition_error ClVersionOverflow = MergeVersionOverflow"
| "map_source_transition_error ClInvalidStatusTransition = SourceNotActive"
| "map_source_transition_error ClInvalidDisplayName = InvalidSourceState"

definition merge_source_check :: "client_status \<Rightarrow> client_merge_error + unit" where
  "merge_source_check s = (case s of ClientActive \<Rightarrow> Inr () | ClientMerged \<Rightarrow> Inl SourceAlreadyMerged
     | ClientArchived \<Rightarrow> Inl SourceNotActive)"

definition merge_target_check :: "client_status \<Rightarrow> client_merge_error + unit" where
  "merge_target_check s = (case s of ClientActive \<Rightarrow> Inr () | ClientMerged \<Rightarrow> Inl MergeCycle
     | ClientArchived \<Rightarrow> Inl TargetNotActive)"

definition merge_clients ::
    "client_record \<Rightarrow> aggregate_version \<Rightarrow> aggregate_version \<Rightarrow> client_record
     \<Rightarrow> (client_merge_error + client_merge_plan) \<times> client_record" where
  \<comment> \<open>the source is the record that changes\<close>
  "merge_clients target source_expected_version target_expected_version source =
     (if cr_tenant_id source \<noteq> cr_tenant_id target then (Inl MergeTenantMismatch, source)
      else if cr_client_id source = cr_client_id target then (Inl SelfMerge, source)
      else if cr_version source \<noteq> source_expected_version then (Inl SourceVersionConflict, source)
      else if cr_version target \<noteq> target_expected_version then (Inl TargetVersionConflict, source)
      else or_return (merge_source_check (cr_status source)) source (\<lambda>_.
           or_return (merge_target_check (cr_status target)) source (\<lambda>_.
           or_return (merged_into (cr_client_id source) (cr_client_id target)) source (\<lambda>merge_state.
           (case client_mark_merged source of
              (Inl e, source') \<Rightarrow> (Inl (map_source_transition_error e), source')
            | (Inr _, source') \<Rightarrow>
                (Inr \<lparr>mp_tenant_id = cr_tenant_id source, mp_source_client_id = cr_client_id source,
                      mp_target_client_id = cr_client_id target,
                      mp_source_expected_version = source_expected_version,
                      mp_target_expected_version = target_expected_version,
                      mp_source_next_version = cr_version source', mp_merge_state = merge_state\<rparr>, source'))))))"

section \<open>Assignments\<close>

definition max_reason_length :: nat where "max_reason_length = 500"

datatype assignment_role = Primary
datatype assignment_status = AssignmentActive | AssignmentClosed

fun assignment_role_code :: "assignment_role \<Rightarrow> string" where
  "assignment_role_code Primary = ''PRIMARY''"

record profile_client_assignment =
  as_tenant_id :: tenant_id
  as_assignment_id :: assignment_id
  as_profile_id :: profile_id
  as_client_id :: client_id
  as_role :: assignment_role
  as_status :: assignment_status
  as_assigned_by :: actor_id
  as_assigned_at :: unix_millis
  as_closed_at :: "unix_millis option"
  as_reason :: string

datatype assignment_error =
    AsgTenantMismatch | AsgClientNotActive | AsgInvalidReason | AsgAlreadyClosed | AsgInvalidCloseTime
  | AsgCurrentScopeMismatch | AsgCurrentNotActivePrimary | AsgAlreadyPrimaryClient

fun assignment_error_message :: "assignment_error \<Rightarrow> string" where
  "assignment_error_message AsgTenantMismatch = ''profile and client tenant differ''"
| "assignment_error_message AsgClientNotActive = ''client is not active''"
| "assignment_error_message AsgInvalidReason = ''assignment reason is invalid''"
| "assignment_error_message AsgAlreadyClosed = ''assignment is already closed''"
| "assignment_error_message AsgInvalidCloseTime = ''assignment close time precedes assignment time''"
| "assignment_error_message AsgCurrentScopeMismatch = ''current assignment belongs to another profile scope''"
| "assignment_error_message AsgCurrentNotActivePrimary = ''current assignment is not an active primary assignment''"
| "assignment_error_message AsgAlreadyPrimaryClient = ''profile is already assigned to the requested primary client''"

definition assignment_assign ::
    "tenant_id \<Rightarrow> assignment_id \<Rightarrow> profile_id \<Rightarrow> client_record \<Rightarrow> actor_id \<Rightarrow> unix_millis \<Rightarrow> string
     \<Rightarrow> assignment_error + profile_client_assignment" where
  "assignment_assign profile_tenant_id assignment_id profile_id client assigned_by assigned_at raw_reason =
     (if profile_tenant_id \<noteq> cr_tenant_id client then Inl AsgTenantMismatch
      else if cr_status client \<noteq> ClientActive then Inl AsgClientNotActive
      else let reason = str_trim raw_reason in
        if reason = [] \<or> max_reason_length < length reason then Inl AsgInvalidReason
        else Inr \<lparr>as_tenant_id = profile_tenant_id, as_assignment_id = assignment_id, as_profile_id = profile_id,
                  as_client_id = cr_client_id client, as_role = Primary, as_status = AssignmentActive,
                  as_assigned_by = assigned_by, as_assigned_at = assigned_at, as_closed_at = None,
                  as_reason = reason\<rparr>)"

definition assignment_close ::
    "unix_millis \<Rightarrow> profile_client_assignment \<Rightarrow> (assignment_error + unit) \<times> profile_client_assignment" where
  "assignment_close closed_at a =
     (if as_status a \<noteq> AssignmentActive then (Inl AsgAlreadyClosed, a)
      else if closed_at < as_assigned_at a then (Inl AsgInvalidCloseTime, a)
      else (Inr (), a\<lparr>as_status := AssignmentClosed, as_closed_at := Some closed_at\<rparr>))"

record primary_reassignment_intent =
  ri_assignment_id :: assignment_id
  ri_assigned_by :: actor_id
  ri_assigned_at :: unix_millis
  ri_reason :: string

record primary_assignment_transition =
  at_closed_previous :: "profile_client_assignment option"
  at_next :: profile_client_assignment

definition validate_current_primary ::
    "tenant_id \<Rightarrow> profile_id \<Rightarrow> profile_client_assignment \<Rightarrow> assignment_error + unit" where
  "validate_current_primary profile_tenant_id profile_id current =
     (if as_tenant_id current \<noteq> profile_tenant_id \<or> as_profile_id current \<noteq> profile_id then Inl AsgCurrentScopeMismatch
      else if as_role current \<noteq> Primary \<or> as_status current \<noteq> AssignmentActive then Inl AsgCurrentNotActivePrimary
      else Inr ())"

definition closed_copy :: "unix_millis \<Rightarrow> profile_client_assignment \<Rightarrow> assignment_error + profile_client_assignment" where
  \<comment> \<open>\<open>let mut closed = current.clone(); closed.close(at)?;\<close>\<close>
  "closed_copy closed_at current =
     (case assignment_close closed_at current of (Inl e, _) \<Rightarrow> Inl e | (Inr _, closed) \<Rightarrow> Inr closed)"

definition plan_primary_reassignment ::
    "tenant_id \<Rightarrow> profile_id \<Rightarrow> profile_client_assignment option \<Rightarrow> client_record \<Rightarrow> primary_reassignment_intent
     \<Rightarrow> assignment_error + primary_assignment_transition" where
  "plan_primary_reassignment profile_tenant_id profile_id current next_client intent =
     res_bind (assignment_assign profile_tenant_id (ri_assignment_id intent) profile_id next_client
                (ri_assigned_by intent) (ri_assigned_at intent) (ri_reason intent)) (\<lambda>nxt.
     res_bind (case current of
                 None \<Rightarrow> Inr None
               | Some previous \<Rightarrow>
                   res_bind (validate_current_primary profile_tenant_id profile_id previous) (\<lambda>_.
                   if as_client_id previous = as_client_id nxt then Inl AsgAlreadyPrimaryClient
                   else res_bind (closed_copy (as_assigned_at nxt) previous) (\<lambda>closed. Inr (Some closed))))
       (\<lambda>closed_previous. Inr \<lparr>at_closed_previous = closed_previous, at_next = nxt\<rparr>))"

definition plan_primary_detachment ::
    "tenant_id \<Rightarrow> profile_id \<Rightarrow> profile_client_assignment \<Rightarrow> unix_millis \<Rightarrow> assignment_error + profile_client_assignment" where
  \<comment> \<open>a \<open>PrimaryDetachmentTransition\<close> is its one field \<open>closed\<close>\<close>
  "plan_primary_detachment profile_tenant_id profile_id current closed_at =
     res_bind (validate_current_primary profile_tenant_id profile_id current) (\<lambda>_. closed_copy closed_at current)"

section \<open>When the operations succeed\<close>

lemma normalize_display_name_Inr [ok_iff]:
  "normalize_display_name raw = Inr name \<longleftrightarrow>
     name = str_trim raw \<and> name \<noteq> [] \<and> length name \<le> max_display_name_length"
  by (auto simp: normalize_display_name_def Let_def)

lemma client_rename_Inr [ok_iff]:
  "client_rename raw c = (Inr u, c') \<longleftrightarrow> cr_status c = ClientActive
     \<and> (\<exists>name v. normalize_display_name raw = Inr name \<and> version_next (cr_version c) = Inr v
          \<and> c' = c\<lparr>cr_display_name := name, cr_version := v\<rparr>)"
  by (auto simp: client_rename_def or_return_Inr_iff)

lemma client_archive_Inr [ok_iff]:
  "client_archive c = (Inr u, c') \<longleftrightarrow> cr_status c = ClientActive
     \<and> (\<exists>v. version_next (cr_version c) = Inr v \<and> c' = c\<lparr>cr_status := ClientArchived, cr_version := v\<rparr>)"
  by (auto simp: client_archive_def or_return_Inr_iff)

lemma client_mark_merged_Inr [ok_iff]:
  "client_mark_merged c = (Inr u, c') \<longleftrightarrow> cr_status c = ClientActive
     \<and> (\<exists>v. version_next (cr_version c) = Inr v \<and> c' = c\<lparr>cr_status := ClientMerged, cr_version := v\<rparr>)"
  by (auto simp: client_mark_merged_def or_return_Inr_iff)

lemma merge_checks [simp]:
  "merge_source_check s = Inr u \<longleftrightarrow> s = ClientActive" "merge_target_check s = Inr u \<longleftrightarrow> s = ClientActive"
  by (cases s; simp add: merge_source_check_def merge_target_check_def)+

lemma merged_into_Inr [simp]: "merged_into s t = Inr m \<longleftrightarrow> s \<noteq> t \<and> m = MergedInto t"
  by (auto simp: merged_into_def)

lemma merge_clients_InrD:
  assumes "merge_clients target sv tv source = (Inr plan, source')"
  shows "cr_tenant_id source = cr_tenant_id target" "cr_client_id source \<noteq> cr_client_id target"
    "cr_status source = ClientActive" "cr_status target = ClientActive"
    "client_mark_merged source = (Inr (), source')"
    "mp_source_client_id plan = cr_client_id source" "mp_merge_state plan = MergedInto (cr_client_id target)"
  using assms
  by (auto simp: merge_clients_def or_return_Inr_iff split: if_splits prod.splits sum.splits)

lemma merge_clients_error_atomic:
  assumes "merge_clients target sv tv source = (Inl e, source')" shows "source' = source"
  using assms
  by (auto simp: merge_clients_def or_return_Inl_iff client_mark_merged_def split: if_splits prod.splits sum.splits)

lemma closed_copy_Inr [ok_iff]:
  "closed_copy at a = Inr b \<longleftrightarrow> as_status a = AssignmentActive \<and> as_assigned_at a \<le> at
     \<and> b = a\<lparr>as_status := AssignmentClosed, as_closed_at := Some at\<rparr>"
  by (auto simp: closed_copy_def assignment_close_def not_less)

lemma validate_current_primary_Inr [simp]:
  "validate_current_primary t p a = Inr u \<longleftrightarrow>
     as_tenant_id a = t \<and> as_profile_id a = p \<and> as_status a = AssignmentActive"
  by (cases "as_role a") (auto simp: validate_current_primary_def)

lemma assignment_assign_InrD:
  assumes "assignment_assign t i p c by_actor at raw = Inr a"
  shows "as_tenant_id a = t" "as_assignment_id a = i" "as_profile_id a = p" "as_client_id a = cr_client_id c"
    "as_status a = AssignmentActive" "as_assigned_at a = at" "as_closed_at a = None" "cr_tenant_id c = t"
    "cr_status c = ClientActive" "as_reason a = str_trim raw" "as_reason a \<noteq> []" "length (as_reason a) \<le> max_reason_length"
  using assms by (auto simp: assignment_assign_def Let_def split: if_splits)

lemma plan_primary_reassignment_Inr [ok_iff]:
  "plan_primary_reassignment t p current c intent = Inr tr \<longleftrightarrow>
     (\<exists>nxt. assignment_assign t (ri_assignment_id intent) p c (ri_assigned_by intent) (ri_assigned_at intent)
              (ri_reason intent) = Inr nxt
        \<and> at_next tr = nxt
        \<and> (case current of None \<Rightarrow> at_closed_previous tr = None
           | Some previous \<Rightarrow> as_tenant_id previous = t \<and> as_profile_id previous = p \<and> as_status previous = AssignmentActive
               \<and> as_client_id previous \<noteq> as_client_id nxt
               \<and> (\<exists>closed. closed_copy (as_assigned_at nxt) previous = Inr closed \<and> at_closed_previous tr = Some closed)))"
  by (cases tr) (auto simp: plan_primary_reassignment_def res_bind_Inr_iff split: option.splits if_splits)

section \<open>Merges over the clients of a store\<close>

text \<open>
  Clients by identifier with the client each was merged into, under the three operations that change
  them.  A merge writes the source and its merge state, as the plan says.
\<close>

record client_world =
  cw_clients :: "client_id \<Rightarrow> client_record option"
  cw_merged :: "client_id \<Rightarrow> client_merge_state"

inductive client_step :: "client_world \<Rightarrow> client_world \<Rightarrow> bool" where
  create: "client_create t i kind name = Inr c \<Longrightarrow> cw_clients w i = None \<Longrightarrow>
     client_step w (w\<lparr>cw_clients := (cw_clients w)(i \<mapsto> c)\<rparr>)"
| rename: "cw_clients w i = Some c \<Longrightarrow> client_rename name c = (Inr (), c') \<Longrightarrow>
     client_step w (w\<lparr>cw_clients := (cw_clients w)(i \<mapsto> c')\<rparr>)"
| archive: "cw_clients w i = Some c \<Longrightarrow> client_archive c = (Inr (), c') \<Longrightarrow>
     client_step w (w\<lparr>cw_clients := (cw_clients w)(i \<mapsto> c')\<rparr>)"
| merge: "cw_clients w i = Some source \<Longrightarrow> cw_clients w j = Some target \<Longrightarrow>
     merge_clients target sv tv source = (Inr plan, source') \<Longrightarrow>
     client_step w (w\<lparr>cw_clients := (cw_clients w)(i \<mapsto> source'),
                     cw_merged := (cw_merged w)(mp_source_client_id plan := mp_merge_state plan)\<rparr>)"

definition client_world_initial :: client_world where
  "client_world_initial = \<lparr>cw_clients = (\<lambda>_. None), cw_merged = (\<lambda>_. NotMerged)\<rparr>"

definition merge_edges :: "client_world \<Rightarrow> (client_id \<times> client_id) set" where
  "merge_edges w = {(i, j). merge_target (cw_merged w i) = Some j}"

definition client_world_inv :: "client_world \<Rightarrow> bool" where
  "client_world_inv w \<longleftrightarrow> finite (dom (cw_clients w)) \<and> acyclic (merge_edges w)
     \<and> (\<forall>i c. cw_clients w i = Some c \<longrightarrow> cr_client_id c = i
          \<and> (cr_status c = ClientMerged \<longleftrightarrow> merge_target (cw_merged w i) \<noteq> None))
     \<and> (\<forall>i j. (i, j) \<in> merge_edges w \<longrightarrow>
          (\<exists>c d. cw_clients w i = Some c \<and> cw_clients w j = Some d \<and> cr_tenant_id c = cr_tenant_id d))"

lemma client_world_invI:
  assumes "finite (dom (cw_clients w))" "acyclic (merge_edges w)"
    "\<And>i c. cw_clients w i = Some c \<Longrightarrow> cr_client_id c = i
       \<and> (cr_status c = ClientMerged \<longleftrightarrow> merge_target (cw_merged w i) \<noteq> None)"
    "\<And>i j. (i, j) \<in> merge_edges w \<Longrightarrow>
       \<exists>c d. cw_clients w i = Some c \<and> cw_clients w j = Some d \<and> cr_tenant_id c = cr_tenant_id d"
  shows "client_world_inv w"
  using assms unfolding client_world_inv_def by blast

lemma client_world_invD:
  assumes "client_world_inv w"
  shows "finite (dom (cw_clients w))" "acyclic (merge_edges w)"
    "cw_clients w i = Some c \<Longrightarrow> cr_client_id c = i"
    "cw_clients w i = Some c \<Longrightarrow> cr_status c = ClientMerged \<longleftrightarrow> merge_target (cw_merged w i) \<noteq> None"
    "(i, j) \<in> merge_edges w \<Longrightarrow>
       \<exists>c d. cw_clients w i = Some c \<and> cw_clients w j = Some d \<and> cr_tenant_id c = cr_tenant_id d"
  using assms unfolding client_world_inv_def by blast+

lemma merge_edges_upd_clients [simp]: "merge_edges (w\<lparr>cw_clients := f\<rparr>) = merge_edges w"
  by (simp add: merge_edges_def)

text \<open>Replacing a client by one of the same identity, tenant and mergedness keeps the invariant.\<close>

lemma client_world_inv_replace:
  assumes inv: "client_world_inv w" and c: "cw_clients w i = Some c"
    and same: "cr_client_id c' = cr_client_id c" "cr_tenant_id c' = cr_tenant_id c"
      "cr_status c' = ClientMerged \<longleftrightarrow> cr_status c = ClientMerged"
  shows "client_world_inv (w\<lparr>cw_clients := (cw_clients w)(i \<mapsto> c')\<rparr>)"
proof (rule client_world_invI)
  note d = client_world_invD [OF inv]
  fix a b assume "(a, b) \<in> merge_edges (w\<lparr>cw_clients := (cw_clients w)(i \<mapsto> c')\<rparr>)"
  then obtain x y where "cw_clients w a = Some x" "cw_clients w b = Some y" "cr_tenant_id x = cr_tenant_id y"
    using d(5) [of a b] by auto
  then show "\<exists>x y. cw_clients (w\<lparr>cw_clients := (cw_clients w)(i \<mapsto> c')\<rparr>) a = Some x
      \<and> cw_clients (w\<lparr>cw_clients := (cw_clients w)(i \<mapsto> c')\<rparr>) b = Some y \<and> cr_tenant_id x = cr_tenant_id y"
    using c same by auto
qed (use client_world_invD [OF inv] c same in \<open>auto split: if_splits\<close>)

lemma client_world_inv_create:
  assumes inv: "client_world_inv w" and new: "cw_clients w i = None"
    and c: "cr_client_id c = i" "cr_status c = ClientActive"
  shows "client_world_inv (w\<lparr>cw_clients := (cw_clients w)(i \<mapsto> c)\<rparr>)"
proof (rule client_world_invI)
  note d = client_world_invD [OF inv]
  have "merge_target (cw_merged w i) = None"
    using d(5) [of i] new by (cases "merge_target (cw_merged w i)") (auto simp: merge_edges_def)
  then show "cr_client_id x = a \<and> (cr_status x = ClientMerged
      \<longleftrightarrow> merge_target (cw_merged (w\<lparr>cw_clients := (cw_clients w)(i \<mapsto> c)\<rparr>) a) \<noteq> None)"
    if "cw_clients (w\<lparr>cw_clients := (cw_clients w)(i \<mapsto> c)\<rparr>) a = Some x" for a x
    using that c d(3,4) by (auto split: if_splits)
  fix a b assume "(a, b) \<in> merge_edges (w\<lparr>cw_clients := (cw_clients w)(i \<mapsto> c)\<rparr>)"
  then obtain x y where "cw_clients w a = Some x" "cw_clients w b = Some y" "cr_tenant_id x = cr_tenant_id y"
    using d(5) [of a b] by auto
  then show "\<exists>x y. cw_clients (w\<lparr>cw_clients := (cw_clients w)(i \<mapsto> c)\<rparr>) a = Some x
      \<and> cw_clients (w\<lparr>cw_clients := (cw_clients w)(i \<mapsto> c)\<rparr>) b = Some y \<and> cr_tenant_id x = cr_tenant_id y"
    using new by auto
qed (use client_world_invD [OF inv] in auto)

lemma client_world_inv_merge:
  assumes inv: "client_world_inv w" and s: "cw_clients w i = Some source" and t: "cw_clients w j = Some target"
    and m: "merge_clients target sv tv source = (Inr plan, source')"
  shows "client_world_inv (w\<lparr>cw_clients := (cw_clients w)(i \<mapsto> source'),
           cw_merged := (cw_merged w)(mp_source_client_id plan := mp_merge_state plan)\<rparr>)" (is "client_world_inv ?w")
proof (rule client_world_invI)
  note d = client_world_invD [OF inv] and md = merge_clients_InrD [OF m]
  have ids: "cr_client_id source = i" "cr_client_id target = j" "i \<noteq> j" using d(3) s t md(2) by auto
  obtain v where s': "source' = source\<lparr>cr_status := ClientMerged, cr_version := v\<rparr>"
    using md(5) by (auto simp: client_mark_merged_Inr)
  have open_ends: "merge_target (cw_merged w i) = None" "merge_target (cw_merged w j) = None"
    using d(4) [OF s] d(4) [OF t] md(3,4) by auto
  have edges: "merge_edges ?w = insert (i, j) (merge_edges w)"
    using open_ends md(6,7) ids by (auto simp: merge_edges_def split: if_splits)
  have "(j, i) \<notin> (merge_edges w)\<^sup>*"
  proof
    assume "(j, i) \<in> (merge_edges w)\<^sup>*"
    then obtain k where "(j, k) \<in> merge_edges w" using ids(3) by (blast elim: converse_rtranclE)
    then show False using open_ends by (simp add: merge_edges_def)
  qed
  then show "acyclic (merge_edges ?w)" using edges d(2) by (simp add: acyclic_insert)
  show "finite (dom (cw_clients ?w))" using d(1) by simp
  show "cr_client_id x = a \<and> (cr_status x = ClientMerged \<longleftrightarrow> merge_target (cw_merged ?w a) \<noteq> None)"
    if "cw_clients ?w a = Some x" for a x
    using that d(3,4) s' ids md(6,7) by (auto split: if_splits)
  fix a b assume "(a, b) \<in> merge_edges ?w"
  then have "(a, b) = (i, j) \<or> (a, b) \<in> merge_edges w" using edges by simp
  then obtain x y where xy: "cw_clients w a = Some x" "cw_clients w b = Some y" "cr_tenant_id x = cr_tenant_id y"
    using d(5) s t md(1) by blast
  then show "\<exists>x y. cw_clients ?w a = Some x \<and> cw_clients ?w b = Some y \<and> cr_tenant_id x = cr_tenant_id y"
    using s s' by auto
qed

lemma client_step_inv:
  assumes "client_step w w'" "client_world_inv w" shows "client_world_inv w'"
  using assms
proof (induction rule: client_step.induct)
  case (create t i kind name c w)
  then show ?case
    by (intro client_world_inv_create) (auto simp: client_create_def client_restore_def res_bind_Inr_iff)
next
  case (rename w i c name c')
  show ?case
    by (rule client_world_inv_replace [OF rename.prems rename.hyps(1)]) (use rename.hyps(2) in \<open>auto simp: client_rename_Inr\<close>)
next
  case (archive w i c c')
  show ?case
    by (rule client_world_inv_replace [OF archive.prems archive.hyps(1)]) (use archive.hyps(2) in \<open>auto simp: client_archive_Inr\<close>)
next
  case (merge w i source j target sv tv plan source')
  show ?case by (rule client_world_inv_merge [OF merge.prems merge.hyps])
qed

lemma client_world_inv_initial: "client_world_inv client_world_initial"
  by (simp add: client_world_inv_def client_world_initial_def merge_edges_def acyclic_def)

interpretation client_store: reachable_invariant "\<lambda>w. w = client_world_initial" client_step client_world_inv
  by unfold_locales (auto simp: client_world_inv_initial dest: client_step_inv)

lemma merge_chain_ends:
  assumes inv: "client_world_inv w" and c: "cw_clients w i = Some c"
  shows "\<exists>j d. (i, j) \<in> (merge_edges w)\<^sup>* \<and> cw_clients w j = Some d \<and> cr_status d \<noteq> ClientMerged
           \<and> cr_tenant_id d = cr_tenant_id c"
proof -
  note d = client_world_invD [OF inv]
  have "merge_edges w \<subseteq> dom (cw_clients w) \<times> dom (cw_clients w)" by (auto dest!: d(5))
  then have "finite (merge_edges w)" using d(1) by (meson finite_SigmaI finite_subset)
  then have "wf ((merge_edges w)\<inverse>)" using d(2) by (rule finite_acyclic_wf_converse)
  then show ?thesis using c
  proof (induction i arbitrary: c rule: wf_induct_rule)
    case (less i)
    show ?case
    proof (cases "merge_target (cw_merged w i)")
      case None
      then have "cr_status c \<noteq> ClientMerged" using d(4) [OF less.prems] by simp
      then show ?thesis using less.prems by blast
    next
      case (Some k)
      then have e: "(i, k) \<in> merge_edges w" by (simp add: merge_edges_def)
      then obtain x where x: "cw_clients w k = Some x" "cr_tenant_id x = cr_tenant_id c"
        using d(5) less.prems by fastforce
      then obtain j y where "(k, j) \<in> (merge_edges w)\<^sup>*" "cw_clients w j = Some y" "cr_status y \<noteq> ClientMerged"
        "cr_tenant_id y = cr_tenant_id x" using less.IH [of k x] e by auto
      then show ?thesis using e x by (metis converse_rtrancl_into_rtrancl)
    qed
  qed
qed

section \<open>Assignments over the table of a tenant\<close>

text \<open>
  Assignments by identifier.  The current assignment of a profile is the active one of the table; a
  transition writes the closed previous assignment and inserts the next one under a new identifier.
\<close>

type_synonym assignment_table = "assignment_id \<Rightarrow> profile_client_assignment option"

definition current_primary :: "assignment_table \<Rightarrow> tenant_id \<Rightarrow> profile_id \<Rightarrow> profile_client_assignment option \<Rightarrow> bool" where
  "current_primary T t p cur \<longleftrightarrow>
     (case cur of
        None \<Rightarrow> \<forall>i a. T i = Some a \<longrightarrow> as_tenant_id a = t \<longrightarrow> as_profile_id a = p \<longrightarrow> as_status a \<noteq> AssignmentActive
      | Some a \<Rightarrow> T (as_assignment_id a) = Some a \<and> as_tenant_id a = t \<and> as_profile_id a = p
          \<and> as_status a = AssignmentActive)"

inductive assignment_step :: "assignment_table \<Rightarrow> assignment_table \<Rightarrow> bool" where
  first: "current_primary T t p None \<Longrightarrow> T (ri_assignment_id intent) = None \<Longrightarrow>
     plan_primary_reassignment t p None c intent = Inr tr \<Longrightarrow>
     assignment_step T (T(ri_assignment_id intent \<mapsto> at_next tr))"
| reassign: "current_primary T t p (Some prev) \<Longrightarrow> T (ri_assignment_id intent) = None \<Longrightarrow>
     plan_primary_reassignment t p (Some prev) c intent = Inr tr \<Longrightarrow> at_closed_previous tr = Some closed \<Longrightarrow>
     assignment_step T (T(as_assignment_id prev \<mapsto> closed, ri_assignment_id intent \<mapsto> at_next tr))"
| detach: "current_primary T t p (Some cur) \<Longrightarrow> plan_primary_detachment t p cur now = Inr closed \<Longrightarrow>
     assignment_step T (T(as_assignment_id cur \<mapsto> closed))"

definition assignment_row_ok :: "assignment_id \<Rightarrow> profile_client_assignment \<Rightarrow> bool" where
  "assignment_row_ok i a \<longleftrightarrow> as_assignment_id a = i \<and> (as_status a = AssignmentClosed \<longleftrightarrow> as_closed_at a \<noteq> None)
     \<and> (\<forall>at. as_closed_at a = Some at \<longrightarrow> as_assigned_at a \<le> at)"

definition same_scope :: "profile_client_assignment \<Rightarrow> profile_client_assignment \<Rightarrow> bool" where
  "same_scope a b \<longleftrightarrow> as_tenant_id a = as_tenant_id b \<and> as_profile_id a = as_profile_id b"

definition assignment_table_inv :: "assignment_table \<Rightarrow> bool" where
  "assignment_table_inv T \<longleftrightarrow> (\<forall>i a. T i = Some a \<longrightarrow> assignment_row_ok i a)
     \<and> (\<forall>i j a b. T i = Some a \<longrightarrow> T j = Some b \<longrightarrow> same_scope a b
          \<longrightarrow> as_status a = AssignmentActive \<longrightarrow> as_status b = AssignmentActive \<longrightarrow> i = j)"

lemma assignment_table_invI:
  assumes "\<And>i a. T i = Some a \<Longrightarrow> assignment_row_ok i a"
    "\<And>i j a b. T i = Some a \<Longrightarrow> T j = Some b \<Longrightarrow> same_scope a b \<Longrightarrow> as_status a = AssignmentActive
       \<Longrightarrow> as_status b = AssignmentActive \<Longrightarrow> i = j"
  shows "assignment_table_inv T"
  using assms unfolding assignment_table_inv_def by blast

lemma assignment_table_invD:
  assumes "assignment_table_inv T"
  shows "T i = Some a \<Longrightarrow> assignment_row_ok i a"
    "T i = Some a \<Longrightarrow> T j = Some b \<Longrightarrow> same_scope a b \<Longrightarrow> as_status a = AssignmentActive
       \<Longrightarrow> as_status b = AssignmentActive \<Longrightarrow> i = j"
  using assms unfolding assignment_table_inv_def by blast+

lemma assignment_table_inv_close:
  assumes inv: "assignment_table_inv T" and row: "T i = Some a" and closed: "closed_copy at a = Inr b"
  shows "assignment_table_inv (T(i \<mapsto> b))"
proof (rule assignment_table_invI)
  note d = assignment_table_invD [OF inv]
  have b: "b = a\<lparr>as_status := AssignmentClosed, as_closed_at := Some at\<rparr>" "as_assigned_at a \<le> at"
    using closed by (auto simp: closed_copy_Inr)
  show "assignment_row_ok j x" if "(T(i \<mapsto> b)) j = Some x" for j x
    using that d(1) [OF row] d(1) [of j x] b by (auto simp: assignment_row_ok_def split: if_splits)
  show "j = k" if "(T(i \<mapsto> b)) j = Some x" "(T(i \<mapsto> b)) k = Some y" "same_scope x y"
    "as_status x = AssignmentActive" "as_status y = AssignmentActive" for j k x y
    using that d(2) [of j x k y] b by (auto split: if_splits)
qed

lemma assignment_table_inv_insert:
  assumes inv: "assignment_table_inv T" and new: "T i = None" and ok: "assignment_row_ok i a"
    and none: "\<And>j b. T j = Some b \<Longrightarrow> same_scope a b \<Longrightarrow> as_status b \<noteq> AssignmentActive"
  shows "assignment_table_inv (T(i \<mapsto> a))"
proof (rule assignment_table_invI)
  note d = assignment_table_invD [OF inv]
  show "assignment_row_ok j x" if "(T(i \<mapsto> a)) j = Some x" for j x
    using that d(1) [of j x] ok by (auto split: if_splits)
  show "j = k" if "(T(i \<mapsto> a)) j = Some x" "(T(i \<mapsto> a)) k = Some y" "same_scope x y"
    "as_status x = AssignmentActive" "as_status y = AssignmentActive" for j k x y
  proof -
    have sym: "same_scope y x" using that(3) by (simp add: same_scope_def)
    show ?thesis using that sym d(2) [of j x k y] none [of j x] none [of k y] by (auto split: if_splits)
  qed
qed

lemma assignment_step_inv:
  assumes "assignment_step T T'" "assignment_table_inv T" shows "assignment_table_inv T'"
  using assms
proof (induction rule: assignment_step.induct)
  case (first T t p intent c tr)
  note a = assignment_assign_InrD [where a = "at_next tr"]
  have asg: "assignment_assign t (ri_assignment_id intent) p c (ri_assigned_by intent) (ri_assigned_at intent)
      (ri_reason intent) = Inr (at_next tr)" using first.hyps(3) by (auto simp: plan_primary_reassignment_Inr)
  show ?case
  proof (rule assignment_table_inv_insert [OF first.prems first.hyps(2)])
    show "assignment_row_ok (ri_assignment_id intent) (at_next tr)"
      using a [OF asg] by (simp add: assignment_row_ok_def)
    show "as_status b \<noteq> AssignmentActive" if "T j = Some b" "same_scope (at_next tr) b" for j b
      using that first.hyps(1) a [OF asg] by (auto simp: current_primary_def same_scope_def)
  qed
next
  case (reassign T t p prev intent c tr closed)
  have asg: "assignment_assign t (ri_assignment_id intent) p c (ri_assigned_by intent) (ri_assigned_at intent)
      (ri_reason intent) = Inr (at_next tr)" and cl: "closed_copy (as_assigned_at (at_next tr)) prev = Inr closed"
    using reassign.hyps(3,4) by (auto simp: plan_primary_reassignment_Inr)
  note a = assignment_assign_InrD [OF asg]
  have row: "T (as_assignment_id prev) = Some prev" and act: "as_status prev = AssignmentActive"
    and scope: "as_tenant_id prev = t" "as_profile_id prev = p"
    using reassign.hyps(1) by (auto simp: current_primary_def)
  let ?T = "T(as_assignment_id prev \<mapsto> closed)"
  have inv: "assignment_table_inv ?T" by (rule assignment_table_inv_close [OF reassign.prems row cl])
  have ne: "as_assignment_id prev \<noteq> ri_assignment_id intent" using row reassign.hyps(2) by auto
  show ?case
  proof (rule assignment_table_inv_insert [OF inv])
    show "?T (ri_assignment_id intent) = None" using reassign.hyps(2) ne by simp
    show "assignment_row_ok (ri_assignment_id intent) (at_next tr)" using a by (simp add: assignment_row_ok_def)
    show "as_status b \<noteq> AssignmentActive" if b: "?T j = Some b" "same_scope (at_next tr) b" for j b
    proof (cases "j = as_assignment_id prev")
      case True
      then show ?thesis using b(1) cl by (auto simp: closed_copy_Inr)
    next
      case False
      have "same_scope prev b" using b(2) a scope by (simp add: same_scope_def)
      then show ?thesis
        using assignment_table_invD(2) [OF reassign.prems row] b(1) act False by auto
    qed
  qed
next
  case (detach T t p cur now closed)
  have "T (as_assignment_id cur) = Some cur" "closed_copy now cur = Inr closed"
    using detach.hyps by (auto simp: current_primary_def plan_primary_detachment_def res_bind_Inr_iff)
  then show ?case by (rule assignment_table_inv_close [OF detach.prems])
qed

interpretation assignment_store: reachable_invariant "\<lambda>T. T = Map.empty" assignment_step assignment_table_inv
  by unfold_locales (auto simp: assignment_table_inv_def dest: assignment_step_inv)

end
