(* ===== verification/Profile_Registry.thy ===== *)
theory Profile_Registry
  imports Primitives Reachability
begin

text \<open>
  \<open>crates/profile-domain\<close>: the browser profile with its status machine and active generation
  (\<open>lib.rs\<close>), and the registry record of a generation that is verified or quarantined
  (\<open>registry.rs\<close>).
\<close>

section \<open>Profiles\<close>

datatype profile_status =
    ProfileDraft | ProfileQuarantined | ProfileReady | ProfileInUse | ProfileDirtyLocal | ProfileSyncing
  | ProfileSuspended | ProfileDeleting | ProfileDeleted

datatype generation_verification = GenUnverified | GenVerified | GenCorrupt

record profile_generation =
  pgn_tenant_id :: tenant_id
  pgn_profile_id :: profile_id
  pgn_generation_id :: generation_id
  pgn_verification :: generation_verification

record browser_profile =
  bp_tenant_id :: tenant_id
  bp_profile_id :: profile_id
  bp_version :: aggregate_version
  bp_status :: profile_status
  bp_active_generation_id :: "generation_id option"

datatype profile_error =
    ProfInvalidStatusTransition | ProfVerifiedGenerationRequired | ProfTenantMismatch | ProfProfileMismatch
  | ProfGenerationNotVerified | ProfVersionOverflow

fun profile_error_message :: "profile_error \<Rightarrow> string" where
  "profile_error_message ProfInvalidStatusTransition = ''profile status transition is invalid''"
| "profile_error_message ProfVerifiedGenerationRequired =
     ''profile can become ready only by activating a verified generation''"
| "profile_error_message ProfTenantMismatch = ''generation tenant differs from profile tenant''"
| "profile_error_message ProfProfileMismatch = ''generation belongs to another profile''"
| "profile_error_message ProfGenerationNotVerified = ''generation is not verified''"
| "profile_error_message ProfVersionOverflow = ''profile version overflow''"

definition browser_profile_create :: "tenant_id \<Rightarrow> profile_id \<Rightarrow> browser_profile" where
  "browser_profile_create tenant_id profile_id =
     \<lparr>bp_tenant_id = tenant_id, bp_profile_id = profile_id, bp_version = version_initial,
      bp_status = ProfileDraft, bp_active_generation_id = None\<rparr>"

fun is_allowed_transition :: "profile_status \<Rightarrow> profile_status \<Rightarrow> bool" where
  "is_allowed_transition ProfileDraft ProfileQuarantined = True"
| "is_allowed_transition ProfileQuarantined ProfileSuspended = True"
| "is_allowed_transition ProfileReady ProfileInUse = True"
| "is_allowed_transition ProfileReady ProfileSuspended = True"
| "is_allowed_transition ProfileReady ProfileDeleting = True"
| "is_allowed_transition ProfileInUse ProfileDirtyLocal = True"
| "is_allowed_transition ProfileDirtyLocal ProfileSyncing = True"
| "is_allowed_transition ProfileSyncing ProfileQuarantined = True"
| "is_allowed_transition ProfileSuspended ProfileDeleting = True"
| "is_allowed_transition ProfileDeleting ProfileDeleted = True"
| "is_allowed_transition _ _ = False"

definition profile_transition :: "profile_status \<Rightarrow> browser_profile \<Rightarrow> (profile_error + unit) \<times> browser_profile" where
  "profile_transition target p =
     (if target = ProfileReady then (Inl ProfVerifiedGenerationRequired, p)
      else if \<not> is_allowed_transition (bp_status p) target then (Inl ProfInvalidStatusTransition, p)
      else or_return (res_map_err (\<lambda>_. ProfVersionOverflow) (version_next (bp_version p))) p (\<lambda>next_version.
        (Inr (), p\<lparr>bp_status := target, bp_version := next_version\<rparr>)))"

definition profile_activate_generation ::
    "profile_generation \<Rightarrow> browser_profile \<Rightarrow> (profile_error + unit) \<times> browser_profile" where
  "profile_activate_generation g p =
     (if pgn_tenant_id g \<noteq> bp_tenant_id p then (Inl ProfTenantMismatch, p)
      else if pgn_profile_id g \<noteq> bp_profile_id p then (Inl ProfProfileMismatch, p)
      else if pgn_verification g \<noteq> GenVerified then (Inl ProfGenerationNotVerified, p)
      else if bp_status p \<in> {ProfileInUse, ProfileDirtyLocal, ProfileDeleting, ProfileDeleted}
      then (Inl ProfInvalidStatusTransition, p)
      else or_return (res_map_err (\<lambda>_. ProfVersionOverflow) (version_next (bp_version p))) p (\<lambda>next_version.
        (Inr (), p\<lparr>bp_active_generation_id := Some (pgn_generation_id g), bp_status := ProfileReady,
                   bp_version := next_version\<rparr>)))"

section \<open>The generation registry\<close>

definition min_object_key_length :: nat where "min_object_key_length = 16"
definition max_object_key_length :: nat where "max_object_key_length = 512"
definition min_verification_reference_length :: nat where "min_verification_reference_length = 8"
definition max_verification_reference_length :: nat where "max_verification_reference_length = 256"

datatype generation_registry_error =
    RegInvalidObjectKey | RegInvalidDigest | RegInvalidVerificationReference | RegInvalidStatusTransition
  | RegTenantMismatch | RegProfileMismatch | RegGenerationActive | RegVersionOverflow

fun generation_registry_error_message :: "generation_registry_error \<Rightarrow> string" where
  "generation_registry_error_message RegInvalidObjectKey = ''generation object key is invalid''"
| "generation_registry_error_message RegInvalidDigest = ''generation digest must be lowercase SHA-256 hex''"
| "generation_registry_error_message RegInvalidVerificationReference = ''verification reference is invalid''"
| "generation_registry_error_message RegInvalidStatusTransition = ''generation registry transition is invalid''"
| "generation_registry_error_message RegTenantMismatch = ''generation registry tenant differs from profile tenant''"
| "generation_registry_error_message RegProfileMismatch = ''generation registry profile differs from profile''"
| "generation_registry_error_message RegGenerationActive = ''active profile generation cannot be quarantined''"
| "generation_registry_error_message RegVersionOverflow = ''generation registry version overflow''"

datatype generation_object_key = GenerationObjectKey (object_key_as_str: string)
datatype generation_digest = GenerationDigest (generation_digest_as_str: string)
datatype verification_reference = VerificationReference (verification_reference_as_str: string)

definition object_key_char :: "char \<Rightarrow> bool" where
  "object_key_char c \<longleftrightarrow> is_ascii_alphanumeric c \<or> c \<in> {CHR ''_'', CHR ''-'', CHR ''.'', CHR ''/'', CHR '':''}"

fun contains_dot_dot :: "string \<Rightarrow> bool" where
  "contains_dot_dot (a # b # s) \<longleftrightarrow> a = CHR ''.'' \<and> b = CHR ''.'' \<or> contains_dot_dot (b # s)"
| "contains_dot_dot _ \<longleftrightarrow> False"

definition generation_object_key_parse :: "string \<Rightarrow> generation_registry_error + generation_object_key" where
  "generation_object_key_parse s =
     (let valid_length = min_object_key_length \<le> length s \<and> length s \<le> max_object_key_length;
          valid_chars = list_all object_key_char s
      in if \<not> valid_length \<or> take 1 s = ''/'' \<or> contains_dot_dot s \<or> CHR 0x5C \<in> set s \<or> \<not> valid_chars
         then Inl RegInvalidObjectKey else Inr (GenerationObjectKey s))"

definition generation_digest_parse :: "string \<Rightarrow> generation_registry_error + generation_digest" where
  "generation_digest_parse s =
     (if length s \<noteq> sha256_hex_length \<or> \<not> list_all is_lower_hexdigit s
      then Inl RegInvalidDigest else Inr (GenerationDigest s))"

definition verification_reference_char :: "char \<Rightarrow> bool" where
  "verification_reference_char c \<longleftrightarrow> is_ascii_alphanumeric c \<or> c \<in> {CHR ''_'', CHR ''-'', CHR '':''}"

definition verification_reference_parse :: "string \<Rightarrow> generation_registry_error + verification_reference" where
  "verification_reference_parse s =
     (let valid_length = min_verification_reference_length \<le> length s \<and> length s \<le> max_verification_reference_length;
          valid_chars = list_all verification_reference_char s
      in if \<not> valid_length \<or> \<not> valid_chars then Inl RegInvalidVerificationReference
         else Inr (VerificationReference s))"

datatype generation_registry_status = RegRegistered | RegVerified | RegQuarantined

record generation_registry_record =
  gr_tenant_id :: tenant_id
  gr_profile_id :: profile_id
  gr_generation_id :: generation_id
  gr_object_key :: generation_object_key
  gr_metadata_digest :: generation_digest
  gr_container_digest :: generation_digest
  gr_status :: generation_registry_status
  gr_version :: aggregate_version
  gr_verification_reference :: "verification_reference option"

definition registry_register ::
    "tenant_id \<Rightarrow> profile_id \<Rightarrow> generation_id \<Rightarrow> generation_object_key \<Rightarrow> generation_digest \<Rightarrow> generation_digest
     \<Rightarrow> generation_registry_record" where
  "registry_register tenant_id profile_id generation_id object_key metadata_digest container_digest =
     \<lparr>gr_tenant_id = tenant_id, gr_profile_id = profile_id, gr_generation_id = generation_id,
      gr_object_key = object_key, gr_metadata_digest = metadata_digest, gr_container_digest = container_digest,
      gr_status = RegRegistered, gr_version = version_initial, gr_verification_reference = None\<rparr>"

definition registry_verify ::
    "verification_reference \<Rightarrow> generation_registry_record \<Rightarrow> (generation_registry_error + unit) \<times> generation_registry_record" where
  "registry_verify reference r =
     (if gr_status r \<noteq> RegRegistered then (Inl RegInvalidStatusTransition, r)
      else or_return (res_map_err (\<lambda>_. RegVersionOverflow) (version_next (gr_version r))) r (\<lambda>next_version.
        (Inr (), r\<lparr>gr_status := RegVerified, gr_version := next_version, gr_verification_reference := Some reference\<rparr>)))"

definition registry_quarantine_for_profile ::
    "browser_profile \<Rightarrow> generation_registry_record \<Rightarrow> (generation_registry_error + unit) \<times> generation_registry_record" where
  "registry_quarantine_for_profile p r =
     (if bp_tenant_id p \<noteq> gr_tenant_id r then (Inl RegTenantMismatch, r)
      else if bp_profile_id p \<noteq> gr_profile_id r then (Inl RegProfileMismatch, r)
      else if bp_active_generation_id p = Some (gr_generation_id r) then (Inl RegGenerationActive, r)
      else if gr_status r = RegQuarantined then (Inl RegInvalidStatusTransition, r)
      else or_return (res_map_err (\<lambda>_. RegVersionOverflow) (version_next (gr_version r))) r (\<lambda>next_version.
        (Inr (), r\<lparr>gr_status := RegQuarantined, gr_version := next_version\<rparr>)))"

fun registry_verification :: "generation_registry_status \<Rightarrow> generation_verification" where
  "registry_verification RegRegistered = GenUnverified"
| "registry_verification RegVerified = GenVerified"
| "registry_verification RegQuarantined = GenCorrupt"

definition registry_profile_generation :: "generation_registry_record \<Rightarrow> profile_generation" where
  "registry_profile_generation r =
     \<lparr>pgn_tenant_id = gr_tenant_id r, pgn_profile_id = gr_profile_id r, pgn_generation_id = gr_generation_id r,
      pgn_verification = registry_verification (gr_status r)\<rparr>"

section \<open>A profile with its registry\<close>

text \<open>
  The operations above on one profile and the records of its registry, keyed by generation.  A
  registration takes an identifier the registry does not hold; every other step is one method
  that returned \<open>Ok\<close>.
\<close>

record profile_world =
  pw_profile :: browser_profile
  pw_registry :: "generation_id \<Rightarrow> generation_registry_record option"

inductive profile_step :: "profile_world \<Rightarrow> profile_world \<Rightarrow> bool" where
  register: "pw_registry w g = None \<Longrightarrow> gr_generation_id r = g \<Longrightarrow>
     r = registry_register tenant_id profile_id g object_key metadata_digest container_digest \<Longrightarrow>
     profile_step w (w\<lparr>pw_registry := (pw_registry w)(g \<mapsto> r)\<rparr>)"
| verify: "pw_registry w g = Some r \<Longrightarrow> registry_verify reference r = (Inr (), r') \<Longrightarrow>
     profile_step w (w\<lparr>pw_registry := (pw_registry w)(g \<mapsto> r')\<rparr>)"
| quarantine: "pw_registry w g = Some r \<Longrightarrow> registry_quarantine_for_profile (pw_profile w) r = (Inr (), r') \<Longrightarrow>
     profile_step w (w\<lparr>pw_registry := (pw_registry w)(g \<mapsto> r')\<rparr>)"
| activate: "pw_registry w g = Some r \<Longrightarrow>
     profile_activate_generation (registry_profile_generation r) (pw_profile w) = (Inr (), p') \<Longrightarrow>
     profile_step w (w\<lparr>pw_profile := p'\<rparr>)"
| transition: "profile_transition target (pw_profile w) = (Inr (), p') \<Longrightarrow>
     profile_step w (w\<lparr>pw_profile := p'\<rparr>)"

inductive_cases profile_stepE: "profile_step w w'"

definition profile_world_initial :: "tenant_id \<Rightarrow> profile_id \<Rightarrow> profile_world" where
  "profile_world_initial tenant_id profile_id =
     \<lparr>pw_profile = browser_profile_create tenant_id profile_id, pw_registry = (\<lambda>_. None)\<rparr>"

definition profile_needs_generation :: "profile_status \<Rightarrow> bool" where
  "profile_needs_generation s \<longleftrightarrow> s \<in> {ProfileReady, ProfileInUse, ProfileDirtyLocal, ProfileSyncing}"

definition profile_world_inv :: "profile_world \<Rightarrow> bool" where
  "profile_world_inv w \<longleftrightarrow>
     (\<forall>g r. pw_registry w g = Some r \<longrightarrow> gr_generation_id r = g
        \<and> (gr_status r = RegVerified \<longrightarrow> gr_verification_reference r \<noteq> None))
     \<and> (profile_needs_generation (bp_status (pw_profile w)) \<longrightarrow> bp_active_generation_id (pw_profile w) \<noteq> None)
     \<and> (\<forall>g. bp_active_generation_id (pw_profile w) = Some g \<longrightarrow>
          (\<exists>r. pw_registry w g = Some r \<and> gr_status r = RegVerified
             \<and> gr_tenant_id r = bp_tenant_id (pw_profile w) \<and> gr_profile_id r = bp_profile_id (pw_profile w)))"

lemma transition_Inr [ok_iff]:
  "profile_transition target p = (Inr u, p') \<longleftrightarrow> target \<noteq> ProfileReady \<and> is_allowed_transition (bp_status p) target
     \<and> (\<exists>v. version_next (bp_version p) = Inr v \<and> p' = p\<lparr>bp_status := target, bp_version := v\<rparr>)"
  by (auto simp: profile_transition_def or_return_Inr_iff)

lemma activate_Inr [ok_iff]:
  "profile_activate_generation g p = (Inr u, p') \<longleftrightarrow> pgn_tenant_id g = bp_tenant_id p \<and> pgn_profile_id g = bp_profile_id p
     \<and> pgn_verification g = GenVerified \<and> bp_status p \<notin> {ProfileInUse, ProfileDirtyLocal, ProfileDeleting, ProfileDeleted}
     \<and> (\<exists>v. version_next (bp_version p) = Inr v
          \<and> p' = p\<lparr>bp_active_generation_id := Some (pgn_generation_id g), bp_status := ProfileReady, bp_version := v\<rparr>)"
  by (auto simp: profile_activate_generation_def or_return_Inr_iff)

lemma verify_Inr [ok_iff]:
  "registry_verify reference r = (Inr u, r') \<longleftrightarrow> gr_status r = RegRegistered
     \<and> (\<exists>v. version_next (gr_version r) = Inr v
          \<and> r' = r\<lparr>gr_status := RegVerified, gr_version := v, gr_verification_reference := Some reference\<rparr>)"
  by (auto simp: registry_verify_def or_return_Inr_iff)

lemma quarantine_Inr [ok_iff]:
  "registry_quarantine_for_profile p r = (Inr u, r') \<longleftrightarrow> bp_tenant_id p = gr_tenant_id r \<and> bp_profile_id p = gr_profile_id r
     \<and> bp_active_generation_id p \<noteq> Some (gr_generation_id r) \<and> gr_status r \<noteq> RegQuarantined
     \<and> (\<exists>v. version_next (gr_version r) = Inr v \<and> r' = r\<lparr>gr_status := RegQuarantined, gr_version := v\<rparr>)"
  by (auto simp: registry_quarantine_for_profile_def or_return_Inr_iff)

lemma allowed_needs_generation:
  "is_allowed_transition s t \<Longrightarrow> profile_needs_generation t \<Longrightarrow> profile_needs_generation s"
  by (cases s; cases t) (simp_all add: profile_needs_generation_def)

lemma registry_verification_GenVerified [simp]: "registry_verification s = GenVerified \<longleftrightarrow> s = RegVerified"
  by (cases s) simp_all

lemma profile_world_inv_initial: "profile_world_inv (profile_world_initial t p)"
  by (simp add: profile_world_inv_def profile_world_initial_def browser_profile_create_def profile_needs_generation_def)

lemma profile_world_invD:
  assumes "profile_world_inv w" "pw_registry w g = Some r"
  shows "gr_generation_id r = g" "gr_status r = RegVerified \<Longrightarrow> gr_verification_reference r \<noteq> None"
    "bp_active_generation_id (pw_profile w) = Some g \<Longrightarrow> gr_status r = RegVerified"
  using assms by (auto simp: profile_world_inv_def)

lemma profile_world_inv_update:
  assumes inv: "profile_world_inv w" and r: "pw_registry w g = Some r"
    and same: "gr_generation_id r' = g" "gr_tenant_id r' = gr_tenant_id r" "gr_profile_id r' = gr_profile_id r"
    and ref: "gr_status r' = RegVerified \<Longrightarrow> gr_verification_reference r' \<noteq> None"
    and act: "bp_active_generation_id (pw_profile w) = Some g \<Longrightarrow> gr_status r' = RegVerified"
  shows "profile_world_inv (w\<lparr>pw_registry := (pw_registry w)(g \<mapsto> r')\<rparr>)"
  using assms by (auto simp: profile_world_inv_def)

lemma profile_step_inv:
  assumes "profile_step w w'" "profile_world_inv w"
  shows "profile_world_inv w'"
  using assms
proof (induction rule: profile_step.induct)
  case (register w g r tenant_id profile_id object_key metadata_digest container_digest)
  then show ?case by (auto simp: profile_world_inv_def registry_register_def)
next
  case (verify w g r reference r')
  note d = profile_world_invD [OF verify.prems verify.hyps(1)]
  obtain v where r': "gr_status r = RegRegistered"
    "r' = r\<lparr>gr_status := RegVerified, gr_version := v, gr_verification_reference := Some reference\<rparr>"
    using verify.hyps(2) by (auto simp: verify_Inr)
  then show ?case using d by (intro profile_world_inv_update [OF verify.prems verify.hyps(1)]) auto
next
  case (quarantine w g r r')
  note d = profile_world_invD [OF quarantine.prems quarantine.hyps(1)]
  obtain v where r': "r' = r\<lparr>gr_status := RegQuarantined, gr_version := v\<rparr>"
    "bp_active_generation_id (pw_profile w) \<noteq> Some (gr_generation_id r)"
    using quarantine.hyps(2) by (auto simp: quarantine_Inr)
  then show ?case using d by (intro profile_world_inv_update [OF quarantine.prems quarantine.hyps(1)]) auto
next
  case (activate w g r p')
  note d = profile_world_invD [OF activate.prems activate.hyps(1)]
  obtain v where p': "gr_status r = RegVerified" "gr_tenant_id r = bp_tenant_id (pw_profile w)"
    "gr_profile_id r = bp_profile_id (pw_profile w)"
    "p' = pw_profile w\<lparr>bp_active_generation_id := Some g, bp_status := ProfileReady, bp_version := v\<rparr>"
    using activate.hyps(2) d(1) by (auto simp: activate_Inr registry_profile_generation_def)
  then show ?case using activate.prems activate.hyps(1) by (auto simp: profile_world_inv_def)
next
  case (transition target w p')
  then show ?case
    using allowed_needs_generation [of "bp_status (pw_profile w)" target]
    by (auto simp: profile_world_inv_def transition_Inr)
qed

interpretation profile_store: reachable_invariant "\<lambda>w. \<exists>t p. w = profile_world_initial t p" profile_step profile_world_inv
  by unfold_locales (auto simp: profile_world_inv_initial dest: profile_step_inv)

end
