(* ===== verification/Identity_Acl.thy ===== *)
theory Identity_Acl
  imports Identity_Access Client_Domain Profile_Registry
begin

text \<open>
  \<open>crates/use-cases/src/identity_acl.rs\<close>: what an actor may see and change, decided from the membership,
  the grants and the aggregates that were loaded.  Every refusal of a query is the same neutral
  \<open>not_found\<close>.  The problem codes are those of \<open>crates/contracts/src/lib.rs\<close>.
\<close>

section \<open>Errors\<close>

datatype problem_code =
    PcNotFound | PcForbidden | PcInvalidRequest | PcInvalidState | PcVersionConflict | PcLeaseConflict
  | PcReplayRejected | PcDependencyUnavailable | PcIntegrityFailure | PcInternalFailure

fun problem_stable_code :: "problem_code \<Rightarrow> string" where
  "problem_stable_code PcNotFound = ''not_found''"
| "problem_stable_code PcForbidden = ''forbidden''"
| "problem_stable_code PcInvalidRequest = ''invalid_request''"
| "problem_stable_code PcInvalidState = ''invalid_state''"
| "problem_stable_code PcVersionConflict = ''version_conflict''"
| "problem_stable_code PcLeaseConflict = ''lease_conflict''"
| "problem_stable_code PcReplayRejected = ''replay_rejected''"
| "problem_stable_code PcDependencyUnavailable = ''dependency_unavailable''"
| "problem_stable_code PcIntegrityFailure = ''integrity_failure''"
| "problem_stable_code PcInternalFailure = ''internal_failure''"

datatype application_error = ApplicationError (application_error_code: problem_code)

definition application_error_message :: "application_error \<Rightarrow> string" where
  "application_error_message e = problem_stable_code (application_error_code e)"

definition neutral_not_found :: application_error where
  "neutral_not_found = ApplicationError PcNotFound"

section \<open>Queries\<close>

record client_view =
  cv_client_id :: client_id
  cv_kind :: client_type
  cv_display_name :: string

record profile_view =
  pv_profile_id :: profile_id
  pv_linked_client_id :: "client_id option"

definition query_client ::
    "actor_context \<Rightarrow> membership option \<Rightarrow> client_grant option \<Rightarrow> client_id \<Rightarrow> client_record option
     \<Rightarrow> application_error + client_view" where
  "query_client actor membership_row grant requested_client_id client_row =
     (case membership_row of None \<Rightarrow> Inl neutral_not_found | Some m \<Rightarrow>
      case client_row of None \<Rightarrow> Inl neutral_not_found | Some c \<Rightarrow>
        if cr_tenant_id c \<noteq> actor_tenant actor \<or> cr_client_id c \<noteq> requested_client_id
           \<or> authorize_client actor m requested_client_id grant ClientView \<noteq> Allowed
        then Inl neutral_not_found
        else Inr \<lparr>cv_client_id = cr_client_id c, cv_kind = cr_kind c, cv_display_name = cr_display_name c\<rparr>)"

definition query_profile ::
    "actor_context \<Rightarrow> membership option \<Rightarrow> profile_grant option \<Rightarrow> profile_id \<Rightarrow> browser_profile option
     \<Rightarrow> profile_client_assignment option \<Rightarrow> application_error + profile_view" where
  "query_profile actor membership_row grant requested_profile_id profile_row active_assignment =
     (case membership_row of None \<Rightarrow> Inl neutral_not_found | Some m \<Rightarrow>
      case profile_row of None \<Rightarrow> Inl neutral_not_found | Some p \<Rightarrow>
        if bp_tenant_id p \<noteq> actor_tenant actor \<or> bp_profile_id p \<noteq> requested_profile_id
           \<or> authorize_profile actor m requested_profile_id grant ProfileView \<noteq> Allowed
        then Inl neutral_not_found
        else Inr \<lparr>pv_profile_id = bp_profile_id p,
                  pv_linked_client_id =
                    (case active_assignment of None \<Rightarrow> None | Some a \<Rightarrow>
                       if as_tenant_id a = actor_tenant actor \<and> as_profile_id a = requested_profile_id
                       then Some (as_client_id a) else None)\<rparr>)"

section \<open>Decisions of the owner\<close>

abbreviation owner_or_forbidden :: "actor_context \<Rightarrow> membership \<Rightarrow> application_error + unit" where
  "owner_or_forbidden actor m \<equiv> res_map_err (\<lambda>_. ApplicationError PcForbidden) (require_active_owner actor m)"

definition decide_create_profile ::
    "actor_context \<Rightarrow> membership \<Rightarrow> tenant_id \<Rightarrow> profile_id \<Rightarrow> application_error + browser_profile" where
  "decide_create_profile actor owner_membership tenant_id profile_id =
     res_bind (owner_or_forbidden actor owner_membership) (\<lambda>_.
     if actor_tenant actor \<noteq> tenant_id then Inl neutral_not_found
     else Inr (browser_profile_create tenant_id profile_id))"

definition decide_assign_profile_to_client ::
    "actor_context \<Rightarrow> membership \<Rightarrow> assignment_id \<Rightarrow> browser_profile \<Rightarrow> client_record \<Rightarrow> unix_millis \<Rightarrow> string
     \<Rightarrow> application_error + profile_client_assignment" where
  "decide_assign_profile_to_client actor owner_membership assignment_id p c now reason =
     res_bind (owner_or_forbidden actor owner_membership) (\<lambda>_.
     if bp_tenant_id p \<noteq> actor_tenant actor \<or> cr_tenant_id c \<noteq> actor_tenant actor then Inl neutral_not_found
     else res_map_err (\<lambda>_. ApplicationError PcInvalidState)
            (assignment_assign (bp_tenant_id p) assignment_id (bp_profile_id p) c (actor_actor_id actor) now reason))"

definition require_grant_target :: "actor_context \<Rightarrow> membership \<Rightarrow> application_error + unit" where
  "require_grant_target actor target =
     (if mb_tenant_id target \<noteq> actor_tenant actor \<or> mb_role target \<noteq> Member \<or> mb_status target \<noteq> MembershipActive
      then Inl neutral_not_found else Inr ())"

definition decide_profile_grant ::
    "actor_context \<Rightarrow> membership \<Rightarrow> membership \<Rightarrow> browser_profile \<Rightarrow> profile_grant_role \<Rightarrow> application_error + profile_grant" where
  "decide_profile_grant actor owner_membership target p role =
     res_bind (owner_or_forbidden actor owner_membership) (\<lambda>_.
     res_bind (require_grant_target actor target) (\<lambda>_.
     if bp_tenant_id p \<noteq> actor_tenant actor then Inl neutral_not_found
     else Inr \<lparr>pg_tenant_id = actor_tenant actor, pg_actor_id = mb_actor_id target, pg_profile_id = bp_profile_id p,
               pg_role = role\<rparr>))"

definition decide_client_grant ::
    "actor_context \<Rightarrow> membership \<Rightarrow> membership \<Rightarrow> client_record \<Rightarrow> client_grant_role \<Rightarrow> application_error + client_grant" where
  "decide_client_grant actor owner_membership target c role =
     res_bind (owner_or_forbidden actor owner_membership) (\<lambda>_.
     res_bind (require_grant_target actor target) (\<lambda>_.
     if cr_tenant_id c \<noteq> actor_tenant actor then Inl neutral_not_found
     else Inr \<lparr>cg_tenant_id = actor_tenant actor, cg_actor_id = mb_actor_id target, cg_client_id = cr_client_id c,
               cg_role = role\<rparr>))"

definition decide_revoke_profile_grant ::
    "actor_context \<Rightarrow> membership \<Rightarrow> profile_grant option \<Rightarrow> actor_id \<Rightarrow> profile_id \<Rightarrow> application_error + unit" where
  "decide_revoke_profile_grant actor owner_membership existing_grant target_actor_id profile_id =
     res_bind (owner_or_forbidden actor owner_membership) (\<lambda>_.
     case existing_grant of None \<Rightarrow> Inl neutral_not_found | Some g \<Rightarrow>
       if pg_tenant_id g \<noteq> actor_tenant actor \<or> pg_actor_id g \<noteq> target_actor_id \<or> pg_profile_id g \<noteq> profile_id
       then Inl neutral_not_found else Inr ())"

definition decide_revoke_client_grant ::
    "actor_context \<Rightarrow> membership \<Rightarrow> client_grant option \<Rightarrow> actor_id \<Rightarrow> client_id \<Rightarrow> application_error + unit" where
  "decide_revoke_client_grant actor owner_membership existing_grant target_actor_id client_id =
     res_bind (owner_or_forbidden actor owner_membership) (\<lambda>_.
     case existing_grant of None \<Rightarrow> Inl neutral_not_found | Some g \<Rightarrow>
       if cg_tenant_id g \<noteq> actor_tenant actor \<or> cg_actor_id g \<noteq> target_actor_id \<or> cg_client_id g \<noteq> client_id
       then Inl neutral_not_found else Inr ())"

section \<open>Who is allowed\<close>

definition member_of_actor :: "actor_context \<Rightarrow> membership \<Rightarrow> bool" where
  "member_of_actor actor m \<longleftrightarrow>
     mb_tenant_id m = actor_tenant actor \<and> mb_actor_id m = actor_actor_id actor \<and> mb_status m = MembershipActive"

definition client_grant_covers :: "actor_context \<Rightarrow> client_id \<Rightarrow> client_capability \<Rightarrow> client_grant option \<Rightarrow> bool" where
  "client_grant_covers actor i cap grant \<longleftrightarrow>
     (\<exists>g. grant = Some g \<and> cg_tenant_id g = actor_tenant actor \<and> cg_actor_id g = actor_actor_id actor
        \<and> cg_client_id g = i \<and> client_role_allows (cg_role g) cap)"

definition profile_grant_covers :: "actor_context \<Rightarrow> profile_id \<Rightarrow> profile_capability \<Rightarrow> profile_grant option \<Rightarrow> bool" where
  "profile_grant_covers actor i cap grant \<longleftrightarrow>
     (\<exists>g. grant = Some g \<and> pg_tenant_id g = actor_tenant actor \<and> pg_actor_id g = actor_actor_id actor
        \<and> pg_profile_id g = i \<and> profile_role_allows (pg_role g) cap)"

lemma authorize_client_Allowed [ok_iff]:
  "authorize_client actor m i grant cap = Allowed \<longleftrightarrow>
     member_of_actor actor m \<and> (mb_role m = TenantOwner \<or> client_grant_covers actor i cap grant)"
  by (auto simp: authorize_client_def member_of_actor_def client_grant_covers_def split: option.splits)

lemma authorize_profile_Allowed [ok_iff]:
  "authorize_profile actor m i grant cap = Allowed \<longleftrightarrow>
     member_of_actor actor m \<and> (mb_role m = TenantOwner \<or> profile_grant_covers actor i cap grant)"
  by (auto simp: authorize_profile_def member_of_actor_def profile_grant_covers_def split: option.splits)

lemma require_active_owner_Inr [ok_iff]:
  "require_active_owner actor m = Inr u \<longleftrightarrow> member_of_actor actor m \<and> mb_role m = TenantOwner"
  by (auto simp: require_active_owner_def member_of_actor_def)

lemma require_grant_target_Inr [ok_iff]:
  "require_grant_target actor m = Inr u \<longleftrightarrow>
     mb_tenant_id m = actor_tenant actor \<and> mb_role m = Member \<and> mb_status m = MembershipActive"
  by (auto simp: require_grant_target_def)

lemma query_client_Inr [ok_iff]:
  "query_client actor mrow grant i crow = Inr v \<longleftrightarrow>
     (\<exists>m c. mrow = Some m \<and> crow = Some c \<and> cr_tenant_id c = actor_tenant actor \<and> cr_client_id c = i
        \<and> authorize_client actor m i grant ClientView = Allowed
        \<and> v = \<lparr>cv_client_id = i, cv_kind = cr_kind c, cv_display_name = cr_display_name c\<rparr>)"
  by (auto simp: query_client_def split: option.splits if_splits)

lemma query_profile_Inr [ok_iff]:
  "query_profile actor mrow grant i prow arow = Inr v \<longleftrightarrow>
     (\<exists>m p. mrow = Some m \<and> prow = Some p \<and> bp_tenant_id p = actor_tenant actor \<and> bp_profile_id p = i
        \<and> authorize_profile actor m i grant ProfileView = Allowed
        \<and> v = \<lparr>pv_profile_id = i, pv_linked_client_id =
                (case arow of None \<Rightarrow> None | Some a \<Rightarrow>
                   if as_tenant_id a = actor_tenant actor \<and> as_profile_id a = i then Some (as_client_id a) else None)\<rparr>)"
  by (auto simp: query_profile_def split: option.splits if_splits)

lemma query_client_Inl:
  "query_client actor mrow grant i crow = Inl e \<Longrightarrow> e = neutral_not_found"
  by (auto simp: query_client_def split: option.splits if_splits)

lemma query_profile_Inl:
  "query_profile actor mrow grant i prow arow = Inl e \<Longrightarrow> e = neutral_not_found"
  by (auto simp: query_profile_def split: option.splits if_splits)

end
