(* ===== verification/Contact_Point.thy ===== *)
theory Contact_Point
  imports Identity_Access
begin

text \<open>
  \<open>crates/client-domain/src/contact_point.rs\<close>: normalisation of e-mail addresses, phone numbers and
  URLs, the framed input of the keyed lookup token, and the protected forms that are stored.  The
  keyed hash and the cipher are third-party code outside this file.
\<close>

section \<open>Kinds, versions, limits\<close>

definition max_contact_value_length :: nat where "max_contact_value_length = 2048"
definition max_ciphertext_length :: nat where "max_ciphertext_length = 4096"
definition max_nonce_length :: nat where "max_nonce_length = 64"

definition lookup_domain_tag :: string where
  "lookup_domain_tag = ''client-contact-exact-lookup'' @ [CHR 0x00] @ ''v1'' @ [CHR 0x00]"

datatype contact_kind = Email | Phone | Url
datatype contact_status = ContactActive | ContactArchived
datatype contact_normalization_version = NormalizationV1
datatype contact_protection_version = ProtectionV1

fun contact_kind_code :: "contact_kind \<Rightarrow> string" where
  "contact_kind_code Email = ''EMAIL''"
| "contact_kind_code Phone = ''PHONE''"
| "contact_kind_code Url = ''URL''"

fun contact_status_code :: "contact_status \<Rightarrow> string" where
  "contact_status_code ContactActive = ''ACTIVE''"
| "contact_status_code ContactArchived = ''ARCHIVED''"

fun normalization_version_value :: "contact_normalization_version \<Rightarrow> u16" where
  "normalization_version_value NormalizationV1 = 1"

fun protection_version_value :: "contact_protection_version \<Rightarrow> u16" where
  "protection_version_value ProtectionV1 = 1"

datatype contact_value_error = InvalidContactValue
datatype contact_protection_error = InvalidKeyVersion | InvalidProtectedValue

fun contact_value_error_message :: "contact_value_error \<Rightarrow> string" where
  "contact_value_error_message InvalidContactValue = ''contact value is invalid for the selected normalization contract''"

section \<open>Normalisation\<close>

text \<open>\<open>is_ascii_control() || is_ascii_whitespace()\<close> is \<open>is_ascii_space_or_control\<close>.\<close>

definition normalize_email_v1 :: "string \<Rightarrow> contact_value_error + string" where
  "normalize_email_v1 value =
     (if 320 < length value \<or> list_ex is_ascii_space_or_control value then Inl InvalidContactValue
      else case str_split (CHR ''@'') value of
        local # domain # rest \<Rightarrow>
          if local = [] \<or> domain = [] \<or> rest \<noteq> [] then Inl InvalidContactValue else Inr (to_ascii_lowercase value)
      | _ \<Rightarrow> Inl InvalidContactValue)"

fun phone_scan :: "nat \<Rightarrow> string \<Rightarrow> nat \<Rightarrow> string \<Rightarrow> contact_value_error + string \<times> nat" where
  \<comment> \<open>index, \<open>normalized\<close>, \<open>digit_count\<close>, the bytes still to read\<close>
  "phone_scan index normalized digit_count [] = Inr (normalized, digit_count)"
| "phone_scan index normalized digit_count (c # s) =
     (if c = CHR ''+'' \<and> index = 0 then phone_scan (Suc index) (normalized @ ''+'') digit_count s
      else if is_ascii_digit c then phone_scan (Suc index) (normalized @ [c]) (digit_count + 1) s
      else if c \<in> {CHR '' '', CHR ''-'', CHR ''('', CHR '')'', CHR ''.''} then phone_scan (Suc index) normalized digit_count s
      else Inl InvalidContactValue)"

definition normalize_phone_v1 :: "string \<Rightarrow> contact_value_error + string" where
  "normalize_phone_v1 value =
     res_bind (phone_scan 0 [] 0 value) (\<lambda>(normalized, digit_count).
       if \<not> (7 \<le> digit_count \<and> digit_count \<le> 15) then Inl InvalidContactValue else Inr normalized)"

definition eq_ignore_ascii_case :: "string \<Rightarrow> string \<Rightarrow> bool" where
  "eq_ignore_ascii_case a b \<longleftrightarrow> to_ascii_lowercase a = to_ascii_lowercase b"

definition normalize_url_v1 :: "string \<Rightarrow> contact_value_error + string" where
  "normalize_url_v1 value =
     (if list_ex is_ascii_space_or_control value then Inl InvalidContactValue
      else
        let finish = (\<lambda>scheme offset. let remainder = drop offset value in
              if remainder = [] then Inl InvalidContactValue else Inr (scheme @ remainder))
        in if 7 \<le> length value \<and> eq_ignore_ascii_case (take 7 value) ''http://'' then finish ''http://'' 7
           else if 8 \<le> length value \<and> eq_ignore_ascii_case (take 8 value) ''https://'' then finish ''https://'' 8
           else Inl InvalidContactValue)"

definition normalize_v1 :: "contact_kind \<Rightarrow> string \<Rightarrow> contact_value_error + string" where
  "normalize_v1 kind raw =
     (let value = str_trim raw in
      if value = [] \<or> max_contact_value_length < length value then Inl InvalidContactValue
      else case kind of
        Email \<Rightarrow> normalize_email_v1 value
      | Phone \<Rightarrow> normalize_phone_v1 value
      | Url \<Rightarrow> normalize_url_v1 value)"

datatype normalized_contact_value = NormalizedContactValue (contact_expose: string)

definition normalize_contact_value ::
    "contact_kind \<Rightarrow> contact_normalization_version \<Rightarrow> string \<Rightarrow> contact_value_error + normalized_contact_value" where
  "normalize_contact_value kind version raw =
     (case version of NormalizationV1 \<Rightarrow> res_bind (normalize_v1 kind raw) (\<lambda>v. Inr (NormalizedContactValue v)))"

section \<open>The lookup input and the stored forms\<close>

definition exact_lookup_hmac_input ::
    "tenant_id \<Rightarrow> contact_kind \<Rightarrow> contact_normalization_version \<Rightarrow> normalized_contact_value \<Rightarrow> string" where
  "exact_lookup_hmac_input tenant_id kind version normalized =
     lookup_domain_tag @ be_bytes 2 (normalization_version_value version) @ [CHR 0x00]
     @ id_as_str tenant_id @ [CHR 0x00] @ contact_kind_code kind @ [CHR 0x00] @ contact_expose normalized"

datatype encryption_key_version = EncryptionKeyVersion (encryption_key_version_value: u32)
datatype lookup_key_version = LookupKeyVersion (lookup_key_version_value: u32)

definition encryption_key_version_new :: "u32 \<Rightarrow> contact_protection_error + encryption_key_version" where
  "encryption_key_version_new v = (if v = 0 then Inl InvalidKeyVersion else Inr (EncryptionKeyVersion v))"

definition lookup_key_version_new :: "u32 \<Rightarrow> contact_protection_error + lookup_key_version" where
  "lookup_key_version_new v = (if v = 0 then Inl InvalidKeyVersion else Inr (LookupKeyVersion v))"

record encrypted_contact_value =
  ec_ciphertext :: string
  ec_nonce :: string
  ec_key_version :: encryption_key_version

definition encrypted_contact_value_new ::
    "string \<Rightarrow> string \<Rightarrow> encryption_key_version \<Rightarrow> contact_protection_error + encrypted_contact_value" where
  "encrypted_contact_value_new ciphertext nonce key_version =
     (if ciphertext = [] \<or> max_ciphertext_length < length ciphertext \<or> nonce = [] \<or> max_nonce_length < length nonce
      then Inl InvalidProtectedValue
      else Inr \<lparr>ec_ciphertext = ciphertext, ec_nonce = nonce, ec_key_version = key_version\<rparr>)"

record exact_lookup_token =
  lt_bytes :: string
  lt_key_version :: lookup_key_version

record protected_contact_point =
  cp_contact_point_id :: contact_point_id
  cp_kind :: contact_kind
  cp_status :: contact_status
  cp_normalization_version :: contact_normalization_version
  cp_protection_version :: contact_protection_version
  cp_display_value :: encrypted_contact_value
  cp_exact_lookup :: exact_lookup_token

section \<open>Normal forms\<close>

lemma space_or_control_lower [simp]:
  "is_ascii_space_or_control (to_ascii_lowercase_char c) = is_ascii_space_or_control c"
  by (auto simp: is_ascii_space_or_control_def byte_of_lowercase lower_byte_def)

lemma list_ex_space_lower [simp]:
  "list_ex is_ascii_space_or_control (to_ascii_lowercase s) = list_ex is_ascii_space_or_control s"
  by (simp add: to_ascii_lowercase_def list_ex_iff)

lemma lowercase_at [simp]: "to_ascii_lowercase_char c = CHR ''@'' \<longleftrightarrow> c = CHR ''@''"
proof -
  have at: "byte_of (CHR ''@'') = 64" by (simp add: byte_of_def)
  have "to_ascii_lowercase_char c = CHR ''@'' \<longleftrightarrow> lower_byte (byte_of c) = 64"
    using byte_of_inject [of "to_ascii_lowercase_char c" "CHR ''@''"] byte_of_lowercase [of c] at by metis
  also have "\<dots> \<longleftrightarrow> byte_of c = 64" by (auto simp: lower_byte_def)
  also have "\<dots> \<longleftrightarrow> c = CHR ''@''" using byte_of_inject [of c "CHR ''@''"] at by metis
  finally show ?thesis .
qed

lemma str_split_lower:
  "str_split (CHR ''@'') (to_ascii_lowercase s) = map to_ascii_lowercase (str_split (CHR ''@'') s)"
  by (induction s) (auto simp: to_ascii_lowercase_def split: list.splits)

lemma lowercase_nil [simp]: "to_ascii_lowercase s = [] \<longleftrightarrow> s = []"
  by (simp add: to_ascii_lowercase_def)

lemma normalize_email_Inr:
  "normalize_email_v1 v = Inr n \<longleftrightarrow> n = to_ascii_lowercase v \<and> length v \<le> 320
     \<and> \<not> list_ex is_ascii_space_or_control v
     \<and> (\<exists>local domain. str_split (CHR ''@'') v = [local, domain] \<and> local \<noteq> [] \<and> domain \<noteq> [])"
  by (auto simp: normalize_email_v1_def split: list.splits)

lemma normalize_email_idem:
  "normalize_email_v1 v = Inr n \<Longrightarrow> normalize_email_v1 n = Inr n"
  by (auto simp: normalize_email_Inr str_split_lower)

lemma phone_scan_digits:
  "list_all is_ascii_digit s \<Longrightarrow> phone_scan (Suc i) acc k s = Inr (acc @ s, k + length s)"
  by (induction s arbitrary: i acc k) (auto simp: is_ascii_digit_def byte_of_def)

definition phone_form :: "string \<Rightarrow> nat \<Rightarrow> bool" where
  "phone_form s k \<longleftrightarrow> (\<exists>ds. list_all is_ascii_digit ds \<and> length ds = k \<and> (s = ds \<or> s = CHR ''+'' # ds))"

lemma phone_form_digit: "phone_form acc k \<Longrightarrow> is_ascii_digit c \<Longrightarrow> phone_form (acc @ [c]) (Suc k)"
  by (auto simp: phone_form_def intro: exI [of _ "_ @ [c]"])

lemma phone_scan_form:
  "phone_scan (Suc i) acc k s = Inr (n, m) \<Longrightarrow> phone_form acc k \<Longrightarrow> phone_form n m"
proof (induction "Suc i" acc k s arbitrary: i rule: phone_scan.induct)
  case (2 normalized digit_count c s)
  then show ?case by (auto simp: phone_form_digit split: if_splits)
qed simp

lemma digit_not_plus: "is_ascii_digit c \<Longrightarrow> c \<noteq> CHR ''+''"
  by (auto simp: is_ascii_digit_def byte_of_def)

lemma phone_scan_result:
  assumes "phone_scan 0 [] 0 s = Inr (n, m)" shows "phone_form n m"
proof (cases s)
  case Nil
  then show ?thesis using assms by (auto simp: phone_form_def)
next
  case (Cons c t)
  have nil: "phone_form [] 0" "phone_form ''+'' 0" by (auto simp: phone_form_def)
  have "is_ascii_digit c \<Longrightarrow> phone_form [c] 1" using phone_form_digit [OF nil(1), of c] by simp
  then show ?thesis using assms Cons nil phone_scan_form [of 0 _ _ t n m] by (auto split: if_splits)
qed

lemma phone_scan_of_form:
  assumes "phone_form n m" shows "phone_scan 0 [] 0 n = Inr (n, m)"
proof -
  obtain ds where ds: "list_all is_ascii_digit ds" "length ds = m" "n = ds \<or> n = CHR ''+'' # ds"
    using assms by (auto simp: phone_form_def)
  show ?thesis
  proof (cases "n = ds")
    case True
    then show ?thesis
      using ds by (cases ds) (auto simp: digit_not_plus phone_scan_digits)
  next
    case False
    then show ?thesis using ds by (auto simp: phone_scan_digits)
  qed
qed

lemma normalize_phone_Inr:
  "normalize_phone_v1 v = Inr n \<longleftrightarrow> (\<exists>m. phone_scan 0 [] 0 v = Inr (n, m) \<and> 7 \<le> m \<and> m \<le> 15)"
  by (auto simp: normalize_phone_v1_def res_bind_Inr_iff split: if_splits)

lemma normalize_phone_idem: "normalize_phone_v1 v = Inr n \<Longrightarrow> normalize_phone_v1 n = Inr n"
  unfolding normalize_phone_Inr using phone_scan_of_form [OF phone_scan_result] by blast

lemma url_schemes_lower [simp]:
  "to_ascii_lowercase ''http://'' = ''http://''" "to_ascii_lowercase ''https://'' = ''https://''"
  by (simp_all add: to_ascii_lowercase_def to_ascii_lowercase_char_def is_ascii_uppercase_def byte_of_def)

definition url_parts :: "string \<Rightarrow> string \<Rightarrow> string \<Rightarrow> string \<Rightarrow> bool" where
  "url_parts v scheme raw rest \<longleftrightarrow> v = raw @ rest \<and> rest \<noteq> [] \<and> to_ascii_lowercase raw = scheme
     \<and> scheme \<in> {''http://'', ''https://''}"

lemma url_parts_length: "url_parts v scheme raw rest \<Longrightarrow> length raw = length scheme"
  unfolding url_parts_def by (metis length_to_ascii_lowercase)

definition url_starts :: "string \<Rightarrow> string \<Rightarrow> bool" where
  "url_starts scheme v \<longleftrightarrow> length scheme \<le> length v \<and> to_ascii_lowercase (take (length scheme) v) = scheme"

lemma url_scheme_lengths: "length ''http://'' = 7" "length ''https://'' = 8"
  by simp_all

lemma url_starts_iff:
  "url_starts ''http://'' v \<longleftrightarrow> 7 \<le> length v \<and> to_ascii_lowercase (take 7 v) = ''http://''"
  "url_starts ''https://'' v \<longleftrightarrow> 8 \<le> length v \<and> to_ascii_lowercase (take 8 v) = ''https://''"
  unfolding url_starts_def url_scheme_lengths by (rule refl)+

lemma normalize_url_alt:
  "normalize_url_v1 v =
     (if list_ex is_ascii_space_or_control v then Inl InvalidContactValue
      else if url_starts ''http://'' v then (if drop 7 v = [] then Inl InvalidContactValue else Inr (''http://'' @ drop 7 v))
      else if url_starts ''https://'' v then (if drop 8 v = [] then Inl InvalidContactValue else Inr (''https://'' @ drop 8 v))
      else Inl InvalidContactValue)"
  unfolding normalize_url_v1_def url_starts_iff eq_ignore_ascii_case_def Let_def url_schemes_lower by (rule refl)

lemma url_starts_parts:
  assumes "url_starts scheme v" "scheme \<in> {''http://'', ''https://''}" "drop (length scheme) v \<noteq> []"
  shows "url_parts v scheme (take (length scheme) v) (drop (length scheme) v)"
  using assms by (simp only: url_parts_def url_starts_def append_take_drop_id) simp

lemma normalize_url_InrD:
  assumes "normalize_url_v1 v = Inr n"
  shows "\<not> list_ex is_ascii_space_or_control v" "\<exists>scheme raw rest. url_parts v scheme raw rest \<and> n = scheme @ rest"
proof -
  show ok: "\<not> list_ex is_ascii_space_or_control v"
    using assms unfolding normalize_url_alt by (rule contrapos_pn) simp
  show "\<exists>scheme raw rest. url_parts v scheme raw rest \<and> n = scheme @ rest"
  proof (cases "url_starts ''http://'' v")
    case True
    then have "drop 7 v \<noteq> []" "n = ''http://'' @ drop 7 v"
      using assms ok unfolding normalize_url_alt by (simp_all split: if_splits)
    then show ?thesis using url_starts_parts [OF True, unfolded url_scheme_lengths] by blast
  next
    case False
    then have "url_starts ''https://'' v" "drop 8 v \<noteq> []" "n = ''https://'' @ drop 8 v"
      using assms ok unfolding normalize_url_alt by (simp_all split: if_splits)
    then show ?thesis using url_starts_parts [of "''https://''" v, unfolded url_scheme_lengths] by blast
  qed
qed

lemma url_parts_starts:
  assumes u: "url_parts v scheme raw rest"
  shows "url_starts scheme v" "drop (length scheme) v = rest"
  using u url_parts_length [OF u] by (simp_all add: url_parts_def url_starts_def)

lemma url_starts_one: "url_starts ''https://'' v \<Longrightarrow> \<not> url_starts ''http://'' v"
proof
  assume s: "url_starts ''https://'' v" and h: "url_starts ''http://'' v"
  have "to_ascii_lowercase (take 7 v) = take 7 (to_ascii_lowercase (take 8 v))"
    by (simp add: to_ascii_lowercase_def take_map)
  then have "''http://'' = take 7 ''https://''" using s h unfolding url_starts_iff by simp
  then show False by simp
qed

lemma normalize_url_InrI:
  assumes u: "url_parts v scheme raw rest" and ok: "\<not> list_ex is_ascii_space_or_control v"
  shows "normalize_url_v1 v = Inr (scheme @ rest)"
proof -
  note st = url_parts_starts [OF u]
  have r: "rest \<noteq> []" using u by (simp add: url_parts_def)
  consider "scheme = ''http://''" | "scheme = ''https://''" using u by (auto simp: url_parts_def)
  then show ?thesis
  proof cases
    case 1
    then have "url_starts ''http://'' v" "drop 7 v = rest" using st unfolding 1 url_scheme_lengths by simp_all
    then show ?thesis unfolding normalize_url_alt using ok r 1 by simp
  next
    case 2
    then have "url_starts ''https://'' v" "drop 8 v = rest" using st unfolding 2 url_scheme_lengths by simp_all
    then show ?thesis unfolding normalize_url_alt using ok r 2 url_starts_one by simp
  qed
qed

lemma lowercase_append: "to_ascii_lowercase (a @ b) = to_ascii_lowercase a @ to_ascii_lowercase b"
  by (simp add: to_ascii_lowercase_def)

lemma normalize_url_lower:
  "url_parts v scheme raw rest \<Longrightarrow> to_ascii_lowercase (scheme @ rest) = to_ascii_lowercase v"
  by (auto simp: url_parts_def lowercase_append)

lemma normalize_url_idem:
  assumes "normalize_url_v1 v = Inr n" shows "normalize_url_v1 n = Inr n"
proof -
  obtain scheme raw rest where u: "url_parts v scheme raw rest" "n = scheme @ rest"
    using normalize_url_InrD(2) [OF assms] by blast
  have "url_parts n scheme scheme rest" using u by (auto simp: url_parts_def)
  moreover have "list_ex is_ascii_space_or_control n = list_ex is_ascii_space_or_control v"
    using normalize_url_lower [OF u(1)] u(2) list_ex_space_lower by metis
  ultimately show ?thesis using normalize_url_InrI u(2) normalize_url_InrD(1) [OF assms] by blast
qed

lemma phone_form_trimmed:
  assumes "phone_form n m" shows "trimmed n"
proof (rule trimmed_graphic)
  fix c assume "c \<in> set n"
  then have "is_ascii_digit c \<or> c = CHR ''+''" using assms by (auto simp: phone_form_def list_all_iff)
  then show "32 < byte_of c \<and> byte_of c < 128" by (auto simp: is_ascii_digit_def byte_of_def)
qed

lemma phone_form_length: "phone_form n m \<Longrightarrow> m \<le> length n \<and> length n \<le> Suc m"
  by (auto simp: phone_form_def)

text \<open>A normalised value is trimmed, in range, and normal for its kind.\<close>

lemma normalize_v1_normal:
  assumes "normalize_v1 kind raw = Inr n"
  shows "trimmed n" "n \<noteq> []" "length n \<le> max_contact_value_length"
    "(case kind of Email \<Rightarrow> normalize_email_v1 n | Phone \<Rightarrow> normalize_phone_v1 n | Url \<Rightarrow> normalize_url_v1 n) = Inr n"
proof -
  define v where "v = str_trim raw"
  have v: "trimmed v" "v \<noteq> []" "length v \<le> max_contact_value_length"
    "(case kind of Email \<Rightarrow> normalize_email_v1 v | Phone \<Rightarrow> normalize_phone_v1 v | Url \<Rightarrow> normalize_url_v1 v) = Inr n"
    using assms unfolding v_def by (simp_all add: normalize_v1_def Let_def split: if_splits)
  have "trimmed n \<and> n \<noteq> [] \<and> length n \<le> max_contact_value_length
    \<and> (case kind of Email \<Rightarrow> normalize_email_v1 n | Phone \<Rightarrow> normalize_phone_v1 n | Url \<Rightarrow> normalize_url_v1 n) = Inr n"
  proof (cases kind)
    case Email
    then show ?thesis using v normalize_email_idem [of v n] by (auto simp: normalize_email_Inr)
  next
    case Phone
    then obtain m where m: "phone_form n m" "7 \<le> m" "m \<le> 15"
      using v(4) by (auto simp: normalize_phone_Inr dest: phone_scan_result)
    then show ?thesis
      using phone_form_trimmed [OF m(1)] phone_form_length [OF m(1)] normalize_phone_idem [of v n] v(4) Phone
      by (auto simp: max_contact_value_length_def)
  next
    case Url
    then have n: "normalize_url_v1 v = Inr n" using v(4) by simp
    obtain scheme raw' rest where u: "url_parts v scheme raw' rest" "n = scheme @ rest"
      using normalize_url_InrD(2) [OF n] by blast
    have low: "to_ascii_lowercase n = to_ascii_lowercase v" using normalize_url_lower [OF u(1)] u(2) by simp
    then have "length n = length v" by (metis length_to_ascii_lowercase)
    then show ?thesis
      using trimmed_same_lower [OF low [symmetric] v(1)] v(2,3) normalize_url_idem [OF n] Url by auto
  qed
  then show "trimmed n" "n \<noteq> []" "length n \<le> max_contact_value_length"
    "(case kind of Email \<Rightarrow> normalize_email_v1 n | Phone \<Rightarrow> normalize_phone_v1 n | Url \<Rightarrow> normalize_url_v1 n) = Inr n"
    by blast+
qed

section \<open>The lookup input is unambiguous\<close>

lemma no_zero_id: "id_valid i \<Longrightarrow> CHR 0x00 \<notin> set (id_as_str i)"
  by (auto simp: id_valid_def opaque_valid_def list_all_iff id_char_def ascii_defs)

lemma no_zero_kind: "CHR 0x00 \<notin> set (contact_kind_code k)"
  by (cases k) auto

lemma contact_kind_code_inject: "contact_kind_code a = contact_kind_code b \<longleftrightarrow> a = b"
  by (cases a; cases b) simp_all

lemma zero_split:
  "CHR 0x00 \<notin> set a \<Longrightarrow> CHR 0x00 \<notin> set b \<Longrightarrow> a @ CHR 0x00 # x = b @ CHR 0x00 # y \<longleftrightarrow> a = b \<and> x = y"
proof (induction a arbitrary: b)
  case Nil then show ?case by (cases b) auto
next
  case (Cons c a) then show ?case by (cases b) auto
qed

lemma lookup_input_inject:
  assumes "id_valid t" "id_valid t'"
  shows "exact_lookup_hmac_input t k ver n = exact_lookup_hmac_input t' k' ver' n' \<longleftrightarrow> t = t' \<and> k = k' \<and> ver = ver' \<and> n = n'"
proof -
  have "ver = ver'" by (cases ver; cases ver') simp
  then have "exact_lookup_hmac_input t k ver n = exact_lookup_hmac_input t' k' ver' n' \<longleftrightarrow>
      id_as_str t @ CHR 0x00 # contact_kind_code k @ CHR 0x00 # contact_expose n
      = id_as_str t' @ CHR 0x00 # contact_kind_code k' @ CHR 0x00 # contact_expose n'"
    by (simp add: exact_lookup_hmac_input_def)
  also have "\<dots> \<longleftrightarrow> id_as_str t = id_as_str t' \<and> contact_kind_code k = contact_kind_code k' \<and> contact_expose n = contact_expose n'"
    using no_zero_id [OF assms(1)] no_zero_id [OF assms(2)] no_zero_kind by (simp add: zero_split)
  finally show ?thesis
    using \<open>ver = ver'\<close> by (metis contact_kind_code_inject id_eq_iff normalized_contact_value.expand)
qed

end
