(* ===== verification/Domain_Properties.thy ===== *)
theory Domain_Properties
  imports Tenant_Directory Identity_Acl Contact_Point
begin

text \<open>
  The properties of the tenant domains: memberships and grants, the profile with its generation
  registry, clients with their merges, assignments and contact points.
\<close>

section \<open>Memberships\<close>

text \<open>
  C21: From the bootstrap on a tenant has exactly one membership with the owner role and it is active:
  no sequence of transfers, status changes and accepted invitations loses it or adds a second one.
\<close>

theorem tenant_has_one_owner:
  assumes "directory_reachable scope T"
  shows "(\<exists>!owner. \<exists>m. T owner = Some m \<and> mb_role m = TenantOwner)
    \<and> (\<forall>a m. T a = Some m \<longrightarrow> mb_actor_id m = a \<and> mb_tenant_id m = scope_tenant_id scope
          \<and> (mb_role m = TenantOwner \<longrightarrow> mb_status m = MembershipActive))"
proof -
  obtain owner where inv: "directory_inv scope owner T" using directory_reachable_inv [OF assms] ..
  note v = directory_invD [OF inv]
  obtain m where m: "T owner = Some m" "is_active_owner m" using v(5) by blast
  have "\<exists>!owner. \<exists>m. T owner = Some m \<and> mb_role m = TenantOwner"
    using m v(4) by (intro ex1I [of _ owner]) (auto simp: is_active_owner_def)
  moreover have "mb_status m' = MembershipActive" if "T a = Some m'" "mb_role m' = TenantOwner" for a m'
    using that m v(4) [OF that(1)] by (auto simp: is_active_owner_def)
  ultimately show ?thesis using v(2,3) by blast
qed

definition sample_scope :: tenant_scope where
  "sample_scope = \<lparr>scope_tenant_id = TypedId (OpaqueId ''tenant_0001'')\<rparr>"

definition sample_actor :: "string \<Rightarrow> actor_context" where
  "sample_actor name = \<lparr>actor_tenant_scope = sample_scope, actor_actor_id = TypedId (OpaqueId name),
     actor_correlation_id = TypedId (OpaqueId ''corr_0001'')\<rparr>"

definition sample_membership :: "string \<Rightarrow> membership_role \<Rightarrow> membership" where
  "sample_membership name role = \<lparr>mb_tenant_id = scope_tenant_id sample_scope, mb_actor_id = TypedId (OpaqueId name),
     mb_role = role, mb_status = MembershipActive\<rparr>"

definition sample_founded :: membership_table where
  "sample_founded = [TypedId (OpaqueId ''actor_0001'') \<mapsto> sample_membership ''actor_0001'' TenantOwner]"

definition sample_joined :: membership_table where
  "sample_joined = sample_founded(TypedId (OpaqueId ''actor_0002'') \<mapsto> sample_membership ''actor_0002'' Member)"

definition sample_handed_over :: membership_table where
  "sample_handed_over = sample_joined(TypedId (OpaqueId ''actor_0001'') \<mapsto> sample_membership ''actor_0001'' Member,
     TypedId (OpaqueId ''actor_0002'') \<mapsto> sample_membership ''actor_0002'' TenantOwner)"

lemmas sample_defs = sample_scope_def sample_actor_def sample_membership_def sample_founded_def sample_joined_def
  sample_handed_over_def

lemma sample_founded_reachable: "directory_reachable sample_scope sample_founded"
  unfolding sample_founded_def
  by (rule directory_reachable.founded [where b = "\<lparr>tb_membership_count = 0, tb_active_owner_count = 0\<rparr>"])
    (auto simp: summarises_def active_owners_def decide_owner_bootstrap_def sample_defs)

lemma sample_joined_reachable: "directory_reachable sample_scope sample_joined"
proof (rule directory_reachable.step [OF sample_founded_reachable])
  show "directory_step sample_scope sample_founded sample_joined"
    unfolding sample_joined_def
    by (rule directory_step.accept [where iv = "\<lparr>iv_tenant_id = scope_tenant_id sample_scope,
          iv_invitation_id = TypedId (OpaqueId ''invite_0001''), iv_invited_contact_hmac = ''hmac_0123456789abcdef'',
          iv_status = InvitationPending, iv_expires_at = 10, iv_created_by_actor_id = TypedId (OpaqueId ''actor_0001'')\<rparr>"
          and identity = "TypedId (OpaqueId ''ident_0001'')" and now = 5])
      (auto simp: invitation_accept_def sample_defs)
qed

lemma sample_handed_over_reachable: "directory_reachable sample_scope sample_handed_over"
proof (rule directory_reachable.step [OF sample_joined_reachable])
  have ow: "active_owners sample_joined = {TypedId (OpaqueId ''actor_0001'')}"
    by (auto simp: active_owners_def is_active_owner_def sample_defs split: if_splits)
  have do: "dom sample_joined = {TypedId (OpaqueId ''actor_0001''), TypedId (OpaqueId ''actor_0002'')}"
    by (auto simp: sample_defs)
  show "directory_step sample_scope sample_joined sample_handed_over"
  proof -
    let ?d = "\<lparr>ot_previous_owner = sample_membership ''actor_0001'' Member,
               ot_next_owner = sample_membership ''actor_0002'' TenantOwner\<rparr>"
    have "directory_step sample_scope sample_joined (sample_joined(TypedId (OpaqueId ''actor_0001'') \<mapsto> ot_previous_owner ?d,
            TypedId (OpaqueId ''actor_0002'') \<mapsto> ot_next_owner ?d))"
      by (rule directory_step.transfer [where b = "\<lparr>tb_membership_count = 2, tb_active_owner_count = 1\<rparr>"
            and current = "sample_membership ''actor_0001'' TenantOwner" and successor = "sample_membership ''actor_0002'' Member"
            and actor = "sample_actor ''actor_0001''"])
        (simp_all add: summarises_def ow do, simp_all add: decide_owner_transfer_def sample_defs)
    then show ?thesis by (simp add: sample_handed_over_def)
  qed
qed

theorem tenant_has_one_owner_witness:
  "(\<exists>!owner. \<exists>m. sample_handed_over owner = Some m \<and> mb_role m = TenantOwner)
   \<and> sample_handed_over (TypedId (OpaqueId ''actor_0002'')) = Some (sample_membership ''actor_0002'' TenantOwner)"
  using tenant_has_one_owner [OF sample_handed_over_reachable] by (simp add: sample_handed_over_def)

section \<open>Isolation of tenants\<close>

text \<open>
  C22: Rows of another tenant are as good as absent: a client, a profile, a grant or an assignment of a foreign
  tenant never changes what a query answers, so the answer cannot tell whether the row exists.
\<close>

theorem foreign_rows_invisible:
  assumes "cr_tenant_id foreign_client \<noteq> actor_tenant actor" "bp_tenant_id foreign_profile \<noteq> actor_tenant actor"
    "cg_tenant_id foreign_client_grant \<noteq> actor_tenant actor" "pg_tenant_id foreign_profile_grant \<noteq> actor_tenant actor"
    "as_tenant_id foreign_assignment \<noteq> actor_tenant actor"
  shows "query_client actor mrow cgrant i (Some foreign_client) = query_client actor mrow cgrant i None
    \<and> query_client actor mrow (Some foreign_client_grant) i crow = query_client actor mrow None i crow
    \<and> query_profile actor mrow pgrant p (Some foreign_profile) arow = query_profile actor mrow pgrant p None arow
    \<and> query_profile actor mrow (Some foreign_profile_grant) p prow arow = query_profile actor mrow None p prow arow
    \<and> query_profile actor mrow pgrant p prow (Some foreign_assignment) = query_profile actor mrow pgrant p prow None"
  using assms
  by (intro conjI)
    (simp_all add: query_client_def query_profile_def authorize_client_Allowed authorize_profile_Allowed
      client_grant_covers_def profile_grant_covers_def split: option.splits)

definition sample_client :: "string \<Rightarrow> string \<Rightarrow> client_record" where
  "sample_client tenant name = \<lparr>cr_tenant_id = TypedId (OpaqueId tenant), cr_client_id = TypedId (OpaqueId name),
     cr_version = version_initial, cr_kind = Person, cr_display_name = ''Ada'', cr_status = ClientActive\<rparr>"

definition sample_client_grant :: "string \<Rightarrow> string \<Rightarrow> string \<Rightarrow> client_grant" where
  "sample_client_grant tenant who name = \<lparr>cg_tenant_id = TypedId (OpaqueId tenant), cg_actor_id = TypedId (OpaqueId who),
     cg_client_id = TypedId (OpaqueId name), cg_role = ClientEditor\<rparr>"

definition sample_profile_grant :: "string \<Rightarrow> string \<Rightarrow> profile_grant" where
  "sample_profile_grant tenant who = \<lparr>pg_tenant_id = TypedId (OpaqueId tenant), pg_actor_id = TypedId (OpaqueId who),
     pg_profile_id = TypedId (OpaqueId ''profile_0001''), pg_role = ProfileViewer\<rparr>"

definition sample_assignment :: "string \<Rightarrow> profile_client_assignment" where
  "sample_assignment tenant = \<lparr>as_tenant_id = TypedId (OpaqueId tenant), as_assignment_id = TypedId (OpaqueId ''assign_0001''),
     as_profile_id = TypedId (OpaqueId ''profile_0001''), as_client_id = TypedId (OpaqueId ''client_0001''), as_role = Primary,
     as_status = AssignmentActive, as_assigned_by = TypedId (OpaqueId ''actor_0001''), as_assigned_at = 1, as_closed_at = None,
     as_reason = ''first''\<rparr>"

abbreviation sample_profile :: "string \<Rightarrow> browser_profile" where
  "sample_profile tenant \<equiv> browser_profile_create (TypedId (OpaqueId tenant)) (TypedId (OpaqueId ''profile_0001''))"

theorem foreign_rows_invisible_witness:
  "query_client (sample_actor ''actor_0001'') (Some (sample_membership ''actor_0001'' TenantOwner)) None
     (TypedId (OpaqueId ''client_0001'')) (Some (sample_client ''tenant_0002'' ''client_0001''))
   = query_client (sample_actor ''actor_0001'') (Some (sample_membership ''actor_0001'' TenantOwner)) None
       (TypedId (OpaqueId ''client_0001'')) None
   \<and> is_ok (query_client (sample_actor ''actor_0001'') (Some (sample_membership ''actor_0001'' TenantOwner)) None
       (TypedId (OpaqueId ''client_0001'')) (Some (sample_client ''tenant_0001'' ''client_0001'')))"
  using foreign_rows_invisible [of "sample_client ''tenant_0002'' ''client_0001''" "sample_actor ''actor_0001''"
      "sample_profile ''tenant_0002''" "sample_client_grant ''tenant_0002'' ''actor_0001'' ''client_0001''"
      "sample_profile_grant ''tenant_0002'' ''actor_0001''" "sample_assignment ''tenant_0002''"
      "Some (sample_membership ''actor_0001'' TenantOwner)" None "TypedId (OpaqueId ''client_0001'')"]
  by (simp add: sample_client_def sample_client_grant_def sample_profile_grant_def sample_assignment_def
      browser_profile_create_def sample_defs query_client_def authorize_client_def)

section \<open>Grants\<close>

text \<open>
  A client grant that the owner decided lets its grantee see the client, lets a member edit it exactly
  under the editor role, and authorises nobody else, no other client and never administration.
\<close>

theorem client_grant_admits_only_grantee:
  assumes g: "decide_client_grant actor owner_membership target c role = Inr g"
  shows "(authorize_client actor' m' i (Some g) cap = Allowed \<longleftrightarrow>
      member_of_actor actor' m'
      \<and> (mb_role m' = TenantOwner
         \<or> actor_tenant actor' = mb_tenant_id target \<and> actor_actor_id actor' = mb_actor_id target \<and> i = cr_client_id c
           \<and> (cap = ClientView \<or> cap = ClientEdit \<and> role = ClientEditor)))
    \<and> (member_of_actor actor' target \<longrightarrow> query_client actor' (Some target) (Some g) (cr_client_id c) (Some c)
      = Inr \<lparr>cv_client_id = cr_client_id c, cv_kind = cr_kind c, cv_display_name = cr_display_name c\<rparr>)"
proof -
  have d: "g = \<lparr>cg_tenant_id = actor_tenant actor, cg_actor_id = mb_actor_id target, cg_client_id = cr_client_id c, cg_role = role\<rparr>"
    "mb_tenant_id target = actor_tenant actor" "cr_tenant_id c = actor_tenant actor"
    using g by (auto simp: decide_client_grant_def res_bind_Inr_iff require_grant_target_Inr split: if_splits)
  have role: "client_role_allows role cap \<longleftrightarrow> cap = ClientView \<or> cap = ClientEdit \<and> role = ClientEditor" for cap
    by (cases role; cases cap) simp_all
  have *: "authorize_client actor' m' i (Some g) cap = Allowed \<longleftrightarrow> member_of_actor actor' m'
      \<and> (mb_role m' = TenantOwner
         \<or> actor_tenant actor' = mb_tenant_id target \<and> actor_actor_id actor' = mb_actor_id target \<and> i = cr_client_id c
           \<and> (cap = ClientView \<or> cap = ClientEdit \<and> role = ClientEditor))" for m' i cap
    using d by (auto simp: authorize_client_Allowed client_grant_covers_def role)
  have "query_client actor' (Some target) (Some g) (cr_client_id c) (Some c)
      = Inr \<lparr>cv_client_id = cr_client_id c, cv_kind = cr_kind c, cv_display_name = cr_display_name c\<rparr>"
    if "member_of_actor actor' target"
    using that * [of target "cr_client_id c" ClientView] d
    by (auto simp: query_client_Inr member_of_actor_def)
  then show ?thesis using * by blast
qed

theorem client_grant_admits_only_grantee_witness:
  "decide_client_grant (sample_actor ''actor_0001'') (sample_membership ''actor_0001'' TenantOwner)
     (sample_membership ''actor_0002'' Member) (sample_client ''tenant_0001'' ''client_0001'') ClientEditor
   = Inr (sample_client_grant ''tenant_0001'' ''actor_0002'' ''client_0001'')
   \<and> authorize_client (sample_actor ''actor_0003'') (sample_membership ''actor_0003'' Member) (TypedId (OpaqueId ''client_0001''))
       (Some (sample_client_grant ''tenant_0001'' ''actor_0002'' ''client_0001'')) ClientView \<noteq> Allowed"
proof -
  have g: "decide_client_grant (sample_actor ''actor_0001'') (sample_membership ''actor_0001'' TenantOwner)
     (sample_membership ''actor_0002'' Member) (sample_client ''tenant_0001'' ''client_0001'') ClientEditor
   = Inr (sample_client_grant ''tenant_0001'' ''actor_0002'' ''client_0001'')"
    by (simp add: decide_client_grant_def require_active_owner_def require_grant_target_def sample_defs sample_client_def
        sample_client_grant_def)
  show ?thesis
    using g client_grant_admits_only_grantee [OF g, of "sample_actor ''actor_0003''" "sample_membership ''actor_0003'' Member"]
    by (simp add: sample_defs)
qed

section \<open>Profiles and generations\<close>

text \<open>
  C23: Under any registrations, verifications, quarantines, activations and status changes the active
  generation of a profile has a verified record with its reference, of this tenant and profile, and
  cannot be quarantined; a profile that is ready, in use, dirty or syncing has an active generation.
\<close>

theorem active_generation_verified:
  assumes "profile_step\<^sup>*\<^sup>* (profile_world_initial tenant_id profile_id) w"
  shows "(\<forall>g. bp_active_generation_id (pw_profile w) = Some g \<longrightarrow>
           (\<exists>r. pw_registry w g = Some r \<and> gr_status r = RegVerified \<and> gr_verification_reference r \<noteq> None
              \<and> gr_tenant_id r = bp_tenant_id (pw_profile w) \<and> gr_profile_id r = bp_profile_id (pw_profile w)
              \<and> registry_quarantine_for_profile (pw_profile w) r = (Inl RegGenerationActive, r)))
    \<and> (profile_needs_generation (bp_status (pw_profile w)) \<longrightarrow> bp_active_generation_id (pw_profile w) \<noteq> None)"
proof -
  have inv: "profile_world_inv w"
    using profile_store.reached_holds [OF assms] by blast
  have q: "registry_quarantine_for_profile (pw_profile w) r = (Inl RegGenerationActive, r)"
    if "bp_active_generation_id (pw_profile w) = Some g" "gr_generation_id r = g"
      "gr_tenant_id r = bp_tenant_id (pw_profile w)" "gr_profile_id r = bp_profile_id (pw_profile w)" for g r
    using that by (simp add: registry_quarantine_for_profile_def)
  have act: "\<exists>r. pw_registry w g = Some r \<and> gr_status r = RegVerified
      \<and> gr_tenant_id r = bp_tenant_id (pw_profile w) \<and> gr_profile_id r = bp_profile_id (pw_profile w)"
    if "bp_active_generation_id (pw_profile w) = Some g" for g
    using inv that unfolding profile_world_inv_def by blast
  show ?thesis
  proof (intro conjI allI impI)
    fix g assume g: "bp_active_generation_id (pw_profile w) = Some g"
    obtain r where r: "pw_registry w g = Some r" "gr_status r = RegVerified"
      "gr_tenant_id r = bp_tenant_id (pw_profile w)" "gr_profile_id r = bp_profile_id (pw_profile w)"
      using act [OF g] by blast
    note d = profile_world_invD [OF inv r(1)]
    show "\<exists>r. pw_registry w g = Some r \<and> gr_status r = RegVerified \<and> gr_verification_reference r \<noteq> None
        \<and> gr_tenant_id r = bp_tenant_id (pw_profile w) \<and> gr_profile_id r = bp_profile_id (pw_profile w)
        \<and> registry_quarantine_for_profile (pw_profile w) r = (Inl RegGenerationActive, r)"
      using r d(2) [OF r(2)] q [OF g d(1) r(3,4)] by blast
  next
    assume "profile_needs_generation (bp_status (pw_profile w))"
    then show "bp_active_generation_id (pw_profile w) \<noteq> None" using inv unfolding profile_world_inv_def by blast
  qed
qed

definition sample_record :: generation_registry_record where
  "sample_record = registry_register (TypedId (OpaqueId ''tenant_0001'')) (TypedId (OpaqueId ''profile_0001''))
     (TypedId (OpaqueId ''generation_0001'')) (GenerationObjectKey ''generations/v1/0001'')
     (GenerationDigest (replicate 64 (CHR ''a''))) (GenerationDigest (replicate 64 (CHR ''b'')))"

definition sample_verified :: generation_registry_record where
  "sample_verified = snd (registry_verify (VerificationReference ''review:0001'') sample_record)"

definition sample_activated :: browser_profile where
  "sample_activated = snd (profile_activate_generation (registry_profile_generation sample_verified) (sample_profile ''tenant_0001''))"

lemmas sample_profile_defs = sample_activated_def sample_verified_def sample_record_def registry_register_def registry_verify_def
  profile_activate_generation_def registry_profile_generation_def browser_profile_create_def version_next_def version_initial_def
  checked_add_def

lemma sample_world_reachable:
  "profile_step\<^sup>*\<^sup>* (profile_world_initial (TypedId (OpaqueId ''tenant_0001'')) (TypedId (OpaqueId ''profile_0001'')))
     \<lparr>pw_profile = sample_activated, pw_registry = [TypedId (OpaqueId ''generation_0001'') \<mapsto> sample_verified]\<rparr>"
proof -
  let ?w0 = "profile_world_initial (TypedId (OpaqueId ''tenant_0001'')) (TypedId (OpaqueId ''profile_0001''))"
  let ?g = "TypedId (OpaqueId ''generation_0001'')"
  have "profile_step ?w0 (?w0\<lparr>pw_registry := (pw_registry ?w0)(?g \<mapsto> sample_record)\<rparr>)"
    by (rule profile_step.register [where g = "?g" and r = sample_record])
      (simp_all add: profile_world_initial_def sample_record_def registry_register_def)
  then have 1: "profile_step ?w0 (?w0\<lparr>pw_registry := [?g \<mapsto> sample_record]\<rparr>)" by (simp add: profile_world_initial_def)
  have "registry_verify (VerificationReference ''review:0001'') sample_record = (Inr (), sample_verified)"
    by (simp add: sample_profile_defs)
  then have 2: "profile_step (?w0\<lparr>pw_registry := [?g \<mapsto> sample_record]\<rparr>) (?w0\<lparr>pw_registry := [?g \<mapsto> sample_verified]\<rparr>)"
    using profile_step.verify [of "?w0\<lparr>pw_registry := [?g \<mapsto> sample_record]\<rparr>" "?g" sample_record _ sample_verified] by simp
  have "profile_activate_generation (registry_profile_generation sample_verified) (sample_profile ''tenant_0001'') = (Inr (), sample_activated)"
    by (simp add: sample_profile_defs)
  then have 3: "profile_step (?w0\<lparr>pw_registry := [?g \<mapsto> sample_verified]\<rparr>)
      (?w0\<lparr>pw_registry := [?g \<mapsto> sample_verified], pw_profile := sample_activated\<rparr>)"
    using profile_step.activate [of "?w0\<lparr>pw_registry := [?g \<mapsto> sample_verified]\<rparr>" "?g" sample_verified sample_activated]
    by (simp add: profile_world_initial_def)
  have "profile_step\<^sup>*\<^sup>* ?w0 (?w0\<lparr>pw_registry := [?g \<mapsto> sample_verified], pw_profile := sample_activated\<rparr>)"
    using 1 2 3 by (meson rtranclp.rtrancl_refl rtranclp.rtrancl_into_rtrancl)
  then show ?thesis by (simp add: profile_world_initial_def)
qed

theorem active_generation_verified_witness:
  "registry_quarantine_for_profile sample_activated sample_verified = (Inl RegGenerationActive, sample_verified)
   \<and> bp_status sample_activated = ProfileReady"
proof -
  have a: "bp_active_generation_id sample_activated = Some (TypedId (OpaqueId ''generation_0001''))"
    "bp_status sample_activated = ProfileReady" by (simp_all add: sample_profile_defs)
  then show ?thesis using active_generation_verified [OF sample_world_reachable] by auto
qed

section \<open>Clients\<close>

text \<open>
  C24: Merges never form a cycle, whatever the order of creations, renames, archivals and merges, and the
  chain of merges from any client ends at a client of the same tenant that was not merged away.
\<close>

theorem merges_resolve:
  assumes "client_step\<^sup>*\<^sup>* client_world_initial w"
  shows "acyclic (merge_edges w) \<and> (\<forall>i c. cw_clients w i = Some c \<longrightarrow>
      (\<exists>j d. (i, j) \<in> (merge_edges w)\<^sup>* \<and> cw_clients w j = Some d \<and> cr_status d \<noteq> ClientMerged \<and> cr_tenant_id d = cr_tenant_id c))"
proof -
  have inv: "client_world_inv w"
    by (rule client_store.reached_holds [OF assms refl])
  show ?thesis using client_world_invD(2) [OF inv] merge_chain_ends [OF inv] by blast
qed

abbreviation cid :: "string \<Rightarrow> client_id" where "cid s \<equiv> TypedId (OpaqueId s)"

definition sample_merged :: client_record where
  "sample_merged = (sample_client ''tenant_0001'' ''client_0001'')\<lparr>cr_status := ClientMerged, cr_version := AggregateVersion 2\<rparr>"

definition sample_merge_world :: client_world where
  "sample_merge_world = \<lparr>cw_clients = [cid ''client_0001'' \<mapsto> sample_merged, cid ''client_0002'' \<mapsto> sample_client ''tenant_0001'' ''client_0002''],
     cw_merged = (\<lambda>_. NotMerged)(cid ''client_0001'' := MergedInto (cid ''client_0002''))\<rparr>"

lemma sample_name_trimmed: "str_trim ''Ada'' = ''Ada''"
  by (rule str_trim_fixed, rule trimmed_graphic) (auto simp: byte_of_def)

lemma sample_client_create:
  "client_create (TypedId (OpaqueId t)) (cid i) Person ''Ada'' = Inr (sample_client t i)"
  by (simp add: client_create_def client_restore_def normalize_display_name_def sample_name_trimmed sample_client_def
      max_display_name_length_def)

lemma sample_merge_reachable: "client_step\<^sup>*\<^sup>* client_world_initial sample_merge_world"
proof -
  let ?a = "sample_client ''tenant_0001'' ''client_0001''" and ?b = "sample_client ''tenant_0001'' ''client_0002''"
  let ?w1 = "\<lparr>cw_clients = [cid ''client_0001'' \<mapsto> ?a], cw_merged = \<lambda>_. NotMerged\<rparr>"
  let ?w2 = "\<lparr>cw_clients = [cid ''client_0001'' \<mapsto> ?a, cid ''client_0002'' \<mapsto> ?b], cw_merged = \<lambda>_. NotMerged\<rparr>"
  have 1: "client_step client_world_initial ?w1"
    using client_step.create [OF sample_client_create, of client_world_initial "''client_0001''" "''tenant_0001''"]
    by (simp add: client_world_initial_def)
  have 2: "client_step ?w1 ?w2"
    using client_step.create [OF sample_client_create, of "?w1" "''client_0002''" "''tenant_0001''"] by simp
  let ?plan = "\<lparr>mp_tenant_id = TypedId (OpaqueId ''tenant_0001''), mp_source_client_id = cid ''client_0001'',
     mp_target_client_id = cid ''client_0002'', mp_source_expected_version = version_initial,
     mp_target_expected_version = version_initial, mp_source_next_version = AggregateVersion 2,
     mp_merge_state = MergedInto (cid ''client_0002'')\<rparr>"
  have plan: "merge_clients ?b version_initial version_initial ?a = (Inr ?plan, sample_merged)"
    by (simp add: merge_clients_def sample_client_def sample_merged_def merge_source_check_def merge_target_check_def
        merged_into_def client_mark_merged_def version_next_def version_initial_def checked_add_def)
  have "client_step ?w2 sample_merge_world"
    using client_step.merge [of "?w2" "cid ''client_0001''" "?a" "cid ''client_0002''" "?b", OF _ _ plan]
    by (simp add: sample_merge_world_def fun_upd_twist)
  then show ?thesis using 1 2 by (meson rtranclp.rtrancl_refl rtranclp.rtrancl_into_rtrancl)
qed

theorem merges_resolve_witness:
  "acyclic (merge_edges sample_merge_world) \<and> (cid ''client_0001'', cid ''client_0002'') \<in> merge_edges sample_merge_world"
  using merges_resolve [OF sample_merge_reachable] by (simp add: sample_merge_world_def merge_edges_def)

section \<open>Assignments\<close>

text \<open>
  However profiles are assigned, reassigned and detached, a profile has at most one active assignment,
  and every closed one was closed at or after the time it was made.
\<close>

theorem profile_has_one_primary_client:
  assumes "assignment_step\<^sup>*\<^sup>* Map.empty T"
  shows "(\<forall>i j a b. T i = Some a \<and> T j = Some b \<and> as_tenant_id a = as_tenant_id b \<and> as_profile_id a = as_profile_id b
      \<and> as_status a = AssignmentActive \<and> as_status b = AssignmentActive \<longrightarrow> i = j)
    \<and> (\<forall>i a. T i = Some a \<and> as_status a = AssignmentClosed \<longrightarrow> (\<exists>at. as_closed_at a = Some at \<and> as_assigned_at a \<le> at))"
proof -
  have inv: "assignment_table_inv T" by (rule assignment_store.reached_holds [OF assms refl])
  note d = assignment_table_invD [OF inv]
  have "\<exists>at. as_closed_at a = Some at \<and> as_assigned_at a \<le> at" if "T i = Some a" "as_status a = AssignmentClosed" for i a
    using that d(1) [of i a] by (auto simp: assignment_row_ok_def)
  then show ?thesis using d(2) unfolding same_scope_def by blast
qed

lemma sample_reason_trimmed: "str_trim ''first'' = ''first''"
  by (rule str_trim_fixed, rule trimmed_graphic) (auto simp: byte_of_def)

definition sample_next_assignment :: profile_client_assignment where
  "sample_next_assignment = (sample_assignment ''tenant_0001'')\<lparr>as_assignment_id := TypedId (OpaqueId ''assign_0002''),
     as_client_id := TypedId (OpaqueId ''client_0002''), as_assigned_at := 5\<rparr>"

definition sample_closed :: profile_client_assignment where
  "sample_closed = (sample_assignment ''tenant_0001'')\<lparr>as_status := AssignmentClosed, as_closed_at := Some 5\<rparr>"

definition sample_assignments :: assignment_table where
  "sample_assignments = [TypedId (OpaqueId ''assign_0001'') \<mapsto> sample_closed, TypedId (OpaqueId ''assign_0002'') \<mapsto> sample_next_assignment]"

lemma sample_assignment_reachable: "assignment_step\<^sup>*\<^sup>* Map.empty sample_assignments"
proof -
  let ?t = "TypedId (OpaqueId ''tenant_0001'')" and ?p = "TypedId (OpaqueId ''profile_0001'')"
  let ?i1 = "TypedId (OpaqueId ''assign_0001'') :: assignment_id"
  let ?i2 = "TypedId (OpaqueId ''assign_0002'') :: assignment_id"
  let ?in1 = "\<lparr>ri_assignment_id = ?i1, ri_assigned_by = TypedId (OpaqueId ''actor_0001''), ri_assigned_at = 1, ri_reason = ''first''\<rparr>"
  let ?in2 = "\<lparr>ri_assignment_id = ?i2, ri_assigned_by = TypedId (OpaqueId ''actor_0001''), ri_assigned_at = 5, ri_reason = ''first''\<rparr>"
  let ?a = "sample_assignment ''tenant_0001''"
  note defs = plan_primary_reassignment_def assignment_assign_def sample_client_def sample_assignment_def
    sample_reason_trimmed max_reason_length_def
  have p1: "plan_primary_reassignment ?t ?p None (sample_client ''tenant_0001'' ''client_0001'') ?in1
      = Inr \<lparr>at_closed_previous = None, at_next = ?a\<rparr>" by (simp add: defs)
  have p2: "plan_primary_reassignment ?t ?p (Some ?a) (sample_client ''tenant_0001'' ''client_0002'') ?in2
      = Inr \<lparr>at_closed_previous = Some sample_closed, at_next = sample_next_assignment\<rparr>"
    by (simp add: defs validate_current_primary_def closed_copy_def assignment_close_def sample_closed_def sample_next_assignment_def)
  have 1: "assignment_step Map.empty [?i1 \<mapsto> ?a]"
    using assignment_step.first [of Map.empty, OF _ _ p1] by (simp add: current_primary_def)
  have id: "as_assignment_id ?a = ?i1" by (simp add: sample_assignment_def)
  have cur: "current_primary [?i1 \<mapsto> ?a] ?t ?p (Some ?a)" by (simp add: current_primary_def sample_assignment_def)
  have 2: "assignment_step [?i1 \<mapsto> ?a] sample_assignments"
    using assignment_step.reassign [OF cur _ p2] by (simp add: id sample_assignments_def)
  show ?thesis using 1 2 by (meson rtranclp.rtrancl_refl rtranclp.rtrancl_into_rtrancl)
qed

theorem profile_has_one_primary_client_witness:
  "{j. \<exists>b. sample_assignments j = Some b \<and> as_tenant_id b = as_tenant_id sample_next_assignment
        \<and> as_profile_id b = as_profile_id sample_next_assignment \<and> as_status b = AssignmentActive}
     = {TypedId (OpaqueId ''assign_0002'')}"
proof -
  have s: "sample_assignments (TypedId (OpaqueId ''assign_0002'')) = Some sample_next_assignment"
    "as_status sample_next_assignment = AssignmentActive"
    by (simp_all add: sample_assignments_def sample_next_assignment_def sample_assignment_def)
  have "j = TypedId (OpaqueId ''assign_0002'')"
    if "sample_assignments j = Some b" "as_tenant_id b = as_tenant_id sample_next_assignment"
      "as_profile_id b = as_profile_id sample_next_assignment" "as_status b = AssignmentActive" for j b
    by (rule profile_has_one_primary_client [OF sample_assignment_reachable, THEN conjunct1, rule_format,
        of j b "TypedId (OpaqueId ''assign_0002'')" sample_next_assignment]) (intro conjI that s)
  then show ?thesis using s by blast
qed

section \<open>Contact points\<close>

text \<open>
  Two contact values give the same lookup input exactly if they belong to one tenant, are of one kind
  and have the same normal form; and a normal form is its own normal form, so a value that was read
  back and normalised again is found under the same token.
\<close>

theorem contact_lookup_canonical:
  assumes "id_valid t" "id_valid t'"
    and n: "normalize_contact_value k ver raw = Inr n" and "normalize_contact_value k' ver' raw' = Inr n'"
  shows "normalize_contact_value k ver (contact_expose n) = Inr n
    \<and> (exact_lookup_hmac_input t k ver n = exact_lookup_hmac_input t' k' ver' n' \<longleftrightarrow> t = t' \<and> k = k' \<and> n = n')"
proof -
  have v: "normalize_v1 k raw = Inr (contact_expose n)"
    using n by (cases ver) (auto simp: normalize_contact_value_def res_bind_Inr_iff)
  have "normalize_v1 k (contact_expose n) = Inr (contact_expose n)"
    using normalize_v1_normal [OF v] by (simp add: normalize_v1_def Let_def)
  then have "normalize_contact_value k ver (contact_expose n) = Inr n"
    by (cases ver) (simp add: normalize_contact_value_def)
  moreover have "ver = ver'" by (cases ver; cases ver') simp
  ultimately show ?thesis using lookup_input_inject [OF assms(1,2)] by simp
qed

lemma sample_phone: "normalize_contact_value Phone NormalizationV1 ''+1-555-0100-9'' = Inr (NormalizedContactValue ''+155501009'')"
proof -
  have "str_trim ''+1-555-0100-9'' = ''+1-555-0100-9''"
    by (rule str_trim_fixed, rule trimmed_graphic) (auto simp: byte_of_def)
  then show ?thesis
    by (simp add: normalize_contact_value_def normalize_v1_def max_contact_value_length_def normalize_phone_v1_def
        is_ascii_digit_def byte_of_def)
qed

theorem contact_lookup_canonical_witness:
  "normalize_contact_value Phone NormalizationV1 ''+155501009'' = Inr (NormalizedContactValue ''+155501009'')"
  using contact_lookup_canonical [OF _ _ sample_phone sample_phone, of "scope_tenant_id sample_scope" "scope_tenant_id sample_scope"]
  by (simp add: sample_scope_def id_valid_def opaque_valid_def min_id_length_def max_id_length_def id_char_def ascii_defs)

end
