(* ===== verification/Device_Pairing.thy ===== *)
theory Device_Pairing
  imports Byte_Codec Utf8_Text Reachability
begin

text \<open>
  \<open>crates/device-domain\<close>: pairing transactions, registered credentials and proof challenges
  (\<open>pairing.rs\<close>), the proof message and application sessions (\<open>authorization.rs\<close>), the proof of one
  bridge request (\<open>bridge_request_proof.rs\<close>).  Whether a signature verifies is an argument, as it is
  in the code.
\<close>

section \<open>Public keys\<close>

definition device_proof_nonce_bytes :: nat where "device_proof_nonce_bytes = 32"
definition p256_spki_der_bytes :: nat where "p256_spki_der_bytes = 91"

definition p256_spki_prefix :: string where
  "p256_spki_prefix = map char_of
     [0x30, 0x59, 0x30, 0x13, 0x06, 0x07, 0x2a, 0x86, 0x48, 0xce, 0x3d, 0x02, 0x01, 0x06, 0x08, 0x2a,
      0x86, 0x48, 0xce, 0x3d, 0x03, 0x01, 0x07, 0x03, 0x42, 0x00, 0x04 :: nat]"

datatype device_public_key_algorithm = EcdsaP256Sha256

record device_public_key =
  pk_algorithm :: device_public_key_algorithm
  pk_spki_der :: string

datatype device_pairing_error =
    PairInvalidPublicKey | PairInvalidTimeline | PairExpired | PairReplayRejected | PairBindingMismatch
  | PairNotAuthorized | PairInvalidAuthEpoch

fun device_pairing_error_message :: "device_pairing_error \<Rightarrow> string" where
  "device_pairing_error_message PairInvalidPublicKey = ''device public key is invalid''"
| "device_pairing_error_message PairInvalidTimeline = ''device pairing timeline is invalid''"
| "device_pairing_error_message PairExpired = ''device pairing transaction expired''"
| "device_pairing_error_message PairReplayRejected = ''device pairing transaction replay rejected''"
| "device_pairing_error_message PairBindingMismatch = ''device pairing binding mismatch''"
| "device_pairing_error_message PairNotAuthorized = ''device pairing transaction is not authorized''"
| "device_pairing_error_message PairInvalidAuthEpoch = ''device pairing auth epoch is invalid''"

definition is_canonical_p256_spki :: "string \<Rightarrow> bool" where
  "is_canonical_p256_spki bytes \<longleftrightarrow>
     length bytes = p256_spki_der_bytes \<and> take (length p256_spki_prefix) bytes = p256_spki_prefix"

definition device_public_key_p256 :: "string \<Rightarrow> device_pairing_error + device_public_key" where
  "device_public_key_p256 spki_der =
     (if \<not> is_canonical_p256_spki spki_der then Inl PairInvalidPublicKey
      else Inr \<lparr>pk_algorithm = EcdsaP256Sha256, pk_spki_der = spki_der\<rparr>)"

section \<open>Credentials\<close>

record device_credential =
  cd_tenant_id :: tenant_id
  cd_actor_id :: actor_id
  cd_device_id :: device_id
  cd_public_key :: device_public_key
  cd_auth_epoch_at_registration :: u64
  cd_enabled :: bool

definition device_credential_issue ::
    "tenant_id \<Rightarrow> actor_id \<Rightarrow> device_id \<Rightarrow> device_public_key \<Rightarrow> u64 \<Rightarrow> device_pairing_error + device_credential" where
  "device_credential_issue tenant_id actor_id device_id public_key auth_epoch =
     (if auth_epoch = 0 then Inl PairInvalidAuthEpoch
      else Inr \<lparr>cd_tenant_id = tenant_id, cd_actor_id = actor_id, cd_device_id = device_id, cd_public_key = public_key,
                cd_auth_epoch_at_registration = auth_epoch, cd_enabled = True\<rparr>)"

definition device_credential_disable :: "device_credential \<Rightarrow> device_credential" where
  "device_credential_disable c = c\<lparr>cd_enabled := False\<rparr>"

datatype device_authorization_error = AuthDeviceDisabled | AuthUserDisabled | AuthStaleEpoch

fun device_authorization_error_message :: "device_authorization_error \<Rightarrow> string" where
  "device_authorization_error_message AuthDeviceDisabled = ''device credential is disabled''"
| "device_authorization_error_message AuthUserDisabled = ''device credential owner is disabled''"
| "device_authorization_error_message AuthStaleEpoch = ''device credential auth epoch is stale''"

definition credential_require_authorized ::
    "device_credential \<Rightarrow> bool \<Rightarrow> u64 \<Rightarrow> device_authorization_error + unit" where
  "credential_require_authorized c user_enabled current_epoch =
     (if \<not> user_enabled then Inl AuthUserDisabled
      else if \<not> cd_enabled c then Inl AuthDeviceDisabled
      else if current_epoch = 0 \<or> current_epoch \<noteq> cd_auth_epoch_at_registration c then Inl AuthStaleEpoch
      else Inr ())"

section \<open>Pairing transactions\<close>

record device_pairing =
  dp_tenant_id :: tenant_id
  dp_device_id :: device_id
  dp_public_key :: device_public_key
  dp_issued_at :: unix_millis
  dp_expires_at :: unix_millis
  dp_authorized_actor_id :: "actor_id option"
  dp_consumed_at :: "unix_millis option"

definition device_pairing_issue ::
    "tenant_id \<Rightarrow> device_id \<Rightarrow> device_public_key \<Rightarrow> unix_millis \<Rightarrow> unix_millis \<Rightarrow> device_pairing_error + device_pairing" where
  "device_pairing_issue tenant_id device_id public_key issued_at expires_at =
     (if expires_at \<le> issued_at then Inl PairInvalidTimeline
      else Inr \<lparr>dp_tenant_id = tenant_id, dp_device_id = device_id, dp_public_key = public_key, dp_issued_at = issued_at,
                dp_expires_at = expires_at, dp_authorized_actor_id = None, dp_consumed_at = None\<rparr>)"

definition device_pairing_require_live :: "unix_millis \<Rightarrow> device_pairing \<Rightarrow> device_pairing_error + unit" where
  "device_pairing_require_live now p =
     (if dp_consumed_at p \<noteq> None then Inl PairReplayRejected
      else if dp_expires_at p \<le> now then Inl PairExpired
      else if now < dp_issued_at p then Inl PairInvalidTimeline
      else Inr ())"

definition device_pairing_authorize ::
    "actor_id \<Rightarrow> unix_millis \<Rightarrow> device_pairing \<Rightarrow> (device_pairing_error + unit) \<times> device_pairing" where
  "device_pairing_authorize actor_id now p =
     or_return (device_pairing_require_live now p) p (\<lambda>_.
       case dp_authorized_actor_id p of
         Some existing \<Rightarrow> if existing = actor_id then (Inr (), p) else (Inl PairBindingMismatch, p)
       | None \<Rightarrow> (Inr (), p\<lparr>dp_authorized_actor_id := Some actor_id\<rparr>))"

definition device_pairing_complete ::
    "actor_id \<Rightarrow> device_id \<Rightarrow> device_public_key \<Rightarrow> u64 \<Rightarrow> unix_millis \<Rightarrow> device_pairing
     \<Rightarrow> (device_pairing_error + device_credential) \<times> device_pairing" where
  "device_pairing_complete actor_id device_id public_key current_epoch now p =
     or_return (device_pairing_require_live now p) p (\<lambda>_.
       if dp_authorized_actor_id p \<noteq> Some actor_id then (Inl PairNotAuthorized, p)
       else if dp_device_id p \<noteq> device_id \<or> dp_public_key p \<noteq> public_key then (Inl PairBindingMismatch, p)
       else or_return (device_credential_issue (dp_tenant_id p) actor_id (dp_device_id p) (dp_public_key p) current_epoch) p
              (\<lambda>credential. (Inr credential, p\<lparr>dp_consumed_at := Some now\<rparr>)))"

section \<open>Proof challenges\<close>

record device_challenge =
  ch_device_id :: device_id
  ch_nonce :: string
  ch_issued_at :: unix_millis
  ch_expires_at :: unix_millis
  ch_consumed_at :: "unix_millis option"

datatype device_proof_error =
    ProofInvalidTimeline | ProofExpired | ProofReplayRejected | ProofBindingMismatch | ProofSignatureRejected

fun device_proof_error_message :: "device_proof_error \<Rightarrow> string" where
  "device_proof_error_message ProofInvalidTimeline = ''device proof challenge timeline is invalid''"
| "device_proof_error_message ProofExpired = ''device proof challenge expired''"
| "device_proof_error_message ProofReplayRejected = ''device proof challenge replay rejected''"
| "device_proof_error_message ProofBindingMismatch = ''device proof challenge binding mismatch''"
| "device_proof_error_message ProofSignatureRejected = ''device proof signature rejected''"

definition device_challenge_issue ::
    "device_id \<Rightarrow> string \<Rightarrow> unix_millis \<Rightarrow> unix_millis \<Rightarrow> device_proof_error + device_challenge" where
  "device_challenge_issue device_id nonce issued_at expires_at =
     (if expires_at \<le> issued_at then Inl ProofInvalidTimeline
      else Inr \<lparr>ch_device_id = device_id, ch_nonce = nonce, ch_issued_at = issued_at, ch_expires_at = expires_at,
                ch_consumed_at = None\<rparr>)"

definition device_challenge_consume ::
    "device_id \<Rightarrow> string \<Rightarrow> bool \<Rightarrow> unix_millis \<Rightarrow> device_challenge \<Rightarrow> (device_proof_error + unit) \<times> device_challenge" where
  "device_challenge_consume device_id nonce signature_valid now c =
     (if ch_consumed_at c \<noteq> None then (Inl ProofReplayRejected, c)
      else if ch_expires_at c \<le> now then (Inl ProofExpired, c)
      else if now < ch_issued_at c then (Inl ProofInvalidTimeline, c)
      else if ch_device_id c \<noteq> device_id \<or> ch_nonce c \<noteq> nonce then (Inl ProofBindingMismatch, c)
      else if \<not> signature_valid then (Inl ProofSignatureRejected, c)
      else (Inr (), c\<lparr>ch_consumed_at := Some now\<rparr>))"

section \<open>Signed messages\<close>

definition append_framed :: "'e \<Rightarrow> string \<Rightarrow> string \<Rightarrow> 'e + string" where
  \<comment> \<open>a big-endian \<open>u16\<close> length before the bytes; \<open>u16::try_from\<close> fails above 65535\<close>
  "append_framed err message value =
     (if 2 ^ 16 \<le> length value then Inl err else Inr (message @ be_bytes 2 (of_nat (length value) :: u16) @ value))"

definition device_proof_context_v1 :: string where
  "device_proof_context_v1 = ''part-crm/device-proof/v1'' @ [CHR 0x00]"

datatype device_proof_message_error = MsgInvalidNonceLength | MsgInvalidIdentifierLength

fun device_proof_message_error_text :: "device_proof_message_error \<Rightarrow> string" where
  "device_proof_message_error_text MsgInvalidNonceLength = ''device proof nonce length is invalid''"
| "device_proof_message_error_text MsgInvalidIdentifierLength = ''device proof identifier length is invalid''"

definition device_proof_message_v1 ::
    "tenant_id \<Rightarrow> actor_id \<Rightarrow> device_id \<Rightarrow> string \<Rightarrow> unix_millis \<Rightarrow> device_proof_message_error + string" where
  "device_proof_message_v1 tenant_id actor_id device_id nonce expires_at =
     (if length nonce \<noteq> device_proof_nonce_bytes then Inl MsgInvalidNonceLength
      else res_bind (append_framed MsgInvalidIdentifierLength device_proof_context_v1 (id_as_str tenant_id)) (\<lambda>m1.
           res_bind (append_framed MsgInvalidIdentifierLength m1 (id_as_str actor_id)) (\<lambda>m2.
           res_bind (append_framed MsgInvalidIdentifierLength m2 (id_as_str device_id)) (\<lambda>m3.
           Inr (m3 @ be_bytes 8 expires_at @ nonce)))))"

definition bridge_request_proof_context_v1 :: string where
  "bridge_request_proof_context_v1 = ''part-crm/bridge-request-proof/v1'' @ [CHR 0x00]"

definition bridge_request_proof_digest_bytes :: nat where "bridge_request_proof_digest_bytes = 32"
definition bridge_request_proof_max_path_bytes :: nat where "bridge_request_proof_max_path_bytes = 512"

datatype bridge_request_method = BridgeGet | BridgePostJson

fun bridge_method_bytes :: "bridge_request_method \<Rightarrow> string" where
  "bridge_method_bytes BridgeGet = ''GET''"
| "bridge_method_bytes BridgePostJson = ''POST''"

datatype bridge_request_proof_error = BridgeInvalidPath | BridgeInvalidFieldLength

fun bridge_request_proof_error_text :: "bridge_request_proof_error \<Rightarrow> string" where
  "bridge_request_proof_error_text BridgeInvalidPath = ''Bridge request proof path is invalid''"
| "bridge_request_proof_error_text BridgeInvalidFieldLength = ''Bridge request proof field length is invalid''"

fun contains_slash_slash :: "string \<Rightarrow> bool" where
  "contains_slash_slash (a # b # s) \<longleftrightarrow> a = CHR ''/'' \<and> b = CHR ''/'' \<or> contains_slash_slash (b # s)"
| "contains_slash_slash _ \<longleftrightarrow> False"

definition bridge_valid_path :: "string \<Rightarrow> bool" where
  "bridge_valid_path path \<longleftrightarrow>
     take 1 path = ''/'' \<and> length path \<le> bridge_request_proof_max_path_bytes \<and> list_all (\<lambda>c. byte_of c < 128) path
     \<and> list_all (\<lambda>c. c \<notin> {CHR ''?'', CHR ''#'', CHR 0x5C, CHR 0x0D, CHR 0x0A}) path
     \<and> \<not> contains_slash_slash path
     \<and> list_all (\<lambda>seg. seg \<noteq> ''.'' \<and> seg \<noteq> ''..'') (str_split (CHR ''/'') path)"

definition bridge_request_proof_message_v1 ::
    "tenant_id \<Rightarrow> actor_id \<Rightarrow> device_id \<Rightarrow> string \<Rightarrow> bridge_request_method \<Rightarrow> string \<Rightarrow> correlation_id \<Rightarrow> string
     \<Rightarrow> unix_millis \<Rightarrow> bridge_request_proof_error + string" where
  "bridge_request_proof_message_v1 tenant_id actor_id device_id session_digest meth path correlation_id body_digest expires_at =
     (if \<not> bridge_valid_path path then Inl BridgeInvalidPath
      else
        let add = append_framed BridgeInvalidFieldLength in
        res_bind (add bridge_request_proof_context_v1 (id_as_str tenant_id)) (\<lambda>m1.
        res_bind (add m1 (id_as_str actor_id)) (\<lambda>m2.
        res_bind (add m2 (id_as_str device_id)) (\<lambda>m3.
        res_bind (add (m3 @ session_digest) (bridge_method_bytes meth)) (\<lambda>m4.
        res_bind (add m4 path) (\<lambda>m5.
        res_bind (add m5 (id_as_str correlation_id)) (\<lambda>m6.
        Inr (m6 @ body_digest @ be_bytes 8 expires_at))))))))"

section \<open>Application sessions\<close>

record device_session =
  ds_tenant_id :: tenant_id
  ds_actor_id :: actor_id
  ds_device_id :: device_id
  ds_user_auth_epoch :: u64
  ds_device_binding_version :: u64
  ds_issued_at :: unix_millis
  ds_expires_at :: unix_millis
  ds_revoked_at :: "unix_millis option"

datatype device_session_error =
    SessInvalidEpoch | SessInvalidTimeline | SessExpired | SessRevoked | SessUserDisabled | SessDeviceDisabled
  | SessStaleUserAuthEpoch | SessStaleDeviceBinding

fun device_session_error_message :: "device_session_error \<Rightarrow> string" where
  "device_session_error_message SessInvalidEpoch = ''device application session epoch is invalid''"
| "device_session_error_message SessInvalidTimeline = ''device application session timeline is invalid''"
| "device_session_error_message SessExpired = ''device application session expired''"
| "device_session_error_message SessRevoked = ''device application session was revoked''"
| "device_session_error_message SessUserDisabled = ''device application session user is disabled''"
| "device_session_error_message SessDeviceDisabled = ''device application session device is disabled''"
| "device_session_error_message SessStaleUserAuthEpoch = ''device application session user auth epoch is stale''"
| "device_session_error_message SessStaleDeviceBinding = ''device application session device binding is stale''"

definition device_session_issue ::
    "tenant_id \<Rightarrow> actor_id \<Rightarrow> device_id \<Rightarrow> u64 \<Rightarrow> u64 \<Rightarrow> unix_millis \<Rightarrow> unix_millis \<Rightarrow> device_session_error + device_session" where
  "device_session_issue tenant_id actor_id device_id user_auth_epoch device_binding_version issued_at expires_at =
     (if user_auth_epoch = 0 \<or> device_binding_version = 0 then Inl SessInvalidEpoch
      else if expires_at \<le> issued_at then Inl SessInvalidTimeline
      else Inr \<lparr>ds_tenant_id = tenant_id, ds_actor_id = actor_id, ds_device_id = device_id,
                ds_user_auth_epoch = user_auth_epoch, ds_device_binding_version = device_binding_version,
                ds_issued_at = issued_at, ds_expires_at = expires_at, ds_revoked_at = None\<rparr>)"

definition device_session_revoke :: "unix_millis \<Rightarrow> device_session \<Rightarrow> (device_session_error + unit) \<times> device_session" where
  "device_session_revoke now s =
     (if now < ds_issued_at s then (Inl SessInvalidTimeline, s)
      else if ds_revoked_at s = None then (Inr (), s\<lparr>ds_revoked_at := Some now\<rparr>)
      else (Inr (), s))"

definition device_session_require_authorized ::
    "device_session \<Rightarrow> bool \<Rightarrow> u64 \<Rightarrow> bool \<Rightarrow> u64 \<Rightarrow> unix_millis \<Rightarrow> device_session_error + unit" where
  "device_session_require_authorized s user_enabled current_epoch device_enabled current_binding now =
     (if now < ds_issued_at s then Inl SessInvalidTimeline
      else if ds_expires_at s \<le> now then Inl SessExpired
      else if ds_revoked_at s \<noteq> None then Inl SessRevoked
      else if \<not> user_enabled then Inl SessUserDisabled
      else if \<not> device_enabled then Inl SessDeviceDisabled
      else if current_epoch = 0 \<or> current_epoch \<noteq> ds_user_auth_epoch s then Inl SessStaleUserAuthEpoch
      else if current_binding = 0 \<or> current_binding \<noteq> ds_device_binding_version s then Inl SessStaleDeviceBinding
      else Inr ())"

section \<open>One pairing, one credential\<close>

datatype pairing_call =
    PairAuthorize actor_id unix_millis
  | PairComplete actor_id device_id device_public_key u64 unix_millis

fun pairing_step :: "pairing_call \<Rightarrow> device_pairing \<Rightarrow> (device_pairing_error + device_credential option) \<times> device_pairing" where
  "pairing_step (PairAuthorize a now) p =
     (case device_pairing_authorize a now p of (r, p') \<Rightarrow> (res_bind r (\<lambda>_. Inr None), p'))"
| "pairing_step (PairComplete a d k e now) p =
     (case device_pairing_complete a d k e now p of (r, p') \<Rightarrow> (res_bind r (\<lambda>c. Inr (Some c)), p'))"

fun issued_credentials :: "pairing_call list \<Rightarrow> device_pairing \<Rightarrow> device_credential list" where
  \<comment> \<open>the credentials a sequence of requests hands out, in order\<close>
  "issued_credentials [] p = []"
| "issued_credentials (c # cs) p =
     (case pairing_step c p of
        (Inr (Some credential), p') \<Rightarrow> credential # issued_credentials cs p'
      | (_, p') \<Rightarrow> issued_credentials cs p')"

definition pairing_inv :: "device_pairing \<Rightarrow> bool" where
  "pairing_inv p \<longleftrightarrow> dp_issued_at p < dp_expires_at p
     \<and> (\<forall>t. dp_consumed_at p = Some t \<longrightarrow> dp_issued_at p \<le> t \<and> t < dp_expires_at p \<and> dp_authorized_actor_id p \<noteq> None)"

lemma require_live_Inr [ok_iff]:
  "device_pairing_require_live now p = Inr u \<longleftrightarrow>
     dp_consumed_at p = None \<and> dp_issued_at p \<le> now \<and> now < dp_expires_at p"
  by (auto simp: device_pairing_require_live_def not_le not_less)

lemma pairing_authorize_Inr [ok_iff]:
  "device_pairing_authorize a now p = (Inr u, p') \<longleftrightarrow>
     dp_consumed_at p = None \<and> dp_issued_at p \<le> now \<and> now < dp_expires_at p
     \<and> (dp_authorized_actor_id p = None \<or> dp_authorized_actor_id p = Some a) \<and> p' = p\<lparr>dp_authorized_actor_id := Some a\<rparr>"
  by (cases p) (auto simp: device_pairing_authorize_def or_return_Inr_iff require_live_Inr split: option.splits)

lemma pairing_complete_Inr [ok_iff]:
  "device_pairing_complete a d k e now p = (Inr c, p') \<longleftrightarrow>
     dp_consumed_at p = None \<and> dp_issued_at p \<le> now \<and> now < dp_expires_at p \<and> dp_authorized_actor_id p = Some a
     \<and> dp_device_id p = d \<and> dp_public_key p = k \<and> e \<noteq> 0
     \<and> c = \<lparr>cd_tenant_id = dp_tenant_id p, cd_actor_id = a, cd_device_id = d, cd_public_key = k,
            cd_auth_epoch_at_registration = e, cd_enabled = True\<rparr>
     \<and> p' = p\<lparr>dp_consumed_at := Some now\<rparr>"
  by (auto simp: device_pairing_complete_def or_return_Inr_iff require_live_Inr device_credential_issue_def)

lemma pairing_authorize_Inl: "device_pairing_authorize a now p = (Inl e, p') \<Longrightarrow> p' = p"
  by (auto simp: device_pairing_authorize_def or_return_Inl_iff split: option.splits if_splits)

lemma pairing_complete_Inl: "device_pairing_complete a d k ep now p = (Inl e, p') \<Longrightarrow> p' = p"
  by (auto simp: device_pairing_complete_def or_return_Inl_iff split: if_splits)

lemma pairing_step_cases:
  assumes "pairing_step c p = (r, p')"
  obtains (refused) e where "r = Inl e" "p' = p"
    | (authorized) a now where "c = PairAuthorize a now" "r = Inr None" "device_pairing_authorize a now p = (Inr (), p')"
    | (completed) a d k e now cred where "c = PairComplete a d k e now" "r = Inr (Some cred)"
        "device_pairing_complete a d k e now p = (Inr cred, p')"
proof (cases c)
  case (PairAuthorize a now)
  obtain r0 q where q: "device_pairing_authorize a now p = (r0, q)" by (cases "device_pairing_authorize a now p")
  show ?thesis
  proof (cases r0)
    case (Inl e) then show ?thesis using assms q PairAuthorize pairing_authorize_Inl [of a now p e q] by (intro refused) auto
  next
    case (Inr u) then show ?thesis using assms q PairAuthorize by (intro authorized) auto
  qed
next
  case (PairComplete a d k e now)
  obtain r0 q where q: "device_pairing_complete a d k e now p = (r0, q)" by (cases "device_pairing_complete a d k e now p")
  show ?thesis
  proof (cases r0)
    case (Inl x) then show ?thesis using assms q PairComplete pairing_complete_Inl [of a d k e now p x q] by (intro refused) auto
  next
    case (Inr u) then show ?thesis using assms q PairComplete by (intro completed) auto
  qed
qed

interpretation pairing: atomic_machine pairing_step pairing_inv
proof unfold_locales
  fix c s e assume i: "pairing_inv s"
  obtain r t where s: "pairing_step c s = (r, t)" by (cases "pairing_step c s")
  have inv: "pairing_inv t"
    using s by (cases rule: pairing_step_cases)
      (use i in \<open>auto simp: pairing_inv_def pairing_authorize_Inr pairing_complete_Inr\<close>)
  then show "pairing_inv (snd (pairing_step c s))" using s by simp
  assume "fst (pairing_step c s) = Inl e"
  then have "r = Inl e" using s by simp
  with s have "t = s" by (cases rule: pairing_step_cases) auto
  then show "snd (pairing_step c s) = s" using s by simp
qed

lemma consumed_stays:
  assumes "dp_consumed_at p = Some t"
  shows "run_commands pairing_step cs p = p \<and> count_ok pairing_step cs p = 0"
proof -
  have "snd (pairing_step c p) = p \<and> \<not> is_ok (fst (pairing_step c p))" for c
  proof -
    obtain r q where s: "pairing_step c p = (r, q)" by (cases "pairing_step c p")
    then have "q = p \<and> \<not> is_ok r"
      by (cases rule: pairing_step_cases) (use assms in \<open>auto simp: pairing_authorize_Inr pairing_complete_Inr\<close>)
    then show ?thesis using s by simp
  qed
  then show ?thesis by (induction cs) simp_all
qed

lemma pairing_actor_fixed:
  assumes "dp_authorized_actor_id p = Some a"
  shows "dp_authorized_actor_id (run_commands pairing_step cs p) = Some a"
proof -
  have "dp_authorized_actor_id (snd (pairing_step c q)) = Some a" if "dp_authorized_actor_id q = Some a" for c q
  proof -
    obtain r t where s: "pairing_step c q = (r, t)" by (cases "pairing_step c q")
    then have "dp_authorized_actor_id t = Some a"
      by (cases rule: pairing_step_cases) (use that in \<open>auto simp: pairing_authorize_Inr pairing_complete_Inr\<close>)
    then show ?thesis using s by simp
  qed
  then show ?thesis using assms by (induction cs arbitrary: p) simp_all
qed

lemma issued_credentials_consumed: "dp_consumed_at p = Some t \<Longrightarrow> issued_credentials cs p = []"
proof (induction cs)
  case (Cons c cs)
  obtain r q where s: "pairing_step c p = (r, q)" by (cases "pairing_step c p")
  then show ?case
    by (cases rule: pairing_step_cases) (use s Cons in \<open>auto simp: pairing_authorize_Inr pairing_complete_Inr\<close>)
qed simp

lemma issued_credentials_at_most_one: "length (issued_credentials cs p) \<le> 1"
proof (induction cs arbitrary: p)
  case (Cons c cs)
  obtain r q where s: "pairing_step c p = (r, q)" by (cases "pairing_step c p")
  then show ?case
  proof (cases rule: pairing_step_cases)
    case (completed a d k e now cred)
    then have "issued_credentials cs q = []"
      by (intro issued_credentials_consumed [of _ now]) (auto simp: pairing_complete_Inr)
    then show ?thesis using s completed by simp
  qed (use s Cons.IH in auto)
qed simp

fun live_authorization :: "device_pairing \<Rightarrow> actor_id \<Rightarrow> pairing_call \<Rightarrow> bool" where
  "live_authorization p actor (PairAuthorize a now) \<longleftrightarrow> a = actor \<and> dp_issued_at p \<le> now \<and> now < dp_expires_at p"
| "live_authorization p actor _ \<longleftrightarrow> False"

fun live_completion :: "device_pairing \<Rightarrow> device_credential \<Rightarrow> pairing_call \<Rightarrow> bool" where
  "live_completion p c (PairComplete a d k e now) \<longleftrightarrow>
     a = cd_actor_id c \<and> d = dp_device_id p \<and> k = dp_public_key p \<and> e = cd_auth_epoch_at_registration c
     \<and> dp_issued_at p \<le> now \<and> now < dp_expires_at p"
| "live_completion p c _ \<longleftrightarrow> False"

definition credential_warranted :: "device_pairing \<Rightarrow> pairing_call list \<Rightarrow> device_credential \<Rightarrow> bool" where
  \<comment> \<open>what a credential rests on: the transaction's own device and key, an actor that authorized it and
     completed it, both while the transaction was live\<close>
  "credential_warranted p cs c \<longleftrightarrow>
     cd_tenant_id c = dp_tenant_id p \<and> cd_device_id c = dp_device_id p \<and> cd_public_key c = dp_public_key p
     \<and> cd_auth_epoch_at_registration c \<noteq> 0 \<and> cd_enabled c
     \<and> (dp_authorized_actor_id p = Some (cd_actor_id c) \<or> list_ex (live_authorization p (cd_actor_id c)) cs)
     \<and> list_ex (live_completion p c) cs"

lemma live_after_authorization [simp]:
  "live_authorization (p\<lparr>dp_authorized_actor_id := x\<rparr>) = live_authorization p"
  "live_completion (p\<lparr>dp_authorized_actor_id := x\<rparr>) = live_completion p"
proof -
  show "live_authorization (p\<lparr>dp_authorized_actor_id := x\<rparr>) = live_authorization p"
  proof (intro ext)
    fix a c show "live_authorization (p\<lparr>dp_authorized_actor_id := x\<rparr>) a c = live_authorization p a c" by (cases c) simp_all
  qed
  show "live_completion (p\<lparr>dp_authorized_actor_id := x\<rparr>) = live_completion p"
  proof (intro ext)
    fix a c show "live_completion (p\<lparr>dp_authorized_actor_id := x\<rparr>) a c = live_completion p a c" by (cases c) simp_all
  qed
qed

lemma issued_credentials_warranted:
  "c \<in> set (issued_credentials cs p) \<Longrightarrow> credential_warranted p cs c"
proof (induction cs arbitrary: p)
  case (Cons call cs)
  obtain r q where s: "pairing_step call p = (r, q)" by (cases "pairing_step call p")
  then show ?case
  proof (cases rule: pairing_step_cases)
    case (refused e)
    then have "credential_warranted p cs c" using s Cons by simp
    then show ?thesis by (auto simp: credential_warranted_def)
  next
    case (authorized a now)
    then have "credential_warranted q cs c" using s Cons by simp
    then show ?thesis using authorized by (auto simp: credential_warranted_def pairing_authorize_Inr)
  next
    case (completed a d k e now cred)
    then have "issued_credentials cs q = []"
      by (intro issued_credentials_consumed [of _ now]) (auto simp: pairing_complete_Inr)
    then have "c = cred" using s completed Cons.prems by simp
    then show ?thesis using completed by (auto simp: credential_warranted_def pairing_complete_Inr)
  qed
qed simp

section \<open>The signed messages are unambiguous\<close>

lemma append_framed_Inr [ok_iff]:
  "append_framed err m v = Inr x \<longleftrightarrow> length v < 2 ^ 16 \<and> x = m @ be_bytes 2 (of_nat (length v) :: u16) @ v"
  by (auto simp: append_framed_def)

lemma be_bytes_inject:
  fixes v w :: "'a::len word"
  assumes "256 ^ n = (2::nat) ^ LENGTH('a)" "be_bytes n v = be_bytes n w" shows "v = w"
  by (metis assms from_be_be_bytes)

lemma framed_split:
  assumes "be_bytes 2 (of_nat (length a) :: u16) @ a @ xs = be_bytes 2 (of_nat (length b) :: u16) @ b @ ys"
    "length a < 2 ^ 16" "length b < 2 ^ 16"
  shows "a = b \<and> xs = ys"
proof -
  have l: "be_bytes 2 (of_nat (length a) :: u16) = be_bytes 2 (of_nat (length b) :: u16)" and r: "a @ xs = b @ ys"
    using assms(1) by simp_all
  have "(of_nat (length a) :: u16) = of_nat (length b)" by (rule be_bytes_inject [OF _ l]) simp
  then have "unat (of_nat (length a) :: u16) = unat (of_nat (length b) :: u16)" by simp
  then have "length a = length b" using assms(2,3) by (simp add: unat_of_nat take_bit_eq_mod)
  then show ?thesis using r by simp
qed

lemma device_proof_message_Inr:
  "device_proof_message_v1 t a d n e = Inr m \<longleftrightarrow>
     length n = device_proof_nonce_bytes \<and> length (id_as_str t) < 2 ^ 16 \<and> length (id_as_str a) < 2 ^ 16 \<and> length (id_as_str d) < 2 ^ 16
     \<and> m = device_proof_context_v1
          @ be_bytes 2 (of_nat (length (id_as_str t)) :: u16) @ id_as_str t
          @ be_bytes 2 (of_nat (length (id_as_str a)) :: u16) @ id_as_str a
          @ be_bytes 2 (of_nat (length (id_as_str d)) :: u16) @ id_as_str d @ be_bytes 8 e @ n"
  by (auto simp: device_proof_message_v1_def res_bind_Inr_iff append_framed_Inr)

lemma bridge_message_Inr:
  "bridge_request_proof_message_v1 t a d sd meth path cid bd e = Inr m \<longleftrightarrow>
     bridge_valid_path path \<and> length (id_as_str t) < 2 ^ 16 \<and> length (id_as_str a) < 2 ^ 16 \<and> length (id_as_str d) < 2 ^ 16
     \<and> length (bridge_method_bytes meth) < 2 ^ 16 \<and> length path < 2 ^ 16 \<and> length (id_as_str cid) < 2 ^ 16
     \<and> m = bridge_request_proof_context_v1
          @ be_bytes 2 (of_nat (length (id_as_str t)) :: u16) @ id_as_str t
          @ be_bytes 2 (of_nat (length (id_as_str a)) :: u16) @ id_as_str a
          @ be_bytes 2 (of_nat (length (id_as_str d)) :: u16) @ id_as_str d @ sd
          @ be_bytes 2 (of_nat (length (bridge_method_bytes meth)) :: u16) @ bridge_method_bytes meth
          @ be_bytes 2 (of_nat (length path) :: u16) @ path
          @ be_bytes 2 (of_nat (length (id_as_str cid)) :: u16) @ id_as_str cid @ bd @ be_bytes 8 e"
  by (auto simp: bridge_request_proof_message_v1_def Let_def res_bind_Inr_iff append_framed_Inr)

lemma bridge_method_bytes_inject: "bridge_method_bytes a = bridge_method_bytes b \<longleftrightarrow> a = b"
  by (cases a; cases b) simp_all

lemma device_message_inject:
  assumes "device_proof_message_v1 t a d n e = Inr m" "device_proof_message_v1 t' a' d' n' e' = Inr m"
  shows "t = t' \<and> a = a' \<and> d = d' \<and> n = n' \<and> e = e'"
proof -
  note l = assms(1)[unfolded device_proof_message_Inr] and r = assms(2)[unfolded device_proof_message_Inr]
  let ?f = "\<lambda>s rest. be_bytes 2 (of_nat (length s) :: u16) @ s @ rest"
  have "?f (id_as_str t) (?f (id_as_str a) (?f (id_as_str d) (be_bytes 8 e @ n)))
      = ?f (id_as_str t') (?f (id_as_str a') (?f (id_as_str d') (be_bytes 8 e' @ n')))"
    using l r by auto
  then have 1: "id_as_str t = id_as_str t'" "?f (id_as_str a) (?f (id_as_str d) (be_bytes 8 e @ n))
      = ?f (id_as_str a') (?f (id_as_str d') (be_bytes 8 e' @ n'))"
    using framed_split l r by blast+
  then have 2: "id_as_str a = id_as_str a'" "?f (id_as_str d) (be_bytes 8 e @ n) = ?f (id_as_str d') (be_bytes 8 e' @ n')"
    using framed_split l r by blast+
  then have 3: "id_as_str d = id_as_str d'" "be_bytes 8 e @ n = be_bytes 8 e' @ n'"
    using framed_split l r by blast+
  then have "be_bytes 8 e = be_bytes 8 e'" "n = n'" by simp_all
  then show ?thesis using 1 2 3 be_bytes_inject [of 8 e e'] by (simp add: id_eq_iff)
qed

lemma bridge_message_inject:
  assumes "bridge_request_proof_message_v1 t a d sd meth path cid bd e = Inr m"
    "bridge_request_proof_message_v1 t' a' d' sd' meth' path' cid' bd' e' = Inr m"
    "length sd = length sd'" "length bd = length bd'"
  shows "t = t' \<and> a = a' \<and> d = d' \<and> sd = sd' \<and> meth = meth' \<and> path = path' \<and> cid = cid' \<and> bd = bd' \<and> e = e'"
proof -
  note l = assms(1)[unfolded bridge_message_Inr] and r = assms(2)[unfolded bridge_message_Inr]
  define f where "f s rest = be_bytes 2 (of_nat (length s) :: u16) @ s @ rest" for s rest
  have split: "f x xs = f y ys \<Longrightarrow> length x < 2 ^ 16 \<Longrightarrow> length y < 2 ^ 16 \<Longrightarrow> x = y \<and> xs = ys" for x y xs ys
    unfolding f_def by (rule framed_split)
  let ?tail = "\<lambda>mb p c b z. f mb (f p (f c (b @ be_bytes 8 z)))"
  have "f (id_as_str t) (f (id_as_str a) (f (id_as_str d) (sd @ ?tail (bridge_method_bytes meth) path (id_as_str cid) bd e)))
     = f (id_as_str t') (f (id_as_str a') (f (id_as_str d') (sd' @ ?tail (bridge_method_bytes meth') path' (id_as_str cid') bd' e')))"
    using l r by (auto simp: f_def)
  then have 1: "id_as_str t = id_as_str t'"
    "f (id_as_str a) (f (id_as_str d) (sd @ ?tail (bridge_method_bytes meth) path (id_as_str cid) bd e))
     = f (id_as_str a') (f (id_as_str d') (sd' @ ?tail (bridge_method_bytes meth') path' (id_as_str cid') bd' e'))"
    using split l r by blast+
  then have 2: "id_as_str a = id_as_str a'"
    "f (id_as_str d) (sd @ ?tail (bridge_method_bytes meth) path (id_as_str cid) bd e)
     = f (id_as_str d') (sd' @ ?tail (bridge_method_bytes meth') path' (id_as_str cid') bd' e')"
    using split l r by blast+
  then have 3: "id_as_str d = id_as_str d'" "sd @ ?tail (bridge_method_bytes meth) path (id_as_str cid) bd e
     = sd' @ ?tail (bridge_method_bytes meth') path' (id_as_str cid') bd' e'"
    using split l r by blast+
  then have 4: "sd = sd'" "?tail (bridge_method_bytes meth) path (id_as_str cid) bd e
     = ?tail (bridge_method_bytes meth') path' (id_as_str cid') bd' e'"
    using assms(3) by simp_all
  then have 5: "bridge_method_bytes meth = bridge_method_bytes meth'" "f path (f (id_as_str cid) (bd @ be_bytes 8 e))
     = f path' (f (id_as_str cid') (bd' @ be_bytes 8 e'))"
    using split l r by blast+
  then have 6: "path = path'" "f (id_as_str cid) (bd @ be_bytes 8 e) = f (id_as_str cid') (bd' @ be_bytes 8 e')"
    using split l r by blast+
  then have 7: "id_as_str cid = id_as_str cid'" "bd @ be_bytes 8 e = bd' @ be_bytes 8 e'"
    using split l r by blast+
  then have 8: "bd = bd'" "be_bytes 8 e = be_bytes 8 e'" using assms(4) by simp_all
  then have "e = e'" using be_bytes_inject [of 8 e e'] by simp
  then show ?thesis using 1(1) 2(1) 3(1) 4(1) 5(1) 6(1) 7(1) 8(1) by (simp add: id_eq_iff bridge_method_bytes_inject)
qed

lemma proof_kinds_differ:
  "device_proof_message_v1 t a d n e = Inr m \<Longrightarrow> bridge_request_proof_message_v1 t' a' d' sd meth path cid bd e' \<noteq> Inr m"
proof
  assume l: "device_proof_message_v1 t a d n e = Inr m"
    and r: "bridge_request_proof_message_v1 t' a' d' sd meth path cid bd e' = Inr m"
  have "m ! 9 = CHR ''d''" using l by (auto simp: device_proof_message_Inr device_proof_context_v1_def)
  moreover have "m ! 9 = CHR ''b''" using r by (auto simp: bridge_message_Inr bridge_request_proof_context_v1_def)
  ultimately show False by simp
qed

section \<open>Sessions\<close>

fun session_revocations :: "unix_millis list \<Rightarrow> device_session \<Rightarrow> device_session" where
  \<comment> \<open>a session after revocation requests at the given times\<close>
  "session_revocations [] s = s"
| "session_revocations (t # ts) s = session_revocations ts (snd (device_session_revoke t s))"

lemma session_revoke_keeps:
  "ds_revoked_at s = Some t \<Longrightarrow> snd (device_session_revoke now s) = s"
  by (simp add: device_session_revoke_def)

lemma session_revocations_keep: "ds_revoked_at s = Some t \<Longrightarrow> session_revocations ts s = s"
  by (induction ts) (simp_all add: session_revoke_keeps)

lemma session_require_authorized_Inr [ok_iff]:
  "device_session_require_authorized s ue ce de cb now = Inr u \<longleftrightarrow>
     ds_issued_at s \<le> now \<and> now < ds_expires_at s \<and> ds_revoked_at s = None \<and> ue \<and> de
     \<and> ce \<noteq> 0 \<and> ce = ds_user_auth_epoch s \<and> cb \<noteq> 0 \<and> cb = ds_device_binding_version s"
  by (auto simp: device_session_require_authorized_def not_le not_less)

lemma challenge_consume_Inr [ok_iff]:
  "device_challenge_consume d n ok now c = (Inr u, c') \<longleftrightarrow>
     ch_consumed_at c = None \<and> ch_issued_at c \<le> now \<and> now < ch_expires_at c \<and> ch_device_id c = d \<and> ch_nonce c = n \<and> ok
     \<and> c' = c\<lparr>ch_consumed_at := Some now\<rparr>"
  by (auto simp: device_challenge_consume_def not_le not_less)

end
