(* ===== verification/Device_Pairing_Properties.thy ===== *)
theory Device_Pairing_Properties
  imports Device_Pairing
begin

text \<open>
  The properties of device pairing and of the proofs a device signs.
\<close>

section \<open>Pairing\<close>

text \<open>
  C25: Whatever requests reach a pairing transaction after its issue, in whatever order, it hands out at most
  one credential; and the credential is for the device and the key of the transaction, for an actor that
  both authorized and completed it while it was live, at a positive authentication epoch.
\<close>

theorem pairing_yields_one_credential:
  assumes "device_pairing_issue tenant device key issued expires = Inr p"
  shows "length (issued_credentials cs p) \<le> 1
    \<and> (\<forall>c \<in> set (issued_credentials cs p).
          cd_tenant_id c = tenant \<and> cd_device_id c = device \<and> cd_public_key c = key
          \<and> cd_auth_epoch_at_registration c \<noteq> 0
          \<and> (\<exists>now. PairAuthorize (cd_actor_id c) now \<in> set cs \<and> issued \<le> now \<and> now < expires)
          \<and> (\<exists>now. PairComplete (cd_actor_id c) device key (cd_auth_epoch_at_registration c) now \<in> set cs
                \<and> issued \<le> now \<and> now < expires))"
proof (intro conjI ballI)
  show "length (issued_credentials cs p) \<le> 1" by (rule issued_credentials_at_most_one)
next
  fix c assume "c \<in> set (issued_credentials cs p)"
  note w = issued_credentials_warranted [OF this, unfolded credential_warranted_def]
  note p = assms [unfolded device_pairing_issue_def]
  show "cd_tenant_id c = tenant" "cd_device_id c = device" "cd_public_key c = key" "cd_auth_epoch_at_registration c \<noteq> 0"
    using w p by (auto split: if_splits)
  have "list_ex (live_authorization p (cd_actor_id c)) cs" using w p by (auto split: if_splits)
  then obtain call where call: "call \<in> set cs" "live_authorization p (cd_actor_id c) call" by (auto simp: list_ex_iff)
  show "\<exists>now. PairAuthorize (cd_actor_id c) now \<in> set cs \<and> issued \<le> now \<and> now < expires"
    by (cases call) (use call p in \<open>auto split: if_splits\<close>)
  obtain fin where fin: "fin \<in> set cs" "live_completion p c fin" using w by (auto simp: list_ex_iff)
  show "\<exists>now. PairComplete (cd_actor_id c) device key (cd_auth_epoch_at_registration c) now \<in> set cs
      \<and> issued \<le> now \<and> now < expires"
    by (cases fin) (use fin p in \<open>auto split: if_splits\<close>)
qed


definition sample_key :: device_public_key where
  "sample_key = \<lparr>pk_algorithm = EcdsaP256Sha256, pk_spki_der = p256_spki_prefix @ replicate 64 CHR ''k''\<rparr>"

definition sample_pairing :: device_pairing where
  "sample_pairing = \<lparr>dp_tenant_id = TypedId (OpaqueId ''tenant_0001''), dp_device_id = TypedId (OpaqueId ''device_0001''),
     dp_public_key = sample_key, dp_issued_at = 10, dp_expires_at = 90, dp_authorized_actor_id = None, dp_consumed_at = None\<rparr>"

definition sample_requests :: "pairing_call list" where
  \<comment> \<open>a completion before any authorization, an authorization, another actor's attempt, the completion and its replay\<close>
  "sample_requests =
     (let complete = PairComplete (TypedId (OpaqueId ''actor_0001'')) (TypedId (OpaqueId ''device_0001'')) sample_key 7 in
      [complete 20, PairAuthorize (TypedId (OpaqueId ''actor_0001'')) 30, PairAuthorize (TypedId (OpaqueId ''actor_0002'')) 35,
       complete 40, complete 50])"

lemma sample_credentials:
  "issued_credentials sample_requests sample_pairing =
     [\<lparr>cd_tenant_id = TypedId (OpaqueId ''tenant_0001''), cd_actor_id = TypedId (OpaqueId ''actor_0001''),
       cd_device_id = TypedId (OpaqueId ''device_0001''), cd_public_key = sample_key,
       cd_auth_epoch_at_registration = 7, cd_enabled = True\<rparr>]"
  by (simp add: sample_requests_def sample_pairing_def Let_def device_pairing_authorize_def device_pairing_complete_def
      device_pairing_require_live_def device_credential_issue_def or_return_def res_bind_def)

theorem pairing_yields_one_credential_witness:
  "length (issued_credentials sample_requests sample_pairing) = 1
    \<and> (\<exists>now. PairAuthorize (TypedId (OpaqueId ''actor_0001'')) now \<in> set sample_requests \<and> 10 \<le> now \<and> now < 90)"
proof -
  have "device_pairing_issue (TypedId (OpaqueId ''tenant_0001'')) (TypedId (OpaqueId ''device_0001'')) sample_key 10 90
      = Inr sample_pairing"
    by (simp add: device_pairing_issue_def sample_pairing_def)
  from pairing_yields_one_credential [OF this, of sample_requests] show ?thesis by (simp add: sample_credentials)
qed

section \<open>Signed messages\<close>

text \<open>
  C26: A signed proof pins what it was signed for: two device proof messages are equal only when tenant, actor,
  device, nonce and expiry agree; two bridge request messages are equal only when every field of the request
  agrees, its session and body digests being of 32 bytes each; and no message is of both kinds.
\<close>

theorem signed_messages_bind_every_field:
  "(device_proof_message_v1 t a d n e = Inr m \<longrightarrow> device_proof_message_v1 t' a' d' n' e' = Inr m \<longrightarrow>
      t = t' \<and> a = a' \<and> d = d' \<and> n = n' \<and> e = e')
   \<and> (length sd = bridge_request_proof_digest_bytes \<longrightarrow> length bd = bridge_request_proof_digest_bytes \<longrightarrow>
      length sd' = bridge_request_proof_digest_bytes \<longrightarrow> length bd' = bridge_request_proof_digest_bytes \<longrightarrow>
      bridge_request_proof_message_v1 t a d sd meth path cid bd e = Inr m \<longrightarrow>
      bridge_request_proof_message_v1 t' a' d' sd' meth' path' cid' bd' e' = Inr m \<longrightarrow>
      t = t' \<and> a = a' \<and> d = d' \<and> sd = sd' \<and> meth = meth' \<and> path = path' \<and> cid = cid' \<and> bd = bd' \<and> e = e')
   \<and> (device_proof_message_v1 t a d n e = Inr m \<longrightarrow>
      bridge_request_proof_message_v1 t' a' d' sd' meth' path' cid' bd' e' \<noteq> Inr m)"
  using device_message_inject [of t a d n e m t' a' d' n' e']
    bridge_message_inject [of t a d sd meth path cid bd e m t' a' d' sd' meth' path' cid' bd' e']
    proof_kinds_differ [of t a d n e m t' a' d' sd' meth' path' cid' bd' e']
  by simp

theorem signed_messages_bind_every_field_witness:
  "is_ok (device_proof_message_v1 (TypedId (OpaqueId ''tenant_0001'')) (TypedId (OpaqueId ''actor_0001''))
        (TypedId (OpaqueId ''device_0001'')) (replicate 32 CHR ''n'') 90)
   \<and> device_proof_message_v1 (TypedId (OpaqueId ''tenant_0001'')) (TypedId (OpaqueId ''actor_0001''))
        (TypedId (OpaqueId ''device_0001'')) (replicate 32 CHR ''n'') 90
     \<noteq> device_proof_message_v1 (TypedId (OpaqueId ''tenant_0001'')) (TypedId (OpaqueId ''actor_0001''))
        (TypedId (OpaqueId ''device_0002'')) (replicate 32 CHR ''n'') 90"
proof -
  let ?msg = "\<lambda>d. device_proof_message_v1 (TypedId (OpaqueId ''tenant_0001'')) (TypedId (OpaqueId ''actor_0001''))
        (TypedId (OpaqueId d)) (replicate 32 CHR ''n'') 90"
  have ok: "is_ok (?msg ''device_0001'')"
    by (simp add: device_proof_message_v1_def append_framed_def res_bind_def id_as_str_def device_proof_nonce_bytes_def)
  then obtain m where m: "?msg ''device_0001'' = Inr m" by (cases "?msg ''device_0001''") auto
  have "?msg ''device_0002'' \<noteq> Inr m"
    using signed_messages_bind_every_field [of "TypedId (OpaqueId ''tenant_0001'')" "TypedId (OpaqueId ''actor_0001'')"
        "TypedId (OpaqueId ''device_0001'')" "replicate 32 CHR ''n''" 90 m "TypedId (OpaqueId ''tenant_0001'')"
        "TypedId (OpaqueId ''actor_0001'')" "TypedId (OpaqueId ''device_0002'')" "replicate 32 CHR ''n''" 90] m
    by auto
  then show ?thesis using ok m by simp
qed

section \<open>Sessions\<close>

text \<open>
  A revoked application session never authorizes again: once a revocation has succeeded, no later time, no
  epoch or binding version and no further revocation request makes the session valid, and its recorded
  revocation time is the first one.
\<close>

theorem revoked_session_stays_revoked:
  assumes "device_session_revoke now s = (Inr (), s')" "ds_revoked_at s = None"
  shows "\<not> is_ok (device_session_require_authorized (session_revocations ts s') user_enabled epoch device_enabled binding later)
    \<and> ds_revoked_at (session_revocations ts s') = Some now"
proof -
  have r: "ds_revoked_at s' = Some now" using assms by (auto simp: device_session_revoke_def split: if_splits)
  then have k: "session_revocations ts s' = s'" by (rule session_revocations_keep)
  have "\<not> is_ok (device_session_require_authorized s' user_enabled epoch device_enabled binding later)"
    using r by (auto simp: is_ok_iff session_require_authorized_Inr)
  then show ?thesis using r k by simp
qed

definition sample_session :: device_session where
  "sample_session = \<lparr>ds_tenant_id = TypedId (OpaqueId ''tenant_0001''), ds_actor_id = TypedId (OpaqueId ''actor_0001''),
     ds_device_id = TypedId (OpaqueId ''device_0001''), ds_user_auth_epoch = 7, ds_device_binding_version = 2,
     ds_issued_at = 10, ds_expires_at = 90, ds_revoked_at = None\<rparr>"

theorem revoked_session_stays_revoked_witness:
  "is_ok (device_session_require_authorized sample_session True 7 True 2 50)
   \<and> \<not> is_ok (device_session_require_authorized
        (session_revocations [30, 5] (sample_session\<lparr>ds_revoked_at := Some 20\<rparr>)) True 7 True 2 50)"
proof -
  have r: "device_session_revoke 20 sample_session = (Inr (), sample_session\<lparr>ds_revoked_at := Some 20\<rparr>)"
    by (simp add: device_session_revoke_def sample_session_def)
  have "ds_revoked_at sample_session = None" by (simp add: sample_session_def)
  from revoked_session_stays_revoked [OF r this, of "[30, 5]" True 7 True 2 50] show ?thesis
    by (simp add: device_session_require_authorized_def sample_session_def)
qed

end
