(* ===== verification/Mailbox_Domain.thy ===== *)
theory Mailbox_Domain
  imports Primitives
begin

text \<open>
  \<open>crates/mailbox-domain\<close>: providers and lanes (\<open>runtime_lane.rs\<close>), bindings (\<open>binding.rs\<close>), sync jobs
  (\<open>job.rs\<close>), what a provider reports (\<open>observation.rs\<close>), the association of a mailbox with a client
  (\<open>client_association.rs\<close>) and onboarding (\<open>onboarding.rs\<close>).
\<close>

section \<open>Errors, providers, bindings\<close>

datatype mailbox_error =
    MxAlreadyRevoked | MxBindingNotExecutable | MxBindingRevoked | MxCursorTooLong | MxInvalidBindingStatus
  | MxInvalidBindingTransition | MxInvalidBoundedItemCount | MxInvalidFailureRetryHint | MxInvalidJobTransition
  | MxInvalidProvider | MxInvalidJobStatus | MxInvalidProviderStatus | MxInvalidMaxAttempts | MxJobNotDue
  | MxMaxAttemptsReached | MxInvalidRetryTime | MxVersionOverflow

fun mailbox_error_message :: "mailbox_error \<Rightarrow> string" where
  "mailbox_error_message MxAlreadyRevoked = ''mailbox binding already revoked''"
| "mailbox_error_message MxBindingNotExecutable = ''mailbox binding is not executable''"
| "mailbox_error_message MxBindingRevoked = ''mailbox binding is revoked''"
| "mailbox_error_message MxCursorTooLong = ''mailbox cursor exceeds bounded length''"
| "mailbox_error_message MxInvalidBindingStatus = ''mailbox binding status is invalid''"
| "mailbox_error_message MxInvalidBindingTransition = ''mailbox binding transition is invalid''"
| "mailbox_error_message MxInvalidBoundedItemCount = ''mailbox observation item count exceeds bound''"
| "mailbox_error_message MxInvalidFailureRetryHint = ''mailbox provider retry hint is invalid for failure class''"
| "mailbox_error_message MxInvalidJobTransition = ''mailbox job transition is invalid''"
| "mailbox_error_message MxInvalidProvider = ''mailbox provider is invalid''"
| "mailbox_error_message MxInvalidJobStatus = ''mailbox job status is invalid''"
| "mailbox_error_message MxInvalidProviderStatus = ''mailbox provider status is invalid''"
| "mailbox_error_message MxInvalidMaxAttempts = ''mailbox job max attempts are invalid''"
| "mailbox_error_message MxJobNotDue = ''mailbox job is not due''"
| "mailbox_error_message MxMaxAttemptsReached = ''mailbox job attempts are exhausted''"
| "mailbox_error_message MxInvalidRetryTime = ''mailbox retry time must be in the future''"
| "mailbox_error_message MxVersionOverflow = ''mailbox aggregate version overflow''"

datatype mailbox_runtime_lane = LaneCloud | LaneBrowser
datatype mailbox_provider = GmailApi | Imap | BrowserFallback | MicrosoftGraph

fun mailbox_provider_storage :: "mailbox_provider \<Rightarrow> string" where
  "mailbox_provider_storage GmailApi = ''GMAIL_API''"
| "mailbox_provider_storage Imap = ''IMAP''"
| "mailbox_provider_storage BrowserFallback = ''BROWSER_FALLBACK''"
| "mailbox_provider_storage MicrosoftGraph = ''MICROSOFT_GRAPH''"

definition mailbox_provider_parse :: "string \<Rightarrow> mailbox_error + mailbox_provider" where
  "mailbox_provider_parse s =
     (if s = ''GMAIL_API'' then Inr GmailApi
      else if s = ''IMAP'' then Inr Imap
      else if s = ''BROWSER_FALLBACK'' then Inr BrowserFallback
      else if s = ''MICROSOFT_GRAPH'' then Inr MicrosoftGraph
      else Inl MxInvalidProvider)"

fun mailbox_runtime_lane_of :: "mailbox_provider \<Rightarrow> mailbox_runtime_lane" where
  "mailbox_runtime_lane_of GmailApi = LaneCloud"
| "mailbox_runtime_lane_of Imap = LaneCloud"
| "mailbox_runtime_lane_of MicrosoftGraph = LaneCloud"
| "mailbox_runtime_lane_of BrowserFallback = LaneBrowser"

definition is_phase2e_cloud_supported :: "mailbox_provider \<Rightarrow> bool" where
  "is_phase2e_cloud_supported p \<longleftrightarrow> p = GmailApi \<or> p = Imap"

datatype mailbox_binding_status = BindingActive | BindingAuthRequired | BindingSuspended | BindingRevoked

fun mailbox_binding_status_storage :: "mailbox_binding_status \<Rightarrow> string" where
  "mailbox_binding_status_storage BindingActive = ''ACTIVE''"
| "mailbox_binding_status_storage BindingAuthRequired = ''AUTH_REQUIRED''"
| "mailbox_binding_status_storage BindingSuspended = ''SUSPENDED''"
| "mailbox_binding_status_storage BindingRevoked = ''REVOKED''"

definition mailbox_binding_status_parse :: "string \<Rightarrow> mailbox_error + mailbox_binding_status" where
  "mailbox_binding_status_parse s =
     (if s = ''ACTIVE'' then Inr BindingActive
      else if s = ''AUTH_REQUIRED'' then Inr BindingAuthRequired
      else if s = ''SUSPENDED'' then Inr BindingSuspended
      else if s = ''REVOKED'' then Inr BindingRevoked
      else Inl MxInvalidBindingStatus)"

record mailbox_binding =
  mxb_tenant_id :: tenant_id
  mxb_binding_id :: mailbox_binding_id
  mxb_provider :: mailbox_provider
  mxb_secret_handle :: secret_handle
  mxb_status :: mailbox_binding_status
  mxb_version :: aggregate_version

definition mailbox_binding_restore ::
    "tenant_id \<Rightarrow> mailbox_binding_id \<Rightarrow> mailbox_provider \<Rightarrow> secret_handle \<Rightarrow> mailbox_binding_status \<Rightarrow> aggregate_version
     \<Rightarrow> mailbox_binding" where
  "mailbox_binding_restore tenant_id binding_id provider handle status version =
     \<lparr>mxb_tenant_id = tenant_id, mxb_binding_id = binding_id, mxb_provider = provider, mxb_secret_handle = handle,
      mxb_status = status, mxb_version = version\<rparr>"

definition mailbox_binding_create ::
    "tenant_id \<Rightarrow> mailbox_binding_id \<Rightarrow> mailbox_provider \<Rightarrow> secret_handle \<Rightarrow> mailbox_binding" where
  "mailbox_binding_create tenant_id binding_id provider handle =
     \<lparr>mxb_tenant_id = tenant_id, mxb_binding_id = binding_id, mxb_provider = provider, mxb_secret_handle = handle,
      mxb_status = BindingActive, mxb_version = version_initial\<rparr>"

definition binding_bump_version :: "mailbox_binding \<Rightarrow> mailbox_error + mailbox_binding" where
  "binding_bump_version b =
     res_bind (res_map_err (\<lambda>_. MxVersionOverflow) (version_next (mxb_version b))) (\<lambda>v. Inr (b\<lparr>mxb_version := v\<rparr>))"

definition binding_transition_operational ::
    "mailbox_binding_status \<Rightarrow> mailbox_binding \<Rightarrow> (mailbox_error + unit) \<times> mailbox_binding" where
  "binding_transition_operational target b =
     (if mxb_status b = BindingRevoked \<or> mxb_status b = target \<or> target = BindingActive \<or> target = BindingRevoked
      then (Inl MxInvalidBindingTransition, b)
      else or_return (binding_bump_version b) b (\<lambda>b'. (Inr (), b'\<lparr>mxb_status := target\<rparr>)))"

definition binding_require_auth :: "mailbox_binding \<Rightarrow> (mailbox_error + unit) \<times> mailbox_binding" where
  "binding_require_auth = binding_transition_operational BindingAuthRequired"

definition binding_suspend :: "mailbox_binding \<Rightarrow> (mailbox_error + unit) \<times> mailbox_binding" where
  "binding_suspend = binding_transition_operational BindingSuspended"

definition binding_activate_with_handle :: "secret_handle \<Rightarrow> mailbox_binding \<Rightarrow> (mailbox_error + unit) \<times> mailbox_binding" where
  "binding_activate_with_handle handle b =
     (if mxb_status b \<notin> {BindingAuthRequired, BindingSuspended} then (Inl MxInvalidBindingTransition, b)
      else or_return (binding_bump_version b) b (\<lambda>b'. (Inr (), b'\<lparr>mxb_secret_handle := handle, mxb_status := BindingActive\<rparr>)))"

definition binding_revoke :: "mailbox_binding \<Rightarrow> (mailbox_error + unit) \<times> mailbox_binding" where
  "binding_revoke b =
     (if mxb_status b = BindingRevoked then (Inl MxAlreadyRevoked, b)
      else or_return (binding_bump_version b) b (\<lambda>b'. (Inr (), b'\<lparr>mxb_status := BindingRevoked\<rparr>)))"

section \<open>Jobs\<close>

definition mailbox_max_cursor_length :: nat where "mailbox_max_cursor_length = 512"
definition mailbox_max_job_attempts :: u32 where "mailbox_max_job_attempts = 10"

datatype mailbox_job_status =
    MxScheduled | MxQueued | MxRunning | MxRetryPending | MxAuthRequired | MxSuspended | MxSucceeded | MxFailed

fun mailbox_job_status_storage :: "mailbox_job_status \<Rightarrow> string" where
  "mailbox_job_status_storage MxScheduled = ''SCHEDULED''"
| "mailbox_job_status_storage MxQueued = ''QUEUED''"
| "mailbox_job_status_storage MxRunning = ''RUNNING''"
| "mailbox_job_status_storage MxRetryPending = ''RETRY_PENDING''"
| "mailbox_job_status_storage MxAuthRequired = ''AUTH_REQUIRED''"
| "mailbox_job_status_storage MxSuspended = ''SUSPENDED''"
| "mailbox_job_status_storage MxSucceeded = ''SUCCEEDED''"
| "mailbox_job_status_storage MxFailed = ''FAILED''"

definition mailbox_job_status_parse :: "string \<Rightarrow> mailbox_error + mailbox_job_status" where
  "mailbox_job_status_parse s =
     (if s = ''SCHEDULED'' \<or> s = ''PENDING'' then Inr MxScheduled
      else if s = ''QUEUED'' then Inr MxQueued
      else if s = ''RUNNING'' then Inr MxRunning
      else if s = ''RETRY_PENDING'' then Inr MxRetryPending
      else if s = ''AUTH_REQUIRED'' then Inr MxAuthRequired
      else if s = ''SUSPENDED'' then Inr MxSuspended
      else if s = ''SUCCEEDED'' then Inr MxSucceeded
      else if s = ''FAILED'' then Inr MxFailed
      else Inl MxInvalidJobStatus)"

definition mailbox_job_status_terminal :: "mailbox_job_status \<Rightarrow> bool" where
  "mailbox_job_status_terminal s \<longleftrightarrow> s = MxSucceeded \<or> s = MxFailed"

record mailbox_job =
  mxj_tenant_id :: tenant_id
  mxj_binding_id :: mailbox_binding_id
  mxj_job_id :: mailbox_job_id
  mxj_cursor :: "string option"
  mxj_status :: mailbox_job_status
  mxj_attempt :: u32
  mxj_max_attempts :: u32
  mxj_next_run_at :: unix_millis
  mxj_version :: aggregate_version

definition validate_cursor :: "string option \<Rightarrow> mailbox_error + unit" where
  "validate_cursor value =
     (case value of None \<Rightarrow> Inr () | Some c \<Rightarrow> if mailbox_max_cursor_length < length c then Inl MxCursorTooLong else Inr ())"

definition validate_max_attempts :: "u32 \<Rightarrow> mailbox_error + unit" where
  "validate_max_attempts value =
     (if value = 0 \<or> mailbox_max_job_attempts < value then Inl MxInvalidMaxAttempts else Inr ())"

definition require_active_binding :: "mailbox_binding_status \<Rightarrow> mailbox_error + unit" where
  "require_active_binding s = (case s of BindingActive \<Rightarrow> Inr () | BindingRevoked \<Rightarrow> Inl MxBindingRevoked
     | _ \<Rightarrow> Inl MxBindingNotExecutable)"

definition mailbox_job_create ::
    "mailbox_binding \<Rightarrow> mailbox_job_id \<Rightarrow> string option \<Rightarrow> unix_millis \<Rightarrow> u32 \<Rightarrow> mailbox_error + mailbox_job" where
  "mailbox_job_create b job_id cursor scheduled_at max_attempts =
     res_bind (require_active_binding (mxb_status b)) (\<lambda>_.
     res_bind (validate_cursor cursor) (\<lambda>_.
     res_bind (validate_max_attempts max_attempts) (\<lambda>_.
     Inr \<lparr>mxj_tenant_id = mxb_tenant_id b, mxj_binding_id = mxb_binding_id b, mxj_job_id = job_id, mxj_cursor = cursor,
          mxj_status = MxScheduled, mxj_attempt = 0, mxj_max_attempts = max_attempts, mxj_next_run_at = scheduled_at,
          mxj_version = version_initial\<rparr>)))"

definition mailbox_job_restore :: "mailbox_job \<Rightarrow> mailbox_error + mailbox_job" where
  \<comment> \<open>the argument is a \<open>MailboxJobRestore\<close>, which has the fields of the job\<close>
  "mailbox_job_restore snapshot =
     res_bind (validate_cursor (mxj_cursor snapshot)) (\<lambda>_.
     res_bind (validate_max_attempts (mxj_max_attempts snapshot)) (\<lambda>_.
     if mxj_max_attempts snapshot < mxj_attempt snapshot then Inl MxMaxAttemptsReached else Inr snapshot))"

definition mailbox_job_is_due :: "mailbox_job \<Rightarrow> unix_millis \<Rightarrow> bool" where
  "mailbox_job_is_due j now \<longleftrightarrow> mxj_status j \<in> {MxScheduled, MxRetryPending} \<and> mxj_next_run_at j \<le> now"

definition mxj_bump_version :: "mailbox_job \<Rightarrow> mailbox_error + mailbox_job" where
  "mxj_bump_version j =
     res_bind (res_map_err (\<lambda>_. MxVersionOverflow) (version_next (mxj_version j))) (\<lambda>v. Inr (j\<lparr>mxj_version := v\<rparr>))"

definition mailbox_job_queue :: "unix_millis \<Rightarrow> mailbox_job \<Rightarrow> (mailbox_error + unit) \<times> mailbox_job" where
  "mailbox_job_queue now j =
     (if mxj_status j \<notin> {MxScheduled, MxRetryPending} then (Inl MxInvalidJobTransition, j)
      else if now < mxj_next_run_at j then (Inl MxJobNotDue, j)
      else if mxj_max_attempts j \<le> mxj_attempt j then (Inl MxMaxAttemptsReached, j)
      else or_return (mxj_bump_version j) j (\<lambda>j'. (Inr (), j'\<lparr>mxj_status := MxQueued\<rparr>)))"

definition mailbox_job_start :: "mailbox_binding \<Rightarrow> mailbox_job \<Rightarrow> (mailbox_error + unit) \<times> mailbox_job" where
  \<comment> \<open>the attempt is counted before the version is advanced\<close>
  "mailbox_job_start b j =
     (if mxj_status j \<noteq> MxQueued then (Inl MxInvalidJobTransition, j)
      else if mxb_tenant_id b \<noteq> mxj_tenant_id j \<or> mxb_binding_id b \<noteq> mxj_binding_id j then (Inl MxBindingNotExecutable, j)
      else or_return (require_active_binding (mxb_status b)) j (\<lambda>_.
        if mxj_max_attempts j \<le> mxj_attempt j then (Inl MxMaxAttemptsReached, j)
        else or_return (res_ok_or MxMaxAttemptsReached (checked_add (mxj_attempt j) 1)) j (\<lambda>attempt.
          let j1 = j\<lparr>mxj_attempt := attempt\<rparr> in
          or_return (mxj_bump_version j1) j1 (\<lambda>j'. (Inr (), j'\<lparr>mxj_status := MxRunning\<rparr>)))))"

definition mxj_require_running :: "mailbox_job \<Rightarrow> mailbox_error + unit" where
  "mxj_require_running j = (if mxj_status j = MxRunning then Inr () else Inl MxInvalidJobTransition)"

definition mailbox_job_succeed :: "string option \<Rightarrow> mailbox_job \<Rightarrow> (mailbox_error + unit) \<times> mailbox_job" where
  "mailbox_job_succeed next_cursor j =
     or_return (mxj_require_running j) j (\<lambda>_.
     or_return (validate_cursor next_cursor) j (\<lambda>_.
     or_return (mxj_bump_version j) j (\<lambda>j'. (Inr (), j'\<lparr>mxj_cursor := next_cursor, mxj_status := MxSucceeded\<rparr>))))"

definition mailbox_job_retry :: "unix_millis \<Rightarrow> unix_millis \<Rightarrow> mailbox_job \<Rightarrow> (mailbox_error + unit) \<times> mailbox_job" where
  "mailbox_job_retry now retry_at j =
     or_return (mxj_require_running j) j (\<lambda>_.
     if mxj_max_attempts j \<le> mxj_attempt j then (Inl MxMaxAttemptsReached, j)
     else if retry_at \<le> now then (Inl MxInvalidRetryTime, j)
     else or_return (mxj_bump_version j) j (\<lambda>j'. (Inr (), j'\<lparr>mxj_next_run_at := retry_at, mxj_status := MxRetryPending\<rparr>)))"

definition mailbox_job_require_auth :: "mailbox_job \<Rightarrow> (mailbox_error + unit) \<times> mailbox_job" where
  "mailbox_job_require_auth j =
     or_return (mxj_require_running j) j (\<lambda>_.
     or_return (mxj_bump_version j) j (\<lambda>j'. (Inr (), j'\<lparr>mxj_status := MxAuthRequired\<rparr>)))"

definition mailbox_job_suspend :: "mailbox_job \<Rightarrow> (mailbox_error + unit) \<times> mailbox_job" where
  "mailbox_job_suspend j =
     (if mailbox_job_status_terminal (mxj_status j) \<or> mxj_status j = MxSuspended then (Inl MxInvalidJobTransition, j)
      else or_return (mxj_bump_version j) j (\<lambda>j'. (Inr (), j'\<lparr>mxj_status := MxSuspended\<rparr>)))"

definition mailbox_job_resume :: "unix_millis \<Rightarrow> mailbox_job \<Rightarrow> (mailbox_error + unit) \<times> mailbox_job" where
  "mailbox_job_resume scheduled_at j =
     (if mxj_status j \<notin> {MxAuthRequired, MxSuspended} then (Inl MxInvalidJobTransition, j)
      else if mxj_max_attempts j \<le> mxj_attempt j then (Inl MxMaxAttemptsReached, j)
      else or_return (mxj_bump_version j) j (\<lambda>j'. (Inr (), j'\<lparr>mxj_next_run_at := scheduled_at, mxj_status := MxScheduled\<rparr>)))"

definition mailbox_job_fail :: "mailbox_job \<Rightarrow> (mailbox_error + unit) \<times> mailbox_job" where
  "mailbox_job_fail j =
     or_return (mxj_require_running j) j (\<lambda>_.
     or_return (mxj_bump_version j) j (\<lambda>j'. (Inr (), j'\<lparr>mxj_status := MxFailed\<rparr>)))"

section \<open>What a provider reports\<close>

definition max_provider_status_length :: nat where "max_provider_status_length = 64"
definition max_bounded_item_count :: u32 where "max_bounded_item_count = 10000"

definition provider_status_char :: "char \<Rightarrow> bool" where
  "provider_status_char c \<longleftrightarrow> is_ascii_alphanumeric c \<or> c \<in> {CHR ''_'', CHR ''-'', CHR ''.''}"

definition validate_provider_status :: "string \<Rightarrow> mailbox_error + unit" where
  "validate_provider_status value =
     (if value = [] \<or> max_provider_status_length < length value \<or> \<not> list_all provider_status_char value
      then Inl MxInvalidProviderStatus else Inr ())"

definition validate_bounded_item_count :: "u32 \<Rightarrow> mailbox_error + unit" where
  "validate_bounded_item_count value = (if max_bounded_item_count < value then Inl MxInvalidBoundedItemCount else Inr ())"

record mailbox_observation =
  obs_binding_id :: mailbox_binding_id
  obs_provider_status :: string
  obs_bounded_item_count :: u32
  obs_next_cursor :: "string option"

definition mailbox_observation_new ::
    "mailbox_binding_id \<Rightarrow> string \<Rightarrow> u32 \<Rightarrow> string option \<Rightarrow> mailbox_error + mailbox_observation" where
  "mailbox_observation_new binding_id provider_status item_count next_cursor =
     res_bind (validate_provider_status provider_status) (\<lambda>_.
     res_bind (validate_bounded_item_count item_count) (\<lambda>_.
     res_bind (validate_cursor next_cursor) (\<lambda>_.
     Inr \<lparr>obs_binding_id = binding_id, obs_provider_status = provider_status, obs_bounded_item_count = item_count,
          obs_next_cursor = next_cursor\<rparr>)))"

datatype provider_failure_class =
    PfAuthentication | PfRateLimited | PfTransientDependency | PfPermanent | PfProviderPolicy | PfBackpressure

datatype failure_disposition = DispRetryable | DispAuthRequired | DispSuspended | DispTerminal

fun provider_failure_storage :: "provider_failure_class \<Rightarrow> string" where
  "provider_failure_storage PfAuthentication = ''AUTH''"
| "provider_failure_storage PfRateLimited = ''RATE_LIMIT''"
| "provider_failure_storage PfTransientDependency = ''TRANSIENT_DEPENDENCY''"
| "provider_failure_storage PfPermanent = ''PERMANENT''"
| "provider_failure_storage PfProviderPolicy = ''PROVIDER_POLICY''"
| "provider_failure_storage PfBackpressure = ''BACKPRESSURE''"

fun failure_class_disposition :: "provider_failure_class \<Rightarrow> failure_disposition" where
  "failure_class_disposition PfAuthentication = DispAuthRequired"
| "failure_class_disposition PfRateLimited = DispRetryable"
| "failure_class_disposition PfTransientDependency = DispRetryable"
| "failure_class_disposition PfBackpressure = DispRetryable"
| "failure_class_disposition PfProviderPolicy = DispSuspended"
| "failure_class_disposition PfPermanent = DispTerminal"

record provider_failure =
  pf_class :: provider_failure_class
  pf_retry_at :: "unix_millis option"

definition provider_failure_new :: "provider_failure_class \<Rightarrow> unix_millis option \<Rightarrow> mailbox_error + provider_failure" where
  "provider_failure_new cls retry_at =
     (if retry_at \<noteq> None \<and> failure_class_disposition cls \<noteq> DispRetryable then Inl MxInvalidFailureRetryHint
      else Inr \<lparr>pf_class = cls, pf_retry_at = retry_at\<rparr>)"

section \<open>The client of a mailbox\<close>

datatype mailbox_association_error = AssocVersionConflict | AssocAlreadyAssociated | AssocAlreadyUnassigned | AssocVersionOverflow

fun mailbox_association_error_message :: "mailbox_association_error \<Rightarrow> string" where
  "mailbox_association_error_message AssocVersionConflict = ''mailbox client association version conflict''"
| "mailbox_association_error_message AssocAlreadyAssociated = ''mailbox is already associated with this client''"
| "mailbox_association_error_message AssocAlreadyUnassigned = ''mailbox is already unassigned''"
| "mailbox_association_error_message AssocVersionOverflow = ''mailbox client association version overflow''"

datatype mailbox_association_action = AssocBind | AssocRebind | AssocUnbind

record mailbox_association =
  mxa_tenant_id :: tenant_id
  mxa_binding_id :: mailbox_binding_id
  mxa_client_id :: "client_id option"
  mxa_version :: u64

definition association_version_next :: "u64 \<Rightarrow> mailbox_association_error + u64" where
  "association_version_next v = res_ok_or AssocVersionOverflow (checked_add v 1)"

definition association_unassigned :: "tenant_id \<Rightarrow> mailbox_binding_id \<Rightarrow> mailbox_association" where
  "association_unassigned tenant_id binding_id =
     \<lparr>mxa_tenant_id = tenant_id, mxa_binding_id = binding_id, mxa_client_id = None, mxa_version = 0\<rparr>"

definition association_require_version :: "u64 \<Rightarrow> mailbox_association \<Rightarrow> mailbox_association_error + unit" where
  "association_require_version expected a = (if expected = mxa_version a then Inr () else Inl AssocVersionConflict)"

definition association_associate ::
    "u64 \<Rightarrow> client_id \<Rightarrow> mailbox_association \<Rightarrow> (mailbox_association_error + mailbox_association_action) \<times> mailbox_association" where
  "association_associate expected client_id a =
     or_return (association_require_version expected a) a (\<lambda>_.
       if mxa_client_id a = Some client_id then (Inl AssocAlreadyAssociated, a)
       else let action = (if mxa_client_id a \<noteq> None then AssocRebind else AssocBind) in
         or_return (association_version_next (mxa_version a)) a (\<lambda>v.
           (Inr action, a\<lparr>mxa_version := v, mxa_client_id := Some client_id\<rparr>)))"

definition association_unbind ::
    "u64 \<Rightarrow> mailbox_association \<Rightarrow> (mailbox_association_error + mailbox_association_action) \<times> mailbox_association" where
  "association_unbind expected a =
     or_return (association_require_version expected a) a (\<lambda>_.
       if mxa_client_id a = None then (Inl AssocAlreadyUnassigned, a)
       else or_return (association_version_next (mxa_version a)) a (\<lambda>v.
           (Inr AssocUnbind, a\<lparr>mxa_version := v, mxa_client_id := None\<rparr>)))"

section \<open>Onboarding\<close>

definition max_status_metadata_len :: nat where "max_status_metadata_len = 128"

datatype mailbox_onboarding_error =
    OnbVersionConflict | OnbVersionOverflow | OnbInvalidStatus | OnbInvalidStatusMetadata | OnbInvalidTransition
  | OnbCredentialHandleRequired | OnbCredentialHandleChangeNotAllowed

fun mailbox_onboarding_error_message :: "mailbox_onboarding_error \<Rightarrow> string" where
  "mailbox_onboarding_error_message OnbVersionConflict = ''mailbox onboarding version conflict''"
| "mailbox_onboarding_error_message OnbVersionOverflow = ''mailbox onboarding version overflow''"
| "mailbox_onboarding_error_message OnbInvalidStatus = ''mailbox onboarding status is invalid''"
| "mailbox_onboarding_error_message OnbInvalidStatusMetadata = ''mailbox onboarding status metadata is invalid''"
| "mailbox_onboarding_error_message OnbInvalidTransition = ''mailbox onboarding transition is invalid''"
| "mailbox_onboarding_error_message OnbCredentialHandleRequired =
     ''mailbox onboarding activation requires a credential handle''"
| "mailbox_onboarding_error_message OnbCredentialHandleChangeNotAllowed =
     ''mailbox onboarding credential handle may only change on activation''"

datatype mailbox_onboarding_status = OnbPending | OnbActive | OnbReauthRequired | OnbDisabled | OnbConfigError
datatype mailbox_onboarding_action = OnbStart | OnbActivate | OnbRequireReauth | OnbDisable | OnbMarkConfigError

fun onboarding_status_storage :: "mailbox_onboarding_status \<Rightarrow> string" where
  "onboarding_status_storage OnbPending = ''PENDING''"
| "onboarding_status_storage OnbActive = ''ACTIVE''"
| "onboarding_status_storage OnbReauthRequired = ''REAUTH_REQUIRED''"
| "onboarding_status_storage OnbDisabled = ''DISABLED''"
| "onboarding_status_storage OnbConfigError = ''CONFIG_ERROR''"

definition onboarding_status_parse :: "string \<Rightarrow> mailbox_onboarding_error + mailbox_onboarding_status" where
  "onboarding_status_parse s =
     (if s = ''PENDING'' then Inr OnbPending
      else if s = ''ACTIVE'' then Inr OnbActive
      else if s = ''REAUTH_REQUIRED'' then Inr OnbReauthRequired
      else if s = ''DISABLED'' then Inr OnbDisabled
      else if s = ''CONFIG_ERROR'' then Inr OnbConfigError
      else Inl OnbInvalidStatus)"

definition onboarding_status_terminal :: "mailbox_onboarding_status \<Rightarrow> bool" where
  "onboarding_status_terminal s \<longleftrightarrow> s = OnbDisabled \<or> s = OnbConfigError"

fun onboarding_action_storage :: "mailbox_onboarding_action \<Rightarrow> string" where
  "onboarding_action_storage OnbStart = ''START''"
| "onboarding_action_storage OnbActivate = ''ACTIVATE''"
| "onboarding_action_storage OnbRequireReauth = ''REQUIRE_REAUTH''"
| "onboarding_action_storage OnbDisable = ''DISABLE''"
| "onboarding_action_storage OnbMarkConfigError = ''CONFIG_ERROR''"

datatype onboarding_metadata = OnboardingMetadata (onboarding_metadata_as_str: string)

definition onboarding_metadata_char :: "char \<Rightarrow> bool" where
  "onboarding_metadata_char c \<longleftrightarrow> is_ascii_alphanumeric c \<or> c \<in> {CHR ''_'', CHR ''-'', CHR ''.'', CHR '':'', CHR ''/''}"

definition onboarding_metadata_parse :: "string \<Rightarrow> mailbox_onboarding_error + onboarding_metadata" where
  "onboarding_metadata_parse value =
     (if value = [] \<or> max_status_metadata_len < length value \<or> \<not> list_all onboarding_metadata_char value
      then Inl OnbInvalidStatusMetadata else Inr (OnboardingMetadata value))"

record mailbox_onboarding =
  mxo_tenant_id :: tenant_id
  mxo_onboarding_id :: mailbox_onboarding_id
  mxo_provider :: mailbox_provider
  mxo_status :: mailbox_onboarding_status
  mxo_credential_handle :: "secret_handle option"
  mxo_status_metadata :: "onboarding_metadata option"
  mxo_version :: u64

definition onboarding_version_next :: "u64 \<Rightarrow> mailbox_onboarding_error + u64" where
  "onboarding_version_next v = res_ok_or OnbVersionOverflow (checked_add v 1)"

definition onboarding_start ::
    "tenant_id \<Rightarrow> mailbox_onboarding_id \<Rightarrow> mailbox_provider \<Rightarrow> onboarding_metadata option \<Rightarrow> mailbox_onboarding" where
  "onboarding_start tenant_id onboarding_id provider metadata =
     \<lparr>mxo_tenant_id = tenant_id, mxo_onboarding_id = onboarding_id, mxo_provider = provider, mxo_status = OnbPending,
      mxo_credential_handle = None, mxo_status_metadata = metadata, mxo_version = 1\<rparr>"

definition onboarding_target ::
    "mailbox_onboarding_action \<Rightarrow> secret_handle option \<Rightarrow> mailbox_onboarding
     \<Rightarrow> mailbox_onboarding_error + mailbox_onboarding_status \<times> secret_handle option" where
  \<comment> \<open>the \<open>match\<close> of \<open>transition\<close>: next status and next handle\<close>
  "onboarding_target action handle m =
     (let keep = (\<lambda>status. if handle \<noteq> None then Inl OnbCredentialHandleChangeNotAllowed
                           else Inr (status, mxo_credential_handle m))
      in case action of
        OnbStart \<Rightarrow> Inl OnbInvalidTransition
      | OnbActivate \<Rightarrow>
          if mxo_status m \<in> {OnbPending, OnbReauthRequired}
          then res_bind (res_ok_or OnbCredentialHandleRequired handle) (\<lambda>h. Inr (OnbActive, Some h))
          else Inl OnbInvalidTransition
      | OnbRequireReauth \<Rightarrow> if mxo_status m = OnbActive then keep OnbReauthRequired else Inl OnbInvalidTransition
      | OnbDisable \<Rightarrow>
          if mxo_status m \<in> {OnbPending, OnbActive, OnbReauthRequired} then keep OnbDisabled else Inl OnbInvalidTransition
      | OnbMarkConfigError \<Rightarrow>
          if mxo_status m \<in> {OnbPending, OnbActive, OnbReauthRequired} then keep OnbConfigError else Inl OnbInvalidTransition)"

definition onboarding_transition ::
    "u64 \<Rightarrow> mailbox_onboarding_action \<Rightarrow> secret_handle option \<Rightarrow> onboarding_metadata option \<Rightarrow> mailbox_onboarding
     \<Rightarrow> (mailbox_onboarding_error + unit) \<times> mailbox_onboarding" where
  "onboarding_transition expected action handle metadata m =
     (if mxo_version m \<noteq> expected then (Inl OnbVersionConflict, m)
      else or_return (onboarding_target action handle m) m (\<lambda>(next_status, next_handle).
        or_return (onboarding_version_next (mxo_version m)) m (\<lambda>v.
          (Inr (), m\<lparr>mxo_version := v, mxo_status := next_status, mxo_credential_handle := next_handle,
                     mxo_status_metadata := metadata\<rparr>))))"

section \<open>When the job methods succeed\<close>

lemma job_bump_Inr [ok_iff]:
  "mxj_bump_version j = Inr j' \<longleftrightarrow> (\<exists>v. version_next (mxj_version j) = Inr v \<and> j' = j\<lparr>mxj_version := v\<rparr>)"
  by (auto simp: mxj_bump_version_def res_bind_Inr_iff)

lemma require_running_Inr [simp]: "mxj_require_running j = Inr u \<longleftrightarrow> mxj_status j = MxRunning"
  by (simp add: mxj_require_running_def)

lemma require_active_binding_Inr [simp]: "require_active_binding s = Inr u \<longleftrightarrow> s = BindingActive"
  by (cases s) (simp_all add: require_active_binding_def)

lemma job_queue_Inr [ok_iff]:
  "mailbox_job_queue now j = (Inr u, j') \<longleftrightarrow> mxj_status j \<in> {MxScheduled, MxRetryPending} \<and> mxj_next_run_at j \<le> now
     \<and> mxj_attempt j < mxj_max_attempts j
     \<and> (\<exists>v. version_next (mxj_version j) = Inr v \<and> j' = j\<lparr>mxj_version := v, mxj_status := MxQueued\<rparr>)"
  by (auto simp: mailbox_job_queue_def or_return_Inr_iff job_bump_Inr not_less not_le)

lemma job_start_Inr [ok_iff]:
  "mailbox_job_start b j = (Inr u, j') \<longleftrightarrow> mxj_status j = MxQueued \<and> mxb_tenant_id b = mxj_tenant_id j
     \<and> mxb_binding_id b = mxj_binding_id j \<and> mxb_status b = BindingActive \<and> mxj_attempt j < mxj_max_attempts j
     \<and> (\<exists>a v. checked_add (mxj_attempt j) 1 = Some a \<and> version_next (mxj_version j) = Inr v
          \<and> j' = j\<lparr>mxj_attempt := a, mxj_version := v, mxj_status := MxRunning\<rparr>)"
  by (auto simp: mailbox_job_start_def or_return_Inr_iff job_bump_Inr Let_def not_le)

lemma job_succeed_Inr [ok_iff]:
  "mailbox_job_succeed c j = (Inr u, j') \<longleftrightarrow> mxj_status j = MxRunning \<and> validate_cursor c = Inr ()
     \<and> (\<exists>v. version_next (mxj_version j) = Inr v \<and> j' = j\<lparr>mxj_version := v, mxj_cursor := c, mxj_status := MxSucceeded\<rparr>)"
  by (auto simp: mailbox_job_succeed_def or_return_Inr_iff job_bump_Inr)

lemma job_retry_Inr [ok_iff]:
  "mailbox_job_retry now t j = (Inr u, j') \<longleftrightarrow> mxj_status j = MxRunning \<and> mxj_attempt j < mxj_max_attempts j \<and> now < t
     \<and> (\<exists>v. version_next (mxj_version j) = Inr v \<and> j' = j\<lparr>mxj_version := v, mxj_next_run_at := t, mxj_status := MxRetryPending\<rparr>)"
  by (auto simp: mailbox_job_retry_def or_return_Inr_iff job_bump_Inr not_le)

lemma job_require_auth_Inr [ok_iff]:
  "mailbox_job_require_auth j = (Inr u, j') \<longleftrightarrow> mxj_status j = MxRunning
     \<and> (\<exists>v. version_next (mxj_version j) = Inr v \<and> j' = j\<lparr>mxj_version := v, mxj_status := MxAuthRequired\<rparr>)"
  by (auto simp: mailbox_job_require_auth_def or_return_Inr_iff job_bump_Inr)

lemma job_suspend_Inr [ok_iff]:
  "mailbox_job_suspend j = (Inr u, j') \<longleftrightarrow> \<not> mailbox_job_status_terminal (mxj_status j) \<and> mxj_status j \<noteq> MxSuspended
     \<and> (\<exists>v. version_next (mxj_version j) = Inr v \<and> j' = j\<lparr>mxj_version := v, mxj_status := MxSuspended\<rparr>)"
  by (auto simp: mailbox_job_suspend_def or_return_Inr_iff job_bump_Inr)

lemma job_fail_Inr [ok_iff]:
  "mailbox_job_fail j = (Inr u, j') \<longleftrightarrow> mxj_status j = MxRunning
     \<and> (\<exists>v. version_next (mxj_version j) = Inr v \<and> j' = j\<lparr>mxj_version := v, mxj_status := MxFailed\<rparr>)"
  by (auto simp: mailbox_job_fail_def or_return_Inr_iff job_bump_Inr)

lemma status_storage_roundtrip [simp]: "mailbox_job_status_parse (mailbox_job_status_storage s) = Inr s"
  by (cases s) (simp_all add: mailbox_job_status_parse_def)

lemma binding_status_storage_roundtrip [simp]: "mailbox_binding_status_parse (mailbox_binding_status_storage s) = Inr s"
  by (cases s) (simp_all add: mailbox_binding_status_parse_def)

lemma provider_storage_roundtrip [simp]: "mailbox_provider_parse (mailbox_provider_storage p) = Inr p"
  by (cases p) (simp_all add: mailbox_provider_parse_def)

end
