(* ===== verification/D1_Evidence.thy ===== *)
theory D1_Evidence
  imports Ordered_Map "HOL-Library.Sublist"
begin

text \<open>
  What every governed write of the catalogue database leaves behind, and how a repeated command is
  recognised: the evidence of a command (\<open>application-ports/src/commands.rs\<close>), the idempotency records
  (\<open>cloudflare-adapters/src/d1_idempotency.rs\<close>), the identifier of a command in the journal
  (\<open>d1_command_identity.rs\<close>) and the statements that insert the idempotency, audit and outbox rows.
  A \<open>batch\<close> of statements is one transaction: the first statement that fails undoes the ones before it.
  Errors of the database are its messages, as the adapters classify them by their text.
\<close>

section \<open>Integers of the database\<close>

definition i64_of_u64 :: "u64 \<Rightarrow> int option" where
  \<comment> \<open>\<open>i64::try_from\<close>\<close>
  "i64_of_u64 v = (if unat v < 2 ^ 63 then Some (uint v) else None)"

lemma i64_of_u64_code [code]: "i64_of_u64 v = (if uint v < 2 ^ 63 then Some (uint v) else None)"
proof -
  have "unat v < 2 ^ 63 \<longleftrightarrow> int (unat v) < int (2 ^ 63)" by (rule of_nat_less_iff [symmetric])
  then show ?thesis by (simp add: i64_of_u64_def)
qed

definition u64_of_i64 :: "int \<Rightarrow> u64 option" where
  \<comment> \<open>\<open>u64::try_from\<close> on an \<open>i64\<close>\<close>
  "u64_of_i64 i = (if 0 \<le> i then Some (of_int i) else None)"

definition sqlite_integer :: "u64 \<Rightarrow> string + int" where
  "sqlite_integer value = res_ok_or ''value exceeds SQLite INTEGER'' (i64_of_u64 value)"

definition sqlite_version :: "aggregate_version \<Rightarrow> string + int" where
  "sqlite_version v = sqlite_integer (version_value v)"

lemma i64_of_u64_Some [ok_iff]: "i64_of_u64 v = Some i \<longleftrightarrow> unat v < 2 ^ 63 \<and> i = uint v"
  by (auto simp: i64_of_u64_def)

lemma sqlite_integer_Inr [ok_iff]: "sqlite_integer v = Inr i \<longleftrightarrow> unat v < 2 ^ 63 \<and> i = uint v"
  by (simp add: sqlite_integer_def i64_of_u64_Some)

lemma sqlite_version_Inr [ok_iff]: "sqlite_version v = Inr i \<longleftrightarrow> unat (version_value v) < 2 ^ 63 \<and> i = uint (version_value v)"
  by (simp add: sqlite_version_def sqlite_integer_Inr)

lemma u64_of_i64_uint [simp]: "u64_of_i64 (uint v) = Some v"
  by (simp add: u64_of_i64_def)

section \<open>Evidence of a command\<close>

record command_evidence =
  ev_idempotency_key :: idempotency_key
  ev_payload_fingerprint :: payload_fingerprint
  ev_audit_event_id :: audit_event_id
  ev_outbox_event_id :: outbox_event_id
  ev_now :: unix_millis
  ev_idempotency_expires_at :: unix_millis

section \<open>Idempotency records\<close>

record idempotency_receipt =
  rc_result_code :: string
  rc_result_reference :: "string option"

datatype idempotency_decision = IdemMiss | IdemReplay idempotency_receipt | IdemConflict

record idempotency_row =
  ir_command_name :: string
  ir_payload_fingerprint :: "string option"
  ir_result_code :: string
  ir_result_reference :: "string option"
  ir_expires_at_ms :: int

type_synonym idempotency_table = "string \<times> string \<times> string \<Rightarrow> idempotency_row option"

definition idem_key :: "tenant_scope \<Rightarrow> actor_id \<Rightarrow> idempotency_key \<Rightarrow> string \<times> string \<times> string" where
  "idem_key scope actor_id key = (id_as_str (scope_tenant_id scope), id_as_str actor_id, id_as_str key)"

definition decide_row ::
    "idempotency_row \<Rightarrow> string \<Rightarrow> payload_fingerprint \<Rightarrow> unix_millis \<Rightarrow> string + idempotency_decision" where
  "decide_row row command_name fingerprint now =
     (case ir_payload_fingerprint row of
        None \<Rightarrow> Inr IdemConflict
      | Some stored \<Rightarrow>
          res_bind (res_ok_or ''negative idempotency expiry'' (u64_of_i64 (ir_expires_at_ms row))) (\<lambda>expires_at.
          res_bind (res_map_err (\<lambda>_. ''payload fingerprint must be exactly 64 lowercase hexadecimal characters'')
                      (payload_fingerprint_parse stored)) (\<lambda>stored_fingerprint.
          if ir_command_name row \<noteq> command_name \<or> stored_fingerprint \<noteq> fingerprint \<or> expires_at \<le> now then Inr IdemConflict
          else Inr (IdemReplay \<lparr>rc_result_code = ir_result_code row, rc_result_reference = ir_result_reference row\<rparr>))))"

definition delete_expired_legacy :: "string \<times> string \<times> string \<Rightarrow> int \<Rightarrow> idempotency_table \<Rightarrow> idempotency_table" where
  "delete_expired_legacy k now T =
     (case T k of
        Some row \<Rightarrow> if ir_payload_fingerprint row = None \<and> ir_expires_at_ms row \<le> now then T(k := None) else T
      | None \<Rightarrow> T)"

definition idempotency_decide ::
    "tenant_scope \<Rightarrow> actor_id \<Rightarrow> idempotency_key \<Rightarrow> string \<Rightarrow> payload_fingerprint \<Rightarrow> unix_millis \<Rightarrow> idempotency_table
     \<Rightarrow> (string + idempotency_decision) \<times> idempotency_table" where
  "idempotency_decide scope actor_id key command_name fingerprint now T =
     or_return (res_ok_or ''idempotency decision time overflow'' (i64_of_u64 now)) T (\<lambda>now_i64.
       let k = idem_key scope actor_id key; T' = delete_expired_legacy k now_i64 T in
       case T' k of
         None \<Rightarrow> (Inr IdemMiss, T')
       | Some row \<Rightarrow> (decide_row row command_name fingerprint now, T'))"

section \<open>Identifiers of the command journal\<close>

definition command_domain :: string where "command_domain = ''part-crm:d1-command-journal:v1''"

definition canonical_component :: "string \<Rightarrow> string \<Rightarrow> string \<Rightarrow> string \<Rightarrow> string" where
  "canonical_component domain tenant actor key =
     domain @ '':'' @ show_nat (length tenant) @ '':'' @ tenant @ '':'' @ show_nat (length actor) @ '':'' @ actor
     @ '':'' @ show_nat (length key) @ '':'' @ key"

definition command_journal_id :: "tenant_id \<Rightarrow> actor_id \<Rightarrow> idempotency_key \<Rightarrow> string" where
  "command_journal_id tenant_id actor_id key =
     canonical_component command_domain (id_as_str tenant_id) (id_as_str actor_id) (id_as_str key)"

section \<open>Transactions\<close>

type_synonym 'db statement = "'db \<Rightarrow> string + 'db"

fun run_statements :: "'db statement list \<Rightarrow> 'db \<Rightarrow> string + 'db" where
  "run_statements [] db = Inr db"
| "run_statements (s # ss) db = res_bind (s db) (run_statements ss)"

definition d1_batch :: "'db statement list \<Rightarrow> 'db \<Rightarrow> (string + unit) \<times> 'db" where
  "d1_batch statements db = (case run_statements statements db of Inl e \<Rightarrow> (Inl e, db) | Inr db' \<Rightarrow> (Inr (), db'))"

lemma d1_batch_Inl: "d1_batch ss db = (Inl e, db') \<Longrightarrow> db' = db"
  by (auto simp: d1_batch_def split: sum.splits)

lemma d1_batch_Inr [ok_iff]: "d1_batch ss db = (Inr u, db') \<longleftrightarrow> run_statements ss db = Inr db'"
  by (auto simp: d1_batch_def split: sum.splits)

section \<open>Idempotency, audit and outbox rows\<close>

record audit_row =
  au_correlation_id :: string
  au_actor_id :: string
  au_action :: string
  au_resource_type :: string
  au_resource_id :: string
  au_result_code :: string
  au_occurred_at_ms :: int

record outbox_row =
  ob_aggregate_type :: string
  ob_aggregate_id :: string
  ob_aggregate_version :: int
  ob_event_type :: string
  ob_payload_json :: string
  ob_created_at_ms :: int

record evidence_store =
  es_idempotency :: idempotency_table
  es_audit :: "string \<times> string \<Rightarrow> audit_row option"
  es_outbox :: "string \<times> string \<Rightarrow> outbox_row option"

record mutation_envelope =
  me_idempotency_key :: idempotency_key
  me_payload_fingerprint :: payload_fingerprint
  me_audit_event_id :: audit_event_id
  me_outbox_event_id :: outbox_event_id
  me_payload_json :: string
  me_now :: unix_millis
  me_idempotency_expires_at :: unix_millis

record write_evidence =
  we_command_name :: string
  we_action :: string
  we_result_code :: string
  we_resource_type :: string
  we_resource_id :: string
  we_aggregate_type :: string
  we_aggregate_id :: string
  we_aggregate_version :: int
  we_event_type :: string

definition idempotency_key_of :: "actor_context \<Rightarrow> mutation_envelope \<Rightarrow> string \<times> string \<times> string" where
  "idempotency_key_of actor env = idem_key (actor_tenant_scope actor) (actor_actor_id actor) (me_idempotency_key env)"

definition idempotency_row_of :: "mutation_envelope \<Rightarrow> write_evidence \<Rightarrow> int \<Rightarrow> idempotency_row" where
  "idempotency_row_of env e expires_at =
     \<lparr>ir_command_name = we_command_name e, ir_payload_fingerprint = Some (payload_as_str (me_payload_fingerprint env)),
      ir_result_code = we_result_code e, ir_result_reference = Some (we_resource_id e), ir_expires_at_ms = expires_at\<rparr>"

definition audit_key_of :: "actor_context \<Rightarrow> mutation_envelope \<Rightarrow> string \<times> string" where
  "audit_key_of actor env = (id_as_str (scope_tenant_id (actor_tenant_scope actor)), id_as_str (me_audit_event_id env))"

definition audit_row_of :: "actor_context \<Rightarrow> write_evidence \<Rightarrow> int \<Rightarrow> audit_row" where
  "audit_row_of actor e now =
     \<lparr>au_correlation_id = id_as_str (actor_correlation_id actor), au_actor_id = id_as_str (actor_actor_id actor),
      au_action = we_action e, au_resource_type = we_resource_type e, au_resource_id = we_resource_id e,
      au_result_code = we_result_code e, au_occurred_at_ms = now\<rparr>"

definition outbox_key_of :: "actor_context \<Rightarrow> mutation_envelope \<Rightarrow> string \<times> string" where
  "outbox_key_of actor env = (id_as_str (scope_tenant_id (actor_tenant_scope actor)), id_as_str (me_outbox_event_id env))"

definition outbox_row_of :: "mutation_envelope \<Rightarrow> write_evidence \<Rightarrow> int \<Rightarrow> outbox_row" where
  "outbox_row_of env e now =
     \<lparr>ob_aggregate_type = we_aggregate_type e, ob_aggregate_id = we_aggregate_id e,
      ob_aggregate_version = we_aggregate_version e, ob_event_type = we_event_type e,
      ob_payload_json = me_payload_json env, ob_created_at_ms = now\<rparr>"

definition insert_idempotency ::
    "actor_context \<Rightarrow> mutation_envelope \<Rightarrow> write_evidence \<Rightarrow> int \<Rightarrow> int \<Rightarrow> 'a evidence_store_scheme statement" where
  \<comment> \<open>the check that a record does not expire before it is created, and the primary key\<close>
  "insert_idempotency actor env e now expires_at db =
     (if expires_at < now then Inl ''CHECK constraint failed: expires_at_ms >= created_at_ms''
      else if es_idempotency db (idempotency_key_of actor env) \<noteq> None
      then Inl ''UNIQUE constraint failed: idempotency_records.idempotency_key''
      else Inr (db\<lparr>es_idempotency := (es_idempotency db)
             (idempotency_key_of actor env := Some (idempotency_row_of env e expires_at))\<rparr>))"

definition insert_audit ::
    "actor_context \<Rightarrow> mutation_envelope \<Rightarrow> write_evidence \<Rightarrow> int \<Rightarrow> 'a evidence_store_scheme statement" where
  "insert_audit actor env e now db =
     (if es_audit db (audit_key_of actor env) \<noteq> None then Inl ''UNIQUE constraint failed: audit_events.audit_event_id''
      else Inr (db\<lparr>es_audit := (es_audit db)(audit_key_of actor env := Some (audit_row_of actor e now))\<rparr>))"

definition insert_outbox ::
    "actor_context \<Rightarrow> mutation_envelope \<Rightarrow> write_evidence \<Rightarrow> int \<Rightarrow> 'a evidence_store_scheme statement" where
  "insert_outbox actor env e now db =
     (if es_outbox db (outbox_key_of actor env) \<noteq> None then Inl ''UNIQUE constraint failed: outbox_events.outbox_event_id''
      else Inr (db\<lparr>es_outbox := (es_outbox db)(outbox_key_of actor env := Some (outbox_row_of env e now))\<rparr>))"

definition governed_batch ::
    "actor_context \<Rightarrow> mutation_envelope \<Rightarrow> 'a evidence_store_scheme statement \<Rightarrow> write_evidence \<Rightarrow> int \<Rightarrow> int
     \<Rightarrow> 'a evidence_store_scheme \<Rightarrow> (string + unit) \<times> 'a evidence_store_scheme" where
  \<comment> \<open>\<open>execute\<close> of the adapters: the command, then its idempotency, audit and outbox rows\<close>
  "governed_batch actor env command e now expires_at =
     d1_batch [command, insert_idempotency actor env e now expires_at, insert_audit actor env e now,
               insert_outbox actor env e now]"

section \<open>Messages of the database\<close>

definition contains_text :: "string \<Rightarrow> string \<Rightarrow> bool" where
  \<comment> \<open>\<open>message.contains(text)\<close>\<close>
  "contains_text text message \<longleftrightarrow> sublist text message"

section \<open>What a committed batch has written\<close>

definition record_evidence ::
    "actor_context \<Rightarrow> mutation_envelope \<Rightarrow> write_evidence \<Rightarrow> int \<Rightarrow> int \<Rightarrow> 'a evidence_store_scheme \<Rightarrow> 'a evidence_store_scheme" where
  "record_evidence actor env e now expires_at db =
     db\<lparr>es_idempotency := (es_idempotency db)(idempotency_key_of actor env \<mapsto> idempotency_row_of env e expires_at),
        es_audit := (es_audit db)(audit_key_of actor env \<mapsto> audit_row_of actor e now),
        es_outbox := (es_outbox db)(outbox_key_of actor env \<mapsto> outbox_row_of env e now)\<rparr>"

lemma governed_batch_Inr:
  "governed_batch actor env command e now ex db = (Inr u, db') \<longleftrightarrow>
     (\<exists>d. command db = Inr d \<and> now \<le> ex \<and> es_idempotency d (idempotency_key_of actor env) = None
        \<and> es_audit d (audit_key_of actor env) = None \<and> es_outbox d (outbox_key_of actor env) = None
        \<and> db' = record_evidence actor env e now ex d)"
  by (auto simp: governed_batch_def d1_batch_Inr res_bind_Inr_iff insert_idempotency_def insert_audit_def insert_outbox_def
      record_evidence_def split: if_splits)

lemma governed_batch_Inl: "governed_batch actor env command e now ex db = (Inl m, db') \<Longrightarrow> db' = db"
  by (auto simp: governed_batch_def dest: d1_batch_Inl)

lemma record_evidence_simps [simp]:
  "es_idempotency (record_evidence actor env e now ex db) =
     (es_idempotency db)(idempotency_key_of actor env \<mapsto> idempotency_row_of env e ex)"
  "es_audit (record_evidence actor env e now ex db) = (es_audit db)(audit_key_of actor env \<mapsto> audit_row_of actor e now)"
  "es_outbox (record_evidence actor env e now ex db) = (es_outbox db)(outbox_key_of actor env \<mapsto> outbox_row_of env e now)"
  by (simp_all add: record_evidence_def)

section \<open>Records are kept, and replayed until they expire\<close>

definition idempotency_kept :: "idempotency_table \<Rightarrow> idempotency_table \<Rightarrow> bool" where
  \<comment> \<open>every record with a fingerprint is still there, unchanged\<close>
  "idempotency_kept T T' \<longleftrightarrow> (\<forall>k row. T k = Some row \<and> ir_payload_fingerprint row \<noteq> None \<longrightarrow> T' k = Some row)"

lemma kept_refl [simp]: "idempotency_kept T T"
  by (simp add: idempotency_kept_def)

lemma kept_trans: "idempotency_kept T U \<Longrightarrow> idempotency_kept U V \<Longrightarrow> idempotency_kept T V"
  by (auto simp: idempotency_kept_def)

lemma kept_insert: "T k = None \<Longrightarrow> idempotency_kept T (T(k \<mapsto> row))"
  by (auto simp: idempotency_kept_def)

lemma delete_expired_kept: "idempotency_kept T (delete_expired_legacy k now T)"
  by (auto simp: idempotency_kept_def delete_expired_legacy_def split: option.splits)

lemma decide_kept: "idempotency_decide scope a key cmd fp now T = (r, T') \<Longrightarrow> idempotency_kept T T'"
  by (cases "i64_of_u64 now") (auto simp: idempotency_decide_def Let_def split: option.splits intro: delete_expired_kept)

definition fingerprint_valid :: "payload_fingerprint \<Rightarrow> bool" where
  "fingerprint_valid fp \<longleftrightarrow> length (payload_as_str fp) = sha256_hex_length \<and> list_all is_lower_hexdigit (payload_as_str fp)"

lemma decide_replays:
  assumes "T (idem_key scope a key) = Some \<lparr>ir_command_name = cmd, ir_payload_fingerprint = Some (payload_as_str fp),
      ir_result_code = code, ir_result_reference = ref, ir_expires_at_ms = uint expires\<rparr>"
    and "fingerprint_valid fp" "now < expires" "unat expires < 2 ^ 63"
  shows "idempotency_decide scope a key cmd fp now T = (Inr (IdemReplay \<lparr>rc_result_code = code, rc_result_reference = ref\<rparr>), T)"
proof -
  have n: "unat now < 2 ^ 63" using assms(3,4) by (simp add: word_less_nat_alt)
  have p: "payload_fingerprint_parse (payload_as_str fp) = Inr fp"
    using assms(2) by (cases fp) (simp add: payload_fingerprint_parse_def fingerprint_valid_def)
  have "delete_expired_legacy (idem_key scope a key) i T = T" for i using assms(1) by (simp add: delete_expired_legacy_def)
  then show ?thesis using assms n p by (simp add: idempotency_decide_def i64_of_u64_def decide_row_def Let_def)
qed

section \<open>Journal identifiers name one command\<close>

lemma digits_colon_split:
  assumes "list_all is_ascii_digit a" "list_all is_ascii_digit b" "a @ CHR '':'' # x = b @ CHR '':'' # y"
  shows "a = b \<and> x = y"
  using assms
proof (induction a arbitrary: b)
  case Nil
  then show ?case by (cases b) (auto simp: ascii_defs)
next
  case (Cons c a)
  then show ?case by (cases b) (auto simp: ascii_defs)
qed

lemma show_nat_inject: "show_nat m = show_nat n \<longleftrightarrow> m = n"
  by (metis show_nat_value)

lemma length_prefixed_split:
  assumes "show_nat (length a) @ CHR '':'' # a @ x = show_nat (length b) @ CHR '':'' # b @ y"
  shows "a = b \<and> x = y"
proof -
  have "show_nat (length a) = show_nat (length b) \<and> a @ x = b @ y"
    by (rule digits_colon_split [OF show_nat_digits show_nat_digits assms])
  then show ?thesis by (auto simp: show_nat_inject)
qed

lemma command_journal_id_inject:
  assumes "command_journal_id t a k = command_journal_id t' a' k'" shows "t = t' \<and> a = a' \<and> k = k'"
proof -
  have "show_nat (length (id_as_str t)) @ CHR '':'' # id_as_str t @
      (CHR '':'' # show_nat (length (id_as_str a)) @ CHR '':'' # id_as_str a @ (CHR '':'' # show_nat (length (id_as_str k)) @ CHR '':'' # id_as_str k @ []))
    = show_nat (length (id_as_str t')) @ CHR '':'' # id_as_str t' @
      (CHR '':'' # show_nat (length (id_as_str a')) @ CHR '':'' # id_as_str a' @ (CHR '':'' # show_nat (length (id_as_str k')) @ CHR '':'' # id_as_str k' @ []))"
    using assms by (simp add: command_journal_id_def canonical_component_def)
  from length_prefixed_split [OF this] have 1: "id_as_str t = id_as_str t'"
    and 2: "show_nat (length (id_as_str a)) @ CHR '':'' # id_as_str a @ (CHR '':'' # show_nat (length (id_as_str k)) @ CHR '':'' # id_as_str k @ [])
      = show_nat (length (id_as_str a')) @ CHR '':'' # id_as_str a' @ (CHR '':'' # show_nat (length (id_as_str k')) @ CHR '':'' # id_as_str k' @ [])"
    by simp_all
  from length_prefixed_split [OF 2] have 3: "id_as_str a = id_as_str a'"
    and 4: "show_nat (length (id_as_str k)) @ CHR '':'' # id_as_str k @ [] = show_nat (length (id_as_str k')) @ CHR '':'' # id_as_str k' @ []"
    by simp_all
  from length_prefixed_split [OF 4] have "id_as_str k = id_as_str k'" by simp
  then show ?thesis using 1 3 by (simp add: id_eq_iff)
qed

end
