(* ===== verification/Governed_Command.thy ===== *)
theory Governed_Command
  imports D1_Evidence
begin

text \<open>
  The shape that the governed use cases share.  A command first asks its port whether the idempotency key
  has been used: a hit answers with the receipt, a conflict refuses, a miss proceeds; a write that meets a
  conflict asks once more.  What a use case relies on in the store is a locale; that the catalogue database
  provides it follows for every adapter from the one row its batch commits.
\<close>

section \<open>Decisions\<close>

record replay_receipt =
  mr_result_code :: string
  mr_result_reference :: "string option"

datatype replay_decision = ReplayMiss | ReplayHit replay_receipt | ReplayConflict

definition unless_replayed ::
    "('p \<Rightarrow> 'e) \<Rightarrow> 'e \<Rightarrow> ('p + replay_decision) \<times> 's \<Rightarrow> (replay_receipt \<Rightarrow> 'e + 'o) \<Rightarrow> ('s \<Rightarrow> ('e + 'o) \<times> 's) \<Rightarrow> ('e + 'o) \<times> 's" where
  \<comment> \<open>the \<open>match\<close> on \<open>decide_replay(..).await.map_err(..)?\<close>; \<open>proceed\<close> is what a miss does\<close>
  "unless_replayed map_err conflict decision replay proceed =
     (case decision of
        (Inl e, s) \<Rightarrow> (Inl (map_err e), s)
      | (Inr ReplayMiss, s) \<Rightarrow> proceed s
      | (Inr (ReplayHit receipt), s) \<Rightarrow> (replay receipt, s)
      | (Inr ReplayConflict, s) \<Rightarrow> (Inl conflict, s))"

definition settle_write ::
    "('p \<Rightarrow> 'e) \<Rightarrow> 'e \<Rightarrow> 'p \<Rightarrow> ('p + unit) \<times> 's \<Rightarrow> ('s \<Rightarrow> ('p + replay_decision) \<times> 's) \<Rightarrow> (replay_receipt \<Rightarrow> 'e + 'o) \<Rightarrow> 'o
     \<Rightarrow> ('e + 'o) \<times> 's" where
  \<comment> \<open>the \<open>match\<close> on the write: a conflict asks for the decision again\<close>
  "settle_write map_err conflict conflict_class written decide replay outcome =
     (case written of
        (Inr _, s) \<Rightarrow> (Inr outcome, s)
      | (Inl e, s) \<Rightarrow>
          if e = conflict_class then unless_replayed map_err conflict (decide s) replay (\<lambda>s'. (Inl conflict, s'))
          else (Inl (map_err e), s))"

lemma unless_replayed_fresh:
  assumes "unless_replayed me cf d replay go = (Inr out, s)" "\<not> replayed out" "\<forall>r x. replay r = Inr x \<longrightarrow> replayed x"
  obtains s1 where "d = (Inr ReplayMiss, s1)" "go s1 = (Inr out, s)"
proof -
  obtain r s1 where d: "d = (r, s1)" by (cases d)
  show ?thesis
  proof (cases r)
    case (Inl e) then show ?thesis using assms d by (simp add: unless_replayed_def)
  next
    case (Inr dec) then show ?thesis using assms d that by (cases dec) (auto simp: unless_replayed_def)
  qed
qed

lemma settle_write_fresh:
  assumes "settle_write me cf cc w decide replay o1 = (Inr out, s)" "\<not> replayed out" "\<forall>r x. replay r = Inr x \<longrightarrow> replayed x"
  shows "w = (Inr (), s) \<and> out = o1"
proof -
  obtain r s1 where w: "w = (r, s1)" by (cases w)
  show ?thesis
  proof (cases r)
    case (Inl e)
    show ?thesis
    proof (cases "e = cc")
      case True
      then have "unless_replayed me cf (decide s1) replay (\<lambda>s'. (Inl cf, s')) = (Inr out, s)"
        using assms(1) w Inl by (simp add: settle_write_def)
      then show ?thesis
        by (rule unless_replayed_fresh [where replayed = replayed, OF _ assms(2,3)]) simp
    qed (use assms w Inl in \<open>simp add: settle_write_def\<close>)
  next
    case (Inr u) then show ?thesis using assms w by (simp add: settle_write_def)
  qed
qed

section \<open>The contract of a governed write\<close>

definition same_caller :: "actor_context \<Rightarrow> actor_context \<Rightarrow> bool" where
  "same_caller a b \<longleftrightarrow> actor_tenant_scope a = actor_tenant_scope b \<and> actor_actor_id a = actor_actor_id b"

definition replayable :: "command_evidence \<Rightarrow> command_evidence \<Rightarrow> bool" where
  \<comment> \<open>the second request repeats key and payload of the first before its receipt expires\<close>
  "replayable e e' \<longleftrightarrow> ev_idempotency_key e = ev_idempotency_key e' \<and> ev_payload_fingerprint e = ev_payload_fingerprint e'
     \<and> fingerprint_valid (ev_payload_fingerprint e) \<and> ev_now e' < ev_idempotency_expires_at e"

locale governed_store =
  fixes decide :: "actor_context \<Rightarrow> string \<Rightarrow> command_evidence \<Rightarrow> 's \<Rightarrow> ('p + replay_decision) \<times> 's"
    and later :: "'s \<Rightarrow> 's \<Rightarrow> bool"
  assumes later_refl: "later s s"
    and later_trans: "later s t \<Longrightarrow> later t u \<Longrightarrow> later s u"
    and decide_later: "decide a n e s = (d, s') \<Longrightarrow> later s s'"

locale governed_write = governed_store decide later
  for decide :: "actor_context \<Rightarrow> string \<Rightarrow> command_evidence \<Rightarrow> 's \<Rightarrow> ('p + replay_decision) \<times> 's"
    and later :: "'s \<Rightarrow> 's \<Rightarrow> bool" +
  fixes put :: "actor_context \<Rightarrow> 'w \<Rightarrow> 's \<Rightarrow> ('p + unit) \<times> 's"
    and evidence :: "'w \<Rightarrow> command_evidence" and name :: string and receipt :: "'w \<Rightarrow> replay_receipt"
  assumes put_later: "put a w s = (Inr (), s') \<Longrightarrow> later s s'"
    and put_refused: "put a w s = (Inl x, s') \<Longrightarrow> s' = s"
    and put_receipt: "put a w s = (Inr (), s1) \<Longrightarrow> later s1 s2 \<Longrightarrow> same_caller a a' \<Longrightarrow> replayable (evidence w) e
      \<Longrightarrow> decide a' name e s2 = (Inr (ReplayHit (receipt w)), s2)"
begin

lemma put_any_later: "put a w s = (r, s') \<Longrightarrow> later s s'"
proof (cases r)
  case (Inl x)
  then show "put a w s = (r, s') \<Longrightarrow> later s s'" using put_refused [of a w s x s'] later_refl by simp
next
  case (Inr u)
  then show "put a w s = (r, s') \<Longrightarrow> later s s'" using put_later [of a w s s'] by simp
qed

lemma answered_from_receipt:
  "put a w s = (Inr (), s1) \<Longrightarrow> later s1 s2 \<Longrightarrow> same_caller a a' \<Longrightarrow> replayable (evidence w) e \<Longrightarrow>
     unless_replayed me cf (decide a' name e s2) replay proceed = (replay (receipt w), s2)"
  using put_receipt by (simp add: unless_replayed_def)

lemma settled_later:
  assumes "settle_write me cf cc (put a w s) (decide b n e) replay o1 = (r, s')" shows "later s s'"
proof -
  obtain x t where p: "put a w s = (x, t)" by (cases "put a w s")
  then have l: "later s t" by (rule put_any_later)
  obtain d u where d: "decide b n e t = (d, u)" by (cases "decide b n e t")
  then have "later s u" using decide_later later_trans l by blast
  then show ?thesis using assms p d l
    by (cases x; cases d) (auto simp: settle_write_def unless_replayed_def split: if_splits replay_decision.splits)
qed

end

section \<open>The catalogue database\<close>

fun map_replay_decision :: "idempotency_decision \<Rightarrow> replay_decision" where
  "map_replay_decision IdemMiss = ReplayMiss"
| "map_replay_decision (IdemReplay r) =
     ReplayHit \<lparr>mr_result_code = rc_result_code r, mr_result_reference = rc_result_reference r\<rparr>"
| "map_replay_decision IdemConflict = ReplayConflict"

definition d1_decide_replay ::
    "'p \<Rightarrow> actor_context \<Rightarrow> string \<Rightarrow> command_evidence \<Rightarrow> 'a evidence_store_scheme \<Rightarrow> ('p + replay_decision) \<times> 'a evidence_store_scheme" where
  \<comment> \<open>\<open>decide_replay\<close> of the adapters; \<open>unavailable\<close> is the class they give every database error there\<close>
  "d1_decide_replay unavailable actor command_name e db =
     (case idempotency_decide (actor_tenant_scope actor) (actor_actor_id actor) (ev_idempotency_key e) command_name
             (ev_payload_fingerprint e) (ev_now e) (es_idempotency db) of
        (r, T) \<Rightarrow> (res_bind (res_map_err (\<lambda>_. unavailable) r) (\<lambda>d. Inr (map_replay_decision d)),
                    db\<lparr>es_idempotency := T\<rparr>))"

definition envelope_of :: "command_evidence \<Rightarrow> string \<Rightarrow> mutation_envelope" where
  "envelope_of e payload =
     \<lparr>me_idempotency_key = ev_idempotency_key e, me_payload_fingerprint = ev_payload_fingerprint e,
      me_audit_event_id = ev_audit_event_id e, me_outbox_event_id = ev_outbox_event_id e, me_payload_json = payload,
      me_now = ev_now e, me_idempotency_expires_at = ev_idempotency_expires_at e\<rparr>"

definition commits_receipt ::
    "actor_context \<Rightarrow> command_evidence \<Rightarrow> string \<Rightarrow> replay_receipt \<Rightarrow> idempotency_table \<Rightarrow> idempotency_table \<Rightarrow> bool" where
  "commits_receipt actor e name rc T T' \<longleftrightarrow>
     unat (ev_idempotency_expires_at e) < 2 ^ 63
     \<and> T (idem_key (actor_tenant_scope actor) (actor_actor_id actor) (ev_idempotency_key e)) = None
     \<and> T' = T(idem_key (actor_tenant_scope actor) (actor_actor_id actor) (ev_idempotency_key e) \<mapsto>
          \<lparr>ir_command_name = name, ir_payload_fingerprint = Some (payload_as_str (ev_payload_fingerprint e)),
           ir_result_code = mr_result_code rc, ir_result_reference = mr_result_reference rc,
           ir_expires_at_ms = uint (ev_idempotency_expires_at e)\<rparr>)"

lemma commits_kept: "commits_receipt a e n rc T T' \<Longrightarrow> idempotency_kept T T'"
  by (auto simp: commits_receipt_def kept_insert)

lemma kept_row: "idempotency_kept T T' \<Longrightarrow> T k = Some row \<Longrightarrow> ir_payload_fingerprint row \<noteq> None \<Longrightarrow> T' k = Some row"
  unfolding idempotency_kept_def by blast

lemma record_commits:
  assumes "es_idempotency db = T" "T (idempotency_key_of actor (envelope_of e payload)) = None"
    "unat (ev_idempotency_expires_at e) < 2 ^ 63"
  shows "commits_receipt actor e (we_command_name we) \<lparr>mr_result_code = we_result_code we, mr_result_reference = Some (we_resource_id we)\<rparr> T
     (es_idempotency (record_evidence actor (envelope_of e payload) we now (uint (ev_idempotency_expires_at e)) db))"
  using assms by (simp add: commits_receipt_def idempotency_key_of_def idempotency_row_of_def envelope_of_def)

lemma receipt_answered:
  assumes c: "commits_receipt actor e name rc T (es_idempotency db1)"
    and "idempotency_kept (es_idempotency db1) (es_idempotency db2)" "same_caller actor actor'" "replayable e e'"
  shows "d1_decide_replay unavailable actor' name e' db2 = (Inr (ReplayHit rc), db2)"
proof -
  let ?k = "idem_key (actor_tenant_scope actor) (actor_actor_id actor) (ev_idempotency_key e)"
  have "es_idempotency db2 ?k = Some \<lparr>ir_command_name = name, ir_payload_fingerprint = Some (payload_as_str (ev_payload_fingerprint e)),
           ir_result_code = mr_result_code rc, ir_result_reference = mr_result_reference rc,
           ir_expires_at_ms = uint (ev_idempotency_expires_at e)\<rparr>"
    using c by (intro kept_row [OF assms(2)]) (simp_all add: commits_receipt_def)
  then have "idempotency_decide (actor_tenant_scope actor') (actor_actor_id actor') (ev_idempotency_key e') name
      (ev_payload_fingerprint e') (ev_now e') (es_idempotency db2)
    = (Inr (IdemReplay \<lparr>rc_result_code = mr_result_code rc, rc_result_reference = mr_result_reference rc\<rparr>), es_idempotency db2)"
    using assms(3,4) c
    by (intro decide_replays [where expires = "ev_idempotency_expires_at e"])
      (auto simp: same_caller_def replayable_def commits_receipt_def)
  then show ?thesis by (simp add: d1_decide_replay_def)
qed

lemma d1_decide_kept:
  "d1_decide_replay u a n e db = (r, db') \<Longrightarrow> \<exists>T. db' = db\<lparr>es_idempotency := T\<rparr> \<and> idempotency_kept (es_idempotency db) T"
  by (auto simp: d1_decide_replay_def split: prod.splits intro: decide_kept)

end
