(* ===== verification/Mailbox_Store.thy ===== *)
theory Mailbox_Store
  imports Mailbox_Domain Governed_Command Identity_Access
begin

text \<open>
  The mailbox tables of the catalogue database with the triggers that guard them
  (\<open>migrations/d1/0025_microsoft_graph_provider.sql\<close>), the adapter that reads and writes them
  (\<open>cloudflare-adapters/src/d1_mailboxes.rs\<close>) and its classification of the messages of the database
  (\<open>d1_mailbox_jobs.rs\<close>).  Tables are keyed by the strings of the identifiers.  An insertion into a
  command table runs the validations of its BEFORE trigger, then the CHECK and primary-key constraints of
  the table, then the AFTER trigger that applies the command.
\<close>

section \<open>Tables\<close>

record mailbox_binding_row =
  br_binding_id :: string
  br_provider :: string
  br_secret_handle :: string
  br_status :: string
  br_execution_status :: string
  br_version :: int
  br_created_at_ms :: int
  br_updated_at_ms :: int

record mailbox_job_row =
  \<comment> \<open>without the columns that nothing reads: the retired \<open>status\<close> and the actors\<close>
  jr_job_id :: string
  jr_cursor :: "string option"
  jr_lifecycle_status :: string
  jr_attempt :: int
  jr_max_attempts :: int
  jr_next_run_at_ms :: int
  jr_provider_status :: "string option"
  jr_bounded_item_count :: int
  jr_version :: int
  jr_updated_at_ms :: int

record mailbox_association_row =
  ar_client_id :: "string option"
  ar_version :: int
  ar_updated_at_ms :: int

record mailbox_association_change =
  ac_operation :: string
  ac_previous_client_id :: "string option"
  ac_next_client_id :: "string option"
  ac_changed_at_ms :: int

record mailbox_db = evidence_store +
  md_memberships :: "string \<times> string \<Rightarrow> membership option"
  md_bindings :: "string \<times> string \<Rightarrow> mailbox_binding_row option"
  md_jobs :: "string \<times> string \<times> string \<Rightarrow> mailbox_job_row option"
  md_binding_create_ids :: "(string \<times> string) set"
  md_binding_revoke_ids :: "(string \<times> string) set"
  md_job_create_ids :: "(string \<times> string) set"
  md_job_run_ids :: "(string \<times> string) set"
  md_active_clients :: "(string \<times> string) set"
  md_associations :: "string \<times> string \<Rightarrow> mailbox_association_row option"
  md_association_history :: "string \<times> string \<times> int \<Rightarrow> mailbox_association_change option"
  md_association_ids :: "(string \<times> string) set"

definition active_owner_row :: "mailbox_db \<Rightarrow> string \<Rightarrow> string \<Rightarrow> bool" where
  "active_owner_row db tenant actor =
     (case md_memberships db (tenant, actor) of
        Some m \<Rightarrow> mb_role m = TenantOwner \<and> mb_status m = MembershipActive | None \<Rightarrow> False)"

definition sqlite_max_integer :: int where "sqlite_max_integer = 9223372036854775807"

section \<open>Insertions into the command tables\<close>

record binding_create_command =
  bc_tenant :: string
  bc_command_id :: string
  bc_actor :: string
  bc_binding_id :: string
  bc_provider :: string
  bc_secret_handle :: string
  bc_executed_at :: int

definition insert_binding_create :: "binding_create_command \<Rightarrow> mailbox_db statement" where
  "insert_binding_create c db =
     (if \<not> active_owner_row db (bc_tenant c) (bc_actor c) then Inl ''mailbox_binding_create_owner_required''
      else if bc_provider c \<notin> {''GMAIL_API'', ''IMAP'', ''BROWSER_FALLBACK'', ''MICROSOFT_GRAPH''}
      then Inl ''mailbox_binding_create_provider_invalid''
      else if \<not> opaque_valid (bc_secret_handle c) then Inl ''mailbox_binding_create_secret_handle_invalid''
      else if (bc_tenant c, bc_command_id c) \<in> md_binding_create_ids db
      then Inl ''UNIQUE constraint failed: mailbox_binding_create_commands.command_id''
      else if md_bindings db (bc_tenant c, bc_binding_id c) \<noteq> None
      then Inl ''UNIQUE constraint failed: mailbox_bindings.binding_id''
      else Inr (db\<lparr>md_binding_create_ids := insert (bc_tenant c, bc_command_id c) (md_binding_create_ids db),
             md_bindings := (md_bindings db)((bc_tenant c, bc_binding_id c) := Some
               \<lparr>br_binding_id = bc_binding_id c, br_provider = bc_provider c, br_secret_handle = bc_secret_handle c,
                br_status = ''ACTIVE'', br_execution_status = ''ACTIVE'', br_version = 1,
                br_created_at_ms = bc_executed_at c, br_updated_at_ms = bc_executed_at c\<rparr>)\<rparr>))"

record binding_revoke_command =
  bv_tenant :: string
  bv_command_id :: string
  bv_actor :: string
  bv_binding_id :: string
  bv_expected_version :: int
  bv_executed_at :: int

definition insert_binding_revoke :: "binding_revoke_command \<Rightarrow> mailbox_db statement" where
  "insert_binding_revoke c db =
     (if \<not> active_owner_row db (bv_tenant c) (bv_actor c) then Inl ''mailbox_binding_revoke_owner_required''
      else case md_bindings db (bv_tenant c, bv_binding_id c) of
        None \<Rightarrow> Inl ''mailbox_binding_missing''
      | Some b \<Rightarrow>
          if br_status b = ''REVOKED'' then Inl ''mailbox_binding_already_revoked''
          else if br_status b \<noteq> ''ACTIVE'' \<or> br_version b \<noteq> bv_expected_version c then Inl ''mailbox_binding_version_mismatch''
          else if bv_executed_at c < br_updated_at_ms b then Inl ''mailbox_time_regression''
          else if bv_expected_version c < 1 then Inl ''CHECK constraint failed: expected_binding_version >= 1''
          else if (bv_tenant c, bv_command_id c) \<in> md_binding_revoke_ids db
          then Inl ''UNIQUE constraint failed: mailbox_binding_revoke_commands.command_id''
          else if br_version b = sqlite_max_integer then Inl ''cannot store REAL value in INTEGER column mailbox_bindings.version''
          else Inr (db\<lparr>md_binding_revoke_ids := insert (bv_tenant c, bv_command_id c) (md_binding_revoke_ids db),
                 md_bindings := (md_bindings db)((bv_tenant c, bv_binding_id c) := Some
                   (b\<lparr>br_status := ''REVOKED'', br_version := br_version b + 1, br_updated_at_ms := bv_executed_at c\<rparr>))\<rparr>))"

record job_create_command =
  jc_tenant :: string
  jc_command_id :: string
  jc_actor :: string
  jc_binding_id :: string
  jc_job_id :: string
  jc_cursor :: "string option"
  jc_scheduled_at :: int
  jc_max_attempts :: int
  jc_executed_at :: int

definition insert_job_create :: "job_create_command \<Rightarrow> mailbox_db statement" where
  "insert_job_create c db =
     (if \<not> active_owner_row db (jc_tenant c) (jc_actor c) then Inl ''mailbox_job_create_owner_required''
      else case md_bindings db (jc_tenant c, jc_binding_id c) of
        None \<Rightarrow> Inl ''mailbox_binding_missing''
      | Some b \<Rightarrow>
          if br_status b \<noteq> ''ACTIVE'' then Inl ''mailbox_binding_revoked''
          else if (case jc_cursor c of Some t \<Rightarrow> mailbox_max_cursor_length < length t | None \<Rightarrow> False) then Inl ''mailbox_cursor_too_long''
          else if jc_scheduled_at c < jc_executed_at c then Inl ''mailbox_time_regression''
          else if jc_max_attempts c < 1 \<or> 10 < jc_max_attempts c then Inl ''CHECK constraint failed: max_attempts BETWEEN 1 AND 10''
          else if (jc_tenant c, jc_command_id c) \<in> md_job_create_ids db
          then Inl ''UNIQUE constraint failed: mailbox_job_create_commands.command_id''
          else if md_jobs db (jc_tenant c, jc_binding_id c, jc_job_id c) \<noteq> None
          then Inl ''UNIQUE constraint failed: mailbox_jobs.job_id''
          else Inr (db\<lparr>md_job_create_ids := insert (jc_tenant c, jc_command_id c) (md_job_create_ids db),
                 md_jobs := (md_jobs db)((jc_tenant c, jc_binding_id c, jc_job_id c) := Some
                   \<lparr>jr_job_id = jc_job_id c, jr_cursor = jc_cursor c, jr_lifecycle_status = ''SCHEDULED'', jr_attempt = 0,
                    jr_max_attempts = jc_max_attempts c, jr_next_run_at_ms = jc_scheduled_at c, jr_provider_status = None,
                    jr_bounded_item_count = 0, jr_version = 1, jr_updated_at_ms = jc_executed_at c\<rparr>)\<rparr>))"

record job_run_command =
  jx_tenant :: string
  jx_command_id :: string
  jx_actor :: string
  jx_binding_id :: string
  jx_job_id :: string
  jx_expected_version :: int
  jx_outcome_status :: string
  jx_next_cursor :: "string option"
  jx_provider_status :: string
  jx_bounded_item_count :: int
  jx_retry_at_ms :: "int option"
  jx_executed_at :: int

definition job_run_applied :: "job_run_command \<Rightarrow> mailbox_job_row \<Rightarrow> mailbox_job_row" where
  \<comment> \<open>the first UPDATE of \<open>mailbox_job_run_v2_command_apply\<close>\<close>
  "job_run_applied c j =
     j\<lparr>jr_lifecycle_status := jx_outcome_status c,
       jr_attempt := jr_attempt j + 1,
       jr_cursor := (if jx_outcome_status c = ''SUCCEEDED'' then jx_next_cursor c else jr_cursor j),
       jr_provider_status := Some (jx_provider_status c),
       jr_bounded_item_count := jx_bounded_item_count c,
       jr_next_run_at_ms := (if jx_outcome_status c = ''RETRY_PENDING''
                             then (case jx_retry_at_ms c of Some t \<Rightarrow> t | None \<Rightarrow> jr_next_run_at_ms j) else jr_next_run_at_ms j),
       jr_version := jr_version j + 3,
       jr_updated_at_ms := jx_executed_at c\<rparr>"

definition binding_run_applied :: "job_run_command \<Rightarrow> mailbox_binding_row \<Rightarrow> mailbox_binding_row" where
  \<comment> \<open>the second UPDATE; its row is active, which the validation has established\<close>
  "binding_run_applied c b =
     (if jx_outcome_status c \<in> {''AUTH_REQUIRED'', ''SUSPENDED''}
      then b\<lparr>br_execution_status := jx_outcome_status c, br_version := br_version b + 1, br_updated_at_ms := jx_executed_at c\<rparr>
      else b)"

definition retry_time_invalid :: "job_run_command \<Rightarrow> bool" where
  "retry_time_invalid c \<longleftrightarrow>
     (if jx_outcome_status c = ''RETRY_PENDING''
      then (case jx_retry_at_ms c of None \<Rightarrow> True | Some t \<Rightarrow> t \<le> jx_executed_at c)
      else jx_retry_at_ms c \<noteq> None)"

definition job_run_refusal :: "job_run_command \<Rightarrow> mailbox_binding_row \<Rightarrow> mailbox_job_row \<Rightarrow> string option" where
  \<comment> \<open>the validations of \<open>mailbox_job_run_v2_command_validate\<close> once binding and job are found, in their order,
     followed by the CHECK constraints of the table\<close>
  "job_run_refusal c b j =
     (if jr_lifecycle_status j \<notin> {''SCHEDULED'', ''RETRY_PENDING''} \<or> jr_version j \<noteq> jx_expected_version c
      then Some ''mailbox_job_version_mismatch''
      else if jx_executed_at c < jr_next_run_at_ms j then Some ''mailbox_job_not_due''
      else if jr_max_attempts j \<le> jr_attempt j then Some ''mailbox_job_attempts_exhausted''
      else if 9223372036854775804 < jx_expected_version c then Some ''mailbox_job_version_overflow''
      else if jx_provider_status c = [] \<or> 64 < length (jx_provider_status c) \<or> \<not> list_all provider_status_char (jx_provider_status c)
      then Some ''mailbox_provider_status_invalid''
      else if (case jx_next_cursor c of Some t \<Rightarrow> mailbox_max_cursor_length < length t | None \<Rightarrow> False)
      then Some ''mailbox_cursor_too_long''
      else if retry_time_invalid c then Some ''mailbox_retry_time_invalid''
      else if jx_executed_at c < jr_updated_at_ms j then Some ''mailbox_time_regression''
      else if jx_expected_version c < 1 then Some ''CHECK constraint failed: expected_job_version >= 1''
      else if jx_outcome_status c \<notin> {''RETRY_PENDING'', ''AUTH_REQUIRED'', ''SUSPENDED'', ''SUCCEEDED'', ''FAILED''}
      then Some ''CHECK constraint failed: outcome_status''
      else if jx_bounded_item_count c < 0 \<or> 10000 < jx_bounded_item_count c
      then Some ''CHECK constraint failed: bounded_item_count BETWEEN 0 AND 10000''
      else if jx_executed_at c < 0 then Some ''CHECK constraint failed: executed_at_ms >= 0''
      else None)"

definition binding_update_refusal :: "job_run_command \<Rightarrow> mailbox_binding_row \<Rightarrow> string option" where
  "binding_update_refusal c b =
     (if jx_outcome_status c \<notin> {''AUTH_REQUIRED'', ''SUSPENDED''} then None
      else if jx_executed_at c < br_created_at_ms b then Some ''CHECK constraint failed: updated_at_ms >= created_at_ms''
      else if br_version b = sqlite_max_integer then Some ''cannot store REAL value in INTEGER column mailbox_bindings.version''
      else None)"

definition insert_job_run :: "job_run_command \<Rightarrow> mailbox_db statement" where
  "insert_job_run c db =
     (if \<not> active_owner_row db (jx_tenant c) (jx_actor c) then Inl ''mailbox_job_run_owner_required''
      else case md_bindings db (jx_tenant c, jx_binding_id c) of
        None \<Rightarrow> Inl ''mailbox_binding_missing''
      | Some b \<Rightarrow>
          if br_status b \<noteq> ''ACTIVE'' \<or> br_execution_status b \<noteq> ''ACTIVE'' then Inl ''mailbox_binding_not_executable''
          else case md_jobs db (jx_tenant c, jx_binding_id c, jx_job_id c) of
            None \<Rightarrow> Inl ''mailbox_job_missing''
          | Some j \<Rightarrow>
              case job_run_refusal c b j of Some e \<Rightarrow> Inl e
              | None \<Rightarrow>
                  if (jx_tenant c, jx_command_id c) \<in> md_job_run_ids db
                  then Inl ''UNIQUE constraint failed: mailbox_job_run_commands_v2.command_id''
                  else case binding_update_refusal c b of Some e \<Rightarrow> Inl e
                  | None \<Rightarrow> Inr (db\<lparr>md_job_run_ids := insert (jx_tenant c, jx_command_id c) (md_job_run_ids db),
                       md_jobs := (md_jobs db)((jx_tenant c, jx_binding_id c, jx_job_id c) := Some (job_run_applied c j)),
                       md_bindings := (md_bindings db)((jx_tenant c, jx_binding_id c) := Some (binding_run_applied c b))\<rparr>))"

section \<open>What the application hands over\<close>

record mailbox_prepared_run =
  pr_status :: mailbox_job_status
  pr_attempt :: u32
  pr_version :: aggregate_version
  pr_cursor :: "string option"
  pr_provider_status :: string
  pr_bounded_item_count :: u32
  pr_retry_at :: "unix_millis option"

definition prepared_from_job :: "mailbox_job \<Rightarrow> string \<Rightarrow> u32 \<Rightarrow> mailbox_prepared_run" where
  "prepared_from_job j provider_status item_count =
     \<lparr>pr_status = mxj_status j, pr_attempt = mxj_attempt j, pr_version = mxj_version j, pr_cursor = mxj_cursor j,
      pr_provider_status = provider_status, pr_bounded_item_count = item_count,
      pr_retry_at = (if mxj_status j = MxRetryPending then Some (mxj_next_run_at j) else None)\<rparr>"

record mailbox_job_create_write =
  jw_binding_id :: mailbox_binding_id
  jw_job_id :: mailbox_job_id
  jw_cursor :: "string option"
  jw_scheduled_at :: unix_millis
  jw_max_attempts :: u32
  jw_evidence :: command_evidence
  jw_event_payload_json :: string

record mailbox_job_run_write =
  rw_binding_id :: mailbox_binding_id
  rw_job_id :: mailbox_job_id
  rw_expected_version :: aggregate_version
  rw_prepared :: mailbox_prepared_run
  rw_evidence :: command_evidence
  rw_event_payload_json :: string

section \<open>The adapter\<close>

definition run_result_code :: "mailbox_job_status \<Rightarrow> (string \<times> string) option" where
  \<comment> \<open>result code and event type of an outcome\<close>
  "run_result_code s = (case s of
       MxSucceeded \<Rightarrow> Some (''succeeded'', ''mailbox.job_succeeded.v1'')
     | MxRetryPending \<Rightarrow> Some (''retry_pending'', ''mailbox.job_retry_scheduled.v1'')
     | MxAuthRequired \<Rightarrow> Some (''auth_required'', ''mailbox.job_auth_required.v1'')
     | MxSuspended \<Rightarrow> Some (''suspended'', ''mailbox.job_suspended.v1'')
     | MxFailed \<Rightarrow> Some (''failed'', ''mailbox.job_failed.v1'')
     | _ \<Rightarrow> None)"

definition three_versions_on :: "aggregate_version \<Rightarrow> version_overflow + aggregate_version" where
  \<comment> \<open>\<open>version.next().and_then(next).and_then(next)\<close>\<close>
  "three_versions_on v = res_bind (version_next v) (\<lambda>v1. res_bind (version_next v1) version_next)"

definition job_evidence :: "mailbox_job_id \<Rightarrow> string \<Rightarrow> string \<Rightarrow> int \<Rightarrow> string \<Rightarrow> write_evidence" where
  "job_evidence job_id command_name result_code version event_type =
     \<lparr>we_command_name = command_name, we_action = command_name, we_result_code = result_code, we_resource_type = ''mailbox_job'',
      we_resource_id = id_as_str job_id, we_aggregate_type = ''mailbox_job'', we_aggregate_id = id_as_str job_id,
      we_aggregate_version = version, we_event_type = event_type\<rparr>"

definition d1_create_job :: "actor_context \<Rightarrow> mailbox_job_create_write \<Rightarrow> mailbox_db \<Rightarrow> (string + unit) \<times> mailbox_db" where
  "d1_create_job actor w db =
     (let e = jw_evidence w; env = envelope_of e (jw_event_payload_json w);
          tenant = scope_tenant_id (actor_tenant_scope actor) in
      or_return (res_map_err mailbox_error_message (validate_cursor (jw_cursor w))) db (\<lambda>_.
      if jw_max_attempts w = 0 \<or> 10 < jw_max_attempts w then (Inl ''invalid mailbox max attempts'', db)
      else
      or_return (sqlite_integer (ev_now e)) db (\<lambda>now.
      or_return (sqlite_integer (ev_idempotency_expires_at e)) db (\<lambda>expires_at.
      or_return (sqlite_integer (jw_scheduled_at w)) db (\<lambda>scheduled_at.
      governed_batch actor env
        (insert_job_create
          \<lparr>jc_tenant = id_as_str tenant, jc_command_id = command_journal_id tenant (actor_actor_id actor) (ev_idempotency_key e),
           jc_actor = id_as_str (actor_actor_id actor), jc_binding_id = id_as_str (jw_binding_id w), jc_job_id = id_as_str (jw_job_id w),
           jc_cursor = jw_cursor w, jc_scheduled_at = scheduled_at, jc_max_attempts = uint (jw_max_attempts w), jc_executed_at = now\<rparr>)
        (job_evidence (jw_job_id w) ''mailbox.job_create'' ''created'' 1 ''mailbox.job_created.v1'')
        now expires_at db)))))"

definition d1_run_job :: "actor_context \<Rightarrow> mailbox_job_run_write \<Rightarrow> mailbox_db \<Rightarrow> (string + unit) \<times> mailbox_db" where
  "d1_run_job actor w db =
     (let e = rw_evidence w; p = rw_prepared w; env = envelope_of e (rw_event_payload_json w);
          tenant = scope_tenant_id (actor_tenant_scope actor) in
      or_return (res_map_err mailbox_error_message (validate_provider_status (pr_provider_status p))) db (\<lambda>_.
      or_return (res_map_err mailbox_error_message (validate_cursor (pr_cursor p))) db (\<lambda>_.
      or_return (res_map_err (\<lambda>_. ''aggregate version overflow'') (three_versions_on (rw_expected_version w))) db (\<lambda>result_version.
      if result_version \<noteq> pr_version p then (Inl ''mailbox run outcome version does not match expected version'', db)
      else
      or_return (res_ok_or ''mailbox_run_outcome_invalid'' (run_result_code (pr_status p))) db (\<lambda>(result_code, event_type).
      or_return (sqlite_integer (ev_now e)) db (\<lambda>now.
      or_return (sqlite_integer (ev_idempotency_expires_at e)) db (\<lambda>expires_at.
      or_return (res_opt sqlite_integer (pr_retry_at p)) db (\<lambda>retry_at.
      or_return (sqlite_version (rw_expected_version w)) db (\<lambda>expected_version.
      or_return (sqlite_version result_version) db (\<lambda>aggregate_version.
      governed_batch actor env
        (insert_job_run
          \<lparr>jx_tenant = id_as_str tenant, jx_command_id = command_journal_id tenant (actor_actor_id actor) (ev_idempotency_key e),
           jx_actor = id_as_str (actor_actor_id actor), jx_binding_id = id_as_str (rw_binding_id w), jx_job_id = id_as_str (rw_job_id w),
           jx_expected_version = expected_version, jx_outcome_status = mailbox_job_status_storage (pr_status p),
           jx_next_cursor = pr_cursor p, jx_provider_status = pr_provider_status p,
           jx_bounded_item_count = uint (pr_bounded_item_count p), jx_retry_at_ms = retry_at, jx_executed_at = now\<rparr>)
        (job_evidence (rw_job_id w) ''mailbox.job_run'' result_code aggregate_version event_type)
        now expires_at db))))))))))"

section \<open>Reading rows\<close>

record mailbox_job_read_model =
  jm_job :: mailbox_job
  jm_provider_status :: "string option"
  jm_bounded_item_count :: u32

definition positive_u64 :: "int \<Rightarrow> string + u64" where
  "positive_u64 i = res_bind (res_ok_or ''mailbox numeric value is negative'' (u64_of_i64 i)) (\<lambda>v.
     if v = 0 then Inl ''mailbox aggregate version must be positive'' else Inr v)"

definition non_negative_u64 :: "int \<Rightarrow> string + u64" where
  "non_negative_u64 i = res_ok_or ''mailbox numeric value is negative'' (u64_of_i64 i)"

definition bounded_u32 :: "int \<Rightarrow> u32 \<Rightarrow> string + u32" where
  "bounded_u32 i maximum =
     (if i < 0 \<or> 2 ^ 32 \<le> i then Inl ''mailbox numeric value is out of range''
      else if uint maximum < i then Inl ''mailbox numeric value exceeds bounded range''
      else Inr (of_int i))"

definition binding_from_row :: "tenant_scope \<Rightarrow> mailbox_binding_row \<Rightarrow> string + mailbox_binding" where
  "binding_from_row scope row =
     res_bind (if br_status row = ''REVOKED'' then Inr BindingRevoked
               else if br_status row = ''ACTIVE''
               then res_map_err mailbox_error_message (mailbox_binding_status_parse (br_execution_status row))
               else Inl ''invalid mailbox binding status'') (\<lambda>status.
     res_bind (res_map_err parse_opaque_id_error_message (id_parse (br_binding_id row))) (\<lambda>binding_id.
     res_bind (res_map_err mailbox_error_message (mailbox_provider_parse (br_provider row))) (\<lambda>provider.
     res_bind (res_map_err parse_opaque_id_error_message (id_parse (br_secret_handle row))) (\<lambda>handle.
     res_bind (positive_u64 (br_version row)) (\<lambda>version.
     res_bind (res_map_err zero_aggregate_version_message (version_new version)) (\<lambda>version.
     Inr (mailbox_binding_restore (scope_tenant_id scope) binding_id provider handle status version)))))))"

definition job_from_row ::
    "tenant_scope \<Rightarrow> mailbox_binding_id \<Rightarrow> mailbox_job_row \<Rightarrow> string + mailbox_job_read_model" where
  "job_from_row scope binding_id row =
     res_bind (bounded_u32 (jr_bounded_item_count row) 10000) (\<lambda>item_count.
     res_bind (case jr_provider_status row of None \<Rightarrow> Inr ()
               | Some s \<Rightarrow> res_map_err mailbox_error_message (validate_provider_status s)) (\<lambda>_.
     res_bind (res_map_err parse_opaque_id_error_message (id_parse (jr_job_id row))) (\<lambda>job_id.
     res_bind (res_map_err mailbox_error_message (mailbox_job_status_parse (jr_lifecycle_status row))) (\<lambda>status.
     res_bind (bounded_u32 (jr_attempt row) 10) (\<lambda>attempt.
     res_bind (bounded_u32 (jr_max_attempts row) 10) (\<lambda>max_attempts.
     res_bind (non_negative_u64 (jr_next_run_at_ms row)) (\<lambda>next_run_at.
     res_bind (positive_u64 (jr_version row)) (\<lambda>version.
     res_bind (res_map_err zero_aggregate_version_message (version_new version)) (\<lambda>version.
     res_bind (res_map_err mailbox_error_message (mailbox_job_restore
        \<lparr>mxj_tenant_id = scope_tenant_id scope, mxj_binding_id = binding_id, mxj_job_id = job_id, mxj_cursor = jr_cursor row,
         mxj_status = status, mxj_attempt = attempt, mxj_max_attempts = max_attempts, mxj_next_run_at = next_run_at,
         mxj_version = version\<rparr>)) (\<lambda>job.
     Inr \<lparr>jm_job = job, jm_provider_status = jr_provider_status row, jm_bounded_item_count = item_count\<rparr>))))))))))"

definition d1_find_binding :: "tenant_scope \<Rightarrow> mailbox_binding_id \<Rightarrow> mailbox_db \<Rightarrow> string + mailbox_binding option" where
  "d1_find_binding scope binding_id db =
     res_opt (binding_from_row scope) (md_bindings db (id_as_str (scope_tenant_id scope), id_as_str binding_id))"

definition d1_find_job ::
    "tenant_scope \<Rightarrow> mailbox_binding_id \<Rightarrow> mailbox_job_id \<Rightarrow> mailbox_db \<Rightarrow> string + mailbox_job_read_model option" where
  "d1_find_job scope binding_id job_id db =
     res_opt (job_from_row scope binding_id)
       (md_jobs db (id_as_str (scope_tenant_id scope), id_as_str binding_id, id_as_str job_id))"

section \<open>Classified errors\<close>

datatype mailbox_job_port_error_class =
    MjpNotFound | MjpVersionConflict | MjpInvalidState | MjpConflict | MjpIntegrityFailure | MjpInternalFailure
  | MjpDependencyUnavailable

fun mailbox_job_port_error_message :: "mailbox_job_port_error_class \<Rightarrow> string" where
  "mailbox_job_port_error_message MjpNotFound = ''mailbox job not found''"
| "mailbox_job_port_error_message MjpVersionConflict = ''mailbox job version conflict''"
| "mailbox_job_port_error_message MjpInvalidState = ''mailbox job invalid state''"
| "mailbox_job_port_error_message MjpConflict = ''mailbox job conflict''"
| "mailbox_job_port_error_message MjpIntegrityFailure = ''mailbox job integrity failure''"
| "mailbox_job_port_error_message MjpInternalFailure = ''mailbox job internal failure''"
| "mailbox_job_port_error_message MjpDependencyUnavailable = ''mailbox job dependency unavailable''"

definition classify_job_write_failure :: "string \<Rightarrow> mailbox_job_port_error_class" where
  "classify_job_write_failure message =
     (let contains = (\<lambda>text. contains_text text message) in
      if contains ''mailbox_binding_missing'' \<or> contains ''mailbox_job_missing'' then MjpNotFound
      else if contains ''version_mismatch'' then MjpVersionConflict
      else if contains ''mailbox_binding_revoked'' \<or> contains ''mailbox_binding_not_executable'' \<or> contains ''mailbox_job_not_due''
         \<or> contains ''mailbox_job_attempts_exhausted'' \<or> contains ''mailbox_retry_time_invalid'' then MjpInvalidState
      else if contains ''UNIQUE constraint failed'' then MjpConflict
      else if contains ''CHECK constraint failed'' \<or> contains ''FOREIGN KEY constraint failed'' \<or> contains ''not_governed''
         \<or> contains ''mailbox_cursor_too_long'' \<or> contains ''mailbox_provider_status_invalid'' \<or> contains ''mailbox_run_outcome_invalid''
      then MjpIntegrityFailure
      else if contains ''aggregate version overflow'' \<or> contains ''value exceeds SQLite INTEGER''
         \<or> contains ''idempotency expiry overflow'' \<or> contains ''mailbox_job_version_overflow'' then MjpInternalFailure
      else MjpDependencyUnavailable)"

end
