(* ===== verification/Mailbox_Runs.thy ===== *)
theory Mailbox_Runs
  imports Mailbox_Store
begin

text \<open>
  The mailbox job use cases (\<open>use-cases-mailboxes/src/mailbox_jobs.rs\<close>) over their two ports, and the
  catalogue database as the port (\<open>cloudflare-adapters/src/d1_mailbox_jobs.rs\<close>).  The state \<open>'s\<close> is the
  world behind the ports; the provider is called between reading a job and writing it back, so it may
  change that world, as other requests do while the call is under way.
\<close>

section \<open>Ports\<close>

datatype mailbox_provider_port_error = ProviderFailed provider_failure | ProviderIntegrityFailure

type_synonym 's mailbox_provider_port =
  "mailbox_binding \<Rightarrow> mailbox_job \<Rightarrow> 's \<Rightarrow> (mailbox_provider_port_error + mailbox_observation) \<times> 's"

record 's mailbox_job_port =
  jp_decide_replay :: "actor_context \<Rightarrow> string \<Rightarrow> command_evidence \<Rightarrow> 's
      \<Rightarrow> (mailbox_job_port_error_class + replay_decision) \<times> 's"
  jp_create_job :: "actor_context \<Rightarrow> mailbox_job_create_write \<Rightarrow> 's \<Rightarrow> (mailbox_job_port_error_class + unit) \<times> 's"
  jp_run_job :: "actor_context \<Rightarrow> mailbox_job_run_write \<Rightarrow> 's \<Rightarrow> (mailbox_job_port_error_class + unit) \<times> 's"
  jp_find_binding :: "tenant_scope \<Rightarrow> mailbox_binding_id \<Rightarrow> 's \<Rightarrow> mailbox_job_port_error_class + mailbox_binding option"
  jp_find_job :: "tenant_scope \<Rightarrow> mailbox_binding_id \<Rightarrow> mailbox_job_id \<Rightarrow> 's
      \<Rightarrow> mailbox_job_port_error_class + mailbox_job_read_model option"

section \<open>Commands, outcomes, errors\<close>

definition mailbox_job_create_command :: string where "mailbox_job_create_command = ''mailbox.job_create''"
definition mailbox_job_run_command :: string where "mailbox_job_run_command = ''mailbox.job_run''"
definition mailbox_job_event_payload :: string where "mailbox_job_event_payload = ''{}''"
definition max_job_delay_ms :: u64 where "max_job_delay_ms = 604800000"
definition max_cursor_length :: nat where "max_cursor_length = 512"
definition max_job_attempts :: u32 where "max_job_attempts = 10"
definition retry_base_delay_ms :: u64 where "retry_base_delay_ms = 30000"
definition retry_max_delay_ms :: u64 where "retry_max_delay_ms = 900000"

record execute_create_job =
  xc_binding_id :: mailbox_binding_id
  xc_job_id :: mailbox_job_id
  xc_cursor :: "string option"
  xc_delay_ms :: u64
  xc_max_attempts :: u32
  xc_evidence :: command_evidence

record execute_run_job =
  xr_binding_id :: mailbox_binding_id
  xr_job_id :: mailbox_job_id
  xr_expected_version :: aggregate_version
  xr_evidence :: command_evidence

record mailbox_job_outcome =
  mo_result_code :: string
  mo_resource_id :: string
  mo_aggregate_version :: aggregate_version
  mo_replayed :: bool

record mailbox_job_details =
  md_job_id :: mailbox_job_id
  md_status :: mailbox_job_status
  md_attempt :: u32
  md_max_attempts :: u32
  md_next_run_at :: unix_millis
  md_provider_status :: "string option"
  md_bounded_item_count :: u32
  md_version :: aggregate_version

datatype mailbox_job_operation_error =
    MjoInvalidRequest | MjoNotFound | MjoVersionConflict | MjoInvalidState | MjoConflict | MjoIntegrityFailure
  | MjoInternalFailure | MjoDependencyUnavailable

fun mailbox_job_operation_error_message :: "mailbox_job_operation_error \<Rightarrow> string" where
  "mailbox_job_operation_error_message MjoInvalidRequest = ''mailbox job request is invalid''"
| "mailbox_job_operation_error_message MjoNotFound = ''mailbox job not found''"
| "mailbox_job_operation_error_message MjoVersionConflict = ''mailbox job version conflict''"
| "mailbox_job_operation_error_message MjoInvalidState = ''mailbox job invalid state''"
| "mailbox_job_operation_error_message MjoConflict = ''mailbox job command conflict''"
| "mailbox_job_operation_error_message MjoIntegrityFailure = ''mailbox job integrity failure''"
| "mailbox_job_operation_error_message MjoInternalFailure = ''mailbox job internal failure''"
| "mailbox_job_operation_error_message MjoDependencyUnavailable = ''mailbox job dependency unavailable''"

fun map_job_port_error :: "mailbox_job_port_error_class \<Rightarrow> mailbox_job_operation_error" where
  "map_job_port_error MjpNotFound = MjoNotFound"
| "map_job_port_error MjpVersionConflict = MjoVersionConflict"
| "map_job_port_error MjpInvalidState = MjoInvalidState"
| "map_job_port_error MjpConflict = MjoConflict"
| "map_job_port_error MjpIntegrityFailure = MjoIntegrityFailure"
| "map_job_port_error MjpInternalFailure = MjoInternalFailure"
| "map_job_port_error MjpDependencyUnavailable = MjoDependencyUnavailable"

definition map_mailbox_domain_error :: "mailbox_error \<Rightarrow> mailbox_job_operation_error" where
  "map_mailbox_domain_error e = (if e = MxVersionOverflow then MjoInternalFailure else MjoInvalidState)"

section \<open>Validation\<close>

definition authorize_mailbox_job :: "membership_role \<Rightarrow> mailbox_job_operation_error + unit" where
  "authorize_mailbox_job role = (if role = TenantOwner then Inr () else Inl MjoNotFound)"

definition validate_create_mailbox_job_request ::
    "u64 \<Rightarrow> u32 \<Rightarrow> string option \<Rightarrow> mailbox_job_operation_error + unit" where
  "validate_create_mailbox_job_request delay_ms max_attempts cursor =
     (if max_job_delay_ms < delay_ms \<or> max_attempts = 0 \<or> max_job_attempts < max_attempts
         \<or> (case cursor of Some c \<Rightarrow> max_cursor_length < length c | None \<Rightarrow> False)
      then Inl MjoInvalidRequest else Inr ())"

definition validate_mailbox_job_run_version :: "aggregate_version \<Rightarrow> mailbox_job_operation_error + aggregate_version" where
  "validate_mailbox_job_run_version v = res_map_err (\<lambda>_. MjoInternalFailure) (three_versions_on v)"

section \<open>Replay\<close>

definition create_replay_outcome :: "mailbox_job_id \<Rightarrow> replay_receipt \<Rightarrow> mailbox_job_outcome" where
  "create_replay_outcome job_id receipt =
     \<lparr>mo_result_code = mr_result_code receipt,
      mo_resource_id = (case mr_result_reference receipt of Some r \<Rightarrow> r | None \<Rightarrow> id_as_str job_id),
      mo_aggregate_version = version_initial, mo_replayed = True\<rparr>"

definition run_replay_outcome ::
    "mailbox_job_id \<Rightarrow> aggregate_version \<Rightarrow> replay_receipt \<Rightarrow> mailbox_job_outcome" where
  "run_replay_outcome job_id response_version receipt =
     \<lparr>mo_result_code = mr_result_code receipt,
      mo_resource_id = (case mr_result_reference receipt of Some r \<Rightarrow> r | None \<Rightarrow> id_as_str job_id),
      mo_aggregate_version = response_version, mo_replayed = True\<rparr>"

section \<open>Creating and reading jobs\<close>

definition execute_create_mailbox_job ::
    "'s mailbox_job_port \<Rightarrow> actor_context \<Rightarrow> membership_role \<Rightarrow> execute_create_job \<Rightarrow> 's
     \<Rightarrow> (mailbox_job_operation_error + mailbox_job_outcome) \<times> 's" where
  "execute_create_mailbox_job port actor role c s =
     or_return (authorize_mailbox_job role) s (\<lambda>_.
     or_return (validate_create_mailbox_job_request (xc_delay_ms c) (xc_max_attempts c) (xc_cursor c)) s (\<lambda>_.
     or_return (res_ok_or MjoInternalFailure (checked_add (ev_now (xc_evidence c)) (xc_delay_ms c))) s (\<lambda>scheduled_at.
     let decide = jp_decide_replay port actor mailbox_job_create_command (xc_evidence c);
         replay = (\<lambda>receipt. Inr (create_replay_outcome (xc_job_id c) receipt)) in
     unless_replayed map_job_port_error MjoConflict (decide s) replay (\<lambda>s1.
       settle_write map_job_port_error MjoConflict MjpConflict
         (jp_create_job port actor
            \<lparr>jw_binding_id = xc_binding_id c, jw_job_id = xc_job_id c, jw_cursor = xc_cursor c, jw_scheduled_at = scheduled_at,
             jw_max_attempts = xc_max_attempts c, jw_evidence = xc_evidence c,
             jw_event_payload_json = mailbox_job_event_payload\<rparr> s1)
         decide replay
         \<lparr>mo_result_code = ''created'', mo_resource_id = id_as_str (xc_job_id c), mo_aggregate_version = version_initial,
          mo_replayed = False\<rparr>))))"

definition job_details :: "mailbox_job_read_model \<Rightarrow> mailbox_job_details" where
  "job_details m =
     \<lparr>md_job_id = mxj_job_id (jm_job m), md_status = mxj_status (jm_job m), md_attempt = mxj_attempt (jm_job m),
      md_max_attempts = mxj_max_attempts (jm_job m), md_next_run_at = mxj_next_run_at (jm_job m),
      md_provider_status = jm_provider_status m, md_bounded_item_count = jm_bounded_item_count m,
      md_version = mxj_version (jm_job m)\<rparr>"

definition get_mailbox_job ::
    "'s mailbox_job_port \<Rightarrow> actor_context \<Rightarrow> membership_role \<Rightarrow> mailbox_binding_id \<Rightarrow> mailbox_job_id \<Rightarrow> 's
     \<Rightarrow> mailbox_job_operation_error + mailbox_job_details" where
  "get_mailbox_job port actor role binding_id job_id s =
     res_bind (authorize_mailbox_job role) (\<lambda>_.
     res_bind (res_map_err map_job_port_error (jp_find_job port (actor_tenant_scope actor) binding_id job_id s)) (\<lambda>found.
     res_ok_or MjoNotFound (map_option job_details found)))"

section \<open>Running jobs\<close>

definition bounded_retry_at ::
    "unix_millis \<Rightarrow> u32 \<Rightarrow> unix_millis option \<Rightarrow> mailbox_job_operation_error + unix_millis" where
  "bounded_retry_at now attempt hint =
     (let exponent = min (unat attempt - 1) 5;
          factor = push_bit exponent (1::u64);
          policy_delay = min (case checked_mul retry_base_delay_ms factor of Some d \<Rightarrow> d | None \<Rightarrow> retry_max_delay_ms)
                           retry_max_delay_ms in
      res_bind (res_ok_or MjoInternalFailure (checked_add now policy_delay)) (\<lambda>policy_at.
      res_bind (res_ok_or MjoInternalFailure (checked_add now retry_max_delay_ms)) (\<lambda>max_at.
      Inr (case hint of
             Some h \<Rightarrow> if now < h then min (max h policy_at) max_at else policy_at
           | None \<Rightarrow> policy_at))))"

definition job_result_code :: "mailbox_prepared_run \<Rightarrow> mailbox_job_operation_error + string" where
  "job_result_code p = (case pr_status p of
       MxSucceeded \<Rightarrow> Inr ''succeeded''
     | MxRetryPending \<Rightarrow> Inr ''retry_pending''
     | MxAuthRequired \<Rightarrow> Inr ''auth_required''
     | MxSuspended \<Rightarrow> Inr ''suspended''
     | MxFailed \<Rightarrow> Inr ''failed''
     | MxScheduled \<Rightarrow> Inl MjoIntegrityFailure
     | MxQueued \<Rightarrow> Inl MjoIntegrityFailure
     | MxRunning \<Rightarrow> Inl MjoIntegrityFailure)"

definition apply_provider_failure ::
    "mailbox_job \<Rightarrow> unix_millis \<Rightarrow> provider_failure \<Rightarrow> (mailbox_job_operation_error + mailbox_prepared_run) \<times> mailbox_job" where
  "apply_provider_failure job now failure =
     (let domain = (\<lambda>m k. case m of (Inl e, j) \<Rightarrow> (Inl (map_mailbox_domain_error e), j) | (Inr _, j) \<Rightarrow> k j);
          report = (\<lambda>j. (Inr (prepared_from_job j (provider_failure_storage (pf_class failure)) 0), j)) in
      case failure_class_disposition (pf_class failure) of
        DispRetryable \<Rightarrow>
          if mxj_max_attempts job \<le> mxj_attempt job
          then domain (mailbox_job_fail job) (\<lambda>j. (Inr (prepared_from_job j ''RETRY_EXHAUSTED'' 0), j))
          else or_return (bounded_retry_at now (mxj_attempt job) (pf_retry_at failure)) job (\<lambda>retry_at.
                 domain (mailbox_job_retry now retry_at job) report)
      | DispAuthRequired \<Rightarrow> domain (mailbox_job_require_auth job) report
      | DispSuspended \<Rightarrow> domain (mailbox_job_suspend job) report
      | DispTerminal \<Rightarrow> domain (mailbox_job_fail job) report)"

definition apply_provider_result ::
    "mailbox_binding \<Rightarrow> mailbox_job \<Rightarrow> unix_millis \<Rightarrow> mailbox_provider_port_error + mailbox_observation
     \<Rightarrow> (mailbox_job_operation_error + mailbox_prepared_run) \<times> mailbox_job" where
  "apply_provider_result binding job now provider_result =
     (case provider_result of
        Inr observation \<Rightarrow>
          if obs_binding_id observation \<noteq> mxb_binding_id binding then (Inl MjoIntegrityFailure, job)
          else (case mailbox_job_succeed (obs_next_cursor observation) job of
                  (Inl e, j) \<Rightarrow> (Inl (map_mailbox_domain_error e), j)
                | (Inr _, j) \<Rightarrow> (Inr (prepared_from_job j (obs_provider_status observation) (obs_bounded_item_count observation)), j))
      | Inl (ProviderFailed failure) \<Rightarrow> apply_provider_failure job now failure
      | Inl ProviderIntegrityFailure \<Rightarrow> (Inl MjoIntegrityFailure, job))"

definition prepare_mailbox_run ::
    "mailbox_binding \<Rightarrow> mailbox_job \<Rightarrow> unix_millis \<Rightarrow> 's mailbox_provider_port \<Rightarrow> 's
     \<Rightarrow> (mailbox_job_operation_error + mailbox_prepared_run) \<times> 's" where
  "prepare_mailbox_run binding job now provider s =
     (case mailbox_job_queue now job of
        (Inl e, _) \<Rightarrow> (Inl (map_mailbox_domain_error e), s)
      | (Inr _, queued) \<Rightarrow>
          (case mailbox_job_start binding queued of
             (Inl e, _) \<Rightarrow> (Inl (map_mailbox_domain_error e), s)
           | (Inr _, running) \<Rightarrow>
               (case provider binding running s of
                  (result, s') \<Rightarrow> (fst (apply_provider_result binding running now result), s'))))"

definition run_fresh_mailbox_job ::
    "'s mailbox_job_port \<Rightarrow> 's mailbox_provider_port \<Rightarrow> actor_context \<Rightarrow> execute_run_job \<Rightarrow> aggregate_version \<Rightarrow> 's
     \<Rightarrow> (mailbox_job_operation_error + mailbox_job_outcome) \<times> 's" where
  \<comment> \<open>\<open>execute_run_mailbox_job\<close> from the first replay decision on, when that is a miss\<close>
  "run_fresh_mailbox_job port provider actor c response_version s =
     or_return (res_map_err map_job_port_error (jp_find_binding port (actor_tenant_scope actor) (xr_binding_id c) s)) s (\<lambda>found.
     or_return (res_ok_or MjoNotFound found) s (\<lambda>binding.
     or_return (res_map_err map_job_port_error
                 (jp_find_job port (actor_tenant_scope actor) (xr_binding_id c) (xr_job_id c) s)) s (\<lambda>found_job.
     or_return (res_ok_or MjoNotFound found_job) s (\<lambda>job.
     if mxj_version (jm_job job) \<noteq> xr_expected_version c then (Inl MjoVersionConflict, s)
     else (case prepare_mailbox_run binding (jm_job job) (ev_now (xr_evidence c)) provider s of
       (Inl e, s2) \<Rightarrow> (Inl e, s2)
     | (Inr prepared, s2) \<Rightarrow>
         if pr_version prepared \<noteq> response_version then (Inl MjoIntegrityFailure, s2)
         else or_return (job_result_code prepared) s2 (\<lambda>result_code.
           settle_write map_job_port_error MjoConflict MjpConflict
             (jp_run_job port actor
                \<lparr>rw_binding_id = xr_binding_id c, rw_job_id = xr_job_id c, rw_expected_version = xr_expected_version c,
                 rw_prepared = prepared, rw_evidence = xr_evidence c, rw_event_payload_json = mailbox_job_event_payload\<rparr> s2)
             (jp_decide_replay port actor mailbox_job_run_command (xr_evidence c))
             (\<lambda>receipt. Inr (run_replay_outcome (xr_job_id c) response_version receipt))
             \<lparr>mo_result_code = result_code, mo_resource_id = id_as_str (xr_job_id c),
              mo_aggregate_version = response_version, mo_replayed = False\<rparr>))))))"

definition execute_run_mailbox_job ::
    "'s mailbox_job_port \<Rightarrow> 's mailbox_provider_port \<Rightarrow> actor_context \<Rightarrow> membership_role \<Rightarrow> execute_run_job \<Rightarrow> 's
     \<Rightarrow> (mailbox_job_operation_error + mailbox_job_outcome) \<times> 's" where
  "execute_run_mailbox_job port provider actor role c s =
     or_return (authorize_mailbox_job role) s (\<lambda>_.
     or_return (validate_mailbox_job_run_version (xr_expected_version c)) s (\<lambda>response_version.
     unless_replayed map_job_port_error MjoConflict (jp_decide_replay port actor mailbox_job_run_command (xr_evidence c) s)
       (\<lambda>receipt. Inr (run_replay_outcome (xr_job_id c) response_version receipt))
       (run_fresh_mailbox_job port provider actor c response_version)))"

section \<open>The catalogue database as the port\<close>

definition d1_job_port :: "mailbox_db mailbox_job_port" where
  "d1_job_port =
     \<lparr>jp_decide_replay = d1_decide_replay MjpDependencyUnavailable,
      jp_create_job = (\<lambda>actor w db. case d1_create_job actor w db of (r, db') \<Rightarrow> (res_map_err classify_job_write_failure r, db')),
      jp_run_job = (\<lambda>actor w db. case d1_run_job actor w db of (r, db') \<Rightarrow> (res_map_err classify_job_write_failure r, db')),
      jp_find_binding = (\<lambda>scope b db. res_map_err (\<lambda>_. MjpDependencyUnavailable) (d1_find_binding scope b db)),
      jp_find_job = (\<lambda>scope b j db. res_map_err (\<lambda>_. MjpDependencyUnavailable) (d1_find_job scope b j db))\<rparr>"

end
