(* ===== verification/Mailbox_Run_Laws.thy ===== *)
theory Mailbox_Run_Laws
  imports Mailbox_Runs
begin

text \<open>
  What the mailbox use cases rely on in their store, as a locale: a refused write changes nothing, and a
  committed write is answered with its receipt by every later decision on the same key until the receipt
  expires.  The catalogue database provides it.  Then the refinement: the row a run leaves behind is the
  job that the domain methods compute.
\<close>

section \<open>The contract of the store\<close>

definition run_receipt :: "mailbox_job_run_write \<Rightarrow> replay_receipt" where
  "run_receipt w =
     \<lparr>mr_result_code = (case job_result_code (rw_prepared w) of Inr code \<Rightarrow> code | Inl _ \<Rightarrow> []),
      mr_result_reference = Some (id_as_str (rw_job_id w))\<rparr>"

definition create_receipt :: "mailbox_job_create_write \<Rightarrow> replay_receipt" where
  "create_receipt w = \<lparr>mr_result_code = ''created'', mr_result_reference = Some (id_as_str (jw_job_id w))\<rparr>"

locale mailbox_job_store =
  runs: governed_write "jp_decide_replay port" later "jp_run_job port" rw_evidence mailbox_job_run_command run_receipt
  + creates: governed_write "jp_decide_replay port" later "jp_create_job port" jw_evidence mailbox_job_create_command create_receipt
  for port :: "'s mailbox_job_port" and later :: "'s \<Rightarrow> 's \<Rightarrow> bool"

section \<open>A run that is no replay\<close>

lemma replay_outcomes_replayed [simp]:
  "mo_replayed (run_replay_outcome j v r)" "mo_replayed (create_replay_outcome j r)"
  by (simp_all add: run_replay_outcome_def create_replay_outcome_def)

lemma prepare_mailbox_runE:
  assumes "prepare_mailbox_run b j now provider s = (Inr p, s2)"
  obtains queued running result job where "mailbox_job_queue now j = (Inr (), queued)"
    "mailbox_job_start b queued = (Inr (), running)" "provider b running s = (result, s2)"
    "apply_provider_result b running now result = (Inr p, job)"
proof -
  obtain rq queued where q: "mailbox_job_queue now j = (rq, queued)" by (cases "mailbox_job_queue now j")
  obtain rs running where st: "mailbox_job_start b queued = (rs, running)" by (cases "mailbox_job_start b queued")
  obtain result s' where pr: "provider b running s = (result, s')" by (cases "provider b running s")
  obtain ra job where ap: "apply_provider_result b running now result = (ra, job)" by (cases "apply_provider_result b running now result")
  have 1: "rq = Inr ()" using assms q by (cases rq) (simp_all add: prepare_mailbox_run_def)
  have 2: "rs = Inr ()" using assms q st 1 by (cases rs) (simp_all add: prepare_mailbox_run_def)
  have "ra = Inr p \<and> s' = s2" using assms q st 1 2 pr ap by (simp add: prepare_mailbox_run_def)
  then show ?thesis using that q st pr ap 1 2 by blast
qed

lemma execute_run_freshE:
  assumes "execute_run_mailbox_job port provider actor role c s = (Inr out, s')" "\<not> mo_replayed out"
  obtains v s1 binding job prepared s2 code where "role = TenantOwner"
    "validate_mailbox_job_run_version (xr_expected_version c) = Inr v"
    "jp_decide_replay port actor mailbox_job_run_command (xr_evidence c) s = (Inr ReplayMiss, s1)"
    "jp_find_binding port (actor_tenant_scope actor) (xr_binding_id c) s1 = Inr (Some binding)"
    "jp_find_job port (actor_tenant_scope actor) (xr_binding_id c) (xr_job_id c) s1 = Inr (Some job)"
    "mxj_version (jm_job job) = xr_expected_version c"
    "prepare_mailbox_run binding (jm_job job) (ev_now (xr_evidence c)) provider s1 = (Inr prepared, s2)"
    "pr_version prepared = v" "job_result_code prepared = Inr code"
    "jp_run_job port actor
        \<lparr>rw_binding_id = xr_binding_id c, rw_job_id = xr_job_id c, rw_expected_version = xr_expected_version c,
         rw_prepared = prepared, rw_evidence = xr_evidence c, rw_event_payload_json = mailbox_job_event_payload\<rparr> s2 = (Inr (), s')"
    "out = \<lparr>mo_result_code = code, mo_resource_id = id_as_str (xr_job_id c), mo_aggregate_version = v, mo_replayed = False\<rparr>"
proof -
  obtain v where role: "role = TenantOwner" and v: "validate_mailbox_job_run_version (xr_expected_version c) = Inr v"
    and ur: "unless_replayed map_job_port_error MjoConflict (jp_decide_replay port actor mailbox_job_run_command (xr_evidence c) s)
      (\<lambda>r. Inr (run_replay_outcome (xr_job_id c) v r))
      (run_fresh_mailbox_job port provider actor c v) = (Inr out, s')"
    using assms(1) by (auto simp: execute_run_mailbox_job_def or_return_Inr_iff authorize_mailbox_job_def split: if_splits)
  from ur obtain s1 where
    miss: "jp_decide_replay port actor mailbox_job_run_command (xr_evidence c) s = (Inr ReplayMiss, s1)"
    and go: "run_fresh_mailbox_job port provider actor c v s1 = (Inr out, s')"
    by (rule unless_replayed_fresh [where replayed = mo_replayed, OF _ assms(2)]) auto
  from go obtain binding job prepared s2 code where
    found: "jp_find_binding port (actor_tenant_scope actor) (xr_binding_id c) s1 = Inr (Some binding)"
      "jp_find_job port (actor_tenant_scope actor) (xr_binding_id c) (xr_job_id c) s1 = Inr (Some job)"
      "mxj_version (jm_job job) = xr_expected_version c"
    and prep: "prepare_mailbox_run binding (jm_job job) (ev_now (xr_evidence c)) provider s1 = (Inr prepared, s2)"
      "pr_version prepared = v" "job_result_code prepared = Inr code"
    and w: "settle_write map_job_port_error MjoConflict MjpConflict (jp_run_job port actor
                \<lparr>rw_binding_id = xr_binding_id c, rw_job_id = xr_job_id c, rw_expected_version = xr_expected_version c,
                 rw_prepared = prepared, rw_evidence = xr_evidence c, rw_event_payload_json = mailbox_job_event_payload\<rparr> s2)
             (jp_decide_replay port actor mailbox_job_run_command (xr_evidence c)) (\<lambda>r. Inr (run_replay_outcome (xr_job_id c) v r))
             \<lparr>mo_result_code = code, mo_resource_id = id_as_str (xr_job_id c),
              mo_aggregate_version = v, mo_replayed = False\<rparr> = (Inr out, s')"
    by (auto simp: run_fresh_mailbox_job_def or_return_Inr_iff split: if_splits prod.splits sum.splits)
  note wr = settle_write_fresh [where replayed = mo_replayed, OF w assms(2)]
  show ?thesis using wr that [OF role v miss found prep(1) _ prep(3)] prep(2) by auto
qed

context mailbox_job_store begin

lemma run_again:
  assumes first: "execute_run_mailbox_job port provider actor role c s = (Inr out, s1)" "\<not> mo_replayed out"
    and "later s1 s2" "same_caller actor actor'" "replayable (xr_evidence c) (xr_evidence c')"
    and c': "xr_job_id c' = xr_job_id c" "xr_expected_version c' = xr_expected_version c"
  shows "execute_run_mailbox_job port provider' actor' TenantOwner c' s2 = (Inr (out\<lparr>mo_replayed := True\<rparr>), s2)"
  using first
proof (cases rule: execute_run_freshE)
  case (1 v t1 binding job prepared t2 code)
  have "unless_replayed map_job_port_error MjoConflict (jp_decide_replay port actor' mailbox_job_run_command (xr_evidence c') s2)
      (\<lambda>r. Inr (run_replay_outcome (xr_job_id c') v r)) (run_fresh_mailbox_job port provider' actor' c' v)
    = (Inr (out\<lparr>mo_replayed := True\<rparr>), s2)"
    using assms(5) 1(9,11) c'
    by (subst runs.answered_from_receipt [OF 1(10) assms(3,4)]) (simp_all add: run_receipt_def run_replay_outcome_def)
  then show ?thesis
    using 1 c' by (simp add: execute_run_mailbox_job_def authorize_mailbox_job_def)
qed

lemma create_again:
  assumes first: "execute_create_mailbox_job port actor role c s = (Inr out, s1)" "\<not> mo_replayed out"
    and "later s1 s2" "same_caller actor actor'" "replayable (xc_evidence c) (xc_evidence c')" "xc_job_id c' = xc_job_id c"
    and valid: "validate_create_mailbox_job_request (xc_delay_ms c') (xc_max_attempts c') (xc_cursor c') = Inr ()"
      "checked_add (ev_now (xc_evidence c')) (xc_delay_ms c') = Some at"
  shows "execute_create_mailbox_job port actor' TenantOwner c' s2 = (Inr (out\<lparr>mo_replayed := True\<rparr>), s2)"
proof -
  let ?replay = "\<lambda>r. Inr (create_replay_outcome (xc_job_id c) r) :: mailbox_job_operation_error + mailbox_job_outcome"
  let ?decide = "jp_decide_replay port actor mailbox_job_create_command (xc_evidence c)"
  obtain sched where
    ur: "unless_replayed map_job_port_error MjoConflict (?decide s) ?replay (\<lambda>s1.
       settle_write map_job_port_error MjoConflict MjpConflict
         (jp_create_job port actor
            \<lparr>jw_binding_id = xc_binding_id c, jw_job_id = xc_job_id c, jw_cursor = xc_cursor c, jw_scheduled_at = sched,
             jw_max_attempts = xc_max_attempts c, jw_evidence = xc_evidence c,
             jw_event_payload_json = mailbox_job_event_payload\<rparr> s1) ?decide ?replay
         \<lparr>mo_result_code = ''created'', mo_resource_id = id_as_str (xc_job_id c), mo_aggregate_version = version_initial,
          mo_replayed = False\<rparr>) = (Inr out, s1)"
    using first(1) by (auto simp: execute_create_mailbox_job_def or_return_Inr_iff Let_def)
  from ur obtain t where w: "settle_write map_job_port_error MjoConflict MjpConflict
         (jp_create_job port actor
            \<lparr>jw_binding_id = xc_binding_id c, jw_job_id = xc_job_id c, jw_cursor = xc_cursor c, jw_scheduled_at = sched,
             jw_max_attempts = xc_max_attempts c, jw_evidence = xc_evidence c,
             jw_event_payload_json = mailbox_job_event_payload\<rparr> t) ?decide ?replay
         \<lparr>mo_result_code = ''created'', mo_resource_id = id_as_str (xc_job_id c), mo_aggregate_version = version_initial,
          mo_replayed = False\<rparr> = (Inr out, s1)"
    by (rule unless_replayed_fresh [where replayed = mo_replayed, OF _ first(2)]) auto
  have put: "jp_create_job port actor
            \<lparr>jw_binding_id = xc_binding_id c, jw_job_id = xc_job_id c, jw_cursor = xc_cursor c, jw_scheduled_at = sched,
             jw_max_attempts = xc_max_attempts c, jw_evidence = xc_evidence c,
             jw_event_payload_json = mailbox_job_event_payload\<rparr> t = (Inr (), s1)
     \<and> out = \<lparr>mo_result_code = ''created'', mo_resource_id = id_as_str (xc_job_id c), mo_aggregate_version = version_initial,
          mo_replayed = False\<rparr>"
    by (rule settle_write_fresh [where replayed = mo_replayed, OF w first(2)]) auto
  have "unless_replayed map_job_port_error MjoConflict (jp_decide_replay port actor' mailbox_job_create_command (xc_evidence c') s2)
      (\<lambda>r. Inr (create_replay_outcome (xc_job_id c') r)) proceed = (Inr (out\<lparr>mo_replayed := True\<rparr>), s2)" for proceed
    using assms(5,6) put
    by (subst creates.answered_from_receipt [OF conjunct1 [OF put] assms(3,4)])
      (auto simp: create_receipt_def create_replay_outcome_def)
  then show ?thesis using valid by (simp add: execute_create_mailbox_job_def authorize_mailbox_job_def Let_def)
qed

end

end
