(* ===== verification/Mailbox_Run_Refinement.thy ===== *)
theory Mailbox_Run_Refinement
  imports Mailbox_Run_Laws
begin

text \<open>
  The catalogue database provides the contract of \<^theory_text>\<open>mailbox_job_store\<close>, and the row a run leaves
  behind reads back as the job that the domain methods compute from the row it started from.
\<close>

section \<open>Committed insertions\<close>

definition jobs_later ::
    "(string \<times> string \<times> string \<Rightarrow> mailbox_job_row option) \<Rightarrow> (string \<times> string \<times> string \<Rightarrow> mailbox_job_row option) \<Rightarrow> bool" where
  \<comment> \<open>rows stay, their versions never fall, and a row of the same version is the same row\<close>
  "jobs_later J J' \<longleftrightarrow> (\<forall>k r. J k = Some r \<longrightarrow>
     (\<exists>r'. J' k = Some r' \<and> jr_version r \<le> jr_version r' \<and> (jr_version r = jr_version r' \<longrightarrow> r' = r)))"

definition db_later :: "mailbox_db \<Rightarrow> mailbox_db \<Rightarrow> bool" where
  "db_later db db' \<longleftrightarrow> idempotency_kept (es_idempotency db) (es_idempotency db') \<and> jobs_later (md_jobs db) (md_jobs db')"

lemma jobs_later_refl [simp]: "jobs_later J J"
  by (simp add: jobs_later_def)

lemma jobs_later_trans:
  assumes "jobs_later J K" "jobs_later K L" shows "jobs_later J L"
  unfolding jobs_later_def
proof (intro allI impI)
  fix k r assume "J k = Some r"
  with assms(1) obtain r' where r': "K k = Some r'" "jr_version r \<le> jr_version r'" "jr_version r = jr_version r' \<longrightarrow> r' = r"
    unfolding jobs_later_def by blast
  with assms(2) obtain q where q: "L k = Some q" "jr_version r' \<le> jr_version q" "jr_version r' = jr_version q \<longrightarrow> q = r'"
    unfolding jobs_later_def by blast
  have "jr_version r = jr_version q \<longrightarrow> q = r"
  proof
    assume "jr_version r = jr_version q"
    then have "jr_version r = jr_version r'" "jr_version r' = jr_version q" using r'(2) q(2) by linarith+
    then show "q = r" using r'(3) q(3) by simp
  qed
  then show "\<exists>r'. L k = Some r' \<and> jr_version r \<le> jr_version r' \<and> (jr_version r = jr_version r' \<longrightarrow> r' = r)"
    using r'(2) q(1,2) by auto
qed

lemma jobs_later_new: "J k = None \<Longrightarrow> jobs_later J (J(k \<mapsto> r))"
  by (auto simp: jobs_later_def)

lemma jobs_later_update: "J k = Some r \<Longrightarrow> jr_version r < jr_version r' \<Longrightarrow> jobs_later J (J(k \<mapsto> r'))"
  by (auto simp: jobs_later_def)

lemma insert_job_runE:
  assumes "insert_job_run c db = Inr d"
  obtains b j where "active_owner_row db (jx_tenant c) (jx_actor c)" "md_bindings db (jx_tenant c, jx_binding_id c) = Some b"
    "br_status b = ''ACTIVE''" "br_execution_status b = ''ACTIVE''"
    "md_jobs db (jx_tenant c, jx_binding_id c, jx_job_id c) = Some j" "job_run_refusal c b j = None" "binding_update_refusal c b = None"
    "(jx_tenant c, jx_command_id c) \<notin> md_job_run_ids db"
    "d = db\<lparr>md_job_run_ids := insert (jx_tenant c, jx_command_id c) (md_job_run_ids db),
            md_jobs := (md_jobs db)((jx_tenant c, jx_binding_id c, jx_job_id c) \<mapsto> job_run_applied c j),
            md_bindings := (md_bindings db)((jx_tenant c, jx_binding_id c) \<mapsto> binding_run_applied c b)\<rparr>"
  using assms by (simp add: insert_job_run_def split: if_splits option.splits)

lemma insert_job_createE:
  assumes "insert_job_create c db = Inr d"
  obtains b where "active_owner_row db (jc_tenant c) (jc_actor c)" "md_bindings db (jc_tenant c, jc_binding_id c) = Some b"
    "br_status b = ''ACTIVE''" "md_jobs db (jc_tenant c, jc_binding_id c, jc_job_id c) = None"
    "1 \<le> jc_max_attempts c" "jc_max_attempts c \<le> 10" "jc_executed_at c \<le> jc_scheduled_at c"
    "d = db\<lparr>md_job_create_ids := insert (jc_tenant c, jc_command_id c) (md_job_create_ids db),
            md_jobs := (md_jobs db)((jc_tenant c, jc_binding_id c, jc_job_id c) \<mapsto>
                   \<lparr>jr_job_id = jc_job_id c, jr_cursor = jc_cursor c, jr_lifecycle_status = ''SCHEDULED'', jr_attempt = 0,
                    jr_max_attempts = jc_max_attempts c, jr_next_run_at_ms = jc_scheduled_at c, jr_provider_status = None,
                    jr_bounded_item_count = 0, jr_version = 1, jr_updated_at_ms = jc_executed_at c\<rparr>)\<rparr>"
  using assms by (simp add: insert_job_create_def not_less not_le split: if_splits option.splits)

lemma res_opt_sqlite_Inr: "res_opt sqlite_integer t = Inr i \<longleftrightarrow> (\<forall>v. t = Some v \<longrightarrow> unat v < 2 ^ 63) \<and> i = map_option uint t"
  by (cases t) (auto simp: res_bind_Inr_iff sqlite_integer_Inr)

definition job_run_command_of ::
    "actor_context \<Rightarrow> mailbox_job_run_write \<Rightarrow> job_run_command" where
  "job_run_command_of actor w =
     (let p = rw_prepared w; tenant = scope_tenant_id (actor_tenant_scope actor) in
      \<lparr>jx_tenant = id_as_str tenant, jx_command_id = command_journal_id tenant (actor_actor_id actor) (ev_idempotency_key (rw_evidence w)),
       jx_actor = id_as_str (actor_actor_id actor), jx_binding_id = id_as_str (rw_binding_id w), jx_job_id = id_as_str (rw_job_id w),
       jx_expected_version = uint (version_value (rw_expected_version w)), jx_outcome_status = mailbox_job_status_storage (pr_status p),
       jx_next_cursor = pr_cursor p, jx_provider_status = pr_provider_status p,
       jx_bounded_item_count = uint (pr_bounded_item_count p), jx_retry_at_ms = map_option uint (pr_retry_at p),
       jx_executed_at = uint (ev_now (rw_evidence w))\<rparr>)"

lemma d1_run_jobE:
  assumes "d1_run_job actor w db = (Inr u, db')"
  obtains code event d where "validate_provider_status (pr_provider_status (rw_prepared w)) = Inr ()"
    "validate_cursor (pr_cursor (rw_prepared w)) = Inr ()"
    "three_versions_on (rw_expected_version w) = Inr (pr_version (rw_prepared w))"
    "run_result_code (pr_status (rw_prepared w)) = Some (code, event)"
    "unat (ev_idempotency_expires_at (rw_evidence w)) < 2 ^ 63"
    "insert_job_run (job_run_command_of actor w) db = Inr d"
    "es_idempotency d (idempotency_key_of actor (envelope_of (rw_evidence w) (rw_event_payload_json w))) = None"
    "db' = record_evidence actor (envelope_of (rw_evidence w) (rw_event_payload_json w))
        (job_evidence (rw_job_id w) ''mailbox.job_run'' code (uint (version_value (pr_version (rw_prepared w)))) event)
        (uint (ev_now (rw_evidence w))) (uint (ev_idempotency_expires_at (rw_evidence w))) d"
proof -
  obtain v code event now ex retry expected agg where
    1: "validate_provider_status (pr_provider_status (rw_prepared w)) = Inr ()" "validate_cursor (pr_cursor (rw_prepared w)) = Inr ()"
      "three_versions_on (rw_expected_version w) = Inr v" "v = pr_version (rw_prepared w)"
      "run_result_code (pr_status (rw_prepared w)) = Some (code, event)"
      "sqlite_integer (ev_now (rw_evidence w)) = Inr now" "sqlite_integer (ev_idempotency_expires_at (rw_evidence w)) = Inr ex"
      "res_opt sqlite_integer (pr_retry_at (rw_prepared w)) = Inr retry" "sqlite_version (rw_expected_version w) = Inr expected"
      "sqlite_version v = Inr agg"
    and gb: "governed_batch actor (envelope_of (rw_evidence w) (rw_event_payload_json w))
        (insert_job_run \<lparr>jx_tenant = id_as_str (scope_tenant_id (actor_tenant_scope actor)),
           jx_command_id = command_journal_id (scope_tenant_id (actor_tenant_scope actor)) (actor_actor_id actor) (ev_idempotency_key (rw_evidence w)),
           jx_actor = id_as_str (actor_actor_id actor), jx_binding_id = id_as_str (rw_binding_id w), jx_job_id = id_as_str (rw_job_id w),
           jx_expected_version = expected, jx_outcome_status = mailbox_job_status_storage (pr_status (rw_prepared w)),
           jx_next_cursor = pr_cursor (rw_prepared w), jx_provider_status = pr_provider_status (rw_prepared w),
           jx_bounded_item_count = uint (pr_bounded_item_count (rw_prepared w)), jx_retry_at_ms = retry, jx_executed_at = now\<rparr>)
        (job_evidence (rw_job_id w) ''mailbox.job_run'' code agg event) now ex db = (Inr u, db')"
    using assms by (auto simp: d1_run_job_def Let_def or_return_Inr_iff split: if_splits)
  note i = 1(6)[unfolded sqlite_integer_Inr] 1(7)[unfolded sqlite_integer_Inr] 1(8)[unfolded res_opt_sqlite_Inr]
    1(9)[unfolded sqlite_version_Inr] 1(10)[unfolded sqlite_version_Inr]
  from gb i obtain d where "insert_job_run (job_run_command_of actor w) db = Inr d"
    "es_idempotency d (idempotency_key_of actor (envelope_of (rw_evidence w) (rw_event_payload_json w))) = None"
    "db' = record_evidence actor (envelope_of (rw_evidence w) (rw_event_payload_json w))
        (job_evidence (rw_job_id w) ''mailbox.job_run'' code (uint (version_value (pr_version (rw_prepared w)))) event)
        (uint (ev_now (rw_evidence w))) (uint (ev_idempotency_expires_at (rw_evidence w))) d"
    unfolding governed_batch_Inr by (auto simp: job_run_command_of_def Let_def 1(4))
  then show ?thesis using that 1 i by blast
qed

lemma job_run_refusal_version: "job_run_refusal c b j = None \<Longrightarrow> jr_version j = jx_expected_version c"
  by (simp add: job_run_refusal_def split: if_splits)

lemma d1_run_job_later:
  assumes "d1_run_job actor w db = (Inr u, db')" shows "db_later db db'"
  using assms
proof (cases rule: d1_run_jobE)
  case (1 code event d)
  from 1(6) show ?thesis
  proof (cases rule: insert_job_runE)
    case (1 b j)
    then have "jobs_later (md_jobs db) (md_jobs d)"
      by (simp add: jobs_later_update job_run_applied_def)
    moreover have "es_idempotency d = es_idempotency db" using 1 by simp
    ultimately show ?thesis using \<open>es_idempotency d _ = None\<close> \<open>db' = _\<close>
      by (simp add: db_later_def kept_insert record_evidence_def)
  qed
qed

definition job_create_command_of :: "actor_context \<Rightarrow> mailbox_job_create_write \<Rightarrow> job_create_command" where
  "job_create_command_of actor w =
     (let tenant = scope_tenant_id (actor_tenant_scope actor) in
      \<lparr>jc_tenant = id_as_str tenant, jc_command_id = command_journal_id tenant (actor_actor_id actor) (ev_idempotency_key (jw_evidence w)),
       jc_actor = id_as_str (actor_actor_id actor), jc_binding_id = id_as_str (jw_binding_id w), jc_job_id = id_as_str (jw_job_id w),
       jc_cursor = jw_cursor w, jc_scheduled_at = uint (jw_scheduled_at w), jc_max_attempts = uint (jw_max_attempts w),
       jc_executed_at = uint (ev_now (jw_evidence w))\<rparr>)"

lemma d1_create_jobE:
  assumes "d1_create_job actor w db = (Inr u, db')"
  obtains d where "validate_cursor (jw_cursor w) = Inr ()" "insert_job_create (job_create_command_of actor w) db = Inr d"
    "unat (ev_idempotency_expires_at (jw_evidence w)) < 2 ^ 63"
    "es_idempotency d (idempotency_key_of actor (envelope_of (jw_evidence w) (jw_event_payload_json w))) = None"
    "db' = record_evidence actor (envelope_of (jw_evidence w) (jw_event_payload_json w))
        (job_evidence (jw_job_id w) ''mailbox.job_create'' ''created'' 1 ''mailbox.job_created.v1'')
        (uint (ev_now (jw_evidence w))) (uint (ev_idempotency_expires_at (jw_evidence w))) d"
proof -
  obtain now ex sched where
    1: "validate_cursor (jw_cursor w) = Inr ()" "sqlite_integer (ev_now (jw_evidence w)) = Inr now"
      "sqlite_integer (ev_idempotency_expires_at (jw_evidence w)) = Inr ex" "sqlite_integer (jw_scheduled_at w) = Inr sched"
    and gb: "governed_batch actor (envelope_of (jw_evidence w) (jw_event_payload_json w))
        (insert_job_create \<lparr>jc_tenant = id_as_str (scope_tenant_id (actor_tenant_scope actor)),
           jc_command_id = command_journal_id (scope_tenant_id (actor_tenant_scope actor)) (actor_actor_id actor) (ev_idempotency_key (jw_evidence w)),
           jc_actor = id_as_str (actor_actor_id actor), jc_binding_id = id_as_str (jw_binding_id w), jc_job_id = id_as_str (jw_job_id w),
           jc_cursor = jw_cursor w, jc_scheduled_at = sched, jc_max_attempts = uint (jw_max_attempts w), jc_executed_at = now\<rparr>)
        (job_evidence (jw_job_id w) ''mailbox.job_create'' ''created'' 1 ''mailbox.job_created.v1'') now ex db = (Inr u, db')"
    using assms by (auto simp: d1_create_job_def Let_def or_return_Inr_iff split: if_splits)
  note i = 1(2)[unfolded sqlite_integer_Inr] 1(3)[unfolded sqlite_integer_Inr] 1(4)[unfolded sqlite_integer_Inr]
  from gb i obtain d where "insert_job_create (job_create_command_of actor w) db = Inr d"
    "es_idempotency d (idempotency_key_of actor (envelope_of (jw_evidence w) (jw_event_payload_json w))) = None"
    "db' = record_evidence actor (envelope_of (jw_evidence w) (jw_event_payload_json w))
        (job_evidence (jw_job_id w) ''mailbox.job_create'' ''created'' 1 ''mailbox.job_created.v1'')
        (uint (ev_now (jw_evidence w))) (uint (ev_idempotency_expires_at (jw_evidence w))) d"
    unfolding governed_batch_Inr by (auto simp: job_create_command_of_def Let_def)
  then show ?thesis using that 1 i by blast
qed

lemma d1_create_job_later:
  assumes "d1_create_job actor w db = (Inr u, db')" shows "db_later db db'"
  using assms
proof (cases rule: d1_create_jobE)
  case (1 d)
  from 1(2) show ?thesis
  proof (cases rule: insert_job_createE)
    case (1 b)
    then have "jobs_later (md_jobs db) (md_jobs d)" by (simp add: jobs_later_new)
    moreover have "es_idempotency d = es_idempotency db" using 1 by simp
    ultimately show ?thesis using \<open>es_idempotency d _ = None\<close> \<open>db' = _\<close>
      by (simp add: db_later_def kept_insert record_evidence_def)
  qed
qed

lemma d1_run_job_refused: "d1_run_job actor w db = (Inl m, db') \<Longrightarrow> db' = db"
  by (auto simp: d1_run_job_def Let_def or_return_Inl_iff governed_batch_Inl split: if_splits prod.splits)

lemma d1_create_job_refused: "d1_create_job actor w db = (Inl m, db') \<Longrightarrow> db' = db"
  by (auto simp: d1_create_job_def Let_def or_return_Inl_iff governed_batch_Inl split: if_splits)

section \<open>Receipts\<close>

lemma run_port_cases:
  "jp_run_job d1_job_port a w s = (r, s') \<longleftrightarrow> (\<exists>r0. d1_run_job a w s = (r0, s') \<and> res_map_err classify_job_write_failure r0 = r)"
  by (auto simp: d1_job_port_def split: prod.splits)

lemma create_port_cases:
  "jp_create_job d1_job_port a w s = (r, s') \<longleftrightarrow> (\<exists>r0. d1_create_job a w s = (r0, s') \<and> res_map_err classify_job_write_failure r0 = r)"
  by (auto simp: d1_job_port_def split: prod.splits)

lemma port_decides [simp]: "jp_decide_replay d1_job_port = d1_decide_replay MjpDependencyUnavailable"
  by (simp add: d1_job_port_def)

lemma db_later_refl: "db_later s s"
  by (simp add: db_later_def)

lemma db_later_trans: "db_later s t \<Longrightarrow> db_later t u \<Longrightarrow> db_later s u"
  unfolding db_later_def by (blast intro: kept_trans jobs_later_trans)

lemma d1_decide_frame:
  "d1_decide_replay x a n e db = (r, db') \<Longrightarrow> db_later db db' \<and> md_jobs db' = md_jobs db \<and> md_bindings db' = md_bindings db"
  using d1_decide_kept [of x a n e db r db'] by (auto simp: db_later_def)

interpretation d1_store: governed_store "d1_decide_replay unavailable" db_later
  by unfold_locales (auto intro: db_later_refl db_later_trans dest: d1_decide_frame)

lemma run_result_code_iff: "job_result_code p = Inr code \<longleftrightarrow> (\<exists>ev. run_result_code (pr_status p) = Some (code, ev))"
  by (cases "pr_status p") (auto simp: job_result_code_def run_result_code_def)

lemma d1_run_job_commits:
  assumes "d1_run_job actor w db = (Inr u, db')"
  shows "commits_receipt actor (rw_evidence w) mailbox_job_run_command (run_receipt w) (es_idempotency db) (es_idempotency db')"
  using assms
proof (cases rule: d1_run_jobE)
  case (1 code event d)
  have "es_idempotency d = es_idempotency db" using 1(6) by (cases rule: insert_job_runE) simp
  moreover have "job_result_code (rw_prepared w) = Inr code" using 1(4) by (simp add: run_result_code_iff)
  ultimately show ?thesis
    using record_commits [of d "es_idempotency db" actor "rw_evidence w" "rw_event_payload_json w"
        "job_evidence (rw_job_id w) ''mailbox.job_run'' code (uint (version_value (pr_version (rw_prepared w)))) event"] 1(5,7,8)
    by (simp add: job_evidence_def run_receipt_def mailbox_job_run_command_def)
qed

lemma d1_create_job_commits:
  assumes "d1_create_job actor w db = (Inr u, db')"
  shows "commits_receipt actor (jw_evidence w) mailbox_job_create_command (create_receipt w) (es_idempotency db) (es_idempotency db')"
  using assms
proof (cases rule: d1_create_jobE)
  case (1 d)
  have "es_idempotency d = es_idempotency db" using 1(2) by (cases rule: insert_job_createE) simp
  then show ?thesis
    using record_commits [of d "es_idempotency db" actor "jw_evidence w" "jw_event_payload_json w"
        "job_evidence (jw_job_id w) ''mailbox.job_create'' ''created'' 1 ''mailbox.job_created.v1''"] 1(3,4,5)
    by (simp add: job_evidence_def create_receipt_def mailbox_job_create_command_def)
qed

interpretation d1_jobs: mailbox_job_store d1_job_port db_later
proof (unfold_locales, unfold port_decides)
  fix a a' n e s s' s1 s2 d w cw x t u
  show "db_later s s" by (rule db_later_refl)
  show "db_later s t \<Longrightarrow> db_later t u \<Longrightarrow> db_later s u" by (rule db_later_trans)
  show "d1_decide_replay MjpDependencyUnavailable a n e s = (d, s') \<Longrightarrow> db_later s s'" by (simp add: d1_decide_frame)
  show "s' = s" if "jp_run_job d1_job_port a w s = (Inl x, s')"
    using that by (auto simp: run_port_cases res_map_err_Inl_iff dest: d1_run_job_refused)
  show "s' = s" if "jp_create_job d1_job_port a cw s = (Inl x, s')"
    using that by (auto simp: create_port_cases res_map_err_Inl_iff dest: d1_create_job_refused)
  show "db_later s s'" if "jp_run_job d1_job_port a w s = (Inr (), s')"
    using that by (auto simp: run_port_cases dest: d1_run_job_later)
  show "db_later s s'" if "jp_create_job d1_job_port a cw s = (Inr (), s')"
    using that by (auto simp: create_port_cases dest: d1_create_job_later)
  show "d1_decide_replay MjpDependencyUnavailable a' mailbox_job_run_command e s2 = (Inr (ReplayHit (run_receipt w)), s2)"
    if "jp_run_job d1_job_port a w s = (Inr (), s1)" "db_later s1 s2" "same_caller a a'" "replayable (rw_evidence w) e"
    using that by (auto simp: run_port_cases db_later_def intro: receipt_answered dest!: d1_run_job_commits)
  show "d1_decide_replay MjpDependencyUnavailable a' mailbox_job_create_command e s2 = (Inr (ReplayHit (create_receipt cw)), s2)"
    if "jp_create_job d1_job_port a cw s = (Inr (), s1)" "db_later s1 s2" "same_caller a a'" "replayable (jw_evidence cw) e"
    using that by (auto simp: create_port_cases db_later_def intro: receipt_answered dest!: d1_create_job_commits)
qed

end
