(* ===== verification/Mailbox_Job_Rows.thy ===== *)
theory Mailbox_Job_Rows
  imports Mailbox_Run_Refinement
begin

text \<open>
  The row a run leaves behind reads back as the job that the domain methods compute from the row it
  started from; and the invariant of the job table.
\<close>

section \<open>Reading a row\<close>

lemma bounded_u32_Inr [ok_iff]: "bounded_u32 i m = Inr x \<longleftrightarrow> i = uint x \<and> x \<le> m"
proof -
  have "i = uint (of_int i :: u32)" if "0 \<le> i" "i < 2 ^ 32" using that by (simp add: uint_word_of_int_eq take_bit_int_eq_self)
  then show ?thesis
    using uint_lt2p [of x] by (auto simp: bounded_u32_def word_le_def not_less not_le)
qed

lemma non_negative_u64_Inr [ok_iff]: "non_negative_u64 i = Inr x \<longleftrightarrow> 0 \<le> i \<and> x = of_int i"
  by (auto simp: non_negative_u64_def u64_of_i64_def)

lemma positive_u64_Inr [ok_iff]: "positive_u64 i = Inr x \<longleftrightarrow> 0 \<le> i \<and> x = of_int i \<and> x \<noteq> 0"
  by (auto simp: positive_u64_def u64_of_i64_def res_bind_Inr_iff)

lemma job_restore_Inr [ok_iff]:
  "mailbox_job_restore snap = Inr j \<longleftrightarrow> validate_cursor (mxj_cursor snap) = Inr () \<and> validate_max_attempts (mxj_max_attempts snap) = Inr ()
     \<and> mxj_attempt snap \<le> mxj_max_attempts snap \<and> j = snap"
  by (auto simp: mailbox_job_restore_def res_bind_Inr_iff not_less)

definition row_represents :: "tenant_scope \<Rightarrow> mailbox_binding_id \<Rightarrow> mailbox_job_row \<Rightarrow> mailbox_job_read_model \<Rightarrow> bool" where
  "row_represents scope bid row rm \<longleftrightarrow>
     (let j = jm_job rm in
      jr_bounded_item_count row = uint (jm_bounded_item_count rm) \<and> jm_bounded_item_count rm \<le> 10000
      \<and> jm_provider_status rm = jr_provider_status row
      \<and> (\<forall>s. jr_provider_status row = Some s \<longrightarrow> validate_provider_status s = Inr ())
      \<and> opaque_valid (jr_job_id row) \<and> mailbox_job_status_parse (jr_lifecycle_status row) = Inr (mxj_status j)
      \<and> jr_attempt row = uint (mxj_attempt j) \<and> jr_max_attempts row = uint (mxj_max_attempts j)
      \<and> mxj_attempt j \<le> mxj_max_attempts j \<and> mxj_max_attempts j \<le> 10 \<and> validate_max_attempts (mxj_max_attempts j) = Inr ()
      \<and> 0 \<le> jr_next_run_at_ms row \<and> mxj_next_run_at j = of_int (jr_next_run_at_ms row)
      \<and> 0 \<le> jr_version row \<and> mxj_version j = AggregateVersion (of_int (jr_version row)) \<and> version_value (mxj_version j) \<noteq> 0
      \<and> validate_cursor (jr_cursor row) = Inr () \<and> mxj_cursor j = jr_cursor row
      \<and> mxj_tenant_id j = scope_tenant_id scope \<and> mxj_binding_id j = bid \<and> mxj_job_id j = TypedId (OpaqueId (jr_job_id row)))"

lemma provider_status_checked:
  "(case x of None \<Rightarrow> Inr () | Some s \<Rightarrow> res_map_err f (validate_provider_status s)) = Inr u
     \<longleftrightarrow> (\<forall>s. x = Some s \<longrightarrow> validate_provider_status s = Inr ())"
  by (cases x) auto

lemma job_from_row_iff: "job_from_row scope bid row = Inr rm \<longleftrightarrow> row_represents scope bid row rm"
proof -
  obtain j ps n where rm: "rm = \<lparr>jm_job = j, jm_provider_status = ps, jm_bounded_item_count = n\<rparr>" by (cases rm)
  obtain t b i c st at mx nr v where j: "j = \<lparr>mxj_tenant_id = t, mxj_binding_id = b, mxj_job_id = i, mxj_cursor = c, mxj_status = st,
      mxj_attempt = at, mxj_max_attempts = mx, mxj_next_run_at = nr, mxj_version = v\<rparr>" by (cases j)
  show ?thesis
    unfolding job_from_row_def row_represents_def rm j
    by (auto simp: res_bind_Inr_iff bounded_u32_Inr non_negative_u64_Inr positive_u64_Inr job_restore_Inr provider_status_checked
        id_parse_alt version_new_Inr_iff Let_def split: if_splits)
qed

section \<open>What a provider report does to a running job\<close>

definition job_settled :: "unix_millis \<Rightarrow> mailbox_job \<Rightarrow> mailbox_job \<Rightarrow> bool" where
  \<comment> \<open>the outcomes of a run: the job succeeds with a checked cursor, waits for a later retry, or stops\<close>
  "job_settled now j j' \<longleftrightarrow> (\<exists>v. version_next (mxj_version j) = Inr v \<and>
     ((\<exists>c. validate_cursor c = Inr () \<and> j' = j\<lparr>mxj_version := v, mxj_cursor := c, mxj_status := MxSucceeded\<rparr>)
      \<or> (\<exists>t. mxj_attempt j < mxj_max_attempts j \<and> now < t
            \<and> j' = j\<lparr>mxj_version := v, mxj_next_run_at := t, mxj_status := MxRetryPending\<rparr>)
      \<or> (\<exists>st \<in> {MxAuthRequired, MxSuspended, MxFailed}. j' = j\<lparr>mxj_version := v, mxj_status := st\<rparr>)))"

lemma settledI:
  "version_next (mxj_version j) = Inr v \<Longrightarrow> validate_cursor c = Inr () \<Longrightarrow>
     job_settled now j (j\<lparr>mxj_version := v, mxj_cursor := c, mxj_status := MxSucceeded\<rparr>)"
  "version_next (mxj_version j) = Inr v \<Longrightarrow> mxj_attempt j < mxj_max_attempts j \<Longrightarrow> now < t \<Longrightarrow>
     job_settled now j (j\<lparr>mxj_version := v, mxj_next_run_at := t, mxj_status := MxRetryPending\<rparr>)"
  "version_next (mxj_version j) = Inr v \<Longrightarrow> st \<in> {MxAuthRequired, MxSuspended, MxFailed} \<Longrightarrow>
     job_settled now j (j\<lparr>mxj_version := v, mxj_status := st\<rparr>)"
  unfolding job_settled_def by blast+

lemma domain_step_Inr:
  "(case m of (Inl e, j) \<Rightarrow> (Inl (map_mailbox_domain_error e), j) | (Inr _, j) \<Rightarrow> k j) = (Inr p, j')
     \<longleftrightarrow> (\<exists>u j1. m = (Inr u, j1) \<and> k j1 = (Inr p, j'))"
  by (cases m; cases "fst m") auto

lemma apply_failure_settles:
  assumes "apply_provider_failure j now f = (Inr p, j')"
  shows "job_settled now j j' \<and> p = prepared_from_job j' (pr_provider_status p) (pr_bounded_item_count p)
     \<and> pr_bounded_item_count p = 0
     \<and> (mxj_status j' = MxRetryPending \<longrightarrow> bounded_retry_at now (mxj_attempt j) (pf_retry_at f) = Inr (mxj_next_run_at j'))"
  using assms
  by (cases "failure_class_disposition (pf_class f)")
    (auto simp: apply_provider_failure_def Let_def domain_step_Inr or_return_Inr_iff job_fail_Inr job_retry_Inr job_require_auth_Inr
      job_suspend_Inr prepared_from_job_def intro: settledI split: if_splits)

lemma apply_result_settles:
  assumes "apply_provider_result b j now r = (Inr p, j')"
  shows "job_settled now j j' \<and> p = prepared_from_job j' (pr_provider_status p) (pr_bounded_item_count p)"
proof (cases r)
  case (Inl e)
  then show ?thesis
  proof (cases e)
    case (ProviderFailed f)
    then have "apply_provider_failure j now f = (Inr p, j')" using assms Inl by (simp add: apply_provider_result_def)
    from apply_failure_settles [OF this] show ?thesis by blast
  qed (use assms Inl in \<open>simp add: apply_provider_result_def\<close>)
next
  case (Inr ob)
  then show ?thesis using assms
    by (auto simp: apply_provider_result_def domain_step_Inr job_succeed_Inr prepared_from_job_def intro: settledI split: if_splits)
qed

lemma settled_status: "job_settled now j j' \<Longrightarrow>
    mxj_status j' \<in> {MxSucceeded, MxRetryPending, MxAuthRequired, MxSuspended, MxFailed}"
  by (auto simp: job_settled_def)

section \<open>The row after a run\<close>

lemma version_next_word: "version_next v = Inr w \<Longrightarrow> version_value w = version_value v + 1 \<and> version_value w \<noteq> 0"
proof -
  assume "version_next v = Inr w"
  then have n: "unat (version_value w) = Suc (unat (version_value v))" by (simp add: version_next_Inr_iff)
  then have "of_nat (unat (version_value w)) = (of_nat (Suc (unat (version_value v))) :: u64)" by simp
  then have "version_value w = version_value v + 1" by simp
  moreover have "version_value w \<noteq> 0" using n by (metis nat.distinct(1) unat_0)
  ultimately show ?thesis by simp
qed

lemma row_after_run:
  assumes rep: "row_represents scope bid row rm"
    and q: "mailbox_job_queue now (jm_job rm) = (Inr (), queued)" and st: "mailbox_job_start b queued = (Inr (), running)"
    and set: "job_settled now running j'"
    and c: "jx_outcome_status c = mailbox_job_status_storage (mxj_status j')" "jx_next_cursor c = mxj_cursor j'"
      "jx_retry_at_ms c = (if mxj_status j' = MxRetryPending then Some (uint (mxj_next_run_at j')) else None)"
      "validate_provider_status (jx_provider_status c) = Inr ()" "jx_bounded_item_count c = uint n" "n \<le> 10000"
  shows "row_represents scope bid (job_run_applied c row) \<lparr>jm_job = j', jm_provider_status = Some (jx_provider_status c), jm_bounded_item_count = n\<rparr>"
proof -
  let ?j = "jm_job rm"
  obtain v1 where v1: "version_next (mxj_version ?j) = Inr v1" "queued = ?j\<lparr>mxj_version := v1, mxj_status := MxQueued\<rparr>"
    and a: "mxj_attempt ?j < mxj_max_attempts ?j" using q by (auto simp: job_queue_Inr)
  obtain a' v2 where a': "checked_add (mxj_attempt ?j) 1 = Some a'" and v2: "version_next v1 = Inr v2"
    and running: "running = ?j\<lparr>mxj_attempt := a', mxj_version := v2, mxj_status := MxRunning\<rparr>"
    using st v1 by (auto simp: job_start_Inr)
  obtain v3 where v3: "version_next v2 = Inr v3" using set running by (auto simp: job_settled_def)
  have ver: "version_value v3 = version_value (mxj_version ?j) + 3" "version_value v3 \<noteq> 0"
  proof -
    show "version_value v3 = version_value (mxj_version ?j) + 3"
      using version_next_word [OF v1(1)] version_next_word [OF v2] version_next_word [OF v3] by simp
    show "version_value v3 \<noteq> 0" using version_next_word [OF v3] by blast
  qed
  have an: "unat a' = unat (mxj_attempt ?j) + 1" using checked_add_SomeD [OF a'] by simp
  have au: "uint a' = uint (mxj_attempt ?j) + 1" using arg_cong [OF an, of int] by simp
  have al: "a' \<le> mxj_max_attempts ?j" using a an by (simp add: word_le_nat_alt word_less_nat_alt)
  note r = rep[unfolded row_represents_def Let_def]
  have rv: "of_int (jr_version row + 3) = version_value v3" using ver r by simp
  then have vv: "v3 = AggregateVersion (of_int (jr_version row + 3))" by (cases v3) simp
  have m: "job_run_applied c row = row\<lparr>jr_lifecycle_status := jx_outcome_status c, jr_attempt := jr_attempt row + 1,
       jr_cursor := mxj_cursor j', jr_provider_status := Some (jx_provider_status c), jr_bounded_item_count := uint n,
       jr_next_run_at_ms := (if mxj_status j' = MxRetryPending then uint (mxj_next_run_at j') else jr_next_run_at_ms row),
       jr_version := jr_version row + 3, jr_updated_at_ms := jx_executed_at c\<rparr>"
    and f: "mxj_version j' = v3" "mxj_attempt j' = a'" "mxj_max_attempts j' = mxj_max_attempts ?j"
      "mxj_tenant_id j' = mxj_tenant_id ?j" "mxj_binding_id j' = mxj_binding_id ?j" "mxj_job_id j' = mxj_job_id ?j"
      "validate_cursor (mxj_cursor j') = Inr ()"
      "mxj_status j' \<noteq> MxRetryPending \<Longrightarrow> mxj_next_run_at j' = mxj_next_run_at ?j"
  proof -
    obtain v where v: "version_next v2 = Inr v" and alt: "(\<exists>cu. validate_cursor cu = Inr () \<and> j' = running\<lparr>mxj_version := v, mxj_cursor := cu, mxj_status := MxSucceeded\<rparr>)
        \<or> (\<exists>t. j' = running\<lparr>mxj_version := v, mxj_next_run_at := t, mxj_status := MxRetryPending\<rparr>)
        \<or> (\<exists>st \<in> {MxAuthRequired, MxSuspended, MxFailed}. j' = running\<lparr>mxj_version := v, mxj_status := st\<rparr>)"
      using set running by (auto simp: job_settled_def)
    have "v = v3" using v v3 by simp
    moreover have cur: "validate_cursor (mxj_cursor ?j) = Inr ()" "mxj_cursor ?j = jr_cursor row" using r by simp_all
    ultimately show "mxj_version j' = v3" "mxj_attempt j' = a'" "mxj_max_attempts j' = mxj_max_attempts ?j"
      "mxj_tenant_id j' = mxj_tenant_id ?j" "mxj_binding_id j' = mxj_binding_id ?j" "mxj_job_id j' = mxj_job_id ?j"
      "validate_cursor (mxj_cursor j') = Inr ()"
      "mxj_status j' \<noteq> MxRetryPending \<Longrightarrow> mxj_next_run_at j' = mxj_next_run_at ?j"
      using alt by (auto simp: running)
    show "job_run_applied c row = row\<lparr>jr_lifecycle_status := jx_outcome_status c, jr_attempt := jr_attempt row + 1,
       jr_cursor := mxj_cursor j', jr_provider_status := Some (jx_provider_status c), jr_bounded_item_count := uint n,
       jr_next_run_at_ms := (if mxj_status j' = MxRetryPending then uint (mxj_next_run_at j') else jr_next_run_at_ms row),
       jr_version := jr_version row + 3, jr_updated_at_ms := jx_executed_at c\<rparr>"
      using alt cur by (elim disjE exE bexE) (auto simp: job_run_applied_def c running)
  qed
  show ?thesis
    unfolding row_represents_def Let_def m using r au al vv ver(2) c(1,4,6) f by (auto simp: rv)
qed

lemma prepared_fields:
  "p = prepared_from_job j ps n \<Longrightarrow> pr_status p = mxj_status j \<and> pr_version p = mxj_version j \<and> pr_cursor p = mxj_cursor j
     \<and> pr_retry_at p = (if mxj_status j = MxRetryPending then Some (mxj_next_run_at j) else None)"
  by (simp add: prepared_from_job_def)

section \<open>A run over the database\<close>

lemma find_job_iff: "d1_find_job scope b j db = Inr (Some rm) \<longleftrightarrow>
    (\<exists>row. md_jobs db (id_as_str (scope_tenant_id scope), id_as_str b, id_as_str j) = Some row \<and> row_represents scope b row rm)"
  unfolding d1_find_job_def
  by (cases "md_jobs db (id_as_str (scope_tenant_id scope), id_as_str b, id_as_str j)") (auto simp: res_bind_Inr_iff job_from_row_iff)

lemma port_finds [simp]:
  "jp_find_job d1_job_port scope b j db = Inr x \<longleftrightarrow> d1_find_job scope b j db = Inr x"
  "jp_find_binding d1_job_port scope b db = Inr y \<longleftrightarrow> d1_find_binding scope b db = Inr y"
  by (simp_all add: d1_job_port_def)

lemma refusal_item_count: "job_run_refusal c b j = None \<Longrightarrow> jx_bounded_item_count c \<le> 10000"
  by (simp add: job_run_refusal_def split: if_splits)

lemma same_version_same_row:
  assumes "jobs_later J J'" "J k = Some row" "row_represents scope b row rm" "J' k = Some row'"
    "jr_version row' = uint (version_value (mxj_version (jm_job rm)))"
  shows "row' = row"
proof -
  obtain q where q: "J' k = Some q" "jr_version row \<le> jr_version q" "jr_version row = jr_version q \<longrightarrow> q = row"
    using assms(1,2) unfolding jobs_later_def by blast
  have r: "0 \<le> jr_version row" "version_value (mxj_version (jm_job rm)) = of_int (jr_version row)"
    using assms(3) by (simp_all add: row_represents_def Let_def)
  have "jr_version row < 2 ^ 64" using q assms(4,5) uint_lt2p [of "version_value (mxj_version (jm_job rm))"] by simp
  then have "jr_version row = jr_version row'" using r assms(5) by (simp add: uint_word_of_int_eq take_bit_int_eq_self)
  then show ?thesis using q assms(4) by simp
qed

lemma run_stores_domain_job:
  assumes run: "execute_run_mailbox_job d1_job_port provider actor role c s = (Inr out, s')" "\<not> mo_replayed out"
    and fair: "\<And>b j t. db_later t (snd (provider b j t))"
  obtains b rm queued running result s1 s2 p j' code where
    "d1_find_binding (actor_tenant_scope actor) (xr_binding_id c) s = Inr (Some b)"
    "d1_find_job (actor_tenant_scope actor) (xr_binding_id c) (xr_job_id c) s = Inr (Some rm)"
    "mxj_version (jm_job rm) = xr_expected_version c"
    "mailbox_job_queue (ev_now (xr_evidence c)) (jm_job rm) = (Inr (), queued)" "mailbox_job_start b queued = (Inr (), running)"
    "provider b running s1 = (result, s2)" "apply_provider_result b running (ev_now (xr_evidence c)) result = (Inr p, j')"
    "d1_find_job (actor_tenant_scope actor) (xr_binding_id c) (xr_job_id c) s'
       = Inr (Some \<lparr>jm_job = j', jm_provider_status = Some (pr_provider_status p), jm_bounded_item_count = pr_bounded_item_count p\<rparr>)"
    "job_result_code p = Inr code"
    "out = \<lparr>mo_result_code = code, mo_resource_id = id_as_str (xr_job_id c), mo_aggregate_version = mxj_version j', mo_replayed = False\<rparr>"
  using run
proof (cases rule: execute_run_freshE)
  case (1 v s1 b rm p s2 code)
  let ?now = "ev_now (xr_evidence c)" and ?scope = "actor_tenant_scope actor"
  let ?w = "\<lparr>rw_binding_id = xr_binding_id c, rw_job_id = xr_job_id c, rw_expected_version = xr_expected_version c,
         rw_prepared = p, rw_evidence = xr_evidence c, rw_event_payload_json = mailbox_job_event_payload\<rparr>"
  have same: "md_jobs s1 = md_jobs s" "md_bindings s1 = md_bindings s"
    using d1_decide_frame [OF 1(3)[unfolded port_decides]] by simp_all
  from 1(7) obtain queued running result j' where
    dom: "mailbox_job_queue ?now (jm_job rm) = (Inr (), queued)" "mailbox_job_start b queued = (Inr (), running)"
      "provider b running s1 = (result, s2)" "apply_provider_result b running ?now result = (Inr p, j')"
    by (rule prepare_mailbox_runE)
  note set = apply_result_settles [OF dom(4)]
  from prepared_fields [OF conjunct2 [OF set]] have p: "pr_status p = mxj_status j'" "pr_version p = mxj_version j'" "pr_cursor p = mxj_cursor j'"
    "pr_retry_at p = (if mxj_status j' = MxRetryPending then Some (mxj_next_run_at j') else None)"
    by simp_all
  from 1(5) same obtain row where row: "md_jobs s1 (id_as_str (scope_tenant_id ?scope), id_as_str (xr_binding_id c), id_as_str (xr_job_id c)) = Some row"
    and rep: "row_represents ?scope (xr_binding_id c) row rm" by (auto simp: find_job_iff)
  from 1(10) have wr: "d1_run_job actor ?w s2 = (Inr (), s')" by (auto simp: run_port_cases)
  then show ?thesis
  proof (cases rule: d1_run_jobE)
    case wr: (1 code' event d)
    let ?c = "job_run_command_of actor ?w"
    from wr(6) show ?thesis
    proof (cases rule: insert_job_runE)
      case ins: (1 b' row')
      have ver: "jr_version row' = uint (version_value (mxj_version (jm_job rm)))"
        using job_run_refusal_version [OF ins(6)] 1(6) by (simp add: job_run_command_of_def Let_def)
      have later: "jobs_later (md_jobs s1) (md_jobs s2)" using fair [of s1 b running] dom(3) by (simp add: db_later_def)
      have eq: "row' = row"
        using ins(5) by (intro same_version_same_row [OF later row rep _ ver]) (simp add: job_run_command_of_def Let_def)
      have "pr_bounded_item_count p \<le> 10000"
        using refusal_item_count [OF ins(6)] by (simp add: job_run_command_of_def Let_def word_le_def)
      then have "row_represents ?scope (xr_binding_id c) (job_run_applied ?c row)
          \<lparr>jm_job = j', jm_provider_status = Some (jx_provider_status ?c), jm_bounded_item_count = pr_bounded_item_count p\<rparr>"
        using set wr(1) p
        by (intro row_after_run [OF rep dom(1,2)]) (simp_all add: job_run_command_of_def Let_def)
      then have "d1_find_job ?scope (xr_binding_id c) (xr_job_id c) s'
          = Inr (Some \<lparr>jm_job = j', jm_provider_status = Some (pr_provider_status p), jm_bounded_item_count = pr_bounded_item_count p\<rparr>)"
        unfolding find_job_iff using wr(8) ins(9) eq by (auto simp: job_run_command_of_def Let_def record_evidence_def)
      then show ?thesis
        using that [OF _ _ 1(6) dom] 1(4,5,8,9,11) p(2) same by (simp add: d1_find_binding_def d1_find_job_def)
    qed
  qed
qed

section \<open>The time of a retry\<close>

lemma retry_factor: "unat (push_bit (min k 5) (1::u64)) = 2 ^ min k 5"
proof -
  have "min k 5 \<in> {0, 1, 2, 3, 4, 5}" by auto
  then show ?thesis by auto
qed

lemma bounded_retry_at_bounds:
  assumes "bounded_retry_at now attempt hint = Inr t"
  shows "unat now + min (30000 * 2 ^ min (unat attempt - 1) 5) 900000 \<le> unat t \<and> unat t \<le> unat now + 900000"
proof -
  let ?k = "min (unat attempt - 1) 5"
  let ?d = "min (30000 * push_bit ?k (1::u64)) 900000"
  have f: "unat (push_bit ?k (1::u64)) \<le> 32"
    using power_increasing [of ?k 5 "2::nat"] unfolding retry_factor by simp
  then have mul: "checked_mul retry_base_delay_ms (push_bit ?k 1) = Some (30000 * push_bit ?k (1::u64))"
    by (simp add: checked_mul_def retry_base_delay_ms_def)
  have "unat (30000 * push_bit ?k (1::u64)) = 30000 * 2 ^ ?k"
    using f unat_mult_lem [THEN iffD1, of "30000::u64" "push_bit ?k 1"] unfolding retry_factor by simp
  then have d: "unat ?d = min (30000 * 2 ^ ?k) 900000"
    by (simp add: min_def word_le_nat_alt)
  obtain p m where pm: "checked_add now ?d = Some p" "checked_add now 900000 = Some m"
    and t: "t = (case hint of Some h \<Rightarrow> if now < h then min (max h p) m else p | None \<Rightarrow> p)"
    using assms mul by (auto simp: bounded_retry_at_def Let_def res_bind_Inr_iff retry_max_delay_ms_def)
  have "unat p = unat now + min (30000 * 2 ^ ?k) 900000" "unat m = unat now + 900000"
    using checked_add_SomeD [OF pm(1)] checked_add_SomeD [OF pm(2)] d by simp_all
  then show ?thesis using t by (auto simp: min_def max_def word_le_nat_alt word_less_nat_alt split: option.splits if_splits)
qed

end
