(* ===== verification/Mailbox_Bindings.thy ===== *)
theory Mailbox_Bindings
  imports Mailbox_Job_Rows
begin

text \<open>
  Mailbox bindings: the use cases (\<open>use-cases-mailboxes/src/mailboxes.rs\<close>), their port over the catalogue
  database (\<open>cloudflare-adapters/src/d1_mailbox_bindings.rs\<close>, \<open>d1_mailboxes.rs\<close>), and that the rows they
  leave behind are the bindings the domain computes.
\<close>

section \<open>Port\<close>

record mailbox_binding_create_write =
  bw_binding :: mailbox_binding
  bw_evidence :: command_evidence
  bw_event_payload_json :: string

record mailbox_binding_revoke_write =
  bx_binding_id :: mailbox_binding_id
  bx_expected_version :: aggregate_version
  bx_evidence :: command_evidence
  bx_event_payload_json :: string

record mailbox_binding_read_model =
  bm_binding_id :: mailbox_binding_id
  bm_provider :: mailbox_provider
  bm_status :: mailbox_binding_status
  bm_version :: aggregate_version

datatype mailbox_binding_port_error_class =
    MbpNotFound | MbpVersionConflict | MbpInvalidState | MbpConflict | MbpIntegrityFailure | MbpInternalFailure
  | MbpDependencyUnavailable

fun mailbox_binding_port_error_message :: "mailbox_binding_port_error_class \<Rightarrow> string" where
  "mailbox_binding_port_error_message MbpNotFound = ''mailbox binding not found''"
| "mailbox_binding_port_error_message MbpVersionConflict = ''mailbox binding version conflict''"
| "mailbox_binding_port_error_message MbpInvalidState = ''mailbox binding invalid state''"
| "mailbox_binding_port_error_message MbpConflict = ''mailbox binding conflict''"
| "mailbox_binding_port_error_message MbpIntegrityFailure = ''mailbox binding integrity failure''"
| "mailbox_binding_port_error_message MbpInternalFailure = ''mailbox binding internal failure''"
| "mailbox_binding_port_error_message MbpDependencyUnavailable = ''mailbox binding dependency unavailable''"

record 's mailbox_binding_port =
  bp_decide_replay :: "actor_context \<Rightarrow> string \<Rightarrow> command_evidence \<Rightarrow> 's
      \<Rightarrow> (mailbox_binding_port_error_class + replay_decision) \<times> 's"
  bp_create_binding :: "actor_context \<Rightarrow> mailbox_binding_create_write \<Rightarrow> 's \<Rightarrow> (mailbox_binding_port_error_class + unit) \<times> 's"
  bp_revoke_binding :: "actor_context \<Rightarrow> mailbox_binding_revoke_write \<Rightarrow> 's \<Rightarrow> (mailbox_binding_port_error_class + unit) \<times> 's"
  bp_find_binding :: "tenant_scope \<Rightarrow> mailbox_binding_id \<Rightarrow> 's
      \<Rightarrow> mailbox_binding_port_error_class + mailbox_binding_read_model option"

section \<open>Use cases\<close>

definition mailbox_binding_create_command :: string where "mailbox_binding_create_command = ''mailbox.binding_create''"
definition mailbox_binding_revoke_command :: string where "mailbox_binding_revoke_command = ''mailbox.binding_revoke''"
definition mailbox_binding_event_payload :: string where "mailbox_binding_event_payload = ''{}''"

record execute_create_binding =
  xb_binding_id :: mailbox_binding_id
  xb_provider :: mailbox_provider
  xb_secret_handle :: secret_handle
  xb_evidence :: command_evidence

record execute_revoke_binding =
  xv_binding_id :: mailbox_binding_id
  xv_expected_version :: aggregate_version
  xv_evidence :: command_evidence

record mailbox_binding_outcome =
  bo_result_code :: string
  bo_resource_id :: string
  bo_aggregate_version :: aggregate_version
  bo_replayed :: bool

datatype mailbox_binding_operation_error =
    MboNotFound | MboVersionConflict | MboInvalidState | MboConflict | MboIntegrityFailure | MboInternalFailure
  | MboDependencyUnavailable

fun mailbox_binding_operation_error_message :: "mailbox_binding_operation_error \<Rightarrow> string" where
  "mailbox_binding_operation_error_message MboNotFound = ''mailbox binding not found''"
| "mailbox_binding_operation_error_message MboVersionConflict = ''mailbox binding version conflict''"
| "mailbox_binding_operation_error_message MboInvalidState = ''mailbox binding invalid state''"
| "mailbox_binding_operation_error_message MboConflict = ''mailbox binding command conflict''"
| "mailbox_binding_operation_error_message MboIntegrityFailure = ''mailbox binding integrity failure''"
| "mailbox_binding_operation_error_message MboInternalFailure = ''mailbox binding internal failure''"
| "mailbox_binding_operation_error_message MboDependencyUnavailable = ''mailbox binding dependency unavailable''"

fun map_binding_port_error :: "mailbox_binding_port_error_class \<Rightarrow> mailbox_binding_operation_error" where
  "map_binding_port_error MbpNotFound = MboNotFound"
| "map_binding_port_error MbpVersionConflict = MboVersionConflict"
| "map_binding_port_error MbpInvalidState = MboInvalidState"
| "map_binding_port_error MbpConflict = MboConflict"
| "map_binding_port_error MbpIntegrityFailure = MboIntegrityFailure"
| "map_binding_port_error MbpInternalFailure = MboInternalFailure"
| "map_binding_port_error MbpDependencyUnavailable = MboDependencyUnavailable"

definition authorize_mailbox_binding :: "membership_role \<Rightarrow> mailbox_binding_operation_error + unit" where
  "authorize_mailbox_binding role = (if role = TenantOwner then Inr () else Inl MboNotFound)"

definition create_binding_replay_outcome :: "mailbox_binding \<Rightarrow> replay_receipt \<Rightarrow> mailbox_binding_outcome" where
  "create_binding_replay_outcome binding receipt =
     \<lparr>bo_result_code = mr_result_code receipt,
      bo_resource_id = (case mr_result_reference receipt of Some r \<Rightarrow> r | None \<Rightarrow> id_as_str (mxb_binding_id binding)),
      bo_aggregate_version = version_initial, bo_replayed = True\<rparr>"

definition revoke_replay_outcome :: "mailbox_binding_id \<Rightarrow> aggregate_version \<Rightarrow> replay_receipt \<Rightarrow> mailbox_binding_outcome" where
  "revoke_replay_outcome binding_id next_version receipt =
     \<lparr>bo_result_code = mr_result_code receipt,
      bo_resource_id = (case mr_result_reference receipt of Some r \<Rightarrow> r | None \<Rightarrow> id_as_str binding_id),
      bo_aggregate_version = next_version, bo_replayed = True\<rparr>"

definition execute_create_mailbox_binding ::
    "'s mailbox_binding_port \<Rightarrow> actor_context \<Rightarrow> membership_role \<Rightarrow> execute_create_binding \<Rightarrow> 's
     \<Rightarrow> (mailbox_binding_operation_error + mailbox_binding_outcome) \<times> 's" where
  "execute_create_mailbox_binding port actor role c s =
     or_return (authorize_mailbox_binding role) s (\<lambda>_.
     let binding = mailbox_binding_create (scope_tenant_id (actor_tenant_scope actor)) (xb_binding_id c) (xb_provider c) (xb_secret_handle c);
         decide = bp_decide_replay port actor mailbox_binding_create_command (xb_evidence c);
         replay = (\<lambda>receipt. Inr (create_binding_replay_outcome binding receipt)) in
     unless_replayed map_binding_port_error MboConflict (decide s) replay (\<lambda>s1.
       settle_write map_binding_port_error MboConflict MbpConflict
         (bp_create_binding port actor
            \<lparr>bw_binding = binding, bw_evidence = xb_evidence c, bw_event_payload_json = mailbox_binding_event_payload\<rparr> s1)
         decide replay
         \<lparr>bo_result_code = ''created'', bo_resource_id = id_as_str (mxb_binding_id binding),
          bo_aggregate_version = version_initial, bo_replayed = False\<rparr>))"

definition execute_revoke_mailbox_binding ::
    "'s mailbox_binding_port \<Rightarrow> actor_context \<Rightarrow> membership_role \<Rightarrow> execute_revoke_binding \<Rightarrow> 's
     \<Rightarrow> (mailbox_binding_operation_error + mailbox_binding_outcome) \<times> 's" where
  "execute_revoke_mailbox_binding port actor role c s =
     or_return (authorize_mailbox_binding role) s (\<lambda>_.
     or_return (res_map_err (\<lambda>_. MboInternalFailure) (version_next (xv_expected_version c))) s (\<lambda>next_version.
     let decide = bp_decide_replay port actor mailbox_binding_revoke_command (xv_evidence c);
         replay = (\<lambda>receipt. Inr (revoke_replay_outcome (xv_binding_id c) next_version receipt)) in
     unless_replayed map_binding_port_error MboConflict (decide s) replay (\<lambda>s1.
       settle_write map_binding_port_error MboConflict MbpConflict
         (bp_revoke_binding port actor
            \<lparr>bx_binding_id = xv_binding_id c, bx_expected_version = xv_expected_version c, bx_evidence = xv_evidence c,
             bx_event_payload_json = mailbox_binding_event_payload\<rparr> s1)
         decide replay
         \<lparr>bo_result_code = ''revoked'', bo_resource_id = id_as_str (xv_binding_id c),
          bo_aggregate_version = next_version, bo_replayed = False\<rparr>)))"

definition get_mailbox_binding ::
    "'s mailbox_binding_port \<Rightarrow> actor_context \<Rightarrow> membership_role \<Rightarrow> mailbox_binding_id \<Rightarrow> 's
     \<Rightarrow> mailbox_binding_operation_error + mailbox_binding_read_model" where
  \<comment> \<open>\<open>MailboxBindingDetails\<close> has the fields of the read model\<close>
  "get_mailbox_binding port actor role binding_id s =
     res_bind (authorize_mailbox_binding role) (\<lambda>_.
     res_bind (res_map_err map_binding_port_error (bp_find_binding port (actor_tenant_scope actor) binding_id s)) (\<lambda>found.
     res_ok_or MboNotFound found))"

section \<open>The adapter\<close>

definition binding_evidence :: "mailbox_binding_id \<Rightarrow> string \<Rightarrow> string \<Rightarrow> int \<Rightarrow> string \<Rightarrow> write_evidence" where
  "binding_evidence binding_id command_name result_code version event_type =
     \<lparr>we_command_name = command_name, we_action = command_name, we_result_code = result_code, we_resource_type = ''mailbox_binding'',
      we_resource_id = id_as_str binding_id, we_aggregate_type = ''mailbox_binding'', we_aggregate_id = id_as_str binding_id,
      we_aggregate_version = version, we_event_type = event_type\<rparr>"

definition d1_create_binding :: "actor_context \<Rightarrow> mailbox_binding_create_write \<Rightarrow> mailbox_db \<Rightarrow> (string + unit) \<times> mailbox_db" where
  "d1_create_binding actor w db =
     (let e = bw_evidence w; b = bw_binding w; tenant = scope_tenant_id (actor_tenant_scope actor) in
      or_return (sqlite_integer (ev_now e)) db (\<lambda>now.
      or_return (sqlite_integer (ev_idempotency_expires_at e)) db (\<lambda>expires_at.
      governed_batch actor (envelope_of e (bw_event_payload_json w))
        (insert_binding_create
          \<lparr>bc_tenant = id_as_str tenant, bc_command_id = command_journal_id tenant (actor_actor_id actor) (ev_idempotency_key e),
           bc_actor = id_as_str (actor_actor_id actor), bc_binding_id = id_as_str (mxb_binding_id b),
           bc_provider = mailbox_provider_storage (mxb_provider b), bc_secret_handle = id_as_str (mxb_secret_handle b),
           bc_executed_at = now\<rparr>)
        (binding_evidence (mxb_binding_id b) ''mailbox.binding_create'' ''created'' 1 ''mailbox.binding_created.v1'')
        now expires_at db)))"

definition next_version_value :: "aggregate_version \<Rightarrow> string + int" where
  "next_version_value v = res_bind (res_map_err (\<lambda>_. ''aggregate version overflow'') (version_next v)) sqlite_version"

definition d1_revoke_binding :: "actor_context \<Rightarrow> mailbox_binding_revoke_write \<Rightarrow> mailbox_db \<Rightarrow> (string + unit) \<times> mailbox_db" where
  "d1_revoke_binding actor w db =
     (let e = bx_evidence w; tenant = scope_tenant_id (actor_tenant_scope actor) in
      or_return (sqlite_integer (ev_now e)) db (\<lambda>now.
      or_return (sqlite_integer (ev_idempotency_expires_at e)) db (\<lambda>expires_at.
      or_return (next_version_value (bx_expected_version w)) db (\<lambda>aggregate_version.
      or_return (sqlite_version (bx_expected_version w)) db (\<lambda>expected.
      governed_batch actor (envelope_of e (bx_event_payload_json w))
        (insert_binding_revoke
          \<lparr>bv_tenant = id_as_str tenant, bv_command_id = command_journal_id tenant (actor_actor_id actor) (ev_idempotency_key e),
           bv_actor = id_as_str (actor_actor_id actor), bv_binding_id = id_as_str (bx_binding_id w),
           bv_expected_version = expected, bv_executed_at = now\<rparr>)
        (binding_evidence (bx_binding_id w) ''mailbox.binding_revoke'' ''revoked'' aggregate_version ''mailbox.binding_revoked.v1'')
        now expires_at db)))))"

definition classify_binding_write_failure :: "string \<Rightarrow> mailbox_binding_port_error_class" where
  "classify_binding_write_failure message =
     (let contains = (\<lambda>text. contains_text text message) in
      if contains ''mailbox_binding_missing'' then MbpNotFound
      else if contains ''version_mismatch'' then MbpVersionConflict
      else if contains ''mailbox_binding_revoked'' \<or> contains ''mailbox_binding_already_revoked'' then MbpInvalidState
      else if contains ''UNIQUE constraint failed'' then MbpConflict
      else if contains ''CHECK constraint failed'' \<or> contains ''FOREIGN KEY constraint failed'' \<or> contains ''not_governed''
      then MbpIntegrityFailure
      else if contains ''aggregate version overflow'' \<or> contains ''value exceeds SQLite INTEGER''
         \<or> contains ''idempotency expiry overflow'' then MbpInternalFailure
      else MbpDependencyUnavailable)"

definition binding_read_model :: "mailbox_binding \<Rightarrow> mailbox_binding_read_model" where
  "binding_read_model b =
     \<lparr>bm_binding_id = mxb_binding_id b, bm_provider = mxb_provider b, bm_status = mxb_status b, bm_version = mxb_version b\<rparr>"

definition d1_binding_port :: "mailbox_db mailbox_binding_port" where
  "d1_binding_port =
     \<lparr>bp_decide_replay = d1_decide_replay MbpDependencyUnavailable,
      bp_create_binding = (\<lambda>actor w db. case d1_create_binding actor w db of (r, db') \<Rightarrow> (res_map_err classify_binding_write_failure r, db')),
      bp_revoke_binding = (\<lambda>actor w db. case d1_revoke_binding actor w db of (r, db') \<Rightarrow> (res_map_err classify_binding_write_failure r, db')),
      bp_find_binding = (\<lambda>scope b db.
         res_map_err (\<lambda>_. MbpDependencyUnavailable) (res_bind (d1_find_binding scope b db) (\<lambda>x. Inr (map_option binding_read_model x))))\<rparr>"

end
