(* ===== verification/Mailbox_Binding_Laws.thy ===== *)
theory Mailbox_Binding_Laws
  imports Mailbox_Bindings
begin

text \<open>
  The catalogue database keeps the contract of a governed write for the binding commands; a created or
  revoked binding reads back as the binding the domain computes.
\<close>

section \<open>Committed insertions\<close>

lemma insert_binding_createE:
  assumes "insert_binding_create c db = Inr d"
  obtains "active_owner_row db (bc_tenant c) (bc_actor c)" "opaque_valid (bc_secret_handle c)"
    "md_bindings db (bc_tenant c, bc_binding_id c) = None" "(bc_tenant c, bc_command_id c) \<notin> md_binding_create_ids db"
    "d = db\<lparr>md_binding_create_ids := insert (bc_tenant c, bc_command_id c) (md_binding_create_ids db),
             md_bindings := (md_bindings db)((bc_tenant c, bc_binding_id c) \<mapsto>
               \<lparr>br_binding_id = bc_binding_id c, br_provider = bc_provider c, br_secret_handle = bc_secret_handle c,
                br_status = ''ACTIVE'', br_execution_status = ''ACTIVE'', br_version = 1,
                br_created_at_ms = bc_executed_at c, br_updated_at_ms = bc_executed_at c\<rparr>)\<rparr>"
  using assms by (simp add: insert_binding_create_def split: if_splits)

lemma insert_binding_revokeE:
  assumes "insert_binding_revoke c db = Inr d"
  obtains b where "active_owner_row db (bv_tenant c) (bv_actor c)" "md_bindings db (bv_tenant c, bv_binding_id c) = Some b"
    "br_status b = ''ACTIVE''" "br_version b = bv_expected_version c" "br_updated_at_ms b \<le> bv_executed_at c"
    "d = db\<lparr>md_binding_revoke_ids := insert (bv_tenant c, bv_command_id c) (md_binding_revoke_ids db),
            md_bindings := (md_bindings db)((bv_tenant c, bv_binding_id c) \<mapsto>
                   b\<lparr>br_status := ''REVOKED'', br_version := br_version b + 1, br_updated_at_ms := bv_executed_at c\<rparr>)\<rparr>"
  using assms by (simp add: insert_binding_revoke_def not_less split: if_splits option.splits)

definition binding_create_command_of :: "actor_context \<Rightarrow> mailbox_binding_create_write \<Rightarrow> binding_create_command" where
  "binding_create_command_of actor w =
     (let b = bw_binding w; tenant = scope_tenant_id (actor_tenant_scope actor) in
      \<lparr>bc_tenant = id_as_str tenant, bc_command_id = command_journal_id tenant (actor_actor_id actor) (ev_idempotency_key (bw_evidence w)),
       bc_actor = id_as_str (actor_actor_id actor), bc_binding_id = id_as_str (mxb_binding_id b),
       bc_provider = mailbox_provider_storage (mxb_provider b), bc_secret_handle = id_as_str (mxb_secret_handle b),
       bc_executed_at = uint (ev_now (bw_evidence w))\<rparr>)"

lemma d1_create_bindingE:
  assumes "d1_create_binding actor w db = (Inr u, db')"
  obtains d where "insert_binding_create (binding_create_command_of actor w) db = Inr d"
    "unat (ev_idempotency_expires_at (bw_evidence w)) < 2 ^ 63"
    "es_idempotency d (idempotency_key_of actor (envelope_of (bw_evidence w) (bw_event_payload_json w))) = None"
    "db' = record_evidence actor (envelope_of (bw_evidence w) (bw_event_payload_json w))
        (binding_evidence (mxb_binding_id (bw_binding w)) ''mailbox.binding_create'' ''created'' 1 ''mailbox.binding_created.v1'')
        (uint (ev_now (bw_evidence w))) (uint (ev_idempotency_expires_at (bw_evidence w))) d"
proof -
  obtain now ex where i: "sqlite_integer (ev_now (bw_evidence w)) = Inr now"
      "sqlite_integer (ev_idempotency_expires_at (bw_evidence w)) = Inr ex"
    and gb: "governed_batch actor (envelope_of (bw_evidence w) (bw_event_payload_json w))
        (insert_binding_create ((binding_create_command_of actor w)\<lparr>bc_executed_at := now\<rparr>))
        (binding_evidence (mxb_binding_id (bw_binding w)) ''mailbox.binding_create'' ''created'' 1 ''mailbox.binding_created.v1'')
        now ex db = (Inr u, db')"
    using assms by (auto simp: d1_create_binding_def binding_create_command_of_def Let_def or_return_Inr_iff)
  have n: "now = uint (ev_now (bw_evidence w))" and x: "ex = uint (ev_idempotency_expires_at (bw_evidence w))"
    "unat (ev_idempotency_expires_at (bw_evidence w)) < 2 ^ 63" using i by (simp_all add: sqlite_integer_Inr)
  have c: "(binding_create_command_of actor w)\<lparr>bc_executed_at := now\<rparr> = binding_create_command_of actor w"
    by (simp add: binding_create_command_of_def Let_def n)
  show ?thesis using gb[unfolded c] that x unfolding governed_batch_Inr n x(1) by blast
qed

definition binding_revoke_command_of :: "actor_context \<Rightarrow> mailbox_binding_revoke_write \<Rightarrow> binding_revoke_command" where
  "binding_revoke_command_of actor w =
     (let tenant = scope_tenant_id (actor_tenant_scope actor) in
      \<lparr>bv_tenant = id_as_str tenant, bv_command_id = command_journal_id tenant (actor_actor_id actor) (ev_idempotency_key (bx_evidence w)),
       bv_actor = id_as_str (actor_actor_id actor), bv_binding_id = id_as_str (bx_binding_id w),
       bv_expected_version = uint (version_value (bx_expected_version w)), bv_executed_at = uint (ev_now (bx_evidence w))\<rparr>)"

lemma d1_revoke_bindingE:
  assumes "d1_revoke_binding actor w db = (Inr u, db')"
  obtains v d where "version_next (bx_expected_version w) = Inr v"
    "insert_binding_revoke (binding_revoke_command_of actor w) db = Inr d"
    "unat (ev_idempotency_expires_at (bx_evidence w)) < 2 ^ 63"
    "es_idempotency d (idempotency_key_of actor (envelope_of (bx_evidence w) (bx_event_payload_json w))) = None"
    "db' = record_evidence actor (envelope_of (bx_evidence w) (bx_event_payload_json w))
        (binding_evidence (bx_binding_id w) ''mailbox.binding_revoke'' ''revoked'' (uint (version_value v)) ''mailbox.binding_revoked.v1'')
        (uint (ev_now (bx_evidence w))) (uint (ev_idempotency_expires_at (bx_evidence w))) d"
proof -
  obtain now ex agg expected where i: "sqlite_integer (ev_now (bx_evidence w)) = Inr now"
      "sqlite_integer (ev_idempotency_expires_at (bx_evidence w)) = Inr ex" "next_version_value (bx_expected_version w) = Inr agg"
      "sqlite_version (bx_expected_version w) = Inr expected"
    and gb: "governed_batch actor (envelope_of (bx_evidence w) (bx_event_payload_json w))
        (insert_binding_revoke ((binding_revoke_command_of actor w)\<lparr>bv_expected_version := expected, bv_executed_at := now\<rparr>))
        (binding_evidence (bx_binding_id w) ''mailbox.binding_revoke'' ''revoked'' agg ''mailbox.binding_revoked.v1'')
        now ex db = (Inr u, db')"
    using assms by (auto simp: d1_revoke_binding_def binding_revoke_command_of_def Let_def or_return_Inr_iff)
  have n: "now = uint (ev_now (bx_evidence w))" and x: "ex = uint (ev_idempotency_expires_at (bx_evidence w))"
    "unat (ev_idempotency_expires_at (bx_evidence w)) < 2 ^ 63" and e: "expected = uint (version_value (bx_expected_version w))"
    using i by (simp_all add: sqlite_integer_Inr sqlite_version_Inr)
  obtain v where v: "version_next (bx_expected_version w) = Inr v" "agg = uint (version_value v)"
    using i(3) by (auto simp: next_version_value_def res_bind_Inr_iff sqlite_version_Inr)
  have c: "(binding_revoke_command_of actor w)\<lparr>bv_expected_version := expected, bv_executed_at := now\<rparr> = binding_revoke_command_of actor w"
    by (simp add: binding_revoke_command_of_def Let_def n e)
  show ?thesis using gb[unfolded c] that x v(1) unfolding governed_batch_Inr n x(1) v(2) by blast
qed

section \<open>The contract\<close>

definition create_binding_receipt :: "mailbox_binding_create_write \<Rightarrow> replay_receipt" where
  "create_binding_receipt w = \<lparr>mr_result_code = ''created'', mr_result_reference = Some (id_as_str (mxb_binding_id (bw_binding w)))\<rparr>"

definition revoke_receipt :: "mailbox_binding_revoke_write \<Rightarrow> replay_receipt" where
  "revoke_receipt w = \<lparr>mr_result_code = ''revoked'', mr_result_reference = Some (id_as_str (bx_binding_id w))\<rparr>"

locale mailbox_binding_store =
  creates: governed_write "bp_decide_replay port" later "bp_create_binding port" bw_evidence mailbox_binding_create_command
    create_binding_receipt
  + revokes: governed_write "bp_decide_replay port" later "bp_revoke_binding port" bx_evidence mailbox_binding_revoke_command revoke_receipt
  for port :: "'s mailbox_binding_port" and later :: "'s \<Rightarrow> 's \<Rightarrow> bool"

lemma d1_create_binding_effect:
  assumes "d1_create_binding actor w db = (Inr u, db')"
  shows "commits_receipt actor (bw_evidence w) mailbox_binding_create_command (create_binding_receipt w) (es_idempotency db) (es_idempotency db')
     \<and> md_jobs db' = md_jobs db"
  using assms
proof (cases rule: d1_create_bindingE)
  case (1 d)
  have d: "es_idempotency d = es_idempotency db" "md_jobs d = md_jobs db" using 1(1) by (cases rule: insert_binding_createE; simp)+
  then show ?thesis
    using record_commits [of d "es_idempotency db" actor "bw_evidence w" "bw_event_payload_json w"
        "binding_evidence (mxb_binding_id (bw_binding w)) ''mailbox.binding_create'' ''created'' 1 ''mailbox.binding_created.v1''"] 1(2,3,4)
    by (simp add: binding_evidence_def create_binding_receipt_def mailbox_binding_create_command_def record_evidence_def)
qed

lemma d1_revoke_binding_effect:
  assumes "d1_revoke_binding actor w db = (Inr u, db')"
  shows "commits_receipt actor (bx_evidence w) mailbox_binding_revoke_command (revoke_receipt w) (es_idempotency db) (es_idempotency db')
     \<and> md_jobs db' = md_jobs db"
  using assms
proof (cases rule: d1_revoke_bindingE)
  case (1 v d)
  have d: "es_idempotency d = es_idempotency db" "md_jobs d = md_jobs db" using 1(2) by (cases rule: insert_binding_revokeE; simp)+
  then show ?thesis
    using record_commits [of d "es_idempotency db" actor "bx_evidence w" "bx_event_payload_json w"
        "binding_evidence (bx_binding_id w) ''mailbox.binding_revoke'' ''revoked'' (uint (version_value v)) ''mailbox.binding_revoked.v1''"] 1(3,4,5)
    by (simp add: binding_evidence_def revoke_receipt_def mailbox_binding_revoke_command_def record_evidence_def)
qed

lemma d1_create_binding_refused: "d1_create_binding actor w db = (Inl m, db') \<Longrightarrow> db' = db"
  by (auto simp: d1_create_binding_def Let_def or_return_Inl_iff governed_batch_Inl)

lemma d1_revoke_binding_refused: "d1_revoke_binding actor w db = (Inl m, db') \<Longrightarrow> db' = db"
  by (auto simp: d1_revoke_binding_def Let_def or_return_Inl_iff governed_batch_Inl)

lemma binding_port_cases:
  "bp_create_binding d1_binding_port a w s = (r, s') \<longleftrightarrow> (\<exists>r0. d1_create_binding a w s = (r0, s') \<and> res_map_err classify_binding_write_failure r0 = r)"
  "bp_revoke_binding d1_binding_port a x s = (r, s') \<longleftrightarrow> (\<exists>r0. d1_revoke_binding a x s = (r0, s') \<and> res_map_err classify_binding_write_failure r0 = r)"
  by (auto simp: d1_binding_port_def split: prod.splits)

lemma binding_port_decides [simp]: "bp_decide_replay d1_binding_port = d1_decide_replay MbpDependencyUnavailable"
  by (simp add: d1_binding_port_def)

interpretation d1_bindings: mailbox_binding_store d1_binding_port db_later
proof (unfold_locales, unfold binding_port_decides)
  fix a a' n e s s' s1 s2 d w cw x t u
  show "db_later s s" by (rule db_later_refl)
  show "db_later s t \<Longrightarrow> db_later t u \<Longrightarrow> db_later s u" by (rule db_later_trans)
  show "d1_decide_replay MbpDependencyUnavailable a n e s = (d, s') \<Longrightarrow> db_later s s'" by (simp add: d1_decide_frame)
  show "s' = s" if "bp_revoke_binding d1_binding_port a w s = (Inl x, s')"
    using that by (auto simp: binding_port_cases res_map_err_Inl_iff dest: d1_revoke_binding_refused)
  show "s' = s" if "bp_create_binding d1_binding_port a cw s = (Inl x, s')"
    using that by (auto simp: binding_port_cases res_map_err_Inl_iff dest: d1_create_binding_refused)
  show "db_later s s'" if "bp_revoke_binding d1_binding_port a w s = (Inr (), s')"
    using that by (auto simp: binding_port_cases db_later_def dest!: d1_revoke_binding_effect intro: commits_kept)
  show "db_later s s'" if "bp_create_binding d1_binding_port a cw s = (Inr (), s')"
    using that by (auto simp: binding_port_cases db_later_def dest!: d1_create_binding_effect intro: commits_kept)
  show "d1_decide_replay MbpDependencyUnavailable a' mailbox_binding_revoke_command e s2 = (Inr (ReplayHit (revoke_receipt w)), s2)"
    if "bp_revoke_binding d1_binding_port a w s = (Inr (), s1)" "db_later s1 s2" "same_caller a a'" "replayable (bx_evidence w) e"
    using that by (auto simp: binding_port_cases db_later_def intro: receipt_answered dest!: d1_revoke_binding_effect)
  show "d1_decide_replay MbpDependencyUnavailable a' mailbox_binding_create_command e s2 = (Inr (ReplayHit (create_binding_receipt cw)), s2)"
    if "bp_create_binding d1_binding_port a cw s = (Inr (), s1)" "db_later s1 s2" "same_caller a a'" "replayable (bw_evidence cw) e"
    using that by (auto simp: binding_port_cases db_later_def intro: receipt_answered dest!: d1_create_binding_effect)
qed

section \<open>What a request that is no replay writes\<close>

lemma create_binding_fresh:
  assumes "execute_create_mailbox_binding port actor role c s = (Inr out, s')" "\<not> bo_replayed out"
  obtains s1 where "role = TenantOwner"
    "bp_decide_replay port actor mailbox_binding_create_command (xb_evidence c) s = (Inr ReplayMiss, s1)"
    "bp_create_binding port actor
       \<lparr>bw_binding = mailbox_binding_create (scope_tenant_id (actor_tenant_scope actor)) (xb_binding_id c) (xb_provider c) (xb_secret_handle c),
        bw_evidence = xb_evidence c, bw_event_payload_json = mailbox_binding_event_payload\<rparr> s1 = (Inr (), s')"
proof -
  let ?b = "mailbox_binding_create (scope_tenant_id (actor_tenant_scope actor)) (xb_binding_id c) (xb_provider c) (xb_secret_handle c)"
  let ?replay = "\<lambda>r. Inr (create_binding_replay_outcome ?b r) :: mailbox_binding_operation_error + mailbox_binding_outcome"
  let ?decide = "bp_decide_replay port actor mailbox_binding_create_command (xb_evidence c)"
  have rp: "\<forall>r x. ?replay r = Inr x \<longrightarrow> bo_replayed x" by (auto simp: create_binding_replay_outcome_def)
  have role: "role = TenantOwner" and ur: "unless_replayed map_binding_port_error MboConflict (?decide s) ?replay (\<lambda>s1.
       settle_write map_binding_port_error MboConflict MbpConflict
         (bp_create_binding port actor \<lparr>bw_binding = ?b, bw_evidence = xb_evidence c, bw_event_payload_json = mailbox_binding_event_payload\<rparr> s1)
         ?decide ?replay
         \<lparr>bo_result_code = ''created'', bo_resource_id = id_as_str (mxb_binding_id ?b),
          bo_aggregate_version = version_initial, bo_replayed = False\<rparr>) = (Inr out, s')"
    using assms(1) by (auto simp: execute_create_mailbox_binding_def or_return_Inr_iff Let_def authorize_mailbox_binding_def split: if_splits)
  from ur show ?thesis
  proof (rule unless_replayed_fresh [where replayed = bo_replayed, OF _ assms(2) rp])
    fix s1 assume m: "?decide s = (Inr ReplayMiss, s1)"
      and w: "settle_write map_binding_port_error MboConflict MbpConflict
         (bp_create_binding port actor \<lparr>bw_binding = ?b, bw_evidence = xb_evidence c, bw_event_payload_json = mailbox_binding_event_payload\<rparr> s1)
         ?decide ?replay
         \<lparr>bo_result_code = ''created'', bo_resource_id = id_as_str (mxb_binding_id ?b),
          bo_aggregate_version = version_initial, bo_replayed = False\<rparr> = (Inr out, s')"
    from settle_write_fresh [where replayed = bo_replayed, OF w assms(2) rp] show ?thesis using that role m by blast
  qed
qed

lemma revoke_binding_fresh:
  assumes "execute_revoke_mailbox_binding port actor role c s = (Inr out, s')" "\<not> bo_replayed out"
  obtains s1 v where "role = TenantOwner" "version_next (xv_expected_version c) = Inr v" "bo_aggregate_version out = v"
    "bp_decide_replay port actor mailbox_binding_revoke_command (xv_evidence c) s = (Inr ReplayMiss, s1)"
    "bp_revoke_binding port actor
       \<lparr>bx_binding_id = xv_binding_id c, bx_expected_version = xv_expected_version c, bx_evidence = xv_evidence c,
             bx_event_payload_json = mailbox_binding_event_payload\<rparr> s1 = (Inr (), s')"
proof -
  let ?decide = "bp_decide_replay port actor mailbox_binding_revoke_command (xv_evidence c)"
  obtain v where role: "role = TenantOwner" and v: "version_next (xv_expected_version c) = Inr v"
    and ur: "unless_replayed map_binding_port_error MboConflict (?decide s) (\<lambda>r. Inr (revoke_replay_outcome (xv_binding_id c) v r)) (\<lambda>s1.
       settle_write map_binding_port_error MboConflict MbpConflict
         (bp_revoke_binding port actor
            \<lparr>bx_binding_id = xv_binding_id c, bx_expected_version = xv_expected_version c, bx_evidence = xv_evidence c,
             bx_event_payload_json = mailbox_binding_event_payload\<rparr> s1)
         ?decide (\<lambda>r. Inr (revoke_replay_outcome (xv_binding_id c) v r))
         \<lparr>bo_result_code = ''revoked'', bo_resource_id = id_as_str (xv_binding_id c),
          bo_aggregate_version = v, bo_replayed = False\<rparr>) = (Inr out, s')"
    using assms(1) by (auto simp: execute_revoke_mailbox_binding_def or_return_Inr_iff Let_def authorize_mailbox_binding_def split: if_splits)
  let ?replay = "\<lambda>r. Inr (revoke_replay_outcome (xv_binding_id c) v r) :: mailbox_binding_operation_error + mailbox_binding_outcome"
  have rp: "\<forall>r x. ?replay r = Inr x \<longrightarrow> bo_replayed x" by (auto simp: revoke_replay_outcome_def)
  from ur show ?thesis
  proof (rule unless_replayed_fresh [where replayed = bo_replayed, OF _ assms(2) rp])
    fix s1 assume m: "?decide s = (Inr ReplayMiss, s1)"
      and w: "settle_write map_binding_port_error MboConflict MbpConflict
         (bp_revoke_binding port actor
            \<lparr>bx_binding_id = xv_binding_id c, bx_expected_version = xv_expected_version c, bx_evidence = xv_evidence c,
             bx_event_payload_json = mailbox_binding_event_payload\<rparr> s1)
         ?decide ?replay
         \<lparr>bo_result_code = ''revoked'', bo_resource_id = id_as_str (xv_binding_id c),
          bo_aggregate_version = v, bo_replayed = False\<rparr> = (Inr out, s')"
    from settle_write_fresh [where replayed = bo_replayed, OF w assms(2) rp] show ?thesis using that [OF role v _ m] by auto
  qed
qed

section \<open>Rows read back\<close>

lemma binding_row_after_create:
  assumes "id_valid (mxb_binding_id b)" "id_valid (mxb_secret_handle b)" "mxb_tenant_id b = scope_tenant_id scope"
    "mxb_status b = BindingActive" "mxb_version b = version_initial"
  shows "binding_from_row scope \<lparr>br_binding_id = id_as_str (mxb_binding_id b), br_provider = mailbox_provider_storage (mxb_provider b),
      br_secret_handle = id_as_str (mxb_secret_handle b), br_status = ''ACTIVE'', br_execution_status = ''ACTIVE'', br_version = 1,
      br_created_at_ms = t, br_updated_at_ms = t'\<rparr> = Inr b"
  using assms
  by (cases b)
    (auto simp: binding_from_row_def mailbox_binding_status_parse_def positive_u64_def u64_of_i64_def version_new_def
      mailbox_binding_restore_def version_initial_def)

lemma binding_row_after_revoke:
  assumes row: "binding_from_row scope row = Inr b" and "br_status row = ''ACTIVE''"
    and active: "mxb_status b \<noteq> BindingRevoked" and v: "br_version row = uint (version_value v0)" "version_next v0 = Inr v1"
  shows "\<exists>b'. binding_revoke b = (Inr (), b') \<and> binding_from_row scope (row\<lparr>br_status := ''REVOKED'', br_version := br_version row + 1, br_updated_at_ms := t\<rparr>) = Inr b'
     \<and> mxb_version b = v0"
proof -
  have u: "uint (version_value v1) = uint (version_value v0) + 1" and nz: "version_value v1 \<noteq> 0"
  proof -
    show "uint (version_value v1) = uint (version_value v0) + 1"
      using arg_cong [OF version_next_Inr_iff [THEN iffD1, OF v(2)], of int] by simp
    show "version_value v1 \<noteq> 0" using version_next_word [OF v(2)] by blast
  qed
  have p: "positive_u64 (br_version row + 1) = Inr (version_value v1)"
    using u nz v(1) conjunct1 [OF version_next_word [OF v(2)]] by (auto simp: positive_u64_Inr)
  obtain st where st: "mailbox_binding_status_parse (br_execution_status row) = Inr st" "mxb_status b = st"
    and b: "mxb_version b = v0" "mxb_tenant_id b = scope_tenant_id scope"
      "id_parse (br_binding_id row) = Inr (mxb_binding_id b)" "mailbox_provider_parse (br_provider row) = Inr (mxb_provider b)"
      "id_parse (br_secret_handle row) = Inr (mxb_secret_handle b)"
    using row assms(2) v(1)
    by (cases v0) (auto simp: binding_from_row_def res_bind_Inr_iff mailbox_binding_restore_def positive_u64_Inr version_new_Inr_iff)
  have n: "version_new (version_value v1) = Inr v1" using nz by simp
  show ?thesis using st b v(2) p active n
    by (cases b) (auto simp: binding_revoke_def binding_bump_version_def or_return_def binding_from_row_def
        mailbox_binding_restore_def intro!: exI [of _ "b\<lparr>mxb_version := v1, mxb_status := BindingRevoked\<rparr>"])
qed

end
