(* ===== verification/Mailbox_History.thy ===== *)
theory Mailbox_History
  imports Mailbox_Binding_Laws
begin

text \<open>
  The mailbox tables through every sequence of committed writes, by any actors in any interleaving.  Each
  write is one batch, so an interleaving of requests is a sequence of the steps here.  Every row that such
  a sequence leaves can be read back, and a job row carries in its version the number of its attempts.
\<close>

section \<open>Histories\<close>

inductive mailbox_history :: "mailbox_db \<Rightarrow> bool" where
  opened: "md_bindings db = (\<lambda>_. None) \<Longrightarrow> md_jobs db = (\<lambda>_. None) \<Longrightarrow> mailbox_history db"
| binding_created: "mailbox_history db \<Longrightarrow> id_valid (mxb_binding_id (bw_binding w))
    \<Longrightarrow> d1_create_binding actor w db = (r, db') \<Longrightarrow> mailbox_history db'"
| binding_revoked: "mailbox_history db \<Longrightarrow> d1_revoke_binding actor v db = (r, db') \<Longrightarrow> mailbox_history db'"
| job_created: "mailbox_history db \<Longrightarrow> id_valid (jw_job_id c) \<Longrightarrow> d1_create_job actor c db = (r, db') \<Longrightarrow> mailbox_history db'"
| job_run: "mailbox_history db \<Longrightarrow> d1_run_job actor x db = (r, db') \<Longrightarrow> mailbox_history db'"
| elsewhere: "mailbox_history db \<Longrightarrow> md_bindings db' = md_bindings db \<Longrightarrow> md_jobs db' = md_jobs db \<Longrightarrow> mailbox_history db'"
  \<comment> \<open>memberships, replay decisions and the other tables\<close>

section \<open>The invariant\<close>

definition binding_row_wf :: "mailbox_binding_row \<Rightarrow> bool" where
  "binding_row_wf b \<longleftrightarrow> opaque_valid (br_binding_id b) \<and> opaque_valid (br_secret_handle b)
     \<and> (\<exists>p. mailbox_provider_parse (br_provider b) = Inr p)
     \<and> br_status b \<in> {''ACTIVE'', ''REVOKED''} \<and> br_execution_status b \<in> {''ACTIVE'', ''AUTH_REQUIRED'', ''SUSPENDED''}
     \<and> 1 \<le> br_version b \<and> br_version b \<le> sqlite_max_integer"

definition job_row_wf :: "mailbox_job_row \<Rightarrow> bool" where
  "job_row_wf j \<longleftrightarrow> opaque_valid (jr_job_id j)
     \<and> jr_lifecycle_status j \<in> {''SCHEDULED'', ''RETRY_PENDING'', ''AUTH_REQUIRED'', ''SUSPENDED'', ''SUCCEEDED'', ''FAILED''}
     \<and> (jr_lifecycle_status j = ''SCHEDULED'' \<longleftrightarrow> jr_attempt j = 0)
     \<and> 0 \<le> jr_attempt j \<and> jr_attempt j \<le> jr_max_attempts j \<and> 1 \<le> jr_max_attempts j \<and> jr_max_attempts j \<le> 10
     \<and> jr_version j = 1 + 3 * jr_attempt j \<and> 0 \<le> jr_next_run_at_ms j
     \<and> validate_cursor (jr_cursor j) = Inr () \<and> 0 \<le> jr_bounded_item_count j \<and> jr_bounded_item_count j \<le> 10000
     \<and> (\<forall>s. jr_provider_status j = Some s \<longrightarrow> validate_provider_status s = Inr ())"

definition mailbox_rows_wf :: "mailbox_db \<Rightarrow> bool" where
  "mailbox_rows_wf db \<longleftrightarrow> (\<forall>k b. md_bindings db k = Some b \<longrightarrow> binding_row_wf b) \<and> (\<forall>k j. md_jobs db k = Some j \<longrightarrow> job_row_wf j)"

lemma rows_wf_same: "md_bindings db' = md_bindings db \<Longrightarrow> md_jobs db' = md_jobs db \<Longrightarrow> mailbox_rows_wf db' = mailbox_rows_wf db"
  by (simp add: mailbox_rows_wf_def)

lemma rows_wf_binding: "mailbox_rows_wf db \<Longrightarrow> binding_row_wf b \<Longrightarrow> mailbox_rows_wf (db\<lparr>md_bindings := (md_bindings db)(k \<mapsto> b)\<rparr>)"
  by (simp add: mailbox_rows_wf_def)

lemma rows_wf_job: "mailbox_rows_wf db \<Longrightarrow> job_row_wf j \<Longrightarrow> mailbox_rows_wf (db\<lparr>md_jobs := (md_jobs db)(k \<mapsto> j)\<rparr>)"
  by (simp add: mailbox_rows_wf_def)

lemma record_rows [simp]:
  "md_bindings (record_evidence actor env e now ex db) = md_bindings db" "md_jobs (record_evidence actor env e now ex db) = md_jobs db"
  by (simp_all add: record_evidence_def)

lemma provider_storage_parse [simp]: "mailbox_provider_parse (mailbox_provider_storage p) = Inr p"
  by (cases p) (simp_all add: mailbox_provider_parse_def)

section \<open>Every write keeps it\<close>

lemma binding_create_wf:
  assumes "mailbox_rows_wf db" "insert_binding_create c db = Inr d" "opaque_valid (bc_binding_id c)" "bc_provider c = mailbox_provider_storage p"
  shows "mailbox_rows_wf d"
  using assms(2)
proof (cases rule: insert_binding_createE)
  case 1
  show ?thesis unfolding 1 using 1(2) assms
    by (intro mailbox_rows_wf_def [THEN iffD2]) (auto simp: mailbox_rows_wf_def binding_row_wf_def sqlite_max_integer_def split: if_splits)
qed

lemma binding_revoke_wf:
  assumes "mailbox_rows_wf db" "insert_binding_revoke c db = Inr d"
  shows "mailbox_rows_wf d"
proof -
  obtain b where b: "md_bindings db (bv_tenant c, bv_binding_id c) = Some b" "br_version b \<noteq> sqlite_max_integer"
    and d: "d = db\<lparr>md_binding_revoke_ids := insert (bv_tenant c, bv_command_id c) (md_binding_revoke_ids db),
            md_bindings := (md_bindings db)((bv_tenant c, bv_binding_id c) \<mapsto>
                   b\<lparr>br_status := ''REVOKED'', br_version := br_version b + 1, br_updated_at_ms := bv_executed_at c\<rparr>)\<rparr>"
    using assms(2) by (simp add: insert_binding_revoke_def split: if_splits option.splits)
  have "binding_row_wf b" using assms(1) b(1) by (simp add: mailbox_rows_wf_def)
  then show ?thesis unfolding d using assms(1) b(2) by (auto simp: mailbox_rows_wf_def binding_row_wf_def)
qed

lemma job_create_wf:
  assumes "mailbox_rows_wf db" "insert_job_create c db = Inr d" "opaque_valid (jc_job_id c)" "validate_cursor (jc_cursor c) = Inr ()"
    "0 \<le> jc_scheduled_at c"
  shows "mailbox_rows_wf d"
  using assms(2)
proof (cases rule: insert_job_createE)
  case (1 b)
  have "job_row_wf \<lparr>jr_job_id = jc_job_id c, jr_cursor = jc_cursor c, jr_lifecycle_status = ''SCHEDULED'', jr_attempt = 0,
                    jr_max_attempts = jc_max_attempts c, jr_next_run_at_ms = jc_scheduled_at c, jr_provider_status = None,
                    jr_bounded_item_count = 0, jr_version = 1, jr_updated_at_ms = jc_executed_at c\<rparr>"
    using 1(5,6) assms(3-5) by (simp add: job_row_wf_def)
  then show ?thesis unfolding 1 using assms(1) by (auto simp: mailbox_rows_wf_def)
qed

lemma job_row_run_wf:
  assumes "job_row_wf j" "job_run_refusal c b j = None" "validate_cursor (jx_next_cursor c) = Inr ()"
    "validate_provider_status (jx_provider_status c) = Inr ()" "\<forall>t. jx_retry_at_ms c = Some t \<longrightarrow> 0 \<le> t"
  shows "job_row_wf (job_run_applied c j)"
proof -
  have r: "jr_attempt j < jr_max_attempts j" "jx_outcome_status c \<in> {''RETRY_PENDING'', ''AUTH_REQUIRED'', ''SUSPENDED'', ''SUCCEEDED'', ''FAILED''}"
    "0 \<le> jx_bounded_item_count c" "jx_bounded_item_count c \<le> 10000"
    using assms(2) by (simp_all add: job_run_refusal_def split: if_splits)
  note w = assms(1)[unfolded job_row_wf_def]
  have b: "opaque_valid (jr_job_id j)" "0 \<le> jr_attempt j" "1 \<le> jr_max_attempts j" "jr_max_attempts j \<le> 10"
    "jr_version j = 1 + 3 * jr_attempt j" "0 \<le> jr_next_run_at_ms j" "validate_cursor (jr_cursor j) = Inr ()"
    using w by blast+
  have n: "0 \<le> jr_next_run_at_ms (job_run_applied c j)"
    using b(6) assms(5) by (simp add: job_run_applied_def split: option.splits)
  have f: "jr_job_id (job_run_applied c j) = jr_job_id j" "jr_lifecycle_status (job_run_applied c j) = jx_outcome_status c"
    "jr_attempt (job_run_applied c j) = jr_attempt j + 1" "jr_max_attempts (job_run_applied c j) = jr_max_attempts j"
    "jr_version (job_run_applied c j) = jr_version j + 3" "jr_provider_status (job_run_applied c j) = Some (jx_provider_status c)"
    "jr_bounded_item_count (job_run_applied c j) = jx_bounded_item_count c" by (simp_all add: job_run_applied_def)
  have cur: "validate_cursor (jr_cursor (job_run_applied c j)) = Inr ()" using assms(3) b(7) by (simp add: job_run_applied_def)
  have l: "jx_outcome_status c \<noteq> ''SCHEDULED''" using r(2) by (elim insertE) simp_all
  have m: "jx_outcome_status c \<in> insert ''SCHEDULED'' {''RETRY_PENDING'', ''AUTH_REQUIRED'', ''SUSPENDED'', ''SUCCEEDED'', ''FAILED''}"
    using r(2) by (rule insertI2)
  have num: "0 \<le> jr_attempt j + 1" "jr_attempt j + 1 \<le> jr_max_attempts j" "jr_version j + 3 = 1 + 3 * (jr_attempt j + 1)"
    "(jx_outcome_status c = ''SCHEDULED'') = (jr_attempt j + 1 = 0)" using b(2,5) r(1) l by simp_all
  have ps: "\<forall>s. Some (jx_provider_status c) = Some s \<longrightarrow> validate_provider_status s = Inr ()" using assms(4) by simp
  show ?thesis unfolding job_row_wf_def f
    by (intro conjI) (fact b num n r cur m ps)+
qed

lemma binding_row_run_wf: "binding_row_wf b \<Longrightarrow> binding_update_refusal c b = None \<Longrightarrow> binding_row_wf (binding_run_applied c b)"
  by (auto simp: binding_row_wf_def binding_run_applied_def binding_update_refusal_def split: if_splits)

lemma job_run_wf:
  assumes "mailbox_rows_wf db" "insert_job_run c db = Inr d" "validate_cursor (jx_next_cursor c) = Inr ()"
    "validate_provider_status (jx_provider_status c) = Inr ()" "\<forall>t. jx_retry_at_ms c = Some t \<longrightarrow> 0 \<le> t"
  shows "mailbox_rows_wf d"
  using assms(2)
proof (cases rule: insert_job_runE)
  case (1 b j)
  have "binding_row_wf (binding_run_applied c b)" "job_row_wf (job_run_applied c j)"
    using assms 1 by (auto intro!: binding_row_run_wf job_row_run_wf simp: mailbox_rows_wf_def)
  then show ?thesis unfolding 1 using assms(1) by (auto simp: mailbox_rows_wf_def)
qed

lemma d1_create_binding_wf:
  assumes wf: "mailbox_rows_wf db" and "id_valid (mxb_binding_id (bw_binding w))" and put: "d1_create_binding actor w db = (r, db')"
  shows "mailbox_rows_wf db'"
proof (cases r)
  case (Inl m)
  then show ?thesis using put wf d1_create_binding_refused [of actor w db m db'] by simp
next
  case (Inr u)
  with put have "d1_create_binding actor w db = (Inr u, db')" by simp
  then show ?thesis
  proof (cases rule: d1_create_bindingE)
    case (1 d)
    have "mailbox_rows_wf d"
      by (rule binding_create_wf [OF wf 1(1)]) (use assms(2) in \<open>simp_all add: binding_create_command_of_def Let_def id_valid_def\<close>)
    then show ?thesis using rows_wf_same [of db' d] by (simp add: 1(4))
  qed
qed

lemma d1_revoke_binding_wf:
  assumes wf: "mailbox_rows_wf db" and put: "d1_revoke_binding actor w db = (r, db')"
  shows "mailbox_rows_wf db'"
proof (cases r)
  case (Inl m)
  then show ?thesis using put wf d1_revoke_binding_refused [of actor w db m db'] by simp
next
  case (Inr u)
  with put have "d1_revoke_binding actor w db = (Inr u, db')" by simp
  then show ?thesis
  proof (cases rule: d1_revoke_bindingE)
    case (1 v d)
    have "mailbox_rows_wf d"
      by (rule binding_revoke_wf [OF wf 1(2)]) 
    then show ?thesis using rows_wf_same [of db' d] by (simp add: 1(5))
  qed
qed

lemma d1_create_job_wf:
  assumes wf: "mailbox_rows_wf db" and "id_valid (jw_job_id w)" and put: "d1_create_job actor w db = (r, db')"
  shows "mailbox_rows_wf db'"
proof (cases r)
  case (Inl m)
  then show ?thesis using put wf d1_create_job_refused [of actor w db m db'] by simp
next
  case (Inr u)
  with put have "d1_create_job actor w db = (Inr u, db')" by simp
  then show ?thesis
  proof (cases rule: d1_create_jobE)
    case (1 d)
    have "mailbox_rows_wf d"
      by (rule job_create_wf [OF wf 1(2)]) (use assms(2) 1(1) in \<open>simp_all add: job_create_command_of_def Let_def id_valid_def\<close>)
    then show ?thesis using rows_wf_same [of db' d] by (simp add: 1(5))
  qed
qed

lemma d1_run_job_wf:
  assumes wf: "mailbox_rows_wf db" and put: "d1_run_job actor w db = (r, db')"
  shows "mailbox_rows_wf db'"
proof (cases r)
  case (Inl m)
  then show ?thesis using put wf d1_run_job_refused [of actor w db m db'] by simp
next
  case (Inr u)
  with put have "d1_run_job actor w db = (Inr u, db')" by simp
  then show ?thesis
  proof (cases rule: d1_run_jobE)
    case (1 code event d)
    have "mailbox_rows_wf d"
      by (rule job_run_wf [OF wf 1(6)]) (use 1(1,2) in \<open>auto simp: job_run_command_of_def Let_def\<close>)
    then show ?thesis using rows_wf_same [of db' d] by (simp add: 1(8))
  qed
qed

lemma history_rows_wf: "mailbox_history db \<Longrightarrow> mailbox_rows_wf db"
proof (induction rule: mailbox_history.induct)
  case (elsewhere db db')
  then show ?case by (simp add: mailbox_rows_wf_def)
next
  case (opened db)
  then show ?case by (simp add: mailbox_rows_wf_def)
qed (blast intro: d1_create_binding_wf d1_revoke_binding_wf d1_create_job_wf d1_run_job_wf)+

section \<open>The use cases are histories\<close>

lemma or_return_history:
  "mailbox_history s \<Longrightarrow> (\<And>x. r = Inr x \<Longrightarrow> mailbox_history (snd (f x))) \<Longrightarrow> mailbox_history (snd (or_return r s f))"
  by (cases r) simp_all

lemma unless_replayed_history:
  "mailbox_history (snd d) \<Longrightarrow> (\<And>s. mailbox_history s \<Longrightarrow> mailbox_history (snd (go s)))
   \<Longrightarrow> mailbox_history (snd (unless_replayed map_err conflict d replay go))"
  by (auto simp: unless_replayed_def split: prod.split sum.split replay_decision.split)

lemma settle_write_history:
  "mailbox_history (snd written) \<Longrightarrow> (\<And>s. mailbox_history s \<Longrightarrow> mailbox_history (snd (decide s)))
   \<Longrightarrow> mailbox_history (snd (settle_write map_err conflict class written decide replay outcome))"
  by (auto simp: settle_write_def split: prod.split sum.split intro!: unless_replayed_history)

lemma decided_history: "mailbox_history s \<Longrightarrow> mailbox_history (snd (d1_decide_replay x a n e s))"
  using d1_decide_frame [of x a n e s] by (metis mailbox_history.elsewhere prod.collapse)

lemma written_history:
  "mailbox_history s \<Longrightarrow> id_valid (mxb_binding_id (bw_binding w)) \<Longrightarrow> mailbox_history (snd (bp_create_binding d1_binding_port actor w s))"
  "mailbox_history s \<Longrightarrow> id_valid (jw_job_id v) \<Longrightarrow> mailbox_history (snd (jp_create_job d1_job_port actor v s))"
  "mailbox_history s \<Longrightarrow> mailbox_history (snd (jp_run_job d1_job_port actor x s))"
  by (auto simp: d1_binding_port_def d1_job_port_def split: prod.split
      intro: mailbox_history.binding_created mailbox_history.job_created mailbox_history.job_run)

lemma port_decides_history:
  "mailbox_history s \<Longrightarrow> mailbox_history (snd (bp_decide_replay d1_binding_port actor n e s))"
  "mailbox_history s \<Longrightarrow> mailbox_history (snd (jp_decide_replay d1_job_port actor n e s))"
  by (simp_all add: d1_binding_port_def d1_job_port_def decided_history)

lemmas use_case_history = or_return_history unless_replayed_history settle_write_history written_history port_decides_history

lemma create_binding_history:
  "mailbox_history s \<Longrightarrow> id_valid (xb_binding_id c)
   \<Longrightarrow> mailbox_history (snd (execute_create_mailbox_binding d1_binding_port actor role c s))"
  unfolding execute_create_mailbox_binding_def Let_def
  by (intro use_case_history) (simp_all add: mailbox_binding_create_def)

lemma create_job_history:
  "mailbox_history s \<Longrightarrow> id_valid (xc_job_id c)
   \<Longrightarrow> mailbox_history (snd (execute_create_mailbox_job d1_job_port actor role c s))"
  unfolding execute_create_mailbox_job_def Let_def by (intro use_case_history) simp_all

lemma prepared_history:
  "mailbox_history s \<Longrightarrow> (\<And>b j t. mailbox_history t \<Longrightarrow> mailbox_history (snd (provider b j t)))
   \<Longrightarrow> mailbox_history (snd (prepare_mailbox_run binding job now provider s))"
  by (auto simp: prepare_mailbox_run_def split: prod.split sum.split) (metis snd_conv)+

lemma run_job_history:
  assumes "mailbox_history s" "\<And>b j t. mailbox_history t \<Longrightarrow> mailbox_history (snd (provider b j t))"
  shows "mailbox_history (snd (execute_run_mailbox_job d1_job_port provider actor role c s))"
proof -
  have "mailbox_history (snd (run_fresh_mailbox_job d1_job_port provider actor c v t))" if t: "mailbox_history t" for v t
  proof -
    have p: "mailbox_history s2" if "prepare_mailbox_run binding job now provider t = (r, s2)" for binding job now r s2
      using prepared_history [OF t, of provider binding job now] assms(2) that by simp
    show ?thesis
      unfolding run_fresh_mailbox_job_def
      by (auto intro!: use_case_history t split: prod.split sum.split) (erule p decided_history)+
  qed
  then show ?thesis unfolding execute_run_mailbox_job_def by (intro use_case_history assms(1)) simp_all
qed

section \<open>Rows that keep it are read back\<close>

lemma of_int_in_range: "1 \<le> i \<Longrightarrow> i < 2 ^ 64 \<Longrightarrow> (word_of_int i :: u64) \<noteq> 0"
proof -
  assume "1 \<le> i" "i < 2 ^ 64"
  then have "uint (word_of_int i :: u64) = i" by (simp add: uint_word_of_int_eq take_bit_int_eq_self)
  with \<open>1 \<le> i\<close> show ?thesis by auto
qed

lemma wf_binding_reads: "binding_row_wf row \<Longrightarrow> \<exists>b. binding_from_row scope row = Inr b"
  using of_int_in_range [of "br_version row"]
  by (auto simp: binding_from_row_def binding_row_wf_def mailbox_binding_status_parse_def id_parse_alt positive_u64_def u64_of_i64_def
      version_new_def sqlite_max_integer_def)

lemma wf_job_reads:
  assumes "job_row_wf row"
  shows "\<exists>rm. job_from_row scope bid row = Inr rm \<and> uint (mxj_attempt (jm_job rm)) = jr_attempt row
     \<and> uint (mxj_max_attempts (jm_job rm)) = jr_max_attempts row \<and> uint (version_value (mxj_version (jm_job rm))) = jr_version row
     \<and> mailbox_job_status_storage (mxj_status (jm_job rm)) = jr_lifecycle_status row"
proof -
  have small: "uint (of_int i :: u32) = i" if "0 \<le> i" "i \<le> 10000" for i
    using that by (simp add: uint_word_of_int_eq take_bit_int_eq_self)
  have wide: "uint (of_int i :: u64) = i" if "0 \<le> i" "i \<le> 10000" for i
    using that by (simp add: uint_word_of_int_eq take_bit_int_eq_self)
  obtain st where st: "mailbox_job_status_parse (jr_lifecycle_status row) = Inr st" "mailbox_job_status_storage st = jr_lifecycle_status row"
    using assms by (auto simp: job_row_wf_def mailbox_job_status_parse_def)
  note w = assms[unfolded job_row_wf_def]
  let ?rm = "\<lparr>jm_job = \<lparr>mxj_tenant_id = scope_tenant_id scope, mxj_binding_id = bid, mxj_job_id = TypedId (OpaqueId (jr_job_id row)),
      mxj_cursor = jr_cursor row, mxj_status = st, mxj_attempt = of_int (jr_attempt row), mxj_max_attempts = of_int (jr_max_attempts row),
      mxj_next_run_at = of_int (jr_next_run_at_ms row), mxj_version = AggregateVersion (of_int (jr_version row))\<rparr>,
      jm_provider_status = jr_provider_status row, jm_bounded_item_count = of_int (jr_bounded_item_count row)\<rparr>"
  have u: "uint (of_int (jr_attempt row) :: u32) = jr_attempt row" "uint (of_int (jr_max_attempts row) :: u32) = jr_max_attempts row"
    "uint (of_int (jr_bounded_item_count row) :: u32) = jr_bounded_item_count row" "uint (of_int (jr_version row) :: u64) = jr_version row"
    using w by (intro small wide; linarith)+
  have nz: "(of_int (jr_version row) :: u64) \<noteq> 0" "(of_int (jr_max_attempts row) :: u32) \<noteq> 0" using u(2,4) w by auto
  have le: "(of_int (jr_bounded_item_count row) :: u32) \<le> 10000" "(of_int (jr_attempt row) :: u32) \<le> of_int (jr_max_attempts row)"
    "(of_int (jr_max_attempts row) :: u32) \<le> 10"
    unfolding word_le_def u using w by simp_all
  then have "validate_max_attempts (of_int (jr_max_attempts row)) = Inr ()"
    using nz(2) by (simp add: validate_max_attempts_def mailbox_max_job_attempts_def)
  moreover have "0 \<le> jr_version row" "jr_max_attempts row \<noteq> 0" using w by linarith+
  moreover have "\<forall>s. jr_provider_status row = Some s \<longrightarrow> validate_provider_status s = Inr ()" "validate_cursor (jr_cursor row) = Inr ()"
    "opaque_valid (jr_job_id row)" "0 \<le> jr_next_run_at_ms row" using w by blast+
  ultimately have "row_represents scope bid row ?rm"
    unfolding row_represents_def Let_def using u nz st(1) le
    by (intro conjI) (simp_all only: mailbox_job.simps mailbox_job_read_model.simps aggregate_version.sel, simp_all)
  then show ?thesis using u st by (intro exI [of _ ?rm]) (simp add: job_from_row_iff)
qed

lemma readable_lookups:
  assumes "mailbox_rows_wf db"
  shows "(\<exists>x. d1_find_binding scope b db = Inr x)
     \<and> (\<exists>y. d1_find_job scope b j db = Inr y
          \<and> (\<forall>rm. y = Some rm \<longrightarrow> mxj_attempt (jm_job rm) \<le> mxj_max_attempts (jm_job rm) \<and> mxj_max_attempts (jm_job rm) \<le> 10
               \<and> unat (version_value (mxj_version (jm_job rm))) = 1 + 3 * unat (mxj_attempt (jm_job rm))
               \<and> (mxj_status (jm_job rm) = MxScheduled \<longleftrightarrow> mxj_attempt (jm_job rm) = 0)))"
proof
  let ?kb = "(id_as_str (scope_tenant_id scope), id_as_str b)"
  show "\<exists>x. d1_find_binding scope b db = Inr x"
  proof (cases "md_bindings db ?kb")
    case (Some row)
    then have "binding_row_wf row" using assms by (simp add: mailbox_rows_wf_def)
    then show ?thesis using Some wf_binding_reads [of row scope] by (auto simp: d1_find_binding_def)
  qed (simp add: d1_find_binding_def)
  let ?k = "(id_as_str (scope_tenant_id scope), id_as_str b, id_as_str j)"
  show "\<exists>y. d1_find_job scope b j db = Inr y
          \<and> (\<forall>rm. y = Some rm \<longrightarrow> mxj_attempt (jm_job rm) \<le> mxj_max_attempts (jm_job rm) \<and> mxj_max_attempts (jm_job rm) \<le> 10
               \<and> unat (version_value (mxj_version (jm_job rm))) = 1 + 3 * unat (mxj_attempt (jm_job rm))
               \<and> (mxj_status (jm_job rm) = MxScheduled \<longleftrightarrow> mxj_attempt (jm_job rm) = 0))"
  proof (cases "md_jobs db ?k")
    case None
    then show ?thesis by (simp add: d1_find_job_def)
  next
    case (Some row)
    then have w: "job_row_wf row" using assms by (simp add: mailbox_rows_wf_def)
    obtain rm where rm: "job_from_row scope b row = Inr rm" "uint (mxj_attempt (jm_job rm)) = jr_attempt row"
      "uint (mxj_max_attempts (jm_job rm)) = jr_max_attempts row" "uint (version_value (mxj_version (jm_job rm))) = jr_version row"
      "mailbox_job_status_storage (mxj_status (jm_job rm)) = jr_lifecycle_status row"
      using wf_job_reads [OF w] by blast
    have n: "jr_attempt row \<le> jr_max_attempts row" "jr_max_attempts row \<le> 10" "jr_version row = 1 + 3 * jr_attempt row"
      "jr_lifecycle_status row = ''SCHEDULED'' \<longleftrightarrow> jr_attempt row = 0"
      using w unfolding job_row_wf_def by blast+
    have "int (unat (version_value (mxj_version (jm_job rm)))) = int (1 + 3 * unat (mxj_attempt (jm_job rm)))"
      using rm(2,4) n(3) by simp
    then have v: "unat (version_value (mxj_version (jm_job rm))) = 1 + 3 * unat (mxj_attempt (jm_job rm))" by (simp only: of_nat_eq_iff)
    have st: "mxj_status (jm_job rm) = MxScheduled \<longleftrightarrow> mxj_attempt (jm_job rm) = 0"
    proof -
      have "mxj_attempt (jm_job rm) = 0 \<longleftrightarrow> jr_attempt row = 0" unfolding rm(2) [symmetric] by (rule unsigned_eq_0_iff [symmetric])
      then show ?thesis using rm(5) n(4) by (cases "mxj_status (jm_job rm)") auto
    qed
    show ?thesis using Some rm(1) rm(2,3) n(1,2) v st by (intro exI [of _ "Some rm"]) (simp add: d1_find_job_def word_le_def)
  qed
qed

end
