(* ===== verification/Mailbox_Properties.thy ===== *)
theory Mailbox_Properties
  imports Mailbox_History
begin

text \<open>
  The properties of the mailbox commands over the catalogue database, each with a concrete instance.
\<close>

section \<open>A concrete mailbox\<close>

definition mailbox_sample_scope :: tenant_scope where
  "mailbox_sample_scope = \<lparr>scope_tenant_id = TypedId (OpaqueId ''tenant_0001'')\<rparr>"

definition mailbox_sample_actor :: actor_context where
  "mailbox_sample_actor = \<lparr>actor_tenant_scope = mailbox_sample_scope, actor_actor_id = TypedId (OpaqueId ''owner_0001''),
     actor_correlation_id = TypedId (OpaqueId ''request_0001'')\<rparr>"

definition mailbox_sample_evidence :: "string \<Rightarrow> u64 \<Rightarrow> command_evidence" where
  "mailbox_sample_evidence key now =
     \<lparr>ev_idempotency_key = TypedId (OpaqueId key), ev_payload_fingerprint = PayloadFingerprint (replicate 64 (CHR ''a'')),
      ev_audit_event_id = TypedId (OpaqueId (''audit_'' @ key)), ev_outbox_event_id = TypedId (OpaqueId (''outbox_'' @ key)),
      ev_now = now, ev_idempotency_expires_at = now + 86400000\<rparr>"

definition mailbox_sample_db :: mailbox_db where
  "mailbox_sample_db =
     \<lparr>es_idempotency = (\<lambda>_. None), es_audit = (\<lambda>_. None), es_outbox = (\<lambda>_. None),
      md_memberships = (\<lambda>_. None)((''tenant_0001'', ''owner_0001'') := Some
        \<lparr>mb_tenant_id = TypedId (OpaqueId ''tenant_0001''), mb_actor_id = TypedId (OpaqueId ''owner_0001''),
         mb_role = TenantOwner, mb_status = MembershipActive\<rparr>),
      md_bindings = (\<lambda>_. None), md_jobs = (\<lambda>_. None), md_binding_create_ids = {}, md_binding_revoke_ids = {},
      md_job_create_ids = {}, md_job_run_ids = {}, md_active_clients = {}, md_associations = (\<lambda>_. None),
      md_association_history = (\<lambda>_. None), md_association_ids = {}\<rparr>"

definition mailbox_sample_create :: execute_create_binding where
  "mailbox_sample_create = \<lparr>xb_binding_id = TypedId (OpaqueId ''binding_0001''), xb_provider = MicrosoftGraph,
     xb_secret_handle = TypedId (OpaqueId ''handle_0001''), xb_evidence = mailbox_sample_evidence ''key_0001'' 1000\<rparr>"

definition mailbox_sample_bound :: mailbox_db where
  "mailbox_sample_bound = snd (execute_create_mailbox_binding d1_binding_port mailbox_sample_actor TenantOwner mailbox_sample_create mailbox_sample_db)"

definition mailbox_sample_job :: execute_create_job where
  "mailbox_sample_job = \<lparr>xc_binding_id = TypedId (OpaqueId ''binding_0001''), xc_job_id = TypedId (OpaqueId ''job_00000001''),
     xc_cursor = None, xc_delay_ms = 500, xc_max_attempts = 3, xc_evidence = mailbox_sample_evidence ''key_0002'' 2000\<rparr>"

definition mailbox_sample_scheduled :: mailbox_db where
  "mailbox_sample_scheduled = snd (execute_create_mailbox_job d1_job_port mailbox_sample_actor TenantOwner mailbox_sample_job mailbox_sample_bound)"

definition mailbox_sample_run :: execute_run_job where
  "mailbox_sample_run = \<lparr>xr_binding_id = TypedId (OpaqueId ''binding_0001''), xr_job_id = TypedId (OpaqueId ''job_00000001''),
     xr_expected_version = AggregateVersion 1, xr_evidence = mailbox_sample_evidence ''key_0003'' 3000\<rparr>"

definition mailbox_sample_provider :: "mailbox_db mailbox_provider_port" where
  \<comment> \<open>a provider that throttles\<close>
  "mailbox_sample_provider b j db = (Inl (ProviderFailed \<lparr>pf_class = PfRateLimited, pf_retry_at = Some 63000\<rparr>), db)"

abbreviation mailbox_sample_outcome :: "mailbox_job_operation_error + mailbox_job_outcome" where
  "mailbox_sample_outcome \<equiv> fst (execute_run_mailbox_job d1_job_port mailbox_sample_provider mailbox_sample_actor TenantOwner
      mailbox_sample_run mailbox_sample_scheduled)"

definition mailbox_sample_after :: mailbox_db where
  "mailbox_sample_after = snd (execute_run_mailbox_job d1_job_port mailbox_sample_provider mailbox_sample_actor TenantOwner
      mailbox_sample_run mailbox_sample_scheduled)"

definition mailbox_sample_result :: mailbox_job_outcome where
  "mailbox_sample_result = \<lparr>mo_result_code = ''retry_pending'', mo_resource_id = ''job_00000001'',
     mo_aggregate_version = AggregateVersion 4, mo_replayed = False\<rparr>"

lemma mailbox_sample_runs: "mailbox_sample_outcome = Inr mailbox_sample_result"
  by code_simp

lemma mailbox_sample_ran:
  "execute_run_mailbox_job d1_job_port mailbox_sample_provider mailbox_sample_actor TenantOwner mailbox_sample_run mailbox_sample_scheduled
     = (Inr mailbox_sample_result, mailbox_sample_after)"
  using mailbox_sample_runs by (simp add: mailbox_sample_after_def prod_eq_iff)

lemma mailbox_sample_fair: "db_later t (snd (mailbox_sample_provider b j t))"
  by (simp add: mailbox_sample_provider_def db_later_refl)

section \<open>A run stores what the domain computes\<close>

text \<open>
  C27: When a run of a mailbox job succeeds and is no replay, the row that it leaves reads back as the
  job that queueing, starting and applying the report of the provider compute from the job that was stored,
  whatever other requests did to the database while the provider was at work.
\<close>
theorem mailbox_run_stores_domain_job:
  assumes "execute_run_mailbox_job d1_job_port provider actor role c s = (Inr out, s')" "\<not> mo_replayed out"
    and "\<And>b j t. db_later t (snd (provider b j t))"
  shows "\<exists>b rm queued running t p rm'.
     d1_find_binding (actor_tenant_scope actor) (xr_binding_id c) s = Inr (Some b)
     \<and> d1_find_job (actor_tenant_scope actor) (xr_binding_id c) (xr_job_id c) s = Inr (Some rm)
     \<and> mxj_version (jm_job rm) = xr_expected_version c
     \<and> mailbox_job_queue (ev_now (xr_evidence c)) (jm_job rm) = (Inr (), queued)
     \<and> mailbox_job_start b queued = (Inr (), running)
     \<and> apply_provider_result b running (ev_now (xr_evidence c)) (fst (provider b running t)) = (Inr p, jm_job rm')
     \<and> d1_find_job (actor_tenant_scope actor) (xr_binding_id c) (xr_job_id c) s' = Inr (Some rm')
     \<and> mo_aggregate_version out = mxj_version (jm_job rm')"
  using assms
proof (cases rule: run_stores_domain_job)
  case (1 b rm queued running result s1 s2 p j' code)
  show ?thesis
    by (intro exI [of _ b] exI [of _ rm] exI [of _ queued] exI [of _ running] exI [of _ s1] exI [of _ p]
        exI [of _ "\<lparr>jm_job = j', jm_provider_status = Some (pr_provider_status p), jm_bounded_item_count = pr_bounded_item_count p\<rparr>"])
      (use 1 in simp)
qed

lemma mailbox_run_stores_domain_job_witness:
  "\<exists>rm. d1_find_job mailbox_sample_scope (TypedId (OpaqueId ''binding_0001'')) (TypedId (OpaqueId ''job_00000001'')) mailbox_sample_after = Inr (Some rm)
     \<and> mxj_version (jm_job rm) = AggregateVersion 4"
  using mailbox_run_stores_domain_job [OF mailbox_sample_ran _ mailbox_sample_fair]
  by (auto simp: mailbox_sample_result_def mailbox_sample_actor_def mailbox_sample_run_def)

section \<open>Repeating a request\<close>

text \<open>
  C28: A run that was carried out is answered again from its receipt: the same actor repeating key and payload
  before the receipt expires gets the same outcome, marked as a replay, whatever happened to the database in
  between; the provider is not called and nothing changes.
\<close>
theorem mailbox_run_answered_from_receipt:
  assumes "execute_run_mailbox_job d1_job_port provider actor role c s = (Inr out, s1)" "\<not> mo_replayed out"
    and "db_later s1 s2" "same_caller actor actor'" "replayable (xr_evidence c) (xr_evidence c')"
    and "xr_job_id c' = xr_job_id c" "xr_expected_version c' = xr_expected_version c"
  shows "execute_run_mailbox_job d1_job_port provider' actor' TenantOwner c' s2 = (Inr (out\<lparr>mo_replayed := True\<rparr>), s2)"
  using assms by (rule d1_jobs.run_again)

lemma mailbox_sample_replayable: "replayable (mailbox_sample_evidence key now) (mailbox_sample_evidence key now)" if "now < now + 86400000"
  using that by (simp add: replayable_def mailbox_sample_evidence_def fingerprint_valid_def sha256_hex_length_def list_all_iff ascii_defs)

lemma mailbox_run_answered_from_receipt_witness:
  "execute_run_mailbox_job d1_job_port mailbox_sample_provider mailbox_sample_actor TenantOwner mailbox_sample_run mailbox_sample_after
     = (Inr (mailbox_sample_result\<lparr>mo_replayed := True\<rparr>), mailbox_sample_after)"
  by (rule mailbox_run_answered_from_receipt [OF mailbox_sample_ran])
    (simp_all add: mailbox_sample_result_def db_later_refl same_caller_def mailbox_sample_run_def mailbox_sample_replayable)

section \<open>Every row that writes leave is readable\<close>

text \<open>
  C29: After any sequence of writes by any actors, a lookup of a binding or a job never meets a row it
  cannot read; a stored job keeps within its attempts, of which there are at most ten, its version counts
  three per attempt, and it is scheduled exactly when it has not been attempted.
\<close>
theorem mailbox_rows_always_readable:
  assumes "mailbox_history db"
  shows "(\<exists>x. d1_find_binding scope b db = Inr x)
     \<and> (\<exists>y. d1_find_job scope b j db = Inr y
          \<and> (\<forall>rm. y = Some rm \<longrightarrow> mxj_attempt (jm_job rm) \<le> mxj_max_attempts (jm_job rm) \<and> mxj_max_attempts (jm_job rm) \<le> 10
               \<and> unat (version_value (mxj_version (jm_job rm))) = 1 + 3 * unat (mxj_attempt (jm_job rm))
               \<and> (mxj_status (jm_job rm) = MxScheduled \<longleftrightarrow> mxj_attempt (jm_job rm) = 0)))"
  using readable_lookups [OF history_rows_wf [OF assms]] by blast

lemma mailbox_sample_history: "mailbox_history mailbox_sample_db"
  by (rule mailbox_history.opened) (simp_all add: mailbox_sample_db_def)

lemma mailbox_sample_after_history: "mailbox_history mailbox_sample_after"
proof -
  have v: "id_valid (xb_binding_id mailbox_sample_create)" "id_valid (xc_job_id mailbox_sample_job)"
    by (simp_all add: mailbox_sample_create_def mailbox_sample_job_def id_valid_def opaque_valid_def id_char_def
        min_id_length_def max_id_length_def ascii_defs)
  have "mailbox_history mailbox_sample_scheduled"
    unfolding mailbox_sample_scheduled_def mailbox_sample_bound_def
    by (intro create_job_history create_binding_history mailbox_sample_history v)
  then show ?thesis
    unfolding mailbox_sample_after_def by (rule run_job_history) (simp add: mailbox_sample_provider_def)
qed

text \<open>The instance: the job that was created and then run once by the sample requests.\<close>

lemma mailbox_rows_always_readable_witness:
  "\<exists>b rm. d1_find_binding mailbox_sample_scope (xb_binding_id mailbox_sample_create) mailbox_sample_after = Inr (Some b)
     \<and> d1_find_job mailbox_sample_scope (xc_binding_id mailbox_sample_job) (xc_job_id mailbox_sample_job) mailbox_sample_after = Inr (Some rm)
     \<and> mxj_attempt (jm_job rm) = 1 \<and> unat (version_value (mxj_version (jm_job rm))) = 4 \<and> mxj_status (jm_job rm) \<noteq> MxScheduled"
proof -
  have found: "map_option (\<lambda>rm. mxj_attempt (jm_job rm)) (case d1_find_job mailbox_sample_scope (xc_binding_id mailbox_sample_job)
      (xc_job_id mailbox_sample_job) mailbox_sample_after of Inr y \<Rightarrow> y | Inl _ \<Rightarrow> None) = Some 1"
    "(case d1_find_binding mailbox_sample_scope (xb_binding_id mailbox_sample_create) mailbox_sample_after of Inr x \<Rightarrow> x \<noteq> None | Inl _ \<Rightarrow> False)"
    by code_simp+
  then show ?thesis
    using mailbox_rows_always_readable [OF mailbox_sample_after_history, of mailbox_sample_scope "xb_binding_id mailbox_sample_create"]
      mailbox_rows_always_readable [OF mailbox_sample_after_history, of mailbox_sample_scope "xc_binding_id mailbox_sample_job"
        "xc_job_id mailbox_sample_job"]
    by (auto split: sum.splits)
qed

section \<open>Retries\<close>

text \<open>
  The time of a retry lies between now plus the policy delay, which doubles with the attempts from
  30 seconds up to 15 minutes, and now plus 15 minutes, whatever the provider suggests.
\<close>
theorem mailbox_retry_time_bounded:
  assumes "bounded_retry_at now attempt hint = Inr t"
  shows "unat now + min (30000 * 2 ^ min (unat attempt - 1) 5) 900000 \<le> unat t \<and> unat t \<le> unat now + 900000"
  using assms by (rule bounded_retry_at_bounds)

lemma mailbox_retry_time_bounded_witness: "unat (3000::u64) + 60000 \<le> unat (903000::u64) \<and> unat (903000::u64) \<le> unat (3000::u64) + 900000"
proof -
  have "bounded_retry_at 3000 2 (Some 5000000) = Inr 903000" by code_simp
  from mailbox_retry_time_bounded [OF this] show ?thesis by simp
qed

section \<open>Bindings\<close>

text \<open>
  A binding that the use case creates is stored as the domain creates it: it is found under its
  identifier, active, at version one, under the tenant of the actor.
\<close>
theorem created_binding_is_found:
  assumes "execute_create_mailbox_binding d1_binding_port actor role c s = (Inr out, s')" "\<not> bo_replayed out"
    and "id_valid (xb_binding_id c)" "id_valid (xb_secret_handle c)"
  shows "d1_find_binding (actor_tenant_scope actor) (xb_binding_id c) s'
     = Inr (Some (mailbox_binding_create (scope_tenant_id (actor_tenant_scope actor)) (xb_binding_id c) (xb_provider c) (xb_secret_handle c)))"
  using assms(1,2)
proof (cases rule: create_binding_fresh)
  case (1 s1)
  then obtain u where "d1_create_binding actor
       \<lparr>bw_binding = mailbox_binding_create (scope_tenant_id (actor_tenant_scope actor)) (xb_binding_id c) (xb_provider c) (xb_secret_handle c),
        bw_evidence = xb_evidence c, bw_event_payload_json = mailbox_binding_event_payload\<rparr> s1 = (Inr u, s')"
    by (auto simp: binding_port_cases)
  then show ?thesis
  proof (cases rule: d1_create_bindingE)
    case w: (1 d)
    from w(1) show ?thesis
    proof (cases rule: insert_binding_createE)
      case i: 1
      show ?thesis
        unfolding d1_find_binding_def w(4) i(5) using assms(3,4)
        by (simp add: binding_create_command_of_def Let_def mailbox_binding_create_def
            binding_row_after_create [where b = "mailbox_binding_create (scope_tenant_id (actor_tenant_scope actor)) (xb_binding_id c) (xb_provider c) (xb_secret_handle c)",
              unfolded mailbox_binding_create_def, simplified])
    qed
  qed
qed

lemma mailbox_sample_creates:
  "execute_create_mailbox_binding d1_binding_port mailbox_sample_actor TenantOwner mailbox_sample_create mailbox_sample_db
     = (Inr \<lparr>bo_result_code = ''created'', bo_resource_id = ''binding_0001'', bo_aggregate_version = AggregateVersion 1, bo_replayed = False\<rparr>,
        mailbox_sample_bound)"
proof -
  have "fst (execute_create_mailbox_binding d1_binding_port mailbox_sample_actor TenantOwner mailbox_sample_create mailbox_sample_db)
     = Inr \<lparr>bo_result_code = ''created'', bo_resource_id = ''binding_0001'', bo_aggregate_version = AggregateVersion 1, bo_replayed = False\<rparr>"
    by code_simp
  then show ?thesis by (simp add: mailbox_sample_bound_def prod_eq_iff)
qed

lemma created_binding_is_found_witness:
  "d1_find_binding mailbox_sample_scope (TypedId (OpaqueId ''binding_0001'')) mailbox_sample_bound
     = Inr (Some (mailbox_binding_create (TypedId (OpaqueId ''tenant_0001'')) (TypedId (OpaqueId ''binding_0001'')) MicrosoftGraph
         (TypedId (OpaqueId ''handle_0001''))))"
  using created_binding_is_found [OF mailbox_sample_creates]
  by (simp add: mailbox_sample_create_def mailbox_sample_actor_def mailbox_sample_scope_def id_valid_def opaque_valid_def
      min_id_length_def max_id_length_def id_char_def ascii_defs)

section \<open>Who may run a job\<close>

lemma run_governed:
  assumes "execute_run_mailbox_job d1_job_port provider actor role c s = (Inr out, s')" "\<not> mo_replayed out"
  shows "role = TenantOwner
     \<and> active_owner_row s' (id_as_str (scope_tenant_id (actor_tenant_scope actor))) (id_as_str (actor_actor_id actor))
     \<and> (\<exists>rm. d1_find_job (actor_tenant_scope actor) (xr_binding_id c) (xr_job_id c) s = Inr (Some rm)
          \<and> mailbox_job_is_due (jm_job rm) (ev_now (xr_evidence c)) \<and> mxj_attempt (jm_job rm) < mxj_max_attempts (jm_job rm))
     \<and> (\<exists>a. es_audit s' (id_as_str (scope_tenant_id (actor_tenant_scope actor)), id_as_str (ev_audit_event_id (xr_evidence c))) = Some a
          \<and> au_actor_id a = id_as_str (actor_actor_id actor) \<and> au_resource_id a = id_as_str (xr_job_id c)
          \<and> au_result_code a = mo_result_code out)
     \<and> (\<exists>o'. es_outbox s' (id_as_str (scope_tenant_id (actor_tenant_scope actor)), id_as_str (ev_outbox_event_id (xr_evidence c))) = Some o'
          \<and> ob_aggregate_version o' = uint (version_value (mo_aggregate_version out)))"
  using assms
proof (cases rule: execute_run_freshE)
  case (1 v s1 b rm p s2 code)
  let ?w = "\<lparr>rw_binding_id = xr_binding_id c, rw_job_id = xr_job_id c, rw_expected_version = xr_expected_version c,
         rw_prepared = p, rw_evidence = xr_evidence c, rw_event_payload_json = mailbox_job_event_payload\<rparr>"
  have same: "md_jobs s1 = md_jobs s" using d1_decide_frame [OF 1(3)[unfolded port_decides]] by simp
  from 1(7) obtain queued where "mailbox_job_queue (ev_now (xr_evidence c)) (jm_job rm) = (Inr (), queued)"
    by (rule prepare_mailbox_runE)
  then have due: "mailbox_job_is_due (jm_job rm) (ev_now (xr_evidence c))" "mxj_attempt (jm_job rm) < mxj_max_attempts (jm_job rm)"
    by (auto simp: job_queue_Inr mailbox_job_is_due_def)
  have found: "d1_find_job (actor_tenant_scope actor) (xr_binding_id c) (xr_job_id c) s = Inr (Some rm)"
    using 1(5) same by (simp add: d1_find_job_def)
  have "d1_run_job actor ?w s2 = (Inr (), s')" using 1(10) by (auto simp: run_port_cases)
  then show ?thesis
  proof (cases rule: d1_run_jobE)
    case w: (1 code' event d)
    have code: "code' = code" using w(4) 1(9) by (auto simp: run_result_code_def job_result_code_def split: mailbox_job_status.splits)
    have v: "pr_version p = v" using 1(8) .
    from w(6) show ?thesis
    proof (cases rule: insert_job_runE)
      case i: (1 b' row')
      have "active_owner_row s' (id_as_str (scope_tenant_id (actor_tenant_scope actor))) (id_as_str (actor_actor_id actor))"
        using i(1) unfolding w(8) i(9) by (simp add: active_owner_row_def record_evidence_def job_run_command_of_def Let_def)
      then show ?thesis using 1(1) due found unfolding w(8) 1(11)
        by (simp add: audit_key_of_def audit_row_of_def outbox_key_of_def outbox_row_of_def envelope_of_def job_evidence_def code v)
    qed
  qed
qed

text \<open>
  C30: A run that is carried out was asked for by the tenant owner, whose membership is active when the
  batch commits; the job was due and had attempts left; and the batch leaves an audit row that names the
  actor, the job and the outcome, beside the outbox row with the version the caller is told.
\<close>
theorem mailbox_run_is_governed:
  assumes "execute_run_mailbox_job d1_job_port provider actor role c s = (Inr out, s')" "\<not> mo_replayed out"
  shows "role = TenantOwner
     \<and> active_owner_row s' (id_as_str (scope_tenant_id (actor_tenant_scope actor))) (id_as_str (actor_actor_id actor))
     \<and> (\<exists>rm. d1_find_job (actor_tenant_scope actor) (xr_binding_id c) (xr_job_id c) s = Inr (Some rm)
          \<and> mailbox_job_is_due (jm_job rm) (ev_now (xr_evidence c)) \<and> mxj_attempt (jm_job rm) < mxj_max_attempts (jm_job rm))
     \<and> (\<exists>a. es_audit s' (id_as_str (scope_tenant_id (actor_tenant_scope actor)), id_as_str (ev_audit_event_id (xr_evidence c))) = Some a
          \<and> au_actor_id a = id_as_str (actor_actor_id actor) \<and> au_resource_id a = id_as_str (xr_job_id c)
          \<and> au_result_code a = mo_result_code out)
     \<and> (\<exists>o'. es_outbox s' (id_as_str (scope_tenant_id (actor_tenant_scope actor)), id_as_str (ev_outbox_event_id (xr_evidence c))) = Some o'
          \<and> ob_aggregate_version o' = uint (version_value (mo_aggregate_version out)))"
  using assms by (rule run_governed)

lemma mailbox_run_is_governed_witness:
  "active_owner_row mailbox_sample_after ''tenant_0001'' ''owner_0001''
   \<and> (\<exists>a. es_audit mailbox_sample_after (''tenant_0001'', ''audit_key_0003'') = Some a \<and> au_result_code a = ''retry_pending'')"
  using mailbox_run_is_governed [OF mailbox_sample_ran]
  by (auto simp: mailbox_sample_result_def mailbox_sample_actor_def mailbox_sample_scope_def mailbox_sample_run_def mailbox_sample_evidence_def)

end
