(* ===== verification/Integration_Events.thy ===== *)
theory Integration_Events
  imports D1_Evidence Utf8_Text
begin

text \<open>
  Integration events: the envelope and its payload sanitizer (\<open>contracts/src/integration_events.rs\<close>), the
  registry of event types (\<open>contracts/src/integration_event_registry.rs\<close>), the message of the queue
  (\<open>cloudflare-adapters/src/integration_event_queue.rs\<close>), the outbox rows of the catalogue database
  (\<open>cloudflare-adapters/src/d1_integration_events.rs\<close>) and the dispatcher that moves them to the queue
  (\<open>use-cases-notifications/src/integration_events.rs\<close>).
\<close>

section \<open>Payloads\<close>

definition max_event_type_len :: nat where "max_event_type_len = 160"
definition max_aggregate_type_len :: nat where "max_aggregate_type_len = 80"
definition max_payload_len :: nat where "max_payload_len = 4096"
definition integration_event_envelope_version :: u16 where "integration_event_envelope_version = 1"

definition prohibited_payload_keys :: "string list" where
  "prohibited_payload_keys =
     [''access_token'', ''authorization'', ''body_html'', ''cookie'', ''cookies'', ''credential'', ''display_name'', ''email'',
      ''mail_body'', ''message_body'', ''oauth_token'', ''password'', ''phone'', ''proxy_credentials'', ''raw_message'',
      ''recipient'', ''refresh_token'', ''secret'', ''secret_handle'', ''sender'', ''snippet'', ''subject'']"

datatype integration_event_contract_error =
    IcInvalidAggregateType | IcInvalidEventType | IcEventVersionMismatch | IcInvalidPayload | IcProhibitedPayload

fun integration_event_contract_error_message :: "integration_event_contract_error \<Rightarrow> string" where
  "integration_event_contract_error_message IcInvalidAggregateType = ''integration event aggregate type is invalid''"
| "integration_event_contract_error_message IcInvalidEventType = ''integration event type is invalid''"
| "integration_event_contract_error_message IcEventVersionMismatch = ''integration event type/version mismatch''"
| "integration_event_contract_error_message IcInvalidPayload = ''integration event metadata payload is invalid''"
| "integration_event_contract_error_message IcProhibitedPayload = ''integration event payload contains prohibited content''"

datatype integration_event_payload = IntegrationEventPayload (payload_text: string)

definition is_ascii_whitespace :: "char \<Rightarrow> bool" where
  \<comment> \<open>space, tab, line feed, form feed, carriage return\<close>
  "is_ascii_whitespace c \<longleftrightarrow> byte_of c \<in> {32, 9, 10, 12, 13}"

definition payload_char :: "char \<Rightarrow> bool" where
  "payload_char c \<longleftrightarrow> is_ascii_alphanumeric c \<or> is_ascii_whitespace c \<or> c \<in> set ''{}[]\":,_-.''"

definition normalized_payload :: "string \<Rightarrow> string" where
  "normalized_payload s = map to_ascii_lowercase_char (filter (\<lambda>c. \<not> is_ascii_whitespace c) s)"

definition mentions_key :: "string \<Rightarrow> string \<Rightarrow> bool" where
  "mentions_key text key \<longleftrightarrow> contains_text (''\"'' @ key @ ''\":'') text"

definition metadata_json :: "string \<Rightarrow> integration_event_contract_error + integration_event_payload" where
  "metadata_json value =
     (let t = str_trim value in
      if max_payload_len < length t \<or> t = [] \<or> hd t \<noteq> CHR ''{'' \<or> last t \<noteq> CHR ''}'' then Inl IcInvalidPayload
      else if \<not> list_all payload_char t then Inl IcInvalidPayload
      else if list_ex (mentions_key (normalized_payload t)) prohibited_payload_keys then Inl IcProhibitedPayload
      else Inr (IntegrationEventPayload t))"

definition payload_empty :: integration_event_payload where
  "payload_empty = IntegrationEventPayload ''{}''"

section \<open>Envelopes\<close>

record integration_event =
  ie_envelope_version :: u16
  ie_event_id :: outbox_event_id
  ie_tenant_id :: tenant_id
  ie_aggregate_type :: string
  ie_aggregate_id :: opaque_id
  ie_aggregate_version :: aggregate_version
  ie_event_type :: string
  ie_event_version :: u16
  ie_payload :: integration_event_payload
  ie_occurred_at :: unix_millis

definition valid_symbol :: "string \<Rightarrow> nat \<Rightarrow> bool" where
  "valid_symbol value maximum \<longleftrightarrow> 1 \<le> length value \<and> length value \<le> maximum
     \<and> list_all (\<lambda>c. is_ascii_lowercase c \<or> is_ascii_digit c \<or> c \<in> set ''._-'') value"

definition integration_event_new ::
    "outbox_event_id \<Rightarrow> tenant_id \<Rightarrow> string \<Rightarrow> opaque_id \<Rightarrow> aggregate_version \<Rightarrow> string \<Rightarrow> u16 \<Rightarrow> integration_event_payload
     \<Rightarrow> unix_millis \<Rightarrow> integration_event_contract_error + integration_event" where
  "integration_event_new event_id tenant_id aggregate_type aggregate_id aggregate_version event_type event_version payload occurred_at =
     (if \<not> valid_symbol aggregate_type max_aggregate_type_len then Inl IcInvalidAggregateType
      else if event_version = 0 \<or> \<not> valid_symbol event_type max_event_type_len then Inl IcInvalidEventType
      else if \<not> suffix (''.v'' @ show_nat (unat event_version)) event_type then Inl IcEventVersionMismatch
      else Inr \<lparr>ie_envelope_version = integration_event_envelope_version, ie_event_id = event_id, ie_tenant_id = tenant_id,
                ie_aggregate_type = aggregate_type, ie_aggregate_id = aggregate_id, ie_aggregate_version = aggregate_version,
                ie_event_type = event_type, ie_event_version = event_version, ie_payload = payload, ie_occurred_at = occurred_at\<rparr>)"

section \<open>Registered event types\<close>

definition foundation_event_types_v1 :: "string list" where
  "foundation_event_types_v1 =
     [''client.access_granted.v1'', ''client.access_revoked.v1'', ''client.created.v1'', ''invitation.created.v1'',
      ''mailbox.binding_created.v1'', ''mailbox.binding_revoked.v1'', ''mailbox.job_auth_required.v1'', ''mailbox.job_created.v1'',
      ''mailbox.job_failed.v1'', ''mailbox.job_retry_scheduled.v1'', ''mailbox.job_succeeded.v1'', ''mailbox.job_suspended.v1'',
      ''membership.activated.v1'', ''membership.owner_transferred.v1'', ''membership.revoked.v1'', ''membership.suspended.v1'',
      ''profile.access_granted.v1'', ''profile.access_revoked.v1'', ''profile.client_assigned.v1'', ''profile.client_detached.v1'',
      ''profile.created.v1'', ''profile.generation_activated.v1'', ''profile.generation_deactivated.v1'',
      ''profile_coordinator.drain_started.v1'', ''profile_coordinator.heartbeat_accepted.v1'',
      ''profile_coordinator.launch_intent_expired.v1'', ''profile_coordinator.launch_intent_issued.v1'',
      ''profile_coordinator.lease_claimed.v1'', ''profile_coordinator.no_change.v1'', ''profile_coordinator.recovered.v1'',
      ''profile_coordinator.released.v1'', ''profile_coordinator.snapshot.v1'', ''profile_coordinator.timed_out.v1'',
      ''profile_generation.quarantined.v1'', ''profile_generation.registered.v1'', ''profile_generation.verified.v1'',
      ''tenant.owner_bootstrapped.v1'']"

definition is_foundation_event_type :: "string \<Rightarrow> bool" where
  \<comment> \<open>\<open>binary_search\<close> on the sorted table finds exactly its members\<close>
  "is_foundation_event_type event_type \<longleftrightarrow> event_type \<in> set foundation_event_types_v1"

section \<open>Queue messages\<close>

record queue_message =
  qm_envelope_version :: u16
  qm_event_id :: string
  qm_tenant_id :: string
  qm_aggregate_type :: string
  qm_aggregate_id :: string
  qm_aggregate_version :: u64
  qm_event_type :: string
  qm_event_version :: u16
  qm_payload_json :: string
  qm_occurred_at_ms :: u64

datatype event_port_error_class = EpConflict | EpIntegrityFailure | EpInternalFailure | EpDependencyUnavailable

definition queue_message_from_event :: "integration_event \<Rightarrow> queue_message" where
  "queue_message_from_event e =
     \<lparr>qm_envelope_version = ie_envelope_version e, qm_event_id = id_as_str (ie_event_id e), qm_tenant_id = id_as_str (ie_tenant_id e),
      qm_aggregate_type = ie_aggregate_type e, qm_aggregate_id = opaque_as_str (ie_aggregate_id e),
      qm_aggregate_version = version_value (ie_aggregate_version e), qm_event_type = ie_event_type e,
      qm_event_version = ie_event_version e, qm_payload_json = payload_text (ie_payload e), qm_occurred_at_ms = ie_occurred_at e\<rparr>"

definition queue_message_into_event :: "queue_message \<Rightarrow> event_port_error_class + integration_event" where
  "queue_message_into_event m =
     (if qm_envelope_version m \<noteq> integration_event_envelope_version then Inl EpIntegrityFailure
      else
      res_bind (res_map_err (\<lambda>_. EpIntegrityFailure) (version_new (qm_aggregate_version m))) (\<lambda>aggregate_version.
      res_bind (res_map_err (\<lambda>_. EpIntegrityFailure) (id_parse (qm_event_id m))) (\<lambda>event_id.
      res_bind (res_map_err (\<lambda>_. EpIntegrityFailure) (id_parse (qm_tenant_id m))) (\<lambda>tenant_id.
      res_bind (res_map_err (\<lambda>_. EpIntegrityFailure) (opaque_id_parse (qm_aggregate_id m))) (\<lambda>aggregate_id.
      res_bind (res_map_err (\<lambda>_. EpIntegrityFailure) (metadata_json (qm_payload_json m))) (\<lambda>payload.
      res_map_err (\<lambda>_. EpIntegrityFailure)
        (integration_event_new event_id tenant_id (qm_aggregate_type m) aggregate_id aggregate_version (qm_event_type m)
           (qm_event_version m) payload (qm_occurred_at_ms m))))))))"

section \<open>Outbox rows\<close>

record pending_outbox_row =
  po_tenant_id :: string
  po_outbox_event_id :: string
  po_aggregate_type :: string
  po_aggregate_id :: string
  po_aggregate_version :: int
  po_event_type :: string
  po_event_version :: int
  po_envelope_version :: int
  po_payload_json :: string
  po_created_at_ms :: int
  po_published_at_ms :: "int option"

definition u16_of_i64 :: "int \<Rightarrow> u16 option" where
  "u16_of_i64 i = (if 0 \<le> i \<and> i < 2 ^ 16 then Some (of_int i) else None)"

definition outbox_row_into_event :: "pending_outbox_row \<Rightarrow> event_port_error_class + integration_event" where
  "outbox_row_into_event r =
     (if po_envelope_version r \<noteq> uint integration_event_envelope_version \<or> \<not> is_foundation_event_type (po_event_type r)
      then Inl EpIntegrityFailure
      else
      res_bind (res_ok_or EpIntegrityFailure
          (case u64_of_i64 (po_aggregate_version r) of None \<Rightarrow> None
           | Some v \<Rightarrow> (case version_new v of Inl _ \<Rightarrow> None | Inr w \<Rightarrow> Some w))) (\<lambda>aggregate_version.
      res_bind (res_ok_or EpIntegrityFailure (u16_of_i64 (po_event_version r))) (\<lambda>event_version.
      res_bind (res_ok_or EpIntegrityFailure (u64_of_i64 (po_created_at_ms r))) (\<lambda>occurred_at.
      res_bind (res_map_err (\<lambda>_. EpIntegrityFailure) (id_parse (po_tenant_id r))) (\<lambda>tenant_id.
      res_bind (res_map_err (\<lambda>_. EpIntegrityFailure) (id_parse (po_outbox_event_id r))) (\<lambda>event_id.
      res_bind (res_map_err (\<lambda>_. EpIntegrityFailure) (opaque_id_parse (po_aggregate_id r))) (\<lambda>aggregate_id.
      res_bind (res_map_err (\<lambda>_. EpIntegrityFailure) (metadata_json (po_payload_json r))) (\<lambda>payload.
      res_map_err (\<lambda>_. EpIntegrityFailure)
        (integration_event_new event_id tenant_id (po_aggregate_type r) aggregate_id aggregate_version (po_event_type r)
           event_version payload occurred_at)))))))))"

fun collect_results :: "('a \<Rightarrow> 'e + 'b) \<Rightarrow> 'a list \<Rightarrow> 'e + 'b list" where
  \<comment> \<open>\<open>map(..).collect::<Result<Vec<_>, _>>()\<close>\<close>
  "collect_results f [] = Inr []"
| "collect_results f (x # xs) = res_bind (f x) (\<lambda>y. res_bind (collect_results f xs) (\<lambda>ys. Inr (y # ys)))"

fun insert_ordered :: "pending_outbox_row \<Rightarrow> pending_outbox_row list \<Rightarrow> pending_outbox_row list" where
  "insert_ordered r [] = [r]"
| "insert_ordered r (q # qs) =
     (if po_created_at_ms r < po_created_at_ms q
         \<or> po_created_at_ms r = po_created_at_ms q \<and> po_outbox_event_id r \<le> po_outbox_event_id q
      then r # q # qs else q # insert_ordered r qs)"

definition pending_rows :: "u32 \<Rightarrow> pending_outbox_row list \<Rightarrow> pending_outbox_row list" where
  \<comment> \<open>\<open>WHERE published_at_ms IS NULL ORDER BY created_at_ms, outbox_event_id LIMIT\<close>\<close>
  "pending_rows limit rows = take (unat limit) (foldr insert_ordered (filter (\<lambda>r. po_published_at_ms r = None) rows) [])"

definition d1_load_pending :: "u32 \<Rightarrow> pending_outbox_row list \<Rightarrow> event_port_error_class + integration_event list" where
  "d1_load_pending limit rows = collect_results outbox_row_into_event (pending_rows limit rows)"

definition names_row :: "tenant_id \<Rightarrow> outbox_event_id \<Rightarrow> pending_outbox_row \<Rightarrow> bool" where
  "names_row tenant_id event_id r \<longleftrightarrow> po_tenant_id r = id_as_str tenant_id \<and> po_outbox_event_id r = id_as_str event_id"

definition d1_mark_published ::
    "tenant_id \<Rightarrow> outbox_event_id \<Rightarrow> unix_millis \<Rightarrow> pending_outbox_row list
     \<Rightarrow> (event_port_error_class + unit) \<times> pending_outbox_row list" where
  \<comment> \<open>the CHECK of the table: an event is not published before it was created\<close>
  "d1_mark_published tenant_id event_id published_at rows =
     or_return (res_ok_or EpIntegrityFailure (i64_of_u64 published_at)) rows (\<lambda>at.
       let hit = (\<lambda>r. names_row tenant_id event_id r \<and> po_published_at_ms r = None) in
       if list_ex (\<lambda>r. hit r \<and> at < po_created_at_ms r) rows then (Inl EpInternalFailure, rows)
       else (Inr (), map (\<lambda>r. if hit r then r\<lparr>po_published_at_ms := Some at\<rparr> else r) rows))"

definition d1_load_event ::
    "tenant_id \<Rightarrow> outbox_event_id \<Rightarrow> pending_outbox_row list \<Rightarrow> event_port_error_class + integration_event option" where
  "d1_load_event tenant_id event_id rows = res_opt outbox_row_into_event (find (names_row tenant_id event_id) rows)"

section \<open>Dispatching\<close>

definition max_dispatch_batch :: u32 where "max_dispatch_batch = 100"

datatype integration_event_operation_error = IoInvalidRequest | IoConflict | IoIntegrityFailure | IoInternalFailure | IoDependencyUnavailable

fun integration_event_operation_error_message :: "integration_event_operation_error \<Rightarrow> string" where
  "integration_event_operation_error_message IoInvalidRequest = ''integration event request is invalid''"
| "integration_event_operation_error_message IoConflict = ''integration event operation conflict''"
| "integration_event_operation_error_message IoIntegrityFailure = ''integration event integrity failure''"
| "integration_event_operation_error_message IoInternalFailure = ''integration event internal failure''"
| "integration_event_operation_error_message IoDependencyUnavailable = ''integration event dependency unavailable''"

fun map_event_port_error :: "event_port_error_class \<Rightarrow> integration_event_operation_error" where
  "map_event_port_error EpConflict = IoConflict"
| "map_event_port_error EpIntegrityFailure = IoIntegrityFailure"
| "map_event_port_error EpInternalFailure = IoInternalFailure"
| "map_event_port_error EpDependencyUnavailable = IoDependencyUnavailable"

record 's outbox_port =
  op_load_pending :: "u32 \<Rightarrow> 's \<Rightarrow> event_port_error_class + integration_event list"
  op_mark_published :: "tenant_id \<Rightarrow> outbox_event_id \<Rightarrow> unix_millis \<Rightarrow> 's \<Rightarrow> (event_port_error_class + unit) \<times> 's"
  op_publish :: "integration_event \<Rightarrow> 's \<Rightarrow> (event_port_error_class + unit) \<times> 's"
    \<comment> \<open>of the publisher port\<close>

fun publish_events ::
    "'s outbox_port \<Rightarrow> unix_millis \<Rightarrow> integration_event list \<Rightarrow> u32 \<Rightarrow> 's \<Rightarrow> (integration_event_operation_error + u32) \<times> 's" where
  \<comment> \<open>the loop of \<open>dispatch_pending_events\<close>; the count so far\<close>
  "publish_events port published_at [] published s = (Inr published, s)"
| "publish_events port published_at (event # events) published s =
     (case op_publish port event s of
        (Inl e, s1) \<Rightarrow> (Inl (map_event_port_error e), s1)
      | (Inr _, s1) \<Rightarrow>
          (case op_mark_published port (ie_tenant_id event) (ie_event_id event) published_at s1 of
             (Inl e, s2) \<Rightarrow> (Inl (map_event_port_error e), s2)
           | (Inr _, s2) \<Rightarrow>
               or_return (res_ok_or IoInternalFailure (checked_add published 1)) s2 (\<lambda>published'.
                 publish_events port published_at events published' s2)))"

definition dispatch_pending_events ::
    "'s outbox_port \<Rightarrow> unix_millis \<Rightarrow> u32 \<Rightarrow> 's \<Rightarrow> (integration_event_operation_error + u32) \<times> 's" where
  "dispatch_pending_events port published_at limit s =
     (if limit = 0 \<or> max_dispatch_batch < limit then (Inl IoInvalidRequest, s)
      else or_return (res_map_err map_event_port_error (op_load_pending port limit s)) s (\<lambda>events.
        publish_events port published_at events 0 s))"

text \<open>The database and a queue behind the ports; whether the queue takes a message is a parameter.\<close>

record dispatch_world =
  dw_outbox :: "pending_outbox_row list"
  dw_queue :: "queue_message list"

definition d1_outbox_port :: "(dispatch_world \<Rightarrow> queue_message \<Rightarrow> bool) \<Rightarrow> dispatch_world outbox_port" where
  "d1_outbox_port accepts =
     \<lparr>op_load_pending = (\<lambda>limit w. d1_load_pending limit (dw_outbox w)),
      op_mark_published = (\<lambda>t e at w. case d1_mark_published t e at (dw_outbox w) of (r, rows) \<Rightarrow> (r, w\<lparr>dw_outbox := rows\<rparr>)),
      op_publish = (\<lambda>event w. let m = queue_message_from_event event in
         if accepts w m then (Inr (), w\<lparr>dw_queue := dw_queue w @ [m]\<rparr>) else (Inl EpDependencyUnavailable, w))\<rparr>"

end
