(* ===== verification/Outbox_Laws.thy ===== *)
theory Outbox_Laws
  imports Integration_Events
begin

text \<open>
  The outbox and its dispatcher: the order in which rows are read, what a dispatch has published and marked when it
  stops, and what one row that cannot be read does to all the others.
\<close>

section \<open>The order of pending rows\<close>

definition row_before :: "pending_outbox_row \<Rightarrow> pending_outbox_row \<Rightarrow> bool" where
  "row_before r q \<longleftrightarrow> po_created_at_ms r < po_created_at_ms q
     \<or> po_created_at_ms r = po_created_at_ms q \<and> po_outbox_event_id r < po_outbox_event_id q"

definition first_pending :: "pending_outbox_row \<Rightarrow> pending_outbox_row list \<Rightarrow> bool" where
  \<comment> \<open>a pending row that comes before every other pending row\<close>
  "first_pending r rows \<longleftrightarrow> r \<in> set rows \<and> po_published_at_ms r = None
     \<and> (\<forall>q \<in> set rows. po_published_at_ms q = None \<longrightarrow> q = r \<or> row_before r q)"

definition ordered_rows :: "pending_outbox_row list \<Rightarrow> pending_outbox_row list" where
  "ordered_rows rows = foldr insert_ordered (filter (\<lambda>r. po_published_at_ms r = None) rows) []"

lemma pending_rows_alt: "pending_rows limit rows = take (unat limit) (ordered_rows rows)"
  by (simp add: pending_rows_def ordered_rows_def)

lemma set_insert_ordered [simp]: "set (insert_ordered r qs) = insert r (set qs)"
  by (induction qs) auto

lemma set_foldr_insert_ordered [simp]: "set (foldr insert_ordered rows []) = set rows"
  by (induction rows) auto

lemma set_ordered_rows [simp]: "set (ordered_rows rows) = {r \<in> set rows. po_published_at_ms r = None}"
  by (auto simp: ordered_rows_def)

lemma set_pending_rows: "r \<in> set (pending_rows limit rows) \<Longrightarrow> r \<in> set rows \<and> po_published_at_ms r = None"
  using set_take_subset [of "unat limit" "ordered_rows rows"] by (auto simp: pending_rows_alt)

lemma row_before_asym: "row_before r q \<Longrightarrow> \<not> row_before q r"
  by (auto simp: row_before_def)

lemma insert_ordered_first:
  "(\<forall>q \<in> set qs. q = r \<or> row_before r q) \<Longrightarrow> \<exists>rest. insert_ordered r qs = r # rest"
  by (cases qs) (auto simp: row_before_def)

lemma foldr_insert_ordered_first:
  "r \<in> set rows \<Longrightarrow> (\<forall>q \<in> set rows. q = r \<or> row_before r q) \<Longrightarrow> \<exists>rest. foldr insert_ordered rows [] = r # rest"
proof (induction rows)
  case (Cons a rows)
  show ?case
  proof (cases "a = r")
    case True
    then show ?thesis using insert_ordered_first [of "foldr insert_ordered rows []" r] Cons.prems(2) by auto
  next
    case False
    then obtain rest where "foldr insert_ordered rows [] = r # rest"
      using Cons by auto
    moreover have "row_before r a"
      using Cons.prems(2) False by auto
    ultimately show ?thesis
      by (auto simp: row_before_def)
  qed
qed simp

lemma first_pending_read:
  assumes "first_pending r rows" and "limit \<noteq> 0"
  shows "r \<in> set (pending_rows limit rows)"
proof -
  obtain rest where "ordered_rows rows = r # rest"
    using foldr_insert_ordered_first [of r "filter (\<lambda>r. po_published_at_ms r = None) rows"] assms(1)
    by (auto simp: ordered_rows_def first_pending_def)
  moreover have "unat limit \<noteq> 0"
    using assms(2) by (simp add: unat_eq_zero)
  ultimately show ?thesis
    by (cases "unat limit") (auto simp: pending_rows_alt)
qed

lemma first_pending_append:
  "first_pending r rows \<Longrightarrow> (\<And>q. q \<in> set qs \<Longrightarrow> row_before r q) \<Longrightarrow> first_pending r (rows @ qs)"
  by (auto simp: first_pending_def)

section \<open>A row that cannot be read\<close>

lemma collect_results_Inl:
  assumes "x \<in> set xs" and "f x = Inl e" and "\<And>y e'. f y = Inl e' \<Longrightarrow> e' = e"
  shows "collect_results f xs = Inl e"
  using assms(1)
proof (induction xs)
  case (Cons a xs)
  show ?case
  proof (cases "f a")
    case (Inl e')
    with assms(3) [OF Inl] show ?thesis by simp
  next
    case (Inr y)
    then have "x \<in> set xs" using Cons.prems assms(2) by auto
    with Cons.IH Inr show ?thesis by simp
  qed
qed simp

lemma collect_results_Inr: "collect_results f xs = Inr ys \<Longrightarrow> list_all2 (\<lambda>x y. f x = Inr y) xs ys"
  by (induction xs arbitrary: ys) (auto simp: res_bind_def split: sum.splits)

lemma outbox_row_error: "outbox_row_into_event r = Inl e \<Longrightarrow> e = EpIntegrityFailure"
  by (auto simp: outbox_row_into_event_def res_bind_def res_map_err_def res_ok_or_def split: sum.splits option.splits if_splits)

lemma unregistered_row_unreadable:
  "\<not> is_foundation_event_type (po_event_type r) \<Longrightarrow> outbox_row_into_event r = Inl EpIntegrityFailure"
  by (simp add: outbox_row_into_event_def)

lemma unreadable_row_fails_load:
  assumes "r \<in> set (pending_rows limit rows)" and "outbox_row_into_event r = Inl e"
  shows "d1_load_pending limit rows = Inl EpIntegrityFailure"
  unfolding d1_load_pending_def
  by (rule collect_results_Inl [OF assms(1)]) (use assms(2) outbox_row_error in auto)

lemma unreadable_row_stops_dispatch:
  assumes "r \<in> set (pending_rows limit (dw_outbox w))" and "outbox_row_into_event r = Inl e"
    and "limit \<noteq> 0" and "limit \<le> max_dispatch_batch"
  shows "dispatch_pending_events (d1_outbox_port accepts) at limit w = (Inl IoIntegrityFailure, w)"
  using assms(3,4) unreadable_row_fails_load [OF assms(1,2)]
  by (simp add: dispatch_pending_events_def d1_outbox_port_def or_return_def)

datatype outbox_action =
    EmitRow pending_outbox_row
  | RunDispatcher "dispatch_world \<Rightarrow> queue_message \<Rightarrow> bool" unix_millis u32

fun outbox_run :: "outbox_action list \<Rightarrow> dispatch_world \<Rightarrow> dispatch_world" where
  \<comment> \<open>use cases write rows, the schedule runs the dispatcher\<close>
  "outbox_run [] w = w"
| "outbox_run (EmitRow r # actions) w = outbox_run actions (w\<lparr>dw_outbox := dw_outbox w @ [r]\<rparr>)"
| "outbox_run (RunDispatcher accepts at limit # actions) w =
     outbox_run actions (snd (dispatch_pending_events (d1_outbox_port accepts) at limit w))"

fun emitted_rows :: "outbox_action list \<Rightarrow> pending_outbox_row list" where
  "emitted_rows [] = []"
| "emitted_rows (EmitRow r # actions) = r # emitted_rows actions"
| "emitted_rows (RunDispatcher _ _ _ # actions) = emitted_rows actions"

lemma dispatch_invalid_limit:
  "limit = 0 \<or> max_dispatch_batch < limit \<Longrightarrow> dispatch_pending_events port at limit s = (Inl IoInvalidRequest, s)"
  by (simp add: dispatch_pending_events_def)

lemma outbox_run_blocked:
  assumes "outbox_row_into_event r = Inl e"
  shows "first_pending r (dw_outbox w) \<Longrightarrow> (\<And>q. q \<in> set (emitted_rows actions) \<Longrightarrow> row_before r q)
    \<Longrightarrow> outbox_run actions w = w\<lparr>dw_outbox := dw_outbox w @ emitted_rows actions\<rparr>"
proof (induction actions arbitrary: w)
  case (Cons a actions)
  show ?case
  proof (cases a)
    case (EmitRow q)
    have "first_pending r (dw_outbox (w\<lparr>dw_outbox := dw_outbox w @ [q]\<rparr>))"
      using Cons.prems by (auto simp: EmitRow intro: first_pending_append)
    from Cons.IH [OF this] show ?thesis
      using Cons.prems(2) by (simp add: EmitRow)
  next
    case (RunDispatcher accepts at limit)
    have "snd (dispatch_pending_events (d1_outbox_port accepts) at limit w) = w"
    proof (cases "limit = 0 \<or> max_dispatch_batch < limit")
      case False
      then show ?thesis
        using unreadable_row_stops_dispatch [OF first_pending_read [OF Cons.prems(1)] assms] by auto
    qed (simp add: dispatch_invalid_limit)
    then show ?thesis
      using Cons by (simp add: RunDispatcher)
  qed
qed simp

section \<open>What a dispatch leaves\<close>

lemma d1_publish:
  "op_publish (d1_outbox_port accepts) e w = (r, w') \<Longrightarrow>
     dw_outbox w' = dw_outbox w \<and> ((\<exists>x. r = Inr x) \<and> dw_queue w' = dw_queue w @ [queue_message_from_event e]
       \<or> (\<exists>x. r = Inl x) \<and> dw_queue w' = dw_queue w)"
  by (auto simp: d1_outbox_port_def Let_def split: if_splits)

lemma d1_mark:
  "op_mark_published (d1_outbox_port accepts) t i at w = (r, w') \<Longrightarrow>
     dw_queue w' = dw_queue w \<and> d1_mark_published t i at (dw_outbox w) = (r, dw_outbox w')"
  by (auto simp: d1_outbox_port_def split: prod.splits)

lemma mark_error_keeps_rows: "d1_mark_published t i at rows = (Inl e, rows') \<Longrightarrow> rows' = rows"
  by (auto simp: d1_mark_published_def or_return_def Let_def split: sum.splits if_splits)

lemma published_row:
  assumes "d1_mark_published t i at rows = (r, rows')" and "q \<in> set rows'" and "q \<notin> set rows"
  shows "names_row t i q" and "po_published_at_ms q = Some (uint at)"
    and "\<exists>p \<in> set rows. po_published_at_ms p = None \<and> q = p\<lparr>po_published_at_ms := Some (uint at)\<rparr>"
  using assms
  by (auto simp: d1_mark_published_def or_return_def Let_def names_row_def i64_of_u64_def res_ok_or_def
      split: sum.splits if_splits option.splits)

lemma published_rows_stay: "d1_mark_published t i at rows = (r, rows') \<Longrightarrow> q \<in> set rows' \<Longrightarrow> po_published_at_ms q = None \<Longrightarrow> q \<in> set rows"
  using published_row(2) by force

lemma marked_event_not_pending:
  "d1_mark_published t i at rows = (Inr x, rows') \<Longrightarrow> q \<in> set rows' \<Longrightarrow> names_row t i q \<Longrightarrow> po_published_at_ms q \<noteq> None"
  by (auto simp: d1_mark_published_def or_return_def Let_def names_row_def split: sum.splits if_splits)

definition row_marked_by :: "integration_event list \<Rightarrow> unix_millis \<Rightarrow> pending_outbox_row list \<Rightarrow> pending_outbox_row \<Rightarrow> bool" where
  \<comment> \<open>a row that was pending and is published under one of the events\<close>
  "row_marked_by sent at rows q \<longleftrightarrow> (\<exists>p \<in> set rows. \<exists>e \<in> set sent. po_published_at_ms p = None
     \<and> names_row (ie_tenant_id e) (ie_event_id e) p \<and> q = p\<lparr>po_published_at_ms := Some (uint at)\<rparr>)"

definition dispatch_effect ::
    "integration_event list \<Rightarrow> unix_millis \<Rightarrow> dispatch_world \<Rightarrow> dispatch_world \<Rightarrow> bool" where
  "dispatch_effect sent at w w' \<longleftrightarrow> dw_queue w' = dw_queue w @ map queue_message_from_event sent
     \<and> (\<forall>q \<in> set (dw_outbox w'). q \<in> set (dw_outbox w) \<or> row_marked_by sent at (dw_outbox w) q)"

lemma dispatch_effect_refl [simp]: "dispatch_effect [] at w w"
  by (simp add: dispatch_effect_def)

lemma names_row_published [simp]: "names_row t i (p\<lparr>po_published_at_ms := x\<rparr>) = names_row t i p"
  by (simp add: names_row_def)

lemma row_marked_once:
  assumes "d1_mark_published (ie_tenant_id e) (ie_event_id e) at rows = (r, rows')" and "q \<in> set rows'" and "q \<notin> set rows"
  shows "row_marked_by (e # sent) at rows q"
  using published_row [OF assms] by (force simp: row_marked_by_def)

lemma dispatch_effect_step:
  assumes "dw_queue w1 = dw_queue w @ [queue_message_from_event e]"
    and "d1_mark_published (ie_tenant_id e) (ie_event_id e) at (dw_outbox w) = (r, dw_outbox w1)"
    and "dispatch_effect sent at w1 w'"
  shows "dispatch_effect (e # sent) at w w'"
proof -
  have "row_marked_by (e # sent) at (dw_outbox w) q" if "row_marked_by sent at (dw_outbox w1) q" for q
    using that published_rows_stay [OF assms(2)] unfolding row_marked_by_def by (meson list.set_intros(2))
  then show ?thesis
    using assms(1,3) row_marked_once [OF assms(2)] by (auto simp: dispatch_effect_def)
qed

lemma effect_keeps_marked:
  assumes "dispatch_effect sent at w w'" and "q \<in> set (dw_outbox w')" and "po_published_at_ms q = None"
  shows "q \<in> set (dw_outbox w)"
  using assms by (auto simp: dispatch_effect_def row_marked_by_def)

lemma publish_events_effect:
  "publish_events (d1_outbox_port accepts) at events n w = (res, w') \<Longrightarrow>
     \<exists>k. dispatch_effect (take k events) at w w'
       \<and> (\<forall>m. res = Inr m \<longrightarrow> take k events = events \<and> unat m = unat n + length events
            \<and> (\<forall>e \<in> set events. \<forall>q \<in> set (dw_outbox w'). names_row (ie_tenant_id e) (ie_event_id e) q \<longrightarrow> po_published_at_ms q \<noteq> None))"
proof (induction events arbitrary: n w)
  case Nil
  then show ?case by (auto intro!: exI [of _ 0])
next
  case (Cons e events)
  obtain r1 w1 where p: "op_publish (d1_outbox_port accepts) e w = (r1, w1)" by fastforce
  show ?case
  proof (cases r1)
    case (Inl x)
    then have "dispatch_effect (take 0 (e # events)) at w w'" "\<exists>y. res = Inl y"
      using Cons.prems p d1_publish [OF p] by (auto simp: dispatch_effect_def)
    then show ?thesis by blast
  next
    case (Inr x)
    obtain r2 w2 where m: "op_mark_published (d1_outbox_port accepts) (ie_tenant_id e) (ie_event_id e) at w1 = (r2, w2)" by fastforce
    have q: "dw_queue w2 = dw_queue w @ [queue_message_from_event e]"
      and d: "d1_mark_published (ie_tenant_id e) (ie_event_id e) at (dw_outbox w) = (r2, dw_outbox w2)"
      using d1_publish [OF p] d1_mark [OF m] Inr by auto
    have stop: "dispatch_effect (take 1 (e # events)) at w w2"
      using dispatch_effect_step [OF q d, of "[]"] by simp
    consider (stops) y where "res = Inl y" "w' = w2"
      | (on) n' where "r2 = Inr ()" "checked_add n 1 = Some n'" "publish_events (d1_outbox_port accepts) at events n' w2 = (res, w')"
      using Cons.prems p m Inr by (auto simp: or_return_def res_ok_or_def split: sum.splits option.splits)
    then show ?thesis
    proof cases
      case stops
      then show ?thesis using stop by blast
    next
      case on
      from Cons.IH [OF on(3)] obtain k where k: "dispatch_effect (take k events) at w2 w'"
        and g: "\<And>m. res = Inr m \<Longrightarrow> take k events = events \<and> unat m = unat n' + length events
            \<and> (\<forall>e \<in> set events. \<forall>q \<in> set (dw_outbox w'). names_row (ie_tenant_id e) (ie_event_id e) q \<longrightarrow> po_published_at_ms q \<noteq> None)"
        by blast
      have n': "unat n' = unat n + 1"
        using on(2) by (auto simp: checked_add_def unat_word_ariths split: if_splits)
      have e: "\<forall>q \<in> set (dw_outbox w'). names_row (ie_tenant_id e) (ie_event_id e) q \<longrightarrow> po_published_at_ms q \<noteq> None"
        using marked_event_not_pending [OF d [unfolded on(1)]] effect_keeps_marked [OF k] by blast
      have "dispatch_effect (take (Suc k) (e # events)) at w w'"
        using dispatch_effect_step [OF q d k] by simp
      then show ?thesis
        using g n' e by (intro exI [of _ "Suc k"]) auto
    qed
  qed
qed

lemma dispatch_cases:
  assumes "dispatch_pending_events (d1_outbox_port accepts) at limit w = (res, w')"
  obtains (refused) e where "res = Inl e" "w' = w"
  | (loaded) events where "limit \<noteq> 0" "limit \<le> max_dispatch_batch" "d1_load_pending limit (dw_outbox w) = Inr events"
      "publish_events (d1_outbox_port accepts) at events 0 w = (res, w')"
proof (cases "limit = 0 \<or> max_dispatch_batch < limit")
  case True
  have "res = Inl IoInvalidRequest" "w' = w" using assms by (simp_all add: dispatch_invalid_limit [OF True])
  then show thesis by (rule refused)
next
  case False
  then show thesis
    using assms refused loaded
    by (cases "d1_load_pending limit (dw_outbox w)")
       (auto simp: dispatch_pending_events_def or_return_def res_map_err_def d1_outbox_port_def)
qed

lemma loaded_event_row:
  assumes "d1_load_pending limit rows = Inr events" and "e \<in> set events"
  shows "\<exists>r \<in> set rows. po_published_at_ms r = None \<and> outbox_row_into_event r = Inr e"
proof -
  have "list_all2 (\<lambda>x y. outbox_row_into_event x = Inr y) (pending_rows limit rows) events"
    using assms(1) by (auto simp: d1_load_pending_def intro: collect_results_Inr)
  then obtain r where "r \<in> set (pending_rows limit rows)" "outbox_row_into_event r = Inr e"
    using assms(2) by (induction rule: list_all2_induct) auto
  then show ?thesis
    using set_pending_rows by blast
qed

section \<open>Messages\<close>

lemma outbox_row_into_eventE:
  assumes "outbox_row_into_event r = Inr e"
  obtains v version event_version occurred_at tenant event_id aggregate payload where
    "is_foundation_event_type (po_event_type r)" "version_new v = Inr version"
    "id_parse (po_tenant_id r) = Inr tenant" "id_parse (po_outbox_event_id r) = Inr event_id"
    "opaque_id_parse (po_aggregate_id r) = Inr aggregate" "metadata_json (po_payload_json r) = Inr payload"
    "integration_event_new event_id tenant (po_aggregate_type r) aggregate version (po_event_type r) event_version payload
       occurred_at = Inr e"
proof -
  have ok: "po_envelope_version r = uint integration_event_envelope_version \<and> is_foundation_event_type (po_event_type r)"
    using assms by (auto simp: outbox_row_into_event_def split: if_splits)
  from assms obtain version event_version occurred_at tenant event_id aggregate payload where
    v: "(case u64_of_i64 (po_aggregate_version r) of None \<Rightarrow> None
           | Some v \<Rightarrow> (case version_new v of Inl _ \<Rightarrow> None | Inr w \<Rightarrow> Some w)) = Some version"
    and rest: "id_parse (po_tenant_id r) = Inr tenant" "id_parse (po_outbox_event_id r) = Inr event_id"
    "opaque_id_parse (po_aggregate_id r) = Inr aggregate" "metadata_json (po_payload_json r) = Inr payload"
    "integration_event_new event_id tenant (po_aggregate_type r) aggregate version (po_event_type r) event_version payload
       occurred_at = Inr e"
    unfolding outbox_row_into_event_def using ok by (simp only: ok_iff res_ok_or_Inr_iff res_map_err_Inr_iff simp_thms if_False) blast
  from v obtain w where "version_new w = Inr version"
    by (auto split: option.splits sum.splits)
  from that [OF _ this rest] ok show thesis by blast
qed

lemma row_event_names:
  assumes "outbox_row_into_event r = Inr e"
  shows "names_row (ie_tenant_id e) (ie_event_id e) r"
  using assms
proof (cases rule: outbox_row_into_eventE)
  case (1 v version event_version occurred_at tenant event_id aggregate payload)
  then show ?thesis
    by (simp add: integration_event_new_def names_row_def id_parse_Inr_iff split: if_splits)
      (metis integration_event.select_convs(2,3))
qed

lemma metadata_json_reads_back: "metadata_json s = Inr p \<Longrightarrow> metadata_json (payload_text p) = Inr p"
  by (auto simp: metadata_json_def Let_def split: if_splits)

lemma opaque_parse_reads_back: "opaque_id_parse s = Inr i \<Longrightarrow> opaque_id_parse (opaque_as_str i) = Inr i"
  by (auto simp: opaque_id_parse_alt split: if_splits)

lemma id_parse_reads_back: "id_parse s = Inr i \<Longrightarrow> id_parse (id_as_str i) = Inr i"
  by (auto simp: id_parse_Inr_iff)

lemma version_reads_back: "version_new v = Inr x \<Longrightarrow> version_new (version_value x) = Inr x"
  by (auto simp: version_new_def split: if_splits)

lemma queue_message_roundtrip:
  assumes "id_parse i = Inr event_id" "id_parse t = Inr tenant" "opaque_id_parse a = Inr aggregate"
    "version_new v = Inr version" "metadata_json j = Inr payload"
    "integration_event_new event_id tenant aggregate_type aggregate version event_type event_version payload at = Inr e"
  shows "queue_message_into_event (queue_message_from_event e) = Inr e"
proof -
  have e: "ie_event_id e = event_id" "ie_tenant_id e = tenant" "ie_aggregate_id e = aggregate" "ie_aggregate_version e = version"
    "ie_payload e = payload" "ie_aggregate_type e = aggregate_type" "ie_event_type e = event_type" "ie_event_version e = event_version"
    "ie_occurred_at e = at" "ie_envelope_version e = integration_event_envelope_version"
    using assms(6) by (auto simp: integration_event_new_def split: if_splits)
  show ?thesis
    unfolding queue_message_into_event_def queue_message_from_event_def e
    using assms by (simp add: id_parse_reads_back opaque_parse_reads_back version_reads_back metadata_json_reads_back)
qed

lemma row_event_roundtrip:
  assumes "outbox_row_into_event r = Inr e"
  shows "queue_message_into_event (queue_message_from_event e) = Inr e"
  using assms by (cases rule: outbox_row_into_eventE) (rule queue_message_roundtrip)

end
