(* ===== verification/Notification_Domain.thy ===== *)
theory Notification_Domain
  imports Primitives
begin

text \<open>
  \<open>crates/notification-domain\<close> (\<open>cursor.rs\<close>, \<open>delivery.rs\<close>): how far a user has read, and the state of the
  delivery of one event to one consumer; and the retry policy of \<open>use-cases-notifications/src/retry.rs\<close>,
  which decides when a failed delivery is tried again.
\<close>

section \<open>Cursors\<close>

record notification_cursor =
  nc_occurred_at :: unix_millis
  nc_event_id :: outbox_event_id

datatype cursor_advance_error = CursorRewind

fun cursor_advance_error_message :: "cursor_advance_error \<Rightarrow> string" where
  "cursor_advance_error_message CursorRewind = ''notification cursor cannot move backwards''"

definition cursor_before :: "notification_cursor \<Rightarrow> notification_cursor \<Rightarrow> bool" where
  \<comment> \<open>\<open>compare_position\<close> is \<open>Less\<close>\<close>
  "cursor_before a b \<longleftrightarrow> nc_occurred_at a < nc_occurred_at b
     \<or> nc_occurred_at a = nc_occurred_at b \<and> id_as_str (nc_event_id a) < id_as_str (nc_event_id b)"

definition cursor_advance_to :: "notification_cursor \<Rightarrow> notification_cursor \<Rightarrow> cursor_advance_error + notification_cursor" where
  "cursor_advance_to self candidate =
     (if cursor_before self candidate then Inr candidate
      else if cursor_before candidate self then Inl CursorRewind
      else Inr self)"

section \<open>Deliveries\<close>

definition max_configured_attempts :: u16 where "max_configured_attempts = 64"
definition max_retryable_attempts :: u16 where "max_retryable_attempts = max_configured_attempts - 1"

datatype delivery_failure_class = DfDependencyUnavailable | DfRejected | DfIntegrityFailure | DfInternalFailure

datatype delivery_state =
    DsReady (ds_attempts: u16)
  | DsRetryScheduled (ds_attempts: u16) unix_millis unix_millis delivery_failure_class
    \<comment> \<open>last and next attempt\<close>
  | DsDelivered (ds_attempts: u16) unix_millis
  | DsDeadLetter (ds_attempts: u16) unix_millis delivery_failure_class

datatype delivery_restore_error = DrInvalidAttemptCount | DrInvalidRetrySchedule

fun delivery_restore_error_message :: "delivery_restore_error \<Rightarrow> string" where
  "delivery_restore_error_message DrInvalidAttemptCount = ''persisted notification delivery attempt count is invalid''"
| "delivery_restore_error_message DrInvalidRetrySchedule = ''persisted notification retry schedule is invalid''"

datatype delivery_transition_error =
    DtAttemptLimitAlreadyReached | DtAttemptOverflow | DtInvalidRetrySchedule | DtMissingRetrySchedule
  | DtRemediationRequiresDeadLetter | DtTerminalState | DtUnexpectedTerminalRetrySchedule

fun delivery_transition_error_message :: "delivery_transition_error \<Rightarrow> string" where
  "delivery_transition_error_message DtAttemptLimitAlreadyReached =
     ''non-terminal notification delivery already reached its attempt limit''"
| "delivery_transition_error_message DtAttemptOverflow = ''notification delivery attempt counter overflow''"
| "delivery_transition_error_message DtInvalidRetrySchedule =
     ''notification retry schedule must be strictly after the failed attempt''"
| "delivery_transition_error_message DtMissingRetrySchedule = ''non-terminal notification failure requires retry time''"
| "delivery_transition_error_message DtRemediationRequiresDeadLetter =
     ''notification remediation requires a dead-letter delivery''"
| "delivery_transition_error_message DtTerminalState = ''notification delivery is already terminal''"
| "delivery_transition_error_message DtUnexpectedTerminalRetrySchedule =
     ''terminal notification failure must not carry retry time''"

definition attempts_increment :: "u16 \<Rightarrow> delivery_transition_error + u16" where
  "attempts_increment n = res_ok_or DtAttemptOverflow (checked_add n 1)"

definition attempts_restore :: "u16 \<Rightarrow> u16 \<Rightarrow> u16 \<Rightarrow> delivery_restore_error + u16" where
  "attempts_restore value minimum maximum =
     (if value < minimum \<or> maximum < value then Inl DrInvalidAttemptCount else Inr value)"

datatype invalid_attempt_limit = InvalidAttemptLimit

fun invalid_attempt_limit_message :: "invalid_attempt_limit \<Rightarrow> string" where
  "invalid_attempt_limit_message InvalidAttemptLimit = ''notification delivery attempt limit is outside accepted bounds''"

definition attempt_limit_new :: "u16 \<Rightarrow> invalid_attempt_limit + u16" where
  "attempt_limit_new value = (if value = 0 \<or> max_configured_attempts < value then Inl InvalidAttemptLimit else Inr value)"

definition delivery_new :: delivery_state where
  "delivery_new = DsReady 0"

definition delivery_restore_ready :: "u16 \<Rightarrow> delivery_restore_error + delivery_state" where
  "delivery_restore_ready n = res_bind (attempts_restore n 0 0) (\<lambda>a. Inr (DsReady a))"

definition delivery_restore_retry_scheduled ::
    "u16 \<Rightarrow> unix_millis \<Rightarrow> unix_millis \<Rightarrow> delivery_failure_class \<Rightarrow> delivery_restore_error + delivery_state" where
  "delivery_restore_retry_scheduled n last_at next_at cls =
     (if next_at \<le> last_at then Inl DrInvalidRetrySchedule
      else res_bind (attempts_restore n 1 max_retryable_attempts) (\<lambda>a. Inr (DsRetryScheduled a last_at next_at cls)))"

definition delivery_restore_delivered :: "u16 \<Rightarrow> unix_millis \<Rightarrow> delivery_restore_error + delivery_state" where
  "delivery_restore_delivered n at = res_bind (attempts_restore n 1 max_configured_attempts) (\<lambda>a. Inr (DsDelivered a at))"

definition delivery_restore_dead_letter ::
    "u16 \<Rightarrow> unix_millis \<Rightarrow> delivery_failure_class \<Rightarrow> delivery_restore_error + delivery_state" where
  "delivery_restore_dead_letter n at cls =
     res_bind (attempts_restore n 1 max_configured_attempts) (\<lambda>a. Inr (DsDeadLetter a at cls))"

fun delivery_last_attempt_at :: "delivery_state \<Rightarrow> unix_millis option" where
  "delivery_last_attempt_at (DsReady _) = None"
| "delivery_last_attempt_at (DsRetryScheduled _ last_at _ _) = Some last_at"
| "delivery_last_attempt_at (DsDelivered _ at) = Some at"
| "delivery_last_attempt_at (DsDeadLetter _ at _) = Some at"

fun delivery_next_attempt_at :: "delivery_state \<Rightarrow> unix_millis option" where
  "delivery_next_attempt_at (DsRetryScheduled _ _ next_at _) = Some next_at"
| "delivery_next_attempt_at _ = None"

fun delivery_failure_class_of :: "delivery_state \<Rightarrow> delivery_failure_class option" where
  "delivery_failure_class_of (DsRetryScheduled _ _ _ cls) = Some cls"
| "delivery_failure_class_of (DsDeadLetter _ _ cls) = Some cls"
| "delivery_failure_class_of _ = None"

fun delivery_is_terminal :: "delivery_state \<Rightarrow> bool" where
  "delivery_is_terminal (DsDelivered _ _) = True"
| "delivery_is_terminal (DsDeadLetter _ _ _) = True"
| "delivery_is_terminal _ = False"

fun delivery_is_due :: "delivery_state \<Rightarrow> unix_millis \<Rightarrow> bool" where
  "delivery_is_due (DsReady _) now = True"
| "delivery_is_due (DsRetryScheduled _ _ next_at _) now = (next_at \<le> now)"
| "delivery_is_due _ now = False"

definition delivery_record_success :: "delivery_state \<Rightarrow> unix_millis \<Rightarrow> delivery_transition_error + delivery_state" where
  "delivery_record_success s at =
     (if delivery_is_terminal s then Inl DtTerminalState
      else res_bind (attempts_increment (ds_attempts s)) (\<lambda>a. Inr (DsDelivered a at)))"

definition delivery_record_failure ::
    "delivery_state \<Rightarrow> unix_millis \<Rightarrow> unix_millis option \<Rightarrow> u16 \<Rightarrow> delivery_failure_class
     \<Rightarrow> delivery_transition_error + delivery_state" where
  "delivery_record_failure s failed_at next_at limit cls =
     (if delivery_is_terminal s then Inl DtTerminalState
      else if limit \<le> ds_attempts s then Inl DtAttemptLimitAlreadyReached
      else res_bind (attempts_increment (ds_attempts s)) (\<lambda>a.
        if a = limit then
          (if next_at \<noteq> None then Inl DtUnexpectedTerminalRetrySchedule else Inr (DsDeadLetter a failed_at cls))
        else (case next_at of
                None \<Rightarrow> Inl DtMissingRetrySchedule
              | Some at \<Rightarrow> if at \<le> failed_at then Inl DtInvalidRetrySchedule else Inr (DsRetryScheduled a failed_at at cls))))"

fun delivery_record_remediation :: "delivery_state \<Rightarrow> delivery_transition_error + delivery_state" where
  "delivery_record_remediation (DsDeadLetter _ _ _) = Inr delivery_new"
| "delivery_record_remediation (DsDelivered _ _) = Inl DtTerminalState"
| "delivery_record_remediation _ = Inl DtRemediationRequiresDeadLetter"

section \<open>Retry policy\<close>

definition basis_points_denominator :: u64 where "basis_points_denominator = 10000"
definition jitter_hash_modulus :: u64 where "jitter_hash_modulus = 1000003"
definition max_jitter_basis_points :: u16 where "max_jitter_basis_points = 2500"
definition max_retry_delay_bound_ms :: u64 where "max_retry_delay_bound_ms = 86400000"

record retry_policy =
  rp_base_delay_ms :: u64
  rp_max_delay_ms :: u64
  rp_jitter_basis_points :: u16
  rp_attempt_limit :: u16

datatype retry_policy_config_error =
    RcAttemptLimitOutOfBounds | RcJitterExceedsBound | RcMaxDelayBeforeBase | RcMaxDelayExceedsBound | RcZeroBaseDelay

fun retry_policy_config_error_message :: "retry_policy_config_error \<Rightarrow> string" where
  "retry_policy_config_error_message RcAttemptLimitOutOfBounds = ''notification retry attempt limit is outside accepted bounds''"
| "retry_policy_config_error_message RcJitterExceedsBound = ''notification retry jitter exceeds accepted bound''"
| "retry_policy_config_error_message RcMaxDelayBeforeBase = ''notification retry max delay must be at least the base delay''"
| "retry_policy_config_error_message RcMaxDelayExceedsBound = ''notification retry max delay exceeds accepted bound''"
| "retry_policy_config_error_message RcZeroBaseDelay = ''notification retry base delay must be greater than zero''"

definition retry_policy_new :: "u64 \<Rightarrow> u64 \<Rightarrow> u16 \<Rightarrow> u16 \<Rightarrow> retry_policy_config_error + retry_policy" where
  "retry_policy_new base_delay max_delay jitter limit =
     (if base_delay = 0 then Inl RcZeroBaseDelay
      else if max_delay < base_delay then Inl RcMaxDelayBeforeBase
      else if max_retry_delay_bound_ms < max_delay then Inl RcMaxDelayExceedsBound
      else if max_jitter_basis_points < jitter then Inl RcJitterExceedsBound
      else Inr \<lparr>rp_base_delay_ms = base_delay, rp_max_delay_ms = max_delay, rp_jitter_basis_points = jitter,
                rp_attempt_limit = limit\<rparr>)"

definition retry_policy_configured :: "u64 \<Rightarrow> u64 \<Rightarrow> u16 \<Rightarrow> u16 \<Rightarrow> retry_policy_config_error + retry_policy" where
  "retry_policy_configured base_delay max_delay jitter max_attempts =
     res_bind (res_map_err (\<lambda>_. RcAttemptLimitOutOfBounds) (attempt_limit_new max_attempts))
       (retry_policy_new base_delay max_delay jitter)"

datatype retry_scheduling_error =
    RsAttemptLimitAlreadyReached | RsAttemptOutsideRetryWindow | RsAttemptOverflow | RsDelayArithmeticOverflow
  | RsDomainTransition delivery_transition_error | RsTimestampOverflow

fun retry_scheduling_error_message :: "retry_scheduling_error \<Rightarrow> string" where
  "retry_scheduling_error_message RsAttemptLimitAlreadyReached = ''notification retry requested after automatic attempt limit''"
| "retry_scheduling_error_message RsAttemptOutsideRetryWindow = ''notification retry attempt is outside automatic retry window''"
| "retry_scheduling_error_message RsAttemptOverflow = ''notification retry attempt counter overflow''"
| "retry_scheduling_error_message RsDelayArithmeticOverflow = ''notification retry delay arithmetic overflow''"
| "retry_scheduling_error_message (RsDomainTransition _) = ''notification delivery transition rejected retry policy''"
| "retry_scheduling_error_message RsTimestampOverflow = ''notification retry timestamp overflow''"

fun nominal_retry_delay :: "nat \<Rightarrow> u64 \<Rightarrow> u64 \<Rightarrow> u64" where
  \<comment> \<open>the loop that doubles: rounds left, maximum, delay so far\<close>
  "nominal_retry_delay 0 max_delay d = d"
| "nominal_retry_delay (Suc n) max_delay d =
     (if max_delay \<le> d then d
      else nominal_retry_delay n max_delay (case checked_mul d 2 of Some x \<Rightarrow> min x max_delay | None \<Rightarrow> max_delay))"

definition jitter_hash :: "string \<Rightarrow> u64" where
  "jitter_hash s = foldl (\<lambda>acc c. (acc * 131 + of_nat (of_char c)) mod jitter_hash_modulus) 0 s"

definition deterministic_jitter_sample :: "outbox_event_id \<Rightarrow> u16 \<Rightarrow> u64 \<Rightarrow> u64" where
  "deterministic_jitter_sample event_id failed_attempt width =
     ((jitter_hash (id_as_str event_id) * 257 + ucast failed_attempt) mod jitter_hash_modulus) mod width"

definition retry_delay_ms :: "retry_policy \<Rightarrow> outbox_event_id \<Rightarrow> u16 \<Rightarrow> retry_scheduling_error + u64" where
  "retry_delay_ms p event_id failed_attempt =
     (if failed_attempt = 0 \<or> rp_attempt_limit p \<le> failed_attempt then Inl RsAttemptOutsideRetryWindow
      else
      let nominal = nominal_retry_delay (unat failed_attempt - 1) (rp_max_delay_ms p) (rp_base_delay_ms p);
          overflow = res_ok_or RsDelayArithmeticOverflow in
      res_bind (overflow (checked_mul nominal (ucast (rp_jitter_basis_points p)))) (\<lambda>product.
      let span = product div basis_points_denominator in
      if span = 0 then Inr nominal
      else
      res_bind (overflow (case checked_mul span 2 of None \<Rightarrow> None | Some v \<Rightarrow> checked_add v 1)) (\<lambda>width.
      let sample = deterministic_jitter_sample event_id failed_attempt width in
      res_bind (overflow (checked_sub nominal span)) (\<lambda>lower.
      res_bind (overflow (checked_add lower sample)) (\<lambda>jittered.
      Inr (max 1 (min jittered (rp_max_delay_ms p))))))))"

definition transition_after_failure ::
    "retry_policy \<Rightarrow> delivery_state \<Rightarrow> unix_millis \<Rightarrow> outbox_event_id \<Rightarrow> delivery_failure_class
     \<Rightarrow> retry_scheduling_error + delivery_state" where
  "transition_after_failure p s failed_at event_id cls =
     res_bind (res_ok_or RsAttemptOverflow (checked_add (ds_attempts s) 1)) (\<lambda>failed_attempt.
     if failed_attempt = rp_attempt_limit p
     then res_map_err RsDomainTransition (delivery_record_failure s failed_at None (rp_attempt_limit p) cls)
     else if rp_attempt_limit p < failed_attempt then Inl RsAttemptLimitAlreadyReached
     else
     res_bind (retry_delay_ms p event_id failed_attempt) (\<lambda>delay.
     res_bind (res_ok_or RsTimestampOverflow (checked_add failed_at delay)) (\<lambda>next_at.
     res_map_err RsDomainTransition (delivery_record_failure s failed_at (Some next_at) (rp_attempt_limit p) cls))))"

end
