(* ===== verification/Notification_Delivery.thy ===== *)
theory Notification_Delivery
  imports Notification_Domain Integration_Events
begin

text \<open>
  The delivery of an event to a consumer: the use case
  (\<open>use-cases-notifications/src/delivery.rs\<close>, \<open>foundation_event_consumer.rs\<close>, \<open>integration_events.rs\<close>) over its
  ports, and the catalogue database behind them (\<open>cloudflare-adapters/src/d1_notifications.rs\<close>,
  \<open>d1_integration_events.rs\<close>) with the tables, checks and triggers of
  \<open>migrations/d1/0012_integration_event_foundation.sql\<close> and \<open>0013_notification_delivery_hardening.sql\<close>.
\<close>

section \<open>Ports\<close>

datatype notification_port_error_class = NpConflict | NpIntegrityFailure | NpInternalFailure | NpDependencyUnavailable

datatype delivery_write_outcome = DeliveryApplied | DeliveryStale

datatype consumer_claim = ConsumerClaimed | ConsumerDuplicate

record 's delivery_ports =
  dlp_load_or_create :: "tenant_id \<Rightarrow> opaque_id \<Rightarrow> outbox_event_id \<Rightarrow> unix_millis \<Rightarrow> 's
      \<Rightarrow> (notification_port_error_class + delivery_state) \<times> 's"
  dlp_compare_and_swap :: "tenant_id \<Rightarrow> opaque_id \<Rightarrow> outbox_event_id \<Rightarrow> delivery_state \<Rightarrow> delivery_state \<Rightarrow> 's
      \<Rightarrow> (notification_port_error_class + delivery_write_outcome) \<times> 's"
  dlp_persist_event :: "integration_event \<Rightarrow> unix_millis \<Rightarrow> 's \<Rightarrow> (event_port_error_class + unit) \<times> 's"
  dlp_claim :: "opaque_id \<Rightarrow> integration_event \<Rightarrow> unix_millis \<Rightarrow> 's \<Rightarrow> (event_port_error_class + consumer_claim) \<times> 's"

section \<open>The consumer\<close>

datatype consumer_delivery_outcome = ConsumerAccepted | ConsumerDeliveredBefore

definition accept_delivery_once ::
    "'s delivery_ports \<Rightarrow> opaque_id \<Rightarrow> integration_event \<Rightarrow> unix_millis \<Rightarrow> 's
     \<Rightarrow> (integration_event_operation_error + consumer_delivery_outcome) \<times> 's" where
  "accept_delivery_once port consumer_id event consumed_at s =
     (case dlp_claim port consumer_id event consumed_at s of
        (Inl e, s') \<Rightarrow> (Inl (map_event_port_error e), s')
      | (Inr ConsumerClaimed, s') \<Rightarrow> (Inr ConsumerAccepted, s')
      | (Inr ConsumerDuplicate, s') \<Rightarrow> (Inr ConsumerDeliveredBefore, s'))"

definition accept_foundation_delivery_once ::
    "'s delivery_ports \<Rightarrow> opaque_id \<Rightarrow> integration_event \<Rightarrow> unix_millis \<Rightarrow> 's
     \<Rightarrow> (integration_event_operation_error + consumer_delivery_outcome) \<times> 's" where
  "accept_foundation_delivery_once port consumer_id event consumed_at s =
     (if \<not> is_foundation_event_type (ie_event_type event) then (Inl IoInvalidRequest, s)
      else case dlp_persist_event port event consumed_at s of
             (Inl e, s') \<Rightarrow> (Inl (map_event_port_error e), s')
           | (Inr _, s') \<Rightarrow> accept_delivery_once port consumer_id event consumed_at s')"

section \<open>The use case\<close>

datatype delivery_outcome = OutcomeDelivered bool | OutcomeRetryScheduled unix_millis | OutcomeDeadLetter
  \<comment> \<open>the flag: a duplicate\<close>

datatype delivery_processing_error =
    DpDomainTransition delivery_transition_error | DpPersistence notification_port_error_class
  | DpRetryScheduling retry_scheduling_error | DpStateConflict

fun delivery_processing_error_message :: "delivery_processing_error \<Rightarrow> string" where
  "delivery_processing_error_message (DpDomainTransition _) = ''notification delivery state transition failed''"
| "delivery_processing_error_message (DpPersistence NpConflict) = ''notification delivery persistence conflict''"
| "delivery_processing_error_message (DpPersistence NpIntegrityFailure) = ''notification delivery persistence integrity failure''"
| "delivery_processing_error_message (DpPersistence NpInternalFailure) = ''notification delivery persistence internal failure''"
| "delivery_processing_error_message (DpPersistence NpDependencyUnavailable) =
     ''notification delivery persistence dependency unavailable''"
| "delivery_processing_error_message (DpRetryScheduling _) = ''notification delivery retry scheduling failed''"
| "delivery_processing_error_message DpStateConflict = ''notification delivery state conflict''"

fun failure_class_of_error :: "integration_event_operation_error \<Rightarrow> delivery_failure_class" where
  "failure_class_of_error IoInvalidRequest = DfRejected"
| "failure_class_of_error IoConflict = DfIntegrityFailure"
| "failure_class_of_error IoIntegrityFailure = DfIntegrityFailure"
| "failure_class_of_error IoInternalFailure = DfInternalFailure"
| "failure_class_of_error IoDependencyUnavailable = DfDependencyUnavailable"

fun outcome_from_state :: "delivery_state \<Rightarrow> delivery_processing_error + delivery_outcome" where
  "outcome_from_state (DsRetryScheduled _ _ next_at _) = Inr (OutcomeRetryScheduled next_at)"
| "outcome_from_state (DsDeadLetter _ _ _) = Inr OutcomeDeadLetter"
| "outcome_from_state (DsDelivered _ _) = Inr (OutcomeDelivered False)"
| "outcome_from_state (DsReady _) = Inl DpStateConflict"

fun outcome_of_current :: "delivery_state \<Rightarrow> delivery_processing_error + delivery_outcome" where
  \<comment> \<open>the \<open>match\<close> of \<open>reconcile_after_stale\<close>\<close>
  "outcome_of_current (DsDelivered _ _) = Inr (OutcomeDelivered True)"
| "outcome_of_current (DsDeadLetter _ _ _) = Inr OutcomeDeadLetter"
| "outcome_of_current (DsRetryScheduled _ _ next_at _) = Inr (OutcomeRetryScheduled next_at)"
| "outcome_of_current (DsReady _) = Inl DpStateConflict"

definition reconcile_after_stale ::
    "'s delivery_ports \<Rightarrow> opaque_id \<Rightarrow> integration_event \<Rightarrow> 's \<Rightarrow> (delivery_processing_error + delivery_outcome) \<times> 's" where
  "reconcile_after_stale port consumer_id event s =
     (case dlp_load_or_create port (ie_tenant_id event) consumer_id (ie_event_id event) (ie_occurred_at event) s of
        (Inl e, s') \<Rightarrow> (Inl (DpPersistence e), s')
      | (Inr current, s') \<Rightarrow> (outcome_of_current current, s'))"

definition settle_delivery ::
    "'s delivery_ports \<Rightarrow> opaque_id \<Rightarrow> integration_event \<Rightarrow> delivery_state \<Rightarrow> delivery_state
     \<Rightarrow> (delivery_processing_error + delivery_outcome) \<Rightarrow> 's \<Rightarrow> (delivery_processing_error + delivery_outcome) \<times> 's" where
  \<comment> \<open>both branches of the use case end in this: swap the state, or reconcile\<close>
  "settle_delivery port consumer_id event state new_state applied s =
     (case dlp_compare_and_swap port (ie_tenant_id event) consumer_id (ie_event_id event) state new_state s of
        (Inl e, s') \<Rightarrow> (Inl (DpPersistence e), s')
      | (Inr DeliveryApplied, s') \<Rightarrow> (applied, s')
      | (Inr DeliveryStale, s') \<Rightarrow> reconcile_after_stale port consumer_id event s')"

definition attempt_delivery ::
    "'s delivery_ports \<Rightarrow> opaque_id \<Rightarrow> integration_event \<Rightarrow> unix_millis \<Rightarrow> retry_policy \<Rightarrow> delivery_state \<Rightarrow> 's
     \<Rightarrow> (delivery_processing_error + delivery_outcome) \<times> 's" where
  \<comment> \<open>from \<open>accept_foundation_delivery_once\<close> on\<close>
  "attempt_delivery port consumer_id event now policy state s =
     (case accept_foundation_delivery_once port consumer_id event now s of
        (Inr outcome, s1) \<Rightarrow>
          or_return (res_map_err DpDomainTransition (delivery_record_success state now)) s1 (\<lambda>new_state.
            settle_delivery port consumer_id event state new_state (Inr (OutcomeDelivered (outcome = ConsumerDeliveredBefore))) s1)
      | (Inl error, s1) \<Rightarrow>
          or_return (res_map_err DpRetryScheduling
              (transition_after_failure policy state now (ie_event_id event) (failure_class_of_error error))) s1 (\<lambda>new_state.
            settle_delivery port consumer_id event state new_state (outcome_from_state new_state) s1))"

definition process_foundation_delivery ::
    "'s delivery_ports \<Rightarrow> opaque_id \<Rightarrow> integration_event \<Rightarrow> unix_millis \<Rightarrow> retry_policy \<Rightarrow> 's
     \<Rightarrow> (delivery_processing_error + delivery_outcome) \<times> 's" where
  "process_foundation_delivery port consumer_id event now policy s =
     (case dlp_load_or_create port (ie_tenant_id event) consumer_id (ie_event_id event) (ie_occurred_at event) s of
        (Inl e, s1) \<Rightarrow> (Inl (DpPersistence e), s1)
      | (Inr state, s1) \<Rightarrow>
          (case state of
             DsDelivered _ _ \<Rightarrow> (Inr (OutcomeDelivered True), s1)
           | DsDeadLetter _ _ _ \<Rightarrow> (Inr OutcomeDeadLetter, s1)
           | DsRetryScheduled _ _ next_at _ \<Rightarrow>
               if \<not> delivery_is_due state now then (Inr (OutcomeRetryScheduled next_at), s1)
               else attempt_delivery port consumer_id event now policy state s1
           | DsReady _ \<Rightarrow> attempt_delivery port consumer_id event now policy state s1))"

section \<open>Rows\<close>

record delivery_row =
  dr_state :: string
  dr_attempts :: int
  dr_last_attempt_at :: "int option"
  dr_next_attempt_at :: "int option"
  dr_delivered_at :: "int option"
  dr_terminal_at :: "int option"
  dr_failure_class :: "string option"
  dr_created_at :: int
  dr_updated_at :: int

fun failure_class_storage :: "delivery_failure_class \<Rightarrow> string" where
  "failure_class_storage DfDependencyUnavailable = ''DEPENDENCY_UNAVAILABLE''"
| "failure_class_storage DfRejected = ''REJECTED''"
| "failure_class_storage DfIntegrityFailure = ''INTEGRITY_FAILURE''"
| "failure_class_storage DfInternalFailure = ''INTERNAL_FAILURE''"

definition required_failure_class :: "string option \<Rightarrow> notification_port_error_class + delivery_failure_class" where
  "required_failure_class v =
     (if v = Some ''DEPENDENCY_UNAVAILABLE'' then Inr DfDependencyUnavailable
      else if v = Some ''REJECTED'' then Inr DfRejected
      else if v = Some ''INTEGRITY_FAILURE'' then Inr DfIntegrityFailure
      else if v = Some ''INTERNAL_FAILURE'' then Inr DfInternalFailure
      else Inl NpIntegrityFailure)"

definition notification_integer :: "unix_millis \<Rightarrow> notification_port_error_class + int" where
  "notification_integer t = res_ok_or NpIntegrityFailure (i64_of_u64 t)"

definition required_unix :: "int option \<Rightarrow> notification_port_error_class + unix_millis" where
  "required_unix v = res_bind (res_ok_or NpIntegrityFailure v) (\<lambda>i. res_ok_or NpIntegrityFailure (u64_of_i64 i))"

definition delivery_row_into_state :: "delivery_row \<Rightarrow> notification_port_error_class + delivery_state" where
  "delivery_row_into_state r =
     res_bind (res_ok_or NpIntegrityFailure (u16_of_i64 (dr_attempts r))) (\<lambda>attempts.
     if dr_state r = ''READY'' \<and> dr_last_attempt_at r = None \<and> dr_next_attempt_at r = None \<and> dr_delivered_at r = None
        \<and> dr_terminal_at r = None \<and> dr_failure_class r = None
     then res_map_err (\<lambda>_. NpIntegrityFailure) (delivery_restore_ready attempts)
     else if dr_state r = ''RETRY_SCHEDULED'' \<and> dr_delivered_at r = None \<and> dr_terminal_at r = None
     then res_bind (required_unix (dr_last_attempt_at r)) (\<lambda>last_at.
          res_bind (required_unix (dr_next_attempt_at r)) (\<lambda>next_at.
          res_bind (required_failure_class (dr_failure_class r)) (\<lambda>cls.
          res_map_err (\<lambda>_. NpIntegrityFailure) (delivery_restore_retry_scheduled attempts last_at next_at cls))))
     else if dr_state r = ''DELIVERED'' \<and> dr_next_attempt_at r = None \<and> dr_terminal_at r = None \<and> dr_failure_class r = None
     then res_bind (required_unix (dr_last_attempt_at r)) (\<lambda>last_at.
          res_bind (required_unix (dr_delivered_at r)) (\<lambda>at.
          if last_at \<noteq> at then Inl NpIntegrityFailure
          else res_map_err (\<lambda>_. NpIntegrityFailure) (delivery_restore_delivered attempts at)))
     else if dr_state r = ''DEAD_LETTER'' \<and> dr_next_attempt_at r = None \<and> dr_delivered_at r = None
     then res_bind (required_unix (dr_last_attempt_at r)) (\<lambda>last_at.
          res_bind (required_unix (dr_terminal_at r)) (\<lambda>at.
          if last_at \<noteq> at then Inl NpIntegrityFailure
          else res_bind (required_failure_class (dr_failure_class r)) (\<lambda>cls.
          res_map_err (\<lambda>_. NpIntegrityFailure) (delivery_restore_dead_letter attempts at cls))))
     else Inl NpIntegrityFailure)"

record expected_shape =
  es_state :: string
  es_attempts :: int
  es_last_attempt_at :: int
  es_next_attempt_at :: int
  es_delivered_at :: int
  es_terminal_at :: int
  es_failure_class :: string

fun expected_shape_of :: "delivery_state \<Rightarrow> notification_port_error_class + expected_shape" where
  "expected_shape_of (DsReady a) =
     Inr \<lparr>es_state = ''READY'', es_attempts = uint a, es_last_attempt_at = -1, es_next_attempt_at = -1, es_delivered_at = -1,
          es_terminal_at = -1, es_failure_class = []\<rparr>"
| "expected_shape_of (DsRetryScheduled a last_at next_at cls) =
     res_bind (notification_integer last_at) (\<lambda>l. res_bind (notification_integer next_at) (\<lambda>n.
     Inr \<lparr>es_state = ''RETRY_SCHEDULED'', es_attempts = uint a, es_last_attempt_at = l, es_next_attempt_at = n,
          es_delivered_at = -1, es_terminal_at = -1, es_failure_class = failure_class_storage cls\<rparr>))"
| "expected_shape_of (DsDelivered a at) =
     res_bind (notification_integer at) (\<lambda>d.
     Inr \<lparr>es_state = ''DELIVERED'', es_attempts = uint a, es_last_attempt_at = d, es_next_attempt_at = -1,
          es_delivered_at = d, es_terminal_at = -1, es_failure_class = []\<rparr>)"
| "expected_shape_of (DsDeadLetter a at cls) =
     res_bind (notification_integer at) (\<lambda>t.
     Inr \<lparr>es_state = ''DEAD_LETTER'', es_attempts = uint a, es_last_attempt_at = t, es_next_attempt_at = -1,
          es_delivered_at = -1, es_terminal_at = t, es_failure_class = failure_class_storage cls\<rparr>)"

definition coalesce :: "'a option \<Rightarrow> 'a \<Rightarrow> 'a" where
  "coalesce v d = (case v of None \<Rightarrow> d | Some x \<Rightarrow> x)"

definition row_has_shape :: "expected_shape \<Rightarrow> delivery_row \<Rightarrow> bool" where
  \<comment> \<open>the WHERE clause of the three UPDATE statements\<close>
  "row_has_shape e r \<longleftrightarrow> dr_state r = es_state e \<and> dr_attempts r = es_attempts e
     \<and> coalesce (dr_last_attempt_at r) (-1) = es_last_attempt_at e \<and> coalesce (dr_next_attempt_at r) (-1) = es_next_attempt_at e
     \<and> coalesce (dr_delivered_at r) (-1) = es_delivered_at e \<and> coalesce (dr_terminal_at r) (-1) = es_terminal_at e
     \<and> coalesce (dr_failure_class r) [] = es_failure_class e"

fun updated_row :: "delivery_state \<Rightarrow> delivery_row \<Rightarrow> notification_port_error_class + delivery_row" where
  "updated_row (DsReady _) r = Inl NpIntegrityFailure"
| "updated_row (DsRetryScheduled a last_at next_at cls) r =
     res_bind (notification_integer last_at) (\<lambda>l. res_bind (notification_integer next_at) (\<lambda>n.
     Inr (r\<lparr>dr_state := ''RETRY_SCHEDULED'', dr_attempts := uint a, dr_last_attempt_at := Some l, dr_next_attempt_at := Some n,
            dr_delivered_at := None, dr_terminal_at := None, dr_failure_class := Some (failure_class_storage cls),
            dr_updated_at := l\<rparr>)))"
| "updated_row (DsDelivered a at) r =
     res_bind (notification_integer at) (\<lambda>d.
     Inr (r\<lparr>dr_state := ''DELIVERED'', dr_attempts := uint a, dr_last_attempt_at := Some d, dr_next_attempt_at := None,
            dr_delivered_at := Some d, dr_terminal_at := None, dr_failure_class := None, dr_updated_at := d\<rparr>))"
| "updated_row (DsDeadLetter a at cls) r =
     res_bind (notification_integer at) (\<lambda>t.
     Inr (r\<lparr>dr_state := ''DEAD_LETTER'', dr_attempts := uint a, dr_last_attempt_at := Some t, dr_next_attempt_at := None,
            dr_delivered_at := None, dr_terminal_at := Some t, dr_failure_class := Some (failure_class_storage cls),
            dr_updated_at := t\<rparr>))"

definition delivery_transition_allowed :: "delivery_row \<Rightarrow> delivery_row \<Rightarrow> bool" where
  \<comment> \<open>\<open>notification_delivery_transition_guard\<close> for an UPDATE that is no replay\<close>
  "delivery_transition_allowed old new \<longleftrightarrow>
     dr_state old \<notin> {''DELIVERED'', ''DEAD_LETTER''} \<and> dr_attempts new = dr_attempts old + 1 \<and> dr_state new \<noteq> ''READY''
     \<and> (case dr_last_attempt_at new of None \<Rightarrow> False
        | Some t \<Rightarrow> dr_created_at old \<le> t
            \<and> (dr_state old = ''RETRY_SCHEDULED'' \<longrightarrow> (case dr_next_attempt_at old of None \<Rightarrow> True | Some n \<Rightarrow> n \<le> t)))"

fun absent_or :: "('a \<Rightarrow> bool) \<Rightarrow> 'a option \<Rightarrow> bool" where
  "absent_or P None = True"
| "absent_or P (Some x) = P x"

definition delivery_row_checks :: "delivery_row \<Rightarrow> bool" where
  \<comment> \<open>the CHECK constraints of \<open>notification_deliveries\<close>\<close>
  "delivery_row_checks r \<longleftrightarrow>
       0 \<le> dr_attempts r \<and> dr_attempts r \<le> 64
     \<and> absent_or (\<lambda>t. 0 \<le> t \<and> dr_created_at r \<le> t) (dr_last_attempt_at r) \<and> absent_or (\<lambda>t. 0 \<le> t) (dr_next_attempt_at r)
     \<and> absent_or (\<lambda>t. 0 \<le> t) (dr_delivered_at r) \<and> absent_or (\<lambda>t. 0 \<le> t) (dr_terminal_at r)
     \<and> absent_or (\<lambda>c. c \<in> {''DEPENDENCY_UNAVAILABLE'', ''REJECTED'', ''INTEGRITY_FAILURE'', ''INTERNAL_FAILURE''}) (dr_failure_class r)
     \<and> 0 \<le> dr_created_at r \<and> dr_created_at r \<le> dr_updated_at r
     \<and> (dr_state r = ''READY'' \<and> dr_attempts r = 0 \<and> dr_last_attempt_at r = None \<and> dr_next_attempt_at r = None
          \<and> dr_delivered_at r = None \<and> dr_terminal_at r = None \<and> dr_failure_class r = None
        \<or> dr_state r = ''RETRY_SCHEDULED'' \<and> 1 \<le> dr_attempts r \<and> dr_attempts r \<le> 63
          \<and> (case (dr_last_attempt_at r, dr_next_attempt_at r) of (Some l, Some n) \<Rightarrow> l < n | _ \<Rightarrow> False)
          \<and> dr_delivered_at r = None \<and> dr_terminal_at r = None \<and> dr_failure_class r \<noteq> None
        \<or> dr_state r = ''DELIVERED'' \<and> 1 \<le> dr_attempts r \<and> dr_attempts r \<le> 64 \<and> dr_last_attempt_at r \<noteq> None
          \<and> dr_next_attempt_at r = None \<and> dr_delivered_at r = dr_last_attempt_at r \<and> dr_terminal_at r = None \<and> dr_failure_class r = None
        \<or> dr_state r = ''DEAD_LETTER'' \<and> 1 \<le> dr_attempts r \<and> dr_attempts r \<le> 64 \<and> dr_last_attempt_at r \<noteq> None
          \<and> dr_next_attempt_at r = None \<and> dr_delivered_at r = None \<and> dr_terminal_at r = dr_last_attempt_at r \<and> dr_failure_class r \<noteq> None)"

section \<open>The catalogue database\<close>

record notification_db =
  nd_outbox :: "string \<times> string \<Rightarrow> pending_outbox_row option"
  nd_events :: "(string \<times> string) set"
  nd_claims :: "(string \<times> string \<times> string) set"
  nd_deliveries :: "string \<times> string \<times> string \<Rightarrow> delivery_row option"

definition delivery_key :: "tenant_id \<Rightarrow> opaque_id \<Rightarrow> outbox_event_id \<Rightarrow> string \<times> string \<times> string" where
  "delivery_key tenant_id consumer_id event_id = (id_as_str tenant_id, opaque_as_str consumer_id, id_as_str event_id)"

definition event_key :: "tenant_id \<Rightarrow> outbox_event_id \<Rightarrow> string \<times> string" where
  "event_key tenant_id event_id = (id_as_str tenant_id, id_as_str event_id)"

definition ready_row :: "int \<Rightarrow> delivery_row" where
  "ready_row created_at =
     \<lparr>dr_state = ''READY'', dr_attempts = 0, dr_last_attempt_at = None, dr_next_attempt_at = None, dr_delivered_at = None,
      dr_terminal_at = None, dr_failure_class = None, dr_created_at = created_at, dr_updated_at = created_at\<rparr>"

definition d1_load_or_create ::
    "tenant_id \<Rightarrow> opaque_id \<Rightarrow> outbox_event_id \<Rightarrow> unix_millis \<Rightarrow> notification_db
     \<Rightarrow> (notification_port_error_class + delivery_state) \<times> notification_db" where
  \<comment> \<open>the BEFORE trigger runs whether or not the row is there; ON CONFLICT DO NOTHING keeps the row\<close>
  "d1_load_or_create tenant_id consumer_id event_id created_at db =
     or_return (notification_integer created_at) db (\<lambda>created.
       let k = delivery_key tenant_id consumer_id event_id in
       case nd_outbox db (event_key tenant_id event_id) of
         None \<Rightarrow> (Inl NpInternalFailure, db)
       | Some source \<Rightarrow>
           if created < po_created_at_ms source then (Inl NpInternalFailure, db)
           else let db' = (case nd_deliveries db k of None \<Rightarrow> db\<lparr>nd_deliveries := (nd_deliveries db)(k \<mapsto> ready_row created)\<rparr>
                           | Some _ \<Rightarrow> db) in
             (case nd_deliveries db' k of None \<Rightarrow> (Inl NpIntegrityFailure, db') | Some row \<Rightarrow> (delivery_row_into_state row, db')))"

definition d1_compare_and_swap ::
    "tenant_id \<Rightarrow> opaque_id \<Rightarrow> outbox_event_id \<Rightarrow> delivery_state \<Rightarrow> delivery_state \<Rightarrow> notification_db
     \<Rightarrow> (notification_port_error_class + delivery_write_outcome) \<times> notification_db" where
  "d1_compare_and_swap tenant_id consumer_id event_id expected new_state db =
     or_return (expected_shape_of expected) db (\<lambda>shape.
       let k = delivery_key tenant_id consumer_id event_id in
       or_return (updated_row new_state (ready_row 0)) db (\<lambda>_.
       case nd_deliveries db k of
         None \<Rightarrow> (Inr DeliveryStale, db)
       | Some row \<Rightarrow>
           if \<not> row_has_shape shape row then (Inr DeliveryStale, db)
           else or_return (updated_row new_state row) db (\<lambda>row'.
             if delivery_transition_allowed row row' \<and> delivery_row_checks row'
             then (Inr DeliveryApplied, db\<lparr>nd_deliveries := (nd_deliveries db)(k \<mapsto> row')\<rparr>)
             else (Inl NpInternalFailure, db))))"

definition d1_apply_replay :: "string \<times> string \<times> string \<Rightarrow> int \<Rightarrow> int \<Rightarrow> notification_db \<Rightarrow> notification_db" where
  \<comment> \<open>the UPDATE of \<open>notification_replay_intent_apply\<close>: an operator sends a dead letter back to the start\<close>
  "d1_apply_replay k terminal_attempts requested_at db =
     (case nd_deliveries db k of
        None \<Rightarrow> db
      | Some row \<Rightarrow>
          if dr_state row = ''DEAD_LETTER'' \<and> dr_attempts row = terminal_attempts
          then db\<lparr>nd_deliveries := (nd_deliveries db)(k \<mapsto> row\<lparr>dr_state := ''READY'', dr_attempts := 0, dr_last_attempt_at := None,
                 dr_next_attempt_at := None, dr_delivered_at := None, dr_terminal_at := None, dr_failure_class := None,
                 dr_updated_at := requested_at\<rparr>)\<rparr>
          else db)"

definition source_matches_event :: "integration_event \<Rightarrow> pending_outbox_row \<Rightarrow> bool" where
  \<comment> \<open>\<open>notification_event_source_guard\<close>\<close>
  "source_matches_event e r \<longleftrightarrow> po_envelope_version r = uint (ie_envelope_version e) \<and> po_aggregate_type r = ie_aggregate_type e
     \<and> po_aggregate_id r = opaque_as_str (ie_aggregate_id e) \<and> po_aggregate_version r = uint (version_value (ie_aggregate_version e))
     \<and> po_event_type r = ie_event_type e \<and> po_event_version r = uint (ie_event_version e)
     \<and> po_payload_json r = payload_text (ie_payload e) \<and> po_created_at_ms r = uint (ie_occurred_at e)"

definition d1_persist_event :: "integration_event \<Rightarrow> unix_millis \<Rightarrow> notification_db \<Rightarrow> (event_port_error_class + unit) \<times> notification_db" where
  "d1_persist_event e persisted_at db =
     or_return (res_ok_or EpIntegrityFailure (i64_of_u64 (version_value (ie_aggregate_version e)))) db (\<lambda>_.
     or_return (res_ok_or EpIntegrityFailure (i64_of_u64 (ie_occurred_at e))) db (\<lambda>_.
     or_return (res_ok_or EpIntegrityFailure (i64_of_u64 persisted_at)) db (\<lambda>_.
     let k = event_key (ie_tenant_id e) (ie_event_id e) in
     case nd_outbox db k of
       None \<Rightarrow> (Inl EpInternalFailure, db)
     | Some r \<Rightarrow>
         if \<not> source_matches_event e r \<or> 64 < length (ie_aggregate_type e) then (Inl EpInternalFailure, db)
         else (Inr (), db\<lparr>nd_events := insert k (nd_events db)\<rparr>))))"

definition d1_claim ::
    "opaque_id \<Rightarrow> integration_event \<Rightarrow> unix_millis \<Rightarrow> notification_db \<Rightarrow> (event_port_error_class + consumer_claim) \<times> notification_db" where
  "d1_claim consumer_id e consumed_at db =
     or_return (res_ok_or EpIntegrityFailure (i64_of_u64 consumed_at)) db (\<lambda>_.
       let k = delivery_key (ie_tenant_id e) consumer_id (ie_event_id e) in
       case nd_outbox db (event_key (ie_tenant_id e) (ie_event_id e)) of
         None \<Rightarrow> (Inl EpInternalFailure, db)
       | Some r \<Rightarrow>
           if po_event_type r \<noteq> ie_event_type e \<or> po_event_version r \<noteq> uint (ie_event_version e) then (Inl EpInternalFailure, db)
           else if k \<in> nd_claims db then (Inr ConsumerDuplicate, db)
           else (Inr ConsumerClaimed, db\<lparr>nd_claims := insert k (nd_claims db)\<rparr>))"

definition d1_delivery_ports :: "notification_db delivery_ports" where
  "d1_delivery_ports =
     \<lparr>dlp_load_or_create = d1_load_or_create, dlp_compare_and_swap = d1_compare_and_swap,
      dlp_persist_event = d1_persist_event, dlp_claim = d1_claim\<rparr>"

end
