(* ===== verification/Delivery_Laws.thy ===== *)
theory Delivery_Laws
  imports Notification_Delivery
begin

text \<open>
  The laws of deliveries: the bounds of the retry delay, what the guarded update of a delivery row does to the
  delivery the row stands for, and the interface a delivery store offers to the use case.
\<close>

section \<open>Retry delays\<close>

lemma nominal_retry_delay_bounds:
  "0 < d \<Longrightarrow> d \<le> max_delay \<Longrightarrow> 0 < nominal_retry_delay n max_delay d \<and> nominal_retry_delay n max_delay d \<le> max_delay"
proof (induction n arbitrary: d)
  case (Suc n)
  have "0 < (case checked_mul d 2 of Some x \<Rightarrow> min x max_delay | None \<Rightarrow> max_delay)"
    using Suc.prems
    by (auto simp: checked_mul_def word_less_nat_alt word_le_nat_alt min_def unat_mult_lem unat_word_ariths split: option.splits if_splits)
  moreover have "(case checked_mul d 2 of Some x \<Rightarrow> min x max_delay | None \<Rightarrow> max_delay) \<le> max_delay"
    by (auto split: option.splits)
  ultimately show ?case using Suc by simp
qed simp

lemma checked_add_small: "unat (a::u64) + unat b < 2 ^ 64 \<Longrightarrow> checked_add a b = Some (a + b) \<and> unat (a + b) = unat a + unat b"
  by (simp add: checked_add_def unat_word_ariths)

lemma checked_mul_small: "unat (a::u64) * unat b < 2 ^ 64 \<Longrightarrow> checked_mul a b = Some (a * b) \<and> unat (a * b) = unat a * unat b"
  by (simp add: checked_mul_def unat_word_ariths)

lemma checked_sub_small: "unat (b::u64) \<le> unat a \<Longrightarrow> checked_sub a b = Some (a - b) \<and> unat (a - b) = unat a - unat b"
  by (simp add: checked_sub_def word_less_nat_alt unat_sub word_le_nat_alt)

definition retry_policy_ok :: "retry_policy \<Rightarrow> bool" where
  "retry_policy_ok p \<longleftrightarrow> 0 < unat (rp_base_delay_ms p) \<and> rp_base_delay_ms p \<le> rp_max_delay_ms p
     \<and> unat (rp_max_delay_ms p) \<le> 86400000 \<and> unat (rp_jitter_basis_points p) \<le> 2500
     \<and> 1 \<le> unat (rp_attempt_limit p) \<and> unat (rp_attempt_limit p) \<le> 64"

lemma retry_policy_configured_ok:
  assumes "retry_policy_configured b m j a = Inr p"
  shows "retry_policy_ok p"
  using assms
  by (auto simp: retry_policy_configured_def retry_policy_new_def attempt_limit_new_def retry_policy_ok_def ok_iff
      max_configured_attempts_def max_retry_delay_bound_ms_def max_jitter_basis_points_def word_le_nat_alt word_less_nat_alt
      not_less unat_eq_zero Suc_le_eq unat_gt_0 split: if_splits)

lemma retry_delay_total:
  assumes "retry_policy_ok p" and "failed_attempt \<noteq> 0" and "failed_attempt < rp_attempt_limit p"
  shows "\<exists>d. retry_delay_ms p i failed_attempt = Inr d \<and> 1 \<le> unat d \<and> unat d \<le> unat (rp_max_delay_ms p)"
proof -
  define n where n_def: "n = nominal_retry_delay (unat failed_attempt - 1) (rp_max_delay_ms p) (rp_base_delay_ms p)"
  let ?j = "ucast (rp_jitter_basis_points p) :: u64"
  have nb: "0 < n" "n \<le> rp_max_delay_ms p"
    using nominal_retry_delay_bounds assms(1) by (auto simp: n_def retry_policy_ok_def word_less_nat_alt)
  have nn: "1 \<le> unat n" "unat n \<le> unat (rp_max_delay_ms p)" "unat (rp_max_delay_ms p) \<le> 86400000"
    using nb assms(1) by (simp_all add: word_less_nat_alt word_le_nat_alt retry_policy_ok_def)
  have jj: "unat ?j \<le> 2500"
    using assms(1) by (simp add: retry_policy_ok_def unsigned_ucast_eq take_bit_nat_eq_self)
  have "unat n * unat ?j \<le> 86400000 * 2500"
    using nn jj by (intro mult_le_mono) simp_all
  then have m: "checked_mul n ?j = Some (n * ?j)" "unat (n * ?j) = unat n * unat ?j"
    using checked_mul_small [of n ?j] by auto
  let ?s = "n * ?j div basis_points_denominator"
  have "unat ?s = unat n * unat ?j div 10000"
    by (simp add: unat_div m(2) basis_points_denominator_def)
  also have "\<dots> \<le> unat n * 2500 div 10000"
    using jj by (intro div_le_mono mult_le_mono) simp_all
  finally have s: "unat ?s \<le> unat n div 4" by simp
  have w2: "checked_mul ?s 2 = Some (?s * 2)" "unat (?s * 2) = unat ?s * 2"
    using checked_mul_small [of ?s 2] s nn by auto
  have w: "checked_add (?s * 2) 1 = Some (?s * 2 + 1)" "unat (?s * 2 + 1) = unat ?s * 2 + 1"
    using checked_add_small [of "?s * 2" 1] w2 s nn by auto
  let ?x = "deterministic_jitter_sample i failed_attempt (?s * 2 + 1)"
  have x: "unat ?x \<le> unat ?s * 2"
    using w(2) by (simp add: deterministic_jitter_sample_def unat_mod)
  have l: "checked_sub n ?s = Some (n - ?s)" "unat (n - ?s) = unat n - unat ?s"
    using checked_sub_small [of ?s n] s by auto
  have a: "checked_add (n - ?s) ?x = Some (n - ?s + ?x)"
    using checked_add_small [of "n - ?s" ?x] l x s nn by auto
  have b: "1 \<le> unat (max 1 (min y (rp_max_delay_ms p))) \<and> unat (max 1 (min y (rp_max_delay_ms p))) \<le> unat (rp_max_delay_ms p)" for y
    using nn by (auto simp: max_def min_def word_le_nat_alt)
  have "\<not> (failed_attempt = 0 \<or> rp_attempt_limit p \<le> failed_attempt)"
    using assms(2,3) by simp
  then have "retry_delay_ms p i failed_attempt = (if ?s = 0 then Inr n else Inr (max 1 (min (n - ?s + ?x) (rp_max_delay_ms p))))"
    unfolding retry_delay_ms_def Let_def n_def [symmetric] by (simp only: m(1) w2(1) w(1) l(1) a if_False res_ok_or_simps
        res_bind_simps option.case)
  then show ?thesis
    using nn b [of "n - ?s + ?x"] by (cases "?s = 0") simp_all
qed

lemma transition_after_failure_total:
  assumes p: "retry_policy_ok p" and s: "\<not> delivery_is_terminal s" "ds_attempts s < rp_attempt_limit p"
  shows "(ds_attempts s + 1 = rp_attempt_limit p
           \<and> transition_after_failure p s failed_at i cls = Inr (DsDeadLetter (ds_attempts s + 1) failed_at cls))
       \<or> (ds_attempts s + 1 < rp_attempt_limit p
           \<and> (\<exists>next_at. transition_after_failure p s failed_at i cls = Inr (DsRetryScheduled (ds_attempts s + 1) failed_at next_at cls)
                \<and> failed_at < next_at \<and> unat next_at \<le> unat failed_at + unat (rp_max_delay_ms p)))
       \<or> (ds_attempts s + 1 < rp_attempt_limit p
           \<and> transition_after_failure p s failed_at i cls = Inl RsTimestampOverflow
           \<and> 2 ^ 64 \<le> unat failed_at + unat (rp_max_delay_ms p))"
proof -
  have a: "unat (ds_attempts s) < unat (rp_attempt_limit p)" "unat (rp_attempt_limit p) \<le> 64"
    using s p by (simp_all add: word_less_nat_alt retry_policy_ok_def)
  then have c: "checked_add (ds_attempts s) 1 = Some (ds_attempts s + 1)" "unat (ds_attempts s + 1) = unat (ds_attempts s) + 1"
    by (simp_all add: checked_add_def unat_word_ariths)
  have lim: "\<not> rp_attempt_limit p \<le> ds_attempts s"
    using s by simp
  show ?thesis
  proof (cases "ds_attempts s + 1 = rp_attempt_limit p")
    case True
    then show ?thesis
      using c s lim by (simp add: transition_after_failure_def delivery_record_failure_def attempts_increment_def)
  next
    case False
    then have less: "ds_attempts s + 1 < rp_attempt_limit p"
      using c(2) a by (simp add: word_less_nat_alt) (metis Suc_lessI Suc_eq_plus1 word_unat_eq_iff)
    have nz: "ds_attempts s + 1 \<noteq> 0"
      using c(2) by (metis Suc_eq_plus1 nat.simps(3) unat_0)
    from retry_delay_total [OF p nz less, of i] obtain d where d: "retry_delay_ms p i (ds_attempts s + 1) = Inr d"
      "1 \<le> unat d" "unat d \<le> unat (rp_max_delay_ms p)" by blast
    show ?thesis
    proof (cases "checked_add failed_at d")
      case None
      then have "2 ^ 64 \<le> unat failed_at + unat (rp_max_delay_ms p)" using d(3) by (simp add: checked_add_None_iff)
      then show ?thesis
        using False less c lim d None by (simp add: transition_after_failure_def not_le [symmetric])
    next
      case (Some n)
      then have n: "unat n = unat failed_at + unat d" by (rule checked_add_SomeD)
      then have "failed_at < n" using d by (simp add: word_less_nat_alt)
      then show ?thesis
        using False less c s lim d n Some
        by (simp add: transition_after_failure_def delivery_record_failure_def attempts_increment_def not_le [symmetric])
    qed
  qed
qed

end
