(* ===== verification/Delivery_Store.thy ===== *)
theory Delivery_Store
  imports Delivery_Laws
begin

text \<open>
  The store of deliveries.  The locale is what the use case needs of it: every operation keeps the rows in order and
  never gives a claim back.  The catalogue database provides it; its guarded update is a compare-and-swap of
  the delivery a row stands for.
\<close>

lemma failure_is_no_success:
  "transition_after_failure p s at i cls = Inr new_state \<Longrightarrow> outcome_from_state new_state \<noteq> Inr (OutcomeDelivered d)"
  by (auto simp: transition_after_failure_def delivery_record_failure_def ok_iff split: if_splits option.splits)

lemma stale_is_no_fresh_delivery: "outcome_of_current x \<noteq> Inr (OutcomeDelivered False)"
  by (cases x) simp_all

lemma accepted_by_claim:
  assumes "accept_foundation_delivery_once port c event at s = (Inr ConsumerAccepted, s')"
  obtains u s0 where "dlp_persist_event port event at s = (Inr u, s0)" "dlp_claim port c event at s0 = (Inr ConsumerClaimed, s')"
  using assms
  by (auto simp: accept_foundation_delivery_once_def accept_delivery_once_def split: prod.splits sum.splits if_splits
      consumer_claim.splits)

lemma settled_fresh:
  assumes "settle_delivery port c event x y out s = (Inr (OutcomeDelivered False), s')"
  shows "out = Inr (OutcomeDelivered False) \<and> s' = snd (dlp_compare_and_swap port (ie_tenant_id event) c (ie_event_id event) x y s)"
  using assms stale_is_no_fresh_delivery
  by (auto simp: settle_delivery_def reconcile_after_stale_def split: prod.splits sum.splits delivery_write_outcome.splits)

lemma attempted_fresh:
  assumes "attempt_delivery port c event now policy x s = (Inr (OutcomeDelivered False), s')"
  obtains y s1 where "accept_foundation_delivery_once port c event now s = (Inr ConsumerAccepted, s1)"
    "s' = snd (dlp_compare_and_swap port (ie_tenant_id event) c (ie_event_id event) x y s1)"
proof -
  obtain r s1 where a: "accept_foundation_delivery_once port c event now s = (r, s1)" by fastforce
  show thesis
  proof (cases r)
    case (Inl e)
    then obtain y where t: "transition_after_failure policy x now (ie_event_id event) (failure_class_of_error e) = Inr y"
      "settle_delivery port c event x y (outcome_from_state y) s1 = (Inr (OutcomeDelivered False), s')"
      using assms a by (auto simp: attempt_delivery_def or_return_def res_map_err_def split: sum.splits)
    have False
      using settled_fresh [OF t(2)] failure_is_no_success [OF t(1)] by simp
    then show thesis ..
  next
    case (Inr out)
    then obtain y where "settle_delivery port c event x y (Inr (OutcomeDelivered (out = ConsumerDeliveredBefore))) s1
        = (Inr (OutcomeDelivered False), s')"
      using assms a by (auto simp: attempt_delivery_def or_return_def res_map_err_def split: sum.splits)
    from settled_fresh [OF this] have "out = ConsumerAccepted"
      "s' = snd (dlp_compare_and_swap port (ie_tenant_id event) c (ie_event_id event) x y s1)"
      by (cases out; simp)+
    then show thesis using that a Inr by blast
  qed
qed

lemma process_freshE:
  assumes "process_foundation_delivery port c event now policy s = (Inr (OutcomeDelivered False), s')"
  obtains x s1 where "dlp_load_or_create port (ie_tenant_id event) c (ie_event_id event) (ie_occurred_at event) s = (Inr x, s1)"
    "attempt_delivery port c event now policy x s1 = (Inr (OutcomeDelivered False), s')"
  using assms by (auto simp: process_foundation_delivery_def split: prod.splits sum.splits delivery_state.splits if_splits)

section \<open>The interface\<close>

datatype delivery_op =
    LoadDelivery tenant_id opaque_id outbox_event_id unix_millis
  | SwapDelivery tenant_id opaque_id outbox_event_id delivery_state delivery_state
  | PersistEvent integration_event unix_millis
  | ClaimEvent opaque_id integration_event unix_millis

fun delivery_op_run :: "'s delivery_ports \<Rightarrow> delivery_op \<Rightarrow> 's \<Rightarrow> 's" where
  "delivery_op_run port (LoadDelivery t c e at) s = snd (dlp_load_or_create port t c e at s)"
| "delivery_op_run port (SwapDelivery t c e expected new_state) s = snd (dlp_compare_and_swap port t c e expected new_state s)"
| "delivery_op_run port (PersistEvent event at) s = snd (dlp_persist_event port event at s)"
| "delivery_op_run port (ClaimEvent c event at) s = snd (dlp_claim port c event at s)"

locale delivery_store =
  fixes port :: "'s delivery_ports"
    and rows_ok :: "'s \<Rightarrow> bool"
    and claimed :: "opaque_id \<Rightarrow> integration_event \<Rightarrow> 's \<Rightarrow> bool"
  assumes op_rows_ok: "rows_ok s \<Longrightarrow> rows_ok (delivery_op_run port opn s)"
    and op_claimed: "claimed c event s \<Longrightarrow> claimed c event (delivery_op_run port opn s)"
    and claim_fresh: "dlp_claim port c event at s = (Inr ConsumerClaimed, s') \<Longrightarrow> \<not> claimed c event s \<and> claimed c event s'"
begin

lemma run_keeps:
  assumes "\<And>s opn. P s \<Longrightarrow> P (delivery_op_run port opn s)"
  shows "P s \<Longrightarrow> P (snd (process_foundation_delivery port c event now policy s))"
proof -
  assume P: "P s"
  note l = assms [of _ "LoadDelivery (ie_tenant_id event) c (ie_event_id event) (ie_occurred_at event)", simplified]
  note w = assms [of _ "SwapDelivery (ie_tenant_id event) c (ie_event_id event) x y" for x y, simplified]
  note p = assms [of _ "PersistEvent event now", simplified]
  note k = assms [of _ "ClaimEvent c event now", simplified]
  have accept: "P (snd (accept_foundation_delivery_once port c event now s))" if "P s" for s
    using that k p by (auto simp: accept_foundation_delivery_once_def accept_delivery_once_def split: prod.splits sum.splits
        consumer_claim.splits) (metis snd_conv)+
  have settle: "P (snd (settle_delivery port c event x y out s))" if "P s" for x y out s
    using that w l by (auto simp: settle_delivery_def reconcile_after_stale_def split: prod.splits sum.splits
        delivery_write_outcome.splits) (metis snd_conv)+
  have attempt: "P (snd (attempt_delivery port c event now policy x s))" if "P s" for x s
    using accept [OF that] by (auto simp: attempt_delivery_def or_return_def settle split: prod.splits sum.splits)
  show ?thesis
    using l [OF P] by (auto simp: process_foundation_delivery_def attempt split: prod.splits sum.splits delivery_state.splits)
qed

lemma process_rows_ok: "rows_ok s \<Longrightarrow> rows_ok (snd (process_foundation_delivery port c event now policy s))"
  by (rule run_keeps [of rows_ok]) (rule op_rows_ok)

lemma process_claimed: "claimed c event s \<Longrightarrow> claimed c event (snd (process_foundation_delivery port c' event' now policy s))"
  by (rule run_keeps [of "claimed c event"]) (rule op_claimed)

lemma fresh_delivery_claims:
  assumes "process_foundation_delivery port c event now policy s = (Inr (OutcomeDelivered False), s')"
  shows "\<not> claimed c event s \<and> claimed c event s'"
proof -
  from assms obtain x y s1 s2 where l: "dlp_load_or_create port (ie_tenant_id event) c (ie_event_id event) (ie_occurred_at event) s = (Inr x, s1)"
    and a: "accept_foundation_delivery_once port c event now s1 = (Inr ConsumerAccepted, s2)"
    and w: "s' = snd (dlp_compare_and_swap port (ie_tenant_id event) c (ie_event_id event) x y s2)"
    by (meson process_freshE attempted_fresh)
  from accepted_by_claim [OF a] obtain u s0 where p: "dlp_persist_event port event now s1 = (Inr u, s0)"
    and k: "dlp_claim port c event now s0 = (Inr ConsumerClaimed, s2)" .
  have "claimed c event s0" if "claimed c event s"
    using op_claimed [OF op_claimed [OF that], of "PersistEvent event now"
        "LoadDelivery (ie_tenant_id event) c (ie_event_id event) (ie_occurred_at event)"] l p by simp
  then show ?thesis
    using claim_fresh [OF k] op_claimed [of c event s2 "SwapDelivery (ie_tenant_id event) c (ie_event_id event) x y"] w by auto
qed

end

section \<open>Rows and the deliveries they stand for\<close>

fun row_shows :: "delivery_state \<Rightarrow> delivery_row \<Rightarrow> bool" where
  "row_shows (DsReady a) r \<longleftrightarrow> a = 0 \<and> dr_state r = ''READY'' \<and> dr_attempts r = 0 \<and> dr_last_attempt_at r = None
     \<and> dr_next_attempt_at r = None \<and> dr_delivered_at r = None \<and> dr_terminal_at r = None \<and> dr_failure_class r = None"
| "row_shows (DsRetryScheduled a l n cls) r \<longleftrightarrow> 1 \<le> a \<and> a \<le> 63 \<and> l < n \<and> dr_state r = ''RETRY_SCHEDULED'' \<and> dr_attempts r = uint a
     \<and> dr_last_attempt_at r = Some (uint l) \<and> dr_next_attempt_at r = Some (uint n) \<and> dr_delivered_at r = None
     \<and> dr_terminal_at r = None \<and> dr_failure_class r = Some (failure_class_storage cls)"
| "row_shows (DsDelivered a t) r \<longleftrightarrow> 1 \<le> a \<and> a \<le> 64 \<and> dr_state r = ''DELIVERED'' \<and> dr_attempts r = uint a
     \<and> dr_last_attempt_at r = Some (uint t) \<and> dr_next_attempt_at r = None \<and> dr_delivered_at r = Some (uint t)
     \<and> dr_terminal_at r = None \<and> dr_failure_class r = None"
| "row_shows (DsDeadLetter a t cls) r \<longleftrightarrow> 1 \<le> a \<and> a \<le> 64 \<and> dr_state r = ''DEAD_LETTER'' \<and> dr_attempts r = uint a
     \<and> dr_last_attempt_at r = Some (uint t) \<and> dr_next_attempt_at r = None \<and> dr_delivered_at r = None
     \<and> dr_terminal_at r = Some (uint t) \<and> dr_failure_class r = Some (failure_class_storage cls)"

lemma failure_class_storage_inj [simp]: "failure_class_storage a = failure_class_storage b \<longleftrightarrow> a = b"
  by (cases a; cases b) simp_all

lemma failure_class_storage_nonempty [simp]: "failure_class_storage a \<noteq> []" "[] \<noteq> failure_class_storage a"
  by (cases a; simp)+

lemma required_failure_class_storage [simp]: "required_failure_class (Some (failure_class_storage c)) = Inr c"
  by (cases c) (simp_all add: required_failure_class_def)

lemma u16_of_i64_uint [simp]: "u16_of_i64 (uint (a::u16)) = Some a"
  using uint_bounded [of a] by (simp add: u16_of_i64_def)

lemma u16_of_i64_0 [simp]: "u16_of_i64 0 = Some 0"
  by (simp add: u16_of_i64_def)

lemma required_unix_uint [simp]: "required_unix (Some (uint t)) = Inr t"
  by (simp add: required_unix_def)

lemma shown_row_reads: "row_shows s r \<Longrightarrow> delivery_row_into_state r = Inr s"
  by (cases s)
     (auto simp: delivery_row_into_state_def delivery_restore_ready_def delivery_restore_retry_scheduled_def
        delivery_restore_delivered_def delivery_restore_dead_letter_def attempts_restore_def max_retryable_attempts_def
        max_configured_attempts_def not_le not_less)

lemma row_shows_once: "row_shows s r \<Longrightarrow> row_shows s' r \<Longrightarrow> s' = s"
  by (drule shown_row_reads)+ simp

lemma shape_shown:
  assumes "row_shows cur r" and "expected_shape_of expected = Inr shape"
  shows "row_has_shape shape r \<longleftrightarrow> cur = expected"
  using assms uint_ge_0
  by (cases cur; cases expected)
     (auto simp: row_has_shape_def coalesce_def notification_integer_def ok_iff word_uint_eq_iff)

lemma retry_row_checks:
  "delivery_row_checks r \<Longrightarrow> dr_state r = ''RETRY_SCHEDULED'' \<Longrightarrow> 1 \<le> dr_attempts r \<and> dr_attempts r \<le> 63
     \<and> (case (dr_last_attempt_at r, dr_next_attempt_at r) of (Some l, Some n) \<Rightarrow> l < n | _ \<Rightarrow> False)"
  unfolding delivery_row_checks_def by (elim conjE disjE) simp_all

lemma terminal_row_checks:
  "delivery_row_checks r \<Longrightarrow> dr_state r = ''DELIVERED'' \<or> dr_state r = ''DEAD_LETTER'' \<Longrightarrow> 1 \<le> dr_attempts r \<and> dr_attempts r \<le> 64"
  unfolding delivery_row_checks_def by (elim conjE disjE) simp_all

lemma attempts_bounds:
  "1 \<le> uint (a::u16) \<Longrightarrow> 1 \<le> a" "uint (a::u16) \<le> 63 \<Longrightarrow> a \<le> 63" "uint (a::u16) \<le> 64 \<Longrightarrow> a \<le> 64"
  by (simp_all add: word_le_def)

lemma updated_row_shows:
  assumes "updated_row new_state r = Inr r'" and "delivery_row_checks r'"
  shows "row_shows new_state r'"
proof (cases new_state)
  case (DsReady a)
  then show ?thesis using assms(1) by simp
next
  case (DsRetryScheduled a l n cls)
  then have "dr_state r' = ''RETRY_SCHEDULED''"
    using assms(1) by (auto simp: ok_iff)
  from retry_row_checks [OF assms(2) this] show ?thesis
    using DsRetryScheduled assms(1) by (auto simp: notification_integer_def ok_iff attempts_bounds word_less_def)
next
  case (DsDelivered a t)
  then have "dr_state r' = ''DELIVERED''"
    using assms(1) by (auto simp: ok_iff)
  with terminal_row_checks [OF assms(2)] show ?thesis
    using DsDelivered assms(1) by (auto simp: notification_integer_def ok_iff attempts_bounds)
next
  case (DsDeadLetter a t cls)
  then have "dr_state r' = ''DEAD_LETTER''"
    using assms(1) by (auto simp: ok_iff)
  with terminal_row_checks [OF assms(2)] show ?thesis
    using DsDeadLetter assms(1) by (auto simp: notification_integer_def ok_iff attempts_bounds)
qed

definition deliveries_shown :: "notification_db \<Rightarrow> bool" where
  "deliveries_shown db \<longleftrightarrow> (\<forall>k row. nd_deliveries db k = Some row \<longrightarrow> (\<exists>s. row_shows s row) \<and> 0 \<le> dr_created_at row)"

lemma delivery_shown: "deliveries_shown db \<Longrightarrow> nd_deliveries db k = Some row \<Longrightarrow> (\<exists>s. row_shows s row) \<and> 0 \<le> dr_created_at row"
  unfolding deliveries_shown_def by blast

lemma deliveries_shown_update:
  "deliveries_shown db \<Longrightarrow> row_shows s row \<Longrightarrow> 0 \<le> dr_created_at row \<Longrightarrow> deliveries_shown (db\<lparr>nd_deliveries := (nd_deliveries db)(k \<mapsto> row)\<rparr>)"
  unfolding deliveries_shown_def by (simp del: split_paired_All) blast

lemma ready_row_shows [simp]: "row_shows delivery_new (ready_row t)"
  by (simp add: delivery_new_def ready_row_def)


section \<open>The catalogue database as a store\<close>

lemma ready_row_created: "notification_integer t = Inr x \<Longrightarrow> 0 \<le> dr_created_at (ready_row x)"
  by (auto simp: notification_integer_def ok_iff ready_row_def)

lemma d1_load_effect:
  "d1_load_or_create t c e at db = (r, db') \<Longrightarrow> nd_claims db' = nd_claims db \<and> nd_outbox db' = nd_outbox db
     \<and> (db' = db \<or> nd_deliveries db (delivery_key t c e) = None
          \<and> (\<exists>created. 0 \<le> dr_created_at (ready_row created) \<and> db' = db\<lparr>nd_deliveries := (nd_deliveries db)(delivery_key t c e \<mapsto> ready_row created)\<rparr>))"
  by (auto simp: d1_load_or_create_def or_return_def Let_def split: sum.splits option.splits if_splits)
    (blast dest: ready_row_created)

lemma row_checks_created: "delivery_row_checks r \<Longrightarrow> 0 \<le> dr_created_at r"
  by (simp add: delivery_row_checks_def)

lemma d1_swap_effect:
  assumes "d1_compare_and_swap t c e expected new_state db = (r, db')"
  shows "db' = db \<and> r \<noteq> Inr DeliveryApplied
    \<or> (r = Inr DeliveryApplied \<and> (\<exists>shape row row'. expected_shape_of expected = Inr shape
          \<and> nd_deliveries db (delivery_key t c e) = Some row \<and> row_has_shape shape row
          \<and> row_shows new_state row' \<and> 0 \<le> dr_created_at row' \<and> delivery_transition_allowed row row'
          \<and> db' = db\<lparr>nd_deliveries := (nd_deliveries db)(delivery_key t c e \<mapsto> row')\<rparr>))"
  using assms
  by (auto simp: d1_compare_and_swap_def or_return_def Let_def split: sum.splits option.splits if_splits)
    (blast intro: updated_row_shows row_checks_created)

lemma d1_persist_effect:
  "d1_persist_event e at db = (r, db') \<Longrightarrow> nd_claims db' = nd_claims db \<and> nd_deliveries db' = nd_deliveries db"
  by (auto simp: d1_persist_event_def or_return_def Let_def split: sum.splits option.splits if_splits)

definition event_claimed :: "opaque_id \<Rightarrow> integration_event \<Rightarrow> notification_db \<Rightarrow> bool" where
  "event_claimed c event db \<longleftrightarrow> delivery_key (ie_tenant_id event) c (ie_event_id event) \<in> nd_claims db"

lemma d1_claim_effect:
  "d1_claim c event at db = (r, db') \<Longrightarrow> nd_deliveries db' = nd_deliveries db \<and> nd_claims db \<subseteq> nd_claims db'
     \<and> (r = Inr ConsumerClaimed \<longrightarrow> \<not> event_claimed c event db \<and> event_claimed c event db')"
  by (auto simp: d1_claim_def or_return_def Let_def event_claimed_def split: sum.splits option.splits if_splits)

lemma deliveries_shown_cong: "nd_deliveries db' = nd_deliveries db \<Longrightarrow> deliveries_shown db' = deliveries_shown db"
  by (simp add: deliveries_shown_def)

lemma d1_op_effect:
  "(deliveries_shown db \<longrightarrow> deliveries_shown (delivery_op_run d1_delivery_ports opn db))
     \<and> nd_claims db \<subseteq> nd_claims (delivery_op_run d1_delivery_ports opn db)"
proof (cases opn)
  case (LoadDelivery t c e at)
  obtain r db' where "d1_load_or_create t c e at db = (r, db')" by fastforce
  then have "nd_claims db' = nd_claims db" "deliveries_shown db \<longrightarrow> deliveries_shown db'"
    using d1_load_effect deliveries_shown_update [OF _ ready_row_shows] by blast+
  then show ?thesis
    by (simp add: LoadDelivery d1_delivery_ports_def \<open>d1_load_or_create t c e at db = (r, db')\<close>)
next
  case (SwapDelivery t c e x y)
  obtain r db' where "d1_compare_and_swap t c e x y db = (r, db')" by fastforce
  then consider "db' = db" | row' where "row_shows y row'" "0 \<le> dr_created_at row'" "db' = db\<lparr>nd_deliveries := (nd_deliveries db)(delivery_key t c e \<mapsto> row')\<rparr>"
    using d1_swap_effect by blast
  then show ?thesis
    by cases (simp_all add: SwapDelivery d1_delivery_ports_def deliveries_shown_update \<open>d1_compare_and_swap t c e x y db = (r, db')\<close>)
next
  case (PersistEvent e at)
  obtain r db' where "d1_persist_event e at db = (r, db')" by fastforce
  with d1_persist_effect [OF this] show ?thesis
    by (simp add: PersistEvent d1_delivery_ports_def deliveries_shown_cong [of db' db])
next
  case (ClaimEvent c e at)
  obtain r db' where "d1_claim c e at db = (r, db')" by fastforce
  with d1_claim_effect [OF this] show ?thesis
    by (simp add: ClaimEvent d1_delivery_ports_def deliveries_shown_cong [of db' db])
qed

interpretation d1_store: delivery_store d1_delivery_ports deliveries_shown event_claimed
proof
  show "deliveries_shown (delivery_op_run d1_delivery_ports opn db)" if "deliveries_shown db" for db opn
    using that d1_op_effect [of db opn] by (rule mp [rotated, OF _ conjunct1])
  show "event_claimed c event (delivery_op_run d1_delivery_ports opn db)" if "event_claimed c event db" for c event db opn
    using that d1_op_effect [of db opn] unfolding event_claimed_def by (blast dest: subsetD)
  show "\<not> event_claimed c event db \<and> event_claimed c event db'"
    if "dlp_claim d1_delivery_ports c event at db = (Inr ConsumerClaimed, db')" for c event at db db'
  proof -
    have "d1_claim c event at db = (Inr ConsumerClaimed, db')"
      using that by (simp add: d1_delivery_ports_def)
    from d1_claim_effect [OF this] show ?thesis by simp
  qed
qed

lemma swap_of_shown_row:
  assumes "row_shows cur row" and "nd_deliveries db (delivery_key t c e) = Some row"
    and "d1_compare_and_swap t c e expected new_state db = (Inr DeliveryApplied, db')"
  shows "cur = expected"
    and "\<exists>row'. row_shows new_state row' \<and> nd_deliveries db' = (nd_deliveries db)(delivery_key t c e \<mapsto> row')"
  using d1_swap_effect [OF assms(3)] assms(1,2) shape_shown by auto

text \<open>
  An update is refused as stale only when the row stands for another delivery, and the update
  of a due delivery to what the domain records at a time the row admits is applied.
\<close>

lemma swap_stale:
  assumes "row_shows cur row" and "nd_deliveries db (delivery_key t c e) = Some row"
    and "d1_compare_and_swap t c e expected new_state db = (Inr DeliveryStale, db')"
  shows "cur \<noteq> expected"
  using assms shape_shown [OF assms(1), of expected]
  by (auto simp: d1_compare_and_swap_def or_return_def Let_def split: sum.splits if_splits)

definition attempt_recorded :: "delivery_state \<Rightarrow> unix_millis \<Rightarrow> delivery_state \<Rightarrow> bool" where
  "attempt_recorded cur at new_state \<longleftrightarrow> ds_attempts new_state = ds_attempts cur + 1 \<and> delivery_last_attempt_at new_state = Some at
     \<and> (case new_state of
          DsReady a \<Rightarrow> False
        | DsRetryScheduled a l n cls \<Rightarrow> at < n \<and> unat n < 2 ^ 63 \<and> a \<le> 63
        | _ \<Rightarrow> True)"

lemma uint_small: "unat (t::u64) < 2 ^ 63 \<Longrightarrow> notification_integer t = Inr (uint t)"
  by (simp add: notification_integer_def i64_of_u64_def)

lemma due_shape:
  assumes "row_shows cur row" "delivery_is_due cur at" "unat at < 2 ^ 63"
  obtains shape where "expected_shape_of cur = Inr shape" "row_has_shape shape row"
proof -
  have "\<exists>shape. expected_shape_of cur = Inr shape"
  proof (cases cur)
    case (DsRetryScheduled a l n cls)
    then have "unat l < 2 ^ 63" "unat n < 2 ^ 63" using assms by (auto simp: word_le_nat_alt word_less_nat_alt)
    then show ?thesis using DsRetryScheduled by (simp add: uint_small)
  qed (use assms in simp_all)
  then show thesis using that shape_shown [OF assms(1)] by blast
qed

lemma due_attempts:
  assumes "row_shows cur row" "delivery_is_due cur at"
  shows "dr_attempts row = uint (ds_attempts cur)" "uint (ds_attempts cur) \<le> 63"
    "uint (ds_attempts cur + 1) = uint (ds_attempts cur) + 1" "dr_state row \<notin> {''DELIVERED'', ''DEAD_LETTER''}"
    "dr_state row = ''RETRY_SCHEDULED'' \<Longrightarrow> \<exists>n. dr_next_attempt_at row = Some n \<and> n \<le> uint at"
proof -
  show b: "uint (ds_attempts cur) \<le> 63" using assms by (cases cur) (auto simp: word_le_def)
  then show "uint (ds_attempts cur + 1) = uint (ds_attempts cur) + 1"
    by (subst uint_add_lem [THEN iffD1]) (simp_all add: less_le_trans [of _ 65])
qed (use assms in \<open>cases cur; auto simp: word_le_def\<close>)+

lemma swap_applies:
  assumes shown: "row_shows cur row" "0 \<le> dr_created_at row"
    and at: "dr_created_at row \<le> uint at" "unat at < 2 ^ 63" "delivery_is_due cur at"
    and new: "attempt_recorded cur at new_state"
    and row: "nd_deliveries db (delivery_key t c e) = Some row"
  shows "fst (d1_compare_and_swap t c e cur new_state db) = Inr DeliveryApplied"
proof -
  obtain shape where shape: "expected_shape_of cur = Inr shape" "row_has_shape shape row"
    using due_shape [OF shown(1) at(3,2)] .
  note d = due_attempts [OF shown(1) at(3)]
  have "\<exists>row'. updated_row new_state row = Inr row' \<and> delivery_transition_allowed row row' \<and> delivery_row_checks row'"
  proof (cases new_state)
    case (DsReady a)
    then show ?thesis using new by (simp add: attempt_recorded_def)
  next
    case (DsRetryScheduled a l n cls)
    then have n: "l = at" "at < n" "unat n < 2 ^ 63" "uint a = uint (ds_attempts cur) + 1" "uint a \<le> 63"
      using new d(3) by (auto simp: attempt_recorded_def word_le_def)
    then show ?thesis using DsRetryScheduled shown(2) at(1,2) d
      by (cases cls) (auto simp: uint_small delivery_transition_allowed_def delivery_row_checks_def word_less_def)
  next
    case (DsDelivered a l)
    then have n: "l = at" "uint a = uint (ds_attempts cur) + 1" using new d(3) by (auto simp: attempt_recorded_def)
    then show ?thesis using DsDelivered shown(2) at(1,2) d
      by (auto simp: uint_small delivery_transition_allowed_def delivery_row_checks_def)
  next
    case (DsDeadLetter a l cls)
    then have n: "l = at" "uint a = uint (ds_attempts cur) + 1" using new d(3) by (auto simp: attempt_recorded_def)
    then show ?thesis using DsDeadLetter shown(2) at(1,2) d
      by (cases cls) (auto simp: uint_small delivery_transition_allowed_def delivery_row_checks_def)
  qed
  moreover have "\<exists>any. updated_row new_state (ready_row 0) = Inr any"
    using calculation by (cases new_state) (auto simp: ok_iff)
  ultimately show ?thesis
    using shape row by (auto simp: d1_compare_and_swap_def Let_def)
qed

lemma recorded_attempt:
  "delivery_record_success cur at = Inr new_state \<Longrightarrow> attempt_recorded cur at new_state"
  "retry_policy_ok p \<Longrightarrow> unat at + unat (rp_max_delay_ms p) < 2 ^ 63 \<Longrightarrow>
     transition_after_failure p cur at event_id cls = Inr new_state \<Longrightarrow> attempt_recorded cur at new_state"
proof -
  show "delivery_record_success cur at = Inr new_state \<Longrightarrow> attempt_recorded cur at new_state"
    by (auto simp: delivery_record_success_def attempts_increment_def checked_add_def attempt_recorded_def ok_iff split: if_splits)
  assume p: "retry_policy_ok p" "unat at + unat (rp_max_delay_ms p) < 2 ^ 63"
    and f: "transition_after_failure p cur at event_id cls = Inr new_state"
  have s: "\<not> delivery_is_terminal cur" "ds_attempts cur < rp_attempt_limit p"
    using f by (auto simp: transition_after_failure_def delivery_record_failure_def ok_iff not_le [symmetric] split: if_splits)
  have "unat (rp_attempt_limit p) \<le> 64" using p(1) by (simp add: retry_policy_ok_def)
  then show "attempt_recorded cur at new_state"
    using transition_after_failure_total [OF p(1) s, of at event_id cls] f p(2)
    by (auto simp: attempt_recorded_def word_less_nat_alt word_le_nat_alt)
qed

text \<open>Histories of the database: operations of any deliveries in any interleaving, and replays by operators.\<close>

inductive delivery_history :: "notification_db \<Rightarrow> notification_db \<Rightarrow> bool" where
  here: "delivery_history db db"
| operated: "delivery_history db db' \<Longrightarrow> delivery_history db (delivery_op_run d1_delivery_ports opn db')"
| replayed: "delivery_history db db' \<Longrightarrow> delivery_history db (d1_apply_replay k attempts at db')"
| emitted: "delivery_history db db' \<Longrightarrow> nd_outbox db' k = None \<Longrightarrow> delivery_history db (db'\<lparr>nd_outbox := (nd_outbox db')(k \<mapsto> row)\<rparr>)"

lemma replay_effect:
  "nd_claims (d1_apply_replay k attempts at db) = nd_claims db"
  "deliveries_shown db \<Longrightarrow> deliveries_shown (d1_apply_replay k attempts at db)"
proof -
  show "nd_claims (d1_apply_replay k attempts at db) = nd_claims db"
    by (simp add: d1_apply_replay_def split: option.split)
  show "deliveries_shown (d1_apply_replay k attempts at db)" if "deliveries_shown db"
    using that delivery_shown [OF that, of k]
    by (cases "nd_deliveries db k")
       (simp_all add: d1_apply_replay_def deliveries_shown_update [where s = delivery_new] delivery_new_def)
qed

lemma history_shown: "delivery_history db db' \<Longrightarrow> deliveries_shown db \<Longrightarrow> deliveries_shown db'"
proof (induction rule: delivery_history.induct)
  case (emitted db db' k row)
  then show ?case using deliveries_shown_cong [of "db'\<lparr>nd_outbox := (nd_outbox db')(k \<mapsto> row)\<rparr>" db'] by simp
qed (simp_all add: replay_effect(2) d1_store.op_rows_ok)

lemma history_claimed: "delivery_history db db' \<Longrightarrow> event_claimed c event db \<Longrightarrow> event_claimed c event db'"
proof (induction rule: delivery_history.induct)
  case (operated db db' opn)
  then show ?case by (simp add: d1_store.op_claimed)
qed (simp_all add: event_claimed_def replay_effect(1))

end
