(* ===== verification/Notification_Properties.thy ===== *)
theory Notification_Properties
  imports Outbox_Laws Delivery_Store
begin

text \<open>
  Properties of the integration events and of their delivery to consumers.
\<close>

definition sample_row :: "string \<Rightarrow> string \<Rightarrow> int \<Rightarrow> pending_outbox_row" where
  "sample_row event_id event_type created_at =
     \<lparr>po_tenant_id = ''tenant_01SAMPLE'', po_outbox_event_id = event_id, po_aggregate_type = ''client'',
      po_aggregate_id = ''client_01SAMPLE'', po_aggregate_version = 1, po_event_type = event_type, po_event_version = 1,
      po_envelope_version = 1, po_payload_json = '' {} '', po_created_at_ms = created_at, po_published_at_ms = None\<rparr>"

definition archived_row :: pending_outbox_row where
  "archived_row = sample_row ''outbox_01ARCHIVED'' ''client.archived.v1'' 900"

definition created_row :: pending_outbox_row where
  "created_row = sample_row ''outbox_01CREATED'' ''client.created.v1'' 1000"

definition created_event :: integration_event where
  "created_event =
     \<lparr>ie_envelope_version = 1, ie_event_id = TypedId (OpaqueId ''outbox_01CREATED''), ie_tenant_id = TypedId (OpaqueId ''tenant_01SAMPLE''),
      ie_aggregate_type = ''client'', ie_aggregate_id = OpaqueId ''client_01SAMPLE'', ie_aggregate_version = AggregateVersion 1,
      ie_event_type = ''client.created.v1'', ie_event_version = 1, ie_payload = payload_empty, ie_occurred_at = 1000\<rparr>"

section \<open>The outbox\<close>

text \<open>
  C31: One pending row of an event type that is not registered stops the outbox for good: as long as it is the
  oldest pending row, every dispatch under any limit, time and queue changes nothing, and all events that are
  emitted after it, of any tenant, stay unpublished.
\<close>
theorem unregistered_event_blocks_the_outbox:
  assumes "first_pending r (dw_outbox w)" "\<not> is_foundation_event_type (po_event_type r)"
    and "\<And>q. q \<in> set (emitted_rows actions) \<Longrightarrow> row_before r q"
  shows "outbox_run actions w = w\<lparr>dw_outbox := dw_outbox w @ emitted_rows actions\<rparr>"
  using unregistered_row_unreadable [OF assms(2)] assms(1,3) by (rule outbox_run_blocked)

lemma unregistered_event_blocks_the_outbox_witness:
  "outbox_run [EmitRow created_row, RunDispatcher (\<lambda>_ _. True) 5000 10, RunDispatcher (\<lambda>_ _. True) 6000 1]
     \<lparr>dw_outbox = [archived_row], dw_queue = []\<rparr> = \<lparr>dw_outbox = [archived_row, created_row], dw_queue = []\<rparr>"
proof -
  have "first_pending archived_row (dw_outbox \<lparr>dw_outbox = [archived_row], dw_queue = []\<rparr>)"
    by (simp add: first_pending_def archived_row_def sample_row_def)
  moreover have "\<not> is_foundation_event_type (po_event_type archived_row)"
    by code_simp
  ultimately show ?thesis
    using unregistered_event_blocks_the_outbox [of archived_row "\<lparr>dw_outbox = [archived_row], dw_queue = []\<rparr>"
        "[EmitRow created_row, RunDispatcher (\<lambda>_ _. True) 5000 10, RunDispatcher (\<lambda>_ _. True) 6000 1]"]
    by (simp add: row_before_def archived_row_def created_row_def sample_row_def)
qed

text \<open>
  C33: No event is lost: whatever a dispatch does and wherever it stops, a row that it leaves published was
  pending before, and the message of the event it holds is in the queue, behind the messages that were
  there, and reads back as this event.
\<close>
theorem published_rows_are_queued:
  assumes "dispatch_pending_events (d1_outbox_port accepts) at limit w = (res, w')"
    and "q \<in> set (dw_outbox w')" "q \<notin> set (dw_outbox w)"
  shows "\<exists>p e r m. p \<in> set (dw_outbox w) \<and> po_published_at_ms p = None \<and> q = p\<lparr>po_published_at_ms := Some (uint at)\<rparr>
     \<and> r \<in> set (dw_outbox w) \<and> po_published_at_ms r = None \<and> outbox_row_into_event r = Inr e
     \<and> po_tenant_id r = po_tenant_id q \<and> po_outbox_event_id r = po_outbox_event_id q
     \<and> m \<in> set (drop (length (dw_queue w)) (dw_queue w')) \<and> queue_message_into_event m = Inr e"
  using assms(1)
proof (cases rule: dispatch_cases)
  case (refused e)
  then show ?thesis using assms(2,3) by simp
next
  case (loaded events)
  from publish_events_effect [OF loaded(4)] obtain k where k: "dispatch_effect (take k events) at w w'" by blast
  then obtain p e where p: "p \<in> set (dw_outbox w)" "po_published_at_ms p = None" "names_row (ie_tenant_id e) (ie_event_id e) p"
    "q = p\<lparr>po_published_at_ms := Some (uint at)\<rparr>" and e: "e \<in> set (take k events)"
    using assms(2,3) by (auto simp: dispatch_effect_def row_marked_by_def)
  have m: "queue_message_from_event e \<in> set (drop (length (dw_queue w)) (dw_queue w'))"
    using k e by (simp add: dispatch_effect_def)
  from loaded_event_row [OF loaded(3) in_set_takeD [OF e]] obtain r
    where r: "r \<in> set (dw_outbox w)" "po_published_at_ms r = None" "outbox_row_into_event r = Inr e" by blast
  have "po_tenant_id r = po_tenant_id q" "po_outbox_event_id r = po_outbox_event_id q"
    using row_event_names [OF r(3)] p(3,4) by (simp_all add: names_row_def)
  then show ?thesis
    using p r m row_event_roundtrip [OF r(3)] by blast
qed

definition created_row_published :: pending_outbox_row where
  "created_row_published = created_row\<lparr>po_published_at_ms := Some 5000\<rparr>"

lemma created_row_dispatched:
  "dispatch_pending_events (d1_outbox_port (\<lambda>_ _. True)) 5000 10 \<lparr>dw_outbox = [created_row], dw_queue = []\<rparr>
     = (Inr 1, \<lparr>dw_outbox = [created_row_published], dw_queue = [queue_message_from_event created_event]\<rparr>)"
  by code_simp

lemma published_rows_are_queued_witness:
  "\<exists>e m. outbox_row_into_event created_row = Inr e \<and> m = queue_message_from_event created_event \<and> queue_message_into_event m = Inr e"
  using published_rows_are_queued [OF created_row_dispatched, of created_row_published]
  by (auto simp: created_row_published_def created_row_def sample_row_def)

text \<open>
  C34: A dispatch that succeeds has read the oldest pending rows up to the limit, has put exactly their messages
  behind the queue in their order, has left none of them pending, and reports their number.
\<close>
theorem successful_dispatch_drains_the_batch:
  assumes "dispatch_pending_events (d1_outbox_port accepts) at limit w = (Inr n, w')"
  shows "\<exists>events. list_all2 (\<lambda>r e. outbox_row_into_event r = Inr e) (pending_rows limit (dw_outbox w)) events
     \<and> unat n = length (pending_rows limit (dw_outbox w)) \<and> unat n \<le> unat limit
     \<and> dw_queue w' = dw_queue w @ map queue_message_from_event events
     \<and> (\<forall>r \<in> set (pending_rows limit (dw_outbox w)). r \<notin> set (dw_outbox w'))"
  using assms
proof (cases rule: dispatch_cases)
  case (loaded events)
  have l: "list_all2 (\<lambda>r e. outbox_row_into_event r = Inr e) (pending_rows limit (dw_outbox w)) events"
    using loaded(3) by (simp add: d1_load_pending_def collect_results_Inr)
  from publish_events_effect [OF loaded(4)] obtain k where k: "dispatch_effect (take k events) at w w'" "take k events = events"
    "unat n = length events"
    and g: "\<And>e q. e \<in> set events \<Longrightarrow> q \<in> set (dw_outbox w') \<Longrightarrow> names_row (ie_tenant_id e) (ie_event_id e) q
        \<Longrightarrow> po_published_at_ms q \<noteq> None" by auto
  have "r \<notin> set (dw_outbox w')" if r: "r \<in> set (pending_rows limit (dw_outbox w))" for r
  proof
    assume "r \<in> set (dw_outbox w')"
    moreover obtain e where "e \<in> set events" "outbox_row_into_event r = Inr e"
      using l r by (induction rule: list_all2_induct) auto
    ultimately show False
      using g row_event_names set_pending_rows [OF r] by blast
  qed
  moreover have "length (pending_rows limit (dw_outbox w)) = length events" "length (pending_rows limit (dw_outbox w)) \<le> unat limit"
    using l by (auto simp: pending_rows_alt dest: list_all2_lengthD)
  ultimately show ?thesis
    using l k by (auto simp: dispatch_effect_def)
qed simp

lemma successful_dispatch_drains_the_batch_witness:
  "unat (1::u32) = length (pending_rows 10 [created_row]) \<and> created_row \<noteq> created_row_published"
  using successful_dispatch_drains_the_batch [OF created_row_dispatched]
  by (auto simp: pending_rows_def created_row_def sample_row_def)

text \<open>
  An event made of parsed identifiers, a valid version and an accepted payload survives the queue: its
  message reads back as the same event.
\<close>
theorem queue_message_reads_back:
  assumes "id_parse i = Inr event_id" "id_parse t = Inr tenant" "opaque_id_parse a = Inr aggregate"
    "version_new v = Inr version" "metadata_json j = Inr payload"
    "integration_event_new event_id tenant aggregate_type aggregate version event_type event_version payload at = Inr e"
  shows "queue_message_into_event (queue_message_from_event e) = Inr e"
  using assms by (rule queue_message_roundtrip)

lemma queue_message_reads_back_witness: "queue_message_into_event (queue_message_from_event created_event) = Inr created_event"
proof (rule queue_message_reads_back)
  show "id_parse ''outbox_01CREATED'' = Inr (TypedId (OpaqueId ''outbox_01CREATED'') :: outbox_event_id)" by code_simp
  show "id_parse ''tenant_01SAMPLE'' = Inr (TypedId (OpaqueId ''tenant_01SAMPLE'') :: tenant_id)" by code_simp
  show "opaque_id_parse ''client_01SAMPLE'' = Inr (OpaqueId ''client_01SAMPLE'')" by code_simp
  show "version_new 1 = Inr (AggregateVersion 1)" by code_simp
  show "metadata_json '' {} '' = Inr payload_empty" by code_simp
  show "integration_event_new (TypedId (OpaqueId ''outbox_01CREATED'')) (TypedId (OpaqueId ''tenant_01SAMPLE'')) ''client''
      (OpaqueId ''client_01SAMPLE'') (AggregateVersion 1) ''client.created.v1'' 1 payload_empty 1000 = Inr created_event"
    by code_simp
qed

section \<open>Deliveries\<close>

text \<open>
  C32: An event is taken by a consumer at most once: after a delivery that was no duplicate, and whatever
  operations of this or other deliveries follow in any interleaving, operators' replays included, every further
  delivery of an event with its tenant and identifier to the same consumer is a duplicate, a retry, a dead
  letter or an error.
\<close>
theorem event_taken_at_most_once:
  assumes "process_foundation_delivery d1_delivery_ports c event now policy db = (Inr (OutcomeDelivered False), db1)"
    and "delivery_history db1 db2"
    and "process_foundation_delivery d1_delivery_ports c event' now' policy' db2 = (res, db3)"
    and "ie_tenant_id event' = ie_tenant_id event" "ie_event_id event' = ie_event_id event"
  shows "res \<noteq> Inr (OutcomeDelivered False)"
proof
  assume "res = Inr (OutcomeDelivered False)"
  then have "\<not> event_claimed c event' db2"
    using d1_store.fresh_delivery_claims assms(3) by blast
  moreover have "event_claimed c event db2"
    using history_claimed [OF assms(2)] d1_store.fresh_delivery_claims [OF assms(1)] by blast
  ultimately show False
    using assms(4,5) by (simp add: event_claimed_def)
qed

definition sample_notifications :: notification_db where
  "sample_notifications =
     \<lparr>nd_outbox = [(''tenant_01SAMPLE'', ''outbox_01CREATED'') \<mapsto> created_row\<lparr>po_payload_json := ''{}''\<rparr>], nd_events = {},
      nd_claims = {}, nd_deliveries = (\<lambda>_. None)\<rparr>"

definition sample_consumer :: opaque_id where "sample_consumer = OpaqueId ''consumer_foundation_v1''"

definition sample_policy :: retry_policy where
  "sample_policy = \<lparr>rp_base_delay_ms = 1000, rp_max_delay_ms = 60000, rp_jitter_basis_points = 1000, rp_attempt_limit = 8\<rparr>"

lemma sample_delivered:
  "fst (process_foundation_delivery d1_delivery_ports sample_consumer created_event 2000 sample_policy sample_notifications)
     = Inr (OutcomeDelivered False)"
  by code_simp

lemma event_taken_at_most_once_witness:
  "fst (process_foundation_delivery d1_delivery_ports sample_consumer created_event 3000 sample_policy
       (snd (process_foundation_delivery d1_delivery_ports sample_consumer created_event 2000 sample_policy sample_notifications)))
     \<noteq> Inr (OutcomeDelivered False)"
proof -
  let ?db = "snd (process_foundation_delivery d1_delivery_ports sample_consumer created_event 2000 sample_policy sample_notifications)"
  have "process_foundation_delivery d1_delivery_ports sample_consumer created_event 2000 sample_policy sample_notifications
      = (Inr (OutcomeDelivered False), ?db)"
    using sample_delivered by (simp add: prod_eq_iff)
  from event_taken_at_most_once [OF this here surjective_pairing refl refl] show ?thesis .
qed

text \<open>
  C35: The guarded update of a delivery is a compare-and-swap of the delivery its row stands for.  After any
  interleaving of operations and replays on an empty table every row reads as a delivery; an update
  that is applied found the delivery it expected and leaves the new one, in this row only; an update that is
  answered as stale found another delivery; any update that is not applied changes nothing.  An
  update is applied when the row stands for the expected delivery, which is due, and the new one is what the domain
  records for a success or a failure at a time that is not before the row was created and that the database can hold.
\<close>
theorem delivery_update_is_compare_and_swap:
  assumes "delivery_history db0 db" "nd_deliveries db0 = (\<lambda>_. None)" "nd_deliveries db (delivery_key t c e) = Some row"
  shows "\<exists>cur. delivery_row_into_state row = Inr cur
     \<and> (case d1_compare_and_swap t c e expected new_state db of
          (Inr DeliveryApplied, db') \<Rightarrow> cur = expected
            \<and> (\<exists>row'. nd_deliveries db' = (nd_deliveries db)(delivery_key t c e \<mapsto> row') \<and> delivery_row_into_state row' = Inr new_state)
        | (Inr DeliveryStale, db') \<Rightarrow> cur \<noteq> expected \<and> db' = db
        | (Inl _, db') \<Rightarrow> db' = db)
     \<and> (cur = expected \<and> delivery_is_due cur at \<and> dr_created_at row \<le> uint at \<and> unat at < 2 ^ 63
        \<and> (delivery_record_success cur at = Inr new_state
            \<or> (\<exists>b m j a p i cls. retry_policy_configured b m j a = Inr p \<and> unat at + unat (rp_max_delay_ms p) < 2 ^ 63
                 \<and> transition_after_failure p cur at i cls = Inr new_state))
        \<longrightarrow> fst (d1_compare_and_swap t c e expected new_state db) = Inr DeliveryApplied)"
proof -
  have "deliveries_shown db0"
    using assms(2) by (simp add: deliveries_shown_def)
  then obtain cur where cur: "row_shows cur row" "0 \<le> dr_created_at row"
    using history_shown [OF assms(1)] delivery_shown assms(3) by blast
  obtain r db' where w: "d1_compare_and_swap t c e expected new_state db = (r, db')" by fastforce
  have swapped: "case d1_compare_and_swap t c e expected new_state db of
          (Inr DeliveryApplied, db') \<Rightarrow> cur = expected
            \<and> (\<exists>row'. nd_deliveries db' = (nd_deliveries db)(delivery_key t c e \<mapsto> row') \<and> delivery_row_into_state row' = Inr new_state)
        | (Inr DeliveryStale, db') \<Rightarrow> cur \<noteq> expected \<and> db' = db
        | (Inl _, db') \<Rightarrow> db' = db"
  proof (cases "r = Inr DeliveryApplied")
    case True
    with swap_of_shown_row [OF cur(1) assms(3)] w show ?thesis
      using shown_row_reads by fastforce
  next
    case False
    with d1_swap_effect [OF w] have "db' = db" by blast
    with False show ?thesis
      using swap_stale [OF cur(1) assms(3)] w by (auto split: sum.splits delivery_write_outcome.splits)
  qed
  have applied: "fst (d1_compare_and_swap t c e expected new_state db) = Inr DeliveryApplied"
    if "cur = expected" "delivery_is_due cur at" "dr_created_at row \<le> uint at" "unat at < 2 ^ 63"
      "attempt_recorded cur at new_state"
    using swap_applies [OF cur that(3,4,2,5) assms(3)] that(1) by simp
  have recorded: "attempt_recorded cur at new_state"
    if "delivery_record_success cur at = Inr new_state
            \<or> (\<exists>b m j a p i cls. retry_policy_configured b m j a = Inr p \<and> unat at + unat (rp_max_delay_ms p) < 2 ^ 63
                 \<and> transition_after_failure p cur at i cls = Inr new_state)"
    using that
  proof (elim disjE exE conjE)
    show "attempt_recorded cur at new_state" if "delivery_record_success cur at = Inr new_state"
      using that by (rule recorded_attempt(1))
    show "attempt_recorded cur at new_state"
      if "retry_policy_configured b m j a = Inr p" "unat at + unat (rp_max_delay_ms p) < 2 ^ 63"
        "transition_after_failure p cur at i cls = Inr new_state" for b m j a p i cls
      by (rule recorded_attempt(2) [OF retry_policy_configured_ok [OF that(1)] that(2,3)])
  qed
  show ?thesis
  proof (intro exI [of _ cur] conjI impI; (elim conjE)?)
    show "delivery_row_into_state row = Inr cur" by (rule shown_row_reads [OF cur(1)])
  qed (rule swapped, rule applied [OF _ _ _ _ recorded])
qed

lemma delivery_update_is_compare_and_swap_witness:
  "let db = snd (d1_load_or_create (ie_tenant_id created_event) sample_consumer (ie_event_id created_event) 1000 sample_notifications);
       swap = d1_compare_and_swap (ie_tenant_id created_event) sample_consumer (ie_event_id created_event)
   in fst (swap (DsReady 0) (DsDelivered 1 2000) db) = Inr DeliveryApplied
      \<and> (\<exists>db'. swap (DsDelivered 1 900) (DsDelivered 2 2000) db = (Inr DeliveryStale, db'))"
proof -
  let ?load = "LoadDelivery (ie_tenant_id created_event) sample_consumer (ie_event_id created_event) 1000"
  let ?db = "delivery_op_run d1_delivery_ports ?load sample_notifications"
  let ?swap = "d1_compare_and_swap (ie_tenant_id created_event) sample_consumer (ie_event_id created_event)"
  have row: "nd_deliveries ?db (delivery_key (ie_tenant_id created_event) sample_consumer (ie_event_id created_event)) = Some (ready_row 1000)"
    by code_simp
  have empty: "nd_deliveries sample_notifications = (\<lambda>_. None)"
    by (simp add: sample_notifications_def)
  have read: "delivery_row_into_state (ready_row 1000) = Inr (DsReady 0)" "delivery_record_success (DsReady 0) 2000 = Inr (DsDelivered 1 2000)"
      "dr_created_at (ready_row 1000) = 1000"
    by code_simp+
  note cas = delivery_update_is_compare_and_swap [OF operated [OF here] empty row]
  have "fst (?swap (DsReady 0) (DsDelivered 1 2000) ?db) = Inr DeliveryApplied"
    using cas [of "DsReady 0" "DsDelivered 1 2000" 2000] read by simp
  moreover have stale: "fst (?swap (DsDelivered 1 900) (DsDelivered 2 2000) ?db) = Inr DeliveryStale"
    by code_simp
  ultimately show ?thesis
    by (auto simp: d1_delivery_ports_def Let_def prod_eq_iff)
qed

text \<open>
  C36: Under a policy that configuration accepts, recording a failure of a delivery that is not terminal and has
  attempts left meets no arithmetic error but one: the last attempt makes a dead letter, and every earlier one
  schedules the next after now and at most the maximal delay later, or is refused because that time
  would be past the end of the clock, which needs a clock within the maximal delay of its end.
\<close>
theorem failure_is_always_scheduled:
  assumes "retry_policy_configured base_delay max_delay jitter max_attempts = Inr p"
    and "\<not> delivery_is_terminal s" "ds_attempts s < rp_attempt_limit p"
  shows "(ds_attempts s + 1 = rp_attempt_limit p
           \<and> transition_after_failure p s failed_at event_id cls = Inr (DsDeadLetter (ds_attempts s + 1) failed_at cls))
       \<or> (ds_attempts s + 1 < rp_attempt_limit p
           \<and> (\<exists>next_at. transition_after_failure p s failed_at event_id cls = Inr (DsRetryScheduled (ds_attempts s + 1) failed_at next_at cls)
                \<and> failed_at < next_at \<and> unat next_at \<le> unat failed_at + unat (rp_max_delay_ms p)))
       \<or> (ds_attempts s + 1 < rp_attempt_limit p
           \<and> transition_after_failure p s failed_at event_id cls = Inl RsTimestampOverflow
           \<and> 2 ^ 64 \<le> unat failed_at + unat (rp_max_delay_ms p))"
  using transition_after_failure_total [OF retry_policy_configured_ok [OF assms(1)] assms(2,3)] .

lemma failure_is_always_scheduled_witness:
  "\<exists>next_at. transition_after_failure sample_policy (DsReady 0) 2000 (ie_event_id created_event) DfRejected
     = Inr (DsRetryScheduled 1 2000 next_at DfRejected) \<and> (2000::u64) < next_at \<and> unat next_at \<le> 62000"
proof -
  have p: "retry_policy_configured 1000 60000 1000 8 = Inr sample_policy" by code_simp
  from failure_is_always_scheduled [OF p, of "DsReady 0" 2000 "ie_event_id created_event" DfRejected] show ?thesis
    by (simp add: sample_policy_def)
qed

end
