(* ===== verification/Launch_Lease.thy ===== *)
theory Launch_Lease
  imports Primitives
begin

text \<open>
  The aggregates of \<open>crates/session-domain/src/lib.rs\<close>: an intent to launch a profile, which is redeemed once, and
  the lease a session holds on a profile, which admits commits until it is closed.
\<close>

section \<open>Launch intents\<close>

record launch_intent =
  li_tenant_id :: tenant_id
  li_launch_intent_id :: launch_intent_id
  li_actor_id :: actor_id
  li_device_id :: device_id
  li_profile_id :: profile_id
  li_expires_at :: unix_millis
  li_redeemed_at :: "unix_millis option"

datatype launch_intent_error = IntentTenantMismatch | IntentActorMismatch | IntentDeviceMismatch | IntentReplayRejected | IntentExpired

fun launch_intent_error_message :: "launch_intent_error \<Rightarrow> string" where
  "launch_intent_error_message IntentTenantMismatch = ''launch intent tenant mismatch''"
| "launch_intent_error_message IntentActorMismatch = ''launch intent actor mismatch''"
| "launch_intent_error_message IntentDeviceMismatch = ''launch intent device mismatch''"
| "launch_intent_error_message IntentReplayRejected = ''launch intent replay rejected''"
| "launch_intent_error_message IntentExpired = ''launch intent expired''"

definition launch_intent_issue ::
    "tenant_id \<Rightarrow> launch_intent_id \<Rightarrow> actor_id \<Rightarrow> device_id \<Rightarrow> profile_id \<Rightarrow> unix_millis \<Rightarrow> launch_intent" where
  "launch_intent_issue tenant_id launch_intent_id actor_id device_id profile_id expires_at =
     \<lparr>li_tenant_id = tenant_id, li_launch_intent_id = launch_intent_id, li_actor_id = actor_id, li_device_id = device_id,
      li_profile_id = profile_id, li_expires_at = expires_at, li_redeemed_at = None\<rparr>"

definition launch_intent_redeem ::
    "actor_context \<Rightarrow> device_id \<Rightarrow> unix_millis \<Rightarrow> launch_intent \<Rightarrow> (launch_intent_error + profile_id) \<times> launch_intent" where
  "launch_intent_redeem actor device_id now i =
     (if scope_tenant_id (actor_tenant_scope actor) \<noteq> li_tenant_id i then (Inl IntentTenantMismatch, i)
      else if actor_actor_id actor \<noteq> li_actor_id i then (Inl IntentActorMismatch, i)
      else if device_id \<noteq> li_device_id i then (Inl IntentDeviceMismatch, i)
      else if li_redeemed_at i \<noteq> None then (Inl IntentReplayRejected, i)
      else if li_expires_at i \<le> now then (Inl IntentExpired, i)
      else (Inr (li_profile_id i), i\<lparr>li_redeemed_at := Some now\<rparr>))"

section \<open>Leases\<close>

datatype lease_status = LeaseActive | LeaseClosed

record profile_lease =
  pl_tenant_id :: tenant_id
  pl_profile_id :: profile_id
  pl_session_id :: session_id
  pl_device_id :: device_id
  pl_epoch :: u64
  pl_fencing_token :: fencing_token
  pl_status :: lease_status

datatype lease_error = LeaseInvalidEpoch | LeaseStaleWriter

fun lease_error_message :: "lease_error \<Rightarrow> string" where
  "lease_error_message LeaseInvalidEpoch = ''lease epoch must be positive''"
| "lease_error_message LeaseStaleWriter = ''lease command has stale epoch or fencing token''"

definition profile_lease_issue ::
    "tenant_id \<Rightarrow> profile_id \<Rightarrow> session_id \<Rightarrow> device_id \<Rightarrow> u64 \<Rightarrow> fencing_token \<Rightarrow> lease_error + profile_lease" where
  "profile_lease_issue tenant_id profile_id session_id device_id epoch fencing_token =
     (if epoch = 0 then Inl LeaseInvalidEpoch
      else Inr \<lparr>pl_tenant_id = tenant_id, pl_profile_id = profile_id, pl_session_id = session_id, pl_device_id = device_id,
                pl_epoch = epoch, pl_fencing_token = fencing_token, pl_status = LeaseActive\<rparr>)"

definition lease_accepts_commit :: "u64 \<Rightarrow> fencing_token \<Rightarrow> profile_lease \<Rightarrow> bool" where
  "lease_accepts_commit epoch token l \<longleftrightarrow> pl_status l = LeaseActive \<and> pl_epoch l = epoch \<and> pl_fencing_token l = token"

definition lease_close :: "u64 \<Rightarrow> fencing_token \<Rightarrow> profile_lease \<Rightarrow> (lease_error + unit) \<times> profile_lease" where
  "lease_close epoch token l =
     (if \<not> lease_accepts_commit epoch token l then (Inl LeaseStaleWriter, l) else (Inr (), l\<lparr>pl_status := LeaseClosed\<rparr>))"

section \<open>Runs\<close>

type_synonym redemption = "actor_context \<times> device_id \<times> unix_millis"

fun redeem_all :: "redemption list \<Rightarrow> launch_intent \<Rightarrow> (launch_intent_error + profile_id) list \<times> launch_intent" where
  "redeem_all [] i = ([], i)"
| "redeem_all ((actor, device, now) # rest) i =
     (case launch_intent_redeem actor device now i of
        (r, i1) \<Rightarrow> (case redeem_all rest i1 of (rs, i2) \<Rightarrow> (r # rs, i2)))"

lemma redeem_spent: "li_redeemed_at i \<noteq> None \<Longrightarrow> (\<exists>e. fst (launch_intent_redeem actor device now i) = Inl e) \<and> snd (launch_intent_redeem actor device now i) = i"
  by (simp add: launch_intent_redeem_def)

lemma redeem_all_spent:
  "li_redeemed_at i \<noteq> None \<Longrightarrow> filter is_ok (fst (redeem_all rs i)) = []"
proof (induction rs)
  case (Cons r rs)
  obtain actor device now where r: "r = (actor, device, now)" by (cases r)
  obtain x i1 where x: "launch_intent_redeem actor device now i = (x, i1)" by fastforce
  with redeem_spent [OF Cons.prems, of actor device now] have "\<exists>e. x = Inl e" "i1 = i" by simp_all
  then show ?case
    using Cons by (auto simp: r x is_ok_def split: prod.splits)
qed simp

lemma redeemed_at_most_once: "length (filter is_ok (fst (redeem_all rs i))) \<le> 1"
proof (induction rs arbitrary: i)
  case (Cons r rs)
  obtain actor device now where r: "r = (actor, device, now)" by (cases r)
  obtain x i1 where x: "launch_intent_redeem actor device now i = (x, i1)" by fastforce
  show ?case
  proof (cases "is_ok x")
    case True
    then have "li_redeemed_at i1 \<noteq> None"
      using x by (auto simp: launch_intent_redeem_def is_ok_def split: if_splits)
    from redeem_all_spent [OF this, of rs] show ?thesis
      by (cases "redeem_all rs i1") (simp add: r x True)
  next
    case False
    then show ?thesis
      using Cons.IH [of i1] by (cases "redeem_all rs i1") (simp add: r x False)
  qed
qed simp

lemma redeem_owner:
  assumes "launch_intent_redeem actor device now i = (Inr p, i')"
  shows "scope_tenant_id (actor_tenant_scope actor) = li_tenant_id i \<and> actor_actor_id actor = li_actor_id i \<and> device = li_device_id i
     \<and> now < li_expires_at i \<and> p = li_profile_id i"
  using assms by (auto simp: launch_intent_redeem_def split: if_splits)

lemma closed_lease_refuses: "pl_status l = LeaseClosed \<Longrightarrow> \<not> lease_accepts_commit epoch token l \<and> lease_close epoch token l = (Inl LeaseStaleWriter, l)"
  by (simp add: lease_accepts_commit_def lease_close_def)

end
