(* ===== verification/Sha256.thy ===== *)
theory Sha256
  imports Prelude
begin

unbundle bit_operations_syntax

text \<open>
  The SHA-256 that \<open>crates/capability-policy/src/identity.rs\<close> writes out itself, on bytes and 32-bit words.
\<close>

type_synonym byte = "8 word"

definition rotate_right :: "nat \<Rightarrow> u32 \<Rightarrow> u32" where
  "rotate_right n x = (drop_bit n x OR push_bit (32 - n) x)"

definition sha256_constants :: "u32 list" where
  \<comment> \<open>the table \<open>K\<close>, in decimal\<close>
  "sha256_constants =
     [1116352408, 1899447441, 3049323471, 3921009573, 961987163, 1508970993, 2453635748,
      2870763221, 3624381080, 310598401, 607225278, 1426881987, 1925078388, 2162078206,
      2614888103, 3248222580, 3835390401, 4022224774, 264347078, 604807628, 770255983,
      1249150122, 1555081692, 1996064986, 2554220882, 2821834349, 2952996808, 3210313671,
      3336571891, 3584528711, 113926993, 338241895, 666307205, 773529912, 1294757372,
      1396182291, 1695183700, 1986661051, 2177026350, 2456956037, 2730485921, 2820302411,
      3259730800, 3345764771, 3516065817, 3600352804, 4094571909, 275423344, 430227734,
      506948616, 659060556, 883997877, 958139571, 1322822218, 1537002063, 1747873779,
      1955562222, 2024104815, 2227730452, 2361852424, 2428436474, 2756734187, 3204031479,
      3329325298]"

definition sha256_initial :: "u32 list" where
  "sha256_initial =
     [1779033703, 3144134277, 1013904242, 2773480762, 1359893119, 2600822924, 528734635, 1541459225]"

function pad_zeros :: "byte list \<Rightarrow> byte list" where
  \<comment> \<open>the \<open>while\<close> loop of the padding\<close>
  "pad_zeros padded = (if length padded mod 64 \<noteq> 56 then pad_zeros (padded @ [0]) else padded)"
  by pat_completeness auto

lemma pad_step: "n mod 64 \<noteq> (56::nat) \<Longrightarrow> (120 - Suc n mod 64) mod 64 < (120 - n mod 64) mod 64"
proof -
  assume n: "n mod 64 \<noteq> 56"
  define r where "r = n mod 64"
  have r: "r < 64" "r \<noteq> 56" "Suc n mod 64 = Suc r mod 64"
    using n by (simp_all add: r_def mod_Suc_eq)
  then consider "r = 63" | "r < 56" | "56 < r" "r < 63" by linarith
  then have "(120 - Suc r mod 64) mod 64 < (120 - r) mod 64"
  proof cases
    case 2
    then have "(120 - r) mod 64 = 56 - r" "(120 - Suc r) mod 64 = 55 - r" by (simp_all add: le_mod_geq)
    then show ?thesis using 2 by simp
  qed simp_all
  then show ?thesis using r by (simp add: r_def)
qed

termination pad_zeros
  by (relation "measure (\<lambda>padded. (120 - length padded mod 64) mod 64)") (use pad_step in auto)

declare pad_zeros.simps [simp del]

definition u64_be :: "u64 \<Rightarrow> byte list" where
  "u64_be w = map (\<lambda>n. ucast (drop_bit n w)) [56, 48, 40, 32, 24, 16, 8, 0]"

definition u32_be :: "u32 \<Rightarrow> byte list" where
  "u32_be w = map (\<lambda>n. ucast (drop_bit n w)) [24, 16, 8, 0]"

definition sha256_padded :: "byte list \<Rightarrow> byte list" where
  \<comment> \<open>the length in bits wraps at 64 bits, as in the source\<close>
  "sha256_padded input = pad_zeros (input @ [0x80]) @ u64_be (of_nat (length input) * 8)"

fun be_words :: "byte list \<Rightarrow> u32 list" where
  "be_words (a # b # c # d # rest) =
     (push_bit 24 (ucast a) OR push_bit 16 (ucast b) OR push_bit 8 (ucast c) OR ucast d) # be_words rest"
| "be_words _ = []"

fun extend_schedule :: "nat \<Rightarrow> u32 list \<Rightarrow> u32 list" where
  \<comment> \<open>the schedule with its newest word first: \<open>schedule[index - k]\<close> is at position \<open>k - 1\<close>\<close>
  "extend_schedule 0 ws = ws"
| "extend_schedule (Suc n) ws =
     (let w15 = ws ! 14; w2 = ws ! 1;
          s0 = rotate_right 7 w15 XOR rotate_right 18 w15 XOR drop_bit 3 w15;
          s1 = rotate_right 17 w2 XOR rotate_right 19 w2 XOR drop_bit 10 w2
      in extend_schedule n ((ws ! 15 + s0 + ws ! 6 + s1) # ws))"

definition message_schedule :: "byte list \<Rightarrow> u32 list" where
  "message_schedule chunk = rev (extend_schedule 48 (rev (be_words chunk)))"

fun sha256_rounds :: "(u32 \<times> u32) list \<Rightarrow> u32 list \<Rightarrow> u32 list" where
  \<comment> \<open>constant and schedule word of each round; the working variables\<close>
  "sha256_rounds ((k, w) # rounds) [a, b, c, d, e, f, g, h] =
     (let sigma1 = rotate_right 6 e XOR rotate_right 11 e XOR rotate_right 25 e;
          chosen = (e AND f) XOR ((NOT e) AND g);
          temp1 = h + sigma1 + chosen + k + w;
          sigma0 = rotate_right 2 a XOR rotate_right 13 a XOR rotate_right 22 a;
          majority = (a AND b) XOR (a AND c) XOR (b AND c);
          temp2 = sigma0 + majority
      in sha256_rounds rounds [temp1 + temp2, a, b, c, d + temp1, e, f, g])"
| "sha256_rounds _ variables = variables"

definition sha256_block :: "u32 list \<Rightarrow> byte list \<Rightarrow> u32 list" where
  "sha256_block state chunk = map2 (+) state (sha256_rounds (zip sha256_constants (message_schedule chunk)) state)"

function sha256_blocks :: "u32 list \<Rightarrow> byte list \<Rightarrow> u32 list" where
  \<comment> \<open>\<open>chunks_exact(64)\<close>\<close>
  "sha256_blocks state bytes = (if length bytes < 64 then state else sha256_blocks (sha256_block state (take 64 bytes)) (drop 64 bytes))"
  by pat_completeness auto
termination by (relation "measure (\<lambda>(_, bytes). length bytes)") auto

declare sha256_blocks.simps [simp del]

definition sha256_bytes :: "byte list \<Rightarrow> byte list" where
  "sha256_bytes input = concat (map u32_be (sha256_blocks sha256_initial (sha256_padded input)))"

lemma length_pad_zeros: "length (pad_zeros bs) mod 64 = 56"
  by (induction bs rule: pad_zeros.induct) (subst pad_zeros.simps, auto)

lemma length_padded: "length (sha256_padded bs) mod 64 = 0"
  using mod_add_left_eq [of "length (pad_zeros (bs @ [0x80]))" 64 8] by (simp add: sha256_padded_def u64_be_def length_pad_zeros add.commute)

lemma length_rounds: "length vs = 8 \<Longrightarrow> length (sha256_rounds rs vs) = 8"
  by (induction rs vs rule: sha256_rounds.induct) (simp_all add: Let_def)

lemma length_blocks: "length state = 8 \<Longrightarrow> length (sha256_blocks state bs) = 8"
proof (induction state bs rule: sha256_blocks.induct)
  case (1 state bs)
  then show ?case by (subst sha256_blocks.simps) (simp add: sha256_block_def length_rounds)
qed

lemma length_u32_be: "length (u32_be w) = 4"
  by (simp add: u32_be_def)

lemma length_sha256 [simp]: "length (sha256_bytes input) = 32"
proof -
  have "length (concat (map u32_be ws)) = 4 * length ws" for ws
    by (induction ws) (simp_all add: length_u32_be)
  then show ?thesis
    using length_blocks [of sha256_initial] by (simp add: sha256_bytes_def sha256_initial_def)
qed

end
