(* ===== verification/Capability_Policy.thy ===== *)
theory Capability_Policy
  imports Sha256 Ordered_Map
begin

text \<open>
  \<open>crates/capability-policy\<close>: the activation units with their dependencies (\<open>activation.rs\<close>), the capability profiles
  and what they enable (\<open>profile.rs\<close>), their digests (\<open>identity.rs\<close>), the runtime surfaces (\<open>surface.rs\<close>), the
  admission of a profile to an environment (\<open>admission.rs\<close>) and the snapshot (\<open>snapshot.rs\<close>).  Sets stand
  for the \<open>BTreeSet\<close>s; where the code iterates over one, the definition goes through the units in declaration order.
\<close>

section \<open>Activation units\<close>

datatype activation_unit =
    Foundation | Identity | Clients | BrowserProfiles | ProfileRuntime | Camoufox | Notifications | MailboxAdmin
  | MailboxClientBinding | MailboxBrowserBinding | MailboxRead | MailboxJobs | OutboundMail

definition all_activation_units :: "activation_unit list" where
  "all_activation_units =
     [Foundation, Identity, Clients, BrowserProfiles, ProfileRuntime, Camoufox, Notifications, MailboxAdmin,
      MailboxClientBinding, MailboxBrowserBinding, MailboxRead, MailboxJobs, OutboundMail]"

fun unit_id :: "activation_unit \<Rightarrow> string" where
  "unit_id Foundation = ''foundation''"
| "unit_id Identity = ''identity''"
| "unit_id Clients = ''clients''"
| "unit_id BrowserProfiles = ''browser_profiles''"
| "unit_id ProfileRuntime = ''profile_runtime''"
| "unit_id Camoufox = ''camoufox''"
| "unit_id Notifications = ''notifications''"
| "unit_id MailboxAdmin = ''mailbox_admin''"
| "unit_id MailboxClientBinding = ''mailbox_client_binding''"
| "unit_id MailboxBrowserBinding = ''mailbox_browser_binding''"
| "unit_id MailboxRead = ''mailbox_read''"
| "unit_id MailboxJobs = ''mailbox_jobs''"
| "unit_id OutboundMail = ''outbound_mail''"

datatype policy_error =
    PoUnknownActivationUnit | PoUnknownEnvironment | PoUnknownProfile | PoInvalidDigest | PoDigestMismatch
  | PoEnvironmentNotAllowed | PoTargetNotAuthorized | PoProductionNotAuthorized | PoActivationDependencyCycle
  | PoActivationSelfDependency activation_unit | PoActivationSelfIncompatibility activation_unit
  | PoAsymmetricIncompatibility activation_unit activation_unit | PoProfileInheritanceCycle
  | PoProfileEnableDisableOverlap activation_unit | PoDependencyUnsatisfied activation_unit activation_unit
  | PoIncompatibleCapabilities activation_unit activation_unit

fun policy_error_message :: "policy_error \<Rightarrow> string" where
  "policy_error_message PoUnknownActivationUnit = ''unknown activation unit''"
| "policy_error_message PoUnknownEnvironment = ''unknown canonical environment''"
| "policy_error_message PoUnknownProfile = ''unknown capability profile''"
| "policy_error_message PoInvalidDigest = ''invalid capability profile digest''"
| "policy_error_message PoDigestMismatch = ''capability profile digest mismatch''"
| "policy_error_message PoEnvironmentNotAllowed = ''capability profile environment not allowed''"
| "policy_error_message PoTargetNotAuthorized = ''target capability profile not authorized''"
| "policy_error_message PoProductionNotAuthorized = ''production capability profile not authorized''"
| "policy_error_message PoActivationDependencyCycle = ''activation dependency graph contains a cycle''"
| "policy_error_message (PoActivationSelfDependency unit) = ''activation unit '' @ unit_id unit @ '' depends on itself''"
| "policy_error_message (PoActivationSelfIncompatibility unit) = ''activation unit '' @ unit_id unit @ '' conflicts with itself''"
| "policy_error_message (PoAsymmetricIncompatibility left right) =
     ''activation incompatibility is asymmetric: '' @ unit_id left @ '' -> '' @ unit_id right"
| "policy_error_message PoProfileInheritanceCycle = ''capability profile inheritance cycle''"
| "policy_error_message (PoProfileEnableDisableOverlap unit) = ''capability profile both enables and disables '' @ unit_id unit"
| "policy_error_message (PoDependencyUnsatisfied unit dependency) =
     ''capability dependency unsatisfied: '' @ unit_id unit @ '' requires '' @ unit_id dependency"
| "policy_error_message (PoIncompatibleCapabilities left right) =
     ''incompatible capabilities enabled: '' @ unit_id left @ '' and '' @ unit_id right"

definition unit_parse :: "string \<Rightarrow> policy_error + activation_unit" where
  "unit_parse value = res_ok_or PoUnknownActivationUnit (find (\<lambda>unit. unit_id unit = value) all_activation_units)"

fun unit_dependencies :: "activation_unit \<Rightarrow> activation_unit list" where
  "unit_dependencies Foundation = []"
| "unit_dependencies Identity = [Foundation]"
| "unit_dependencies Clients = [Foundation, Identity]"
| "unit_dependencies BrowserProfiles = [Foundation, Identity, Clients]"
| "unit_dependencies ProfileRuntime = [Foundation, Identity, BrowserProfiles]"
| "unit_dependencies Camoufox = [ProfileRuntime]"
| "unit_dependencies Notifications = [Foundation, Identity]"
| "unit_dependencies MailboxAdmin = [Foundation, Identity]"
| "unit_dependencies MailboxClientBinding = [MailboxAdmin, Clients]"
| "unit_dependencies MailboxBrowserBinding = [MailboxAdmin, BrowserProfiles, ProfileRuntime]"
| "unit_dependencies MailboxRead = [MailboxAdmin, Clients]"
| "unit_dependencies MailboxJobs = [MailboxAdmin]"
| "unit_dependencies OutboundMail = [MailboxAdmin, MailboxClientBinding, Clients]"

definition unit_incompatible_with :: "activation_unit \<Rightarrow> activation_unit list" where
  "unit_incompatible_with unit = []"

fun requires_windows_profile_bridge :: "activation_unit \<Rightarrow> bool" where
  "requires_windows_profile_bridge ProfileRuntime = True"
| "requires_windows_profile_bridge Camoufox = True"
| "requires_windows_profile_bridge MailboxBrowserBinding = True"
| "requires_windows_profile_bridge _ = False"

record capability_definition =
  cd_unit :: activation_unit
  cd_dependencies :: "activation_unit list"
  cd_incompatible_with :: "activation_unit list"
  cd_requires_windows_profile_bridge :: bool

definition unit_definition :: "activation_unit \<Rightarrow> capability_definition" where
  "unit_definition unit =
     \<lparr>cd_unit = unit, cd_dependencies = unit_dependencies unit, cd_incompatible_with = unit_incompatible_with unit,
      cd_requires_windows_profile_bridge = requires_windows_profile_bridge unit\<rparr>"

definition unvisited :: "activation_unit set \<Rightarrow> nat" where
  "unvisited visiting = length (filter (\<lambda>u. u \<notin> visiting) all_activation_units)"

lemma all_units [simp]: "u \<in> set all_activation_units"
  by (cases u) (simp_all add: all_activation_units_def)

lemma filter_insert_less:
  assumes "x \<in> set xs" and "x \<notin> A"
  shows "length (filter (\<lambda>u. u \<notin> insert x A) xs) < length (filter (\<lambda>u. u \<notin> A) xs)"
  using assms(1)
proof (induction xs)
  case (Cons a xs)
  have "length (filter (\<lambda>u. u \<notin> insert x A) xs) \<le> length (filter (\<lambda>u. u \<notin> A) xs)"
    by (induction xs) auto
  then show ?case using Cons assms(2) by (cases "a = x") (auto split: if_splits)
qed simp

lemma unvisited_insert: "unit \<notin> visiting \<Longrightarrow> unvisited (insert unit visiting) < unvisited visiting"
  unfolding unvisited_def by (rule filter_insert_less) simp_all

function (sequential) visit :: "activation_unit \<Rightarrow> activation_unit set \<Rightarrow> activation_unit set \<Rightarrow> policy_error + activation_unit set"
  and visit_all :: "activation_unit list \<Rightarrow> activation_unit set \<Rightarrow> activation_unit set \<Rightarrow> policy_error + activation_unit set" where
  \<comment> \<open>depth first; the result is the set of visited units, and \<open>visiting\<close> is restored on the way out\<close>
  "visit unit visiting visited =
     (if unit \<in> visited then Inr visited
      else if unit \<in> visiting then Inl PoActivationDependencyCycle
      else res_bind (visit_all (unit_dependencies unit) (insert unit visiting) visited) (\<lambda>visited'. Inr (insert unit visited')))"
| "visit_all [] visiting visited = Inr visited"
| "visit_all (dependency # rest) visiting visited =
     res_bind (visit dependency visiting visited) (\<lambda>visited'. visit_all rest visiting visited')"
  by pat_completeness auto
termination
  by (relation "measures [\<lambda>x. case x of Inl (_, visiting, _) \<Rightarrow> unvisited visiting | Inr (_, visiting, _) \<Rightarrow> unvisited visiting,
        \<lambda>x. case x of Inl _ \<Rightarrow> 0 | Inr (rest, _, _) \<Rightarrow> Suc (length rest)]")
     (simp_all add: unvisited_insert)

fun first_error :: "('a \<Rightarrow> 'e + unit) \<Rightarrow> 'a list \<Rightarrow> 'e + unit" where
  \<comment> \<open>a \<open>for\<close> loop whose body ends in \<open>?\<close> or an early return\<close>
  "first_error f [] = Inr ()"
| "first_error f (x # xs) = res_bind (f x) (\<lambda>_. first_error f xs)"

definition validate_unit :: "activation_unit \<Rightarrow> policy_error + unit" where
  "validate_unit unit =
     (if unit \<in> set (unit_dependencies unit) then Inl (PoActivationSelfDependency unit)
      else if unit \<in> set (unit_incompatible_with unit) then Inl (PoActivationSelfIncompatibility unit)
      else first_error (\<lambda>incompatible.
             if unit \<in> set (unit_incompatible_with incompatible) then Inr () else Inl (PoAsymmetricIncompatibility unit incompatible))
           (unit_incompatible_with unit))"

fun validate_units :: "activation_unit list \<Rightarrow> string list \<Rightarrow> policy_error + unit" where
  \<comment> \<open>the first loop; the identifiers seen\<close>
  "validate_units [] ids = Inr ()"
| "validate_units (unit # units) ids =
     (if unit_id unit \<in> set ids then Inl PoActivationDependencyCycle
      else res_bind (validate_unit unit) (\<lambda>_. validate_units units (unit_id unit # ids)))"

definition validate_activation_catalog :: "policy_error + unit" where
  "validate_activation_catalog =
     res_bind (validate_units all_activation_units []) (\<lambda>_.
     res_bind (visit_all all_activation_units {} {}) (\<lambda>_. Inr ()))"

section \<open>Profiles\<close>

datatype canonical_environment = Rehearsal | Staging | Production

definition environment_parse :: "string \<Rightarrow> policy_error + canonical_environment" where
  "environment_parse value =
     (if value = ''rehearsal'' then Inr Rehearsal
      else if value = ''staging'' then Inr Staging
      else if value = ''production'' then Inr Production
      else Inl PoUnknownEnvironment)"

fun environment_id :: "canonical_environment \<Rightarrow> string" where
  "environment_id Rehearsal = ''rehearsal''"
| "environment_id Staging = ''staging''"
| "environment_id Production = ''production''"

datatype capability_profile_id =
    ProductionCoreV1 | RehearsalCoreV1 | ProductionCoreV2 | RehearsalCoreV2 | ProductionMailboxAdminV1
  | ProductionMailboxJobsV1 | ProductionOutboundMailV1

definition all_profile_ids :: "capability_profile_id list" where
  "all_profile_ids = [ProductionCoreV1, RehearsalCoreV1, ProductionCoreV2, RehearsalCoreV2, ProductionMailboxAdminV1,
     ProductionMailboxJobsV1, ProductionOutboundMailV1]"

fun capability_profile_name :: "capability_profile_id \<Rightarrow> string" where
  "capability_profile_name ProductionCoreV1 = ''production-core-v1''"
| "capability_profile_name RehearsalCoreV1 = ''rehearsal-core-v1''"
| "capability_profile_name ProductionCoreV2 = ''production-core-v2''"
| "capability_profile_name RehearsalCoreV2 = ''rehearsal-core-v2''"
| "capability_profile_name ProductionMailboxAdminV1 = ''production-mailbox-admin-v1''"
| "capability_profile_name ProductionMailboxJobsV1 = ''production-mailbox-jobs-v1''"
| "capability_profile_name ProductionOutboundMailV1 = ''production-outbound-mail-v1''"

definition capability_profile_parse :: "string \<Rightarrow> policy_error + capability_profile_id" where
  "capability_profile_parse value = res_ok_or PoUnknownProfile (find (\<lambda>p. capability_profile_name p = value) all_profile_ids)"

datatype activation_gate =
    Ar12OrLaterRehearsal | Pc1AfterAr17 | TargetAuthorization | ProductionAuthorization | Pc2 | Pc3 | Pc4

fun activation_gate_id :: "activation_gate \<Rightarrow> string" where
  "activation_gate_id Ar12OrLaterRehearsal = ''AR-12_OR_LATER_REHEARSAL''"
| "activation_gate_id Pc1AfterAr17 = ''PC-1_AFTER_AR17''"
| "activation_gate_id TargetAuthorization = ''TARGET_AUTHORIZATION''"
| "activation_gate_id ProductionAuthorization = ''PRODUCTION_AUTHORIZATION''"
| "activation_gate_id Pc2 = ''PC-2''"
| "activation_gate_id Pc3 = ''PC-3''"
| "activation_gate_id Pc4 = ''PC-4''"

record capability_profile_definition =
  cpd_id :: capability_profile_id
  cpd_version :: u16
  cpd_allowed_environments :: "canonical_environment list"
  cpd_extends :: "capability_profile_id option"
  cpd_enabled :: "activation_unit list"
  cpd_disabled :: "activation_unit list"
  cpd_activation_gate :: activation_gate
  cpd_production_authorization_required :: bool

definition core_v1_enabled :: "activation_unit list" where
  "core_v1_enabled = [Foundation, Identity, Clients, BrowserProfiles, ProfileRuntime, Camoufox, Notifications]"
definition core_v1_disabled :: "activation_unit list" where
  "core_v1_disabled = [MailboxAdmin, MailboxClientBinding, MailboxBrowserBinding, MailboxRead, MailboxJobs, OutboundMail]"
definition first_release_core_v2_enabled :: "activation_unit list" where
  "first_release_core_v2_enabled = [Foundation, Identity, Clients, BrowserProfiles, ProfileRuntime, Camoufox]"
definition first_release_core_v2_disabled :: "activation_unit list" where
  "first_release_core_v2_disabled =
     [Notifications, MailboxAdmin, MailboxClientBinding, MailboxBrowserBinding, MailboxRead, MailboxJobs, OutboundMail]"
definition mailbox_admin_enabled :: "activation_unit list" where
  "mailbox_admin_enabled = [MailboxAdmin, MailboxClientBinding, MailboxBrowserBinding, MailboxRead]"
definition mailbox_admin_disabled :: "activation_unit list" where
  "mailbox_admin_disabled = [MailboxJobs, OutboundMail]"
definition rehearsal_environments :: "canonical_environment list" where
  "rehearsal_environments = [Rehearsal, Staging]"

fun profile_definition :: "capability_profile_id \<Rightarrow> capability_profile_definition" where
  "profile_definition ProductionCoreV1 =
     \<lparr>cpd_id = ProductionCoreV1, cpd_version = 1, cpd_allowed_environments = [Production], cpd_extends = None,
      cpd_enabled = core_v1_enabled, cpd_disabled = core_v1_disabled, cpd_activation_gate = Pc1AfterAr17,
      cpd_production_authorization_required = True\<rparr>"
| "profile_definition RehearsalCoreV1 =
     \<lparr>cpd_id = RehearsalCoreV1, cpd_version = 1, cpd_allowed_environments = rehearsal_environments, cpd_extends = None,
      cpd_enabled = core_v1_enabled, cpd_disabled = core_v1_disabled, cpd_activation_gate = Ar12OrLaterRehearsal,
      cpd_production_authorization_required = False\<rparr>"
| "profile_definition ProductionCoreV2 =
     \<lparr>cpd_id = ProductionCoreV2, cpd_version = 2, cpd_allowed_environments = [Production], cpd_extends = None,
      cpd_enabled = first_release_core_v2_enabled, cpd_disabled = first_release_core_v2_disabled,
      cpd_activation_gate = ProductionAuthorization, cpd_production_authorization_required = True\<rparr>"
| "profile_definition RehearsalCoreV2 =
     \<lparr>cpd_id = RehearsalCoreV2, cpd_version = 2, cpd_allowed_environments = rehearsal_environments, cpd_extends = None,
      cpd_enabled = first_release_core_v2_enabled, cpd_disabled = first_release_core_v2_disabled,
      cpd_activation_gate = TargetAuthorization, cpd_production_authorization_required = False\<rparr>"
| "profile_definition ProductionMailboxAdminV1 =
     \<lparr>cpd_id = ProductionMailboxAdminV1, cpd_version = 1, cpd_allowed_environments = [Production],
      cpd_extends = Some ProductionCoreV1, cpd_enabled = mailbox_admin_enabled, cpd_disabled = mailbox_admin_disabled,
      cpd_activation_gate = Pc2, cpd_production_authorization_required = True\<rparr>"
| "profile_definition ProductionMailboxJobsV1 =
     \<lparr>cpd_id = ProductionMailboxJobsV1, cpd_version = 1, cpd_allowed_environments = [Production],
      cpd_extends = Some ProductionMailboxAdminV1, cpd_enabled = [MailboxJobs], cpd_disabled = [OutboundMail],
      cpd_activation_gate = Pc3, cpd_production_authorization_required = True\<rparr>"
| "profile_definition ProductionOutboundMailV1 =
     \<lparr>cpd_id = ProductionOutboundMailV1, cpd_version = 1, cpd_allowed_environments = [Production],
      cpd_extends = Some ProductionMailboxJobsV1, cpd_enabled = [OutboundMail], cpd_disabled = [],
      cpd_activation_gate = Pc4, cpd_production_authorization_required = True\<rparr>"

definition unapplied :: "capability_profile_id set \<Rightarrow> nat" where
  "unapplied visiting = length (filter (\<lambda>p. p \<notin> visiting) all_profile_ids)"

lemma all_profiles [simp]: "p \<in> set all_profile_ids"
  by (cases p) (simp_all add: all_profile_ids_def)

lemma unapplied_insert: "p \<notin> visiting \<Longrightarrow> unapplied (insert p visiting) < unapplied visiting"
  unfolding unapplied_def by (rule filter_insert_less) simp_all

function apply_profile ::
    "capability_profile_id \<Rightarrow> canonical_environment \<Rightarrow> capability_profile_id set \<Rightarrow> activation_unit set \<Rightarrow> policy_error + activation_unit set" where
  "apply_profile p environment visiting capabilities =
     (if p \<in> visiting then Inl PoProfileInheritanceCycle
      else if environment \<notin> set (cpd_allowed_environments (profile_definition p)) then Inl PoEnvironmentNotAllowed
      else
      res_bind (case cpd_extends (profile_definition p) of
                  None \<Rightarrow> Inr capabilities
                | Some parent \<Rightarrow> apply_profile parent environment (insert p visiting) capabilities) (\<lambda>inherited.
      Inr (foldl (\<lambda>caps u. Set.remove u caps) (foldl (\<lambda>caps u. insert u caps) inherited (cpd_enabled (profile_definition p)))
             (cpd_disabled (profile_definition p)))))"
  by pat_completeness auto
termination
  by (relation "measure (\<lambda>(_, _, visiting, _). unapplied visiting)") (simp_all add: unapplied_insert)

declare apply_profile.simps [simp del]

definition validate_capability :: "activation_unit set \<Rightarrow> activation_unit \<Rightarrow> policy_error + unit" where
  "validate_capability capabilities unit =
     res_bind (first_error (\<lambda>d. if d \<in> capabilities then Inr () else Inl (PoDependencyUnsatisfied unit d)) (unit_dependencies unit)) (\<lambda>_.
     first_error (\<lambda>i. if i \<in> capabilities then Inl (PoIncompatibleCapabilities unit i) else Inr ()) (unit_incompatible_with unit))"

definition enabled_units :: "activation_unit set \<Rightarrow> activation_unit list" where
  "enabled_units capabilities = filter (\<lambda>u. u \<in> capabilities) all_activation_units"

definition validate_effective_capabilities :: "activation_unit set \<Rightarrow> policy_error + unit" where
  "validate_effective_capabilities capabilities = first_error (validate_capability capabilities) (enabled_units capabilities)"

function validate_inheritance :: "capability_profile_id \<Rightarrow> capability_profile_id set \<Rightarrow> policy_error + unit" where
  "validate_inheritance p visiting =
     (if p \<in> visiting then Inl PoProfileInheritanceCycle
      else case cpd_extends (profile_definition p) of
             None \<Rightarrow> Inr ()
           | Some parent \<Rightarrow> validate_inheritance parent (insert p visiting))"
  by pat_completeness auto
termination
  by (relation "measure (\<lambda>(_, visiting). unapplied visiting)") (simp_all add: unapplied_insert)

declare validate_inheritance.simps [simp del]

definition validate_profile :: "capability_profile_id \<Rightarrow> policy_error + unit" where
  "validate_profile p =
     res_bind (first_error (\<lambda>u. if u \<in> set (cpd_disabled (profile_definition p)) then Inl (PoProfileEnableDisableOverlap u) else Inr ())
                 (cpd_enabled (profile_definition p))) (\<lambda>_.
     res_bind (validate_inheritance p {}) (\<lambda>_.
     first_error (\<lambda>environment. res_bind (apply_profile p environment {} {}) validate_effective_capabilities)
       (cpd_allowed_environments (profile_definition p))))"

fun validate_profiles :: "capability_profile_id list \<Rightarrow> string list \<Rightarrow> policy_error + unit" where
  "validate_profiles [] ids = Inr ()"
| "validate_profiles (p # ps) ids =
     (if capability_profile_name p \<in> set ids then Inl PoProfileInheritanceCycle
      else res_bind (validate_profile p) (\<lambda>_. validate_profiles ps (capability_profile_name p # ids)))"

definition validate_policy :: "policy_error + unit" where
  \<comment> \<open>the catalogue of surfaces has no check\<close>
  "validate_policy = res_bind validate_activation_catalog (\<lambda>_. res_bind (validate_profiles all_profile_ids []) (\<lambda>_. Inr ()))"

section \<open>Digests\<close>

datatype profile_digest = ProfileDigest (digest_bytes: "byte list")

definition policy_hex_nibble :: "byte \<Rightarrow> policy_error + byte" where
  "policy_hex_nibble v =
     (if 0x30 \<le> v \<and> v \<le> 0x39 then Inr (v - 0x30)
      else if 0x61 \<le> v \<and> v \<le> 0x66 then Inr (v - 0x61 + 10)
      else if 0x41 \<le> v \<and> v \<le> 0x46 then Inr (v - 0x41 + 10)
      else Inl PoInvalidDigest)"

definition bytes_of_text :: "string \<Rightarrow> byte list" where
  "bytes_of_text s = map of_char s"

fun parse_hex_pairs :: "byte list \<Rightarrow> policy_error + byte list" where
  "parse_hex_pairs (h # l # rest) =
     res_bind (policy_hex_nibble h) (\<lambda>high. res_bind (policy_hex_nibble l) (\<lambda>low.
     res_bind (parse_hex_pairs rest) (\<lambda>bytes. Inr ((or (push_bit 4 high) low) # bytes))))"
| "parse_hex_pairs _ = Inr []"

definition digest_parse_hex :: "string \<Rightarrow> policy_error + profile_digest" where
  "digest_parse_hex value =
     (if length value \<noteq> 64 then Inl PoInvalidDigest
      else res_bind (parse_hex_pairs (bytes_of_text value)) (\<lambda>bytes. Inr (ProfileDigest bytes)))"

definition lower_hex_digit :: "byte \<Rightarrow> char" where
  "lower_hex_digit n = ''0123456789abcdef'' ! unat n"

definition digest_to_hex :: "profile_digest \<Rightarrow> string" where
  "digest_to_hex d = concat (map (\<lambda>b. [lower_hex_digit (drop_bit 4 b), lower_hex_digit (and b 15)]) (digest_bytes d))"

definition quoted :: "string \<Rightarrow> string" where
  "quoted value = ''\"'' @ value @ ''\"''"

fun string_list_json :: "string list \<Rightarrow> string" where
  \<comment> \<open>\<open>push_string_list\<close>\<close>
  "string_list_json [] = []"
| "string_list_json [v] = quoted v"
| "string_list_json (v # vs) = quoted v @ '','' @ string_list_json vs"

definition semantic_identity_v1 :: "capability_profile_definition \<Rightarrow> string" where
  "semantic_identity_v1 d =
     ''{\"allowed_environments\":['' @ string_list_json (map environment_id (cpd_allowed_environments d))
     @ ''],\"disabled_activation_units\":['' @ string_list_json (map unit_id (cpd_disabled d))
     @ ''],\"enabled_activation_units\":['' @ string_list_json (map unit_id (cpd_enabled d)) @ '']''
     @ (case cpd_extends d of None \<Rightarrow> [] | Some parent \<Rightarrow> '',\"extends\":\"'' @ capability_profile_name parent @ ''\"'')
     @ '',\"profile_id\":\"'' @ capability_profile_name (cpd_id d)
     @ ''\",\"profile_version\":'' @ show_nat (unat (cpd_version d)) @ ''}''"

definition semantic_digest_v1 :: "capability_profile_definition \<Rightarrow> profile_digest" where
  "semantic_digest_v1 d = ProfileDigest (sha256_bytes (bytes_of_text (semantic_identity_v1 d)))"

definition profile_digest_of :: "capability_profile_id \<Rightarrow> profile_digest" where
  "profile_digest_of p = semantic_digest_v1 (profile_definition p)"

section \<open>Effective profiles and admission\<close>

record effective_profile =
  ep_profile_id :: capability_profile_id
  ep_semantic_digest :: profile_digest
  ep_capabilities :: "activation_unit set"

definition effective_profile_validated :: "capability_profile_id \<Rightarrow> canonical_environment \<Rightarrow> policy_error + effective_profile" where
  "effective_profile_validated p environment =
     res_bind (apply_profile p environment {} {}) (\<lambda>capabilities.
     res_bind (validate_effective_capabilities capabilities) (\<lambda>_.
     Inr \<lparr>ep_profile_id = p, ep_semantic_digest = semantic_digest_v1 (profile_definition p), ep_capabilities = capabilities\<rparr>))"

definition effective_profile_of :: "capability_profile_id \<Rightarrow> canonical_environment \<Rightarrow> policy_error + effective_profile" where
  "effective_profile_of p environment = res_bind validate_policy (\<lambda>_. effective_profile_validated p environment)"

datatype authorization_state = NotAuthorized | TargetAuthorized | Authorized

record admission_request =
  ar_environment :: canonical_environment
  ar_profile_id :: capability_profile_id
  ar_presented_digest :: profile_digest
  ar_authorization :: authorization_state

definition admit :: "admission_request \<Rightarrow> policy_error + effective_profile" where
  "admit r =
     res_bind validate_policy (\<lambda>_.
     let d = profile_definition (ar_profile_id r) in
     if ar_presented_digest r \<noteq> semantic_digest_v1 d then Inl PoDigestMismatch
     else if ar_environment r \<notin> set (cpd_allowed_environments d) then Inl PoEnvironmentNotAllowed
     else if cpd_activation_gate d = TargetAuthorization \<and> ar_authorization r \<noteq> TargetAuthorized then Inl PoTargetNotAuthorized
     else if ar_environment r = Production \<and> cpd_production_authorization_required d \<and> ar_authorization r \<noteq> Authorized
     then Inl PoProductionNotAuthorized
     else effective_profile_validated (ar_profile_id r) (ar_environment r))"

section \<open>Runtime surfaces\<close>

datatype runtime_surface =
    HttpBindings | HttpSession | HttpIdentity | HttpClients | HttpClientMailRead | HttpOutboundMail | HttpBrowserProfiles
  | HttpProfileRuntimeLaunch | HttpMailboxAdmin | HttpMailboxClientBinding | HttpMailboxBrowserBinding | HttpMailboxJobs
  | HttpProfileRuntimeDeviceJobs | HttpNotifications | QueueIntegrationEvents | QueueMailboxJobs | ScheduleIntegrationEvents
  | ScheduleMailboxJobs | ResolverIngress | ResolverReconciliation

definition all_runtime_surfaces :: "runtime_surface list" where
  "all_runtime_surfaces =
     [HttpBindings, HttpSession, HttpIdentity, HttpClients, HttpClientMailRead, HttpOutboundMail, HttpBrowserProfiles,
      HttpProfileRuntimeLaunch, HttpMailboxAdmin, HttpMailboxClientBinding, HttpMailboxBrowserBinding, HttpMailboxJobs,
      HttpProfileRuntimeDeviceJobs, HttpNotifications, QueueIntegrationEvents, QueueMailboxJobs, ScheduleIntegrationEvents,
      ScheduleMailboxJobs, ResolverIngress, ResolverReconciliation]"

fun surface_id :: "runtime_surface \<Rightarrow> string" where
  "surface_id HttpBindings = ''http.bindings''"
| "surface_id HttpSession = ''http.session''"
| "surface_id HttpIdentity = ''http.identity''"
| "surface_id HttpClients = ''http.clients''"
| "surface_id HttpClientMailRead = ''http.client_mail_read''"
| "surface_id HttpOutboundMail = ''http.outbound_mail''"
| "surface_id HttpBrowserProfiles = ''http.browser_profiles''"
| "surface_id HttpProfileRuntimeLaunch = ''http.profile_runtime_launch''"
| "surface_id HttpMailboxAdmin = ''http.mailbox_admin''"
| "surface_id HttpMailboxClientBinding = ''http.mailbox_client_binding''"
| "surface_id HttpMailboxBrowserBinding = ''http.mailbox_browser_binding''"
| "surface_id HttpMailboxJobs = ''http.mailbox_jobs''"
| "surface_id HttpProfileRuntimeDeviceJobs = ''http.profile_runtime_device_jobs''"
| "surface_id HttpNotifications = ''http.notifications''"
| "surface_id QueueIntegrationEvents = ''queue.integration_events.consumer''"
| "surface_id QueueMailboxJobs = ''queue.mailbox_jobs.consumer''"
| "surface_id ScheduleIntegrationEvents = ''schedule.integration_events.dispatcher''"
| "surface_id ScheduleMailboxJobs = ''schedule.mailbox_jobs.dispatcher''"
| "surface_id ResolverIngress = ''service.mailbox_secret_resolver.ingress''"
| "surface_id ResolverReconciliation = ''schedule.mailbox_secret_resolver.reconciliation''"

fun surface_unit :: "runtime_surface \<Rightarrow> activation_unit" where
  "surface_unit HttpBindings = Foundation"
| "surface_unit HttpSession = Foundation"
| "surface_unit HttpIdentity = Identity"
| "surface_unit HttpClients = Clients"
| "surface_unit HttpClientMailRead = MailboxRead"
| "surface_unit HttpOutboundMail = OutboundMail"
| "surface_unit HttpBrowserProfiles = BrowserProfiles"
| "surface_unit HttpProfileRuntimeLaunch = ProfileRuntime"
| "surface_unit HttpProfileRuntimeDeviceJobs = ProfileRuntime"
| "surface_unit HttpMailboxAdmin = MailboxAdmin"
| "surface_unit ResolverIngress = MailboxAdmin"
| "surface_unit ResolverReconciliation = MailboxAdmin"
| "surface_unit HttpMailboxClientBinding = MailboxClientBinding"
| "surface_unit HttpMailboxBrowserBinding = MailboxBrowserBinding"
| "surface_unit HttpMailboxJobs = MailboxJobs"
| "surface_unit QueueMailboxJobs = MailboxJobs"
| "surface_unit ScheduleMailboxJobs = MailboxJobs"
| "surface_unit HttpNotifications = Notifications"
| "surface_unit QueueIntegrationEvents = Notifications"
| "surface_unit ScheduleIntegrationEvents = Notifications"

section \<open>What holds of the catalogue\<close>

lemma validate_policy_ok: "validate_policy = Inr ()"
  by code_simp

lemma first_error_Inr: "first_error f xs = Inr () \<longleftrightarrow> (\<forall>x \<in> set xs. f x = Inr ())"
  by (induction xs) (auto simp: res_bind_Inr_iff)

lemma validated_capabilities:
  "validate_effective_capabilities caps = Inr () \<longleftrightarrow> (\<forall>u \<in> caps. set (unit_dependencies u) \<subseteq> caps)"
proof -
  have "validate_capability caps u = Inr () \<longleftrightarrow> set (unit_dependencies u) \<subseteq> caps" for u
    by (auto simp: validate_capability_def unit_incompatible_with_def ok_iff first_error_Inr subset_iff split: if_splits)
  then show ?thesis by (auto simp: validate_effective_capabilities_def first_error_Inr enabled_units_def)
qed

lemma effective_of_allowed:
  "environment \<in> set (cpd_allowed_environments (profile_definition p)) \<Longrightarrow>
     \<exists>caps. apply_profile p environment {} {} = Inr caps \<and> validate_effective_capabilities caps = Inr ()"
proof -
  have "validate_profile p = Inr ()" by (cases p) (simp_all only:, code_simp+)
  then show "environment \<in> set (cpd_allowed_environments (profile_definition p)) \<Longrightarrow> ?thesis"
    by (auto simp: validate_profile_def ok_iff first_error_Inr)
qed

lemma policy_nibble_digit:
  assumes "n < 16"
  shows "policy_hex_nibble (of_char (lower_hex_digit n)) = Inr n"
proof -
  have "\<forall>k \<in> set [0..<16]. policy_hex_nibble (of_char (lower_hex_digit (of_nat k))) = Inr (of_nat k)"
    by code_simp
  moreover have "unat n \<in> set [0..<16]"
    using assms by (simp add: word_less_nat_alt)
  ultimately have "policy_hex_nibble (of_char (lower_hex_digit (of_nat (unat n)))) = Inr (of_nat (unat n))"
    by blast
  then show ?thesis by simp
qed

lemma low_nibble_mask: "(15 :: byte) = mask 4"
  by (simp add: mask_eq_exp_minus_1)

lemma nibbles_join: "or (push_bit 4 (drop_bit 4 b)) (and b 15) = (b :: byte)"
  unfolding low_nibble_mask by (intro bit_word_eqI) (auto simp: bit_simps)

lemma nibble_bounds: "drop_bit 4 (b :: byte) < 16" "and b 15 < (16 :: byte)"
proof -
  have "unat (drop_bit 4 b) = unat b div 16"
    by (simp add: unat_drop_bit_eq drop_bit_eq_div [where ?'a = nat])
  then show "drop_bit 4 b < 16"
    using unat_bound [of b] by (simp add: word_less_nat_alt less_mult_imp_div_less)
  show "and b 15 < (16 :: byte)"
    unfolding low_nibble_mask using and_mask_less' [of 4 b] by simp
qed

lemma parse_hex_pairs_digits:
  "parse_hex_pairs (bytes_of_text (concat (map (\<lambda>b. [lower_hex_digit (drop_bit 4 b), lower_hex_digit (and b 15)]) bs))) = Inr bs"
  by (induction bs) (simp_all add: bytes_of_text_def policy_nibble_digit nibble_bounds nibbles_join)

lemma digest_hex_roundtrip:
  assumes "length (digest_bytes d) = 32"
  shows "digest_parse_hex (digest_to_hex d) = Inr d"
proof -
  have "length (concat (map (\<lambda>b. [lower_hex_digit (drop_bit 4 b), lower_hex_digit (and b 15)]) bs)) = 2 * length bs" for bs
    by (induction bs) simp_all
  then show ?thesis
    using assms by (simp add: digest_parse_hex_def digest_to_hex_def parse_hex_pairs_digits)
qed

section \<open>Admission\<close>

lemma production_needs_authorization:
  "Production \<in> set (cpd_allowed_environments (profile_definition p)) \<Longrightarrow>
     cpd_production_authorization_required (profile_definition p) \<and> cpd_activation_gate (profile_definition p) \<noteq> TargetAuthorization"
  by (cases p) (simp_all add: rehearsal_environments_def)

lemma admit_Inr_iff:
  "(\<exists>e. admit r = Inr e) \<longleftrightarrow>
     ar_presented_digest r = profile_digest_of (ar_profile_id r)
   \<and> ar_environment r \<in> set (cpd_allowed_environments (profile_definition (ar_profile_id r)))
   \<and> (cpd_activation_gate (profile_definition (ar_profile_id r)) = TargetAuthorization \<longrightarrow> ar_authorization r = TargetAuthorized)
   \<and> (ar_environment r = Production \<longrightarrow> ar_authorization r = Authorized)"
  (is "?l \<longleftrightarrow> ?r")
proof
  assume ?l
  then show ?r
    using production_needs_authorization [of "ar_profile_id r"]
    by (auto simp: admit_def validate_policy_ok Let_def profile_digest_of_def split: if_splits)
next
  assume r: ?r
  then obtain caps where "apply_profile (ar_profile_id r) (ar_environment r) {} {} = Inr caps" "validate_effective_capabilities caps = Inr ()"
    using effective_of_allowed by blast
  then show ?l
    using r by (auto simp: admit_def validate_policy_ok Let_def profile_digest_of_def effective_profile_validated_def)
qed

lemma admit_effective:
  assumes "admit r = Inr e"
  shows "ep_profile_id e = ar_profile_id r \<and> ep_semantic_digest e = ar_presented_digest r
     \<and> apply_profile (ar_profile_id r) (ar_environment r) {} {} = Inr (ep_capabilities e)
     \<and> (\<forall>u \<in> ep_capabilities e. set (unit_dependencies u) \<subseteq> ep_capabilities e)"
proof -
  have d: "ar_presented_digest r = semantic_digest_v1 (profile_definition (ar_profile_id r))"
    and e: "effective_profile_validated (ar_profile_id r) (ar_environment r) = Inr e"
    using assms by (auto simp: admit_def validate_policy_ok Let_def split: if_splits)
  from e obtain caps where c: "apply_profile (ar_profile_id r) (ar_environment r) {} {} = Inr caps"
    "validate_effective_capabilities caps = Inr ()"
    "e = \<lparr>ep_profile_id = ar_profile_id r, ep_semantic_digest = semantic_digest_v1 (profile_definition (ar_profile_id r)), ep_capabilities = caps\<rparr>"
    by (auto simp: effective_profile_validated_def ok_iff)
  then show ?thesis
    using d validated_capabilities by simp
qed

section \<open>The snapshot\<close>

record unit_snapshot =
  us_unit :: activation_unit
  us_dependencies :: "activation_unit list"
  us_incompatible_with :: "activation_unit list"
  us_requires_windows_profile_bridge :: bool

record profile_snapshot =
  ps_profile_id :: capability_profile_id
  ps_profile_version :: u16
  ps_semantic_digest :: profile_digest
  ps_allowed_environments :: "canonical_environment list"
  ps_extends :: "capability_profile_id option"
  ps_enabled :: "activation_unit list"
  ps_disabled :: "activation_unit list"
  ps_activation_gate :: activation_gate
  ps_production_authorization_required :: bool

record policy_snapshot =
  pos_units :: "unit_snapshot list"
  pos_profiles :: "profile_snapshot list"
  pos_surfaces :: "(runtime_surface \<times> activation_unit) list"

definition snapshot_v1 :: policy_snapshot where
  "snapshot_v1 =
     \<lparr>pos_units = map (\<lambda>u. \<lparr>us_unit = u, us_dependencies = unit_dependencies u, us_incompatible_with = unit_incompatible_with u,
                           us_requires_windows_profile_bridge = requires_windows_profile_bridge u\<rparr>) all_activation_units,
      pos_profiles = map (\<lambda>p. let d = profile_definition p in
         \<lparr>ps_profile_id = p, ps_profile_version = cpd_version d, ps_semantic_digest = semantic_digest_v1 d,
          ps_allowed_environments = cpd_allowed_environments d, ps_extends = cpd_extends d, ps_enabled = cpd_enabled d,
          ps_disabled = cpd_disabled d, ps_activation_gate = cpd_activation_gate d,
          ps_production_authorization_required = cpd_production_authorization_required d\<rparr>) all_profile_ids,
      pos_surfaces = map (\<lambda>s. (s, surface_unit s)) all_runtime_surfaces\<rparr>"

section \<open>Properties\<close>

text \<open>
  C37: The policy is consistent and admission is exactly its table: a profile is admitted when its digest is the
  one of its definition, the environment is allowed, a target gate is met by a target authorisation and
  production by a full one; it never fails for a fault of the catalogue, and what it enables
  contains the dependencies of every unit in it.
\<close>
theorem capability_admission_decides:
  "((\<exists>e. admit r = Inr e) \<longleftrightarrow>
     ar_presented_digest r = profile_digest_of (ar_profile_id r)
   \<and> ar_environment r \<in> set (cpd_allowed_environments (profile_definition (ar_profile_id r)))
   \<and> (cpd_activation_gate (profile_definition (ar_profile_id r)) = TargetAuthorization \<longrightarrow> ar_authorization r = TargetAuthorized)
   \<and> (ar_environment r = Production \<longrightarrow> ar_authorization r = Authorized))
   \<and> (\<forall>e. admit r = Inr e \<longrightarrow> ep_profile_id e = ar_profile_id r \<and> ep_semantic_digest e = ar_presented_digest r
        \<and> (\<forall>u \<in> ep_capabilities e. set (unit_dependencies u) \<subseteq> ep_capabilities e))"
  using admit_Inr_iff [of r] admit_effective [of r] by blast

definition sample_admission :: admission_request where
  "sample_admission = \<lparr>ar_environment = Staging, ar_profile_id = RehearsalCoreV2, ar_presented_digest = profile_digest_of RehearsalCoreV2,
     ar_authorization = TargetAuthorized\<rparr>"

lemma capability_admission_decides_witness:
  "\<exists>e. admit sample_admission = Inr e \<and> ep_profile_id e = RehearsalCoreV2"
  using capability_admission_decides [of sample_admission]
  by (auto simp: sample_admission_def rehearsal_environments_def)

end
