(* ===== verification/Bridge_Domain.thy ===== *)
theory Bridge_Domain
  imports Ordered_Map
begin

text \<open>
  \<open>crates/bridge-domain/src/lib.rs\<close>: the enrolment claims of a desktop bridge, the lock of its workspace, the
  supervisor of the browser process and the frames it exchanges with the browser host.  A string is its bytes.
\<close>

section \<open>Claims\<close>

definition min_secret_length :: nat where "min_secret_length = 24"
definition max_secret_length :: nat where "max_secret_length = 96"
definition max_ipc_frame_length :: nat where "max_ipc_frame_length = 1100000"
definition max_browser_visible_payload_hex_length :: nat where "max_browser_visible_payload_hex_length = 512 * 1024 * 2"
definition max_navigation_target_hex_length :: nat where "max_navigation_target_hex_length = 2048 * 2"
definition camouhost_ipc_version :: u16 where "camouhost_ipc_version = 3"

definition valid_secret :: "string \<Rightarrow> bool" where
  "valid_secret value \<longleftrightarrow> min_secret_length \<le> length value \<and> length value \<le> max_secret_length
     \<and> list_all (\<lambda>c. is_ascii_alphanumeric c \<or> c = CHR ''-'' \<or> c = CHR ''_'') value"

datatype claim_code = ClaimCode (claim_code_text: string)

datatype claim_code_error = ClaimCodeError

fun claim_code_error_message :: "claim_code_error \<Rightarrow> string" where
  "claim_code_error_message ClaimCodeError = ''claim code must be a bounded opaque ASCII token''"

definition claim_code_parse :: "string \<Rightarrow> claim_code_error + claim_code" where
  "claim_code_parse value = (if valid_secret value then Inr (ClaimCode value) else Inl ClaimCodeError)"

datatype claim_uri_error = UriInvalidShape | UriInvalidClaimCode

fun claim_uri_error_message :: "claim_uri_error \<Rightarrow> string" where
  "claim_uri_error_message UriInvalidShape = ''custom URI does not match the exact claim route''"
| "claim_uri_error_message UriInvalidClaimCode = ''custom URI contains an invalid claim token''"

definition claim_uri_prefix :: string where "claim_uri_prefix = ''profilebridge://claim/''"

definition claim_uri_parse :: "string \<Rightarrow> claim_uri_error + claim_code" where
  "claim_uri_parse value =
     (if 160 < length value \<or> list_ex (\<lambda>c. c \<in> {CHR ''?'', CHR ''#'', CHR 0x5C, CHR ''%''}) value then Inl UriInvalidShape
      else if take (length claim_uri_prefix) value \<noteq> claim_uri_prefix then Inl UriInvalidShape
      else
      let claim = drop (length claim_uri_prefix) value in
      if claim = [] \<or> CHR ''/'' \<in> set claim \<or> CHR ''.'' \<in> set claim then Inl UriInvalidShape
      else res_map_err (\<lambda>_. UriInvalidClaimCode) (claim_code_parse claim))"

record claim_redemption =
  cr_device_id :: device_id
  cr_redeemed_at :: unix_millis

record enrollment_claim =
  ec_claim_code :: claim_code
  ec_expires_at :: unix_millis
  ec_redemption :: "claim_redemption option"

datatype enrollment_claim_error = EcInvalidExpiry | EcExpired | EcCodeMismatch | EcReplayRejected | EcDeviceRebindRejected

fun enrollment_claim_error_message :: "enrollment_claim_error \<Rightarrow> string" where
  "enrollment_claim_error_message EcInvalidExpiry = ''claim expiry must be after issue time''"
| "enrollment_claim_error_message EcExpired = ''claim has expired''"
| "enrollment_claim_error_message EcCodeMismatch = ''claim code does not match''"
| "enrollment_claim_error_message EcReplayRejected = ''claim replay rejected''"
| "enrollment_claim_error_message EcDeviceRebindRejected = ''claim cannot be rebound to another device''"

definition enrollment_claim_issue :: "claim_code \<Rightarrow> unix_millis \<Rightarrow> unix_millis \<Rightarrow> enrollment_claim_error + enrollment_claim" where
  "enrollment_claim_issue code issued_at expires_at =
     (if expires_at \<le> issued_at then Inl EcInvalidExpiry
      else Inr \<lparr>ec_claim_code = code, ec_expires_at = expires_at, ec_redemption = None\<rparr>)"

definition enrollment_claim_redeem ::
    "claim_code \<Rightarrow> device_id \<Rightarrow> unix_millis \<Rightarrow> enrollment_claim \<Rightarrow> (enrollment_claim_error + claim_redemption) \<times> enrollment_claim" where
  "enrollment_claim_redeem presented device now c =
     (case ec_redemption c of
        Some r \<Rightarrow> (Inl (if cr_device_id r = device then EcReplayRejected else EcDeviceRebindRejected), c)
      | None \<Rightarrow>
          if ec_expires_at c \<le> now then (Inl EcExpired, c)
          else if presented \<noteq> ec_claim_code c then (Inl EcCodeMismatch, c)
          else let r = \<lparr>cr_device_id = device, cr_redeemed_at = now\<rparr> in (Inr r, c\<lparr>ec_redemption := Some r\<rparr>))"

section \<open>The workspace lock\<close>

datatype workspace_lock_token = WorkspaceLockToken string

datatype workspace_lock_token_error = WorkspaceLockTokenError

fun workspace_lock_token_error_message :: "workspace_lock_token_error \<Rightarrow> string" where
  "workspace_lock_token_error_message WorkspaceLockTokenError = ''workspace lock token must be a bounded opaque ASCII token''"

definition workspace_lock_token_parse :: "string \<Rightarrow> workspace_lock_token_error + workspace_lock_token" where
  "workspace_lock_token_parse value = (if valid_secret value then Inr (WorkspaceLockToken value) else Inl WorkspaceLockTokenError)"

record workspace_lease =
  wl_writer_device_id :: device_id
  wl_lock_token :: workspace_lock_token
  wl_epoch :: u64

record workspace_lock =
  wk_next_epoch :: u64
  wk_active :: "workspace_lease option"

datatype workspace_lock_error = WkWriterAlreadyActive | WkNoActiveWriter | WkStaleWriter | WkEpochOverflow

fun workspace_lock_error_message :: "workspace_lock_error \<Rightarrow> string" where
  "workspace_lock_error_message WkWriterAlreadyActive = ''another local writer already owns the workspace''"
| "workspace_lock_error_message WkNoActiveWriter = ''workspace has no active writer''"
| "workspace_lock_error_message WkStaleWriter = ''workspace release came from a stale writer''"
| "workspace_lock_error_message WkEpochOverflow = ''workspace writer epoch overflow''"

definition workspace_lock_new :: workspace_lock where
  "workspace_lock_new = \<lparr>wk_next_epoch = 0, wk_active = None\<rparr>"

definition workspace_acquire ::
    "device_id \<Rightarrow> workspace_lock_token \<Rightarrow> workspace_lock \<Rightarrow> (workspace_lock_error + workspace_lease) \<times> workspace_lock" where
  "workspace_acquire device token s =
     (case wk_active s of
        Some active \<Rightarrow>
          (if wl_writer_device_id active = device \<and> wl_lock_token active = token then (Inr active, s)
           else (Inl WkWriterAlreadyActive, s))
      | None \<Rightarrow>
          or_return (res_ok_or WkEpochOverflow (checked_add (wk_next_epoch s) 1)) s (\<lambda>epoch.
            let lease = \<lparr>wl_writer_device_id = device, wl_lock_token = token, wl_epoch = epoch\<rparr> in
            (Inr lease, s\<lparr>wk_next_epoch := epoch, wk_active := Some lease\<rparr>)))"

definition workspace_release ::
    "device_id \<Rightarrow> u64 \<Rightarrow> workspace_lock_token \<Rightarrow> workspace_lock \<Rightarrow> (workspace_lock_error + unit) \<times> workspace_lock" where
  "workspace_release device epoch token s =
     (case wk_active s of
        None \<Rightarrow> (Inl WkNoActiveWriter, s)
      | Some active \<Rightarrow>
          if wl_writer_device_id active \<noteq> device \<or> wl_epoch active \<noteq> epoch \<or> wl_lock_token active \<noteq> token
          then (Inl WkStaleWriter, s)
          else (Inr (), s\<lparr>wk_active := None\<rparr>))"

section \<open>The supervisor of the process\<close>

datatype process_close_outcome = CloseClean | CloseCrash | CloseForcedTimeout

datatype supervised_process =
    SpIdle
  | SpStarting session_id unix_millis
  | SpReady session_id
  | SpClosing session_id unix_millis
  | SpClosed session_id process_close_outcome

datatype process_supervisor_error = SuInvalidTransition | SuSessionMismatch | SuDeadlineExpired | SuTimeOverflow

fun process_supervisor_error_message :: "process_supervisor_error \<Rightarrow> string" where
  "process_supervisor_error_message SuInvalidTransition = ''process supervisor transition is invalid''"
| "process_supervisor_error_message SuSessionMismatch = ''process supervisor session mismatch''"
| "process_supervisor_error_message SuDeadlineExpired = ''process supervisor deadline expired''"
| "process_supervisor_error_message SuTimeOverflow = ''process supervisor deadline overflow''"

definition supervisor_add_millis :: "unix_millis \<Rightarrow> u64 \<Rightarrow> process_supervisor_error + unix_millis" where
  "supervisor_add_millis value delta = res_ok_or SuTimeOverflow (checked_add value delta)"

definition begin_start ::
    "session_id \<Rightarrow> unix_millis \<Rightarrow> u64 \<Rightarrow> supervised_process \<Rightarrow> (process_supervisor_error + unit) \<times> supervised_process" where
  "begin_start session now start_timeout s =
     (if s \<noteq> SpIdle \<or> start_timeout = 0 then (Inl SuInvalidTransition, s)
      else or_return (supervisor_add_millis now start_timeout) s (\<lambda>deadline. (Inr (), SpStarting session deadline)))"

fun mark_ready ::
    "session_id \<Rightarrow> unix_millis \<Rightarrow> supervised_process \<Rightarrow> (process_supervisor_error + unit) \<times> supervised_process" where
  "mark_ready session now (SpStarting active deadline) =
     (if active \<noteq> session then (Inl SuSessionMismatch, SpStarting active deadline)
      else if deadline \<le> now then (Inl SuDeadlineExpired, SpClosed session CloseForcedTimeout)
      else (Inr (), SpReady session))"
| "mark_ready session now s = (Inl SuInvalidTransition, s)"

fun request_close ::
    "session_id \<Rightarrow> unix_millis \<Rightarrow> u64 \<Rightarrow> supervised_process \<Rightarrow> (process_supervisor_error + unit) \<times> supervised_process" where
  "request_close session now close_timeout (SpReady active) =
     (if active \<noteq> session then (Inl SuSessionMismatch, SpReady active)
      else if close_timeout = 0 then (Inl SuInvalidTransition, SpReady active)
      else or_return (supervisor_add_millis now close_timeout) (SpReady active) (\<lambda>deadline. (Inr (), SpClosing session deadline)))"
| "request_close session now close_timeout s = (Inl SuInvalidTransition, s)"

fun observe_exit ::
    "session_id \<Rightarrow> bool \<Rightarrow> supervised_process \<Rightarrow> (process_supervisor_error + process_close_outcome) \<times> supervised_process" where
  "observe_exit session successful (SpClosing active deadline) =
     (if active \<noteq> session then (Inl SuSessionMismatch, SpClosing active deadline)
      else let outcome = if successful then CloseClean else CloseCrash in (Inr outcome, SpClosed session outcome))"
| "observe_exit session successful (SpStarting active deadline) =
     (if active \<noteq> session then (Inl SuSessionMismatch, SpStarting active deadline) else (Inr CloseCrash, SpClosed session CloseCrash))"
| "observe_exit session successful (SpReady active) =
     (if active \<noteq> session then (Inl SuSessionMismatch, SpReady active) else (Inr CloseCrash, SpClosed session CloseCrash))"
| "observe_exit session successful s = (Inl SuInvalidTransition, s)"

definition supervisor_tick ::
    "unix_millis \<Rightarrow> supervised_process \<Rightarrow> (process_supervisor_error + process_close_outcome option) \<times> supervised_process" where
  "supervisor_tick now s =
     (case (case s of
              SpStarting session deadline \<Rightarrow> if deadline \<le> now then Some session else None
            | SpClosing session deadline \<Rightarrow> if deadline \<le> now then Some session else None
            | _ \<Rightarrow> None) of
        None \<Rightarrow> (Inr None, s)
      | Some session \<Rightarrow> (Inr (Some CloseForcedTimeout), SpClosed session CloseForcedTimeout))"

section \<open>Frames\<close>

datatype camouhost_error_kind = KindProtocol | KindIdentity | KindRuntime

fun error_kind_text :: "camouhost_error_kind \<Rightarrow> string" where
  "error_kind_text KindProtocol = ''protocol''"
| "error_kind_text KindIdentity = ''identity''"
| "error_kind_text KindRuntime = ''runtime''"

datatype camouhost_protocol_error = CpMalformedFrame | CpUnsupportedVersion

fun camouhost_protocol_error_message :: "camouhost_protocol_error \<Rightarrow> string" where
  "camouhost_protocol_error_message CpMalformedFrame = ''Camouhost IPC frame is malformed''"
| "camouhost_protocol_error_message CpUnsupportedVersion = ''Camouhost IPC version is unsupported''"

definition error_kind_parse :: "string \<Rightarrow> camouhost_protocol_error + camouhost_error_kind" where
  "error_kind_parse value =
     (if value = ''protocol'' then Inr KindProtocol
      else if value = ''identity'' then Inr KindIdentity
      else if value = ''runtime'' then Inr KindRuntime
      else Inl CpMalformedFrame)"

datatype camouhost_message =
    Hello u16
  | HelloAck u16
  | Launch session_id
  | HostReady session_id
  | ObserveBrowserVisible session_id
  | BrowserVisible session_id string
  | AdmitNavigation session_id string
  | NavigationAdmitted session_id
  | ObserveClose session_id
  | CloseObserved session_id bool
  | CloseHost session_id
  | HostClosed session_id bool
  | HostError camouhost_error_kind

definition valid_lower_hex :: "string \<Rightarrow> bool \<Rightarrow> nat \<Rightarrow> bool" where
  "valid_lower_hex value allow_empty maximum \<longleftrightarrow>
     \<not> (maximum < length value \<or> odd (length value) \<or> (\<not> allow_empty \<and> value = [])) \<and> list_all is_lower_hexdigit value"

definition parse_u16_text :: "string \<Rightarrow> u16 option" where
  \<comment> \<open>\<open>str::parse::<u16>\<close>: a sign \<open>+\<close> is accepted before the digits\<close>
  "parse_u16_text s =
     (let digits = (case s of CHR ''+'' # rest \<Rightarrow> rest | _ \<Rightarrow> s) in
      if digits \<noteq> [] \<and> list_all is_ascii_digit digits \<and> digits_value digits < 2 ^ 16 then Some (of_nat (digits_value digits)) else None)"

definition parse_version :: "string \<Rightarrow> camouhost_protocol_error + u16" where
  "parse_version value = res_ok_or CpMalformedFrame (parse_u16_text value)"

definition parse_session :: "string \<Rightarrow> camouhost_protocol_error + session_id" where
  "parse_session value = res_map_err (\<lambda>_. CpMalformedFrame) (id_parse value)"

definition parse_bool :: "string \<Rightarrow> camouhost_protocol_error + bool" where
  "parse_bool value = (if value = ''true'' then Inr True else if value = ''false'' then Inr False else Inl CpMalformedFrame)"

definition parse_frame2 :: "string \<Rightarrow> string \<Rightarrow> camouhost_protocol_error + camouhost_message" where
  \<comment> \<open>the arms for two parts\<close>
  "parse_frame2 kind a =
     (if kind = ''hello'' then res_bind (parse_version a) (\<lambda>v. Inr (Hello v))
      else if kind = ''hello_ack'' then res_bind (parse_version a) (\<lambda>v. Inr (HelloAck v))
      else if kind = ''launch'' then res_bind (parse_session a) (\<lambda>s. Inr (Launch s))
      else if kind = ''ready'' then res_bind (parse_session a) (\<lambda>s. Inr (HostReady s))
      else if kind = ''observe_browser_visible'' then res_bind (parse_session a) (\<lambda>s. Inr (ObserveBrowserVisible s))
      else if kind = ''navigation_admitted'' then res_bind (parse_session a) (\<lambda>s. Inr (NavigationAdmitted s))
      else if kind = ''observe_close'' then res_bind (parse_session a) (\<lambda>s. Inr (ObserveClose s))
      else if kind = ''close'' then res_bind (parse_session a) (\<lambda>s. Inr (CloseHost s))
      else if kind = ''error'' then res_bind (error_kind_parse a) (\<lambda>k. Inr (HostError k))
      else Inl CpMalformedFrame)"

definition parse_frame3 :: "string \<Rightarrow> string \<Rightarrow> string \<Rightarrow> camouhost_protocol_error + camouhost_message" where
  \<comment> \<open>the arms for three parts\<close>
  "parse_frame3 kind a b =
     (if kind = ''browser_visible'' \<and> valid_lower_hex b False max_browser_visible_payload_hex_length
      then res_bind (parse_session a) (\<lambda>s. Inr (BrowserVisible s b))
      else if kind = ''admit_navigation'' \<and> valid_lower_hex b True max_navigation_target_hex_length
      then res_bind (parse_session a) (\<lambda>s. Inr (AdmitNavigation s b))
      else if kind = ''close_observed'' then res_bind (parse_session a) (\<lambda>s. res_bind (parse_bool b) (\<lambda>c. Inr (CloseObserved s c)))
      else if kind = ''closed'' then res_bind (parse_session a) (\<lambda>s. res_bind (parse_bool b) (\<lambda>c. Inr (HostClosed s c)))
      else Inl CpMalformedFrame)"

definition frame_parse :: "string \<Rightarrow> camouhost_protocol_error + camouhost_message" where
  "frame_parse frame =
     (if frame = [] \<or> max_ipc_frame_length < length frame \<or> list_ex (\<lambda>c. c \<in> {CHR 0x0A, CHR 0x0D, CHR 0x00}) frame
      then Inl CpMalformedFrame
      else case split_on (CHR ''|'') frame of
             [kind, a] \<Rightarrow> parse_frame2 kind a
           | [kind, a, b] \<Rightarrow> parse_frame3 kind a b
           | _ \<Rightarrow> Inl CpMalformedFrame)"

fun frame_validate_version :: "camouhost_message \<Rightarrow> camouhost_protocol_error + unit" where
  "frame_validate_version (Hello v) = (if v \<noteq> camouhost_ipc_version then Inl CpUnsupportedVersion else Inr ())"
| "frame_validate_version (HelloAck v) = (if v \<noteq> camouhost_ipc_version then Inl CpUnsupportedVersion else Inr ())"
| "frame_validate_version _ = Inr ()"

definition show_bool :: "bool \<Rightarrow> string" where
  "show_bool b = (if b then ''true'' else ''false'')"

fun frame_text :: "camouhost_message \<Rightarrow> camouhost_protocol_error + string" where
  "frame_text (Hello v) = Inr (''hello|'' @ show_nat (unat v))"
| "frame_text (HelloAck v) = Inr (''hello_ack|'' @ show_nat (unat v))"
| "frame_text (Launch s) = Inr (''launch|'' @ id_as_str s)"
| "frame_text (HostReady s) = Inr (''ready|'' @ id_as_str s)"
| "frame_text (ObserveBrowserVisible s) = Inr (''observe_browser_visible|'' @ id_as_str s)"
| "frame_text (BrowserVisible s payload) =
     (if \<not> valid_lower_hex payload False max_browser_visible_payload_hex_length then Inl CpMalformedFrame
      else Inr (''browser_visible|'' @ id_as_str s @ ''|'' @ payload))"
| "frame_text (AdmitNavigation s target) =
     (if \<not> valid_lower_hex target True max_navigation_target_hex_length then Inl CpMalformedFrame
      else Inr (''admit_navigation|'' @ id_as_str s @ ''|'' @ target))"
| "frame_text (NavigationAdmitted s) = Inr (''navigation_admitted|'' @ id_as_str s)"
| "frame_text (ObserveClose s) = Inr (''observe_close|'' @ id_as_str s)"
| "frame_text (CloseObserved s controlled) = Inr (''close_observed|'' @ id_as_str s @ ''|'' @ show_bool controlled)"
| "frame_text (CloseHost s) = Inr (''close|'' @ id_as_str s)"
| "frame_text (HostClosed s clean) = Inr (''closed|'' @ id_as_str s @ ''|'' @ show_bool clean)"
| "frame_text (HostError kind) = Inr (''error|'' @ error_kind_text kind)"

definition to_frame :: "camouhost_message \<Rightarrow> camouhost_protocol_error + string" where
  "to_frame m =
     res_bind (frame_validate_version m) (\<lambda>_. res_bind (frame_text m) (\<lambda>frame.
     if max_ipc_frame_length < length frame then Inl CpMalformedFrame else Inr frame))"

end
