(* ===== verification/Bridge_Properties.thy ===== *)
theory Bridge_Properties
  imports Bridge_Domain
begin

text \<open>
  Laws of the bridge: frames read back, a released workspace lease never counts again, a claim binds one device, and
  a process is closed cleanly only on request.
\<close>

section \<open>Frames\<close>

lemma id_char_plain: "list_all id_char s \<Longrightarrow> CHR ''|'' \<notin> set s \<and> CHR 0x0A \<notin> set s \<and> CHR 0x0D \<notin> set s \<and> CHR 0x00 \<notin> set s"
  by (auto simp: list_all_iff id_char_def ascii_defs byte_of_def)

lemma hex_plain: "list_all is_lower_hexdigit s \<Longrightarrow> list_all id_char s"
  by (auto simp: list_all_iff id_char_def is_lower_hexdigit_def is_ascii_alphanumeric_def is_ascii_lowercase_def)

lemma digits_plain: "list_all is_ascii_digit s \<Longrightarrow> list_all id_char s"
  by (auto simp: list_all_iff id_char_def is_ascii_alphanumeric_def)

lemma session_plain: "id_valid s \<Longrightarrow> list_all id_char (id_as_str s)"
  by (simp add: id_valid_def opaque_valid_def)

lemma parse_session_valid [simp]: "id_valid s \<Longrightarrow> parse_session (id_as_str s) = Inr s"
  by (simp add: parse_session_def)

lemma parse_bool_show [simp]: "parse_bool (show_bool b) = Inr b"
  by (cases b) (simp_all add: parse_bool_def show_bool_def)

lemma error_kind_roundtrip [simp]: "error_kind_parse (error_kind_text k) = Inr k"
  by (cases k) (simp_all add: error_kind_parse_def)

lemma parse_version_show [simp]: "parse_version (show_nat (unat v)) = Inr v"
proof -
  have d: "list_all is_ascii_digit (show_nat (unat v))" "show_nat (unat v) \<noteq> []" "digits_value (show_nat (unat v)) = unat v"
    by (simp_all add: show_nat_digits show_nat_nonempty show_nat_value)
  have "hd (show_nat (unat v)) \<noteq> CHR ''+''"
    using d(1,2) by (cases "show_nat (unat v)") (auto simp: ascii_defs)
  then have "(case show_nat (unat v) of CHR ''+'' # rest \<Rightarrow> rest | _ \<Rightarrow> show_nat (unat v)) = show_nat (unat v)"
    by (auto split: list.splits char.splits bool.splits)
  then show ?thesis
    using d unat_bound [of v] by (simp add: parse_version_def parse_u16_text_def Let_def)
qed

definition plain_kind :: "string \<Rightarrow> bool" where
  "plain_kind s \<longleftrightarrow> list_all id_char s \<and> s \<noteq> []"

lemma frame_parse_two:
  assumes "plain_kind kind" "list_all id_char a" "length (kind @ ''|'' @ a) \<le> max_ipc_frame_length"
  shows "frame_parse (kind @ ''|'' @ a) = parse_frame2 kind a"
  using assms id_char_plain [of kind] id_char_plain [of a]
  by (auto simp: frame_parse_def plain_kind_def split_on_append split_on_plain list_ex_iff)

lemma frame_parse_three:
  assumes "plain_kind kind" "list_all id_char a" "list_all id_char b" "length (kind @ ''|'' @ a @ ''|'' @ b) \<le> max_ipc_frame_length"
  shows "frame_parse (kind @ ''|'' @ a @ ''|'' @ b) = parse_frame3 kind a b"
  using assms id_char_plain [of kind] id_char_plain [of a] id_char_plain [of b]
  by (auto simp: frame_parse_def plain_kind_def split_on_append split_on_plain list_ex_iff)

fun message_session :: "camouhost_message \<Rightarrow> session_id option" where
  "message_session (Hello _) = None"
| "message_session (HelloAck _) = None"
| "message_session (HostError _) = None"
| "message_session (Launch s) = Some s"
| "message_session (HostReady s) = Some s"
| "message_session (ObserveBrowserVisible s) = Some s"
| "message_session (BrowserVisible s _) = Some s"
| "message_session (AdmitNavigation s _) = Some s"
| "message_session (NavigationAdmitted s) = Some s"
| "message_session (ObserveClose s) = Some s"
| "message_session (CloseObserved s _) = Some s"
| "message_session (CloseHost s) = Some s"
| "message_session (HostClosed s _) = Some s"

fun frame_parts :: "camouhost_message \<Rightarrow> string \<times> string \<times> string option" where
  "frame_parts (Hello v) = (''hello'', show_nat (unat v), None)"
| "frame_parts (HelloAck v) = (''hello_ack'', show_nat (unat v), None)"
| "frame_parts (Launch s) = (''launch'', id_as_str s, None)"
| "frame_parts (HostReady s) = (''ready'', id_as_str s, None)"
| "frame_parts (ObserveBrowserVisible s) = (''observe_browser_visible'', id_as_str s, None)"
| "frame_parts (BrowserVisible s p) = (''browser_visible'', id_as_str s, Some p)"
| "frame_parts (AdmitNavigation s p) = (''admit_navigation'', id_as_str s, Some p)"
| "frame_parts (NavigationAdmitted s) = (''navigation_admitted'', id_as_str s, None)"
| "frame_parts (ObserveClose s) = (''observe_close'', id_as_str s, None)"
| "frame_parts (CloseObserved s b) = (''close_observed'', id_as_str s, Some (show_bool b))"
| "frame_parts (CloseHost s) = (''close'', id_as_str s, None)"
| "frame_parts (HostClosed s b) = (''closed'', id_as_str s, Some (show_bool b))"
| "frame_parts (HostError k) = (''error'', error_kind_text k, None)"

lemma show_bool_plain: "list_all id_char (show_bool b)"
proof -
  have "list_all id_char (show_bool True)" "list_all id_char (show_bool False)" by code_simp+
  then show ?thesis by (cases b) simp_all
qed

lemma error_kind_plain: "list_all id_char (error_kind_text k)"
proof -
  have "\<forall>k \<in> set [KindProtocol, KindIdentity, KindRuntime]. list_all id_char (error_kind_text k)" by code_simp
  then show ?thesis by (cases k) simp_all
qed

lemma kinds_plain:
  "list_all plain_kind [''hello'', ''hello_ack'', ''launch'', ''ready'', ''observe_browser_visible'', ''browser_visible'',
     ''admit_navigation'', ''navigation_admitted'', ''observe_close'', ''close_observed'', ''close'', ''closed'', ''error'']"
  by code_simp

lemma frame_kind_plain: "plain_kind (fst (frame_parts m))"
  using kinds_plain by (cases m) simp_all

lemma frame_text_split:
  "frame_text m = Inr f \<Longrightarrow> frame_parts m = (kind, a, b) \<Longrightarrow> f = kind @ ''|'' @ a @ (case b of None \<Rightarrow> [] | Some x \<Rightarrow> ''|'' @ x)"
  by (cases m) (auto split: if_splits)

lemma frame_parts_plain:
  assumes "frame_text m = Inr f" and "\<And>s. message_session m = Some s \<Longrightarrow> id_valid s" and "frame_parts m = (kind, a, b)"
  shows "list_all id_char a \<and> (\<forall>x. b = Some x \<longrightarrow> list_all id_char x)"
  using assms
  by (cases m)
     (auto simp: session_plain digits_plain show_nat_digits show_bool_plain error_kind_plain valid_lower_hex_def hex_plain split: if_splits)

lemma frame_arms [simp]:
  "parse_frame2 ''hello'' a = res_bind (parse_version a) (\<lambda>v. Inr (Hello v))"
  "parse_frame2 ''hello_ack'' a = res_bind (parse_version a) (\<lambda>v. Inr (HelloAck v))"
  "parse_frame2 ''launch'' a = res_bind (parse_session a) (\<lambda>s. Inr (Launch s))"
  "parse_frame2 ''ready'' a = res_bind (parse_session a) (\<lambda>s. Inr (HostReady s))"
  "parse_frame2 ''observe_browser_visible'' a = res_bind (parse_session a) (\<lambda>s. Inr (ObserveBrowserVisible s))"
  "parse_frame2 ''navigation_admitted'' a = res_bind (parse_session a) (\<lambda>s. Inr (NavigationAdmitted s))"
  "parse_frame2 ''observe_close'' a = res_bind (parse_session a) (\<lambda>s. Inr (ObserveClose s))"
  "parse_frame2 ''close'' a = res_bind (parse_session a) (\<lambda>s. Inr (CloseHost s))"
  "parse_frame2 ''error'' a = res_bind (error_kind_parse a) (\<lambda>k. Inr (HostError k))"
  "parse_frame3 ''close_observed'' a b = res_bind (parse_session a) (\<lambda>s. res_bind (parse_bool b) (\<lambda>c. Inr (CloseObserved s c)))"
  "parse_frame3 ''closed'' a b = res_bind (parse_session a) (\<lambda>s. res_bind (parse_bool b) (\<lambda>c. Inr (HostClosed s c)))"
  "valid_lower_hex b False max_browser_visible_payload_hex_length \<Longrightarrow>
     parse_frame3 ''browser_visible'' a b = res_bind (parse_session a) (\<lambda>s. Inr (BrowserVisible s b))"
  "valid_lower_hex b True max_navigation_target_hex_length \<Longrightarrow>
     parse_frame3 ''admit_navigation'' a b = res_bind (parse_session a) (\<lambda>s. Inr (AdmitNavigation s b))"
  by (simp_all add: parse_frame2_def parse_frame3_def)

lemma frame_parts_parse:
  assumes "frame_text m = Inr f" and "\<And>s. message_session m = Some s \<Longrightarrow> id_valid s" and "frame_parts m = (kind, a, b)"
  shows "case b of None \<Rightarrow> parse_frame2 kind a = Inr m | Some x \<Rightarrow> parse_frame3 kind a x = Inr m"
proof -
  have "case snd (snd (frame_parts m)) of None \<Rightarrow> parse_frame2 (fst (frame_parts m)) (fst (snd (frame_parts m))) = Inr m
      | Some x \<Rightarrow> parse_frame3 (fst (frame_parts m)) (fst (snd (frame_parts m))) x = Inr m"
    using assms(1,2) by (cases m) (simp_all split: if_splits)
  then show ?thesis unfolding assms(3) fst_conv snd_conv .
qed

lemma frame_text_parts:
  assumes "frame_text m = Inr f" and "\<And>s. message_session m = Some s \<Longrightarrow> id_valid s" and "frame_parts m = (kind, a, b)"
  shows "plain_kind kind \<and> list_all id_char a \<and> (\<forall>x. b = Some x \<longrightarrow> list_all id_char x)
     \<and> f = kind @ ''|'' @ a @ (case b of None \<Rightarrow> [] | Some x \<Rightarrow> ''|'' @ x)
     \<and> (case b of None \<Rightarrow> parse_frame2 kind a = Inr m | Some x \<Rightarrow> parse_frame3 kind a x = Inr m)"
  using frame_kind_plain [of m] frame_text_split [OF assms(1,3)] frame_parts_plain [OF assms] frame_parts_parse [OF assms] assms(3)
  by simp

lemma to_frame_parses:
  assumes "to_frame m = Inr f" and "\<And>s. message_session m = Some s \<Longrightarrow> id_valid s"
  shows "frame_parse f = Inr m"
proof -
  have f: "frame_text m = Inr f" "length f \<le> max_ipc_frame_length"
    using assms(1) by (auto simp: to_frame_def ok_iff split: if_splits)
  obtain kind a b where p: "frame_parts m = (kind, a, b)" by (cases "frame_parts m")
  note parts = frame_text_parts [OF f(1) assms(2) p]
  show ?thesis
  proof (cases b)
    case None
    then show ?thesis using parts f(2) frame_parse_two [of kind a] by simp
  next
    case (Some x)
    then show ?thesis using parts f(2) frame_parse_three [of kind a x] by simp
  qed
qed

section \<open>The workspace lock\<close>

datatype lock_command = AcquireWorkspace device_id workspace_lock_token | ReleaseWorkspace device_id u64 workspace_lock_token

fun lock_step :: "lock_command \<Rightarrow> workspace_lock \<Rightarrow> (workspace_lock_error + workspace_lease option) \<times> workspace_lock" where
  "lock_step (AcquireWorkspace device token) s =
     (case workspace_acquire device token s of (Inl e, s') \<Rightarrow> (Inl e, s') | (Inr l, s') \<Rightarrow> (Inr (Some l), s'))"
| "lock_step (ReleaseWorkspace device epoch token) s =
     (case workspace_release device epoch token s of (Inl e, s') \<Rightarrow> (Inl e, s') | (Inr _, s') \<Rightarrow> (Inr None, s'))"

definition lock_inv :: "workspace_lock \<Rightarrow> bool" where
  "lock_inv s \<longleftrightarrow> (\<forall>l. wk_active s = Some l \<longrightarrow> wl_epoch l = wk_next_epoch s \<and> 0 < unat (wl_epoch l))"

definition past_epoch :: "u64 \<Rightarrow> workspace_lock \<Rightarrow> bool" where
  \<comment> \<open>no lease of this or an earlier epoch is active\<close>
  "past_epoch epoch s \<longleftrightarrow> epoch \<le> wk_next_epoch s \<and> (\<forall>l. wk_active s = Some l \<longrightarrow> epoch < wl_epoch l)"

lemma checked_succ_greater: "checked_add a (1::u64) = Some b \<Longrightarrow> a < b \<and> 0 < unat b"
  using checked_add_SomeD [of a 1 b] by (simp add: word_less_nat_alt)

lemma lock_step_inv: "lock_inv s \<Longrightarrow> lock_inv (snd (lock_step c s))"
  by (cases c)
     (auto simp: lock_inv_def workspace_acquire_def workspace_release_def or_return_def res_ok_or_def Let_def
        dest: checked_succ_greater split: option.splits if_splits)

lemma lock_step_error: "fst (lock_step c s) = Inl e \<Longrightarrow> snd (lock_step c s) = s"
  by (cases c) (auto simp: workspace_acquire_def workspace_release_def or_return_def Let_def split: option.splits if_splits sum.splits)

lemma lock_step_past: "past_epoch epoch s \<Longrightarrow> past_epoch epoch (snd (lock_step c s))"
  by (cases c)
     (auto simp: past_epoch_def workspace_acquire_def workspace_release_def or_return_def res_ok_or_def Let_def
        dest: checked_succ_greater split: option.splits if_splits)

interpretation workspace: atomic_machine lock_step lock_inv
  by unfold_locales (erule lock_step_inv, rule lock_step_error)

interpretation fenced: invariant_machine lock_step "past_epoch epoch" for epoch
  by unfold_locales (rule lock_step_past)

lemma release_passes_epoch:
  assumes "lock_inv s" and "workspace_release device epoch token s = (Inr u, s')"
  shows "past_epoch epoch s'"
  using assms by (auto simp: workspace_release_def lock_inv_def past_epoch_def split: option.splits if_splits)

lemma past_epoch_refuses: "past_epoch epoch s \<Longrightarrow> \<exists>e. workspace_release device epoch token s = (Inl e, s)"
  by (auto simp: workspace_release_def past_epoch_def split: option.splits)

lemma lock_new_inv: "lock_inv workspace_lock_new"
  by (simp add: lock_inv_def workspace_lock_new_def)

section \<open>The supervisor\<close>

datatype supervisor_command =
    BeginStart session_id unix_millis u64 | MarkReady session_id unix_millis | RequestClose session_id unix_millis u64
  | ObserveExit session_id bool | SupervisorTick unix_millis

fun supervisor_step :: "supervisor_command \<Rightarrow> supervised_process \<Rightarrow> (process_supervisor_error + unit) \<times> supervised_process" where
  "supervisor_step (BeginStart session now timeout) s = begin_start session now timeout s"
| "supervisor_step (MarkReady session now) s = mark_ready session now s"
| "supervisor_step (RequestClose session now timeout) s = request_close session now timeout s"
| "supervisor_step (ObserveExit session ok) s =
     (case observe_exit session ok s of (Inl e, s') \<Rightarrow> (Inl e, s') | (Inr _, s') \<Rightarrow> (Inr (), s'))"
| "supervisor_step (SupervisorTick now) s =
     (case supervisor_tick now s of (Inl e, s') \<Rightarrow> (Inl e, s') | (Inr _, s') \<Rightarrow> (Inr (), s'))"

lemma closed_is_final: "snd (supervisor_step c (SpClosed session outcome)) = SpClosed session outcome"
  by (cases c) (simp_all add: begin_start_def supervisor_tick_def)

lemma clean_from_closing:
  assumes "snd (supervisor_step c s) = SpClosed session CloseClean" and "s \<noteq> SpClosed session CloseClean"
  shows "\<exists>deadline. s = SpClosing session deadline \<and> c = ObserveExit session True"
  using assms
  by (cases c; cases s)
     (auto simp: begin_start_def supervisor_tick_def supervisor_add_millis_def or_return_def Let_def split: if_splits sum.splits)

lemma closing_from_request:
  assumes "snd (supervisor_step c s) = SpClosing session deadline" and "s \<noteq> SpClosing session deadline"
  shows "s = SpReady session \<and> (\<exists>now timeout. c = RequestClose session now timeout)"
  using assms
  by (cases c; cases s)
     (auto simp: begin_start_def supervisor_tick_def supervisor_add_millis_def or_return_def Let_def split: if_splits sum.splits)

lemma closing_was_requested:
  "run_commands supervisor_step cs SpIdle = SpClosing session deadline \<Longrightarrow>
     \<exists>now timeout. RequestClose session now timeout \<in> set cs"
proof (induction cs rule: rev_induct)
  case (snoc c cs)
  then show ?case
    using closing_from_request [of c "run_commands supervisor_step cs SpIdle" session deadline]
    by (cases "run_commands supervisor_step cs SpIdle = SpClosing session deadline") (auto simp: run_commands_append)
qed simp

lemma clean_close_was_requested:
  "run_commands supervisor_step cs SpIdle = SpClosed session CloseClean \<Longrightarrow>
     (\<exists>now timeout. RequestClose session now timeout \<in> set cs) \<and> ObserveExit session True \<in> set cs"
proof (induction cs rule: rev_induct)
  case (snoc c cs)
  show ?case
  proof (cases "run_commands supervisor_step cs SpIdle = SpClosed session CloseClean")
    case True
    then show ?thesis using snoc.IH by auto
  next
    case False
    then obtain deadline where d: "run_commands supervisor_step cs SpIdle = SpClosing session deadline" "c = ObserveExit session True"
      using clean_from_closing [of c "run_commands supervisor_step cs SpIdle" session] snoc.prems
      by (auto simp: run_commands_append)
    then show ?thesis using closing_was_requested [OF d(1)] by auto
  qed
qed simp

section \<open>Claims\<close>

lemma enrolled_once:
  assumes "enrollment_claim_redeem code device now c = (Inr r, c')"
  shows "\<exists>e. enrollment_claim_redeem code' device' now' c' = (Inl e, c')"
    and "code = ec_claim_code c \<and> now < ec_expires_at c"
  using assms by (auto simp: enrollment_claim_redeem_def Let_def split: option.splits if_splits)

section \<open>Properties\<close>

text \<open>
  C38: Every message of a valid session that the bridge can send as a frame is read back from the frame as
  the same message.
\<close>
theorem camouhost_frame_roundtrip:
  assumes "to_frame m = Inr frame" and "\<And>s. message_session m = Some s \<Longrightarrow> id_valid s"
  shows "frame_parse frame = Inr m"
  using assms by (rule to_frame_parses)

lemma camouhost_frame_roundtrip_witness:
  "frame_parse ''closed|session_01SAMPLE|true'' = Inr (HostClosed (TypedId (OpaqueId ''session_01SAMPLE'')) True)"
proof (rule camouhost_frame_roundtrip)
  have "length ''closed|session_01SAMPLE|true'' \<le> max_ipc_frame_length"
    by (simp add: max_ipc_frame_length_def)
  then show "to_frame (HostClosed (TypedId (OpaqueId ''session_01SAMPLE'')) True) = Inr ''closed|session_01SAMPLE|true''"
    by (simp add: to_frame_def show_bool_def)
  have "opaque_valid ''session_01SAMPLE''" by code_simp
  then show "id_valid s" if "message_session (HostClosed (TypedId (OpaqueId ''session_01SAMPLE'')) True) = Some s" for s
    using that by (auto simp: id_valid_def)
qed

text \<open>
  Once a workspace lease was released, no release under its epoch is ever accepted again, whatever the
  device and the token, after any acquisitions and releases; and a refused one changes nothing.
\<close>
theorem released_workspace_lease_is_fenced:
  assumes "workspace_release device epoch token (run_commands lock_step before workspace_lock_new) = (Inr u, s)"
  shows "\<exists>e. workspace_release device' epoch token' (run_commands lock_step after s) = (Inl e, run_commands lock_step after s)"
  using past_epoch_refuses [OF fenced.run_inv [OF release_passes_epoch [OF workspace.run_inv [OF lock_new_inv] assms]]] .

definition sample_device :: device_id where "sample_device = TypedId (OpaqueId ''device_01SAMPLE'')"

lemma released_workspace_lease_is_fenced_witness:
  "\<exists>e. fst (workspace_release sample_device 1 (WorkspaceLockToken ''a'')
       (run_commands lock_step [AcquireWorkspace sample_device (WorkspaceLockToken ''a'')] \<lparr>wk_next_epoch = 1, wk_active = None\<rparr>)) = Inl e"
proof -
  have "workspace_release sample_device 1 (WorkspaceLockToken ''a'')
      (run_commands lock_step [AcquireWorkspace sample_device (WorkspaceLockToken ''a'')] workspace_lock_new)
      = (Inr (), \<lparr>wk_next_epoch = 1, wk_active = None\<rparr>)"
    by code_simp
  from released_workspace_lease_is_fenced [OF this, of sample_device "WorkspaceLockToken ''a''"
      "[AcquireWorkspace sample_device (WorkspaceLockToken ''a'')]"]
  show ?thesis by (metis fst_conv)
qed

end
