(* ===== verification/Certification_Domain.thy ===== *)
theory Certification_Domain
  imports Ordered_Map Byte_Codec
begin

text \<open>
  \<open>crates/certification-domain/src/lib.rs\<close>: the certification of a browser by the signals observed in several
  runs, and the controller that stages, activates, confirms and rolls back releases.  SHA-256 is a parameter; a
  64-bit value of a signal is a word that is read as signed.
\<close>

datatype certification_error =
    CfInvalidName | CfInvalidTolerance | CfInvalidPolicy | CfDuplicateSignal | CfInvalidObservationSequence
  | CfEmptyObservationMatrix | CfDuplicateObservationSequence | CfUnknownSignal | CfCounterOverflow | CfInvalidContentDigest
  | CfInvalidReleaseVersion | CfContentDigestMismatch | CfStaleReleaseVersion | CfUpdateBusy | CfInvalidUpdateTransition
  | CfMissingStagedRelease | CfMissingActiveRelease | CfReleaseIdentityMismatch | CfVerificationEvidenceMismatch

fun certification_error_message :: "certification_error \<Rightarrow> string" where
  "certification_error_message CfInvalidName = ''name is invalid''"
| "certification_error_message CfInvalidTolerance = ''signal tolerance is invalid''"
| "certification_error_message CfInvalidPolicy = ''certification policy is invalid''"
| "certification_error_message CfDuplicateSignal = ''signal is duplicated''"
| "certification_error_message CfInvalidObservationSequence = ''observation sequence is invalid''"
| "certification_error_message CfEmptyObservationMatrix = ''observation matrix is empty''"
| "certification_error_message CfDuplicateObservationSequence = ''observation sequence is duplicated''"
| "certification_error_message CfUnknownSignal = ''observation contains an unknown signal''"
| "certification_error_message CfCounterOverflow = ''counter overflow''"
| "certification_error_message CfInvalidContentDigest = ''content digest is invalid''"
| "certification_error_message CfInvalidReleaseVersion = ''release version is invalid''"
| "certification_error_message CfContentDigestMismatch = ''release content digest does not match''"
| "certification_error_message CfStaleReleaseVersion = ''release version is stale''"
| "certification_error_message CfUpdateBusy = ''another update is staged or awaiting health''"
| "certification_error_message CfInvalidUpdateTransition = ''update transition is invalid''"
| "certification_error_message CfMissingStagedRelease = ''staged release is missing''"
| "certification_error_message CfMissingActiveRelease = ''active release is missing''"
| "certification_error_message CfReleaseIdentityMismatch = ''release identity does not match''"
| "certification_error_message CfVerificationEvidenceMismatch = ''signature verification evidence does not match the release''"

section \<open>Signals\<close>

definition min_name_bytes :: nat where "min_name_bytes = 3"
definition max_name_bytes :: nat where "max_name_bytes = 96"
definition matrix_schema :: string where "matrix_schema = ''profile-platform-certification-matrix-v1''"

type_synonym signal_name = string

definition signal_name_parse :: "string \<Rightarrow> certification_error + signal_name" where
  "signal_name_parse value =
     (if \<not> (min_name_bytes \<le> length value \<and> length value \<le> max_name_bytes)
         \<or> \<not> list_all (\<lambda>c. is_ascii_lowercase c \<or> is_ascii_digit c \<or> c \<in> set ''.-_'') value
      then Inl CfInvalidName else Inr value)"

datatype signal_requirement = SignalRequired | SignalOptional | SignalProhibited

fun signal_requirement_code :: "signal_requirement \<Rightarrow> u8" where
  "signal_requirement_code SignalRequired = 1"
| "signal_requirement_code SignalOptional = 2"
| "signal_requirement_code SignalProhibited = 3"

record signal_rule =
  sr_name :: signal_name
  sr_requirement :: signal_requirement
  sr_tolerance :: u64

definition signal_rule_new :: "signal_name \<Rightarrow> signal_requirement \<Rightarrow> u64 \<Rightarrow> certification_error + signal_rule" where
  "signal_rule_new name requirement tolerance =
     (if requirement = SignalProhibited \<and> tolerance \<noteq> 0 then Inl CfInvalidTolerance
      else Inr \<lparr>sr_name = name, sr_requirement = requirement, sr_tolerance = tolerance\<rparr>)"

record certification_policy =
  cp_version :: u32
  cp_rules :: "(signal_name, signal_rule) btree"

fun index_rules ::
    "signal_rule list \<Rightarrow> (signal_name, signal_rule) btree \<Rightarrow> u32 \<Rightarrow> certification_error + (signal_name, signal_rule) btree \<times> u32" where
  \<comment> \<open>the loop of \<open>new\<close>: the index and the number of required rules\<close>
  "index_rules [] indexed required_rules = Inr (indexed, required_rules)"
| "index_rules (rule # rules) indexed required_rules =
     res_bind (if sr_requirement rule = SignalRequired then res_ok_or CfCounterOverflow (checked_add required_rules 1)
               else Inr required_rules) (\<lambda>required_rules'.
     if bt_get (sr_name rule) indexed \<noteq> None then Inl CfDuplicateSignal
     else index_rules rules (bt_insert (sr_name rule) rule indexed) required_rules')"

definition certification_policy_new :: "u32 \<Rightarrow> signal_rule list \<Rightarrow> certification_error + certification_policy" where
  "certification_policy_new version rules =
     (if version = 0 \<or> rules = [] then Inl CfInvalidPolicy
      else res_bind (index_rules rules [] 0) (\<lambda>(indexed, required_rules).
        if required_rules = 0 then Inl CfInvalidPolicy else Inr \<lparr>cp_version = version, cp_rules = indexed\<rparr>))"

record observation_set =
  os_sequence :: u32
  os_values :: "(signal_name, 64 word) btree"

fun index_values :: "(signal_name \<times> 64 word) list \<Rightarrow> (signal_name, 64 word) btree \<Rightarrow> certification_error + (signal_name, 64 word) btree" where
  "index_values [] indexed = Inr indexed"
| "index_values ((name, value) # rest) indexed =
     (if bt_get name indexed \<noteq> None then Inl CfDuplicateSignal else index_values rest (bt_insert name value indexed))"

definition observation_set_new :: "u32 \<Rightarrow> (signal_name \<times> 64 word) list \<Rightarrow> certification_error + observation_set" where
  "observation_set_new sequence vals =
     (if sequence = 0 then Inl CfInvalidObservationSequence
      else res_bind (index_values vals []) (\<lambda>indexed. Inr \<lparr>os_sequence = sequence, os_values = indexed\<rparr>))"

datatype certification_outcome = Stable | Drifted | Incomplete | Prohibited

fun certification_outcome_text :: "certification_outcome \<Rightarrow> string" where
  "certification_outcome_text Stable = ''stable''"
| "certification_outcome_text Drifted = ''drifted''"
| "certification_outcome_text Incomplete = ''incomplete''"
| "certification_outcome_text Prohibited = ''prohibited''"

record certification_report =
  crp_policy_version :: u32
  crp_observation_count :: u32
  crp_evaluated_signals :: u32
  crp_drifted_signals :: u32
  crp_missing_required_signals :: u32
  crp_prohibited_signals :: u32
  crp_outcome :: certification_outcome
  crp_matrix_digest :: string

definition report_line :: "string \<Rightarrow> string \<Rightarrow> string" where
  "report_line key value = key @ ''='' @ value @ [CHR 0x0A]"

definition report_render :: "certification_report \<Rightarrow> string" where
  "report_render r =
     report_line ''schema'' ''certification-summary-v1''
     @ report_line ''policy_version'' (show_nat (unat (crp_policy_version r)))
     @ report_line ''observation_count'' (show_nat (unat (crp_observation_count r)))
     @ report_line ''evaluated_signals'' (show_nat (unat (crp_evaluated_signals r)))
     @ report_line ''drifted_signals'' (show_nat (unat (crp_drifted_signals r)))
     @ report_line ''missing_required_signals'' (show_nat (unat (crp_missing_required_signals r)))
     @ report_line ''prohibited_signals'' (show_nat (unat (crp_prohibited_signals r)))
     @ report_line ''outcome'' (certification_outcome_text (crp_outcome r))"

section \<open>Evaluation\<close>

fun check_observations :: "certification_policy \<Rightarrow> observation_set list \<Rightarrow> u32 list \<Rightarrow> certification_error + unit" where
  \<comment> \<open>the first loop; the sequences seen\<close>
  "check_observations policy [] seen = Inr ()"
| "check_observations policy (observation # rest) seen =
     (if os_sequence observation \<in> set seen then Inl CfDuplicateObservationSequence
      else if list_ex (\<lambda>(name, _). bt_get name (cp_rules policy) = None) (os_values observation) then Inl CfUnknownSignal
      else check_observations policy rest (os_sequence observation # seen))"

definition exceeds_tolerance :: "64 word list \<Rightarrow> u64 \<Rightarrow> certification_error + bool" where
  "exceeds_tolerance vals tolerance =
     (case map sint vals of
        [] \<Rightarrow> Inl CfEmptyObservationMatrix
      | v # vs \<Rightarrow>
          let delta = foldl max v vs - foldl min v vs in
          if delta < 0 then Inl CfCounterOverflow else Inr (uint tolerance < delta))"

record signal_counters =
  sc_evaluated :: u32
  sc_drifted :: u32
  sc_missing_required :: u32
  sc_prohibited :: u32

definition increment_counter :: "u32 \<Rightarrow> certification_error + u32" where
  "increment_counter n = res_ok_or CfCounterOverflow (checked_add n 1)"

definition signal_values :: "observation_set list \<Rightarrow> signal_name \<Rightarrow> 64 word list" where
  "signal_values ordered name = List.map_filter (\<lambda>observation. bt_get name (os_values observation)) ordered"

definition count_evaluated :: "64 word list \<Rightarrow> u64 \<Rightarrow> signal_counters \<Rightarrow> certification_error + signal_counters" where
  \<comment> \<open>what required and optional signals share\<close>
  "count_evaluated vals tolerance c =
     res_bind (increment_counter (sc_evaluated c)) (\<lambda>evaluated.
     res_bind (exceeds_tolerance vals tolerance) (\<lambda>exceeds.
     if exceeds then res_bind (increment_counter (sc_drifted c)) (\<lambda>drifted. Inr (c\<lparr>sc_evaluated := evaluated, sc_drifted := drifted\<rparr>))
     else Inr (c\<lparr>sc_evaluated := evaluated\<rparr>)))"

definition count_rule :: "observation_set list \<Rightarrow> signal_rule \<Rightarrow> signal_counters \<Rightarrow> certification_error + signal_counters" where
  "count_rule ordered rule c =
     (let vals = signal_values ordered (sr_name rule) in
      case sr_requirement rule of
        SignalProhibited \<Rightarrow>
          (if vals \<noteq> [] then res_bind (increment_counter (sc_prohibited c)) (\<lambda>n. Inr (c\<lparr>sc_prohibited := n\<rparr>)) else Inr c)
      | SignalRequired \<Rightarrow>
          (if length vals \<noteq> length ordered
           then res_bind (increment_counter (sc_missing_required c)) (\<lambda>n. Inr (c\<lparr>sc_missing_required := n\<rparr>))
           else count_evaluated vals (sr_tolerance rule) c)
      | SignalOptional \<Rightarrow> if vals = [] then Inr c else count_evaluated vals (sr_tolerance rule) c)"

fun count_rules :: "observation_set list \<Rightarrow> signal_rule list \<Rightarrow> signal_counters \<Rightarrow> certification_error + signal_counters" where
  "count_rules ordered [] c = Inr c"
| "count_rules ordered (rule # rules) c = res_bind (count_rule ordered rule c) (count_rules ordered rules)"

definition u32_of_length :: "nat \<Rightarrow> certification_error + u32" where
  "u32_of_length n = (if n < 2 ^ 32 then Inr (of_nat n) else Inl CfCounterOverflow)"

definition length_prefixed :: "string \<Rightarrow> certification_error + string" where
  "length_prefixed value = res_bind (u32_of_length (length value)) (\<lambda>n. Inr (be_bytes 4 n @ value))"

fun concat_results :: "('a \<Rightarrow> 'e + string) \<Rightarrow> 'a list \<Rightarrow> 'e + string" where
  "concat_results f [] = Inr []"
| "concat_results f (x # xs) = res_bind (f x) (\<lambda>a. res_bind (concat_results f xs) (\<lambda>b. Inr (a @ b)))"

definition matrix_bytes :: "certification_policy \<Rightarrow> observation_set list \<Rightarrow> certification_error + string" where
  \<comment> \<open>the bytes under the digest\<close>
  "matrix_bytes policy observations =
     res_bind (u32_of_length (length (cp_rules policy))) (\<lambda>rule_count.
     res_bind (concat_results (\<lambda>(_, rule). res_bind (length_prefixed (sr_name rule)) (\<lambda>name.
         Inr (name @ be_bytes 1 (signal_requirement_code (sr_requirement rule)) @ be_bytes 8 (sr_tolerance rule)))) (cp_rules policy)) (\<lambda>rules.
     res_bind (u32_of_length (length observations)) (\<lambda>observation_count.
     res_bind (concat_results (\<lambda>observation.
         res_bind (u32_of_length (length (os_values observation))) (\<lambda>value_count.
         res_bind (concat_results (\<lambda>(name, value). res_bind (length_prefixed name) (\<lambda>n. Inr (n @ be_bytes 8 value))) (os_values observation)) (\<lambda>vals.
         Inr (be_bytes 4 (os_sequence observation) @ be_bytes 4 value_count @ vals)))) observations) (\<lambda>rows.
     Inr (matrix_schema @ be_bytes 4 (cp_version policy) @ be_bytes 4 rule_count @ rules @ be_bytes 4 observation_count @ rows)))))"

definition evaluate_certification ::
    "(string \<Rightarrow> string) \<Rightarrow> certification_policy \<Rightarrow> observation_set list \<Rightarrow> certification_error + certification_report" where
  "evaluate_certification sha256 policy observations =
     (if observations = [] then Inl CfEmptyObservationMatrix
      else
      let ordered = sort_key os_sequence observations in
      res_bind (check_observations policy ordered []) (\<lambda>_.
      res_bind (count_rules ordered (map snd (cp_rules policy))
          \<lparr>sc_evaluated = 0, sc_drifted = 0, sc_missing_required = 0, sc_prohibited = 0\<rparr>) (\<lambda>c.
      let outcome = (if 0 < sc_prohibited c then Prohibited
                     else if 0 < sc_missing_required c then Incomplete
                     else if 0 < sc_drifted c then Drifted else Stable) in
      res_bind (u32_of_length (length ordered)) (\<lambda>observation_count.
      res_bind (matrix_bytes policy ordered) (\<lambda>bytes.
      Inr \<lparr>crp_policy_version = cp_version policy, crp_observation_count = observation_count, crp_evaluated_signals = sc_evaluated c,
           crp_drifted_signals = sc_drifted c, crp_missing_required_signals = sc_missing_required c,
           crp_prohibited_signals = sc_prohibited c, crp_outcome = outcome, crp_matrix_digest = sha256 bytes\<rparr>)))))"

section \<open>Releases\<close>

definition certification_name_parse :: "string \<Rightarrow> certification_error + string" where
  "certification_name_parse value =
     (if \<not> (min_name_bytes \<le> length value \<and> length value \<le> max_name_bytes)
         \<or> \<not> list_all (\<lambda>c. is_ascii_alphanumeric c \<or> c \<in> set ''.-_'') value
      then Inl CfInvalidName else Inr value)"

datatype release_id = ReleaseId string
datatype content_digest = ContentDigest string
datatype verification_evidence_id = VerificationEvidenceId string

definition release_id_parse :: "string \<Rightarrow> certification_error + release_id" where
  "release_id_parse value = res_bind (certification_name_parse value) (\<lambda>v. Inr (ReleaseId v))"

definition verification_evidence_id_parse :: "string \<Rightarrow> certification_error + verification_evidence_id" where
  "verification_evidence_id_parse value = res_bind (certification_name_parse value) (\<lambda>v. Inr (VerificationEvidenceId v))"

definition content_digest_new :: "string \<Rightarrow> certification_error + content_digest" where
  "content_digest_new bytes = (if list_all (\<lambda>c. byte_of c = 0) bytes then Inl CfInvalidContentDigest else Inr (ContentDigest bytes))"

record signature_evidence =
  se_verifier :: string
  se_evidence_id :: verification_evidence_id
  se_release_id :: release_id
  se_release_version :: u64
  se_content_digest :: content_digest

definition signature_evidence_new ::
    "string \<Rightarrow> verification_evidence_id \<Rightarrow> release_id \<Rightarrow> u64 \<Rightarrow> content_digest \<Rightarrow> certification_error + signature_evidence" where
  "signature_evidence_new verifier evidence_id release_id release_version digest =
     (if release_version = 0 then Inl CfInvalidReleaseVersion
      else res_bind (certification_name_parse verifier) (\<lambda>v.
        Inr \<lparr>se_verifier = v, se_evidence_id = evidence_id, se_release_id = release_id, se_release_version = release_version,
             se_content_digest = digest\<rparr>))"

definition evidence_approves :: "signature_evidence \<Rightarrow> release_id \<Rightarrow> u64 \<Rightarrow> content_digest \<Rightarrow> bool" where
  "evidence_approves e release_id version digest \<longleftrightarrow>
     se_release_id e = release_id \<and> se_release_version e = version \<and> se_content_digest e = digest"

record release_candidate =
  rc_release_id :: release_id
  rc_version :: u64
  rc_content_digest :: content_digest
  rc_verification :: signature_evidence

definition release_candidate_new ::
    "release_id \<Rightarrow> u64 \<Rightarrow> content_digest \<Rightarrow> signature_evidence \<Rightarrow> certification_error + release_candidate" where
  "release_candidate_new release_id version digest verification =
     (if version = 0 then Inl CfInvalidReleaseVersion
      else if \<not> evidence_approves verification release_id version digest then Inl CfVerificationEvidenceMismatch
      else Inr \<lparr>rc_release_id = release_id, rc_version = version, rc_content_digest = digest, rc_verification = verification\<rparr>)"

definition matches_identity :: "release_candidate \<Rightarrow> release_id \<Rightarrow> u64 \<Rightarrow> content_digest \<Rightarrow> bool" where
  "matches_identity r release_id version digest \<longleftrightarrow> rc_release_id r = release_id \<and> rc_version r = version \<and> rc_content_digest r = digest"

datatype rollback_outcome = RollbackRestored u64 | NoPreviousRelease

datatype update_state = UpdateIdle | UpdateStaged | AwaitingHealth | UpdateHealthy | UpdateRolledBack | UpdateFailed

fun update_state_text :: "update_state \<Rightarrow> string" where
  "update_state_text UpdateIdle = ''idle''"
| "update_state_text UpdateStaged = ''staged''"
| "update_state_text AwaitingHealth = ''awaiting_health''"
| "update_state_text UpdateHealthy = ''healthy''"
| "update_state_text UpdateRolledBack = ''rolled_back''"
| "update_state_text UpdateFailed = ''failed''"

record update_controller =
  uc_active :: "release_candidate option"
  uc_previous :: "release_candidate option"
  uc_staged :: "release_candidate option"
  uc_highest_seen_version :: u64
  uc_state :: update_state

definition update_controller_new :: update_controller where
  \<comment> \<open>\<open>Default\<close>\<close>
  "update_controller_new =
     \<lparr>uc_active = None, uc_previous = None, uc_staged = None, uc_highest_seen_version = 0, uc_state = UpdateIdle\<rparr>"

definition stage_release ::
    "release_candidate \<Rightarrow> content_digest \<Rightarrow> update_controller \<Rightarrow> (certification_error + unit) \<times> update_controller" where
  "stage_release candidate observed s =
     (if rc_content_digest candidate \<noteq> observed then (Inl CfContentDigestMismatch, s)
      else if rc_version candidate \<le> uc_highest_seen_version s then (Inl CfStaleReleaseVersion, s)
      else if uc_staged s \<noteq> None \<or> uc_state s = AwaitingHealth then (Inl CfUpdateBusy, s)
      else (Inr (), s\<lparr>uc_highest_seen_version := rc_version candidate, uc_staged := Some candidate, uc_state := UpdateStaged\<rparr>))"

definition activate_staged :: "update_controller \<Rightarrow> (certification_error + u64) \<times> update_controller" where
  "activate_staged s =
     (if uc_state s \<noteq> UpdateStaged then (Inl CfInvalidUpdateTransition, s)
      else case uc_staged s of
             None \<Rightarrow> (Inl CfMissingStagedRelease, s)
           | Some candidate \<Rightarrow>
               (Inr (rc_version candidate),
                s\<lparr>uc_staged := None, uc_previous := uc_active s, uc_active := Some candidate, uc_state := AwaitingHealth\<rparr>))"

definition confirm_health ::
    "release_id \<Rightarrow> u64 \<Rightarrow> content_digest \<Rightarrow> update_controller \<Rightarrow> (certification_error + unit) \<times> update_controller" where
  "confirm_health release_id version digest s =
     (if uc_state s \<noteq> AwaitingHealth then (Inl CfInvalidUpdateTransition, s)
      else case uc_active s of
             None \<Rightarrow> (Inl CfMissingActiveRelease, s)
           | Some active \<Rightarrow>
               if \<not> matches_identity active release_id version digest then (Inl CfReleaseIdentityMismatch, s)
               else (Inr (), s\<lparr>uc_state := UpdateHealthy\<rparr>))"

definition fail_health_and_rollback ::
    "release_id \<Rightarrow> u64 \<Rightarrow> content_digest \<Rightarrow> update_controller \<Rightarrow> (certification_error + rollback_outcome) \<times> update_controller" where
  "fail_health_and_rollback release_id version digest s =
     (if uc_state s \<noteq> AwaitingHealth then (Inl CfInvalidUpdateTransition, s)
      else case uc_active s of
             None \<Rightarrow> (Inl CfMissingActiveRelease, s)
           | Some active \<Rightarrow>
               if \<not> matches_identity active release_id version digest then (Inl CfReleaseIdentityMismatch, s)
               else case uc_previous s of
                      Some previous \<Rightarrow>
                        (Inr (RollbackRestored (rc_version previous)),
                         s\<lparr>uc_previous := None, uc_active := Some previous, uc_state := UpdateRolledBack\<rparr>)
                    | None \<Rightarrow> (Inr NoPreviousRelease, s\<lparr>uc_active := None, uc_state := UpdateFailed\<rparr>))"

definition active_version :: "update_controller \<Rightarrow> u64 option" where
  "active_version s = map_option rc_version (uc_active s)"

definition update_render :: "update_controller \<Rightarrow> string" where
  "update_render s =
     report_line ''schema'' ''update-summary-v1''
     @ report_line ''state'' (update_state_text (uc_state s))
     @ report_line ''active_version'' (show_nat (unat (case active_version s of None \<Rightarrow> 0 | Some v \<Rightarrow> v)))
     @ report_line ''highest_seen_version'' (show_nat (unat (uc_highest_seen_version s)))
     @ report_line ''rollback_available'' (if uc_previous s \<noteq> None then ''true'' else ''false'')"

end
