(* ===== verification/Certification_Properties.thy ===== *)
theory Certification_Properties
  imports Certification_Domain Reachability
begin

text \<open>
  The outcome of a certification in terms of the observations alone, and the releases a rollback can restore.
\<close>

section \<open>The outcome\<close>

definition observed :: "observation_set \<Rightarrow> signal_name \<Rightarrow> 64 word option" where
  "observed observation name = bt_get name (os_values observation)"

definition prohibited_seen :: "signal_rule set \<Rightarrow> observation_set set \<Rightarrow> bool" where
  "prohibited_seen rules obs \<longleftrightarrow> (\<exists>r \<in> rules. sr_requirement r = SignalProhibited \<and> (\<exists>b \<in> obs. observed b (sr_name r) \<noteq> None))"

definition required_missing :: "signal_rule set \<Rightarrow> observation_set set \<Rightarrow> bool" where
  "required_missing rules obs \<longleftrightarrow> (\<exists>r \<in> rules. sr_requirement r = SignalRequired \<and> (\<exists>b \<in> obs. observed b (sr_name r) = None))"

definition signal_drifts :: "signal_rule set \<Rightarrow> observation_set set \<Rightarrow> bool" where
  \<comment> \<open>two observations of a complete signal differ by more than its tolerance\<close>
  "signal_drifts rules obs \<longleftrightarrow> (\<exists>r \<in> rules. sr_requirement r \<noteq> SignalProhibited
     \<and> (sr_requirement r = SignalRequired \<longrightarrow> (\<forall>b \<in> obs. observed b (sr_name r) \<noteq> None))
     \<and> (\<exists>b \<in> obs. \<exists>b' \<in> obs. \<exists>v v'. observed b (sr_name r) = Some v \<and> observed b' (sr_name r) = Some v'
          \<and> uint (sr_tolerance r) < sint v - sint v'))"

definition expected_outcome :: "signal_rule set \<Rightarrow> observation_set set \<Rightarrow> certification_outcome" where
  "expected_outcome rules obs =
     (if prohibited_seen rules obs then Prohibited
      else if required_missing rules obs then Incomplete
      else if signal_drifts rules obs then Drifted else Stable)"

lemma foldl_max: "foldl max (v::int) vs \<in> set (v # vs) \<and> (\<forall>x \<in> set (v # vs). x \<le> foldl max v vs)"
proof (induction vs arbitrary: v)
  case (Cons a vs)
  have "foldl max (max v a) vs \<in> set (max v a # vs)"
    and "\<forall>x \<in> set (max v a # vs). x \<le> foldl max (max v a) vs" using Cons.IH [of "max v a"] by blast+
  moreover have "max v a \<in> {v, a}" by (simp add: max_def)
  ultimately show ?case by auto
qed simp

lemma foldl_min: "foldl min (v::int) vs \<in> set (v # vs) \<and> (\<forall>x \<in> set (v # vs). foldl min v vs \<le> x)"
proof (induction vs arbitrary: v)
  case (Cons a vs)
  have "foldl min (min v a) vs \<in> set (min v a # vs)"
    and "\<forall>x \<in> set (min v a # vs). foldl min (min v a) vs \<le> x" using Cons.IH [of "min v a"] by blast+
  moreover have "min v a \<in> {v, a}" by (simp add: min_def)
  ultimately show ?case by auto
qed simp

lemma exceeds_tolerance_iff:
  assumes "vals \<noteq> []"
  shows "exceeds_tolerance vals tolerance = Inr (\<exists>x \<in> set vals. \<exists>y \<in> set vals. uint tolerance < sint x - sint y)"
proof -
  obtain v vs where m: "map sint vals = v # vs" using assms by (cases vals) auto
  then have set: "set (v # vs) = sint ` set vals" by (metis set_map)
  let ?M = "foldl max v vs" and ?m = "foldl min v vs"
  have M: "?M \<in> sint ` set vals" "\<And>x. x \<in> set vals \<Longrightarrow> sint x \<le> ?M"
    and m': "?m \<in> sint ` set vals" "\<And>x. x \<in> set vals \<Longrightarrow> ?m \<le> sint x"
    using foldl_max [of v vs] foldl_min [of v vs] unfolding set by auto
  have "uint tolerance < ?M - ?m \<longleftrightarrow> (\<exists>x \<in> set vals. \<exists>y \<in> set vals. uint tolerance < sint x - sint y)"
  proof
    assume "\<exists>x \<in> set vals. \<exists>y \<in> set vals. uint tolerance < sint x - sint y"
    then obtain x y where "x \<in> set vals" "y \<in> set vals" "uint tolerance < sint x - sint y" by blast
    with M(2) [of x] m'(2) [of y] show "uint tolerance < ?M - ?m" by linarith
  next
    assume big: "uint tolerance < ?M - ?m"
    from M(1) m'(1) obtain x y where "x \<in> set vals" "?M = sint x" "y \<in> set vals" "?m = sint y" by (elim imageE)
    with big show "\<exists>x \<in> set vals. \<exists>y \<in> set vals. uint tolerance < sint x - sint y" by auto
  qed
  moreover have "?m \<le> ?M"
    using M m' by fastforce
  ultimately show ?thesis
    using m by (simp add: exceeds_tolerance_def Let_def)
qed

lemma set_signal_values: "v \<in> set (signal_values obs name) \<longleftrightarrow> (\<exists>b \<in> set obs. observed b name = Some v)"
  by (auto simp: signal_values_def observed_def List.map_filter_def image_iff)

lemma signal_values_empty: "signal_values obs name = [] \<longleftrightarrow> (\<forall>b \<in> set obs. observed b name = None)"
  by (induction obs) (auto simp: signal_values_def observed_def List.map_filter_def)

lemma length_signal_values: "length (signal_values obs name) \<le> length obs"
  by (simp add: signal_values_def List.map_filter_def)

lemma signal_values_complete: "length (signal_values obs name) = length obs \<longleftrightarrow> (\<forall>b \<in> set obs. observed b name \<noteq> None)"
proof (induction obs)
  case (Cons b obs)
  show ?case
  proof (cases "bt_get name (os_values b)")
    case None
    then have "signal_values (b # obs) name = signal_values obs name" by (simp add: signal_values_def List.map_filter_def)
    with None length_signal_values [of obs name] show ?thesis by (simp add: observed_def)
  next
    case (Some v)
    then have "signal_values (b # obs) name = v # signal_values obs name" by (simp add: signal_values_def List.map_filter_def)
    with Some Cons.IH show ?thesis by (simp add: observed_def)
  qed
qed (simp add: signal_values_def List.map_filter_def)

lemma increment_counter_Inr: "increment_counter n = Inr m \<Longrightarrow> 0 < m"
  unfolding increment_counter_def res_ok_or_Inr_iff using checked_add_SomeD [of n 1 m] by (simp add: word_less_nat_alt)

lemma count_evaluated_Inr:
  assumes "count_evaluated vals tolerance c = Inr c'" and "vals \<noteq> []"
  shows "sc_missing_required c' = sc_missing_required c \<and> sc_prohibited c' = sc_prohibited c
     \<and> (0 < sc_drifted c' \<longleftrightarrow> 0 < sc_drifted c \<or> (\<exists>x \<in> set vals. \<exists>y \<in> set vals. uint tolerance < sint x - sint y))"
proof (cases "\<exists>x \<in> set vals. \<exists>y \<in> set vals. uint tolerance < sint x - sint y")
  case True
  then show ?thesis using assms(1)
    by (auto simp: count_evaluated_def exceeds_tolerance_iff [OF assms(2)] ok_iff simp del: bex_simps dest: increment_counter_Inr)
next
  case False
  then show ?thesis using assms(1)
    by (auto simp: count_evaluated_def exceeds_tolerance_iff [OF assms(2)] ok_iff)
qed

lemma spread_iff:
  "(\<exists>x \<in> set (signal_values obs name). \<exists>y \<in> set (signal_values obs name). uint tolerance < sint x - sint y)
     \<longleftrightarrow> (\<exists>b \<in> set obs. \<exists>b' \<in> set obs. \<exists>v v'. observed b name = Some v \<and> observed b' name = Some v' \<and> uint tolerance < sint v - sint v')"
  unfolding set_signal_values Bex_def by blast

lemma count_rule_Inr:
  assumes "count_rule obs r c = Inr c'" and "obs \<noteq> []"
  shows "(0 < sc_prohibited c' \<longleftrightarrow> 0 < sc_prohibited c \<or> prohibited_seen {r} (set obs))
     \<and> (0 < sc_missing_required c' \<longleftrightarrow> 0 < sc_missing_required c \<or> required_missing {r} (set obs))
     \<and> (0 < sc_drifted c' \<longleftrightarrow> 0 < sc_drifted c \<or> signal_drifts {r} (set obs))"
proof (cases "sr_requirement r")
  case SignalProhibited
  then show ?thesis
    using assms(1) signal_values_empty [of obs "sr_name r"]
    by (auto simp: count_rule_def Let_def ok_iff prohibited_seen_def required_missing_def signal_drifts_def
        dest: increment_counter_Inr split: if_splits)
next
  case SignalOptional
  show ?thesis
  proof (cases "signal_values obs (sr_name r) = []")
    case True
    then show ?thesis
      using assms(1) SignalOptional signal_values_empty [of obs "sr_name r"]
      by (auto simp: count_rule_def prohibited_seen_def required_missing_def signal_drifts_def)
  next
    case False
    then have "count_evaluated (signal_values obs (sr_name r)) (sr_tolerance r) c = Inr c'"
      using assms(1) SignalOptional by (simp add: count_rule_def)
    from count_evaluated_Inr [OF this False] show ?thesis
      unfolding spread_iff using SignalOptional by (simp add: prohibited_seen_def required_missing_def signal_drifts_def)
  qed
next
  case SignalRequired
  show ?thesis
  proof (cases "length (signal_values obs (sr_name r)) = length obs")
    case True
    then have v: "signal_values obs (sr_name r) \<noteq> []" using assms(2) by auto
    have "count_evaluated (signal_values obs (sr_name r)) (sr_tolerance r) c = Inr c'"
      using assms(1) SignalRequired True by (simp add: count_rule_def)
    from count_evaluated_Inr [OF this v] show ?thesis
      unfolding spread_iff using SignalRequired signal_values_complete [of obs "sr_name r"] True
      by (auto simp: prohibited_seen_def required_missing_def signal_drifts_def)
  next
    case False
    then show ?thesis
      using assms(1) SignalRequired signal_values_complete [of obs "sr_name r"]
      by (auto simp: count_rule_def Let_def ok_iff prohibited_seen_def required_missing_def signal_drifts_def
          dest: increment_counter_Inr)
  qed
qed

lemma rules_insert:
  "prohibited_seen (insert r rs) obs \<longleftrightarrow> prohibited_seen {r} obs \<or> prohibited_seen rs obs"
  "required_missing (insert r rs) obs \<longleftrightarrow> required_missing {r} obs \<or> required_missing rs obs"
  "signal_drifts (insert r rs) obs \<longleftrightarrow> signal_drifts {r} obs \<or> signal_drifts rs obs"
  by (auto simp: prohibited_seen_def required_missing_def signal_drifts_def)

lemma rules_empty [simp]:
  "\<not> prohibited_seen {} obs" "\<not> required_missing {} obs" "\<not> signal_drifts {} obs"
  by (auto simp: prohibited_seen_def required_missing_def signal_drifts_def)

lemma count_rules_Inr:
  assumes "obs \<noteq> []"
  shows "count_rules obs rules c = Inr c' \<Longrightarrow>
       (0 < sc_prohibited c' \<longleftrightarrow> 0 < sc_prohibited c \<or> prohibited_seen (set rules) (set obs))
     \<and> (0 < sc_missing_required c' \<longleftrightarrow> 0 < sc_missing_required c \<or> required_missing (set rules) (set obs))
     \<and> (0 < sc_drifted c' \<longleftrightarrow> 0 < sc_drifted c \<or> signal_drifts (set rules) (set obs))"
proof (induction rules arbitrary: c)
  case (Cons r rules)
  then obtain c1 where "count_rule obs r c = Inr c1" "count_rules obs rules c1 = Inr c'"
    by (auto simp: ok_iff)
  with Cons.IH [of c1] count_rule_Inr [of obs r c c1] assms show ?case
    by (simp add: rules_insert [of r "set rules"])
qed simp

text \<open>
  C39: The outcome of a certification does not depend on the order of the observations or on the counters: it is
  prohibited when an observation has a prohibited signal, else incomplete when one lacks a required signal, else
  drifted when two observations of a complete required signal, or of an optional one, differ by more than the
  tolerance of the rule, and stable otherwise.
\<close>

theorem evaluated_outcome:
  assumes "evaluate_certification sha256 policy observations = Inr report"
  shows "crp_outcome report = expected_outcome (snd ` set (cp_rules policy)) (set observations)"
proof -
  let ?ordered = "sort_key os_sequence observations"
  have ne: "?ordered \<noteq> []"
    using assms by (auto simp: evaluate_certification_def dest: arg_cong [of _ "[]" set])
  obtain c where c: "count_rules ?ordered (map snd (cp_rules policy))
      \<lparr>sc_evaluated = 0, sc_drifted = 0, sc_missing_required = 0, sc_prohibited = 0\<rparr> = Inr c"
    and o: "crp_outcome report = (if 0 < sc_prohibited c then Prohibited
                     else if 0 < sc_missing_required c then Incomplete
                     else if 0 < sc_drifted c then Drifted else Stable)"
    using assms by (auto simp: evaluate_certification_def Let_def ok_iff split: if_splits)
  from count_rules_Inr [OF ne c] o show ?thesis
    by (simp add: expected_outcome_def)
qed

definition sample_certification_policy :: certification_policy where
  "sample_certification_policy = \<lparr>cp_version = 1, cp_rules = [(''canvas'', \<lparr>sr_name = ''canvas'', sr_requirement = SignalRequired, sr_tolerance = 1\<rparr>)]\<rparr>"

definition sample_observation :: "u32 \<Rightarrow> 64 word \<Rightarrow> observation_set" where
  "sample_observation sequence value = \<lparr>os_sequence = sequence, os_values = [(''canvas'', value)]\<rparr>"

lemma sample_evaluation:
  "is_ok (evaluate_certification (\<lambda>_. []) sample_certification_policy [sample_observation 1 5, sample_observation 2 9])"
proof -
  have "is_ok (matrix_bytes sample_certification_policy [sample_observation 1 5, sample_observation 2 9])"
    by (simp add: matrix_bytes_def sample_certification_policy_def sample_observation_def u32_of_length_def length_prefixed_def)
  moreover have "check_observations sample_certification_policy [sample_observation 1 5, sample_observation 2 9] [] = Inr ()"
    by (simp add: sample_certification_policy_def sample_observation_def bt_get_def)
  moreover have "sort_key os_sequence [sample_observation 1 5, sample_observation 2 9] = [sample_observation 1 5, sample_observation 2 9]"
    by (simp add: sample_observation_def word_le_nat_alt)
  moreover have "is_ok (count_rules [sample_observation 1 5, sample_observation 2 9] (map snd (cp_rules sample_certification_policy))
      \<lparr>sc_evaluated = 0, sc_drifted = 0, sc_missing_required = 0, sc_prohibited = 0\<rparr>)"
    by (simp add: sample_certification_policy_def sample_observation_def bt_get_def count_rule_def signal_values_def List.map_filter_def
        count_evaluated_def increment_counter_def checked_add_def exceeds_tolerance_def)
  ultimately show ?thesis
    by (auto simp: evaluate_certification_def Let_def is_ok_iff u32_of_length_def)
qed

theorem evaluated_outcome_witness:
  "\<exists>report. evaluate_certification (\<lambda>_. []) sample_certification_policy [sample_observation 1 5, sample_observation 2 9] = Inr report
     \<and> crp_outcome report = Drifted"
proof -
  obtain report where report: "evaluate_certification (\<lambda>_. []) sample_certification_policy [sample_observation 1 5, sample_observation 2 9] = Inr report"
    using sample_evaluation by (auto simp: is_ok_iff)
  have drifts: "signal_drifts (snd ` set (cp_rules sample_certification_policy)) {sample_observation 1 5, sample_observation 2 9}"
    by (simp add: signal_drifts_def sample_certification_policy_def sample_observation_def observed_def bt_get_def)
  from evaluated_outcome [OF report] report drifts show ?thesis
    by (simp add: expected_outcome_def prohibited_seen_def required_missing_def sample_certification_policy_def sample_observation_def observed_def bt_get_def)
qed

section \<open>Updates\<close>

datatype update_command =
    StageRelease release_candidate content_digest | ActivateStaged
  | ConfirmHealth release_id u64 content_digest | FailHealth release_id u64 content_digest

fun update_step :: "update_command \<Rightarrow> update_controller \<Rightarrow> (certification_error + unit) \<times> update_controller" where
  "update_step (StageRelease candidate digest) s = stage_release candidate digest s"
| "update_step ActivateStaged s = (case activate_staged s of (Inl e, s') \<Rightarrow> (Inl e, s') | (Inr _, s') \<Rightarrow> (Inr (), s'))"
| "update_step (ConfirmHealth release version digest) s = confirm_health release version digest s"
| "update_step (FailHealth release version digest) s =
     (case fail_health_and_rollback release version digest s of (Inl e, s') \<Rightarrow> (Inl e, s') | (Inr _, s') \<Rightarrow> (Inr (), s'))"

fun confirmed_by :: "update_command \<Rightarrow> update_controller \<Rightarrow> release_candidate set" where
  \<comment> \<open>the release whose health the command confirms\<close>
  "confirmed_by (ConfirmHealth release version digest) s =
     (if fst (confirm_health release version digest s) = Inr () then set_option (uc_active s) else {})"
| "confirmed_by _ s = {}"

fun confirmed :: "update_command list \<Rightarrow> update_controller \<Rightarrow> release_candidate set" where
  "confirmed [] s = {}"
| "confirmed (c # cs) s = confirmed_by c s \<union> confirmed cs (snd (update_step c s))"

definition update_inv :: "release_candidate set \<Rightarrow> update_controller \<Rightarrow> bool" where
  "update_inv known s \<longleftrightarrow>
     (\<forall>a. uc_active s = Some a \<longrightarrow> rc_version a \<le> uc_highest_seen_version s
        \<and> (uc_state s \<noteq> AwaitingHealth \<longrightarrow> a \<in> known)
        \<and> (\<forall>c. uc_staged s = Some c \<longrightarrow> rc_version a < rc_version c)
        \<and> (uc_state s = AwaitingHealth \<longrightarrow> (\<forall>p. uc_previous s = Some p \<longrightarrow> p \<in> known \<and> rc_version p < rc_version a)))
   \<and> (\<forall>c. uc_staged s = Some c \<longrightarrow> rc_version c \<le> uc_highest_seen_version s)"

lemma update_new_inv: "update_inv {} update_controller_new"
  by (simp add: update_inv_def update_controller_new_def)

lemma update_step_inv:
  assumes "update_inv known s"
  shows "update_inv (known \<union> confirmed_by c s) (snd (update_step c s))"
proof (cases c)
  case (StageRelease candidate digest)
  then show ?thesis using assms by (auto simp: update_inv_def stage_release_def)
next
  case ActivateStaged
  then show ?thesis using assms by (auto simp: update_inv_def activate_staged_def split: option.splits)
next
  case (ConfirmHealth release version digest)
  then show ?thesis using assms by (auto simp: update_inv_def confirm_health_def split: option.splits)
next
  case (FailHealth release version digest)
  then show ?thesis using assms by (auto simp: update_inv_def fail_health_and_rollback_def split: option.splits)
qed

lemma run_update_inv: "update_inv known s \<Longrightarrow> update_inv (known \<union> confirmed cs s) (run_commands update_step cs s)"
proof (induction cs arbitrary: known s)
  case (Cons c cs)
  from Cons.IH [OF update_step_inv [OF Cons.prems]] show ?case by (simp add: Un_assoc)
qed simp

definition seen_version :: "u64 \<Rightarrow> update_controller \<Rightarrow> bool" where
  "seen_version v s \<longleftrightarrow> v \<le> uc_highest_seen_version s"

lemma update_step_seen: "seen_version v s \<Longrightarrow> seen_version v (snd (update_step c s))"
  by (cases c)
     (auto simp: seen_version_def stage_release_def activate_staged_def confirm_health_def fail_health_and_rollback_def split: option.splits)

interpretation versions: invariant_machine update_step "seen_version v" for v
  by unfold_locales (rule update_step_seen)

text \<open>
  C40: When the health check of an active release fails, the controller either returns to a release whose own health
  had been confirmed and whose version is smaller, or it is left without an active release; whatever follows, no
  release of the failed version or an older one can be staged again.
\<close>

theorem rollback_restores_confirmed_release:
  assumes "fail_health_and_rollback release version digest (run_commands update_step cs update_controller_new) = (Inr outcome, s')"
  shows "(case outcome of
            RollbackRestored w \<Rightarrow> \<exists>r \<in> confirmed cs update_controller_new. uc_active s' = Some r \<and> rc_version r = w \<and> w < version
          | NoPreviousRelease \<Rightarrow> uc_active s' = None)
     \<and> (rc_version candidate \<le> version \<longrightarrow> fst (stage_release candidate observed' (run_commands update_step cs' s')) \<noteq> Inr ())"
proof -
  let ?s = "run_commands update_step cs update_controller_new"
  have inv: "update_inv (confirmed cs update_controller_new) ?s" using run_update_inv [OF update_new_inv] by simp
  have "seen_version version s'"
    using assms inv by (auto simp: fail_health_and_rollback_def matches_identity_def update_inv_def seen_version_def split: option.splits if_splits)
  then have "seen_version version (run_commands update_step cs' s')" by (rule versions.run_inv)
  then have "rc_version candidate \<le> version \<longrightarrow> fst (stage_release candidate observed' (run_commands update_step cs' s')) \<noteq> Inr ()"
    by (auto simp: stage_release_def seen_version_def)
  moreover have "case outcome of
            RollbackRestored w \<Rightarrow> \<exists>r \<in> confirmed cs update_controller_new. uc_active s' = Some r \<and> rc_version r = w \<and> w < version
          | NoPreviousRelease \<Rightarrow> uc_active s' = None"
    using assms inv by (auto simp: fail_health_and_rollback_def matches_identity_def update_inv_def split: option.splits if_splits)
  ultimately show ?thesis by blast
qed

definition sample_digest :: "nat \<Rightarrow> content_digest" where
  "sample_digest n = ContentDigest (char_of n # replicate 31 (CHR 0x00))"

definition sample_update_release :: "nat \<Rightarrow> release_candidate" where
  "sample_update_release n =
     \<lparr>rc_release_id = ReleaseId ''release'', rc_version = of_nat n, rc_content_digest = sample_digest n,
      rc_verification = \<lparr>se_verifier = ''verifier'', se_evidence_id = VerificationEvidenceId ''evidence'',
        se_release_id = ReleaseId ''release'', se_release_version = of_nat n, se_content_digest = sample_digest n\<rparr>\<rparr>"

definition sample_updates :: "update_command list" where
  "sample_updates =
     [StageRelease (sample_update_release 1) (sample_digest 1), ActivateStaged, ConfirmHealth (ReleaseId ''release'') 1 (sample_digest 1),
      StageRelease (sample_update_release 2) (sample_digest 2), ActivateStaged]"

lemma sample_rollback:
  "\<exists>s'. fail_health_and_rollback (ReleaseId ''release'') 2 (sample_digest 2) (run_commands update_step sample_updates update_controller_new)
     = (Inr (RollbackRestored 1), s')"
  by (simp add: sample_updates_def stage_release_def sample_update_release_def update_controller_new_def activate_staged_def
      confirm_health_def matches_identity_def fail_health_and_rollback_def word_le_nat_alt)

theorem rollback_restores_confirmed_release_witness:
  "\<exists>s'. fail_health_and_rollback (ReleaseId ''release'') 2 (sample_digest 2) (run_commands update_step sample_updates update_controller_new)
       = (Inr (RollbackRestored 1), s')
     \<and> (\<exists>r \<in> confirmed sample_updates update_controller_new. uc_active s' = Some r \<and> rc_version r = 1)
     \<and> fst (stage_release (sample_update_release 2) (sample_digest 2) (run_commands update_step [] s')) \<noteq> Inr ()"
proof -
  obtain s' where s': "fail_health_and_rollback (ReleaseId ''release'') 2 (sample_digest 2)
      (run_commands update_step sample_updates update_controller_new) = (Inr (RollbackRestored 1), s')"
    using sample_rollback by blast
  from rollback_restores_confirmed_release [OF s', of "sample_update_release 2" "sample_digest 2" "[]"] s' show ?thesis
    by (auto simp: sample_update_release_def)
qed

end
