(* ===== verification/Runtime_Bundle.thy ===== *)
theory Runtime_Bundle
  imports Ordered_Map Byte_Codec
begin

text \<open>
  \<open>crates/runtime-bundle-domain/src/lib.rs\<close>: the paths, the manifest and the inventory of a runtime bundle.  The
  inventory is looked up by binary search on the case-folded paths; the lookup is shown to be membership.
\<close>

section \<open>Paths\<close>

definition max_path_length :: nat where "max_path_length = 240"
definition max_segment_length :: nat where "max_segment_length = 80"
definition bundle_digest_hex_length :: nat where "bundle_digest_hex_length = 64"

datatype bundle_path_error =
    BpEmpty | BpTooLong | BpAbsoluteOrDrivePath | BpInvalidSeparator | BpInvalidSegment | BpReservedSegment

fun bundle_path_error_message :: "bundle_path_error \<Rightarrow> string" where
  "bundle_path_error_message BpEmpty = ''bundle path is empty''"
| "bundle_path_error_message BpTooLong = ''bundle path exceeds the bounded length''"
| "bundle_path_error_message BpAbsoluteOrDrivePath = ''bundle path must be relative and drive-free''"
| "bundle_path_error_message BpInvalidSeparator = ''bundle path must use canonical forward slashes''"
| "bundle_path_error_message BpInvalidSegment = ''bundle path contains an invalid segment''"
| "bundle_path_error_message BpReservedSegment = ''bundle path contains a Windows-reserved segment''"

definition valid_path_byte :: "char \<Rightarrow> bool" where
  "valid_path_byte c \<longleftrightarrow> is_ascii_alphanumeric c \<or> c \<in> set ''._- ,[]''"

definition to_ascii_uppercase :: "string \<Rightarrow> string" where
  "to_ascii_uppercase s = map (\<lambda>c. if is_ascii_lowercase c then char_of (byte_of c - 32) else c) s"

definition numbered_reserved :: "string \<Rightarrow> string \<Rightarrow> bool" where
  "numbered_reserved value prefix_text \<longleftrightarrow> (\<exists>d \<in> set ''123456789''. value = prefix_text @ [d])"

definition windows_reserved :: "string \<Rightarrow> bool" where
  "windows_reserved value \<longleftrightarrow>
     (let folded = to_ascii_uppercase value in
      folded \<in> {''CON'', ''PRN'', ''AUX'', ''NUL''} \<or> numbered_reserved folded ''COM'' \<or> numbered_reserved folded ''LPT'')"

definition invalid_segment :: "string \<Rightarrow> bool" where
  "invalid_segment segment \<longleftrightarrow>
     segment = [] \<or> segment = ''.'' \<or> segment = ''..'' \<or> max_segment_length < length segment
     \<or> last segment \<in> set ''. '' \<or> \<not> list_all valid_path_byte segment"

definition segment_stem :: "string \<Rightarrow> string" where
  \<comment> \<open>\<open>split_once('.')\<close>, or the whole segment\<close>
  "segment_stem segment = takeWhile (\<lambda>c. c \<noteq> CHR ''.'') segment"

fun validate_segments :: "string list \<Rightarrow> bundle_path_error + unit" where
  "validate_segments [] = Inr ()"
| "validate_segments (segment # segments) =
     (if invalid_segment segment then Inl BpInvalidSegment
      else if windows_reserved (segment_stem segment) then Inl BpReservedSegment
      else validate_segments segments)"

fun doubled_slash :: "string \<Rightarrow> bool" where
  "doubled_slash (a # b # s) \<longleftrightarrow> a = CHR ''/'' \<and> b = CHR ''/'' \<or> doubled_slash (b # s)"
| "doubled_slash _ \<longleftrightarrow> False"

definition validate_path :: "string \<Rightarrow> bundle_path_error + unit" where
  "validate_path value =
     (if value = [] then Inl BpEmpty
      else if max_path_length < length value then Inl BpTooLong
      else if hd value = CHR ''/'' \<or> CHR '':'' \<in> set value then Inl BpAbsoluteOrDrivePath
      else if CHR 0x5C \<in> set value \<or> doubled_slash value \<or> last value = CHR ''/'' then Inl BpInvalidSeparator
      else validate_segments (split_on (CHR ''/'') value))"

datatype bundle_path = BundlePath (bundle_path_text: string)

definition bundle_path_parse :: "string \<Rightarrow> bundle_path_error + bundle_path" where
  "bundle_path_parse value = res_bind (validate_path value) (\<lambda>_. Inr (BundlePath value))"

definition case_folded :: "bundle_path \<Rightarrow> string" where
  "case_folded path = to_ascii_lowercase (bundle_path_text path)"

section \<open>Manifests\<close>

datatype digest_error = DigestError

definition digest_error_message :: "digest_error \<Rightarrow> string" where
  "digest_error_message _ = ''SHA-256 digest must be 64 lowercase hexadecimal characters''"

datatype sha256_digest = Sha256Digest string

definition sha256_digest_parse :: "string \<Rightarrow> digest_error + sha256_digest" where
  "sha256_digest_parse value =
     (if length value \<noteq> bundle_digest_hex_length \<or> \<not> list_all (\<lambda>c. is_ascii_digit c \<or> c \<in> set ''abcdef'') value
      then Inl DigestError else Inr (Sha256Digest value))"

datatype runtime_platform = WindowsX86_64

definition manifest_value :: "runtime_platform \<Rightarrow> string" where
  "manifest_value _ = ''windows-x86_64''"

definition numeric_component :: "string \<Rightarrow> bool" where
  "numeric_component value \<longleftrightarrow> value \<noteq> [] \<and> length value \<le> 5 \<and> list_all is_ascii_digit value"

definition valid_version :: "string \<Rightarrow> bool" where
  "valid_version value \<longleftrightarrow> (let parts = split_on (CHR ''.'') value in length parts = 3 \<and> list_all numeric_component parts)"

definition valid_python_version :: "string \<Rightarrow> bool" where
  "valid_python_version value \<longleftrightarrow> (let parts = split_on (CHR ''.'') value in length parts = 2 \<and> list_all numeric_component parts)"

definition runtime_manifest_schema_version :: u16 where "runtime_manifest_schema_version = 1"
definition runtime_ipc_version :: u16 where "runtime_ipc_version = 1"

datatype runtime_manifest_error =
    RmInvalidRuntimeVersion | RmInvalidPythonVersion | RmInvalidEntrypoint | RmInventoryDigestMismatch

fun runtime_manifest_error_message :: "runtime_manifest_error \<Rightarrow> string" where
  "runtime_manifest_error_message RmInvalidRuntimeVersion = ''runtime version is invalid''"
| "runtime_manifest_error_message RmInvalidPythonVersion = ''Python version is invalid''"
| "runtime_manifest_error_message RmInvalidEntrypoint = ''runtime entrypoint must be a safe Python file''"
| "runtime_manifest_error_message RmInventoryDigestMismatch = ''runtime inventory digest does not match''"

record runtime_manifest =
  rm_schema_version :: u16
  rm_runtime_version :: string
  rm_python_version :: string
  rm_ipc_version :: u16
  rm_platform :: runtime_platform
  rm_entrypoint :: bundle_path
  rm_inventory_sha256 :: sha256_digest

definition ends_with :: "string \<Rightarrow> string \<Rightarrow> bool" where
  "ends_with value ending \<longleftrightarrow> length ending \<le> length value \<and> drop (length value - length ending) value = ending"

definition runtime_manifest_new ::
    "string \<Rightarrow> string \<Rightarrow> runtime_platform \<Rightarrow> bundle_path \<Rightarrow> sha256_digest \<Rightarrow> runtime_manifest_error + runtime_manifest" where
  "runtime_manifest_new runtime_version python_version platform entrypoint inventory_sha256 =
     (if \<not> valid_version runtime_version then Inl RmInvalidRuntimeVersion
      else if \<not> valid_python_version python_version then Inl RmInvalidPythonVersion
      else if \<not> ends_with (bundle_path_text entrypoint) ''.py'' then Inl RmInvalidEntrypoint
      else Inr \<lparr>rm_schema_version = runtime_manifest_schema_version, rm_runtime_version = runtime_version,
                rm_python_version = python_version, rm_ipc_version = runtime_ipc_version, rm_platform = platform,
                rm_entrypoint = entrypoint, rm_inventory_sha256 = inventory_sha256\<rparr>)"

definition validate_inventory_digest :: "runtime_manifest \<Rightarrow> sha256_digest \<Rightarrow> runtime_manifest_error + unit" where
  "validate_inventory_digest m calculated = (if rm_inventory_sha256 m \<noteq> calculated then Inl RmInventoryDigestMismatch else Inr ())"

section \<open>Inventories\<close>

record inventory_entry =
  ie_path :: bundle_path
  ie_length :: u64
  ie_sha256 :: sha256_digest

datatype inventory_error = InvEmpty | InvDuplicateOrCaseCollision | InvEntrypointMissing

fun inventory_error_message :: "inventory_error \<Rightarrow> string" where
  "inventory_error_message InvEmpty = ''runtime inventory is empty''"
| "inventory_error_message InvDuplicateOrCaseCollision = ''runtime inventory contains duplicate or case-colliding paths''"
| "inventory_error_message InvEntrypointMissing = ''runtime entrypoint is absent from inventory''"

type_synonym runtime_inventory = "inventory_entry list"

fun index_inventory ::
    "inventory_entry list \<Rightarrow> (string, inventory_entry) btree \<Rightarrow> inventory_error + (string, inventory_entry) btree" where
  \<comment> \<open>the loop of \<open>new\<close>\<close>
  "index_inventory [] by_case_folded = Inr by_case_folded"
| "index_inventory (entry # entries) by_case_folded =
     (let key = case_folded (ie_path entry) in
      if bt_get key by_case_folded \<noteq> None then Inl InvDuplicateOrCaseCollision
      else index_inventory entries (bt_insert key entry by_case_folded))"

definition runtime_inventory_new :: "inventory_entry list \<Rightarrow> inventory_error + runtime_inventory" where
  "runtime_inventory_new entries =
     res_bind (index_inventory entries []) (\<lambda>by_case_folded.
     if by_case_folded = [] then Inl InvEmpty else Inr (map snd by_case_folded))"

function inventory_search :: "runtime_inventory \<Rightarrow> string \<Rightarrow> nat \<Rightarrow> nat \<Rightarrow> bool" where
  \<comment> \<open>\<open>binary_search_by\<close> of the standard library between two indices; which element it probes first is not
    documented, and the answer on strictly sorted entries does not depend on it\<close>
  "inventory_search entries key lo hi =
     (if hi \<le> lo then False
      else let mid = lo + (hi - lo) div 2; found = case_folded (ie_path (entries ! mid)) in
           if found = key then True
           else if found < key then inventory_search entries key (Suc mid) hi
           else inventory_search entries key lo mid)"
  by pat_completeness auto
termination by (relation "measure (\<lambda>(_, _, lo, hi). hi - lo)") auto

declare inventory_search.simps [simp del]

definition inventory_contains :: "runtime_inventory \<Rightarrow> bundle_path \<Rightarrow> bool" where
  "inventory_contains entries path = inventory_search entries (case_folded path) 0 (length entries)"

definition validate_entrypoint :: "runtime_inventory \<Rightarrow> runtime_manifest \<Rightarrow> inventory_error + unit" where
  "validate_entrypoint entries m = (if \<not> inventory_contains entries (rm_entrypoint m) then Inl InvEntrypointMissing else Inr ())"

section \<open>The lookup is membership\<close>

definition inventory_ok :: "runtime_inventory \<Rightarrow> bool" where
  "inventory_ok entries \<longleftrightarrow> sorted_wrt (<) (map (\<lambda>e. case_folded (ie_path e)) entries)"

lemma index_inventory_ok:
  assumes "bt_ok m" and "\<forall>(k, e) \<in> set m. k = case_folded (ie_path e)" and "index_inventory entries m = Inr m'"
  shows "bt_ok m' \<and> (\<forall>(k, e) \<in> set m'. k = case_folded (ie_path e)) \<and> snd ` set m' = snd ` set m \<union> set entries
    \<and> length m' = length m + length entries"
  using assms
proof (induction entries m rule: index_inventory.induct)
  case (2 e es m)
  let ?k = "case_folded (ie_path e)"
  have new: "bt_get ?k m = None" and rest: "index_inventory es (bt_insert ?k e m) = Inr m'"
    using 2(4) by (auto simp: Let_def split: if_splits)
  have s: "set (bt_insert ?k e m) = insert (?k, e) (set m)" "length (bt_insert ?k e m) = Suc (length m)"
    using new by (induction m rule: bt_insert.induct [of _ ?k e]) (auto simp: bt_get_def split: if_splits)
  have "bt_ok (bt_insert ?k e m)" using 2(2) by (rule bt_ok_insert)
  from 2(1) [OF refl _ this _ rest] new 2(3) s show ?case by auto
qed auto

lemma sorted_nth_mono:
  "inventory_ok entries \<Longrightarrow> i < j \<Longrightarrow> j < length entries \<Longrightarrow> case_folded (ie_path (entries ! i)) < case_folded (ie_path (entries ! j))"
  unfolding inventory_ok_def using sorted_wrt_nth_less [of "(<)" "map (\<lambda>e. case_folded (ie_path e)) entries" i j] by simp

lemma inventory_search_iff:
  assumes "inventory_ok entries"
  shows "hi \<le> length entries \<Longrightarrow>
    inventory_search entries key lo hi \<longleftrightarrow> (\<exists>i. lo \<le> i \<and> i < hi \<and> case_folded (ie_path (entries ! i)) = key)"
proof (induction "hi - lo" arbitrary: lo hi rule: less_induct)
  case less
  let ?key = "\<lambda>i. case_folded (ie_path (entries ! i))"
  show ?case
  proof (cases "hi \<le> lo")
    case True
    then show ?thesis by (simp add: inventory_search.simps)
  next
    case False
    define mid where "mid = lo + (hi - lo) div 2"
    have step: "inventory_search entries key lo hi \<longleftrightarrow>
        (if ?key mid = key then True
         else if ?key mid < key then inventory_search entries key (Suc mid) hi else inventory_search entries key lo mid)"
      using False by (subst inventory_search.simps) (simp add: Let_def mid_def)
    have mid: "lo \<le> mid" "mid < hi" using False by (auto simp: mid_def)
    have below: "?key i < ?key mid" if "i < mid" for i
      using sorted_nth_mono [OF assms that] mid less.prems by simp
    have above: "?key mid < ?key i" if "mid < i" "i < hi" for i
      using sorted_nth_mono [OF assms that(1)] that less.prems by simp
    consider "?key mid = key" | "?key mid < key" | "key < ?key mid" by (rule linorder_cases)
    then show ?thesis
    proof cases
      case 1
      with step mid show ?thesis by metis
    next
      case 2
      then have "mid < i" if "?key i = key" for i
        using that below [of i] by (metis less_asym linorder_neqE_nat less_irrefl)
      with mid have "(\<exists>i. lo \<le> i \<and> i < hi \<and> ?key i = key) \<longleftrightarrow> (\<exists>i. Suc mid \<le> i \<and> i < hi \<and> ?key i = key)"
        by (metis Suc_leI Suc_leD le_trans)
      with 2 step less.hyps [of hi "Suc mid"] less.prems mid show ?thesis by auto
    next
      case 3
      then have "i < mid" if "?key i = key" "i < hi" for i
        using that above [of i] by (metis less_asym linorder_neqE_nat less_irrefl)
      with mid have "(\<exists>i. lo \<le> i \<and> i < hi \<and> ?key i = key) \<longleftrightarrow> (\<exists>i. lo \<le> i \<and> i < mid \<and> ?key i = key)"
        by (metis less_trans)
      with 3 step less.hyps [of mid lo] less.prems mid show ?thesis by (simp add: less_not_sym)
    qed
  qed
qed

lemma runtime_inventory_ok:
  assumes "runtime_inventory_new entries = Inr inventory"
  shows "inventory_ok inventory \<and> set inventory = set entries \<and> length inventory = length entries"
proof -
  from assms obtain m where m: "index_inventory entries [] = Inr m" "inventory = map snd m"
    by (auto simp: runtime_inventory_new_def ok_iff split: if_splits)
  from index_inventory_ok [OF _ _ m(1)]
  have ok: "bt_ok m" "\<forall>(k, e) \<in> set m. k = case_folded (ie_path e)" "snd ` set m = set entries" "length m = length entries"
    by (auto simp: bt_ok_def)
  from ok(2) have "map (\<lambda>e. case_folded (ie_path e)) inventory = map fst m" unfolding m(2) by auto
  with ok(1) have "inventory_ok inventory" by (simp only: inventory_ok_def bt_ok_def)
  with ok(3,4) m(2) show ?thesis by simp
qed

text \<open>
  The inventory built from a list of entries holds exactly those entries, no two of them with paths that differ
  only in the case of their letters, and its binary search finds a path exactly when one of the entries has that path up to case.
\<close>

theorem inventory_lookup_is_membership:
  assumes "runtime_inventory_new entries = Inr inventory"
  shows "set inventory = set entries \<and> distinct (map (\<lambda>e. case_folded (ie_path e)) entries)
    \<and> (inventory_contains inventory path \<longleftrightarrow> (\<exists>e \<in> set entries. case_folded (ie_path e) = case_folded path))"
proof -
  from runtime_inventory_ok [OF assms]
  have ok: "inventory_ok inventory" "set inventory = set entries" "length inventory = length entries" by blast+
  have "distinct (map (\<lambda>e. case_folded (ie_path e)) inventory)"
    using ok(1) unfolding inventory_ok_def by (simp add: strict_sorted_iff)
  then have "card (set (map (\<lambda>e. case_folded (ie_path e)) entries)) = length entries"
    using ok(2,3) distinct_card [of "map (\<lambda>e. case_folded (ie_path e)) inventory"] by simp
  then have "distinct (map (\<lambda>e. case_folded (ie_path e)) entries)" by (simp add: card_distinct)
  moreover have "inventory_contains inventory path \<longleftrightarrow> (\<exists>e \<in> set inventory. case_folded (ie_path e) = case_folded path)"
    unfolding inventory_contains_def inventory_search_iff [OF ok(1) order_refl] by (metis in_set_conv_nth le0)
  ultimately show ?thesis using ok(2) by simp
qed

definition sample_entries :: "inventory_entry list" where
  "sample_entries =
     [\<lparr>ie_path = BundlePath ''main.py'', ie_length = 4, ie_sha256 = Sha256Digest (replicate 64 (CHR ''a''))\<rparr>,
      \<lparr>ie_path = BundlePath ''Fonts/Arial.ttf'', ie_length = 9, ie_sha256 = Sha256Digest (replicate 64 (CHR ''b''))\<rparr>]"

theorem inventory_lookup_is_membership_witness:
  "\<exists>inventory. runtime_inventory_new sample_entries = Inr inventory \<and> inventory_contains inventory (BundlePath ''fonts/arial.TTF'')
     \<and> \<not> inventory_contains inventory (BundlePath ''other.py'')"
proof -
  have "is_ok (runtime_inventory_new sample_entries)" by code_simp
  then obtain inventory where i: "runtime_inventory_new sample_entries = Inr inventory" by (auto simp: is_ok_iff)
  have "\<exists>e \<in> set sample_entries. case_folded (ie_path e) = case_folded (BundlePath ''fonts/arial.TTF'')"
    "\<not> (\<exists>e \<in> set sample_entries. case_folded (ie_path e) = case_folded (BundlePath ''other.py''))" by code_simp+
  with i inventory_lookup_is_membership [OF i] show ?thesis by blast
qed

end
