(* ===== verification/Spec2Isabelle.thy ===== *)
theory Spec2Isabelle
  imports Coordinator_Object_Properties Device_Job_Properties Cloud_Repository_Properties Domain_Properties Device_Pairing_Properties
    Mailbox_Properties Notification_Properties Launch_Lease Capability_Policy Bridge_Properties
    Certification_Properties Runtime_Bundle
begin

text \<open>
  Verification of the core of a multi-tenant control plane for browser profiles: who may write a profile and
  how its encrypted data is stored, who may see and change the objects of a tenant, how mailboxes are
  synchronised, and how events leave the system.

  \<^bold>\<open>The program.\<close>  A tenant's browser profiles are edited by one writer at a time.  The writer is
  elected by the \<^emph>\<open>profile coordinator\<close>, one state machine per profile: an actor gets a launch
  intent for a device, the device claims it and receives a fenced lease (epoch and fencing
  token), keeps it alive by heartbeats, and releases it as clean, dirty or uncertain; deadlines
  end what nobody ends.  The coordinator lives in a \<^emph>\<open>durable object\<close> that stores a \<^emph>\<open>document\<close>
  (checkpoint and journal of commands) and replays it for every command.  A new \<^emph>\<open>generation\<close> of
  the profile's data is sealed in an encrypted container, put in a repository whose pointer names the
  current generation, and committed to the catalogue database D1 through the object, which first checks the
  writer's authority and closes a \<^emph>\<open>gate\<close> until D1 has answered.  Devices are paired with the tenant and
  sign what they send; background work on them is described by \<^emph>\<open>device jobs\<close>, each with a bounded number of
  fenced and expiring claims.  Memberships, grants, clients and their assignment to profiles decide who sees
  what.  Commands are \<^emph>\<open>governed\<close>: one database batch carries the change, the receipt that makes a repetition
  a replay, the audit row and an outbox row.  A \<^emph>\<open>dispatcher\<close> moves outbox rows to a queue, and a consumer
  takes each event once, with retries and dead letters.

  \<^bold>\<open>Theories and sources\<close> (paths under \<^verbatim>\<open>src/\<close>).

  Shared:
  \<^item> \<open>Prelude\<close>: results, checked arithmetic, ASCII bytes, and the contracts as locales:
    \<open>invariant_machine\<close>, \<open>atomic_machine\<close>, \<open>versioned_machine\<close>, \<open>simulated_machine\<close>.
    \<open>Reachability\<close>: the runs of a partial operation and what they keep.  \<open>Utf8_Text\<close>: trimming and
    characters of text; \<open>Byte_Codec\<close>: framed byte strings; \<open>Ordered_Map\<close>: maps in key order.
  \<^item> \<open>Primitives\<close>: \<^verbatim>\<open>crates/primitives/src/lib.rs\<close>, identifiers, fingerprints, versions.

  The writer of a profile:
  \<^item> \<open>Coordinator\<close>: \<^verbatim>\<open>crates/session-domain/src/coordinator.rs\<close>; \<open>coordinator_state\<close> is
    \<^verbatim>\<open>ProfileCoordinatorState\<close>, \<open>coordinator_apply\<close> is its \<^verbatim>\<open>apply\<close>, and every private transition
    has a definition with its name.  \<open>Coordinator_Safety\<close> has the invariant and the atomicity of
    errors (interpretation \<open>coord\<close>), \<open>Coordinator_Progress\<close> checkpoints and fencing,
    \<open>Coordinator_Replay\<close> the idempotency window and the replay of a history's suffix,
    \<open>Coordinator_History\<close> what runs of commands can do.
  \<^item> \<open>Coordinator_Document\<close>: \<^verbatim>\<open>crates/cloudflare-adapters/src/profile_coordinator.rs\<close>;
    \<open>document_apply\<close> is \<^verbatim>\<open>StoredCoordinatorDocument::apply\<close>.  \<open>Document_Refinement\<close> shows that it
    simulates \<open>supervised_apply\<close>, a coordinator that remembers its last claimant
    (interpretation \<open>docs\<close>); \<open>Document_Recovery\<close> treats recovery (interpretation \<open>supervised\<close>)
    and the alarm.
  \<^item> \<open>Generation_Commit\<close>: the commit messages of \<^verbatim>\<open>crates/application-ports\<close> and their internal
    forms in \<^verbatim>\<open>crates/cloudflare-adapters\<close>; \<open>Generation_Commit_Codec\<close> has their round trips and
    the injectivity of the byte string under the authority digest.
  \<^item> \<open>Coordinator_Object\<close>: \<^verbatim>\<open>apps/control-plane-worker/src/profile_coordinator.rs\<close>;
    \<open>coordinator_object\<close> is the object's storage, \<open>object_fetch\<close> dispatches the routes and the
    alarm; \<open>fire_alarm\<close> is its delivery by the platform, which clears the alarm before the handler
    \<open>object_alarm\<close> runs and repeats it when the handler fails.  \<open>Coordinator_Object_Safety\<close> has the invariant over all events (interpretation
    \<open>object\<close>), \<open>Coordinator_Object_Progress\<close> the alarm's effect.

  \<^item> \<open>Launch_Lease\<close>: \<^verbatim>\<open>crates/session-domain/src/lib.rs\<close>, the launch intents and leases beside the coordinator.

  The data of a profile:
  \<^item> \<open>Generation_Container\<close>, \<open>Generation_Codec\<close>, \<open>Generation_Records\<close>, \<open>Generation_Sealing\<close>,
    \<open>Generation_Streaming\<close>, \<open>Streaming_Sealing\<close>, \<open>Streaming_Opening\<close>, \<open>Generation_Reader\<close>, \<open>Reader_Laws\<close>:
    \<^verbatim>\<open>crates/encrypted-generation-domain/src/{container,lib}.rs\<close>, metadata, record framing, and sealing and
    opening in memory, over sources and sinks that may fail anywhere, and over arbitrary readers.  A
    \<open>byte_source\<close> is a reader with finitely many bytes and then its end or an error; \<open>Generation_Reader\<close> has
    the functions over any reader, endless and interrupted ones included, \<open>Reader_Laws\<close> that they return
    (locale \<open>byte_reader\<close>) and that on a \<open>byte_source\<close> they are the functions of \<open>Generation_Streaming\<close>.
  \<^item> \<open>Cloud_Repository\<close>: \<^verbatim>\<open>lifecycle.rs\<close> and \<^verbatim>\<open>key_derivation.rs\<close> of the same crate: publication,
    restore, pointer, rollback, orphans; \<open>Cloud_Repository_Safety\<close> has its invariant.

  Devices:
  \<^item> \<open>Device_Job\<close>: \<^verbatim>\<open>crates/device-domain/src/{id,target,claim,job}.rs\<close>; \<open>device_job_step\<close>
    collects the methods of \<^verbatim>\<open>DeviceJob\<close>.  \<open>Device_Job_Safety\<close> has the transition relation
    \<open>job_move\<close>, the invariant and the version law (interpretation \<open>job\<close>).
  \<^item> \<open>Device_Pairing\<close>: \<^verbatim>\<open>pairing.rs\<close>, \<^verbatim>\<open>authorization.rs\<close>, \<^verbatim>\<open>bridge_request_proof.rs\<close> of the same crate.

  \<^item> \<open>Bridge_Domain\<close>: \<^verbatim>\<open>crates/bridge-domain\<close>, the desktop side: enrolment claims, the lock of the workspace
    (interpretations \<open>workspace\<close> and \<open>fenced\<close>), the supervisor of the browser process, the frames of the browser host.
  \<^item> \<open>Certification_Domain\<close>: \<^verbatim>\<open>crates/certification-domain\<close>, the certification of a browser by observed
    signals, and the controller that stages, activates and rolls back releases (interpretation \<open>versions\<close>).
    \<open>Runtime_Bundle\<close>: \<^verbatim>\<open>crates/runtime-bundle-domain\<close>, paths, manifest and inventory of the browser's runtime.

  Tenants:
  \<^item> \<open>Identity_Access\<close>, \<open>Tenant_Directory\<close>: \<^verbatim>\<open>crates/identity-access-domain\<close>, memberships, grants,
    invitations; \<open>Identity_Acl\<close>: the queries of \<^verbatim>\<open>crates/use-cases/src/identity_acl.rs\<close>;
    \<open>Profile_Registry\<close>: \<^verbatim>\<open>crates/profile-domain\<close>; \<open>Client_Domain\<close>, \<open>Contact_Point\<close>:
    \<^verbatim>\<open>crates/client-domain\<close>.
  \<^item> \<open>Sha256\<close>, \<open>Capability_Policy\<close>: \<^verbatim>\<open>crates/capability-policy\<close>, which parts of the system an environment runs;
    this crate writes its SHA-256 out, so here it is defined and not a parameter.

  Mailboxes:
  \<^item> \<open>D1_Evidence\<close>, \<open>Governed_Command\<close>: \<^verbatim>\<open>crates/application-ports/src/commands.rs\<close> and
    \<^verbatim>\<open>crates/cloudflare-adapters/src/{d1_idempotency,d1_command_identity}.rs\<close>, the batch of a governed
    command and the decision whether a command is a replay.
  \<^item> \<open>Mailbox_Domain\<close>: \<^verbatim>\<open>crates/mailbox-domain\<close>; \<open>Mailbox_Store\<close>: the tables with the validations and
    updates of the triggers of migration 0025 and \<^verbatim>\<open>cloudflare-adapters/src/d1_mailboxes.rs\<close>;
    \<open>Mailbox_Runs\<close>, \<open>Mailbox_Bindings\<close>: \<^verbatim>\<open>crates/use-cases-mailboxes/src/{mailbox_jobs,mailboxes}.rs\<close> over
    their ports.  \<open>Mailbox_Run_Laws\<close>, \<open>Mailbox_Run_Refinement\<close>, \<open>Mailbox_Job_Rows\<close> and
    \<open>Mailbox_Binding_Laws\<close> relate stored rows to the domain, \<open>Mailbox_History\<close> has the invariant over all
    sequences of writes.

  Events:
  \<^item> \<open>Integration_Events\<close>: \<^verbatim>\<open>crates/contracts/src/{integration_events,integration_event_registry}.rs\<close>, the queue
    message and the outbox rows of \<^verbatim>\<open>crates/cloudflare-adapters\<close>, the dispatcher of
    \<^verbatim>\<open>crates/use-cases-notifications/src/integration_events.rs\<close>; \<open>Outbox_Laws\<close>: what a dispatch leaves.
  \<^item> \<open>Notification_Domain\<close>: \<^verbatim>\<open>crates/notification-domain\<close> and \<^verbatim>\<open>use-cases-notifications/src/retry.rs\<close>;
    \<open>Notification_Delivery\<close>: the consumer, the delivery use case \<^verbatim>\<open>delivery.rs\<close> and its database
    adapter \<^verbatim>\<open>d1_notifications.rs\<close> with migrations 0012 and 0013; \<open>Delivery_Laws\<close>: the retry delay;
    \<open>Delivery_Store\<close>: the locale \<open>delivery_store\<close>, what the use case needs of a store, and its
    interpretation \<open>d1_store\<close>.

  The theories named \<open>*_Properties\<close> hold the properties, numbered C1, C2 and so on, with samples and
  witnesses.

  \<^bold>\<open>What is shown.\<close>
  \<^item> Writers: the stored document implements the coordinator, compaction included; a writer
    or a job claim that lost its lease is locked out for good; a commit needs a lease that is
    live in exactly the stored state; the gate keeps that state fixed until D1 has answered; an
    uncertain workspace goes back to its last writer; accepted commands are idempotent within
    the receipt window; alarms are exact and do their work; a job that reports a busy profile on its last
    attempt is stranded.
  \<^item> Generations: what is sealed opens to the same bytes; the streaming functions return on every reader and
    sink within a bound on the bytes they read, and agree with the functions in memory; a published generation stays restorable, no nonce prefix
    is used twice, and the pointer names generations that restore to what was published.
  \<^item> Tenants: one active owner at all times, no influence of foreign rows on a query, verified
    active generations, merges without cycles; a pairing yields one credential, and
    a signed message determines every field.
  \<^item> Mailboxes: a run stores the job the domain computes, repeating it answers from the receipt, every row any
    sequence of writes leaves is readable, a run that happened was allowed and is in audit and outbox.
  \<^item> Events: no published row is missing in the queue, a successful dispatch drains its batch, a message reads
    back as its event, a consumer takes an event at most once under any interleaving, the guarded update is
    a compare-and-swap, and a failure is scheduled within bounds unless the time overflows; and one
    pending row of an unregistered type blocks all later events.
  \<^item> Policy and bridge: admission is its table and never fails for a fault of the catalogue; frames read
    back; a released workspace lease is fenced, a rollback returns to a release whose health was confirmed, an enrolment claim and a launch intent are used once, and a clean
    close was requested.

  \<^bold>\<open>Conventions and bounds.\<close>  Machine integers are words of their width and arithmetic is checked
  where the code checks it; integer columns of the database are unbounded integers, with the 64-bit
  limit where values enter it.  A method returns its result and the state it leaves, on every
  path.  Most loops run over lists and the doubling of a retry delay over its rounds; the
  streaming loops are partial functions whose value \<open>None\<close> is not returning, so no fuel is chosen anywhere.  The receipt window is 32, the
  journal is compacted at 64 and keeps the last 32 commands, a dispatch takes at most 100 rows, as in the
  source.  Strings are byte lists.

  \<^bold>\<open>Parameters.\<close>  The SHA-256 and the cipher of the containers and digests elsewhere are third-party code: functions given to the
  definitions, with their documented behaviour as hypothesis where a property needs it.  The provider of a
  mailbox, the acceptance of a message by the queue, the verdict on a signature and the clock are arguments.

  \<^bold>\<open>Simplifications.\<close>  A handler of the coordinator object, a call of an adapter and a dispatch are single steps:
  what they await in between is an argument, and overlapping dispatches or requests to one object are not
  represented.  An alarm that fails stays set; that the platform gives up after several attempts is not
  modelled.  The batch of a governed command checks the primary keys of its audit and outbox rows, not the
  column checks of these tables, which the values of the code meet.  The length of a text column is taken in bytes
  where SQLite counts characters; the code bounds the bytes before.  Pending rows that agree in time and event id, which only rows of
  two tenants can, keep their order of insertion where SQL leaves it open.  The directory of clients is keyed by the client id alone.
  The replay of a delivery is allowed whenever the row is a dead letter of the named attempts, which is more than the trigger of
  migration 0013 allows, and the retention of delivered rows is no step of a history.

  \<^bold>\<open>Not modelled.\<close>  The text encodings by serde and the HTTP layer with the routes of the worker; failures of the object's own
  storage; the SQL of the adapters beyond the tables named above, which repeats their pattern for
  other aggregates; the use cases of onboarding and mail, of replays, catch-up and retention of notifications; the
  browser execution domain,
  which is a separate crate without influence on what is modelled; the desktop bridge application, the secret resolver
  and the installers, which are input and output of the operating system and of third-party services.
\<close>

end
